(* ===== verification/Prelude.thy ===== *)
theory Prelude
  imports Main
begin

text \<open>
  Generic facts and the proof collections the component theories share.

  \<^item> \<open>step_defs\<close> collects the unfolding rules of the handlers of the state machines, so a
    preservation proof reads \<open>auto simp: step_defs\<close>;
  \<^item> \<open>frame\<close> collects the facts that an operation leaves a field alone;
  \<^item> the list, option and map lemmas below carry no knowledge of the program.
\<close>

named_theorems step_defs "unfolding rules of the operations of a component"
named_theorems frame "fields and parts an operation leaves unchanged"

subsection \<open>Lists\<close>

lemma find_map_cong:
  "(\<And>x. x \<in> set xs \<Longrightarrow> P (f x) = P x) \<Longrightarrow> find P (map f xs) = map_option f (find P xs)"
  by (induction xs) auto

lemma find_SomeD: "find P xs = Some x \<Longrightarrow> x \<in> set xs \<and> P x"
  by (induction xs) (auto split: if_splits)

lemma find_Some_intro: "x \<in> set xs \<Longrightarrow> P x \<Longrightarrow> \<exists>y. find P xs = Some y"
  by (induction xs) auto

lemma takeWhile_dropWhile_all: "list_all P (takeWhile P xs)"
  by (induction xs) auto

lemma distinct_map_update:
  "i < length xs \<Longrightarrow> f (xs ! i) = f y \<Longrightarrow> map f (xs[i := y]) = map f xs"
  by (metis list_update_id map_update)

lemma filter_length_le_iff: "length (filter P xs) = length xs \<longleftrightarrow> list_all P xs"
  by (induction xs) (auto, metis Suc_n_not_le_n length_filter_le)

lemma count_filter_bound: "length (filter P xs) \<le> length xs"
  by (rule length_filter_le)

subsection \<open>Association lists as maps\<close>

text \<open>The object a sequence of assignments builds: a later one replaces an earlier one.\<close>

definition assign_all :: "('k \<times> 'v) list \<Rightarrow> 'k \<Rightarrow> 'v option" where
  "assign_all kvs = foldl (\<lambda>m (k, v). m(k \<mapsto> v)) Map.empty kvs"

lemma foldl_assign:
  "foldl (\<lambda>m (k, v). m(k \<mapsto> v)) m kvs = m ++ map_of (rev kvs)"
  by (induction kvs arbitrary: m) (auto simp: fun_eq_iff map_add_def split: option.splits)

lemma assign_all_map_of: "assign_all kvs = map_of (rev kvs)"
  by (simp add: assign_all_def foldl_assign)

lemma assign_all_in_set: "assign_all kvs k = Some v \<Longrightarrow> (k, v) \<in> set kvs"
  by (auto simp: assign_all_map_of dest: map_of_SomeD)

lemma assign_all_append:
  "assign_all (xs @ ys) k = (case assign_all ys k of None \<Rightarrow> assign_all xs k | Some v \<Rightarrow> Some v)"
  by (simp add: assign_all_map_of map_add_def split: option.splits)

lemma assign_all_distinct:
  "distinct (map fst kvs) \<Longrightarrow> (k, v) \<in> set kvs \<Longrightarrow> assign_all kvs k = Some v"
  by (simp add: assign_all_map_of rev_map [symmetric])

text \<open>The same lookup in one walk over the list, for evaluation.\<close>

fun last_value :: "'k \<Rightarrow> ('k \<times> 'v) list \<Rightarrow> 'v option \<Rightarrow> 'v option" where
  "last_value k [] acc = acc"
| "last_value k ((k', v) # kvs) acc = last_value k kvs (if k' = k then Some v else acc)"

lemma last_value_map_of:
  "last_value k kvs acc = (case map_of (rev kvs) k of None \<Rightarrow> acc | Some v \<Rightarrow> Some v)"
  by (induction k kvs acc rule: last_value.induct) (auto simp: map_add_def split: option.splits)

lemma assign_all_last_value: "assign_all kvs k = last_value k kvs None"
  by (simp add: assign_all_map_of last_value_map_of split: option.splits)

subsection \<open>Options\<close>

lemma option_bind_Some_iff: "Option.bind x f = Some y \<longleftrightarrow> (\<exists>z. x = Some z \<and> f z = Some y)"
  by (cases x) auto

end
