(* ===== verification/JsRegex.thy ===== *)
theory JsRegex
  imports Prelude
begin

text \<open>
  The regular expressions of the browser code, as ECMAScript runs them: a backtracking
  matcher whose outcomes are listed in priority order (the first is the one the engine
  takes), \<open>RegExp.test\<close>, \<open>String.replace\<close> with a global or a non-global expression, and
  the \<open>$n\<close> substitution of its replacement text. Text is a list of Unicode code points: all
  expressions of the source carry the \<open>u\<close> flag, so their atoms read code points and not the
  16-bit units of the string.
\<close>

type_synonym cp = int
type_synonym jstr = "cp list"

definition asc :: "string \<Rightarrow> jstr" where
  "asc s = map of_char s"

subsection \<open>Character classes\<close>

definition is_digit :: "cp \<Rightarrow> bool" where
  "is_digit c \<longleftrightarrow> 48 \<le> c \<and> c \<le> 57"

text \<open>The class \<open>\<^verbatim>\<open>\s\<close>\<close>, which is also what \<open>String.trim\<close> removes.\<close>

definition is_space :: "cp \<Rightarrow> bool" where
  "is_space c \<longleftrightarrow> (9 \<le> c \<and> c \<le> 13) \<or> c = 32 \<or> c = 160 \<or> c = 5760 \<or> (8192 \<le> c \<and> c \<le> 8202)
     \<or> c = 8232 \<or> c = 8233 \<or> c = 8239 \<or> c = 8287 \<or> c = 12288 \<or> c = 65279"

definition is_line_end :: "cp \<Rightarrow> bool" where
  "is_line_end c \<longleftrightarrow> c = 10 \<or> c = 13 \<or> c = 8232 \<or> c = 8233"

subsection \<open>Expressions and the matcher\<close>

datatype rx =
    REps
  | RChr cp
  | RDot                 \<comment> \<open>any code point but a line terminator\<close>
  | RAny                 \<comment> \<open>the dot under the s flag\<close>
  | RDigit
  | RSpace
  | RBol
  | REol
  | RSeq rx rx
  | RAlt rx rx
  | ROpt bool rx         \<comment> \<open>\<open>r?\<close>, greedy or lazy\<close>
  | RStar bool rx        \<comment> \<open>\<open>r*\<close>, greedy or lazy\<close>
  | RGrp nat rx          \<comment> \<open>capturing group with its number\<close>

record mst =
  at :: nat
  left :: jstr
  caps :: "(nat \<times> jstr) list"

definition start_at :: "nat \<Rightarrow> jstr \<Rightarrow> mst" where
  "start_at i s = \<lparr>at = i, left = s, caps = []\<rparr>"

definition eat :: "(cp \<Rightarrow> bool) \<Rightarrow> mst \<Rightarrow> mst list" where
  "eat P s = (case left s of [] \<Rightarrow> []
     | c # cs \<Rightarrow> if P c then [s\<lparr>at := Suc (at s), left := cs\<rparr>] else [])"

text \<open>
  The repeat of a quantifier: an iteration that consumes nothing is refused, so the number of
  code points left bounds the iterations. The body's outcomes come in priority order.
\<close>

fun rep :: "bool \<Rightarrow> (mst \<Rightarrow> mst list) \<Rightarrow> nat \<Rightarrow> mst \<Rightarrow> mst list" where
  "rep g f 0 s = [s]"
| "rep g f (Suc n) s =
     (let more = concat (map (rep g f n) (filter (\<lambda>t. length (left t) < length (left s)) (f s)))
      in if g then more @ [s] else s # more)"

fun outcomes :: "rx \<Rightarrow> mst \<Rightarrow> mst list" where
  "outcomes REps s = [s]"
| "outcomes (RChr c) s = eat (\<lambda>x. x = c) s"
| "outcomes RDot s = eat (\<lambda>x. \<not> is_line_end x) s"
| "outcomes RAny s = eat (\<lambda>x. True) s"
| "outcomes RDigit s = eat is_digit s"
| "outcomes RSpace s = eat is_space s"
| "outcomes RBol s = (if at s = 0 then [s] else [])"
| "outcomes REol s = (if left s = [] then [s] else [])"
| "outcomes (RSeq a b) s = concat (map (outcomes b) (outcomes a s))"
| "outcomes (RAlt a b) s = outcomes a s @ outcomes b s"
| "outcomes (ROpt g r) s =
     (let once = filter (\<lambda>t. length (left t) < length (left s)) (outcomes r s)
      in if g then once @ [s] else s # once)"
| "outcomes (RStar g r) s = rep g (outcomes r) (length (left s)) s"
| "outcomes (RGrp i r) s =
     map (\<lambda>t. t\<lparr>caps := (i, take (length (left s) - length (left t)) (left s)) # caps t\<rparr>)
         (outcomes r s)"

definition RPlus :: "bool \<Rightarrow> rx \<Rightarrow> rx" where
  "RPlus g r = RSeq r (RStar g r)"

fun rseq :: "rx list \<Rightarrow> rx" where
  "rseq [] = REps"
| "rseq [r] = r"
| "rseq (r # rs) = RSeq r (rseq rs)"

definition rlit :: "jstr \<Rightarrow> rx" where
  "rlit s = rseq (map RChr s)"

text \<open>\<open>RegExp.exec\<close>: the leftmost start with an outcome, and its first outcome.\<close>

fun exec_from :: "rx \<Rightarrow> nat \<Rightarrow> jstr \<Rightarrow> (nat \<times> mst) option" where
  "exec_from r i [] = (case outcomes r (start_at i []) of [] \<Rightarrow> None | t # _ \<Rightarrow> Some (i, t))"
| "exec_from r i (c # cs) = (case outcomes r (start_at i (c # cs)) of
       [] \<Rightarrow> exec_from r (Suc i) cs | t # _ \<Rightarrow> Some (i, t))"

definition rx_exec :: "rx \<Rightarrow> jstr \<Rightarrow> (nat \<times> mst) option" where
  "rx_exec r s = exec_from r 0 s"

definition rx_test :: "rx \<Rightarrow> jstr \<Rightarrow> bool" where
  "rx_test r s \<longleftrightarrow> rx_exec r s \<noteq> None"

fun ngroups :: "rx \<Rightarrow> nat" where
  "ngroups (RSeq a b) = max (ngroups a) (ngroups b)"
| "ngroups (RAlt a b) = max (ngroups a) (ngroups b)"
| "ngroups (ROpt g r) = ngroups r"
| "ngroups (RStar g r) = ngroups r"
| "ngroups (RGrp i r) = max i (ngroups r)"
| "ngroups _ = 0"

subsection \<open>Replacement text\<close>

definition cap_text :: "(nat \<times> jstr) list \<Rightarrow> nat \<Rightarrow> jstr" where
  "cap_text cs i = (case map_of cs i of None \<Rightarrow> [] | Some t \<Rightarrow> t)"

definition digit_of :: "cp \<Rightarrow> nat" where
  "digit_of c = nat (c - 48)"

text \<open>
  The substitution of a replacement text: \<open>$$\<close>, \<open>$&\<close>, the text before and after the match, and
  \<open>$n\<close> or \<open>$nn\<close> when the expression has that many groups. Anything else stands for itself.
\<close>

function expand :: "nat \<Rightarrow> (nat \<times> jstr) list \<Rightarrow> jstr \<Rightarrow> jstr \<Rightarrow> jstr \<Rightarrow> jstr \<Rightarrow> jstr" where
  "expand m cs pre hit post [] = []"
| "expand m cs pre hit post [c] = [c]"
| "expand m cs pre hit post (c # d # ts) =
     (if c \<noteq> 36 then c # expand m cs pre hit post (d # ts)
      else if d = 36 then 36 # expand m cs pre hit post ts
      else if d = 38 then hit @ expand m cs pre hit post ts
      else if d = 96 then pre @ expand m cs pre hit post ts
      else if d = 39 then post @ expand m cs pre hit post ts
      else if is_digit d then
        (case ts of
           e # us \<Rightarrow>
             if is_digit e \<and> 1 \<le> 10 * digit_of d + digit_of e \<and> 10 * digit_of d + digit_of e \<le> m
             then cap_text cs (10 * digit_of d + digit_of e) @ expand m cs pre hit post us
             else if 1 \<le> digit_of d \<and> digit_of d \<le> m
             then cap_text cs (digit_of d) @ expand m cs pre hit post ts
             else c # expand m cs pre hit post (d # ts)
         | [] \<Rightarrow>
             if 1 \<le> digit_of d \<and> digit_of d \<le> m then cap_text cs (digit_of d) else [c, d])
      else c # expand m cs pre hit post (d # ts))"
  by pat_completeness auto
termination
  by (relation "measure (\<lambda>(m, cs, pre, hit, post, t). length t)") auto

text \<open>\<open>String.replace\<close> with a non-global expression.\<close>

definition replace_first :: "rx \<Rightarrow> jstr \<Rightarrow> jstr \<Rightarrow> jstr" where
  "replace_first r tpl s = (case rx_exec r s of None \<Rightarrow> s
     | Some (i, t) \<Rightarrow>
         take i s @
         expand (ngroups r) (caps t) (take i s)
           (take (length s - i - length (left t)) (drop i s)) (left t) tpl @
         left t)"

text \<open>
  \<open>String.replace\<close> with a global expression, scanning from position \<open>i\<close>; after an empty match
  the scan moves on by one code point.
\<close>

function replace_all :: "rx \<Rightarrow> jstr \<Rightarrow> jstr \<Rightarrow> nat \<Rightarrow> jstr \<Rightarrow> jstr" where
  "replace_all r tpl before i s =
     (case outcomes r (start_at i s) of
        [] \<Rightarrow> (case s of [] \<Rightarrow> [] | c # cs \<Rightarrow> c # replace_all r tpl (before @ [c]) (Suc i) cs)
      | t # _ \<Rightarrow>
          (let hit = take (length s - length (left t)) s;
               new = expand (ngroups r) (caps t) before hit (left t) tpl
           in if length (left t) < length s
              then new @ replace_all r tpl (before @ hit) (at t) (left t)
              else new @ (case s of [] \<Rightarrow> []
                            | c # cs \<Rightarrow> c # replace_all r tpl (before @ [c]) (Suc i) cs)))"
  by pat_completeness auto
termination
  by (relation "measure (\<lambda>(r, tpl, b, i, s). length s)") (auto split: list.splits)

declare replace_all.simps [simp del]

definition rx_replace_all :: "rx \<Rightarrow> jstr \<Rightarrow> jstr \<Rightarrow> jstr" where
  "rx_replace_all r tpl s = replace_all r tpl [] 0 s"

definition js_trim :: "jstr \<Rightarrow> jstr" where
  "js_trim s = rev (dropWhile is_space (rev (dropWhile is_space s)))"

text \<open>An expression of the shape \<open>/^...$/\<close>.\<close>

definition rx_line :: "rx list \<Rightarrow> rx" where
  "rx_line rs = RSeq RBol (RSeq (rseq rs) REol)"

subsection \<open>What an outcome is\<close>

definition adv :: "nat \<Rightarrow> mst \<Rightarrow> mst" where
  "adv k s = s\<lparr>at := at s + k, left := drop k (left s)\<rparr>"

lemma adv_simps [simp]: "at (adv k s) = at s + k" "left (adv k s) = drop k (left s)"
    "caps (adv k s) = caps s" "adv 0 s = s"
  by (simp_all add: adv_def)

lemma adv_adv [simp]: "adv j (adv k s) = adv (k + j) s"
  by (simp add: adv_def add.commute add.left_commute)

lemma start_at_simps [simp]: "at (start_at i s) = i" "left (start_at i s) = s"
    "caps (start_at i s) = []"
  by (simp_all add: start_at_def)

lemma outcomes_class:
  "outcomes RSpace = eat is_space" "outcomes RDigit = eat is_digit"
  "outcomes RAny = eat (\<lambda>x. True)" "outcomes RDot = eat (\<lambda>x. \<not> is_line_end x)"
  by (simp_all add: fun_eq_iff)

lemma eat_Nil: "left s = [] \<Longrightarrow> eat P s = []"
  by (simp add: eat_def)

lemma eat_Cons: "left s = c # cs \<Longrightarrow> eat P s = (if P c then [adv 1 s] else [])"
  by (simp add: eat_def adv_def)

definition consumed :: "mst \<Rightarrow> mst \<Rightarrow> bool" where
  "consumed s t \<longleftrightarrow> (\<exists>u. left s = u @ left t \<and> at t = at s + length u)"

lemma consumed_refl [simp]: "consumed s s"
  by (simp add: consumed_def)

lemma consumed_trans: "consumed s t \<Longrightarrow> consumed t u \<Longrightarrow> consumed s u"
  by (fastforce simp: consumed_def)

lemma consumed_caps [simp]: "consumed s (t\<lparr>caps := c\<rparr>) = consumed s t"
  by (simp add: consumed_def)

lemma consumed_len: "consumed s t \<Longrightarrow> length (left t) \<le> length (left s)"
  by (auto simp: consumed_def)

lemma eat_consumed: "t \<in> set (eat P s) \<Longrightarrow> consumed s t"
proof -
  assume "t \<in> set (eat P s)"
  then obtain c cs where "left s = c # cs" "t = s\<lparr>at := Suc (at s), left := cs\<rparr>"
    by (cases "left s") (auto simp: eat_def split: if_splits)
  then have "left s = [c] @ left t \<and> at t = at s + length [c]" by simp
  then show ?thesis unfolding consumed_def by blast
qed

lemma rep_consumed:
  assumes f: "\<And>s t. t \<in> set (f s) \<Longrightarrow> consumed s t"
  shows "t \<in> set (rep g f n s) \<Longrightarrow> consumed s t"
proof (induction n arbitrary: s)
  case 0
  then show ?case by simp
next
  case (Suc n)
  then show ?case
    by (auto simp: Let_def dest: f split: if_splits intro: consumed_trans)
qed

lemma outcomes_consumed: "t \<in> set (outcomes r s) \<Longrightarrow> consumed s t"
proof (induction r arbitrary: s t)
  case (RStar g r)
  then show ?case by (auto intro: rep_consumed)
next
  case (RSeq a b)
  then show ?case by (simp, blast intro: consumed_trans)
qed (auto simp: Let_def dest: eat_consumed split: if_splits)

text \<open>The bound the repeat starts with is enough: any larger one gives the same outcomes.\<close>

lemma rep_enough: "length (left s) \<le> n \<Longrightarrow> rep g f n s = rep g f (length (left s)) s"
proof (induction "length (left s)" arbitrary: s n rule: less_induct)
  case less
  show ?case
  proof (cases "length (left s)")
    case 0
    then show ?thesis by (cases n) (simp_all add: Let_def)
  next
    case (Suc m)
    then obtain n' where n: "n = Suc n'" using less.prems by (cases n) auto
    have eq: "map (rep g f n') (filter (\<lambda>t. length (left t) < length (left s)) (f s)) =
              map (rep g f m) (filter (\<lambda>t. length (left t) < length (left s)) (f s))"
    proof (rule map_cong [OF refl])
      fix t assume "t \<in> set (filter (\<lambda>t. length (left t) < length (left s)) (f s))"
      then have l: "length (left t) < length (left s)" by simp
      then have "length (left t) \<le> n'" "length (left t) \<le> m" using Suc n less.prems by auto
      then show "rep g f n' t = rep g f m t" using less.hyps [OF l] by metis
    qed
    show ?thesis unfolding n Suc by (simp only: rep.simps eq Let_def)
  qed
qed

subsection \<open>Runs of one class\<close>

definition run_len :: "(cp \<Rightarrow> bool) \<Rightarrow> jstr \<Rightarrow> nat" where
  "run_len P s = length (takeWhile P s)"

lemma run_len_simps [simp]: "run_len P [] = 0"
    "run_len P (c # cs) = (if P c then Suc (run_len P cs) else 0)"
  by (simp_all add: run_len_def)

lemma run_len_le: "run_len P s \<le> length s"
  by (simp add: run_len_def length_takeWhile_le)

lemma upt_Suc_shift: "[0..<Suc n] = 0 # map Suc [0..<n]"
  by (simp add: upt_conv_Cons map_Suc_upt del: upt_Suc)

lemma rep_eat:
  "length (left s) \<le> n \<Longrightarrow> rep g (eat P) n s =
     map (\<lambda>k. adv k s) ((if g then rev else id) [0..<Suc (run_len P (left s))])"
proof (induction n arbitrary: s)
  case 0
  then show ?case by simp
next
  case (Suc n)
  show ?case
  proof (cases "left s")
    case Nil
    then show ?thesis by (simp add: eat_def)
  next
    case (Cons c cs)
    show ?thesis
    proof (cases "P c")
      case False
      then show ?thesis using Cons by (simp add: eat_def)
    next
      case True
      have "eat P s = [adv 1 s]" using Cons True by (simp add: eat_def adv_def)
      moreover have "rep g (eat P) n (adv 1 s) =
          map (\<lambda>k. adv k (adv 1 s)) ((if g then rev else id) [0..<Suc (run_len P cs)])"
        using Suc.IH [of "adv 1 s"] Suc.prems Cons by simp
      ultimately show ?thesis
        using Cons True
        by (auto simp add: Let_def upt_Suc_shift rev_map simp del: upt_Suc)
    qed
  qed
qed

subsection \<open>Anchored expressions\<close>

text \<open>An expression \<open>/^...$/\<close> can only match the whole text, from its first code point.\<close>

lemma rx_line_outcome:
  assumes "t \<in> set (outcomes (rx_line rs) (start_at i s))"
  shows "i = 0" and "left t = []"
  using assms by (auto simp: rx_line_def start_at_def split: if_splits)

lemma exec_from_outcome:
  "exec_from r i s = Some (j, t) \<Longrightarrow>
     \<exists>u v. s = u @ v \<and> j = i + length u \<and> t \<in> set (outcomes r (start_at j v))"
proof (induction r i s rule: exec_from.induct)
  case (1 r i)
  then show ?case by (auto split: list.splits)
next
  case (2 r i c cs)
  show ?case
  proof (cases "outcomes r (start_at i (c # cs))")
    case Nil
    with 2 obtain u v where "cs = u @ v" "j = Suc i + length u"
        "t \<in> set (outcomes r (start_at j v))" by auto
    then show ?thesis by (intro exI [of _ "c # u"] exI [of _ v]) simp
  next
    case (Cons t' ts)
    with 2 have "t = t'" "j = i" by auto
    with Cons show ?thesis by (intro exI [of _ "[]"] exI [of _ "c # cs"]) simp
  qed
qed

lemma rx_line_exec: "rx_exec (rx_line rs) s = Some (j, t) \<Longrightarrow> j = 0 \<and> left t = []"
  by (auto simp: rx_exec_def dest!: exec_from_outcome dest: rx_line_outcome)

lemma exec_line_unfold:
  "exec_from (rx_line rs) (Suc i) s = None"
  by (induction s arbitrary: i) (auto simp: rx_line_def start_at_def)

lemma rx_line_exec_eq:
  "rx_exec (rx_line rs) s =
     (case outcomes (rx_line rs) (start_at 0 s) of [] \<Rightarrow> None | t # _ \<Rightarrow> Some (0, t))"
  by (cases s) (simp_all add: rx_exec_def exec_line_unfold split: list.splits)

lemma replace_first_line:
  "replace_first (rx_line rs) tpl s = (case rx_exec (rx_line rs) s of None \<Rightarrow> s
     | Some (i, t) \<Rightarrow> expand (ngroups (rx_line rs)) (caps t) [] s [] tpl)"
  by (auto simp: replace_first_def dest: rx_line_exec split: option.splits)

subsection \<open>Replacing runs of white space\<close>

definition space_run :: rx where
  "space_run = RPlus True RSpace"

lemma hd_run: "P c \<Longrightarrow> \<exists>ks. rev [0..<Suc (run_len P cs)] = run_len P cs # ks"
  by simp

lemma outcomes_space_run:
  "outcomes space_run (start_at i (c # cs)) = (if is_space c
     then map (\<lambda>k. adv (Suc k) (start_at i (c # cs))) (rev [0..<Suc (run_len is_space cs)]) else [])"
  by (simp add: space_run_def RPlus_def outcomes_class eat_Cons rep_eat del: upt_Suc outcomes.simps(4-6))

lemma outcomes_space_run_Nil [simp]: "outcomes space_run (start_at i []) = []"
  by (simp add: space_run_def RPlus_def eat_Nil)

text \<open>What collapsing the white space of a text means, without the matcher.\<close>

function collapse :: "jstr \<Rightarrow> jstr" where
  "collapse [] = []"
| "collapse (c # cs) = (if is_space c then 32 # collapse (dropWhile is_space cs)
                        else c # collapse cs)"
  by pat_completeness auto
termination
  by (relation "measure length") (auto simp: le_imp_less_Suc length_dropWhile_le)

lemma drop_run: "drop (run_len P s) s = dropWhile P s"
  by (simp add: run_len_def dropWhile_eq_drop)

lemma replace_space_runs: "replace_all space_run [32] b i s = collapse s"
proof (induction s arbitrary: b i rule: collapse.induct)
  case 1
  then show ?case by (subst replace_all.simps) simp
next
  case (2 c cs)
  show ?case
  proof (cases "is_space c")
    case True
    have "outcomes space_run (start_at i (c # cs)) =
        map (\<lambda>k. adv (Suc k) (start_at i (c # cs))) (rev [0..<Suc (run_len is_space cs)])"
      using True by (simp add: outcomes_space_run del: upt_Suc)
    then obtain ts where ts: "outcomes space_run (start_at i (c # cs)) =
        adv (Suc (run_len is_space cs)) (start_at i (c # cs)) # ts" by simp
    show ?thesis using True 2(1)
      by (subst replace_all.simps)
        (simp add: ts drop_run le_imp_less_Suc length_dropWhile_le)
  next
    case False
    then show ?thesis using 2(2)
      by (subst replace_all.simps) (simp add: outcomes_space_run)
  qed
qed

subsection \<open>Splitting off the white space at both ends\<close>

text \<open>
  \<open>trail s\<close> is the white space at the end of \<open>s\<close>, \<open>stem s\<close> what stands before it.
\<close>

definition stem :: "jstr \<Rightarrow> jstr" where
  "stem s = rev (dropWhile is_space (rev s))"

definition trail :: "jstr \<Rightarrow> jstr" where
  "trail s = rev (takeWhile is_space (rev s))"

lemma stem_trail [simp]: "stem s @ trail s = s"
  by (simp add: stem_def trail_def rev_append [symmetric])

lemma js_trim_stem: "js_trim s = stem (dropWhile is_space s)"
  by (simp add: js_trim_def stem_def)

lemma all_space_drop: "k \<le> length s \<Longrightarrow> list_all is_space (drop k s) \<longleftrightarrow> length (stem s) \<le> k"
proof (induction s arbitrary: k rule: rev_induct)
  case Nil
  then show ?case by (simp add: stem_def)
next
  case (snoc x xs)
  show ?case
  proof (cases "k = length (xs @ [x])")
    case True
    have "length (stem (xs @ [x])) \<le> length (xs @ [x])"
      by (metis le_add1 length_append stem_trail)
    then show ?thesis using True by simp
  next
    case False
    then have "k \<le> length xs" using snoc.prems by simp
    then show ?thesis using snoc.IH [of k] by (simp add: stem_def)
  qed
qed

definition split_edges :: rx where
  "split_edges = rx_line [RGrp 1 (RStar True RSpace), RGrp 2 (RStar False RAny),
                          RGrp 3 (RStar True RSpace)]"

definition grab :: "nat \<Rightarrow> nat \<Rightarrow> mst \<Rightarrow> mst" where
  "grab i k s = (adv k s)\<lparr>caps := (i, take k (left s)) # caps s\<rparr>"

lemma grab_simps [simp]: "left (grab i k s) = drop k (left s)"
    "caps (grab i k s) = (i, take k (left s)) # caps s"
  by (simp_all add: grab_def)

lemma outcomes_grp_run:
  assumes "outcomes r = eat P"
  shows "outcomes (RGrp i (RStar g r)) s =
    map (\<lambda>k. grab i k s) ((if g then rev else id) [0..<Suc (run_len P (left s))])"
  using run_len_le [of P "left s"]
  by (auto simp: rep_eat assms grab_def simp del: upt_Suc intro!: map_cong)

lemma concat_first:
  "\<forall>x \<in> set xs. f x = [] \<Longrightarrow> f y = z # zs \<Longrightarrow>
     \<exists>us. concat (map f (xs @ y # ys)) = z # us"
  by (induction xs) auto

lemma last_group_outcomes:
  "\<exists>us. concat (map (outcomes REol) (outcomes (RGrp 3 (RStar True RSpace)) s)) =
     (if list_all is_space (left s) then grab 3 (length (left s)) s # us else [])"
proof (cases "list_all is_space (left s)")
  case True
  then have "run_len is_space (left s) = length (left s)"
    by (metis list.pred_set run_len_def takeWhile_eq_all_conv)
  then show ?thesis using True
    by (simp add: outcomes_grp_run [OF outcomes_class(1)] del: outcomes.simps(12,13))
next
  case False
  have "run_len is_space (left s) \<noteq> length (left s)"
  proof
    assume "run_len is_space (left s) = length (left s)"
    then have "takeWhile is_space (left s) = left s"
      by (metis run_len_def takeWhile_eq_take take_all_iff order_refl)
    then show False using False by (metis takeWhile_dropWhile_all)
  qed
  then have "run_len is_space (left s) < length (left s)"
    using run_len_le [of is_space "left s"] by linarith
  then show ?thesis using False
    by (auto simp: outcomes_grp_run [OF outcomes_class(1)] simp del: outcomes.simps(12,13))
qed

lemma concat_concat_map: "concat (map f (concat (map g xs))) = concat (map (\<lambda>x. concat (map f (g x))) xs)"
  by (induction xs) auto

lemma run_len_True: "run_len (\<lambda>x. True) s = length s"
  by (induction s) auto

lemma stem_le: "length (stem s) \<le> length s"
  by (metis le_add1 length_append stem_trail)

lemma middle_group_outcomes:
  "\<exists>us. concat (map (\<lambda>v. concat (map (outcomes REol) (outcomes (RGrp 3 (RStar True RSpace)) v)))
      (outcomes (RGrp 2 (RStar False RAny)) u)) =
     grab 3 (length (trail (left u))) (grab 2 (length (stem (left u))) u) # us"
proof -
  let ?F = "\<lambda>v. concat (map (outcomes REol) (outcomes (RGrp 3 (RStar True RSpace)) v))"
  let ?m = "length (stem (left u))"
  have order: "[0..<Suc (length (left u))] = [0..<?m] @ ?m # [Suc ?m..<Suc (length (left u))]"
  proof -
    have "[0..<?m + (Suc (length (left u)) - ?m)] = [0..<?m] @ [?m..<?m + (Suc (length (left u)) - ?m)]"
      by (rule upt_add_eq_append) simp
    moreover have "?m < Suc (length (left u))" using stem_le [of "left u"] by simp
    ultimately show ?thesis using upt_conv_Cons [of ?m "Suc (length (left u))"] by simp
  qed
  have none: "\<forall>k \<in> set [0..<?m]. ?F (grab 2 k u) = []"
  proof
    fix k assume k: "k \<in> set [0..<?m]"
    then have "\<not> list_all is_space (drop k (left u))"
      using all_space_drop [of k "left u"] stem_le [of "left u"] by auto
    then show "?F (grab 2 k u) = []" using last_group_outcomes [of "grab 2 k u"] by simp
  qed
  have tr: "drop ?m (left u) = trail (left u)"
    by (metis append_eq_conv_conj stem_trail)
  obtain zs where zs: "?F (grab 2 ?m u) = grab 3 (length (trail (left u))) (grab 2 ?m u) # zs"
    using last_group_outcomes [of "grab 2 ?m u"] all_space_drop [of ?m "left u"] stem_le [of "left u"]
    by (auto simp: tr)
  have "\<exists>us. concat (map (\<lambda>k. ?F (grab 2 k u)) ([0..<?m] @ ?m # [Suc ?m..<Suc (length (left u))])) =
      grab 3 (length (trail (left u))) (grab 2 ?m u) # us"
    by (rule concat_first [OF none zs])
  then show ?thesis
    by (simp add: outcomes_grp_run [OF outcomes_class(3)] run_len_True order [symmetric] comp_def
        del: outcomes.simps(12,13) upt_Suc)
qed

text \<open>
  The expression matches every text and its three groups are the white space in front, the text
  without the white space at its ends, and the white space behind.
\<close>

lemma split_edges_exec:
  "\<exists>t. rx_exec split_edges s = Some (0, t) \<and>
     cap_text (caps t) 1 = takeWhile is_space s \<and>
     cap_text (caps t) 2 = js_trim s \<and>
     cap_text (caps t) 3 = trail (dropWhile is_space s)"
proof -
  let ?u = "grab 1 (run_len is_space s) (start_at 0 s)"
  let ?G = "\<lambda>u. concat (map (outcomes REol)
        (outcomes (RSeq (RGrp 2 (RStar False RAny)) (RGrp 3 (RStar True RSpace))) u))"
  let ?rest = "map (\<lambda>k. grab 1 k (start_at 0 s)) (rev [0..<run_len is_space s])"
  have left: "left ?u = dropWhile is_space s" by (simp add: drop_run)
  obtain us where us:
    "concat (map (outcomes REol) (outcomes (RSeq (RGrp 2 (RStar False RAny)) (RGrp 3 (RStar True RSpace))) ?u)) =
       grab 3 (length (trail (left ?u))) (grab 2 (length (stem (left ?u))) ?u) # us"
    using middle_group_outcomes [of ?u]
    by (auto simp: concat_concat_map simp del: outcomes.simps(12,13))
  have "outcomes split_edges (start_at 0 s) =
      concat (map ?G (outcomes (RGrp 1 (RStar True RSpace)) (start_at 0 s)))"
    by (simp add: split_edges_def rx_line_def concat_concat_map del: outcomes.simps(12,13))
  also have "outcomes (RGrp 1 (RStar True RSpace)) (start_at 0 s) =
      ?u # ?rest"
    by (simp add: outcomes_grp_run [OF outcomes_class(1)] del: outcomes.simps(12,13))
  also have "concat (map ?G (?u # ?rest)) =
      grab 3 (length (trail (left ?u))) (grab 2 (length (stem (left ?u))) ?u) # us @ concat (map ?G ?rest)"
    by (simp only: list.map concat.simps us append_Cons)
  finally have ys: "outcomes split_edges (start_at 0 s) =
      grab 3 (length (trail (left ?u))) (grab 2 (length (stem (left ?u))) ?u) # us @ concat (map ?G ?rest)" .
  have "rx_exec split_edges s =
      Some (0, grab 3 (length (trail (left ?u))) (grab 2 (length (stem (left ?u))) ?u))"
  proof -
    have "rx_exec split_edges s = (case outcomes split_edges (start_at 0 s) of [] \<Rightarrow> None
        | t # _ \<Rightarrow> Some (0, t))"
      by (simp only: split_edges_def rx_line_exec_eq)
    then show ?thesis by (simp only: ys list.case)
  qed
  moreover have "take (run_len is_space s) s = takeWhile is_space s"
    by (metis run_len_def takeWhile_eq_take)
  moreover have "take (length (stem w)) w = stem w" "drop (length (stem w)) w = trail w" for w
    by (metis append_eq_conv_conj stem_trail)+
  ultimately show ?thesis
    unfolding left by (simp add: cap_text_def js_trim_stem drop_run)
qed

lemma edges_append: "takeWhile is_space s @ js_trim s @ trail (dropWhile is_space s) = s"
  by (simp add: js_trim_stem)

subsection \<open>The shape of a table entry\<close>

fun is_line :: "rx \<Rightarrow> bool" where
  "is_line (RSeq RBol (RSeq r REol)) = True"
| "is_line _ = False"

text \<open>
  A replacement text is in order for an expression of \<open>m\<close> groups when every dollar sign starts
  a one-digit reference to one of them; \<open>refs\<close> lists the groups it refers to.
\<close>

fun tpl_ok :: "nat \<Rightarrow> jstr \<Rightarrow> bool" where
  "tpl_ok m [] = True"
| "tpl_ok m [c] = (c \<noteq> 36)"
| "tpl_ok m (c # d # ts) =
     (if c \<noteq> 36 then tpl_ok m (d # ts)
      else is_digit d \<and> 1 \<le> digit_of d \<and> digit_of d \<le> m \<and>
           (case ts of [] \<Rightarrow> True | e # us \<Rightarrow> \<not> is_digit e) \<and> tpl_ok m ts)"

fun refs :: "jstr \<Rightarrow> nat list" where
  "refs [] = []"
| "refs [c] = []"
| "refs (c # d # ts) = (if c \<noteq> 36 then refs (d # ts) else digit_of d # refs ts)"

definition plain_cp :: "cp \<Rightarrow> bool" where
  "plain_cp c \<longleftrightarrow> c \<notin> {36, 38, 39, 96} \<and> \<not> is_digit c"

definition entry_ok :: "rx \<Rightarrow> jstr \<Rightarrow> bool" where
  "entry_ok p tpl \<longleftrightarrow> is_line p \<and> tpl_ok (ngroups p) tpl \<and>
     list_all (\<lambda>i. i \<in> set (refs tpl)) [1..<Suc (ngroups p)] \<and> list_ex plain_cp tpl"

lemma digit_not_plain: "is_digit d \<Longrightarrow> \<not> plain_cp d"
  by (simp add: plain_cp_def)

lemma expand_plain:
  "list_ex plain_cp tpl \<Longrightarrow> expand m cs pre hit post tpl \<noteq> []"
proof (induction m cs pre hit post tpl rule: expand.induct)
  case (3 m cs pre hit post c d ts)
  then show ?case
    by (auto simp: plain_cp_def split: list.splits if_splits)
qed auto

lemma expand_refs:
  "tpl_ok m tpl \<Longrightarrow> i \<in> set (refs tpl) \<Longrightarrow>
     \<exists>u w. expand m cs pre hit post tpl = u @ cap_text cs i @ w"
proof (induction m tpl rule: tpl_ok.induct)
  case (3 m c d ts)
  show ?case
  proof (cases "c \<noteq> 36")
    case True
    with 3 obtain u w where "expand m cs pre hit post (d # ts) = u @ cap_text cs i @ w" by auto
    with True have "expand m cs pre hit post (c # d # ts) = (c # u) @ cap_text cs i @ w" by simp
    then show ?thesis by blast
  next
    case False
    with 3(3) have ok: "is_digit d" "1 \<le> digit_of d" "digit_of d \<le> m" "tpl_ok m ts"
      and next_digit: "\<And>e us. ts = e # us \<Longrightarrow> \<not> is_digit e" by auto
    have nd: "d \<noteq> 36" "d \<noteq> 38" "d \<noteq> 96" "d \<noteq> 39" using ok(1) by (auto simp: is_digit_def)
    have eq: "expand m cs pre hit post (c # d # ts) =
        cap_text cs (digit_of d) @ expand m cs pre hit post ts"
      using False ok nd next_digit by (cases ts) auto
    show ?thesis
    proof (cases "i = digit_of d")
      case True
      then show ?thesis using eq by (metis append_Nil)
    next
      case False
      with 3(4) \<open>\<not> c \<noteq> 36\<close> have "i \<in> set (refs ts)" by auto
      with 3(2) \<open>\<not> c \<noteq> 36\<close> ok obtain u w
        where "expand m cs pre hit post ts = u @ cap_text cs i @ w" by auto
      then have "expand m cs pre hit post (c # d # ts) =
          (cap_text cs (digit_of d) @ u) @ cap_text cs i @ w" using eq by simp
      then show ?thesis by blast
    qed
  qed
qed auto

end
