(* ===== verification/RuData1.thy ===== *)
theory RuData1
  imports JsRegex
begin

text \<open>
  Lines 7 to 99 of the Russian dictionary (the object \<open>ru\<close> of
  \<open>src/web/static/localization.js\<close>), entry by entry in source order, as code points. The comment
  in front of an entry is its key with every character outside a small ASCII set shown as a
  question mark.
\<close>

definition ru_part1 :: "(jstr \<times> jstr) list" where
  "ru_part1 = [
     \<comment> \<open>Total\<close>
     ([84, 111, 116, 97, 108],
      [1042, 1089, 1077, 1075, 1086]),
     \<comment> \<open>Online\<close>
     ([79, 110, 108, 105, 110, 101],
      [79, 110, 108, 105, 110, 101]),
     \<comment> \<open>Offline\<close>
     ([79, 102, 102, 108, 105, 110, 101],
      [79, 102, 102, 108, 105, 110, 101]),
     \<comment> \<open>Proxy failure\<close>
     ([80, 114, 111, 120, 121, 32, 102, 97, 105, 108, 117, 114, 101],
      [80, 114, 111, 120, 121, 32, 102, 97, 105, 108, 117, 114, 101]),
     \<comment> \<open>Maintenance\<close>
     ([77, 97, 105, 110, 116, 101, 110, 97, 110, 99, 101],
      [1054, 1073, 1089, 1083, 1091, 1078, 1080, 1074, 1072, 1085, 1080, 1077]),
     \<comment> \<open>Avg Latency\<close>
     ([65, 118, 103, 32, 76, 97, 116, 101, 110, 99, 121],
      [1057, 1088, 46, 32, 1079, 1072, 1076, 1077, 1088, 1078, 1082, 1072]),
     \<comment> \<open>Servers\<close>
     ([83, 101, 114, 118, 101, 114, 115],
      [1057, 1077, 1088, 1074, 1077, 1088, 1099]),
     \<comment> \<open>Search...\<close>
     ([83, 101, 97, 114, 99, 104, 46, 46, 46],
      [1055, 1086, 1080, 1089, 1082, 46, 46, 46]),
     \<comment> \<open>All\<close>
     ([65, 108, 108],
      [1042, 1089, 1077]),
     \<comment> \<open>Default\<close>
     ([68, 101, 102, 97, 117, 108, 116],
      [68, 101, 102, 97, 117, 108, 116]),
     \<comment> \<open>Name\<close>
     ([78, 97, 109, 101],
      [1048, 1084, 1103]),
     \<comment> \<open>Status\<close>
     ([83, 116, 97, 116, 117, 115],
      [1057, 1090, 1072, 1090, 1091, 1089]),
     \<comment> \<open>Copy URL\<close>
     ([67, 111, 112, 121, 32, 85, 82, 76],
      [1050, 1086, 1087, 1080, 1088, 1086, 1074, 1072, 1090, 1100, 32, 85, 82, 76]),
     \<comment> \<open>Metrics\<close>
     ([77, 101, 116, 114, 105, 99, 115],
      [1052, 1077, 1090, 1088, 1080, 1082, 1080]),
     \<comment> \<open>Health\<close>
     ([72, 101, 97, 108, 116, 104],
      [72, 101, 97, 108, 116, 104]),
     \<comment> \<open>Docs\<close>
     ([68, 111, 99, 115],
      [68, 111, 99, 115]),
     \<comment> \<open>Latency ?\<close>
     ([76, 97, 116, 101, 110, 99, 121, 32, 8593],
      [1047, 1072, 1076, 1077, 1088, 1078, 1082, 1072, 32, 8593]),
     \<comment> \<open>Latency ?\<close>
     ([76, 97, 116, 101, 110, 99, 121, 32, 8595],
      [1047, 1072, 1076, 1077, 1088, 1078, 1082, 1072, 32, 8595]),
     \<comment> \<open>No proxies match your criteria\<close>
     ([78, 111, 32, 112, 114, 111, 120, 105, 101, 115, 32, 109, 97, 116, 99, 104, 32, 121, 111,
       117, 114, 32, 99, 114, 105, 116, 101, 114, 105, 97],
      [1053, 1077, 1090, 32, 1087, 1088, 1086, 1082, 1089, 1080, 44, 32, 1089, 1086, 1086, 1090,
       1074, 1077, 1090, 1089, 1090, 1074, 1091, 1102, 1097, 1080, 1093, 32, 1091, 1089, 1083,
       1086, 1074, 1080, 1103, 1084]),
     \<comment> \<open>of\<close>
     ([111, 102],
      [1080, 1079]),
     \<comment> \<open>proxies ? Config URLs return 200/503 for monitoring\<close>
     ([112, 114, 111, 120, 105, 101, 115, 32, 183, 32, 67, 111, 110, 102, 105, 103, 32, 85, 82,
       76, 115, 32, 114, 101, 116, 117, 114, 110, 32, 50, 48, 48, 47, 53, 48, 51, 32, 102, 111,
       114, 32, 109, 111, 110, 105, 116, 111, 114, 105, 110, 103],
      [1087, 1088, 1086, 1082, 1089, 1080, 32, 183, 32, 67, 111, 110, 102, 105, 103, 32, 85, 82,
       76, 32, 1074, 1086, 1079, 1074, 1088, 1072, 1097, 1072, 1102, 1090, 32, 50, 48, 48, 47, 53,
       48, 51, 32, 1076, 1083, 1103, 32, 1084, 1086, 1085, 1080, 1090, 1086, 1088, 1080, 1085,
       1075, 1072]),
     \<comment> \<open>Check:\<close>
     ([67, 104, 101, 99, 107, 58],
      [67, 104, 101, 99, 107, 58]),
     \<comment> \<open>Interval:\<close>
     ([73, 110, 116, 101, 114, 118, 97, 108, 58],
      [1048, 1085, 1090, 1077, 1088, 1074, 1072, 1083, 58]),
     \<comment> \<open>Timeout:\<close>
     ([84, 105, 109, 101, 111, 117, 116, 58],
      [84, 105, 109, 101, 111, 117, 116, 58]),
     \<comment> \<open>Powered by\<close>
     ([80, 111, 119, 101, 114, 101, 100, 32, 98, 121],
      [1056, 1072, 1073, 1086, 1090, 1072, 1077, 1090, 32, 1085, 1072, 32, 1073, 1072, 1079,
       1077]),
     \<comment> \<open>Made with ?? by\<close>
     ([77, 97, 100, 101, 32, 119, 105, 116, 104, 32, 10084, 65039, 32, 98, 121],
      [1057, 1076, 1077, 1083, 1072, 1085, 1086, 32, 1089, 32, 10084, 65039, 32, 8212]),
     \<comment> \<open>Telegram Chat\<close>
     ([84, 101, 108, 101, 103, 114, 97, 109, 32, 67, 104, 97, 116],
      [84, 101, 108, 101, 103, 114, 97, 109, 45, 1095, 1072, 1090]),
     \<comment> \<open>Auto\<close>
     ([65, 117, 116, 111],
      [1040, 1074, 1090, 1086]),
     \<comment> \<open>Copied?\<close>
     ([67, 111, 112, 105, 101, 100, 33],
      [1057, 1082, 1086, 1087, 1080, 1088, 1086, 1074, 1072, 1085, 1086, 33]),
     \<comment> \<open>IP / server copied?\<close>
     ([73, 80, 32, 47, 32, 115, 101, 114, 118, 101, 114, 32, 99, 111, 112, 105, 101, 100, 33],
      [73, 80, 32, 47, 32, 1089, 1077, 1088, 1074, 1077, 1088, 32, 1089, 1082, 1086, 1087, 1080,
       1088, 1086, 1074, 1072, 1085, 33]),
     \<comment> \<open>Logo\<close>
     ([76, 111, 103, 111],
      [1051, 1086, 1075, 1086, 1090, 1080, 1087]),
     \<comment> \<open>Xray Checker Admin\<close>
     ([88, 114, 97, 121, 32, 67, 104, 101, 99, 107, 101, 114, 32, 65, 100, 109, 105, 110],
      [1040, 1076, 1084, 1080, 1085, 1082, 1072, 32, 88, 114, 97, 121, 32, 67, 104, 101, 99, 107,
       101, 114]),
     \<comment> \<open>Availability, speed tests and operational controls\<close>
     ([65, 118, 97, 105, 108, 97, 98, 105, 108, 105, 116, 121, 44, 32, 115, 112, 101, 101, 100,
       32, 116, 101, 115, 116, 115, 32, 97, 110, 100, 32, 111, 112, 101, 114, 97, 116, 105, 111,
       110, 97, 108, 32, 99, 111, 110, 116, 114, 111, 108, 115],
      [65, 118, 97, 105, 108, 97, 98, 105, 108, 105, 116, 121, 44, 32, 115, 112, 101, 101, 100,
       116, 101, 115, 116, 32, 1080, 32, 1091, 1087, 1088, 1072, 1074, 1083, 1077, 1085, 1080,
       1077]),
     \<comment> \<open>Waiting for data\<close>
     ([87, 97, 105, 116, 105, 110, 103, 32, 102, 111, 114, 32, 100, 97, 116, 97],
      [1054, 1078, 1080, 1076, 1072, 1085, 1080, 1077, 32, 1076, 1072, 1085, 1085, 1099, 1093]),
     \<comment> \<open>Last updated: n/a\<close>
     ([76, 97, 115, 116, 32, 117, 112, 100, 97, 116, 101, 100, 58, 32, 110, 47, 97],
      [1055, 1086, 1089, 1083, 1077, 1076, 1085, 1077, 1077, 32, 1086, 1073, 1085, 1086, 1074,
       1083, 1077, 1085, 1080, 1077, 58, 32, 110, 47, 97]),
     \<comment> \<open>Idle\<close>
     ([73, 100, 108, 101],
      [73, 100, 108, 101]),
     \<comment> \<open>Refresh\<close>
     ([82, 101, 102, 114, 101, 115, 104],
      [1054, 1073, 1085, 1086, 1074, 1080, 1090, 1100]),
     \<comment> \<open>Admin sections\<close>
     ([65, 100, 109, 105, 110, 32, 115, 101, 99, 116, 105, 111, 110, 115],
      [1056, 1072, 1079, 1076, 1077, 1083, 1099, 32, 1072, 1076, 1084, 1080, 1085, 1080, 1089,
       1090, 1088, 1080, 1088, 1086, 1074, 1072, 1085, 1080, 1103]),
     \<comment> \<open>Dashboard\<close>
     ([68, 97, 115, 104, 98, 111, 97, 114, 100],
      [68, 97, 115, 104, 98, 111, 97, 114, 100]),
     \<comment> \<open>Nodes Overview\<close>
     ([78, 111, 100, 101, 115, 32, 79, 118, 101, 114, 118, 105, 101, 119],
      [78, 111, 100, 101, 115, 32, 79, 118, 101, 114, 118, 105, 101, 119]),
     \<comment> \<open>Incidents\<close>
     ([73, 110, 99, 105, 100, 101, 110, 116, 115],
      [1048, 1085, 1094, 1080, 1076, 1077, 1085, 1090, 1099]),
     \<comment> \<open>Speed History\<close>
     ([83, 112, 101, 101, 100, 32, 72, 105, 115, 116, 111, 114, 121],
      [83, 112, 101, 101, 100, 32, 72, 105, 115, 116, 111, 114, 121]),
     \<comment> \<open>Controls\<close>
     ([67, 111, 110, 116, 114, 111, 108, 115],
      [1059, 1087, 1088, 1072, 1074, 1083, 1077, 1085, 1080, 1077]),
     \<comment> \<open>Settings\<close>
     ([83, 101, 116, 116, 105, 110, 103, 115],
      [1053, 1072, 1089, 1090, 1088, 1086, 1081, 1082, 1080]),
     \<comment> \<open>Actions for selected nodes\<close>
     ([65, 99, 116, 105, 111, 110, 115, 32, 102, 111, 114, 32, 115, 101, 108, 101, 99, 116, 101,
       100, 32, 110, 111, 100, 101, 115],
      [1044, 1077, 1081, 1089, 1090, 1074, 1080, 1103, 32, 1076, 1083, 1103, 32, 1074, 1099, 1073,
       1088, 1072, 1085, 1085, 1099, 1093, 32, 1085, 1086, 1076]),
     \<comment> \<open>Node controls\<close>
     ([78, 111, 100, 101, 32, 99, 111, 110, 116, 114, 111, 108, 115],
      [1059, 1087, 1088, 1072, 1074, 1083, 1077, 1085, 1080, 1077, 32, 1085, 1086, 1076, 1072,
       1084, 1080]),
     \<comment> \<open>Global configuration and data management\<close>
     ([71, 108, 111, 98, 97, 108, 32, 99, 111, 110, 102, 105, 103, 117, 114, 97, 116, 105, 111,
       110, 32, 97, 110, 100, 32, 100, 97, 116, 97, 32, 109, 97, 110, 97, 103, 101, 109, 101, 110,
       116],
      [1054, 1073, 1097, 1072, 1103, 32, 1082, 1086, 1085, 1092, 1080, 1075, 1091, 1088, 1072,
       1094, 1080, 1103, 32, 1080, 32, 1091, 1087, 1088, 1072, 1074, 1083, 1077, 1085, 1080, 1077,
       32, 1076, 1072, 1085, 1085, 1099, 1084, 1080]),
     \<comment> \<open>Global settings\<close>
     ([71, 108, 111, 98, 97, 108, 32, 115, 101, 116, 116, 105, 110, 103, 115],
      [1054, 1073, 1097, 1080, 1077, 32, 1085, 1072, 1089, 1090, 1088, 1086, 1081, 1082, 1080]),
     \<comment> \<open>Project\<close>
     ([80, 114, 111, 106, 101, 99, 116],
      [1055, 1088, 1086, 1077, 1082, 1090]),
     \<comment> \<open>Actions\<close>
     ([65, 99, 116, 105, 111, 110, 115],
      [1044, 1077, 1081, 1089, 1090, 1074, 1080, 1103]),
     \<comment> \<open>Filters\<close>
     ([70, 105, 108, 116, 101, 114, 115],
      [1060, 1080, 1083, 1100, 1090, 1088, 1099]),
     \<comment> \<open>Schedule\<close>
     ([83, 99, 104, 101, 100, 117, 108, 101],
      [1056, 1072, 1089, 1087, 1080, 1089, 1072, 1085, 1080, 1077]),
     \<comment> \<open>Backup\<close>
     ([66, 97, 99, 107, 117, 112],
      [66, 97, 99, 107, 117, 112]),
     \<comment> \<open>Subscription\<close>
     ([83, 117, 98, 115, 99, 114, 105, 112, 116, 105, 111, 110],
      [83, 117, 98, 115, 99, 114, 105, 112, 116, 105, 111, 110]),
     \<comment> \<open>Agents\<close>
     ([65, 103, 101, 110, 116, 115],
      [1040, 1075, 1077, 1085, 1090, 1099]),
     \<comment> \<open>Diagnostic agents\<close>
     ([68, 105, 97, 103, 110, 111, 115, 116, 105, 99, 32, 97, 103, 101, 110, 116, 115],
      [1044, 1080, 1072, 1075, 1085, 1086, 1089, 1090, 1080, 1095, 1077, 1089, 1082, 1080, 1077,
       32, 1072, 1075, 1077, 1085, 1090, 1099]),
     \<comment> \<open>Configured agents\<close>
     ([67, 111, 110, 102, 105, 103, 117, 114, 101, 100, 32, 97, 103, 101, 110, 116, 115],
      [1053, 1072, 1089, 1090, 1088, 1086, 1077, 1085, 1085, 1099, 1077, 32, 1072, 1075, 1077,
       1085, 1090, 1099]),
     \<comment> \<open>Agent automation\<close>
     ([65, 103, 101, 110, 116, 32, 97, 117, 116, 111, 109, 97, 116, 105, 111, 110],
      [1040, 1074, 1090, 1086, 1084, 1072, 1090, 1080, 1079, 1072, 1094, 1080, 1103, 32, 1072,
       1075, 1077, 1085, 1090, 1086, 1074]),
     \<comment> \<open>Trigger\<close>
     ([84, 114, 105, 103, 103, 101, 114],
      [1058, 1088, 1080, 1075, 1075, 1077, 1088]),
     \<comment> \<open>Speed fallback\<close>
     ([83, 112, 101, 101, 100, 32, 102, 97, 108, 108, 98, 97, 99, 107],
      [1056, 1077, 1079, 1077, 1088, 1074, 1085, 1099, 1081, 32, 83, 112, 101, 101, 100, 116, 101,
       115, 116, 32, 85, 82, 76]),
     \<comment> \<open>Fallback attempts\<close>
     ([70, 97, 108, 108, 98, 97, 99, 107, 32, 97, 116, 116, 101, 109, 112, 116, 115],
      [1055, 1086, 1087, 1099, 1090, 1082, 1080, 32, 1088, 1077, 1079, 1077, 1088, 1074, 1085,
       1099, 1093, 32, 85, 82, 76]),
     \<comment> \<open>Cooldown\<close>
     ([67, 111, 111, 108, 100, 111, 119, 110],
      [67, 111, 111, 108, 100, 111, 119, 110]),
     \<comment> \<open>Alert wait\<close>
     ([65, 108, 101, 114, 116, 32, 119, 97, 105, 116],
      [1054, 1078, 1080, 1076, 1072, 1085, 1080, 1077, 32, 1076, 1083, 1103, 32, 1072, 1083, 1077,
       1088, 1090, 1072]),
     \<comment> \<open>Concurrency\<close>
     ([67, 111, 110, 99, 117, 114, 114, 101, 110, 99, 121],
      [1055, 1072, 1088, 1072, 1083, 1083, 1077, 1083, 1100, 1085, 1099, 1077, 32, 1089, 1077,
       1089, 1089, 1080, 1080]),
     \<comment> \<open>A failed or slow measurement starts an isolated agent probe. Its evide\<close>
     ([65, 32, 102, 97, 105, 108, 101, 100, 32, 111, 114, 32, 115, 108, 111, 119, 32, 109, 101,
       97, 115, 117, 114, 101, 109, 101, 110, 116, 32, 115, 116, 97, 114, 116, 115, 32, 97, 110,
       32, 105, 115, 111, 108, 97, 116, 101, 100, 32, 97, 103, 101, 110, 116, 32, 112, 114, 111,
       98, 101, 46, 32, 73, 116, 115, 32, 101, 118, 105, 100, 101, 110, 99, 101, 32, 105, 115, 32,
       115, 116, 111, 114, 101, 100, 32, 119, 105, 116, 104, 32, 116, 104, 97, 116, 32, 109, 101,
       97, 115, 117, 114, 101, 109, 101, 110, 116, 32, 97, 110, 100, 32, 101, 110, 114, 105, 99,
       104, 101, 115, 32, 116, 104, 101, 32, 84, 101, 108, 101, 103, 114, 97, 109, 32, 97, 108,
       101, 114, 116, 59, 32, 105, 116, 32, 110, 101, 118, 101, 114, 32, 99, 104, 97, 110, 103,
       101, 115, 32, 115, 116, 97, 116, 117, 115, 44, 32, 99, 108, 97, 115, 115, 105, 102, 105,
       99, 97, 116, 105, 111, 110, 44, 32, 105, 110, 99, 105, 100, 101, 110, 116, 115, 44, 32,
       114, 101, 116, 114, 105, 101, 115, 32, 111, 114, 32, 82, 101, 109, 110, 97, 119, 97, 118,
       101, 46],
      [1047, 1072, 1084, 1077, 1088, 32, 1089, 32, 1086, 1096, 1080, 1073, 1082, 1086, 1081, 32,
       1080, 1083, 1080, 32, 1085, 1080, 1078, 1077, 32, 1087, 1086, 1088, 1086, 1075, 1072, 32,
       1079, 1072, 1087, 1091, 1089, 1082, 1072, 1077, 1090, 32, 1080, 1079, 1086, 1083, 1080,
       1088, 1086, 1074, 1072, 1085, 1085, 1091, 1102, 32, 1087, 1088, 1086, 1073, 1091, 32, 1072,
       1075, 1077, 1085, 1090, 1072, 46, 32, 1045, 1105, 32, 1089, 1074, 1080, 1076, 1077, 1090,
       1077, 1083, 1100, 1089, 1090, 1074, 1086, 32, 1089, 1086, 1093, 1088, 1072, 1085, 1103,
       1077, 1090, 1089, 1103, 32, 1088, 1103, 1076, 1086, 1084, 32, 1089, 32, 1101, 1090, 1080,
       1084, 32, 1079, 1072, 1084, 1077, 1088, 1086, 1084, 32, 1080, 32, 1076, 1086, 1087, 1086,
       1083, 1085, 1103, 1077, 1090, 32, 84, 101, 108, 101, 103, 114, 97, 109, 45, 1072, 1083,
       1077, 1088, 1090, 59, 32, 1089, 1090, 1072, 1090, 1091, 1089, 44, 32, 1082, 1083, 1072,
       1089, 1089, 1080, 1092, 1080, 1082, 1072, 1094, 1080, 1102, 44, 32, 105, 110, 99, 105, 100,
       101, 110, 116, 115, 44, 32, 114, 101, 116, 114, 105, 101, 115, 32, 1080, 32, 82, 101, 109,
       110, 97, 119, 97, 118, 101, 32, 1086, 1085, 1086, 32, 1085, 1077, 32, 1084, 1077, 1085,
       1103, 1077, 1090, 46]),
     \<comment> \<open>When the proxy-failure trigger is on, a node entering proxy?failure ge\<close>
     ([87, 104, 101, 110, 32, 116, 104, 101, 32, 112, 114, 111, 120, 121, 45, 102, 97, 105, 108,
       117, 114, 101, 32, 116, 114, 105, 103, 103, 101, 114, 32, 105, 115, 32, 111, 110, 44, 32,
       97, 32, 110, 111, 100, 101, 32, 101, 110, 116, 101, 114, 105, 110, 103, 32, 112, 114, 111,
       120, 121, 95, 102, 97, 105, 108, 117, 114, 101, 32, 103, 101, 116, 115, 32, 111, 110, 101,
       32, 97, 103, 101, 110, 116, 32, 112, 114, 111, 98, 101, 32, 112, 101, 114, 32, 101, 112,
       105, 115, 111, 100, 101, 46, 32, 84, 104, 101, 32, 97, 110, 115, 119, 101, 114, 32, 97,
       112, 112, 101, 97, 114, 115, 32, 97, 109, 111, 110, 103, 32, 116, 104, 101, 32, 110, 111,
       100, 101, 39, 115, 32, 100, 105, 97, 103, 110, 111, 115, 116, 105, 99, 32, 115, 101, 115,
       115, 105, 111, 110, 115, 32, 97, 110, 100, 32, 105, 110, 32, 105, 116, 115, 32, 84, 101,
       108, 101, 103, 114, 97, 109, 32, 100, 111, 119, 110, 32, 97, 108, 101, 114, 116, 59, 32,
       105, 116, 32, 110, 101, 118, 101, 114, 32, 100, 101, 99, 105, 100, 101, 115, 32, 119, 104,
       101, 116, 104, 101, 114, 32, 116, 104, 97, 116, 32, 97, 108, 101, 114, 116, 32, 105, 115,
       32, 115, 101, 110, 116, 46],
      [1045, 1089, 1083, 1080, 32, 1090, 1088, 1080, 1075, 1075, 1077, 1088, 32, 112, 114, 111,
       120, 121, 32, 102, 97, 105, 108, 117, 114, 101, 32, 1074, 1082, 1083, 1102, 1095, 1105,
       1085, 44, 32, 1085, 1086, 1076, 1072, 44, 32, 1087, 1077, 1088, 1077, 1096, 1077, 1076,
       1096, 1072, 1103, 32, 1074, 32, 112, 114, 111, 120, 121, 95, 102, 97, 105, 108, 117, 114,
       101, 44, 32, 1087, 1086, 1083, 1091, 1095, 1072, 1077, 1090, 32, 1086, 1076, 1085, 1091,
       32, 1087, 1088, 1086, 1073, 1091, 32, 1072, 1075, 1077, 1085, 1090, 1072, 32, 1085, 1072,
       32, 1101, 1087, 1080, 1079, 1086, 1076, 46, 32, 1054, 1090, 1074, 1077, 1090, 32, 1074,
       1080, 1076, 1077, 1085, 32, 1089, 1088, 1077, 1076, 1080, 32, 1076, 1080, 1072, 1075, 1085,
       1086, 1089, 1090, 1080, 1095, 1077, 1089, 1082, 1080, 1093, 32, 1089, 1077, 1089, 1089,
       1080, 1081, 32, 1085, 1086, 1076, 1099, 32, 1080, 32, 1074, 32, 1077, 1105, 32, 84, 101,
       108, 101, 103, 114, 97, 109, 45, 1072, 1083, 1077, 1088, 1090, 1077, 32, 1086, 32, 1089,
       1073, 1086, 1077, 59, 32, 1086, 1090, 1087, 1088, 1072, 1074, 1082, 1091, 32, 1072, 1083,
       1077, 1088, 1090, 1072, 32, 1086, 1085, 32, 1085, 1077, 32, 1088, 1077, 1096, 1072, 1077,
       1090, 46]),
     \<comment> \<open>Agent probe\<close>
     ([65, 103, 101, 110, 116, 32, 112, 114, 111, 98, 101],
      [1055, 1088, 1086, 1073, 1072, 32, 1072, 1075, 1077, 1085, 1090, 1072]),
     \<comment> \<open>Open the agent probe\<close>
     ([79, 112, 101, 110, 32, 116, 104, 101, 32, 97, 103, 101, 110, 116, 32, 112, 114, 111, 98,
       101],
      [1054, 1090, 1082, 1088, 1099, 1090, 1100, 32, 1087, 1088, 1086, 1073, 1091, 32, 1072, 1075,
       1077, 1085, 1090, 1072]),
     \<comment> \<open>Close agent probe\<close>
     ([67, 108, 111, 115, 101, 32, 97, 103, 101, 110, 116, 32, 112, 114, 111, 98, 101],
      [1047, 1072, 1082, 1088, 1099, 1090, 1100, 32, 1087, 1088, 1086, 1073, 1091, 32, 1072, 1075,
       1077, 1085, 1090, 1072]),
     \<comment> \<open>Copy\<close>
     ([67, 111, 112, 121],
      [1050, 1086, 1087, 1080, 1088, 1086, 1074, 1072, 1090, 1100]),
     \<comment> \<open>Copy the probe as text\<close>
     ([67, 111, 112, 121, 32, 116, 104, 101, 32, 112, 114, 111, 98, 101, 32, 97, 115, 32, 116,
       101, 120, 116],
      [1057, 1082, 1086, 1087, 1080, 1088, 1086, 1074, 1072, 1090, 1100, 32, 1087, 1088, 1086,
       1073, 1091, 32, 1090, 1077, 1082, 1089, 1090, 1086, 1084]),
     \<comment> \<open>Agent probe copied?\<close>
     ([65, 103, 101, 110, 116, 32, 112, 114, 111, 98, 101, 32, 99, 111, 112, 105, 101, 100, 33],
      [1055, 1088, 1086, 1073, 1072, 32, 1072, 1075, 1077, 1085, 1090, 1072, 32, 1089, 1082, 1086,
       1087, 1080, 1088, 1086, 1074, 1072, 1085, 1072, 33]),
     \<comment> \<open>Copy failed\<close>
     ([67, 111, 112, 121, 32, 102, 97, 105, 108, 101, 100],
      [1053, 1077, 32, 1091, 1076, 1072, 1083, 1086, 1089, 1100, 32, 1089, 1082, 1086, 1087, 1080,
       1088, 1086, 1074, 1072, 1090, 1100]),
     \<comment> \<open>Measurement\<close>
     ([77, 101, 97, 115, 117, 114, 101, 109, 101, 110, 116],
      [1047, 1072, 1084, 1077, 1088]),
     \<comment> \<open>Detail\<close>
     ([68, 101, 116, 97, 105, 108],
      [1044, 1077, 1090, 1072, 1083, 1080]),
     \<comment> \<open>Summary\<close>
     ([83, 117, 109, 109, 97, 114, 121],
      [1057, 1074, 1086, 1076, 1082, 1072]),
     \<comment> \<open>MiB\<close>
     ([77, 105, 66],
      [1052, 1080, 1041]),
     \<comment> \<open>Test URL\<close>
     ([84, 101, 115, 116, 32, 85, 82, 76],
      [84, 101, 115, 116, 32, 85, 82, 76]),
     \<comment> \<open>Reserve Test URL\<close>
     ([82, 101, 115, 101, 114, 118, 101, 32, 84, 101, 115, 116, 32, 85, 82, 76],
      [1056, 1077, 1079, 1077, 1088, 1074, 1085, 1099, 1081, 32, 84, 101, 115, 116, 32, 85, 82,
       76]),
     \<comment> \<open>Primary URL\<close>
     ([80, 114, 105, 109, 97, 114, 121, 32, 85, 82, 76],
      [1054, 1089, 1085, 1086, 1074, 1085, 1086, 1081, 32, 85, 82, 76]),
     \<comment> \<open>Timed out\<close>
     ([84, 105, 109, 101, 100, 32, 111, 117, 116],
      [1058, 1072, 1081, 1084, 1072, 1091, 1090]),
     \<comment> \<open>timed out\<close>
     ([116, 105, 109, 101, 100, 32, 111, 117, 116],
      [1090, 1072, 1081, 1084, 1072, 1091, 1090]),
     \<comment> \<open>No signed observation was recorded for this probe.\<close>
     ([78, 111, 32, 115, 105, 103, 110, 101, 100, 32, 111, 98, 115, 101, 114, 118, 97, 116, 105,
       111, 110, 32, 119, 97, 115, 32, 114, 101, 99, 111, 114, 100, 101, 100, 32, 102, 111, 114,
       32, 116, 104, 105, 115, 32, 112, 114, 111, 98, 101, 46],
      [1055, 1086, 1076, 1087, 1080, 1089, 1072, 1085, 1085, 1099, 1081, 32, 111, 98, 115, 101,
       114, 118, 97, 116, 105, 111, 110, 32, 1076, 1083, 1103, 32, 1101, 1090, 1086, 1081, 32,
       1087, 1088, 1086, 1073, 1099, 32, 1085, 1077, 32, 1079, 1072, 1087, 1080, 1089, 1072, 1085,
       46]),
     \<comment> \<open>Reproduced\<close>
     ([82, 101, 112, 114, 111, 100, 117, 99, 101, 100],
      [1042, 1086, 1089, 1087, 1088, 1086, 1080, 1079, 1074, 1077, 1083, 1086, 1089, 1100]),
     \<comment> \<open>Not reproduced\<close>
     ([78, 111, 116, 32, 114, 101, 112, 114, 111, 100, 117, 99, 101, 100],
      [1053, 1077, 32, 1074, 1086, 1089, 1087, 1088, 1086, 1080, 1079, 1074, 1077, 1083, 1086,
       1089, 1100]),
     \<comment> \<open>Probing\<close>
     ([80, 114, 111, 98, 105, 110, 103],
      [1055, 1088, 1086, 1073, 1072, 32, 1080, 1076, 1105, 1090]),
     \<comment> \<open>No agent\<close>
     ([78, 111, 32, 97, 103, 101, 110, 116],
      [1053, 1077, 1090, 32, 1072, 1075, 1077, 1085, 1090, 1072]),
     \<comment> \<open>Verdict\<close>
     ([86, 101, 114, 100, 105, 99, 116],
      [1042, 1077, 1088, 1076, 1080, 1082, 1090]),
     \<comment> \<open>Task\<close>
     ([84, 97, 115, 107],
      [1047, 1072, 1076, 1072, 1095, 1072]),
     \<comment> \<open>Result\<close>
     ([82, 101, 115, 117, 108, 116],
      [1056, 1077, 1079, 1091, 1083, 1100, 1090, 1072, 1090]),
     \<comment> \<open>Low speed\<close>
     ([76, 111, 119, 32, 115, 112, 101, 101, 100],
      [1053, 1080, 1079, 1082, 1072, 1103, 32, 1089, 1082, 1086, 1088, 1086, 1089, 1090, 1100]),
     \<comment> \<open>Technical failure\<close>
     ([84, 101, 99, 104, 110, 105, 99, 97, 108, 32, 102, 97, 105, 108, 117, 114, 101],
      [1058, 1077, 1093, 1085, 1080, 1095, 1077, 1089, 1082, 1080, 1081, 32, 1089, 1073, 1086,
       1081]),
     \<comment> \<open>Run source\<close>
     ([82, 117, 110, 32, 115, 111, 117, 114, 99, 101],
      [1048, 1089, 1090, 1086, 1095, 1085, 1080, 1082, 32, 1087, 1088, 1086, 1075, 1086, 1085,
       1072]),
     \<comment> \<open>Threshold\<close>
     ([84, 104, 114, 101, 115, 104, 111, 108, 100],
      [1055, 1086, 1088, 1086, 1075]),
     \<comment> \<open>Measured by the run\<close>
     ([77, 101, 97, 115, 117, 114, 101, 100, 32, 98, 121, 32, 116, 104, 101, 32, 114, 117, 110],
      [1048, 1079, 1084, 1077, 1088, 1077, 1085, 1086, 32, 1087, 1088, 1086, 1075, 1086, 1085,
       1086, 1084]),
     \<comment> \<open>Transferred by the run\<close>
     ([84, 114, 97, 110, 115, 102, 101, 114, 114, 101, 100, 32, 98, 121, 32, 116, 104, 101, 32,
       114, 117, 110],
      [1055, 1077, 1088, 1077, 1082, 1072, 1095, 1072, 1085, 1086, 32, 1087, 1088, 1086, 1075,
       1086, 1085, 1086, 1084]),
     \<comment> \<open>Probe\<close>
     ([80, 114, 111, 98, 101],
      [1055, 1088, 1086, 1073, 1072]),
     \<comment> \<open>Method\<close>
     ([77, 101, 116, 104, 111, 100],
      [1052, 1077, 1090, 1086, 1076]),
     \<comment> \<open>Asked to transfer\<close>
     ([65, 115, 107, 101, 100, 32, 116, 111, 32, 116, 114, 97, 110, 115, 102, 101, 114],
      [1055, 1088, 1086, 1089, 1080, 1083, 1080, 32, 1087, 1077, 1088, 1077, 1082, 1072, 1095,
       1072, 1090, 1100]),
     \<comment> \<open>Agent?s own amount\<close>
     ([65, 103, 101, 110, 116, 39, 115, 32, 111, 119, 110, 32, 97, 109, 111, 117, 110, 116],
      [1057, 1086, 1073, 1089, 1090, 1074, 1077, 1085, 1085, 1099, 1081, 32, 1086, 1073, 1098,
       1105, 1084, 32, 1072, 1075, 1077, 1085, 1090, 1072]),
     \<comment> \<open>Alternative endpoint\<close>
     ([65, 108, 116, 101, 114, 110, 97, 116, 105, 118, 101, 32, 101, 110, 100, 112, 111, 105, 110,
       116],
      [1040, 1083, 1100, 1090, 1077, 1088, 1085, 1072, 1090, 1080, 1074, 1085, 1099, 1081, 32,
       101, 110, 100, 112, 111, 105, 110, 116]),
     \<comment> \<open>Job\<close>
     ([74, 111, 98],
      [1047, 1072, 1076, 1072, 1085, 1080, 1077]),
     \<comment> \<open>Requested agents\<close>
     ([82, 101, 113, 117, 101, 115, 116, 101, 100, 32, 97, 103, 101, 110, 116, 115],
      [1047, 1072, 1087, 1088, 1086, 1096, 1077, 1085, 1085, 1099, 1077, 32, 1072, 1075, 1077,
       1085, 1090, 1099]),
     \<comment> \<open>Created\<close>
     ([67, 114, 101, 97, 116, 101, 100],
      [1057, 1086, 1079, 1076, 1072, 1085, 1086]),
     \<comment> \<open>Expires\<close>
     ([69, 120, 112, 105, 114, 101, 115],
      [1048, 1089, 1090, 1077, 1082, 1072, 1077, 1090]),
     \<comment> \<open>Config generation\<close>
     ([67, 111, 110, 102, 105, 103, 32, 103, 101, 110, 101, 114, 97, 116, 105, 111, 110],
      [1055, 1086, 1082, 1086, 1083, 1077, 1085, 1080, 1077, 32, 1082, 1086, 1085, 1092, 1080,
       1075, 1072]),
     \<comment> \<open>Session\<close>
     ([83, 101, 115, 115, 105, 111, 110],
      [1057, 1077, 1089, 1089, 1080, 1103]),
     \<comment> \<open>Session ID\<close>
     ([83, 101, 115, 115, 105, 111, 110, 32, 73, 68],
      [73, 68, 32, 1089, 1077, 1089, 1089, 1080, 1080]),
     \<comment> \<open>Requested\<close>
     ([82, 101, 113, 117, 101, 115, 116, 101, 100],
      [1047, 1072, 1087, 1088, 1086, 1096, 1077, 1085, 1086]),
     \<comment> \<open>Accepted\<close>
     ([65, 99, 99, 101, 112, 116, 101, 100],
      [1055, 1088, 1080, 1085, 1103, 1090, 1086]),
     \<comment> \<open>Endpoint\<close>
     ([69, 110, 100, 112, 111, 105, 110, 116],
      [69, 110, 100, 112, 111, 105, 110, 116]),
     \<comment> \<open>Failed at\<close>
     ([70, 97, 105, 108, 101, 100, 32, 97, 116],
      [1057, 1073, 1086, 1081, 32, 1085, 1072, 32, 1096, 1072, 1075, 1077]),
     \<comment> \<open>Agent version\<close>
     ([65, 103, 101, 110, 116, 32, 118, 101, 114, 115, 105, 111, 110],
      [1042, 1077, 1088, 1089, 1080, 1103, 32, 1072, 1075, 1077, 1085, 1090, 1072]),
     \<comment> \<open>No signed observation was recorded for this probe.\<close>
     ([78, 111, 32, 115, 105, 103, 110, 101, 100, 32, 111, 98, 115, 101, 114, 118, 97, 116, 105,
       111, 110, 32, 119, 97, 115, 32, 114, 101, 99, 111, 114, 100, 101, 100, 32, 102, 111, 114,
       32, 116, 104, 105, 115, 32, 112, 114, 111, 98, 101, 46],
      [1044, 1083, 1103, 32, 1101, 1090, 1086, 1081, 32, 1087, 1088, 1086, 1073, 1099, 32, 1085,
       1077, 32, 1079, 1072, 1087, 1080, 1089, 1072, 1085, 1086, 32, 1087, 1086, 1076, 1087, 1080,
       1089, 1072, 1085, 1085, 1086, 1077, 32, 1085, 1072, 1073, 1083, 1102, 1076, 1077, 1085,
       1080, 1077, 46]),
     \<comment> \<open>no healthy idle diagnostic agent is connected\<close>
     ([110, 111, 32, 104, 101, 97, 108, 116, 104, 121, 32, 105, 100, 108, 101, 32, 100, 105, 97,
       103, 110, 111, 115, 116, 105, 99, 32, 97, 103, 101, 110, 116, 32, 105, 115, 32, 99, 111,
       110, 110, 101, 99, 116, 101, 100],
      [1085, 1077, 1090, 32, 1089, 1074, 1086, 1073, 1086, 1076, 1085, 1086, 1075, 1086, 32, 1080,
       1089, 1087, 1088, 1072, 1074, 1085, 1086, 1075, 1086, 32, 1076, 1080, 1072, 1075, 1085,
       1086, 1089, 1090, 1080, 1095, 1077, 1089, 1082, 1086, 1075, 1086, 32, 1072, 1075, 1077,
       1085, 1090, 1072]),
     \<comment> \<open>only an agent on the node?s own host is idle\<close>
     ([111, 110, 108, 121, 32, 97, 110, 32, 97, 103, 101, 110, 116, 32, 111, 110, 32, 116, 104,
       101, 32, 110, 111, 100, 101, 39, 115, 32, 111, 119, 110, 32, 104, 111, 115, 116, 32, 105,
       115, 32, 105, 100, 108, 101],
      [1089, 1074, 1086, 1073, 1086, 1076, 1077, 1085, 32, 1090, 1086, 1083, 1100, 1082, 1086, 32,
       1072, 1075, 1077, 1085, 1090, 32, 1085, 1072, 32, 1089, 1072, 1084, 1086, 1081, 32, 1085,
       1086, 1076, 1077]),
     \<comment> \<open>node address could not be resolved\<close>
     ([110, 111, 100, 101, 32, 97, 100, 100, 114, 101, 115, 115, 32, 99, 111, 117, 108, 100, 32,
       110, 111, 116, 32, 98, 101, 32, 114, 101, 115, 111, 108, 118, 101, 100],
      [1072, 1076, 1088, 1077, 1089, 32, 1085, 1086, 1076, 1099, 32, 1085, 1077, 32, 1088, 1072,
       1079, 1088, 1077, 1096, 1080, 1083, 1089, 1103, 32, 1074, 32, 73, 80]),
     \<comment> \<open>automation capacity is busy\<close>
     ([97, 117, 116, 111, 109, 97, 116, 105, 111, 110, 32, 99, 97, 112, 97, 99, 105, 116, 121, 32,
       105, 115, 32, 98, 117, 115, 121],
      [1074, 1089, 1077, 32, 1089, 1083, 1086, 1090, 1099, 32, 1072, 1074, 1090, 1086, 1084, 1072,
       1090, 1080, 1082, 1080, 32, 1079, 1072, 1085, 1103, 1090, 1099]),
     \<comment> \<open>automatic diagnostics are paused by maintenance\<close>
     ([97, 117, 116, 111, 109, 97, 116, 105, 99, 32, 100, 105, 97, 103, 110, 111, 115, 116, 105,
       99, 115, 32, 97, 114, 101, 32, 112, 97, 117, 115, 101, 100, 32, 98, 121, 32, 109, 97, 105,
       110, 116, 101, 110, 97, 110, 99, 101],
      [1072, 1074, 1090, 1086, 1084, 1072, 1090, 1080, 1095, 1077, 1089, 1082, 1072, 1103, 32,
       1076, 1080, 1072, 1075, 1085, 1086, 1089, 1090, 1080, 1082, 1072, 32, 1087, 1088, 1080,
       1086, 1089, 1090, 1072, 1085, 1086, 1074, 1083, 1077, 1085, 1072, 32, 1086, 1073, 1089,
       1083, 1091, 1078, 1080, 1074, 1072, 1085, 1080, 1077, 1084]),
     \<comment> \<open>remote diagnostics are disabled\<close>
     ([114, 101, 109, 111, 116, 101, 32, 100, 105, 97, 103, 110, 111, 115, 116, 105, 99, 115, 32,
       97, 114, 101, 32, 100, 105, 115, 97, 98, 108, 101, 100],
      [1091, 1076, 1072, 1083, 1105, 1085, 1085, 1072, 1103, 32, 1076, 1080, 1072, 1075, 1085,
       1086, 1089, 1090, 1080, 1082, 1072, 32, 1074, 1099, 1082, 1083, 1102, 1095, 1077, 1085,
       1072]),
     \<comment> \<open>automatic diagnostic could not be started\<close>
     ([97, 117, 116, 111, 109, 97, 116, 105, 99, 32, 100, 105, 97, 103, 110, 111, 115, 116, 105,
       99, 32, 99, 111, 117, 108, 100, 32, 110, 111, 116, 32, 98, 101, 32, 115, 116, 97, 114, 116,
       101, 100],
      [1085, 1077, 32, 1091, 1076, 1072, 1083, 1086, 1089, 1100, 32, 1079, 1072, 1087, 1091, 1089,
       1090, 1080, 1090, 1100, 32, 1072, 1074, 1090, 1086, 1084, 1072, 1090, 1080, 1095, 1077,
       1089, 1082, 1091, 1102, 32, 1076, 1080, 1072, 1075, 1085, 1086, 1089, 1090, 1080, 1082,
       1091]),
     \<comment> \<open>diagnostic session is no longer available\<close>
     ([100, 105, 97, 103, 110, 111, 115, 116, 105, 99, 32, 115, 101, 115, 115, 105, 111, 110, 32,
       105, 115, 32, 110, 111, 32, 108, 111, 110, 103, 101, 114, 32, 97, 118, 97, 105, 108, 97,
       98, 108, 101],
      [1076, 1080, 1072, 1075, 1085, 1086, 1089, 1090, 1080, 1095, 1077, 1089, 1082, 1086, 1081,
       32, 1089, 1077, 1089, 1089, 1080, 1080, 32, 1073, 1086, 1083, 1100, 1096, 1077, 32, 1085,
       1077, 1090]),
     \<comment> \<open>no signed remote observation was received\<close>
     ([110, 111, 32, 115, 105, 103, 110, 101, 100, 32, 114, 101, 109, 111, 116, 101, 32, 111, 98,
       115, 101, 114, 118, 97, 116, 105, 111, 110, 32, 119, 97, 115, 32, 114, 101, 99, 101, 105,
       118, 101, 100],
      [1087, 1086, 1076, 1087, 1080, 1089, 1072, 1085, 1085, 1086, 1077, 32, 1091, 1076, 1072,
       1083, 1105, 1085, 1085, 1086, 1077, 32, 1085, 1072, 1073, 1083, 1102, 1076, 1077, 1085,
       1080, 1077, 32, 1085, 1077, 32, 1087, 1086, 1083, 1091, 1095, 1077, 1085, 1086]),
     \<comment> \<open>agent direct connectivity control failed\<close>
     ([97, 103, 101, 110, 116, 32, 100, 105, 114, 101, 99, 116, 32, 99, 111, 110, 110, 101, 99,
       116, 105, 118, 105, 116, 121, 32, 99, 111, 110, 116, 114, 111, 108, 32, 102, 97, 105, 108,
       101, 100],
      [1082, 1086, 1085, 1090, 1088, 1086, 1083, 1100, 32, 1087, 1088, 1103, 1084, 1086, 1081, 32,
       1089, 1074, 1103, 1079, 1085, 1086, 1089, 1090, 1080, 32, 1072, 1075, 1077, 1085, 1090,
       1072, 32, 1085, 1077, 32, 1087, 1088, 1086, 1096, 1105, 1083]),
     \<comment> \<open>the agent alternative tunnelled endpoint worked\<close>
     ([116, 104, 101, 32, 97, 103, 101, 110, 116, 32, 97, 108, 116, 101, 114, 110, 97, 116, 105,
       118, 101, 32, 116, 117, 110, 110, 101, 108, 108, 101, 100, 32, 101, 110, 100, 112, 111,
       105, 110, 116, 32, 119, 111, 114, 107, 101, 100],
      [1072, 1083, 1100, 1090, 1077, 1088, 1085, 1072, 1090, 1080, 1074, 1085, 1099, 1081, 32,
       1090, 1091, 1085, 1085, 1077, 1083, 1100, 1085, 1099, 1081, 32, 101, 110, 100, 112, 111,
       105, 110, 116, 32, 1091, 32, 1072, 1075, 1077, 1085, 1090, 1072, 32, 1086, 1090, 1088,
       1072, 1073, 1086, 1090, 1072, 1083]),
     \<comment> \<open>agent download observation has no throughput evidence\<close>
     ([97, 103, 101, 110, 116, 32, 100, 111, 119, 110, 108, 111, 97, 100, 32, 111, 98, 115, 101,
       114, 118, 97, 116, 105, 111, 110, 32, 104, 97, 115, 32, 110, 111, 32, 116, 104, 114, 111,
       117, 103, 104, 112, 117, 116, 32, 101, 118, 105, 100, 101, 110, 99, 101],
      [1074, 32, 1085, 1072, 1073, 1083, 1102, 1076, 1077, 1085, 1080, 1080, 32, 1072, 1075, 1077,
       1085, 1090, 1072, 32, 1085, 1077, 1090, 32, 1076, 1072, 1085, 1085, 1099, 1093, 32, 1086,
       32, 1089, 1082, 1086, 1088, 1086, 1089, 1090, 1080]),
     \<comment> \<open>the agent measured a different speed-test server\<close>
     ([116, 104, 101, 32, 97, 103, 101, 110, 116, 32, 109, 101, 97, 115, 117, 114, 101, 100, 32,
       97, 32, 100, 105, 102, 102, 101, 114, 101, 110, 116, 32, 115, 112, 101, 101, 100, 45, 116,
       101, 115, 116, 32, 115, 101, 114, 118, 101, 114],
      [1072, 1075, 1077, 1085, 1090, 32, 1084, 1077, 1088, 1080, 1083, 32, 1076, 1088, 1091, 1075,
       1086, 1081, 32, 1089, 1077, 1088, 1074, 1077, 1088, 32, 1079, 1072, 1084, 1077, 1088,
       1072]),
     \<comment> \<open>the agent rate is too close to the threshold to tell\<close>
     ([116, 104, 101, 32, 97, 103, 101, 110, 116, 32, 114, 97, 116, 101, 32, 105, 115, 32, 116,
       111, 111, 32, 99, 108, 111, 115, 101, 32, 116, 111, 32, 116, 104, 101, 32, 116, 104, 114,
       101, 115, 104, 111, 108, 100, 32, 116, 111, 32, 116, 101, 108, 108],
      [1089, 1082, 1086, 1088, 1086, 1089, 1090, 1100, 32, 1072, 1075, 1077, 1085, 1090, 1072, 32,
       1089, 1083, 1080, 1096, 1082, 1086, 1084, 32, 1073, 1083, 1080, 1079, 1082, 1072, 32, 1082,
       32, 1087, 1086, 1088, 1086, 1075, 1091, 44, 32, 1095, 1090, 1086, 1073, 1099, 32, 1089,
       1091, 1076, 1080, 1090, 1100]),
     \<comment> \<open>the agent was also below the threshold\<close>
     ([116, 104, 101, 32, 97, 103, 101, 110, 116, 32, 119, 97, 115, 32, 97, 108, 115, 111, 32, 98,
       101, 108, 111, 119, 32, 116, 104, 101, 32, 116, 104, 114, 101, 115, 104, 111, 108, 100],
      [1091, 32, 1072, 1075, 1077, 1085, 1090, 1072, 32, 1090, 1086, 1078, 1077, 32, 1085, 1080,
       1078, 1077, 32, 1087, 1086, 1088, 1086, 1075, 1072]),
     \<comment> \<open>Checker path\<close>
     ([67, 104, 101, 99, 107, 101, 114, 32, 112, 97, 116, 104],
      [1055, 1091, 1090, 1100, 32, 99, 104, 101, 99, 107, 101, 114, 45, 1072]),
     \<comment> \<open>Inconclusive\<close>
     ([73, 110, 99, 111, 110, 99, 108, 117, 115, 105, 118, 101],
      [1053, 1077, 1089, 1086, 1087, 1086, 1089, 1090, 1072, 1074, 1080, 1084, 1086]),
     \<comment> \<open>Unreachable node\<close>
     ([85, 110, 114, 101, 97, 99, 104, 97, 98, 108, 101, 32, 110, 111, 100, 101],
      [1053, 1077, 1076, 1086, 1089, 1090, 1091, 1087, 1085, 1072, 1103, 32, 1085, 1086, 1076,
       1072]),
     \<comment> \<open>Server measured by the run\<close>
     ([83, 101, 114, 118, 101, 114, 32, 109, 101, 97, 115, 117, 114, 101, 100, 32, 98, 121, 32,
       116, 104, 101, 32, 114, 117, 110],
      [1057, 1077, 1088, 1074, 1077, 1088, 32, 1079, 1072, 1084, 1077, 1088, 1072, 32, 1091, 32,
       1087, 1088, 1086, 1075, 1086, 1085, 1072]),
     \<comment> \<open>Server asked of the agent\<close>
     ([83, 101, 114, 118, 101, 114, 32, 97, 115, 107, 101, 100, 32, 111, 102, 32, 116, 104, 101,
       32, 97, 103, 101, 110, 116],
      [1057, 1077, 1088, 1074, 1077, 1088, 44, 32, 1079, 1072, 1076, 1072, 1085, 1085, 1099, 1081,
       32, 1072, 1075, 1077, 1085, 1090, 1091]),
     \<comment> \<open>Server the agent measured\<close>
     ([83, 101, 114, 118, 101, 114, 32, 116, 104, 101, 32, 97, 103, 101, 110, 116, 32, 109, 101,
       97, 115, 117, 114, 101, 100],
      [1057, 1077, 1088, 1074, 1077, 1088, 32, 1079, 1072, 1084, 1077, 1088, 1072, 32, 1091, 32,
       1072, 1075, 1077, 1085, 1090, 1072]),
     \<comment> \<open>Not in the catalogue\<close>
     ([78, 111, 116, 32, 105, 110, 32, 116, 104, 101, 32, 99, 97, 116, 97, 108, 111, 103, 117,
       101],
      [1053, 1077, 1090, 32, 1074, 32, 1082, 1072, 1090, 1072, 1083, 1086, 1075, 1077]),
     \<comment> \<open>Agent?s own URL\<close>
     ([65, 103, 101, 110, 116, 39, 115, 32, 111, 119, 110, 32, 85, 82, 76],
      [1057, 1086, 1073, 1089, 1090, 1074, 1077, 1085, 1085, 1099, 1081, 32, 85, 82, 76, 32, 1072,
       1075, 1077, 1085, 1090, 1072]),
     \<comment> \<open>Path quality by hour\<close>
     ([80, 97, 116, 104, 32, 113, 117, 97, 108, 105, 116, 121, 32, 98, 121, 32, 104, 111, 117,
       114],
      [1050, 1072, 1095, 1077, 1089, 1090, 1074, 1086, 32, 1087, 1091, 1090, 1080, 32, 1087, 1086,
       32, 1095, 1072, 1089, 1072, 1084]),
     \<comment> \<open>Share of bad measurements per node and hour of day, in the clients? ti\<close>
     ([83, 104, 97, 114, 101, 32, 111, 102, 32, 98, 97, 100, 32, 109, 101, 97, 115, 117, 114, 101,
       109, 101, 110, 116, 115, 32, 112, 101, 114, 32, 110, 111, 100, 101, 32, 97, 110, 100, 32,
       104, 111, 117, 114, 32, 111, 102, 32, 100, 97, 121, 44, 32, 105, 110, 32, 116, 104, 101,
       32, 99, 108, 105, 101, 110, 116, 115, 39, 32, 116, 105, 109, 101, 32, 122, 111, 110, 101,
       46, 32, 84, 104, 101, 32, 101, 118, 101, 110, 105, 110, 103, 32, 112, 101, 97, 107, 32,
       105, 115, 32, 109, 97, 114, 107, 101, 100, 32, 111, 110, 32, 116, 104, 101, 32, 97, 120,
       105, 115, 59, 32, 99, 111, 110, 102, 105, 114, 109, 97, 116, 105, 111, 110, 32, 114, 101,
       45, 114, 117, 110, 115, 32, 97, 114, 101, 32, 108, 101, 102, 116, 32, 111, 117, 116, 46,
       32, 65, 103, 101, 110, 116, 32, 118, 101, 114, 100, 105, 99, 116, 115, 32, 115, 104, 111,
       119, 32, 119, 104, 101, 116, 104, 101, 114, 32, 116, 104, 101, 32, 110, 111, 100, 101, 32,
       111, 114, 32, 116, 104, 101, 32, 99, 104, 101, 99, 107, 101, 114, 39, 115, 32, 112, 97,
       116, 104, 32, 108, 111, 115, 116, 32, 116, 104, 101, 32, 114, 97, 116, 101, 46],
      [1044, 1086, 1083, 1103, 32, 1087, 1083, 1086, 1093, 1080, 1093, 32, 1079, 1072, 1084, 1077,
       1088, 1086, 1074, 32, 1087, 1086, 32, 1085, 1086, 1076, 1072, 1084, 32, 1080, 32, 1095,
       1072, 1089, 1072, 1084, 32, 1089, 1091, 1090, 1086, 1082, 44, 32, 1074, 32, 1095, 1072,
       1089, 1086, 1074, 1086, 1084, 32, 1087, 1086, 1103, 1089, 1077, 32, 1082, 1083, 1080, 1077,
       1085, 1090, 1086, 1074, 46, 32, 1042, 1077, 1095, 1077, 1088, 1085, 1080, 1081, 32, 1087,
       1080, 1082, 32, 1086, 1090, 1084, 1077, 1095, 1077, 1085, 32, 1085, 1072, 32, 1086, 1089,
       1080, 59, 32, 1087, 1086, 1074, 1090, 1086, 1088, 1085, 1099, 1077, 32, 1079, 1072, 1084,
       1077, 1088, 1099, 32, 1076, 1083, 1103, 32, 1087, 1086, 1076, 1090, 1074, 1077, 1088, 1078,
       1076, 1077, 1085, 1080, 1103, 32, 1085, 1077, 32, 1091, 1095, 1080, 1090, 1099, 1074, 1072,
       1102, 1090, 1089, 1103, 46, 32, 1042, 1077, 1088, 1076, 1080, 1082, 1090, 1099, 32, 1072,
       1075, 1077, 1085, 1090, 1086, 1074, 32, 1087, 1086, 1082, 1072, 1079, 1099, 1074, 1072,
       1102, 1090, 44, 32, 1075, 1076, 1077, 32, 1090, 1077, 1088, 1103, 1083, 1072, 1089, 1100,
       32, 1089, 1082, 1086, 1088, 1086, 1089, 1090, 1100, 32, 8212, 32, 1074, 32, 1085, 1086,
       1076, 1077, 32, 1080, 1083, 1080, 32, 1085, 1072, 32, 1087, 1091, 1090, 1080, 32, 99, 104,
       101, 99, 107, 101, 114, 45, 1072, 46]),
     \<comment> \<open>Folding the speed history by hour?\<close>
     ([70, 111, 108, 100, 105, 110, 103, 32, 116, 104, 101, 32, 115, 112, 101, 101, 100, 32, 104,
       105, 115, 116, 111, 114, 121, 32, 98, 121, 32, 104, 111, 117, 114, 8230],
      [1056, 1072, 1089, 1082, 1083, 1072, 1076, 1099, 1074, 1072, 1102, 32, 1080, 1089, 1090,
       1086, 1088, 1080, 1102, 32, 1079, 1072, 1084, 1077, 1088, 1086, 1074, 32, 1087, 1086, 32,
       1095, 1072, 1089, 1072, 1084, 8230]),
     \<comment> \<open>No measurements in this period\<close>
     ([78, 111, 32, 109, 101, 97, 115, 117, 114, 101, 109, 101, 110, 116, 115, 32, 105, 110, 32,
       116, 104, 105, 115, 32, 112, 101, 114, 105, 111, 100],
      [1047, 1072, 32, 1101, 1090, 1086, 1090, 32, 1087, 1077, 1088, 1080, 1086, 1076, 32, 1079,
       1072, 1084, 1077, 1088, 1086, 1074, 32, 1085, 1077, 1090]),
     \<comment> \<open>bad measurements\<close>
     ([98, 97, 100, 32, 109, 101, 97, 115, 117, 114, 101, 109, 101, 110, 116, 115],
      [1087, 1083, 1086, 1093, 1080, 1093, 32, 1079, 1072, 1084, 1077, 1088, 1086, 1074]),
     \<comment> \<open>Median\<close>
     ([77, 101, 100, 105, 97, 110],
      [1052, 1077, 1076, 1080, 1072, 1085, 1072]),
     \<comment> \<open>checker path\<close>
     ([99, 104, 101, 99, 107, 101, 114, 32, 112, 97, 116, 104],
      [1087, 1091, 1090, 1100, 32, 99, 104, 101, 99, 107, 101, 114, 45, 1072]),
     \<comment> \<open>reproduced\<close>
     ([114, 101, 112, 114, 111, 100, 117, 99, 101, 100],
      [1074, 1086, 1089, 1087, 1088, 1086, 1080, 1079, 1074, 1077, 1083, 1080]),
     \<comment> \<open>not reproduced\<close>
     ([110, 111, 116, 32, 114, 101, 112, 114, 111, 100, 117, 99, 101, 100],
      [1085, 1077, 32, 1074, 1086, 1089, 1087, 1088, 1086, 1080, 1079, 1074, 1077, 1083, 1080]),
     \<comment> \<open>inconclusive\<close>
     ([105, 110, 99, 111, 110, 99, 108, 117, 115, 105, 118, 101],
      [1085, 1077, 1089, 1086, 1087, 1086, 1089, 1090, 1072, 1074, 1080, 1084, 1086]),
     \<comment> \<open>no agent\<close>
     ([110, 111, 32, 97, 103, 101, 110, 116],
      [1085, 1077, 1090, 32, 1072, 1075, 1077, 1085, 1090, 1072]),
     \<comment> \<open>peak\<close>
     ([112, 101, 97, 107],
      [1087, 1080, 1082]),
     \<comment> \<open>off-peak\<close>
     ([111, 102, 102, 45, 112, 101, 97, 107],
      [1074, 1085, 1077, 32, 1087, 1080, 1082, 1072]),
     \<comment> \<open>agents\<close>
     ([97, 103, 101, 110, 116, 115],
      [1072, 1075, 1077, 1085, 1090, 1099]),
     \<comment> \<open>re-runs left out\<close>
     ([114, 101, 45, 114, 117, 110, 115, 32, 108, 101, 102, 116, 32, 111, 117, 116],
      [1087, 1086, 1074, 1090, 1086, 1088, 1086, 1074, 32, 1085, 1077, 32, 1091, 1095, 1090, 1077,
       1085, 1086]),
     \<comment> \<open>hours in\<close>
     ([104, 111, 117, 114, 115, 32, 105, 110],
      [1095, 1072, 1089, 1099, 32, 1087, 1086]),
     \<comment> \<open>Agent verdicts\<close>
     ([65, 103, 101, 110, 116, 32, 118, 101, 114, 100, 105, 99, 116, 115],
      [1042, 1077, 1088, 1076, 1080, 1082, 1090, 1099, 32, 1072, 1075, 1077, 1085, 1090, 1086,
       1074]),
     \<comment> \<open>Final answers of automatic probes and reachability disagreements, newe\<close>
     ([70, 105, 110, 97, 108, 32, 97, 110, 115, 119, 101, 114, 115, 32, 111, 102, 32, 97, 117,
       116, 111, 109, 97, 116, 105, 99, 32, 112, 114, 111, 98, 101, 115, 32, 97, 110, 100, 32,
       114, 101, 97, 99, 104, 97, 98, 105, 108, 105, 116, 121, 32, 100, 105, 115, 97, 103, 114,
       101, 101, 109, 101, 110, 116, 115, 44, 32, 110, 101, 119, 101, 115, 116, 32, 102, 105, 114,
       115, 116, 46, 32, 69, 118, 105, 100, 101, 110, 99, 101, 32, 111, 110, 108, 121, 58, 32,
       110, 111, 116, 104, 105, 110, 103, 32, 104, 101, 114, 101, 32, 99, 104, 97, 110, 103, 101,
       115, 32, 97, 32, 115, 116, 97, 116, 117, 115, 44, 32, 97, 110, 32, 105, 110, 99, 105, 100,
       101, 110, 116, 32, 111, 114, 32, 97, 110, 32, 97, 108, 101, 114, 116, 46],
      [1048, 1090, 1086, 1075, 1086, 1074, 1099, 1077, 32, 1086, 1090, 1074, 1077, 1090, 1099, 32,
       1072, 1074, 1090, 1086, 1084, 1072, 1090, 1080, 1095, 1077, 1089, 1082, 1080, 1093, 32,
       1087, 1088, 1086, 1073, 32, 1080, 32, 1088, 1072, 1089, 1093, 1086, 1078, 1076, 1077, 1085,
       1080, 1103, 32, 1086, 1087, 1088, 1086, 1089, 1072, 32, 1076, 1086, 1089, 1090, 1080, 1078,
       1080, 1084, 1086, 1089, 1090, 1080, 44, 32, 1085, 1086, 1074, 1099, 1077, 32, 1089, 1074,
       1077, 1088, 1093, 1091, 46, 32, 1058, 1086, 1083, 1100, 1082, 1086, 32, 1089, 1074, 1080,
       1076, 1077, 1090, 1077, 1083, 1100, 1089, 1090, 1074, 1072, 58, 32, 1085, 1080, 1095, 1090,
       1086, 32, 1079, 1076, 1077, 1089, 1100, 32, 1085, 1077, 32, 1084, 1077, 1085, 1103, 1077,
       1090, 32, 1089, 1090, 1072, 1090, 1091, 1089, 44, 32, 1080, 1085, 1094, 1080, 1076, 1077,
       1085, 1090, 32, 1080, 1083, 1080, 32, 1072, 1083, 1077, 1088, 1090, 46]),
     \<comment> \<open>All sources\<close>
     ([65, 108, 108, 32, 115, 111, 117, 114, 99, 101, 115],
      [1042, 1089, 1077, 32, 1080, 1089, 1090, 1086, 1095, 1085, 1080, 1082, 1080]),
     \<comment> \<open>No verdicts recorded yet\<close>
     ([78, 111, 32, 118, 101, 114, 100, 105, 99, 116, 115, 32, 114, 101, 99, 111, 114, 100, 101,
       100, 32, 121, 101, 116],
      [1042, 1077, 1088, 1076, 1080, 1082, 1090, 1086, 1074, 32, 1087, 1086, 1082, 1072, 32, 1085,
       1077, 1090]),
     \<comment> \<open>verdicts\<close>
     ([118, 101, 114, 100, 105, 99, 116, 115],
      [1074, 1077, 1088, 1076, 1080, 1082, 1090, 1086, 1074]),
     \<comment> \<open>Down for both\<close>
     ([68, 111, 119, 110, 32, 102, 111, 114, 32, 98, 111, 116, 104],
      [1053, 1077, 1076, 1086, 1089, 1090, 1091, 1087, 1085, 1072, 32, 1091, 32, 1086, 1073, 1086,
       1080, 1093]),
     \<comment> \<open>Agent only\<close>
     ([65, 103, 101, 110, 116, 32, 111, 110, 108, 121],
      [1058, 1086, 1083, 1100, 1082, 1086, 32, 1091, 32, 1072, 1075, 1077, 1085, 1090, 1072]),
     \<comment> \<open>Checker only\<close>
     ([67, 104, 101, 99, 107, 101, 114, 32, 111, 110, 108, 121],
      [1058, 1086, 1083, 1100, 1082, 1086, 32, 1091, 32, 99, 104, 101, 99, 107, 101, 114, 45,
       1072]),
     \<comment> \<open>Speed test failed\<close>
     ([83, 112, 101, 101, 100, 32, 116, 101, 115, 116, 32, 102, 97, 105, 108, 101, 100],
      [1047, 1072, 1084, 1077, 1088, 32, 1085, 1077, 32, 1091, 1076, 1072, 1083, 1089, 1103]),
     \<comment> \<open>Weekly path-quality digest\<close>
     ([87, 101, 101, 107, 108, 121, 32, 112, 97, 116, 104, 45, 113, 117, 97, 108, 105, 116, 121,
       32, 100, 105, 103, 101, 115, 116],
      [1045, 1078, 1077, 1085, 1077, 1076, 1077, 1083, 1100, 1085, 1072, 1103, 32, 1089, 1074,
       1086, 1076, 1082, 1072, 32, 1082, 1072, 1095, 1077, 1089, 1090, 1074, 1072, 32, 1087, 1091,
       1090, 1080]),
     \<comment> \<open>Every Monday at 10:00: which nodes were worst in the evening peak, the\<close>
     ([69, 118, 101, 114, 121, 32, 77, 111, 110, 100, 97, 121, 32, 97, 116, 32, 49, 48, 58, 48,
       48, 58, 32, 119, 104, 105, 99, 104, 32, 110, 111, 100, 101, 115, 32, 119, 101, 114, 101,
       32, 119, 111, 114, 115, 116, 32, 105, 110, 32, 116, 104, 101, 32, 101, 118, 101, 110, 105,
       110, 103, 32, 112, 101, 97, 107, 44, 32, 116, 104, 101, 32, 102, 108, 101, 101, 116, 32,
       98, 121, 32, 104, 111, 117, 114, 32, 97, 110, 100, 32, 119, 104, 97, 116, 32, 116, 104,
       101, 32, 97, 103, 101, 110, 116, 115, 32, 97, 110, 115, 119, 101, 114, 101, 100, 46, 32,
       47, 113, 117, 97, 108, 105, 116, 121, 32, 115, 101, 110, 100, 115, 32, 105, 116, 32, 111,
       110, 32, 100, 101, 109, 97, 110, 100, 46],
      [1050, 1072, 1078, 1076, 1099, 1081, 32, 1087, 1086, 1085, 1077, 1076, 1077, 1083, 1100,
       1085, 1080, 1082, 32, 1074, 32, 49, 48, 58, 48, 48, 58, 32, 1082, 1072, 1082, 1080, 1077,
       32, 1085, 1086, 1076, 1099, 32, 1093, 1091, 1078, 1077, 32, 1074, 1089, 1077, 1075, 1086,
       32, 1074, 1077, 1083, 1080, 32, 1089, 1077, 1073, 1103, 32, 1074, 32, 1074, 1077, 1095,
       1077, 1088, 1085, 1080, 1081, 32, 1087, 1080, 1082, 44, 32, 1074, 1077, 1089, 1100, 32,
       1087, 1072, 1088, 1082, 32, 1087, 1086, 32, 1095, 1072, 1089, 1072, 1084, 32, 1080, 32,
       1095, 1090, 1086, 32, 1086, 1090, 1074, 1077, 1090, 1080, 1083, 1080, 32, 1072, 1075, 1077,
       1085, 1090, 1099, 46, 32, 47, 113, 117, 97, 108, 105, 116, 121, 32, 1087, 1088, 1080, 1089,
       1099, 1083, 1072, 1077, 1090, 32, 1089, 1074, 1086, 1076, 1082, 1091, 32, 1087, 1086, 32,
       1079, 1072, 1087, 1088, 1086, 1089, 1091, 46]),
     \<comment> \<open>When the unreachable-node trigger is on, a node the checker cannot rea\<close>
     ([87, 104, 101, 110, 32, 116, 104, 101, 32, 117, 110, 114, 101, 97, 99, 104, 97, 98, 108,
       101, 45, 110, 111, 100, 101, 32, 116, 114, 105, 103, 103, 101, 114, 32, 105, 115, 32, 111,
       110, 44, 32, 97, 32, 110, 111, 100, 101, 32, 116, 104, 101, 32, 99, 104, 101, 99, 107, 101,
       114, 32, 99, 97, 110, 110, 111, 116, 32, 114, 101, 97, 99, 104, 32, 97, 116, 32, 97, 108,
       108, 32, 103, 101, 116, 115, 32, 111, 110, 101, 32, 112, 114, 111, 98, 101, 32, 112, 101,
       114, 32, 101, 112, 105, 115, 111, 100, 101, 32, 97, 115, 32, 119, 101, 108, 108, 46, 32,
       65, 32, 110, 111, 100, 101, 32, 116, 104, 97, 116, 32, 119, 111, 114, 107, 115, 32, 102,
       114, 111, 109, 32, 116, 104, 101, 32, 97, 103, 101, 110, 116, 32, 112, 111, 105, 110, 116,
       115, 32, 97, 116, 32, 97, 32, 98, 108, 111, 99, 107, 32, 111, 110, 32, 116, 104, 101, 32,
       99, 104, 101, 99, 107, 101, 114, 39, 115, 32, 112, 97, 116, 104, 59, 32, 111, 110, 101, 32,
       116, 104, 97, 116, 32, 102, 97, 105, 108, 115, 32, 116, 104, 101, 114, 101, 32, 116, 111,
       111, 32, 112, 111, 105, 110, 116, 115, 32, 97, 116, 32, 116, 104, 101, 32, 104, 111, 115,
       116, 32, 111, 114, 32, 105, 116, 115, 32, 104, 111, 115, 116, 101, 114, 46],
      [1045, 1089, 1083, 1080, 32, 1090, 1088, 1080, 1075, 1075, 1077, 1088, 32, 1085, 1077, 1076,
       1086, 1089, 1090, 1091, 1087, 1085, 1086, 1081, 32, 1085, 1086, 1076, 1099, 32, 1074, 1082,
       1083, 1102, 1095, 1105, 1085, 44, 32, 1085, 1086, 1076, 1072, 44, 32, 1076, 1086, 32, 1082,
       1086, 1090, 1086, 1088, 1086, 1081, 32, 99, 104, 101, 99, 107, 101, 114, 32, 1085, 1077,
       32, 1076, 1086, 1089, 1090, 1072, 1105, 1090, 32, 1089, 1086, 1074, 1089, 1077, 1084, 44,
       32, 1090, 1086, 1078, 1077, 32, 1087, 1086, 1083, 1091, 1095, 1072, 1077, 1090, 32, 1086,
       1076, 1085, 1091, 32, 1087, 1088, 1086, 1073, 1091, 32, 1085, 1072, 32, 1101, 1087, 1080,
       1079, 1086, 1076, 46, 32, 1045, 1089, 1083, 1080, 32, 1091, 32, 1072, 1075, 1077, 1085,
       1090, 1072, 32, 1085, 1086, 1076, 1072, 32, 1088, 1072, 1073, 1086, 1090, 1072, 1077, 1090,
       32, 8212, 32, 1074, 1077, 1088, 1086, 1103, 1090, 1085, 1072, 32, 1073, 1083, 1086, 1082,
       1080, 1088, 1086, 1074, 1082, 1072, 32, 1085, 1072, 32, 1087, 1091, 1090, 1080, 32, 99,
       104, 101, 99, 107, 101, 114, 45, 1072, 59, 32, 1077, 1089, 1083, 1080, 32, 1085, 1077, 32,
       1088, 1072, 1073, 1086, 1090, 1072, 1077, 1090, 32, 1080, 32, 1090, 1072, 1084, 32, 8212,
       32, 1074, 1077, 1088, 1086, 1103, 1090, 1077, 1085, 32, 1086, 1090, 1082, 1072, 1079, 32,
       1093, 1086, 1089, 1090, 1072, 32, 1080, 1083, 1080, 32, 1093, 1086, 1089, 1090, 1077, 1088,
       1072, 46]),
     \<comment> \<open>A slowdown counts as reproduced only when the agent measured the same \<close>
     ([65, 32, 115, 108, 111, 119, 100, 111, 119, 110, 32, 99, 111, 117, 110, 116, 115, 32, 97,
       115, 32, 114, 101, 112, 114, 111, 100, 117, 99, 101, 100, 32, 111, 110, 108, 121, 32, 119,
       104, 101, 110, 32, 116, 104, 101, 32, 97, 103, 101, 110, 116, 32, 109, 101, 97, 115, 117,
       114, 101, 100, 32, 116, 104, 101, 32, 115, 97, 109, 101, 32, 115, 112, 101, 101, 100, 45,
       116, 101, 115, 116, 32, 115, 101, 114, 118, 101, 114, 32, 97, 110, 100, 32, 103, 111, 116,
       32, 97, 32, 114, 97, 116, 101, 32, 105, 110, 32, 116, 104, 101, 32, 114, 117, 110, 39, 115,
       32, 114, 97, 110, 103, 101, 46, 32, 65, 110, 32, 97, 103, 101, 110, 116, 32, 109, 97, 110,
       121, 32, 116, 105, 109, 101, 115, 32, 102, 97, 115, 116, 101, 114, 32, 116, 104, 97, 110,
       32, 116, 104, 101, 32, 114, 117, 110, 32, 114, 101, 97, 100, 115, 32, 97, 115, 32, 116,
       104, 101, 32, 99, 104, 101, 99, 107, 101, 114, 39, 115, 32, 112, 97, 116, 104, 59, 32, 97,
       110, 111, 116, 104, 101, 114, 32, 115, 101, 114, 118, 101, 114, 32, 111, 114, 32, 97, 32,
       114, 97, 116, 101, 32, 111, 110, 32, 116, 104, 101, 32, 116, 104, 114, 101, 115, 104, 111,
       108, 100, 39, 115, 32, 101, 100, 103, 101, 32, 114, 101, 97, 100, 115, 32, 97, 115, 32,
       105, 110, 99, 111, 110, 99, 108, 117, 115, 105, 118, 101, 46],
      [1055, 1088, 1086, 1089, 1072, 1076, 1082, 1072, 32, 1089, 1095, 1080, 1090, 1072, 1077,
       1090, 1089, 1103, 32, 1074, 1086, 1089, 1087, 1088, 1086, 1080, 1079, 1074, 1077, 1076,
       1105, 1085, 1085, 1086, 1081, 44, 32, 1090, 1086, 1083, 1100, 1082, 1086, 32, 1077, 1089,
       1083, 1080, 32, 1072, 1075, 1077, 1085, 1090, 32, 1084, 1077, 1088, 1080, 1083, 32, 1090,
       1086, 1090, 32, 1078, 1077, 32, 1089, 1077, 1088, 1074, 1077, 1088, 32, 1079, 1072, 1084,
       1077, 1088, 1072, 32, 1080, 32, 1087, 1086, 1083, 1091, 1095, 1080, 1083, 32, 1089, 1082,
       1086, 1088, 1086, 1089, 1090, 1100, 32, 1090, 1086, 1075, 1086, 32, 1078, 1077, 32, 1087,
       1086, 1088, 1103, 1076, 1082, 1072, 44, 32, 1095, 1090, 1086, 32, 1087, 1088, 1086, 1075,
       1086, 1085, 46, 32, 1040, 1075, 1077, 1085, 1090, 44, 32, 1082, 1086, 1090, 1086, 1088,
       1099, 1081, 32, 1074, 32, 1088, 1072, 1079, 1099, 32, 1073, 1099, 1089, 1090, 1088, 1077,
       1077, 32, 1087, 1088, 1086, 1075, 1086, 1085, 1072, 44, 32, 1091, 1082, 1072, 1079, 1099,
       1074, 1072, 1077, 1090, 32, 1085, 1072, 32, 1087, 1091, 1090, 1100, 32, 99, 104, 101, 99,
       107, 101, 114, 45, 1072, 59, 32, 1076, 1088, 1091, 1075, 1086, 1081, 32, 1089, 1077, 1088,
       1074, 1077, 1088, 32, 1080, 1083, 1080, 32, 1089, 1082, 1086, 1088, 1086, 1089, 1090, 1100,
       32, 1085, 1072, 32, 1075, 1088, 1072, 1085, 1080, 1094, 1077, 32, 1087, 1086, 1088, 1086,
       1075, 1072, 32, 8212, 32, 171, 1085, 1077, 1089, 1086, 1087, 1086, 1089, 1090, 1072, 1074,
       1080, 1084, 1086, 187, 46]),
     \<comment> \<open>Low throughput was reproduced from another network against the same sp\<close>
     ([76, 111, 119, 32, 116, 104, 114, 111, 117, 103, 104, 112, 117, 116, 32, 119, 97, 115, 32,
       114, 101, 112, 114, 111, 100, 117, 99, 101, 100, 32, 102, 114, 111, 109, 32, 97, 110, 111,
       116, 104, 101, 114, 32, 110, 101, 116, 119, 111, 114, 107, 32, 97, 103, 97, 105, 110, 115,
       116, 32, 116, 104, 101, 32, 115, 97, 109, 101, 32, 115, 112, 101, 101, 100, 45, 116, 101,
       115, 116, 32, 115, 101, 114, 118, 101, 114, 59, 32, 116, 104, 101, 32, 110, 111, 100, 101,
       44, 32, 105, 116, 115, 32, 117, 112, 108, 105, 110, 107, 32, 111, 114, 32, 105, 116, 115,
       32, 104, 111, 115, 116, 105, 110, 103, 32, 110, 101, 116, 119, 111, 114, 107, 32, 105, 115,
       32, 108, 105, 107, 101, 108, 121, 32, 105, 110, 118, 111, 108, 118, 101, 100, 46],
      [1053, 1080, 1079, 1082, 1072, 1103, 32, 1089, 1082, 1086, 1088, 1086, 1089, 1090, 1100, 32,
       1074, 1086, 1089, 1087, 1088, 1086, 1080, 1079, 1074, 1077, 1076, 1077, 1085, 1072, 32,
       1080, 1079, 32, 1076, 1088, 1091, 1075, 1086, 1081, 32, 1089, 1077, 1090, 1080, 32, 1085,
       1072, 32, 1090, 1086, 1084, 32, 1078, 1077, 32, 1089, 1077, 1088, 1074, 1077, 1088, 1077,
       32, 1079, 1072, 1084, 1077, 1088, 1072, 59, 32, 1074, 1077, 1088, 1086, 1103, 1090, 1085,
       1086, 44, 32, 1076, 1077, 1083, 1086, 32, 1074, 32, 1085, 1086, 1076, 1077, 44, 32, 1077,
       1105, 32, 1082, 1072, 1085, 1072, 1083, 1077, 32, 1080, 1083, 1080, 32, 1089, 1077, 1090,
       1080, 32, 1093, 1086, 1089, 1090, 1080, 1085, 1075, 1072, 46]),
     \<comment> \<open>The agent got many times the checker?s rate through the same node but \<close>
     ([84, 104, 101, 32, 97, 103, 101, 110, 116, 32, 103, 111, 116, 32, 109, 97, 110, 121, 32,
       116, 105, 109, 101, 115, 32, 116, 104, 101, 32, 99, 104, 101, 99, 107, 101, 114, 39, 115,
       32, 114, 97, 116, 101, 32, 116, 104, 114, 111, 117, 103, 104, 32, 116, 104, 101, 32, 115,
       97, 109, 101, 32, 110, 111, 100, 101, 32, 98, 117, 116, 32, 115, 116, 97, 121, 101, 100,
       32, 98, 101, 108, 111, 119, 32, 116, 104, 101, 32, 116, 104, 114, 101, 115, 104, 111, 108,
       100, 59, 32, 109, 111, 115, 116, 32, 111, 102, 32, 116, 104, 101, 32, 108, 111, 115, 115,
       32, 105, 115, 32, 111, 110, 32, 116, 104, 101, 32, 112, 97, 116, 104, 32, 98, 101, 116,
       119, 101, 101, 110, 32, 116, 104, 101, 32, 99, 104, 101, 99, 107, 101, 114, 32, 97, 110,
       100, 32, 116, 104, 101, 32, 110, 111, 100, 101, 44, 32, 97, 110, 100, 32, 116, 104, 101,
       32, 110, 111, 100, 101, 32, 105, 115, 32, 110, 111, 116, 32, 97, 98, 111, 118, 101, 32,
       115, 117, 115, 112, 105, 99, 105, 111, 110, 46],
      [1040, 1075, 1077, 1085, 1090, 32, 1087, 1086, 1083, 1091, 1095, 1080, 1083, 32, 1095, 1077,
       1088, 1077, 1079, 32, 1090, 1091, 32, 1078, 1077, 32, 1085, 1086, 1076, 1091, 32, 1089,
       1082, 1086, 1088, 1086, 1089, 1090, 1100, 32, 1074, 32, 1088, 1072, 1079, 1099, 32, 1074,
       1099, 1096, 1077, 44, 32, 1095, 1077, 1084, 32, 99, 104, 101, 99, 107, 101, 114, 44, 32,
       1085, 1086, 32, 1074, 1089, 1105, 32, 1088, 1072, 1074, 1085, 1086, 32, 1085, 1080, 1078,
       1077, 32, 1087, 1086, 1088, 1086, 1075, 1072, 59, 32, 1086, 1089, 1085, 1086, 1074, 1085,
       1072, 1103, 32, 1087, 1086, 1090, 1077, 1088, 1103, 32, 8212, 32, 1085, 1072, 32, 1087,
       1091, 1090, 1080, 32, 1086, 1090, 32, 99, 104, 101, 99, 107, 101, 114, 45, 1072, 32, 1076,
       1086, 32, 1085, 1086, 1076, 1099, 44, 32, 1085, 1086, 32, 1080, 32, 1085, 1086, 1076, 1072,
       32, 1074, 1085, 1077, 32, 1087, 1086, 1076, 1086, 1079, 1088, 1077, 1085, 1080, 1081, 32,
       1085, 1077, 32, 1086, 1089, 1090, 1072, 1105, 1090, 1089, 1103, 46]),
     \<comment> \<open>The agent got many times the checker?s rate through the same node; the\<close>
     ([84, 104, 101, 32, 97, 103, 101, 110, 116, 32, 103, 111, 116, 32, 109, 97, 110, 121, 32,
       116, 105, 109, 101, 115, 32, 116, 104, 101, 32, 99, 104, 101, 99, 107, 101, 114, 39, 115,
       32, 114, 97, 116, 101, 32, 116, 104, 114, 111, 117, 103, 104, 32, 116, 104, 101, 32, 115,
       97, 109, 101, 32, 110, 111, 100, 101, 59, 32, 116, 104, 101, 32, 108, 111, 115, 115, 32,
       105, 115, 32, 111, 110, 32, 116, 104, 101, 32, 112, 97, 116, 104, 32, 98, 101, 116, 119,
       101, 101, 110, 32, 116, 104, 101, 32, 99, 104, 101, 99, 107, 101, 114, 32, 97, 110, 100,
       32, 116, 104, 101, 32, 110, 111, 100, 101, 44, 32, 110, 111, 116, 32, 105, 110, 32, 116,
       104, 101, 32, 110, 111, 100, 101, 46],
      [1040, 1075, 1077, 1085, 1090, 32, 1087, 1086, 1083, 1091, 1095, 1080, 1083, 32, 1095, 1077,
       1088, 1077, 1079, 32, 1090, 1091, 32, 1078, 1077, 32, 1085, 1086, 1076, 1091, 32, 1089,
       1082, 1086, 1088, 1086, 1089, 1090, 1100, 32, 1074, 32, 1088, 1072, 1079, 1099, 32, 1074,
       1099, 1096, 1077, 44, 32, 1095, 1077, 1084, 32, 99, 104, 101, 99, 107, 101, 114, 59, 32,
       1087, 1086, 1090, 1077, 1088, 1103, 32, 8212, 32, 1085, 1072, 32, 1087, 1091, 1090, 1080,
       32, 1086, 1090, 32, 99, 104, 101, 99, 107, 101, 114, 45, 1072, 32, 1076, 1086, 32, 1085,
       1086, 1076, 1099, 44, 32, 1072, 32, 1085, 1077, 32, 1074, 32, 1085, 1086, 1076, 1077, 46]),
     \<comment> \<open>The agent?s rate is too close to the threshold to confirm or clear the\<close>
     ([84, 104, 101, 32, 97, 103, 101, 110, 116, 39, 115, 32, 114, 97, 116, 101, 32, 105, 115, 32,
       116, 111, 111, 32, 99, 108, 111, 115, 101, 32, 116, 111, 32, 116, 104, 101, 32, 116, 104,
       114, 101, 115, 104, 111, 108, 100, 32, 116, 111, 32, 99, 111, 110, 102, 105, 114, 109, 32,
       111, 114, 32, 99, 108, 101, 97, 114, 32, 116, 104, 101, 32, 115, 108, 111, 119, 100, 111,
       119, 110, 46],
      [1057, 1082, 1086, 1088, 1086, 1089, 1090, 1100, 32, 1072, 1075, 1077, 1085, 1090, 1072, 32,
       1089, 1083, 1080, 1096, 1082, 1086, 1084, 32, 1073, 1083, 1080, 1079, 1082, 1072, 32, 1082,
       32, 1087, 1086, 1088, 1086, 1075, 1091, 44, 32, 1095, 1090, 1086, 1073, 1099, 32, 1087,
       1086, 1076, 1090, 1074, 1077, 1088, 1076, 1080, 1090, 1100, 32, 1080, 1083, 1080, 32, 1089,
       1085, 1103, 1090, 1100, 32, 1087, 1088, 1086, 1089, 1072, 1076, 1082, 1091, 46]),
     \<comment> \<open>The agent measured a different speed-test server, so its rate can neit\<close>
     ([84, 104, 101, 32, 97, 103, 101, 110, 116, 32, 109, 101, 97, 115, 117, 114, 101, 100, 32,
       97, 32, 100, 105, 102, 102, 101, 114, 101, 110, 116, 32, 115, 112, 101, 101, 100, 45, 116,
       101, 115, 116, 32, 115, 101, 114, 118, 101, 114, 44, 32, 115, 111, 32, 105, 116, 115, 32,
       114, 97, 116, 101, 32, 99, 97, 110, 32, 110, 101, 105, 116, 104, 101, 114, 32, 99, 111,
       110, 102, 105, 114, 109, 32, 110, 111, 114, 32, 99, 108, 101, 97, 114, 32, 116, 104, 101,
       32, 115, 108, 111, 119, 100, 111, 119, 110, 46],
      [1040, 1075, 1077, 1085, 1090, 32, 1084, 1077, 1088, 1080, 1083, 32, 1076, 1088, 1091, 1075,
       1086, 1081, 32, 1089, 1077, 1088, 1074, 1077, 1088, 32, 1079, 1072, 1084, 1077, 1088, 1072,
       44, 32, 1087, 1086, 1101, 1090, 1086, 1084, 1091, 32, 1077, 1075, 1086, 32, 1089, 1082,
       1086, 1088, 1086, 1089, 1090, 1100, 32, 1085, 1077, 32, 1087, 1086, 1076, 1090, 1074, 1077,
       1088, 1078, 1076, 1072, 1077, 1090, 32, 1080, 32, 1085, 1077, 32, 1089, 1085, 1080, 1084,
       1072, 1077, 1090, 32, 1087, 1088, 1086, 1089, 1072, 1076, 1082, 1091, 46]),
     \<comment> \<open>The node delivered the threshold to another network; the problem is on\<close>
     ([84, 104, 101, 32, 110, 111, 100, 101, 32, 100, 101, 108, 105, 118, 101, 114, 101, 100, 32,
       116, 104, 101, 32, 116, 104, 114, 101, 115, 104, 111, 108, 100, 32, 116, 111, 32, 97, 110,
       111, 116, 104, 101, 114, 32, 110, 101, 116, 119, 111, 114, 107, 59, 32, 116, 104, 101, 32,
       112, 114, 111, 98, 108, 101, 109, 32, 105, 115, 32, 111, 110, 32, 116, 104, 101, 32, 112,
       97, 116, 104, 32, 98, 101, 116, 119, 101, 101, 110, 32, 116, 104, 101, 32, 99, 104, 101,
       99, 107, 101, 114, 32, 97, 110, 100, 32, 116, 104, 101, 32, 110, 111, 100, 101, 44, 32,
       111, 114, 32, 97, 116, 32, 116, 104, 101, 32, 99, 104, 101, 99, 107, 101, 114, 39, 115, 32,
       116, 101, 115, 116, 32, 115, 101, 114, 118, 101, 114, 46],
      [1053, 1086, 1076, 1072, 32, 1086, 1090, 1076, 1072, 1083, 1072, 32, 1087, 1086, 1088, 1086,
       1075, 32, 1074, 32, 1076, 1088, 1091, 1075, 1091, 1102, 32, 1089, 1077, 1090, 1100, 59, 32,
       1087, 1088, 1086, 1073, 1083, 1077, 1084, 1072, 32, 1085, 1072, 32, 1087, 1091, 1090, 1080,
       32, 1086, 1090, 32, 99, 104, 101, 99, 107, 101, 114, 45, 1072, 32, 1076, 1086, 32, 1085,
       1086, 1076, 1099, 32, 1080, 1083, 1080, 32, 1085, 1072, 32, 1089, 1077, 1088, 1074, 1077,
       1088, 1077, 32, 1079, 1072, 1084, 1077, 1088, 1072, 32, 99, 104, 101, 99, 107, 101, 114,
       45, 1072, 46]),
     \<comment> \<open>The node works from another network; it is unreachable only on the che\<close>
     ([84, 104, 101, 32, 110, 111, 100, 101, 32, 119, 111, 114, 107, 115, 32, 102, 114, 111, 109,
       32, 97, 110, 111, 116, 104, 101, 114, 32, 110, 101, 116, 119, 111, 114, 107, 59, 32, 105,
       116, 32, 105, 115, 32, 117, 110, 114, 101, 97, 99, 104, 97, 98, 108, 101, 32, 111, 110,
       108, 121, 32, 111, 110, 32, 116, 104, 101, 32, 99, 104, 101, 99, 107, 101, 114, 39, 115,
       32, 112, 97, 116, 104, 44, 32, 115, 111, 32, 97, 110, 32, 73, 80, 32, 111, 114, 32, 114,
       111, 117, 116, 101, 32, 98, 108, 111, 99, 107, 32, 111, 110, 32, 116, 104, 97, 116, 32,
       115, 105, 100, 101, 32, 105, 115, 32, 108, 105, 107, 101, 108, 121, 46],
      [1048, 1079, 32, 1076, 1088, 1091, 1075, 1086, 1081, 32, 1089, 1077, 1090, 1080, 32, 1085,
       1086, 1076, 1072, 32, 1088, 1072, 1073, 1086, 1090, 1072, 1077, 1090, 59, 32, 1085, 1077,
       1076, 1086, 1089, 1090, 1091, 1087, 1085, 1072, 32, 1086, 1085, 1072, 32, 1090, 1086, 1083,
       1100, 1082, 1086, 32, 1085, 1072, 32, 1087, 1091, 1090, 1080, 32, 99, 104, 101, 99, 107,
       101, 114, 45, 1072, 44, 32, 1087, 1086, 1101, 1090, 1086, 1084, 1091, 32, 1074, 1077, 1088,
       1086, 1103, 1090, 1085, 1072, 32, 1073, 1083, 1086, 1082, 1080, 1088, 1086, 1074, 1082,
       1072, 32, 73, 80, 32, 1080, 1083, 1080, 32, 1084, 1072, 1088, 1096, 1088, 1091, 1090, 1072,
       32, 1089, 32, 1101, 1090, 1086, 1081, 32, 1089, 1090, 1086, 1088, 1086, 1085, 1099, 46]),
     \<comment> \<open>The node?s tunnel works from another network against the alternative e\<close>
     ([84, 104, 101, 32, 110, 111, 100, 101, 39, 115, 32, 116, 117, 110, 110, 101, 108, 32, 119,
       111, 114, 107, 115, 32, 102, 114, 111, 109, 32, 97, 110, 111, 116, 104, 101, 114, 32, 110,
       101, 116, 119, 111, 114, 107, 32, 97, 103, 97, 105, 110, 115, 116, 32, 116, 104, 101, 32,
       97, 108, 116, 101, 114, 110, 97, 116, 105, 118, 101, 32, 101, 110, 100, 112, 111, 105, 110,
       116, 59, 32, 105, 116, 32, 105, 115, 32, 117, 110, 114, 101, 97, 99, 104, 97, 98, 108, 101,
       32, 111, 110, 108, 121, 32, 111, 110, 32, 116, 104, 101, 32, 99, 104, 101, 99, 107, 101,
       114, 39, 115, 32, 112, 97, 116, 104, 44, 32, 115, 111, 32, 97, 110, 32, 73, 80, 32, 111,
       114, 32, 114, 111, 117, 116, 101, 32, 98, 108, 111, 99, 107, 32, 111, 110, 32, 116, 104,
       97, 116, 32, 115, 105, 100, 101, 32, 105, 115, 32, 108, 105, 107, 101, 108, 121, 46],
      [1048, 1079, 32, 1076, 1088, 1091, 1075, 1086, 1081, 32, 1089, 1077, 1090, 1080, 32, 1090,
       1091, 1085, 1085, 1077, 1083, 1100, 32, 1085, 1086, 1076, 1099, 32, 1088, 1072, 1073, 1086,
       1090, 1072, 1077, 1090, 32, 1085, 1072, 32, 1072, 1083, 1100, 1090, 1077, 1088, 1085, 1072,
       1090, 1080, 1074, 1085, 1086, 1084, 32, 101, 110, 100, 112, 111, 105, 110, 116, 59, 32,
       1085, 1077, 1076, 1086, 1089, 1090, 1091, 1087, 1085, 1072, 32, 1086, 1085, 1072, 32, 1090,
       1086, 1083, 1100, 1082, 1086, 32, 1085, 1072, 32, 1087, 1091, 1090, 1080, 32, 99, 104, 101,
       99, 107, 101, 114, 45, 1072, 44, 32, 1087, 1086, 1101, 1090, 1086, 1084, 1091, 32, 1074,
       1077, 1088, 1086, 1103, 1090, 1085, 1072, 32, 1073, 1083, 1086, 1082, 1080, 1088, 1086,
       1074, 1082, 1072, 32, 73, 80, 32, 1080, 1083, 1080, 32, 1084, 1072, 1088, 1096, 1088, 1091,
       1090, 1072, 32, 1089, 32, 1101, 1090, 1086, 1081, 32, 1089, 1090, 1086, 1088, 1086, 1085,
       1099, 46]),
     \<comment> \<open>The host answers from another network but its tunnel does not carry tr\<close>
     ([84, 104, 101, 32, 104, 111, 115, 116, 32, 97, 110, 115, 119, 101, 114, 115, 32, 102, 114,
       111, 109, 32, 97, 110, 111, 116, 104, 101, 114, 32, 110, 101, 116, 119, 111, 114, 107, 32,
       98, 117, 116, 32, 105, 116, 115, 32, 116, 117, 110, 110, 101, 108, 32, 100, 111, 101, 115,
       32, 110, 111, 116, 32, 99, 97, 114, 114, 121, 32, 116, 114, 97, 102, 102, 105, 99, 59, 32,
       116, 104, 101, 32, 112, 114, 111, 120, 121, 32, 115, 101, 114, 118, 105, 99, 101, 32, 111,
       110, 32, 116, 104, 101, 32, 110, 111, 100, 101, 32, 105, 115, 32, 108, 105, 107, 101, 108,
       121, 32, 100, 111, 119, 110, 44, 32, 97, 110, 100, 32, 116, 104, 101, 32, 99, 104, 101, 99,
       107, 101, 114, 39, 115, 32, 112, 97, 116, 104, 32, 100, 111, 101, 115, 32, 110, 111, 116,
       32, 114, 101, 97, 99, 104, 32, 116, 104, 101, 32, 104, 111, 115, 116, 32, 97, 116, 32, 97,
       108, 108, 46],
      [1048, 1079, 32, 1076, 1088, 1091, 1075, 1086, 1081, 32, 1089, 1077, 1090, 1080, 32, 1093,
       1086, 1089, 1090, 32, 1086, 1090, 1074, 1077, 1095, 1072, 1077, 1090, 44, 32, 1085, 1086,
       32, 1090, 1091, 1085, 1085, 1077, 1083, 1100, 32, 1085, 1077, 32, 1087, 1088, 1086, 1087,
       1091, 1089, 1082, 1072, 1077, 1090, 32, 1090, 1088, 1072, 1092, 1080, 1082, 59, 32, 1074,
       1077, 1088, 1086, 1103, 1090, 1085, 1086, 44, 32, 1091, 1087, 1072, 1083, 32, 112, 114,
       111, 120, 121, 45, 1089, 1077, 1088, 1074, 1080, 1089, 32, 1085, 1072, 32, 1085, 1086,
       1076, 1077, 44, 32, 1072, 32, 1089, 32, 1087, 1091, 1090, 1080, 32, 99, 104, 101, 99, 107,
       101, 114, 45, 1072, 32, 1093, 1086, 1089, 1090, 32, 1085, 1077, 1076, 1086, 1089, 1090,
       1091, 1087, 1077, 1085, 32, 1074, 1086, 1074, 1089, 1077, 46]),
     \<comment> \<open>The node is unreachable from another network as well; the host, its po\<close>
     ([84, 104, 101, 32, 110, 111, 100, 101, 32, 105, 115, 32, 117, 110, 114, 101, 97, 99, 104,
       97, 98, 108, 101, 32, 102, 114, 111, 109, 32, 97, 110, 111, 116, 104, 101, 114, 32, 110,
       101, 116, 119, 111, 114, 107, 32, 97, 115, 32, 119, 101, 108, 108, 59, 32, 116, 104, 101,
       32, 104, 111, 115, 116, 44, 32, 105, 116, 115, 32, 112, 111, 114, 116, 32, 111, 114, 32,
       116, 104, 101, 32, 104, 111, 115, 116, 105, 110, 103, 32, 110, 101, 116, 119, 111, 114,
       107, 32, 105, 115, 32, 108, 105, 107, 101, 108, 121, 32, 100, 111, 119, 110, 46],
      [1053, 1086, 1076, 1072, 32, 1085, 1077, 1076, 1086, 1089, 1090, 1091, 1087, 1085, 1072, 32,
       1080, 32, 1080, 1079, 32, 1076, 1088, 1091, 1075, 1086, 1081, 32, 1089, 1077, 1090, 1080,
       59, 32, 1074, 1077, 1088, 1086, 1103, 1090, 1085, 1086, 44, 32, 1086, 1090, 1082, 1072,
       1079, 1072, 1083, 1080, 32, 1093, 1086, 1089, 1090, 44, 32, 1077, 1075, 1086, 32, 1087,
       1086, 1088, 1090, 32, 1080, 1083, 1080, 32, 1089, 1077, 1090, 1100, 32, 1093, 1086, 1089,
       1090, 1080, 1085, 1075, 1072, 46]),
     \<comment> \<open>Configured through environment variables; changing the policy requires\<close>
     ([67, 111, 110, 102, 105, 103, 117, 114, 101, 100, 32, 116, 104, 114, 111, 117, 103, 104, 32,
       101, 110, 118, 105, 114, 111, 110, 109, 101, 110, 116, 32, 118, 97, 114, 105, 97, 98, 108,
       101, 115, 59, 32, 99, 104, 97, 110, 103, 105, 110, 103, 32, 116, 104, 101, 32, 112, 111,
       108, 105, 99, 121, 32, 114, 101, 113, 117, 105, 114, 101, 115, 32, 97, 32, 99, 111, 110,
       116, 114, 111, 108, 108, 101, 114, 32, 114, 101, 115, 116, 97, 114, 116, 46],
      [1053, 1072, 1089, 1090, 1088, 1072, 1080, 1074, 1072, 1077, 1090, 1089, 1103, 32, 1095,
       1077, 1088, 1077, 1079, 32, 101, 110, 118, 105, 114, 111, 110, 109, 101, 110, 116, 32, 118,
       97, 114, 105, 97, 98, 108, 101, 115, 59, 32, 1080, 1079, 1084, 1077, 1085, 1077, 1085,
       1080, 1077, 32, 112, 111, 108, 105, 99, 121, 32, 1090, 1088, 1077, 1073, 1091, 1077, 1090,
       32, 114, 101, 115, 116, 97, 114, 116, 32, 1082, 1086, 1085, 1090, 1088, 1086, 1083, 1083,
       1077, 1088, 1072, 46]),
     \<comment> \<open>Manual\<close>
     ([77, 97, 110, 117, 97, 108],
      [1042, 1088, 1091, 1095, 1085, 1091, 1102]),
     \<comment> \<open>Automatic\<close>
     ([65, 117, 116, 111, 109, 97, 116, 105, 99],
      [1040, 1074, 1090, 1086, 1084, 1072, 1090, 1080, 1095, 1077, 1089, 1082, 1080]),
     \<comment> \<open>Check endpoint\<close>
     ([67, 104, 101, 99, 107, 32, 101, 110, 100, 112, 111, 105, 110, 116],
      [1055, 1088, 1086, 1074, 1077, 1088, 1082, 1072, 32, 101, 110, 100, 112, 111, 105, 110,
       116]),
     \<comment> \<open>Ambiguous failure\<close>
     ([65, 109, 98, 105, 103, 117, 111, 117, 115, 32, 102, 97, 105, 108, 117, 114, 101],
      [1053, 1077, 1086, 1076, 1085, 1086, 1079, 1085, 1072, 1095, 1085, 1099, 1081, 32, 1089,
       1073, 1086, 1081]),
     \<comment> \<open>min\<close>
     ([109, 105, 110],
      [1084, 1080, 1085]),
     \<comment> \<open>sec\<close>
     ([115, 101, 99],
      [1089, 1077, 1082]),
     \<comment> \<open>The agent opens only outbound HTTPS control connections to the exact c\<close>
     ([84, 104, 101, 32, 97, 103, 101, 110, 116, 32, 111, 112, 101, 110, 115, 32, 111, 110, 108,
       121, 32, 111, 117, 116, 98, 111, 117, 110, 100, 32, 72, 84, 84, 80, 83, 32, 99, 111, 110,
       116, 114, 111, 108, 32, 99, 111, 110, 110, 101, 99, 116, 105, 111, 110, 115, 32, 116, 111,
       32, 116, 104, 101, 32, 101, 120, 97, 99, 116, 32, 99, 111, 110, 116, 114, 111, 108, 108,
       101, 114, 32, 73, 80, 46, 32, 84, 104, 101, 32, 99, 111, 110, 116, 114, 111, 108, 108, 101,
       114, 32, 97, 99, 99, 101, 112, 116, 115, 32, 101, 110, 114, 111, 108, 108, 109, 101, 110,
       116, 32, 97, 110, 100, 32, 104, 101, 97, 114, 116, 98, 101, 97, 116, 32, 111, 110, 108,
       121, 32, 102, 114, 111, 109, 32, 116, 104, 101, 32, 99, 111, 110, 102, 105, 103, 117, 114,
       101, 100, 32, 101, 120, 97, 99, 116, 32, 115, 111, 117, 114, 99, 101, 32, 73, 80, 46],
      [1040, 1075, 1077, 1085, 1090, 32, 1086, 1090, 1082, 1088, 1099, 1074, 1072, 1077, 1090, 32,
       1090, 1086, 1083, 1100, 1082, 1086, 32, 1080, 1089, 1093, 1086, 1076, 1103, 1097, 1080,
       1077, 32, 72, 84, 84, 80, 83, 32, 99, 111, 110, 116, 114, 111, 108, 32, 99, 111, 110, 110,
       101, 99, 116, 105, 111, 110, 115, 32, 1085, 1072, 32, 1090, 1086, 1095, 1085, 1099, 1081,
       32, 73, 80, 32, 1082, 1086, 1085, 1090, 1088, 1086, 1083, 1083, 1077, 1088, 1072, 46, 32,
       1050, 1086, 1085, 1090, 1088, 1086, 1083, 1083, 1077, 1088, 32, 1087, 1088, 1080, 1085,
       1080, 1084, 1072, 1077, 1090, 32, 101, 110, 114, 111, 108, 108, 109, 101, 110, 116, 32,
       1080, 32, 104, 101, 97, 114, 116, 98, 101, 97, 116, 32, 1090, 1086, 1083, 1100, 1082, 1086,
       32, 1089, 32, 1085, 1072, 1089, 1090, 1088, 1086, 1077, 1085, 1085, 1086, 1075, 1086, 32,
       1090, 1086, 1095, 1085, 1086, 1075, 1086, 32, 115, 111, 117, 114, 99, 101, 32, 73, 80, 46]),
     \<comment> \<open>Display name\<close>
     ([68, 105, 115, 112, 108, 97, 121, 32, 110, 97, 109, 101],
      [1054, 1090, 1086, 1073, 1088, 1072, 1078, 1072, 1077, 1084, 1086, 1077, 32, 1080, 1084,
       1103]),
     \<comment> \<open>Expected source IP\<close>
     ([69, 120, 112, 101, 99, 116, 101, 100, 32, 115, 111, 117, 114, 99, 101, 32, 73, 80],
      [1054, 1078, 1080, 1076, 1072, 1077, 1084, 1099, 1081, 32, 115, 111, 117, 114, 99, 101, 32,
       73, 80]),
     \<comment> \<open>Controller URL\<close>
     ([67, 111, 110, 116, 114, 111, 108, 108, 101, 114, 32, 85, 82, 76],
      [85, 82, 76, 32, 1082, 1086, 1085, 1090, 1088, 1086, 1083, 1083, 1077, 1088, 1072]),
     \<comment> \<open>Controller IP\<close>
     ([67, 111, 110, 116, 114, 111, 108, 108, 101, 114, 32, 73, 80],
      [73, 80, 32, 1082, 1086, 1085, 1090, 1088, 1086, 1083, 1083, 1077, 1088, 1072])]"

lemma ru_part1_nonempty: "list_all (\<lambda>(k, v). k \<noteq> [] \<and> v \<noteq> []) ru_part1"
  by (simp add: ru_part1_def)

end
