(* ===== verification/RuData2.thy ===== *)
theory RuData2
  imports JsRegex
begin

text \<open>
  Lines 100 to 192 of the Russian dictionary (the object \<open>ru\<close> of
  \<open>src/web/static/localization.js\<close>), entry by entry in source order, as code points. The comment
  in front of an entry is its key with every character outside a small ASCII set shown as a
  question mark.
\<close>

definition ru_part2 :: "(jstr \<times> jstr) list" where
  "ru_part2 = [
     \<comment> \<open>Region\<close>
     ([82, 101, 103, 105, 111, 110],
      [1056, 1077, 1075, 1080, 1086, 1085]),
     \<comment> \<open>Provider\<close>
     ([80, 114, 111, 118, 105, 100, 101, 114],
      [1055, 1088, 1086, 1074, 1072, 1081, 1076, 1077, 1088]),
     \<comment> \<open>Network group\<close>
     ([78, 101, 116, 119, 111, 114, 107, 32, 103, 114, 111, 117, 112],
      [1043, 1088, 1091, 1087, 1087, 1072, 32, 1089, 1077, 1090, 1080]),
     \<comment> \<open>Create agent\<close>
     ([67, 114, 101, 97, 116, 101, 32, 97, 103, 101, 110, 116],
      [1057, 1086, 1079, 1076, 1072, 1090, 1100, 32, 1072, 1075, 1077, 1085, 1090, 1072]),
     \<comment> \<open>One-time agent Compose\<close>
     ([79, 110, 101, 45, 116, 105, 109, 101, 32, 97, 103, 101, 110, 116, 32, 67, 111, 109, 112,
       111, 115, 101],
      [1054, 1076, 1085, 1086, 1088, 1072, 1079, 1086, 1074, 1099, 1081, 32, 67, 111, 109, 112,
       111, 115, 101, 32, 1072, 1075, 1077, 1085, 1090, 1072]),
     \<comment> \<open>Copy Compose\<close>
     ([67, 111, 112, 121, 32, 67, 111, 109, 112, 111, 115, 101],
      [1050, 1086, 1087, 1080, 1088, 1086, 1074, 1072, 1090, 1100, 32, 67, 111, 109, 112, 111,
       115, 101]),
     \<comment> \<open>Refresh agents\<close>
     ([82, 101, 102, 114, 101, 115, 104, 32, 97, 103, 101, 110, 116, 115],
      [1054, 1073, 1085, 1086, 1074, 1080, 1090, 1100, 32, 1072, 1075, 1077, 1085, 1090, 1086,
       1074]),
     \<comment> \<open>Save and start this Compose before the enrollment token expires. The t\<close>
     ([83, 97, 118, 101, 32, 97, 110, 100, 32, 115, 116, 97, 114, 116, 32, 116, 104, 105, 115, 32,
       67, 111, 109, 112, 111, 115, 101, 32, 98, 101, 102, 111, 114, 101, 32, 116, 104, 101, 32,
       101, 110, 114, 111, 108, 108, 109, 101, 110, 116, 32, 116, 111, 107, 101, 110, 32, 101,
       120, 112, 105, 114, 101, 115, 46, 32, 84, 104, 101, 32, 116, 111, 107, 101, 110, 32, 105,
       115, 32, 115, 104, 111, 119, 110, 32, 111, 110, 108, 121, 32, 110, 111, 119, 59, 32, 99,
       111, 110, 116, 97, 105, 110, 101, 114, 32, 114, 101, 115, 116, 97, 114, 116, 115, 32, 117,
       115, 101, 32, 116, 104, 101, 32, 105, 100, 101, 110, 116, 105, 116, 121, 32, 115, 116, 111,
       114, 101, 100, 32, 105, 110, 32, 116, 104, 101, 32, 110, 97, 109, 101, 100, 32, 118, 111,
       108, 117, 109, 101, 46],
      [1057, 1086, 1093, 1088, 1072, 1085, 1080, 32, 1080, 32, 1079, 1072, 1087, 1091, 1089, 1090,
       1080, 32, 1101, 1090, 1086, 1090, 32, 67, 111, 109, 112, 111, 115, 101, 32, 1076, 1086, 32,
       1080, 1089, 1090, 1077, 1095, 1077, 1085, 1080, 1103, 32, 101, 110, 114, 111, 108, 108,
       109, 101, 110, 116, 32, 116, 111, 107, 101, 110, 46, 32, 1058, 1086, 1082, 1077, 1085, 32,
       1087, 1086, 1082, 1072, 1079, 1099, 1074, 1072, 1077, 1090, 1089, 1103, 32, 1090, 1086,
       1083, 1100, 1082, 1086, 32, 1089, 1077, 1081, 1095, 1072, 1089, 59, 32, 1087, 1086, 1089,
       1083, 1077, 32, 1088, 1077, 1089, 1090, 1072, 1088, 1090, 1072, 32, 1082, 1086, 1085, 1090,
       1077, 1081, 1085, 1077, 1088, 32, 1080, 1089, 1087, 1086, 1083, 1100, 1079, 1091, 1077,
       1090, 32, 105, 100, 101, 110, 116, 105, 116, 121, 32, 1080, 1079, 32, 1080, 1084, 1077,
       1085, 1086, 1074, 1072, 1085, 1085, 1086, 1075, 1086, 32, 118, 111, 108, 117, 109, 101,
       46]),
     \<comment> \<open>No diagnostic agents configured\<close>
     ([78, 111, 32, 100, 105, 97, 103, 110, 111, 115, 116, 105, 99, 32, 97, 103, 101, 110, 116,
       115, 32, 99, 111, 110, 102, 105, 103, 117, 114, 101, 100],
      [1044, 1080, 1072, 1075, 1085, 1086, 1089, 1090, 1080, 1095, 1077, 1089, 1082, 1080, 1077,
       32, 1072, 1075, 1077, 1085, 1090, 1099, 32, 1085, 1077, 32, 1085, 1072, 1089, 1090, 1088,
       1086, 1077, 1085, 1099]),
     \<comment> \<open>Disabled by environment\<close>
     ([68, 105, 115, 97, 98, 108, 101, 100, 32, 98, 121, 32, 101, 110, 118, 105, 114, 111, 110,
       109, 101, 110, 116],
      [1054, 1090, 1082, 1083, 1102, 1095, 1077, 1085, 1086, 32, 1095, 1077, 1088, 1077, 1079, 32,
       101, 110, 118, 105, 114, 111, 110, 109, 101, 110, 116]),
     \<comment> \<open>Connected\<close>
     ([67, 111, 110, 110, 101, 99, 116, 101, 100],
      [1055, 1086, 1076, 1082, 1083, 1102, 1095, 1105, 1085]),
     \<comment> \<open>Enrolled\<close>
     ([69, 110, 114, 111, 108, 108, 101, 100],
      [1047, 1072, 1088, 1077, 1075, 1080, 1089, 1090, 1088, 1080, 1088, 1086, 1074, 1072, 1085]),
     \<comment> \<open>Revoked\<close>
     ([82, 101, 118, 111, 107, 101, 100],
      [1054, 1090, 1086, 1079, 1074, 1072, 1085]),
     \<comment> \<open>Awaiting enrollment\<close>
     ([65, 119, 97, 105, 116, 105, 110, 103, 32, 101, 110, 114, 111, 108, 108, 109, 101, 110,
       116],
      [1054, 1078, 1080, 1076, 1072, 1077, 1090, 32, 101, 110, 114, 111, 108, 108, 109, 101, 110,
       116]),
     \<comment> \<open>Enrollment expired\<close>
     ([69, 110, 114, 111, 108, 108, 109, 101, 110, 116, 32, 101, 120, 112, 105, 114, 101, 100],
      [69, 110, 114, 111, 108, 108, 109, 101, 110, 116, 32, 1080, 1089, 1090, 1105, 1082]),
     \<comment> \<open>Re-enroll\<close>
     ([82, 101, 45, 101, 110, 114, 111, 108, 108],
      [1055, 1077, 1088, 1077, 1074, 1099, 1087, 1091, 1089, 1090, 1080, 1090, 1100, 32, 101, 110,
       114, 111, 108, 108, 109, 101, 110, 116]),
     \<comment> \<open>Revoke\<close>
     ([82, 101, 118, 111, 107, 101],
      [1054, 1090, 1086, 1079, 1074, 1072, 1090, 1100]),
     \<comment> \<open>Replace this agent identity and issue a new one-time token?\<close>
     ([82, 101, 112, 108, 97, 99, 101, 32, 116, 104, 105, 115, 32, 97, 103, 101, 110, 116, 32,
       105, 100, 101, 110, 116, 105, 116, 121, 32, 97, 110, 100, 32, 105, 115, 115, 117, 101, 32,
       97, 32, 110, 101, 119, 32, 111, 110, 101, 45, 116, 105, 109, 101, 32, 116, 111, 107, 101,
       110, 63],
      [1047, 1072, 1084, 1077, 1085, 1080, 1090, 1100, 32, 105, 100, 101, 110, 116, 105, 116, 121,
       32, 1072, 1075, 1077, 1085, 1090, 1072, 32, 1080, 32, 1074, 1099, 1087, 1091, 1089, 1090,
       1080, 1090, 1100, 32, 1085, 1086, 1074, 1099, 1081, 32, 1086, 1076, 1085, 1086, 1088, 1072,
       1079, 1086, 1074, 1099, 1081, 32, 1090, 1086, 1082, 1077, 1085, 63]),
     \<comment> \<open>Revoke this diagnostic agent?\<close>
     ([82, 101, 118, 111, 107, 101, 32, 116, 104, 105, 115, 32, 100, 105, 97, 103, 110, 111, 115,
       116, 105, 99, 32, 97, 103, 101, 110, 116, 63],
      [1054, 1090, 1086, 1079, 1074, 1072, 1090, 1100, 32, 1101, 1090, 1086, 1075, 1086, 32, 1076,
       1080, 1072, 1075, 1085, 1086, 1089, 1090, 1080, 1095, 1077, 1089, 1082, 1086, 1075, 1086,
       32, 1072, 1075, 1077, 1085, 1090, 1072, 63]),
     \<comment> \<open>Delete this revoked diagnostic agent permanently?\<close>
     ([68, 101, 108, 101, 116, 101, 32, 116, 104, 105, 115, 32, 114, 101, 118, 111, 107, 101, 100,
       32, 100, 105, 97, 103, 110, 111, 115, 116, 105, 99, 32, 97, 103, 101, 110, 116, 32, 112,
       101, 114, 109, 97, 110, 101, 110, 116, 108, 121, 63],
      [1059, 1076, 1072, 1083, 1080, 1090, 1100, 32, 1101, 1090, 1086, 1075, 1086, 32, 1086, 1090,
       1086, 1079, 1074, 1072, 1085, 1085, 1086, 1075, 1086, 32, 1076, 1080, 1072, 1075, 1085,
       1086, 1089, 1090, 1080, 1095, 1077, 1089, 1082, 1086, 1075, 1086, 32, 1072, 1075, 1077,
       1085, 1090, 1072, 32, 1073, 1077, 1079, 1074, 1086, 1079, 1074, 1088, 1072, 1090, 1085,
       1086, 63]),
     \<comment> \<open>The saved controller identity and metadata will be removed. This canno\<close>
     ([84, 104, 101, 32, 115, 97, 118, 101, 100, 32, 99, 111, 110, 116, 114, 111, 108, 108, 101,
       114, 32, 105, 100, 101, 110, 116, 105, 116, 121, 32, 97, 110, 100, 32, 109, 101, 116, 97,
       100, 97, 116, 97, 32, 119, 105, 108, 108, 32, 98, 101, 32, 114, 101, 109, 111, 118, 101,
       100, 46, 32, 84, 104, 105, 115, 32, 99, 97, 110, 110, 111, 116, 32, 98, 101, 32, 117, 110,
       100, 111, 110, 101, 46],
      [1057, 1086, 1093, 1088, 1072, 1085, 1105, 1085, 1085, 1099, 1077, 32, 99, 111, 110, 116,
       114, 111, 108, 108, 101, 114, 32, 105, 100, 101, 110, 116, 105, 116, 121, 32, 1080, 32,
       109, 101, 116, 97, 100, 97, 116, 97, 32, 1073, 1091, 1076, 1091, 1090, 32, 1091, 1076,
       1072, 1083, 1077, 1085, 1099, 46, 32, 1069, 1090, 1086, 32, 1076, 1077, 1081, 1089, 1090,
       1074, 1080, 1077, 32, 1085, 1077, 1083, 1100, 1079, 1103, 32, 1086, 1090, 1084, 1077, 1085,
       1080, 1090, 1100, 46]),
     \<comment> \<open>The remote Compose stack and identity volume must be removed separatel\<close>
     ([84, 104, 101, 32, 114, 101, 109, 111, 116, 101, 32, 67, 111, 109, 112, 111, 115, 101, 32,
       115, 116, 97, 99, 107, 32, 97, 110, 100, 32, 105, 100, 101, 110, 116, 105, 116, 121, 32,
       118, 111, 108, 117, 109, 101, 32, 109, 117, 115, 116, 32, 98, 101, 32, 114, 101, 109, 111,
       118, 101, 100, 32, 115, 101, 112, 97, 114, 97, 116, 101, 108, 121, 46],
      [1059, 1076, 1072, 1083, 1105, 1085, 1085, 1099, 1081, 32, 67, 111, 109, 112, 111, 115, 101,
       32, 115, 116, 97, 99, 107, 32, 1080, 32, 105, 100, 101, 110, 116, 105, 116, 121, 32, 118,
       111, 108, 117, 109, 101, 32, 1085, 1091, 1078, 1085, 1086, 32, 1091, 1076, 1072, 1083,
       1080, 1090, 1100, 32, 1086, 1090, 1076, 1077, 1083, 1100, 1085, 1086, 46]),
     \<comment> \<open>Diagnostic agent deleted\<close>
     ([68, 105, 97, 103, 110, 111, 115, 116, 105, 99, 32, 97, 103, 101, 110, 116, 32, 100, 101,
       108, 101, 116, 101, 100],
      [1044, 1080, 1072, 1075, 1085, 1086, 1089, 1090, 1080, 1095, 1077, 1089, 1082, 1080, 1081,
       32, 1072, 1075, 1077, 1085, 1090, 32, 1091, 1076, 1072, 1083, 1105, 1085]),
     \<comment> \<open>Remote Diagnostics\<close>
     ([82, 101, 109, 111, 116, 101, 32, 68, 105, 97, 103, 110, 111, 115, 116, 105, 99, 115],
      [1059, 1076, 1072, 1083, 1105, 1085, 1085, 1072, 1103, 32, 1076, 1080, 1072, 1075, 1085,
       1086, 1089, 1090, 1080, 1082, 1072]),
     \<comment> \<open>Isolated evidence only; it does not change Availability.\<close>
     ([73, 115, 111, 108, 97, 116, 101, 100, 32, 101, 118, 105, 100, 101, 110, 99, 101, 32, 111,
       110, 108, 121, 59, 32, 105, 116, 32, 100, 111, 101, 115, 32, 110, 111, 116, 32, 99, 104,
       97, 110, 103, 101, 32, 65, 118, 97, 105, 108, 97, 98, 105, 108, 105, 116, 121, 46],
      [1058, 1086, 1083, 1100, 1082, 1086, 32, 1080, 1079, 1086, 1083, 1080, 1088, 1086, 1074,
       1072, 1085, 1085, 1099, 1077, 32, 1089, 1074, 1080, 1076, 1077, 1090, 1077, 1083, 1100,
       1089, 1090, 1074, 1072, 59, 32, 1086, 1085, 1080, 32, 1085, 1077, 32, 1084, 1077, 1085,
       1103, 1102, 1090, 32, 65, 118, 97, 105, 108, 97, 98, 105, 108, 105, 116, 121, 46]),
     \<comment> \<open>Maintenance diagnostic\<close>
     ([77, 97, 105, 110, 116, 101, 110, 97, 110, 99, 101, 32, 100, 105, 97, 103, 110, 111, 115,
       116, 105, 99],
      [1044, 1080, 1072, 1075, 1085, 1086, 1089, 1090, 1080, 1082, 1072, 32, 109, 97, 105, 110,
       116, 101, 110, 97, 110, 99, 101, 45, 1085, 1086, 1076, 1099]),
     \<comment> \<open>No connected diagnostic agents\<close>
     ([78, 111, 32, 99, 111, 110, 110, 101, 99, 116, 101, 100, 32, 100, 105, 97, 103, 110, 111,
       115, 116, 105, 99, 32, 97, 103, 101, 110, 116, 115],
      [1053, 1077, 1090, 32, 1087, 1086, 1076, 1082, 1083, 1102, 1095, 1105, 1085, 1085, 1099,
       1093, 32, 1076, 1080, 1072, 1075, 1085, 1086, 1089, 1090, 1080, 1095, 1077, 1089, 1082,
       1080, 1093, 32, 1072, 1075, 1077, 1085, 1090, 1086, 1074]),
     \<comment> \<open>Diagnose\<close>
     ([68, 105, 97, 103, 110, 111, 115, 101],
      [1044, 1080, 1072, 1075, 1085, 1086, 1089, 1090, 1080, 1082, 1072]),
     \<comment> \<open>Starting?\<close>
     ([83, 116, 97, 114, 116, 105, 110, 103, 8230],
      [1047, 1072, 1087, 1091, 1089, 1082, 8230]),
     \<comment> \<open>Waiting for signed observation\<close>
     ([87, 97, 105, 116, 105, 110, 103, 32, 102, 111, 114, 32, 115, 105, 103, 110, 101, 100, 32,
       111, 98, 115, 101, 114, 118, 97, 116, 105, 111, 110],
      [1054, 1078, 1080, 1076, 1072, 1085, 1080, 1077, 32, 1087, 1086, 1076, 1087, 1080, 1089,
       1072, 1085, 1085, 1086, 1075, 1086, 32, 111, 98, 115, 101, 114, 118, 97, 116, 105, 111,
       110]),
     \<comment> \<open>No diagnostics available\<close>
     ([78, 111, 32, 100, 105, 97, 103, 110, 111, 115, 116, 105, 99, 115, 32, 97, 118, 97, 105,
       108, 97, 98, 108, 101],
      [1044, 1080, 1072, 1075, 1085, 1086, 1089, 1090, 1080, 1082, 1080, 32, 1085, 1077, 1076,
       1086, 1089, 1090, 1091, 1087, 1085, 1099]),
     \<comment> \<open>Select a diagnostic to run\<close>
     ([83, 101, 108, 101, 99, 116, 32, 97, 32, 100, 105, 97, 103, 110, 111, 115, 116, 105, 99, 32,
       116, 111, 32, 114, 117, 110],
      [1042, 1099, 1073, 1077, 1088, 1080, 1090, 1077, 32, 1074, 1080, 1076, 32, 1076, 1080, 1072,
       1075, 1085, 1086, 1089, 1090, 1080, 1082, 1080]),
     \<comment> \<open>Current failure\<close>
     ([67, 117, 114, 114, 101, 110, 116, 32, 102, 97, 105, 108, 117, 114, 101],
      [1058, 1077, 1082, 1091, 1097, 1080, 1081, 32, 1089, 1073, 1086, 1081]),
     \<comment> \<open>the probe that usually answers it:\<close>
     ([116, 104, 101, 32, 112, 114, 111, 98, 101, 32, 116, 104, 97, 116, 32, 117, 115, 117, 97,
       108, 108, 121, 32, 97, 110, 115, 119, 101, 114, 115, 32, 105, 116, 58],
      [1087, 1088, 1086, 1073, 1072, 44, 32, 1082, 1086, 1090, 1086, 1088, 1072, 1103, 32, 1086,
       1073, 1099, 1095, 1085, 1086, 32, 1085, 1072, 32, 1085, 1077, 1075, 1086, 32, 1086, 1090,
       1074, 1077, 1095, 1072, 1077, 1090, 58]),
     \<comment> \<open>Endpoint status\<close>
     ([69, 110, 100, 112, 111, 105, 110, 116, 32, 115, 116, 97, 116, 117, 115],
      [1057, 1090, 1072, 1090, 1091, 1089, 32, 101, 110, 100, 112, 111, 105, 110, 116]),
     \<comment> \<open>Exit IP\<close>
     ([69, 120, 105, 116, 32, 73, 80],
      [1042, 1099, 1093, 1086, 1076, 1085, 1086, 1081, 32, 73, 80]),
     \<comment> \<open>Download throughput\<close>
     ([68, 111, 119, 110, 108, 111, 97, 100, 32, 116, 104, 114, 111, 117, 103, 104, 112, 117,
       116],
      [1055, 1088, 1086, 1087, 1091, 1089, 1082, 1085, 1072, 1103, 32, 1089, 1087, 1086, 1089,
       1086, 1073, 1085, 1086, 1089, 1090, 1100]),
     \<comment> \<open>Latency profile\<close>
     ([76, 97, 116, 101, 110, 99, 121, 32, 112, 114, 111, 102, 105, 108, 101],
      [1055, 1088, 1086, 1092, 1080, 1083, 1100, 32, 1079, 1072, 1076, 1077, 1088, 1078, 1082,
       1080]),
     \<comment> \<open>Connection stability\<close>
     ([67, 111, 110, 110, 101, 99, 116, 105, 111, 110, 32, 115, 116, 97, 98, 105, 108, 105, 116,
       121],
      [1057, 1090, 1072, 1073, 1080, 1083, 1100, 1085, 1086, 1089, 1090, 1100, 32, 1089, 1086,
       1077, 1076, 1080, 1085, 1077, 1085, 1080, 1103]),
     \<comment> \<open>TLS handshake\<close>
     ([84, 76, 83, 32, 104, 97, 110, 100, 115, 104, 97, 107, 101],
      [84, 76, 83, 32, 104, 97, 110, 100, 115, 104, 97, 107, 101]),
     \<comment> \<open>DNS resolution\<close>
     ([68, 78, 83, 32, 114, 101, 115, 111, 108, 117, 116, 105, 111, 110],
      [1056, 1077, 1079, 1086, 1083, 1074, 1080, 1085, 1075, 32, 68, 78, 83]),
     \<comment> \<open>Fetches the agent?s status endpoint through the tunnel and checks the \<close>
     ([70, 101, 116, 99, 104, 101, 115, 32, 116, 104, 101, 32, 97, 103, 101, 110, 116, 39, 115,
       32, 115, 116, 97, 116, 117, 115, 32, 101, 110, 100, 112, 111, 105, 110, 116, 32, 116, 104,
       114, 111, 117, 103, 104, 32, 116, 104, 101, 32, 116, 117, 110, 110, 101, 108, 32, 97, 110,
       100, 32, 99, 104, 101, 99, 107, 115, 32, 116, 104, 101, 32, 114, 101, 115, 112, 111, 110,
       115, 101, 32, 99, 111, 100, 101, 46],
      [1047, 1072, 1087, 1088, 1072, 1096, 1080, 1074, 1072, 1077, 1090, 32, 115, 116, 97, 116,
       117, 115, 32, 101, 110, 100, 112, 111, 105, 110, 116, 32, 1072, 1075, 1077, 1085, 1090,
       1072, 32, 1095, 1077, 1088, 1077, 1079, 32, 1090, 1091, 1085, 1085, 1077, 1083, 1100, 32,
       1080, 32, 1087, 1088, 1086, 1074, 1077, 1088, 1103, 1077, 1090, 32, 1082, 1086, 1076, 32,
       1086, 1090, 1074, 1077, 1090, 1072, 46]),
     \<comment> \<open>Compares the tunnelled exit IP with the agent?s direct IP, so traffic \<close>
     ([67, 111, 109, 112, 97, 114, 101, 115, 32, 116, 104, 101, 32, 116, 117, 110, 110, 101, 108,
       108, 101, 100, 32, 101, 120, 105, 116, 32, 73, 80, 32, 119, 105, 116, 104, 32, 116, 104,
       101, 32, 97, 103, 101, 110, 116, 39, 115, 32, 100, 105, 114, 101, 99, 116, 32, 73, 80, 44,
       32, 115, 111, 32, 116, 114, 97, 102, 102, 105, 99, 32, 98, 121, 112, 97, 115, 115, 105,
       110, 103, 32, 116, 104, 101, 32, 116, 117, 110, 110, 101, 108, 32, 105, 115, 32, 99, 97,
       117, 103, 104, 116, 46],
      [1057, 1088, 1072, 1074, 1085, 1080, 1074, 1072, 1077, 1090, 32, 1074, 1099, 1093, 1086,
       1076, 1085, 1086, 1081, 32, 73, 80, 32, 1095, 1077, 1088, 1077, 1079, 32, 1090, 1091, 1085,
       1085, 1077, 1083, 1100, 32, 1089, 32, 1087, 1088, 1103, 1084, 1099, 1084, 32, 73, 80, 32,
       1072, 1075, 1077, 1085, 1090, 1072, 44, 32, 1087, 1086, 1101, 1090, 1086, 1084, 1091, 32,
       1090, 1088, 1072, 1092, 1080, 1082, 32, 1084, 1080, 1084, 1086, 32, 1090, 1091, 1085, 1085,
       1077, 1083, 1103, 32, 1073, 1091, 1076, 1077, 1090, 32, 1079, 1072, 1084, 1077, 1095, 1077,
       1085, 46]),
     \<comment> \<open>Transfers a fixed amount through the tunnel and reports the achieved r\<close>
     ([84, 114, 97, 110, 115, 102, 101, 114, 115, 32, 97, 32, 102, 105, 120, 101, 100, 32, 97,
       109, 111, 117, 110, 116, 32, 116, 104, 114, 111, 117, 103, 104, 32, 116, 104, 101, 32, 116,
       117, 110, 110, 101, 108, 32, 97, 110, 100, 32, 114, 101, 112, 111, 114, 116, 115, 32, 116,
       104, 101, 32, 97, 99, 104, 105, 101, 118, 101, 100, 32, 114, 97, 116, 101, 46],
      [1055, 1077, 1088, 1077, 1076, 1072, 1105, 1090, 32, 1092, 1080, 1082, 1089, 1080, 1088,
       1086, 1074, 1072, 1085, 1085, 1099, 1081, 32, 1086, 1073, 1098, 1105, 1084, 32, 1095, 1077,
       1088, 1077, 1079, 32, 1090, 1091, 1085, 1085, 1077, 1083, 1100, 32, 1080, 32, 1089, 1086,
       1086, 1073, 1097, 1072, 1077, 1090, 32, 1076, 1086, 1089, 1090, 1080, 1075, 1085, 1091,
       1090, 1091, 1102, 32, 1089, 1082, 1086, 1088, 1086, 1089, 1090, 1100, 46]),
     \<comment> \<open>Repeats a short tunnelled request and reports median, p95 and jitter i\<close>
     ([82, 101, 112, 101, 97, 116, 115, 32, 97, 32, 115, 104, 111, 114, 116, 32, 116, 117, 110,
       110, 101, 108, 108, 101, 100, 32, 114, 101, 113, 117, 101, 115, 116, 32, 97, 110, 100, 32,
       114, 101, 112, 111, 114, 116, 115, 32, 109, 101, 100, 105, 97, 110, 44, 32, 112, 57, 53,
       32, 97, 110, 100, 32, 106, 105, 116, 116, 101, 114, 32, 105, 110, 115, 116, 101, 97, 100,
       32, 111, 102, 32, 97, 32, 115, 105, 110, 103, 108, 101, 32, 115, 97, 109, 112, 108, 101,
       46],
      [1055, 1086, 1074, 1090, 1086, 1088, 1103, 1077, 1090, 32, 1082, 1086, 1088, 1086, 1090,
       1082, 1080, 1081, 32, 1079, 1072, 1087, 1088, 1086, 1089, 32, 1095, 1077, 1088, 1077, 1079,
       32, 1090, 1091, 1085, 1085, 1077, 1083, 1100, 32, 1080, 32, 1089, 1086, 1086, 1073, 1097,
       1072, 1077, 1090, 32, 1084, 1077, 1076, 1080, 1072, 1085, 1091, 44, 32, 112, 57, 53, 32,
       1080, 32, 1076, 1078, 1080, 1090, 1090, 1077, 1088, 32, 1074, 1084, 1077, 1089, 1090, 1086,
       32, 1086, 1076, 1085, 1086, 1075, 1086, 32, 1079, 1072, 1084, 1077, 1088, 1072, 46]),
     \<comment> \<open>Holds one tunnelled transfer open to catch filtering that drops a sess\<close>
     ([72, 111, 108, 100, 115, 32, 111, 110, 101, 32, 116, 117, 110, 110, 101, 108, 108, 101, 100,
       32, 116, 114, 97, 110, 115, 102, 101, 114, 32, 111, 112, 101, 110, 32, 116, 111, 32, 99,
       97, 116, 99, 104, 32, 102, 105, 108, 116, 101, 114, 105, 110, 103, 32, 116, 104, 97, 116,
       32, 100, 114, 111, 112, 115, 32, 97, 32, 115, 101, 115, 115, 105, 111, 110, 32, 97, 102,
       116, 101, 114, 32, 97, 32, 100, 101, 108, 97, 121, 46],
      [1059, 1076, 1077, 1088, 1078, 1080, 1074, 1072, 1077, 1090, 32, 1087, 1077, 1088, 1077,
       1076, 1072, 1095, 1091, 32, 1095, 1077, 1088, 1077, 1079, 32, 1090, 1091, 1085, 1085, 1077,
       1083, 1100, 44, 32, 1095, 1090, 1086, 1073, 1099, 32, 1087, 1086, 1081, 1084, 1072, 1090,
       1100, 32, 1092, 1080, 1083, 1100, 1090, 1088, 1072, 1094, 1080, 1102, 44, 32, 1088, 1072,
       1079, 1088, 1099, 1074, 1072, 1102, 1097, 1091, 1102, 32, 1089, 1077, 1089, 1089, 1080,
       1102, 32, 1089, 32, 1079, 1072, 1076, 1077, 1088, 1078, 1082, 1086, 1081, 46]),
     \<comment> \<open>Completes a direct TLS handshake with the node?s SNI, without the tunn\<close>
     ([67, 111, 109, 112, 108, 101, 116, 101, 115, 32, 97, 32, 100, 105, 114, 101, 99, 116, 32,
       84, 76, 83, 32, 104, 97, 110, 100, 115, 104, 97, 107, 101, 32, 119, 105, 116, 104, 32, 116,
       104, 101, 32, 110, 111, 100, 101, 39, 115, 32, 83, 78, 73, 44, 32, 119, 105, 116, 104, 111,
       117, 116, 32, 116, 104, 101, 32, 116, 117, 110, 110, 101, 108, 44, 32, 116, 111, 32, 108,
       111, 99, 97, 116, 101, 32, 83, 78, 73, 45, 98, 97, 115, 101, 100, 32, 105, 110, 116, 101,
       114, 102, 101, 114, 101, 110, 99, 101, 46],
      [1042, 1099, 1087, 1086, 1083, 1085, 1103, 1077, 1090, 32, 1087, 1088, 1103, 1084, 1086,
       1081, 32, 84, 76, 83, 32, 104, 97, 110, 100, 115, 104, 97, 107, 101, 32, 1089, 32, 83, 78,
       73, 32, 1085, 1086, 1076, 1099, 44, 32, 1073, 1077, 1079, 32, 1090, 1091, 1085, 1085, 1077,
       1083, 1103, 44, 32, 1095, 1090, 1086, 1073, 1099, 32, 1083, 1086, 1082, 1072, 1083, 1080,
       1079, 1086, 1074, 1072, 1090, 1100, 32, 1074, 1084, 1077, 1096, 1072, 1090, 1077, 1083,
       1100, 1089, 1090, 1074, 1086, 32, 1087, 1086, 32, 83, 78, 73, 46]),
     \<comment> \<open>Resolves the node hostname through several resolvers and reports disag\<close>
     ([82, 101, 115, 111, 108, 118, 101, 115, 32, 116, 104, 101, 32, 110, 111, 100, 101, 32, 104,
       111, 115, 116, 110, 97, 109, 101, 32, 116, 104, 114, 111, 117, 103, 104, 32, 115, 101, 118,
       101, 114, 97, 108, 32, 114, 101, 115, 111, 108, 118, 101, 114, 115, 32, 97, 110, 100, 32,
       114, 101, 112, 111, 114, 116, 115, 32, 100, 105, 115, 97, 103, 114, 101, 101, 109, 101,
       110, 116, 32, 98, 101, 116, 119, 101, 101, 110, 32, 116, 104, 101, 109, 46],
      [1056, 1077, 1079, 1086, 1083, 1074, 1080, 1090, 32, 1080, 1084, 1103, 32, 1085, 1086, 1076,
       1099, 32, 1095, 1077, 1088, 1077, 1079, 32, 1085, 1077, 1089, 1082, 1086, 1083, 1100, 1082,
       1086, 32, 1088, 1077, 1079, 1086, 1083, 1074, 1077, 1088, 1086, 1074, 32, 1080, 32, 1089,
       1086, 1086, 1073, 1097, 1072, 1077, 1090, 32, 1088, 1072, 1089, 1093, 1086, 1078, 1076,
       1077, 1085, 1080, 1077, 32, 1084, 1077, 1078, 1076, 1091, 32, 1085, 1080, 1084, 1080, 46]),
     \<comment> \<open>Reliable\<close>
     ([82, 101, 108, 105, 97, 98, 108, 101],
      [1044, 1086, 1089, 1090, 1086, 1074, 1077, 1088, 1085, 1086]),
     \<comment> \<open>Unreliable\<close>
     ([85, 110, 114, 101, 108, 105, 97, 98, 108, 101],
      [1053, 1077, 1076, 1086, 1089, 1090, 1086, 1074, 1077, 1088, 1085, 1086]),
     \<comment> \<open>Retry\<close>
     ([82, 101, 116, 114, 121],
      [1055, 1086, 1074, 1090, 1086, 1088, 1080, 1090, 1100]),
     \<comment> \<open>Download JSON\<close>
     ([68, 111, 119, 110, 108, 111, 97, 100, 32, 74, 83, 79, 78],
      [1057, 1082, 1072, 1095, 1072, 1090, 1100, 32, 74, 83, 79, 78]),
     \<comment> \<open>No diagnostic summary\<close>
     ([78, 111, 32, 100, 105, 97, 103, 110, 111, 115, 116, 105, 99, 32, 115, 117, 109, 109, 97,
       114, 121],
      [1053, 1077, 1090, 32, 1076, 1080, 1072, 1075, 1085, 1086, 1089, 1090, 1080, 1095, 1077,
       1089, 1082, 1086, 1081, 32, 1089, 1074, 1086, 1076, 1082, 1080]),
     \<comment> \<open>No remote diagnostic sessions for this node\<close>
     ([78, 111, 32, 114, 101, 109, 111, 116, 101, 32, 100, 105, 97, 103, 110, 111, 115, 116, 105,
       99, 32, 115, 101, 115, 115, 105, 111, 110, 115, 32, 102, 111, 114, 32, 116, 104, 105, 115,
       32, 110, 111, 100, 101],
      [1044, 1083, 1103, 32, 1101, 1090, 1086, 1081, 32, 1085, 1086, 1076, 1099, 32, 1085, 1077,
       1090, 32, 1091, 1076, 1072, 1083, 1105, 1085, 1085, 1099, 1093, 32, 1076, 1080, 1072, 1075,
       1085, 1086, 1089, 1090, 1080, 1095, 1077, 1089, 1082, 1080, 1093, 32, 1089, 1077, 1089,
       1089, 1080, 1081]),
     \<comment> \<open>Select a connected diagnostic agent\<close>
     ([83, 101, 108, 101, 99, 116, 32, 97, 32, 99, 111, 110, 110, 101, 99, 116, 101, 100, 32, 100,
       105, 97, 103, 110, 111, 115, 116, 105, 99, 32, 97, 103, 101, 110, 116],
      [1042, 1099, 1073, 1077, 1088, 1080, 1090, 1077, 32, 1087, 1086, 1076, 1082, 1083, 1102,
       1095, 1105, 1085, 1085, 1086, 1075, 1086, 32, 1076, 1080, 1072, 1075, 1085, 1086, 1089,
       1090, 1080, 1095, 1077, 1089, 1082, 1086, 1075, 1086, 32, 1072, 1075, 1077, 1085, 1090,
       1072]),
     \<comment> \<open>Remote diagnostics started\<close>
     ([82, 101, 109, 111, 116, 101, 32, 100, 105, 97, 103, 110, 111, 115, 116, 105, 99, 115, 32,
       115, 116, 97, 114, 116, 101, 100],
      [1059, 1076, 1072, 1083, 1105, 1085, 1085, 1072, 1103, 32, 1076, 1080, 1072, 1075, 1085,
       1086, 1089, 1090, 1080, 1082, 1072, 32, 1079, 1072, 1087, 1091, 1097, 1077, 1085, 1072]),
     \<comment> \<open>Remote diagnostics cancelled\<close>
     ([82, 101, 109, 111, 116, 101, 32, 100, 105, 97, 103, 110, 111, 115, 116, 105, 99, 115, 32,
       99, 97, 110, 99, 101, 108, 108, 101, 100],
      [1059, 1076, 1072, 1083, 1105, 1085, 1085, 1072, 1103, 32, 1076, 1080, 1072, 1075, 1085,
       1086, 1089, 1090, 1080, 1082, 1072, 32, 1086, 1090, 1084, 1077, 1085, 1077, 1085, 1072]),
     \<comment> \<open>Clear all\<close>
     ([67, 108, 101, 97, 114, 32, 97, 108, 108],
      [1054, 1095, 1080, 1089, 1090, 1080, 1090, 1100, 32, 1074, 1089, 1105]),
     \<comment> \<open>Diagnostic session removed\<close>
     ([68, 105, 97, 103, 110, 111, 115, 116, 105, 99, 32, 115, 101, 115, 115, 105, 111, 110, 32,
       114, 101, 109, 111, 118, 101, 100],
      [1044, 1080, 1072, 1075, 1085, 1086, 1089, 1090, 1080, 1095, 1077, 1089, 1082, 1072, 1103,
       32, 1089, 1077, 1089, 1089, 1080, 1103, 32, 1091, 1076, 1072, 1083, 1077, 1085, 1072]),
     \<comment> \<open>Remove every remote diagnostic session for this node?\<close>
     ([82, 101, 109, 111, 118, 101, 32, 101, 118, 101, 114, 121, 32, 114, 101, 109, 111, 116, 101,
       32, 100, 105, 97, 103, 110, 111, 115, 116, 105, 99, 32, 115, 101, 115, 115, 105, 111, 110,
       32, 102, 111, 114, 32, 116, 104, 105, 115, 32, 110, 111, 100, 101, 63],
      [1059, 1076, 1072, 1083, 1080, 1090, 1100, 32, 1074, 1089, 1077, 32, 1091, 1076, 1072, 1083,
       1105, 1085, 1085, 1099, 1077, 32, 1076, 1080, 1072, 1075, 1085, 1086, 1089, 1090, 1080,
       1095, 1077, 1089, 1082, 1080, 1077, 32, 1089, 1077, 1089, 1089, 1080, 1080, 32, 1101, 1090,
       1086, 1081, 32, 1085, 1086, 1076, 1099, 63]),
     \<comment> \<open>No remote observations are available.\<close>
     ([78, 111, 32, 114, 101, 109, 111, 116, 101, 32, 111, 98, 115, 101, 114, 118, 97, 116, 105,
       111, 110, 115, 32, 97, 114, 101, 32, 97, 118, 97, 105, 108, 97, 98, 108, 101, 46],
      [1059, 1076, 1072, 1083, 1105, 1085, 1085, 1099, 1093, 32, 1088, 1077, 1079, 1091, 1083,
       1100, 1090, 1072, 1090, 1086, 1074, 32, 1085, 1077, 1090, 46]),
     \<comment> \<open>Remote diagnostics are running.\<close>
     ([82, 101, 109, 111, 116, 101, 32, 100, 105, 97, 103, 110, 111, 115, 116, 105, 99, 115, 32,
       97, 114, 101, 32, 114, 117, 110, 110, 105, 110, 103, 46],
      [1044, 1080, 1072, 1075, 1085, 1086, 1089, 1090, 1080, 1082, 1072, 32, 1074, 1099, 1087,
       1086, 1083, 1085, 1103, 1077, 1090, 1089, 1103, 46]),
     \<comment> \<open>The agent network failed direct connectivity control; this result is u\<close>
     ([84, 104, 101, 32, 97, 103, 101, 110, 116, 32, 110, 101, 116, 119, 111, 114, 107, 32, 102,
       97, 105, 108, 101, 100, 32, 100, 105, 114, 101, 99, 116, 32, 99, 111, 110, 110, 101, 99,
       116, 105, 118, 105, 116, 121, 32, 99, 111, 110, 116, 114, 111, 108, 59, 32, 116, 104, 105,
       115, 32, 114, 101, 115, 117, 108, 116, 32, 105, 115, 32, 117, 110, 114, 101, 108, 105, 97,
       98, 108, 101, 46],
      [1057, 1077, 1090, 1100, 32, 1072, 1075, 1077, 1085, 1090, 1072, 32, 1085, 1077, 32, 1087,
       1088, 1086, 1096, 1083, 1072, 32, 100, 105, 114, 101, 99, 116, 32, 99, 111, 110, 110, 101,
       99, 116, 105, 118, 105, 116, 121, 32, 99, 111, 110, 116, 114, 111, 108, 59, 32, 1088, 1077,
       1079, 1091, 1083, 1100, 1090, 1072, 1090, 32, 1085, 1077, 1076, 1086, 1089, 1090, 1086,
       1074, 1077, 1088, 1077, 1085, 46]),
     \<comment> \<open>The agent rejected the job before probing; no remote evidence was coll\<close>
     ([84, 104, 101, 32, 97, 103, 101, 110, 116, 32, 114, 101, 106, 101, 99, 116, 101, 100, 32,
       116, 104, 101, 32, 106, 111, 98, 32, 98, 101, 102, 111, 114, 101, 32, 112, 114, 111, 98,
       105, 110, 103, 59, 32, 110, 111, 32, 114, 101, 109, 111, 116, 101, 32, 101, 118, 105, 100,
       101, 110, 99, 101, 32, 119, 97, 115, 32, 99, 111, 108, 108, 101, 99, 116, 101, 100, 46],
      [1040, 1075, 1077, 1085, 1090, 32, 1086, 1090, 1082, 1083, 1086, 1085, 1080, 1083, 32, 1079,
       1072, 1076, 1072, 1085, 1080, 1077, 32, 1076, 1086, 32, 1087, 1088, 1086, 1074, 1077, 1088,
       1082, 1080, 59, 32, 1091, 1076, 1072, 1083, 1105, 1085, 1085, 1099, 1077, 32, 1089, 1074,
       1080, 1076, 1077, 1090, 1077, 1083, 1100, 1089, 1090, 1074, 1072, 32, 1085, 1077, 32, 1089,
       1086, 1073, 1088, 1072, 1085, 1099, 46]),
     \<comment> \<open>The problem was not reproduced from another network; a local ISP, rout\<close>
     ([84, 104, 101, 32, 112, 114, 111, 98, 108, 101, 109, 32, 119, 97, 115, 32, 110, 111, 116,
       32, 114, 101, 112, 114, 111, 100, 117, 99, 101, 100, 32, 102, 114, 111, 109, 32, 97, 110,
       111, 116, 104, 101, 114, 32, 110, 101, 116, 119, 111, 114, 107, 59, 32, 97, 32, 108, 111,
       99, 97, 108, 32, 73, 83, 80, 44, 32, 114, 111, 117, 116, 101, 44, 32, 68, 78, 83, 32, 111,
       114, 32, 68, 80, 73, 32, 105, 115, 115, 117, 101, 32, 105, 115, 32, 108, 105, 107, 101,
       108, 121, 46],
      [1055, 1088, 1086, 1073, 1083, 1077, 1084, 1072, 32, 1085, 1077, 32, 1074, 1086, 1089, 1087,
       1088, 1086, 1080, 1079, 1074, 1077, 1076, 1077, 1085, 1072, 32, 1080, 1079, 32, 1076, 1088,
       1091, 1075, 1086, 1081, 32, 1089, 1077, 1090, 1080, 59, 32, 1074, 1077, 1088, 1086, 1103,
       1090, 1085, 1072, 32, 1083, 1086, 1082, 1072, 1083, 1100, 1085, 1072, 1103, 32, 1087, 1088,
       1086, 1073, 1083, 1077, 1084, 1072, 32, 73, 83, 80, 44, 32, 1084, 1072, 1088, 1096, 1088,
       1091, 1090, 1072, 44, 32, 68, 78, 83, 32, 1080, 1083, 1080, 32, 68, 80, 73, 46]),
     \<comment> \<open>The error was reproduced from another network; a shared configuration,\<close>
     ([84, 104, 101, 32, 101, 114, 114, 111, 114, 32, 119, 97, 115, 32, 114, 101, 112, 114, 111,
       100, 117, 99, 101, 100, 32, 102, 114, 111, 109, 32, 97, 110, 111, 116, 104, 101, 114, 32,
       110, 101, 116, 119, 111, 114, 107, 59, 32, 97, 32, 115, 104, 97, 114, 101, 100, 32, 99,
       111, 110, 102, 105, 103, 117, 114, 97, 116, 105, 111, 110, 44, 32, 115, 101, 114, 118, 101,
       114, 32, 111, 114, 32, 112, 111, 114, 116, 32, 97, 118, 97, 105, 108, 97, 98, 105, 108,
       105, 116, 121, 32, 105, 115, 115, 117, 101, 32, 105, 115, 32, 108, 105, 107, 101, 108, 121,
       46],
      [1054, 1096, 1080, 1073, 1082, 1072, 32, 1074, 1086, 1089, 1087, 1088, 1086, 1080, 1079,
       1074, 1077, 1076, 1077, 1085, 1072, 32, 1074, 32, 1076, 1088, 1091, 1075, 1086, 1081, 32,
       1089, 1077, 1090, 1080, 59, 32, 1074, 1077, 1088, 1086, 1103, 1090, 1085, 1072, 32, 1086,
       1073, 1097, 1072, 1103, 32, 1087, 1088, 1086, 1073, 1083, 1077, 1084, 1072, 32, 1082, 1086,
       1085, 1092, 1080, 1075, 1091, 1088, 1072, 1094, 1080, 1080, 44, 32, 1089, 1077, 1088, 1074,
       1077, 1088, 1072, 32, 1080, 1083, 1080, 32, 1076, 1086, 1089, 1090, 1091, 1087, 1085, 1086,
       1089, 1090, 1080, 32, 1087, 1086, 1088, 1090, 1072, 46]),
     \<comment> \<open>The outage was reproduced; the server, port, firewall or hosting netwo\<close>
     ([84, 104, 101, 32, 111, 117, 116, 97, 103, 101, 32, 119, 97, 115, 32, 114, 101, 112, 114,
       111, 100, 117, 99, 101, 100, 59, 32, 116, 104, 101, 32, 115, 101, 114, 118, 101, 114, 44,
       32, 112, 111, 114, 116, 44, 32, 102, 105, 114, 101, 119, 97, 108, 108, 32, 111, 114, 32,
       104, 111, 115, 116, 105, 110, 103, 32, 110, 101, 116, 119, 111, 114, 107, 32, 109, 97, 121,
       32, 98, 101, 32, 105, 110, 118, 111, 108, 118, 101, 100, 46],
      [1053, 1077, 1076, 1086, 1089, 1090, 1091, 1087, 1085, 1086, 1089, 1090, 1100, 32, 1074,
       1086, 1089, 1087, 1088, 1086, 1080, 1079, 1074, 1077, 1076, 1077, 1085, 1072, 59, 32, 1074,
       1086, 1079, 1084, 1086, 1078, 1085, 1072, 32, 1087, 1088, 1086, 1073, 1083, 1077, 1084,
       1072, 32, 1089, 1077, 1088, 1074, 1077, 1088, 1072, 44, 32, 1087, 1086, 1088, 1090, 1072,
       44, 32, 102, 105, 114, 101, 119, 97, 108, 108, 32, 1080, 1083, 1080, 32, 1089, 1077, 1090,
       1080, 32, 1093, 1086, 1089, 1090, 1080, 1085, 1075, 1072, 46]),
     \<comment> \<open>The results differ without a stable pattern; there is not enough data.\<close>
     ([84, 104, 101, 32, 114, 101, 115, 117, 108, 116, 115, 32, 100, 105, 102, 102, 101, 114, 32,
       119, 105, 116, 104, 111, 117, 116, 32, 97, 32, 115, 116, 97, 98, 108, 101, 32, 112, 97,
       116, 116, 101, 114, 110, 59, 32, 116, 104, 101, 114, 101, 32, 105, 115, 32, 110, 111, 116,
       32, 101, 110, 111, 117, 103, 104, 32, 100, 97, 116, 97, 46],
      [1056, 1077, 1079, 1091, 1083, 1100, 1090, 1072, 1090, 1099, 32, 1088, 1072, 1089, 1093,
       1086, 1076, 1103, 1090, 1089, 1103, 32, 1073, 1077, 1079, 32, 1091, 1089, 1090, 1086, 1081,
       1095, 1080, 1074, 1086, 1075, 1086, 32, 1087, 1072, 1090, 1090, 1077, 1088, 1085, 1072, 59,
       32, 1076, 1072, 1085, 1085, 1099, 1093, 32, 1085, 1077, 1076, 1086, 1089, 1090, 1072, 1090,
       1086, 1095, 1085, 1086, 46]),
     \<comment> \<open>The agent reproduced a failure only against its download endpoint; the\<close>
     ([84, 104, 101, 32, 97, 103, 101, 110, 116, 32, 114, 101, 112, 114, 111, 100, 117, 99, 101,
       100, 32, 97, 32, 102, 97, 105, 108, 117, 114, 101, 32, 111, 110, 108, 121, 32, 97, 103, 97,
       105, 110, 115, 116, 32, 105, 116, 115, 32, 100, 111, 119, 110, 108, 111, 97, 100, 32, 101,
       110, 100, 112, 111, 105, 110, 116, 59, 32, 116, 104, 101, 32, 97, 108, 116, 101, 114, 110,
       97, 116, 105, 118, 101, 32, 116, 117, 110, 110, 101, 108, 108, 101, 100, 32, 101, 110, 100,
       112, 111, 105, 110, 116, 32, 119, 111, 114, 107, 101, 100, 44, 32, 115, 111, 32, 97, 110,
       32, 101, 110, 100, 112, 111, 105, 110, 116, 45, 115, 112, 101, 99, 105, 102, 105, 99, 32,
       112, 114, 111, 98, 108, 101, 109, 32, 105, 115, 32, 108, 105, 107, 101, 108, 121, 46],
      [1040, 1075, 1077, 1085, 1090, 32, 1074, 1086, 1089, 1087, 1088, 1086, 1080, 1079, 1074,
       1105, 1083, 32, 1089, 1073, 1086, 1081, 32, 1090, 1086, 1083, 1100, 1082, 1086, 32, 1085,
       1072, 32, 1089, 1074, 1086, 1105, 1084, 32, 100, 111, 119, 110, 108, 111, 97, 100, 45, 101,
       110, 100, 112, 111, 105, 110, 116, 59, 32, 1072, 1083, 1100, 1090, 1077, 1088, 1085, 1072,
       1090, 1080, 1074, 1085, 1099, 1081, 32, 1090, 1091, 1085, 1085, 1077, 1083, 1100, 1085,
       1099, 1081, 32, 101, 110, 100, 112, 111, 105, 110, 116, 32, 1086, 1090, 1088, 1072, 1073,
       1086, 1090, 1072, 1083, 44, 32, 1087, 1086, 1101, 1090, 1086, 1084, 1091, 32, 1074, 1077,
       1088, 1086, 1103, 1090, 1085, 1072, 32, 1087, 1088, 1086, 1073, 1083, 1077, 1084, 1072, 32,
       1082, 1086, 1085, 1082, 1088, 1077, 1090, 1085, 1086, 1075, 1086, 32, 101, 110, 100, 112,
       111, 105, 110, 116, 46]),
     \<comment> \<open>The agent reached the endpoint but returned no throughput evidence; th\<close>
     ([84, 104, 101, 32, 97, 103, 101, 110, 116, 32, 114, 101, 97, 99, 104, 101, 100, 32, 116,
       104, 101, 32, 101, 110, 100, 112, 111, 105, 110, 116, 32, 98, 117, 116, 32, 114, 101, 116,
       117, 114, 110, 101, 100, 32, 110, 111, 32, 116, 104, 114, 111, 117, 103, 104, 112, 117,
       116, 32, 101, 118, 105, 100, 101, 110, 99, 101, 59, 32, 116, 104, 101, 114, 101, 32, 105,
       115, 32, 110, 111, 116, 32, 101, 110, 111, 117, 103, 104, 32, 100, 97, 116, 97, 32, 116,
       111, 32, 99, 111, 109, 112, 97, 114, 101, 32, 116, 104, 101, 32, 108, 111, 119, 45, 115,
       112, 101, 101, 100, 32, 114, 101, 115, 117, 108, 116, 46],
      [1040, 1075, 1077, 1085, 1090, 32, 1076, 1086, 1096, 1105, 1083, 32, 1076, 1086, 32, 101,
       110, 100, 112, 111, 105, 110, 116, 44, 32, 1085, 1086, 32, 1085, 1077, 32, 1074, 1077,
       1088, 1085, 1091, 1083, 32, 1076, 1072, 1085, 1085, 1099, 1093, 32, 1086, 32, 1089, 1082,
       1086, 1088, 1086, 1089, 1090, 1080, 59, 32, 1089, 1088, 1072, 1074, 1085, 1080, 1090, 1100,
       32, 1088, 1077, 1079, 1091, 1083, 1100, 1090, 1072, 1090, 32, 1089, 32, 1085, 1080, 1079,
       1082, 1086, 1081, 32, 1089, 1082, 1086, 1088, 1086, 1089, 1090, 1100, 1102, 32, 1085, 1077,
       32, 1089, 32, 1095, 1077, 1084, 46]),
     \<comment> \<open>Low throughput was reproduced from another network; a shared node, ser\<close>
     ([76, 111, 119, 32, 116, 104, 114, 111, 117, 103, 104, 112, 117, 116, 32, 119, 97, 115, 32,
       114, 101, 112, 114, 111, 100, 117, 99, 101, 100, 32, 102, 114, 111, 109, 32, 97, 110, 111,
       116, 104, 101, 114, 32, 110, 101, 116, 119, 111, 114, 107, 59, 32, 97, 32, 115, 104, 97,
       114, 101, 100, 32, 110, 111, 100, 101, 44, 32, 115, 101, 114, 118, 101, 114, 32, 111, 114,
       32, 117, 112, 115, 116, 114, 101, 97, 109, 32, 99, 97, 112, 97, 99, 105, 116, 121, 32, 105,
       115, 115, 117, 101, 32, 105, 115, 32, 108, 105, 107, 101, 108, 121, 46],
      [1053, 1080, 1079, 1082, 1072, 1103, 32, 1089, 1082, 1086, 1088, 1086, 1089, 1090, 1100, 32,
       1074, 1086, 1089, 1087, 1088, 1086, 1080, 1079, 1074, 1077, 1076, 1077, 1085, 1072, 32,
       1080, 1079, 32, 1076, 1088, 1091, 1075, 1086, 1081, 32, 1089, 1077, 1090, 1080, 59, 32,
       1074, 1077, 1088, 1086, 1103, 1090, 1085, 1072, 32, 1086, 1073, 1097, 1072, 1103, 32, 1087,
       1088, 1086, 1073, 1083, 1077, 1084, 1072, 32, 1085, 1086, 1076, 1099, 44, 32, 1089, 1077,
       1088, 1074, 1077, 1088, 1072, 32, 1080, 1083, 1080, 32, 1074, 1099, 1096, 1077, 1089, 1090,
       1086, 1103, 1097, 1077, 1075, 1086, 32, 1082, 1072, 1085, 1072, 1083, 1072, 46]),
     \<comment> \<open>The speed-test problem was not reproduced from another network; the co\<close>
     ([84, 104, 101, 32, 115, 112, 101, 101, 100, 45, 116, 101, 115, 116, 32, 112, 114, 111, 98,
       108, 101, 109, 32, 119, 97, 115, 32, 110, 111, 116, 32, 114, 101, 112, 114, 111, 100, 117,
       99, 101, 100, 32, 102, 114, 111, 109, 32, 97, 110, 111, 116, 104, 101, 114, 32, 110, 101,
       116, 119, 111, 114, 107, 59, 32, 116, 104, 101, 32, 99, 111, 110, 116, 114, 111, 108, 108,
       101, 114, 32, 114, 111, 117, 116, 101, 32, 111, 114, 32, 105, 116, 115, 32, 84, 101, 115,
       116, 32, 85, 82, 76, 115, 32, 97, 114, 101, 32, 109, 111, 114, 101, 32, 108, 105, 107, 101,
       108, 121, 32, 105, 110, 118, 111, 108, 118, 101, 100, 46],
      [1055, 1088, 1086, 1073, 1083, 1077, 1084, 1072, 32, 115, 112, 101, 101, 100, 116, 101, 115,
       116, 32, 1085, 1077, 32, 1074, 1086, 1089, 1087, 1088, 1086, 1080, 1079, 1074, 1077, 1076,
       1077, 1085, 1072, 32, 1080, 1079, 32, 1076, 1088, 1091, 1075, 1086, 1081, 32, 1089, 1077,
       1090, 1080, 59, 32, 1089, 1082, 1086, 1088, 1077, 1077, 32, 1079, 1072, 1076, 1077, 1081,
       1089, 1090, 1074, 1086, 1074, 1072, 1085, 32, 1084, 1072, 1088, 1096, 1088, 1091, 1090, 32,
       1082, 1086, 1085, 1090, 1088, 1086, 1083, 1083, 1077, 1088, 1072, 32, 1080, 1083, 1080, 32,
       1077, 1075, 1086, 32, 84, 101, 115, 116, 32, 85, 82, 76, 46]),
     \<comment> \<open>The speed-test problem was reproduced from another network; a shared n\<close>
     ([84, 104, 101, 32, 115, 112, 101, 101, 100, 45, 116, 101, 115, 116, 32, 112, 114, 111, 98,
       108, 101, 109, 32, 119, 97, 115, 32, 114, 101, 112, 114, 111, 100, 117, 99, 101, 100, 32,
       102, 114, 111, 109, 32, 97, 110, 111, 116, 104, 101, 114, 32, 110, 101, 116, 119, 111, 114,
       107, 59, 32, 97, 32, 115, 104, 97, 114, 101, 100, 32, 110, 111, 100, 101, 44, 32, 115, 101,
       114, 118, 101, 114, 32, 111, 114, 32, 99, 111, 110, 102, 105, 103, 117, 114, 97, 116, 105,
       111, 110, 32, 105, 115, 115, 117, 101, 32, 105, 115, 32, 108, 105, 107, 101, 108, 121, 46],
      [1055, 1088, 1086, 1073, 1083, 1077, 1084, 1072, 32, 115, 112, 101, 101, 100, 116, 101, 115,
       116, 32, 1074, 1086, 1089, 1087, 1088, 1086, 1080, 1079, 1074, 1077, 1076, 1077, 1085,
       1072, 32, 1080, 1079, 32, 1076, 1088, 1091, 1075, 1086, 1081, 32, 1089, 1077, 1090, 1080,
       59, 32, 1074, 1077, 1088, 1086, 1103, 1090, 1085, 1072, 32, 1086, 1073, 1097, 1072, 1103,
       32, 1087, 1088, 1086, 1073, 1083, 1077, 1084, 1072, 32, 1085, 1086, 1076, 1099, 44, 32,
       1089, 1077, 1088, 1074, 1077, 1088, 1072, 32, 1080, 1083, 1080, 32, 1082, 1086, 1085, 1092,
       1080, 1075, 1091, 1088, 1072, 1094, 1080, 1080, 46]),
     \<comment> \<open>Update Subscription\<close>
     ([85, 112, 100, 97, 116, 101, 32, 83, 117, 98, 115, 99, 114, 105, 112, 116, 105, 111, 110],
      [85, 112, 100, 97, 116, 101, 32, 83, 117, 98, 115, 99, 114, 105, 112, 116, 105, 111, 110]),
     \<comment> \<open>Node Test URL\<close>
     ([78, 111, 100, 101, 32, 84, 101, 115, 116, 32, 85, 82, 76],
      [78, 111, 100, 101, 32, 84, 101, 115, 116, 32, 85, 82, 76]),
     \<comment> \<open>Project maintenance\<close>
     ([80, 114, 111, 106, 101, 99, 116, 32, 109, 97, 105, 110, 116, 101, 110, 97, 110, 99, 101],
      [1054, 1073, 1089, 1083, 1091, 1078, 1080, 1074, 1072, 1085, 1080, 1077, 32, 1087, 1088,
       1086, 1077, 1082, 1090, 1072]),
     \<comment> \<open>Project maintenance active\<close>
     ([80, 114, 111, 106, 101, 99, 116, 32, 109, 97, 105, 110, 116, 101, 110, 97, 110, 99, 101,
       32, 97, 99, 116, 105, 118, 101],
      [1054, 1073, 1089, 1083, 1091, 1078, 1080, 1074, 1072, 1085, 1080, 1077, 32, 1087, 1088,
       1086, 1077, 1082, 1090, 1072, 32, 1074, 1082, 1083, 1102, 1095, 1077, 1085, 1086]),
     \<comment> \<open>Monitoring active\<close>
     ([77, 111, 110, 105, 116, 111, 114, 105, 110, 103, 32, 97, 99, 116, 105, 118, 101],
      [1052, 1086, 1085, 1080, 1090, 1086, 1088, 1080, 1085, 1075, 32, 1072, 1082, 1090, 1080,
       1074, 1077, 1085]),
     \<comment> \<open>Enable Project Maintenance\<close>
     ([69, 110, 97, 98, 108, 101, 32, 80, 114, 111, 106, 101, 99, 116, 32, 77, 97, 105, 110, 116,
       101, 110, 97, 110, 99, 101],
      [1042, 1082, 1083, 1102, 1095, 1080, 1090, 1100, 32, 1086, 1073, 1089, 1083, 1091, 1078,
       1080, 1074, 1072, 1085, 1080, 1077, 32, 1087, 1088, 1086, 1077, 1082, 1090, 1072]),
     \<comment> \<open>Resume Project\<close>
     ([82, 101, 115, 117, 109, 101, 32, 80, 114, 111, 106, 101, 99, 116],
      [1042, 1086, 1079, 1086, 1073, 1085, 1086, 1074, 1080, 1090, 1100, 32, 1087, 1088, 1086,
       1077, 1082, 1090]),
     \<comment> \<open>Automatic monitoring, alerts, scheduled updates and Remnawave writes a\<close>
     ([65, 117, 116, 111, 109, 97, 116, 105, 99, 32, 109, 111, 110, 105, 116, 111, 114, 105, 110,
       103, 44, 32, 97, 108, 101, 114, 116, 115, 44, 32, 115, 99, 104, 101, 100, 117, 108, 101,
       100, 32, 117, 112, 100, 97, 116, 101, 115, 32, 97, 110, 100, 32, 82, 101, 109, 110, 97,
       119, 97, 118, 101, 32, 119, 114, 105, 116, 101, 115, 32, 97, 114, 101, 32, 112, 97, 117,
       115, 101, 100, 46],
      [1040, 1074, 1090, 1086, 1084, 1072, 1090, 1080, 1095, 1077, 1089, 1082, 1080, 1081, 32,
       1084, 1086, 1085, 1080, 1090, 1086, 1088, 1080, 1085, 1075, 44, 32, 1072, 1083, 1077, 1088,
       1090, 1099, 44, 32, 1087, 1083, 1072, 1085, 1086, 1074, 1099, 1077, 32, 1086, 1073, 1085,
       1086, 1074, 1083, 1077, 1085, 1080, 1103, 32, 1080, 32, 1079, 1072, 1087, 1080, 1089, 1080,
       32, 82, 101, 109, 110, 97, 119, 97, 118, 101, 32, 1087, 1088, 1080, 1086, 1089, 1090, 1072,
       1085, 1086, 1074, 1083, 1077, 1085, 1099, 46]),
     \<comment> \<open>Pauses automatic monitoring, alerts, scheduled speed tests and subscri\<close>
     ([80, 97, 117, 115, 101, 115, 32, 97, 117, 116, 111, 109, 97, 116, 105, 99, 32, 109, 111,
       110, 105, 116, 111, 114, 105, 110, 103, 44, 32, 97, 108, 101, 114, 116, 115, 44, 32, 115,
       99, 104, 101, 100, 117, 108, 101, 100, 32, 115, 112, 101, 101, 100, 32, 116, 101, 115, 116,
       115, 32, 97, 110, 100, 32, 115, 117, 98, 115, 99, 114, 105, 112, 116, 105, 111, 110, 32,
       117, 112, 100, 97, 116, 101, 115, 44, 32, 119, 105, 116, 104, 111, 117, 116, 32, 115, 116,
       111, 112, 112, 105, 110, 103, 32, 88, 114, 97, 121, 32, 116, 114, 97, 102, 102, 105, 99,
       32, 111, 114, 32, 97, 100, 109, 105, 110, 32, 112, 114, 111, 98, 101, 115, 46],
      [1055, 1088, 1080, 1086, 1089, 1090, 1072, 1085, 1072, 1074, 1083, 1080, 1074, 1072, 1077,
       1090, 32, 1072, 1074, 1090, 1086, 1084, 1072, 1090, 1080, 1095, 1077, 1089, 1082, 1080,
       1081, 32, 1084, 1086, 1085, 1080, 1090, 1086, 1088, 1080, 1085, 1075, 44, 32, 1072, 1083,
       1077, 1088, 1090, 1099, 44, 32, 1087, 1083, 1072, 1085, 1086, 1074, 1099, 1077, 32, 115,
       112, 101, 101, 100, 116, 101, 115, 116, 32, 1080, 32, 1086, 1073, 1085, 1086, 1074, 1083,
       1077, 1085, 1080, 1103, 32, 1087, 1086, 1076, 1087, 1080, 1089, 1082, 1080, 44, 32, 1085,
       1077, 32, 1086, 1089, 1090, 1072, 1085, 1072, 1074, 1083, 1080, 1074, 1072, 1103, 32, 88,
       114, 97, 121, 45, 1090, 1088, 1072, 1092, 1080, 1082, 32, 1080, 32, 97, 100, 109, 105, 110,
       32, 112, 114, 111, 98, 101, 115, 46]),
     \<comment> \<open>Automatic monitoring is temporarily paused. Proxy traffic and service \<close>
     ([65, 117, 116, 111, 109, 97, 116, 105, 99, 32, 109, 111, 110, 105, 116, 111, 114, 105, 110,
       103, 32, 105, 115, 32, 116, 101, 109, 112, 111, 114, 97, 114, 105, 108, 121, 32, 112, 97,
       117, 115, 101, 100, 46, 32, 80, 114, 111, 120, 121, 32, 116, 114, 97, 102, 102, 105, 99,
       32, 97, 110, 100, 32, 115, 101, 114, 118, 105, 99, 101, 32, 104, 101, 97, 108, 116, 104,
       32, 114, 101, 109, 97, 105, 110, 32, 97, 118, 97, 105, 108, 97, 98, 108, 101, 46],
      [1040, 1074, 1090, 1086, 1084, 1072, 1090, 1080, 1095, 1077, 1089, 1082, 1080, 1081, 32,
       1084, 1086, 1085, 1080, 1090, 1086, 1088, 1080, 1085, 1075, 32, 1074, 1088, 1077, 1084,
       1077, 1085, 1085, 1086, 32, 1087, 1088, 1080, 1086, 1089, 1090, 1072, 1085, 1086, 1074,
       1083, 1077, 1085, 46, 32, 1055, 1088, 1086, 1082, 1089, 1080, 45, 1090, 1088, 1072, 1092,
       1080, 1082, 32, 1080, 32, 104, 101, 97, 108, 116, 104, 32, 1089, 1072, 1084, 1086, 1075,
       1086, 32, 1089, 1077, 1088, 1074, 1080, 1089, 1072, 32, 1086, 1089, 1090, 1072, 1102, 1090,
       1089, 1103, 32, 1076, 1086, 1089, 1090, 1091, 1087, 1085, 1099, 1084, 1080, 46]),
     \<comment> \<open>Enable project maintenance? Automatic monitoring, alerts, scheduled up\<close>
     ([69, 110, 97, 98, 108, 101, 32, 112, 114, 111, 106, 101, 99, 116, 32, 109, 97, 105, 110,
       116, 101, 110, 97, 110, 99, 101, 63, 32, 65, 117, 116, 111, 109, 97, 116, 105, 99, 32, 109,
       111, 110, 105, 116, 111, 114, 105, 110, 103, 44, 32, 97, 108, 101, 114, 116, 115, 44, 32,
       115, 99, 104, 101, 100, 117, 108, 101, 100, 32, 117, 112, 100, 97, 116, 101, 115, 32, 97,
       110, 100, 32, 82, 101, 109, 110, 97, 119, 97, 118, 101, 32, 119, 114, 105, 116, 101, 115,
       32, 119, 105, 108, 108, 32, 98, 101, 32, 112, 97, 117, 115, 101, 100, 46],
      [1042, 1082, 1083, 1102, 1095, 1080, 1090, 1100, 32, 1086, 1073, 1089, 1083, 1091, 1078,
       1080, 1074, 1072, 1085, 1080, 1077, 32, 1087, 1088, 1086, 1077, 1082, 1090, 1072, 63, 32,
       1040, 1074, 1090, 1086, 1084, 1072, 1090, 1080, 1095, 1077, 1089, 1082, 1080, 1081, 32,
       1084, 1086, 1085, 1080, 1090, 1086, 1088, 1080, 1085, 1075, 44, 32, 1072, 1083, 1077, 1088,
       1090, 1099, 44, 32, 1087, 1083, 1072, 1085, 1086, 1074, 1099, 1077, 32, 1086, 1073, 1085,
       1086, 1074, 1083, 1077, 1085, 1080, 1103, 32, 1080, 32, 1079, 1072, 1087, 1080, 1089, 1080,
       32, 82, 101, 109, 110, 97, 119, 97, 118, 101, 32, 1073, 1091, 1076, 1091, 1090, 32, 1087,
       1088, 1080, 1086, 1089, 1090, 1072, 1085, 1086, 1074, 1083, 1077, 1085, 1099, 46]),
     \<comment> \<open>Enabling project maintenance\<close>
     ([69, 110, 97, 98, 108, 105, 110, 103, 32, 112, 114, 111, 106, 101, 99, 116, 32, 109, 97,
       105, 110, 116, 101, 110, 97, 110, 99, 101],
      [1042, 1082, 1083, 1102, 1095, 1077, 1085, 1080, 1077, 32, 1086, 1073, 1089, 1083, 1091,
       1078, 1080, 1074, 1072, 1085, 1080, 1103, 32, 1087, 1088, 1086, 1077, 1082, 1090, 1072]),
     \<comment> \<open>Resuming project monitoring\<close>
     ([82, 101, 115, 117, 109, 105, 110, 103, 32, 112, 114, 111, 106, 101, 99, 116, 32, 109, 111,
       110, 105, 116, 111, 114, 105, 110, 103],
      [1042, 1086, 1079, 1086, 1073, 1085, 1086, 1074, 1083, 1077, 1085, 1080, 1077, 32, 1084,
       1086, 1085, 1080, 1090, 1086, 1088, 1080, 1085, 1075, 1072, 32, 1087, 1088, 1086, 1077,
       1082, 1090, 1072]),
     \<comment> \<open>Project maintenance enabled\<close>
     ([80, 114, 111, 106, 101, 99, 116, 32, 109, 97, 105, 110, 116, 101, 110, 97, 110, 99, 101,
       32, 101, 110, 97, 98, 108, 101, 100],
      [1054, 1073, 1089, 1083, 1091, 1078, 1080, 1074, 1072, 1085, 1080, 1077, 32, 1087, 1088,
       1086, 1077, 1082, 1090, 1072, 32, 1074, 1082, 1083, 1102, 1095, 1077, 1085, 1086]),
     \<comment> \<open>Project monitoring resumed\<close>
     ([80, 114, 111, 106, 101, 99, 116, 32, 109, 111, 110, 105, 116, 111, 114, 105, 110, 103, 32,
       114, 101, 115, 117, 109, 101, 100],
      [1052, 1086, 1085, 1080, 1090, 1086, 1088, 1080, 1085, 1075, 32, 1087, 1088, 1086, 1077,
       1082, 1090, 1072, 32, 1074, 1086, 1079, 1086, 1073, 1085, 1086, 1074, 1083, 1105, 1085]),
     \<comment> \<open>Select one node\<close>
     ([83, 101, 108, 101, 99, 116, 32, 111, 110, 101, 32, 110, 111, 100, 101],
      [1042, 1099, 1073, 1077, 1088, 1080, 1090, 1077, 32, 1086, 1076, 1085, 1091, 32, 1085, 1086,
       1076, 1091]),
     \<comment> \<open>Selected node URL\<close>
     ([83, 101, 108, 101, 99, 116, 101, 100, 32, 110, 111, 100, 101, 32, 85, 82, 76],
      [85, 82, 76, 32, 1074, 1099, 1073, 1088, 1072, 1085, 1085, 1086, 1081, 32, 1085, 1086, 1076,
       1099]),
     \<comment> \<open>Save Node URL\<close>
     ([83, 97, 118, 101, 32, 78, 111, 100, 101, 32, 85, 82, 76],
      [1057, 1086, 1093, 1088, 1072, 1085, 1080, 1090, 1100, 32, 85, 82, 76, 32, 1085, 1086, 1076,
       1099]),
     \<comment> \<open>Clear\<close>
     ([67, 108, 101, 97, 114],
      [1054, 1095, 1080, 1089, 1090, 1080, 1090, 1100]),
     \<comment> \<open>Run Check\<close>
     ([82, 117, 110, 32, 67, 104, 101, 99, 107],
      [82, 117, 110, 32, 67, 104, 101, 99, 107]),
     \<comment> \<open>Name, server, subscription\<close>
     ([78, 97, 109, 101, 44, 32, 115, 101, 114, 118, 101, 114, 44, 32, 115, 117, 98, 115, 99, 114,
       105, 112, 116, 105, 111, 110],
      [1048, 1084, 1103, 44, 32, 1089, 1077, 1088, 1074, 1077, 1088, 44, 32, 1087, 1086, 1076,
       1087, 1080, 1089, 1082, 1072]),
     \<comment> \<open>Select Visible\<close>
     ([83, 101, 108, 101, 99, 116, 32, 86, 105, 115, 105, 98, 108, 101],
      [1042, 1099, 1073, 1088, 1072, 1090, 1100, 32, 1074, 1080, 1076, 1080, 1084, 1099, 1077]),
     \<comment> \<open>Save Schedule\<close>
     ([83, 97, 118, 101, 32, 83, 99, 104, 101, 100, 117, 108, 101],
      [1057, 1086, 1093, 1088, 1072, 1085, 1080, 1090, 1100, 32, 1088, 1072, 1089, 1087, 1080,
       1089, 1072, 1085, 1080, 1077]),
     \<comment> \<open>Reports\<close>
     ([82, 101, 112, 111, 114, 116, 115],
      [1054, 1090, 1095, 1105, 1090, 1099]),
     \<comment> \<open>Telegram Notifications\<close>
     ([84, 101, 108, 101, 103, 114, 97, 109, 32, 78, 111, 116, 105, 102, 105, 99, 97, 116, 105,
       111, 110, 115],
      [84, 101, 108, 101, 103, 114, 97, 109, 45, 1091, 1074, 1077, 1076, 1086, 1084, 1083, 1077,
       1085, 1080, 1103]),
     \<comment> \<open>Saving stores the nodes selected right now, the current filters and th\<close>
     ([83, 97, 118, 105, 110, 103, 32, 115, 116, 111, 114, 101, 115, 32, 116, 104, 101, 32, 110,
       111, 100, 101, 115, 32, 115, 101, 108, 101, 99, 116, 101, 100, 32, 114, 105, 103, 104, 116,
       32, 110, 111, 119, 44, 32, 116, 104, 101, 32, 99, 117, 114, 114, 101, 110, 116, 32, 102,
       105, 108, 116, 101, 114, 115, 32, 97, 110, 100, 32, 116, 104, 101, 32, 83, 112, 101, 101,
       100, 32, 84, 101, 115, 116, 32, 112, 97, 114, 97, 109, 101, 116, 101, 114, 115, 46],
      [1057, 1086, 1093, 1088, 1072, 1085, 1077, 1085, 1080, 1077, 32, 1079, 1072, 1087, 1080,
       1089, 1099, 1074, 1072, 1077, 1090, 32, 1074, 1099, 1073, 1088, 1072, 1085, 1085, 1099,
       1077, 32, 1089, 1077, 1081, 1095, 1072, 1089, 32, 1085, 1086, 1076, 1099, 44, 32, 1090,
       1077, 1082, 1091, 1097, 1080, 1077, 32, 1092, 1080, 1083, 1100, 1090, 1088, 1099, 32, 1080,
       32, 1087, 1072, 1088, 1072, 1084, 1077, 1090, 1088, 1099, 32, 83, 112, 101, 101, 100, 116,
       101, 115, 116, 46]),
     \<comment> \<open>Restore saved scope\<close>
     ([82, 101, 115, 116, 111, 114, 101, 32, 115, 97, 118, 101, 100, 32, 115, 99, 111, 112, 101],
      [1042, 1086, 1089, 1089, 1090, 1072, 1085, 1086, 1074, 1080, 1090, 1100, 32, 1089, 1086,
       1093, 1088, 1072, 1085, 1105, 1085, 1085, 1099, 1081, 32, 1074, 1099, 1073, 1086, 1088]),
     \<comment> \<open>Saved scope: none\<close>
     ([83, 97, 118, 101, 100, 32, 115, 99, 111, 112, 101, 58, 32, 110, 111, 110, 101],
      [1057, 1086, 1093, 1088, 1072, 1085, 1105, 1085, 1085, 1099, 1081, 32, 1074, 1099, 1073,
       1086, 1088, 58, 32, 1085, 1077, 1090]),
     \<comment> \<open>Speed test\<close>
     ([83, 112, 101, 101, 100, 32, 116, 101, 115, 116],
      [83, 112, 101, 101, 100, 116, 101, 115, 116]),
     \<comment> \<open>The schedule applies to the selected nodes, current filters and Speed \<close>
     ([84, 104, 101, 32, 115, 99, 104, 101, 100, 117, 108, 101, 32, 97, 112, 112, 108, 105, 101,
       115, 32, 116, 111, 32, 116, 104, 101, 32, 115, 101, 108, 101, 99, 116, 101, 100, 32, 110,
       111, 100, 101, 115, 44, 32, 99, 117, 114, 114, 101, 110, 116, 32, 102, 105, 108, 116, 101,
       114, 115, 32, 97, 110, 100, 32, 83, 112, 101, 101, 100, 32, 84, 101, 115, 116, 32, 112, 97,
       114, 97, 109, 101, 116, 101, 114, 115, 46],
      [1056, 1072, 1089, 1087, 1080, 1089, 1072, 1085, 1080, 1077, 32, 1087, 1088, 1080, 1084,
       1077, 1085, 1103, 1077, 1090, 1089, 1103, 32, 1082, 32, 1074, 1099, 1073, 1088, 1072, 1085,
       1085, 1099, 1084, 32, 1085, 1086, 1076, 1072, 1084, 44, 32, 1090, 1077, 1082, 1091, 1097,
       1080, 1084, 32, 1092, 1080, 1083, 1100, 1090, 1088, 1072, 1084, 32, 1080, 32, 1087, 1072,
       1088, 1072, 1084, 1077, 1090, 1088, 1072, 1084, 32, 83, 112, 101, 101, 100, 116, 101, 115,
       116, 46]),
     \<comment> \<open>History\<close>
     ([72, 105, 115, 116, 111, 114, 121],
      [1048, 1089, 1090, 1086, 1088, 1080, 1103]),
     \<comment> \<open>History retention\<close>
     ([72, 105, 115, 116, 111, 114, 121, 32, 114, 101, 116, 101, 110, 116, 105, 111, 110],
      [1061, 1088, 1072, 1085, 1077, 1085, 1080, 1077, 32, 1080, 1089, 1090, 1086, 1088, 1080,
       1080]),
     \<comment> \<open>Save History Settings\<close>
     ([83, 97, 118, 101, 32, 72, 105, 115, 116, 111, 114, 121, 32, 83, 101, 116, 116, 105, 110,
       103, 115],
      [1057, 1086, 1093, 1088, 1072, 1085, 1080, 1090, 1100, 32, 1085, 1072, 1089, 1090, 1088,
       1086, 1081, 1082, 1080, 32, 1080, 1089, 1090, 1086, 1088, 1080, 1080]),
     \<comment> \<open>The same retention period applies to Speedtest and Availability histor\<close>
     ([84, 104, 101, 32, 115, 97, 109, 101, 32, 114, 101, 116, 101, 110, 116, 105, 111, 110, 32,
       112, 101, 114, 105, 111, 100, 32, 97, 112, 112, 108, 105, 101, 115, 32, 116, 111, 32, 83,
       112, 101, 101, 100, 116, 101, 115, 116, 32, 97, 110, 100, 32, 65, 118, 97, 105, 108, 97,
       98, 105, 108, 105, 116, 121, 32, 104, 105, 115, 116, 111, 114, 121, 32, 102, 111, 114, 32,
       101, 118, 101, 114, 121, 32, 110, 111, 100, 101, 46],
      [1054, 1076, 1080, 1085, 32, 1089, 1088, 1086, 1082, 32, 1093, 1088, 1072, 1085, 1077, 1085,
       1080, 1103, 32, 1087, 1088, 1080, 1084, 1077, 1085, 1103, 1077, 1090, 1089, 1103, 32, 1082,
       32, 1080, 1089, 1090, 1086, 1088, 1080, 1080, 32, 83, 112, 101, 101, 100, 116, 101, 115,
       116, 32, 1080, 32, 65, 118, 97, 105, 108, 97, 98, 105, 108, 105, 116, 121, 32, 1074, 1089,
       1077, 1093, 32, 1085, 1086, 1076, 46]),
     \<comment> \<open>Sensitive Telegram values are read from environment variables only.\<close>
     ([83, 101, 110, 115, 105, 116, 105, 118, 101, 32, 84, 101, 108, 101, 103, 114, 97, 109, 32,
       118, 97, 108, 117, 101, 115, 32, 97, 114, 101, 32, 114, 101, 97, 100, 32, 102, 114, 111,
       109, 32, 101, 110, 118, 105, 114, 111, 110, 109, 101, 110, 116, 32, 118, 97, 114, 105, 97,
       98, 108, 101, 115, 32, 111, 110, 108, 121, 46],
      [1063, 1091, 1074, 1089, 1090, 1074, 1080, 1090, 1077, 1083, 1100, 1085, 1099, 1077, 32,
       1079, 1085, 1072, 1095, 1077, 1085, 1080, 1103, 32, 84, 101, 108, 101, 103, 114, 97, 109,
       32, 1095, 1080, 1090, 1072, 1102, 1090, 1089, 1103, 32, 1090, 1086, 1083, 1100, 1082, 1086,
       32, 1080, 1079, 32, 1087, 1077, 1088, 1077, 1084, 1077, 1085, 1085, 1099, 1093, 32, 1086,
       1082, 1088, 1091, 1078, 1077, 1085, 1080, 1103, 46]),
     \<comment> \<open>Time zone\<close>
     ([84, 105, 109, 101, 32, 122, 111, 110, 101],
      [1063, 1072, 1089, 1086, 1074, 1086, 1081, 32, 1087, 1086, 1103, 1089]),
     \<comment> \<open>Server time\<close>
     ([83, 101, 114, 118, 101, 114, 32, 116, 105, 109, 101],
      [1042, 1088, 1077, 1084, 1103, 32, 1089, 1077, 1088, 1074, 1077, 1088, 1072]),
     \<comment> \<open>Every time the bot prints ? alerts, reports, mute expiry ? is shown in\<close>
     ([69, 118, 101, 114, 121, 32, 116, 105, 109, 101, 32, 116, 104, 101, 32, 98, 111, 116, 32,
       112, 114, 105, 110, 116, 115, 32, 8212, 32, 97, 108, 101, 114, 116, 115, 44, 32, 114, 101,
       112, 111, 114, 116, 115, 44, 32, 109, 117, 116, 101, 32, 101, 120, 112, 105, 114, 121, 32,
       8212, 32, 105, 115, 32, 115, 104, 111, 119, 110, 32, 105, 110, 32, 116, 104, 105, 115, 32,
       122, 111, 110, 101, 46, 32, 83, 101, 114, 118, 101, 114, 32, 116, 105, 109, 101, 32, 107,
       101, 101, 112, 115, 32, 116, 104, 101, 32, 99, 104, 101, 99, 107, 101, 114, 39, 115, 32,
       111, 119, 110, 32, 122, 111, 110, 101, 44, 32, 119, 104, 105, 99, 104, 32, 105, 115, 32,
       85, 84, 67, 32, 117, 110, 108, 101, 115, 115, 32, 116, 104, 101, 32, 99, 111, 110, 116, 97,
       105, 110, 101, 114, 32, 115, 101, 116, 115, 32, 111, 110, 101, 46],
      [1042, 1089, 1105, 32, 1074, 1088, 1077, 1084, 1103, 44, 32, 1082, 1086, 1090, 1086, 1088,
       1086, 1077, 32, 1087, 1077, 1095, 1072, 1090, 1072, 1077, 1090, 32, 1073, 1086, 1090, 32,
       8212, 32, 1072, 1083, 1077, 1088, 1090, 1099, 44, 32, 1086, 1090, 1095, 1105, 1090, 1099,
       44, 32, 1086, 1082, 1086, 1085, 1095, 1072, 1085, 1080, 1077, 32, 1090, 1080, 1096, 1080,
       1085, 1099, 32, 8212, 32, 1087, 1086, 1082, 1072, 1079, 1099, 1074, 1072, 1077, 1090, 1089,
       1103, 32, 1074, 32, 1101, 1090, 1086, 1084, 32, 1087, 1086, 1103, 1089, 1077, 46, 32, 171,
       1042, 1088, 1077, 1084, 1103, 32, 1089, 1077, 1088, 1074, 1077, 1088, 1072, 187, 32, 1086,
       1089, 1090, 1072, 1074, 1083, 1103, 1077, 1090, 32, 1089, 1086, 1073, 1089, 1090, 1074,
       1077, 1085, 1085, 1099, 1081, 32, 1087, 1086, 1103, 1089, 32, 99, 104, 101, 99, 107, 101,
       114, 45, 1072, 58, 32, 1101, 1090, 1086, 32, 85, 84, 67, 44, 32, 1077, 1089, 1083, 1080,
       32, 1082, 1086, 1085, 1090, 1077, 1081, 1085, 1077, 1088, 1091, 32, 1085, 1077, 32, 1079,
       1072, 1076, 1072, 1085, 32, 1076, 1088, 1091, 1075, 1086, 1081, 46]),
     \<comment> \<open>Bot token\<close>
     ([66, 111, 116, 32, 116, 111, 107, 101, 110],
      [66, 111, 116, 32, 116, 111, 107, 101, 110]),
     \<comment> \<open>Chat\<close>
     ([67, 104, 97, 116],
      [1063, 1072, 1090]),
     \<comment> \<open>Topic\<close>
     ([84, 111, 112, 105, 99],
      [1058, 1086, 1087, 1080, 1082]),
     \<comment> \<open>Admins\<close>
     ([65, 100, 109, 105, 110, 115],
      [1040, 1076, 1084, 1080, 1085, 1080, 1089, 1090, 1088, 1072, 1090, 1086, 1088, 1099]),
     \<comment> \<open>Not set\<close>
     ([78, 111, 116, 32, 115, 101, 116],
      [1053, 1077, 32, 1079, 1072, 1076, 1072, 1085, 1086]),
     \<comment> \<open>Availability alerts\<close>
     ([65, 118, 97, 105, 108, 97, 98, 105, 108, 105, 116, 121, 32, 97, 108, 101, 114, 116, 115],
      [65, 118, 97, 105, 108, 97, 98, 105, 108, 105, 116, 121, 45, 1072, 1083, 1077, 1088, 1090,
       1099]),
     \<comment> \<open>Speed reports\<close>
     ([83, 112, 101, 101, 100, 32, 114, 101, 112, 111, 114, 116, 115],
      [83, 112, 101, 101, 100, 116, 101, 115, 116, 45, 1086, 1090, 1095, 1105, 1090, 1099]),
     \<comment> \<open>Report mode\<close>
     ([82, 101, 112, 111, 114, 116, 32, 109, 111, 100, 101],
      [1056, 1077, 1078, 1080, 1084, 32, 1086, 1090, 1095, 1105, 1090, 1072]),
     \<comment> \<open>Report rows\<close>
     ([82, 101, 112, 111, 114, 116, 32, 114, 111, 119, 115],
      [1057, 1090, 1088, 1086, 1082, 32, 1074, 32, 1086, 1090, 1095, 1105, 1090, 1077]),
     \<comment> \<open>Save Telegram\<close>
     ([83, 97, 118, 101, 32, 84, 101, 108, 101, 103, 114, 97, 109],
      [1057, 1086, 1093, 1088, 1072, 1085, 1080, 1090, 1100, 32, 84, 101, 108, 101, 103, 114, 97,
       109]),
     \<comment> \<open>Bot commands\<close>
     ([66, 111, 116, 32, 99, 111, 109, 109, 97, 110, 100, 115],
      [1050, 1086, 1084, 1072, 1085, 1076, 1099, 32, 1073, 1086, 1090, 1072]),
     \<comment> \<open>Automatic Backups\<close>
     ([65, 117, 116, 111, 109, 97, 116, 105, 99, 32, 66, 97, 99, 107, 117, 112, 115],
      [1040, 1074, 1090, 1086, 1084, 1072, 1090, 1080, 1095, 1077, 1089, 1082, 1080, 1077, 32,
       1073, 1101, 1082, 1072, 1087, 1099]),
     \<comment> \<open>Download Backup\<close>
     ([68, 111, 119, 110, 108, 111, 97, 100, 32, 66, 97, 99, 107, 117, 112],
      [1057, 1082, 1072, 1095, 1072, 1090, 1100, 32, 1073, 1101, 1082, 1072, 1087]),
     \<comment> \<open>Restore on Restart\<close>
     ([82, 101, 115, 116, 111, 114, 101, 32, 111, 110, 32, 82, 101, 115, 116, 97, 114, 116],
      [1042, 1086, 1089, 1089, 1090, 1072, 1085, 1086, 1074, 1080, 1090, 1100, 32, 1087, 1088,
       1080, 32, 1087, 1077, 1088, 1077, 1079, 1072, 1087, 1091, 1089, 1082, 1077]),
     \<comment> \<open>One archive is created per UTC day in\<close>
     ([79, 110, 101, 32, 97, 114, 99, 104, 105, 118, 101, 32, 105, 115, 32, 99, 114, 101, 97, 116,
       101, 100, 32, 112, 101, 114, 32, 85, 84, 67, 32, 100, 97, 121, 32, 105, 110],
      [1054, 1076, 1080, 1085, 32, 1072, 1088, 1093, 1080, 1074, 32, 1074, 32, 1089, 1091, 1090,
       1082, 1080, 32, 1087, 1086, 32, 85, 84, 67, 32, 1089, 1086, 1079, 1076, 1072, 1105, 1090,
       1089, 1103, 32, 1074]),
     \<comment> \<open>. Archives older than 7 days and files beyond the newest 7 are removed\<close>
     ([46, 32, 65, 114, 99, 104, 105, 118, 101, 115, 32, 111, 108, 100, 101, 114, 32, 116, 104,
       97, 110, 32, 55, 32, 100, 97, 121, 115, 32, 97, 110, 100, 32, 102, 105, 108, 101, 115, 32,
       98, 101, 121, 111, 110, 100, 32, 116, 104, 101, 32, 110, 101, 119, 101, 115, 116, 32, 55,
       32, 97, 114, 101, 32, 114, 101, 109, 111, 118, 101, 100, 32, 97, 117, 116, 111, 109, 97,
       116, 105, 99, 97, 108, 108, 121, 46],
      [46, 32, 1040, 1088, 1093, 1080, 1074, 1099, 32, 1089, 1090, 1072, 1088, 1096, 1077, 32, 55,
       32, 1076, 1085, 1077, 1081, 32, 1080, 32, 1092, 1072, 1081, 1083, 1099, 32, 1089, 1074,
       1077, 1088, 1093, 32, 55, 32, 1087, 1086, 1089, 1083, 1077, 1076, 1085, 1080, 1093, 32,
       1091, 1076, 1072, 1083, 1103, 1102, 1090, 1089, 1103, 32, 1072, 1074, 1090, 1086, 1084,
       1072, 1090, 1080, 1095, 1077, 1089, 1082, 1080, 46]),
     \<comment> \<open>Download persisted settings, node statistics and speed-test history as\<close>
     ([68, 111, 119, 110, 108, 111, 97, 100, 32, 112, 101, 114, 115, 105, 115, 116, 101, 100, 32,
       115, 101, 116, 116, 105, 110, 103, 115, 44, 32, 110, 111, 100, 101, 32, 115, 116, 97, 116,
       105, 115, 116, 105, 99, 115, 32, 97, 110, 100, 32, 115, 112, 101, 101, 100, 45, 116, 101,
       115, 116, 32, 104, 105, 115, 116, 111, 114, 121, 32, 97, 115, 32, 97, 32, 90, 73, 80, 32,
       97, 114, 99, 104, 105, 118, 101, 46, 32, 69, 110, 118, 105, 114, 111, 110, 109, 101, 110,
       116, 32, 118, 97, 114, 105, 97, 98, 108, 101, 115, 44, 32, 103, 101, 110, 101, 114, 97,
       116, 101, 100, 32, 88, 114, 97, 121, 32, 99, 111, 110, 102, 105, 103, 117, 114, 97, 116,
       105, 111, 110, 44, 32, 103, 101, 111, 32, 102, 105, 108, 101, 115, 32, 97, 110, 100, 32,
       84, 101, 108, 101, 103, 114, 97, 109, 32, 99, 114, 101, 100, 101, 110, 116, 105, 97, 108,
       115, 32, 97, 114, 101, 32, 101, 120, 99, 108, 117, 100, 101, 100, 46],
      [1057, 1082, 1072, 1095, 1072, 1090, 1100, 32, 1089, 1086, 1093, 1088, 1072, 1085, 1105,
       1085, 1085, 1099, 1077, 32, 1085, 1072, 1089, 1090, 1088, 1086, 1081, 1082, 1080, 44, 32,
       1089, 1090, 1072, 1090, 1080, 1089, 1090, 1080, 1082, 1091, 32, 1085, 1086, 1076, 32, 1080,
       32, 1080, 1089, 1090, 1086, 1088, 1080, 1102, 32, 115, 112, 101, 101, 100, 116, 101, 115,
       116, 32, 1074, 32, 90, 73, 80, 45, 1072, 1088, 1093, 1080, 1074, 1077, 46, 32, 1055, 1077,
       1088, 1077, 1084, 1077, 1085, 1085, 1099, 1077, 32, 1086, 1082, 1088, 1091, 1078, 1077,
       1085, 1080, 1103, 44, 32, 1089, 1075, 1077, 1085, 1077, 1088, 1080, 1088, 1086, 1074, 1072,
       1085, 1085, 1099, 1081, 32, 88, 114, 97, 121, 32, 99, 111, 110, 102, 105, 103, 44, 32, 103,
       101, 111, 45, 1092, 1072, 1081, 1083, 1099, 32, 1080, 32, 84, 101, 108, 101, 103, 114, 97,
       109, 32, 99, 114, 101, 100, 101, 110, 116, 105, 97, 108, 115, 32, 1074, 32, 1073, 1101,
       1082, 1072, 1087, 32, 1085, 1077, 32, 1074, 1093, 1086, 1076, 1103, 1090, 46]),
     \<comment> \<open>Upload an Xray Checker backup. It will be verified and applied on the \<close>
     ([85, 112, 108, 111, 97, 100, 32, 97, 110, 32, 88, 114, 97, 121, 32, 67, 104, 101, 99, 107,
       101, 114, 32, 98, 97, 99, 107, 117, 112, 46, 32, 73, 116, 32, 119, 105, 108, 108, 32, 98,
       101, 32, 118, 101, 114, 105, 102, 105, 101, 100, 32, 97, 110, 100, 32, 97, 112, 112, 108,
       105, 101, 100, 32, 111, 110, 32, 116, 104, 101, 32, 110, 101, 120, 116, 32, 97, 112, 112,
       108, 105, 99, 97, 116, 105, 111, 110, 32, 114, 101, 115, 116, 97, 114, 116, 46, 32, 70,
       105, 108, 101, 115, 32, 109, 105, 115, 115, 105, 110, 103, 32, 102, 114, 111, 109, 32, 116,
       104, 101, 32, 97, 114, 99, 104, 105, 118, 101, 32, 119, 105, 108, 108, 32, 98, 101, 32,
       114, 101, 109, 111, 118, 101, 100, 32, 100, 117, 114, 105, 110, 103, 32, 114, 101, 115,
       116, 111, 114, 97, 116, 105, 111, 110, 46],
      [1047, 1072, 1075, 1088, 1091, 1079, 1080, 1090, 1100, 32, 1073, 1101, 1082, 1072, 1087, 32,
       88, 114, 97, 121, 32, 67, 104, 101, 99, 107, 101, 114, 46, 32, 1054, 1085, 32, 1087, 1088,
       1086, 1081, 1076, 1105, 1090, 32, 1074, 1072, 1083, 1080, 1076, 1072, 1094, 1080, 1102, 32,
       1080, 32, 1073, 1091, 1076, 1077, 1090, 32, 1087, 1088, 1080, 1084, 1077, 1085, 1105, 1085,
       32, 1087, 1088, 1080, 32, 1089, 1083, 1077, 1076, 1091, 1102, 1097, 1077, 1084, 32, 114,
       101, 115, 116, 97, 114, 116, 32, 1087, 1088, 1080, 1083, 1086, 1078, 1077, 1085, 1080,
       1103, 46, 32, 1060, 1072, 1081, 1083, 1099, 44, 32, 1082, 1086, 1090, 1086, 1088, 1099,
       1093, 32, 1085, 1077, 1090, 32, 1074, 32, 1072, 1088, 1093, 1080, 1074, 1077, 44, 32, 1073,
       1091, 1076, 1091, 1090, 32, 1091, 1076, 1072, 1083, 1077, 1085, 1099, 32, 1074, 1086, 32,
       1074, 1088, 1077, 1084, 1103, 32, 114, 101, 115, 116, 111, 114, 101, 46]),
     \<comment> \<open>Overview\<close>
     ([79, 118, 101, 114, 118, 105, 101, 119],
      [1054, 1073, 1079, 1086, 1088]),
     \<comment> \<open>Servers online\<close>
     ([83, 101, 114, 118, 101, 114, 115, 32, 111, 110, 108, 105, 110, 101],
      [1057, 1077, 1088, 1074, 1077, 1088, 1086, 1074, 32, 1086, 1085, 1083, 1072, 1081, 1085]),
     \<comment> \<open>Avg speed\<close>
     ([65, 118, 103, 32, 115, 112, 101, 101, 100],
      [1057, 1088, 1077, 1076, 1085, 1103, 1103, 32, 1089, 1082, 1086, 1088, 1086, 1089, 1090,
       1100]),
     \<comment> \<open>Failures\<close>
     ([70, 97, 105, 108, 117, 114, 101, 115],
      [1057, 1073, 1086, 1080]),
     \<comment> \<open>Nodes\<close>
     ([78, 111, 100, 101, 115],
      [1053, 1086, 1076, 1099]),
     \<comment> \<open>Select all visible nodes\<close>
     ([83, 101, 108, 101, 99, 116, 32, 97, 108, 108, 32, 118, 105, 115, 105, 98, 108, 101, 32,
       110, 111, 100, 101, 115],
      [1042, 1099, 1073, 1088, 1072, 1090, 1100, 32, 1074, 1089, 1077, 32, 1074, 1080, 1076, 1080,
       1084, 1099, 1077, 32, 1085, 1086, 1076, 1099]),
     \<comment> \<open>Node ordering\<close>
     ([78, 111, 100, 101, 32, 111, 114, 100, 101, 114, 105, 110, 103],
      [1055, 1086, 1088, 1103, 1076, 1086, 1082, 32, 1085, 1086, 1076]),
     \<comment> \<open>Default order\<close>
     ([68, 101, 102, 97, 117, 108, 116, 32, 111, 114, 100, 101, 114],
      [1048, 1089, 1093, 1086, 1076, 1085, 1099, 1081, 32, 1087, 1086, 1088, 1103, 1076, 1086,
       1082]),
     \<comment> \<open>Manual order\<close>
     ([77, 97, 110, 117, 97, 108, 32, 111, 114, 100, 101, 114],
      [1056, 1091, 1095, 1085, 1086, 1081, 32, 1087, 1086, 1088, 1103, 1076, 1086, 1082]),
     \<comment> \<open>Location\<close>
     ([76, 111, 99, 97, 116, 105, 111, 110],
      [1051, 1086, 1082, 1072, 1094, 1080, 1103]),
     \<comment> \<open>Latency\<close>
     ([76, 97, 116, 101, 110, 99, 121],
      [1047, 1072, 1076, 1077, 1088, 1078, 1082, 1072]),
     \<comment> \<open>Ascending\<close>
     ([65, 115, 99, 101, 110, 100, 105, 110, 103],
      [1055, 1086, 32, 1074, 1086, 1079, 1088, 1072, 1089, 1090, 1072, 1085, 1080, 1102]),
     \<comment> \<open>Descending\<close>
     ([68, 101, 115, 99, 101, 110, 100, 105, 110, 103],
      [1055, 1086, 32, 1091, 1073, 1099, 1074, 1072, 1085, 1080, 1102]),
     \<comment> \<open>Problems first\<close>
     ([80, 114, 111, 98, 108, 101, 109, 115, 32, 102, 105, 114, 115, 116],
      [1057, 1085, 1072, 1095, 1072, 1083, 1072, 32, 1087, 1088, 1086, 1073, 1083, 1077, 1084,
       1085, 1099, 1077]),
     \<comment> \<open>Healthy first\<close>
     ([72, 101, 97, 108, 116, 104, 121, 32, 102, 105, 114, 115, 116],
      [1057, 1085, 1072, 1095, 1072, 1083, 1072, 32, 1080, 1089, 1087, 1088, 1072, 1074, 1085,
       1099, 1077]),
     \<comment> \<open>Reset manual order\<close>
     ([82, 101, 115, 101, 116, 32, 109, 97, 110, 117, 97, 108, 32, 111, 114, 100, 101, 114],
      [1057, 1073, 1088, 1086, 1089, 1080, 1090, 1100, 32, 1088, 1091, 1095, 1085, 1086, 1081, 32,
       1087, 1086, 1088, 1103, 1076, 1086, 1082]),
     \<comment> \<open>Drag to reorder. Use arrow keys to move.\<close>
     ([68, 114, 97, 103, 32, 116, 111, 32, 114, 101, 111, 114, 100, 101, 114, 46, 32, 85, 115,
       101, 32, 97, 114, 114, 111, 119, 32, 107, 101, 121, 115, 32, 116, 111, 32, 109, 111, 118,
       101, 46],
      [1055, 1077, 1088, 1077, 1090, 1072, 1097, 1080, 1090, 1077, 32, 1076, 1083, 1103, 32, 1080,
       1079, 1084, 1077, 1085, 1077, 1085, 1080, 1103, 32, 1087, 1086, 1088, 1103, 1076, 1082,
       1072, 46, 32, 1044, 1083, 1103, 32, 1087, 1077, 1088, 1077, 1084, 1077, 1097, 1077, 1085,
       1080, 1103, 32, 1080, 1089, 1087, 1086, 1083, 1100, 1079, 1091, 1081, 1090, 1077, 32, 1089,
       1090, 1088, 1077, 1083, 1082, 1080, 46]),
     \<comment> \<open>Check\<close>
     ([67, 104, 101, 99, 107],
      [67, 104, 101, 99, 107]),
     \<comment> \<open>Run\<close>
     ([82, 117, 110],
      [82, 117, 110]),
     \<comment> \<open>Running?\<close>
     ([82, 117, 110, 110, 105, 110, 103, 8230],
      [1042, 1099, 1087, 1086, 1083, 1085, 1103, 1077, 1090, 1089, 1103, 8230]),
     \<comment> \<open>Resume\<close>
     ([82, 101, 115, 117, 109, 101],
      [1042, 1086, 1079, 1086, 1073, 1085, 1086, 1074, 1080, 1090, 1100]),
     \<comment> \<open>Saving?\<close>
     ([83, 97, 118, 105, 110, 103, 8230],
      [1057, 1086, 1093, 1088, 1072, 1085, 1077, 1085, 1080, 1077, 8230]),
     \<comment> \<open>Mute Selected\<close>
     ([77, 117, 116, 101, 32, 83, 101, 108, 101, 99, 116, 101, 100],
      [77, 117, 116, 101, 32, 1074, 1099, 1073, 1088, 1072, 1085, 1085, 1099, 1093]),
     \<comment> \<open>Cancelling?\<close>
     ([67, 97, 110, 99, 101, 108, 108, 105, 110, 103, 8230],
      [1054, 1090, 1084, 1077, 1085, 1072, 8230]),
     \<comment> \<open>Cancelled\<close>
     ([67, 97, 110, 99, 101, 108, 108, 101, 100],
      [1054, 1090, 1084, 1077, 1085, 1077, 1085, 1086]),
     \<comment> \<open>Not checked yet\<close>
     ([78, 111, 116, 32, 99, 104, 101, 99, 107, 101, 100, 32, 121, 101, 116],
      [1045, 1097, 1105, 32, 1085, 1077, 32, 1087, 1088, 1086, 1074, 1077, 1088, 1103, 1083, 1072,
       1089, 1100]),
     \<comment> \<open>Measured during maintenance\<close>
     ([77, 101, 97, 115, 117, 114, 101, 100, 32, 100, 117, 114, 105, 110, 103, 32, 109, 97, 105,
       110, 116, 101, 110, 97, 110, 99, 101],
      [1047, 1072, 1084, 1077, 1088, 32, 1074, 1086, 32, 1074, 1088, 1077, 1084, 1103, 32, 1086,
       1073, 1089, 1083, 1091, 1078, 1080, 1074, 1072, 1085, 1080, 1103]),
     \<comment> \<open>Observation\<close>
     ([79, 98, 115, 101, 114, 118, 97, 116, 105, 111, 110],
      [1053, 1072, 1073, 1083, 1102, 1076, 1077, 1085, 1080, 1077]),
     \<comment> \<open>Observation mode\<close>
     ([79, 98, 115, 101, 114, 118, 97, 116, 105, 111, 110, 32, 109, 111, 100, 101],
      [1056, 1077, 1078, 1080, 1084, 32, 1085, 1072, 1073, 1083, 1102, 1076, 1077, 1085, 1080,
       1103]),
     \<comment> \<open>Full\<close>
     ([70, 117, 108, 108],
      [1055, 1086, 1083, 1085, 1099, 1081]),
     \<comment> \<open>Availability only\<close>
     ([65, 118, 97, 105, 108, 97, 98, 105, 108, 105, 116, 121, 32, 111, 110, 108, 121],
      [1058, 1086, 1083, 1100, 1082, 1086, 32, 1076, 1086, 1089, 1090, 1091, 1087, 1085, 1086,
       1089, 1090, 1100]),
     \<comment> \<open>Paused\<close>
     ([80, 97, 117, 115, 101, 100],
      [1055, 1088, 1080, 1086, 1089, 1090, 1072, 1085, 1086, 1074, 1083, 1077, 1085]),
     \<comment> \<open>Unlisted\<close>
     ([85, 110, 108, 105, 115, 116, 101, 100],
      [1053, 1077, 32, 1087, 1091, 1073, 1083, 1080, 1082, 1091, 1077, 1090, 1089, 1103]),
     \<comment> \<open>Node name\<close>
     ([78, 111, 100, 101, 32, 110, 97, 109, 101],
      [1048, 1084, 1103, 32, 1085, 1086, 1076, 1099]),
     \<comment> \<open>Displayed name\<close>
     ([68, 105, 115, 112, 108, 97, 121, 101, 100, 32, 110, 97, 109, 101],
      [1054, 1090, 1086, 1073, 1088, 1072, 1078, 1072, 1077, 1084, 1086, 1077, 32, 1080, 1084,
       1103, 32, 1085, 1086, 1076, 1099]),
     \<comment> \<open>Save name\<close>
     ([83, 97, 118, 101, 32, 110, 97, 109, 101],
      [1057, 1086, 1093, 1088, 1072, 1085, 1080, 1090, 1100, 32, 1080, 1084, 1103]),
     \<comment> \<open>Reset\<close>
     ([82, 101, 115, 101, 116],
      [1057, 1073, 1088, 1086, 1089, 1080, 1090, 1100]),
     \<comment> \<open>Select exactly one node\<close>
     ([83, 101, 108, 101, 99, 116, 32, 101, 120, 97, 99, 116, 108, 121, 32, 111, 110, 101, 32,
       110, 111, 100, 101],
      [1042, 1099, 1073, 1077, 1088, 1080, 1090, 1077, 32, 1088, 1086, 1074, 1085, 1086, 32, 1086,
       1076, 1085, 1091, 32, 1085, 1086, 1076, 1091]),
     \<comment> \<open>Name from the subscription\<close>
     ([78, 97, 109, 101, 32, 102, 114, 111, 109, 32, 116, 104, 101, 32, 115, 117, 98, 115, 99,
       114, 105, 112, 116, 105, 111, 110],
      [1048, 1084, 1103, 32, 1080, 1079, 32, 1087, 1086, 1076, 1087, 1080, 1089, 1082, 1080]),
     \<comment> \<open>From the subscription\<close>
     ([70, 114, 111, 109, 32, 116, 104, 101, 32, 115, 117, 98, 115, 99, 114, 105, 112, 116, 105,
       111, 110],
      [1048, 1079, 32, 1087, 1086, 1076, 1087, 1080, 1089, 1082, 1080]),
     \<comment> \<open>Node name saved\<close>
     ([78, 111, 100, 101, 32, 110, 97, 109, 101, 32, 115, 97, 118, 101, 100],
      [1048, 1084, 1103, 32, 1085, 1086, 1076, 1099, 32, 1089, 1086, 1093, 1088, 1072, 1085, 1077,
       1085, 1086]),
     \<comment> \<open>Node name reset to the subscription name\<close>
     ([78, 111, 100, 101, 32, 110, 97, 109, 101, 32, 114, 101, 115, 101, 116, 32, 116, 111, 32,
       116, 104, 101, 32, 115, 117, 98, 115, 99, 114, 105, 112, 116, 105, 111, 110, 32, 110, 97,
       109, 101],
      [1048, 1084, 1103, 32, 1085, 1086, 1076, 1099, 32, 1089, 1073, 1088, 1086, 1096, 1077, 1085,
       1086, 32, 1085, 1072, 32, 1080, 1084, 1103, 32, 1080, 1079, 32, 1087, 1086, 1076, 1087,
       1080, 1089, 1082, 1080]),
     \<comment> \<open>No successful checks in this period\<close>
     ([78, 111, 32, 115, 117, 99, 99, 101, 115, 115, 102, 117, 108, 32, 99, 104, 101, 99, 107,
       115, 32, 105, 110, 32, 116, 104, 105, 115, 32, 112, 101, 114, 105, 111, 100],
      [1047, 1072, 32, 1101, 1090, 1086, 1090, 32, 1087, 1077, 1088, 1080, 1086, 1076, 32, 1085,
       1077, 1090, 32, 1091, 1089, 1087, 1077, 1096, 1085, 1099, 1093, 32, 1087, 1088, 1086, 1074,
       1077, 1088, 1086, 1082]),
     \<comment> \<open>No successful measurements in this period\<close>
     ([78, 111, 32, 115, 117, 99, 99, 101, 115, 115, 102, 117, 108, 32, 109, 101, 97, 115, 117,
       114, 101, 109, 101, 110, 116, 115, 32, 105, 110, 32, 116, 104, 105, 115, 32, 112, 101, 114,
       105, 111, 100],
      [1047, 1072, 32, 1101, 1090, 1086, 1090, 32, 1087, 1077, 1088, 1080, 1086, 1076, 32, 1085,
       1077, 1090, 32, 1091, 1089, 1087, 1077, 1096, 1085, 1099, 1093, 32, 1079, 1072, 1084, 1077,
       1088, 1086, 1074]),
     \<comment> \<open>Keep off the public status page\<close>
     ([75, 101, 101, 112, 32, 111, 102, 102, 32, 116, 104, 101, 32, 112, 117, 98, 108, 105, 99,
       32, 115, 116, 97, 116, 117, 115, 32, 112, 97, 103, 101],
      [1053, 1077, 32, 1087, 1086, 1082, 1072, 1079, 1099, 1074, 1072, 1090, 1100, 32, 1085, 1072,
       32, 1087, 1091, 1073, 1083, 1080, 1095, 1085, 1086, 1081, 32, 1089, 1090, 1088, 1072, 1085,
       1080, 1094, 1077, 32, 1089, 1090, 1072, 1090, 1091, 1089, 1072])]"

lemma ru_part2_nonempty: "list_all (\<lambda>(k, v). k \<noteq> [] \<and> v \<noteq> []) ru_part2"
  by (simp add: ru_part2_def)

end
