(* ===== verification/RuData3.thy ===== *)
theory RuData3
  imports JsRegex
begin

text \<open>
  Lines 193 to 285 of the Russian dictionary (the object \<open>ru\<close> of
  \<open>src/web/static/localization.js\<close>), entry by entry in source order, as code points. The comment
  in front of an entry is its key with every character outside a small ASCII set shown as a
  question mark.
\<close>

definition ru_part3 :: "(jstr \<times> jstr) list" where
  "ru_part3 = [
     \<comment> \<open>Measured, counted and published like your own subscription. The bot an\<close>
     ([77, 101, 97, 115, 117, 114, 101, 100, 44, 32, 99, 111, 117, 110, 116, 101, 100, 32, 97,
       110, 100, 32, 112, 117, 98, 108, 105, 115, 104, 101, 100, 32, 108, 105, 107, 101, 32, 121,
       111, 117, 114, 32, 111, 119, 110, 32, 115, 117, 98, 115, 99, 114, 105, 112, 116, 105, 111,
       110, 46, 32, 84, 104, 101, 32, 98, 111, 116, 32, 97, 110, 100, 32, 116, 104, 101, 32, 105,
       110, 99, 105, 100, 101, 110, 116, 32, 106, 111, 117, 114, 110, 97, 108, 32, 115, 116, 97,
       121, 32, 97, 98, 111, 117, 116, 32, 121, 111, 117, 114, 32, 111, 119, 110, 32, 110, 111,
       100, 101, 115, 46],
      [1048, 1079, 1084, 1077, 1088, 1103, 1077, 1090, 1089, 1103, 44, 32, 1091, 1095, 1080, 1090,
       1099, 1074, 1072, 1077, 1090, 1089, 1103, 32, 1080, 32, 1087, 1091, 1073, 1083, 1080, 1082,
       1091, 1077, 1090, 1089, 1103, 32, 1082, 1072, 1082, 32, 1089, 1086, 1073, 1089, 1090, 1074,
       1077, 1085, 1085, 1072, 1103, 32, 1087, 1086, 1076, 1087, 1080, 1089, 1082, 1072, 46, 32,
       1041, 1086, 1090, 32, 1080, 32, 1078, 1091, 1088, 1085, 1072, 1083, 32, 1080, 1085, 1094,
       1080, 1076, 1077, 1085, 1090, 1086, 1074, 32, 1086, 1089, 1090, 1072, 1102, 1090, 1089,
       1103, 32, 1090, 1086, 1083, 1100, 1082, 1086, 32, 1086, 32, 1089, 1074, 1086, 1080, 1093,
       32, 1085, 1086, 1076, 1072, 1093, 46]),
     \<comment> \<open>Checked and counted as usual, but scheduled speed tests skip it.\<close>
     ([67, 104, 101, 99, 107, 101, 100, 32, 97, 110, 100, 32, 99, 111, 117, 110, 116, 101, 100,
       32, 97, 115, 32, 117, 115, 117, 97, 108, 44, 32, 98, 117, 116, 32, 115, 99, 104, 101, 100,
       117, 108, 101, 100, 32, 115, 112, 101, 101, 100, 32, 116, 101, 115, 116, 115, 32, 115, 107,
       105, 112, 32, 105, 116, 46],
      [1055, 1088, 1086, 1074, 1077, 1088, 1103, 1077, 1090, 1089, 1103, 32, 1080, 32, 1091, 1095,
       1080, 1090, 1099, 1074, 1072, 1077, 1090, 1089, 1103, 32, 1082, 1072, 1082, 32, 1086, 1073,
       1099, 1095, 1085, 1086, 44, 32, 1085, 1086, 32, 1087, 1083, 1072, 1085, 1086, 1074, 1099,
       1081, 32, 115, 112, 101, 101, 100, 116, 101, 115, 116, 32, 1077, 1105, 32, 1087, 1088,
       1086, 1087, 1091, 1089, 1082, 1072, 1077, 1090, 46]),
     \<comment> \<open>Nodes stay listed and probed, but nothing is counted: no downtime, no \<close>
     ([78, 111, 100, 101, 115, 32, 115, 116, 97, 121, 32, 108, 105, 115, 116, 101, 100, 32, 97,
       110, 100, 32, 112, 114, 111, 98, 101, 100, 44, 32, 98, 117, 116, 32, 110, 111, 116, 104,
       105, 110, 103, 32, 105, 115, 32, 99, 111, 117, 110, 116, 101, 100, 58, 32, 110, 111, 32,
       100, 111, 119, 110, 116, 105, 109, 101, 44, 32, 110, 111, 32, 105, 110, 99, 105, 100, 101,
       110, 116, 115, 44, 32, 110, 111, 32, 97, 108, 101, 114, 116, 115, 44, 32, 110, 111, 32,
       115, 112, 101, 101, 100, 32, 116, 101, 115, 116, 115, 46],
      [1053, 1086, 1076, 1099, 32, 1086, 1089, 1090, 1072, 1102, 1090, 1089, 1103, 32, 1074, 32,
       1089, 1087, 1080, 1089, 1082, 1077, 32, 1080, 32, 1087, 1088, 1086, 1074, 1077, 1088, 1103,
       1102, 1090, 1089, 1103, 44, 32, 1085, 1086, 32, 1085, 1080, 1095, 1077, 1075, 1086, 32,
       1085, 1077, 32, 1091, 1095, 1080, 1090, 1099, 1074, 1072, 1077, 1090, 1089, 1103, 58, 32,
       1085, 1080, 32, 100, 111, 119, 110, 116, 105, 109, 101, 44, 32, 1085, 1080, 32, 1080, 1085,
       1094, 1080, 1076, 1077, 1085, 1090, 1099, 44, 32, 1085, 1080, 32, 1072, 1083, 1077, 1088,
       1090, 1099, 44, 32, 1085, 1080, 32, 115, 112, 101, 101, 100, 116, 101, 115, 116, 46]),
     \<comment> \<open>Silence changes nothing that is measured, only what is announced. Keep\<close>
     ([83, 105, 108, 101, 110, 99, 101, 32, 99, 104, 97, 110, 103, 101, 115, 32, 110, 111, 116,
       104, 105, 110, 103, 32, 116, 104, 97, 116, 32, 105, 115, 32, 109, 101, 97, 115, 117, 114,
       101, 100, 44, 32, 111, 110, 108, 121, 32, 119, 104, 97, 116, 32, 105, 115, 32, 97, 110,
       110, 111, 117, 110, 99, 101, 100, 46, 32, 75, 101, 101, 112, 105, 110, 103, 32, 97, 32,
       115, 111, 117, 114, 99, 101, 32, 111, 102, 102, 32, 116, 104, 101, 32, 115, 116, 97, 116,
       117, 115, 32, 112, 97, 103, 101, 32, 97, 108, 115, 111, 32, 114, 101, 109, 111, 118, 101,
       115, 32, 105, 116, 115, 32, 110, 111, 100, 101, 115, 32, 102, 114, 111, 109, 32, 80, 114,
       111, 109, 101, 116, 104, 101, 117, 115, 32, 97, 110, 100, 32, 102, 114, 111, 109, 32, 116,
       104, 101, 105, 114, 32, 111, 119, 110, 32, 47, 99, 111, 110, 102, 105, 103, 32, 101, 110,
       100, 112, 111, 105, 110, 116, 115, 32, 8212, 32, 115, 111, 109, 101, 98, 111, 100, 121, 32,
       101, 108, 115, 101, 39, 115, 32, 112, 97, 110, 101, 108, 32, 105, 115, 32, 110, 111, 116,
       32, 116, 104, 101, 32, 115, 101, 114, 118, 105, 99, 101, 32, 121, 111, 117, 32, 112, 117,
       98, 108, 105, 115, 104, 32, 97, 115, 32, 121, 111, 117, 114, 32, 111, 119, 110, 46],
      [1058, 1080, 1096, 1080, 1085, 1072, 32, 1085, 1077, 32, 1084, 1077, 1085, 1103, 1077, 1090,
       32, 1090, 1086, 1075, 1086, 44, 32, 1095, 1090, 1086, 32, 1080, 1079, 1084, 1077, 1088,
       1103, 1077, 1090, 1089, 1103, 44, 32, 8212, 32, 1090, 1086, 1083, 1100, 1082, 1086, 32,
       1090, 1086, 44, 32, 1086, 32, 1095, 1105, 1084, 32, 1089, 1086, 1086, 1073, 1097, 1072,
       1077, 1090, 1089, 1103, 46, 32, 1057, 1082, 1088, 1099, 1090, 1080, 1077, 32, 1080, 1089,
       1090, 1086, 1095, 1085, 1080, 1082, 1072, 32, 1089, 1086, 32, 1089, 1090, 1088, 1072, 1085,
       1080, 1094, 1099, 32, 1089, 1090, 1072, 1090, 1091, 1089, 1072, 32, 1090, 1072, 1082, 1078,
       1077, 32, 1091, 1073, 1080, 1088, 1072, 1077, 1090, 32, 1077, 1075, 1086, 32, 1085, 1086,
       1076, 1099, 32, 1080, 1079, 32, 80, 114, 111, 109, 101, 116, 104, 101, 117, 115, 32, 1080,
       32, 1080, 1079, 32, 1089, 1086, 1073, 1089, 1090, 1074, 1077, 1085, 1085, 1099, 1093, 32,
       47, 99, 111, 110, 102, 105, 103, 45, 1101, 1085, 1076, 1087, 1086, 1080, 1085, 1090, 1086,
       1074, 58, 32, 1095, 1091, 1078, 1072, 1103, 32, 1087, 1072, 1085, 1077, 1083, 1100, 32,
       8212, 32, 1085, 1077, 32, 1090, 1086, 1090, 32, 1089, 1077, 1088, 1074, 1080, 1089, 44, 32,
       1082, 1086, 1090, 1086, 1088, 1099, 1081, 32, 1074, 1099, 32, 1087, 1091, 1073, 1083, 1080,
       1082, 1091, 1077, 1090, 1077, 32, 1082, 1072, 1082, 32, 1089, 1074, 1086, 1081, 46]),
     \<comment> \<open>Stopping the speed test?\<close>
     ([83, 116, 111, 112, 112, 105, 110, 103, 32, 116, 104, 101, 32, 115, 112, 101, 101, 100, 32,
       116, 101, 115, 116, 8230],
      [1054, 1089, 1090, 1072, 1085, 1072, 1074, 1083, 1080, 1074, 1072, 1077, 1084, 32, 115, 112,
       101, 101, 100, 116, 101, 115, 116, 8230]),
     \<comment> \<open>Speed test cancelled\<close>
     ([83, 112, 101, 101, 100, 32, 116, 101, 115, 116, 32, 99, 97, 110, 99, 101, 108, 108, 101,
       100],
      [83, 112, 101, 101, 100, 116, 101, 115, 116, 32, 1086, 1090, 1084, 1077, 1085, 1105, 1085]),
     \<comment> \<open>Stopping the availability check?\<close>
     ([83, 116, 111, 112, 112, 105, 110, 103, 32, 116, 104, 101, 32, 97, 118, 97, 105, 108, 97,
       98, 105, 108, 105, 116, 121, 32, 99, 104, 101, 99, 107, 8230],
      [1054, 1089, 1090, 1072, 1085, 1072, 1074, 1083, 1080, 1074, 1072, 1077, 1084, 32, 1087,
       1088, 1086, 1074, 1077, 1088, 1082, 1091, 32, 1076, 1086, 1089, 1090, 1091, 1087, 1085,
       1086, 1089, 1090, 1080, 8230]),
     \<comment> \<open>Availability check cancelled\<close>
     ([65, 118, 97, 105, 108, 97, 98, 105, 108, 105, 116, 121, 32, 99, 104, 101, 99, 107, 32, 99,
       97, 110, 99, 101, 108, 108, 101, 100],
      [1055, 1088, 1086, 1074, 1077, 1088, 1082, 1072, 32, 1076, 1086, 1089, 1090, 1091, 1087,
       1085, 1086, 1089, 1090, 1080, 32, 1086, 1090, 1084, 1077, 1085, 1077, 1085, 1072]),
     \<comment> \<open>Unmute Selected\<close>
     ([85, 110, 109, 117, 116, 101, 32, 83, 101, 108, 101, 99, 116, 101, 100],
      [1057, 1085, 1103, 1090, 1100, 32, 109, 117, 116, 101, 32, 1089, 32, 1074, 1099, 1073, 1088,
       1072, 1085, 1085, 1099, 1093]),
     \<comment> \<open>Only issues\<close>
     ([79, 110, 108, 121, 32, 105, 115, 115, 117, 101, 115],
      [1058, 1086, 1083, 1100, 1082, 1086, 32, 1087, 1088, 1086, 1073, 1083, 1077, 1084, 1099]),
     \<comment> \<open>Sort\<close>
     ([83, 111, 114, 116],
      [1057, 1086, 1088, 1090, 1080, 1088, 1086, 1074, 1082, 1072]),
     \<comment> \<open>Search\<close>
     ([83, 101, 97, 114, 99, 104],
      [1055, 1086, 1080, 1089, 1082]),
     \<comment> \<open>No nodes match filters\<close>
     ([78, 111, 32, 110, 111, 100, 101, 115, 32, 109, 97, 116, 99, 104, 32, 102, 105, 108, 116,
       101, 114, 115],
      [1053, 1077, 1090, 32, 1085, 1086, 1076, 44, 32, 1089, 1086, 1086, 1090, 1074, 1077, 1090,
       1089, 1090, 1074, 1091, 1102, 1097, 1080, 1093, 32, 1092, 1080, 1083, 1100, 1090, 1088,
       1072, 1084]),
     \<comment> \<open>Protocol\<close>
     ([80, 114, 111, 116, 111, 99, 111, 108],
      [1055, 1088, 1086, 1090, 1086, 1082, 1086, 1083]),
     \<comment> \<open>Country\<close>
     ([67, 111, 117, 110, 116, 114, 121],
      [1057, 1090, 1088, 1072, 1085, 1072]),
     \<comment> \<open>Availability\<close>
     ([65, 118, 97, 105, 108, 97, 98, 105, 108, 105, 116, 121],
      [1044, 1086, 1089, 1090, 1091, 1087, 1085, 1086, 1089, 1090, 1100]),
     \<comment> \<open>Status since\<close>
     ([83, 116, 97, 116, 117, 115, 32, 115, 105, 110, 99, 101],
      [1057, 1090, 1072, 1090, 1091, 1089, 32, 1089]),
     \<comment> \<open>Down since\<close>
     ([68, 111, 119, 110, 32, 115, 105, 110, 99, 101],
      [79, 102, 102, 108, 105, 110, 101, 32, 1089]),
     \<comment> \<open>Failure\<close>
     ([70, 97, 105, 108, 117, 114, 101],
      [1057, 1073, 1086, 1081]),
     \<comment> \<open>Measured speed\<close>
     ([77, 101, 97, 115, 117, 114, 101, 100, 32, 115, 112, 101, 101, 100],
      [1048, 1079, 1084, 1077, 1088, 1077, 1085, 1085, 1072, 1103, 32, 1089, 1082, 1086, 1088,
       1086, 1089, 1090, 1100]),
     \<comment> \<open>Availability latency\<close>
     ([65, 118, 97, 105, 108, 97, 98, 105, 108, 105, 116, 121, 32, 108, 97, 116, 101, 110, 99,
       121],
      [1047, 1072, 1076, 1077, 1088, 1078, 1082, 1072, 32, 97, 118, 97, 105, 108, 97, 98, 105,
       108, 105, 116, 121]),
     \<comment> \<open>Dates\<close>
     ([68, 97, 116, 101, 115],
      [1044, 1072, 1090, 1099]),
     \<comment> \<open>From\<close>
     ([70, 114, 111, 109],
      [1054, 1090]),
     \<comment> \<open>To\<close>
     ([84, 111],
      [1044, 1086]),
     \<comment> \<open>Average\<close>
     ([65, 118, 101, 114, 97, 103, 101],
      [1057, 1088, 1077, 1076, 1085, 1077, 1077]),
     \<comment> \<open>Minimum\<close>
     ([77, 105, 110, 105, 109, 117, 109],
      [1052, 1080, 1085, 1080, 1084, 1091, 1084]),
     \<comment> \<open>Maximum\<close>
     ([77, 97, 120, 105, 109, 117, 109],
      [1052, 1072, 1082, 1089, 1080, 1084, 1091, 1084]),
     \<comment> \<open>Measurements\<close>
     ([77, 101, 97, 115, 117, 114, 101, 109, 101, 110, 116, 115],
      [1047, 1072, 1084, 1077, 1088, 1099]),
     \<comment> \<open>Normal speed\<close>
     ([78, 111, 114, 109, 97, 108, 32, 115, 112, 101, 101, 100],
      [1053, 1086, 1088, 1084, 1072, 1083, 1100, 1085, 1072, 1103, 32, 1089, 1082, 1086, 1088,
       1086, 1089, 1090, 1100]),
     \<comment> \<open>Below configured threshold\<close>
     ([66, 101, 108, 111, 119, 32, 99, 111, 110, 102, 105, 103, 117, 114, 101, 100, 32, 116, 104,
       114, 101, 115, 104, 111, 108, 100],
      [1053, 1080, 1078, 1077, 32, 1079, 1072, 1076, 1072, 1085, 1085, 1086, 1075, 1086, 32, 1087,
       1086, 1088, 1086, 1075, 1072]),
     \<comment> \<open>Error or offline\<close>
     ([69, 114, 114, 111, 114, 32, 111, 114, 32, 111, 102, 102, 108, 105, 110, 101],
      [1054, 1096, 1080, 1073, 1082, 1072, 32, 1080, 1083, 1080, 32, 1086, 1092, 1083, 1072, 1081,
       1085]),
     \<comment> \<open>Open full history\<close>
     ([79, 112, 101, 110, 32, 102, 117, 108, 108, 32, 104, 105, 115, 116, 111, 114, 121],
      [1054, 1090, 1082, 1088, 1099, 1090, 1100, 32, 1087, 1086, 1083, 1085, 1091, 1102, 32, 1080,
       1089, 1090, 1086, 1088, 1080, 1102]),
     \<comment> \<open>Last speed test\<close>
     ([76, 97, 115, 116, 32, 115, 112, 101, 101, 100, 32, 116, 101, 115, 116],
      [1055, 1086, 1089, 1083, 1077, 1076, 1085, 1080, 1081, 32, 115, 112, 101, 101, 100, 116,
       101, 115, 116]),
     \<comment> \<open>Checks\<close>
     ([67, 104, 101, 99, 107, 115],
      [1055, 1088, 1086, 1074, 1077, 1088, 1082, 1080]),
     \<comment> \<open>Available\<close>
     ([65, 118, 97, 105, 108, 97, 98, 108, 101],
      [1044, 1086, 1089, 1090, 1091, 1087, 1085, 1086]),
     \<comment> \<open>No result\<close>
     ([78, 111, 32, 114, 101, 115, 117, 108, 116],
      [1053, 1077, 1090, 32, 1088, 1077, 1079, 1091, 1083, 1100, 1090, 1072, 1090, 1072]),
     \<comment> \<open>No speed test\<close>
     ([78, 111, 32, 115, 112, 101, 101, 100, 32, 116, 101, 115, 116],
      [1053, 1077, 1090, 32, 115, 112, 101, 101, 100, 116, 101, 115, 116]),
     \<comment> \<open>No active downtime\<close>
     ([78, 111, 32, 97, 99, 116, 105, 118, 101, 32, 100, 111, 119, 110, 116, 105, 109, 101],
      [1053, 1077, 1090, 32, 1072, 1082, 1090, 1080, 1074, 1085, 1086, 1075, 1086, 32, 100, 111,
       119, 110, 116, 105, 109, 101]),
     \<comment> \<open>No active issue\<close>
     ([78, 111, 32, 97, 99, 116, 105, 118, 101, 32, 105, 115, 115, 117, 101],
      [1053, 1077, 1090, 32, 1072, 1082, 1090, 1080, 1074, 1085, 1086, 1081, 32, 1087, 1088, 1086,
       1073, 1083, 1077, 1084, 1099]),
     \<comment> \<open>Proxy failure active\<close>
     ([80, 114, 111, 120, 121, 32, 102, 97, 105, 108, 117, 114, 101, 32, 97, 99, 116, 105, 118,
       101],
      [80, 114, 111, 120, 121, 32, 102, 97, 105, 108, 117, 114, 101, 32, 1072, 1082, 1090, 1080,
       1074, 1077, 1085]),
     \<comment> \<open>No current failure\<close>
     ([78, 111, 32, 99, 117, 114, 114, 101, 110, 116, 32, 102, 97, 105, 108, 117, 114, 101],
      [1053, 1077, 1090, 32, 1090, 1077, 1082, 1091, 1097, 1077, 1075, 1086, 32, 1089, 1073, 1086,
       1103]),
     \<comment> \<open>Diagnostics unavailable\<close>
     ([68, 105, 97, 103, 110, 111, 115, 116, 105, 99, 115, 32, 117, 110, 97, 118, 97, 105, 108,
       97, 98, 108, 101],
      [1044, 1080, 1072, 1075, 1085, 1086, 1089, 1090, 1080, 1082, 1072, 32, 1085, 1077, 1076,
       1086, 1089, 1090, 1091, 1087, 1085, 1072]),
     \<comment> \<open>Monitoring paused\<close>
     ([77, 111, 110, 105, 116, 111, 114, 105, 110, 103, 32, 112, 97, 117, 115, 101, 100],
      [1052, 1086, 1085, 1080, 1090, 1086, 1088, 1080, 1085, 1075, 32, 1087, 1088, 1080, 1086,
       1089, 1090, 1072, 1085, 1086, 1074, 1083, 1077, 1085]),
     \<comment> \<open>Refresh Overview\<close>
     ([82, 101, 102, 114, 101, 115, 104, 32, 79, 118, 101, 114, 118, 105, 101, 119],
      [1054, 1073, 1085, 1086, 1074, 1080, 1090, 1100, 32, 1086, 1073, 1079, 1086, 1088]),
     \<comment> \<open>Refresh Geo\<close>
     ([82, 101, 102, 114, 101, 115, 104, 32, 71, 101, 111],
      [1054, 1073, 1085, 1086, 1074, 1080, 1090, 1100, 32, 71, 101, 111]),
     \<comment> \<open>Name, server, country, subscription\<close>
     ([78, 97, 109, 101, 44, 32, 115, 101, 114, 118, 101, 114, 44, 32, 99, 111, 117, 110, 116,
       114, 121, 44, 32, 115, 117, 98, 115, 99, 114, 105, 112, 116, 105, 111, 110],
      [1048, 1084, 1103, 44, 32, 1089, 1077, 1088, 1074, 1077, 1088, 44, 32, 1089, 1090, 1088,
       1072, 1085, 1072, 44, 32, 1087, 1086, 1076, 1087, 1080, 1089, 1082, 1072]),
     \<comment> \<open>IP / Server\<close>
     ([73, 80, 32, 47, 32, 83, 101, 114, 118, 101, 114],
      [73, 80, 32, 47, 32, 1057, 1077, 1088, 1074, 1077, 1088]),
     \<comment> \<open>Copy IP / server\<close>
     ([67, 111, 112, 121, 32, 73, 80, 32, 47, 32, 115, 101, 114, 118, 101, 114],
      [1050, 1086, 1087, 1080, 1088, 1086, 1074, 1072, 1090, 1100, 32, 73, 80, 32, 47, 32, 1089,
       1077, 1088, 1074, 1077, 1088]),
     \<comment> \<open>Open IP details\<close>
     ([79, 112, 101, 110, 32, 73, 80, 32, 100, 101, 116, 97, 105, 108, 115],
      [1054, 1090, 1082, 1088, 1099, 1090, 1100, 32, 1089, 1074, 1077, 1076, 1077, 1085, 1080,
       1103, 32, 1086, 1073, 32, 73, 80]),
     \<comment> \<open>Geo match\<close>
     ([71, 101, 111, 32, 109, 97, 116, 99, 104],
      [1057, 1086, 1074, 1087, 1072, 1076, 1077, 1085, 1080, 1077, 32, 71, 101, 111]),
     \<comment> \<open>Last seen\<close>
     ([76, 97, 115, 116, 32, 115, 101, 101, 110],
      [1055, 1086, 1089, 1083, 1077, 1076, 1085, 1103, 1103, 32, 1072, 1082, 1090, 1080, 1074,
       1085, 1086, 1089, 1090, 1100]),
     \<comment> \<open>Action\<close>
     ([65, 99, 116, 105, 111, 110],
      [1044, 1077, 1081, 1089, 1090, 1074, 1080, 1077]),
     \<comment> \<open>Active\<close>
     ([65, 99, 116, 105, 118, 101],
      [1040, 1082, 1090, 1080, 1074, 1085, 1072]),
     \<comment> \<open>Retired\<close>
     ([82, 101, 116, 105, 114, 101, 100],
      [1042, 1099, 1074, 1077, 1076, 1077, 1085, 1072]),
     \<comment> \<open>Delete\<close>
     ([68, 101, 108, 101, 116, 101],
      [1059, 1076, 1072, 1083, 1080, 1090, 1100]),
     \<comment> \<open>Merge\<close>
     ([77, 101, 114, 103, 101],
      [77, 101, 114, 103, 101]),
     \<comment> \<open>Active nodes are managed by subscription\<close>
     ([65, 99, 116, 105, 118, 101, 32, 110, 111, 100, 101, 115, 32, 97, 114, 101, 32, 109, 97,
       110, 97, 103, 101, 100, 32, 98, 121, 32, 115, 117, 98, 115, 99, 114, 105, 112, 116, 105,
       111, 110],
      [65, 99, 116, 105, 118, 101, 45, 1085, 1086, 1076, 1099, 32, 1091, 1087, 1088, 1072, 1074,
       1083, 1103, 1102, 1090, 1089, 1103, 32, 1087, 1086, 1076, 1087, 1080, 1089, 1082, 1086,
       1081]),
     \<comment> \<open>Merge applied\<close>
     ([77, 101, 114, 103, 101, 32, 97, 112, 112, 108, 105, 101, 100],
      [77, 101, 114, 103, 101, 32, 1087, 1088, 1080, 1084, 1077, 1085, 1105, 1085]),
     \<comment> \<open>No nodes found\<close>
     ([78, 111, 32, 110, 111, 100, 101, 115, 32, 102, 111, 117, 110, 100],
      [1053, 1086, 1076, 1099, 32, 1085, 1077, 32, 1085, 1072, 1081, 1076, 1077, 1085, 1099]),
     \<comment> \<open>Match\<close>
     ([77, 97, 116, 99, 104],
      [1057, 1086, 1074, 1087, 1072, 1076, 1072, 1077, 1090]),
     \<comment> \<open>Partial\<close>
     ([80, 97, 114, 116, 105, 97, 108],
      [1063, 1072, 1089, 1090, 1080, 1095, 1085, 1086]),
     \<comment> \<open>Conflict\<close>
     ([67, 111, 110, 102, 108, 105, 99, 116],
      [1050, 1086, 1085, 1092, 1083, 1080, 1082, 1090]),
     \<comment> \<open>Mismatch\<close>
     ([77, 105, 115, 109, 97, 116, 99, 104],
      [1053, 1077, 32, 1089, 1086, 1074, 1087, 1072, 1076, 1072, 1077, 1090]),
     \<comment> \<open>Unknown\<close>
     ([85, 110, 107, 110, 111, 119, 110],
      [1053, 1077, 1080, 1079, 1074, 1077, 1089, 1090, 1085, 1086]),
     \<comment> \<open>Blacklisted\<close>
     ([66, 108, 97, 99, 107, 108, 105, 115, 116, 101, 100],
      [1042, 32, 98, 108, 97, 99, 107, 108, 105, 115, 116]),
     \<comment> \<open>Geo data not loaded\<close>
     ([71, 101, 111, 32, 100, 97, 116, 97, 32, 110, 111, 116, 32, 108, 111, 97, 100, 101, 100],
      [71, 101, 111, 45, 1076, 1072, 1085, 1085, 1099, 1077, 32, 1085, 1077, 32, 1079, 1072, 1075,
       1088, 1091, 1078, 1077, 1085, 1099]),
     \<comment> \<open>Geo only\<close>
     ([71, 101, 111, 32, 111, 110, 108, 121],
      [1058, 1086, 1083, 1100, 1082, 1086, 32, 103, 101, 111]),
     \<comment> \<open>Geo only; the name claims no country\<close>
     ([71, 101, 111, 32, 111, 110, 108, 121, 59, 32, 116, 104, 101, 32, 110, 97, 109, 101, 32, 99,
       108, 97, 105, 109, 115, 32, 110, 111, 32, 99, 111, 117, 110, 116, 114, 121],
      [1058, 1086, 1083, 1100, 1082, 1086, 32, 103, 101, 111, 59, 32, 1074, 32, 1080, 1084, 1077,
       1085, 1080, 32, 1089, 1090, 1088, 1072, 1085, 1072, 32, 1085, 1077, 32, 1079, 1072, 1103,
       1074, 1083, 1077, 1085, 1072]),
     \<comment> \<open>From geo lookup; the name claims no country\<close>
     ([70, 114, 111, 109, 32, 103, 101, 111, 32, 108, 111, 111, 107, 117, 112, 59, 32, 116, 104,
       101, 32, 110, 97, 109, 101, 32, 99, 108, 97, 105, 109, 115, 32, 110, 111, 32, 99, 111, 117,
       110, 116, 114, 121],
      [1055, 1086, 32, 103, 101, 111, 45, 1079, 1072, 1087, 1088, 1086, 1089, 1091, 59, 32, 1074,
       32, 1080, 1084, 1077, 1085, 1080, 32, 1089, 1090, 1088, 1072, 1085, 1072, 32, 1085, 1077,
       32, 1079, 1072, 1103, 1074, 1083, 1077, 1085, 1072]),
     \<comment> \<open>Refresh Incidents\<close>
     ([82, 101, 102, 114, 101, 115, 104, 32, 73, 110, 99, 105, 100, 101, 110, 116, 115],
      [1054, 1073, 1085, 1086, 1074, 1080, 1090, 1100, 32, 1080, 1085, 1094, 1080, 1076, 1077,
       1085, 1090, 1099]),
     \<comment> \<open>just now\<close>
     ([106, 117, 115, 116, 32, 110, 111, 119],
      [1090, 1086, 1083, 1100, 1082, 1086, 32, 1095, 1090, 1086]),
     \<comment> \<open>Paused by the operator: not monitored and not alerted, only probed\<close>
     ([80, 97, 117, 115, 101, 100, 32, 98, 121, 32, 116, 104, 101, 32, 111, 112, 101, 114, 97,
       116, 111, 114, 58, 32, 110, 111, 116, 32, 109, 111, 110, 105, 116, 111, 114, 101, 100, 32,
       97, 110, 100, 32, 110, 111, 116, 32, 97, 108, 101, 114, 116, 101, 100, 44, 32, 111, 110,
       108, 121, 32, 112, 114, 111, 98, 101, 100],
      [1055, 1088, 1080, 1086, 1089, 1090, 1072, 1085, 1086, 1074, 1083, 1077, 1085, 1099, 32,
       1086, 1087, 1077, 1088, 1072, 1090, 1086, 1088, 1086, 1084, 58, 32, 1085, 1077, 32, 1086,
       1090, 1089, 1083, 1077, 1078, 1080, 1074, 1072, 1102, 1090, 1089, 1103, 32, 1080, 32, 1085,
       1077, 32, 1072, 1083, 1077, 1088, 1090, 1103, 1090, 44, 32, 1090, 1086, 1083, 1100, 1082,
       1086, 32, 1087, 1088, 1086, 1074, 1077, 1088, 1103, 1102, 1090, 1089, 1103, 32, 1087, 1088,
       1086, 1073, 1086, 1081]),
     \<comment> \<open>Show nodes in maintenance\<close>
     ([83, 104, 111, 119, 32, 110, 111, 100, 101, 115, 32, 105, 110, 32, 109, 97, 105, 110, 116,
       101, 110, 97, 110, 99, 101],
      [1055, 1086, 1082, 1072, 1079, 1072, 1090, 1100, 32, 1085, 1086, 1076, 1099, 32, 1085, 1072,
       32, 1086, 1073, 1089, 1083, 1091, 1078, 1080, 1074, 1072, 1085, 1080, 1080]),
     \<comment> \<open>Hide nodes in maintenance\<close>
     ([72, 105, 100, 101, 32, 110, 111, 100, 101, 115, 32, 105, 110, 32, 109, 97, 105, 110, 116,
       101, 110, 97, 110, 99, 101],
      [1057, 1082, 1088, 1099, 1090, 1100, 32, 1085, 1086, 1076, 1099, 32, 1085, 1072, 32, 1086,
       1073, 1089, 1083, 1091, 1078, 1080, 1074, 1072, 1085, 1080, 1080]),
     \<comment> \<open>Hide the controls\<close>
     ([72, 105, 100, 101, 32, 116, 104, 101, 32, 99, 111, 110, 116, 114, 111, 108, 115],
      [1057, 1082, 1088, 1099, 1090, 1100, 32, 1087, 1072, 1085, 1077, 1083, 1100, 32, 1091, 1087,
       1088, 1072, 1074, 1083, 1077, 1085, 1080, 1103]),
     \<comment> \<open>Filters, schedule and settings for the selected nodes\<close>
     ([70, 105, 108, 116, 101, 114, 115, 44, 32, 115, 99, 104, 101, 100, 117, 108, 101, 32, 97,
       110, 100, 32, 115, 101, 116, 116, 105, 110, 103, 115, 32, 102, 111, 114, 32, 116, 104, 101,
       32, 115, 101, 108, 101, 99, 116, 101, 100, 32, 110, 111, 100, 101, 115],
      [1060, 1080, 1083, 1100, 1090, 1088, 1099, 44, 32, 1088, 1072, 1089, 1087, 1080, 1089, 1072,
       1085, 1080, 1077, 32, 1080, 32, 1085, 1072, 1089, 1090, 1088, 1086, 1081, 1082, 1080, 32,
       1074, 1099, 1073, 1088, 1072, 1085, 1085, 1099, 1093, 32, 1085, 1086, 1076]),
     \<comment> \<open>Listed by the subscription now\<close>
     ([76, 105, 115, 116, 101, 100, 32, 98, 121, 32, 116, 104, 101, 32, 115, 117, 98, 115, 99,
       114, 105, 112, 116, 105, 111, 110, 32, 110, 111, 119],
      [1057, 1077, 1081, 1095, 1072, 1089, 32, 1077, 1089, 1090, 1100, 32, 1074, 32, 1087, 1086,
       1076, 1087, 1080, 1089, 1082, 1077]),
     \<comment> \<open>Average; below it, minimum?maximum over the retained history\<close>
     ([65, 118, 101, 114, 97, 103, 101, 59, 32, 98, 101, 108, 111, 119, 32, 105, 116, 44, 32, 109,
       105, 110, 105, 109, 117, 109, 8211, 109, 97, 120, 105, 109, 117, 109, 32, 111, 118, 101,
       114, 32, 116, 104, 101, 32, 114, 101, 116, 97, 105, 110, 101, 100, 32, 104, 105, 115, 116,
       111, 114, 121],
      [1057, 1088, 1077, 1076, 1085, 1077, 1077, 59, 32, 1087, 1086, 1076, 32, 1085, 1080, 1084,
       32, 8212, 32, 1084, 1080, 1085, 1080, 1084, 1091, 1084, 8211, 1084, 1072, 1082, 1089, 1080,
       1084, 1091, 1084, 32, 1079, 1072, 32, 1089, 1088, 1086, 1082, 32, 1093, 1088, 1072, 1085,
       1077, 1085, 1080, 1103, 32, 1080, 1089, 1090, 1086, 1088, 1080, 1080]),
     \<comment> \<open>For retired nodes: when the subscription last listed them\<close>
     ([70, 111, 114, 32, 114, 101, 116, 105, 114, 101, 100, 32, 110, 111, 100, 101, 115, 58, 32,
       119, 104, 101, 110, 32, 116, 104, 101, 32, 115, 117, 98, 115, 99, 114, 105, 112, 116, 105,
       111, 110, 32, 108, 97, 115, 116, 32, 108, 105, 115, 116, 101, 100, 32, 116, 104, 101, 109],
      [1044, 1083, 1103, 32, 1074, 1099, 1074, 1077, 1076, 1077, 1085, 1085, 1099, 1093, 32, 1085,
       1086, 1076, 58, 32, 1082, 1086, 1075, 1076, 1072, 32, 1087, 1086, 1076, 1087, 1080, 1089,
       1082, 1072, 32, 1087, 1077, 1088, 1077, 1095, 1080, 1089, 1083, 1103, 1083, 1072, 32, 1080,
       1093, 32, 1074, 32, 1087, 1086, 1089, 1083, 1077, 1076, 1085, 1080, 1081, 32, 1088, 1072,
       1079]),
     \<comment> \<open>Node, subscription, cause\<close>
     ([78, 111, 100, 101, 44, 32, 115, 117, 98, 115, 99, 114, 105, 112, 116, 105, 111, 110, 44,
       32, 99, 97, 117, 115, 101],
      [1053, 1086, 1076, 1072, 44, 32, 1087, 1086, 1076, 1087, 1080, 1089, 1082, 1072, 44, 32,
       1087, 1088, 1080, 1095, 1080, 1085, 1072]),
     \<comment> \<open>No incidents match the filters\<close>
     ([78, 111, 32, 105, 110, 99, 105, 100, 101, 110, 116, 115, 32, 109, 97, 116, 99, 104, 32,
       116, 104, 101, 32, 102, 105, 108, 116, 101, 114, 115],
      [1055, 1086, 1076, 32, 1092, 1080, 1083, 1100, 1090, 1088, 1099, 32, 1085, 1077, 32, 1087,
       1086, 1087, 1072, 1083, 32, 1085, 1080, 32, 1086, 1076, 1080, 1085, 32, 1080, 1085, 1094,
       1080, 1076, 1077, 1085, 1090]),
     \<comment> \<open>Repeats of the same failure less than 30 minutes apart are shown as on\<close>
     ([82, 101, 112, 101, 97, 116, 115, 32, 111, 102, 32, 116, 104, 101, 32, 115, 97, 109, 101,
       32, 102, 97, 105, 108, 117, 114, 101, 32, 108, 101, 115, 115, 32, 116, 104, 97, 110, 32,
       51, 48, 32, 109, 105, 110, 117, 116, 101, 115, 32, 97, 112, 97, 114, 116, 32, 97, 114, 101,
       32, 115, 104, 111, 119, 110, 32, 97, 115, 32, 111, 110, 101, 32, 114, 111, 119],
      [1055, 1086, 1074, 1090, 1086, 1088, 1099, 32, 1086, 1076, 1085, 1086, 1075, 1086, 32, 1089,
       1073, 1086, 1103, 32, 1089, 32, 1088, 1072, 1079, 1088, 1099, 1074, 1086, 1084, 32, 1084,
       1077, 1085, 1100, 1096, 1077, 32, 51, 48, 32, 1084, 1080, 1085, 1091, 1090, 32, 1087, 1086,
       1082, 1072, 1079, 1099, 1074, 1072, 1102, 1090, 1089, 1103, 32, 1086, 1076, 1085, 1086,
       1081, 32, 1089, 1090, 1088, 1086, 1082, 1086, 1081]),
     \<comment> \<open>One row per node, one cell per slice of the period. Paler is slower th\<close>
     ([79, 110, 101, 32, 114, 111, 119, 32, 112, 101, 114, 32, 110, 111, 100, 101, 44, 32, 111,
       110, 101, 32, 99, 101, 108, 108, 32, 112, 101, 114, 32, 115, 108, 105, 99, 101, 32, 111,
       102, 32, 116, 104, 101, 32, 112, 101, 114, 105, 111, 100, 46, 32, 80, 97, 108, 101, 114,
       32, 105, 115, 32, 115, 108, 111, 119, 101, 114, 32, 116, 104, 97, 110, 32, 116, 104, 101,
       32, 110, 111, 100, 101, 39, 115, 32, 111, 119, 110, 32, 98, 101, 115, 116, 44, 32, 121,
       101, 108, 108, 111, 119, 32, 105, 115, 32, 98, 101, 108, 111, 119, 32, 116, 104, 101, 32,
       108, 111, 119, 45, 115, 112, 101, 101, 100, 32, 116, 104, 114, 101, 115, 104, 111, 108,
       100, 44, 32, 114, 101, 100, 32, 105, 115, 32, 97, 32, 102, 97, 105, 108, 101, 100, 32, 116,
       101, 115, 116, 46],
      [1054, 1076, 1085, 1072, 32, 1089, 1090, 1088, 1086, 1082, 1072, 32, 1085, 1072, 32, 1085,
       1086, 1076, 1091, 44, 32, 1086, 1076, 1085, 1072, 32, 1082, 1083, 1077, 1090, 1082, 1072,
       32, 1085, 1072, 32, 1086, 1090, 1088, 1077, 1079, 1086, 1082, 32, 1087, 1077, 1088, 1080,
       1086, 1076, 1072, 46, 32, 1041, 1083, 1077, 1076, 1085, 1077, 1077, 32, 8212, 32, 1084,
       1077, 1076, 1083, 1077, 1085, 1085, 1077, 1077, 32, 1083, 1091, 1095, 1096, 1077, 1075,
       1086, 32, 1088, 1077, 1079, 1091, 1083, 1100, 1090, 1072, 1090, 1072, 32, 1101, 1090, 1086,
       1081, 32, 1085, 1086, 1076, 1099, 44, 32, 1078, 1105, 1083, 1090, 1072, 1103, 32, 8212, 32,
       1085, 1080, 1078, 1077, 32, 1087, 1086, 1088, 1086, 1075, 1072, 32, 1085, 1080, 1079, 1082,
       1086, 1081, 32, 1089, 1082, 1086, 1088, 1086, 1089, 1090, 1080, 44, 32, 1082, 1088, 1072,
       1089, 1085, 1072, 1103, 32, 8212, 32, 1090, 1077, 1089, 1090, 32, 1085, 1077, 32, 1087,
       1088, 1086, 1096, 1105, 1083, 46]),
     \<comment> \<open>Loading every node?s speed history?\<close>
     ([76, 111, 97, 100, 105, 110, 103, 32, 101, 118, 101, 114, 121, 32, 110, 111, 100, 101, 39,
       115, 32, 115, 112, 101, 101, 100, 32, 104, 105, 115, 116, 111, 114, 121, 8230],
      [1047, 1072, 1075, 1088, 1091, 1079, 1082, 1072, 32, 115, 112, 101, 101, 100, 116, 101, 115,
       116, 32, 104, 105, 115, 116, 111, 114, 121, 32, 1074, 1089, 1077, 1093, 32, 1085, 1086,
       1076, 8230]),
     \<comment> \<open>No active nodes\<close>
     ([78, 111, 32, 97, 99, 116, 105, 118, 101, 32, 110, 111, 100, 101, 115],
      [1053, 1077, 1090, 32, 1072, 1082, 1090, 1080, 1074, 1085, 1099, 1093, 32, 1085, 1086,
       1076]),
     \<comment> \<open>Persisted node failures and correlated mass outages\<close>
     ([80, 101, 114, 115, 105, 115, 116, 101, 100, 32, 110, 111, 100, 101, 32, 102, 97, 105, 108,
       117, 114, 101, 115, 32, 97, 110, 100, 32, 99, 111, 114, 114, 101, 108, 97, 116, 101, 100,
       32, 109, 97, 115, 115, 32, 111, 117, 116, 97, 103, 101, 115],
      [1057, 1086, 1093, 1088, 1072, 1085, 1105, 1085, 1085, 1099, 1077, 32, 1089, 1073, 1086,
       1080, 32, 1085, 1086, 1076, 32, 1080, 32, 1089, 1074, 1103, 1079, 1072, 1085, 1085, 1099,
       1077, 32, 1084, 1072, 1089, 1089, 1086, 1074, 1099, 1077, 32, 1086, 1090, 1082, 1072, 1079,
       1099]),
     \<comment> \<open>Scope\<close>
     ([83, 99, 111, 112, 101],
      [83, 99, 111, 112, 101]),
     \<comment> \<open>Affected\<close>
     ([65, 102, 102, 101, 99, 116, 101, 100],
      [1047, 1072, 1090, 1088, 1086, 1085, 1091, 1090, 1086]),
     \<comment> \<open>Cause\<close>
     ([67, 97, 117, 115, 101],
      [1055, 1088, 1080, 1095, 1080, 1085, 1072]),
     \<comment> \<open>Started\<close>
     ([83, 116, 97, 114, 116, 101, 100],
      [1053, 1072, 1095, 1072, 1083, 1086]),
     \<comment> \<open>Duration\<close>
     ([68, 117, 114, 97, 116, 105, 111, 110],
      [1044, 1083, 1080, 1090, 1077, 1083, 1100, 1085, 1086, 1089, 1090, 1100]),
     \<comment> \<open>Resolved\<close>
     ([82, 101, 115, 111, 108, 118, 101, 100],
      [1047, 1072, 1082, 1088, 1099, 1090]),
     \<comment> \<open>No incidents recorded\<close>
     ([78, 111, 32, 105, 110, 99, 105, 100, 101, 110, 116, 115, 32, 114, 101, 99, 111, 114, 100,
       101, 100],
      [1048, 1085, 1094, 1080, 1076, 1077, 1085, 1090, 1099, 32, 1085, 1077, 32, 1079, 1072, 1092,
       1080, 1082, 1089, 1080, 1088, 1086, 1074, 1072, 1085, 1099]),
     \<comment> \<open>Refresh History\<close>
     ([82, 101, 102, 114, 101, 115, 104, 32, 72, 105, 115, 116, 111, 114, 121],
      [1054, 1073, 1085, 1086, 1074, 1080, 1090, 1100, 32, 1080, 1089, 1090, 1086, 1088, 1080,
       1102]),
     \<comment> \<open>Node\<close>
     ([78, 111, 100, 101],
      [1053, 1086, 1076, 1072]),
     \<comment> \<open>Speed Stats\<close>
     ([83, 112, 101, 101, 100, 32, 83, 116, 97, 116, 115],
      [1057, 1090, 1072, 1090, 1080, 1089, 1090, 1080, 1082, 1072, 32, 115, 112, 101, 101, 100,
       116, 101, 115, 116]),
     \<comment> \<open>successful results\<close>
     ([115, 117, 99, 99, 101, 115, 115, 102, 117, 108, 32, 114, 101, 115, 117, 108, 116, 115],
      [1091, 1089, 1087, 1077, 1096, 1085, 1099, 1093, 32, 1088, 1077, 1079, 1091, 1083, 1100,
       1090, 1072, 1090, 1086, 1074]),
     \<comment> \<open>best result\<close>
     ([98, 101, 115, 116, 32, 114, 101, 115, 117, 108, 116],
      [1083, 1091, 1095, 1096, 1080, 1081, 32, 1088, 1077, 1079, 1091, 1083, 1100, 1090, 1072,
       1090]),
     \<comment> \<open>slowest result\<close>
     ([115, 108, 111, 119, 101, 115, 116, 32, 114, 101, 115, 117, 108, 116],
      [1089, 1072, 1084, 1099, 1081, 32, 1084, 1077, 1076, 1083, 1077, 1085, 1085, 1099, 1081, 32,
       1088, 1077, 1079, 1091, 1083, 1100, 1090, 1072, 1090]),
     \<comment> \<open>stored measurements\<close>
     ([115, 116, 111, 114, 101, 100, 32, 109, 101, 97, 115, 117, 114, 101, 109, 101, 110, 116,
       115],
      [1089, 1086, 1093, 1088, 1072, 1085, 1105, 1085, 1085, 1099, 1093, 32, 1079, 1072, 1084,
       1077, 1088, 1086, 1074]),
     \<comment> \<open>Checked\<close>
     ([67, 104, 101, 99, 107, 101, 100],
      [1042, 1088, 1077, 1084, 1103, 32, 1087, 1088, 1086, 1074, 1077, 1088, 1082, 1080]),
     \<comment> \<open>Speed\<close>
     ([83, 112, 101, 101, 100],
      [1057, 1082, 1086, 1088, 1086, 1089, 1090, 1100]),
     \<comment> \<open>Downloaded\<close>
     ([68, 111, 119, 110, 108, 111, 97, 100, 101, 100],
      [1057, 1082, 1072, 1095, 1072, 1085, 1086]),
     \<comment> \<open>Source\<close>
     ([83, 111, 117, 114, 99, 101],
      [1048, 1089, 1090, 1086, 1095, 1085, 1080, 1082]),
     \<comment> \<open>Error\<close>
     ([69, 114, 114, 111, 114],
      [1054, 1096, 1080, 1073, 1082, 1072]),
     \<comment> \<open>No speed test results yet\<close>
     ([78, 111, 32, 115, 112, 101, 101, 100, 32, 116, 101, 115, 116, 32, 114, 101, 115, 117, 108,
       116, 115, 32, 121, 101, 116],
      [1056, 1077, 1079, 1091, 1083, 1100, 1090, 1072, 1090, 1086, 1074, 32, 115, 112, 101, 101,
       100, 116, 101, 115, 116, 32, 1087, 1086, 1082, 1072, 32, 1085, 1077, 1090]),
     \<comment> \<open>No results for the current filters\<close>
     ([78, 111, 32, 114, 101, 115, 117, 108, 116, 115, 32, 102, 111, 114, 32, 116, 104, 101, 32,
       99, 117, 114, 114, 101, 110, 116, 32, 102, 105, 108, 116, 101, 114, 115],
      [1055, 1086, 1076, 32, 1090, 1077, 1082, 1091, 1097, 1080, 1077, 32, 1092, 1080, 1083, 1100,
       1090, 1088, 1099, 32, 1088, 1077, 1079, 1091, 1083, 1100, 1090, 1072, 1090, 1086, 1074, 32,
       1085, 1077, 1090]),
     \<comment> \<open>Select a node\<close>
     ([83, 101, 108, 101, 99, 116, 32, 97, 32, 110, 111, 100, 101],
      [1042, 1099, 1073, 1077, 1088, 1080, 1090, 1077, 32, 1085, 1086, 1076, 1091]),
     \<comment> \<open>No speed history for this node\<close>
     ([78, 111, 32, 115, 112, 101, 101, 100, 32, 104, 105, 115, 116, 111, 114, 121, 32, 102, 111,
       114, 32, 116, 104, 105, 115, 32, 110, 111, 100, 101],
      [1044, 1083, 1103, 32, 1101, 1090, 1086, 1081, 32, 1085, 1086, 1076, 1099, 32, 1085, 1077,
       1090, 32, 115, 112, 101, 101, 100, 116, 101, 115, 116, 32, 104, 105, 115, 116, 111, 114,
       121]),
     \<comment> \<open>Loading\<close>
     ([76, 111, 97, 100, 105, 110, 103],
      [1047, 1072, 1075, 1088, 1091, 1079, 1082, 1072]),
     \<comment> \<open>Alerts\<close>
     ([65, 108, 101, 114, 116, 115],
      [1040, 1083, 1077, 1088, 1090, 1099]),
     \<comment> \<open>All Telegram\<close>
     ([65, 108, 108, 32, 84, 101, 108, 101, 103, 114, 97, 109],
      [1042, 1089, 1077, 32, 84, 101, 108, 101, 103, 114, 97, 109, 45, 1091, 1074, 1077, 1076,
       1086, 1084, 1083, 1077, 1085, 1080, 1103]),
     \<comment> \<open>Always\<close>
     ([65, 108, 119, 97, 121, 115],
      [1042, 1089, 1077, 1075, 1076, 1072]),
     \<comment> \<open>Concurrency\<close>
     ([67, 111, 110, 99, 117, 114, 114, 101, 110, 99, 121],
      [67, 111, 110, 99, 117, 114, 114, 101, 110, 99, 121]),
     \<comment> \<open>Timeout sec\<close>
     ([84, 105, 109, 101, 111, 117, 116, 32, 115, 101, 99],
      [1058, 1072, 1081, 1084, 1072, 1091, 1090, 44, 32, 1089, 1077, 1082]),
     \<comment> \<open>Max MiB\<close>
     ([77, 97, 120, 32, 77, 105, 66],
      [1052, 1072, 1082, 1089, 46, 32, 1052, 1080, 1041]),
     \<comment> \<open>Low Mbps\<close>
     ([76, 111, 119, 32, 77, 98, 112, 115],
      [76, 111, 119, 45, 115, 112, 101, 101, 100, 32, 116, 104, 114, 101, 115, 104, 111, 108, 100,
       44, 32, 77, 98, 112, 115]),
     \<comment> \<open>History retention days\<close>
     ([72, 105, 115, 116, 111, 114, 121, 32, 114, 101, 116, 101, 110, 116, 105, 111, 110, 32, 100,
       97, 121, 115],
      [1061, 1088, 1072, 1085, 1077, 1085, 1080, 1077, 32, 1080, 1089, 1090, 1086, 1088, 1080,
       1080, 44, 32, 1076, 1085, 1077, 1081]),
     \<comment> \<open>Interval minutes\<close>
     ([73, 110, 116, 101, 114, 118, 97, 108, 32, 109, 105, 110, 117, 116, 101, 115],
      [1048, 1085, 1090, 1077, 1088, 1074, 1072, 1083, 44, 32, 1084, 1080, 1085]),
     \<comment> \<open>Max reminder min\<close>
     ([77, 97, 120, 32, 114, 101, 109, 105, 110, 100, 101, 114, 32, 109, 105, 110],
      [1052, 1072, 1082, 1089, 46, 32, 1080, 1085, 1090, 1077, 1088, 1074, 1072, 1083, 32, 1085,
       1072, 1087, 1086, 1084, 1080, 1085, 1072, 1085, 1080, 1081, 44, 32, 1084, 1080, 1085]),
     \<comment> \<open>Reminder schedule min\<close>
     ([82, 101, 109, 105, 110, 100, 101, 114, 32, 115, 99, 104, 101, 100, 117, 108, 101, 32, 109,
       105, 110],
      [1056, 1072, 1089, 1087, 1080, 1089, 1072, 1085, 1080, 1077, 32, 1085, 1072, 1087, 1086,
       1084, 1080, 1085, 1072, 1085, 1080, 1081, 44, 32, 1084, 1080, 1085]),
     \<comment> \<open>Group offline reminders\<close>
     ([71, 114, 111, 117, 112, 32, 111, 102, 102, 108, 105, 110, 101, 32, 114, 101, 109, 105, 110,
       100, 101, 114, 115],
      [1043, 1088, 1091, 1087, 1087, 1080, 1088, 1086, 1074, 1072, 1090, 1100, 32, 1085, 1072,
       1087, 1086, 1084, 1080, 1085, 1072, 1085, 1080, 1103, 32, 1086, 1073, 32, 111, 102, 102,
       108, 105, 110, 101]),
     \<comment> \<open>Node down alerts\<close>
     ([78, 111, 100, 101, 32, 100, 111, 119, 110, 32, 97, 108, 101, 114, 116, 115],
      [78, 111, 100, 101, 45, 100, 111, 119, 110, 32, 1072, 1083, 1077, 1088, 1090, 1099]),
     \<comment> \<open>Recovery alerts\<close>
     ([82, 101, 99, 111, 118, 101, 114, 121, 32, 97, 108, 101, 114, 116, 115],
      [82, 101, 99, 111, 118, 101, 114, 121, 45, 1072, 1083, 1077, 1088, 1090, 1099]),
     \<comment> \<open>Mute\<close>
     ([77, 117, 116, 101],
      [77, 117, 116, 101]),
     \<comment> \<open>Unmute\<close>
     ([85, 110, 109, 117, 116, 101],
      [1057, 1085, 1103, 1090, 1100, 32, 109, 117, 116, 101]),
     \<comment> \<open>Test\<close>
     ([84, 101, 115, 116],
      [1058, 1077, 1089, 1090]),
     \<comment> \<open>Dismiss\<close>
     ([68, 105, 115, 109, 105, 115, 115],
      [1057, 1082, 1088, 1099, 1090, 1100]),
     \<comment> \<open>Results\<close>
     ([82, 101, 115, 117, 108, 116, 115],
      [1056, 1077, 1079, 1091, 1083, 1100, 1090, 1072, 1090, 1099]),
     \<comment> \<open>No nodes\<close>
     ([78, 111, 32, 110, 111, 100, 101, 115],
      [1053, 1077, 1090, 32, 1085, 1086, 1076]),
     \<comment> \<open>No results\<close>
     ([78, 111, 32, 114, 101, 115, 117, 108, 116, 115],
      [1053, 1077, 1090, 32, 1088, 1077, 1079, 1091, 1083, 1100, 1090, 1072, 1090, 1086, 1074]),
     \<comment> \<open>no results\<close>
     ([110, 111, 32, 114, 101, 115, 117, 108, 116, 115],
      [1085, 1077, 1090, 32, 1088, 1077, 1079, 1091, 1083, 1100, 1090, 1072, 1090, 1086, 1074]),
     \<comment> \<open>latest successful checks\<close>
     ([108, 97, 116, 101, 115, 116, 32, 115, 117, 99, 99, 101, 115, 115, 102, 117, 108, 32, 99,
       104, 101, 99, 107, 115],
      [1087, 1086, 1089, 1083, 1077, 1076, 1085, 1080, 1093, 32, 1091, 1089, 1087, 1077, 1096,
       1085, 1099, 1093, 32, 1087, 1088, 1086, 1074, 1077, 1088, 1086, 1082]),
     \<comment> \<open>Failed checks\<close>
     ([70, 97, 105, 108, 101, 100, 32, 99, 104, 101, 99, 107, 115],
      [1053, 1077, 1091, 1089, 1087, 1077, 1096, 1085, 1099, 1077, 32, 1087, 1088, 1086, 1074,
       1077, 1088, 1082, 1080]),
     \<comment> \<open>Max speed\<close>
     ([77, 97, 120, 32, 115, 112, 101, 101, 100],
      [1052, 1072, 1082, 1089, 46, 32, 1089, 1082, 1086, 1088, 1086, 1089, 1090, 1100]),
     \<comment> \<open>Min speed\<close>
     ([77, 105, 110, 32, 115, 112, 101, 101, 100],
      [1052, 1080, 1085, 46, 32, 1089, 1082, 1086, 1088, 1086, 1089, 1090, 1100]),
     \<comment> \<open>Avg\<close>
     ([65, 118, 103],
      [1057, 1088, 1077, 1076, 46]),
     \<comment> \<open>Max\<close>
     ([77, 97, 120],
      [1052, 1072, 1082, 1089, 46]),
     \<comment> \<open>Min\<close>
     ([77, 105, 110],
      [1052, 1080, 1085, 46]),
     \<comment> \<open>Reason\<close>
     ([82, 101, 97, 115, 111, 110],
      [1055, 1088, 1080, 1095, 1080, 1085, 1072]),
     \<comment> \<open>Muted\<close>
     ([77, 117, 116, 101, 100],
      [77, 117, 116, 101]),
     \<comment> \<open>Restore\<close>
     ([82, 101, 115, 116, 111, 114, 101],
      [82, 101, 115, 116, 111, 114, 101]),
     \<comment> \<open>Choose Backup ZIP\<close>
     ([67, 104, 111, 111, 115, 101, 32, 66, 97, 99, 107, 117, 112, 32, 90, 73, 80],
      [1042, 1099, 1073, 1088, 1072, 1090, 1100, 32, 90, 73, 80, 45, 1073, 1101, 1082, 1072,
       1087]),
     \<comment> \<open>Speed Test\<close>
     ([83, 112, 101, 101, 100, 32, 84, 101, 115, 116],
      [83, 112, 101, 101, 100, 116, 101, 115, 116]),
     \<comment> \<open>Speedtest\<close>
     ([83, 112, 101, 101, 100, 116, 101, 115, 116],
      [83, 112, 101, 101, 100, 116, 101, 115, 116]),
     \<comment> \<open>Loading speed-test history?\<close>
     ([76, 111, 97, 100, 105, 110, 103, 32, 115, 112, 101, 101, 100, 45, 116, 101, 115, 116, 32,
       104, 105, 115, 116, 111, 114, 121, 8230],
      [1047, 1072, 1075, 1088, 1091, 1079, 1082, 1072, 32, 115, 112, 101, 101, 100, 116, 101, 115,
       116, 32, 104, 105, 115, 116, 111, 114, 121, 8230]),
     \<comment> \<open>Loading availability history?\<close>
     ([76, 111, 97, 100, 105, 110, 103, 32, 97, 118, 97, 105, 108, 97, 98, 105, 108, 105, 116,
       121, 32, 104, 105, 115, 116, 111, 114, 121, 8230],
      [1047, 1072, 1075, 1088, 1091, 1079, 1082, 1072, 32, 97, 118, 97, 105, 108, 97, 98, 105,
       108, 105, 116, 121, 32, 104, 105, 115, 116, 111, 114, 121, 8230]),
     \<comment> \<open>No speed tests in this period\<close>
     ([78, 111, 32, 115, 112, 101, 101, 100, 32, 116, 101, 115, 116, 115, 32, 105, 110, 32, 116,
       104, 105, 115, 32, 112, 101, 114, 105, 111, 100],
      [1047, 1072, 32, 1074, 1099, 1073, 1088, 1072, 1085, 1085, 1099, 1081, 32, 1087, 1077, 1088,
       1080, 1086, 1076, 32, 1085, 1077, 1090, 32, 1088, 1077, 1079, 1091, 1083, 1100, 1090, 1072,
       1090, 1086, 1074, 32, 115, 112, 101, 101, 100, 116, 101, 115, 116]),
     \<comment> \<open>No availability checks in this period\<close>
     ([78, 111, 32, 97, 118, 97, 105, 108, 97, 98, 105, 108, 105, 116, 121, 32, 99, 104, 101, 99,
       107, 115, 32, 105, 110, 32, 116, 104, 105, 115, 32, 112, 101, 114, 105, 111, 100],
      [1047, 1072, 32, 1074, 1099, 1073, 1088, 1072, 1085, 1085, 1099, 1081, 32, 1087, 1077, 1088,
       1080, 1086, 1076, 32, 1085, 1077, 1090, 32, 97, 118, 97, 105, 108, 97, 98, 105, 108, 105,
       116, 121, 32, 99, 104, 101, 99, 107, 115]),
     \<comment> \<open>No availability checks\<close>
     ([78, 111, 32, 97, 118, 97, 105, 108, 97, 98, 105, 108, 105, 116, 121, 32, 99, 104, 101, 99,
       107, 115],
      [1053, 1077, 1090, 32, 97, 118, 97, 105, 108, 97, 98, 105, 108, 105, 116, 121, 32, 99, 104,
       101, 99, 107, 115]),
     \<comment> \<open>Only real speed tests are plotted; gaps mean no measurement.\<close>
     ([79, 110, 108, 121, 32, 114, 101, 97, 108, 32, 115, 112, 101, 101, 100, 32, 116, 101, 115,
       116, 115, 32, 97, 114, 101, 32, 112, 108, 111, 116, 116, 101, 100, 59, 32, 103, 97, 112,
       115, 32, 109, 101, 97, 110, 32, 110, 111, 32, 109, 101, 97, 115, 117, 114, 101, 109, 101,
       110, 116, 46],
      [1053, 1072, 32, 1075, 1088, 1072, 1092, 1080, 1082, 1077, 32, 1090, 1086, 1083, 1100, 1082,
       1086, 32, 1088, 1077, 1072, 1083, 1100, 1085, 1099, 1077, 32, 115, 112, 101, 101, 100, 116,
       101, 115, 116, 59, 32, 1087, 1088, 1086, 1073, 1077, 1083, 1099, 32, 1086, 1079, 1085,
       1072, 1095, 1072, 1102, 1090, 32, 1086, 1090, 1089, 1091, 1090, 1089, 1090, 1074, 1080,
       1077, 32, 1079, 1072, 1084, 1077, 1088, 1072, 46]),
     \<comment> \<open>Only real speed tests are plotted; gaps mean no measurement. Refreshin\<close>
     ([79, 110, 108, 121, 32, 114, 101, 97, 108, 32, 115, 112, 101, 101, 100, 32, 116, 101, 115,
       116, 115, 32, 97, 114, 101, 32, 112, 108, 111, 116, 116, 101, 100, 59, 32, 103, 97, 112,
       115, 32, 109, 101, 97, 110, 32, 110, 111, 32, 109, 101, 97, 115, 117, 114, 101, 109, 101,
       110, 116, 46, 32, 82, 101, 102, 114, 101, 115, 104, 105, 110, 103, 8230],
      [1053, 1072, 32, 1075, 1088, 1072, 1092, 1080, 1082, 1077, 32, 1090, 1086, 1083, 1100, 1082,
       1086, 32, 1088, 1077, 1072, 1083, 1100, 1085, 1099, 1077, 32, 115, 112, 101, 101, 100, 116,
       101, 115, 116, 59, 32, 1087, 1088, 1086, 1073, 1077, 1083, 1099, 32, 1086, 1079, 1085,
       1072, 1095, 1072, 1102, 1090, 32, 1086, 1090, 1089, 1091, 1090, 1089, 1090, 1074, 1080,
       1077, 32, 1079, 1072, 1084, 1077, 1088, 1072, 46, 32, 1054, 1073, 1085, 1086, 1074, 1083,
       1077, 1085, 1080, 1077, 8230]),
     \<comment> \<open>Only real availability checks are plotted; gaps mean no check.\<close>
     ([79, 110, 108, 121, 32, 114, 101, 97, 108, 32, 97, 118, 97, 105, 108, 97, 98, 105, 108, 105,
       116, 121, 32, 99, 104, 101, 99, 107, 115, 32, 97, 114, 101, 32, 112, 108, 111, 116, 116,
       101, 100, 59, 32, 103, 97, 112, 115, 32, 109, 101, 97, 110, 32, 110, 111, 32, 99, 104, 101,
       99, 107, 46],
      [1053, 1072, 32, 1075, 1088, 1072, 1092, 1080, 1082, 1077, 32, 1090, 1086, 1083, 1100, 1082,
       1086, 32, 1088, 1077, 1072, 1083, 1100, 1085, 1099, 1077, 32, 97, 118, 97, 105, 108, 97,
       98, 105, 108, 105, 116, 121, 32, 99, 104, 101, 99, 107, 115, 59, 32, 1087, 1088, 1086,
       1073, 1077, 1083, 1099, 32, 1086, 1079, 1085, 1072, 1095, 1072, 1102, 1090, 32, 1086, 1090,
       1089, 1091, 1090, 1089, 1090, 1074, 1080, 1077, 32, 1087, 1088, 1086, 1074, 1077, 1088,
       1082, 1080, 46]),
     \<comment> \<open>Only real availability checks are plotted; gaps mean no check. Refresh\<close>
     ([79, 110, 108, 121, 32, 114, 101, 97, 108, 32, 97, 118, 97, 105, 108, 97, 98, 105, 108, 105,
       116, 121, 32, 99, 104, 101, 99, 107, 115, 32, 97, 114, 101, 32, 112, 108, 111, 116, 116,
       101, 100, 59, 32, 103, 97, 112, 115, 32, 109, 101, 97, 110, 32, 110, 111, 32, 99, 104, 101,
       99, 107, 46, 32, 82, 101, 102, 114, 101, 115, 104, 105, 110, 103, 8230],
      [1053, 1072, 32, 1075, 1088, 1072, 1092, 1080, 1082, 1077, 32, 1090, 1086, 1083, 1100, 1082,
       1086, 32, 1088, 1077, 1072, 1083, 1100, 1085, 1099, 1077, 32, 97, 118, 97, 105, 108, 97,
       98, 105, 108, 105, 116, 121, 32, 99, 104, 101, 99, 107, 115, 59, 32, 1087, 1088, 1086,
       1073, 1077, 1083, 1099, 32, 1086, 1079, 1085, 1072, 1095, 1072, 1102, 1090, 32, 1086, 1090,
       1089, 1091, 1090, 1089, 1090, 1074, 1080, 1077, 32, 1087, 1088, 1086, 1074, 1077, 1088,
       1082, 1080, 46, 32, 1054, 1073, 1085, 1086, 1074, 1083, 1077, 1085, 1080, 1077, 8230]),
     \<comment> \<open>Automatic announce\<close>
     ([65, 117, 116, 111, 109, 97, 116, 105, 99, 32, 97, 110, 110, 111, 117, 110, 99, 101],
      [1040, 1074, 1090, 1086, 1084, 1072, 1090, 1080, 1095, 1077, 1089, 1082, 1080, 1081, 32, 97,
       110, 110, 111, 117, 110, 99, 101]),
     \<comment> \<open>Remnawave subscription announce\<close>
     ([82, 101, 109, 110, 97, 119, 97, 118, 101, 32, 115, 117, 98, 115, 99, 114, 105, 112, 116,
       105, 111, 110, 32, 97, 110, 110, 111, 117, 110, 99, 101],
      [83, 117, 98, 115, 99, 114, 105, 112, 116, 105, 111, 110, 32, 97, 110, 110, 111, 117, 110,
       99, 101, 32, 1074, 32, 82, 101, 109, 110, 97, 119, 97, 118, 101]),
     \<comment> \<open>Audience-aware outage messages in the subscription response header\<close>
     ([65, 117, 100, 105, 101, 110, 99, 101, 45, 97, 119, 97, 114, 101, 32, 111, 117, 116, 97,
       103, 101, 32, 109, 101, 115, 115, 97, 103, 101, 115, 32, 105, 110, 32, 116, 104, 101, 32,
       115, 117, 98, 115, 99, 114, 105, 112, 116, 105, 111, 110, 32, 114, 101, 115, 112, 111, 110,
       115, 101, 32, 104, 101, 97, 100, 101, 114],
      [1057, 1086, 1086, 1073, 1097, 1077, 1085, 1080, 1103, 32, 1086, 32, 1085, 1077, 1076, 1086,
       1089, 1090, 1091, 1087, 1085, 1086, 1089, 1090, 1080, 32, 1089, 32, 1091, 1095, 1105, 1090,
       1086, 1084, 32, 97, 117, 100, 105, 101, 110, 99, 101, 32, 1074, 32, 114, 101, 115, 112,
       111, 110, 115, 101, 32, 104, 101, 97, 100, 101, 114, 32, 1087, 1086, 1076, 1087, 1080,
       1089, 1082, 1080]),
     \<comment> \<open>Sync topology ? reconcile\<close>
     ([83, 121, 110, 99, 32, 116, 111, 112, 111, 108, 111, 103, 121, 32, 38, 32, 114, 101, 99,
       111, 110, 99, 105, 108, 101],
      [1057, 1080, 1085, 1093, 1088, 1086, 1085, 1080, 1079, 1080, 1088, 1086, 1074, 1072, 1090,
       1100, 32, 116, 111, 112, 111, 108, 111, 103, 121, 32, 1080, 32, 1079, 1072, 1087, 1091,
       1089, 1090, 1080, 1090, 1100, 32, 114, 101, 99, 111, 110, 99, 105, 108, 101]),
     \<comment> \<open>Save settings\<close>
     ([83, 97, 118, 101, 32, 115, 101, 116, 116, 105, 110, 103, 115],
      [1057, 1086, 1093, 1088, 1072, 1085, 1080, 1090, 1100, 32, 1085, 1072, 1089, 1090, 1088,
       1086, 1081, 1082, 1080]),
     \<comment> \<open>Environment gate\<close>
     ([69, 110, 118, 105, 114, 111, 110, 109, 101, 110, 116, 32, 103, 97, 116, 101],
      [69, 110, 118, 105, 114, 111, 110, 109, 101, 110, 116, 32, 103, 97, 116, 101]),
     \<comment> \<open>Topology\<close>
     ([84, 111, 112, 111, 108, 111, 103, 121],
      [84, 111, 112, 111, 108, 111, 103, 121]),
     \<comment> \<open>Last reconcile\<close>
     ([76, 97, 115, 116, 32, 114, 101, 99, 111, 110, 99, 105, 108, 101],
      [1055, 1086, 1089, 1083, 1077, 1076, 1085, 1080, 1081, 32, 114, 101, 99, 111, 110, 99, 105,
       108, 101]),
     \<comment> \<open>Enabled\<close>
     ([69, 110, 97, 98, 108, 101, 100],
      [1042, 1082, 1083, 1102, 1095, 1077, 1085, 1086]),
     \<comment> \<open>Disabled\<close>
     ([68, 105, 115, 97, 98, 108, 101, 100],
      [1054, 1090, 1082, 1083, 1102, 1095, 1077, 1085, 1086]),
     \<comment> \<open>Configured\<close>
     ([67, 111, 110, 102, 105, 103, 117, 114, 101, 100],
      [1053, 1072, 1089, 1090, 1088, 1086, 1077, 1085, 1086]),
     \<comment> \<open>Not loaded\<close>
     ([78, 111, 116, 32, 108, 111, 97, 100, 101, 100],
      [1053, 1077, 32, 1079, 1072, 1075, 1088, 1091, 1078, 1077, 1085, 1086]),
     \<comment> \<open>Never\<close>
     ([78, 101, 118, 101, 114],
      [1053, 1080, 1082, 1086, 1075, 1076, 1072]),
     \<comment> \<open>Policy\<close>
     ([80, 111, 108, 105, 99, 121],
      [80, 111, 108, 105, 99, 121]),
     \<comment> \<open>Outage minutes\<close>
     ([79, 117, 116, 97, 103, 101, 32, 109, 105, 110, 117, 116, 101, 115],
      [79, 117, 116, 97, 103, 101, 44, 32, 1084, 1080, 1085]),
     \<comment> \<open>Full failed checks\<close>
     ([70, 117, 108, 108, 32, 102, 97, 105, 108, 101, 100, 32, 99, 104, 101, 99, 107, 115],
      [1053, 1077, 1091, 1089, 1087, 1077, 1096, 1085, 1099, 1093, 32, 102, 117, 108, 108, 32, 99,
       104, 101, 99, 107, 115]),
     \<comment> \<open>Stable recovery minutes\<close>
     ([83, 116, 97, 98, 108, 101, 32, 114, 101, 99, 111, 118, 101, 114, 121, 32, 109, 105, 110,
       117, 116, 101, 115],
      [83, 116, 97, 98, 108, 101, 32, 114, 101, 99, 111, 118, 101, 114, 121, 44, 32, 1084, 1080,
       1085]),
     \<comment> \<open>Availability check min\<close>
     ([65, 118, 97, 105, 108, 97, 98, 105, 108, 105, 116, 121, 32, 99, 104, 101, 99, 107, 32, 109,
       105, 110],
      [65, 118, 97, 105, 108, 97, 98, 105, 108, 105, 116, 121, 32, 99, 104, 101, 99, 107, 44, 32,
       1084, 1080, 1085]),
     \<comment> \<open>Diagnostics refresh min\<close>
     ([68, 105, 97, 103, 110, 111, 115, 116, 105, 99, 115, 32, 114, 101, 102, 114, 101, 115, 104,
       32, 109, 105, 110],
      [68, 105, 97, 103, 110, 111, 115, 116, 105, 99, 115, 32, 114, 101, 102, 114, 101, 115, 104,
       44, 32, 1084, 1080, 1085]),
     \<comment> \<open>Both the duration and full-check confirmation threshold must be reache\<close>
     ([66, 111, 116, 104, 32, 116, 104, 101, 32, 100, 117, 114, 97, 116, 105, 111, 110, 32, 97,
       110, 100, 32, 102, 117, 108, 108, 45, 99, 104, 101, 99, 107, 32, 99, 111, 110, 102, 105,
       114, 109, 97, 116, 105, 111, 110, 32, 116, 104, 114, 101, 115, 104, 111, 108, 100, 32, 109,
       117, 115, 116, 32, 98, 101, 32, 114, 101, 97, 99, 104, 101, 100, 46],
      [1053, 1091, 1078, 1085, 1086, 32, 1074, 1099, 1087, 1086, 1083, 1085, 1080, 1090, 1100, 32,
       1086, 1073, 1072, 32, 1091, 1089, 1083, 1086, 1074, 1080, 1103, 58, 32, 1076, 1086, 1089,
       1090, 1080, 1075, 1085, 1091, 1090, 1100, 32, 1084, 1080, 1085, 1080, 1084, 1072, 1083,
       1100, 1085, 1086, 1081, 32, 1076, 1083, 1080, 1090, 1077, 1083, 1100, 1085, 1086, 1089,
       1090, 1080, 32, 1080, 32, 1085, 1072, 1073, 1088, 1072, 1090, 1100, 32, 1087, 1086, 1088,
       1086, 1075, 32, 1087, 1086, 1076, 1090, 1074, 1077, 1088, 1078, 1076, 1077, 1085, 1080,
       1081, 32, 102, 117, 108, 108, 32, 99, 104, 101, 99, 107, 115, 46]),
     \<comment> \<open>Message constructor\<close>
     ([77, 101, 115, 115, 97, 103, 101, 32, 99, 111, 110, 115, 116, 114, 117, 99, 116, 111, 114],
      [1050, 1086, 1085, 1089, 1090, 1088, 1091, 1082, 1090, 1086, 1088, 32, 1089, 1086, 1086,
       1073, 1097, 1077, 1085, 1080, 1081]),
     \<comment> \<open>Enable the user-impact states that should keep a checker status line i\<close>
     ([69, 110, 97, 98, 108, 101, 32, 116, 104, 101, 32, 117, 115, 101, 114, 45, 105, 109, 112,
       97, 99, 116, 32, 115, 116, 97, 116, 101, 115, 32, 116, 104, 97, 116, 32, 115, 104, 111,
       117, 108, 100, 32, 107, 101, 101, 112, 32, 97, 32, 99, 104, 101, 99, 107, 101, 114, 32,
       115, 116, 97, 116, 117, 115, 32, 108, 105, 110, 101, 32, 105, 110, 32, 116, 104, 101, 32,
       115, 117, 98, 115, 99, 114, 105, 112, 116, 105, 111, 110, 32, 97, 110, 110, 111, 117, 110,
       99, 101, 46],
      [1042, 1082, 1083, 1102, 1095, 1080, 1090, 1077, 32, 1074, 1083, 1080, 1103, 1102, 1097,
       1080, 1077, 32, 1085, 1072, 32, 1087, 1086, 1083, 1100, 1079, 1086, 1074, 1072, 1090, 1077,
       1083, 1077, 1081, 32, 1089, 1086, 1089, 1090, 1086, 1103, 1085, 1080, 1103, 44, 32, 1087,
       1088, 1080, 32, 1082, 1086, 1090, 1086, 1088, 1099, 1093, 32, 115, 116, 97, 116, 117, 115,
       32, 108, 105, 110, 101, 32, 1086, 1090, 32, 99, 104, 101, 99, 107, 101, 114, 32, 1076,
       1086, 1083, 1078, 1085, 1072, 32, 1086, 1089, 1090, 1072, 1074, 1072, 1090, 1100, 1089,
       1103, 32, 1074, 32, 115, 117, 98, 115, 99, 114, 105, 112, 116, 105, 111, 110, 32, 97, 110,
       110, 111, 117, 110, 99, 101, 46]),
     \<comment> \<open>One unavailable location\<close>
     ([79, 110, 101, 32, 117, 110, 97, 118, 97, 105, 108, 97, 98, 108, 101, 32, 108, 111, 99, 97,
       116, 105, 111, 110],
      [1053, 1077, 1076, 1086, 1089, 1090, 1091, 1087, 1085, 1072, 32, 1086, 1076, 1085, 1072, 32,
       1083, 1086, 1082, 1072, 1094, 1080, 1103]),
     \<comment> \<open>Several unavailable locations\<close>
     ([83, 101, 118, 101, 114, 97, 108, 32, 117, 110, 97, 118, 97, 105, 108, 97, 98, 108, 101, 32,
       108, 111, 99, 97, 116, 105, 111, 110, 115],
      [1053, 1077, 1076, 1086, 1089, 1090, 1091, 1087, 1085, 1086, 32, 1085, 1077, 1089, 1082,
       1086, 1083, 1100, 1082, 1086, 32, 1083, 1086, 1082, 1072, 1094, 1080, 1081]),
     \<comment> \<open>All audience locations unavailable\<close>
     ([65, 108, 108, 32, 97, 117, 100, 105, 101, 110, 99, 101, 32, 108, 111, 99, 97, 116, 105,
       111, 110, 115, 32, 117, 110, 97, 118, 97, 105, 108, 97, 98, 108, 101],
      [1053, 1077, 1076, 1086, 1089, 1090, 1091, 1087, 1085, 1099, 32, 1074, 1089, 1077, 32, 1083,
       1086, 1082, 1072, 1094, 1080, 1080, 32, 97, 117, 100, 105, 101, 110, 99, 101]),
     \<comment> \<open>Part of one location unavailable\<close>
     ([80, 97, 114, 116, 32, 111, 102, 32, 111, 110, 101, 32, 108, 111, 99, 97, 116, 105, 111,
       110, 32, 117, 110, 97, 118, 97, 105, 108, 97, 98, 108, 101],
      [1053, 1077, 1076, 1086, 1089, 1090, 1091, 1087, 1085, 1072, 32, 1095, 1072, 1089, 1090,
       1100, 32, 1086, 1076, 1085, 1086, 1081, 32, 1083, 1086, 1082, 1072, 1094, 1080, 1080]),
     \<comment> \<open>Part of several locations unavailable\<close>
     ([80, 97, 114, 116, 32, 111, 102, 32, 115, 101, 118, 101, 114, 97, 108, 32, 108, 111, 99, 97,
       116, 105, 111, 110, 115, 32, 117, 110, 97, 118, 97, 105, 108, 97, 98, 108, 101],
      [1053, 1077, 1076, 1086, 1089, 1090, 1091, 1087, 1085, 1099, 32, 1095, 1072, 1089, 1090,
       1080, 32, 1085, 1077, 1089, 1082, 1086, 1083, 1100, 1082, 1080, 1093, 32, 1083, 1086, 1082,
       1072, 1094, 1080, 1081]),
     \<comment> \<open>Everything stable\<close>
     ([69, 118, 101, 114, 121, 116, 104, 105, 110, 103, 32, 115, 116, 97, 98, 108, 101],
      [1042, 1089, 1105, 32, 1089, 1090, 1072, 1073, 1080, 1083, 1100, 1085, 1086]),
     \<comment> \<open>Template\<close>
     ([84, 101, 109, 112, 108, 97, 116, 101],
      [1064, 1072, 1073, 1083, 1086, 1085]),
     \<comment> \<open>Preview\<close>
     ([80, 114, 101, 118, 105, 101, 119],
      [80, 114, 101, 118, 105, 101, 119]),
     \<comment> \<open>Long location-list fallback\<close>
     ([76, 111, 110, 103, 32, 108, 111, 99, 97, 116, 105, 111, 110, 45, 108, 105, 115, 116, 32,
       102, 97, 108, 108, 98, 97, 99, 107],
      [70, 97, 108, 108, 98, 97, 99, 107, 32, 1076, 1083, 1103, 32, 1076, 1083, 1080, 1085, 1085,
       1086, 1075, 1086, 32, 1089, 1087, 1080, 1089, 1082, 1072, 32, 1083, 1086, 1082, 1072, 1094,
       1080, 1081]),
     \<comment> \<open>Long partial-location-list fallback\<close>
     ([76, 111, 110, 103, 32, 112, 97, 114, 116, 105, 97, 108, 45, 108, 111, 99, 97, 116, 105,
       111, 110, 45, 108, 105, 115, 116, 32, 102, 97, 108, 108, 98, 97, 99, 107],
      [70, 97, 108, 108, 98, 97, 99, 107, 32, 1076, 1083, 1103, 32, 1076, 1083, 1080, 1085, 1085,
       1086, 1075, 1086, 32, 1089, 1087, 1080, 1089, 1082, 1072, 32, 1095, 1072, 1089, 1090, 1080,
       1095, 1085, 1086, 32, 1085, 1077, 1076, 1086, 1089, 1090, 1091, 1087, 1085, 1099, 1093, 32,
       1083, 1086, 1082, 1072, 1094, 1080, 1081]),
     \<comment> \<open>Used when more than three whole locations are down or the rendered loc\<close>
     ([85, 115, 101, 100, 32, 119, 104, 101, 110, 32, 109, 111, 114, 101, 32, 116, 104, 97, 110,
       32, 116, 104, 114, 101, 101, 32, 119, 104, 111, 108, 101, 32, 108, 111, 99, 97, 116, 105,
       111, 110, 115, 32, 97, 114, 101, 32, 100, 111, 119, 110, 32, 111, 114, 32, 116, 104, 101,
       32, 114, 101, 110, 100, 101, 114, 101, 100, 32, 108, 111, 99, 97, 116, 105, 111, 110, 32,
       108, 105, 115, 116, 32, 101, 120, 99, 101, 101, 100, 115, 32, 50, 52, 48, 32, 99, 104, 97,
       114, 97, 99, 116, 101, 114, 115, 46],
      [1048, 1089, 1087, 1086, 1083, 1100, 1079, 1091, 1077, 1090, 1089, 1103, 44, 32, 1082, 1086,
       1075, 1076, 1072, 32, 1087, 1086, 1083, 1085, 1086, 1089, 1090, 1100, 1102, 32, 1085, 1077,
       1076, 1086, 1089, 1090, 1091, 1087, 1085, 1086, 32, 1073, 1086, 1083, 1100, 1096, 1077, 32,
       1090, 1088, 1105, 1093, 32, 1083, 1086, 1082, 1072, 1094, 1080, 1081, 32, 1080, 1083, 1080,
       32, 1089, 1092, 1086, 1088, 1084, 1080, 1088, 1086, 1074, 1072, 1085, 1085, 1099, 1081, 32,
       1089, 1087, 1080, 1089, 1086, 1082, 32, 1087, 1088, 1077, 1074, 1099, 1096, 1072, 1077,
       1090, 32, 50, 52, 48, 32, 1089, 1080, 1084, 1074, 1086, 1083, 1086, 1074, 46]),
     \<comment> \<open>Used when parts of more than three locations are down or the rendered \<close>
     ([85, 115, 101, 100, 32, 119, 104, 101, 110, 32, 112, 97, 114, 116, 115, 32, 111, 102, 32,
       109, 111, 114, 101, 32, 116, 104, 97, 110, 32, 116, 104, 114, 101, 101, 32, 108, 111, 99,
       97, 116, 105, 111, 110, 115, 32, 97, 114, 101, 32, 100, 111, 119, 110, 32, 111, 114, 32,
       116, 104, 101, 32, 114, 101, 110, 100, 101, 114, 101, 100, 32, 112, 97, 114, 116, 105, 97,
       108, 45, 108, 111, 99, 97, 116, 105, 111, 110, 32, 108, 105, 115, 116, 32, 101, 120, 99,
       101, 101, 100, 115, 32, 50, 52, 48, 32, 99, 104, 97, 114, 97, 99, 116, 101, 114, 115, 46],
      [1048, 1089, 1087, 1086, 1083, 1100, 1079, 1091, 1077, 1090, 1089, 1103, 44, 32, 1082, 1086,
       1075, 1076, 1072, 32, 1095, 1072, 1089, 1090, 1080, 1095, 1085, 1086, 32, 1085, 1077, 1076,
       1086, 1089, 1090, 1091, 1087, 1085, 1086, 32, 1073, 1086, 1083, 1100, 1096, 1077, 32, 1090,
       1088, 1105, 1093, 32, 1083, 1086, 1082, 1072, 1094, 1080, 1081, 32, 1080, 1083, 1080, 32,
       1089, 1092, 1086, 1088, 1084, 1080, 1088, 1086, 1074, 1072, 1085, 1085, 1099, 1081, 32,
       1089, 1087, 1080, 1089, 1086, 1082, 32, 1087, 1088, 1077, 1074, 1099, 1096, 1072, 1077,
       1090, 32, 50, 52, 48, 32, 1089, 1080, 1084, 1074, 1086, 1083, 1086, 1074, 46]),
     \<comment> \<open>Audience pairs\<close>
     ([65, 117, 100, 105, 101, 110, 99, 101, 32, 112, 97, 105, 114, 115],
      [1055, 1072, 1088, 1099, 32, 97, 117, 100, 105, 101, 110, 99, 101]),
     \<comment> \<open>Internal Squad determines visible Hosts; External Squad receives the m\<close>
     ([73, 110, 116, 101, 114, 110, 97, 108, 32, 83, 113, 117, 97, 100, 32, 100, 101, 116, 101,
       114, 109, 105, 110, 101, 115, 32, 118, 105, 115, 105, 98, 108, 101, 32, 72, 111, 115, 116,
       115, 59, 32, 69, 120, 116, 101, 114, 110, 97, 108, 32, 83, 113, 117, 97, 100, 32, 114, 101,
       99, 101, 105, 118, 101, 115, 32, 116, 104, 101, 32, 109, 101, 115, 115, 97, 103, 101, 46],
      [73, 110, 116, 101, 114, 110, 97, 108, 32, 83, 113, 117, 97, 100, 32, 1086, 1087, 1088,
       1077, 1076, 1077, 1083, 1103, 1077, 1090, 32, 1074, 1080, 1076, 1080, 1084, 1099, 1077, 32,
       72, 111, 115, 116, 115, 44, 32, 1072, 32, 69, 120, 116, 101, 114, 110, 97, 108, 32, 83,
       113, 117, 97, 100, 32, 1087, 1086, 1083, 1091, 1095, 1072, 1077, 1090, 32, 1089, 1086,
       1086, 1073, 1097, 1077, 1085, 1080, 1077, 46]),
     \<comment> \<open>Add pair\<close>
     ([65, 100, 100, 32, 112, 97, 105, 114],
      [1044, 1086, 1073, 1072, 1074, 1080, 1090, 1100, 32, 1087, 1072, 1088, 1091]),
     \<comment> \<open>Mode\<close>
     ([77, 111, 100, 101],
      [1056, 1077, 1078, 1080, 1084]),
     \<comment> \<open>Mark the checker service pair as monitoring-only. It remains visible f\<close>
     ([77, 97, 114, 107, 32, 116, 104, 101, 32, 99, 104, 101, 99, 107, 101, 114, 32, 115, 101,
       114, 118, 105, 99, 101, 32, 112, 97, 105, 114, 32, 97, 115, 32, 109, 111, 110, 105, 116,
       111, 114, 105, 110, 103, 45, 111, 110, 108, 121, 46, 32, 73, 116, 32, 114, 101, 109, 97,
       105, 110, 115, 32, 118, 105, 115, 105, 98, 108, 101, 32, 102, 111, 114, 32, 116, 111, 112,
       111, 108, 111, 103, 121, 32, 99, 104, 101, 99, 107, 115, 32, 98, 117, 116, 32, 105, 116,
       115, 32, 69, 120, 116, 101, 114, 110, 97, 108, 32, 83, 113, 117, 97, 100, 32, 105, 115, 32,
       110, 101, 118, 101, 114, 32, 109, 111, 100, 105, 102, 105, 101, 100, 46],
      [1055, 1086, 1084, 1077, 1090, 1100, 1090, 1077, 32, 1089, 1077, 1088, 1074, 1080, 1089,
       1085, 1091, 1102, 32, 1087, 1072, 1088, 1091, 32, 99, 104, 101, 99, 107, 101, 114, 32,
       1082, 1072, 1082, 32, 109, 111, 110, 105, 116, 111, 114, 105, 110, 103, 45, 111, 110, 108,
       121, 46, 32, 1054, 1085, 1072, 32, 1086, 1089, 1090, 1072, 1085, 1077, 1090, 1089, 1103,
       32, 1074, 1080, 1076, 1080, 1084, 1086, 1081, 32, 1076, 1083, 1103, 32, 116, 111, 112, 111,
       108, 111, 103, 121, 32, 99, 104, 101, 99, 107, 115, 44, 32, 1085, 1086, 32, 99, 104, 101,
       99, 107, 101, 114, 32, 1085, 1080, 1082, 1086, 1075, 1076, 1072, 32, 1085, 1077, 32, 1080,
       1079, 1084, 1077, 1085, 1080, 1090, 32, 1077, 1105, 32, 69, 120, 116, 101, 114, 110, 97,
       108, 32, 83, 113, 117, 97, 100, 46])]"

lemma ru_part3_nonempty: "list_all (\<lambda>(k, v). k \<noteq> [] \<and> v \<noteq> []) ru_part3"
  by (simp add: ru_part3_def)

end
