(* ===== verification/RuData4.thy ===== *)
theory RuData4
  imports JsRegex
begin

text \<open>
  Lines 286 to 378 of the Russian dictionary (the object \<open>ru\<close> of
  \<open>src/web/static/localization.js\<close>), entry by entry in source order, as code points. The comment
  in front of an entry is its key with every character outside a small ASCII set shown as a
  question mark.
\<close>

definition ru_part4 :: "(jstr \<times> jstr) list" where
  "ru_part4 = [
     \<comment> \<open>Announce locations\<close>
     ([65, 110, 110, 111, 117, 110, 99, 101, 32, 108, 111, 99, 97, 116, 105, 111, 110, 115],
      [1051, 1086, 1082, 1072, 1094, 1080, 1080, 32, 65, 110, 110, 111, 117, 110, 99, 101]),
     \<comment> \<open>Add location\<close>
     ([65, 100, 100, 32, 108, 111, 99, 97, 116, 105, 111, 110],
      [1044, 1086, 1073, 1072, 1074, 1080, 1090, 1100, 32, 1083, 1086, 1082, 1072, 1094, 1080,
       1102]),
     \<comment> \<open>The persisted identity is the location key. Servers are replaceable me\<close>
     ([84, 104, 101, 32, 112, 101, 114, 115, 105, 115, 116, 101, 100, 32, 105, 100, 101, 110, 116,
       105, 116, 121, 32, 105, 115, 32, 116, 104, 101, 32, 108, 111, 99, 97, 116, 105, 111, 110,
       32, 107, 101, 121, 46, 32, 83, 101, 114, 118, 101, 114, 115, 32, 97, 114, 101, 32, 114,
       101, 112, 108, 97, 99, 101, 97, 98, 108, 101, 32, 109, 101, 109, 98, 101, 114, 115, 32,
       111, 102, 32, 116, 104, 97, 116, 32, 108, 111, 99, 97, 116, 105, 111, 110, 46],
      [80, 101, 114, 115, 105, 115, 116, 101, 100, 32, 105, 100, 101, 110, 116, 105, 116, 121, 32,
       1079, 1072, 1076, 1072, 1105, 1090, 1089, 1103, 32, 1082, 1083, 1102, 1095, 1086, 1084, 32,
       1083, 1086, 1082, 1072, 1094, 1080, 1080, 46, 32, 1057, 1077, 1088, 1074, 1077, 1088, 1099,
       32, 8212, 32, 1079, 1072, 1084, 1077, 1085, 1103, 1077, 1084, 1099, 1077, 32, 1091, 1095,
       1072, 1089, 1090, 1085, 1080, 1082, 1080, 32, 1101, 1090, 1086, 1081, 32, 1083, 1086, 1082,
       1072, 1094, 1080, 1080, 46]),
     \<comment> \<open>Location key\<close>
     ([76, 111, 99, 97, 116, 105, 111, 110, 32, 107, 101, 121],
      [1050, 1083, 1102, 1095, 32, 1083, 1086, 1082, 1072, 1094, 1080, 1080]),
     \<comment> \<open>Public label\<close>
     ([80, 117, 98, 108, 105, 99, 32, 108, 97, 98, 101, 108],
      [1055, 1091, 1073, 1083, 1080, 1095, 1085, 1072, 1103, 32, 1084, 1077, 1090, 1082, 1072]),
     \<comment> \<open>Delete location\<close>
     ([68, 101, 108, 101, 116, 101, 32, 108, 111, 99, 97, 116, 105, 111, 110],
      [1059, 1076, 1072, 1083, 1080, 1090, 1100, 32, 1083, 1086, 1082, 1072, 1094, 1080, 1102]),
     \<comment> \<open>Checker node\<close>
     ([67, 104, 101, 99, 107, 101, 114, 32, 110, 111, 100, 101],
      [1053, 1086, 1076, 1072, 32, 99, 104, 101, 99, 107, 101, 114]),
     \<comment> \<open>Checker node for location\<close>
     ([67, 104, 101, 99, 107, 101, 114, 32, 110, 111, 100, 101, 32, 102, 111, 114, 32, 108, 111,
       99, 97, 116, 105, 111, 110],
      [1053, 1086, 1076, 1072, 32, 99, 104, 101, 99, 107, 101, 114, 32, 1076, 1083, 1103, 32,
       1083, 1086, 1082, 1072, 1094, 1080, 1080]),
     \<comment> \<open>Remnawave Host for location\<close>
     ([82, 101, 109, 110, 97, 119, 97, 118, 101, 32, 72, 111, 115, 116, 32, 102, 111, 114, 32,
       108, 111, 99, 97, 116, 105, 111, 110],
      [82, 101, 109, 110, 97, 119, 97, 118, 101, 32, 72, 111, 115, 116, 32, 1076, 1083, 1103, 32,
       1083, 1086, 1082, 1072, 1094, 1080, 1080]),
     \<comment> \<open>Add server member\<close>
     ([65, 100, 100, 32, 115, 101, 114, 118, 101, 114, 32, 109, 101, 109, 98, 101, 114],
      [1044, 1086, 1073, 1072, 1074, 1080, 1090, 1100, 32, 1089, 1077, 1088, 1074, 1077, 1088, 32,
       1074, 32, 1083, 1086, 1082, 1072, 1094, 1080, 1102]),
     \<comment> \<open>Each member connects a checker StableID to the Remnawave Host used for\<close>
     ([69, 97, 99, 104, 32, 109, 101, 109, 98, 101, 114, 32, 99, 111, 110, 110, 101, 99, 116, 115,
       32, 97, 32, 99, 104, 101, 99, 107, 101, 114, 32, 83, 116, 97, 98, 108, 101, 73, 68, 32,
       116, 111, 32, 116, 104, 101, 32, 82, 101, 109, 110, 97, 119, 97, 118, 101, 32, 72, 111,
       115, 116, 32, 117, 115, 101, 100, 32, 102, 111, 114, 32, 97, 117, 100, 105, 101, 110, 99,
       101, 32, 102, 105, 108, 116, 101, 114, 105, 110, 103, 46, 32, 65, 32, 104, 101, 97, 108,
       116, 104, 121, 32, 109, 101, 109, 98, 101, 114, 32, 112, 114, 101, 118, 101, 110, 116, 115,
       32, 97, 32, 102, 117, 108, 108, 32, 108, 111, 99, 97, 116, 105, 111, 110, 32, 111, 117,
       116, 97, 103, 101, 59, 32, 97, 32, 99, 111, 110, 102, 105, 114, 109, 101, 100, 32, 102, 97,
       105, 108, 101, 100, 32, 109, 101, 109, 98, 101, 114, 32, 117, 115, 101, 115, 32, 116, 104,
       101, 32, 112, 97, 114, 116, 105, 97, 108, 45, 97, 118, 97, 105, 108, 97, 98, 105, 108, 105,
       116, 121, 32, 115, 99, 101, 110, 97, 114, 105, 111, 46, 32, 65, 100, 100, 105, 110, 103,
       32, 111, 114, 32, 114, 101, 112, 108, 97, 99, 105, 110, 103, 32, 97, 32, 109, 101, 109, 98,
       101, 114, 32, 107, 101, 101, 112, 115, 32, 116, 104, 101, 32, 108, 111, 99, 97, 116, 105,
       111, 110, 32, 97, 110, 100, 32, 105, 116, 115, 32, 65, 110, 110, 111, 117, 110, 99, 101,
       32, 98, 105, 110, 100, 105, 110, 103, 32, 117, 110, 99, 104, 97, 110, 103, 101, 100, 46,
       32, 79, 110, 108, 121, 32, 110, 111, 100, 101, 115, 32, 111, 102, 32, 121, 111, 117, 114,
       32, 111, 119, 110, 32, 115, 117, 98, 115, 99, 114, 105, 112, 116, 105, 111, 110, 32, 97,
       114, 101, 32, 108, 105, 115, 116, 101, 100, 58, 32, 97, 110, 110, 111, 117, 110, 99, 101,
       32, 115, 112, 101, 97, 107, 115, 32, 116, 111, 32, 121, 111, 117, 114, 32, 115, 117, 98,
       115, 99, 114, 105, 98, 101, 114, 115, 32, 97, 98, 111, 117, 116, 32, 121, 111, 117, 114,
       32, 115, 101, 114, 118, 105, 99, 101, 44, 32, 115, 111, 32, 97, 32, 115, 111, 117, 114, 99,
       101, 32, 97, 100, 100, 101, 100, 32, 102, 114, 111, 109, 32, 116, 104, 101, 32, 112, 97,
       110, 101, 108, 32, 116, 97, 107, 101, 115, 32, 110, 111, 32, 112, 97, 114, 116, 32, 105,
       110, 32, 105, 116, 32, 97, 110, 100, 32, 105, 116, 115, 32, 111, 117, 116, 97, 103, 101,
       32, 99, 97, 110, 110, 111, 116, 32, 109, 97, 107, 101, 32, 97, 32, 108, 111, 99, 97, 116,
       105, 111, 110, 32, 112, 97, 114, 116, 105, 97, 108, 108, 121, 32, 117, 110, 97, 118, 97,
       105, 108, 97, 98, 108, 101, 46],
      [1050, 1072, 1078, 1076, 1099, 1081, 32, 1091, 1095, 1072, 1089, 1090, 1085, 1080, 1082, 32,
       1089, 1074, 1103, 1079, 1099, 1074, 1072, 1077, 1090, 32, 83, 116, 97, 98, 108, 101, 73,
       68, 32, 99, 104, 101, 99, 107, 101, 114, 32, 1089, 32, 82, 101, 109, 110, 97, 119, 97, 118,
       101, 32, 72, 111, 115, 116, 32, 1076, 1083, 1103, 32, 1092, 1080, 1083, 1100, 1090, 1088,
       1072, 1094, 1080, 1080, 32, 97, 117, 100, 105, 101, 110, 99, 101, 46, 32, 72, 101, 97, 108,
       116, 104, 121, 45, 1091, 1095, 1072, 1089, 1090, 1085, 1080, 1082, 32, 1087, 1088, 1077,
       1076, 1086, 1090, 1074, 1088, 1072, 1097, 1072, 1077, 1090, 32, 1087, 1086, 1083, 1085,
       1099, 1081, 32, 111, 117, 116, 97, 103, 101, 32, 1083, 1086, 1082, 1072, 1094, 1080, 1080,
       44, 32, 1072, 32, 99, 111, 110, 102, 105, 114, 109, 101, 100, 32, 102, 97, 105, 108, 101,
       100, 32, 109, 101, 109, 98, 101, 114, 32, 1074, 1082, 1083, 1102, 1095, 1072, 1077, 1090,
       32, 112, 97, 114, 116, 105, 97, 108, 45, 97, 118, 97, 105, 108, 97, 98, 105, 108, 105, 116,
       121, 32, 115, 99, 101, 110, 97, 114, 105, 111, 46, 32, 1044, 1086, 1073, 1072, 1074, 1083,
       1077, 1085, 1080, 1077, 32, 1080, 1083, 1080, 32, 1079, 1072, 1084, 1077, 1085, 1072, 32,
       1089, 1077, 1088, 1074, 1077, 1088, 1072, 32, 1085, 1077, 32, 1084, 1077, 1085, 1103, 1077,
       1090, 32, 1083, 1086, 1082, 1072, 1094, 1080, 1102, 32, 1080, 32, 1077, 1105, 32, 1087,
       1088, 1080, 1074, 1103, 1079, 1082, 1091, 32, 65, 110, 110, 111, 117, 110, 99, 101, 46, 32,
       1042, 32, 1089, 1087, 1080, 1089, 1082, 1077, 32, 1090, 1086, 1083, 1100, 1082, 1086, 32,
       1085, 1086, 1076, 1099, 32, 1074, 1072, 1096, 1077, 1081, 32, 1087, 1086, 1076, 1087, 1080,
       1089, 1082, 1080, 58, 32, 97, 110, 110, 111, 117, 110, 99, 101, 32, 1086, 1073, 1088, 1072,
       1097, 1072, 1077, 1090, 1089, 1103, 32, 1082, 32, 1074, 1072, 1096, 1080, 1084, 32, 1087,
       1086, 1076, 1087, 1080, 1089, 1095, 1080, 1082, 1072, 1084, 32, 1086, 32, 1074, 1072, 1096,
       1077, 1084, 32, 1089, 1077, 1088, 1074, 1080, 1089, 1077, 44, 32, 1087, 1086, 1101, 1090,
       1086, 1084, 1091, 32, 1080, 1089, 1090, 1086, 1095, 1085, 1080, 1082, 44, 32, 1076, 1086,
       1073, 1072, 1074, 1083, 1077, 1085, 1085, 1099, 1081, 32, 1080, 1079, 32, 1087, 1072, 1085,
       1077, 1083, 1080, 44, 32, 1074, 32, 1085, 1105, 1084, 32, 1085, 1077, 32, 1091, 1095, 1072,
       1089, 1090, 1074, 1091, 1077, 1090, 32, 1080, 32, 1077, 1075, 1086, 32, 1087, 1072, 1076,
       1077, 1085, 1080, 1077, 32, 1085, 1077, 32, 1076, 1077, 1083, 1072, 1077, 1090, 32, 1083,
       1086, 1082, 1072, 1094, 1080, 1102, 32, 1095, 1072, 1089, 1090, 1080, 1095, 1085, 1086, 32,
       1085, 1077, 1076, 1086, 1089, 1090, 1091, 1087, 1085, 1086, 1081, 46]),
     \<comment> \<open>Current announce state\<close>
     ([67, 117, 114, 114, 101, 110, 116, 32, 97, 110, 110, 111, 117, 110, 99, 101, 32, 115, 116,
       97, 116, 101],
      [1058, 1077, 1082, 1091, 1097, 1077, 1077, 32, 1089, 1086, 1089, 1090, 1086, 1103, 1085,
       1080, 1077, 32, 97, 110, 110, 111, 117, 110, 99, 101]),
     \<comment> \<open>Only a status shown as managed may later be changed or removed automat\<close>
     ([79, 110, 108, 121, 32, 97, 32, 115, 116, 97, 116, 117, 115, 32, 115, 104, 111, 119, 110,
       32, 97, 115, 32, 109, 97, 110, 97, 103, 101, 100, 32, 109, 97, 121, 32, 108, 97, 116, 101,
       114, 32, 98, 101, 32, 99, 104, 97, 110, 103, 101, 100, 32, 111, 114, 32, 114, 101, 109,
       111, 118, 101, 100, 32, 97, 117, 116, 111, 109, 97, 116, 105, 99, 97, 108, 108, 121, 59,
       32, 116, 104, 101, 32, 112, 114, 101, 115, 101, 114, 118, 101, 100, 32, 102, 105, 114, 115,
       116, 32, 108, 105, 110, 101, 32, 114, 101, 109, 97, 105, 110, 115, 32, 111, 112, 101, 114,
       97, 116, 111, 114, 45, 111, 119, 110, 101, 100, 46],
      [67, 104, 101, 99, 107, 101, 114, 32, 1084, 1086, 1078, 1077, 1090, 32, 1072, 1074, 1090,
       1086, 1084, 1072, 1090, 1080, 1095, 1077, 1089, 1082, 1080, 32, 1080, 1079, 1084, 1077,
       1085, 1080, 1090, 1100, 32, 1080, 1083, 1080, 32, 1091, 1076, 1072, 1083, 1080, 1090, 1100,
       32, 1090, 1086, 1083, 1100, 1082, 1086, 32, 115, 116, 97, 116, 117, 115, 32, 108, 105, 110,
       101, 32, 1089, 32, 1087, 1086, 1084, 1077, 1090, 1082, 1086, 1081, 32, 109, 97, 110, 97,
       103, 101, 100, 59, 32, 1089, 1086, 1093, 1088, 1072, 1085, 1105, 1085, 1085, 1072, 1103,
       32, 1087, 1077, 1088, 1074, 1072, 1103, 32, 1089, 1090, 1088, 1086, 1082, 1072, 32, 1086,
       1089, 1090, 1072, 1105, 1090, 1089, 1103, 32, 111, 112, 101, 114, 97, 116, 111, 114, 45,
       111, 119, 110, 101, 100, 46]),
     \<comment> \<open>Remove\<close>
     ([82, 101, 109, 111, 118, 101],
      [1059, 1076, 1072, 1083, 1080, 1090, 1100]),
     \<comment> \<open>No audience pairs configured\<close>
     ([78, 111, 32, 97, 117, 100, 105, 101, 110, 99, 101, 32, 112, 97, 105, 114, 115, 32, 99, 111,
       110, 102, 105, 103, 117, 114, 101, 100],
      [1055, 1072, 1088, 1099, 32, 97, 117, 100, 105, 101, 110, 99, 101, 32, 1085, 1077, 32, 1085,
       1072, 1089, 1090, 1088, 1086, 1077, 1085, 1099]),
     \<comment> \<open>Unnamed\<close>
     ([85, 110, 110, 97, 109, 101, 100],
      [1041, 1077, 1079, 32, 1080, 1084, 1077, 1085, 1080]),
     \<comment> \<open>No subscription\<close>
     ([78, 111, 32, 115, 117, 98, 115, 99, 114, 105, 112, 116, 105, 111, 110],
      [1041, 1077, 1079, 32, 1087, 1086, 1076, 1087, 1080, 1089, 1082, 1080]),
     \<comment> \<open>Select checker node\<close>
     ([83, 101, 108, 101, 99, 116, 32, 99, 104, 101, 99, 107, 101, 114, 32, 110, 111, 100, 101],
      [1042, 1099, 1073, 1077, 1088, 1080, 1090, 1077, 32, 1085, 1086, 1076, 1091, 32, 99, 104,
       101, 99, 107, 101, 114]),
     \<comment> \<open>Fetching subscriptions\<close>
     ([70, 101, 116, 99, 104, 105, 110, 103, 32, 115, 117, 98, 115, 99, 114, 105, 112, 116, 105,
       111, 110, 115],
      [1047, 1072, 1075, 1088, 1091, 1079, 1082, 1072, 32, 1087, 1086, 1076, 1087, 1080, 1089,
       1086, 1082]),
     \<comment> \<open>Resolving node addresses\<close>
     ([82, 101, 115, 111, 108, 118, 105, 110, 103, 32, 110, 111, 100, 101, 32, 97, 100, 100, 114,
       101, 115, 115, 101, 115],
      [1056, 1077, 1079, 1086, 1083, 1074, 1080, 1085, 1075, 32, 1072, 1076, 1088, 1077, 1089,
       1086, 1074, 32, 1085, 1086, 1076]),
     \<comment> \<open>Comparing with the current set\<close>
     ([67, 111, 109, 112, 97, 114, 105, 110, 103, 32, 119, 105, 116, 104, 32, 116, 104, 101, 32,
       99, 117, 114, 114, 101, 110, 116, 32, 115, 101, 116],
      [1057, 1088, 1072, 1074, 1085, 1077, 1085, 1080, 1077, 32, 1089, 32, 1090, 1077, 1082, 1091,
       1097, 1080, 1084, 32, 1085, 1072, 1073, 1086, 1088, 1086, 1084]),
     \<comment> \<open>Applying and restarting Xray\<close>
     ([65, 112, 112, 108, 121, 105, 110, 103, 32, 97, 110, 100, 32, 114, 101, 115, 116, 97, 114,
       116, 105, 110, 103, 32, 88, 114, 97, 121],
      [1055, 1088, 1080, 1084, 1077, 1085, 1077, 1085, 1080, 1077, 32, 1080, 32, 1087, 1077, 1088,
       1077, 1079, 1072, 1087, 1091, 1089, 1082, 32, 88, 114, 97, 121]),
     \<comment> \<open>Finishing up\<close>
     ([70, 105, 110, 105, 115, 104, 105, 110, 103, 32, 117, 112],
      [1047, 1072, 1074, 1077, 1088, 1096, 1077, 1085, 1080, 1077]),
     \<comment> \<open>Working\<close>
     ([87, 111, 114, 107, 105, 110, 103],
      [1054, 1073, 1088, 1072, 1073, 1086, 1090, 1082, 1072]),
     \<comment> \<open>Adopt current announce as base\<close>
     ([65, 100, 111, 112, 116, 32, 99, 117, 114, 114, 101, 110, 116, 32, 97, 110, 110, 111, 117,
       110, 99, 101, 32, 97, 115, 32, 98, 97, 115, 101],
      [1055, 1088, 1080, 1085, 1103, 1090, 1100, 32, 1090, 1077, 1082, 1091, 1097, 1080, 1081, 32,
       97, 110, 110, 111, 117, 110, 99, 101, 32, 1082, 1072, 1082, 32, 1073, 1072, 1079, 1091]),
     \<comment> \<open>Forget adopted base\<close>
     ([70, 111, 114, 103, 101, 116, 32, 97, 100, 111, 112, 116, 101, 100, 32, 98, 97, 115, 101],
      [1047, 1072, 1073, 1099, 1090, 1100, 32, 1087, 1088, 1080, 1085, 1103, 1090, 1091, 1102, 32,
       1073, 1072, 1079, 1091]),
     \<comment> \<open>Operator base adopted; the status line is written after it\<close>
     ([79, 112, 101, 114, 97, 116, 111, 114, 32, 98, 97, 115, 101, 32, 97, 100, 111, 112, 116,
       101, 100, 59, 32, 116, 104, 101, 32, 115, 116, 97, 116, 117, 115, 32, 108, 105, 110, 101,
       32, 105, 115, 32, 119, 114, 105, 116, 116, 101, 110, 32, 97, 102, 116, 101, 114, 32, 105,
       116],
      [1041, 1072, 1079, 1072, 32, 1086, 1087, 1077, 1088, 1072, 1090, 1086, 1088, 1072, 32, 1087,
       1088, 1080, 1085, 1103, 1090, 1072, 59, 32, 1089, 1090, 1088, 1086, 1082, 1072, 32, 1089,
       1090, 1072, 1090, 1091, 1089, 1072, 32, 1087, 1080, 1096, 1077, 1090, 1089, 1103, 32, 1087,
       1086, 1089, 1083, 1077, 32, 1085, 1077, 1105]),
     \<comment> \<open>Pinned manually\<close>
     ([80, 105, 110, 110, 101, 100, 32, 109, 97, 110, 117, 97, 108, 108, 121],
      [1047, 1072, 1076, 1072, 1085, 32, 1074, 1088, 1091, 1095, 1085, 1091, 1102]),
     \<comment> \<open>Paired with\<close>
     ([80, 97, 105, 114, 101, 100, 32, 119, 105, 116, 104],
      [1057, 1086, 1087, 1086, 1089, 1090, 1072, 1074, 1083, 1077, 1085, 32, 1089]),
     \<comment> \<open>Two hosts share this address and port ? choose one\<close>
     ([84, 119, 111, 32, 104, 111, 115, 116, 115, 32, 115, 104, 97, 114, 101, 32, 116, 104, 105,
       115, 32, 97, 100, 100, 114, 101, 115, 115, 32, 97, 110, 100, 32, 112, 111, 114, 116, 32,
       8212, 32, 99, 104, 111, 111, 115, 101, 32, 111, 110, 101],
      [1044, 1074, 1072, 32, 1093, 1086, 1089, 1090, 1072, 32, 1089, 32, 1086, 1076, 1080, 1085,
       1072, 1082, 1086, 1074, 1099, 1084, 32, 1072, 1076, 1088, 1077, 1089, 1086, 1084, 32, 1080,
       32, 1087, 1086, 1088, 1090, 1086, 1084, 32, 8212, 32, 1074, 1099, 1073, 1077, 1088, 1080,
       1090, 1077, 32, 1085, 1091, 1078, 1085, 1099, 1081]),
     \<comment> \<open>No host matches this address and port ? this member is ignored\<close>
     ([78, 111, 32, 104, 111, 115, 116, 32, 109, 97, 116, 99, 104, 101, 115, 32, 116, 104, 105,
       115, 32, 97, 100, 100, 114, 101, 115, 115, 32, 97, 110, 100, 32, 112, 111, 114, 116, 32,
       8212, 32, 116, 104, 105, 115, 32, 109, 101, 109, 98, 101, 114, 32, 105, 115, 32, 105, 103,
       110, 111, 114, 101, 100],
      [1053, 1077, 1090, 32, 1093, 1086, 1089, 1090, 1072, 32, 1089, 32, 1090, 1072, 1082, 1080,
       1084, 32, 1072, 1076, 1088, 1077, 1089, 1086, 1084, 32, 1080, 32, 1087, 1086, 1088, 1090,
       1086, 1084, 32, 8212, 32, 109, 101, 109, 98, 101, 114, 32, 1080, 1075, 1085, 1086, 1088,
       1080, 1088, 1091, 1077, 1090, 1089, 1103]),
     \<comment> \<open>Auto ? match by address:port\<close>
     ([65, 117, 116, 111, 32, 183, 32, 109, 97, 116, 99, 104, 32, 98, 121, 32, 97, 100, 100, 114,
       101, 115, 115, 58, 112, 111, 114, 116],
      [65, 117, 116, 111, 32, 183, 32, 1087, 1086, 32, 1072, 1076, 1088, 1077, 1089, 1091, 32,
       1080, 32, 1087, 1086, 1088, 1090, 1091]),
     \<comment> \<open>Suggest from host tags\<close>
     ([83, 117, 103, 103, 101, 115, 116, 32, 102, 114, 111, 109, 32, 104, 111, 115, 116, 32, 116,
       97, 103, 115],
      [1055, 1086, 1076, 1086, 1073, 1088, 1072, 1090, 1100, 32, 1087, 1086, 32, 1090, 1077, 1075,
       1072, 1084, 32, 1093, 1086, 1089, 1090, 1086, 1074]),
     \<comment> \<open>Reading host tags?\<close>
     ([82, 101, 97, 100, 105, 110, 103, 32, 104, 111, 115, 116, 32, 116, 97, 103, 115, 8230],
      [1063, 1080, 1090, 1072, 1102, 32, 1090, 1077, 1075, 1080, 32, 1093, 1086, 1089, 1090, 1086,
       1074, 8230]),
     \<comment> \<open>Host tag\<close>
     ([72, 111, 115, 116, 32, 116, 97, 103],
      [1058, 1077, 1075, 32, 1093, 1086, 1089, 1090, 1072]),
     \<comment> \<open>Nodes\<close>
     ([78, 111, 100, 101, 115],
      [1053, 1086, 1076, 1099]),
     \<comment> \<open>Members\<close>
     ([77, 101, 109, 98, 101, 114, 115],
      [77, 101, 109, 98, 101, 114, 115]),
     \<comment> \<open>Add as location\<close>
     ([65, 100, 100, 32, 97, 115, 32, 108, 111, 99, 97, 116, 105, 111, 110],
      [1044, 1086, 1073, 1072, 1074, 1080, 1090, 1100, 32, 1082, 1072, 1082, 32, 1083, 1086, 1082,
       1072, 1094, 1080, 1102]),
     \<comment> \<open>Already a location\<close>
     ([65, 108, 114, 101, 97, 100, 121, 32, 97, 32, 108, 111, 99, 97, 116, 105, 111, 110],
      [1059, 1078, 1077, 32, 1083, 1086, 1082, 1072, 1094, 1080, 1103]),
     \<comment> \<open>No tagged hosts matched the current nodes\<close>
     ([78, 111, 32, 116, 97, 103, 103, 101, 100, 32, 104, 111, 115, 116, 115, 32, 109, 97, 116,
       99, 104, 101, 100, 32, 116, 104, 101, 32, 99, 117, 114, 114, 101, 110, 116, 32, 110, 111,
       100, 101, 115],
      [1053, 1080, 32, 1086, 1076, 1080, 1085, 32, 1090, 1077, 1075, 1080, 1088, 1086, 1074, 1072,
       1085, 1085, 1099, 1081, 32, 1093, 1086, 1089, 1090, 32, 1085, 1077, 32, 1089, 1086, 1074,
       1087, 1072, 1083, 32, 1089, 32, 1090, 1077, 1082, 1091, 1097, 1080, 1084, 1080, 32, 1085,
       1086, 1076, 1072, 1084, 1080]),
     \<comment> \<open>Members are added without a fixed Host: the checker pairs them by addr\<close>
     ([77, 101, 109, 98, 101, 114, 115, 32, 97, 114, 101, 32, 97, 100, 100, 101, 100, 32, 119,
       105, 116, 104, 111, 117, 116, 32, 97, 32, 102, 105, 120, 101, 100, 32, 72, 111, 115, 116,
       58, 32, 116, 104, 101, 32, 99, 104, 101, 99, 107, 101, 114, 32, 112, 97, 105, 114, 115, 32,
       116, 104, 101, 109, 32, 98, 121, 32, 97, 100, 100, 114, 101, 115, 115, 32, 97, 110, 100,
       32, 112, 111, 114, 116, 32, 111, 110, 32, 101, 118, 101, 114, 121, 32, 115, 121, 110, 99,
       46],
      [77, 101, 109, 98, 101, 114, 115, 32, 1076, 1086, 1073, 1072, 1074, 1083, 1103, 1102, 1090,
       1089, 1103, 32, 1073, 1077, 1079, 32, 1092, 1080, 1082, 1089, 1080, 1088, 1086, 1074, 1072,
       1085, 1085, 1086, 1075, 1086, 32, 72, 111, 115, 116, 58, 32, 99, 104, 101, 99, 107, 101,
       114, 32, 1089, 1086, 1087, 1086, 1089, 1090, 1072, 1074, 1083, 1103, 1077, 1090, 32, 1080,
       1093, 32, 1087, 1086, 32, 1072, 1076, 1088, 1077, 1089, 1091, 32, 1080, 32, 1087, 1086,
       1088, 1090, 1091, 32, 1085, 1072, 32, 1082, 1072, 1078, 1076, 1086, 1084, 32, 115, 121,
       110, 99, 46]),
     \<comment> \<open>Select Remnawave Host\<close>
     ([83, 101, 108, 101, 99, 116, 32, 82, 101, 109, 110, 97, 119, 97, 118, 101, 32, 72, 111, 115,
       116],
      [1042, 1099, 1073, 1077, 1088, 1080, 1090, 1077, 32, 82, 101, 109, 110, 97, 119, 97, 118,
       101, 32, 72, 111, 115, 116]),
     \<comment> \<open>No server members configured\<close>
     ([78, 111, 32, 115, 101, 114, 118, 101, 114, 32, 109, 101, 109, 98, 101, 114, 115, 32, 99,
       111, 110, 102, 105, 103, 117, 114, 101, 100],
      [1057, 1077, 1088, 1074, 1077, 1088, 1099, 32, 1083, 1086, 1082, 1072, 1094, 1080, 1080, 32,
       1085, 1077, 32, 1085, 1072, 1089, 1090, 1088, 1086, 1077, 1085, 1099]),
     \<comment> \<open>No Announce locations configured\<close>
     ([78, 111, 32, 65, 110, 110, 111, 117, 110, 99, 101, 32, 108, 111, 99, 97, 116, 105, 111,
       110, 115, 32, 99, 111, 110, 102, 105, 103, 117, 114, 101, 100],
      [1051, 1086, 1082, 1072, 1094, 1080, 1080, 32, 65, 110, 110, 111, 117, 110, 99, 101, 32,
       1085, 1077, 32, 1085, 1072, 1089, 1090, 1088, 1086, 1077, 1085, 1099]),
     \<comment> \<open>e.g. de\<close>
     ([101, 46, 103, 46, 32, 100, 101],
      [1085, 1072, 1087, 1088, 1080, 1084, 1077, 1088, 44, 32, 100, 101]),
     \<comment> \<open>Shown to users\<close>
     ([83, 104, 111, 119, 110, 32, 116, 111, 32, 117, 115, 101, 114, 115],
      [1055, 1086, 1082, 1072, 1079, 1099, 1074, 1072, 1077, 1090, 1089, 1103, 32, 1087, 1086,
       1083, 1100, 1079, 1086, 1074, 1072, 1090, 1077, 1083, 1103, 1084]),
     \<comment> \<open>Each Announce location requires a location key\<close>
     ([69, 97, 99, 104, 32, 65, 110, 110, 111, 117, 110, 99, 101, 32, 108, 111, 99, 97, 116, 105,
       111, 110, 32, 114, 101, 113, 117, 105, 114, 101, 115, 32, 97, 32, 108, 111, 99, 97, 116,
       105, 111, 110, 32, 107, 101, 121],
      [1044, 1083, 1103, 32, 1082, 1072, 1078, 1076, 1086, 1081, 32, 1083, 1086, 1082, 1072, 1094,
       1080, 1080, 32, 65, 110, 110, 111, 117, 110, 99, 101, 32, 1085, 1091, 1078, 1077, 1085, 32,
       1082, 1083, 1102, 1095]),
     \<comment> \<open>Announce location keys must be unique\<close>
     ([65, 110, 110, 111, 117, 110, 99, 101, 32, 108, 111, 99, 97, 116, 105, 111, 110, 32, 107,
       101, 121, 115, 32, 109, 117, 115, 116, 32, 98, 101, 32, 117, 110, 105, 113, 117, 101],
      [1050, 1083, 1102, 1095, 1080, 32, 1083, 1086, 1082, 1072, 1094, 1080, 1081, 32, 65, 110,
       110, 111, 117, 110, 99, 101, 32, 1076, 1086, 1083, 1078, 1085, 1099, 32, 1073, 1099, 1090,
       1100, 32, 1091, 1085, 1080, 1082, 1072, 1083, 1100, 1085, 1099, 1084, 1080]),
     \<comment> \<open>Each server member requires both a checker node and a Remnawave Host\<close>
     ([69, 97, 99, 104, 32, 115, 101, 114, 118, 101, 114, 32, 109, 101, 109, 98, 101, 114, 32,
       114, 101, 113, 117, 105, 114, 101, 115, 32, 98, 111, 116, 104, 32, 97, 32, 99, 104, 101,
       99, 107, 101, 114, 32, 110, 111, 100, 101, 32, 97, 110, 100, 32, 97, 32, 82, 101, 109, 110,
       97, 119, 97, 118, 101, 32, 72, 111, 115, 116],
      [1044, 1083, 1103, 32, 1082, 1072, 1078, 1076, 1086, 1075, 1086, 32, 1089, 1077, 1088, 1074,
       1077, 1088, 1072, 32, 1085, 1091, 1078, 1085, 1086, 32, 1074, 1099, 1073, 1088, 1072, 1090,
       1100, 32, 1080, 32, 1085, 1086, 1076, 1091, 32, 99, 104, 101, 99, 107, 101, 114, 44, 32,
       1080, 32, 82, 101, 109, 110, 97, 119, 97, 118, 101, 32, 72, 111, 115, 116]),
     \<comment> \<open>A checker StableID can belong to only one Announce location\<close>
     ([65, 32, 99, 104, 101, 99, 107, 101, 114, 32, 83, 116, 97, 98, 108, 101, 73, 68, 32, 99, 97,
       110, 32, 98, 101, 108, 111, 110, 103, 32, 116, 111, 32, 111, 110, 108, 121, 32, 111, 110,
       101, 32, 65, 110, 110, 111, 117, 110, 99, 101, 32, 108, 111, 99, 97, 116, 105, 111, 110],
      [83, 116, 97, 98, 108, 101, 73, 68, 32, 99, 104, 101, 99, 107, 101, 114, 32, 1084, 1086,
       1078, 1077, 1090, 32, 1074, 1093, 1086, 1076, 1080, 1090, 1100, 32, 1090, 1086, 1083, 1100,
       1082, 1086, 32, 1074, 32, 1086, 1076, 1085, 1091, 32, 1083, 1086, 1082, 1072, 1094, 1080,
       1102, 32, 65, 110, 110, 111, 117, 110, 99, 101]),
     \<comment> \<open>Each Announce location requires at least one server member\<close>
     ([69, 97, 99, 104, 32, 65, 110, 110, 111, 117, 110, 99, 101, 32, 108, 111, 99, 97, 116, 105,
       111, 110, 32, 114, 101, 113, 117, 105, 114, 101, 115, 32, 97, 116, 32, 108, 101, 97, 115,
       116, 32, 111, 110, 101, 32, 115, 101, 114, 118, 101, 114, 32, 109, 101, 109, 98, 101, 114],
      [1042, 32, 1082, 1072, 1078, 1076, 1086, 1081, 32, 1083, 1086, 1082, 1072, 1094, 1080, 1080,
       32, 65, 110, 110, 111, 117, 110, 99, 101, 32, 1076, 1086, 1083, 1078, 1077, 1085, 32, 1073,
       1099, 1090, 1100, 32, 1093, 1086, 1090, 1103, 32, 1073, 1099, 32, 1086, 1076, 1080, 1085,
       32, 1089, 1077, 1088, 1074, 1077, 1088]),
     \<comment> \<open>No announce headers are currently tracked.\<close>
     ([78, 111, 32, 97, 110, 110, 111, 117, 110, 99, 101, 32, 104, 101, 97, 100, 101, 114, 115,
       32, 97, 114, 101, 32, 99, 117, 114, 114, 101, 110, 116, 108, 121, 32, 116, 114, 97, 99,
       107, 101, 100, 46],
      [1057, 1077, 1081, 1095, 1072, 1089, 32, 99, 104, 101, 99, 107, 101, 114, 32, 1085, 1077,
       32, 1086, 1090, 1089, 1083, 1077, 1078, 1080, 1074, 1072, 1077, 1090, 32, 1085, 1080, 32,
       1086, 1076, 1080, 1085, 32, 97, 110, 110, 111, 117, 110, 99, 101, 32, 104, 101, 97, 100,
       101, 114, 46]),
     \<comment> \<open>Token stays in\<close>
     ([84, 111, 107, 101, 110, 32, 115, 116, 97, 121, 115, 32, 105, 110],
      [84, 111, 107, 101, 110, 32, 1086, 1089, 1090, 1072, 1105, 1090, 1089, 1103, 32, 1074]),
     \<comment> \<open>. Required token scopes:\<close>
     ([46, 32, 82, 101, 113, 117, 105, 114, 101, 100, 32, 116, 111, 107, 101, 110, 32, 115, 99,
       111, 112, 101, 115, 58],
      [46, 32, 1053, 1091, 1078, 1085, 1099, 1077, 32, 116, 111, 107, 101, 110, 32, 115, 99, 111,
       112, 101, 115, 58]),
     \<comment> \<open>for the panel line on node cards and in Telegram.\<close>
     ([102, 111, 114, 32, 116, 104, 101, 32, 112, 97, 110, 101, 108, 32, 108, 105, 110, 101, 32,
       111, 110, 32, 110, 111, 100, 101, 32, 99, 97, 114, 100, 115, 32, 97, 110, 100, 32, 105,
       110, 32, 84, 101, 108, 101, 103, 114, 97, 109, 46],
      [8212, 32, 1076, 1083, 1103, 32, 1089, 1090, 1088, 1086, 1082, 1080, 32, 1087, 1072, 1085,
       1077, 1083, 1080, 32, 1074, 32, 1082, 1072, 1088, 1090, 1086, 1095, 1082, 1072, 1093, 32,
       1085, 1086, 1076, 32, 1080, 32, 1074, 32, 84, 101, 108, 101, 103, 114, 97, 109, 46]),
     \<comment> \<open>Waiting for the first poll\<close>
     ([87, 97, 105, 116, 105, 110, 103, 32, 102, 111, 114, 32, 116, 104, 101, 32, 102, 105, 114,
       115, 116, 32, 112, 111, 108, 108],
      [1046, 1076, 1105, 1090, 32, 1087, 1077, 1088, 1074, 1086, 1075, 1086, 32, 1086, 1087, 1088,
       1086, 1089, 1072]),
     \<comment> \<open>Node telemetry\<close>
     ([78, 111, 100, 101, 32, 116, 101, 108, 101, 109, 101, 116, 114, 121],
      [1058, 1077, 1083, 1077, 1084, 1077, 1090, 1088, 1080, 1103, 32, 1085, 1086, 1076]),
     \<comment> \<open>Panel\<close>
     ([80, 97, 110, 101, 108],
      [1055, 1072, 1085, 1077, 1083, 1100]),
     \<comment> \<open>Off\<close>
     ([79, 102, 102],
      [1042, 1099, 1082, 1083, 1102, 1095, 1077, 1085, 1086]),
     \<comment> \<open>Reconnecting\<close>
     ([82, 101, 99, 111, 110, 110, 101, 99, 116, 105, 110, 103],
      [1055, 1077, 1088, 1077, 1087, 1086, 1076, 1082, 1083, 1102, 1095, 1072, 1077, 1090, 1089,
       1103]),
     \<comment> \<open>Not connected\<close>
     ([78, 111, 116, 32, 99, 111, 110, 110, 101, 99, 116, 101, 100],
      [1053, 1077, 1090, 32, 1089, 1074, 1103, 1079, 1080]),
     \<comment> \<open>Disabled in panel\<close>
     ([68, 105, 115, 97, 98, 108, 101, 100, 32, 105, 110, 32, 112, 97, 110, 101, 108],
      [1042, 1099, 1082, 1083, 1102, 1095, 1077, 1085, 1072, 32, 1074, 32, 1087, 1072, 1085, 1077,
       1083, 1080]),
     \<comment> \<open>Reconcile runs after a confirmed outage, a change in affected location\<close>
     ([82, 101, 99, 111, 110, 99, 105, 108, 101, 32, 114, 117, 110, 115, 32, 97, 102, 116, 101,
       114, 32, 97, 32, 99, 111, 110, 102, 105, 114, 109, 101, 100, 32, 111, 117, 116, 97, 103,
       101, 44, 32, 97, 32, 99, 104, 97, 110, 103, 101, 32, 105, 110, 32, 97, 102, 102, 101, 99,
       116, 101, 100, 32, 108, 111, 99, 97, 116, 105, 111, 110, 115, 44, 32, 97, 32, 112, 97, 114,
       116, 105, 97, 108, 47, 116, 111, 116, 97, 108, 32, 116, 114, 97, 110, 115, 105, 116, 105,
       111, 110, 44, 32, 115, 116, 97, 98, 108, 101, 32, 114, 101, 99, 111, 118, 101, 114, 121,
       44, 32, 111, 114, 32, 115, 97, 118, 101, 100, 32, 115, 101, 116, 116, 105, 110, 103, 115,
       46, 32, 77, 97, 110, 117, 97, 108, 32, 99, 104, 101, 99, 107, 115, 32, 97, 110, 100, 32,
       116, 104, 101, 32, 102, 97, 115, 116, 32, 114, 101, 99, 111, 118, 101, 114, 121, 32, 108,
       111, 111, 112, 32, 100, 111, 32, 110, 111, 116, 32, 99, 111, 117, 110, 116, 32, 97, 115,
       32, 111, 117, 116, 97, 103, 101, 32, 99, 111, 110, 102, 105, 114, 109, 97, 116, 105, 111,
       110, 115, 32, 98, 121, 32, 116, 104, 101, 109, 115, 101, 108, 118, 101, 115, 46, 32, 65,
       32, 99, 111, 110, 102, 105, 114, 109, 101, 100, 32, 102, 97, 105, 108, 101, 100, 32, 109,
       101, 109, 98, 101, 114, 32, 111, 102, 32, 97, 110, 32, 111, 116, 104, 101, 114, 119, 105,
       115, 101, 32, 104, 101, 97, 108, 116, 104, 121, 32, 108, 111, 99, 97, 116, 105, 111, 110,
       32, 117, 115, 101, 115, 32, 116, 104, 101, 32, 112, 97, 114, 116, 105, 97, 108, 45, 97,
       118, 97, 105, 108, 97, 98, 105, 108, 105, 116, 121, 32, 115, 99, 101, 110, 97, 114, 105,
       111, 115, 46, 32, 85, 110, 107, 110, 111, 119, 110, 32, 115, 116, 97, 116, 101, 32, 97,
       110, 100, 32, 112, 114, 111, 98, 97, 98, 108, 101],
      [82, 101, 99, 111, 110, 99, 105, 108, 101, 32, 1079, 1072, 1087, 1091, 1089, 1082, 1072,
       1077, 1090, 1089, 1103, 32, 1087, 1086, 1089, 1083, 1077, 32, 1087, 1086, 1076, 1090, 1074,
       1077, 1088, 1078, 1076, 1105, 1085, 1085, 1086, 1075, 1086, 32, 111, 117, 116, 97, 103,
       101, 44, 32, 1080, 1079, 1084, 1077, 1085, 1077, 1085, 1080, 1103, 32, 97, 102, 102, 101,
       99, 116, 101, 100, 32, 108, 111, 99, 97, 116, 105, 111, 110, 115, 44, 32, 1087, 1077, 1088,
       1077, 1093, 1086, 1076, 1072, 32, 112, 97, 114, 116, 105, 97, 108, 47, 116, 111, 116, 97,
       108, 44, 32, 115, 116, 97, 98, 108, 101, 32, 114, 101, 99, 111, 118, 101, 114, 121, 32,
       1080, 1083, 1080, 32, 1089, 1086, 1093, 1088, 1072, 1085, 1077, 1085, 1080, 1103, 32, 1085,
       1072, 1089, 1090, 1088, 1086, 1077, 1082, 46, 32, 77, 97, 110, 117, 97, 108, 32, 99, 104,
       101, 99, 107, 115, 32, 1080, 32, 102, 97, 115, 116, 32, 114, 101, 99, 111, 118, 101, 114,
       121, 32, 108, 111, 111, 112, 32, 1089, 1072, 1084, 1080, 32, 1087, 1086, 32, 1089, 1077,
       1073, 1077, 32, 1085, 1077, 32, 1089, 1095, 1080, 1090, 1072, 1102, 1090, 1089, 1103, 32,
       1087, 1086, 1076, 1090, 1074, 1077, 1088, 1078, 1076, 1077, 1085, 1080, 1103, 1084, 1080,
       32, 111, 117, 116, 97, 103, 101, 46, 32, 67, 111, 110, 102, 105, 114, 109, 101, 100, 32,
       102, 97, 105, 108, 101, 100, 32, 109, 101, 109, 98, 101, 114, 32, 1074, 32, 1086, 1089,
       1090, 1072, 1083, 1100, 1085, 1086, 1084, 32, 104, 101, 97, 108, 116, 104, 121, 32, 108,
       111, 99, 97, 116, 105, 111, 110, 32, 1080, 1089, 1087, 1086, 1083, 1100, 1079, 1091, 1077,
       1090, 32, 112, 97, 114, 116, 105, 97, 108, 45, 97, 118, 97, 105, 108, 97, 98, 105, 108,
       105, 116, 121, 32, 115, 99, 101, 110, 97, 114, 105, 111, 115, 46, 32, 85, 110, 107, 110,
       111, 119, 110, 32, 115, 116, 97, 116, 101, 32, 1080, 32, 1074, 1077, 1088, 1086, 1103,
       1090, 1085, 1086, 1089, 1090, 1085, 1099, 1077]),
     \<comment> \<open>incidents do not create a new message.\<close>
     ([105, 110, 99, 105, 100, 101, 110, 116, 115, 32, 100, 111, 32, 110, 111, 116, 32, 99, 114,
       101, 97, 116, 101, 32, 97, 32, 110, 101, 119, 32, 109, 101, 115, 115, 97, 103, 101, 46],
      [1080, 1085, 1094, 1080, 1076, 1077, 1085, 1090, 1099, 32, 1085, 1077, 32, 1089, 1086, 1079,
       1076, 1072, 1102, 1090, 32, 1085, 1086, 1074, 1086, 1077, 32, 1089, 1086, 1086, 1073, 1097,
       1077, 1085, 1080, 1077, 46]),
     \<comment> \<open>A maintenance node is evaluated by its probe result. A separate mainte\<close>
     ([65, 32, 109, 97, 105, 110, 116, 101, 110, 97, 110, 99, 101, 32, 110, 111, 100, 101, 32,
       105, 115, 32, 101, 118, 97, 108, 117, 97, 116, 101, 100, 32, 98, 121, 32, 105, 116, 115,
       32, 112, 114, 111, 98, 101, 32, 114, 101, 115, 117, 108, 116, 46, 32, 65, 32, 115, 101,
       112, 97, 114, 97, 116, 101, 32, 109, 97, 105, 110, 116, 101, 110, 97, 110, 99, 101, 32,
       115, 99, 101, 110, 97, 114, 105, 111, 32, 105, 115, 32, 117, 115, 101, 100, 32, 111, 110,
       108, 121, 32, 119, 104, 101, 110, 32, 101, 118, 101, 114, 121, 32, 109, 101, 109, 98, 101,
       114, 32, 111, 102, 32, 116, 104, 101, 32, 108, 111, 99, 97, 116, 105, 111, 110, 32, 105,
       115, 32, 98, 111, 116, 104, 32, 111, 102, 102, 108, 105, 110, 101, 32, 97, 110, 100, 32,
       105, 110, 32, 109, 97, 105, 110, 116, 101, 110, 97, 110, 99, 101, 46],
      [77, 97, 105, 110, 116, 101, 110, 97, 110, 99, 101, 45, 1085, 1086, 1076, 1072, 32, 1086,
       1094, 1077, 1085, 1080, 1074, 1072, 1077, 1090, 1089, 1103, 32, 1087, 1086, 32, 1088, 1077,
       1079, 1091, 1083, 1100, 1090, 1072, 1090, 1091, 32, 112, 114, 111, 98, 101, 46, 32, 1054,
       1090, 1076, 1077, 1083, 1100, 1085, 1099, 1081, 32, 109, 97, 105, 110, 116, 101, 110, 97,
       110, 99, 101, 45, 1089, 1094, 1077, 1085, 1072, 1088, 1080, 1081, 32, 1080, 1089, 1087,
       1086, 1083, 1100, 1079, 1091, 1077, 1090, 1089, 1103, 32, 1090, 1086, 1083, 1100, 1082,
       1086, 32, 1090, 1086, 1075, 1076, 1072, 44, 32, 1082, 1086, 1075, 1076, 1072, 32, 1074,
       1089, 1077, 32, 1091, 1095, 1072, 1089, 1090, 1085, 1080, 1082, 1080, 32, 1083, 1086, 1082,
       1072, 1094, 1080, 1080, 32, 1086, 1076, 1085, 1086, 1074, 1088, 1077, 1084, 1077, 1085,
       1085, 1086, 32, 111, 102, 102, 108, 105, 110, 101, 32, 1080, 32, 1085, 1072, 1093, 1086,
       1076, 1103, 1090, 1089, 1103, 32, 1085, 1072, 32, 1086, 1073, 1089, 1083, 1091, 1078, 1080,
       1074, 1072, 1085, 1080, 1080, 46]),
     \<comment> \<open>An existing single-line\<close>
     ([65, 110, 32, 101, 120, 105, 115, 116, 105, 110, 103, 32, 115, 105, 110, 103, 108, 101, 45,
       108, 105, 110, 101],
      [1057, 1091, 1097, 1077, 1089, 1090, 1074, 1091, 1102, 1097, 1080, 1081, 32, 1086, 1076,
       1085, 1086, 1089, 1090, 1088, 1086, 1095, 1085, 1099, 1081]),
     \<comment> \<open>announce stays unchanged as the base; xray-checker appends only its st\<close>
     ([97, 110, 110, 111, 117, 110, 99, 101, 32, 115, 116, 97, 121, 115, 32, 117, 110, 99, 104,
       97, 110, 103, 101, 100, 32, 97, 115, 32, 116, 104, 101, 32, 98, 97, 115, 101, 59, 32, 120,
       114, 97, 121, 45, 99, 104, 101, 99, 107, 101, 114, 32, 97, 112, 112, 101, 110, 100, 115,
       32, 111, 110, 108, 121, 32, 105, 116, 115, 32, 115, 116, 97, 116, 117, 115, 32, 108, 105,
       110, 101, 32, 97, 110, 100, 32, 114, 101, 115, 116, 111, 114, 101, 115, 32, 116, 104, 101,
       32, 111, 114, 105, 103, 105, 110, 97, 108, 32, 118, 97, 108, 117, 101, 32, 97, 102, 116,
       101, 114, 32, 114, 101, 99, 111, 118, 101, 114, 121, 46, 32, 65, 32, 109, 117, 108, 116,
       105, 108, 105, 110, 101, 32, 118, 97, 108, 117, 101, 32, 99, 97, 110, 32, 98, 101, 32, 114,
       101, 99, 108, 97, 105, 109, 101, 100, 32, 111, 110, 108, 121, 32, 119, 104, 101, 110, 32,
       105, 116, 115, 32, 108, 97, 115, 116, 32, 115, 117, 102, 102, 105, 120, 32, 101, 120, 97,
       99, 116, 108, 121, 32, 109, 97, 116, 99, 104, 101, 115, 32, 116, 104, 101, 32, 114, 101,
       110, 100, 101, 114, 101, 100, 32, 116, 97, 114, 103, 101, 116, 32, 111, 114, 32, 104, 101,
       97, 108, 116, 104, 121, 32, 115, 99, 101, 110, 97, 114, 105, 111, 46, 32, 73, 102, 32, 116,
       104, 101, 32, 104, 101, 97, 108, 116, 104, 121, 32, 115, 99, 101, 110, 97, 114, 105, 111,
       32, 105, 115, 32, 100, 105, 115, 97, 98, 108, 101, 100, 44, 32, 114, 101, 99, 111, 118,
       101, 114, 121, 32, 114, 101, 115, 116, 111, 114, 101, 115, 32, 116, 104, 101, 32, 98, 97,
       115, 101, 32, 111, 114, 32, 114, 101, 109, 111, 118, 101, 115, 32, 97, 32, 99, 104, 101,
       99, 107, 101, 114, 45, 111, 110, 108, 121, 32, 104, 101, 97, 100, 101, 114, 46, 32, 79,
       116, 104, 101, 114, 32, 111, 114, 32, 109, 97, 110, 117, 97, 108, 108, 121, 32, 99, 104,
       97, 110, 103, 101, 100, 32, 118, 97, 108, 117, 101, 115, 32, 97, 114, 101, 32, 110, 101,
       118, 101, 114, 32, 111, 118, 101, 114, 119, 114, 105, 116, 116, 101, 110, 46, 32, 84, 101,
       109, 112, 108, 97, 116, 101, 115, 32, 97, 114, 101, 32, 115, 105, 110, 103, 108, 101, 45,
       108, 105, 110, 101, 44, 32, 85, 82, 76, 45, 102, 114, 101, 101, 44, 32, 97, 110, 100, 32,
       108, 105, 109, 105, 116, 101, 100, 32, 116, 111, 32, 50, 52, 48, 32, 99, 104, 97, 114, 97,
       99, 116, 101, 114, 115, 32, 97, 102, 116, 101, 114, 32, 114, 101, 110, 100, 101, 114, 105,
       110, 103, 46],
      [97, 110, 110, 111, 117, 110, 99, 101, 32, 1086, 1089, 1090, 1072, 1105, 1090, 1089, 1103,
       32, 1085, 1077, 1080, 1079, 1084, 1077, 1085, 1085, 1086, 1081, 32, 98, 97, 115, 101, 45,
       1089, 1090, 1088, 1086, 1082, 1086, 1081, 59, 32, 120, 114, 97, 121, 45, 99, 104, 101, 99,
       107, 101, 114, 32, 1076, 1086, 1073, 1072, 1074, 1083, 1103, 1077, 1090, 32, 1090, 1086,
       1083, 1100, 1082, 1086, 32, 1089, 1074, 1086, 1102, 32, 115, 116, 97, 116, 117, 115, 32,
       108, 105, 110, 101, 32, 1080, 32, 1087, 1086, 1089, 1083, 1077, 32, 114, 101, 99, 111, 118,
       101, 114, 121, 32, 1074, 1086, 1089, 1089, 1090, 1072, 1085, 1072, 1074, 1083, 1080, 1074,
       1072, 1077, 1090, 32, 1080, 1089, 1093, 1086, 1076, 1085, 1086, 1077, 32, 1079, 1085, 1072,
       1095, 1077, 1085, 1080, 1077, 46, 32, 77, 117, 108, 116, 105, 108, 105, 110, 101, 45, 1079,
       1085, 1072, 1095, 1077, 1085, 1080, 1077, 32, 1084, 1086, 1078, 1085, 1086, 32, 1074, 1079,
       1103, 1090, 1100, 32, 1087, 1086, 1076, 32, 1091, 1087, 1088, 1072, 1074, 1083, 1077, 1085,
       1080, 1077, 44, 32, 1090, 1086, 1083, 1100, 1082, 1086, 32, 1077, 1089, 1083, 1080, 32,
       1077, 1075, 1086, 32, 1087, 1086, 1089, 1083, 1077, 1076, 1085, 1080, 1081, 32, 115, 117,
       102, 102, 105, 120, 32, 1090, 1086, 1095, 1085, 1086, 32, 1089, 1086, 1074, 1087, 1072,
       1076, 1072, 1077, 1090, 32, 1089, 32, 114, 101, 110, 100, 101, 114, 101, 100, 32, 116, 97,
       114, 103, 101, 116, 32, 1080, 1083, 1080, 32, 104, 101, 97, 108, 116, 104, 121, 32, 115,
       99, 101, 110, 97, 114, 105, 111, 46, 32, 1045, 1089, 1083, 1080, 32, 104, 101, 97, 108,
       116, 104, 121, 32, 115, 99, 101, 110, 97, 114, 105, 111, 32, 1086, 1090, 1082, 1083, 1102,
       1095, 1105, 1085, 44, 32, 1087, 1088, 1080, 32, 114, 101, 99, 111, 118, 101, 114, 121, 32,
       99, 104, 101, 99, 107, 101, 114, 32, 1074, 1086, 1089, 1089, 1090, 1072, 1085, 1072, 1074,
       1083, 1080, 1074, 1072, 1077, 1090, 32, 98, 97, 115, 101, 32, 1080, 1083, 1080, 32, 1091,
       1076, 1072, 1083, 1103, 1077, 1090, 32, 104, 101, 97, 100, 101, 114, 44, 32, 1087, 1088,
       1080, 1085, 1072, 1076, 1083, 1077, 1078, 1072, 1097, 1080, 1081, 32, 1090, 1086, 1083,
       1100, 1082, 1086, 32, 1077, 1084, 1091, 46, 32, 1044, 1088, 1091, 1075, 1080, 1077, 32,
       1079, 1085, 1072, 1095, 1077, 1085, 1080, 1103, 44, 32, 1074, 1082, 1083, 1102, 1095, 1072,
       1103, 32, 1080, 1079, 1084, 1077, 1085, 1105, 1085, 1085, 1099, 1077, 32, 1074, 1088, 1091,
       1095, 1085, 1091, 1102, 44, 32, 1085, 1080, 1082, 1086, 1075, 1076, 1072, 32, 1085, 1077,
       32, 1087, 1077, 1088, 1077, 1079, 1072, 1087, 1080, 1089, 1099, 1074, 1072, 1102, 1090,
       1089, 1103, 46, 32, 1064, 1072, 1073, 1083, 1086, 1085, 1099, 32, 1076, 1086, 1083, 1078,
       1085, 1099, 32, 1073, 1099, 1090, 1100, 32, 1086, 1076, 1085, 1086, 1089, 1090, 1088, 1086,
       1095, 1085, 1099, 1084, 1080, 44, 32, 1073, 1077, 1079, 32, 85, 82, 76, 32, 1080, 32, 1085,
       1077, 32, 1076, 1083, 1080, 1085, 1085, 1077, 1077, 32, 50, 52, 48, 32, 1089, 1080, 1084,
       1074, 1086, 1083, 1086, 1074, 32, 1087, 1086, 1089, 1083, 1077, 32, 114, 101, 110, 100,
       101, 114, 46]),
     \<comment> \<open>Single-location placeholders\<close>
     ([83, 105, 110, 103, 108, 101, 45, 108, 111, 99, 97, 116, 105, 111, 110, 32, 112, 108, 97,
       99, 101, 104, 111, 108, 100, 101, 114, 115],
      [80, 108, 97, 99, 101, 104, 111, 108, 100, 101, 114, 115, 32, 1076, 1083, 1103, 32, 1086,
       1076, 1085, 1086, 1081, 32, 1083, 1086, 1082, 1072, 1094, 1080, 1080]),
     \<comment> \<open>Multiple-location placeholders\<close>
     ([77, 117, 108, 116, 105, 112, 108, 101, 45, 108, 111, 99, 97, 116, 105, 111, 110, 32, 112,
       108, 97, 99, 101, 104, 111, 108, 100, 101, 114, 115],
      [80, 108, 97, 99, 101, 104, 111, 108, 100, 101, 114, 115, 32, 1076, 1083, 1103, 32, 1085,
       1077, 1089, 1082, 1086, 1083, 1100, 1082, 1080, 1093, 32, 1083, 1086, 1082, 1072, 1094,
       1080, 1081]),
     \<comment> \<open>Total-outage placeholders\<close>
     ([84, 111, 116, 97, 108, 45, 111, 117, 116, 97, 103, 101, 32, 112, 108, 97, 99, 101, 104,
       111, 108, 100, 101, 114, 115],
      [80, 108, 97, 99, 101, 104, 111, 108, 100, 101, 114, 115, 32, 1076, 1083, 1103, 32, 116,
       111, 116, 97, 108, 32, 111, 117, 116, 97, 103, 101]),
     \<comment> \<open>Partial single-location placeholders\<close>
     ([80, 97, 114, 116, 105, 97, 108, 32, 115, 105, 110, 103, 108, 101, 45, 108, 111, 99, 97,
       116, 105, 111, 110, 32, 112, 108, 97, 99, 101, 104, 111, 108, 100, 101, 114, 115],
      [80, 108, 97, 99, 101, 104, 111, 108, 100, 101, 114, 115, 32, 1076, 1083, 1103, 32, 112, 97,
       114, 116, 105, 97, 108, 32, 111, 117, 116, 97, 103, 101, 32, 1086, 1076, 1085, 1086, 1081,
       32, 1083, 1086, 1082, 1072, 1094, 1080, 1080]),
     \<comment> \<open>Partial multiple-location placeholders\<close>
     ([80, 97, 114, 116, 105, 97, 108, 32, 109, 117, 108, 116, 105, 112, 108, 101, 45, 108, 111,
       99, 97, 116, 105, 111, 110, 32, 112, 108, 97, 99, 101, 104, 111, 108, 100, 101, 114, 115],
      [80, 108, 97, 99, 101, 104, 111, 108, 100, 101, 114, 115, 32, 1076, 1083, 1103, 32, 112, 97,
       114, 116, 105, 97, 108, 32, 111, 117, 116, 97, 103, 101, 32, 1085, 1077, 1089, 1082, 1086,
       1083, 1100, 1082, 1080, 1093, 32, 1083, 1086, 1082, 1072, 1094, 1080, 1081]),
     \<comment> \<open>One location under maintenance\<close>
     ([79, 110, 101, 32, 108, 111, 99, 97, 116, 105, 111, 110, 32, 117, 110, 100, 101, 114, 32,
       109, 97, 105, 110, 116, 101, 110, 97, 110, 99, 101],
      [1054, 1076, 1085, 1072, 32, 1083, 1086, 1082, 1072, 1094, 1080, 1103, 32, 1085, 1072, 32,
       1086, 1073, 1089, 1083, 1091, 1078, 1080, 1074, 1072, 1085, 1080, 1080]),
     \<comment> \<open>Several locations under maintenance\<close>
     ([83, 101, 118, 101, 114, 97, 108, 32, 108, 111, 99, 97, 116, 105, 111, 110, 115, 32, 117,
       110, 100, 101, 114, 32, 109, 97, 105, 110, 116, 101, 110, 97, 110, 99, 101],
      [1053, 1077, 1089, 1082, 1086, 1083, 1100, 1082, 1086, 32, 1083, 1086, 1082, 1072, 1094,
       1080, 1081, 32, 1085, 1072, 32, 1086, 1073, 1089, 1083, 1091, 1078, 1080, 1074, 1072, 1085,
       1080, 1080]),
     \<comment> \<open>Maintenance single-location placeholders\<close>
     ([77, 97, 105, 110, 116, 101, 110, 97, 110, 99, 101, 32, 115, 105, 110, 103, 108, 101, 45,
       108, 111, 99, 97, 116, 105, 111, 110, 32, 112, 108, 97, 99, 101, 104, 111, 108, 100, 101,
       114, 115],
      [80, 108, 97, 99, 101, 104, 111, 108, 100, 101, 114, 115, 32, 1076, 1083, 1103, 32, 1086,
       1073, 1089, 1083, 1091, 1078, 1080, 1074, 1072, 1085, 1080, 1103, 32, 1086, 1076, 1085,
       1086, 1081, 32, 1083, 1086, 1082, 1072, 1094, 1080, 1080]),
     \<comment> \<open>Maintenance multiple-location placeholders\<close>
     ([77, 97, 105, 110, 116, 101, 110, 97, 110, 99, 101, 32, 109, 117, 108, 116, 105, 112, 108,
       101, 45, 108, 111, 99, 97, 116, 105, 111, 110, 32, 112, 108, 97, 99, 101, 104, 111, 108,
       100, 101, 114, 115],
      [80, 108, 97, 99, 101, 104, 111, 108, 100, 101, 114, 115, 32, 1076, 1083, 1103, 32, 1086,
       1073, 1089, 1083, 1091, 1078, 1080, 1074, 1072, 1085, 1080, 1103, 32, 1085, 1077, 1089,
       1082, 1086, 1083, 1100, 1082, 1080, 1093, 32, 1083, 1086, 1082, 1072, 1094, 1080, 1081]),
     \<comment> \<open>Healthy-state placeholders\<close>
     ([72, 101, 97, 108, 116, 104, 121, 45, 115, 116, 97, 116, 101, 32, 112, 108, 97, 99, 101,
       104, 111, 108, 100, 101, 114, 115],
      [80, 108, 97, 99, 101, 104, 111, 108, 100, 101, 114, 115, 32, 1076, 1083, 1103, 32, 104,
       101, 97, 108, 116, 104, 121, 32, 115, 116, 97, 116, 101]),
     \<comment> \<open>Fallback placeholders\<close>
     ([70, 97, 108, 108, 98, 97, 99, 107, 32, 112, 108, 97, 99, 101, 104, 111, 108, 100, 101, 114,
       115],
      [80, 108, 97, 99, 101, 104, 111, 108, 100, 101, 114, 115, 32, 1076, 1083, 1103, 32, 102, 97,
       108, 108, 98, 97, 99, 107]),
     \<comment> \<open>Partial fallback placeholders\<close>
     ([80, 97, 114, 116, 105, 97, 108, 32, 102, 97, 108, 108, 98, 97, 99, 107, 32, 112, 108, 97,
       99, 101, 104, 111, 108, 100, 101, 114, 115],
      [80, 108, 97, 99, 101, 104, 111, 108, 100, 101, 114, 115, 32, 1076, 1083, 1103, 32, 112, 97,
       114, 116, 105, 97, 108, 32, 102, 97, 108, 108, 98, 97, 99, 107]),
     \<comment> \<open>Long maintenance-location-list fallback\<close>
     ([76, 111, 110, 103, 32, 109, 97, 105, 110, 116, 101, 110, 97, 110, 99, 101, 45, 108, 111,
       99, 97, 116, 105, 111, 110, 45, 108, 105, 115, 116, 32, 102, 97, 108, 108, 98, 97, 99,
       107],
      [70, 97, 108, 108, 98, 97, 99, 107, 32, 1076, 1083, 1103, 32, 1076, 1083, 1080, 1085, 1085,
       1086, 1075, 1086, 32, 1089, 1087, 1080, 1089, 1082, 1072, 32, 1086, 1073, 1089, 1083, 1091,
       1078, 1080, 1074, 1072, 1077, 1084, 1099, 1093, 32, 1083, 1086, 1082, 1072, 1094, 1080,
       1081]),
     \<comment> \<open>Used when more than three locations are fully offline under maintenanc\<close>
     ([85, 115, 101, 100, 32, 119, 104, 101, 110, 32, 109, 111, 114, 101, 32, 116, 104, 97, 110,
       32, 116, 104, 114, 101, 101, 32, 108, 111, 99, 97, 116, 105, 111, 110, 115, 32, 97, 114,
       101, 32, 102, 117, 108, 108, 121, 32, 111, 102, 102, 108, 105, 110, 101, 32, 117, 110, 100,
       101, 114, 32, 109, 97, 105, 110, 116, 101, 110, 97, 110, 99, 101, 32, 111, 114, 32, 116,
       104, 101, 32, 114, 101, 110, 100, 101, 114, 101, 100, 32, 108, 105, 115, 116, 32, 105, 115,
       32, 116, 111, 111, 32, 108, 111, 110, 103, 46],
      [1048, 1089, 1087, 1086, 1083, 1100, 1079, 1091, 1077, 1090, 1089, 1103, 44, 32, 1082, 1086,
       1075, 1076, 1072, 32, 1073, 1086, 1083, 1100, 1096, 1077, 32, 1090, 1088, 1105, 1093, 32,
       1086, 1073, 1089, 1083, 1091, 1078, 1080, 1074, 1072, 1077, 1084, 1099, 1093, 32, 1083,
       1086, 1082, 1072, 1094, 1080, 1081, 32, 1087, 1086, 1083, 1085, 1086, 1089, 1090, 1100,
       1102, 32, 111, 102, 102, 108, 105, 110, 101, 32, 1080, 1083, 1080, 32, 114, 101, 110, 100,
       101, 114, 101, 100, 45, 1089, 1087, 1080, 1089, 1086, 1082, 32, 1089, 1083, 1080, 1096,
       1082, 1086, 1084, 32, 1076, 1083, 1080, 1085, 1085, 1099, 1081, 46]),
     \<comment> \<open>Maintenance fallback placeholders\<close>
     ([77, 97, 105, 110, 116, 101, 110, 97, 110, 99, 101, 32, 102, 97, 108, 108, 98, 97, 99, 107,
       32, 112, 108, 97, 99, 101, 104, 111, 108, 100, 101, 114, 115],
      [80, 108, 97, 99, 101, 104, 111, 108, 100, 101, 114, 115, 32, 1076, 1083, 1103, 32, 109, 97,
       105, 110, 116, 101, 110, 97, 110, 99, 101, 32, 102, 97, 108, 108, 98, 97, 99, 107]),
     \<comment> \<open>Mixed outage and maintenance fallback\<close>
     ([77, 105, 120, 101, 100, 32, 111, 117, 116, 97, 103, 101, 32, 97, 110, 100, 32, 109, 97,
       105, 110, 116, 101, 110, 97, 110, 99, 101, 32, 102, 97, 108, 108, 98, 97, 99, 107],
      [70, 97, 108, 108, 98, 97, 99, 107, 32, 1076, 1083, 1103, 32, 1089, 1086, 1095, 1077, 1090,
       1072, 1085, 1080, 1103, 32, 111, 117, 116, 97, 103, 101, 32, 1080, 32, 1086, 1073, 1089,
       1083, 1091, 1078, 1080, 1074, 1072, 1085, 1080, 1103]),
     \<comment> \<open>Used when the combined outage and maintenance messages would exceed 24\<close>
     ([85, 115, 101, 100, 32, 119, 104, 101, 110, 32, 116, 104, 101, 32, 99, 111, 109, 98, 105,
       110, 101, 100, 32, 111, 117, 116, 97, 103, 101, 32, 97, 110, 100, 32, 109, 97, 105, 110,
       116, 101, 110, 97, 110, 99, 101, 32, 109, 101, 115, 115, 97, 103, 101, 115, 32, 119, 111,
       117, 108, 100, 32, 101, 120, 99, 101, 101, 100, 32, 50, 52, 48, 32, 99, 104, 97, 114, 97,
       99, 116, 101, 114, 115, 46],
      [1048, 1089, 1087, 1086, 1083, 1100, 1079, 1091, 1077, 1090, 1089, 1103, 44, 32, 1082, 1086,
       1075, 1076, 1072, 32, 1086, 1073, 1098, 1077, 1076, 1080, 1085, 1105, 1085, 1085, 1099,
       1077, 32, 1089, 1086, 1086, 1073, 1097, 1077, 1085, 1080, 1103, 32, 111, 117, 116, 97, 103,
       101, 32, 1080, 32, 1086, 1073, 1089, 1083, 1091, 1078, 1080, 1074, 1072, 1085, 1080, 1103,
       32, 1087, 1088, 1077, 1074, 1099, 1089, 1080, 1083, 1080, 32, 1073, 1099, 32, 50, 52, 48,
       32, 1089, 1080, 1084, 1074, 1086, 1083, 1086, 1074, 46]),
     \<comment> \<open>Mixed maintenance fallback placeholders\<close>
     ([77, 105, 120, 101, 100, 32, 109, 97, 105, 110, 116, 101, 110, 97, 110, 99, 101, 32, 102,
       97, 108, 108, 98, 97, 99, 107, 32, 112, 108, 97, 99, 101, 104, 111, 108, 100, 101, 114,
       115],
      [80, 108, 97, 99, 101, 104, 111, 108, 100, 101, 114, 115, 32, 1076, 1083, 1103, 32, 1089,
       1084, 1077, 1096, 1072, 1085, 1085, 1086, 1075, 1086, 32, 109, 97, 105, 110, 116, 101, 110,
       97, 110, 99, 101, 32, 102, 97, 108, 108, 98, 97, 99, 107]),
     \<comment> \<open>Empty template ? the server will restore the default on save\<close>
     ([69, 109, 112, 116, 121, 32, 116, 101, 109, 112, 108, 97, 116, 101, 32, 8212, 32, 116, 104,
       101, 32, 115, 101, 114, 118, 101, 114, 32, 119, 105, 108, 108, 32, 114, 101, 115, 116, 111,
       114, 101, 32, 116, 104, 101, 32, 100, 101, 102, 97, 117, 108, 116, 32, 111, 110, 32, 115,
       97, 118, 101],
      [1055, 1091, 1089, 1090, 1086, 1081, 32, 1096, 1072, 1073, 1083, 1086, 1085, 32, 8212, 32,
       1089, 1077, 1088, 1074, 1077, 1088, 32, 1074, 1086, 1089, 1089, 1090, 1072, 1085, 1086,
       1074, 1080, 1090, 32, 1079, 1085, 1072, 1095, 1077, 1085, 1080, 1077, 32, 1087, 1086, 32,
       1091, 1084, 1086, 1083, 1095, 1072, 1085, 1080, 1102, 32, 1087, 1088, 1080, 32, 1089, 1086,
       1093, 1088, 1072, 1085, 1077, 1085, 1080, 1080]),
     \<comment> \<open>Scenario disabled ? the owned checker status line is cleared for this \<close>
     ([83, 99, 101, 110, 97, 114, 105, 111, 32, 100, 105, 115, 97, 98, 108, 101, 100, 32, 8212,
       32, 116, 104, 101, 32, 111, 119, 110, 101, 100, 32, 99, 104, 101, 99, 107, 101, 114, 32,
       115, 116, 97, 116, 117, 115, 32, 108, 105, 110, 101, 32, 105, 115, 32, 99, 108, 101, 97,
       114, 101, 100, 32, 102, 111, 114, 32, 116, 104, 105, 115, 32, 115, 116, 97, 116, 101],
      [83, 99, 101, 110, 97, 114, 105, 111, 32, 1086, 1090, 1082, 1083, 1102, 1095, 1105, 1085,
       32, 8212, 32, 99, 104, 101, 99, 107, 101, 114, 32, 1086, 1095, 1080, 1097, 1072, 1077,
       1090, 32, 1087, 1088, 1080, 1085, 1072, 1076, 1083, 1077, 1078, 1072, 1097, 1091, 1102, 32,
       1077, 1084, 1091, 32, 115, 116, 97, 116, 117, 115, 32, 108, 105, 110, 101, 32, 1076, 1083,
       1103, 32, 1101, 1090, 1086, 1075, 1086, 32, 1089, 1086, 1089, 1090, 1086, 1103, 1085, 1080,
       1103]),
     \<comment> \<open>Select Internal Squad\<close>
     ([83, 101, 108, 101, 99, 116, 32, 73, 110, 116, 101, 114, 110, 97, 108, 32, 83, 113, 117, 97,
       100],
      [1042, 1099, 1073, 1077, 1088, 1080, 1090, 1077, 32, 73, 110, 116, 101, 114, 110, 97, 108,
       32, 83, 113, 117, 97, 100]),
     \<comment> \<open>Select External Squad\<close>
     ([83, 101, 108, 101, 99, 116, 32, 69, 120, 116, 101, 114, 110, 97, 108, 32, 83, 113, 117, 97,
       100],
      [1042, 1099, 1073, 1077, 1088, 1080, 1090, 1077, 32, 69, 120, 116, 101, 114, 110, 97, 108,
       32, 83, 113, 117, 97, 100]),
     \<comment> \<open>Ready\<close>
     ([82, 101, 97, 100, 121],
      [1043, 1086, 1090, 1086, 1074, 1086]),
     \<comment> \<open>Configure environment variables and restart xray-checker\<close>
     ([67, 111, 110, 102, 105, 103, 117, 114, 101, 32, 101, 110, 118, 105, 114, 111, 110, 109,
       101, 110, 116, 32, 118, 97, 114, 105, 97, 98, 108, 101, 115, 32, 97, 110, 100, 32, 114,
       101, 115, 116, 97, 114, 116, 32, 120, 114, 97, 121, 45, 99, 104, 101, 99, 107, 101, 114],
      [1053, 1072, 1089, 1090, 1088, 1086, 1081, 1090, 1077, 32, 1087, 1077, 1088, 1077, 1084,
       1077, 1085, 1085, 1099, 1077, 32, 1086, 1082, 1088, 1091, 1078, 1077, 1085, 1080, 1103, 32,
       1080, 32, 1087, 1077, 1088, 1077, 1079, 1072, 1087, 1091, 1089, 1090, 1080, 1090, 1077, 32,
       120, 114, 97, 121, 45, 99, 104, 101, 99, 107, 101, 114]),
     \<comment> \<open>Managed status line\<close>
     ([77, 97, 110, 97, 103, 101, 100, 32, 115, 116, 97, 116, 117, 115, 32, 108, 105, 110, 101],
      [77, 97, 110, 97, 103, 101, 100, 32, 115, 116, 97, 116, 117, 115, 32, 108, 105, 110, 101]),
     \<comment> \<open>Managed\<close>
     ([77, 97, 110, 97, 103, 101, 100],
      [77, 97, 110, 97, 103, 101, 100]),
     \<comment> \<open>Base announce preserved\<close>
     ([66, 97, 115, 101, 32, 97, 110, 110, 111, 117, 110, 99, 101, 32, 112, 114, 101, 115, 101,
       114, 118, 101, 100],
      [66, 97, 115, 101, 32, 97, 110, 110, 111, 117, 110, 99, 101, 32, 1089, 1086, 1093, 1088,
       1072, 1085, 1105, 1085]),
     \<comment> \<open>Unmanaged\<close>
     ([85, 110, 109, 97, 110, 97, 103, 101, 100],
      [85, 110, 109, 97, 110, 97, 103, 101, 100]),
     \<comment> \<open>Existing rwEncodeBase64 announce stays on the first line\<close>
     ([69, 120, 105, 115, 116, 105, 110, 103, 32, 114, 119, 69, 110, 99, 111, 100, 101, 66, 97,
       115, 101, 54, 52, 32, 97, 110, 110, 111, 117, 110, 99, 101, 32, 115, 116, 97, 121, 115, 32,
       111, 110, 32, 116, 104, 101, 32, 102, 105, 114, 115, 116, 32, 108, 105, 110, 101],
      [1057, 1091, 1097, 1077, 1089, 1090, 1074, 1091, 1102, 1097, 1080, 1081, 32, 114, 119, 69,
       110, 99, 111, 100, 101, 66, 97, 115, 101, 54, 52, 32, 97, 110, 110, 111, 117, 110, 99, 101,
       32, 1086, 1089, 1090, 1072, 1105, 1090, 1089, 1103, 32, 1074, 32, 1087, 1077, 1088, 1074,
       1086, 1081, 32, 1089, 1090, 1088, 1086, 1082, 1077]),
     \<comment> \<open>Existing announce is left untouched\<close>
     ([69, 120, 105, 115, 116, 105, 110, 103, 32, 97, 110, 110, 111, 117, 110, 99, 101, 32, 105,
       115, 32, 108, 101, 102, 116, 32, 117, 110, 116, 111, 117, 99, 104, 101, 100],
      [1057, 1091, 1097, 1077, 1089, 1090, 1074, 1091, 1102, 1097, 1080, 1081, 32, 97, 110, 110,
       111, 117, 110, 99, 101, 32, 1085, 1077, 32, 1080, 1079, 1084, 1077, 1085, 1103, 1077, 1090,
       1089, 1103]),
     \<comment> \<open>Managed value is no longer present remotely\<close>
     ([77, 97, 110, 97, 103, 101, 100, 32, 118, 97, 108, 117, 101, 32, 105, 115, 32, 110, 111, 32,
       108, 111, 110, 103, 101, 114, 32, 112, 114, 101, 115, 101, 110, 116, 32, 114, 101, 109,
       111, 116, 101, 108, 121],
      [77, 97, 110, 97, 103, 101, 100, 45, 1079, 1085, 1072, 1095, 1077, 1085, 1080, 1077, 32,
       1073, 1086, 1083, 1100, 1096, 1077, 32, 1085, 1077, 32, 1085, 1072, 1081, 1076, 1077, 1085,
       1086, 32, 1074, 32, 114, 101, 109, 111, 116, 101, 32, 115, 116, 97, 116, 101]),
     \<comment> \<open>Loading Remnawave settings\<close>
     ([76, 111, 97, 100, 105, 110, 103, 32, 82, 101, 109, 110, 97, 119, 97, 118, 101, 32, 115,
       101, 116, 116, 105, 110, 103, 115],
      [1047, 1072, 1075, 1088, 1091, 1079, 1082, 1072, 32, 1085, 1072, 1089, 1090, 1088, 1086,
       1077, 1082, 32, 82, 101, 109, 110, 97, 119, 97, 118, 101]),
     \<comment> \<open>Saving settings\<close>
     ([83, 97, 118, 105, 110, 103, 32, 115, 101, 116, 116, 105, 110, 103, 115],
      [1057, 1086, 1093, 1088, 1072, 1085, 1077, 1085, 1080, 1077, 32, 1085, 1072, 1089, 1090,
       1088, 1086, 1077, 1082]),
     \<comment> \<open>Remnawave settings saved; reconciliation queued\<close>
     ([82, 101, 109, 110, 97, 119, 97, 118, 101, 32, 115, 101, 116, 116, 105, 110, 103, 115, 32,
       115, 97, 118, 101, 100, 59, 32, 114, 101, 99, 111, 110, 99, 105, 108, 105, 97, 116, 105,
       111, 110, 32, 113, 117, 101, 117, 101, 100],
      [1053, 1072, 1089, 1090, 1088, 1086, 1081, 1082, 1080, 32, 82, 101, 109, 110, 97, 119, 97,
       118, 101, 32, 1089, 1086, 1093, 1088, 1072, 1085, 1077, 1085, 1099, 59, 32, 114, 101, 99,
       111, 110, 99, 105, 108, 101, 32, 1087, 1086, 1089, 1090, 1072, 1074, 1083, 1077, 1085, 32,
       1074, 32, 1086, 1095, 1077, 1088, 1077, 1076, 1100]),
     \<comment> \<open>Loading topology and reconciling announce headers\<close>
     ([76, 111, 97, 100, 105, 110, 103, 32, 116, 111, 112, 111, 108, 111, 103, 121, 32, 97, 110,
       100, 32, 114, 101, 99, 111, 110, 99, 105, 108, 105, 110, 103, 32, 97, 110, 110, 111, 117,
       110, 99, 101, 32, 104, 101, 97, 100, 101, 114, 115],
      [1047, 1072, 1075, 1088, 1091, 1078, 1072, 1077, 1090, 1089, 1103, 32, 116, 111, 112, 111,
       108, 111, 103, 121, 44, 32, 1074, 1099, 1087, 1086, 1083, 1085, 1103, 1077, 1090, 1089,
       1103, 32, 114, 101, 99, 111, 110, 99, 105, 108, 101, 32, 97, 110, 110, 111, 117, 110, 99,
       101, 32, 104, 101, 97, 100, 101, 114, 115]),
     \<comment> \<open>Topology and announce headers reconciled\<close>
     ([84, 111, 112, 111, 108, 111, 103, 121, 32, 97, 110, 100, 32, 97, 110, 110, 111, 117, 110,
       99, 101, 32, 104, 101, 97, 100, 101, 114, 115, 32, 114, 101, 99, 111, 110, 99, 105, 108,
       101, 100],
      [82, 101, 99, 111, 110, 99, 105, 108, 101, 32, 1076, 1083, 1103, 32, 116, 111, 112, 111,
       108, 111, 103, 121, 32, 1080, 32, 97, 110, 110, 111, 117, 110, 99, 101, 32, 104, 101, 97,
       100, 101, 114, 115, 32, 1079, 1072, 1074, 1077, 1088, 1096, 1105, 1085]),
     \<comment> \<open>Merge retired node\<close>
     ([77, 101, 114, 103, 101, 32, 114, 101, 116, 105, 114, 101, 100, 32, 110, 111, 100, 101],
      [77, 101, 114, 103, 101, 32, 114, 101, 116, 105, 114, 101, 100, 45, 1085, 1086, 1076, 1099]),
     \<comment> \<open>Choose the active node that owns the merged history.\<close>
     ([67, 104, 111, 111, 115, 101, 32, 116, 104, 101, 32, 97, 99, 116, 105, 118, 101, 32, 110,
       111, 100, 101, 32, 116, 104, 97, 116, 32, 111, 119, 110, 115, 32, 116, 104, 101, 32, 109,
       101, 114, 103, 101, 100, 32, 104, 105, 115, 116, 111, 114, 121, 46],
      [1042, 1099, 1073, 1077, 1088, 1080, 1090, 1077, 32, 97, 99, 116, 105, 118, 101, 45, 1085,
       1086, 1076, 1091, 44, 32, 1082, 1086, 1090, 1086, 1088, 1072, 1103, 32, 1087, 1086, 1083,
       1091, 1095, 1080, 1090, 32, 1086, 1073, 1098, 1077, 1076, 1080, 1085, 1105, 1085, 1085,
       1091, 1102, 32, 1080, 1089, 1090, 1086, 1088, 1080, 1102, 46]),
     \<comment> \<open>Close merge dialog\<close>
     ([67, 108, 111, 115, 101, 32, 109, 101, 114, 103, 101, 32, 100, 105, 97, 108, 111, 103],
      [1047, 1072, 1082, 1088, 1099, 1090, 1100, 32, 109, 101, 114, 103, 101, 45, 1076, 1080,
       1072, 1083, 1086, 1075]),
     \<comment> \<open>Retired source\<close>
     ([82, 101, 116, 105, 114, 101, 100, 32, 115, 111, 117, 114, 99, 101],
      [82, 101, 116, 105, 114, 101, 100, 32, 115, 111, 117, 114, 99, 101]),
     \<comment> \<open>Active target\<close>
     ([65, 99, 116, 105, 118, 101, 32, 116, 97, 114, 103, 101, 116],
      [65, 99, 116, 105, 118, 101, 32, 116, 97, 114, 103, 101, 116]),
     \<comment> \<open>Select an active node\<close>
     ([83, 101, 108, 101, 99, 116, 32, 97, 110, 32, 97, 99, 116, 105, 118, 101, 32, 110, 111, 100,
       101],
      [1042, 1099, 1073, 1077, 1088, 1080, 1090, 1077, 32, 97, 99, 116, 105, 118, 101, 45, 1085,
       1086, 1076, 1091]),
     \<comment> \<open>From retired node\<close>
     ([70, 114, 111, 109, 32, 114, 101, 116, 105, 114, 101, 100, 32, 110, 111, 100, 101],
      [1048, 1079, 32, 114, 101, 116, 105, 114, 101, 100, 45, 1085, 1086, 1076, 1099]),
     \<comment> \<open>Into active node\<close>
     ([73, 110, 116, 111, 32, 97, 99, 116, 105, 118, 101, 32, 110, 111, 100, 101],
      [1042, 32, 97, 99, 116, 105, 118, 101, 45, 1085, 1086, 1076, 1091]),
     \<comment> \<open>Speed results\<close>
     ([83, 112, 101, 101, 100, 32, 114, 101, 115, 117, 108, 116, 115],
      [1056, 1077, 1079, 1091, 1083, 1100, 1090, 1072, 1090, 1099, 32, 115, 112, 101, 101, 100,
       116, 101, 115, 116]),
     \<comment> \<open>The merge is staged now and applied on the next restart. The retired r\<close>
     ([84, 104, 101, 32, 109, 101, 114, 103, 101, 32, 105, 115, 32, 115, 116, 97, 103, 101, 100,
       32, 110, 111, 119, 32, 97, 110, 100, 32, 97, 112, 112, 108, 105, 101, 100, 32, 111, 110,
       32, 116, 104, 101, 32, 110, 101, 120, 116, 32, 114, 101, 115, 116, 97, 114, 116, 46, 32,
       84, 104, 101, 32, 114, 101, 116, 105, 114, 101, 100, 32, 114, 101, 99, 111, 114, 100, 32,
       105, 115, 32, 114, 101, 109, 111, 118, 101, 100, 32, 111, 110, 108, 121, 32, 97, 102, 116,
       101, 114, 32, 97, 108, 108, 32, 112, 101, 114, 115, 105, 115, 116, 101, 100, 32, 115, 116,
       97, 116, 101, 32, 108, 111, 97, 100, 115, 32, 115, 117, 99, 99, 101, 115, 115, 102, 117,
       108, 108, 121, 46],
      [77, 101, 114, 103, 101, 32, 1073, 1091, 1076, 1077, 1090, 32, 1087, 1086, 1076, 1075, 1086,
       1090, 1086, 1074, 1083, 1077, 1085, 32, 1089, 1077, 1081, 1095, 1072, 1089, 32, 1080, 32,
       1087, 1088, 1080, 1084, 1077, 1085, 1105, 1085, 32, 1087, 1086, 1089, 1083, 1077, 32, 1089,
       1083, 1077, 1076, 1091, 1102, 1097, 1077, 1075, 1086, 32, 114, 101, 115, 116, 97, 114, 116,
       46, 32, 82, 101, 116, 105, 114, 101, 100, 45, 1079, 1072, 1087, 1080, 1089, 1100, 32, 1091,
       1076, 1072, 1083, 1080, 1090, 1089, 1103, 32, 1090, 1086, 1083, 1100, 1082, 1086, 32, 1087,
       1086, 1089, 1083, 1077, 32, 1091, 1089, 1087, 1077, 1096, 1085, 1086, 1081, 32, 1079, 1072,
       1075, 1088, 1091, 1079, 1082, 1080, 32, 1074, 1089, 1077, 1075, 1086, 32, 112, 101, 114,
       115, 105, 115, 116, 101, 100, 32, 115, 116, 97, 116, 101, 46]),
     \<comment> \<open>Merge staged successfully\<close>
     ([77, 101, 114, 103, 101, 32, 115, 116, 97, 103, 101, 100, 32, 115, 117, 99, 99, 101, 115,
       115, 102, 117, 108, 108, 121],
      [77, 101, 114, 103, 101, 32, 1091, 1089, 1087, 1077, 1096, 1085, 1086, 32, 1087, 1086, 1076,
       1075, 1086, 1090, 1086, 1074, 1083, 1077, 1085]),
     \<comment> \<open>Restart the service to apply it. After restart, Nodes Overview will ve\<close>
     ([82, 101, 115, 116, 97, 114, 116, 32, 116, 104, 101, 32, 115, 101, 114, 118, 105, 99, 101,
       32, 116, 111, 32, 97, 112, 112, 108, 121, 32, 105, 116, 46, 32, 65, 102, 116, 101, 114, 32,
       114, 101, 115, 116, 97, 114, 116, 44, 32, 78, 111, 100, 101, 115, 32, 79, 118, 101, 114,
       118, 105, 101, 119, 32, 119, 105, 108, 108, 32, 118, 101, 114, 105, 102, 121, 32, 116, 104,
       101, 32, 116, 97, 114, 103, 101, 116, 32, 108, 105, 110, 101, 97, 103, 101, 32, 97, 110,
       100, 32, 115, 104, 111, 119, 32, 97, 32, 99, 111, 109, 112, 108, 101, 116, 101, 100, 32,
       99, 111, 110, 102, 105, 114, 109, 97, 116, 105, 111, 110, 46],
      [1055, 1077, 1088, 1077, 1079, 1072, 1087, 1091, 1089, 1090, 1080, 1090, 1077, 32, 1089,
       1077, 1088, 1074, 1080, 1089, 44, 32, 1095, 1090, 1086, 1073, 1099, 32, 1087, 1088, 1080,
       1084, 1077, 1085, 1080, 1090, 1100, 32, 109, 101, 114, 103, 101, 46, 32, 1055, 1086, 1089,
       1083, 1077, 32, 114, 101, 115, 116, 97, 114, 116, 32, 1088, 1072, 1079, 1076, 1077, 1083,
       32, 171, 1054, 1073, 1079, 1086, 1088, 32, 1085, 1086, 1076, 187, 32, 1087, 1088, 1086,
       1074, 1077, 1088, 1080, 1090, 32, 116, 97, 114, 103, 101, 116, 32, 108, 105, 110, 101, 97,
       103, 101, 32, 1080, 32, 1087, 1086, 1082, 1072, 1078, 1077, 1090, 32, 1087, 1086, 1076,
       1090, 1074, 1077, 1088, 1078, 1076, 1077, 1085, 1080, 1077, 32, 1079, 1072, 1074, 1077,
       1088, 1096, 1077, 1085, 1080, 1103, 46]),
     \<comment> \<open>Changed identity fields\<close>
     ([67, 104, 97, 110, 103, 101, 100, 32, 105, 100, 101, 110, 116, 105, 116, 121, 32, 102, 105,
       101, 108, 100, 115],
      [1048, 1079, 1084, 1077, 1085, 1080, 1074, 1096, 1080, 1077, 1089, 1103, 32, 105, 100, 101,
       110, 116, 105, 116, 121, 32, 102, 105, 101, 108, 100, 115]),
     \<comment> \<open>Identity check\<close>
     ([73, 100, 101, 110, 116, 105, 116, 121, 32, 99, 104, 101, 99, 107],
      [1055, 1088, 1086, 1074, 1077, 1088, 1082, 1072, 32, 105, 100, 101, 110, 116, 105, 116,
       121]),
     \<comment> \<open>Name and port are unchanged.\<close>
     ([78, 97, 109, 101, 32, 97, 110, 100, 32, 112, 111, 114, 116, 32, 97, 114, 101, 32, 117, 110,
       99, 104, 97, 110, 103, 101, 100, 46],
      [78, 97, 109, 101, 32, 1080, 32, 112, 111, 114, 116, 32, 1085, 1077, 32, 1080, 1079, 1084,
       1077, 1085, 1080, 1083, 1080, 1089, 1100, 46]),
     \<comment> \<open>Removed nodes:\<close>
     ([82, 101, 109, 111, 118, 101, 100, 32, 110, 111, 100, 101, 115, 58],
      [1059, 1076, 1072, 1083, 1103, 1077, 1084, 1099, 1077, 32, 1085, 1086, 1076, 1099, 58]),
     \<comment> \<open>Cancel\<close>
     ([67, 97, 110, 99, 101, 108],
      [1054, 1090, 1084, 1077, 1085, 1072]),
     \<comment> \<open>Review merge\<close>
     ([82, 101, 118, 105, 101, 119, 32, 109, 101, 114, 103, 101],
      [1055, 1088, 1086, 1074, 1077, 1088, 1080, 1090, 1100, 32, 109, 101, 114, 103, 101]),
     \<comment> \<open>Back\<close>
     ([66, 97, 99, 107],
      [1053, 1072, 1079, 1072, 1076]),
     \<comment> \<open>Stage merge\<close>
     ([83, 116, 97, 103, 101, 32, 109, 101, 114, 103, 101],
      [1055, 1086, 1076, 1075, 1086, 1090, 1086, 1074, 1080, 1090, 1100, 32, 109, 101, 114, 103,
       101]),
     \<comment> \<open>Done\<close>
     ([68, 111, 110, 101],
      [1043, 1086, 1090, 1086, 1074, 1086]),
     \<comment> \<open>Timeout\<close>
     ([84, 105, 109, 101, 111, 117, 116],
      [1058, 1072, 1081, 1084, 1072, 1091, 1090]),
     \<comment> \<open>TLS error\<close>
     ([84, 76, 83, 32, 101, 114, 114, 111, 114],
      [1054, 1096, 1080, 1073, 1082, 1072, 32, 84, 76, 83]),
     \<comment> \<open>Connection refused\<close>
     ([67, 111, 110, 110, 101, 99, 116, 105, 111, 110, 32, 114, 101, 102, 117, 115, 101, 100],
      [1057, 1086, 1077, 1076, 1080, 1085, 1077, 1085, 1080, 1077, 32, 1086, 1090, 1082, 1083,
       1086, 1085, 1077, 1085, 1086]),
     \<comment> \<open>Connection reset\<close>
     ([67, 111, 110, 110, 101, 99, 116, 105, 111, 110, 32, 114, 101, 115, 101, 116],
      [1057, 1086, 1077, 1076, 1080, 1085, 1077, 1085, 1080, 1077, 32, 1089, 1073, 1088, 1086,
       1096, 1077, 1085, 1086]),
     \<comment> \<open>DNS error\<close>
     ([68, 78, 83, 32, 101, 114, 114, 111, 114],
      [1054, 1096, 1080, 1073, 1082, 1072, 32, 68, 78, 83]),
     \<comment> \<open>No response\<close>
     ([78, 111, 32, 114, 101, 115, 112, 111, 110, 115, 101],
      [1053, 1077, 1090, 32, 1086, 1090, 1074, 1077, 1090, 1072]),
     \<comment> \<open>Failed\<close>
     ([70, 97, 105, 108, 101, 100],
      [1054, 1096, 1080, 1073, 1082, 1072]),
     \<comment> \<open>Below threshold\<close>
     ([66, 101, 108, 111, 119, 32, 116, 104, 114, 101, 115, 104, 111, 108, 100],
      [1053, 1080, 1078, 1077, 32, 1087, 1086, 1088, 1086, 1075, 1072]),
     \<comment> \<open>Successful\<close>
     ([83, 117, 99, 99, 101, 115, 115, 102, 117, 108],
      [1059, 1089, 1087, 1077, 1096, 1085, 1086]),
     \<comment> \<open>Reserve Test URL\<close>
     ([82, 101, 115, 101, 114, 118, 101, 32, 84, 101, 115, 116, 32, 85, 82, 76],
      [1056, 1077, 1079, 1077, 1088, 1074, 1085, 1099, 1081, 32, 84, 101, 115, 116, 32, 85, 82,
       76]),
     \<comment> \<open>All systems operational\<close>
     ([65, 108, 108, 32, 115, 121, 115, 116, 101, 109, 115, 32, 111, 112, 101, 114, 97, 116, 105,
       111, 110, 97, 108],
      [1042, 1089, 1077, 32, 1089, 1080, 1089, 1090, 1077, 1084, 1099, 32, 1088, 1072, 1073, 1086,
       1090, 1072, 1102, 1090, 32, 1096, 1090, 1072, 1090, 1085, 1086]),
     \<comment> \<open>All monitored systems operational\<close>
     ([65, 108, 108, 32, 109, 111, 110, 105, 116, 111, 114, 101, 100, 32, 115, 121, 115, 116, 101,
       109, 115, 32, 111, 112, 101, 114, 97, 116, 105, 111, 110, 97, 108],
      [1042, 1089, 1077, 32, 1086, 1090, 1089, 1083, 1077, 1078, 1080, 1074, 1072, 1077, 1084,
       1099, 1077, 32, 1089, 1080, 1089, 1090, 1077, 1084, 1099, 32, 1088, 1072, 1073, 1086, 1090,
       1072, 1102, 1090, 32, 1096, 1090, 1072, 1090, 1085, 1086])]"

lemma ru_part4_nonempty: "list_all (\<lambda>(k, v). k \<noteq> [] \<and> v \<noteq> []) ru_part4"
  by (simp add: ru_part4_def)

end
