(* ===== verification/RuData5.thy ===== *)
theory RuData5
  imports JsRegex
begin

text \<open>
  Lines 379 to 469 of the Russian dictionary (the object \<open>ru\<close> of
  \<open>src/web/static/localization.js\<close>), entry by entry in source order, as code points. The comment
  in front of an entry is its key with every character outside a small ASCII set shown as a
  question mark.
\<close>

definition ru_part5 :: "(jstr \<times> jstr) list" where
  "ru_part5 = [
     \<comment> \<open>Checking?\<close>
     ([67, 104, 101, 99, 107, 105, 110, 103, 8230],
      [1055, 1088, 1086, 1074, 1077, 1088, 1082, 1072, 8230]),
     \<comment> \<open>Close details\<close>
     ([67, 108, 111, 115, 101, 32, 100, 101, 116, 97, 105, 108, 115],
      [1047, 1072, 1082, 1088, 1099, 1090, 1100, 32, 1087, 1086, 1076, 1088, 1086, 1073, 1085,
       1086, 1089, 1090, 1080]),
     \<comment> \<open>Open details\<close>
     ([79, 112, 101, 110, 32, 100, 101, 116, 97, 105, 108, 115],
      [1054, 1090, 1082, 1088, 1099, 1090, 1100, 32, 1087, 1086, 1076, 1088, 1086, 1073, 1085,
       1086, 1089, 1090, 1080]),
     \<comment> \<open>Select exactly one node\<close>
     ([83, 101, 108, 101, 99, 116, 32, 101, 120, 97, 99, 116, 108, 121, 32, 111, 110, 101, 32,
       110, 111, 100, 101],
      [1042, 1099, 1073, 1077, 1088, 1080, 1090, 1077, 32, 1088, 1086, 1074, 1085, 1086, 32, 1086,
       1076, 1085, 1091, 32, 1085, 1086, 1076, 1091]),
     \<comment> \<open>Unsaved changes\<close>
     ([85, 110, 115, 97, 118, 101, 100, 32, 99, 104, 97, 110, 103, 101, 115],
      [1045, 1089, 1090, 1100, 32, 1085, 1077, 1089, 1086, 1093, 1088, 1072, 1085, 1105, 1085,
       1085, 1099, 1077, 32, 1080, 1079, 1084, 1077, 1085, 1077, 1085, 1080, 1103]),
     \<comment> \<open>Custom URL active\<close>
     ([67, 117, 115, 116, 111, 109, 32, 85, 82, 76, 32, 97, 99, 116, 105, 118, 101],
      [1048, 1089, 1087, 1086, 1083, 1100, 1079, 1091, 1077, 1090, 1089, 1103, 32, 1087, 1086,
       1083, 1100, 1079, 1086, 1074, 1072, 1090, 1077, 1083, 1100, 1089, 1082, 1080, 1081, 32, 85,
       82, 76]),
     \<comment> \<open>Using global Test URL\<close>
     ([85, 115, 105, 110, 103, 32, 103, 108, 111, 98, 97, 108, 32, 84, 101, 115, 116, 32, 85, 82,
       76],
      [1048, 1089, 1087, 1086, 1083, 1100, 1079, 1091, 1077, 1090, 1089, 1103, 32, 1075, 1083,
       1086, 1073, 1072, 1083, 1100, 1085, 1099, 1081, 32, 84, 101, 115, 116, 32, 85, 82, 76]),
     \<comment> \<open>Updating\<close>
     ([85, 112, 100, 97, 116, 105, 110, 103],
      [1054, 1073, 1085, 1086, 1074, 1083, 1077, 1085, 1080, 1077]),
     \<comment> \<open>Update blocked\<close>
     ([85, 112, 100, 97, 116, 101, 32, 98, 108, 111, 99, 107, 101, 100],
      [1054, 1073, 1085, 1086, 1074, 1083, 1077, 1085, 1080, 1077, 32, 1079, 1072, 1073, 1083,
       1086, 1082, 1080, 1088, 1086, 1074, 1072, 1085, 1086]),
     \<comment> \<open>Select at least one node\<close>
     ([83, 101, 108, 101, 99, 116, 32, 97, 116, 32, 108, 101, 97, 115, 116, 32, 111, 110, 101, 32,
       110, 111, 100, 101],
      [1042, 1099, 1073, 1077, 1088, 1080, 1090, 1077, 32, 1093, 1086, 1090, 1103, 32, 1073, 1099,
       32, 1086, 1076, 1085, 1091, 32, 1085, 1086, 1076, 1091]),
     \<comment> \<open>Selected nodes are in maintenance\<close>
     ([83, 101, 108, 101, 99, 116, 101, 100, 32, 110, 111, 100, 101, 115, 32, 97, 114, 101, 32,
       105, 110, 32, 109, 97, 105, 110, 116, 101, 110, 97, 110, 99, 101],
      [1042, 1099, 1073, 1088, 1072, 1085, 1085, 1099, 1077, 32, 1085, 1086, 1076, 1099, 32, 1085,
       1072, 1093, 1086, 1076, 1103, 1090, 1089, 1103, 32, 1074, 32, 1088, 1077, 1078, 1080, 1084,
       1077, 32, 1086, 1073, 1089, 1083, 1091, 1078, 1080, 1074, 1072, 1085, 1080, 1103]),
     \<comment> \<open>Node availability checked\<close>
     ([78, 111, 100, 101, 32, 97, 118, 97, 105, 108, 97, 98, 105, 108, 105, 116, 121, 32, 99, 104,
       101, 99, 107, 101, 100],
      [1044, 1086, 1089, 1090, 1091, 1087, 1085, 1086, 1089, 1090, 1100, 32, 1085, 1086, 1076,
       1099, 32, 1087, 1088, 1086, 1074, 1077, 1088, 1077, 1085, 1072]),
     \<comment> \<open>Node Test URL saved\<close>
     ([78, 111, 100, 101, 32, 84, 101, 115, 116, 32, 85, 82, 76, 32, 115, 97, 118, 101, 100],
      [84, 101, 115, 116, 32, 85, 82, 76, 32, 1085, 1086, 1076, 1099, 32, 1089, 1086, 1093, 1088,
       1072, 1085, 1105, 1085]),
     \<comment> \<open>Node Test URL cleared\<close>
     ([78, 111, 100, 101, 32, 84, 101, 115, 116, 32, 85, 82, 76, 32, 99, 108, 101, 97, 114, 101,
       100],
      [84, 101, 115, 116, 32, 85, 82, 76, 32, 1085, 1086, 1076, 1099, 32, 1086, 1095, 1080, 1097,
       1077, 1085]),
     \<comment> \<open>Schedule saved\<close>
     ([83, 99, 104, 101, 100, 117, 108, 101, 32, 115, 97, 118, 101, 100],
      [1056, 1072, 1089, 1087, 1080, 1089, 1072, 1085, 1080, 1077, 32, 1089, 1086, 1093, 1088,
       1072, 1085, 1077, 1085, 1086]),
     \<comment> \<open>History settings saved\<close>
     ([72, 105, 115, 116, 111, 114, 121, 32, 115, 101, 116, 116, 105, 110, 103, 115, 32, 115, 97,
       118, 101, 100],
      [1053, 1072, 1089, 1090, 1088, 1086, 1081, 1082, 1080, 32, 1080, 1089, 1090, 1086, 1088,
       1080, 1080, 32, 1089, 1086, 1093, 1088, 1072, 1085, 1077, 1085, 1099]),
     \<comment> \<open>Telegram settings saved\<close>
     ([84, 101, 108, 101, 103, 114, 97, 109, 32, 115, 101, 116, 116, 105, 110, 103, 115, 32, 115,
       97, 118, 101, 100],
      [1053, 1072, 1089, 1090, 1088, 1086, 1081, 1082, 1080, 32, 84, 101, 108, 101, 103, 114, 97,
       109, 32, 1089, 1086, 1093, 1088, 1072, 1085, 1077, 1085, 1099]),
     \<comment> \<open>Backup download started\<close>
     ([66, 97, 99, 107, 117, 112, 32, 100, 111, 119, 110, 108, 111, 97, 100, 32, 115, 116, 97,
       114, 116, 101, 100],
      [1057, 1082, 1072, 1095, 1080, 1074, 1072, 1085, 1080, 1077, 32, 1073, 1101, 1082, 1072,
       1087, 1072, 32, 1085, 1072, 1095, 1072, 1090, 1086]),
     \<comment> \<open>Verifying backup...\<close>
     ([86, 101, 114, 105, 102, 121, 105, 110, 103, 32, 98, 97, 99, 107, 117, 112, 46, 46, 46],
      [1055, 1088, 1086, 1074, 1077, 1088, 1082, 1072, 32, 1073, 1101, 1082, 1072, 1087, 1072, 46,
       46, 46]),
     \<comment> \<open>Telegram test message sent\<close>
     ([84, 101, 108, 101, 103, 114, 97, 109, 32, 116, 101, 115, 116, 32, 109, 101, 115, 115, 97,
       103, 101, 32, 115, 101, 110, 116],
      [1058, 1077, 1089, 1090, 1086, 1074, 1086, 1077, 32, 1089, 1086, 1086, 1073, 1097, 1077,
       1085, 1080, 1077, 32, 84, 101, 108, 101, 103, 114, 97, 109, 32, 1086, 1090, 1087, 1088,
       1072, 1074, 1083, 1077, 1085, 1086]),
     \<comment> \<open>Enabling maintenance\<close>
     ([69, 110, 97, 98, 108, 105, 110, 103, 32, 109, 97, 105, 110, 116, 101, 110, 97, 110, 99,
       101],
      [1042, 1082, 1083, 1102, 1095, 1077, 1085, 1080, 1077, 32, 1088, 1077, 1078, 1080, 1084,
       1072, 32, 1086, 1073, 1089, 1083, 1091, 1078, 1080, 1074, 1072, 1085, 1080, 1103]),
     \<comment> \<open>Resuming monitoring\<close>
     ([82, 101, 115, 117, 109, 105, 110, 103, 32, 109, 111, 110, 105, 116, 111, 114, 105, 110,
       103],
      [1042, 1086, 1079, 1086, 1073, 1085, 1086, 1074, 1083, 1077, 1085, 1080, 1077, 32, 1084,
       1086, 1085, 1080, 1090, 1086, 1088, 1080, 1085, 1075, 1072]),
     \<comment> \<open>Maintenance enabled\<close>
     ([77, 97, 105, 110, 116, 101, 110, 97, 110, 99, 101, 32, 101, 110, 97, 98, 108, 101, 100],
      [1056, 1077, 1078, 1080, 1084, 32, 1086, 1073, 1089, 1083, 1091, 1078, 1080, 1074, 1072,
       1085, 1080, 1103, 32, 1074, 1082, 1083, 1102, 1095, 1105, 1085]),
     \<comment> \<open>Monitoring resumed\<close>
     ([77, 111, 110, 105, 116, 111, 114, 105, 110, 103, 32, 114, 101, 115, 117, 109, 101, 100],
      [1052, 1086, 1085, 1080, 1090, 1086, 1088, 1080, 1085, 1075, 32, 1074, 1086, 1079, 1086,
       1073, 1085, 1086, 1074, 1083, 1105, 1085]),
     \<comment> \<open>due now\<close>
     ([100, 117, 101, 32, 110, 111, 119],
      [1091, 1078, 1077, 32, 1087, 1086, 1088, 1072]),
     \<comment> \<open>Latest measurement:\<close>
     ([76, 97, 116, 101, 115, 116, 32, 109, 101, 97, 115, 117, 114, 101, 109, 101, 110, 116, 58],
      [1055, 1086, 1089, 1083, 1077, 1076, 1085, 1080, 1081, 32, 1079, 1072, 1084, 1077, 1088,
       58]),
     \<comment> \<open>Choose both start and end dates\<close>
     ([67, 104, 111, 111, 115, 101, 32, 98, 111, 116, 104, 32, 115, 116, 97, 114, 116, 32, 97,
       110, 100, 32, 101, 110, 100, 32, 100, 97, 116, 101, 115],
      [1059, 1082, 1072, 1078, 1080, 1090, 1077, 32, 1086, 1073, 1077, 32, 1076, 1072, 1090, 1099,
       58, 32, 1085, 1072, 1095, 1072, 1083, 1086, 32, 1080, 32, 1082, 1086, 1085, 1077, 1094]),
     \<comment> \<open>Start date must be before or equal to end date\<close>
     ([83, 116, 97, 114, 116, 32, 100, 97, 116, 101, 32, 109, 117, 115, 116, 32, 98, 101, 32, 98,
       101, 102, 111, 114, 101, 32, 111, 114, 32, 101, 113, 117, 97, 108, 32, 116, 111, 32, 101,
       110, 100, 32, 100, 97, 116, 101],
      [1044, 1072, 1090, 1072, 32, 1085, 1072, 1095, 1072, 1083, 1072, 32, 1076, 1086, 1083, 1078,
       1085, 1072, 32, 1073, 1099, 1090, 1100, 32, 1088, 1072, 1085, 1100, 1096, 1077, 32, 1076,
       1072, 1090, 1099, 32, 1086, 1082, 1086, 1085, 1095, 1072, 1085, 1080, 1103, 32, 1080, 1083,
       1080, 32, 1089, 1086, 1074, 1087, 1072, 1076, 1072, 1090, 1100, 32, 1089, 32, 1085, 1077,
       1081]),
     \<comment> \<open>Speed-test history in Mbps\<close>
     ([83, 112, 101, 101, 100, 45, 116, 101, 115, 116, 32, 104, 105, 115, 116, 111, 114, 121, 32,
       105, 110, 32, 77, 98, 112, 115],
      [1048, 1089, 1090, 1086, 1088, 1080, 1103, 32, 115, 112, 101, 101, 100, 116, 101, 115, 116,
       32, 1074, 32, 77, 98, 112, 115]),
     \<comment> \<open>Speed chart period\<close>
     ([83, 112, 101, 101, 100, 32, 99, 104, 97, 114, 116, 32, 112, 101, 114, 105, 111, 100],
      [1055, 1077, 1088, 1080, 1086, 1076, 32, 1075, 1088, 1072, 1092, 1080, 1082, 1072, 32, 1089,
       1082, 1086, 1088, 1086, 1089, 1090, 1080]),
     \<comment> \<open>Availability history in milliseconds\<close>
     ([65, 118, 97, 105, 108, 97, 98, 105, 108, 105, 116, 121, 32, 104, 105, 115, 116, 111, 114,
       121, 32, 105, 110, 32, 109, 105, 108, 108, 105, 115, 101, 99, 111, 110, 100, 115],
      [1048, 1089, 1090, 1086, 1088, 1080, 1103, 32, 97, 118, 97, 105, 108, 97, 98, 105, 108, 105,
       116, 121, 32, 1074, 32, 1084, 1080, 1083, 1083, 1080, 1089, 1077, 1082, 1091, 1085, 1076,
       1072, 1093]),
     \<comment> \<open>Availability chart period\<close>
     ([65, 118, 97, 105, 108, 97, 98, 105, 108, 105, 116, 121, 32, 99, 104, 97, 114, 116, 32, 112,
       101, 114, 105, 111, 100],
      [1055, 1077, 1088, 1080, 1086, 1076, 32, 1075, 1088, 1072, 1092, 1080, 1082, 1072, 32, 97,
       118, 97, 105, 108, 97, 98, 105, 108, 105, 116, 121]),
     \<comment> \<open>Chart metric\<close>
     ([67, 104, 97, 114, 116, 32, 109, 101, 116, 114, 105, 99],
      [1052, 1077, 1090, 1088, 1080, 1082, 1072, 32, 1075, 1088, 1072, 1092, 1080, 1082, 1072]),
     \<comment> \<open>Speed:\<close>
     ([83, 112, 101, 101, 100, 58],
      [1057, 1082, 1086, 1088, 1086, 1089, 1090, 1100, 58]),
     \<comment> \<open>Latency:\<close>
     ([76, 97, 116, 101, 110, 99, 121, 58],
      [1047, 1072, 1076, 1077, 1088, 1078, 1082, 1072, 58]),
     \<comment> \<open>Downloaded:\<close>
     ([68, 111, 119, 110, 108, 111, 97, 100, 101, 100, 58],
      [1057, 1082, 1072, 1095, 1072, 1085, 1086, 58]),
     \<comment> \<open>Result:\<close>
     ([82, 101, 115, 117, 108, 116, 58],
      [1056, 1077, 1079, 1091, 1083, 1100, 1090, 1072, 1090, 58]),
     \<comment> \<open>Muted all\<close>
     ([77, 117, 116, 101, 100, 32, 97, 108, 108],
      [77, 117, 116, 101, 58, 32, 1074, 1089, 1105]),
     \<comment> \<open>Muted alerts\<close>
     ([77, 117, 116, 101, 100, 32, 97, 108, 101, 114, 116, 115],
      [77, 117, 116, 101, 58, 32, 1072, 1083, 1077, 1088, 1090, 1099]),
     \<comment> \<open>Muted speed\<close>
     ([77, 117, 116, 101, 100, 32, 115, 112, 101, 101, 100],
      [77, 117, 116, 101, 58, 32, 115, 112, 101, 101, 100, 116, 101, 115, 116]),
     \<comment> \<open>Clear visible node selection\<close>
     ([67, 108, 101, 97, 114, 32, 118, 105, 115, 105, 98, 108, 101, 32, 110, 111, 100, 101, 32,
       115, 101, 108, 101, 99, 116, 105, 111, 110],
      [1054, 1095, 1080, 1089, 1090, 1080, 1090, 1100, 32, 1074, 1099, 1073, 1086, 1088, 32, 1074,
       1080, 1076, 1080, 1084, 1099, 1093, 32, 1085, 1086, 1076]),
     \<comment> \<open>No active nodes to refresh\<close>
     ([78, 111, 32, 97, 99, 116, 105, 118, 101, 32, 110, 111, 100, 101, 115, 32, 116, 111, 32,
       114, 101, 102, 114, 101, 115, 104],
      [1053, 1077, 1090, 32, 1072, 1082, 1090, 1080, 1074, 1085, 1099, 1093, 32, 1085, 1086, 1076,
       32, 1076, 1083, 1103, 32, 1086, 1073, 1085, 1086, 1074, 1083, 1077, 1085, 1080, 1103]),
     \<comment> \<open>Refreshing Geo\<close>
     ([82, 101, 102, 114, 101, 115, 104, 105, 110, 103, 32, 71, 101, 111],
      [1054, 1073, 1085, 1086, 1074, 1083, 1077, 1085, 1080, 1077, 32, 71, 101, 111]),
     \<comment> \<open>Node merge completed successfully\<close>
     ([78, 111, 100, 101, 32, 109, 101, 114, 103, 101, 32, 99, 111, 109, 112, 108, 101, 116, 101,
       100, 32, 115, 117, 99, 99, 101, 115, 115, 102, 117, 108, 108, 121],
      [78, 111, 100, 101, 32, 109, 101, 114, 103, 101, 32, 1091, 1089, 1087, 1077, 1096, 1085,
       1086, 32, 1079, 1072, 1074, 1077, 1088, 1096, 1105, 1085]),
     \<comment> \<open>Node merge is staged\<close>
     ([78, 111, 100, 101, 32, 109, 101, 114, 103, 101, 32, 105, 115, 32, 115, 116, 97, 103, 101,
       100],
      [78, 111, 100, 101, 32, 109, 101, 114, 103, 101, 32, 1087, 1086, 1076, 1075, 1086, 1090,
       1086, 1074, 1083, 1077, 1085]),
     \<comment> \<open>Node merge status needs verification\<close>
     ([78, 111, 100, 101, 32, 109, 101, 114, 103, 101, 32, 115, 116, 97, 116, 117, 115, 32, 110,
       101, 101, 100, 115, 32, 118, 101, 114, 105, 102, 105, 99, 97, 116, 105, 111, 110],
      [1057, 1090, 1072, 1090, 1091, 1089, 32, 110, 111, 100, 101, 32, 109, 101, 114, 103, 101,
       32, 1090, 1088, 1077, 1073, 1091, 1077, 1090, 32, 1087, 1088, 1086, 1074, 1077, 1088, 1082,
       1080]),
     \<comment> \<open>Source node not found\<close>
     ([83, 111, 117, 114, 99, 101, 32, 110, 111, 100, 101, 32, 110, 111, 116, 32, 102, 111, 117,
       110, 100],
      [83, 111, 117, 114, 99, 101, 45, 1085, 1086, 1076, 1072, 32, 1085, 1077, 32, 1085, 1072,
       1081, 1076, 1077, 1085, 1072]),
     \<comment> \<open>Only a retired node can be merged\<close>
     ([79, 110, 108, 121, 32, 97, 32, 114, 101, 116, 105, 114, 101, 100, 32, 110, 111, 100, 101,
       32, 99, 97, 110, 32, 98, 101, 32, 109, 101, 114, 103, 101, 100],
      [77, 101, 114, 103, 101, 32, 1076, 1086, 1089, 1090, 1091, 1087, 1077, 1085, 32, 1090, 1086,
       1083, 1100, 1082, 1086, 32, 1076, 1083, 1103, 32, 114, 101, 116, 105, 114, 101, 100, 45,
       1085, 1086, 1076, 1099]),
     \<comment> \<open>No compatible active node found (subscription, protocol and server mus\<close>
     ([78, 111, 32, 99, 111, 109, 112, 97, 116, 105, 98, 108, 101, 32, 97, 99, 116, 105, 118, 101,
       32, 110, 111, 100, 101, 32, 102, 111, 117, 110, 100, 32, 40, 115, 117, 98, 115, 99, 114,
       105, 112, 116, 105, 111, 110, 44, 32, 112, 114, 111, 116, 111, 99, 111, 108, 32, 97, 110,
       100, 32, 115, 101, 114, 118, 101, 114, 32, 109, 117, 115, 116, 32, 109, 97, 116, 99, 104,
       41],
      [1053, 1077, 32, 1085, 1072, 1081, 1076, 1077, 1085, 1072, 32, 1089, 1086, 1074, 1084, 1077,
       1089, 1090, 1080, 1084, 1072, 1103, 32, 97, 99, 116, 105, 118, 101, 45, 1085, 1086, 1076,
       1072, 32, 40, 115, 117, 98, 115, 99, 114, 105, 112, 116, 105, 111, 110, 44, 32, 112, 114,
       111, 116, 111, 99, 111, 108, 32, 1080, 32, 115, 101, 114, 118, 101, 114, 32, 1076, 1086,
       1083, 1078, 1085, 1099, 32, 1089, 1086, 1074, 1087, 1072, 1076, 1072, 1090, 1100, 41]),
     \<comment> \<open>Choose the active node that should own the retired history.\<close>
     ([67, 104, 111, 111, 115, 101, 32, 116, 104, 101, 32, 97, 99, 116, 105, 118, 101, 32, 110,
       111, 100, 101, 32, 116, 104, 97, 116, 32, 115, 104, 111, 117, 108, 100, 32, 111, 119, 110,
       32, 116, 104, 101, 32, 114, 101, 116, 105, 114, 101, 100, 32, 104, 105, 115, 116, 111, 114,
       121, 46],
      [1042, 1099, 1073, 1077, 1088, 1080, 1090, 1077, 32, 97, 99, 116, 105, 118, 101, 45, 1085,
       1086, 1076, 1091, 44, 32, 1082, 1086, 1090, 1086, 1088, 1072, 1103, 32, 1087, 1086, 1083,
       1091, 1095, 1080, 1090, 32, 104, 105, 115, 116, 111, 114, 121, 32, 114, 101, 116, 105, 114,
       101, 100, 45, 1085, 1086, 1076, 1099, 46]),
     \<comment> \<open>Preparing preview\<close>
     ([80, 114, 101, 112, 97, 114, 105, 110, 103, 32, 112, 114, 101, 118, 105, 101, 119],
      [1055, 1086, 1076, 1075, 1086, 1090, 1086, 1074, 1082, 1072, 32, 112, 114, 101, 118, 105,
       101, 119]),
     \<comment> \<open>Review the exact source, target and merged counters before staging.\<close>
     ([82, 101, 118, 105, 101, 119, 32, 116, 104, 101, 32, 101, 120, 97, 99, 116, 32, 115, 111,
       117, 114, 99, 101, 44, 32, 116, 97, 114, 103, 101, 116, 32, 97, 110, 100, 32, 109, 101,
       114, 103, 101, 100, 32, 99, 111, 117, 110, 116, 101, 114, 115, 32, 98, 101, 102, 111, 114,
       101, 32, 115, 116, 97, 103, 105, 110, 103, 46],
      [1055, 1077, 1088, 1077, 1076, 32, 115, 116, 97, 103, 105, 110, 103, 32, 1087, 1088, 1086,
       1074, 1077, 1088, 1100, 1090, 1077, 32, 1090, 1086, 1095, 1085, 1099, 1077, 32, 115, 111,
       117, 114, 99, 101, 44, 32, 116, 97, 114, 103, 101, 116, 32, 1080, 32, 1080, 1090, 1086,
       1075, 1086, 1074, 1099, 1077, 32, 99, 111, 117, 110, 116, 101, 114, 115, 46]),
     \<comment> \<open>Staging merge\<close>
     ([83, 116, 97, 103, 105, 110, 103, 32, 109, 101, 114, 103, 101],
      [1055, 1086, 1076, 1075, 1086, 1090, 1086, 1074, 1082, 1072, 32, 109, 101, 114, 103, 101]),
     \<comment> \<open>The selected merge is safely staged.\<close>
     ([84, 104, 101, 32, 115, 101, 108, 101, 99, 116, 101, 100, 32, 109, 101, 114, 103, 101, 32,
       105, 115, 32, 115, 97, 102, 101, 108, 121, 32, 115, 116, 97, 103, 101, 100, 46],
      [1042, 1099, 1073, 1088, 1072, 1085, 1085, 1099, 1081, 32, 109, 101, 114, 103, 101, 32,
       1073, 1077, 1079, 1086, 1087, 1072, 1089, 1085, 1086, 32, 1087, 1086, 1076, 1075, 1086,
       1090, 1086, 1074, 1083, 1077, 1085, 46]),
     \<comment> \<open>Node merge staged; restart the application to apply it\<close>
     ([78, 111, 100, 101, 32, 109, 101, 114, 103, 101, 32, 115, 116, 97, 103, 101, 100, 59, 32,
       114, 101, 115, 116, 97, 114, 116, 32, 116, 104, 101, 32, 97, 112, 112, 108, 105, 99, 97,
       116, 105, 111, 110, 32, 116, 111, 32, 97, 112, 112, 108, 121, 32, 105, 116],
      [78, 111, 100, 101, 32, 109, 101, 114, 103, 101, 32, 1087, 1086, 1076, 1075, 1086, 1090,
       1086, 1074, 1083, 1077, 1085, 59, 32, 1087, 1077, 1088, 1077, 1079, 1072, 1087, 1091, 1089,
       1090, 1080, 1090, 1077, 32, 1087, 1088, 1080, 1083, 1086, 1078, 1077, 1085, 1080, 1077, 32,
       1076, 1083, 1103, 32, 1087, 1088, 1080, 1084, 1077, 1085, 1077, 1085, 1080, 1103]),
     \<comment> \<open>Node not found\<close>
     ([78, 111, 100, 101, 32, 110, 111, 116, 32, 102, 111, 117, 110, 100],
      [1053, 1086, 1076, 1072, 32, 1085, 1077, 32, 1085, 1072, 1081, 1076, 1077, 1085, 1072]),
     \<comment> \<open>Active nodes are managed by subscription and cannot be deleted\<close>
     ([65, 99, 116, 105, 118, 101, 32, 110, 111, 100, 101, 115, 32, 97, 114, 101, 32, 109, 97,
       110, 97, 103, 101, 100, 32, 98, 121, 32, 115, 117, 98, 115, 99, 114, 105, 112, 116, 105,
       111, 110, 32, 97, 110, 100, 32, 99, 97, 110, 110, 111, 116, 32, 98, 101, 32, 100, 101, 108,
       101, 116, 101, 100],
      [65, 99, 116, 105, 118, 101, 45, 1085, 1086, 1076, 1099, 32, 1091, 1087, 1088, 1072, 1074,
       1083, 1103, 1102, 1090, 1089, 1103, 32, 1087, 1086, 1076, 1087, 1080, 1089, 1082, 1086,
       1081, 44, 32, 1087, 1086, 1101, 1090, 1086, 1084, 1091, 32, 1091, 1076, 1072, 1083, 1080,
       1090, 1100, 32, 1080, 1093, 32, 1085, 1077, 1083, 1100, 1079, 1103]),
     \<comment> \<open>Deleting node\<close>
     ([68, 101, 108, 101, 116, 105, 110, 103, 32, 110, 111, 100, 101],
      [1059, 1076, 1072, 1083, 1077, 1085, 1080, 1077, 32, 1085, 1086, 1076, 1099]),
     \<comment> \<open>All subscriptions\<close>
     ([65, 108, 108, 32, 115, 117, 98, 115, 99, 114, 105, 112, 116, 105, 111, 110, 115],
      [1042, 1089, 1077, 32, 1087, 1086, 1076, 1087, 1080, 1089, 1082, 1080]),
     \<comment> \<open>No changes\<close>
     ([78, 111, 32, 99, 104, 97, 110, 103, 101, 115],
      [1041, 1077, 1079, 32, 1080, 1079, 1084, 1077, 1085, 1077, 1085, 1080, 1081]),
     \<comment> \<open>Apply this update anyway?\<close>
     ([65, 112, 112, 108, 121, 32, 116, 104, 105, 115, 32, 117, 112, 100, 97, 116, 101, 32, 97,
       110, 121, 119, 97, 121, 63],
      [1042, 1089, 1105, 32, 1088, 1072, 1074, 1085, 1086, 32, 1087, 1088, 1080, 1084, 1077, 1085,
       1080, 1090, 1100, 32, 1101, 1090, 1086, 32, 1086, 1073, 1085, 1086, 1074, 1083, 1077, 1085,
       1080, 1077, 63]),
     \<comment> \<open>Restore this backup on the next application restart???Current persiste\<close>
     ([82, 101, 115, 116, 111, 114, 101, 32, 116, 104, 105, 115, 32, 98, 97, 99, 107, 117, 112,
       32, 111, 110, 32, 116, 104, 101, 32, 110, 101, 120, 116, 32, 97, 112, 112, 108, 105, 99,
       97, 116, 105, 111, 110, 32, 114, 101, 115, 116, 97, 114, 116, 63, 10, 10, 67, 117, 114,
       114, 101, 110, 116, 32, 112, 101, 114, 115, 105, 115, 116, 101, 100, 32, 100, 97, 116, 97,
       32, 119, 105, 108, 108, 32, 98, 101, 32, 114, 101, 112, 108, 97, 99, 101, 100, 46],
      [1042, 1086, 1089, 1089, 1090, 1072, 1085, 1086, 1074, 1080, 1090, 1100, 32, 1101, 1090,
       1086, 1090, 32, 1073, 1101, 1082, 1072, 1087, 32, 1087, 1088, 1080, 32, 1089, 1083, 1077,
       1076, 1091, 1102, 1097, 1077, 1084, 32, 1087, 1077, 1088, 1077, 1079, 1072, 1087, 1091,
       1089, 1082, 1077, 32, 1087, 1088, 1080, 1083, 1086, 1078, 1077, 1085, 1080, 1103, 63, 10,
       10, 1058, 1077, 1082, 1091, 1097, 1080, 1077, 32, 1089, 1086, 1093, 1088, 1072, 1085, 1105,
       1085, 1085, 1099, 1077, 32, 1076, 1072, 1085, 1085, 1099, 1077, 32, 1073, 1091, 1076, 1091,
       1090, 32, 1079, 1072, 1084, 1077, 1085, 1077, 1085, 1099, 46]),
     \<comment> \<open>Switch language\<close>
     ([83, 119, 105, 116, 99, 104, 32, 108, 97, 110, 103, 117, 97, 103, 101],
      [1055, 1077, 1088, 1077, 1082, 1083, 1102, 1095, 1080, 1090, 1100, 32, 1103, 1079, 1099,
       1082]),
     \<comment> \<open>Reachability\<close>
     ([82, 101, 97, 99, 104, 97, 98, 105, 108, 105, 116, 121],
      [1044, 1086, 1089, 1090, 1080, 1078, 1080, 1084, 1086, 1089, 1090, 1100]),
     \<comment> \<open>What each probe agent sees, next to what this checker sees\<close>
     ([87, 104, 97, 116, 32, 101, 97, 99, 104, 32, 112, 114, 111, 98, 101, 32, 97, 103, 101, 110,
       116, 32, 115, 101, 101, 115, 44, 32, 110, 101, 120, 116, 32, 116, 111, 32, 119, 104, 97,
       116, 32, 116, 104, 105, 115, 32, 99, 104, 101, 99, 107, 101, 114, 32, 115, 101, 101, 115],
      [1063, 1090, 1086, 32, 1074, 1080, 1076, 1080, 1090, 32, 1082, 1072, 1078, 1076, 1099, 1081,
       32, 112, 114, 111, 98, 101, 45, 1072, 1075, 1077, 1085, 1090, 32, 1088, 1103, 1076, 1086,
       1084, 32, 1089, 32, 1090, 1077, 1084, 44, 32, 1095, 1090, 1086, 32, 1074, 1080, 1076, 1080,
       1090, 32, 1089, 1072, 1084, 32, 99, 104, 101, 99, 107, 101, 114]),
     \<comment> \<open>Sweep now\<close>
     ([83, 119, 101, 101, 112, 32, 110, 111, 119],
      [1054, 1087, 1088, 1086, 1089, 1080, 1090, 1100, 32, 1089, 1077, 1081, 1095, 1072, 1089]),
     \<comment> \<open>Sweep\<close>
     ([83, 119, 101, 101, 112],
      [1054, 1087, 1088, 1086, 1089]),
     \<comment> \<open>Interval\<close>
     ([73, 110, 116, 101, 114, 118, 97, 108],
      [1048, 1085, 1090, 1077, 1088, 1074, 1072, 1083]),
     \<comment> \<open>Last sweep\<close>
     ([76, 97, 115, 116, 32, 115, 119, 101, 101, 112],
      [1055, 1086, 1089, 1083, 1077, 1076, 1085, 1080, 1081, 32, 1086, 1087, 1088, 1086, 1089]),
     \<comment> \<open>Confirmed findings\<close>
     ([67, 111, 110, 102, 105, 114, 109, 101, 100, 32, 102, 105, 110, 100, 105, 110, 103, 115],
      [1055, 1086, 1076, 1090, 1074, 1077, 1088, 1078, 1076, 1105, 1085, 1085, 1099, 1077, 32,
       1085, 1072, 1093, 1086, 1076, 1082, 1080]),
     \<comment> \<open>Running now\<close>
     ([82, 117, 110, 110, 105, 110, 103, 32, 110, 111, 119],
      [1048, 1076, 1105, 1090, 32, 1089, 1077, 1081, 1095, 1072, 1089]),
     \<comment> \<open>A vantage point becomes a finding only after it fails to reach a live \<close>
     ([65, 32, 118, 97, 110, 116, 97, 103, 101, 32, 112, 111, 105, 110, 116, 32, 98, 101, 99, 111,
       109, 101, 115, 32, 97, 32, 102, 105, 110, 100, 105, 110, 103, 32, 111, 110, 108, 121, 32,
       97, 102, 116, 101, 114, 32, 105, 116, 32, 102, 97, 105, 108, 115, 32, 116, 111, 32, 114,
       101, 97, 99, 104, 32, 97, 32, 108, 105, 118, 101, 32, 110, 111, 100, 101, 32, 116, 119,
       105, 99, 101, 32, 105, 110, 32, 97, 32, 114, 111, 119, 46, 32, 79, 110, 101, 32, 111, 98,
       115, 101, 114, 118, 97, 116, 105, 111, 110, 32, 105, 115, 32, 97, 32, 115, 97, 109, 112,
       108, 101, 44, 32, 110, 111, 116, 32, 97, 32, 102, 97, 117, 108, 116, 46],
      [1058, 1086, 1095, 1082, 1072, 32, 1085, 1072, 1073, 1083, 1102, 1076, 1077, 1085, 1080,
       1103, 32, 1089, 1090, 1072, 1085, 1086, 1074, 1080, 1090, 1089, 1103, 32, 1085, 1072, 1093,
       1086, 1076, 1082, 1086, 1081, 44, 32, 1090, 1086, 1083, 1100, 1082, 1086, 32, 1077, 1089,
       1083, 1080, 32, 1086, 1085, 1072, 32, 1076, 1074, 1072, 1078, 1076, 1099, 32, 1087, 1086,
       1076, 1088, 1103, 1076, 32, 1085, 1077, 32, 1089, 1084, 1086, 1075, 1083, 1072, 32, 1076,
       1086, 1089, 1090, 1091, 1095, 1072, 1090, 1100, 1089, 1103, 32, 1076, 1086, 32, 1078, 1080,
       1074, 1086, 1081, 32, 1085, 1086, 1076, 1099, 46, 32, 1054, 1076, 1085, 1086, 32, 1085,
       1072, 1073, 1083, 1102, 1076, 1077, 1085, 1080, 1077, 32, 8212, 32, 1101, 1090, 1086, 32,
       1074, 1099, 1073, 1086, 1088, 1082, 1072, 44, 32, 1072, 32, 1085, 1077, 32, 1089, 1073,
       1086, 1081, 46]),
     \<comment> \<open>Findings\<close>
     ([70, 105, 110, 100, 105, 110, 103, 115],
      [1053, 1072, 1093, 1086, 1076, 1082, 1080]),
     \<comment> \<open>No findings\<close>
     ([78, 111, 32, 102, 105, 110, 100, 105, 110, 103, 115],
      [1053, 1072, 1093, 1086, 1076, 1086, 1082, 32, 1085, 1077, 1090]),
     \<comment> \<open>Matrix\<close>
     ([77, 97, 116, 114, 105, 120],
      [1052, 1072, 1090, 1088, 1080, 1094, 1072]),
     \<comment> \<open>Cannot reach it\<close>
     ([67, 97, 110, 110, 111, 116, 32, 114, 101, 97, 99, 104, 32, 105, 116],
      [1053, 1077, 32, 1074, 1080, 1076, 1080, 1090, 32, 1085, 1086, 1076, 1091]),
     \<comment> \<open>Evidence\<close>
     ([69, 118, 105, 100, 101, 110, 99, 101],
      [1057, 1074, 1080, 1076, 1077, 1090, 1077, 1083, 1100, 1089, 1090, 1074, 1072]),
     \<comment> \<open>Since\<close>
     ([83, 105, 110, 99, 101],
      [1057]),
     \<comment> \<open>seen once\<close>
     ([115, 101, 101, 110, 32, 111, 110, 99, 101],
      [1079, 1072, 1084, 1077, 1095, 1077, 1085, 1086, 32, 1086, 1076, 1080, 1085, 32, 1088, 1072,
       1079]),
     \<comment> \<open>nodes\<close>
     ([110, 111, 100, 101, 115],
      [1085, 1086, 1076, 1099]),
     \<comment> \<open>Reached from here\<close>
     ([82, 101, 97, 99, 104, 101, 100, 32, 102, 114, 111, 109, 32, 104, 101, 114, 101],
      [1054, 1090, 1089, 1102, 1076, 1072, 32, 1085, 1086, 1076, 1072, 32, 1076, 1086, 1089, 1090,
       1091, 1087, 1085, 1072]),
     \<comment> \<open>Cannot reach a node that is up elsewhere\<close>
     ([67, 97, 110, 110, 111, 116, 32, 114, 101, 97, 99, 104, 32, 97, 32, 110, 111, 100, 101, 32,
       116, 104, 97, 116, 32, 105, 115, 32, 117, 112, 32, 101, 108, 115, 101, 119, 104, 101, 114,
       101],
      [1053, 1077, 32, 1074, 1080, 1076, 1080, 1090, 32, 1085, 1086, 1076, 1091, 44, 32, 1082,
       1086, 1090, 1086, 1088, 1072, 1103, 32, 1076, 1086, 1089, 1090, 1091, 1087, 1085, 1072, 32,
       1080, 1079, 32, 1076, 1088, 1091, 1075, 1086, 1081, 32, 1090, 1086, 1095, 1082, 1080]),
     \<comment> \<open>Down from every vantage point\<close>
     ([68, 111, 119, 110, 32, 102, 114, 111, 109, 32, 101, 118, 101, 114, 121, 32, 118, 97, 110,
       116, 97, 103, 101, 32, 112, 111, 105, 110, 116],
      [1053, 1077, 1076, 1086, 1089, 1090, 1091, 1087, 1085, 1072, 32, 1080, 1079, 32, 1074, 1089,
       1077, 1093, 32, 1090, 1086, 1095, 1077, 1082]),
     \<comment> \<open>No comparable answer\<close>
     ([78, 111, 32, 99, 111, 109, 112, 97, 114, 97, 98, 108, 101, 32, 97, 110, 115, 119, 101,
       114],
      [1053, 1077, 1090, 32, 1089, 1086, 1087, 1086, 1089, 1090, 1072, 1074, 1080, 1084, 1086,
       1075, 1086, 32, 1086, 1090, 1074, 1077, 1090, 1072]),
     \<comment> \<open>This checker\<close>
     ([84, 104, 105, 115, 32, 99, 104, 101, 99, 107, 101, 114],
      [1069, 1090, 1086, 1090, 32, 99, 104, 101, 99, 107, 101, 114]),
     \<comment> \<open>Remnawave sections\<close>
     ([82, 101, 109, 110, 97, 119, 97, 118, 101, 32, 115, 101, 99, 116, 105, 111, 110, 115],
      [1056, 1072, 1079, 1076, 1077, 1083, 1099, 32, 82, 101, 109, 110, 97, 119, 97, 118, 101]),
     \<comment> \<open>Locations\<close>
     ([76, 111, 99, 97, 116, 105, 111, 110, 115],
      [1051, 1086, 1082, 1072, 1094, 1080, 1080]),
     \<comment> \<open>Speed history period\<close>
     ([83, 112, 101, 101, 100, 32, 104, 105, 115, 116, 111, 114, 121, 32, 112, 101, 114, 105, 111,
       100],
      [1055, 1077, 1088, 1080, 1086, 1076, 32, 1080, 1089, 1090, 1086, 1088, 1080, 1080, 32, 1079,
       1072, 1084, 1077, 1088, 1086, 1074]),
     \<comment> \<open>All\<close>
     ([65, 108, 108],
      [1042, 1089, 1105]),
     \<comment> \<open>Subscriptions\<close>
     ([83, 117, 98, 115, 99, 114, 105, 112, 116, 105, 111, 110, 115],
      [1055, 1086, 1076, 1087, 1080, 1089, 1082, 1080]),
     \<comment> \<open>Subscription sources\<close>
     ([83, 117, 98, 115, 99, 114, 105, 112, 116, 105, 111, 110, 32, 115, 111, 117, 114, 99, 101,
       115],
      [1048, 1089, 1090, 1086, 1095, 1085, 1080, 1082, 1080, 32, 1087, 1086, 1076, 1087, 1080,
       1089, 1086, 1082]),
     \<comment> \<open>All subscriptions\<close>
     ([65, 108, 108, 32, 115, 117, 98, 115, 99, 114, 105, 112, 116, 105, 111, 110, 115],
      [1042, 1089, 1077, 32, 1087, 1086, 1076, 1087, 1080, 1089, 1082, 1080]),
     \<comment> \<open>Add a source\<close>
     ([65, 100, 100, 32, 97, 32, 115, 111, 117, 114, 99, 101],
      [1044, 1086, 1073, 1072, 1074, 1080, 1090, 1100, 32, 1080, 1089, 1090, 1086, 1095, 1085,
       1080, 1082]),
     \<comment> \<open>Edit source\<close>
     ([69, 100, 105, 116, 32, 115, 111, 117, 114, 99, 101],
      [1048, 1079, 1084, 1077, 1085, 1080, 1090, 1100, 32, 1080, 1089, 1090, 1086, 1095, 1085,
       1080, 1082]),
     \<comment> \<open>Subscription URL\<close>
     ([83, 117, 98, 115, 99, 114, 105, 112, 116, 105, 111, 110, 32, 85, 82, 76],
      [85, 82, 76, 32, 1087, 1086, 1076, 1087, 1080, 1089, 1082, 1080]),
     \<comment> \<open>Client to impersonate\<close>
     ([67, 108, 105, 101, 110, 116, 32, 116, 111, 32, 105, 109, 112, 101, 114, 115, 111, 110, 97,
       116, 101],
      [1050, 1072, 1082, 1086, 1081, 32, 1082, 1083, 1080, 1077, 1085, 1090, 32, 1080, 1084, 1080,
       1090, 1080, 1088, 1086, 1074, 1072, 1090, 1100]),
     \<comment> \<open>Override device headers\<close>
     ([79, 118, 101, 114, 114, 105, 100, 101, 32, 100, 101, 118, 105, 99, 101, 32, 104, 101, 97,
       100, 101, 114, 115],
      [1055, 1077, 1088, 1077, 1086, 1087, 1088, 1077, 1076, 1077, 1083, 1080, 1090, 1100, 32,
       1079, 1072, 1075, 1086, 1083, 1086, 1074, 1082, 1080, 32, 1091, 1089, 1090, 1088, 1086,
       1081, 1089, 1090, 1074, 1072]),
     \<comment> \<open>Save source\<close>
     ([83, 97, 118, 101, 32, 115, 111, 117, 114, 99, 101],
      [1057, 1086, 1093, 1088, 1072, 1085, 1080, 1090, 1100, 32, 1080, 1089, 1090, 1086, 1095,
       1085, 1080, 1082]),
     \<comment> \<open>Clear form\<close>
     ([67, 108, 101, 97, 114, 32, 102, 111, 114, 109],
      [1054, 1095, 1080, 1089, 1090, 1080, 1090, 1100, 32, 1092, 1086, 1088, 1084, 1091]),
     \<comment> \<open>from environment\<close>
     ([102, 114, 111, 109, 32, 101, 110, 118, 105, 114, 111, 110, 109, 101, 110, 116],
      [1080, 1079, 32, 1086, 1082, 1088, 1091, 1078, 1077, 1085, 1080, 1103]),
     \<comment> \<open>Read-only\<close>
     ([82, 101, 97, 100, 45, 111, 110, 108, 121],
      [1058, 1086, 1083, 1100, 1082, 1086, 32, 1095, 1090, 1077, 1085, 1080, 1077]),
     \<comment> \<open>Source\<close>
     ([83, 111, 117, 114, 99, 101],
      [1048, 1089, 1090, 1086, 1095, 1085, 1080, 1082]),
     \<comment> \<open>Client\<close>
     ([67, 108, 105, 101, 110, 116],
      [1050, 1083, 1080, 1077, 1085, 1090]),
     \<comment> \<open>State\<close>
     ([83, 116, 97, 116, 101],
      [1057, 1086, 1089, 1090, 1086, 1103, 1085, 1080, 1077]),
     \<comment> \<open>Sources from the environment are listed read-only: the checker starts \<close>
     ([83, 111, 117, 114, 99, 101, 115, 32, 102, 114, 111, 109, 32, 116, 104, 101, 32, 101, 110,
       118, 105, 114, 111, 110, 109, 101, 110, 116, 32, 97, 114, 101, 32, 108, 105, 115, 116, 101,
       100, 32, 114, 101, 97, 100, 45, 111, 110, 108, 121, 58, 32, 116, 104, 101, 32, 99, 104,
       101, 99, 107, 101, 114, 32, 115, 116, 97, 114, 116, 115, 32, 102, 114, 111, 109, 32, 116,
       104, 101, 109, 32, 97, 110, 100, 32, 116, 104, 101, 105, 114, 32, 99, 108, 105, 101, 110,
       116, 32, 105, 100, 101, 110, 116, 105, 116, 121, 32, 109, 117, 115, 116, 32, 115, 116, 97,
       121, 32, 97, 115, 32, 105, 116, 32, 105, 115, 46, 32, 83, 111, 117, 114, 99, 101, 115, 32,
       97, 100, 100, 101, 100, 32, 104, 101, 114, 101, 32, 97, 114, 101, 32, 102, 101, 116, 99,
       104, 101, 100, 32, 105, 110, 32, 97, 100, 100, 105, 116, 105, 111, 110, 44, 32, 101, 97,
       99, 104, 32, 97, 115, 32, 116, 104, 101, 32, 99, 108, 105, 101, 110, 116, 32, 121, 111,
       117, 32, 99, 104, 111, 111, 115, 101, 46, 32, 67, 104, 97, 110, 103, 101, 115, 32, 97, 112,
       112, 108, 121, 32, 111, 110, 32, 116, 104, 101, 32, 110, 101, 120, 116, 32, 115, 117, 98,
       115, 99, 114, 105, 112, 116, 105, 111, 110, 32, 114, 101, 102, 114, 101, 115, 104, 46],
      [1048, 1089, 1090, 1086, 1095, 1085, 1080, 1082, 1080, 32, 1080, 1079, 32, 1086, 1082, 1088,
       1091, 1078, 1077, 1085, 1080, 1103, 32, 1087, 1086, 1082, 1072, 1079, 1072, 1085, 1099, 32,
       1090, 1086, 1083, 1100, 1082, 1086, 32, 1076, 1083, 1103, 32, 1095, 1090, 1077, 1085, 1080,
       1103, 58, 32, 99, 104, 101, 99, 107, 101, 114, 32, 1089, 1090, 1072, 1088, 1090, 1091,
       1077, 1090, 32, 1089, 32, 1085, 1080, 1093, 44, 32, 1080, 32, 1080, 1093, 32, 1082, 1083,
       1080, 1077, 1085, 1090, 1089, 1082, 1072, 1103, 32, 1083, 1080, 1095, 1085, 1086, 1089,
       1090, 1100, 32, 1076, 1086, 1083, 1078, 1085, 1072, 32, 1086, 1089, 1090, 1072, 1090, 1100,
       1089, 1103, 32, 1087, 1088, 1077, 1078, 1085, 1077, 1081, 46, 32, 1044, 1086, 1073, 1072,
       1074, 1083, 1077, 1085, 1085, 1099, 1077, 32, 1079, 1076, 1077, 1089, 1100, 32, 1080, 1089,
       1090, 1086, 1095, 1085, 1080, 1082, 1080, 32, 1079, 1072, 1087, 1088, 1072, 1096, 1080,
       1074, 1072, 1102, 1090, 1089, 1103, 32, 1076, 1086, 1087, 1086, 1083, 1085, 1080, 1090,
       1077, 1083, 1100, 1085, 1086, 44, 32, 1082, 1072, 1078, 1076, 1099, 1081, 32, 8212, 32,
       1082, 1072, 1082, 32, 1074, 1099, 1073, 1088, 1072, 1085, 1085, 1099, 1081, 32, 1082, 1083,
       1080, 1077, 1085, 1090, 46, 32, 1048, 1079, 1084, 1077, 1085, 1077, 1085, 1080, 1103, 32,
       1087, 1088, 1080, 1084, 1077, 1085, 1103, 1090, 1089, 1103, 32, 1085, 1072, 32, 1089, 1083,
       1077, 1076, 1091, 1102, 1097, 1077, 1084, 32, 1086, 1073, 1085, 1086, 1074, 1083, 1077,
       1085, 1080, 1080, 32, 1087, 1086, 1076, 1087, 1080, 1089, 1082, 1080, 46]),
     \<comment> \<open>The panel ties one device slot to this value, so it stays fixed once s\<close>
     ([84, 104, 101, 32, 112, 97, 110, 101, 108, 32, 116, 105, 101, 115, 32, 111, 110, 101, 32,
       100, 101, 118, 105, 99, 101, 32, 115, 108, 111, 116, 32, 116, 111, 32, 116, 104, 105, 115,
       32, 118, 97, 108, 117, 101, 44, 32, 115, 111, 32, 105, 116, 32, 115, 116, 97, 121, 115, 32,
       102, 105, 120, 101, 100, 32, 111, 110, 99, 101, 32, 115, 97, 118, 101, 100, 46, 32, 76,
       101, 97, 118, 101, 32, 101, 109, 112, 116, 121, 32, 116, 111, 32, 103, 101, 110, 101, 114,
       97, 116, 101, 32, 111, 110, 101, 46],
      [1055, 1072, 1085, 1077, 1083, 1100, 32, 1087, 1088, 1080, 1074, 1103, 1079, 1099, 1074,
       1072, 1077, 1090, 32, 1082, 32, 1101, 1090, 1086, 1084, 1091, 32, 1079, 1085, 1072, 1095,
       1077, 1085, 1080, 1102, 32, 1089, 1083, 1086, 1090, 32, 1091, 1089, 1090, 1088, 1086, 1081,
       1089, 1090, 1074, 1072, 44, 32, 1087, 1086, 1101, 1090, 1086, 1084, 1091, 32, 1087, 1086,
       1089, 1083, 1077, 32, 1089, 1086, 1093, 1088, 1072, 1085, 1077, 1085, 1080, 1103, 32, 1086,
       1085, 1086, 32, 1085, 1077, 32, 1084, 1077, 1085, 1103, 1077, 1090, 1089, 1103, 46, 32,
       1054, 1089, 1090, 1072, 1074, 1100, 1090, 1077, 32, 1087, 1091, 1089, 1090, 1099, 1084, 44,
       32, 1095, 1090, 1086, 1073, 1099, 32, 1089, 1075, 1077, 1085, 1077, 1088, 1080, 1088, 1086,
       1074, 1072, 1090, 1100, 46]),
     \<comment> \<open>A source with an impersonated client occupies a device slot on the rem\<close>
     ([65, 32, 115, 111, 117, 114, 99, 101, 32, 119, 105, 116, 104, 32, 97, 110, 32, 105, 109,
       112, 101, 114, 115, 111, 110, 97, 116, 101, 100, 32, 99, 108, 105, 101, 110, 116, 32, 111,
       99, 99, 117, 112, 105, 101, 115, 32, 97, 32, 100, 101, 118, 105, 99, 101, 32, 115, 108,
       111, 116, 32, 111, 110, 32, 116, 104, 101, 32, 114, 101, 109, 111, 116, 101, 32, 112, 97,
       110, 101, 108, 44, 32, 101, 120, 97, 99, 116, 108, 121, 32, 97, 115, 32, 97, 32, 112, 104,
       111, 110, 101, 32, 119, 111, 117, 108, 100, 46, 32, 79, 110, 32, 97, 32, 115, 117, 98, 115,
       99, 114, 105, 112, 116, 105, 111, 110, 32, 108, 105, 109, 105, 116, 101, 100, 32, 116, 111,
       32, 111, 110, 101, 32, 100, 101, 118, 105, 99, 101, 32, 116, 104, 97, 116, 32, 115, 108,
       111, 116, 32, 105, 115, 32, 116, 104, 101, 32, 111, 110, 108, 121, 32, 111, 110, 101, 44,
       32, 115, 111, 32, 116, 104, 101, 32, 99, 104, 101, 99, 107, 101, 114, 32, 119, 105, 108,
       108, 32, 116, 97, 107, 101, 32, 116, 104, 101, 32, 112, 108, 97, 99, 101, 32, 111, 102, 32,
       121, 111, 117, 114, 32, 111, 119, 110, 32, 100, 101, 118, 105, 99, 101, 46, 32, 82, 101,
       117, 115, 101, 32, 97, 110, 32, 101, 120, 105, 115, 116, 105, 110, 103, 32, 72, 87, 73, 68,
       32, 116, 111, 32, 117, 112, 100, 97, 116, 101, 32, 116, 104, 97, 116, 32, 100, 101, 118,
       105, 99, 101, 32, 105, 110, 115, 116, 101, 97, 100, 32, 111, 102, 32, 99, 108, 97, 105,
       109, 105, 110, 103, 32, 97, 110, 111, 116, 104, 101, 114, 46],
      [1048, 1089, 1090, 1086, 1095, 1085, 1080, 1082, 32, 1089, 32, 1080, 1084, 1080, 1090, 1072,
       1094, 1080, 1077, 1081, 32, 1082, 1083, 1080, 1077, 1085, 1090, 1072, 32, 1079, 1072, 1085,
       1080, 1084, 1072, 1077, 1090, 32, 1089, 1083, 1086, 1090, 32, 1091, 1089, 1090, 1088, 1086,
       1081, 1089, 1090, 1074, 1072, 32, 1085, 1072, 32, 1091, 1076, 1072, 1083, 1105, 1085, 1085,
       1086, 1081, 32, 1087, 1072, 1085, 1077, 1083, 1080, 32, 8212, 32, 1088, 1086, 1074, 1085,
       1086, 32, 1082, 1072, 1082, 32, 1090, 1077, 1083, 1077, 1092, 1086, 1085, 46, 32, 1053,
       1072, 32, 1087, 1086, 1076, 1087, 1080, 1089, 1082, 1077, 32, 1089, 32, 1083, 1080, 1084,
       1080, 1090, 1086, 1084, 32, 1074, 32, 1086, 1076, 1085, 1086, 32, 1091, 1089, 1090, 1088,
       1086, 1081, 1089, 1090, 1074, 1086, 32, 1101, 1090, 1086, 1090, 32, 1089, 1083, 1086, 1090,
       32, 1077, 1076, 1080, 1085, 1089, 1090, 1074, 1077, 1085, 1085, 1099, 1081, 44, 32, 1080,
       32, 99, 104, 101, 99, 107, 101, 114, 32, 1079, 1072, 1081, 1084, 1105, 1090, 32, 1084,
       1077, 1089, 1090, 1086, 32, 1074, 1072, 1096, 1077, 1075, 1086, 32, 1082, 1083, 1080, 1077,
       1085, 1090, 1072, 46, 32, 1042, 1087, 1080, 1096, 1080, 1090, 1077, 32, 72, 87, 73, 68, 32,
       1091, 1078, 1077, 32, 1079, 1072, 1088, 1077, 1075, 1080, 1089, 1090, 1088, 1080, 1088,
       1086, 1074, 1072, 1085, 1085, 1086, 1075, 1086, 32, 1091, 1089, 1090, 1088, 1086, 1081,
       1089, 1090, 1074, 1072, 44, 32, 1095, 1090, 1086, 1073, 1099, 32, 1086, 1073, 1085, 1086,
       1074, 1080, 1090, 1100, 32, 1077, 1075, 1086, 44, 32, 1072, 32, 1085, 1077, 32, 1079, 1072,
       1085, 1103, 1090, 1100, 32, 1077, 1097, 1105, 32, 1086, 1076, 1080, 1085, 32, 1089, 1083,
       1086, 1090, 46]),
     \<comment> \<open>No subscription sources\<close>
     ([78, 111, 32, 115, 117, 98, 115, 99, 114, 105, 112, 116, 105, 111, 110, 32, 115, 111, 117,
       114, 99, 101, 115],
      [1048, 1089, 1090, 1086, 1095, 1085, 1080, 1082, 1086, 1074, 32, 1087, 1086, 1076, 1087,
       1080, 1089, 1086, 1082, 32, 1085, 1077, 1090]),
     \<comment> \<open>Subscription source saved. Refresh the subscription to apply it.\<close>
     ([83, 117, 98, 115, 99, 114, 105, 112, 116, 105, 111, 110, 32, 115, 111, 117, 114, 99, 101,
       32, 115, 97, 118, 101, 100, 46, 32, 82, 101, 102, 114, 101, 115, 104, 32, 116, 104, 101,
       32, 115, 117, 98, 115, 99, 114, 105, 112, 116, 105, 111, 110, 32, 116, 111, 32, 97, 112,
       112, 108, 121, 32, 105, 116, 46],
      [1048, 1089, 1090, 1086, 1095, 1085, 1080, 1082, 32, 1089, 1086, 1093, 1088, 1072, 1085,
       1105, 1085, 46, 32, 1054, 1073, 1085, 1086, 1074, 1080, 1090, 1077, 32, 1087, 1086, 1076,
       1087, 1080, 1089, 1082, 1091, 44, 32, 1095, 1090, 1086, 1073, 1099, 32, 1086, 1085, 32,
       1087, 1088, 1080, 1084, 1077, 1085, 1080, 1083, 1089, 1103, 46]),
     \<comment> \<open>Subscription source removed. Refresh the subscription to apply it.\<close>
     ([83, 117, 98, 115, 99, 114, 105, 112, 116, 105, 111, 110, 32, 115, 111, 117, 114, 99, 101,
       32, 114, 101, 109, 111, 118, 101, 100, 46, 32, 82, 101, 102, 114, 101, 115, 104, 32, 116,
       104, 101, 32, 115, 117, 98, 115, 99, 114, 105, 112, 116, 105, 111, 110, 32, 116, 111, 32,
       97, 112, 112, 108, 121, 32, 105, 116, 46],
      [1048, 1089, 1090, 1086, 1095, 1085, 1080, 1082, 32, 1091, 1076, 1072, 1083, 1105, 1085, 46,
       32, 1054, 1073, 1085, 1086, 1074, 1080, 1090, 1077, 32, 1087, 1086, 1076, 1087, 1080, 1089,
       1082, 1091, 44, 32, 1095, 1090, 1086, 1073, 1099, 32, 1101, 1090, 1086, 32, 1087, 1088,
       1080, 1084, 1077, 1085, 1080, 1083, 1086, 1089, 1100, 46]),
     \<comment> \<open>set your own\<close>
     ([115, 101, 116, 32, 121, 111, 117, 114, 32, 111, 119, 110],
      [1079, 1072, 1076, 1072, 1081, 1090, 1077, 32, 1089, 1074, 1086, 1105]),
     \<comment> \<open>Edit\<close>
     ([69, 100, 105, 116],
      [1048, 1079, 1084, 1077, 1085, 1080, 1090, 1100]),
     \<comment> \<open>Delete\<close>
     ([68, 101, 108, 101, 116, 101],
      [1059, 1076, 1072, 1083, 1080, 1090, 1100]),
     \<comment> \<open>Disable\<close>
     ([68, 105, 115, 97, 98, 108, 101],
      [1042, 1099, 1082, 1083, 1102, 1095, 1080, 1090, 1100]),
     \<comment> \<open>Enable\<close>
     ([69, 110, 97, 98, 108, 101],
      [1042, 1082, 1083, 1102, 1095, 1080, 1090, 1100]),
     \<comment> \<open>Disabled\<close>
     ([68, 105, 115, 97, 98, 108, 101, 100],
      [1042, 1099, 1082, 1083, 1102, 1095, 1077, 1085]),
     \<comment> \<open>Node speed-test settings\<close>
     ([78, 111, 100, 101, 32, 115, 112, 101, 101, 100, 45, 116, 101, 115, 116, 32, 115, 101, 116,
       116, 105, 110, 103, 115],
      [1053, 1072, 1089, 1090, 1088, 1086, 1081, 1082, 1080, 32, 1079, 1072, 1084, 1077, 1088,
       1072, 32, 1076, 1083, 1103, 32, 1085, 1086, 1076, 1099]),
     \<comment> \<open>Download size, MiB\<close>
     ([68, 111, 119, 110, 108, 111, 97, 100, 32, 115, 105, 122, 101, 44, 32, 77, 105, 66],
      [1056, 1072, 1079, 1084, 1077, 1088, 32, 1079, 1072, 1075, 1088, 1091, 1079, 1082, 1080, 44,
       32, 1052, 1080, 1041]),
     \<comment> \<open>Low-speed threshold, Mbps\<close>
     ([76, 111, 119, 45, 115, 112, 101, 101, 100, 32, 116, 104, 114, 101, 115, 104, 111, 108, 100,
       44, 32, 77, 98, 112, 115],
      [1055, 1086, 1088, 1086, 1075, 32, 1085, 1080, 1079, 1082, 1086, 1081, 32, 1089, 1082, 1086,
       1088, 1086, 1089, 1090, 1080, 44, 32, 77, 98, 112, 115]),
     \<comment> \<open>Global size\<close>
     ([71, 108, 111, 98, 97, 108, 32, 115, 105, 122, 101],
      [1043, 1083, 1086, 1073, 1072, 1083, 1100, 1085, 1099, 1081, 32, 1088, 1072, 1079, 1084,
       1077, 1088]),
     \<comment> \<open>Global threshold\<close>
     ([71, 108, 111, 98, 97, 108, 32, 116, 104, 114, 101, 115, 104, 111, 108, 100],
      [1043, 1083, 1086, 1073, 1072, 1083, 1100, 1085, 1099, 1081, 32, 1087, 1086, 1088, 1086,
       1075]),
     \<comment> \<open>Save node settings\<close>
     ([83, 97, 118, 101, 32, 110, 111, 100, 101, 32, 115, 101, 116, 116, 105, 110, 103, 115],
      [1057, 1086, 1093, 1088, 1072, 1085, 1080, 1090, 1100, 32, 1085, 1072, 1089, 1090, 1088,
       1086, 1081, 1082, 1080, 32, 1085, 1086, 1076, 1099]),
     \<comment> \<open>Node speed-test settings saved\<close>
     ([78, 111, 100, 101, 32, 115, 112, 101, 101, 100, 45, 116, 101, 115, 116, 32, 115, 101, 116,
       116, 105, 110, 103, 115, 32, 115, 97, 118, 101, 100],
      [1053, 1072, 1089, 1090, 1088, 1086, 1081, 1082, 1080, 32, 1079, 1072, 1084, 1077, 1088,
       1072, 32, 1076, 1083, 1103, 32, 1085, 1086, 1076, 1099, 32, 1089, 1086, 1093, 1088, 1072,
       1085, 1077, 1085, 1099]),
     \<comment> \<open>Node speed-test settings cleared\<close>
     ([78, 111, 100, 101, 32, 115, 112, 101, 101, 100, 45, 116, 101, 115, 116, 32, 115, 101, 116,
       116, 105, 110, 103, 115, 32, 99, 108, 101, 97, 114, 101, 100],
      [1055, 1077, 1088, 1089, 1086, 1085, 1072, 1083, 1100, 1085, 1099, 1077, 32, 1085, 1072,
       1089, 1090, 1088, 1086, 1081, 1082, 1080, 32, 1079, 1072, 1084, 1077, 1088, 1072, 32, 1089,
       1085, 1103, 1090, 1099]),
     \<comment> \<open>Using global settings\<close>
     ([85, 115, 105, 110, 103, 32, 103, 108, 111, 98, 97, 108, 32, 115, 101, 116, 116, 105, 110,
       103, 115],
      [1048, 1089, 1087, 1086, 1083, 1100, 1079, 1091, 1102, 1090, 1089, 1103, 32, 1075, 1083,
       1086, 1073, 1072, 1083, 1100, 1085, 1099, 1077, 32, 1085, 1072, 1089, 1090, 1088, 1086,
       1081, 1082, 1080]),
     \<comment> \<open>Custom\<close>
     ([67, 117, 115, 116, 111, 109],
      [1057, 1074, 1086, 1105]),
     \<comment> \<open>MB\<close>
     ([77, 66],
      [1052, 1041]),
     \<comment> \<open>Download size must be a positive number of megabytes\<close>
     ([68, 111, 119, 110, 108, 111, 97, 100, 32, 115, 105, 122, 101, 32, 109, 117, 115, 116, 32,
       98, 101, 32, 97, 32, 112, 111, 115, 105, 116, 105, 118, 101, 32, 110, 117, 109, 98, 101,
       114, 32, 111, 102, 32, 109, 101, 103, 97, 98, 121, 116, 101, 115],
      [1056, 1072, 1079, 1084, 1077, 1088, 32, 1079, 1072, 1075, 1088, 1091, 1079, 1082, 1080, 32,
       1076, 1086, 1083, 1078, 1077, 1085, 32, 1073, 1099, 1090, 1100, 32, 1087, 1086, 1083, 1086,
       1078, 1080, 1090, 1077, 1083, 1100, 1085, 1099, 1084, 32, 1095, 1080, 1089, 1083, 1086,
       1084, 32, 1084, 1077, 1075, 1072, 1073, 1072, 1081, 1090]),
     \<comment> \<open>Low-speed threshold must not be negative\<close>
     ([76, 111, 119, 45, 115, 112, 101, 101, 100, 32, 116, 104, 114, 101, 115, 104, 111, 108, 100,
       32, 109, 117, 115, 116, 32, 110, 111, 116, 32, 98, 101, 32, 110, 101, 103, 97, 116, 105,
       118, 101],
      [1055, 1086, 1088, 1086, 1075, 32, 1085, 1080, 1079, 1082, 1086, 1081, 32, 1089, 1082, 1086,
       1088, 1086, 1089, 1090, 1080, 32, 1085, 1077, 32, 1084, 1086, 1078, 1077, 1090, 32, 1073,
       1099, 1090, 1100, 32, 1086, 1090, 1088, 1080, 1094, 1072, 1090, 1077, 1083, 1100, 1085,
       1099, 1084]),
     \<comment> \<open>Stale: the last sweep did not refresh this\<close>
     ([83, 116, 97, 108, 101, 58, 32, 116, 104, 101, 32, 108, 97, 115, 116, 32, 115, 119, 101,
       101, 112, 32, 100, 105, 100, 32, 110, 111, 116, 32, 114, 101, 102, 114, 101, 115, 104, 32,
       116, 104, 105, 115],
      [1059, 1089, 1090, 1072, 1088, 1077, 1083, 1086, 58, 32, 1087, 1086, 1089, 1083, 1077, 1076,
       1085, 1080, 1081, 32, 1086, 1087, 1088, 1086, 1089, 32, 1085, 1077, 32, 1086, 1073, 1085,
       1086, 1074, 1080, 1083, 32, 1101, 1090, 1091, 32, 1103, 1095, 1077, 1081, 1082, 1091]),
     \<comment> \<open>Last seen\<close>
     ([76, 97, 115, 116, 32, 115, 101, 101, 110],
      [1055, 1086, 1089, 1083, 1077, 1076, 1085, 1077, 1077, 32, 1085, 1072, 1073, 1083, 1102,
       1076, 1077, 1085, 1080, 1077]),
     \<comment> \<open>Last verdict\<close>
     ([76, 97, 115, 116, 32, 118, 101, 114, 100, 105, 99, 116],
      [1055, 1086, 1089, 1083, 1077, 1076, 1085, 1080, 1081, 32, 1074, 1077, 1088, 1076, 1080,
       1082, 1090]),
     \<comment> \<open>Last known, not refreshed by the latest sweep\<close>
     ([76, 97, 115, 116, 32, 107, 110, 111, 119, 110, 44, 32, 110, 111, 116, 32, 114, 101, 102,
       114, 101, 115, 104, 101, 100, 32, 98, 121, 32, 116, 104, 101, 32, 108, 97, 116, 101, 115,
       116, 32, 115, 119, 101, 101, 112],
      [1055, 1086, 1089, 1083, 1077, 1076, 1085, 1077, 1077, 32, 1080, 1079, 1074, 1077, 1089,
       1090, 1085, 1086, 1077, 44, 32, 1085, 1077, 32, 1086, 1073, 1085, 1086, 1074, 1083, 1077,
       1085, 1086, 32, 1087, 1086, 1089, 1083, 1077, 1076, 1085, 1080, 1084, 32, 1086, 1087, 1088,
       1086, 1089, 1086, 1084]),
     \<comment> \<open>Agent\<close>
     ([65, 103, 101, 110, 116],
      [1040, 1075, 1077, 1085, 1090]),
     \<comment> \<open>Checker\<close>
     ([67, 104, 101, 99, 107, 101, 114],
      [67, 104, 101, 99, 107, 101, 114]),
     \<comment> \<open>Streak\<close>
     ([83, 116, 114, 101, 97, 107],
      [1055, 1086, 1076, 1088, 1103, 1076]),
     \<comment> \<open>TCP reached the node\<close>
     ([84, 67, 80, 32, 114, 101, 97, 99, 104, 101, 100, 32, 116, 104, 101, 32, 110, 111, 100,
       101],
      [84, 67, 80, 32, 1076, 1086, 1096, 1105, 1083, 32, 1076, 1086, 32, 1085, 1086, 1076, 1099]),
     \<comment> \<open>TCP did not reach the node\<close>
     ([84, 67, 80, 32, 100, 105, 100, 32, 110, 111, 116, 32, 114, 101, 97, 99, 104, 32, 116, 104,
       101, 32, 110, 111, 100, 101],
      [84, 67, 80, 32, 1085, 1077, 32, 1076, 1086, 1096, 1105, 1083, 32, 1076, 1086, 32, 1085,
       1086, 1076, 1099]),
     \<comment> \<open>Confirmed\<close>
     ([67, 111, 110, 102, 105, 114, 109, 101, 100],
      [1055, 1086, 1076, 1090, 1074, 1077, 1088, 1078, 1076, 1077, 1085, 1086]),
     \<comment> \<open>Seen once, not confirmed\<close>
     ([83, 101, 101, 110, 32, 111, 110, 99, 101, 44, 32, 110, 111, 116, 32, 99, 111, 110, 102,
       105, 114, 109, 101, 100],
      [1047, 1072, 1084, 1077, 1095, 1077, 1085, 1086, 32, 1086, 1076, 1080, 1085, 32, 1088, 1072,
       1079, 44, 32, 1085, 1077, 32, 1087, 1086, 1076, 1090, 1074, 1077, 1088, 1078, 1076, 1077,
       1085, 1086]),
     \<comment> \<open>Every vantage point agrees\<close>
     ([69, 118, 101, 114, 121, 32, 118, 97, 110, 116, 97, 103, 101, 32, 112, 111, 105, 110, 116,
       32, 97, 103, 114, 101, 101, 115],
      [1042, 1089, 1077, 32, 1090, 1086, 1095, 1082, 1080, 32, 1085, 1072, 1073, 1083, 1102, 1076,
       1077, 1085, 1080, 1103, 32, 1089, 1093, 1086, 1076, 1103, 1090, 1089, 1103]),
     \<comment> \<open>No sweep results yet\<close>
     ([78, 111, 32, 115, 119, 101, 101, 112, 32, 114, 101, 115, 117, 108, 116, 115, 32, 121, 101,
       116],
      [1056, 1077, 1079, 1091, 1083, 1100, 1090, 1072, 1090, 1086, 1074, 32, 1086, 1087, 1088,
       1086, 1089, 1072, 32, 1077, 1097, 1105, 32, 1085, 1077, 1090]),
     \<comment> \<open>confirmed\<close>
     ([99, 111, 110, 102, 105, 114, 109, 101, 100],
      [1087, 1086, 1076, 1090, 1074, 1077, 1088, 1078, 1076, 1077, 1085, 1086]),
     \<comment> \<open>provisional\<close>
     ([112, 114, 111, 118, 105, 115, 105, 111, 110, 97, 108],
      [1087, 1088, 1077, 1076, 1074, 1072, 1088, 1080, 1090, 1077, 1083, 1100, 1085, 1086]),
     \<comment> \<open>offline\<close>
     ([111, 102, 102, 108, 105, 110, 101],
      [1085, 1077, 32, 1085, 1072, 32, 1089, 1074, 1103, 1079, 1080]),
     \<comment> \<open>Reachability sweep\<close>
     ([82, 101, 97, 99, 104, 97, 98, 105, 108, 105, 116, 121, 32, 115, 119, 101, 101, 112],
      [1054, 1087, 1088, 1086, 1089, 32, 1076, 1086, 1089, 1090, 1080, 1078, 1080, 1084, 1086,
       1089, 1090, 1080]),
     \<comment> \<open>Starting a sweep\<close>
     ([83, 116, 97, 114, 116, 105, 110, 103, 32, 97, 32, 115, 119, 101, 101, 112],
      [1047, 1072, 1087, 1091, 1089, 1082, 1072, 1102, 32, 1086, 1087, 1088, 1086, 1089]),
     \<comment> \<open>Sweep started; every agent is being asked about every node\<close>
     ([83, 119, 101, 101, 112, 32, 115, 116, 97, 114, 116, 101, 100, 59, 32, 101, 118, 101, 114,
       121, 32, 97, 103, 101, 110, 116, 32, 105, 115, 32, 98, 101, 105, 110, 103, 32, 97, 115,
       107, 101, 100, 32, 97, 98, 111, 117, 116, 32, 101, 118, 101, 114, 121, 32, 110, 111, 100,
       101],
      [1054, 1087, 1088, 1086, 1089, 32, 1079, 1072, 1087, 1091, 1097, 1077, 1085, 59, 32, 1082,
       1072, 1078, 1076, 1099, 1081, 32, 1072, 1075, 1077, 1085, 1090, 32, 1086, 1087, 1088, 1072,
       1096, 1080, 1074, 1072, 1077, 1090, 1089, 1103, 32, 1087, 1086, 32, 1082, 1072, 1078, 1076,
       1086, 1081, 32, 1085, 1086, 1076, 1077]),
     \<comment> \<open>Reachability sweep is disabled\<close>
     ([82, 101, 97, 99, 104, 97, 98, 105, 108, 105, 116, 121, 32, 115, 119, 101, 101, 112, 32,
       105, 115, 32, 100, 105, 115, 97, 98, 108, 101, 100],
      [1054, 1087, 1088, 1086, 1089, 32, 1076, 1086, 1089, 1090, 1080, 1078, 1080, 1084, 1086,
       1089, 1090, 1080, 32, 1086, 1090, 1082, 1083, 1102, 1095, 1105, 1085]),
     \<comment> \<open>Recheck\<close>
     ([82, 101, 99, 104, 101, 99, 107],
      [1055, 1077, 1088, 1077, 1087, 1088, 1086, 1074, 1077, 1088, 1080, 1090, 1100]),
     \<comment> \<open>Rechecking one node\<close>
     ([82, 101, 99, 104, 101, 99, 107, 105, 110, 103, 32, 111, 110, 101, 32, 110, 111, 100, 101],
      [1055, 1077, 1088, 1077, 1087, 1088, 1086, 1074, 1077, 1088, 1103, 1102, 32, 1086, 1076,
       1085, 1091, 32, 1085, 1086, 1076, 1091]),
     \<comment> \<open>Recheck started; every agent is being asked about this node\<close>
     ([82, 101, 99, 104, 101, 99, 107, 32, 115, 116, 97, 114, 116, 101, 100, 59, 32, 101, 118,
       101, 114, 121, 32, 97, 103, 101, 110, 116, 32, 105, 115, 32, 98, 101, 105, 110, 103, 32,
       97, 115, 107, 101, 100, 32, 97, 98, 111, 117, 116, 32, 116, 104, 105, 115, 32, 110, 111,
       100, 101],
      [1055, 1077, 1088, 1077, 1087, 1088, 1086, 1074, 1077, 1088, 1082, 1072, 32, 1079, 1072,
       1087, 1091, 1097, 1077, 1085, 1072, 59, 32, 1082, 1072, 1078, 1076, 1099, 1081, 32, 1072,
       1075, 1077, 1085, 1090, 32, 1086, 1087, 1088, 1072, 1096, 1080, 1074, 1072, 1077, 1090,
       1089, 1103, 32, 1087, 1086, 32, 1101, 1090, 1086, 1081, 32, 1085, 1086, 1076, 1077]),
     \<comment> \<open>agent returned no observation\<close>
     ([97, 103, 101, 110, 116, 32, 114, 101, 116, 117, 114, 110, 101, 100, 32, 110, 111, 32, 111,
       98, 115, 101, 114, 118, 97, 116, 105, 111, 110],
      [1072, 1075, 1077, 1085, 1090, 32, 1085, 1077, 32, 1074, 1077, 1088, 1085, 1091, 1083, 32,
       1085, 1072, 1073, 1083, 1102, 1076, 1077, 1085, 1080, 1077]),
     \<comment> \<open>agent lost its own connectivity during the probe\<close>
     ([97, 103, 101, 110, 116, 32, 108, 111, 115, 116, 32, 105, 116, 115, 32, 111, 119, 110, 32,
       99, 111, 110, 110, 101, 99, 116, 105, 118, 105, 116, 121, 32, 100, 117, 114, 105, 110, 103,
       32, 116, 104, 101, 32, 112, 114, 111, 98, 101],
      [1072, 1075, 1077, 1085, 1090, 32, 1087, 1086, 1090, 1077, 1088, 1103, 1083, 32, 1089, 1086,
       1073, 1089, 1090, 1074, 1077, 1085, 1085, 1091, 1102, 32, 1089, 1074, 1103, 1079, 1100, 32,
       1074, 1086, 32, 1074, 1088, 1077, 1084, 1103, 32, 1087, 1088, 1086, 1074, 1077, 1088, 1082,
       1080]),
     \<comment> \<open>controller had no recent result to compare\<close>
     ([99, 111, 110, 116, 114, 111, 108, 108, 101, 114, 32, 104, 97, 100, 32, 110, 111, 32, 114,
       101, 99, 101, 110, 116, 32, 114, 101, 115, 117, 108, 116, 32, 116, 111, 32, 99, 111, 109,
       112, 97, 114, 101],
      [1091, 32, 1082, 1086, 1085, 1090, 1088, 1086, 1083, 1083, 1077, 1088, 1072, 32, 1085, 1077,
       32, 1073, 1099, 1083, 1086, 32, 1089, 1074, 1077, 1078, 1077, 1075, 1086, 32, 1088, 1077,
       1079, 1091, 1083, 1100, 1090, 1072, 1090, 1072, 32, 1076, 1083, 1103, 32, 1089, 1088, 1072,
       1074, 1085, 1077, 1085, 1080, 1103]),
     \<comment> \<open>diagnostic job expired before the agent answered\<close>
     ([100, 105, 97, 103, 110, 111, 115, 116, 105, 99, 32, 106, 111, 98, 32, 101, 120, 112, 105,
       114, 101, 100, 32, 98, 101, 102, 111, 114, 101, 32, 116, 104, 101, 32, 97, 103, 101, 110,
       116, 32, 97, 110, 115, 119, 101, 114, 101, 100],
      [1076, 1080, 1072, 1075, 1085, 1086, 1089, 1090, 1080, 1095, 1077, 1089, 1082, 1072, 1103,
       32, 1079, 1072, 1076, 1072, 1095, 1072, 32, 1080, 1089, 1090, 1077, 1082, 1083, 1072, 32,
       1076, 1086, 32, 1086, 1090, 1074, 1077, 1090, 1072, 32, 1072, 1075, 1077, 1085, 1090,
       1072]),
     \<comment> \<open>diagnostic session was cancelled\<close>
     ([100, 105, 97, 103, 110, 111, 115, 116, 105, 99, 32, 115, 101, 115, 115, 105, 111, 110, 32,
       119, 97, 115, 32, 99, 97, 110, 99, 101, 108, 108, 101, 100],
      [1076, 1080, 1072, 1075, 1085, 1086, 1089, 1090, 1080, 1095, 1077, 1089, 1082, 1072, 1103,
       32, 1089, 1077, 1089, 1089, 1080, 1103, 32, 1086, 1090, 1084, 1077, 1085, 1077, 1085,
       1072])]"

lemma ru_part5_nonempty: "list_all (\<lambda>(k, v). k \<noteq> [] \<and> v \<noteq> []) ru_part5"
  by (simp add: ru_part5_def)

end
