(* ===== verification/I18nPatterns.thy ===== *)
theory I18nPatterns
  imports JsRegex
begin

text \<open>
  The table \<open>patterns\<close> of \<open>src/web/static/localization.js\<close>: the expression of an English
  phrase with variable parts and the Russian replacement text, in source order. Cyrillic letters,
  the middle dot and the other characters outside ASCII are written as code points.
\<close>

definition patterns :: "(rx \<times> jstr) list" where
  "patterns = [
     (rx_line [RGrp 1 (RPlus True RDigit), rlit (asc '' nodes '' @ [183] @ asc '' ''), RGrp 2
        (RPlus True RDot)],
      asc ''$1 '' @ [1085, 1086, 1076] @ asc '' '' @ [183] @ asc '' $2''),
     (rx_line [rlit (asc ''Remnawave node ''), RGrp 1 (RPlus True RDot), rlit (asc '', as of ''),
        RGrp 2 (RPlus True RDot)],
      [1053, 1086, 1076, 1072] @ asc '' Remnawave $1, '' @ [1076, 1072, 1085, 1085, 1099, 1077] @
        asc '' '' @ [1085, 1072] @ asc '' $2''),
     (rx_line [rlit (asc ''Not connected (''), RGrp 1 (RPlus True RDot), rlit (asc '')'')],
      [1053, 1077, 1090] @ asc '' '' @ [1089, 1074, 1103, 1079, 1080] @ asc '' ($1)''),
     (rx_line [RGrp 1 (RPlus True RDigit), rlit (asc '' online (''), RGrp 2 (RPlus True RDigit),
        rlit (asc '' before the failure)'')],
      asc ''$1 '' @ [1086, 1085, 1083, 1072, 1081, 1085] @ asc '' ($2 '' @ [1076, 1086] @ asc
        '' '' @ [1089, 1073, 1086, 1103] @ asc '')''),
     (rx_line [RGrp 1 (RPlus True RDigit), rlit (asc '' online'')],
      asc ''$1 '' @ [1086, 1085, 1083, 1072, 1081, 1085]),
     (rx_line [rlit (asc ''mem ''), RGrp 1 (RPlus True RDigit), rlit (asc ''%'')],
      [1087, 1072, 1084, 1103, 1090, 1100] @ asc '' $1%''),
     (rx_line [rlit (asc ''load ''), RGrp 1 (RPlus True RDot)],
      [1085, 1072, 1075, 1088, 1091, 1079, 1082, 1072] @ asc '' $1''),
     (rx_line [rlit (asc ''Xray ''), RGrp 1 (RPlus True RDigit), rlit (asc '' min'')],
      asc ''Xray $1 '' @ [1084, 1080, 1085]),
     (rx_line [rlit (asc ''Xray ''), RGrp 1 (RPlus True RDigit), rlit (asc '' h'')],
      asc ''Xray $1 '' @ [1095]),
     (rx_line [rlit (asc ''Xray ''), RGrp 1 (RPlus True RDigit), rlit (asc '' d'')],
      asc ''Xray $1 '' @ [1076]),
     (rx_line [rlit (asc ''Last updated: ''), RGrp 1 (RPlus True RDot)],
      [1055, 1086, 1089, 1083, 1077, 1076, 1085, 1077, 1077] @ asc '' '' @ [1086, 1073, 1085,
        1086, 1074, 1083, 1077, 1085, 1080, 1077] @ asc '': $1''),
     (rx_line [rlit (asc ''Check: ''), RGrp 1 (RPlus True RDot), rlit (asc '' '' @ [183] @ asc
        '' Interval: ''), RGrp 2 (RPlus True RDot), rlit (asc '' '' @ [183] @ asc '' Timeout: ''),
        RGrp 3 (RPlus True RDot)],
      [1055, 1088, 1086, 1074, 1077, 1088, 1082, 1072] @ asc '': $1 '' @ [183] @ asc '' '' @
        [1048, 1085, 1090, 1077, 1088, 1074, 1072, 1083] @ asc '': $2 '' @ [183] @ asc '' '' @
        [1058, 1072, 1081, 1084, 1072, 1091, 1090] @ asc '': $3''),
     (rx_line [rlit (asc ''Running ''), RGrp 1 (RPlus True RDigit), rlit (asc ''/''), RGrp 2
        (RPlus True RDigit)],
      [1042, 1099, 1087, 1086, 1083, 1085, 1103, 1077, 1090, 1089, 1103] @ asc '' $1/$2''),
     (rx_line [RGrp 1 (RPlus True RDigit), rlit (asc '' shown '' @ [183] @ asc '' ''), RGrp 2
        (RPlus True RDigit), rlit (asc '' hidden by filters '' @ [183] @ asc '' ''), RGrp 3 (RPlus
        True RDigit), rlit (asc '' with issues'')],
      [1055, 1086, 1082, 1072, 1079, 1072, 1085, 1086] @ asc '': $1 '' @ [183] @ asc '' '' @
        [1089, 1082, 1088, 1099, 1090, 1086] @ asc '' '' @ [1092, 1080, 1083, 1100, 1090, 1088,
        1072, 1084, 1080] @ asc '': $2 '' @ [183] @ asc '' '' @ [1089] @ asc '' '' @ [1087, 1088,
        1086, 1073, 1083, 1077, 1084, 1072, 1084, 1080] @ asc '': $3''),
     (rx_line [RGrp 1 (RPlus True RDigit), rlit (asc '' shown '' @ [183] @ asc '' ''), RGrp 2
        (RPlus True RDigit), rlit (asc '' hidden by filters'')],
      [1055, 1086, 1082, 1072, 1079, 1072, 1085, 1086] @ asc '': $1 '' @ [183] @ asc '' '' @
        [1089, 1082, 1088, 1099, 1090, 1086] @ asc '' '' @ [1092, 1080, 1083, 1100, 1090, 1088,
        1072, 1084, 1080] @ asc '': $2''),
     (rx_line [rlit (asc ''Saved scope: ''), RGrp 1 (RPlus True RDigit), rlit (asc '' nodes (''),
        RGrp 2 (RPlus True RDot), rlit (asc '')'')],
      [1057, 1086, 1093, 1088, 1072, 1085, 1105, 1085, 1085, 1099, 1081] @ asc '' '' @ [1074,
        1099, 1073, 1086, 1088] @ asc '': '' @ [1085, 1086, 1076] @ asc '' $1 ($2)''),
     (rx_line [rlit (asc ''Saved scope: ''), RGrp 1 (RPlus True RDigit), rlit (asc '' nodes'')],
      [1057, 1086, 1093, 1088, 1072, 1085, 1105, 1085, 1085, 1099, 1081] @ asc '' '' @ [1074,
        1099, 1073, 1086, 1088] @ asc '': '' @ [1085, 1086, 1076] @ asc '' $1''),
     (rx_line [rlit (asc ''Saved scope: all nodes matching filters (''), RGrp 1 (RPlus True RDot),
        rlit (asc '')'')],
      [1057, 1086, 1093, 1088, 1072, 1085, 1105, 1085, 1085, 1099, 1081] @ asc '' '' @ [1074,
        1099, 1073, 1086, 1088] @ asc '': '' @ [1074, 1089, 1077] @ asc '' '' @ [1085, 1086, 1076,
        1099] @ asc '' '' @ [1087, 1086] @ asc '' '' @ [1092, 1080, 1083, 1100, 1090, 1088, 1072,
        1084] @ asc '' ($1)''),
     (rx_line [rlit (asc ''Saved scope: all nodes matching filters'')],
      [1057, 1086, 1093, 1088, 1072, 1085, 1105, 1085, 1085, 1099, 1081] @ asc '' '' @ [1074,
        1099, 1073, 1086, 1088] @ asc '': '' @ [1074, 1089, 1077] @ asc '' '' @ [1085, 1086, 1076,
        1099] @ asc '' '' @ [1087, 1086] @ asc '' '' @ [1092, 1080, 1083, 1100, 1090, 1088, 1072,
        1084]),
     (rx_line [rlit (asc ''Selected ''), RGrp 1 (RPlus True RDigit), rlit (asc
        '' scheduled nodes'')],
      [1042, 1099, 1073, 1088, 1072, 1085, 1086] @ asc '' '' @ [1085, 1086, 1076] @ asc '' '' @
        [1080, 1079] @ asc '' '' @ [1088, 1072, 1089, 1087, 1080, 1089, 1072, 1085, 1080, 1103] @
        asc '': $1''),
     (rx_line [rlit (asc ''Removed ''), RGrp 1 (RPlus True RDigit), rlit (asc
        '' diagnostic sessions for ''), RGrp 2 (RPlus True RDot)],
      [1059, 1076, 1072, 1083, 1077, 1085, 1086] @ asc '' '' @ [1076, 1080, 1072, 1075, 1085,
        1086, 1089, 1090, 1080, 1095, 1077, 1089, 1082, 1080, 1093] @ asc '' '' @ [1089, 1077,
        1089, 1089, 1080, 1081] @ asc '': $1 '' @ [8212] @ asc '' $2''),
     (rx_line [RGrp 1 (RPlus True RDigit), rlit (asc '' server(s) unavailable'')],
      [1053, 1077, 1076, 1086, 1089, 1090, 1091, 1087, 1085, 1086] @ asc '' '' @ [1089, 1077,
        1088, 1074, 1077, 1088, 1086, 1074] @ asc '': $1''),
     (rx_line [RGrp 1 (RPlus True RDigit), rlit (asc '' maintenance'')],
      [1085, 1072] @ asc '' '' @ [1086, 1073, 1089, 1083, 1091, 1078, 1080, 1074, 1072, 1085,
        1080, 1080] @ asc '': $1''),
     (rx_line [RGrp 1 (RPlus True RDigit), rlit (asc '' maintenance node(s) skipped'')],
      [1055, 1088, 1086, 1087, 1091, 1097, 1077, 1085, 1086] @ asc '' '' @ [1085, 1086, 1076] @
        asc '' '' @ [1085, 1072] @ asc '' '' @ [1086, 1073, 1089, 1083, 1091, 1078, 1080, 1074,
        1072, 1085, 1080, 1080] @ asc '': $1''),
     (rx_line [RGrp 1 (RPlus True RDigit), rlit (asc '' nodes checked'')],
      [1055, 1088, 1086, 1074, 1077, 1088, 1077, 1085, 1086] @ asc '' '' @ [1085, 1086, 1076] @
        asc '': $1''),
     (rx_line [rlit (asc ''Low speed < ''), RGrp 1 (rseq [RPlus True RDot, rlit (asc
        '' Mbps'')])],
      [1053, 1080, 1079, 1082, 1072, 1103] @ asc '' '' @ [1089, 1082, 1086, 1088, 1086, 1089,
        1090, 1100] @ asc '' < $1''),
     (rx_line [rlit (asc ''Select ''), RGrp 1 (RPlus True RDot)],
      [1042, 1099, 1073, 1088, 1072, 1090, 1100] @ asc '' $1''),
     (rx_line [rlit (asc ''Move ''), RGrp 1 (RPlus True RDot)],
      [1055, 1077, 1088, 1077, 1084, 1077, 1089, 1090, 1080, 1090, 1100] @ asc '' $1''),
     (rx_line [rlit (asc ''Remnawave Host for ''), RGrp 1 (RPlus True RDot)],
      asc ''Remnawave Host '' @ [1076, 1083, 1103] @ asc '' $1''),
     (rx_line [rlit (asc ''Missing active node: ''), RGrp 1 (RPlus True RDot)],
      asc ''Active-'' @ [1085, 1086, 1076, 1072] @ asc '' '' @ [1086, 1090, 1089, 1091, 1090,
        1089, 1090, 1074, 1091, 1077, 1090] @ asc '': $1''),
     (rx_line [rlit (asc ''Missing: ''), RGrp 1 (RPlus True RDot)],
      [1054, 1090, 1089, 1091, 1090, 1089, 1090, 1074, 1091, 1077, 1090] @ asc '': $1''),
     (rx_line [rlit (asc ''Geo updated: ''), RGrp 1 (RPlus True RDigit), rlit (asc
        '' nodes, failed: ''), RGrp 2 (RPlus True RDigit)],
      asc ''Geo '' @ [1086, 1073, 1085, 1086, 1074, 1083, 1105, 1085] @ asc '': '' @ [1085, 1086,
        1076] @ asc '' $1, '' @ [1086, 1096, 1080, 1073, 1086, 1082] @ asc '' $2''),
     (rx_line [rlit (asc ''Updated ''), RGrp 1 (RPlus True RDigit), rlit (asc '' ''), RGrp 2
        (RPlus True RDot)],
      [1054, 1073, 1085, 1086, 1074, 1083, 1077, 1085, 1086] @ asc '': $1 $2''),
     (rx_line [rlit (asc ''No changes (''), RGrp 1 (RPlus True RDigit), rlit (asc '' ''), RGrp 2
        (RPlus True RDot), rlit (asc '')'')],
      [1041, 1077, 1079] @ asc '' '' @ [1080, 1079, 1084, 1077, 1085, 1077, 1085, 1080, 1081] @
        asc '' ($1 $2)''),
     (rx_line [rlit (asc ''Backup verified (''), RGrp 1 (RPlus True RDigit), rlit (asc
        '' files). Restart the application to apply it.'')],
      [1041, 1101, 1082, 1072, 1087] @ asc '' '' @ [1087, 1088, 1086, 1074, 1077, 1088, 1077,
        1085] @ asc '' ($1 '' @ [1092, 1072, 1081, 1083, 1086, 1074] @ asc ''). '' @ [1055, 1077,
        1088, 1077, 1079, 1072, 1087, 1091, 1089, 1090, 1080, 1090, 1077] @ asc '' '' @ [1087,
        1088, 1080, 1083, 1086, 1078, 1077, 1085, 1080, 1077] @ asc '' '' @ [1076, 1083, 1103] @
        asc '' '' @ [1087, 1088, 1080, 1084, 1077, 1085, 1077, 1085, 1080, 1103] @ asc ''.''),
     (rx_line [RGrp 1 (RPlus True RDigit), rlit (asc '' nodes'')],
      asc ''$1 '' @ [1085, 1086, 1076]),
     (rx_line [RGrp 1 (RPlus True RDigit), rlit (asc '' results'')],
      asc ''$1 '' @ [1088, 1077, 1079, 1091, 1083, 1100, 1090, 1072, 1090, 1086, 1074]),
     (rx_line [RGrp 1 (RPlus True RDigit), rlit (asc '' selected'')],
      asc ''$1 '' @ [1074, 1099, 1073, 1088, 1072, 1085, 1086]),
     (rx_line [RGrp 1 (RPlus True RDigit), rlit (asc '' incidents'')],
      [1048, 1085, 1094, 1080, 1076, 1077, 1085, 1090, 1086, 1074] @ asc '': $1''),
     (rx_line [RGrp 1 (RPlus True RDigit), rlit (asc '' muted'')],
      asc ''Mute: $1''),
     (rx_line [RGrp 1 (RPlus True RDigit), rlit (asc '' users'')],
      asc ''$1 '' @ [1087, 1086, 1083, 1100, 1079, 1086, 1074, 1072, 1090, 1077, 1083, 1077,
        1081]),
     (rx_line [RGrp 1 (RPlus True RDigit), rlit (asc '' successful results'')],
      asc ''$1 '' @ [1091, 1089, 1087, 1077, 1096, 1085, 1099, 1093] @ asc '' '' @ [1088, 1077,
        1079, 1091, 1083, 1100, 1090, 1072, 1090, 1086, 1074]),
     (rx_line [RGrp 1 (RPlus True RDigit), rlit (asc '' latest results'')],
      [1055, 1086, 1089, 1083, 1077, 1076, 1085, 1080, 1093] @ asc '' '' @ [1088, 1077, 1079,
        1091, 1083, 1100, 1090, 1072, 1090, 1086, 1074] @ asc '': $1''),
     (rx_line [RGrp 1 (RPlus True RDigit), rlit (asc '' latest results '' @ [183] @ asc
        '' automatic workflows paused'')],
      [1055, 1086, 1089, 1083, 1077, 1076, 1085, 1080, 1093] @ asc '' '' @ [1088, 1077, 1079,
        1091, 1083, 1100, 1090, 1072, 1090, 1086, 1074] @ asc '': $1 '' @ [183] @ asc '' '' @
        [1072, 1074, 1090, 1086, 1084, 1072, 1090, 1080, 1095, 1077, 1089, 1082, 1080, 1077] @ asc
        '' '' @ [1087, 1088, 1086, 1094, 1077, 1089, 1089, 1099] @ asc '' '' @ [1087, 1088, 1080,
        1086, 1089, 1090, 1072, 1085, 1086, 1074, 1083, 1077, 1085, 1099]),
     (rx_line [rlit (asc ''Paused since ''), RGrp 1 (RPlus True RDot)],
      [1055, 1088, 1080, 1086, 1089, 1090, 1072, 1085, 1086, 1074, 1083, 1077, 1085, 1086] @ asc
        '' '' @ [1089] @ asc '' $1''),
     (rx_line [rlit (asc
        ''Automatic monitoring, alerts, scheduled updates and Remnawave writes are paused since ''),
        RGrp 1 (RPlus True RDot), rlit (asc ''.'')],
      [1040, 1074, 1090, 1086, 1084, 1072, 1090, 1080, 1095, 1077, 1089, 1082, 1080, 1081] @ asc
        '' '' @ [1084, 1086, 1085, 1080, 1090, 1086, 1088, 1080, 1085, 1075] @ asc '', '' @ [1072,
        1083, 1077, 1088, 1090, 1099] @ asc '', '' @ [1087, 1083, 1072, 1085, 1086, 1074, 1099,
        1077] @ asc '' '' @ [1086, 1073, 1085, 1086, 1074, 1083, 1077, 1085, 1080, 1103] @ asc
        '' '' @ [1080] @ asc '' '' @ [1079, 1072, 1087, 1080, 1089, 1080] @ asc '' Remnawave '' @
        [1087, 1088, 1080, 1086, 1089, 1090, 1072, 1085, 1086, 1074, 1083, 1077, 1085, 1099] @ asc
        '' '' @ [1089] @ asc '' $1.''),
     (rx_line [rlit (asc ''Probe '' @ [183] @ asc '' ''), RGrp 1 (RPlus True RDot)],
      asc ''Probe '' @ [183] @ asc '' $1''),
     (rx_line [RGrp 1 (RPlus True RDigit), rlit (asc '' latest results '' @ [183] @ asc
        '' next test in <1 min'')],
      [1055, 1086, 1089, 1083, 1077, 1076, 1085, 1080, 1093] @ asc '' '' @ [1088, 1077, 1079,
        1091, 1083, 1100, 1090, 1072, 1090, 1086, 1074] @ asc '': $1 '' @ [183] @ asc '' '' @
        [1089, 1083, 1077, 1076, 1091, 1102, 1097, 1080, 1081] @ asc '' speedtest '' @ [1084,
        1077, 1085, 1077, 1077] @ asc '' '' @ [1095, 1077, 1084] @ asc '' '' @ [1095, 1077, 1088,
        1077, 1079] @ asc '' '' @ [1084, 1080, 1085, 1091, 1090, 1091]),
     (rx_line [RGrp 1 (RPlus True RDigit), rlit (asc '' latest results '' @ [183] @ asc
        '' next test in ''), RGrp 2 (RPlus True RDigit), rlit (asc '' min'')],
      [1055, 1086, 1089, 1083, 1077, 1076, 1085, 1080, 1093] @ asc '' '' @ [1088, 1077, 1079,
        1091, 1083, 1100, 1090, 1072, 1090, 1086, 1074] @ asc '': $1 '' @ [183] @ asc '' '' @
        [1089, 1083, 1077, 1076, 1091, 1102, 1097, 1080, 1081] @ asc '' speedtest '' @ [1095,
        1077, 1088, 1077, 1079] @ asc '' $2 '' @ [1084, 1080, 1085]),
     (rx_line [RGrp 1 (RPlus True RDigit), rlit (asc '' latest results '' @ [183] @ asc
        '' next test in ''), RGrp 2 (RPlus True RDigit), rlit (asc '' h ''), RGrp 3 (RPlus True
        RDigit), rlit (asc '' min'')],
      [1055, 1086, 1089, 1083, 1077, 1076, 1085, 1080, 1093] @ asc '' '' @ [1088, 1077, 1079,
        1091, 1083, 1100, 1090, 1072, 1090, 1086, 1074] @ asc '': $1 '' @ [183] @ asc '' '' @
        [1089, 1083, 1077, 1076, 1091, 1102, 1097, 1080, 1081] @ asc '' speedtest '' @ [1095,
        1077, 1088, 1077, 1079] @ asc '' $2 '' @ [1095] @ asc '' $3 '' @ [1084, 1080, 1085]),
     (rx_line [RGrp 1 (RPlus True RDigit), rlit (asc '' latest results '' @ [183] @ asc
        '' next test in ''), RGrp 2 (RPlus True RDigit), rlit (asc '' d ''), RGrp 3 (RPlus True
        RDigit), rlit (asc '' h ''), RGrp 4 (RPlus True RDigit), rlit (asc '' min'')],
      [1055, 1086, 1089, 1083, 1077, 1076, 1085, 1080, 1093] @ asc '' '' @ [1088, 1077, 1079,
        1091, 1083, 1100, 1090, 1072, 1090, 1086, 1074] @ asc '': $1 '' @ [183] @ asc '' '' @
        [1089, 1083, 1077, 1076, 1091, 1102, 1097, 1080, 1081] @ asc '' speedtest '' @ [1095,
        1077, 1088, 1077, 1079] @ asc '' $2 '' @ [1076] @ asc '' $3 '' @ [1095] @ asc '' $4 '' @
        [1084, 1080, 1085]),
     (rx_line [RGrp 1 (RPlus True RDigit), rlit (asc '' latest results '' @ [183] @ asc
        '' next test in ''), RGrp 2 (RPlus True RDot)],
      [1055, 1086, 1089, 1083, 1077, 1076, 1085, 1080, 1093] @ asc '' '' @ [1088, 1077, 1079,
        1091, 1083, 1100, 1090, 1072, 1090, 1086, 1074] @ asc '': $1 '' @ [183] @ asc '' '' @
        [1089, 1083, 1077, 1076, 1091, 1102, 1097, 1080, 1081] @ asc '' speedtest '' @ [1095,
        1077, 1088, 1077, 1079] @ asc '' $2''),
     (rx_line [RGrp 1 (RPlus True RDigit), rlit (asc '' latest results '' @ [183] @ asc
        '' next test due now'')],
      [1055, 1086, 1089, 1083, 1077, 1076, 1085, 1080, 1093] @ asc '' '' @ [1088, 1077, 1079,
        1091, 1083, 1100, 1090, 1072, 1090, 1086, 1074] @ asc '': $1 '' @ [183] @ asc '' '' @
        [1089, 1083, 1077, 1076, 1091, 1102, 1097, 1080, 1081] @ asc '' speedtest '' @ [1091,
        1078, 1077] @ asc '' '' @ [1076, 1086, 1083, 1078, 1077, 1085] @ asc '' '' @ [1079, 1072,
        1087, 1091, 1089, 1090, 1080, 1090, 1100, 1089, 1103]),
     (rx_line [RGrp 1 (RPlus True RDigit), rlit (asc '' successful of ''), RGrp 2 (RPlus True
        RDigit), rlit (asc '' results'')],
      asc ''$1 '' @ [1091, 1089, 1087, 1077, 1096, 1085, 1099, 1093] @ asc '' '' @ [1080, 1079] @
        asc '' $2 '' @ [1088, 1077, 1079, 1091, 1083, 1100, 1090, 1072, 1090, 1086, 1074]),
     (rx_line [RGrp 1 (RPlus True RDigit), rlit (asc ''% available '' @ [183] @ asc '' ''), RGrp 2
        (RPlus True RDigit), rlit (asc '' offline '' @ [183] @ asc '' ''), RGrp 3 (RPlus True
        RDigit), rlit (asc '' muted'')],
      asc ''$1% '' @ [1076, 1086, 1089, 1090, 1091, 1087, 1085, 1086] @ asc '' '' @ [183] @ asc
        '' $2 offline '' @ [183] @ asc '' $3 muted''),
     (rx_line [RGrp 1 (RPlus True RDigit), rlit (asc ''% available '' @ [183] @ asc '' ''), RGrp 2
        (RPlus True RDigit), rlit (asc '' offline '' @ [183] @ asc '' ''), RGrp 3 (RPlus True
        RDigit), rlit (asc '' maintenance '' @ [183] @ asc '' ''), RGrp 4 (RPlus True RDigit),
        rlit (asc '' muted'')],
      asc ''$1% '' @ [1076, 1086, 1089, 1090, 1091, 1087, 1085, 1086] @ asc '' '' @ [183] @ asc
        '' $2 offline '' @ [183] @ asc '' $3 '' @ [1085, 1072] @ asc '' '' @ [1086, 1073, 1089,
        1083, 1091, 1078, 1080, 1074, 1072, 1085, 1080, 1080] @ asc '' '' @ [183] @ asc
        '' $4 muted''),
     (rx_line [RGrp 1 (rseq [RPlus True RDigit, rlit (asc ''% proxy healthy''), ROpt True (rseq
        [rlit (asc '' '' @ [183] @ asc '' ''), RPlus False RDot])]), rlit (asc '' '' @ [183] @ asc
        '' ''), RGrp 2 (RPlus True RDigit), rlit (asc '' maintenance''), RGrp 3 (ROpt True (rseq
        [rlit (asc '' '' @ [183] @ asc '' ''), RPlus True RDot]))],
      asc ''$1 '' @ [183] @ asc '' $2 '' @ [1085, 1072] @ asc '' '' @ [1086, 1073, 1089, 1083,
        1091, 1078, 1080, 1074, 1072, 1085, 1080, 1080] @ asc ''$3''),
     (rx_line [RGrp 1 (RPlus True RDigit), rlit (asc '' proxy failure '' @ [183] @ asc '' ''),
        RGrp 2 (RPlus True RDigit), rlit (asc '' offline'')],
      asc ''$1 proxy failure '' @ [183] @ asc '' $2 offline''),
     (rx_line [RGrp 1 (RPlus True RDigit), rlit (asc '' shown '' @ [183] @ asc '' ''), RGrp 2
        (RPlus True RDigit), rlit (asc '' total'')],
      asc ''$1 '' @ [1087, 1086, 1082, 1072, 1079, 1072, 1085, 1086] @ asc '' '' @ [183] @ asc
        '' $2 '' @ [1074, 1089, 1077, 1075, 1086]),
     (rx_line [RGrp 1 (RPlus True RDigit), rlit (asc '' shown '' @ [183] @ asc '' ''), RGrp 2
        (RPlus True RDigit), rlit (asc '' active '' @ [183] @ asc '' ''), RGrp 3 (RPlus True
        RDigit), rlit (asc '' retired'')],
      asc ''$1 '' @ [1087, 1086, 1082, 1072, 1079, 1072, 1085, 1086] @ asc '' '' @ [183] @ asc
        '' $2 '' @ [1072, 1082, 1090, 1080, 1074, 1085, 1099, 1093] @ asc '' '' @ [183] @ asc
        '' $3 '' @ [1074, 1099, 1074, 1077, 1076, 1077, 1085, 1085, 1099, 1093]),
     (rx_line [RGrp 1 (RPlus True RDigit), rlit (asc '' shown '' @ [183] @ asc '' ''), RGrp 2
        (RPlus True RDigit), rlit (asc '' monitored '' @ [183] @ asc '' ''), RGrp 3 (RPlus True
        RDigit), rlit (asc '' maintenance '' @ [183] @ asc '' ''), RGrp 4 (RPlus True RDigit),
        rlit (asc '' retired'')],
      asc ''$1 '' @ [1087, 1086, 1082, 1072, 1079, 1072, 1085, 1086] @ asc '' '' @ [183] @ asc
        '' $2 '' @ [1086, 1090, 1089, 1083, 1077, 1078, 1080, 1074, 1072, 1077, 1090, 1089, 1103]
        @ asc '' '' @ [183] @ asc '' $3 '' @ [1085, 1072] @ asc '' '' @ [1086, 1073, 1089, 1083,
        1091, 1078, 1080, 1074, 1072, 1085, 1080, 1080] @ asc '' '' @ [183] @ asc '' $4 '' @
        [1074, 1099, 1074, 1077, 1076, 1077, 1085, 1086]),
     (rx_line [RGrp 1 (RPlus True RDigit), rlit (asc '' incidents '' @ [183] @ asc '' ''), RGrp 2
        (RPlus True RDigit), rlit (asc '' active'')],
      [1048, 1085, 1094, 1080, 1076, 1077, 1085, 1090, 1086, 1074] @ asc '': $1 '' @ [183] @ asc
        '' '' @ [1072, 1082, 1090, 1080, 1074, 1085, 1099, 1093] @ asc '': $2''),
     (rx_line [RGrp 1 (RPlus True RDigit), rlit (asc '' of ''), RGrp 2 (RPlus True RDigit), rlit
        (asc '' incidents '' @ [183] @ asc '' ''), RGrp 3 (RPlus True RDigit), rlit (asc
        '' active'')],
      [1048, 1085, 1094, 1080, 1076, 1077, 1085, 1090, 1086, 1074] @ asc '': $1 '' @ [1080, 1079]
        @ asc '' $2 '' @ [183] @ asc '' '' @ [1072, 1082, 1090, 1080, 1074, 1085, 1099, 1093] @
        asc '': $3''),
     (rx_line [RGrp 1 (RPlus True RDigit), rlit (asc '' incidents '' @ [183] @ asc '' ''), RGrp 2
        (RPlus True RDigit), rlit (asc '' active '' @ [183] @ asc '' ''), RGrp 3 (RPlus True
        RDigit), rlit (asc '' row''), ROpt True (RChr 115)],
      [1048, 1085, 1094, 1080, 1076, 1077, 1085, 1090, 1086, 1074] @ asc '': $1 '' @ [183] @ asc
        '' '' @ [1072, 1082, 1090, 1080, 1074, 1085, 1099, 1093] @ asc '': $2 '' @ [183] @ asc
        '' '' @ [1089, 1090, 1088, 1086, 1082] @ asc '': $3''),
     (rx_line [RGrp 1 (RPlus True RDigit), rlit (asc '' of ''), RGrp 2 (RPlus True RDigit), rlit
        (asc '' incidents '' @ [183] @ asc '' ''), RGrp 3 (RPlus True RDigit), rlit (asc
        '' active '' @ [183] @ asc '' ''), RGrp 4 (RPlus True RDigit), rlit (asc '' row''), ROpt
        True (RChr 115)],
      [1048, 1085, 1094, 1080, 1076, 1077, 1085, 1090, 1086, 1074] @ asc '': $1 '' @ [1080, 1079]
        @ asc '' $2 '' @ [183] @ asc '' '' @ [1072, 1082, 1090, 1080, 1074, 1085, 1099, 1093] @
        asc '': $3 '' @ [183] @ asc '' '' @ [1089, 1090, 1088, 1086, 1082] @ asc '': $4''),
     (rx_line [RGrp 1 (RPlus True RDigit), rlit (asc '' min ago'')],
      asc ''$1 '' @ [1084, 1080, 1085] @ asc '' '' @ [1085, 1072, 1079, 1072, 1076]),
     (rx_line [RGrp 1 (RPlus True RDigit), rlit (asc '' h ago'')],
      asc ''$1 '' @ [1095] @ asc '' '' @ [1085, 1072, 1079, 1072, 1076]),
     (rx_line [RGrp 1 (RPlus True RDigit), rlit (asc '' d ago'')],
      asc ''$1 '' @ [1076] @ asc '' '' @ [1085, 1072, 1079, 1072, 1076]),
     (rx_line [RGrp 1 (RPlus True RDigit), rlit (asc '' total'')],
      [1042, 1089, 1077, 1075, 1086] @ asc '': $1''),
     (rx_line [RGrp 1 (ROpt True (RChr 60)), RGrp 2 (RPlus True RDigit), rlit (asc '' min'')],
      asc ''$1$2 '' @ [1084, 1080, 1085]),
     (rx_line [RGrp 1 (RPlus True RDigit), rlit (asc '' h ''), RGrp 2 (RPlus True RDigit), rlit
        (asc '' min'')],
      asc ''$1 '' @ [1095] @ asc '' $2 '' @ [1084, 1080, 1085]),
     (rx_line [RGrp 1 (RPlus True RDigit), rlit (asc '' d ''), RGrp 2 (RPlus True RDigit), rlit
        (asc '' h ''), RGrp 3 (RPlus True RDigit), rlit (asc '' min'')],
      asc ''$1 '' @ [1076] @ asc '' $2 '' @ [1095] @ asc '' $3 '' @ [1084, 1080, 1085]),
     (rx_line [rlit (asc ''in ''), RGrp 1 (RPlus True RDot)],
      [1095, 1077, 1088, 1077, 1079] @ asc '' $1''),
     (rx_line [rlit (asc ''Offline '' @ [183] @ asc '' <1 min'')],
      [1054, 1092, 1083, 1072, 1081, 1085] @ asc '' '' @ [183] @ asc '' <1 '' @ [1084, 1080,
        1085]),
     (rx_line [rlit (asc ''Offline '' @ [183] @ asc '' ''), RGrp 1 (RPlus True RDigit), rlit (asc
        '' min'')],
      [1054, 1092, 1083, 1072, 1081, 1085] @ asc '' '' @ [183] @ asc '' $1 '' @ [1084, 1080,
        1085]),
     (rx_line [rlit (asc ''Proxy failure '' @ [183] @ asc '' ''), RGrp 1 (RPlus True RDot)],
      asc ''Proxy failure '' @ [183] @ asc '' $1''),
     (rx_line [RGrp 1 (RPlus True RDigit), rlit (asc '' online '' @ [183] @ asc '' ''), RGrp 2
        (RPlus True RDigit), rlit (asc '' proxy failure '' @ [183] @ asc '' ''), RGrp 3 (RPlus
        True RDigit), rlit (asc '' offline '' @ [183] @ asc '' ''), RGrp 4 (RPlus True RDigit),
        rlit (asc ''% uptime'')],
      asc ''$1 online '' @ [183] @ asc '' $2 proxy failure '' @ [183] @ asc '' $3 offline '' @
        [183] @ asc '' $4% uptime''),
     (rx_line [rlit (asc ''No subscription''), RGrp 1 (rseq [rlit (asc '' '' @ [183] @ asc '' ''),
        RPlus True RDot])],
      [1041, 1077, 1079] @ asc '' '' @ [1087, 1086, 1076, 1087, 1080, 1089, 1082, 1080] @ asc
        ''$1''),
     (rx_line [rlit (asc ''Unknown Geo data not loaded'')],
      [1053, 1077, 1080, 1079, 1074, 1077, 1089, 1090, 1085, 1086] @ asc ''; Geo-'' @ [1076, 1072,
        1085, 1085, 1099, 1077] @ asc '' '' @ [1085, 1077] @ asc '' '' @ [1079, 1072, 1075, 1088,
        1091, 1078, 1077, 1085, 1099]),
     (rx_line [rlit (asc ''Geo only; the name claims no country ''), RGrp 1 (RPlus True RDot)],
      [1058, 1086, 1083, 1100, 1082, 1086] @ asc '' geo; '' @ [1074] @ asc '' '' @ [1080, 1084,
        1077, 1085, 1080] @ asc '' '' @ [1089, 1090, 1088, 1072, 1085, 1072] @ asc '' '' @ [1085,
        1077] @ asc '' '' @ [1079, 1072, 1103, 1074, 1083, 1077, 1085, 1072] @ asc ''; $1''),
     (rx_line [RGrp 1 (RPlus True RDot), rlit (asc '' '' @ [183] @ asc '' geo'')],
      asc ''$1 '' @ [183] @ asc '' '' @ [1087, 1086] @ asc '' geo''),
     (rx_line [rlit (asc ''All ''), RGrp 1 (RPlus True RDigit), rlit (asc '' '' @ [183] @ asc
        '' Alerts ''), RGrp 2 (RPlus True RDigit), rlit (asc '' '' @ [183] @ asc '' Speed ''),
        RGrp 3 (RPlus True RDigit)],
      [1042, 1089, 1077] @ asc '' $1 '' @ [183] @ asc '' '' @ [1040, 1083, 1077, 1088, 1090, 1099]
        @ asc '' $2 '' @ [183] @ asc '' Speedtest $3''),
     (rx_line [RGrp 1 (RAlt (rlit (asc ''TCP'')) (rlit (asc ''Ping''))), rlit (asc '' failed'')],
      asc ''$1: '' @ [1086, 1096, 1080, 1073, 1082, 1072]),
     (rx_line [RGrp 1 (RAlt (rlit (asc ''TCP'')) (rlit (asc ''Ping''))), rlit (asc '' No'')],
      asc ''$1: '' @ [1085, 1077, 1090] @ asc '' '' @ [1086, 1090, 1074, 1077, 1090, 1072]),
     (rx_line [rlit (asc ''Error: ''), RGrp 1 (RPlus True RDot)],
      [1054, 1096, 1080, 1073, 1082, 1072] @ asc '': $1''),
     (rx_line [rlit (asc ''Latest: ''), RGrp 1 (RPlus True RDot)],
      [1055, 1086, 1089, 1083, 1077, 1076, 1085, 1077, 1077] @ asc '': $1''),
     (rx_line [rlit (asc ''Latest availability check: ''), RGrp 1 (RPlus True RDot)],
      [1055, 1086, 1089, 1083, 1077, 1076, 1085, 1103, 1103] @ asc '' availability-'' @ [1087,
        1088, 1086, 1074, 1077, 1088, 1082, 1072] @ asc '': $1''),
     (rx_line [rlit (asc ''Peaks above ''), RGrp 1 (RPlus True RDigit), rlit (asc
        '' ms are pinned to the top'')],
      [1055, 1080, 1082, 1080] @ asc '' '' @ [1074, 1099, 1096, 1077] @ asc '' $1 ms '' @ [1086,
        1090, 1084, 1077, 1095, 1077, 1085, 1099] @ asc '' '' @ [1091] @ asc '' '' @ [1074, 1077,
        1088, 1093, 1085, 1077, 1081] @ asc '' '' @ [1075, 1088, 1072, 1085, 1080, 1094, 1099]),
     (rx_line [RGrp 1 (RPlus True RDigit), rlit (asc '' of ''), RGrp 2 (RPlus True RDigit), rlit
        (asc '' proxy checks succeeded'')],
      asc ''$1 '' @ [1080, 1079] @ asc '' $2 proxy checks '' @ [1091, 1089, 1087, 1077, 1096,
        1085, 1099]),
     (rx_line [rlit (asc
        ''Uptime counts time, not checks: a node that is down is re-checked more often. ''), RGrp
        1 (RPlus True RDigit), rlit (asc '' of ''), RGrp 2 (RPlus True RDigit), rlit (asc
        '' proxy checks succeeded'')],
      asc ''Uptime '' @ [1089, 1095, 1080, 1090, 1072, 1077, 1090, 1089, 1103] @ asc '' '' @
        [1087, 1086] @ asc '' '' @ [1074, 1088, 1077, 1084, 1077, 1085, 1080] @ asc '', '' @
        [1072] @ asc '' '' @ [1085, 1077] @ asc '' '' @ [1087, 1086] @ asc '' '' @ [1095, 1080,
        1089, 1083, 1091] @ asc '' '' @ [1087, 1088, 1086, 1074, 1077, 1088, 1086, 1082] @ asc
        '': '' @ [1085, 1077, 1076, 1086, 1089, 1090, 1091, 1087, 1085, 1091, 1102] @ asc '' '' @
        [1085, 1086, 1076, 1091] @ asc '' '' @ [1087, 1077, 1088, 1077, 1087, 1088, 1086, 1074,
        1077, 1088, 1103, 1102, 1090] @ asc '' '' @ [1095, 1072, 1097, 1077] @ asc ''. '' @ [1059,
        1089, 1087, 1077, 1096, 1085, 1099, 1093] @ asc '' proxy checks: $1 '' @ [1080, 1079] @
        asc '' $2''),
     (rx_line [RGrp 1 (RPlus True RDigit), rlit (asc
        '' compatible active node. Name and port may differ; compare the selected target in the next step.'')],
      asc ''$1 '' @ [1089, 1086, 1074, 1084, 1077, 1089, 1090, 1080, 1084, 1072, 1103] @ asc
        '' active-'' @ [1085, 1086, 1076, 1072] @ asc ''. Name '' @ [1080] @ asc '' port '' @
        [1084, 1086, 1075, 1091, 1090] @ asc '' '' @ [1086, 1090, 1083, 1080, 1095, 1072, 1090,
        1100, 1089, 1103] @ asc ''; '' @ [1085, 1072] @ asc '' '' @ [1089, 1083, 1077, 1076, 1091,
        1102, 1097, 1077, 1084] @ asc '' '' @ [1096, 1072, 1075, 1077] @ asc '' '' @ [1089, 1088,
        1072, 1074, 1085, 1080, 1090, 1077] @ asc '' '' @ [1074, 1099, 1073, 1088, 1072, 1085,
        1085, 1099, 1081] @ asc '' target.''),
     (rx_line [RGrp 1 (RPlus True RDigit), rlit (asc
        '' compatible active nodes. Name and port may differ; compare the selected target in the next step.'')],
      asc ''$1 '' @ [1089, 1086, 1074, 1084, 1077, 1089, 1090, 1080, 1084, 1099, 1093] @ asc
        '' active-'' @ [1085, 1086, 1076] @ asc ''. Name '' @ [1080] @ asc '' port '' @ [1084,
        1086, 1075, 1091, 1090] @ asc '' '' @ [1086, 1090, 1083, 1080, 1095, 1072, 1090, 1100,
        1089, 1103] @ asc ''; '' @ [1085, 1072] @ asc '' '' @ [1089, 1083, 1077, 1076, 1091, 1102,
        1097, 1077, 1084] @ asc '' '' @ [1096, 1072, 1075, 1077] @ asc '' '' @ [1089, 1088, 1072,
        1074, 1085, 1080, 1090, 1077] @ asc '' '' @ [1074, 1099, 1073, 1088, 1072, 1085, 1085,
        1099, 1081] @ asc '' target.''),
     (rx_line [RGrp 1 (RPlus True RDot), rlit (asc '' '' @ [8594] @ asc '' ''), RGrp 2 (RPlus True
        RDot), rlit (asc ''. Persisted lineage and history are attached to ''), RGrp 3 (RPlus True
        RDot), rlit (asc ''.'')],
      asc ''$1 '' @ [8594] @ asc '' $2. Persisted lineage '' @ [1080] @ asc '' history '' @ [1087,
        1088, 1080, 1074, 1103, 1079, 1072, 1085, 1099] @ asc '' '' @ [1082] @ asc '' $3.''),
     (rx_line [RGrp 1 (RPlus True RDot), rlit (asc '' '' @ [8594] @ asc '' ''), RGrp 2 (RPlus True
        RDot), rlit (asc ''. Restart the service to apply it.'')],
      asc ''$1 '' @ [8594] @ asc '' $2. '' @ [1055, 1077, 1088, 1077, 1079, 1072, 1087, 1091,
        1089, 1090, 1080, 1090, 1077] @ asc '' '' @ [1089, 1077, 1088, 1074, 1080, 1089] @ asc
        '', '' @ [1095, 1090, 1086, 1073, 1099] @ asc '' '' @ [1087, 1088, 1080, 1084, 1077, 1085,
        1080, 1090, 1100] @ asc '' merge.''),
     (rx_line [RGrp 1 (RPlus True RDot), rlit (asc '' '' @ [8594] @ asc '' ''), RGrp 2 (RPlus True
        RDot), rlit (asc ''. Refresh Nodes Overview or inspect startup logs.'')],
      asc ''$1 '' @ [8594] @ asc '' $2. '' @ [1054, 1073, 1085, 1086, 1074, 1080, 1090, 1077] @
        asc '' '' @ [171, 1054, 1073, 1079, 1086, 1088] @ asc '' '' @ [1085, 1086, 1076, 187] @
        asc '' '' @ [1080, 1083, 1080] @ asc '' '' @ [1087, 1088, 1086, 1074, 1077, 1088, 1100,
        1090, 1077] @ asc '' startup logs.''),
     (rx_line [RGrp 1 (RPlus True RDot), rlit (asc '' '' @ [8594] @ asc '' ''), RGrp 2 (RPlus True
        RDot), rlit (asc ''. Restart required.'')],
      asc ''$1 '' @ [8594] @ asc '' $2. '' @ [1058, 1088, 1077, 1073, 1091, 1077, 1090, 1089,
        1103] @ asc '' restart.''),
     (rx_line [rlit (asc ''Delete archived node \"''), RGrp 1 (RPlus True RDot), rlit (asc ''\"?''
        @ [10, 10] @ asc
        ''This removes the node registry entry and saved speed-test and availability histories.'')],
      [1059, 1076, 1072, 1083, 1080, 1090, 1100] @ asc '' '' @ [1085, 1086, 1076, 1091] @ asc
        '' '' @ [171] @ asc ''$1'' @ [187] @ asc '' '' @ [1080, 1079] @ asc '' '' @ [1072, 1088,
        1093, 1080, 1074, 1072] @ asc ''?'' @ [10, 10, 1041, 1091, 1076, 1091, 1090] @ asc '' '' @
        [1091, 1076, 1072, 1083, 1077, 1085, 1099] @ asc '' '' @ [1079, 1072, 1087, 1080, 1089,
        1100] @ asc '' node registry, speedtest history '' @ [1080] @ asc
        '' availability history.''),
     (rx_line [RGrp 1 (RPlus True RDot), rlit ([10, 10] @ asc ''Apply this update anyway?'')],
      asc ''$1'' @ [10, 10, 1042, 1089, 1105] @ asc '' '' @ [1088, 1072, 1074, 1085, 1086] @ asc
        '' '' @ [1087, 1088, 1080, 1084, 1077, 1085, 1080, 1090, 1100] @ asc '' '' @ [1101, 1090,
        1086] @ asc '' '' @ [1086, 1073, 1085, 1086, 1074, 1083, 1077, 1085, 1080, 1077] @ asc
        ''?'')]"

text \<open>
  Every entry is an anchored expression, its replacement text refers to every group of the
  expression and to no other, and has a visible character of its own.
\<close>

lemma patterns_ok: "list_all (\<lambda>(p, tpl). entry_ok p tpl) patterns"
  by (simp add: patterns_def entry_ok_def rx_line_def rlit_def asc_def RPlus_def is_digit_def
      digit_of_def plain_cp_def upt_conv_Cons)

end
