(* ===== verification/I18n.thy ===== *)
theory I18n
  imports RuData1 RuData2 RuData3 RuData4 RuData5 I18nPatterns
begin

text \<open>
  The translation table and the function \<open>translate\<close> of \<open>src/web/static/localization.js\<close>, and
  the language the page starts with. The dictionary is an object literal: where a key stands
  twice the later value is the one looked up.
\<close>

definition supportedLanguages :: "string set" where
  "supportedLanguages = {''en'', ''ru''}"

definition ru :: "(jstr \<times> jstr) list" where
  "ru = ru_part1 @ ru_part2 @ ru_part3 @ ru_part4 @ ru_part5"

definition ru_get :: "jstr \<Rightarrow> jstr option" where
  "ru_get k = assign_all ru k"

definition normalized :: "jstr \<Rightarrow> jstr" where
  "normalized v = js_trim (rx_replace_all space_run [32] v)"

text \<open>The loop over the table: each expression is tried on the text, then on its normal form.\<close>

fun first_pattern :: "(rx \<times> jstr) list \<Rightarrow> jstr \<Rightarrow> jstr \<Rightarrow> jstr option" where
  "first_pattern [] v n = None"
| "first_pattern ((p, tpl) # ps) v n =
     (if rx_test p v then Some (replace_first p tpl v)
      else if rx_test p n then Some (replace_first p tpl n)
      else first_pattern ps v n)"

definition translate :: "string \<Rightarrow> jstr \<Rightarrow> jstr" where
  "translate language v =
     (if language \<noteq> ''ru'' \<or> v = [] then v
      else case ru_get v of Some t \<Rightarrow> t
      | None \<Rightarrow>
         (let n = normalized v in
          case ru_get n of Some t \<Rightarrow> t
          | None \<Rightarrow>
             (case first_pattern patterns v n of Some t \<Rightarrow> t | None \<Rightarrow> v)))"

text \<open>
  What \<open>localStorage.getItem\<close> gives: it throws (\<open>None\<close>), or it returns null or a string.
\<close>

definition readLanguage :: "string option option \<Rightarrow> string" where
  "readLanguage got = (case got of None \<Rightarrow> ''en''
     | Some stored \<Rightarrow> (case stored of None \<Rightarrow> ''en''
        | Some l \<Rightarrow> if l \<in> supportedLanguages then l else ''en''))"

lemma readLanguage_supported: "readLanguage got \<in> supportedLanguages"
  by (auto simp: readLanguage_def supportedLanguages_def split: option.splits)

subsection \<open>What a translation is\<close>

lemma ru_nonempty: "list_all (\<lambda>(k, v). k \<noteq> [] \<and> v \<noteq> []) ru"
  by (simp add: ru_def ru_part1_nonempty ru_part2_nonempty ru_part3_nonempty ru_part4_nonempty
      ru_part5_nonempty)

lemma ru_get_nonempty: "ru_get k = Some v \<Longrightarrow> v \<noteq> []"
  using ru_nonempty by (auto simp: ru_get_def list_all_iff dest!: assign_all_in_set)

lemma is_line_rx_line: "is_line p \<Longrightarrow> \<exists>r. p = rx_line [r]"
  by (cases p rule: is_line.cases) (auto simp: rx_line_def)

lemma entry_replace:
  assumes "entry_ok p tpl" and "rx_test p x"
  shows "\<exists>t. rx_exec p x = Some (0, t) \<and> replace_first p tpl x = expand (ngroups p) (caps t) [] x [] tpl"
proof -
  from assms(1) obtain r where p: "p = rx_line [r]"
    by (auto simp: entry_ok_def dest: is_line_rx_line)
  from assms(2) obtain i t where e: "rx_exec p x = Some (i, t)" by (auto simp: rx_test_def)
  then have "i = 0" using rx_line_exec p by blast
  with e show ?thesis unfolding p by (simp add: replace_first_line)
qed

text \<open>The entry the loop stops at, and the text it is applied to.\<close>

lemma first_pattern_Some:
  "first_pattern ps v n = Some out \<Longrightarrow>
     \<exists>p tpl x. (p, tpl) \<in> set ps \<and> x \<in> {v, n} \<and> rx_test p x \<and> out = replace_first p tpl x"
  by (induction ps v n rule: first_pattern.induct) (auto split: if_splits)

lemma pattern_entry_ok: "(p, tpl) \<in> set patterns \<Longrightarrow> entry_ok p tpl"
  using patterns_ok by (auto simp: list_all_iff)

lemma first_pattern_nonempty:
  assumes "first_pattern patterns v n = Some out"
  shows "out \<noteq> []"
proof -
  from first_pattern_Some [OF assms] obtain p tpl x where
    "(p, tpl) \<in> set patterns" "rx_test p x" and out: "out = replace_first p tpl x" by blast
  then have ok: "entry_ok p tpl" by (simp add: pattern_entry_ok)
  obtain t :: mst where "out = expand (ngroups p) (caps t) [] x [] tpl"
    using entry_replace [OF ok \<open>rx_test p x\<close>] unfolding out by blast
  moreover have "list_ex plain_cp tpl" using ok by (simp add: entry_ok_def)
  ultimately show ?thesis by (simp add: expand_plain)
qed

lemma translate_en [simp]: "l \<noteq> ''ru'' \<Longrightarrow> translate l v = v"
  by (simp add: translate_def)

lemma translate_Nil [simp]: "translate l [] = []"
  by (simp add: translate_def)

lemma translate_Nil_iff [simp]: "translate l v = [] \<longleftrightarrow> v = []"
  by (auto simp: translate_def Let_def dest: ru_get_nonempty first_pattern_nonempty
      split: if_splits option.splits)

lemma normalized_collapse: "normalized v = js_trim (collapse v)"
  by (simp add: normalized_def rx_replace_all_def replace_space_runs)

subsection \<open>Text nodes and attributes\<close>

text \<open>What a text node with the English text \<open>v\<close> shows: the white space at its ends is kept.\<close>

definition render :: "string \<Rightarrow> jstr \<Rightarrow> jstr" where
  "render l v = (if js_trim v = [] then v
     else takeWhile is_space v @ translate l (js_trim v) @ trail (dropWhile is_space v))"

lemma render_en [simp]: "l \<noteq> ''ru'' \<Longrightarrow> render l v = v"
  by (simp add: render_def edges_append)

lemma render_Nil_iff: "render l v = [] \<longleftrightarrow> v = []"
  by (auto simp: render_def js_trim_def)

subsection \<open>The normal form\<close>

lemma collapse_Nil_iff [simp]: "collapse s = [] \<longleftrightarrow> s = []"
  by (cases s) auto

lemma collapse_spaces: "set (filter is_space (collapse s)) \<subseteq> {32}"
  by (induction s rule: collapse.induct) (auto simp: is_space_def)

lemma js_trim_subset: "set (js_trim s) \<subseteq> set s"
  by (auto simp: js_trim_def dest!: set_dropWhileD)

lemma space_32 [simp]: "is_space 32"
  by (simp add: is_space_def)

text \<open>\<open>tidy s\<close>: white space stands alone in \<open>s\<close> and is the space character.\<close>

fun tidy :: "jstr \<Rightarrow> bool" where
  "tidy [] = True"
| "tidy [c] = (is_space c \<longrightarrow> c = 32)"
| "tidy (c # d # s) = ((is_space c \<longrightarrow> c = 32 \<and> \<not> is_space d) \<and> tidy (d # s))"

lemma tidy_ConsI: "(is_space c \<longrightarrow> c = 32 \<and> (s \<noteq> [] \<longrightarrow> \<not> is_space (hd s))) \<Longrightarrow> tidy s \<Longrightarrow> tidy (c # s)"
  by (cases s) auto

lemma hd_collapse: "s \<noteq> [] \<Longrightarrow> \<not> is_space (hd s) \<Longrightarrow> hd (collapse s) = hd s"
  by (cases s) auto

lemma tidy_collapse: "tidy (collapse s)"
proof (induction s rule: collapse.induct)
  case (2 c cs)
  show ?case
  proof (cases "is_space c")
    case True
    have "collapse (dropWhile is_space cs) \<noteq> [] \<Longrightarrow> \<not> is_space (hd (collapse (dropWhile is_space cs)))"
      using hd_collapse [of "dropWhile is_space cs"] hd_dropWhile [of is_space cs] by auto
    with True 2 show ?thesis by (auto intro: tidy_ConsI)
  next
    case False
    with 2 show ?thesis by (auto intro: tidy_ConsI)
  qed
qed simp

lemma collapse_tidy: "tidy s \<Longrightarrow> collapse s = s"
proof (induction s rule: tidy.induct)
  case (3 c d s)
  then show ?case by (auto simp: dropWhile_eq_self_iff)
qed (auto split: if_splits)

lemma tidy_append: "tidy (s @ t) \<Longrightarrow> tidy s \<and> tidy t"
proof (induction s)
  case (Cons c s)
  then show ?case by (cases s; cases t) auto
qed simp

lemma js_trim_infix: "\<exists>u w. s = u @ js_trim s @ w"
proof -
  have "s = takeWhile is_space s @ js_trim s @ trail (dropWhile is_space s)"
    by (simp add: edges_append)
  then show ?thesis by blast
qed

lemma tidy_js_trim: "tidy s \<Longrightarrow> tidy (js_trim s)"
  using js_trim_infix [of s] tidy_append by metis

lemma js_trim_idem [simp]: "js_trim (js_trim s) = js_trim s"
proof -
  have last: "w \<noteq> [] \<Longrightarrow> \<not> is_space (hd w) \<Longrightarrow> stem w \<noteq> [] \<Longrightarrow> \<not> is_space (hd (stem w))" for w
    by (metis append_is_Nil_conv hd_append2 stem_trail)
  have "dropWhile is_space (stem (dropWhile is_space s)) = stem (dropWhile is_space s)"
  proof (cases "stem (dropWhile is_space s) = []")
    case False
    moreover have "stem [] = []" by (simp add: stem_def)
    ultimately have "dropWhile is_space s \<noteq> []" by metis
    with False last [of "dropWhile is_space s"] hd_dropWhile [of is_space s]
    have "\<not> is_space (hd (stem (dropWhile is_space s)))" by blast
    with False show ?thesis by (cases "stem (dropWhile is_space s)") simp_all
  qed simp
  moreover have "stem (stem w) = stem w" for w
    by (simp add: stem_def)
  ultimately show ?thesis by (simp add: js_trim_stem)
qed

subsection \<open>Properties\<close>

text \<open>
  Translating never makes a text vanish and never invents one: the translation of a text is
  empty exactly when the text is. This rests on the whole dictionary and on every replacement
  text of the pattern table.
\<close>

theorem translate_empty: "translate language v = [] \<longleftrightarrow> v = []"
  by (rule translate_Nil_iff)

text \<open>
  C38: The normal form a text is looked up under is stable: it is its own normal form, has no
  white space at its ends, and every white-space character in it is a plain space with no other
  next to it.
\<close>

theorem normalized_stable:
  "normalized (normalized v) = normalized v \<and> js_trim (normalized v) = normalized v \<and>
   tidy (normalized v)"
  by (simp add: normalized_collapse tidy_js_trim tidy_collapse collapse_tidy)

text \<open>
  C39: No variable part of a phrase is lost in translation: when an expression of the pattern
  table matches a text, it matches the whole of it, and every group it captured (a number, a
  node name, a time) stands in the Russian phrase the text is replaced with.
\<close>

theorem pattern_keeps_groups:
  assumes "(p, tpl) \<in> set patterns" and "rx_test p x" and "1 \<le> i" and "i \<le> ngroups p"
  shows "\<exists>t u w. rx_exec p x = Some (0, t) \<and> left t = [] \<and>
           replace_first p tpl x = u @ cap_text (caps t) i @ w"
proof -
  have ok: "entry_ok p tpl" using assms(1) by (rule pattern_entry_ok)
  obtain t where t: "rx_exec p x = Some (0, t)"
    and eq: "replace_first p tpl x = expand (ngroups p) (caps t) [] x [] tpl"
    using entry_replace [OF ok assms(2)] by blast
  have "left t = []"
    using t ok rx_line_exec by (auto simp: entry_ok_def dest!: is_line_rx_line)
  moreover have "\<exists>u w. replace_first p tpl x = u @ cap_text (caps t) i @ w"
    unfolding eq by (rule expand_refs) (use ok assms(3,4) in \<open>auto simp: entry_ok_def list_all_iff\<close>)
  ultimately show ?thesis using t by blast
qed

lemma online_pattern:
  "(rx_line [RGrp 1 (RPlus True RDigit), rlit (asc '' online'')],
    asc ''$1 '' @ [1086, 1085, 1083, 1072, 1081, 1085]) \<in> set patterns"
  unfolding patterns_def by (rule list.set_intros)+

lemma online_test:
  "rx_test (rx_line [RGrp 1 (RPlus True RDigit), rlit (asc '' online'')]) (asc ''7 online'')"
  by (simp add: rx_test_def rx_exec_def rx_line_def rlit_def asc_def RPlus_def start_at_def
      eat_def is_digit_def)

theorem pattern_keeps_groups_witness:
  "\<exists>t u w. rx_exec (rx_line [RGrp 1 (RPlus True RDigit), rlit (asc '' online'')]) (asc ''7 online'')
       = Some (0, t) \<and> left t = [] \<and>
     replace_first (rx_line [RGrp 1 (RPlus True RDigit), rlit (asc '' online'')])
       (asc ''$1 '' @ [1086, 1085, 1083, 1072, 1081, 1085]) (asc ''7 online'') =
     u @ cap_text (caps t) 1 @ w"
  by (rule pattern_keeps_groups [OF online_pattern online_test]) (simp_all add: rx_line_def)

text \<open>
  Five keys stand twice in the dictionary with different values and the later one hides the
  earlier: the label Concurrency of the agent settings has a Russian value that is never shown,
  because a later entry of the same key maps it to itself.
\<close>

theorem concurrency_translation_hidden:
  "(asc ''Concurrency'', [1055, 1072, 1088, 1072, 1083, 1083, 1077, 1083, 1100, 1085, 1099, 1077, 32,
     1089, 1077, 1089, 1089, 1080, 1080]) \<in> set ru \<and>
   ru_get (asc ''Concurrency'') = Some (asc ''Concurrency'') \<and>
   translate ''ru'' (asc ''Concurrency'') = asc ''Concurrency''"
proof -
  have "assign_all ru_part5 (asc ''Concurrency'') = None"
    by (simp add: assign_all_last_value ru_part5_def asc_def)
  moreover have "assign_all ru_part4 (asc ''Concurrency'') = None"
    by (simp add: assign_all_last_value ru_part4_def asc_def)
  moreover have "assign_all ru_part3 (asc ''Concurrency'') = Some (asc ''Concurrency'')"
    by (simp add: assign_all_last_value ru_part3_def asc_def)
  ultimately have get: "ru_get (asc ''Concurrency'') = Some (asc ''Concurrency'')"
    by (simp add: ru_get_def ru_def assign_all_append)
  have mem: "(asc ''Concurrency'', [1055, 1072, 1088, 1072, 1083, 1083, 1077, 1083, 1100, 1085, 1099,
     1077, 32, 1089, 1077, 1089, 1089, 1080, 1080]) \<in> set ru_part1"
    by (simp add: ru_part1_def asc_def)
  show ?thesis using get mem by (simp add: translate_def ru_def)
qed

end
