(* ===== verification/StepSystems.thy ===== *)
theory StepSystems
  imports Prelude
begin

text \<open>
  The contract between a component's operations and its invariant: each state machine of the
  development states its initial states, its step relation and its invariant, and interprets
  one of these locales on them; what holds of every run follows here once.
\<close>

locale step_system =
  fixes start :: "'s \<Rightarrow> bool"
    and step :: "'s \<Rightarrow> 's \<Rightarrow> bool"
    and ok :: "'s \<Rightarrow> bool"
  assumes start_ok: "start s \<Longrightarrow> ok s"
    and step_ok: "ok s \<Longrightarrow> step s t \<Longrightarrow> ok t"
begin

lemma run_from_ok:
  assumes "step\<^sup>*\<^sup>* s t" and "ok s"
  shows "ok t"
  using assms by (induction rule: rtranclp_induct) (auto intro: step_ok)

lemma run_ok:
  assumes "start s" and "step\<^sup>*\<^sup>* s t"
  shows "ok t"
  using run_from_ok [OF assms(2)] start_ok [OF assms(1)] .

end

end
