(* ===== verification/I18nDom.thy ===== *)
theory I18nDom
  imports I18n StepSystems
begin

text \<open>
  The part of \<open>src/web/static/localization.js\<close> that works on the page: the caches of the texts
  and attributes already translated, \<open>translateTextNode\<close>, \<open>translateElementAttributes\<close>,
  \<open>apply\<close>, \<open>setLanguage\<close>, \<open>init\<close> and the mutation observer.

  The document is a tree whose nodes carry an identity, the key of the two weak maps. The path
  from a node up to its nearest elements is passed down as a list, innermost first, with what
  \<open>closest\<close> looks at: the tag and the names of the attributes.
\<close>

datatype dnode =
    Txt nat jstr
  | Elem nat string "(string \<times> jstr) list" "dnode list"
  | Root nat "dnode list"      \<comment> \<open>a document or a document fragment\<close>
  | Other nat                  \<comment> \<open>a comment or a processing instruction\<close>

type_synonym elctx = "(string \<times> string list) list"
type_synonym shown = "jstr \<times> jstr"   \<comment> \<open>\<open>{ source, output }\<close>\<close>
type_synonym tcache = "nat \<Rightarrow> shown option"
type_synonym acache = "nat \<Rightarrow> (string \<Rightarrow> shown option) option"

definition text_skip :: "elctx \<Rightarrow> bool" where
  "text_skip ctx = list_ex (\<lambda>(tag, names).
     tag \<in> {''script'', ''style'', ''code'', ''pre'', ''textarea''} \<or>
     ''data-i18n-skip'' \<in> set names) ctx"

definition attr_skip :: "elctx \<Rightarrow> bool" where
  "attr_skip ctx = list_ex (\<lambda>(tag, names). ''data-i18n-skip'' \<in> set names) ctx"

definition attributes :: "string list" where
  "attributes = [''aria-label'', ''placeholder'', ''title'', ''alt'']"

definition still_shown :: "shown option \<Rightarrow> jstr \<Rightarrow> bool" where
  "still_shown previous current =
     (case previous of None \<Rightarrow> False | Some (source, output) \<Rightarrow> current = output)"

definition source_of :: "bool \<Rightarrow> shown option \<Rightarrow> jstr \<Rightarrow> jstr" where
  "source_of force previous current =
     (case previous of None \<Rightarrow> current
      | Some (source, output) \<Rightarrow> if force \<and> current = output then source else current)"

definition translateTextNode ::
  "string \<Rightarrow> bool \<Rightarrow> elctx \<Rightarrow> nat \<Rightarrow> jstr \<Rightarrow> tcache \<Rightarrow> jstr \<times> tcache" where
  "translateTextNode l force ctx i current c =
     (if ctx = [] \<or> text_skip ctx then (current, c)
      else if \<not> force \<and> still_shown (c i) current then (current, c)
      else
        (let source = source_of force (c i) current in
         case rx_exec split_edges source of
           None \<Rightarrow> (current, c)
         | Some (k, m) \<Rightarrow>
             if cap_text (caps m) 2 = [] then (current, c)
             else
               (let output = cap_text (caps m) 1 @ translate l (cap_text (caps m) 2)
                             @ cap_text (caps m) 3
                in (output, c(i \<mapsto> (source, output))))))"

fun set_attr :: "string \<Rightarrow> jstr \<Rightarrow> (string \<times> jstr) list \<Rightarrow> (string \<times> jstr) list" where
  "set_attr k v [] = [(k, v)]"
| "set_attr k v ((k', v') # as) = (if k = k' then (k, v) # as else (k', v') # set_attr k v as)"

definition attr_step :: "string \<Rightarrow> bool \<Rightarrow> string \<Rightarrow>
    (string \<times> jstr) list \<times> (string \<Rightarrow> shown option) \<Rightarrow>
    (string \<times> jstr) list \<times> (string \<Rightarrow> shown option)" where
  "attr_step l force name st =
     (let (as, cache) = st in
      case map_of as name of
        None \<Rightarrow> (as, cache)
      | Some current \<Rightarrow>
          if \<not> force \<and> still_shown (cache name) current then (as, cache)
          else
            (let source = source_of force (cache name) current;
                 output = translate l source
             in (set_attr name output as, cache(name \<mapsto> (source, output)))))"

definition translateElementAttributes :: "string \<Rightarrow> bool \<Rightarrow> elctx \<Rightarrow> nat \<Rightarrow>
    (string \<times> jstr) list \<Rightarrow> acache \<Rightarrow> (string \<times> jstr) list \<times> acache" where
  "translateElementAttributes l force ctx i as c =
     (if attr_skip ctx then (as, c)
      else
        (let cache = (case c i of None \<Rightarrow> Map.empty | Some m \<Rightarrow> m);
             (as', cache') = fold (attr_step l force) attributes (as, cache)
         in (as', c(i \<mapsto> cache'))))"

text \<open>The two loops of \<open>apply\<close>: the elements below a root, then its text nodes.\<close>

fun elems_pass :: "string \<Rightarrow> bool \<Rightarrow> elctx \<Rightarrow> dnode \<Rightarrow> acache \<Rightarrow> dnode \<times> acache"
and elems_passes :: "string \<Rightarrow> bool \<Rightarrow> elctx \<Rightarrow> dnode list \<Rightarrow> acache \<Rightarrow> dnode list \<times> acache" where
  "elems_pass l force ctx (Txt i v) c = (Txt i v, c)"
| "elems_pass l force ctx (Other i) c = (Other i, c)"
| "elems_pass l force ctx (Root i ks) c =
     (let (ks', c') = elems_passes l force [] ks c in (Root i ks', c'))"
| "elems_pass l force ctx (Elem i tag as ks) c =
     (let ctx' = (tag, map fst as) # ctx;
          (as', c1) = translateElementAttributes l force ctx' i as c;
          (ks', c2) = elems_passes l force ctx' ks c1
      in (Elem i tag as' ks', c2))"
| "elems_passes l force ctx [] c = ([], c)"
| "elems_passes l force ctx (k # ks) c =
     (let (k', c1) = elems_pass l force ctx k c;
          (ks', c2) = elems_passes l force ctx ks c1
      in (k' # ks', c2))"

fun texts_pass :: "string \<Rightarrow> bool \<Rightarrow> elctx \<Rightarrow> dnode \<Rightarrow> tcache \<Rightarrow> dnode \<times> tcache"
and texts_passes :: "string \<Rightarrow> bool \<Rightarrow> elctx \<Rightarrow> dnode list \<Rightarrow> tcache \<Rightarrow> dnode list \<times> tcache" where
  "texts_pass l force ctx (Txt i v) c =
     (let (v', c') = translateTextNode l force ctx i v c in (Txt i v', c'))"
| "texts_pass l force ctx (Other i) c = (Other i, c)"
| "texts_pass l force ctx (Root i ks) c =
     (let (ks', c') = texts_passes l force [] ks c in (Root i ks', c'))"
| "texts_pass l force ctx (Elem i tag as ks) c =
     (let (ks', c') = texts_passes l force ((tag, map fst as) # ctx) ks c
      in (Elem i tag as ks', c'))"
| "texts_passes l force ctx [] c = ([], c)"
| "texts_passes l force ctx (k # ks) c =
     (let (k', c1) = texts_pass l force ctx k c;
          (ks', c2) = texts_passes l force ctx ks c1
      in (k' # ks', c2))"

definition apply_node :: "string \<Rightarrow> bool \<Rightarrow> elctx \<Rightarrow> dnode \<Rightarrow> acache \<times> tcache \<Rightarrow>
    dnode \<times> acache \<times> tcache" where
  "apply_node l force ctx n cs =
     (let (ac, tc) = cs;
          (n1, ac1) = elems_pass l force ctx n ac;
          (n2, tc1) = texts_pass l force ctx n1 tc
      in (n2, ac1, tc1))"

subsection \<open>The page\<close>

text \<open>
  The state of the script with the document it works on. \<open>stored\<close> is what the browser keeps
  under the storage key, \<open>blocked\<close> that storage throws; \<open>events\<close> lists the languages announced
  by \<open>xray-language-changed\<close>.
\<close>

text \<open>A button of the language switch: its \<open>data-language\<close>, its class \<open>active\<close> and its \<open>aria-pressed\<close>.\<close>

record control =
  bt_language :: string
  bt_active :: bool
  bt_pressed :: string

record page =
  lang :: string
  document :: dnode
  translatedText :: tcache
  translatedAttributes :: acache
  stored :: "string option"
  blocked :: bool
  events :: "string list"
  html_lang :: string
  buttons :: "control list"

definition apply_document :: "bool \<Rightarrow> page \<Rightarrow> page" where
  "apply_document force p =
     (let (d, ac, tc) = apply_node (lang p) force [] (document p)
                          (translatedAttributes p, translatedText p)
      in p\<lparr>document := d, translatedAttributes := ac, translatedText := tc\<rparr>)"

text \<open>Loading the script on a document: the caches are empty, then \<open>init\<close> applies the language.\<close>

definition load_page :: "string option \<Rightarrow> bool \<Rightarrow> control list \<Rightarrow> dnode \<Rightarrow> page" where
  "load_page kept blk bs d = \<lparr>lang = readLanguage (if blk then None else Some kept), document = d,
     translatedText = Map.empty, translatedAttributes = Map.empty,
     stored = kept, blocked = blk, events = [],
     html_lang = [], buttons = bs\<rparr>"

definition show_choice :: "string \<Rightarrow> control \<Rightarrow> control" where
  "show_choice l b = b\<lparr>bt_active := (bt_language b = l),
     bt_pressed := (if bt_language b = l then ''true'' else ''false'')\<rparr>"

definition updateControls :: "page \<Rightarrow> page" where
  "updateControls p = p\<lparr>html_lang := lang p, buttons := map (show_choice (lang p)) (buttons p)\<rparr>"

lemma updateControls_frame [simp]:
  "lang (updateControls p) = lang p" "document (updateControls p) = document p"
  "translatedText (updateControls p) = translatedText p"
  "translatedAttributes (updateControls p) = translatedAttributes p"
  "stored (updateControls p) = stored p" "blocked (updateControls p) = blocked p"
  "events (updateControls p) = events p"
  by (simp_all add: updateControls_def)

definition init :: "page \<Rightarrow> page" where
  "init p = apply_document False (updateControls p)"

definition setLanguage :: "string \<Rightarrow> page \<Rightarrow> page" where
  "setLanguage next_lang p =
     (if next_lang \<notin> supportedLanguages \<or> next_lang = lang p then p
      else
        (let p1 = p\<lparr>lang := next_lang\<rparr>;
             p2 = (if blocked p1 then p1 else p1\<lparr>stored := Some next_lang\<rparr>);
             p3 = apply_document True (updateControls p2)
         in p3\<lparr>events := events p3 @ [next_lang]\<rparr>))"

text \<open>The click handler: the language of the nearest element with \<open>data-language\<close>, if there is one.\<close>

definition on_click :: "string option \<Rightarrow> page \<Rightarrow> page" where
  "on_click target p = (case target of None \<Rightarrow> p | Some l \<Rightarrow> setLanguage l p)"

text \<open>
  One record of the observer: the text of a node changed, nodes were added, or an attribute of
  an element changed. The node is looked up in the document with its context.
\<close>

datatype mutation = CharacterData nat | ChildList "nat list" | AttributeChange nat

fun node_id :: "dnode \<Rightarrow> nat" where
  "node_id (Txt i v) = i"
| "node_id (Elem i tag as ks) = i"
| "node_id (Root i ks) = i"
| "node_id (Other i) = i"

fun on_node :: "nat \<Rightarrow> (elctx \<Rightarrow> dnode \<Rightarrow> 's \<Rightarrow> dnode \<times> 's) \<Rightarrow> elctx \<Rightarrow> dnode \<Rightarrow> 's \<Rightarrow> dnode \<times> 's"
and on_nodes :: "nat \<Rightarrow> (elctx \<Rightarrow> dnode \<Rightarrow> 's \<Rightarrow> dnode \<times> 's) \<Rightarrow> elctx \<Rightarrow> dnode list \<Rightarrow> 's \<Rightarrow>
    dnode list \<times> 's" where
  "on_node j f ctx (Txt i v) s = (if i = j then f ctx (Txt i v) s else (Txt i v, s))"
| "on_node j f ctx (Other i) s = (if i = j then f ctx (Other i) s else (Other i, s))"
| "on_node j f ctx (Root i ks) s =
     (if i = j then f ctx (Root i ks) s
      else (let (ks', s') = on_nodes j f [] ks s in (Root i ks', s')))"
| "on_node j f ctx (Elem i tag as ks) s =
     (if i = j then f ctx (Elem i tag as ks) s
      else (let (ks', s') = on_nodes j f ((tag, map fst as) # ctx) ks s
            in (Elem i tag as ks', s')))"
| "on_nodes j f ctx [] s = ([], s)"
| "on_nodes j f ctx (k # ks) s =
     (let (k', s1) = on_node j f ctx k s; (ks', s2) = on_nodes j f ctx ks s1 in (k' # ks', s2))"

definition attrs_of_target :: "string \<Rightarrow> elctx \<Rightarrow> dnode \<Rightarrow> acache \<times> tcache \<Rightarrow>
    dnode \<times> acache \<times> tcache" where
  "attrs_of_target l ctx n cs = (case n of
     Elem i tag as ks \<Rightarrow>
       (let (as', ac) = translateElementAttributes l False ((tag, map fst as) # ctx) i as (fst cs)
        in (Elem i tag as' ks, ac, snd cs))
   | _ \<Rightarrow> (n, cs))"

definition run_on :: "nat \<Rightarrow> (elctx \<Rightarrow> dnode \<Rightarrow> acache \<times> tcache \<Rightarrow> dnode \<times> acache \<times> tcache) \<Rightarrow>
    page \<Rightarrow> page" where
  "run_on j f p =
     (let (d, ac, tc) = on_node j f [] (document p) (translatedAttributes p, translatedText p)
      in p\<lparr>document := d, translatedAttributes := ac, translatedText := tc\<rparr>)"

fun observe :: "mutation \<Rightarrow> page \<Rightarrow> page" where
  "observe (CharacterData j) p = run_on j (apply_node (lang p) False) p"
| "observe (ChildList js) p = fold (\<lambda>j q. run_on j (apply_node (lang q) False) q) js p"
| "observe (AttributeChange j) p = run_on j (attrs_of_target (lang p)) p"

text \<open>A script of the page writes a text node.\<close>

definition set_text :: "nat \<Rightarrow> jstr \<Rightarrow> page \<Rightarrow> page" where
  "set_text j v p = p\<lparr>document := fst (on_node j
     (\<lambda>ctx n s. (case n of Txt i w \<Rightarrow> Txt i v | _ \<Rightarrow> n, s)) [] (document p) ())\<rparr>"

subsection \<open>The page in one language\<close>

text \<open>
  The abstract view: a document whose sources are English, shown with its attributes in the
  language \<open>la\<close> and its texts in the language \<open>lt\<close>.
\<close>

definition rend_attrs :: "string \<Rightarrow> elctx \<Rightarrow> (string \<times> jstr) list \<Rightarrow> (string \<times> jstr) list" where
  "rend_attrs l ctx as = (if attr_skip ctx then as
     else map (\<lambda>(k, v). (k, if k \<in> set attributes then translate l v else v)) as)"

definition rend_text :: "string \<Rightarrow> elctx \<Rightarrow> jstr \<Rightarrow> jstr" where
  "rend_text l ctx v = (if ctx = [] \<or> text_skip ctx then v else render l v)"

fun rend :: "string \<Rightarrow> string \<Rightarrow> elctx \<Rightarrow> dnode \<Rightarrow> dnode"
and rends :: "string \<Rightarrow> string \<Rightarrow> elctx \<Rightarrow> dnode list \<Rightarrow> dnode list" where
  "rend la lt ctx (Txt i v) = Txt i (rend_text lt ctx v)"
| "rend la lt ctx (Other i) = Other i"
| "rend la lt ctx (Root i ks) = Root i (rends la lt [] ks)"
| "rend la lt ctx (Elem i tag as ks) =
     (let ctx' = (tag, map fst as) # ctx
      in Elem i tag (rend_attrs la ctx' as) (rends la lt ctx' ks))"
| "rends la lt ctx [] = []"
| "rends la lt ctx (k # ks) = rend la lt ctx k # rends la lt ctx ks"

fun ids :: "dnode \<Rightarrow> nat list" and idss :: "dnode list \<Rightarrow> nat list" where
  "ids (Txt i v) = [i]"
| "ids (Other i) = [i]"
| "ids (Root i ks) = i # idss ks"
| "ids (Elem i tag as ks) = i # idss ks"
| "idss [] = []"
| "idss (k # ks) = ids k @ idss ks"

text \<open>A document tree: identities are unique and an element has an attribute once.\<close>

fun attrs_once :: "dnode \<Rightarrow> bool" and attrs_onces :: "dnode list \<Rightarrow> bool" where
  "attrs_once (Txt i v) = True"
| "attrs_once (Other i) = True"
| "attrs_once (Root i ks) = attrs_onces ks"
| "attrs_once (Elem i tag as ks) = (distinct (map fst as) \<and> attrs_onces ks)"
| "attrs_onces [] = True"
| "attrs_onces (k # ks) = (attrs_once k \<and> attrs_onces ks)"

definition wf_doc :: "dnode \<Rightarrow> bool" where
  "wf_doc d \<longleftrightarrow> distinct (ids d) \<and> attrs_once d"

text \<open>The caches hold, for every text and attribute in scope, its source and what it shows.\<close>

definition tcached1 :: "string \<Rightarrow> elctx \<Rightarrow> tcache \<Rightarrow> nat \<Rightarrow> jstr \<Rightarrow> bool" where
  "tcached1 l ctx c i v \<longleftrightarrow> ctx = [] \<or> text_skip ctx \<or>
     c i = (if js_trim v = [] then None else Some (v, render l v))"

fun tcached :: "string \<Rightarrow> elctx \<Rightarrow> tcache \<Rightarrow> dnode \<Rightarrow> bool"
and tcacheds :: "string \<Rightarrow> elctx \<Rightarrow> tcache \<Rightarrow> dnode list \<Rightarrow> bool" where
  "tcached l ctx c (Txt i v) = tcached1 l ctx c i v"
| "tcached l ctx c (Other i) = True"
| "tcached l ctx c (Root i ks) = tcacheds l [] c ks"
| "tcached l ctx c (Elem i tag as ks) = tcacheds l ((tag, map fst as) # ctx) c ks"
| "tcacheds l ctx c [] = True"
| "tcacheds l ctx c (k # ks) = (tcached l ctx c k \<and> tcacheds l ctx c ks)"

definition acached1 :: "string \<Rightarrow> elctx \<Rightarrow> acache \<Rightarrow> nat \<Rightarrow> (string \<times> jstr) list \<Rightarrow> bool" where
  "acached1 l ctx c i as \<longleftrightarrow> attr_skip ctx \<or>
     (\<exists>m. c i = Some m \<and> (\<forall>(k, v) \<in> set as. k \<in> set attributes \<longrightarrow> m k = Some (v, translate l v)))"

fun acached :: "string \<Rightarrow> elctx \<Rightarrow> acache \<Rightarrow> dnode \<Rightarrow> bool"
and acacheds :: "string \<Rightarrow> elctx \<Rightarrow> acache \<Rightarrow> dnode list \<Rightarrow> bool" where
  "acached l ctx c (Txt i v) = True"
| "acached l ctx c (Other i) = True"
| "acached l ctx c (Root i ks) = acacheds l [] c ks"
| "acached l ctx c (Elem i tag as ks) =
     (acached1 l ((tag, map fst as) # ctx) c i as \<and> acacheds l ((tag, map fst as) # ctx) c ks)"
| "acacheds l ctx c [] = True"
| "acacheds l ctx c (k # ks) = (acached l ctx c k \<and> acacheds l ctx c ks)"

lemma map_fst_pair [simp]: "map (fst \<circ> (\<lambda>(k, v). (k, f k v))) xs = map fst xs"
  by (induction xs) auto

lemma fst_rend_attrs [simp]: "map fst (rend_attrs l ctx as) = map fst as"
  by (simp add: rend_attrs_def comp_def case_prod_unfold)

lemma tcached_cong:
  "(\<And>i. i \<in> set (ids t) \<Longrightarrow> c i = c' i) \<Longrightarrow> tcached l ctx c t = tcached l ctx c' t"
  "(\<And>i. i \<in> set (idss ts) \<Longrightarrow> c i = c' i) \<Longrightarrow> tcacheds l ctx c ts = tcacheds l ctx c' ts"
  by (induction l ctx c t and l ctx c ts rule: tcached_tcacheds.induct) (auto simp: tcached1_def)

lemma acached_cong:
  "(\<And>i. i \<in> set (ids t) \<Longrightarrow> c i = c' i) \<Longrightarrow> acached l ctx c t = acached l ctx c' t"
  "(\<And>i. i \<in> set (idss ts) \<Longrightarrow> c i = c' i) \<Longrightarrow> acacheds l ctx c ts = acacheds l ctx c' ts"
  by (induction l ctx c t and l ctx c ts rule: acached_acacheds.induct) (auto simp: acached1_def)

subsection \<open>Text nodes\<close>

text \<open>\<open>translateTextNode\<close> without the matcher: it shows the rendering of its source.\<close>

lemma translateTextNode_eq:
  "translateTextNode l force ctx i current c =
     (if ctx = [] \<or> text_skip ctx then (current, c)
      else if \<not> force \<and> still_shown (c i) current then (current, c)
      else
        (let source = source_of force (c i) current in
         if js_trim source = [] then (current, c)
         else (render l source, c(i \<mapsto> (source, render l source)))))"
proof -
  obtain m where m: "rx_exec split_edges s = Some (0, m s)"
    "cap_text (caps (m s)) 1 = takeWhile is_space s"
    "cap_text (caps (m s)) 2 = js_trim s"
    "cap_text (caps (m s)) 3 = trail (dropWhile is_space s)" for s
    using split_edges_exec by metis
  then show ?thesis by (simp add: translateTextNode_def render_def Let_def)
qed

lemma translateTextNode_switch:
  assumes "tcached1 l ctx c i v"
  shows "translateTextNode l' True ctx i (rend_text l ctx v) c =
    (rend_text l' ctx v,
     if ctx = [] \<or> text_skip ctx \<or> js_trim v = [] then c else c(i \<mapsto> (v, render l' v)))"
  using assms
  by (auto simp: translateTextNode_eq rend_text_def tcached1_def source_of_def render_def Let_def)

lemma translateTextNode_fresh:
  assumes "c i = None"
  shows "translateTextNode l force ctx i v c =
    (rend_text l ctx v,
     if ctx = [] \<or> text_skip ctx \<or> js_trim v = [] then c else c(i \<mapsto> (v, render l v)))"
  using assms
  by (auto simp: translateTextNode_eq rend_text_def still_shown_def source_of_def render_def Let_def)

lemma translateTextNode_quiet:
  assumes "tcached1 l ctx c i v"
  shows "translateTextNode l False ctx i (rend_text l ctx v) c = (rend_text l ctx v, c)"
  using assms
  by (auto simp: translateTextNode_eq rend_text_def tcached1_def source_of_def still_shown_def
      render_def Let_def)

text \<open>
  A forced pass over the texts of a page in language \<open>l\<close> shows them in \<open>l'\<close>, and leaves the
  cache entries of other nodes alone.
\<close>

lemma texts_pass_switch:
  "tcached l ctx c t \<Longrightarrow> distinct (ids t) \<Longrightarrow>
     \<exists>c'. texts_pass l' True ctx (rend la l ctx t) c = (rend la l' ctx t, c') \<and>
       tcached l' ctx c' t \<and> (\<forall>i. i \<notin> set (ids t) \<longrightarrow> c' i = c i)"
  "tcacheds l ctx c ts \<Longrightarrow> distinct (idss ts) \<Longrightarrow>
     \<exists>c'. texts_passes l' True ctx (rends la l ctx ts) c = (rends la l' ctx ts, c') \<and>
       tcacheds l' ctx c' ts \<and> (\<forall>i. i \<notin> set (idss ts) \<longrightarrow> c' i = c i)"
proof (induction t and ts arbitrary: ctx c and ctx c rule: ids_idss.induct)
  case (1 i v)
  then show ?case
    by (auto simp: translateTextNode_switch Let_def) (auto simp: tcached1_def)
next
  case (3 i ks)
  from 3(2,3) have "tcacheds l [] c ks" "distinct (idss ks)" by auto
  from 3(1) [OF this] obtain c' where
    "texts_passes l' True [] (rends la l [] ks) c = (rends la l' [] ks, c')"
    "tcacheds l' [] c' ks" "\<forall>i. i \<notin> set (idss ks) \<longrightarrow> c' i = c i" by blast
  then show ?case by auto
next
  case (4 i tag as ks)
  let ?ctx = "(tag, map fst as) # ctx"
  from 4(2,3) have "tcacheds l ?ctx c ks" "distinct (idss ks)" by auto
  from 4(1) [OF this] obtain c' where
    "texts_passes l' True ?ctx (rends la l ?ctx ks) c = (rends la l' ?ctx ks, c')"
    "tcacheds l' ?ctx c' ks" "\<forall>i. i \<notin> set (idss ks) \<longrightarrow> c' i = c i" by blast
  then show ?case by (auto simp: Let_def)
next
  case (6 k ks)
  then have k: "tcached l ctx c k" "distinct (ids k)" and ks: "tcacheds l ctx c ks"
    "distinct (idss ks)" and disj: "set (ids k) \<inter> set (idss ks) = {}" by auto
  obtain c1 where c1: "texts_pass l' True ctx (rend la l ctx k) c = (rend la l' ctx k, c1)"
    "tcached l' ctx c1 k" "\<forall>i. i \<notin> set (ids k) \<longrightarrow> c1 i = c i"
    using 6(1) [OF k] by blast
  have "tcacheds l ctx c1 ks"
    using ks(1) c1(3) disj tcached_cong(2) [of ks c1 c l ctx] by blast
  then obtain c2 where c2: "texts_passes l' True ctx (rends la l ctx ks) c1 = (rends la l' ctx ks, c2)"
    "tcacheds l' ctx c2 ks" "\<forall>i. i \<notin> set (idss ks) \<longrightarrow> c2 i = c1 i"
    using 6(2) ks(2) by blast
  moreover have "tcached l' ctx c2 k"
    using c1(2) c2(3) disj tcached_cong(1) [of k c2 c1 l' ctx] by blast
  ultimately show ?case using c1 by auto
qed auto

lemma texts_pass_fresh:
  "\<forall>i \<in> set (ids t). c i = None \<Longrightarrow> distinct (ids t) \<Longrightarrow> lt \<noteq> ''ru'' \<Longrightarrow>
     \<exists>c'. texts_pass l force ctx (rend la lt ctx t) c = (rend la l ctx t, c') \<and>
       tcached l ctx c' t \<and> (\<forall>i. i \<notin> set (ids t) \<longrightarrow> c' i = c i)"
  "\<forall>i \<in> set (idss ts). c i = None \<Longrightarrow> distinct (idss ts) \<Longrightarrow> lt \<noteq> ''ru'' \<Longrightarrow>
     \<exists>c'. texts_passes l force ctx (rends la lt ctx ts) c = (rends la l ctx ts, c') \<and>
       tcacheds l ctx c' ts \<and> (\<forall>i. i \<notin> set (idss ts) \<longrightarrow> c' i = c i)"
proof (induction t and ts arbitrary: ctx c and ctx c rule: ids_idss.induct)
  case (1 i v)
  let ?c' = "if ctx = [] \<or> text_skip ctx \<or> js_trim v = [] then c else c(i \<mapsto> (v, render l v))"
  from 1 have "rend_text lt ctx v = v" by (simp add: rend_text_def)
  moreover have "translateTextNode l force ctx i v c = (rend_text l ctx v, ?c')"
    by (rule translateTextNode_fresh) (use 1 in simp)
  moreover have "tcached1 l ctx ?c' i v" using 1(1) by (simp add: tcached1_def)
  ultimately show ?case by (intro exI [of _ ?c']) simp
next
  case (3 i ks)
  from 3(2-) have "\<forall>i \<in> set (idss ks). c i = None" "distinct (idss ks)" by auto
  from 3(1) [OF this 3(4)] obtain c' where
    "texts_passes l force [] (rends la lt [] ks) c = (rends la l [] ks, c')"
    "tcacheds l [] c' ks" "\<forall>i. i \<notin> set (idss ks) \<longrightarrow> c' i = c i" by blast
  then show ?case by auto
next
  case (4 i tag as ks)
  let ?ctx = "(tag, map fst as) # ctx"
  from 4(2-) have "\<forall>i \<in> set (idss ks). c i = None" "distinct (idss ks)" by auto
  from 4(1) [OF this 4(4)] obtain c' where
    "texts_passes l force ?ctx (rends la lt ?ctx ks) c = (rends la l ?ctx ks, c')"
    "tcacheds l ?ctx c' ks" "\<forall>i. i \<notin> set (idss ks) \<longrightarrow> c' i = c i" by blast
  then show ?case by (auto simp: Let_def)
next
  case (6 k ks)
  from 6(3-) have k: "\<forall>i \<in> set (ids k). c i = None" "distinct (ids k)"
    and ks: "\<forall>i \<in> set (idss ks). c i = None" "distinct (idss ks)"
    and disj: "set (ids k) \<inter> set (idss ks) = {}" by auto
  obtain c1 where c1: "texts_pass l force ctx (rend la lt ctx k) c = (rend la l ctx k, c1)"
    "tcached l ctx c1 k" "\<forall>i. i \<notin> set (ids k) \<longrightarrow> c1 i = c i"
    using 6(1) [OF k 6(5)] by blast
  have "\<forall>i \<in> set (idss ks). c1 i = None" using ks(1) c1(3) disj by auto
  then obtain c2 where c2: "texts_passes l force ctx (rends la lt ctx ks) c1 = (rends la l ctx ks, c2)"
    "tcacheds l ctx c2 ks" "\<forall>i. i \<notin> set (idss ks) \<longrightarrow> c2 i = c1 i"
    using 6(2) [OF _ ks(2) 6(5)] by blast
  moreover have "tcached l ctx c2 k"
    using c1(2) c2(3) disj tcached_cong(1) [of k c2 c1 l ctx] by blast
  ultimately show ?case using c1 by auto
qed auto

lemma texts_pass_quiet:
  "tcached l ctx c t \<Longrightarrow> texts_pass l False ctx (rend la l ctx t) c = (rend la l ctx t, c)"
  "tcacheds l ctx c ts \<Longrightarrow> texts_passes l False ctx (rends la l ctx ts) c = (rends la l ctx ts, c)"
  by (induction t and ts arbitrary: ctx and ctx rule: ids_idss.induct)
    (auto simp: translateTextNode_quiet Let_def)

subsection \<open>Attributes\<close>

definition attr_map :: "(string \<Rightarrow> jstr \<Rightarrow> jstr) \<Rightarrow> (string \<times> jstr) list \<Rightarrow> (string \<times> jstr) list" where
  "attr_map g as = map (\<lambda>(k, v). (k, g k v)) as"

lemma attr_map_fst [simp]: "map fst (attr_map g as) = map fst as"
  by (simp add: attr_map_def comp_def case_prod_unfold)

lemma map_of_attr_map: "map_of (attr_map g as) k = map_option (g k) (map_of as k)"
  by (induction as) (auto simp: attr_map_def)

lemma set_attr_map:
  "distinct (map fst as) \<Longrightarrow> map_of as name = Some v \<Longrightarrow>
     set_attr name (h v) (attr_map g as) = attr_map (g(name := h)) as"
proof (induction as)
  case (Cons kv as)
  show ?case
  proof (cases "fst kv = name")
    case True
    with Cons.prems have "name \<notin> set (map fst as)" by auto
    then have "attr_map (g(name := h)) as = attr_map g as"
      by (force simp: attr_map_def intro: map_cong)
    with Cons.prems True show ?thesis by (cases kv) (simp add: attr_map_def)
  next
    case False
    with Cons show ?thesis by (cases kv) (auto simp: attr_map_def)
  qed
qed simp

lemma attr_map_absent: "map_of as name = None \<Longrightarrow> attr_map (g(name := h)) as = attr_map g as"
  by (force simp: attr_map_def map_of_eq_None_iff intro: map_cong)

text \<open>The cache knows, or will take, the value \<open>v\<close> as the source of the attribute.\<close>

definition takes_source :: "bool \<Rightarrow> shown option \<Rightarrow> jstr \<Rightarrow> jstr \<Rightarrow> bool" where
  "takes_source force previous current v \<longleftrightarrow>
     (force \<or> \<not> still_shown previous current) \<and> source_of force previous current = v"

lemma attr_step_eq:
  assumes "distinct (map fst as)"
    and "\<And>v. map_of as name = Some v \<Longrightarrow> takes_source force (cache name) (g name v) v"
  shows "attr_step l force name (attr_map g as, cache) =
    (attr_map (g(name := translate l)) as,
     case map_of as name of None \<Rightarrow> cache | Some v \<Rightarrow> cache(name \<mapsto> (v, translate l v)))"
proof (cases "map_of as name")
  case None
  then show ?thesis by (simp add: attr_step_def map_of_attr_map attr_map_absent)
next
  case (Some v)
  with assms(2) have "takes_source force (cache name) (g name v) v" by simp
  then show ?thesis using Some assms(1)
    by (auto simp: attr_step_def map_of_attr_map takes_source_def set_attr_map Let_def)
qed

lemma attr_steps_eq:
  assumes "distinct (map fst as)" and "distinct ns"
    and "\<And>name v. name \<in> set ns \<Longrightarrow> map_of as name = Some v \<Longrightarrow>
           takes_source force (cache name) (g name v) v"
  shows "fold (attr_step l force) ns (attr_map g as, cache) =
    (attr_map (\<lambda>k. if k \<in> set ns then translate l else g k) as,
     \<lambda>k. if k \<in> set ns then (case map_of as k of None \<Rightarrow> cache k | Some v \<Rightarrow> Some (v, translate l v))
         else cache k)"
  using assms(2,3)
proof (induction ns arbitrary: g cache)
  case Nil
  then show ?case by simp
next
  case (Cons n ns)
  let ?g = "g(n := translate l)"
  let ?c = "case map_of as n of None \<Rightarrow> cache | Some v \<Rightarrow> cache(n \<mapsto> (v, translate l v))"
  have step: "attr_step l force n (attr_map g as, cache) = (attr_map ?g as, ?c)"
    by (rule attr_step_eq) (use assms(1) Cons.prems in auto)
  have src: "takes_source force (?c m) (?g m v) v" if "m \<in> set ns" "map_of as m = Some v" for m v
    using that Cons.prems by (auto split: option.splits)
  have "fold (attr_step l force) ns (attr_map ?g as, ?c) =
    (attr_map (\<lambda>k. if k \<in> set ns then translate l else ?g k) as,
     \<lambda>k. if k \<in> set ns then (case map_of as k of None \<Rightarrow> ?c k | Some v \<Rightarrow> Some (v, translate l v))
         else ?c k)"
    by (rule Cons.IH) (use src Cons.prems(1) in auto)
  moreover have "(\<lambda>k. if k \<in> set ns then translate l else ?g k) =
      (\<lambda>k. if k \<in> set (n # ns) then translate l else g k)" by auto
  moreover have "(\<lambda>k. if k \<in> set ns then (case map_of as k of None \<Rightarrow> ?c k
          | Some v \<Rightarrow> Some (v, translate l v)) else ?c k) =
      (\<lambda>k. if k \<in> set (n # ns) then (case map_of as k of None \<Rightarrow> cache k
          | Some v \<Rightarrow> Some (v, translate l v)) else cache k)"
    by (auto simp: fun_eq_iff split: option.splits)
  ultimately show ?case using step by simp
qed

lemma rend_attrs_map: "rend_attrs l ctx as = (if attr_skip ctx then as else
    attr_map (\<lambda>k v. if k \<in> set attributes then translate l v else v) as)"
  by (simp add: rend_attrs_def attr_map_def)

lemma distinct_attributes: "distinct attributes"
  by (simp add: attributes_def)

text \<open>The cache of an element is ready for a pass that makes \<open>l\<close> of what is shown in \<open>la\<close>.\<close>

definition aready1 :: "bool \<Rightarrow> string \<Rightarrow> elctx \<Rightarrow> acache \<Rightarrow> nat \<Rightarrow> (string \<times> jstr) list \<Rightarrow> bool" where
  "aready1 force la ctx c i as \<longleftrightarrow> attr_skip ctx \<or>
     (\<forall>name v. name \<in> set attributes \<longrightarrow> map_of as name = Some v \<longrightarrow>
        takes_source force (case c i of None \<Rightarrow> None | Some m \<Rightarrow> m name) (translate la v) v)"

lemma translateElementAttributes_eq:
  assumes "distinct (map fst as)" and "aready1 force la ctx c i as"
  shows "\<exists>m. translateElementAttributes l force ctx i (rend_attrs la ctx as) c =
      (rend_attrs l ctx as, if attr_skip ctx then c else c(i \<mapsto> m)) \<and>
      acached1 l ctx (if attr_skip ctx then c else c(i \<mapsto> m)) i as"
proof (cases "attr_skip ctx")
  case True
  then show ?thesis
    by (simp add: translateElementAttributes_def rend_attrs_def acached1_def)
next
  case False
  let ?m = "case c i of None \<Rightarrow> Map.empty | Some m \<Rightarrow> m"
  let ?g = "\<lambda>k v. if k \<in> set attributes then translate la v else v"
  let ?m' = "\<lambda>k. if k \<in> set attributes then (case map_of as k of None \<Rightarrow> ?m k
      | Some v \<Rightarrow> Some (v, translate l v)) else ?m k"
  have src: "takes_source force (?m name) (?g name v) v"
    if "name \<in> set attributes" "map_of as name = Some v" for name v
    using that assms(2) False by (cases "c i") (auto simp: aready1_def)
  have "fold (attr_step l force) attributes (attr_map ?g as, ?m) =
      (attr_map (\<lambda>k. if k \<in> set attributes then translate l else ?g k) as, ?m')"
    by (rule attr_steps_eq [OF assms(1) distinct_attributes]) (rule src)
  moreover have "attr_map (\<lambda>k. if k \<in> set attributes then translate l else ?g k) as =
      rend_attrs l ctx as"
    using False by (auto simp: rend_attrs_map attr_map_def intro: map_cong)
  moreover have "acached1 l ctx (c(i \<mapsto> ?m')) i as"
    using assms(1) by (auto simp: acached1_def)
  ultimately show ?thesis using False
    by (intro exI [of _ ?m']) (simp add: translateElementAttributes_def rend_attrs_map Let_def)
qed

lemma acached1_ready: "distinct (map fst as) \<Longrightarrow> acached1 la ctx c i as \<Longrightarrow> aready1 True la ctx c i as"
  by (auto simp: acached1_def aready1_def takes_source_def source_of_def dest!: map_of_SomeD)

lemma fresh_ready: "c i = None \<Longrightarrow> la \<noteq> ''ru'' \<Longrightarrow> aready1 force la ctx c i as"
  by (simp add: aready1_def takes_source_def source_of_def still_shown_def)

fun aready :: "bool \<Rightarrow> string \<Rightarrow> elctx \<Rightarrow> acache \<Rightarrow> dnode \<Rightarrow> bool"
and areadys :: "bool \<Rightarrow> string \<Rightarrow> elctx \<Rightarrow> acache \<Rightarrow> dnode list \<Rightarrow> bool" where
  "aready f la ctx c (Txt i v) = True"
| "aready f la ctx c (Other i) = True"
| "aready f la ctx c (Root i ks) = areadys f la [] c ks"
| "aready f la ctx c (Elem i tag as ks) =
     (aready1 f la ((tag, map fst as) # ctx) c i as \<and> areadys f la ((tag, map fst as) # ctx) c ks)"
| "areadys f la ctx c [] = True"
| "areadys f la ctx c (k # ks) = (aready f la ctx c k \<and> areadys f la ctx c ks)"

lemma aready_cong:
  "(\<And>i. i \<in> set (ids t) \<Longrightarrow> c i = c' i) \<Longrightarrow> aready f la ctx c t = aready f la ctx c' t"
  "(\<And>i. i \<in> set (idss ts) \<Longrightarrow> c i = c' i) \<Longrightarrow> areadys f la ctx c ts = areadys f la ctx c' ts"
  by (induction f la ctx c t and f la ctx c ts rule: aready_areadys.induct) (auto simp: aready1_def)

lemma acached_ready:
  "attrs_once t \<Longrightarrow> acached la ctx c t \<Longrightarrow> aready True la ctx c t"
  "attrs_onces ts \<Longrightarrow> acacheds la ctx c ts \<Longrightarrow> areadys True la ctx c ts"
  by (induction la ctx c t and la ctx c ts rule: acached_acacheds.induct) (auto simp: acached1_ready)

lemma fresh_readys:
  "\<forall>i \<in> set (ids t). c i = None \<Longrightarrow> la \<noteq> ''ru'' \<Longrightarrow> aready f la ctx c t"
  "\<forall>i \<in> set (idss ts). c i = None \<Longrightarrow> la \<noteq> ''ru'' \<Longrightarrow> areadys f la ctx c ts"
  by (induction f la ctx c t and f la ctx c ts rule: aready_areadys.induct) (auto simp: fresh_ready)

lemma elems_pass_ready:
  "aready f la ctx c t \<Longrightarrow> distinct (ids t) \<Longrightarrow> attrs_once t \<Longrightarrow>
     \<exists>c'. elems_pass l f ctx (rend la lt ctx t) c = (rend l lt ctx t, c') \<and>
       acached l ctx c' t \<and> (\<forall>i. i \<notin> set (ids t) \<longrightarrow> c' i = c i)"
  "areadys f la ctx c ts \<Longrightarrow> distinct (idss ts) \<Longrightarrow> attrs_onces ts \<Longrightarrow>
     \<exists>c'. elems_passes l f ctx (rends la lt ctx ts) c = (rends l lt ctx ts, c') \<and>
       acacheds l ctx c' ts \<and> (\<forall>i. i \<notin> set (idss ts) \<longrightarrow> c' i = c i)"
proof (induction t and ts arbitrary: ctx c and ctx c rule: ids_idss.induct)
  case (3 i ks)
  from 3(2-) have "areadys f la [] c ks" "distinct (idss ks)" "attrs_onces ks" by auto
  from 3(1) [OF this] obtain c' where
    "elems_passes l f [] (rends la lt [] ks) c = (rends l lt [] ks, c')"
    "acacheds l [] c' ks" "\<forall>i. i \<notin> set (idss ks) \<longrightarrow> c' i = c i" by blast
  then show ?case by auto
next
  case (4 i tag as ks)
  let ?ctx = "(tag, map fst as) # ctx"
  from 4(2-) have own: "aready1 f la ?ctx c i as" "distinct (map fst as)"
    and ks: "areadys f la ?ctx c ks" "distinct (idss ks)" "attrs_onces ks"
    and i: "i \<notin> set (idss ks)" by auto
  obtain m where m: "translateElementAttributes l f ?ctx i (rend_attrs la ?ctx as) c =
      (rend_attrs l ?ctx as, if attr_skip ?ctx then c else c(i \<mapsto> m))"
    "acached1 l ?ctx (if attr_skip ?ctx then c else c(i \<mapsto> m)) i as"
    using translateElementAttributes_eq [OF own(2,1), of l] by blast
  let ?c1 = "if attr_skip ?ctx then c else c(i \<mapsto> m)"
  have "areadys f la ?ctx ?c1 ks = areadys f la ?ctx c ks"
    by (rule aready_cong(2)) (use i in auto)
  with ks(1) have "areadys f la ?ctx ?c1 ks" by simp
  from 4(1) [OF this ks(2,3)] obtain c' where
    c': "elems_passes l f ?ctx (rends la lt ?ctx ks) ?c1 = (rends l lt ?ctx ks, c')"
    "acacheds l ?ctx c' ks" "\<forall>j. j \<notin> set (idss ks) \<longrightarrow> c' j = ?c1 j" by blast
  have "acached1 l ?ctx c' i as" using m(2) c'(3) i by (simp add: acached1_def)
  then show ?case using m(1) c' by (auto simp: Let_def)
next
  case (6 k ks)
  from 6(3-) have k: "aready f la ctx c k" "distinct (ids k)" "attrs_once k"
    and ks: "areadys f la ctx c ks" "distinct (idss ks)" "attrs_onces ks"
    and disj: "set (ids k) \<inter> set (idss ks) = {}" by auto
  obtain c1 where c1: "elems_pass l f ctx (rend la lt ctx k) c = (rend l lt ctx k, c1)"
    "acached l ctx c1 k" "\<forall>i. i \<notin> set (ids k) \<longrightarrow> c1 i = c i"
    using 6(1) [OF k] by blast
  have "areadys f la ctx c1 ks"
    using ks(1) c1(3) disj aready_cong(2) [of ks c1 c f la ctx] by blast
  then obtain c2 where c2: "elems_passes l f ctx (rends la lt ctx ks) c1 = (rends l lt ctx ks, c2)"
    "acacheds l ctx c2 ks" "\<forall>i. i \<notin> set (idss ks) \<longrightarrow> c2 i = c1 i"
    using 6(2) ks(2,3) by blast
  moreover have "acached l ctx c2 k"
    using c1(2) c2(3) disj acached_cong(1) [of k c2 c1 l ctx] by blast
  ultimately show ?case using c1 by auto
qed auto

lemma attr_steps_quiet:
  assumes "\<And>name current. name \<in> set ns \<Longrightarrow> map_of as name = Some current \<Longrightarrow>
             still_shown (cache name) current"
  shows "fold (attr_step l False) ns (as, cache) = (as, cache)"
  using assms by (induction ns) (auto simp: attr_step_def split: option.splits)

lemma translateElementAttributes_quiet:
  assumes "distinct (map fst as)" and "acached1 l ctx c i as"
  shows "translateElementAttributes l False ctx i (rend_attrs l ctx as) c = (rend_attrs l ctx as, c)"
proof (cases "attr_skip ctx")
  case True
  then show ?thesis by (simp add: translateElementAttributes_def)
next
  case False
  with assms(2) obtain m where m: "c i = Some m"
    "\<forall>(k, v) \<in> set as. k \<in> set attributes \<longrightarrow> m k = Some (v, translate l v)"
    by (auto simp: acached1_def)
  have "fold (attr_step l False) attributes (rend_attrs l ctx as, m) = (rend_attrs l ctx as, m)"
    by (rule attr_steps_quiet)
      (use False m(2) in \<open>auto simp: rend_attrs_map map_of_attr_map still_shown_def dest!: map_of_SomeD\<close>)
  then show ?thesis using False m(1)
    by (simp add: translateElementAttributes_def fun_upd_idem)
qed

lemma elems_pass_quiet:
  "attrs_once t \<Longrightarrow> acached l ctx c t \<Longrightarrow>
     elems_pass l False ctx (rend l lt ctx t) c = (rend l lt ctx t, c)"
  "attrs_onces ts \<Longrightarrow> acacheds l ctx c ts \<Longrightarrow>
     elems_passes l False ctx (rends l lt ctx ts) c = (rends l lt ctx ts, c)"
  by (induction t and ts arbitrary: ctx and ctx rule: ids_idss.induct)
    (auto simp: translateElementAttributes_quiet Let_def)

subsection \<open>The page as a whole\<close>

text \<open>
  The simulation: the page \<open>p\<close> shows the English document \<open>t0\<close> in its current language, and its
  caches remember every source.
\<close>

definition showing :: "dnode \<Rightarrow> page \<Rightarrow> bool" where
  "showing t0 p \<longleftrightarrow> wf_doc t0 \<and> lang p \<in> supportedLanguages \<and>
     document p = rend (lang p) (lang p) [] t0 \<and>
     acached (lang p) [] (translatedAttributes p) t0 \<and>
     tcached (lang p) [] (translatedText p) t0"

lemma rend_attrs_en [simp]: "la \<noteq> ''ru'' \<Longrightarrow> rend_attrs la ctx as = as"
  by (induction as) (auto simp: rend_attrs_def)

lemma rend_en:
  "la \<noteq> ''ru'' \<Longrightarrow> lt \<noteq> ''ru'' \<Longrightarrow> rend la lt ctx t = t"
  "la \<noteq> ''ru'' \<Longrightarrow> lt \<noteq> ''ru'' \<Longrightarrow> rends la lt ctx ts = ts"
  by (induction la lt ctx t and la lt ctx ts rule: rend_rends.induct)
    (auto simp: rend_text_def Let_def)

lemma apply_node_ready:
  assumes "wf_doc t" "aready f la [] ac t"
    and "\<exists>tc'. texts_pass l f [] (rend l lt [] t) tc = (rend l l [] t, tc') \<and> tcached l [] tc' t"
  shows "\<exists>ac' tc'. apply_node l f [] (rend la lt [] t) (ac, tc) = (rend l l [] t, ac', tc') \<and>
    acached l [] ac' t \<and> tcached l [] tc' t"
proof -
  obtain ac' where "elems_pass l f [] (rend la lt [] t) ac = (rend l lt [] t, ac')"
    "acached l [] ac' t"
    using elems_pass_ready(1) [OF assms(2), of l lt] assms(1) by (auto simp: wf_doc_def)
  with assms(3) show ?thesis by (auto simp: apply_node_def)
qed

lemma init_showing:
  assumes "wf_doc d"
  shows "showing d (init (load_page kept blk bs d))"
proof -
  let ?p = "load_page kept blk bs d" let ?l = "lang ?p"
  have sup: "?l \<in> supportedLanguages" by (simp add: load_page_def readLanguage_supported)
  obtain tc' where "texts_pass ?l False [] (rend ?l ''en'' [] d) Map.empty = (rend ?l ?l [] d, tc')"
    "tcached ?l [] tc' d"
    using texts_pass_fresh(1) [where t = d and c = Map.empty and lt = "''en''" and l = ?l and la = ?l
      and force = False and ctx = "[]"] assms
    by (auto simp: wf_doc_def)
  then obtain ac' tc' where "apply_node ?l False [] (rend ''en'' ''en'' [] d) (Map.empty, Map.empty) =
      (rend ?l ?l [] d, ac', tc')" "acached ?l [] ac' d" "tcached ?l [] tc' d"
    using apply_node_ready [OF assms, of False "''en''" Map.empty ?l "''en''" Map.empty]
      fresh_readys(1) [of d Map.empty "''en''" False "[]"] by auto
  moreover have "document ?p = d" "translatedText ?p = Map.empty" "translatedAttributes ?p = Map.empty"
    by (simp_all add: load_page_def)
  ultimately show ?thesis
    using sup assms by (simp add: init_def apply_document_def showing_def rend_en)
qed

lemma setLanguage_showing:
  assumes "showing t0 p"
  shows "showing t0 (setLanguage l p)"
proof (cases "l \<notin> supportedLanguages \<or> l = lang p")
  case True
  then show ?thesis using assms by (simp add: setLanguage_def)
next
  case False
  from assms have wf: "wf_doc t0" and doc: "document p = rend (lang p) (lang p) [] t0"
    and ac: "acached (lang p) [] (translatedAttributes p) t0"
    and tc: "tcached (lang p) [] (translatedText p) t0" by (auto simp: showing_def)
  obtain tc' where "texts_pass l True [] (rend l (lang p) [] t0) (translatedText p) = (rend l l [] t0, tc')"
    "tcached l [] tc' t0"
    using texts_pass_switch(1) [OF tc, of l l] wf by (auto simp: wf_doc_def)
  then obtain ac' tc' where "apply_node l True [] (rend (lang p) (lang p) [] t0)
      (translatedAttributes p, translatedText p) = (rend l l [] t0, ac', tc')"
    "acached l [] ac' t0" "tcached l [] tc' t0"
    using apply_node_ready [OF wf, of True "lang p" "translatedAttributes p" l "lang p" "translatedText p"]
      acached_ready(1) [OF _ ac] wf by (auto simp: wf_doc_def)
  then show ?thesis using False wf doc
    by (simp add: setLanguage_def apply_document_def showing_def Let_def)
qed

lemma lang_setLanguage:
  "lang (setLanguage l p) = (if l \<in> supportedLanguages then l else lang p)"
  by (auto simp: setLanguage_def apply_document_def Let_def split: prod.splits)

subsection \<open>Records of the observer\<close>

lemma apply_node_quiet:
  "attrs_once t \<Longrightarrow> acached l ctx ac t \<Longrightarrow> tcached l ctx tc t \<Longrightarrow>
     apply_node l False ctx (rend l l ctx t) (ac, tc) = (rend l l ctx t, ac, tc)"
  by (simp add: apply_node_def elems_pass_quiet texts_pass_quiet)

lemma attrs_of_target_quiet:
  "attrs_once t \<Longrightarrow> acached l ctx ac t \<Longrightarrow>
     attrs_of_target l ctx (rend l l ctx t) (ac, tc) = (rend l l ctx t, ac, tc)"
  by (cases t) (auto simp: attrs_of_target_def translateElementAttributes_quiet Let_def)

lemma on_node_quiet:
  assumes "\<And>ctx t. attrs_once t \<Longrightarrow> acached l ctx ac t \<Longrightarrow> tcached l ctx tc t \<Longrightarrow>
             f ctx (rend l l ctx t) (ac, tc) = (rend l l ctx t, ac, tc)"
  shows "attrs_once t \<Longrightarrow> acached l ctx ac t \<Longrightarrow> tcached l ctx tc t \<Longrightarrow>
      on_node j f ctx (rend l l ctx t) (ac, tc) = (rend l l ctx t, ac, tc)"
    and "attrs_onces ts \<Longrightarrow> acacheds l ctx ac ts \<Longrightarrow> tcacheds l ctx tc ts \<Longrightarrow>
      on_nodes j f ctx (rends l l ctx ts) (ac, tc) = (rends l l ctx ts, ac, tc)"
proof (induction t and ts arbitrary: ctx and ctx rule: ids_idss.induct)
  case (1 i v)
  then show ?case using assms [of "Txt i v" ctx] by auto
next
  case (2 i)
  then show ?case using assms [of "Other i" ctx] by auto
next
  case (3 i ks)
  then show ?case using assms [of "Root i ks" ctx] by auto
next
  case (4 i tag as ks)
  then show ?case using assms [of "Elem i tag as ks" ctx] by (auto simp: Let_def)
qed auto

lemma run_on_quiet:
  assumes "showing t0 p"
    and "\<And>ctx t. attrs_once t \<Longrightarrow> acached (lang p) ctx (translatedAttributes p) t \<Longrightarrow>
           tcached (lang p) ctx (translatedText p) t \<Longrightarrow>
           f ctx (rend (lang p) (lang p) ctx t) (translatedAttributes p, translatedText p) =
             (rend (lang p) (lang p) ctx t, translatedAttributes p, translatedText p)"
  shows "run_on j f p = p"
  using on_node_quiet(1) [where l = "lang p" and f = f and ac = "translatedAttributes p"
      and tc = "translatedText p" and ctx = "[]" and t = t0 and j = j, OF assms(2)] assms(1)
  by (simp add: run_on_def showing_def wf_doc_def)

lemma run_apply_quiet:
  "showing t0 p \<Longrightarrow> run_on j (apply_node (lang p) False) p = p"
  by (rule run_on_quiet) (auto intro: apply_node_quiet)

lemma observe_quiet:
  assumes "showing t0 p"
  shows "observe r p = p"
proof (cases r)
  case (CharacterData j)
  then show ?thesis using assms run_apply_quiet by simp
next
  case (ChildList js)
  have "fold (\<lambda>j q. run_on j (apply_node (lang q) False) q) js p = p"
    by (induction js) (use assms run_apply_quiet in auto)
  then show ?thesis using ChildList by simp
next
  case (AttributeChange j)
  then show ?thesis using assms
    by (simp, intro run_on_quiet) (auto intro: attrs_of_target_quiet)
qed

subsection \<open>A script of the page writes a text\<close>

fun put_text :: "nat \<Rightarrow> jstr \<Rightarrow> dnode \<Rightarrow> dnode" and put_texts :: "nat \<Rightarrow> jstr \<Rightarrow> dnode list \<Rightarrow> dnode list" where
  "put_text j v (Txt i w) = (if i = j then Txt i v else Txt i w)"
| "put_text j v (Other i) = Other i"
| "put_text j v (Root i ks) = Root i (put_texts j v ks)"
| "put_text j v (Elem i tag as ks) = Elem i tag as (put_texts j v ks)"
| "put_texts j v [] = []"
| "put_texts j v (k # ks) = put_text j v k # put_texts j v ks"

fun text_ids :: "dnode \<Rightarrow> nat list" and text_idss :: "dnode list \<Rightarrow> nat list" where
  "text_ids (Txt i v) = [i]"
| "text_ids (Other i) = []"
| "text_ids (Root i ks) = text_idss ks"
| "text_ids (Elem i tag as ks) = text_idss ks"
| "text_idss [] = []"
| "text_idss (k # ks) = text_ids k @ text_idss ks"

lemma text_ids_subset:
  "set (text_ids t) \<subseteq> set (ids t)" "set (text_idss ts) \<subseteq> set (idss ts)"
  by (induction t and ts rule: ids_idss.induct) auto

lemma ids_put_text [simp]: "ids (put_text j v t) = ids t" "idss (put_texts j v ts) = idss ts"
  by (induction j v t and j v ts rule: put_text_put_texts.induct) auto

lemma attrs_once_put_text [simp]:
  "attrs_once (put_text j v t) = attrs_once t" "attrs_onces (put_texts j v ts) = attrs_onces ts"
  by (induction j v t and j v ts rule: put_text_put_texts.induct) auto

lemma acached_put_text [simp]:
  "acached l ctx c (put_text j v t) = acached l ctx c t"
  "acacheds l ctx c (put_texts j v ts) = acacheds l ctx c ts"
  by (induction t and ts arbitrary: ctx and ctx rule: ids_idss.induct) auto

lemma put_text_absent: "j \<notin> set (ids t) \<Longrightarrow> put_text j v t = t" "j \<notin> set (idss ts) \<Longrightarrow> put_texts j v ts = ts"
  by (induction t and ts rule: ids_idss.induct) auto

lemma ids_rend [simp]: "ids (rend la lt ctx t) = ids t" "idss (rends la lt ctx ts) = idss ts"
  by (induction la lt ctx t and la lt ctx ts rule: rend_rends.induct) (auto simp: Let_def)

lemma on_node_absent:
  "j \<notin> set (ids t) \<Longrightarrow> on_node j f ctx t st = (t, st)"
  "j \<notin> set (idss ts) \<Longrightarrow> on_nodes j f ctx ts st = (ts, st)"
  by (induction t and ts arbitrary: ctx and ctx rule: ids_idss.induct) auto

text \<open>Writing the text and delivering its record, seen from the English document.\<close>

definition write_at :: "jstr \<Rightarrow> elctx \<Rightarrow> dnode \<Rightarrow> unit \<Rightarrow> dnode \<times> unit" where
  "write_at v ctx n s = (case n of Txt i w \<Rightarrow> Txt i v | _ \<Rightarrow> n, s)"

lemma set_text_write_at: "set_text j v p = p\<lparr>document := fst (on_node j (write_at v) [] (document p) ())\<rparr>"
  by (simp add: set_text_def write_at_def [abs_def])

lemma write_delivered:
  assumes v: "js_trim v \<noteq> []" and new: "\<not> still_shown (tc j) v"
  shows "j \<in> set (text_ids t) \<Longrightarrow> distinct (ids t) \<Longrightarrow> tcached l ctx tc t \<Longrightarrow>
      \<exists>tc'. on_node j (apply_node l False) ctx (fst (on_node j (write_at v) ctx (rend l l ctx t) ())) (ac, tc)
         = (rend l l ctx (put_text j v t), ac, tc') \<and>
       tcached l ctx tc' (put_text j v t) \<and> (\<forall>i. i \<noteq> j \<longrightarrow> tc' i = tc i)"
    and "j \<in> set (text_idss ts) \<Longrightarrow> distinct (idss ts) \<Longrightarrow> tcacheds l ctx tc ts \<Longrightarrow>
      \<exists>tc'. on_nodes j (apply_node l False) ctx (fst (on_nodes j (write_at v) ctx (rends l l ctx ts) ())) (ac, tc)
         = (rends l l ctx (put_texts j v ts), ac, tc') \<and>
       tcacheds l ctx tc' (put_texts j v ts) \<and> (\<forall>i. i \<noteq> j \<longrightarrow> tc' i = tc i)"
proof (induction t and ts arbitrary: ctx and ctx rule: ids_idss.induct)
  case (1 i w)
  then have "i = j" by simp
  moreover have "translateTextNode l False ctx j v tc = (rend_text l ctx v,
      if ctx = [] \<or> text_skip ctx then tc else tc(j \<mapsto> (v, render l v)))"
    using v new by (auto simp: translateTextNode_eq rend_text_def source_of_def Let_def split: option.splits)
  moreover have "tcached1 l ctx (if ctx = [] \<or> text_skip ctx then tc else tc(j \<mapsto> (v, render l v))) j v"
    using v by (simp add: tcached1_def)
  ultimately show ?case by (simp add: write_at_def apply_node_def)
next
  case (3 i ks)
  then have "i \<noteq> j" using text_ids_subset(2) [of ks] by auto
  from 3(2-) have "j \<in> set (text_idss ks)" "distinct (idss ks)" "tcacheds l [] tc ks" by auto
  from 3(1) [OF this] \<open>i \<noteq> j\<close> show ?case by (auto split: prod.splits)
next
  case (4 i tag as ks)
  let ?ctx = "(tag, map fst as) # ctx"
  from 4 have "i \<noteq> j" using text_ids_subset(2) [of ks] by auto
  from 4(2-) have "j \<in> set (text_idss ks)" "distinct (idss ks)" "tcacheds l ?ctx tc ks" by auto
  from 4(1) [OF this] \<open>i \<noteq> j\<close> show ?case by (auto simp: Let_def split: prod.splits)
next
  case (6 k ks)
  from 6(3-) have dist: "distinct (ids k)" "distinct (idss ks)" and disj: "set (ids k) \<inter> set (idss ks) = {}"
    and tc: "tcached l ctx tc k" "tcacheds l ctx tc ks" by auto
  show ?case
  proof (cases "j \<in> set (text_ids k)")
    case True
    with disj have absent: "j \<notin> set (idss ks)" using text_ids_subset(1) [of k] by blast
    obtain tc' where tc': "on_node j (apply_node l False) ctx
        (fst (on_node j (write_at v) ctx (rend l l ctx k) ())) (ac, tc) =
        (rend l l ctx (put_text j v k), ac, tc')" "tcached l ctx tc' (put_text j v k)"
      "\<forall>i. i \<noteq> j \<longrightarrow> tc' i = tc i" using 6(1) [OF True dist(1) tc(1)] by blast
    have "tcacheds l ctx tc' ks = tcacheds l ctx tc ks"
      by (rule tcached_cong(2)) (use tc'(3) absent in auto)
    with tc' tc(2) absent show ?thesis
      by (auto simp: on_node_absent put_text_absent split: prod.splits)
  next
    case False
    with 6(3) have "j \<in> set (text_idss ks)" by simp
    with disj have absent: "j \<notin> set (ids k)" using text_ids_subset(2) [of ks] by blast
    obtain tc' where tc': "on_nodes j (apply_node l False) ctx
        (fst (on_nodes j (write_at v) ctx (rends l l ctx ks) ())) (ac, tc) =
        (rends l l ctx (put_texts j v ks), ac, tc')" "tcacheds l ctx tc' (put_texts j v ks)"
      "\<forall>i. i \<noteq> j \<longrightarrow> tc' i = tc i" using 6(2) [OF \<open>j \<in> set (text_idss ks)\<close> dist(2) tc(2)] by blast
    have "tcached l ctx tc' k = tcached l ctx tc k"
      by (rule tcached_cong(1)) (use tc'(3) absent in auto)
    with tc' tc(1) absent show ?thesis
      by (auto simp: on_node_absent put_text_absent split: prod.splits)
  qed
qed auto

lemma write_showing:
  assumes "showing t0 p" and "j \<in> set (text_ids t0)" and "js_trim v \<noteq> []"
    and "\<not> still_shown (translatedText p j) v"
  shows "showing (put_text j v t0) (observe (CharacterData j) (set_text j v p))"
proof -
  from assms(1) have "distinct (ids t0)" "tcached (lang p) [] (translatedText p) t0"
    by (auto simp: showing_def wf_doc_def)
  from write_delivered(1) [OF assms(3,4,2) this, of "translatedAttributes p"] assms(1)
  show ?thesis
    by (auto simp: showing_def wf_doc_def run_on_def set_text_write_at split: prod.splits)
qed

subsection \<open>Runs of the page\<close>

text \<open>
  What can happen to a page that has been loaded: the user picks a language, a record arrives,
  or a script writes a text that is not blank and not what the node already shows, and the
  record of that write arrives.
\<close>

inductive page_step :: "page \<Rightarrow> page \<Rightarrow> bool" where
  switch: "page_step p (setLanguage l p)"
| clicked: "page_step p (on_click target p)"
| record_arrives: "page_step p (observe r p)"
| script_writes: "j \<in> set (text_ids (document p)) \<Longrightarrow> js_trim v \<noteq> [] \<Longrightarrow>
     \<not> still_shown (translatedText p j) v \<Longrightarrow>
     page_step p (observe (CharacterData j) (set_text j v p))"

inductive page_run :: "dnode \<Rightarrow> page \<Rightarrow> bool" where
  loaded: "wf_doc d \<Longrightarrow> page_run d (init (load_page kept blk bs d))"
| stepped: "page_run d p \<Longrightarrow> page_step p q \<Longrightarrow> page_run d q"

inductive_cases page_stepE: "page_step p q"

lemma text_ids_rend [simp]:
  "text_ids (rend la lt ctx t) = text_ids t" "text_idss (rends la lt ctx ts) = text_idss ts"
  by (induction la lt ctx t and la lt ctx ts rule: rend_rends.induct) (auto simp: Let_def)

lemma page_run_showing: "page_run d p \<Longrightarrow> \<exists>t0. showing t0 p"
proof (induction rule: page_run.induct)
  case (loaded d kept blk bs)
  then show ?case using init_showing by blast
next
  case (stepped d p q)
  then obtain t0 where t0: "showing t0 p" by blast
  from stepped(2) show ?case
  proof (cases rule: page_step.cases)
    case (switch l)
    then show ?thesis using t0 setLanguage_showing by blast
  next
    case (clicked target)
    then show ?thesis using t0 setLanguage_showing by (cases target) (auto simp: on_click_def)
  next
    case (record_arrives r)
    then show ?thesis using t0 observe_quiet by metis
  next
    case (script_writes j v)
    then have "j \<in> set (text_ids t0)" using t0 by (simp add: showing_def)
    then show ?thesis using t0 script_writes write_showing by blast
  qed
qed

text \<open>
  The same runs as sequences of events, and what they mean without any cache: the language picked
  last and the English document with the texts the scripts wrote into it.
\<close>

datatype page_event = Pick string | Click "string option" | Record mutation | Write nat jstr

fun happen :: "page_event \<Rightarrow> page \<Rightarrow> page" where
  "happen (Pick l) p = setLanguage l p"
| "happen (Click target) p = on_click target p"
| "happen (Record r) p = observe r p"
| "happen (Write j v) p = observe (CharacterData j) (set_text j v p)"

fun can_happen :: "page_event \<Rightarrow> page \<Rightarrow> bool" where
  "can_happen (Write j v) p \<longleftrightarrow> j \<in> set (text_ids (document p)) \<and> js_trim v \<noteq> [] \<and>
     \<not> still_shown (translatedText p j) v"
| "can_happen e p \<longleftrightarrow> True"

fun can_all_happen :: "page_event list \<Rightarrow> page \<Rightarrow> bool" where
  "can_all_happen [] p \<longleftrightarrow> True"
| "can_all_happen (e # es) p \<longleftrightarrow> can_happen e p \<and> can_all_happen es (happen e p)"

definition pick_language :: "string \<Rightarrow> string \<times> dnode \<Rightarrow> string \<times> dnode" where
  "pick_language l v = (if l \<in> supportedLanguages then (l, snd v) else v)"

fun english_event :: "page_event \<Rightarrow> string \<times> dnode \<Rightarrow> string \<times> dnode" where
  "english_event (Pick l) v = pick_language l v"
| "english_event (Click target) v = (case target of None \<Rightarrow> v | Some l \<Rightarrow> pick_language l v)"
| "english_event (Record r) v = v"
| "english_event (Write j w) v = (fst v, put_text j w (snd v))"

lemma happen_showing:
  assumes "showing t p" and "can_happen e p"
  shows "showing (snd (english_event e (lang p, t))) (happen e p) \<and>
    lang (happen e p) = fst (english_event e (lang p, t))"
proof (cases e)
  case (Pick l)
  then show ?thesis using setLanguage_showing [OF assms(1), of l] by (simp add: pick_language_def lang_setLanguage)
next
  case (Click target)
  then show ?thesis
    using setLanguage_showing [OF assms(1)] assms(1)
    by (simp add: pick_language_def lang_setLanguage on_click_def split: option.split)
next
  case (Record r)
  then show ?thesis using observe_quiet [OF assms(1)] assms(1) by simp
next
  case (Write j v)
  then have "showing (put_text j v t) (observe (CharacterData j) (set_text j v p))"
    using assms by (intro write_showing) (simp_all add: showing_def)
  moreover have "lang (observe (CharacterData j) (set_text j v p)) = lang p"
    by (simp add: run_on_def set_text_def split: prod.splits)
  ultimately show ?thesis using Write by simp
qed

lemma events_showing:
  assumes "showing t p" and "can_all_happen es p"
  shows "showing (snd (fold english_event es (lang p, t))) (fold happen es p) \<and>
    lang (fold happen es p) = fst (fold english_event es (lang p, t))"
  using assms
proof (induction es arbitrary: t p)
  case (Cons e es)
  from Cons.prems have now: "can_happen e p" and later: "can_all_happen es (happen e p)" by simp_all
  note h = happen_showing [OF Cons.prems(1) now]
  have "(lang (happen e p), snd (english_event e (lang p, t))) = english_event e (lang p, t)"
    using h by (simp add: prod_eq_iff)
  then show ?case using Cons.IH [OF conjunct1 [OF h] later] by simp
qed simp

text \<open>The switch shows the language: every button and the \<open>lang\<close> of the document element.\<close>

definition controls_ok :: "page \<Rightarrow> bool" where
  "controls_ok p \<longleftrightarrow> html_lang p = lang p \<and> buttons p = map (show_choice (lang p)) (buttons p)"

lemma show_choice_idem [simp]: "show_choice l (show_choice l b) = show_choice l b"
  by (simp add: show_choice_def)

lemma controls_updated [simp]: "controls_ok (updateControls p)"
  by (simp add: controls_ok_def updateControls_def)

lemma apply_document_controls [simp]: "controls_ok (apply_document f p) = controls_ok p"
  by (simp add: apply_document_def controls_ok_def split: prod.splits)

lemma run_on_controls [simp]: "controls_ok (run_on j f p) = controls_ok p"
  by (simp add: run_on_def controls_ok_def split: prod.splits)

lemma fold_run_on_controls: "controls_ok (fold (\<lambda>j q. run_on j (f q) q) js p) = controls_ok p"
  by (induction js arbitrary: p) simp_all

lemma observe_controls [simp]: "controls_ok (observe r p) = controls_ok p"
  by (cases r) (simp_all add: fold_run_on_controls)

lemma set_text_controls [simp]: "controls_ok (set_text j v p) = controls_ok p"
  by (simp add: set_text_def controls_ok_def)

lemma setLanguage_controls: "controls_ok p \<Longrightarrow> controls_ok (setLanguage l p)"
proof -
  have "controls_ok (q\<lparr>events := es\<rparr>) = controls_ok q" for q es by (simp add: controls_ok_def)
  then show "controls_ok p \<Longrightarrow> controls_ok (setLanguage l p)"
    by (simp add: setLanguage_def Let_def)
qed

definition page_start :: "page \<Rightarrow> bool" where
  "page_start p \<longleftrightarrow> (\<exists>kept blk bs d. wf_doc d \<and> p = init (load_page kept blk bs d))"

lemma page_step_controls: "controls_ok p \<Longrightarrow> page_step p q \<Longrightarrow> controls_ok q"
  by (erule page_stepE) (auto simp: setLanguage_controls on_click_def split: option.split)

interpretation switch_shown: step_system page_start page_step controls_ok
  by unfold_locales (auto simp: page_start_def init_def page_step_controls)

lemma page_run_start: "page_run d p \<Longrightarrow> \<exists>p0. page_start p0 \<and> page_step\<^sup>*\<^sup>* p0 p"
proof (induction rule: page_run.induct)
  case (loaded d kept blk bs)
  then have "page_start (init (load_page kept blk bs d))" by (auto simp: page_start_def)
  then show ?case by blast
next
  case (stepped d p q)
  then show ?case by (meson rtranclp.rtrancl_into_rtrancl)
qed

lemma page_run_announced:
  "page_run d p \<Longrightarrow> events p \<noteq> [] \<Longrightarrow>
     last (events p) = lang p \<and> (\<not> blocked p \<longrightarrow> stored p = Some (lang p))"
proof (induction rule: page_run.induct)
  case (loaded d kept blk bs)
  then show ?case by (simp add: init_def apply_document_def load_page_def split: prod.splits)
next
  case (stepped d p q)
  obtain t0 where t0: "showing t0 p" using page_run_showing [OF stepped(1)] by blast
  from stepped(2) show ?case
  proof (cases rule: page_step.cases)
    case (switch l)
    then show ?thesis using stepped.IH stepped.prems
      by (auto simp: setLanguage_def apply_document_def Let_def split: prod.splits if_splits)
  next
    case (clicked target)
    then show ?thesis using stepped.IH stepped.prems
      by (cases target)
        (auto simp: on_click_def setLanguage_def apply_document_def Let_def split: prod.splits if_splits)
  next
    case (record_arrives r)
    then show ?thesis using stepped.IH stepped.prems t0 observe_quiet by metis
  next
    case (script_writes j v)
    then show ?thesis using stepped.IH stepped.prems
      by (simp add: run_on_def set_text_def split: prod.splits)
  qed
qed

definition sample_doc :: dnode where
  "sample_doc = Root 0 [Elem 1 ''p'' [(''title'', asc ''Total'')] [Txt 2 (asc ''Servers''), Other 3]]"

lemma sample_wf: "wf_doc sample_doc"
  by (simp add: sample_doc_def wf_doc_def)

lemma sample_run: "page_run sample_doc (init (load_page None False [] sample_doc))"
  by (rule page_run.loaded [OF sample_wf])

lemma sample_en: "lang (init (load_page None False [] sample_doc)) = ''en''"
  by (simp add: init_def apply_document_def load_page_def readLanguage_def split: prod.splits)

lemma sample_cache:
  "translatedText (init (load_page None False [] sample_doc)) 2 = Some (asc ''Servers'', asc ''Servers'')"
proof -
  have "showing sample_doc (init (load_page None False [] sample_doc))"
    by (rule init_showing [OF sample_wf])
  then have "tcached ''en'' [] (translatedText (init (load_page None False [] sample_doc))) sample_doc"
    by (simp add: showing_def sample_en)
  then show ?thesis
    by (simp add: sample_doc_def tcached1_def text_skip_def js_trim_def asc_def is_space_def)
qed

subsection \<open>Properties\<close>

text \<open>
  C3: After any sequence of events (languages picked or clicked, records delivered in any order and
  number, texts written by scripts) the page is exactly the rendering, in the language picked last,
  of the English document that was loaded with the written texts put in: no text or attribute in
  scope is left in another language, none is translated twice, and nothing out of scope moves. On an
  English page in particular every text is the one loaded or written last. The document is well
  formed (every node once, every attribute once), and a written text is not blank and differs from
  the two texts the cache holds for its node (the findings show what happens to the others).
\<close>

theorem page_shows_language:
  assumes "wf_doc d" and "can_all_happen es (init (load_page kept blk bs d))"
    and "fold english_event es (readLanguage (if blk then None else Some kept), d) = (l, t)"
  shows "lang (fold happen es (init (load_page kept blk bs d))) = l \<and>
    document (fold happen es (init (load_page kept blk bs d))) = rend l l [] t"
proof -
  let ?p = "init (load_page kept blk bs d)"
  have "lang ?p = readLanguage (if blk then None else Some kept)"
    by (simp add: init_def apply_document_def load_page_def split: prod.splits)
  then show ?thesis
    using events_showing [OF init_showing [OF assms(1)] assms(2)] assms(3) by (simp add: showing_def)
qed

theorem page_shows_language_witness:
  "document (setLanguage ''ru'' (observe (CharacterData 2)
     (set_text 2 (asc ''All'') (init (load_page None False [] sample_doc))))) =
   rend ''ru'' ''ru'' [] (Root 0 [Elem 1 ''p'' [(''title'', asc ''Total'')] [Txt 2 (asc ''All''), Other 3]])"
proof -
  let ?es = "[Write 2 (asc ''All''), Pick ''ru'']" and ?p = "init (load_page None False [] sample_doc)"
  have "document ?p = sample_doc"
    using init_showing [OF sample_wf, of None False "[]"] by (simp add: showing_def sample_en rend_en)
  then have "2 \<in> set (text_ids (document ?p))" by (simp only:) (simp add: sample_doc_def)
  moreover have "\<not> still_shown (translatedText ?p 2) (asc ''All'')"
    by (simp add: still_shown_def sample_cache) (simp add: asc_def)
  moreover have "js_trim (asc ''All'') \<noteq> []" by (simp add: js_trim_def asc_def is_space_def)
  ultimately have "can_all_happen ?es ?p" by (simp del: happen.simps)
  moreover have "fold english_event ?es (readLanguage (if False then None else Some None), sample_doc) =
      (''ru'', put_text 2 (asc ''All'') sample_doc)"
    by (simp add: pick_language_def supportedLanguages_def)
  ultimately have "document (fold happen ?es ?p) = rend ''ru'' ''ru'' [] (put_text 2 (asc ''All'') sample_doc)"
    by (rule conjunct2 [OF page_shows_language [OF sample_wf]])
  moreover have "put_text 2 (asc ''All'') sample_doc =
      Root 0 [Elem 1 ''p'' [(''title'', asc ''Total'')] [Txt 2 (asc ''All''), Other 3]]"
    by (simp add: sample_doc_def)
  ultimately show ?thesis by (simp del: observe.simps)
qed

text \<open>
  C5: Changing the language and changing back restores the document exactly, texts and
  attributes, from any page a run reaches.
\<close>

theorem language_round_trip:
  assumes "page_run d p"
  shows "document (setLanguage (lang p) (setLanguage l p)) = document p"
proof -
  obtain t0 where t0: "showing t0 p" using page_run_showing [OF assms] by blast
  then have "showing t0 (setLanguage (lang p) (setLanguage l p))"
    by (intro setLanguage_showing)
  moreover have "lang (setLanguage (lang p) (setLanguage l p)) = lang p"
    using t0 by (simp add: lang_setLanguage showing_def)
  ultimately show ?thesis using t0 by (simp add: showing_def)
qed

theorem language_round_trip_witness:
  "document (setLanguage (lang (init (load_page None False [] sample_doc)))
      (setLanguage ''ru'' (init (load_page None False [] sample_doc)))) =
   document (init (load_page None False [] sample_doc))"
  by (rule language_round_trip [OF sample_run])

text \<open>
  C26: The observer cannot drive itself: on a page a run reaches, delivering any record (its own
  writes included) changes neither the document nor a cache, so the mutations the translation
  makes trigger no further ones.
\<close>

theorem observer_settles:
  assumes "page_run d p"
  shows "observe r p = p"
  using page_run_showing [OF assms] observe_quiet by blast

theorem observer_settles_witness:
  "observe (ChildList [1, 2]) (init (load_page None False [] sample_doc)) =
   init (load_page None False [] sample_doc)"
  by (rule observer_settles [OF sample_run])

text \<open>
  A text a script writes is shown in the current language as soon as its record is delivered,
  and nothing else of the page changes: the document is then the rendering of the old English
  document with that one text replaced.
\<close>

theorem written_text_is_shown:
  assumes "showing t0 p" and "j \<in> set (text_ids t0)" and "js_trim v \<noteq> []"
    and "\<not> still_shown (translatedText p j) v"
  shows "document (observe (CharacterData j) (set_text j v p)) =
           rend (lang p) (lang p) [] (put_text j v t0)"
proof -
  have "showing (put_text j v t0) (observe (CharacterData j) (set_text j v p))"
    by (rule write_showing [OF assms])
  moreover have "lang (observe (CharacterData j) (set_text j v p)) = lang p"
    by (simp add: run_on_def set_text_def split: prod.splits)
  ultimately show ?thesis by (simp add: showing_def)
qed

theorem written_text_is_shown_witness:
  "document (observe (CharacterData 2) (set_text 2 (asc ''All'') (init (load_page None False [] sample_doc))))
   = rend ''en'' ''en'' [] (put_text 2 (asc ''All'') sample_doc)"
proof -
  have "\<not> still_shown (translatedText (init (load_page None False [] sample_doc)) 2) (asc ''All'')"
    by (simp add: still_shown_def sample_cache) (simp add: asc_def)
  moreover have "2 \<in> set (text_ids sample_doc)" by (simp add: sample_doc_def)
  moreover have "js_trim (asc ''All'') \<noteq> []" by (simp add: js_trim_def asc_def is_space_def)
  ultimately show ?thesis
    using written_text_is_shown [OF init_showing [OF sample_wf], of 2 "asc ''All''" None False]
    by (simp add: sample_en)
qed

text \<open>
  The language on record is the language shown: after any change of language the last event
  announced it, and the browser's storage, when it does not throw, holds it.
\<close>

theorem language_is_recorded:
  assumes "page_run d p" and "events p \<noteq> []"
  shows "last (events p) = lang p \<and> (blocked p \<or> stored p = Some (lang p))"
  using page_run_announced [OF assms] by blast

theorem language_is_recorded_witness:
  "last (events (setLanguage ''ru'' (init (load_page None False [] sample_doc)))) = ''ru'' \<and>
   stored (setLanguage ''ru'' (init (load_page None False [] sample_doc))) = Some ''ru''"
proof -
  let ?q = "setLanguage ''ru'' (init (load_page None False [] sample_doc))"
  have run: "page_run sample_doc ?q"
    by (rule page_run.stepped [OF sample_run page_step.switch])
  have l: "lang ?q = ''ru''" by (simp add: lang_setLanguage supportedLanguages_def)
  have "events ?q \<noteq> [] \<and> \<not> blocked ?q"
    using sample_en by (simp add: setLanguage_def apply_document_def init_def load_page_def
        supportedLanguages_def Let_def split: prod.splits)
  then show ?thesis using language_is_recorded [OF run] l by simp
qed

definition idle_doc :: "jstr \<Rightarrow> dnode" where
  "idle_doc w = Root 0 [Elem 1 ''span'' [] [Txt 2 w]]"

definition cleared_run :: "jstr \<Rightarrow> page" where
  "cleared_run w =
     (let write = (\<lambda>v p. observe (CharacterData 2) (set_text 2 v p))
      in write w (setLanguage ''ru'' (write [] (init (load_page None False [] (idle_doc w))))))"

lemmas page_eval = apply_document_def apply_node_def translateElementAttributes_def attr_skip_def
  attributes_def attr_step_def translateTextNode_eq text_skip_def still_shown_def source_of_def

lemma js_trim_Nil [simp]: "js_trim [] = []"
  by (simp add: js_trim_def)

lemma cleared_run_document:
  assumes w: "js_trim w \<noteq> []"
  shows "lang (cleared_run w) = ''ru'' \<and> document (cleared_run w) = idle_doc w"
proof -
  define p1 where "p1 = init (load_page None False [] (idle_doc w))"
  have p1: "lang p1 = ''en''" "document p1 = idle_doc w" "translatedText p1 = [2 \<mapsto> (w, w)]"
      "blocked p1 = False"
    using w by (simp_all add: p1_def init_def load_page_def readLanguage_def idle_doc_def page_eval)
  have "w \<noteq> []" using w by auto
  define p2 where "p2 = observe (CharacterData 2) (set_text 2 [] p1)"
  have p2: "lang p2 = ''en''" "document p2 = idle_doc []" "translatedText p2 = [2 \<mapsto> (w, w)]"
      "blocked p2 = False"
    using p1 \<open>w \<noteq> []\<close> by (simp_all add: p2_def run_on_def set_text_def idle_doc_def page_eval)
  define p3 where "p3 = setLanguage ''ru'' p2"
  have p3: "lang p3 = ''ru''" "document p3 = idle_doc []" "translatedText p3 = [2 \<mapsto> (w, w)]"
    using p2 \<open>w \<noteq> []\<close>
    by (simp_all add: p3_def setLanguage_def supportedLanguages_def idle_doc_def page_eval)
  have "cleared_run w = observe (CharacterData 2) (set_text 2 w p3)"
    by (simp add: cleared_run_def p1_def p2_def p3_def Let_def)
  then show ?thesis
    using p3 by (simp add: run_on_def set_text_def idle_doc_def page_eval)
qed

lemma translate_Disable:
  "translate ''ru'' (asc ''Disable'') = [1042, 1099, 1082, 1083, 1102, 1095, 1080, 1090, 1100]"
proof -
  have "assign_all ru_part5 (asc ''Disable'') = Some [1042, 1099, 1082, 1083, 1102, 1095, 1080, 1090, 1100]"
    by (simp add: assign_all_last_value ru_part5_def asc_def)
  then have "ru_get (asc ''Disable'') = Some [1042, 1099, 1082, 1083, 1102, 1095, 1080, 1090, 1100]"
    by (simp add: ru_get_def ru_def assign_all_append)
  then show ?thesis by (simp add: translate_def) (simp add: asc_def)
qed

text \<open>
  The caches do not record the language they were filled in, and a text that is blank during
  a change of language is not visited by it: when a script then writes the English text the
  node had before, the record is dismissed as the page's own and the text stays English on a
  Russian page, although its translation is another text.
\<close>

theorem cleared_text_stays_english:
  "lang (cleared_run (asc ''Disable'')) = ''ru'' \<and>
   document (cleared_run (asc ''Disable'')) = idle_doc (asc ''Disable'') \<and>
   translate ''ru'' (asc ''Disable'') \<noteq> asc ''Disable''"
proof -
  have "js_trim (asc ''Disable'') \<noteq> []" by (simp add: js_trim_def asc_def is_space_def)
  from cleared_run_document [OF this] show ?thesis
    by (simp add: translate_Disable) (simp add: asc_def)
qed

text \<open>
  C40: In every page a run reaches, the switch tells the truth: the document element names the language
  shown, and a button carries the class \<open>active\<close> and \<open>aria-pressed="true"\<close> exactly when it is the
  button of that language.
\<close>

theorem switch_shows_language:
  assumes "page_run d p"
  shows "html_lang p = lang p \<and> (\<forall>b\<in>set (buttons p).
    bt_active b = (bt_language b = lang p) \<and>
    bt_pressed b = (if bt_language b = lang p then ''true'' else ''false''))"
proof -
  from page_run_start [OF assms] have "controls_ok p" using switch_shown.run_ok by blast
  then have h: "html_lang p = lang p" and b: "buttons p = map (show_choice (lang p)) (buttons p)"
    by (simp_all only: controls_ok_def)
  have "\<exists>b'. b = show_choice (lang p) b'" if "b \<in> set (buttons p)" for b
    using that by (subst (asm) b) auto
  then show ?thesis using h by (fastforce simp: show_choice_def)
qed

definition sample_buttons :: "control list" where
  "sample_buttons = [\<lparr>bt_language = ''en'', bt_active = False, bt_pressed = []\<rparr>,
     \<lparr>bt_language = ''ru'', bt_active = True, bt_pressed = []\<rparr>]"

theorem switch_shows_language_witness:
  "map bt_active (buttons (init (load_page None False sample_buttons sample_doc))) =
   map (\<lambda>b. bt_language b = lang (init (load_page None False sample_buttons sample_doc)))
     (buttons (init (load_page None False sample_buttons sample_doc)))"
  using switch_shows_language [OF page_run.loaded [OF sample_wf, of None False sample_buttons]]
  unfolding map_eq_conv by blast

end
