(* ===== verification/DocsSite.thy ===== *)
theory DocsSite
  imports JsRegex
begin

text \<open>
  The documentation site: \<open>src/docs/astro.config.mjs\<close>, entry by entry, and the collection of
  \<open>src/docs/src/content.config.ts\<close>. Labels are code points, since two of the languages are not
  ASCII; paths and addresses are strings. The Starlight functions the two files call are
  parameters.
\<close>

subsection \<open>The configuration\<close>

datatype target = Slug string | Link string

record sidebar_item =
  it_label :: jstr
  it_translations :: "(string \<times> jstr) list"
  it_target :: target
  it_badge :: "(string \<times> string) option"
  it_attrs :: "(string \<times> string) list"

record sidebar_group =
  gr_label :: jstr
  gr_translations :: "(string \<times> jstr) list"
  gr_badge :: "(string \<times> string) option"
  gr_items :: "sidebar_item list"

datatype attr_value = Flag | Text_value string

record head_tag =
  ht_tag :: string
  ht_attrs :: "(string \<times> attr_value) list"
  ht_content :: "string option"

record locale_entry =
  lo_key :: string
  lo_label :: jstr
  lo_lang :: string
  lo_dir :: "string option"

record starlight_site =
  si_site :: string
  si_title :: string
  si_favicon :: string
  si_logo_light :: string
  si_logo_dark :: string
  si_head :: "head_tag list"
  si_edit_base :: string
  si_custom_css :: "string list"
  si_social :: "(string \<times> string) list"
  si_default_locale :: string
  si_locales :: "locale_entry list"
  si_sidebar :: "sidebar_group list"

definition site_head :: "head_tag list" where
  "site_head = [
     \<lparr>ht_tag = ''link'', ht_attrs = [(''rel'', Text_value ''icon''), (''type'', Text_value ''image/png''), (''href'', Text_value ''/favicon-96x96.png''), (''sizes'', Text_value ''96x96'')], ht_content = None\<rparr>,
     \<lparr>ht_tag = ''link'', ht_attrs = [(''rel'', Text_value ''shortcut icon''), (''href'', Text_value ''/favicon.ico'')], ht_content = None\<rparr>,
     \<lparr>ht_tag = ''link'', ht_attrs = [(''rel'', Text_value ''apple-touch-icon''), (''sizes'', Text_value ''180x180''), (''href'', Text_value ''/apple-touch-icon.png'')], ht_content = None\<rparr>,
     \<lparr>ht_tag = ''meta'', ht_attrs = [(''name'', Text_value ''apple-mobile-web-app-title''), (''content'', Text_value ''Xray Checker'')], ht_content = None\<rparr>,
     \<lparr>ht_tag = ''link'', ht_attrs = [(''rel'', Text_value ''manifest''), (''href'', Text_value ''/site.webmanifest'')], ht_content = None\<rparr>,
     \<lparr>ht_tag = ''script'', ht_attrs = [(''async'', Flag), (''src'', Text_value ''https://ps.log.rw/js/pa-mlJHNSq4iSgTf0o8D8qJM.js'')], ht_content = None\<rparr>,
     \<lparr>ht_tag = ''script'', ht_attrs = [], ht_content = Some ''window.plausible=window.plausible||function(){(plausible.q=plausible.q||[]).push(arguments)},plausible.init=plausible.init||function(i){plausible.o=i||{}};plausible.init()''\<rparr>]"

definition site_locales :: "locale_entry list" where
  "site_locales = [
     \<lparr>lo_key = ''root'', lo_label = asc ''English'', lo_lang = ''en'', lo_dir = None\<rparr>,
     \<lparr>lo_key = ''ru'', lo_label = [1056, 1091, 1089, 1089, 1082, 1080, 1081], lo_lang = ''ru'', lo_dir = None\<rparr>,
     \<lparr>lo_key = ''fa'', lo_label = [1601, 1575, 1585, 1587, 1740], lo_lang = ''fa'', lo_dir = Some ''rtl''\<rparr>]"

definition sidebar_introduction :: sidebar_group where
  "sidebar_introduction = \<lparr>gr_label = asc ''Introduction'',
     gr_translations = [(''ru'', [1042, 1074, 1077, 1076, 1077, 1085, 1080, 1077]), (''fa'', [1605, 1602, 1583, 1605, 1607])],
     gr_badge = None,
     gr_items = [
       \<lparr>it_label = asc ''Overview'',
         it_translations = [(''ru'', [1054, 1073, 1079, 1086, 1088]), (''fa'', [1605, 1593, 1585, 1601, 1740])],
         it_target = Slug ''index'', it_badge = None, it_attrs = []\<rparr>,
       \<lparr>it_label = asc ''Features'',
         it_translations = [(''ru'', [1042, 1086, 1079, 1084, 1086, 1078, 1085, 1086, 1089, 1090, 1080]), (''fa'', [1575, 1605, 1705, 1575, 1606, 1575, 1578])],
         it_target = Slug ''intro/features'', it_badge = None, it_attrs = []\<rparr>,
       \<lparr>it_label = asc ''Architecture'',
         it_translations = [(''ru'', [1040, 1088, 1093, 1080, 1090, 1077, 1082, 1090, 1091, 1088, 1072]), (''fa'', [1605, 1593, 1605, 1575, 1585, 1740])],
         it_target = Slug ''intro/architecture'', it_badge = None, it_attrs = []\<rparr>,
       \<lparr>it_label = asc ''Quick Start'',
         it_translations = [(''ru'', [1041, 1099, 1089, 1090, 1088, 1099, 1081, 32, 1089, 1090, 1072, 1088, 1090]), (''fa'', [1588, 1585, 1608, 1593, 32, 1587, 1585, 1740, 1593])],
         it_target = Slug ''intro/quick-start'', it_badge = None, it_attrs = []\<rparr>]\<rparr>"

definition sidebar_usage :: sidebar_group where
  "sidebar_usage = \<lparr>gr_label = asc ''Usage'',
     gr_translations = [(''ru'', [1048, 1089, 1087, 1086, 1083, 1100, 1079, 1086, 1074, 1072, 1085, 1080, 1077]), (''fa'', [1575, 1587, 1578, 1601, 1575, 1583, 1607])],
     gr_badge = None,
     gr_items = [
       \<lparr>it_label = asc ''CLI'',
         it_translations = [(''ru'', asc ''CLI''), (''fa'', [1582, 1591, 32, 1601, 1585, 1605, 1575, 1606])],
         it_target = Slug ''usage/cli'', it_badge = None, it_attrs = []\<rparr>,
       \<lparr>it_label = asc ''Docker'',
         it_translations = [(''ru'', asc ''Docker''), (''fa'', [1583, 1575, 1705, 1585])],
         it_target = Slug ''usage/docker'', it_badge = None, it_attrs = []\<rparr>,
       \<lparr>it_label = asc ''GitHub Actions'',
         it_translations = [(''ru'', asc ''GitHub Actions''), (''fa'', asc ''GitHub Actions'')],
         it_target = Slug ''usage/github-actions'', it_badge = None, it_attrs = []\<rparr>,
       \<lparr>it_label = asc ''API Reference'',
         it_translations = [(''ru'', asc ''API Reference''), (''fa'', [1605, 1585, 1580, 1593, 32, 65, 80, 73])],
         it_target = Slug ''usage/api-reference'', it_badge = None, it_attrs = []\<rparr>,
       \<lparr>it_label = asc ''Troubleshooting'',
         it_translations = [(''ru'', [1059, 1089, 1090, 1088, 1072, 1085, 1077, 1085, 1080, 1077, 32, 1085, 1077, 1087, 1086, 1083, 1072, 1076, 1086, 1082]), (''fa'', [1593, 1740, 1576, 8204, 1740, 1575, 1576, 1740])],
         it_target = Slug ''usage/troubleshooting'', it_badge = None, it_attrs = []\<rparr>]\<rparr>"

definition sidebar_configuration :: sidebar_group where
  "sidebar_configuration = \<lparr>gr_label = asc ''Configuration'',
     gr_translations = [(''ru'', [1050, 1086, 1085, 1092, 1080, 1075, 1091, 1088, 1072, 1094, 1080, 1103]), (''fa'', [1662, 1740, 1705, 1585, 1576, 1606, 1583, 1740])],
     gr_badge = None,
     gr_items = [
       \<lparr>it_label = asc ''Environment Variables'',
         it_translations = [(''ru'', [1055, 1077, 1088, 1077, 1084, 1077, 1085, 1085, 1099, 1077, 32, 1086, 1082, 1088, 1091, 1078, 1077, 1085, 1080, 1103]), (''fa'', [1605, 1578, 1594, 1740, 1585, 1607, 1575, 1740, 32, 1605, 1581, 1740, 1591, 1740])],
         it_target = Slug ''configuration/envs'', it_badge = None, it_attrs = []\<rparr>,
       \<lparr>it_label = asc ''Subscription Format'',
         it_translations = [(''ru'', [1060, 1086, 1088, 1084, 1072, 1090, 32, 1087, 1086, 1076, 1087, 1080, 1089, 1082, 1080]), (''fa'', [1601, 1585, 1605, 1578, 32, 1575, 1588, 1578, 1585, 1575, 1705])],
         it_target = Slug ''configuration/subscription'', it_badge = None, it_attrs = []\<rparr>,
       \<lparr>it_label = asc ''Check Methods'',
         it_translations = [(''ru'', [1052, 1077, 1090, 1086, 1076, 1099, 32, 1087, 1088, 1086, 1074, 1077, 1088, 1082, 1080]), (''fa'', [1585, 1608, 1588, 8204, 1607, 1575, 1740, 32, 1576, 1585, 1585, 1587, 1740])],
         it_target = Slug ''configuration/check-methods'', it_badge = None, it_attrs = []\<rparr>,
       \<lparr>it_label = asc ''Advanced Configuration'',
         it_translations = [(''ru'', [1056, 1072, 1089, 1096, 1080, 1088, 1077, 1085, 1085, 1072, 1103, 32, 1082, 1086, 1085, 1092, 1080, 1075, 1091, 1088, 1072, 1094, 1080, 1103]), (''fa'', [1662, 1740, 1705, 1585, 1576, 1606, 1583, 1740, 32, 1662, 1740, 1588, 1585, 1601, 1578, 1607])],
         it_target = Slug ''configuration/advanced-conf'', it_badge = None, it_attrs = []\<rparr>,
       \<lparr>it_label = asc ''Public Status Page'',
         it_translations = [(''ru'', [1055, 1091, 1073, 1083, 1080, 1095, 1085, 1072, 1103, 32, 1089, 1090, 1088, 1072, 1085, 1080, 1094, 1072, 32, 1089, 1090, 1072, 1090, 1091, 1089, 1072]), (''fa'', [1589, 1601, 1581, 1607, 32, 1608, 1590, 1593, 1740, 1578, 32, 1593, 1605, 1608, 1605, 1740])],
         it_target = Slug ''configuration/status-page'', it_badge = None, it_attrs = []\<rparr>,
       \<lparr>it_label = asc ''Web Customization'',
         it_translations = [(''ru'', [1050, 1072, 1089, 1090, 1086, 1084, 1080, 1079, 1072, 1094, 1080, 1103, 32, 1074, 1077, 1073, 45, 1080, 1085, 1090, 1077, 1088, 1092, 1077, 1081, 1089, 1072]), (''fa'', [1587, 1601, 1575, 1585, 1588, 1740, 8204, 1587, 1575, 1586, 1740, 32, 1608, 1576])],
         it_target = Slug ''configuration/web-customization'', it_badge = Some (''NEW'', ''success''), it_attrs = []\<rparr>]\<rparr>"

definition sidebar_integrations :: sidebar_group where
  "sidebar_integrations = \<lparr>gr_label = asc ''Integrations'',
     gr_translations = [(''ru'', [1048, 1085, 1090, 1077, 1075, 1088, 1072, 1094, 1080, 1080]), (''fa'', [1740, 1705, 1662, 1575, 1585, 1670, 1607, 8204, 1587, 1575, 1586, 1740, 8204, 1607, 1575])],
     gr_badge = None,
     gr_items = [
       \<lparr>it_label = asc ''Metrics'',
         it_translations = [(''ru'', [1052, 1077, 1090, 1088, 1080, 1082, 1080]), (''fa'', [1605, 1578, 1585, 1740, 1705, 8204, 1607, 1575])],
         it_target = Slug ''integrations/metrics'', it_badge = None, it_attrs = []\<rparr>,
       \<lparr>it_label = asc ''Prometheus Setup'',
         it_translations = [(''ru'', [1053, 1072, 1089, 1090, 1088, 1086, 1081, 1082, 1072, 32, 80, 114, 111, 109, 101, 116, 104, 101, 117, 115]), (''fa'', [1585, 1575, 1607, 8204, 1575, 1606, 1583, 1575, 1586, 1740, 32, 80, 114, 111, 109, 101, 116, 104, 101, 117, 115])],
         it_target = Slug ''integrations/prometheus'', it_badge = None, it_attrs = []\<rparr>,
       \<lparr>it_label = asc ''Uptime Kuma'',
         it_translations = [(''ru'', asc ''Uptime Kuma''), (''fa'', asc ''Uptime Kuma'')],
         it_target = Slug ''integrations/uptime-kuma'', it_badge = None, it_attrs = []\<rparr>,
       \<lparr>it_label = asc ''Grafana Dashboards'',
         it_translations = [(''ru'', asc ''Grafana Dashboard''), (''fa'', [1583, 1575, 1588, 1576, 1608, 1585, 1583, 1607, 1575, 1740, 32, 71, 114, 97, 102, 97, 110, 97])],
         it_target = Slug ''integrations/grafana'', it_badge = Some (''WIP'', ''caution''), it_attrs = []\<rparr>,
       \<lparr>it_label = asc ''Alternatives'',
         it_translations = [(''ru'', [1040, 1083, 1100, 1090, 1077, 1088, 1085, 1072, 1090, 1080, 1074, 1099]), (''fa'', [1580, 1575, 1740, 1711, 1586, 1740, 1606, 8204, 1607, 1575])],
         it_target = Slug ''integrations/alternatives'', it_badge = None, it_attrs = []\<rparr>]\<rparr>"

definition sidebar_badges :: sidebar_group where
  "sidebar_badges = \<lparr>gr_label = asc ''Badges'',
     gr_translations = [(''ru'', [1041, 1077, 1081, 1076, 1078, 1080]), (''fa'', [1606, 1588, 1575, 1606, 8204, 1607, 1575])],
     gr_badge = Some (''NEW'', ''success''),
     gr_items = [
       \<lparr>it_label = asc ''Overview'',
         it_translations = [(''ru'', [1054, 1073, 1079, 1086, 1088]), (''fa'', [1605, 1593, 1585, 1601, 1740])],
         it_target = Slug ''badges/overview'', it_badge = None, it_attrs = []\<rparr>,
       \<lparr>it_label = asc ''Playground'',
         it_translations = [(''ru'', [1050, 1086, 1085, 1089, 1090, 1088, 1091, 1082, 1090, 1086, 1088]), (''fa'', [1587, 1575, 1586, 1606, 1583, 1607])],
         it_target = Slug ''badges/playground'', it_badge = None, it_attrs = []\<rparr>]\<rparr>"

definition sidebar_contributing :: sidebar_group where
  "sidebar_contributing = \<lparr>gr_label = asc ''Contributing'',
     gr_translations = [(''ru'', [1059, 1095, 1072, 1089, 1090, 1080, 1077, 32, 1074, 32, 1088, 1072, 1079, 1088, 1072, 1073, 1086, 1090, 1082, 1077]), (''fa'', [1605, 1588, 1575, 1585, 1705, 1578])],
     gr_badge = None,
     gr_items = [
       \<lparr>it_label = asc ''Development Guide'',
         it_translations = [(''ru'', [1056, 1091, 1082, 1086, 1074, 1086, 1076, 1089, 1090, 1074, 1086, 32, 1076, 1083, 1103, 32, 1088, 1072, 1079, 1088, 1072, 1073, 1086, 1090, 1095, 1080, 1082, 1086, 1074]), (''fa'', [1585, 1575, 1607, 1606, 1605, 1575, 1740, 32, 1578, 1608, 1587, 1593, 1607])],
         it_target = Link ''/contributing/guide'', it_badge = None, it_attrs = []\<rparr>]\<rparr>"

definition sidebar_other_software :: sidebar_group where
  "sidebar_other_software = \<lparr>gr_label = asc ''Other Software'',
     gr_translations = [(''fa'', [1606, 1585, 1605, 8204, 1575, 1601, 1586, 1575, 1585, 1607, 1575, 1740, 32, 1583, 1740, 1711, 1585])],
     gr_badge = None,
     gr_items = [
       \<lparr>it_label = asc ''Xray Torrent Blocker'',
         it_translations = [],
         it_target = Link ''https://github.com/kutovoys/xray-torrent-blocker'', it_badge = None, it_attrs = []\<rparr>,
       \<lparr>it_label = asc ''Speedtest Exporter'',
         it_translations = [],
         it_target = Link ''https://github.com/kutovoys/speedtest-exporter'', it_badge = None, it_attrs = []\<rparr>,
       \<lparr>it_label = asc ''Marzban Exporter'',
         it_translations = [],
         it_target = Link ''https://github.com/kutovoys/marzban-exporter'', it_badge = None, it_attrs = []\<rparr>]\<rparr>"

definition sidebar_vpn_recommendation :: sidebar_group where
  "sidebar_vpn_recommendation = \<lparr>gr_label = asc ''VPN Recommendation'',
     gr_translations = [(''ru'', [1056, 1077, 1082, 1086, 1084, 1077, 1085, 1076, 1091, 1077, 1084]), (''fa'', [86, 80, 78, 32, 1662, 1740, 1588, 1606, 1607, 1575, 1583, 1740])],
     gr_badge = None,
     gr_items = [
       \<lparr>it_label = asc ''BlancVPN'',
         it_translations = [],
         it_target = Link ''https://getblancvpn.com/pricing?promo=klugscl&ref=xc-doc'', it_badge = Some (''KLUGSCL'', ''success''), it_attrs = [(''class'', ''blanc-vpn-menu-item'')]\<rparr>]\<rparr>"

definition site_config :: starlight_site where
  "site_config = \<lparr>si_site = ''https://xray-checker.kutovoy.dev'',
     si_title = ''Xray Checker'', si_favicon = ''/favicon.svg'',
     si_logo_light = ''./src/assets/logo-light.svg'', si_logo_dark = ''./src/assets/logo-dark.svg'',
     si_head = site_head,
     si_edit_base = ''https://github.com/kutovoys/xray-checker/edit/main/docs/'',
     si_custom_css = [''./src/styles/custom.css''],
     si_social = [(''github'', ''https://github.com/kutovoys/xray-checker''), (''telegram'', ''https://t.me/+VEzFQmaTZcQ5ZGYy''), (''linkedin'', ''https://www.linkedin.com/in/kutovoys/'')],
     si_default_locale = ''root'', si_locales = site_locales,
     si_sidebar = [sidebar_introduction,
       sidebar_usage,
       sidebar_configuration,
       sidebar_integrations,
       sidebar_badges,
       sidebar_contributing,
       sidebar_other_software,
       sidebar_vpn_recommendation]\<rparr>"

text \<open>The one collection, loaded and checked by Starlight's functions.\<close>

definition collections :: "'loader \<Rightarrow> 'schema \<Rightarrow> (string \<times> 'loader \<times> 'schema) list" where
  "collections docsLoader docsSchema = [(''docs'', docsLoader, docsSchema)]"

subsection \<open>What the sidebar names\<close>

definition slugs :: "starlight_site \<Rightarrow> string list" where
  "slugs c = concat (map (\<lambda>g. concat (map (\<lambda>i. case it_target i of Slug s \<Rightarrow> [s] | Link l \<Rightarrow> []) (gr_items g)))
     (si_sidebar c))"

lemma slugs_distinct: "distinct (slugs site_config)"
  by code_simp

end
