(* ===== verification/FlagPolyfill.thy ===== *)
theory FlagPolyfill
  imports JsRegex Complex_Main
begin

text \<open>
  The polyfill for country flags (\<open>src/web/static/country-flag-emoji-polyfill.js\<close>): it draws an emoji
  twice, in white and in black, and reads one pixel back to see whether the browser has a colour
  glyph; when emoji have colour but flags do not, it adds a web font to the page.

  What the browser paints is the parameter \<open>paint\<close>: the bytes of the pixel for a prepared context,
  a text and a fill colour, on a cleared canvas. A function of the same one-letter name as in the
  source carries the suffix \<open>_canvas\<close>, \<open>_pixel\<close>, \<open>_colour\<close>.
\<close>

subsection \<open>Numbers as text\<close>

fun decimal :: "nat \<Rightarrow> string" where
  "decimal n = (if n < 10 then [char_of (48 + n)] else decimal (n div 10) @ [char_of (48 + n mod 10)])"

declare decimal.simps [simp del]

text \<open>\<open>data.join(",")\<close>\<close>

fun join_comma :: "nat list \<Rightarrow> string" where
  "join_comma [] = []"
| "join_comma [n] = decimal n"
| "join_comma (n # m # rest) = decimal n @ '','' @ join_comma (m # rest)"

definition starts_with :: "string \<Rightarrow> string \<Rightarrow> bool" where
  "starts_with s p \<longleftrightarrow> take (length p) s = p"

subsection \<open>The program\<close>

definition r_fonts :: string where
  "r_fonts = ''\"Twemoji Mozilla\",\"Apple Color Emoji\",\"Segoe UI Emoji\",\"Segoe UI Symbol\",\"Noto Color Emoji\",\"EmojiOne Color\",\"Android Emoji\",sans-serif''"

record context2d =
  cx_width :: int
  cx_height :: int
  cx_will_read :: bool
  cx_baseline :: string
  cx_font :: string
  cx_scale :: "rat \<times> rat"

text \<open>The function \<open>a\<close>: a canvas of one pixel with text drawn at a hundredth of its size.\<close>

definition a_canvas :: context2d where
  "a_canvas = \<lparr>cx_width = 1, cx_height = 1, cx_will_read = True, cx_baseline = ''top'',
     cx_font = ''100px '' @ r_fonts, cx_scale = (1 / 100, 1 / 100)\<rparr>"

type_synonym painter = "context2d \<Rightarrow> jstr \<Rightarrow> string \<Rightarrow> nat list"

text \<open>The function \<open>i\<close>: clear, fill the text in a colour and read the pixel.\<close>

definition i_pixel :: "painter \<Rightarrow> context2d \<Rightarrow> jstr \<Rightarrow> string \<Rightarrow> string" where
  "i_pixel paint ctx t colour = join_comma (paint ctx t colour)"

text \<open>The function \<open>l\<close>: the same pixel whatever the fill colour, and not black.\<close>

definition l_colour :: "painter \<Rightarrow> jstr \<Rightarrow> bool" where
  "l_colour paint t =
     (let ctx = a_canvas; e = i_pixel paint ctx t ''#fff''; n = i_pixel paint ctx t ''#000''
      in n = e \<and> \<not> starts_with n ''0,0,0,'')"

definition smile :: jstr where "smile = [128522]"
definition swiss_flag :: jstr where "swiss_flag = [127464, 127469]"

abbreviation newline :: string where "newline \<equiv> [CHR 0x0A]"

definition font_face :: "string \<Rightarrow> string \<Rightarrow> string" where
  "font_face family url =
     ''@font-face {'' @ newline @
     ''      font-family: \"'' @ family @ ''\";'' @ newline @
     ''      unicode-range: U+1F1E6-1F1FF, U+1F3F4, U+E0062-E0063, U+E0065, U+E0067,'' @ newline @
     ''        U+E006C, U+E006E, U+E0073-E0074, U+E0077, U+E007F;'' @ newline @
     ''      src: url('' @ [CHR 0x27] @ url @ [CHR 0x27] @ '') format('' @ [CHR 0x27] @ ''woff2'' @ [CHR 0x27] @ '');'' @ newline @
     ''      font-display: swap;'' @ newline @
     ''    }''"

text \<open>
  The exported function \<open>f\<close> on the style sheets of the document head: arguments left out take the
  source's defaults.
\<close>

definition f_polyfill ::
  "painter \<Rightarrow> bool \<Rightarrow> string option \<Rightarrow> string option \<Rightarrow> string list \<Rightarrow> string list \<times> bool" where
  "f_polyfill paint has_window family url styles =
     (let name = (case family of None \<Rightarrow> ''Twemoji Country Flags'' | Some x \<Rightarrow> x);
          source = (case url of None \<Rightarrow> ''./static/TwemojiCountryFlags.woff2'' | Some x \<Rightarrow> x)
      in if has_window \<and> l_colour paint smile \<and> \<not> l_colour paint swiss_flag
         then (styles @ [font_face name source], True)
         else (styles, False))"

subsection \<open>Reading the pixel back from its text\<close>

lemma decimal_nonempty: "decimal n \<noteq> []"
  by (subst decimal.simps) simp

lemma decimal_digits: "c \<in> set (decimal n) \<Longrightarrow> 48 \<le> (of_char c :: nat) \<and> (of_char c :: nat) \<le> 57"
proof (induction n rule: decimal.induct)
  case (1 n)
  have d: "of_char (char_of (48 + k) :: char) = 48 + k" if "k < 10" for k :: nat
    using that by (simp add: of_char_of)
  show ?case
  proof (cases "n < 10")
    case True
    then show ?thesis using "1.prems" by (simp add: decimal.simps [of n] d)
  next
    case False
    then have "c \<in> set (decimal (n div 10)) \<or> c = char_of (48 + n mod 10)"
      using "1.prems" by (auto simp: decimal.simps [of n])
    then show ?thesis using "1.IH" False d [of "n mod 10"] by auto
  qed
qed

lemma comma_not_digit: "CHR '','' \<notin> set (decimal n)"
  using decimal_digits [of "CHR '',''" n] by auto

fun value_of :: "string \<Rightarrow> nat" where
  "value_of s = foldl (\<lambda>v c. 10 * v + (of_char c - 48)) 0 s"

lemma value_decimal: "value_of (decimal n) = n"
proof (induction n rule: decimal.induct)
  case (1 n)
  have d: "of_char (char_of (48 + k) :: char) = 48 + k" if "k < 10" for k :: nat
    using that by (simp add: of_char_of)
  show ?case
  proof (cases "n < 10")
    case True
    then show ?thesis by (subst decimal.simps) (simp add: d)
  next
    case False
    then show ?thesis using 1 d [of "n mod 10"] by (subst decimal.simps) simp
  qed
qed

lemma decimal_inj: "decimal m = decimal n \<Longrightarrow> m = n"
  by (metis value_decimal)

lemma split_at_comma:
  assumes "CHR '','' \<notin> set xs" and "CHR '','' \<notin> set ys" and "xs @ CHR '','' # us = ys @ CHR '','' # vs"
  shows "xs = ys \<and> us = vs"
  using assms by (induction xs arbitrary: ys) (case_tac ys; auto)+

lemma join_inj: "length xs = length ys \<Longrightarrow> join_comma xs = join_comma ys \<Longrightarrow> xs = ys"
proof (induction xs arbitrary: ys rule: join_comma.induct)
  case (2 n)
  then show ?case by (cases ys) (auto dest: decimal_inj)
next
  case (3 n m rest)
  obtain n' m' rest' where ys: "ys = n' # m' # rest'" using "3.prems"(1)
    by (cases ys rule: join_comma.cases) auto
  have "decimal n = decimal n' \<and> join_comma (m # rest) = join_comma (m' # rest')"
    using "3.prems"(2) unfolding ys by (intro split_at_comma comma_not_digit) simp
  then show ?case using "3.IH" [of "m' # rest'"] "3.prems"(1) ys by (auto dest: decimal_inj)
qed simp

lemma decimal_zero: "decimal n = ''0'' \<longleftrightarrow> n = 0"
proof -
  have "decimal 0 = ''0''" by code_simp
  then show ?thesis using decimal_inj [of n 0] by auto
qed

lemma starts_with_split:
  assumes "CHR '','' \<notin> set xs" and "CHR '','' \<notin> set ps"
  shows "starts_with (xs @ CHR '','' # us) (ps @ CHR '','' # qs) \<longleftrightarrow> xs = ps \<and> starts_with us qs"
  using assms by (induction xs arbitrary: ps) (case_tac ps; auto simp: starts_with_def)+

lemma zero_prefix:
  "starts_with (decimal n @ CHR '','' # us) (CHR ''0'' # CHR '','' # qs) \<longleftrightarrow> n = 0 \<and> starts_with us qs"
  using starts_with_split [OF comma_not_digit, of "''0''" n us qs] by (simp add: decimal_zero)

lemma black_prefix:
  "starts_with (join_comma [r, g, b, al]) ''0,0,0,'' \<longleftrightarrow> r = 0 \<and> g = 0 \<and> b = 0"
  by (simp add: zero_prefix) (simp add: starts_with_def)

text \<open>
  On a browser whose pixels have four components the comparison of the joined strings and the prefix
  decide on the pixels themselves: a component such as 10 is never mistaken for 1 and 0.
\<close>

definition colour_glyph :: "painter \<Rightarrow> jstr \<Rightarrow> bool" where
  "colour_glyph paint t \<longleftrightarrow> paint a_canvas t ''#000'' = paint a_canvas t ''#fff'' \<and>
     take 3 (paint a_canvas t ''#000'') \<noteq> [0, 0, 0]"

lemma l_colour_pixels:
  assumes "\<And>ctx t c. length (paint ctx t c) = 4"
  shows "l_colour paint t \<longleftrightarrow> colour_glyph paint t"
proof -
  obtain r g b al where p: "paint a_canvas t ''#000'' = [r, g, b, al]"
    using assms [of a_canvas t "''#000''"] by (auto simp: length_Suc_conv numeral_eq_Suc)
  have "join_comma (paint a_canvas t ''#000'') = join_comma (paint a_canvas t ''#fff'') \<longleftrightarrow>
      paint a_canvas t ''#000'' = paint a_canvas t ''#fff''"
    using join_inj assms by metis
  then show ?thesis using black_prefix [of r g b al]
    by (simp add: l_colour_def i_pixel_def colour_glyph_def Let_def p del: join_comma.simps)
qed

subsection \<open>Properties\<close>

text \<open>
  C37: the polyfill decides on pixels, not on their text: on a browser whose pixels have four components
  it adds its one style sheet, behind those already there, exactly when there is a window, the
  smiling face is painted in one colour other than black whatever the fill, and the flag is not;
  otherwise the page keeps its style sheets and the call reports False.
\<close>

theorem polyfill_decides_by_pixels:
  assumes "\<And>ctx t c. length (paint ctx t c) = 4"
  shows "f_polyfill paint has_window family url styles =
    (if has_window \<and> colour_glyph paint smile \<and> \<not> colour_glyph paint swiss_flag
     then (styles @ [font_face (case family of None \<Rightarrow> ''Twemoji Country Flags'' | Some x \<Rightarrow> x)
             (case url of None \<Rightarrow> ''./static/TwemojiCountryFlags.woff2'' | Some x \<Rightarrow> x)], True)
     else (styles, False))"
  by (simp add: f_polyfill_def Let_def l_colour_pixels [of paint, OF assms])

definition sample_paint :: painter where
  "sample_paint ctx t colour = (if t = smile then [255, 204, 10, 255]
     else if colour = ''#000'' then [0, 0, 0, 255] else [255, 255, 255, 255])"

theorem polyfill_decides_by_pixels_witness:
  "snd (f_polyfill sample_paint True None None []) \<and>
   fst (f_polyfill sample_paint False None None [''a'']) = [''a'']"
proof -
  have s: "length (sample_paint ctx t c) = 4" for ctx t c by (simp add: sample_paint_def)
  show ?thesis
    unfolding polyfill_decides_by_pixels [of sample_paint, OF s]
    by (simp add: colour_glyph_def sample_paint_def smile_def swiss_flag_def)
qed

end
