(* ===== verification/GoBase.thy ===== *)
theory GoBase
  imports Prelude Complex_Main "HOL-Library.Word"
begin

text \<open>
  What the Go components share: byte strings with \<open>strings.TrimSpace\<close>, instants and durations.

  A Go string is a sequence of bytes, here a list of 8-bit characters. An instant is the number
  of nanoseconds since the zero time of the \<open>time\<close> package (the first day of year 1, UTC), so
  \<open>IsZero\<close> is equality with 0, \<open>UTC\<close> does nothing and \<open>Before\<close>/\<open>After\<close> compare the numbers; a
  duration is a number of nanoseconds. An \<open>int64\<close> the code only stores, compares and bounds is
  an \<open>int\<close>. A \<open>float64\<close> the code only compares and scales by 3 is a rational.
\<close>

type_synonym time = int
type_synonym duration = int

definition millisecond :: duration where "millisecond = 1000000"
definition second :: duration where "second = 1000 * millisecond"
definition minute :: duration where "minute = 60 * second"
definition hour :: duration where "hour = 60 * minute"

lemmas duration_defs = millisecond_def second_def minute_def hour_def

subsection \<open>White space\<close>

text \<open>The UTF-8 encodings of the white-space runes.\<close>

definition ascii_space :: "char \<Rightarrow> bool" where
  "ascii_space c \<longleftrightarrow> of_char c \<in> {9, 10, 11, 12, 13, 32 :: nat}"

definition wide_spaces :: "nat list list" where
  "wide_spaces = [[194, 133], [194, 160], [225, 154, 128], [226, 128, 168], [226, 128, 169],
     [226, 128, 175], [226, 129, 159], [227, 128, 128]] @ map (\<lambda>b. [226, 128, b]) [128..<139]"

definition bytes_of :: "string \<Rightarrow> nat list" where
  "bytes_of s = map of_char s"

text \<open>The length of the white-space rune a string starts with, 0 when it starts with none.\<close>

definition space_prefix :: "string \<Rightarrow> nat" where
  "space_prefix s = (case s of [] \<Rightarrow> 0
     | c # cs \<Rightarrow> if ascii_space c then 1
        else if (of_char c :: nat) < 128 then 0
        else (case find (\<lambda>w. bytes_of (take (length w) s) = w) wide_spaces of
                None \<Rightarrow> 0 | Some w \<Rightarrow> length w))"

definition space_suffix :: "string \<Rightarrow> nat" where
  "space_suffix s = (case rev s of [] \<Rightarrow> 0
     | c # cs \<Rightarrow> if ascii_space c then 1
        else if (of_char c :: nat) < 128 then 0
        else (case find (\<lambda>w. length w \<le> length s \<and> bytes_of (drop (length s - length w) s) = w)
                wide_spaces of
                None \<Rightarrow> 0 | Some w \<Rightarrow> length w))"

function trim_left :: "string \<Rightarrow> string" where
  "trim_left s = (if 0 < space_prefix s \<and> s \<noteq> [] then trim_left (drop (space_prefix s) s) else s)"
  by pat_completeness auto
termination by (relation "measure length") auto

function trim_right :: "string \<Rightarrow> string" where
  "trim_right s = (if 0 < space_suffix s \<and> s \<noteq> []
     then trim_right (take (length s - space_suffix s) s) else s)"
  by pat_completeness auto
termination by (relation "measure length") auto

declare trim_left.simps [simp del] trim_right.simps [simp del]

definition TrimSpace :: "string \<Rightarrow> string" where
  "TrimSpace s = trim_right (trim_left s)"

definition has_prefix :: "string \<Rightarrow> string \<Rightarrow> bool" where
  "has_prefix s p \<longleftrightarrow> take (length p) s = p"

lemma trim_left_fix: "space_prefix s = 0 \<Longrightarrow> trim_left s = s"
  by (subst trim_left.simps) simp

lemma trim_right_fix: "space_suffix s = 0 \<Longrightarrow> trim_right s = s"
  by (subst trim_right.simps) simp

text \<open>A byte that starts or ends no white-space rune.\<close>

definition solid :: "char \<Rightarrow> bool" where
  "solid c \<longleftrightarrow> 33 \<le> (of_char c :: nat) \<and> (of_char c :: nat) \<le> 126"

lemma wide_space_bytes:
  "w \<in> set wide_spaces \<Longrightarrow> w \<noteq> [] \<and> list_all (\<lambda>b. 128 \<le> b) w"
  by (auto simp: wide_spaces_def)

lemma solid_prefix: "solid c \<Longrightarrow> space_prefix (c # cs) = 0"
  by (auto simp: space_prefix_def solid_def ascii_space_def bytes_of_def split: option.splits)

lemma solid_suffix:
  assumes "solid c"
  shows "space_suffix (cs @ [c]) = 0"
proof -
  have "find (\<lambda>w. length w \<le> length (cs @ [c]) \<and>
      bytes_of (drop (length (cs @ [c]) - length w) (cs @ [c])) = w) wide_spaces = None"
  proof (rule ccontr)
    assume "\<not> ?thesis"
    then obtain w where w: "w \<in> set wide_spaces" "length w \<le> length (cs @ [c])"
      and d: "bytes_of (drop (length (cs @ [c]) - length w) (cs @ [c])) = w"
      by (auto dest: find_SomeD)
    from w(1) have "w \<noteq> []" "list_all (\<lambda>b. 128 \<le> b) w" by (auto dest: wide_space_bytes)
    then have "128 \<le> last w" by (simp add: list_all_iff)
    moreover have "last w = of_char c"
      using d w(2) \<open>w \<noteq> []\<close> by (metis bytes_of_def last_drop last_map last_snoc
          list.map_disc_iff drop_eq_Nil2 linorder_not_le)
    ultimately show False using assms by (simp add: solid_def)
  qed
  then show ?thesis using assms
    by (simp add: space_suffix_def solid_def ascii_space_def)
qed

lemma TrimSpace_solid:
  assumes "s \<noteq> []" and "list_all solid s"
  shows "TrimSpace s = s"
proof -
  obtain c cs where c: "s = c # cs" using assms(1) by (cases s) auto
  obtain ds d where d: "s = ds @ [d]" using assms(1) by (cases s rule: rev_cases) auto
  have "trim_left s = s" using c assms(2) by (simp add: trim_left_fix solid_prefix)
  moreover have "trim_right s = s" using assms(2) unfolding d by (simp add: trim_right_fix solid_suffix)
  ultimately show ?thesis by (simp add: TrimSpace_def)
qed

lemma TrimSpace_Nil [simp]: "TrimSpace [] = []"
  by (simp add: TrimSpace_def trim_left_fix trim_right_fix space_prefix_def space_suffix_def)

text \<open>Trimming twice is trimming once.\<close>

lemma trim_right_take: "\<exists>n. trim_right s = take n s"
proof (induction s rule: trim_right.induct)
  case (1 s)
  show ?case
  proof (cases "0 < space_suffix s \<and> s \<noteq> []")
    case True
    then obtain n where "trim_right (take (length s - space_suffix s) s) =
        take n (take (length s - space_suffix s) s)" using 1 by blast
    then show ?thesis using True by (subst trim_right.simps) (auto simp: min_def)
  next
    case False
    then have "trim_right s = take (length s) s" using trim_right.simps [of s] by auto
    then show ?thesis ..
  qed
qed

lemma trim_right_done: "space_suffix (trim_right s) = 0 \<or> trim_right s = []"
proof (induction s rule: trim_right.induct)
  case (1 s)
  then show ?case by (cases "0 < space_suffix s \<and> s \<noteq> []") (subst (1 2) trim_right.simps; auto)+
qed

lemma trim_left_done: "space_prefix (trim_left s) = 0 \<or> trim_left s = []"
proof (induction s rule: trim_left.induct)
  case (1 s)
  then show ?case by (cases "0 < space_prefix s \<and> s \<noteq> []") (subst (1 2) trim_left.simps; auto)+
qed

lemma space_prefix_take:
  assumes "space_prefix s = 0"
  shows "space_prefix (take n s) = 0"
proof (cases s)
  case (Cons c cs)
  show ?thesis
  proof (cases "(of_char c :: nat) < 128 \<or> n = 0")
    case True
    then show ?thesis using assms Cons by (cases n) (auto simp: space_prefix_def split: if_splits)
  next
    case False
    have none: "bytes_of (take (length w) s) \<noteq> w" if in_w: "w \<in> set wide_spaces" for w
    proof
      assume "bytes_of (take (length w) s) = w"
      then obtain w' where "find (\<lambda>w. bytes_of (take (length w) s) = w) wide_spaces = Some w'"
        using in_w find_Some_intro [of w wide_spaces "\<lambda>w. bytes_of (take (length w) s) = w"] by auto
      moreover from this have "w' \<noteq> []" by (auto dest!: find_SomeD dest: wide_space_bytes)
      ultimately show False using assms Cons False
        by (auto simp: space_prefix_def split: if_splits)
    qed
    have "find (\<lambda>w. bytes_of (take (length w) (take n s)) = w) wide_spaces = None"
    proof (rule ccontr)
      assume "\<not> ?thesis"
      then obtain w where w: "w \<in> set wide_spaces" "bytes_of (take (length w) (take n s)) = w"
        by (auto dest: find_SomeD)
      then have "length w \<le> n" by (metis bytes_of_def length_map length_take min.bounded_iff order_refl)
      then have "take (length w) (take n s) = take (length w) s" by (simp add: min_def)
      then show False using w none by metis
    qed
    then show ?thesis using False Cons assms
      by (cases n) (auto simp: space_prefix_def split: if_splits option.splits)
  qed
qed (simp add: space_prefix_def)

lemma TrimSpace_idem [simp]: "TrimSpace (TrimSpace s) = TrimSpace s"
proof -
  obtain n where n: "TrimSpace s = take n (trim_left s)"
    using trim_right_take by (metis TrimSpace_def)
  have "space_prefix (TrimSpace s) = 0"
    using trim_left_done [of s] unfolding n by (elim disjE) (simp_all add: space_prefix_take, simp add: space_prefix_def)
  then have "trim_left (TrimSpace s) = TrimSpace s" by (rule trim_left_fix)
  moreover have "trim_right (TrimSpace s) = TrimSpace s"
    using trim_right_done [of "trim_left s"] by (auto simp: TrimSpace_def trim_right_fix space_suffix_def)
  ultimately show ?thesis by (simp add: TrimSpace_def [of "TrimSpace s"])
qed

end
