(* ===== verification/DiagTypes.thy ===== *)
theory DiagTypes
  imports GoBase
begin

text \<open>
  The data of the diagnostics package (\<open>src/diagnostics/types.go\<close>, \<open>profiles.go\<close>,
  \<open>speedservers.go\<close>). The open string types of the wire format (trigger, probe status, method,
  failure stage) are strings with the source's constants, since a decoded message can hold any
  text there; the states of sessions and jobs, which only the manager writes, are datatypes.
  A field name carries the initial of its record.
\<close>

subsection \<open>Constants of the wire format\<close>

definition SessionSchemaVersion :: int where "SessionSchemaVersion = 2"
definition JobSchemaVersion :: int where "JobSchemaVersion = 1"
definition ObservationSchemaVersion :: int where "ObservationSchemaVersion = 2"

definition TriggerManual :: string where "TriggerManual = ''manual''"
definition TriggerAutoProxyFailure :: string where "TriggerAutoProxyFailure = ''auto_proxy_failure''"
definition TriggerAutoOffline :: string where "TriggerAutoOffline = ''auto_offline''"
definition TriggerAutoCheckEndpoint :: string where "TriggerAutoCheckEndpoint = ''auto_check_endpoint''"
definition TriggerAutoAmbiguousFailure :: string where "TriggerAutoAmbiguousFailure = ''auto_ambiguous_failure''"
definition TriggerAutoSpeedFallback :: string where "TriggerAutoSpeedFallback = ''auto_speed_fallback''"
definition TriggerReachabilitySweep :: string where "TriggerReachabilitySweep = ''reachability_sweep''"

lemmas trigger_defs = TriggerManual_def TriggerAutoProxyFailure_def TriggerAutoOffline_def
  TriggerAutoCheckEndpoint_def TriggerAutoAmbiguousFailure_def TriggerAutoSpeedFallback_def
  TriggerReachabilitySweep_def

definition Automatic :: "string \<Rightarrow> bool" where
  "Automatic t \<longleftrightarrow> t \<noteq> TriggerManual"

definition ProbeStatusUnknown :: string where "ProbeStatusUnknown = ''unknown''"
definition ProbeStatusOnline :: string where "ProbeStatusOnline = ''online''"
definition ProbeStatusProxyFailure :: string where "ProbeStatusProxyFailure = ''proxy_failure''"
definition ProbeStatusOffline :: string where "ProbeStatusOffline = ''offline''"

lemmas status_defs = ProbeStatusUnknown_def ProbeStatusOnline_def ProbeStatusProxyFailure_def
  ProbeStatusOffline_def

definition ProbeMethodIP :: string where "ProbeMethodIP = ''ip''"
definition ProbeMethodStatus :: string where "ProbeMethodStatus = ''status''"
definition ProbeMethodDownload :: string where "ProbeMethodDownload = ''download''"
definition ProbeMethodLatency :: string where "ProbeMethodLatency = ''latency''"
definition ProbeMethodStability :: string where "ProbeMethodStability = ''stability''"
definition ProbeMethodTLS :: string where "ProbeMethodTLS = ''tls''"
definition ProbeMethodDNS :: string where "ProbeMethodDNS = ''dns''"

lemmas method_defs = ProbeMethodIP_def ProbeMethodStatus_def ProbeMethodDownload_def
  ProbeMethodLatency_def ProbeMethodStability_def ProbeMethodTLS_def ProbeMethodDNS_def

definition method_Valid :: "string \<Rightarrow> bool" where
  "method_Valid m \<longleftrightarrow> m \<in> {ProbeMethodIP, ProbeMethodStatus, ProbeMethodDownload,
     ProbeMethodLatency, ProbeMethodStability, ProbeMethodTLS, ProbeMethodDNS}"

definition method_Tunnelled :: "string \<Rightarrow> bool" where
  "method_Tunnelled m \<longleftrightarrow> m \<in> {ProbeMethodIP, ProbeMethodStatus, ProbeMethodDownload,
     ProbeMethodLatency, ProbeMethodStability}"

definition FailureStageConfiguration :: string where "FailureStageConfiguration = ''configuration''"
definition FailureStageXrayStart :: string where "FailureStageXrayStart = ''xray_start''"
definition FailureStageProxy :: string where "FailureStageProxy = ''proxy''"
definition FailureStageTCP :: string where "FailureStageTCP = ''tcp''"
definition FailureStagePing :: string where "FailureStagePing = ''ping''"
definition FailureStageDirect :: string where "FailureStageDirect = ''direct''"
definition FailureStageEndpoint :: string where "FailureStageEndpoint = ''endpoint''"
definition FailureStageDNS :: string where "FailureStageDNS = ''dns''"
definition FailureStageTLS :: string where "FailureStageTLS = ''tls''"

lemmas stage_defs = FailureStageConfiguration_def FailureStageXrayStart_def FailureStageProxy_def
  FailureStageTCP_def FailureStagePing_def FailureStageDirect_def FailureStageEndpoint_def
  FailureStageDNS_def FailureStageTLS_def

definition AutomationKindSpeedFallback :: string where "AutomationKindSpeedFallback = ''speed_fallback''"
definition AutomationOutcomeTechnical :: string where "AutomationOutcomeTechnical = ''technical_error''"
definition AutomationOutcomeLowSpeed :: string where "AutomationOutcomeLowSpeed = ''low_speed''"
definition AutomationKindProxyFailure :: string where "AutomationKindProxyFailure = ''proxy_failure''"
definition AutomationKindOffline :: string where "AutomationKindOffline = ''offline''"
definition AutomationSourceAvailability :: string where "AutomationSourceAvailability = ''availability''"

lemmas automation_defs = AutomationKindSpeedFallback_def AutomationOutcomeTechnical_def
  AutomationOutcomeLowSpeed_def AutomationKindProxyFailure_def AutomationKindOffline_def
  AutomationSourceAvailability_def

subsection \<open>States\<close>

datatype SessionState = Requested | Dispatching | SRunning | SCompleted | Partial | SExpired | SCancelled
datatype JobState = Pending | Dispatched | JRunning | JCompleted | JExpired | JCancelled

definition s_terminal :: "SessionState \<Rightarrow> bool" where
  "s_terminal s \<longleftrightarrow> s \<in> {SCompleted, Partial, SExpired, SCancelled}"

definition j_terminal :: "JobState \<Rightarrow> bool" where
  "j_terminal s \<longleftrightarrow> s = JCompleted \<or> s = JExpired \<or> s = JCancelled"

lemma s_terminal_simps [simp]:
  "s_terminal SCompleted" "s_terminal Partial" "s_terminal SExpired" "s_terminal SCancelled"
  "\<not> s_terminal Requested" "\<not> s_terminal Dispatching" "\<not> s_terminal SRunning"
  by (simp_all add: s_terminal_def)

lemma j_terminal_simps [simp]:
  "j_terminal JCompleted" "j_terminal JExpired" "j_terminal JCancelled"
  "\<not> j_terminal Pending" "\<not> j_terminal Dispatched" "\<not> j_terminal JRunning"
  by (simp_all add: j_terminal_def)

subsection \<open>Evidence\<close>

record FailureEvidence =
  f_Code :: string
  f_Stage :: string

record CheckEvidence =
  e_Checked :: bool
  e_Online :: bool
  e_LatencyMillis :: int
  e_FailureCode :: string

record ThroughputEvidence =
  t_Bytes :: int
  t_DurationMillis :: int
  t_Mbps :: int
  t_TTFBMillis :: int

record LatencySeriesEvidence =
  l_Samples :: int
  l_Succeeded :: int
  l_MinMillis :: int
  l_MedianMillis :: int
  l_P95Millis :: int
  l_MaxMillis :: int
  l_JitterMillis :: int
  l_FailureCode :: string

record StabilityEvidence =
  b_PlannedMillis :: int
  b_HeldMillis :: int
  b_Bytes :: int
  b_Interrupted :: bool
  b_FailureCode :: string

record TLSEvidence =
  x_Checked :: bool
  x_Handshake :: bool
  x_ServerName :: string
  x_NegotiatedVersion :: string
  x_NegotiatedProtocol :: string
  x_CertificateIssuer :: string
  x_CertificateExpiry :: string
  x_LatencyMillis :: int
  x_FailureCode :: string

record DNSResolverEvidence =
  r_Resolver :: string
  r_Addresses :: "string list"
  r_LatencyMillis :: int
  r_FailureCode :: string

record DNSEvidence =
  d_Checked :: bool
  d_Hostname :: string
  d_Literal :: bool
  d_Resolvers :: "DNSResolverEvidence list"
  d_Mismatch :: bool

record LocalResultSnapshot =
  n_Status :: string
  n_CheckedAt :: time
  n_LatencyMillis :: int
  n_Failure :: FailureEvidence
  n_TCP :: CheckEvidence
  n_Ping :: CheckEvidence

record AutomationContext =
  a_Kind :: string
  a_Outcome :: string
  a_Source :: string
  a_ThresholdMbps :: rat
  a_ObservedMbps :: rat
  a_FallbackAttempts :: int
  a_MeasuredBytes :: int
  a_SpeedServerID :: string

definition empty_context :: AutomationContext where
  "empty_context = \<lparr>a_Kind = [], a_Outcome = [], a_Source = [], a_ThresholdMbps = 0,
     a_ObservedMbps = 0, a_FallbackAttempts = 0, a_MeasuredBytes = 0, a_SpeedServerID = []\<rparr>"

definition ProxyFailureAutomationContext :: AutomationContext where
  "ProxyFailureAutomationContext =
     empty_context\<lparr>a_Kind := AutomationKindProxyFailure, a_Source := AutomationSourceAvailability\<rparr>"

definition OfflineAutomationContext :: AutomationContext where
  "OfflineAutomationContext =
     empty_context\<lparr>a_Kind := AutomationKindOffline, a_Source := AutomationSourceAvailability\<rparr>"

definition MinProfileDownloadBytes :: int where "MinProfileDownloadBytes = 1000000"
definition MaxProfileDownloadBytes :: int where "MaxProfileDownloadBytes = 200000000"

definition ProfileDownloadBytes :: "int \<Rightarrow> int option" where
  "ProfileDownloadBytes bytes =
     (if bytes < MinProfileDownloadBytes \<or> bytes > MaxProfileDownloadBytes then None else Some bytes)"

record TestProfile =
  p_ID :: string
  p_Method :: string
  p_AlternativeProfileID :: string
  p_DownloadBytes :: int
  p_ServerID :: string

record DiagnosticJob =
  j_SchemaVersion :: int
  j_JobID :: string
  j_SessionID :: string
  j_AgentID :: string
  j_Nonce :: string
  j_StableID :: string
  j_ConfigGeneration :: nat
  j_ConfigFingerprint :: string
  j_Profile :: TestProfile
  j_CreatedAt :: time
  j_ExpiresAt :: time
  j_State :: JobState

record AlternativeEndpointObservation =
  v_ProfileID :: string
  v_Status :: string
  v_LatencyMillis :: int
  v_Failure :: FailureEvidence

record Observation =
  o_SchemaVersion :: int
  o_AgentID :: string
  o_SessionID :: string
  o_JobID :: string
  o_Nonce :: string
  o_StableID :: string
  o_ConfigGeneration :: nat
  o_ConfigFingerprint :: string
  o_CheckedAt :: time
  o_DurationMillis :: int
  o_EndpointProfile :: string
  o_Status :: string
  o_LatencyMillis :: int
  o_Failure :: FailureEvidence
  o_TCP :: CheckEvidence
  o_Ping :: CheckEvidence
  o_DirectConnectivity :: CheckEvidence
  o_AlternativeEndpoint :: "AlternativeEndpointObservation option"
  o_Throughput :: "ThroughputEvidence option"
  o_Latency :: "LatencySeriesEvidence option"
  o_Stability :: "StabilityEvidence option"
  o_TLS :: "TLSEvidence option"
  o_DNS :: "DNSEvidence option"
  o_AgentVersion :: string
  o_SpeedServerID :: string
  o_Signature :: "8 word list"

record AcceptedObservation =
  c_Observation :: Observation
  c_AcceptedAt :: time
  c_Reliable :: bool

record DiagnosticSession =
  s_SchemaVersion :: int
  s_SessionID :: string
  s_StableID :: string
  s_Trigger :: string
  s_ConfigGeneration :: nat
  s_ConfigFingerprint :: string
  s_LocalResultSnapshot :: LocalResultSnapshot
  s_AutomationContext :: AutomationContext
  s_RequestedAgents :: "string list"
  s_Jobs :: "DiagnosticJob list"
  s_AgentObservations :: "AcceptedObservation list"
  s_MaintenanceDiagnostic :: bool
  s_CreatedAt :: time
  s_ExpiresAt :: time
  s_State :: SessionState

record CreateSessionRequest =
  q_StableID :: string
  q_Trigger :: string
  q_ConfigGeneration :: nat
  q_ConfigFingerprint :: string
  q_LocalResultSnapshot :: LocalResultSnapshot
  q_AutomationContext :: AutomationContext
  q_RequestedAgents :: "string list"
  q_MaintenanceDiagnostic :: bool
  q_ExpiresAt :: time

record RegisterJobRequest =
  g_SessionID :: string
  g_AgentID :: string
  g_Profile :: TestProfile
  g_ExpiresAt :: time

end
