(* ===== verification/DiagVerdict.thy ===== *)
theory DiagVerdict
  imports DiagTypes
begin

text \<open>
  The verdicts of automatic diagnostics (\<open>src/diagnostics/verdict.go\<close>): what an agent's
  observation says about a slow measurement or about a node that cannot be reached.
\<close>

datatype Verdict =
    VerdictReproduced | VerdictNotReproduced | VerdictPathLimited | VerdictInconclusive
  | VerdictUnreliable

datatype Reason =
    NoReason
  | ReasonDirectControlFailed | ReasonNoThroughput | ReasonAlternativeWorked
  | ReasonDifferentServer | ReasonNearThreshold | ReasonAgentAlsoBelowThreshold

definition PathRateFactor :: rat where "PathRateFactor = 3"

record SpeedEvidence =
  k_Outcome :: string
  k_ThresholdMbps :: rat
  k_ObservedMbps :: rat
  k_ServerID :: string

definition maxFloat :: "rat \<Rightarrow> rat \<Rightarrow> rat" where
  "maxFloat l r = (if l > r then l else r)"

definition alternative_worked :: "Observation \<Rightarrow> bool" where
  "alternative_worked obs = (case o_AlternativeEndpoint obs of None \<Rightarrow> False
     | Some alt \<Rightarrow> v_Status alt = ProbeStatusOnline)"

definition JudgeSpeed :: "SpeedEvidence \<Rightarrow> Observation \<Rightarrow> bool \<Rightarrow> Verdict \<times> Reason" where
  "JudgeSpeed ev obs reliable =
     (if \<not> reliable then (VerdictUnreliable, ReasonDirectControlFailed)
      else if alternative_worked obs then (VerdictNotReproduced, ReasonAlternativeWorked)
      else if o_Status obs \<noteq> ProbeStatusOnline then (VerdictReproduced, NoReason)
      else if k_ThresholdMbps ev \<le> 0 then (VerdictNotReproduced, NoReason)
      else (case o_Throughput obs of
          None \<Rightarrow>
            (if k_Outcome ev = AutomationOutcomeLowSpeed
             then (VerdictUnreliable, ReasonNoThroughput)
             else (VerdictNotReproduced, NoReason))
        | Some tp \<Rightarrow>
            (let threshold = k_ThresholdMbps ev; agent = rat_of_int (t_Mbps tp) in
             if k_Outcome ev = AutomationOutcomeLowSpeed \<and>
                agent > PathRateFactor * maxFloat (k_ObservedMbps ev) 1
             then (if agent < threshold then (VerdictPathLimited, ReasonAgentAlsoBelowThreshold)
                   else (VerdictPathLimited, NoReason))
             else if agent \<ge> threshold then (VerdictNotReproduced, NoReason)
             else if agent + 1 > threshold then (VerdictInconclusive, ReasonNearThreshold)
             else if k_ServerID ev = [] \<or> o_SpeedServerID obs \<noteq> k_ServerID ev
             then (VerdictInconclusive, ReasonDifferentServer)
             else (VerdictReproduced, NoReason))))"

definition JudgeAvailability :: "Observation \<Rightarrow> bool \<Rightarrow> Verdict \<times> Reason" where
  "JudgeAvailability obs reliable =
     (if \<not> reliable then (VerdictUnreliable, ReasonDirectControlFailed)
      else if o_Status obs = ProbeStatusOnline then (VerdictNotReproduced, NoReason)
      else if alternative_worked obs then (VerdictNotReproduced, ReasonAlternativeWorked)
      else (VerdictReproduced, NoReason))"

definition SpeedServerComparable :: "SpeedEvidence \<Rightarrow> Observation \<Rightarrow> bool" where
  "SpeedServerComparable ev obs \<longleftrightarrow> k_ServerID ev \<noteq> [] \<and> o_SpeedServerID obs = k_ServerID ev"

subsection \<open>What a verdict means\<close>

text \<open>
  The true rate of the agent lies in \<open>[Mbps, Mbps + 1)\<close>. A slowdown counts as reproduced
  exactly when the agent could not complete the probe, or every rate in that interval is below
  the threshold, stays within the factor of the run's rate, and both measured one server.
\<close>

definition clearly_below :: "SpeedEvidence \<Rightarrow> ThroughputEvidence \<Rightarrow> bool" where
  "clearly_below ev tp \<longleftrightarrow> (\<forall>r. rat_of_int (t_Mbps tp) \<le> r \<and> r < rat_of_int (t_Mbps tp) + 1 \<longrightarrow>
     r < k_ThresholdMbps ev)"

lemma clearly_below_iff:
  "clearly_below ev tp \<longleftrightarrow> rat_of_int (t_Mbps tp) + 1 \<le> k_ThresholdMbps ev"
proof
  assume all: "clearly_below ev tp"
  show "rat_of_int (t_Mbps tp) + 1 \<le> k_ThresholdMbps ev"
  proof (rule ccontr)
    assume "\<not> ?thesis"
    then have lt: "k_ThresholdMbps ev < rat_of_int (t_Mbps tp) + 1" by simp
    let ?r = "max (rat_of_int (t_Mbps tp)) (k_ThresholdMbps ev)"
    have "rat_of_int (t_Mbps tp) \<le> ?r \<and> ?r < rat_of_int (t_Mbps tp) + 1" using lt by simp
    with all have "?r < k_ThresholdMbps ev" unfolding clearly_below_def by blast
    then show False by simp
  qed
next
  assume "rat_of_int (t_Mbps tp) + 1 \<le> k_ThresholdMbps ev"
  then show "clearly_below ev tp" by (auto simp: clearly_below_def)
qed

lemma JudgeSpeed_reproduced_iff:
  "fst (JudgeSpeed ev obs reliable) = VerdictReproduced \<longleftrightarrow>
     reliable \<and> \<not> alternative_worked obs \<and>
     (o_Status obs \<noteq> ProbeStatusOnline \<or>
      (0 < k_ThresholdMbps ev \<and> SpeedServerComparable ev obs \<and>
       (\<exists>tp. o_Throughput obs = Some tp \<and> clearly_below ev tp \<and>
         (k_Outcome ev = AutomationOutcomeLowSpeed \<longrightarrow>
            rat_of_int (t_Mbps tp) \<le> PathRateFactor * max (k_ObservedMbps ev) 1))))"
proof (cases "o_Throughput obs")
  case None
  then show ?thesis by (auto simp: JudgeSpeed_def)
next
  case (Some tp)
  have m: "maxFloat (k_ObservedMbps ev) 1 = max (k_ObservedMbps ev) 1" by (simp add: maxFloat_def max_def)
  show ?thesis using Some
    by (auto simp: JudgeSpeed_def Let_def m clearly_below_iff SpeedServerComparable_def not_less)
qed

lemma JudgeSpeed_path_limited_iff:
  "fst (JudgeSpeed ev obs reliable) = VerdictPathLimited \<longleftrightarrow>
     reliable \<and> \<not> alternative_worked obs \<and> o_Status obs = ProbeStatusOnline \<and>
     0 < k_ThresholdMbps ev \<and> k_Outcome ev = AutomationOutcomeLowSpeed \<and>
     (\<exists>tp. o_Throughput obs = Some tp \<and>
        PathRateFactor * max (k_ObservedMbps ev) 1 < rat_of_int (t_Mbps tp))"
proof (cases "o_Throughput obs")
  case None
  then show ?thesis by (auto simp: JudgeSpeed_def)
next
  case (Some tp)
  have m: "maxFloat (k_ObservedMbps ev) 1 = max (k_ObservedMbps ev) 1" by (simp add: maxFloat_def max_def)
  show ?thesis using Some
    by (auto simp: JudgeSpeed_def Let_def m not_less)
qed

subsection \<open>Properties\<close>

text \<open>
  C30: A speed problem is judged reproduced, the only verdict that lets an alert skip its wait,
  exactly when the observation is reliable, no alternative endpoint worked, and either the agent
  could not complete the probe or it measured the run's own server, every rate its whole Mbps
  stand for is below the threshold, and (for a slowdown) it stays within the path factor of the
  run's rate.
\<close>

theorem reproduced_exactly:
  "fst (JudgeSpeed ev obs reliable) = VerdictReproduced \<longleftrightarrow>
     reliable \<and> \<not> alternative_worked obs \<and>
     (o_Status obs \<noteq> ProbeStatusOnline \<or>
      (0 < k_ThresholdMbps ev \<and> SpeedServerComparable ev obs \<and>
       (\<exists>tp. o_Throughput obs = Some tp \<and> clearly_below ev tp \<and>
         (if k_Outcome ev = AutomationOutcomeLowSpeed
          then rat_of_int (t_Mbps tp) \<le> PathRateFactor * max (k_ObservedMbps ev) 1 else True))))"
  by (simp only: JudgeSpeed_reproduced_iff if_bool_eq_conj simp_thms)

text \<open>
  The two judges agree on what is not about speed: on a reliable observation of a node that
  was not online, with or without a working alternative, the verdict and the reason are those of
  the availability judge, whatever the run measured.
\<close>

theorem judges_agree_when_not_online:
  assumes "o_Status obs \<noteq> ProbeStatusOnline"
  shows "JudgeSpeed ev obs reliable = JudgeAvailability obs reliable"
  using assms by (simp add: JudgeSpeed_def JudgeAvailability_def)

definition plain_failure :: FailureEvidence where
  "plain_failure = \<lparr>f_Code = [], f_Stage = []\<rparr>"

definition no_check :: CheckEvidence where
  "no_check = \<lparr>e_Checked = False, e_Online = False, e_LatencyMillis = 0, e_FailureCode = []\<rparr>"

definition sample_observation :: Observation where
  "sample_observation = \<lparr>o_SchemaVersion = 2, o_AgentID = ''a1'', o_SessionID = ''diag_1'',
     o_JobID = ''job_1'', o_Nonce = ''nonce_1'', o_StableID = ''node'', o_ConfigGeneration = 7,
     o_ConfigFingerprint = ''sha256:'' @ replicate 64 (CHR ''a''), o_CheckedAt = 1000,
     o_DurationMillis = 1, o_EndpointProfile = ''default-status'', o_Status = ''offline'',
     o_LatencyMillis = 0, o_Failure = \<lparr>f_Code = ''tcp_timeout'', f_Stage = ''tcp''\<rparr>,
     o_TCP = no_check, o_Ping = no_check,
     o_DirectConnectivity = no_check\<lparr>e_Checked := True, e_Online := True\<rparr>,
     o_AlternativeEndpoint = None, o_Throughput = None, o_Latency = None, o_Stability = None,
     o_TLS = None, o_DNS = None, o_AgentVersion = ''v1'', o_SpeedServerID = [],
     o_Signature = [1]\<rparr>"

definition slow_observation :: Observation where
  "slow_observation = sample_observation\<lparr>o_Status := ProbeStatusOnline,
     o_Throughput := Some \<lparr>t_Bytes = 10000000, t_DurationMillis = 20000, t_Mbps = 4, t_TTFBMillis = 90\<rparr>,
     o_SpeedServerID := ''s1''\<rparr>"

definition slow_run :: SpeedEvidence where
  "slow_run = \<lparr>k_Outcome = ''low_speed'', k_ThresholdMbps = 20, k_ObservedMbps = 2, k_ServerID = ''s1''\<rparr>"

theorem reproduced_exactly_witness:
  "fst (JudgeSpeed slow_run slow_observation True) = VerdictReproduced"
  by (simp only: reproduced_exactly)
    (simp add: slow_observation_def slow_run_def sample_observation_def alternative_worked_def
      SpeedServerComparable_def clearly_below_iff PathRateFactor_def)

theorem judges_agree_when_not_online_witness:
  "JudgeSpeed \<lparr>k_Outcome = ''low_speed'', k_ThresholdMbps = 20, k_ObservedMbps = 2, k_ServerID = []\<rparr>
     sample_observation True = JudgeAvailability sample_observation True"
  by (rule judges_agree_when_not_online) (simp add: sample_observation_def ProbeStatusOnline_def)

end
