(* ===== verification/DiagCatalogue.thy ===== *)
theory DiagCatalogue
  imports DiagTypes
begin

text \<open>
  The two catalogues the controller and the agents share: the diagnostic profiles
  (\<open>src/diagnostics/profiles.go\<close>) and the speed-test servers (\<open>src/diagnostics/speedservers.go\<close>),
  with their lookups by identifier.
\<close>

subsection \<open>Profiles\<close>

definition CapabilityDiagnosticV1 :: string where "CapabilityDiagnosticV1 = ''diagnostic-v1''"
definition CapabilityDiagnosticV2 :: string where "CapabilityDiagnosticV2 = ''diagnostic-v2''"

definition ProfileIP :: string where "ProfileIP = ''default-ip''"
definition ProfileStatus :: string where "ProfileStatus = ''default-status''"
definition ProfileDownload :: string where "ProfileDownload = ''default-download''"
definition ProfileLatency :: string where "ProfileLatency = ''default-latency''"
definition ProfileStability :: string where "ProfileStability = ''default-stability''"
definition ProfileTLS :: string where "ProfileTLS = ''default-tls''"
definition ProfileDNS :: string where "ProfileDNS = ''default-dns''"

lemmas profile_id_defs = ProfileIP_def ProfileStatus_def ProfileDownload_def ProfileLatency_def
  ProfileStability_def ProfileTLS_def ProfileDNS_def

record ProfileDescriptor =
  h_ID :: string
  h_Method :: string
  h_Capability :: string
  h_Label :: string
  h_Summary :: string
  h_Tunnelled :: bool

definition profileCatalogue :: "ProfileDescriptor list" where
  "profileCatalogue = [
     \<lparr>h_ID = ProfileStatus, h_Method = ProbeMethodStatus, h_Capability = CapabilityDiagnosticV1,
       h_Label = ''Endpoint status'',
       h_Summary = ''Fetches the agent's status endpoint through the tunnel and checks the response code.'',
       h_Tunnelled = True\<rparr>,
     \<lparr>h_ID = ProfileIP, h_Method = ProbeMethodIP, h_Capability = CapabilityDiagnosticV1,
       h_Label = ''Exit IP'',
       h_Summary = ''Compares the tunnelled exit IP with the agent's direct IP, so traffic bypassing the tunnel is caught.'',
       h_Tunnelled = True\<rparr>,
     \<lparr>h_ID = ProfileDownload, h_Method = ProbeMethodDownload, h_Capability = CapabilityDiagnosticV1,
       h_Label = ''Download throughput'',
       h_Summary = ''Transfers a fixed amount through the tunnel and reports the achieved rate.'',
       h_Tunnelled = True\<rparr>,
     \<lparr>h_ID = ProfileLatency, h_Method = ProbeMethodLatency, h_Capability = CapabilityDiagnosticV2,
       h_Label = ''Latency profile'',
       h_Summary = ''Repeats a short tunnelled request and reports median, p95 and jitter instead of a single sample.'',
       h_Tunnelled = True\<rparr>,
     \<lparr>h_ID = ProfileStability, h_Method = ProbeMethodStability, h_Capability = CapabilityDiagnosticV2,
       h_Label = ''Connection stability'',
       h_Summary = ''Holds one tunnelled transfer open to catch filtering that drops a session after a delay.'',
       h_Tunnelled = True\<rparr>,
     \<lparr>h_ID = ProfileTLS, h_Method = ProbeMethodTLS, h_Capability = CapabilityDiagnosticV2,
       h_Label = ''TLS handshake'',
       h_Summary = ''Completes a direct TLS handshake with the node's SNI, without the tunnel, to locate SNI-based interference.'',
       h_Tunnelled = False\<rparr>,
     \<lparr>h_ID = ProfileDNS, h_Method = ProbeMethodDNS, h_Capability = CapabilityDiagnosticV2,
       h_Label = ''DNS resolution'',
       h_Summary = ''Resolves the node hostname through several resolvers and reports disagreement between them.'',
       h_Tunnelled = False\<rparr>]"

definition Profiles :: "ProfileDescriptor list" where
  "Profiles = profileCatalogue"

definition ProfileByID :: "string \<Rightarrow> ProfileDescriptor option" where
  "ProfileByID i = find (\<lambda>d. h_ID d = TrimSpace i) profileCatalogue"

definition ProfileForCheckMethod :: "string \<Rightarrow> ProfileDescriptor option" where
  "ProfileForCheckMethod m =
     (if TrimSpace m = ''ip'' then ProfileByID ProfileIP
      else if TrimSpace m = ''status'' then ProfileByID ProfileStatus
      else if TrimSpace m = ''download'' then ProfileByID ProfileDownload
      else None)"

definition TestProfileFor :: "ProfileDescriptor \<Rightarrow> string \<Rightarrow> TestProfile" where
  "TestProfileFor d alternativeID = \<lparr>p_ID = h_ID d, p_Method = h_Method d,
     p_AlternativeProfileID = TrimSpace alternativeID, p_DownloadBytes = 0, p_ServerID = []\<rparr>"

definition AlternativeFor :: "string \<Rightarrow> string option" where
  "AlternativeFor i =
     (if i = ProfileStatus then Some ProfileIP
      else if i = ProfileIP then Some ProfileStatus
      else if i = ProfileDownload then Some ProfileStatus
      else if i = ProfileLatency then Some ProfileStatus
      else None)"

subsection \<open>Speed-test servers\<close>

record SpeedServer =
  z_ID :: string
  z_Provider :: string
  z_City :: string
  z_CountryCode :: string
  z_URL :: string

definition speedServerCatalogue :: "SpeedServer list" where
  "speedServerCatalogue = [
     \<lparr>z_ID = ''hetzner-falkenstein-fsn1'', z_Provider = ''Hetzner'', z_City = ''Falkenstein'', z_CountryCode = ''DE'',
       z_URL = ''https://fsn1-speed.hetzner.com/100MB.bin''\<rparr>,
     \<lparr>z_ID = ''hostkey-frankfurt'', z_Provider = ''HOSTKEY'', z_City = ''Frankfurt'', z_CountryCode = ''DE'',
       z_URL = ''https://spd-desrv.hostkey.com/files/100mb.bin''\<rparr>,
     \<lparr>z_ID = ''edis-frankfurt'', z_Provider = ''EDIS Global'', z_City = ''Frankfurt'', z_CountryCode = ''DE'',
       z_URL = ''https://de.edisglobal.com/100MB.test''\<rparr>,
     \<lparr>z_ID = ''leaseweb-frankfurt-fra1'', z_Provider = ''Leaseweb'', z_City = ''Frankfurt'', z_CountryCode = ''DE'',
       z_URL = ''http://speedtest.fra1.de.leaseweb.net/100mb.bin''\<rparr>,
     \<lparr>z_ID = ''hostkey-amsterdam'', z_Provider = ''HOSTKEY'', z_City = ''Amsterdam'', z_CountryCode = ''NL'',
       z_URL = ''https://spd-nlsrv.hostkey.com/files/100mb.bin''\<rparr>,
     \<lparr>z_ID = ''edis-amsterdam'', z_Provider = ''EDIS Global'', z_City = ''Amsterdam'', z_CountryCode = ''NL'',
       z_URL = ''https://nl.edisglobal.com/100MB.test''\<rparr>,
     \<lparr>z_ID = ''leaseweb-amsterdam-ams1'', z_Provider = ''Leaseweb'', z_City = ''Amsterdam AMS-01'', z_CountryCode = ''NL'',
       z_URL = ''http://speedtest.ams1.nl.leaseweb.net/100mb.bin''\<rparr>,
     \<lparr>z_ID = ''leaseweb-amsterdam-ams2'', z_Provider = ''Leaseweb'', z_City = ''Amsterdam AMS-02'', z_CountryCode = ''NL'',
       z_URL = ''http://speedtest.ams2.nl.leaseweb.net/100mb.bin''\<rparr>,
     \<lparr>z_ID = ''edis-tallinn'', z_Provider = ''EDIS Global'', z_City = ''Tallinn'', z_CountryCode = ''EE'',
       z_URL = ''https://ee.edisglobal.com/100MB.test''\<rparr>,
     \<lparr>z_ID = ''fairyhosting-estonia'', z_Provider = ''FairyHosting'', z_City = ''Estonia'', z_CountryCode = ''EE'',
       z_URL = ''https://lg.fairyhosting.com/100MB.test''\<rparr>,
     \<lparr>z_ID = ''hostkey-helsinki'', z_Provider = ''HOSTKEY'', z_City = ''Helsinki'', z_CountryCode = ''FI'',
       z_URL = ''https://spd-fisrv.hostkey.com/files/100mb.bin''\<rparr>,
     \<lparr>z_ID = ''edis-helsinki'', z_Provider = ''EDIS Global'', z_City = ''Helsinki'', z_CountryCode = ''FI'',
       z_URL = ''https://fi.edisglobal.com/100MB.test''\<rparr>,
     \<lparr>z_ID = ''mynymbox-helsinki'', z_Provider = ''MyNymBox'', z_City = ''Helsinki'', z_CountryCode = ''FI'',
       z_URL = ''https://fi-lg.mynymbox.io/100MB.bin''\<rparr>,
     \<lparr>z_ID = ''hetzner-helsinki-hel1'', z_Provider = ''Hetzner'', z_City = ''Helsinki HEL1'', z_CountryCode = ''FI'',
       z_URL = ''https://hel1-speed.hetzner.com/100MB.bin''\<rparr>,
     \<lparr>z_ID = ''hostkey-new-york'', z_Provider = ''HOSTKEY'', z_City = ''New York'', z_CountryCode = ''US'',
       z_URL = ''https://spd-uswb.hostkey.com/files/1000mb.bin''\<rparr>,
     \<lparr>z_ID = ''edis-new-york'', z_Provider = ''EDIS Global'', z_City = ''New York'', z_CountryCode = ''US'',
       z_URL = ''https://us.edisglobal.com/100MB.test''\<rparr>,
     \<lparr>z_ID = ''leaseweb-new-york-nyc1'', z_Provider = ''Leaseweb'', z_City = ''New York NYC-01'', z_CountryCode = ''US'',
       z_URL = ''http://speedtest.nyc1.us.leaseweb.net/100mb.bin''\<rparr>,
     \<lparr>z_ID = ''leaseweb-washington-wdc2'', z_Provider = ''Leaseweb'', z_City = ''Washington WDC-02'', z_CountryCode = ''US'',
       z_URL = ''http://speedtest.wdc2.us.leaseweb.net/100mb.bin''\<rparr>,
     \<lparr>z_ID = ''edis-los-angeles'', z_Provider = ''EDIS Global'', z_City = ''Los Angeles'', z_CountryCode = ''US'',
       z_URL = ''https://uslax.edisglobal.com/100MB.test''\<rparr>,
     \<lparr>z_ID = ''leaseweb-los-angeles-lax12'', z_Provider = ''Leaseweb'', z_City = ''Los Angeles LAX-12'', z_CountryCode = ''US'',
       z_URL = ''http://speedtest.lax12.us.leaseweb.net/100mb.bin''\<rparr>,
     \<lparr>z_ID = ''edis-miami'', z_Provider = ''EDIS Global'', z_City = ''Miami'', z_CountryCode = ''US'',
       z_URL = ''https://usmia.edisglobal.com/100MB.test''\<rparr>,
     \<lparr>z_ID = ''hostkey-london'', z_Provider = ''HOSTKEY'', z_City = ''London'', z_CountryCode = ''GB'',
       z_URL = ''http://spd-uksrv.hostkey.com/files/100mb.bin''\<rparr>,
     \<lparr>z_ID = ''leaseweb-london-lon1'', z_Provider = ''Leaseweb'', z_City = ''London LON-01'', z_CountryCode = ''GB'',
       z_URL = ''http://speedtest.lon1.uk.leaseweb.net/100mb.bin''\<rparr>,
     \<lparr>z_ID = ''edis-london'', z_Provider = ''EDIS Global'', z_City = ''London'', z_CountryCode = ''GB'',
       z_URL = ''https://uk.edisglobal.com/100MB.test''\<rparr>,
     \<lparr>z_ID = ''hostkey-reykjavik'', z_Provider = ''HOSTKEY'', z_City = ''Reykjavik'', z_CountryCode = ''IS'',
       z_URL = ''https://spd-icsrv.hostkey.com/files/100mb.bin''\<rparr>,
     \<lparr>z_ID = ''edis-hafnarfjordur'', z_Provider = ''EDIS Global'', z_City = ''Hafnarfjordur'', z_CountryCode = ''IS'',
       z_URL = ''https://is.edisglobal.com/100MB.test''\<rparr>,
     \<lparr>z_ID = ''hostkey-paris'', z_Provider = ''HOSTKEY'', z_City = ''Paris'', z_CountryCode = ''FR'',
       z_URL = ''https://spd-frsrv.hostkey.com/files/100mb.bin''\<rparr>,
     \<lparr>z_ID = ''edis-paris'', z_Provider = ''EDIS Global'', z_City = ''Paris'', z_CountryCode = ''FR'',
       z_URL = ''https://fr.edisglobal.com/100MB.test''\<rparr>,
     \<lparr>z_ID = ''ovh-proof'', z_Provider = ''OVHcloud'', z_City = ''Roubaix'', z_CountryCode = ''FR'',
       z_URL = ''https://proof.ovh.net/files/100Mb.dat''\<rparr>,
     \<lparr>z_ID = ''hostkey-madrid'', z_Provider = ''HOSTKEY'', z_City = ''Madrid'', z_CountryCode = ''ES'',
       z_URL = ''https://spd-essrv.hostkey.com/files/100mb.bin''\<rparr>,
     \<lparr>z_ID = ''edis-seville'', z_Provider = ''EDIS Global'', z_City = ''Seville'', z_CountryCode = ''ES'',
       z_URL = ''https://es.edisglobal.com/100MB.test''\<rparr>,
     \<lparr>z_ID = ''hostkey-milan'', z_Provider = ''HOSTKEY'', z_City = ''Milan'', z_CountryCode = ''IT'',
       z_URL = ''https://spd-itsrv.hostkey.com/files/100mb.bin''\<rparr>,
     \<lparr>z_ID = ''edis-milan'', z_Provider = ''EDIS Global'', z_City = ''Milan'', z_CountryCode = ''IT'',
       z_URL = ''https://it.edisglobal.com/100MB.test''\<rparr>,
     \<lparr>z_ID = ''hostkey-istanbul'', z_Provider = ''HOSTKEY'', z_City = ''Istanbul'', z_CountryCode = ''TR'',
       z_URL = ''http://spd-tr.hostkey.com/files/100mb.bin''\<rparr>,
     \<lparr>z_ID = ''hostkey-warsaw'', z_Provider = ''HOSTKEY'', z_City = ''Warsaw'', z_CountryCode = ''PL'',
       z_URL = ''http://spd-plsrv.hostkey.com/files/100mb.bin''\<rparr>,
     \<lparr>z_ID = ''edis-warsaw'', z_Provider = ''EDIS Global'', z_City = ''Warsaw'', z_CountryCode = ''PL'',
       z_URL = ''https://pl.edisglobal.com/100MB.test''\<rparr>,
     \<lparr>z_ID = ''hostkey-zurich'', z_Provider = ''HOSTKEY'', z_City = ''Zurich'', z_CountryCode = ''CH'',
       z_URL = ''http://spd-chsrv.hostkey.com/files/100mb.bin''\<rparr>,
     \<lparr>z_ID = ''edis-zurich'', z_Provider = ''EDIS Global'', z_City = ''Zurich'', z_CountryCode = ''CH'',
       z_URL = ''https://ch.edisglobal.com/100MB.test''\<rparr>]"

definition SpeedServerByID :: "string \<Rightarrow> SpeedServer option" where
  "SpeedServerByID i = (if TrimSpace i = [] then None
     else find (\<lambda>s. z_ID s = TrimSpace i) speedServerCatalogue)"

definition validSpeedServerID :: "string \<Rightarrow> bool" where
  "validSpeedServerID i \<longleftrightarrow> SpeedServerByID i \<noteq> None"

text \<open>
  The catalogue server of a URL. \<open>hostname\<close> is \<open>url.Parse\<close> with \<open>Hostname\<close> in lower case, empty
  when the URL is malformed.
\<close>

definition speedServerHost :: "(string \<Rightarrow> string) \<Rightarrow> string \<Rightarrow> string" where
  "speedServerHost hostname rawURL =
     (let h = hostname (TrimSpace rawURL) in if h \<noteq> [] \<and> last h = CHR ''.'' then butlast h else h)"

definition SpeedServerForURL :: "(string \<Rightarrow> string) \<Rightarrow> string \<Rightarrow> SpeedServer option" where
  "SpeedServerForURL hostname rawURL =
     (let host = speedServerHost hostname rawURL in
      if host = [] then None
      else find (\<lambda>s. speedServerHost hostname (z_URL s) = host) speedServerCatalogue)"

subsection \<open>The catalogues are in order\<close>

lemma profile_ids_distinct: "distinct (map h_ID profileCatalogue)"
  by (simp add: profileCatalogue_def profile_id_defs)

lemma profiles_valid:
  "list_all (\<lambda>d. method_Valid (h_Method d) \<and> h_Tunnelled d = method_Tunnelled (h_Method d))
     profileCatalogue"
  by (simp add: profileCatalogue_def method_Valid_def method_Tunnelled_def method_defs)

lemma speed_server_ids_distinct: "distinct (map z_ID speedServerCatalogue)"
  by (simp add: speedServerCatalogue_def)

lemma speed_server_ids_solid: "list_all (\<lambda>s. z_ID s \<noteq> [] \<and> list_all solid (z_ID s)) speedServerCatalogue"
  by (simp add: speedServerCatalogue_def solid_def)

lemma profile_ids_solid: "list_all (\<lambda>d. h_ID d \<noteq> [] \<and> list_all solid (h_ID d)) profileCatalogue"
  by (simp add: profileCatalogue_def profile_id_defs solid_def)

lemma find_unique_key:
  "distinct (map f xs) \<Longrightarrow> x \<in> set xs \<Longrightarrow> find (\<lambda>y. f y = f x) xs = Some x"
  by (induction xs) auto

text \<open>Looking up the identifier of an entry gives that entry.\<close>

lemma ProfileByID_entry:
  assumes "d \<in> set profileCatalogue"
  shows "ProfileByID (h_ID d) = Some d"
proof -
  have "TrimSpace (h_ID d) = h_ID d"
    using assms profile_ids_solid by (intro TrimSpace_solid) (auto simp: list_all_iff)
  then show ?thesis
    using find_unique_key [OF profile_ids_distinct assms] by (simp add: ProfileByID_def)
qed

lemma SpeedServerByID_entry:
  assumes "s \<in> set speedServerCatalogue"
  shows "SpeedServerByID (z_ID s) = Some s"
proof -
  have "TrimSpace (z_ID s) = z_ID s" "z_ID s \<noteq> []"
    using assms speed_server_ids_solid TrimSpace_solid [of "z_ID s"] by (auto simp: list_all_iff)
  then show ?thesis
    using find_unique_key [OF speed_server_ids_distinct assms] by (simp add: SpeedServerByID_def)
qed

lemma ProfileByID_mem: "ProfileByID i = Some d \<Longrightarrow> d \<in> set profileCatalogue \<and> h_ID d = TrimSpace i"
  by (auto simp: ProfileByID_def dest: find_SomeD)

end
