(* ===== verification/DiagManager.thy ===== *)
theory DiagManager
  imports DiagVerdict DiagCatalogue
begin

text \<open>
  The manager of diagnostic sessions (\<open>src/diagnostics/manager.go\<close>): validation of requests and
  observations, the session and job state machine, expiry, capacity and replay protection.

  Every operation returns the manager after the call with an error or a result: expiry happens
  before most errors are found. The clock, the generated identifiers (None when the generator
  fails), the signature verifier and the order in which Go's map iteration lists the terminal
  sessions before they are sorted are arguments. Error messages are reduced to the error they
  wrap. The sessions are an association list in order of creation.
\<close>

datatype diag_error =
    ErrInvalidSchema | ErrInvalidRequest | ErrCapacity | ErrUnknownSession | ErrUnknownJob
  | ErrDuplicateJob | ErrInvalidSignature | ErrStaleObservation | ErrStaleGeneration
  | ErrBindingMismatch | ErrReplayObservation | ErrDuplicateObservation | ErrSessionExpired
  | ErrSessionCancelled | ErrInvalidTransition | ErrGenerate | ErrMarshal

subsection \<open>Validation\<close>

definition safe_char :: "char \<Rightarrow> bool" where
  "safe_char c \<longleftrightarrow> (let n = (of_char c :: nat) in
     (97 \<le> n \<and> n \<le> 122) \<or> (65 \<le> n \<and> n \<le> 90) \<or> (48 \<le> n \<and> n \<le> 57) \<or> n \<in> {45, 95, 46, 58})"

definition validSafeValue :: "string \<Rightarrow> nat \<Rightarrow> bool" where
  "validSafeValue v maxLength \<longleftrightarrow> v \<noteq> [] \<and> length v \<le> maxLength \<and> list_all safe_char v"

definition validToken :: "string \<Rightarrow> bool" where
  "validToken v = validSafeValue v 128"

definition validProfileID :: "string \<Rightarrow> bool" where
  "validProfileID v = validSafeValue v 64"

definition hex_char :: "char \<Rightarrow> bool" where
  "hex_char c \<longleftrightarrow> (let n = (of_char c :: nat) in
     (48 \<le> n \<and> n \<le> 57) \<or> (97 \<le> n \<and> n \<le> 102) \<or> (65 \<le> n \<and> n \<le> 70))"

definition upper_char :: "char \<Rightarrow> bool" where
  "upper_char c \<longleftrightarrow> (let n = (of_char c :: nat) in 65 \<le> n \<and> n \<le> 90)"

definition validFingerprint :: "string \<Rightarrow> bool" where
  "validFingerprint v \<longleftrightarrow> has_prefix v ''sha256:'' \<and> length v = 7 + 64 \<and>
     list_all hex_char (drop 7 v) \<and> list_all (\<lambda>c. \<not> upper_char c) v"

definition validFailureCode :: "string \<Rightarrow> bool" where
  "validFailureCode v \<longleftrightarrow> v \<in> {''configuration'', ''dns'', ''tcp_refused'', ''tcp_timeout'',
     ''host_unreachable'', ''network_unreachable'', ''proxy_handshake'', ''proxy_timeout'', ''tls'',
     ''tls_timeout'', ''tls_reset'', ''tls_eof'', ''tls_alert'', ''tls_failed'',
     ''dns_mismatch'', ''dns_literal_address'', ''http_status'', ''source_ip_unchanged'',
     ''download_incomplete'', ''check_endpoint'', ''unknown''}"

definition validFailureStage :: "string \<Rightarrow> bool" where
  "validFailureStage st \<longleftrightarrow> st \<in> {FailureStageConfiguration, FailureStageXrayStart, FailureStageProxy,
     FailureStageTCP, FailureStagePing, FailureStageDirect, FailureStageEndpoint}"

definition validateCheckEvidence :: "CheckEvidence \<Rightarrow> bool" where
  "validateCheckEvidence e =
     (if e_LatencyMillis e < 0 then False
      else if \<not> e_Checked e
        then \<not> (e_Online e \<or> e_LatencyMillis e \<noteq> 0 \<or> e_FailureCode e \<noteq> [])
      else if e_Online e then e_FailureCode e = []
      else validFailureCode (e_FailureCode e))"

definition validateProbeResult :: "string \<Rightarrow> FailureEvidence \<Rightarrow> bool" where
  "validateProbeResult status failure =
     (if status = ProbeStatusOnline then \<not> (f_Code failure \<noteq> [] \<or> f_Stage failure \<noteq> [])
      else if status = ProbeStatusProxyFailure \<or> status = ProbeStatusOffline
        then validFailureCode (f_Code failure) \<and> validFailureStage (f_Stage failure)
      else False)"

definition validateLocalResultSnapshot :: "LocalResultSnapshot \<Rightarrow> bool" where
  "validateLocalResultSnapshot n =
     (if n_LatencyMillis n < 0 then False
      else
        (if n_Status n = ProbeStatusUnknown then
           \<not> ((f_Code (n_Failure n) \<noteq> [] \<or> f_Stage (n_Failure n) \<noteq> []) \<and>
              (\<not> validFailureCode (f_Code (n_Failure n)) \<or> \<not> validFailureStage (f_Stage (n_Failure n))))
         else if n_Status n \<in> {ProbeStatusOnline, ProbeStatusProxyFailure, ProbeStatusOffline} then
           n_CheckedAt n \<noteq> 0 \<and> validateProbeResult (n_Status n) (n_Failure n)
         else False) \<and>
        validateCheckEvidence (n_TCP n) \<and> validateCheckEvidence (n_Ping n))"

definition validateProfile :: "TestProfile \<Rightarrow> bool" where
  "validateProfile p =
     (validProfileID (p_ID p) \<and> method_Valid (p_Method p) \<and>
      (p_AlternativeProfileID p = [] \<or>
        (validProfileID (p_AlternativeProfileID p) \<and> p_AlternativeProfileID p \<noteq> p_ID p)) \<and>
      (p_DownloadBytes p = 0 \<or>
        (p_Method p = ProbeMethodDownload \<and> ProfileDownloadBytes (p_DownloadBytes p) \<noteq> None)) \<and>
      (p_ServerID p = [] \<or>
        (p_Method p = ProbeMethodDownload \<and> validSpeedServerID (p_ServerID p))))"

definition MaxObservationSignatureBytes :: nat where "MaxObservationSignatureBytes = 512"

definition validateObservation :: "Observation \<Rightarrow> diag_error option" where
  "validateObservation obs =
     (if o_SchemaVersion obs \<noteq> ObservationSchemaVersion then Some ErrInvalidSchema
      else if \<not> list_all validToken [o_AgentID obs, o_SessionID obs, o_JobID obs, o_Nonce obs,
                 o_StableID obs, o_EndpointProfile obs, o_AgentVersion obs] then Some ErrInvalidRequest
      else if \<not> validFingerprint (o_ConfigFingerprint obs) then Some ErrInvalidRequest
      else if o_CheckedAt obs = 0 \<or> o_DurationMillis obs < 0 \<or> o_LatencyMillis obs < 0
        then Some ErrInvalidRequest
      else if length (o_Signature obs) = 0 \<or> length (o_Signature obs) > MaxObservationSignatureBytes
        then Some ErrInvalidSignature
      else if \<not> e_Checked (o_DirectConnectivity obs) then Some ErrInvalidRequest
      else if \<not> validateProbeResult (o_Status obs) (o_Failure obs) then Some ErrInvalidRequest
      else if \<not> list_all validateCheckEvidence [o_TCP obs, o_Ping obs, o_DirectConnectivity obs]
        then Some ErrInvalidRequest
      else if (case o_AlternativeEndpoint obs of None \<Rightarrow> False
               | Some alt \<Rightarrow> \<not> validProfileID (v_ProfileID alt) \<or> v_LatencyMillis alt < 0 \<or>
                   \<not> validateProbeResult (v_Status alt) (v_Failure alt)) then Some ErrInvalidRequest
      else if o_SpeedServerID obs \<noteq> [] \<and> \<not> validSpeedServerID (o_SpeedServerID obs)
        then Some ErrInvalidRequest
      else None)"

definition validateObservationTime ::
  "time \<Rightarrow> time \<Rightarrow> time \<Rightarrow> time \<Rightarrow> duration \<Rightarrow> duration \<Rightarrow> bool" where
  "validateObservationTime checkedAt now jobCreatedAt jobExpiresAt maxAge clockSkew =
     (if checkedAt < now - maxAge \<or> checkedAt > now + clockSkew then False
      else if checkedAt < jobCreatedAt - clockSkew \<or> checkedAt > jobExpiresAt + clockSkew then False
      else True)"

fun normalize_agents :: "string list \<Rightarrow> string set \<Rightarrow> string list \<Rightarrow> string list option" where
  "normalize_agents seen_order seen [] = Some seen_order"
| "normalize_agents seen_order seen (raw # rest) =
     (let agentID = TrimSpace raw in
      if \<not> validToken agentID then None
      else if agentID \<in> seen then normalize_agents seen_order seen rest
      else normalize_agents (seen_order @ [agentID]) (insert agentID seen) rest)"

definition normalizedAgentIDs :: "string list \<Rightarrow> string list option" where
  "normalizedAgentIDs agentIDs = normalize_agents [] {} agentIDs"

definition validateCreateSessionRequest ::
  "CreateSessionRequest \<Rightarrow> time \<Rightarrow> duration \<Rightarrow> int \<Rightarrow> bool" where
  "validateCreateSessionRequest q now maxTTL maxAgents =
     (validToken (q_StableID q) \<and>
      q_Trigger q \<in> {TriggerManual, TriggerAutoProxyFailure, TriggerAutoOffline,
        TriggerAutoCheckEndpoint, TriggerAutoAmbiguousFailure, TriggerAutoSpeedFallback,
        TriggerReachabilitySweep} \<and>
      \<not> (q_MaintenanceDiagnostic q \<and> Automatic (q_Trigger q)) \<and>
      (let c = q_AutomationContext q in
       if q_Trigger q = TriggerAutoSpeedFallback then
         \<not> (a_Kind c \<noteq> AutomationKindSpeedFallback \<or>
            (a_Outcome c \<noteq> AutomationOutcomeTechnical \<and> a_Outcome c \<noteq> AutomationOutcomeLowSpeed) \<or>
            \<not> validToken (a_Source c) \<or> a_ThresholdMbps c < 0 \<or> a_ObservedMbps c < 0 \<or>
            a_MeasuredBytes c < 0 \<or> a_FallbackAttempts c < 0 \<or>
            (a_SpeedServerID c \<noteq> [] \<and> \<not> validSpeedServerID (a_SpeedServerID c)))
       else if q_Trigger q = TriggerAutoProxyFailure then c = ProxyFailureAutomationContext
       else if q_Trigger q = TriggerAutoOffline then c = OfflineAutomationContext
       else c = empty_context) \<and>
      validFingerprint (q_ConfigFingerprint q) \<and>
      q_RequestedAgents q \<noteq> [] \<and>
      \<not> (int (length (q_RequestedAgents q)) > maxAgents) \<and>
      validateLocalResultSnapshot (q_LocalResultSnapshot q) \<and>
      (q_ExpiresAt q = 0 \<or> (q_ExpiresAt q > now \<and> \<not> (q_ExpiresAt q > now + maxTTL))))"

subsection \<open>The manager\<close>

record ManagerConfig =
  SessionTTL :: duration
  ObservationMaxAge :: duration
  ClockSkew :: duration
  MaxSessions :: int
  MaxAgentsPerSession :: int

record manager =
  config :: ManagerConfig
  sessions :: "(string \<times> DiagnosticSession) list"
  jobs :: "string \<Rightarrow> (string \<times> nat) option"
  usedNonces :: "string set"
  reservedNonces :: "string \<Rightarrow> string option"

definition DefaultSessionTTL :: duration where "DefaultSessionTTL = 24 * hour"
definition DefaultObservationMaxAge :: duration where "DefaultObservationMaxAge = 5 * minute"
definition DefaultClockSkew :: duration where "DefaultClockSkew = 30 * second"

definition NewDiagnosticSessionManager :: "bool \<Rightarrow> ManagerConfig \<Rightarrow> diag_error + manager" where
  "NewDiagnosticSessionManager has_verifier c =
     (if \<not> has_verifier then Inl ErrInvalidRequest
      else
        (let c1 = c\<lparr>SessionTTL := if SessionTTL c = 0 then DefaultSessionTTL else SessionTTL c,
               ObservationMaxAge := if ObservationMaxAge c = 0 then DefaultObservationMaxAge
                                    else ObservationMaxAge c,
               ClockSkew := if ClockSkew c = 0 then DefaultClockSkew else ClockSkew c,
               MaxSessions := if MaxSessions c = 0 then 100 else MaxSessions c,
               MaxAgentsPerSession := if MaxAgentsPerSession c = 0 then 8
                                      else MaxAgentsPerSession c\<rparr>
         in if SessionTTL c1 < 0 \<or> ObservationMaxAge c1 < 0 \<or> ClockSkew c1 < 0 \<or>
               MaxSessions c1 < 1 \<or> MaxAgentsPerSession c1 < 1 then Inl ErrInvalidRequest
            else Inr \<lparr>config = c1, sessions = [], jobs = Map.empty, usedNonces = {},
                      reservedNonces = Map.empty\<rparr>))"

definition nonce_key :: "string \<Rightarrow> string \<Rightarrow> string" where
  "nonce_key agentID nonce = agentID @ [CHR 0x00] @ nonce"

definition activeSessionError :: "SessionState \<Rightarrow> diag_error option" where
  "activeSessionError st = (case st of
     SExpired \<Rightarrow> Some ErrSessionExpired | Partial \<Rightarrow> Some ErrSessionExpired
   | SCancelled \<Rightarrow> Some ErrSessionCancelled | SCompleted \<Rightarrow> Some ErrInvalidTransition
   | _ \<Rightarrow> None)"

definition put_session :: "string \<Rightarrow> DiagnosticSession \<Rightarrow> manager \<Rightarrow> manager" where
  "put_session k s m =
     m\<lparr>sessions := map (\<lambda>(k', s'). if k' = k then (k, s) else (k', s')) (sessions m)\<rparr>"

definition find_session :: "manager \<Rightarrow> string \<Rightarrow> DiagnosticSession option" where
  "find_session m k = map_of (sessions m) k"

subsection \<open>State derivation and expiry\<close>

definition expire_live :: "DiagnosticJob \<Rightarrow> DiagnosticJob" where
  "expire_live j = (if j_terminal (j_State j) then j else j\<lparr>j_State := JExpired\<rparr>)"

definition completed_jobs :: "DiagnosticSession \<Rightarrow> nat" where
  "completed_jobs s = length (filter (\<lambda>j. j_State j = JCompleted) (s_Jobs s))"

definition terminal_jobs :: "DiagnosticSession \<Rightarrow> nat" where
  "terminal_jobs s = length (filter (\<lambda>j. j_terminal (j_State j)) (s_Jobs s))"

definition deriveSessionState :: "time \<Rightarrow> DiagnosticSession \<Rightarrow> DiagnosticSession" where
  "deriveSessionState now s =
     (if s_State s = SCancelled then s
      else
        (let completed = completed_jobs s;
             terminal = terminal_jobs s;
             running = list_ex (\<lambda>j. j_State j = JRunning) (s_Jobs s);
             allRequestedCompleted = (length (s_RequestedAgents s) > 0 \<and>
               completed = length (s_RequestedAgents s));
             deadlineReached = (\<not> s_ExpiresAt s > now);
             allRegisteredTerminal = (length (s_Jobs s) = length (s_RequestedAgents s) \<and>
               terminal = length (s_Jobs s))
         in if allRequestedCompleted then s\<lparr>s_State := SCompleted\<rparr>
            else if deadlineReached \<or> allRegisteredTerminal then
              s\<lparr>s_Jobs := map expire_live (s_Jobs s),
                s_State := if completed > 0 then Partial else SExpired\<rparr>
            else if running \<or> completed > 0 then s\<lparr>s_State := SRunning\<rparr>
            else if length (s_Jobs s) > 0 then s\<lparr>s_State := Dispatching\<rparr>
            else s\<lparr>s_State := Requested\<rparr>))"

definition expire_job :: "time \<Rightarrow> DiagnosticJob \<Rightarrow> DiagnosticJob" where
  "expire_job now j = (if \<not> j_terminal (j_State j) \<and> \<not> j_ExpiresAt j > now
     then j\<lparr>j_State := JExpired\<rparr> else j)"

definition expire_session :: "time \<Rightarrow> DiagnosticSession \<Rightarrow> DiagnosticSession" where
  "expire_session now s = (if s_terminal (s_State s) then s
     else deriveSessionState now (s\<lparr>s_Jobs := map (expire_job now) (s_Jobs s)\<rparr>))"

definition expireLocked :: "time \<Rightarrow> manager \<Rightarrow> manager" where
  "expireLocked now m = m\<lparr>sessions := map (\<lambda>(k, s). (k, expire_session now s)) (sessions m)\<rparr>"

subsection \<open>Removal and capacity\<close>

definition removeSessionLocked :: "string \<Rightarrow> manager \<Rightarrow> manager" where
  "removeSessionLocked sid m = (case find_session m sid of None \<Rightarrow> m
     | Some s \<Rightarrow>
         m\<lparr>jobs := fold (\<lambda>j f. f(j_JobID j := None)) (s_Jobs s) (jobs m),
           reservedNonces := fold (\<lambda>j f. f(nonce_key (j_AgentID j) (j_Nonce j) := None)) (s_Jobs s)
             (reservedNonces m),
           usedNonces := fold (\<lambda>a u. u - {nonce_key (o_AgentID (c_Observation a)) (o_Nonce (c_Observation a))})
             (s_AgentObservations s) (usedNonces m),
           sessions := filter (\<lambda>(k, s). k \<noteq> sid) (sessions m)\<rparr>)"

fun evict :: "string list \<Rightarrow> manager \<Rightarrow> manager \<times> bool" where
  "evict [] m = (m, False)"
| "evict (i # is) m =
     (let m' = removeSessionLocked i m in
      if int (length (sessions m')) < MaxSessions (config m') then (m', True) else evict is m')"

definition makeCapacityLocked ::
  "((string \<times> DiagnosticSession) list \<Rightarrow> (string \<times> DiagnosticSession) list) \<Rightarrow>
   manager \<Rightarrow> manager \<times> diag_error option" where
  "makeCapacityLocked order m =
     (if int (length (sessions m)) < MaxSessions (config m) then (m, None)
      else
        (let terminal = sort_key (\<lambda>(k, s). s_CreatedAt s)
               (order (filter (\<lambda>(k, s). s_terminal (s_State s)) (sessions m)))
         in case evict (map fst terminal) m of
              (m', True) \<Rightarrow> (m', None) | (m', False) \<Rightarrow> (m', Some ErrCapacity)))"

subsection \<open>The signature\<close>

text \<open>
  \<open>json.Marshal\<close> is the parameter \<open>marshal\<close> (None when it fails), Ed25519 the parameter \<open>ed\<close>.
\<close>

definition unsigned :: "Observation \<Rightarrow> Observation" where
  "unsigned obs = obs\<lparr>o_Signature := []\<rparr>"

definition ObservationSigningPayload ::
  "(Observation \<Rightarrow> 8 word list option) \<Rightarrow> Observation \<Rightarrow> 8 word list option" where
  "ObservationSigningPayload marshal obs = marshal (unsigned obs)"

type_synonym verifier = "string \<Rightarrow> 8 word list \<Rightarrow> 8 word list \<Rightarrow> bool"

definition NewEd25519Verifier ::
  "(string \<Rightarrow> 8 word list option) option \<Rightarrow>
   (8 word list \<Rightarrow> 8 word list \<Rightarrow> 8 word list \<Rightarrow> bool) \<Rightarrow> verifier" where
  "NewEd25519Verifier publicKey ed agentID payload signature =
     (case publicKey of None \<Rightarrow> False
      | Some lookup \<Rightarrow>
          (case lookup agentID of None \<Rightarrow> False
           | Some key \<Rightarrow> length key = 32 \<and> length signature = 64 \<and> ed key payload signature))"

subsection \<open>The operations\<close>

type_synonym 'a outcome = "manager \<times> (diag_error + 'a)"

definition trimmed_request :: "CreateSessionRequest \<Rightarrow> CreateSessionRequest" where
  "trimmed_request q =
     (let c = q_AutomationContext q in
      q\<lparr>q_StableID := TrimSpace (q_StableID q),
        q_ConfigFingerprint := TrimSpace (q_ConfigFingerprint q),
        q_AutomationContext := c\<lparr>a_Kind := TrimSpace (a_Kind c),
          a_Outcome := TrimSpace (a_Outcome c), a_Source := TrimSpace (a_Source c)\<rparr>\<rparr>)"

definition new_session :: "CreateSessionRequest \<Rightarrow> string \<Rightarrow> time \<Rightarrow> duration \<Rightarrow> DiagnosticSession" where
  "new_session q sid now ttl =
     \<lparr>s_SchemaVersion = SessionSchemaVersion, s_SessionID = sid, s_StableID = q_StableID q,
      s_Trigger = q_Trigger q, s_ConfigGeneration = q_ConfigGeneration q,
      s_ConfigFingerprint = q_ConfigFingerprint q,
      s_LocalResultSnapshot = q_LocalResultSnapshot q,
      s_AutomationContext = q_AutomationContext q, s_RequestedAgents = q_RequestedAgents q,
      s_Jobs = [], s_AgentObservations = [], s_MaintenanceDiagnostic = q_MaintenanceDiagnostic q,
      s_CreatedAt = now, s_ExpiresAt = (if q_ExpiresAt q = 0 then now + ttl else q_ExpiresAt q),
      s_State = Requested\<rparr>"

definition CreateSession ::
  "((string \<times> DiagnosticSession) list \<Rightarrow> (string \<times> DiagnosticSession) list) \<Rightarrow> time \<Rightarrow>
   string option \<Rightarrow> CreateSessionRequest \<Rightarrow> manager \<Rightarrow> DiagnosticSession outcome" where
  "CreateSession order now newID request m =
     (let q0 = trimmed_request request in
      case normalizedAgentIDs (q_RequestedAgents q0) of None \<Rightarrow> (m, Inl ErrInvalidRequest)
      | Some agents \<Rightarrow>
          (let q = q0\<lparr>q_RequestedAgents := agents\<rparr> in
           if \<not> validateCreateSessionRequest q now (SessionTTL (config m))
                  (MaxAgentsPerSession (config m))
           then (m, Inl ErrInvalidRequest)
           else (case newID of None \<Rightarrow> (m, Inl ErrGenerate)
             | Some sid \<Rightarrow>
                 if \<not> validToken sid then (m, Inl ErrInvalidRequest)
                 else
                   (let s = new_session q sid now (SessionTTL (config m));
                        m1 = expireLocked now m
                    in if find_session m1 sid \<noteq> None then (m1, Inl ErrInvalidRequest)
                       else (case makeCapacityLocked order m1 of
                           (m2, Some e) \<Rightarrow> (m2, Inl e)
                         | (m2, None) \<Rightarrow>
                             (m2\<lparr>sessions := sessions m2 @ [(sid, s)]\<rparr>, Inr s))))))"

definition new_job ::
  "DiagnosticSession \<Rightarrow> RegisterJobRequest \<Rightarrow> string \<Rightarrow> string \<Rightarrow> string \<Rightarrow> time \<Rightarrow> time \<Rightarrow> DiagnosticJob" where
  "new_job s g agentID jobID nonce now expiresAt =
     \<lparr>j_SchemaVersion = JobSchemaVersion, j_JobID = jobID, j_SessionID = s_SessionID s,
      j_AgentID = agentID, j_Nonce = nonce, j_StableID = s_StableID s,
      j_ConfigGeneration = s_ConfigGeneration s, j_ConfigFingerprint = s_ConfigFingerprint s,
      j_Profile = g_Profile g, j_CreatedAt = now, j_ExpiresAt = expiresAt, j_State = Pending\<rparr>"

definition RegisterJob ::
  "time \<Rightarrow> string option \<Rightarrow> string option \<Rightarrow> RegisterJobRequest \<Rightarrow> manager \<Rightarrow>
   DiagnosticJob outcome" where
  "RegisterJob now newJob newNonce g m =
     (let sid = TrimSpace (g_SessionID g); agentID = TrimSpace (g_AgentID g) in
      if \<not> validToken sid \<or> \<not> validToken agentID then (m, Inl ErrInvalidRequest)
      else if \<not> validateProfile (g_Profile g) then (m, Inl ErrInvalidRequest)
      else
        (let m1 = expireLocked now m in
         case find_session m1 sid of None \<Rightarrow> (m1, Inl ErrUnknownSession)
         | Some s \<Rightarrow>
             (case activeSessionError (s_State s) of Some e \<Rightarrow> (m1, Inl e)
              | None \<Rightarrow>
                  if agentID \<notin> set (s_RequestedAgents s) then (m1, Inl ErrInvalidRequest)
                  else if list_ex (\<lambda>j. j_AgentID j = agentID) (s_Jobs s)
                    then (m1, Inl ErrDuplicateJob)
                  else (case (newJob, newNonce) of
                      (Some jobID, Some nonce) \<Rightarrow>
                        if \<not> validToken jobID \<or> \<not> validToken nonce then (m1, Inl ErrInvalidRequest)
                        else if jobs m1 jobID \<noteq> None then (m1, Inl ErrInvalidRequest)
                        else if reservedNonces m1 (nonce_key agentID nonce) \<noteq> None
                          then (m1, Inl ErrInvalidRequest)
                        else
                          (let expiresAt = (if g_ExpiresAt g = 0 then s_ExpiresAt s
                                            else g_ExpiresAt g)
                           in if \<not> expiresAt > now \<or> expiresAt > s_ExpiresAt s
                              then (m1, Inl ErrInvalidRequest)
                              else
                                (let job = new_job s g agentID jobID nonce now expiresAt;
                                     s' = s\<lparr>s_Jobs := s_Jobs s @ [job]\<rparr>
                                 in ((put_session sid (deriveSessionState now s') m1)
                                       \<lparr>jobs := (jobs m1)(jobID \<mapsto> (s_SessionID s, length (s_Jobs s))),
                                         reservedNonces := (reservedNonces m1)
                                           (nonce_key agentID nonce \<mapsto> jobID)\<rparr>, Inr job)))
                    | _ \<Rightarrow> (m1, Inl ErrGenerate)))))"

definition jobLocked :: "manager \<Rightarrow> string \<Rightarrow> (string \<times> DiagnosticSession \<times> nat) option" where
  "jobLocked m jobID = (case jobs m jobID of None \<Rightarrow> None
     | Some (sid, i) \<Rightarrow> (case find_session m sid of None \<Rightarrow> None
         | Some s \<Rightarrow> if i < length (s_Jobs s) then Some (sid, s, i) else None))"

definition set_job_state :: "nat \<Rightarrow> JobState \<Rightarrow> DiagnosticSession \<Rightarrow> DiagnosticSession" where
  "set_job_state i st s = s\<lparr>s_Jobs := (s_Jobs s)[i := (s_Jobs s ! i)\<lparr>j_State := st\<rparr>]\<rparr>"

definition transitionJob :: "time \<Rightarrow> string \<Rightarrow> JobState \<Rightarrow> manager \<Rightarrow> unit outcome" where
  "transitionJob now jobID next_state m =
     (let m1 = expireLocked now m in
      case jobLocked m1 (TrimSpace jobID) of None \<Rightarrow> (m1, Inl ErrUnknownJob)
      | Some (sid, s, i) \<Rightarrow>
          (case activeSessionError (s_State s) of Some e \<Rightarrow> (m1, Inl e)
           | None \<Rightarrow>
               (let job = s_Jobs s ! i;
                    allowed = (case next_state of
                        Dispatched \<Rightarrow> j_State job = Pending
                      | JRunning \<Rightarrow> j_State job = Pending \<or> j_State job = Dispatched
                      | _ \<Rightarrow> False)
                in if \<not> allowed then (m1, Inl ErrInvalidTransition)
                   else (put_session sid (deriveSessionState now (set_job_state i next_state s)) m1,
                         Inr ()))))"

definition MarkJobDispatched :: "time \<Rightarrow> string \<Rightarrow> manager \<Rightarrow> unit outcome" where
  "MarkJobDispatched now jobID m = transitionJob now jobID Dispatched m"

definition MarkJobRunning :: "time \<Rightarrow> string \<Rightarrow> manager \<Rightarrow> unit outcome" where
  "MarkJobRunning now jobID m = transitionJob now jobID JRunning m"

definition accepted_record :: "Observation \<Rightarrow> time \<Rightarrow> AcceptedObservation" where
  "accepted_record obs now = \<lparr>c_Observation = obs, c_AcceptedAt = now,
     c_Reliable = (e_Checked (o_DirectConnectivity obs) \<and> e_Online (o_DirectConnectivity obs))\<rparr>"

text \<open>The comparisons of an observation with the job it answers.\<close>

definition binding_error :: "Observation \<Rightarrow> DiagnosticSession \<Rightarrow> DiagnosticJob \<Rightarrow> diag_error option" where
  "binding_error obs s job =
     (if o_ConfigGeneration obs \<noteq> j_ConfigGeneration job \<or>
         o_ConfigGeneration obs \<noteq> s_ConfigGeneration s then Some ErrStaleGeneration
      else if o_SchemaVersion obs \<noteq> ObservationSchemaVersion \<or> o_SessionID obs \<noteq> j_SessionID job \<or>
         o_AgentID obs \<noteq> j_AgentID job \<or> o_Nonce obs \<noteq> j_Nonce job \<or>
         o_StableID obs \<noteq> j_StableID job \<or> o_ConfigFingerprint obs \<noteq> j_ConfigFingerprint job \<or>
         o_EndpointProfile obs \<noteq> p_ID (j_Profile job) then Some ErrBindingMismatch
      else if (case o_AlternativeEndpoint obs of None \<Rightarrow> False
               | Some alt \<Rightarrow> p_AlternativeProfileID (j_Profile job) = [] \<or>
                   v_ProfileID alt \<noteq> p_AlternativeProfileID (j_Profile job)) then Some ErrBindingMismatch
      else if o_SpeedServerID obs \<noteq> [] \<and> o_SpeedServerID obs \<noteq> p_ServerID (j_Profile job)
        then Some ErrBindingMismatch
      else None)"

definition AcceptObservation ::
  "(Observation \<Rightarrow> 8 word list option) \<Rightarrow> verifier \<Rightarrow> time \<Rightarrow> Observation \<Rightarrow> manager \<Rightarrow>
   AcceptedObservation outcome" where
  "AcceptObservation marshal verify now obs m =
     (case validateObservation obs of Some e \<Rightarrow> (m, Inl e)
      | None \<Rightarrow>
        (let m1 = expireLocked now m in
         case jobLocked m1 (o_JobID obs) of None \<Rightarrow> (m1, Inl ErrUnknownJob)
         | Some (sid, s, i) \<Rightarrow>
           (let job = s_Jobs s ! i in
            if \<not> validateObservationTime (o_CheckedAt obs) now (j_CreatedAt job) (j_ExpiresAt job)
                 (ObservationMaxAge (config m1)) (ClockSkew (config m1))
            then (m1, Inl ErrStaleObservation)
            else (case ObservationSigningPayload marshal obs of None \<Rightarrow> (m1, Inl ErrMarshal)
              | Some payload \<Rightarrow>
                if \<not> verify (o_AgentID obs) payload (o_Signature obs)
                then (m1, Inl ErrInvalidSignature)
                else if j_State job = JCompleted then (m1, Inl ErrDuplicateObservation)
                else (case activeSessionError (s_State s) of Some e \<Rightarrow> (m1, Inl e)
                  | None \<Rightarrow>
                    (let k = nonce_key (o_AgentID obs) (o_Nonce obs) in
                     if k \<in> usedNonces m1 then (m1, Inl ErrReplayObservation)
                     else (case binding_error obs s job of Some e \<Rightarrow> (m1, Inl e)
                       | None \<Rightarrow>
                         (let r = accepted_record obs now;
                              s' = (set_job_state i JCompleted s)
                                \<lparr>s_AgentObservations := s_AgentObservations s @ [r]\<rparr>
                          in ((put_session sid (deriveSessionState now s') m1)
                                \<lparr>usedNonces := insert k (usedNonces m1)\<rparr>, Inr r)))))))))"

definition DeleteSession :: "string \<Rightarrow> manager \<Rightarrow> unit outcome" where
  "DeleteSession sessionID m =
     (let sid = TrimSpace sessionID in
      if find_session m sid = None then (m, Inl ErrUnknownSession)
      else (removeSessionLocked sid m, Inr ()))"

definition DeleteSessions :: "string \<Rightarrow> manager \<Rightarrow> manager \<times> nat" where
  "DeleteSessions stableID m =
     (let w = TrimSpace stableID;
          doomed = map fst (filter (\<lambda>(k, s). w = [] \<or> s_StableID s = w) (sessions m))
      in (fold removeSessionLocked doomed m, length doomed))"

definition cancel_job :: "DiagnosticJob \<Rightarrow> DiagnosticJob" where
  "cancel_job j = (if j_terminal (j_State j) then j else j\<lparr>j_State := JCancelled\<rparr>)"

definition CancelSession :: "time \<Rightarrow> string \<Rightarrow> manager \<Rightarrow> unit outcome" where
  "CancelSession now sessionID m =
     (let m1 = expireLocked now m; sid = TrimSpace sessionID in
      case find_session m1 sid of None \<Rightarrow> (m1, Inl ErrUnknownSession)
      | Some s \<Rightarrow>
          if s_terminal (s_State s) then (m1, Inl ErrInvalidTransition)
          else (put_session sid (s\<lparr>s_Jobs := map cancel_job (s_Jobs s), s_State := SCancelled\<rparr>) m1,
                Inr ()))"

definition Session :: "time \<Rightarrow> string \<Rightarrow> manager \<Rightarrow> manager \<times> DiagnosticSession option" where
  "Session now sessionID m =
     (let m1 = expireLocked now m in (m1, find_session m1 (TrimSpace sessionID)))"

text \<open>The newest first; \<open>order\<close> is the order of Go's map iteration and of ties in \<open>sort.Slice\<close>.\<close>

definition Sessions ::
  "((string \<times> DiagnosticSession) list \<Rightarrow> (string \<times> DiagnosticSession) list) \<Rightarrow> time \<Rightarrow>
   manager \<Rightarrow> manager \<times> DiagnosticSession list" where
  "Sessions order now m =
     (let m1 = expireLocked now m
      in (m1, sort_key (\<lambda>s. - s_CreatedAt s) (map snd (order (sessions m1)))))"

end
