(* ===== verification/ProbeExecutor.thy ===== *)
theory ProbeExecutor
  imports DiagManager
begin

text \<open>
  The agent's executor (\<open>src/probeagent/executor.go\<close>): how a job becomes an observation.

  The network is an argument: the outcome of a dial, a lookup, a request, the bytes of a transfer
  and the clock differences the code reads. An error is its lower-cased text with the answer of
  \<open>errors.Is\<close> for the deadline. The file system and the start of the embedded Xray are outcomes too.
  SHA-256, the JSON check of the Xray configuration and \<open>url.Parse\<close> are parameters. Floating-point
  rates and quantiles are taken over the rationals.
\<close>

subsection \<open>Text and numbers\<close>

fun contains_text :: "string \<Rightarrow> string \<Rightarrow> bool" where
  "contains_text [] pat \<longleftrightarrow> pat = []"
| "contains_text (c # cs) pat \<longleftrightarrow> has_prefix (c # cs) pat \<or> contains_text cs pat"

record net_error =
  ne_text :: string
  ne_deadline :: bool

definition Milliseconds :: "duration \<Rightarrow> int" where
  "Milliseconds d = (if d < 0 then - ((- d) div millisecond) else d div millisecond)"

definition valueOrDefault :: "string \<Rightarrow> string \<Rightarrow> string" where
  "valueOrDefault v fallback = (if TrimSpace v \<noteq> [] then TrimSpace v else fallback)"

definition maxInt64 :: "int \<Rightarrow> int \<Rightarrow> int" where
  "maxInt64 l r = (if l > r then l else r)"

definition diagnosticHostTimeout :: "duration \<Rightarrow> duration" where
  "diagnosticHostTimeout proxyTimeout = (if proxyTimeout < 3 * second then proxyTimeout else 3 * second)"

subsection \<open>Configuration\<close>

record ExecutorConfig =
  ec_RuntimeDir :: string
  ec_IPCheckURL :: string
  ec_StatusCheckURL :: string
  ec_DownloadURL :: string
  ec_DirectCheckURL :: string
  ec_ProxyTimeout :: duration
  ec_DownloadTimeout :: duration
  ec_DownloadMinSize :: int
  ec_LatencySamples :: int
  ec_StabilityDuration :: duration
  ec_DNSResolver :: string

definition DefaultAgentRuntimeDir :: string where
  "DefaultAgentRuntimeDir = ''/run/xray-checker-agent''"
definition DefaultIPCheckURL :: string where
  "DefaultIPCheckURL = ''https://api.ipify.org?format=text''"
definition DefaultStatusCheckURL :: string where
  "DefaultStatusCheckURL = ''http://cp.cloudflare.com/generate_204''"
definition DefaultDownloadURL :: string where
  "DefaultDownloadURL = ''https://proof.ovh.net/files/100Mb.dat''"
definition DefaultDirectCheckURL :: string where
  "DefaultDirectCheckURL = ''https://api.ipify.org?format=text''"
definition DefaultProxyTimeout :: duration where "DefaultProxyTimeout = 30 * second"
definition DefaultDownloadTimeout :: duration where "DefaultDownloadTimeout = 60 * second"
definition DefaultDownloadMinSize :: int where "DefaultDownloadMinSize = 10000000"
definition DefaultLatencySamples :: int where "DefaultLatencySamples = 5"
definition DefaultStabilityDuration :: duration where "DefaultStabilityDuration = 20 * second"
definition DefaultDNSResolver :: string where "DefaultDNSResolver = ''1.1.1.1:53''"
definition maxLatencySamples :: int where "maxLatencySamples = 20"
definition maxStabilityDuration :: duration where "maxStabilityDuration = 2 * minute"

text \<open>\<open>endpoint_ok\<close> is \<open>validateEndpointURL\<close>, \<open>hostport_ok\<close> \<open>net.SplitHostPort\<close>, \<open>abs_path\<close> \<open>filepath.IsAbs\<close>.\<close>

definition NewExecutor ::
  "(string \<Rightarrow> bool) \<Rightarrow> (string \<Rightarrow> bool) \<Rightarrow> (string \<Rightarrow> bool) \<Rightarrow> ExecutorConfig \<Rightarrow> ExecutorConfig option" where
  "NewExecutor endpoint_ok hostport_ok abs_path c =
     (let c1 = \<lparr>ec_RuntimeDir = valueOrDefault (ec_RuntimeDir c) DefaultAgentRuntimeDir,
            ec_IPCheckURL = valueOrDefault (ec_IPCheckURL c) DefaultIPCheckURL,
            ec_StatusCheckURL = valueOrDefault (ec_StatusCheckURL c) DefaultStatusCheckURL,
            ec_DownloadURL = valueOrDefault (ec_DownloadURL c) DefaultDownloadURL,
            ec_DirectCheckURL = valueOrDefault (ec_DirectCheckURL c) DefaultDirectCheckURL,
            ec_ProxyTimeout = (if ec_ProxyTimeout c = 0 then DefaultProxyTimeout else ec_ProxyTimeout c),
            ec_DownloadTimeout = (if ec_DownloadTimeout c = 0 then DefaultDownloadTimeout
                                  else ec_DownloadTimeout c),
            ec_DownloadMinSize = (if ec_DownloadMinSize c = 0 then DefaultDownloadMinSize
                                  else ec_DownloadMinSize c),
            ec_LatencySamples = (if ec_LatencySamples c = 0 then DefaultLatencySamples
                                 else ec_LatencySamples c),
            ec_StabilityDuration = (if ec_StabilityDuration c = 0 then DefaultStabilityDuration
                                    else ec_StabilityDuration c),
            ec_DNSResolver = valueOrDefault (ec_DNSResolver c) DefaultDNSResolver\<rparr>
      in if ec_LatencySamples c1 < 1 \<or> ec_LatencySamples c1 > maxLatencySamples \<or>
            ec_StabilityDuration c1 < second \<or> ec_StabilityDuration c1 > maxStabilityDuration then None
         else if \<not> hostport_ok (ec_DNSResolver c1) then None
         else if \<not> abs_path (ec_RuntimeDir c1) \<or> ec_ProxyTimeout c1 < second \<or>
            ec_DownloadTimeout c1 < second \<or> ec_DownloadMinSize c1 < 1 then None
         else if \<not> list_all endpoint_ok [ec_IPCheckURL c1, ec_StatusCheckURL c1, ec_DownloadURL c1,
            ec_DirectCheckURL c1] then None
         else Some c1)"

subsection \<open>Probes outside the tunnel\<close>

definition tcpFailureCode :: "net_error \<Rightarrow> string" where
  "tcpFailureCode err =
     (if contains_text (ne_text err) ''refused'' then ''tcp_refused''
      else if contains_text (ne_text err) ''no such host'' then ''dns''
      else ''tcp_timeout'')"

definition tlsFailureCode :: "net_error \<Rightarrow> string" where
  "tlsFailureCode err =
     (if contains_text (ne_text err) ''reset'' then ''tls_reset''
      else if contains_text (ne_text err) ''timeout'' \<or> contains_text (ne_text err) ''deadline''
        then ''tls_timeout''
      else if contains_text (ne_text err) ''eof'' then ''tls_eof''
      else if contains_text (ne_text err) ''handshake failure'' \<or> contains_text (ne_text err) ''alert''
        then ''tls_alert''
      else ''tls_failed'')"

text \<open>The outcome of the dial: None when it connected.\<close>

definition tcpEvidence :: "duration \<Rightarrow> net_error option \<Rightarrow> CheckEvidence" where
  "tcpEvidence elapsed dial = (case dial of
     None \<Rightarrow> \<lparr>e_Checked = True, e_Online = True, e_LatencyMillis = Milliseconds elapsed, e_FailureCode = []\<rparr>
   | Some err \<Rightarrow> \<lparr>e_Checked = True, e_Online = False, e_LatencyMillis = Milliseconds elapsed,
       e_FailureCode =
         (if contains_text (ne_text err) ''refused'' then ''tcp_refused''
          else if contains_text (ne_text err) ''no such host'' then ''dns''
          else ''tcp_timeout'')\<rparr>)"

text \<open>The answers of \<open>pingAddress\<close> for the resolved addresses in turn: the latency and whether it replied.\<close>

fun ping_addresses :: "CheckEvidence \<Rightarrow> (duration \<times> bool) list \<Rightarrow> CheckEvidence" where
  "ping_addresses e [] = e"
| "ping_addresses e ((latency, replied) # rest) =
     (let e' = e\<lparr>e_LatencyMillis := Milliseconds latency\<rparr> in
      if replied then e'\<lparr>e_Online := True, e_FailureCode := []\<rparr> else ping_addresses e' rest)"

definition pingEvidence :: "(duration \<times> bool) list option \<Rightarrow> CheckEvidence" where
  "pingEvidence lookup =
     (let e = \<lparr>e_Checked = True, e_Online = False, e_LatencyMillis = 0,
               e_FailureCode = ''host_unreachable''\<rparr>
      in case lookup of
           None \<Rightarrow> e\<lparr>e_FailureCode := ''dns''\<rparr>
         | Some [] \<Rightarrow> e\<lparr>e_FailureCode := ''dns''\<rparr>
         | Some answers \<Rightarrow> ping_addresses e answers)"

datatype handshake =
    DialFailed net_error
  | HandshakeFailed net_error
  | HandshakeDone string string string string

definition tlsVersionName :: "nat \<Rightarrow> string" where
  "tlsVersionName v = (if v = 772 then ''TLS1.3'' else if v = 771 then ''TLS1.2'' else [])"

definition tlsProbe :: "string \<Rightarrow> string \<Rightarrow> duration \<Rightarrow> handshake \<Rightarrow> TLSEvidence" where
  "tlsProbe sni host elapsed h =
     (let e = \<lparr>x_Checked = True, x_Handshake = False,
            x_ServerName = (if TrimSpace sni = [] then TrimSpace host else TrimSpace sni),
            x_NegotiatedVersion = [], x_NegotiatedProtocol = [], x_CertificateIssuer = [],
            x_CertificateExpiry = [], x_LatencyMillis = Milliseconds elapsed, x_FailureCode = []\<rparr>
      in case h of
           DialFailed err \<Rightarrow> e\<lparr>x_FailureCode := tcpFailureCode err\<rparr>
         | HandshakeFailed err \<Rightarrow> e\<lparr>x_FailureCode := tlsFailureCode err\<rparr>
         | HandshakeDone version protocol issuer expiry \<Rightarrow>
             e\<lparr>x_Handshake := True, x_NegotiatedVersion := version, x_NegotiatedProtocol := protocol,
               x_CertificateIssuer := issuer, x_CertificateExpiry := expiry\<rparr>)"

definition sharesAddress :: "string list \<Rightarrow> string list \<Rightarrow> bool" where
  "sharesAddress l r = list_ex (\<lambda>a. a \<in> set l) r"

text \<open>One resolver: its name, the time it took and the sorted addresses, None for an error.\<close>

definition resolver_evidence :: "string \<times> duration \<times> string list option \<Rightarrow> DNSResolverEvidence" where
  "resolver_evidence a = (case a of (name, elapsed, answer) \<Rightarrow>
     \<lparr>r_Resolver = name, r_Addresses = (case answer of None \<Rightarrow> [] | Some as \<Rightarrow> as),
      r_LatencyMillis = Milliseconds elapsed,
      r_FailureCode = (case answer of None \<Rightarrow> ''dns'' | Some as \<Rightarrow> [])\<rparr>)"

definition dnsProbe ::
  "string \<Rightarrow> bool \<Rightarrow> (string \<times> duration \<times> string list option) list \<Rightarrow> DNSEvidence" where
  "dnsProbe host literal answers =
     (let e = \<lparr>d_Checked = True, d_Hostname = TrimSpace host, d_Literal = False, d_Resolvers = [],
            d_Mismatch = False\<rparr>
      in if literal then e\<lparr>d_Literal := True\<rparr>
         else
           (let rs = map resolver_evidence answers;
                answered = filter (\<lambda>as. as \<noteq> []) (map r_Addresses rs)
            in e\<lparr>d_Resolvers := rs,
                 d_Mismatch := (1 < length answered \<and> \<not> sharesAddress (answered ! 0) (answered ! 1))\<rparr>))"

subsection \<open>Requests through the tunnel\<close>

definition classifyProxyError :: "net_error \<Rightarrow> FailureEvidence" where
  "classifyProxyError err = \<lparr>f_Code =
     (if ne_deadline err \<or> contains_text (ne_text err) ''timeout'' then ''proxy_timeout''
      else if contains_text (ne_text err) ''no such host'' then ''dns''
      else if contains_text (ne_text err) ''connection refused'' then ''tcp_refused''
      else if contains_text (ne_text err) ''tls'' \<or> contains_text (ne_text err) ''x509'' \<or>
        contains_text (ne_text err) ''certificate'' then ''tls''
      else if contains_text (ne_text err) ''socks'' \<or> contains_text (ne_text err) ''proxyconnect''
        then ''proxy_handshake''
      else ''unknown''), f_Stage = FailureStageProxy\<rparr>"

abbreviation no_failure :: FailureEvidence where
  "no_failure \<equiv> \<lparr>f_Code = [], f_Stage = []\<rparr>"

definition endpoint_failure :: "string \<Rightarrow> FailureEvidence" where
  "endpoint_failure code = \<lparr>f_Code = code, f_Stage = FailureStageEndpoint\<rparr>"

definition configuration_failure :: FailureEvidence where
  "configuration_failure = \<lparr>f_Code = ''configuration'', f_Stage = FailureStageConfiguration\<rparr>"

record proxyCheckResult =
  pr_status :: string
  pr_latency :: duration
  pr_failure :: FailureEvidence
  pr_throughput :: "ThroughputEvidence option"
  pr_latencySeries :: "LatencySeriesEvidence option"
  pr_stability :: "StabilityEvidence option"
  pr_speedServerID :: string

definition proxy_failed :: "duration \<Rightarrow> FailureEvidence \<Rightarrow> proxyCheckResult" where
  "proxy_failed latency failure = \<lparr>pr_status = ProbeStatusProxyFailure, pr_latency = latency,
     pr_failure = failure, pr_throughput = None, pr_latencySeries = None, pr_stability = None,
     pr_speedServerID = []\<rparr>"

definition proxy_online :: "duration \<Rightarrow> proxyCheckResult" where
  "proxy_online latency = \<lparr>pr_status = ProbeStatusOnline, pr_latency = latency,
     pr_failure = no_failure, pr_throughput = None, pr_latencySeries = None, pr_stability = None,
     pr_speedServerID = []\<rparr>"

definition configurationResult :: proxyCheckResult where
  "configurationResult = proxy_failed 0 configuration_failure"

text \<open>The outcome of building and sending a request.\<close>

datatype response = BadRequest | SendFailed net_error | Status int

datatype read_end = ReadOK | ReadEOF | ReadFailed net_error

definition throughputEvidence :: "int \<Rightarrow> duration \<Rightarrow> duration \<Rightarrow> ThroughputEvidence" where
  "throughputEvidence bytes elapsed ttfb =
     \<lparr>t_Bytes = bytes, t_DurationMillis = Milliseconds elapsed,
      t_Mbps = (if elapsed > 0 \<and> bytes > 0
         then \<lfloor>rat_of_int bytes * 8 / (rat_of_int elapsed / rat_of_int second) / 1000000\<rfloor> else 0),
      t_TTFBMillis = Milliseconds ttfb\<rparr>"

definition percentileMillis :: "duration list \<Rightarrow> rat \<Rightarrow> int" where
  "percentileMillis xs quantile =
     (if xs = [] then 0
      else
        (let i0 = \<lfloor>rat_of_nat (length xs - 1) * quantile\<rfloor>;
             i1 = (if i0 < 0 then 0 else i0);
             i = (if i1 \<ge> int (length xs) then int (length xs) - 1 else i1)
         in Milliseconds (xs ! nat i)))"

text \<open>One sample: the outcome with the time to the first byte, 0 when none arrived, and the whole time.\<close>

definition singleLatencySample :: "response \<times> duration \<times> duration \<Rightarrow> duration \<times> FailureEvidence" where
  "singleLatencySample a = (case a of (resp, ttfb, elapsed) \<Rightarrow>
     (case resp of
        BadRequest \<Rightarrow> (0, configuration_failure)
      | SendFailed err \<Rightarrow> (0, classifyProxyError err)
      | Status code \<Rightarrow>
          if code < 200 \<or> code \<ge> 300 then (0, endpoint_failure ''http_status'')
          else (if ttfb = 0 then elapsed else ttfb, no_failure)))"

text \<open>The samples taken: the loop stops early when the context ends, so there may be fewer than \<open>n\<close>.\<close>

fun latency_loop ::
  "(response \<times> duration \<times> duration) list \<Rightarrow> duration list \<Rightarrow> FailureEvidence \<Rightarrow>
   duration list \<times> FailureEvidence" where
  "latency_loop [] samples last_failure = (samples, last_failure)"
| "latency_loop (a # rest) samples last_failure =
     (case singleLatencySample a of (latency, failure) \<Rightarrow>
        if f_Code failure \<noteq> [] then latency_loop rest samples failure
        else latency_loop rest (samples @ [latency]) last_failure)"

text \<open>The evidence of a series from its samples in the order they were taken.\<close>

definition latency_series :: "int \<Rightarrow> duration list \<Rightarrow> FailureEvidence \<Rightarrow> LatencySeriesEvidence" where
  "latency_series n samples last_failure =
     (let e = \<lparr>l_Samples = n, l_Succeeded = int (length samples), l_MinMillis = 0,
            l_MedianMillis = 0, l_P95Millis = 0, l_MaxMillis = 0, l_JitterMillis = 0,
            l_FailureCode = f_Code last_failure\<rparr>
      in if samples = [] then e
         else
           (let xs = sort samples;
                lo = Milliseconds (xs ! 0);
                hi = Milliseconds (xs ! (length xs - 1))
            in e\<lparr>l_MinMillis := lo, l_MaxMillis := hi, l_MedianMillis := percentileMillis xs (1 / 2),
                 l_P95Millis := percentileMillis xs (95 / 100), l_JitterMillis := hi - lo\<rparr>))"

definition latencyProfile :: "int \<Rightarrow> (response \<times> duration \<times> duration) list \<Rightarrow> proxyCheckResult" where
  "latencyProfile n attempts =
     (case latency_loop (take (nat n) attempts) [] no_failure of (samples, last_failure) \<Rightarrow>
        (let series = latency_series n samples last_failure;
             median = l_MedianMillis series * millisecond
         in if samples = [] then
              (proxy_failed 0 (if f_Code last_failure = []
                 then \<lparr>f_Code = ''proxy_timeout'', f_Stage = FailureStageProxy\<rparr> else last_failure))
                \<lparr>pr_latencySeries := Some series\<rparr>
            else if int (length samples) < n
            then (proxy_failed median last_failure)\<lparr>pr_latencySeries := Some series\<rparr>
            else (proxy_online median)\<lparr>pr_latencySeries := Some series\<rparr>))"

text \<open>The reads of a held transfer before the deadline: bytes and how each ended.\<close>

fun stability_reads :: "(int \<times> read_end) list \<Rightarrow> int \<Rightarrow> int \<times> read_end" where
  "stability_reads [] bytes = (bytes, ReadOK)"
| "stability_reads ((count, how) # rest) bytes =
     (case how of ReadOK \<Rightarrow> stability_reads rest (bytes + count) | _ \<Rightarrow> (bytes + count, how))"

definition stabilityProbe ::
  "duration \<Rightarrow> response \<Rightarrow> duration \<Rightarrow> duration \<Rightarrow> (int \<times> read_end) list \<Rightarrow> proxyCheckResult" where
  "stabilityProbe planned resp ttfb held reads =
     (let e = \<lparr>b_PlannedMillis = Milliseconds planned, b_HeldMillis = Milliseconds held, b_Bytes = 0,
            b_Interrupted = False, b_FailureCode = []\<rparr>
      in case resp of
           BadRequest \<Rightarrow>
             (proxy_failed 0 configuration_failure)\<lparr>pr_stability := Some (e\<lparr>b_HeldMillis := 0\<rparr>)\<rparr>
         | SendFailed err \<Rightarrow>
             (proxy_failed ttfb (classifyProxyError err))
               \<lparr>pr_stability := Some (e\<lparr>b_Interrupted := True,
                  b_FailureCode := f_Code (classifyProxyError err)\<rparr>)\<rparr>
         | Status code \<Rightarrow>
             if code < 200 \<or> code \<ge> 300 then
               (proxy_failed ttfb (endpoint_failure ''http_status''))
                 \<lparr>pr_stability := Some (e\<lparr>b_FailureCode := ''http_status''\<rparr>)\<rparr>
             else
               (case stability_reads reads 0 of (bytes, how) \<Rightarrow>
                  (let e' = e\<lparr>b_Bytes := bytes\<rparr> in
                   case how of
                     ReadFailed err \<Rightarrow>
                       (proxy_failed ttfb (classifyProxyError err))
                         \<lparr>pr_stability := Some (e'\<lparr>b_Interrupted := True,
                            b_FailureCode := f_Code (classifyProxyError err)\<rparr>)\<rparr>
                   | _ \<Rightarrow>
                       if bytes = 0 then
                         (proxy_failed ttfb (endpoint_failure ''download_incomplete''))
                           \<lparr>pr_stability := Some (e'\<lparr>b_Interrupted := True,
                              b_FailureCode := ''download_incomplete''\<rparr>)\<rparr>
                       else (proxy_online ttfb)\<lparr>pr_stability := Some e'\<rparr>)))"

text \<open>
  What the tunnel does with a request to an endpoint: the response, the time to the first byte, the
  transfer of a number of bytes (bytes read, time, how it ended) and the body read whole. The two
  repeating profiles have their own outcomes.
\<close>

datatype endpoint = IPCheck | StatusCheck | OwnDownload | Server string

record tunnel =
  tu_response :: "endpoint \<Rightarrow> response"
  tu_ttfb :: "endpoint \<Rightarrow> duration"
  tu_copy :: "endpoint \<Rightarrow> int \<Rightarrow> int \<times> duration \<times> read_end"
  tu_body :: "endpoint \<Rightarrow> net_error + string"
  tu_samples :: "(response \<times> duration \<times> duration) list"
  tu_held :: duration
  tu_reads :: "(int \<times> read_end) list"
  tu_resolves :: "string \<Rightarrow> bool"

definition copy_check :: "ExecutorConfig \<Rightarrow> tunnel \<Rightarrow> endpoint \<Rightarrow> TestProfile \<Rightarrow> proxyCheckResult" where
  "copy_check c tu ep profile =
     (let target = (case ProfileDownloadBytes (p_DownloadBytes profile) of
            Some requested \<Rightarrow> requested | None \<Rightarrow> ec_DownloadMinSize c)
      in case tu_copy tu ep target of (read, transferred, how) \<Rightarrow>
        (let throughput = throughputEvidence read transferred (tu_ttfb tu ep);
             minimum = (if target < ec_DownloadMinSize c then target else ec_DownloadMinSize c)
         in case how of
              ReadFailed err \<Rightarrow>
                (proxy_failed (tu_ttfb tu ep) (classifyProxyError err))\<lparr>pr_throughput := Some throughput\<rparr>
            | _ \<Rightarrow>
                if read < minimum then
                  (proxy_failed (tu_ttfb tu ep) (endpoint_failure ''download_incomplete''))
                    \<lparr>pr_throughput := Some throughput\<rparr>
                else (proxy_online (tu_ttfb tu ep))\<lparr>pr_throughput := Some throughput\<rparr>))"

definition request_check ::
  "ExecutorConfig \<Rightarrow> tunnel \<Rightarrow> endpoint \<Rightarrow> TestProfile \<Rightarrow> string \<Rightarrow> proxyCheckResult" where
  "request_check c tu ep profile directBody =
     (case tu_response tu ep of
        BadRequest \<Rightarrow> configurationResult
      | SendFailed err \<Rightarrow> proxy_failed (tu_ttfb tu ep) (classifyProxyError err)
      | Status code \<Rightarrow>
          if code < 200 \<or> code \<ge> 300
          then proxy_failed (tu_ttfb tu ep) (endpoint_failure ''http_status'')
          else if p_Method profile = ProbeMethodDownload then copy_check c tu ep profile
          else (case tu_body tu ep of
              Inl err \<Rightarrow> proxy_failed (tu_ttfb tu ep) (classifyProxyError err)
            | Inr body \<Rightarrow>
                if p_Method profile = ProbeMethodIP \<and> TrimSpace body = TrimSpace directBody
                then proxy_failed (tu_ttfb tu ep)
                       \<lparr>f_Code = ''source_ip_unchanged'', f_Stage = FailureStageProxy\<rparr>
                else proxy_online (tu_ttfb tu ep)))"

definition proxyCheck :: "ExecutorConfig \<Rightarrow> tunnel \<Rightarrow> TestProfile \<Rightarrow> string \<Rightarrow> proxyCheckResult" where
  "proxyCheck c tu profile directBody =
     (if p_ID profile = ProfileLatency then
        if p_Method profile \<noteq> ProbeMethodLatency then configurationResult
        else latencyProfile (ec_LatencySamples c) (tu_samples tu)
      else if p_ID profile = ProfileStability then
        if p_Method profile \<noteq> ProbeMethodStability then configurationResult
        else stabilityProbe (ec_StabilityDuration c) (tu_response tu OwnDownload)
               (tu_ttfb tu OwnDownload) (tu_held tu) (tu_reads tu)
      else if p_ID profile = ProfileIP then
        if p_Method profile \<noteq> ProbeMethodIP then configurationResult
        else request_check c tu IPCheck profile directBody
      else if p_ID profile = ProfileStatus then
        if p_Method profile \<noteq> ProbeMethodStatus then configurationResult
        else request_check c tu StatusCheck profile directBody
      else if p_ID profile = ProfileDownload then
        if p_Method profile \<noteq> ProbeMethodDownload then configurationResult
        else
          (let serverID = TrimSpace (p_ServerID profile) in
           if serverID \<noteq> [] \<and> tu_resolves tu serverID
           then (request_check c tu (Server serverID) profile directBody)\<lparr>pr_speedServerID := serverID\<rparr>
           else request_check c tu OwnDownload profile directBody)
      else configurationResult)"

subsection \<open>Connectivity without the tunnel\<close>

text \<open>
  The request to the direct endpoint: its outcome, the time until the response or the error, and the
  body as far as it is read (at most 64 KiB) or the error of reading it.
\<close>

fun directConnectivity :: "response \<times> duration \<times> (net_error + string) \<Rightarrow> CheckEvidence \<times> string" where
  "directConnectivity (BadRequest, elapsed, body) =
     (\<lparr>e_Checked = True, e_Online = False, e_LatencyMillis = 0, e_FailureCode = ''check_endpoint''\<rparr>, [])"
| "directConnectivity (SendFailed err, elapsed, body) =
     (\<lparr>e_Checked = True, e_Online = False, e_LatencyMillis = Milliseconds elapsed,
       e_FailureCode = ''check_endpoint''\<rparr>, [])"
| "directConnectivity (Status code, elapsed, body) =
     (case body of
        Inl readErr \<Rightarrow> (\<lparr>e_Checked = True, e_Online = False, e_LatencyMillis = Milliseconds elapsed,
          e_FailureCode = ''check_endpoint''\<rparr>, [])
      | Inr content \<Rightarrow>
          if code < 200 \<or> code \<ge> 300 then
            (\<lparr>e_Checked = True, e_Online = False, e_LatencyMillis = Milliseconds elapsed,
              e_FailureCode = ''check_endpoint''\<rparr>, [])
          else (\<lparr>e_Checked = True, e_Online = True, e_LatencyMillis = Milliseconds elapsed,
                 e_FailureCode = []\<rparr>, content))"

subsection \<open>A job\<close>

record JobAssignment =
  ja_Job :: DiagnosticJob
  ja_XrayConfig :: "8 word list"
  ja_SocksPort :: int
  ja_TargetHost :: string
  ja_TargetPort :: int
  ja_TargetSNI :: string

definition MaxExecutionConfigBytes :: nat where "MaxExecutionConfigBytes = 512 * 1024"

definition validateAssignment :: "time \<Rightarrow> JobAssignment \<Rightarrow> bool" where
  "validateAssignment now a =
     (let job = ja_Job a in
      if j_SchemaVersion job \<noteq> JobSchemaVersion \<or> j_JobID job = [] \<or> j_SessionID job = [] \<or>
         j_AgentID job = [] \<or> j_Nonce job = [] \<or> j_StableID job = [] then False
      else if \<not> j_ExpiresAt job > now \<or> ja_SocksPort a < 1024 \<or> ja_SocksPort a > 65535 \<or>
         TrimSpace (ja_TargetHost a) = [] \<or> ja_TargetPort a < 1 \<or> ja_TargetPort a > 65535 then False
      else \<not> (length (ja_XrayConfig a) = 0 \<or> length (ja_XrayConfig a) > MaxExecutionConfigBytes))"

text \<open>Everything outside the executor that one execution meets.\<close>

datatype start = SetupFailed | XrayFailed | XrayStarted

record world =
  wo_started :: time
  wo_elapsed :: duration
  wo_digest :: "8 word list \<Rightarrow> string"
  wo_sandboxed :: "8 word list \<Rightarrow> int \<Rightarrow> bool"
  wo_direct :: "response \<times> duration \<times> (net_error + string)"
  wo_start :: start
  wo_tunnel :: tunnel
  wo_tcp :: "duration \<times> net_error option"
  wo_ping :: "(duration \<times> bool) list option"
  wo_tls :: "duration \<times> handshake"
  wo_literal :: bool
  wo_dns :: "(string \<times> duration \<times> string list option) list"

definition initial_observation :: "time \<Rightarrow> DiagnosticJob \<Rightarrow> Observation" where
  "initial_observation now job =
     \<lparr>o_SchemaVersion = ObservationSchemaVersion, o_AgentID = j_AgentID job,
      o_SessionID = j_SessionID job, o_JobID = j_JobID job, o_Nonce = j_Nonce job,
      o_StableID = j_StableID job, o_ConfigGeneration = j_ConfigGeneration job,
      o_ConfigFingerprint = j_ConfigFingerprint job, o_CheckedAt = now, o_DurationMillis = 0,
      o_EndpointProfile = p_ID (j_Profile job), o_Status = ProbeStatusProxyFailure,
      o_LatencyMillis = 0, o_Failure = no_failure,
      o_TCP = \<lparr>e_Checked = False, e_Online = False, e_LatencyMillis = 0, e_FailureCode = []\<rparr>,
      o_Ping = \<lparr>e_Checked = False, e_Online = False, e_LatencyMillis = 0, e_FailureCode = []\<rparr>,
      o_DirectConnectivity = \<lparr>e_Checked = False, e_Online = False, e_LatencyMillis = 0, e_FailureCode = []\<rparr>,
      o_AlternativeEndpoint = None, o_Throughput = None, o_Latency = None, o_Stability = None,
      o_TLS = None, o_DNS = None, o_AgentVersion = [], o_SpeedServerID = [], o_Signature = []\<rparr>"

definition runTransportProbe :: "world \<Rightarrow> JobAssignment \<Rightarrow> ProfileDescriptor \<Rightarrow> Observation \<Rightarrow> Observation" where
  "runTransportProbe w a d obs =
     (if h_Method d = ProbeMethodTLS then
        (let e = tlsProbe (ja_TargetSNI a) (ja_TargetHost a) (fst (wo_tls w)) (snd (wo_tls w));
             obs1 = obs\<lparr>o_TCP := tcpEvidence (fst (wo_tcp w)) (snd (wo_tcp w)), o_TLS := Some e,
                        o_LatencyMillis := x_LatencyMillis e\<rparr>
         in if x_Handshake e then obs1\<lparr>o_Status := ProbeStatusOnline\<rparr>
            else
              (let obs2 = obs1\<lparr>o_Failure := \<lparr>f_Code = x_FailureCode e, f_Stage = FailureStageTLS\<rparr>\<rparr> in
               if e_Checked (o_TCP obs2) \<and> \<not> e_Online (o_TCP obs2)
               then obs2\<lparr>o_Status := ProbeStatusOffline,
                      o_Failure := (o_Failure obs2)\<lparr>f_Stage := FailureStageTCP\<rparr>\<rparr>
               else obs2))
      else if h_Method d = ProbeMethodDNS then
        (let e = dnsProbe (ja_TargetHost a) (wo_literal w) (wo_dns w); obs1 = obs\<lparr>o_DNS := Some e\<rparr> in
         if d_Literal e then
           obs1\<lparr>o_Status := ProbeStatusUnknown,
                o_Failure := \<lparr>f_Code = ''dns_literal_address'', f_Stage = FailureStageDNS\<rparr>\<rparr>
         else (case find (\<lambda>r. r_Addresses r \<noteq> []) (d_Resolvers e) of
             None \<Rightarrow> obs1\<lparr>o_Status := ProbeStatusOffline,
                          o_Failure := \<lparr>f_Code = ''dns'', f_Stage = FailureStageDNS\<rparr>\<rparr>
           | Some r \<Rightarrow>
               (let obs2 = obs1\<lparr>o_LatencyMillis := r_LatencyMillis r\<rparr> in
                if d_Mismatch e then
                  obs2\<lparr>o_Status := ProbeStatusProxyFailure,
                       o_Failure := \<lparr>f_Code = ''dns_mismatch'', f_Stage = FailureStageDNS\<rparr>\<rparr>
                else obs2\<lparr>o_Status := ProbeStatusOnline\<rparr>)))
      else obs\<lparr>o_Failure := configuration_failure\<rparr>)"

text \<open>The host checks that follow a failed tunnel: both run, and both failing means offline.\<close>

definition host_checks :: "world \<Rightarrow> Observation \<Rightarrow> Observation" where
  "host_checks w obs =
     (let obs1 = obs\<lparr>o_TCP := tcpEvidence (fst (wo_tcp w)) (snd (wo_tcp w)),
                     o_Ping := pingEvidence (wo_ping w)\<rparr>
      in if e_Checked (o_TCP obs1) \<and> \<not> e_Online (o_TCP obs1) \<and>
            e_Checked (o_Ping obs1) \<and> \<not> e_Online (o_Ping obs1)
         then obs1\<lparr>o_Status := ProbeStatusOffline\<rparr> else obs1)"

definition tunnelled_probe :: "ExecutorConfig \<Rightarrow> world \<Rightarrow> JobAssignment \<Rightarrow> Observation \<Rightarrow> Observation" where
  "tunnelled_probe c w a obs =
     (let profile = j_Profile (ja_Job a);
          res = proxyCheck c (wo_tunnel w) profile (snd (directConnectivity (wo_direct w)));
          obs1 = obs\<lparr>o_Status := pr_status res, o_LatencyMillis := Milliseconds (pr_latency res),
            o_Failure := pr_failure res, o_Throughput := pr_throughput res,
            o_Latency := pr_latencySeries res, o_Stability := pr_stability res,
            o_SpeedServerID := pr_speedServerID res\<rparr>
      in if pr_status res = ProbeStatusOnline then obs1
         else
           (let alternativeID = TrimSpace (p_AlternativeProfileID profile) in
            case (if alternativeID = [] then None else ProfileByID alternativeID) of
              None \<Rightarrow> host_checks w obs1
            | Some alt \<Rightarrow>
                if \<not> h_Tunnelled alt then host_checks w obs1
                else
                  (let r = proxyCheck c (wo_tunnel w) (TestProfileFor alt []) (snd (directConnectivity (wo_direct w)));
                       obs2 = obs1\<lparr>o_AlternativeEndpoint := Some \<lparr>v_ProfileID = h_ID alt,
                         v_Status = pr_status r, v_LatencyMillis = Milliseconds (pr_latency r),
                         v_Failure = pr_failure r\<rparr>\<rparr>
                   in if pr_status r = ProbeStatusOnline then obs2 else host_checks w obs2)))"

definition execute_body :: "ExecutorConfig \<Rightarrow> world \<Rightarrow> JobAssignment \<Rightarrow> Observation \<Rightarrow> Observation" where
  "execute_body c w a obs =
     (let failed = obs\<lparr>o_Failure := configuration_failure\<rparr> in
      if \<not> validateAssignment (wo_started w) a then failed
      else if wo_digest w (ja_XrayConfig a) \<noteq> j_ConfigFingerprint (ja_Job a) then failed
      else if \<not> wo_sandboxed w (ja_XrayConfig a) (ja_SocksPort a) then failed
      else (case ProfileByID (p_ID (j_Profile (ja_Job a))) of None \<Rightarrow> failed
        | Some d \<Rightarrow>
            if h_Method d \<noteq> p_Method (j_Profile (ja_Job a)) then failed
            else
              (let obs1 = obs\<lparr>o_DirectConnectivity := fst (directConnectivity (wo_direct w))\<rparr> in
               if \<not> h_Tunnelled d then runTransportProbe w a d obs1
               else (case wo_start w of
                   SetupFailed \<Rightarrow> obs1\<lparr>o_Failure := configuration_failure\<rparr>
                 | XrayFailed \<Rightarrow>
                     obs1\<lparr>o_Failure := \<lparr>f_Code = ''configuration'', f_Stage = FailureStageXrayStart\<rparr>\<rparr>
                 | XrayStarted \<Rightarrow> tunnelled_probe c w a obs1))))"

definition Execute :: "ExecutorConfig \<Rightarrow> world \<Rightarrow> JobAssignment \<Rightarrow> Observation" where
  "Execute c w a =
     (execute_body c w a (initial_observation (wo_started w) (ja_Job a)))
       \<lparr>o_DurationMillis := maxInt64 0 (Milliseconds (wo_elapsed w))\<rparr>"

text \<open>What the client makes of it before posting (\<open>pollAndExecute\<close> in \<open>client.go\<close>).\<close>

definition signed_observation ::
  "(Observation \<Rightarrow> 8 word list option) \<Rightarrow> (8 word list \<Rightarrow> 8 word list) \<Rightarrow> string \<Rightarrow> string \<Rightarrow>
   Observation \<Rightarrow> Observation option" where
  "signed_observation marshal sign agentID agentVersion obs =
     (let obs1 = obs\<lparr>o_AgentID := agentID, o_AgentVersion := agentVersion\<rparr> in
      case ObservationSigningPayload marshal obs1 of None \<Rightarrow> None
      | Some payload \<Rightarrow> Some (obs1\<lparr>o_Signature := sign payload\<rparr>))"

end
