(* ===== verification/DiagInvariant.thy ===== *)
theory DiagInvariant
  imports DiagManager StepSystems
begin

text \<open>
  The invariant of the session manager and its preservation by every operation.

  The three indexes of the manager (\<open>jobs\<close>, \<open>reservedNonces\<close>, \<open>usedNonces\<close>) are redundant: they are
  determined by the sessions. \<open>ledger\<close> is the part of the sessions they depend on, the identities
  of jobs and of accepted observations; \<open>index_rel\<close> says that they agree with it, and each change
  of the ledger has its lemma. The operations on one session satisfy the contract \<open>session_op\<close>.
\<close>

subsection \<open>The ledger\<close>

datatype binding = Binding (b_job: string) (b_agent: string) (b_nonce: string)

definition job_id :: "DiagnosticJob \<Rightarrow> binding" where
  "job_id j = Binding (j_JobID j) (j_AgentID j) (j_Nonce j)"

definition job_ids :: "DiagnosticSession \<Rightarrow> binding list" where
  "job_ids s = map job_id (s_Jobs s)"

definition obs_id :: "AcceptedObservation \<Rightarrow> binding" where
  "obs_id a = Binding (o_JobID (c_Observation a)) (o_AgentID (c_Observation a)) (o_Nonce (c_Observation a))"

definition obs_ids :: "DiagnosticSession \<Rightarrow> binding list" where
  "obs_ids s = map obs_id (s_AgentObservations s)"

definition completed_ids :: "DiagnosticSession \<Rightarrow> binding list" where
  "completed_ids s = map job_id (filter (\<lambda>j. j_State j = JCompleted) (s_Jobs s))"

text \<open>The jobs and the accepted observations of each session identifier, none when it is unknown.\<close>

definition job_ledger :: "manager \<Rightarrow> string \<Rightarrow> binding list" where
  "job_ledger m k = (case find_session m k of None \<Rightarrow> [] | Some s \<Rightarrow> job_ids s)"

definition obs_ledger :: "manager \<Rightarrow> string \<Rightarrow> binding list" where
  "obs_ledger m k = (case find_session m k of None \<Rightarrow> [] | Some s \<Rightarrow> obs_ids s)"

definition binding_key :: "binding \<Rightarrow> string" where
  "binding_key b = nonce_key (b_agent b) (b_nonce b)"

definition index_rel ::
  "(string \<Rightarrow> binding list) \<Rightarrow> (string \<Rightarrow> binding list) \<Rightarrow> (string \<Rightarrow> (string \<times> nat) option) \<Rightarrow>
   (string \<Rightarrow> string option) \<Rightarrow> string set \<Rightarrow> bool" where
  "index_rel jl ol jb rn un \<longleftrightarrow>
     (\<forall>jid k i. jb jid = Some (k, i) \<longleftrightarrow> i < length (jl k) \<and> b_job (jl k ! i) = jid) \<and>
     (\<forall>key jid. rn key = Some jid \<longleftrightarrow> (\<exists>k. \<exists>b\<in>set (jl k). b_job b = jid \<and> binding_key b = key)) \<and>
     (\<forall>key. key \<in> un \<longleftrightarrow> (\<exists>k. \<exists>b\<in>set (ol k). binding_key b = key)) \<and>
     (\<forall>k. set (ol k) \<subseteq> set (jl k))"

lemma index_relD:
  assumes "index_rel jl ol jb rn un"
  shows "jb jid = Some (k, i) \<longleftrightarrow> i < length (jl k) \<and> b_job (jl k ! i) = jid"
    and "rn key = Some jid \<longleftrightarrow> (\<exists>k. \<exists>b\<in>set (jl k). b_job b = jid \<and> binding_key b = key)"
    and "key \<in> un \<longleftrightarrow> (\<exists>k. \<exists>b\<in>set (ol k). binding_key b = key)"
    and "b \<in> set (ol k) \<Longrightarrow> b \<in> set (jl k)"
  using assms by (auto simp: index_rel_def)

lemma index_relI:
  assumes "\<And>jid k i. jb jid = Some (k, i) \<longleftrightarrow> i < length (jl k) \<and> b_job (jl k ! i) = jid"
    and "\<And>key jid. rn key = Some jid \<longleftrightarrow> (\<exists>k. \<exists>b\<in>set (jl k). b_job b = jid \<and> binding_key b = key)"
    and "\<And>key. key \<in> un \<longleftrightarrow> (\<exists>k. \<exists>b\<in>set (ol k). binding_key b = key)"
    and "\<And>k b. b \<in> set (ol k) \<Longrightarrow> b \<in> set (jl k)"
  shows "index_rel jl ol jb rn un"
  unfolding index_rel_def using assms by blast

lemma index_empty: "index_rel (\<lambda>k. []) (\<lambda>k. []) Map.empty Map.empty {}"
  by (simp add: index_rel_def)

lemma fun_upd_ex: "(\<exists>k. \<exists>b\<in>set ((f(k0 := xs)) k). P b) \<longleftrightarrow>
    (\<exists>b\<in>set xs. P b) \<or> (\<exists>k. k \<noteq> k0 \<and> (\<exists>b\<in>set (f k). P b))"
  by auto

lemma ex_split: "(\<exists>k. \<exists>b\<in>set (f k). P b) \<longleftrightarrow>
    (\<exists>b\<in>set (f k0). P b) \<or> (\<exists>k. k \<noteq> k0 \<and> (\<exists>b\<in>set (f k). P b))"
  by auto

text \<open>Two jobs with the same identifier or the same nonce key belong to the same session.\<close>

lemma index_job_unique:
  assumes r: "index_rel jl ol jb rn un" and "b \<in> set (jl k)" "b' \<in> set (jl k')" "b_job b = b_job b'"
  shows "k = k'"
proof -
  obtain i where i: "i < length (jl k)" "jl k ! i = b" using assms(2) by (auto simp: in_set_conv_nth)
  obtain i' where i': "i' < length (jl k')" "jl k' ! i' = b'"
    using assms(3) by (auto simp: in_set_conv_nth)
  have "jb (b_job b) = Some (k, i)" using index_relD(1) [OF r] i by blast
  moreover have "jb (b_job b) = Some (k', i')" using index_relD(1) [OF r] assms(4) i' by metis
  ultimately show ?thesis by simp
qed

lemma index_key_unique:
  assumes r: "index_rel jl ol jb rn un" and "b \<in> set (jl k)" "b' \<in> set (jl k')"
    and "binding_key b = binding_key b'"
  shows "k = k'"
proof -
  have "rn (binding_key b) = Some (b_job b)" using index_relD(2) [OF r] assms(2) by blast
  moreover have "rn (binding_key b) = Some (b_job b')" using index_relD(2) [OF r] assms(3,4) by metis
  ultimately show ?thesis using index_job_unique [OF r assms(2,3)] by simp
qed

lemma index_new_job:
  assumes r: "index_rel jl ol jb rn un" and "jb (b_job b) = None" and "rn (binding_key b) = None"
  shows "index_rel (jl(k := jl k @ [b])) ol (jb(b_job b \<mapsto> (k, length (jl k))))
    (rn(binding_key b \<mapsto> b_job b)) un"
proof (rule index_relI)
  fix jid k' i
  have fresh: "\<And>k i. i < length (jl k) \<Longrightarrow> b_job (jl k ! i) \<noteq> b_job b"
    using index_relD(1) [OF r, of "b_job b"] assms(2) by simp
  show "((jb(b_job b \<mapsto> (k, length (jl k)))) jid = Some (k', i)) =
      (i < length ((jl(k := jl k @ [b])) k') \<and> b_job ((jl(k := jl k @ [b])) k' ! i) = jid)"
    using index_relD(1) [OF r, of jid k' i] fresh [of i k'] fresh [of i k]
    by (auto simp: nth_append less_Suc_eq)
next
  fix key jid
  have "\<And>k c. c \<in> set (jl k) \<Longrightarrow> binding_key c \<noteq> binding_key b"
    using index_relD(2) [OF r, of "binding_key b"] assms(3) by (metis option.distinct(1))
  then show "((rn(binding_key b \<mapsto> b_job b)) key = Some jid) =
      (\<exists>k'. \<exists>c\<in>set ((jl(k := jl k @ [b])) k'). b_job c = jid \<and> binding_key c = key)"
    unfolding fun_upd_ex using index_relD(2) [OF r, of key jid]
      ex_split [of jl "\<lambda>c. b_job c = jid \<and> binding_key c = key" k] by (auto simp del: not_None_eq)
next
  fix key
  show "(key \<in> un) = (\<exists>k. \<exists>c\<in>set (ol k). binding_key c = key)" by (rule index_relD(3) [OF r])
next
  fix k' c
  assume "c \<in> set (ol k')"
  then show "c \<in> set ((jl(k := jl k @ [b])) k')" using index_relD(4) [OF r] by auto
qed

lemma index_accept:
  assumes r: "index_rel jl ol jb rn un" and b: "b \<in> set (jl k)"
  shows "index_rel jl (ol(k := ol k @ [b])) jb rn (insert (binding_key b) un)"
proof (rule index_relI)
  fix key
  show "(key \<in> insert (binding_key b) un) =
      (\<exists>k'. \<exists>c\<in>set ((ol(k := ol k @ [b])) k'). binding_key c = key)"
    unfolding fun_upd_ex using index_relD(3) [OF r, of key] ex_split [of ol "\<lambda>c. binding_key c = key" k]
    by auto
next
  fix k' c
  assume "c \<in> set ((ol(k := ol k @ [b])) k')"
  then show "c \<in> set (jl k')" using index_relD(4) [OF r] b by (auto split: if_splits)
qed (auto simp: index_relD(1,2) [OF r])

lemma index_remove:
  assumes r: "index_rel jl ol jb rn un"
  shows "index_rel (jl(k := [])) (ol(k := [])) (\<lambda>j. if j \<in> b_job ` set (jl k) then None else jb j)
    (\<lambda>x. if x \<in> binding_key ` set (jl k) then None else rn x) (un - binding_key ` set (ol k))"
proof (rule index_relI)
  fix jid k' i
  have "k' \<noteq> k \<Longrightarrow> i < length (jl k') \<Longrightarrow> b_job (jl k' ! i) \<notin> b_job ` set (jl k)"
    using index_job_unique [OF r, of _ k'  _ k] by (metis imageE nth_mem)
  moreover have "i < length (jl k) \<Longrightarrow> b_job (jl k ! i) \<in> b_job ` set (jl k)" by simp
  ultimately show "((if jid \<in> b_job ` set (jl k) then None else jb jid) = Some (k', i)) =
      (i < length ((jl(k := [])) k') \<and> b_job ((jl(k := [])) k' ! i) = jid)"
    using index_relD(1) [OF r, of jid k' i] by (cases "k' = k") auto
next
  fix key jid
  have "k' \<noteq> k \<Longrightarrow> b \<in> set (jl k') \<Longrightarrow> binding_key b \<notin> binding_key ` set (jl k)" for k' b
    using index_key_unique [OF r, of b k' _ k] by blast
  then show "((if key \<in> binding_key ` set (jl k) then None else rn key) = Some jid) =
      (\<exists>k'. \<exists>b\<in>set ((jl(k := [])) k'). b_job b = jid \<and> binding_key b = key)"
    unfolding fun_upd_ex using index_relD(2) [OF r, of key jid]
      ex_split [of jl "\<lambda>c. b_job c = jid \<and> binding_key c = key" k] by auto
next
  fix key
  have "k' \<noteq> k \<Longrightarrow> b \<in> set (ol k') \<Longrightarrow> binding_key b \<notin> binding_key ` set (ol k)" for k' b
    using index_key_unique [OF r, of b k' _ k] index_relD(4) [OF r] by blast
  then show "(key \<in> un - binding_key ` set (ol k)) =
      (\<exists>k'. \<exists>b\<in>set ((ol(k := [])) k'). binding_key b = key)"
    unfolding fun_upd_ex using index_relD(3) [OF r, of key] ex_split [of ol "\<lambda>c. binding_key c = key" k]
    by auto
next
  fix k' b
  assume "b \<in> set ((ol(k := [])) k')"
  then show "b \<in> set ((jl(k := [])) k')" using index_relD(4) [OF r] by (auto split: if_splits)
qed

subsection \<open>Well-formed sessions\<close>

definition wf_job :: "DiagnosticSession \<Rightarrow> DiagnosticJob \<Rightarrow> bool" where
  "wf_job s j \<longleftrightarrow> j_SessionID j = s_SessionID s \<and> j_StableID j = s_StableID s \<and>
     j_ConfigGeneration j = s_ConfigGeneration s \<and>
     j_ConfigFingerprint j = s_ConfigFingerprint s \<and>
     j_AgentID j \<in> set (s_RequestedAgents s) \<and> j_ExpiresAt j \<le> s_ExpiresAt s"

definition wf_core :: "DiagnosticSession \<Rightarrow> bool" where
  "wf_core s \<longleftrightarrow>
     s_RequestedAgents s \<noteq> [] \<and> distinct (s_RequestedAgents s) \<and>
     distinct (map j_AgentID (s_Jobs s)) \<and> list_all (wf_job s) (s_Jobs s) \<and>
     distinct (obs_ids s) \<and> set (obs_ids s) = set (completed_ids s)"

definition uncancelled :: "DiagnosticJob list \<Rightarrow> bool" where
  "uncancelled js \<longleftrightarrow> list_all (\<lambda>j. j_State j \<noteq> JCancelled) js"

lemma uncancelled_simps [simp]:
  "uncancelled []" "uncancelled (js @ [j]) \<longleftrightarrow> uncancelled js \<and> j_State j \<noteq> JCancelled"
  "uncancelled (map expire_live js) = uncancelled js" "uncancelled (map (expire_job now) js) = uncancelled js"
  by (auto simp: uncancelled_def list_all_iff expire_live_def expire_job_def)

lemma uncancelled_update:
  "uncancelled js \<Longrightarrow> st \<noteq> JCancelled \<Longrightarrow> uncancelled (js[i := (js ! i)\<lparr>j_State := st\<rparr>])"
  using set_update_subset_insert [of js i "(js ! i)\<lparr>j_State := st\<rparr>"]
  by (fastforce simp: uncancelled_def list_all_iff)

definition state_ok :: "DiagnosticSession \<Rightarrow> bool" where
  "state_ok s \<longleftrightarrow>
     (s_terminal (s_State s) \<longrightarrow> list_all (\<lambda>j. j_terminal (j_State j)) (s_Jobs s)) \<and>
     (s_State s = SCompleted \<longrightarrow> completed_jobs s = length (s_RequestedAgents s)) \<and>
     (s_State s = Partial \<longrightarrow> 0 < completed_jobs s) \<and>
     (s_State s = SExpired \<longrightarrow> completed_jobs s = 0) \<and>
     (s_State s \<noteq> SCancelled \<longrightarrow> uncancelled (s_Jobs s))"

definition wf_session :: "DiagnosticSession \<Rightarrow> bool" where
  "wf_session s \<longleftrightarrow> wf_core s \<and> state_ok s"

text \<open>What changes of job and session states do not touch.\<close>

definition unstate :: "DiagnosticJob \<Rightarrow> DiagnosticJob" where
  "unstate j = j\<lparr>j_State := Pending\<rparr>"

definition shape :: "DiagnosticSession \<Rightarrow> DiagnosticSession" where
  "shape s = s\<lparr>s_Jobs := map unstate (s_Jobs s), s_State := Requested\<rparr>"

lemma unstate_fields [simp]:
  "j_JobID (unstate j) = j_JobID j" "j_AgentID (unstate j) = j_AgentID j"
  "j_Nonce (unstate j) = j_Nonce j" "j_SessionID (unstate j) = j_SessionID j"
  "j_StableID (unstate j) = j_StableID j" "j_ConfigGeneration (unstate j) = j_ConfigGeneration j"
  "j_ConfigFingerprint (unstate j) = j_ConfigFingerprint j" "j_ExpiresAt (unstate j) = j_ExpiresAt j"
  "j_CreatedAt (unstate j) = j_CreatedAt j" "j_Profile (unstate j) = j_Profile j"
  "unstate (j\<lparr>j_State := st\<rparr>) = unstate j"
  by (simp_all add: unstate_def)

lemma job_ids_shape: "job_ids (shape s) = job_ids s"
  by (simp add: job_ids_def job_id_def shape_def comp_def)

lemma obs_ids_shape: "obs_ids (shape s) = obs_ids s"
  by (simp add: obs_ids_def shape_def)

lemma shape_ids: "shape s = shape t \<Longrightarrow> job_ids s = job_ids t \<and> obs_ids s = obs_ids t"
  by (metis job_ids_shape obs_ids_shape)

lemma job_id_unstate [simp]: "job_id (unstate j) = job_id j"
  by (simp add: job_id_def)

lemma shape_sel:
  "s_RequestedAgents (shape s) = s_RequestedAgents s" "s_SessionID (shape s) = s_SessionID s"
  "s_StableID (shape s) = s_StableID s" "s_ConfigGeneration (shape s) = s_ConfigGeneration s"
  "s_ConfigFingerprint (shape s) = s_ConfigFingerprint s" "s_ExpiresAt (shape s) = s_ExpiresAt s"
  "s_CreatedAt (shape s) = s_CreatedAt s" "s_AgentObservations (shape s) = s_AgentObservations s"
  "s_Jobs (shape s) = map unstate (s_Jobs s)" "s_Trigger (shape s) = s_Trigger s"
  by (simp_all add: shape_def)

lemma shape_fields:
  assumes "shape s = shape t"
  shows "s_RequestedAgents s = s_RequestedAgents t" "s_SessionID s = s_SessionID t"
    "s_StableID s = s_StableID t" "s_ConfigGeneration s = s_ConfigGeneration t"
    "s_ConfigFingerprint s = s_ConfigFingerprint t" "s_ExpiresAt s = s_ExpiresAt t"
    "s_CreatedAt s = s_CreatedAt t" "s_AgentObservations s = s_AgentObservations t"
    "map unstate (s_Jobs s) = map unstate (s_Jobs t)" "s_Trigger s = s_Trigger t"
  using assms shape_sel by metis+

lemma wf_job_unstate: "wf_job (shape s) (unstate j) = wf_job s j"
  by (simp add: wf_job_def shape_def)

lemma wf_jobs_shape: "list_all (wf_job s) (s_Jobs s) = list_all (wf_job (shape s)) (map unstate (s_Jobs s))"
  by (simp add: list.pred_map comp_def wf_job_unstate)

lemma agents_unstate: "map j_AgentID js = map j_AgentID (map unstate js)"
  by simp

lemma wf_core_cong:
  assumes "shape s = shape t" and "completed_ids s = completed_ids t"
  shows "wf_core s = wf_core t"
  unfolding wf_core_def wf_jobs_shape agents_unstate [of "s_Jobs s"] agents_unstate [of "s_Jobs t"]
  using shape_fields [OF assms(1)] shape_ids [OF assms(1)] assms by metis

text \<open>The contract of a pass over the jobs that only retires live ones.\<close>

locale job_pass =
  fixes f :: "DiagnosticJob \<Rightarrow> DiagnosticJob"
  assumes unstate_f: "unstate (f j) = unstate j"
    and completed_f: "j_State (f j) = JCompleted \<longleftrightarrow> j_State j = JCompleted"
    and terminal_f: "j_terminal (j_State j) \<Longrightarrow> f j = j"
begin

lemma job_id_f: "job_id (f j) = job_id j"
  by (metis job_id_unstate unstate_f)

lemma pass_shape: "shape (s\<lparr>s_Jobs := map f (s_Jobs s), s_State := st\<rparr>) = shape s"
  "shape (s\<lparr>s_Jobs := map f (s_Jobs s)\<rparr>) = shape s"
  by (simp_all add: shape_def comp_def unstate_f)

lemma pass_completed:
  "completed_ids (s\<lparr>s_Jobs := map f (s_Jobs s), s_State := st\<rparr>) = completed_ids s"
  "completed_ids (s\<lparr>s_Jobs := map f (s_Jobs s)\<rparr>) = completed_ids s"
  by (simp_all add: completed_ids_def filter_map comp_def completed_f job_id_f)

lemma pass_count:
  "completed_jobs (s\<lparr>s_Jobs := map f (s_Jobs s), s_State := st\<rparr>) = completed_jobs s"
  "completed_jobs (s\<lparr>s_Jobs := map f (s_Jobs s)\<rparr>) = completed_jobs s"
  by (simp_all add: completed_jobs_def filter_map comp_def completed_f)

lemma pass_core:
  "wf_core (s\<lparr>s_Jobs := map f (s_Jobs s), s_State := st\<rparr>) = wf_core s"
  "wf_core (s\<lparr>s_Jobs := map f (s_Jobs s)\<rparr>) = wf_core s"
  by (rule wf_core_cong; simp add: pass_shape pass_completed)+

lemma pass_still: "list_all (\<lambda>j. j_terminal (j_State j)) js \<Longrightarrow> map f js = js"
  by (induction js) (auto simp: terminal_f)

end

interpretation live: job_pass expire_live
  by unfold_locales (auto simp: expire_live_def)

interpretation due: job_pass "expire_job now" for now
  by unfold_locales (auto simp: expire_job_def)

interpretation cancel: job_pass cancel_job
  by unfold_locales (auto simp: cancel_job_def)

lemma live_all_terminal: "list_all (\<lambda>j. j_terminal (j_State j)) (map expire_live js)"
  "list_all (\<lambda>j. j_terminal (j_State j)) (map cancel_job js)"
  by (induction js) (auto simp: expire_live_def cancel_job_def)

subsection \<open>Deriving the session state\<close>

lemma all_completed:
  assumes "wf_core s" and "completed_jobs s = length (s_RequestedAgents s)"
  shows "list_all (\<lambda>j. j_State j = JCompleted) (s_Jobs s)"
proof -
  have "set (map j_AgentID (s_Jobs s)) \<subseteq> set (s_RequestedAgents s)"
    using assms(1) by (auto simp: wf_core_def wf_job_def list_all_iff)
  then have "length (s_Jobs s) \<le> length (s_RequestedAgents s)"
    using assms(1) by (metis card_mono distinct_card length_map List.finite_set wf_core_def)
  moreover have "length (filter (\<lambda>j. j_State j = JCompleted) (s_Jobs s)) \<le> length (s_Jobs s)"
    by (rule length_filter_le)
  ultimately have "length (filter (\<lambda>j. j_State j = JCompleted) (s_Jobs s)) = length (s_Jobs s)"
    using assms(2) unfolding completed_jobs_def by linarith
  then show ?thesis unfolding filter_length_le_iff .
qed

lemma derive_cases:
  obtains (cancelled) "s_State s = SCancelled" "deriveSessionState now s = s"
  | (completed) "s_State s \<noteq> SCancelled" "completed_jobs s = length (s_RequestedAgents s)"
      "deriveSessionState now s = s\<lparr>s_State := SCompleted\<rparr>"
  | (retired) "s_State s \<noteq> SCancelled"
      "\<not> (s_RequestedAgents s \<noteq> [] \<and> completed_jobs s = length (s_RequestedAgents s))"
      "deriveSessionState now s = s\<lparr>s_Jobs := map expire_live (s_Jobs s),
        s_State := (if 0 < completed_jobs s then Partial else SExpired)\<rparr>"
  | (open_state) st where "s_State s \<noteq> SCancelled" "\<not> s_terminal st" "now < s_ExpiresAt s"
      "deriveSessionState now s = s\<lparr>s_State := st\<rparr>"
proof -
  define t where "t = s\<lparr>s_Jobs := map expire_live (s_Jobs s),
        s_State := (if 0 < completed_jobs s then Partial else SExpired)\<rparr>"
  define full where "full \<longleftrightarrow> 0 < length (s_RequestedAgents s) \<and>
    completed_jobs s = length (s_RequestedAgents s)"
  define over where "over \<longleftrightarrow> length (s_Jobs s) = length (s_RequestedAgents s) \<and>
    terminal_jobs s = length (s_Jobs s)"
  have "deriveSessionState now s = (if s_State s = SCancelled then s
      else if full then s\<lparr>s_State := SCompleted\<rparr>
      else if \<not> s_ExpiresAt s > now \<or> over then t
      else if list_ex (\<lambda>j. j_State j = JRunning) (s_Jobs s) \<or> 0 < completed_jobs s
        then s\<lparr>s_State := SRunning\<rparr>
      else if 0 < length (s_Jobs s) then s\<lparr>s_State := Dispatching\<rparr>
      else s\<lparr>s_State := Requested\<rparr>)"
    by (simp only: deriveSessionState_def Let_def t_def full_def over_def)
  then show thesis
    by (metis cancelled completed retired open_state full_def length_greater_0_conv linorder_not_less
        s_terminal_simps(5-7) t_def)
qed

lemma derive_shape: "shape (deriveSessionState now s) = shape s"
  by (rule derive_cases [of s now]) (simp_all add: live.pass_shape, simp_all add: shape_def)

lemma state_only [simp]:
  "completed_jobs (s\<lparr>s_State := st\<rparr>) = completed_jobs s"
  "completed_ids (s\<lparr>s_State := st\<rparr>) = completed_ids s"
  "wf_core (s\<lparr>s_State := st\<rparr>) = wf_core s"
  by (simp_all add: completed_jobs_def completed_ids_def wf_core_def wf_job_def [abs_def] obs_ids_def)

lemma derive_core: "wf_core (deriveSessionState now s) = wf_core s"
  by (rule derive_cases [of s now]) (simp_all add: live.pass_core)

lemma derive_ok:
  assumes "wf_core s"
    and "s_State s = SCancelled \<Longrightarrow> list_all (\<lambda>j. j_terminal (j_State j)) (s_Jobs s)"
    and "s_State s \<noteq> SCancelled \<Longrightarrow> uncancelled (s_Jobs s)"
  shows "wf_session (deriveSessionState now s)"
proof -
  have "completed_jobs s = length (s_RequestedAgents s) \<Longrightarrow>
      list_all (\<lambda>j. j_terminal (j_State j)) (s_Jobs s)"
    using all_completed [OF assms(1)] by (auto simp: list_all_iff)
  then have "state_ok (deriveSessionState now s)"
    using assms(2,3) by (cases rule: derive_cases [of s now])
      (auto simp: state_ok_def live.pass_count live_all_terminal)
  then show ?thesis using assms(1) by (simp add: wf_session_def derive_core)
qed

subsection \<open>Operations on one session\<close>

locale session_op =
  fixes f :: "DiagnosticSession \<Rightarrow> DiagnosticSession"
  assumes op_shape: "shape (f s) = shape s"
    and op_wf: "wf_session s \<Longrightarrow> wf_session (f s)"
    and op_terminal: "s_terminal (s_State s) \<Longrightarrow> f s = s"
begin

lemma op_ids: "job_ids (f s) = job_ids s" "obs_ids (f s) = obs_ids s"
  using shape_ids [OF op_shape] by auto

lemma op_id: "s_SessionID (f s) = s_SessionID s"
  by (rule shape_fields(2) [OF op_shape])

end

definition cancel_session :: "DiagnosticSession \<Rightarrow> DiagnosticSession" where
  "cancel_session s = (if s_terminal (s_State s) then s
     else s\<lparr>s_Jobs := map cancel_job (s_Jobs s), s_State := SCancelled\<rparr>)"

interpretation expire: session_op "expire_session now" for now
proof
  show "shape (expire_session now s) = shape s" for s
    by (simp add: expire_session_def derive_shape due.pass_shape)
next
  fix s assume w: "wf_session s"
  show "wf_session (expire_session now s)"
  proof (cases "s_terminal (s_State s)")
    case False
    have "wf_session (deriveSessionState now (s\<lparr>s_Jobs := map (expire_job now) (s_Jobs s)\<rparr>))"
      using w False by (intro derive_ok) (auto simp: wf_session_def state_ok_def due.pass_core)
    then show ?thesis using False by (simp add: expire_session_def)
  qed (simp add: expire_session_def w)
next
  show "s_terminal (s_State s) \<Longrightarrow> expire_session now s = s" for s
    by (simp add: expire_session_def)
qed

interpretation cancelling: session_op cancel_session
  by unfold_locales
    (auto simp: cancel_session_def cancel.pass_shape wf_session_def cancel.pass_core state_ok_def
      live_all_terminal)

end
