(* ===== verification/DiagPreserve.thy ===== *)
theory DiagPreserve
  imports DiagInvariant "HOL-Library.Multiset"
begin

text \<open>
  Every operation of the session manager keeps its invariant; the steps of the manager as a
  transition system, and what no step does to a session.
\<close>

subsection \<open>The invariant of the manager\<close>

definition config_ok :: "ManagerConfig \<Rightarrow> bool" where
  "config_ok c \<longleftrightarrow> 0 < SessionTTL c \<and> 0 < ObservationMaxAge c \<and> 0 < ClockSkew c \<and>
     1 \<le> MaxSessions c \<and> 1 \<le> MaxAgentsPerSession c"

definition wf_manager :: "manager \<Rightarrow> bool" where
  "wf_manager m \<longleftrightarrow> config_ok (config m) \<and> distinct (map fst (sessions m)) \<and>
     int (length (sessions m)) \<le> MaxSessions (config m) \<and>
     (\<forall>k s. find_session m k = Some s \<longrightarrow> s_SessionID s = k \<and> wf_session s) \<and>
     index_rel (job_ledger m) (obs_ledger m) (jobs m) (reservedNonces m) (usedNonces m)"

lemma wf_managerD:
  assumes "wf_manager m"
  shows "config_ok (config m)" "distinct (map fst (sessions m))"
    "int (length (sessions m)) \<le> MaxSessions (config m)"
    "find_session m k = Some s \<Longrightarrow> s_SessionID s = k"
    "find_session m k = Some s \<Longrightarrow> wf_session s"
    "index_rel (job_ledger m) (obs_ledger m) (jobs m) (reservedNonces m) (usedNonces m)"
  using assms by (auto simp: wf_manager_def)

subsection \<open>Lookup after an update\<close>

lemma map_of_put: "map_of (map (\<lambda>(k', s'). if k' = k then (k, s) else (k', s')) xs) =
    (if map_of xs k = None then map_of xs else (map_of xs)(k \<mapsto> s))"
  by (induction xs) (auto simp: fun_eq_iff)

lemma map_of_map_snd: "map_of (map (\<lambda>(k, s). (k, f s)) xs) k = map_option f (map_of xs k)"
  by (induction xs) auto

lemma map_of_filter_key: "map_of (filter (\<lambda>(k', s). k' \<noteq> k) xs) = (map_of xs)(k := None)"
  by (induction xs) (auto simp: fun_eq_iff)

lemma find_put_session [simp]:
  "find_session m k \<noteq> None \<Longrightarrow> find_session (put_session k s m) = (find_session m)(k \<mapsto> s)"
  by (auto simp: find_session_def [abs_def] put_session_def map_of_put)

lemma put_session_frame [frame]:
  "map fst (sessions (put_session k s m)) = map fst (sessions m)"
  "length (sessions (put_session k s m)) = length (sessions m)"
  "config (put_session k s m) = config m" "jobs (put_session k s m) = jobs m"
  "reservedNonces (put_session k s m) = reservedNonces m"
  "usedNonces (put_session k s m) = usedNonces m"
  by (auto simp: put_session_def)

lemma find_expireLocked [simp]:
  "find_session (expireLocked now m) k = map_option (expire_session now) (find_session m k)"
  by (simp add: find_session_def expireLocked_def map_of_map_snd)

lemma expireLocked_frame [frame]:
  "map fst (sessions (expireLocked now m)) = map fst (sessions m)"
  "length (sessions (expireLocked now m)) = length (sessions m)"
  "config (expireLocked now m) = config m" "jobs (expireLocked now m) = jobs m"
  "reservedNonces (expireLocked now m) = reservedNonces m"
  "usedNonces (expireLocked now m) = usedNonces m"
  by (auto simp: expireLocked_def)

lemma find_update_frame [simp]:
  "find_session (m\<lparr>jobs := jb\<rparr>) = find_session m"
  "find_session (m\<lparr>reservedNonces := rn\<rparr>) = find_session m"
  "find_session (m\<lparr>usedNonces := un\<rparr>) = find_session m"
  by (simp_all add: find_session_def [abs_def])

lemma ledger_frame [simp]:
  "job_ledger (m\<lparr>jobs := jb\<rparr>) = job_ledger m" "obs_ledger (m\<lparr>jobs := jb\<rparr>) = obs_ledger m"
  "job_ledger (m\<lparr>reservedNonces := rn\<rparr>) = job_ledger m"
  "obs_ledger (m\<lparr>reservedNonces := rn\<rparr>) = obs_ledger m"
  "job_ledger (m\<lparr>usedNonces := un\<rparr>) = job_ledger m" "obs_ledger (m\<lparr>usedNonces := un\<rparr>) = obs_ledger m"
  by (simp_all add: job_ledger_def [abs_def] obs_ledger_def [abs_def])

lemma ledger_put:
  "find_session m k \<noteq> None \<Longrightarrow> job_ledger (put_session k s m) = (job_ledger m)(k := job_ids s)"
  "find_session m k \<noteq> None \<Longrightarrow> obs_ledger (put_session k s m) = (obs_ledger m)(k := obs_ids s)"
  by (auto simp: job_ledger_def obs_ledger_def fun_eq_iff)

lemma ledger_expire [simp]:
  "job_ledger (expireLocked now m) = job_ledger m" "obs_ledger (expireLocked now m) = obs_ledger m"
  by (auto simp: job_ledger_def obs_ledger_def fun_eq_iff expire.op_ids split: option.splits)

lemma wf_expireLocked: "wf_manager m \<Longrightarrow> wf_manager (expireLocked now m)"
  by (auto simp: wf_manager_def frame expire.op_id expire.op_wf)

lemma ledger_at:
  "find_session m k = Some s \<Longrightarrow> job_ledger m k = job_ids s"
  "find_session m k = Some s \<Longrightarrow> obs_ledger m k = obs_ids s"
  by (simp_all add: job_ledger_def obs_ledger_def)

lemma wf_put:
  assumes "wf_manager m" and "find_session m k = Some s" and "wf_session s'" and "s_SessionID s' = k"
    and "index_rel ((job_ledger m)(k := job_ids s')) ((obs_ledger m)(k := obs_ids s')) jb rn un"
  shows "wf_manager ((put_session k s' m)\<lparr>jobs := jb, reservedNonces := rn, usedNonces := un\<rparr>)"
  using assms by (auto simp: wf_manager_def frame ledger_put)

lemma wf_put_same:
  assumes "wf_manager m" and "find_session m k = Some s" and "wf_session s'" and "shape s' = shape s"
  shows "wf_manager (put_session k s' m)"
proof -
  have "job_ids s' = job_ledger m k" "obs_ids s' = obs_ledger m k" "s_SessionID s' = k"
    using assms shape_ids [OF assms(4)] shape_fields(2) [OF assms(4)] wf_managerD(4) [OF assms(1,2)]
    by (auto simp: job_ledger_def obs_ledger_def)
  then show ?thesis using wf_put [OF assms(1-3), of "jobs m" "reservedNonces m" "usedNonces m"]
      wf_managerD(6) [OF assms(1)] by (simp add: put_session_def)
qed

subsection \<open>Removal and capacity\<close>

lemma fold_clear: "fold (\<lambda>j f. f(g j := None)) xs h = (\<lambda>x. if x \<in> g ` set xs then None else h x)"
  by (induction xs arbitrary: h) (auto simp: fun_eq_iff)

lemma fold_discard: "fold (\<lambda>a u. u - {g a}) xs u = u - g ` set xs"
  by (induction xs arbitrary: u) auto

lemma find_remove [simp]:
  "find_session (removeSessionLocked k m) = (find_session m)(k := None)"
  by (auto simp: removeSessionLocked_def find_session_def [abs_def] map_of_filter_key fun_eq_iff
      split: option.splits)

lemma remove_frame [frame]: "config (removeSessionLocked k m) = config m"
  by (simp add: removeSessionLocked_def split: option.splits)

lemma keys_remove: "map fst (sessions (removeSessionLocked k m)) = filter (\<lambda>k'. k' \<noteq> k) (map fst (sessions m))"
proof (cases "find_session m k")
  case None
  then have "k \<notin> set (map fst (sessions m))" by (auto simp: find_session_def map_of_eq_None_iff)
  then have "filter (\<lambda>k'. k' \<noteq> k) (map fst (sessions m)) = map fst (sessions m)"
    by (metis (mono_tags, lifting) filter_True)
  then show ?thesis using None by (simp add: removeSessionLocked_def)
qed (simp add: removeSessionLocked_def filter_map comp_def case_prod_unfold)

lemma remove_indexes:
  assumes "find_session m k = Some s"
  shows "jobs (removeSessionLocked k m) =
      (\<lambda>j. if j \<in> b_job ` set (job_ledger m k) then None else jobs m j)"
    and "reservedNonces (removeSessionLocked k m) =
      (\<lambda>x. if x \<in> binding_key ` set (job_ledger m k) then None else reservedNonces m x)"
    and "usedNonces (removeSessionLocked k m) = usedNonces m - binding_key ` set (obs_ledger m k)"
  using assms by (auto simp: removeSessionLocked_def fold_clear fold_discard job_ledger_def
      obs_ledger_def job_ids_def obs_ids_def job_id_def obs_id_def binding_key_def image_image fun_eq_iff)

lemma ledger_remove:
  "job_ledger (removeSessionLocked k m) = (job_ledger m)(k := [])"
  "obs_ledger (removeSessionLocked k m) = (obs_ledger m)(k := [])"
  by (auto simp: job_ledger_def obs_ledger_def fun_eq_iff)

lemma wf_remove:
  assumes "wf_manager m"
  shows "wf_manager (removeSessionLocked k m)"
proof (cases "find_session m k")
  case None
  then show ?thesis using assms by (simp add: removeSessionLocked_def)
next
  case (Some s)
  have "length (sessions (removeSessionLocked k m)) \<le> length (sessions m)"
    using keys_remove [of k m] by (metis length_filter_le length_map)
  then show ?thesis
    using assms index_remove [OF wf_managerD(6) [OF assms], of k]
    unfolding wf_manager_def remove_indexes [OF Some] ledger_remove keys_remove frame
    by (auto split: if_splits)
qed

lemma length_remove:
  assumes "distinct (map fst (sessions m))" and "find_session m k \<noteq> None"
  shows "length (sessions (removeSessionLocked k m)) = length (sessions m) - 1"
proof -
  have k: "k \<in> set (map fst (sessions m))"
    using assms(2) by (auto simp: find_session_def map_of_eq_None_iff)
  have "length (sessions (removeSessionLocked k m)) = length (filter (\<lambda>k'. k' \<noteq> k) (map fst (sessions m)))"
    by (metis keys_remove length_map)
  also have "\<dots> = length (map fst (sessions m)) - 1"
  proof -
    have "filter (\<lambda>k'. k' \<noteq> k) (map fst (sessions m)) = remove1 k (map fst (sessions m))"
      unfolding distinct_remove1_removeAll [OF assms(1)] removeAll_filter_not_eq
      by (rule filter_cong) auto
    then show ?thesis using k by (simp add: length_remove1)
  qed
  finally show ?thesis by simp
qed

lemma evict_wf: "wf_manager m \<Longrightarrow> wf_manager (fst (evict is m))"
  by (induction "is" m rule: evict.induct) (auto simp: Let_def wf_remove)

lemma evict_frame [frame]: "config (fst (evict is m)) = config m"
  by (induction "is" m rule: evict.induct) (auto simp: Let_def frame)

lemma evict_find:
  "find_session (fst (evict is m)) k = find_session m k \<or>
   k \<in> set is \<and> find_session (fst (evict is m)) k = None"
  by (induction "is" m rule: evict.induct) (auto simp: Let_def split: if_splits)

lemma evict_room: "snd (evict is m) \<Longrightarrow> int (length (sessions (fst (evict is m)))) < MaxSessions (config m)"
  by (induction "is" m rule: evict.induct) (auto simp: Let_def frame split: if_splits)

definition listing :: "('a list \<Rightarrow> 'a list) \<Rightarrow> bool" where
  "listing order \<longleftrightarrow> (\<forall>xs. mset (order xs) = mset xs)"

lemma listing_set: "listing order \<Longrightarrow> set (order xs) = set xs"
  by (metis listing_def mset_eq_setD)

text \<open>The candidates for eviction, oldest first.\<close>

definition candidates ::
  "((string \<times> DiagnosticSession) list \<Rightarrow> (string \<times> DiagnosticSession) list) \<Rightarrow> manager \<Rightarrow> string list" where
  "candidates order m = map fst (sort_key (\<lambda>(k, s). s_CreatedAt s)
     (order (filter (\<lambda>(k, s). s_terminal (s_State s)) (sessions m))))"

lemma makeCapacity_eq:
  "makeCapacityLocked order m = (if int (length (sessions m)) < MaxSessions (config m) then (m, None)
     else (fst (evict (candidates order m) m),
           if snd (evict (candidates order m) m) then None else Some ErrCapacity))"
  by (simp add: makeCapacityLocked_def candidates_def Let_def split: prod.splits bool.splits)

lemma capacity_wf: "wf_manager m \<Longrightarrow> wf_manager (fst (makeCapacityLocked order m))"
  by (simp add: makeCapacity_eq evict_wf)

lemma capacity_frame [frame]: "config (fst (makeCapacityLocked order m)) = config m"
  by (simp add: makeCapacity_eq frame)

lemma capacity_room:
  "snd (makeCapacityLocked order m) = None \<Longrightarrow>
   int (length (sessions (fst (makeCapacityLocked order m)))) < MaxSessions (config m)"
  by (auto simp: makeCapacity_eq evict_room split: if_splits)

lemma candidates_terminal:
  assumes "listing order" and "distinct (map fst (sessions m))" and "k \<in> set (candidates order m)"
  shows "\<exists>s. find_session m k = Some s \<and> s_terminal (s_State s)"
proof -
  from assms(1,3) obtain s where "(k, s) \<in> set (sessions m)" "s_terminal (s_State s)"
    by (auto simp: candidates_def listing_set)
  then show ?thesis using assms(2) by (auto simp: find_session_def)
qed

lemma capacity_find:
  assumes "listing order" and "wf_manager m"
  shows "find_session (fst (makeCapacityLocked order m)) k = find_session m k \<or>
    (\<exists>s. find_session m k = Some s \<and> s_terminal (s_State s)) \<and>
    find_session (fst (makeCapacityLocked order m)) k = None"
  using evict_find [of "candidates order m" m k]
    candidates_terminal [OF assms(1) wf_managerD(2) [OF assms(2)], of k]
  by (auto simp: makeCapacity_eq)

subsection \<open>Every operation keeps the invariant\<close>

lemma normalize_agents_props:
  "normalize_agents acc seen raws = Some agents \<Longrightarrow> set acc = seen \<Longrightarrow> distinct acc \<Longrightarrow>
   list_all validToken acc \<Longrightarrow>
   distinct agents \<and> list_all validToken agents \<and> set agents = seen \<union> TrimSpace ` set raws"
  by (induction acc seen raws rule: normalize_agents.induct)
    (auto simp: Let_def split: if_splits)

lemma normalizedAgentIDs_props:
  "normalizedAgentIDs raws = Some agents \<Longrightarrow>
   distinct agents \<and> list_all validToken agents \<and> set agents = TrimSpace ` set raws"
  using normalize_agents_props [of "[]" "{}" raws agents] by (simp add: normalizedAgentIDs_def)

lemma wf_new_session:
  "q_RequestedAgents q \<noteq> [] \<Longrightarrow> distinct (q_RequestedAgents q) \<Longrightarrow> wf_session (new_session q sid now ttl)"
  by (simp add: new_session_def wf_session_def wf_core_def state_ok_def obs_ids_def completed_ids_def
      completed_jobs_def)

lemma ledger_append:
  assumes "find_session m sid = None" and "s_Jobs s = []" and "s_AgentObservations s = []"
  shows "job_ledger (m\<lparr>sessions := sessions m @ [(sid, s)]\<rparr>) = job_ledger m"
    and "obs_ledger (m\<lparr>sessions := sessions m @ [(sid, s)]\<rparr>) = obs_ledger m"
    and "find_session (m\<lparr>sessions := sessions m @ [(sid, s)]\<rparr>) = (find_session m)(sid \<mapsto> s)"
proof -
  show f: "find_session (m\<lparr>sessions := sessions m @ [(sid, s)]\<rparr>) = (find_session m)(sid \<mapsto> s)"
    using assms(1) by (auto simp: find_session_def [abs_def] fun_eq_iff map_add_def split: option.splits)
  show "job_ledger (m\<lparr>sessions := sessions m @ [(sid, s)]\<rparr>) = job_ledger m"
    "obs_ledger (m\<lparr>sessions := sessions m @ [(sid, s)]\<rparr>) = obs_ledger m"
    using assms by (auto simp: job_ledger_def obs_ledger_def f fun_eq_iff job_ids_def obs_ids_def)
qed

lemma wf_append:
  assumes "wf_manager m" and "find_session m sid = None" and "s_Jobs s = []"
    and "s_AgentObservations s = []" and "wf_session s" and "s_SessionID s = sid"
    and "int (length (sessions m)) < MaxSessions (config m)"
  shows "wf_manager (m\<lparr>sessions := sessions m @ [(sid, s)]\<rparr>)"
proof -
  have "sid \<notin> fst ` set (sessions m)"
    using assms(2) by (simp add: find_session_def map_of_eq_None_iff)
  then show ?thesis
    using assms unfolding wf_manager_def ledger_append [OF assms(2-4)] by auto
qed

lemma validate_agents:
  "validateCreateSessionRequest q now ttl maxAgents \<Longrightarrow> q_RequestedAgents q \<noteq> []"
  by (simp add: validateCreateSessionRequest_def)

lemma CreateSession_cases:
  obtains (rejected) e where "CreateSession order now newID request m = (m, Inl e)" "e \<noteq> ErrCapacity"
  | (expired) e where "CreateSession order now newID request m = (expireLocked now m, Inl e)"
      "e \<noteq> ErrCapacity"
  | (full) e where "CreateSession order now newID request m =
        (fst (makeCapacityLocked order (expireLocked now m)), Inl e)"
      "snd (makeCapacityLocked order (expireLocked now m)) = Some e"
  | (created) q sid s where "newID = Some sid" "validToken sid"
      "normalizedAgentIDs (q_RequestedAgents (trimmed_request request)) = Some (q_RequestedAgents q)"
      "q = (trimmed_request request)\<lparr>q_RequestedAgents := q_RequestedAgents q\<rparr>"
      "validateCreateSessionRequest q now (SessionTTL (config m)) (MaxAgentsPerSession (config m))"
      "s = new_session q sid now (SessionTTL (config m))"
      "find_session (expireLocked now m) sid = None"
      "snd (makeCapacityLocked order (expireLocked now m)) = None"
      "CreateSession order now newID request m =
        ((fst (makeCapacityLocked order (expireLocked now m)))\<lparr>sessions :=
           sessions (fst (makeCapacityLocked order (expireLocked now m))) @ [(sid, s)]\<rparr>, Inr s)"
proof (cases "normalizedAgentIDs (q_RequestedAgents (trimmed_request request))")
  case None
  then show thesis by (intro rejected [of ErrInvalidRequest]) (simp_all add: CreateSession_def)
next
  case A: (Some agents)
  define q where "q = (trimmed_request request)\<lparr>q_RequestedAgents := agents\<rparr>"
  define v where "v = validateCreateSessionRequest q now (SessionTTL (config m)) (MaxAgentsPerSession (config m))"
  note q_def' = q_def [symmetric]
  let ?m = "expireLocked now m"
  show thesis
  proof (cases "v \<and> newID \<noteq> None \<and> validToken (the newID)")
    case False
    then have "\<exists>e. CreateSession order now newID request m = (m, Inl e) \<and> e \<noteq> ErrCapacity"
      by (cases newID) (auto simp: CreateSession_def A Let_def q_def' v_def [symmetric])
    then show thesis using rejected by blast
  next
    case True
    then obtain sid where sid: "newID = Some sid" "validToken sid" by auto
    have eq: "CreateSession order now newID request m =
        (if find_session ?m sid \<noteq> None then (?m, Inl ErrInvalidRequest)
         else (case makeCapacityLocked order ?m of (m2, Some e) \<Rightarrow> (m2, Inl e)
           | (m2, None) \<Rightarrow> (m2\<lparr>sessions := sessions m2 @ [(sid, new_session q sid now (SessionTTL (config m)))]\<rparr>,
               Inr (new_session q sid now (SessionTTL (config m))))))"
      using True unfolding CreateSession_def A Let_def sid by (simp add: q_def' v_def [symmetric] sid)
    consider (dup) "find_session ?m sid \<noteq> None"
      | (none) e where "find_session ?m sid = None" "snd (makeCapacityLocked order ?m) = Some e"
      | (ok) "find_session ?m sid = None" "snd (makeCapacityLocked order ?m) = None"
      by (cases "snd (makeCapacityLocked order ?m)") auto
    then show thesis
    proof cases
      case dup
      then show thesis using eq by (intro expired [of ErrInvalidRequest]) simp_all
    next
      case none
      then show thesis using eq by (intro full) (auto split: prod.splits)
    next
      case ok
      show thesis
      proof (rule created [OF sid _ _ _ refl ok])
        show "normalizedAgentIDs (q_RequestedAgents (trimmed_request request)) = Some (q_RequestedAgents q)"
          "q = (trimmed_request request)\<lparr>q_RequestedAgents := q_RequestedAgents q\<rparr>"
          by (simp_all add: A q_def)
        show "validateCreateSessionRequest q now (SessionTTL (config m)) (MaxAgentsPerSession (config m))"
          using True by (simp add: v_def)
      qed (use eq ok in \<open>simp split: prod.splits\<close>)
    qed
  qed
qed

lemma CreateSession_wf:
  assumes "listing order" and wf: "wf_manager m"
  shows "wf_manager (fst (CreateSession order now newID request m))"
proof (cases rule: CreateSession_cases [of order now newID request m])
  case (created q sid s)
  let ?m = "fst (makeCapacityLocked order (expireLocked now m))"
  have "wf_session s" using created(3,5,6) wf_new_session validate_agents normalizedAgentIDs_props by blast
  moreover have "find_session ?m sid = None"
    using capacity_find [OF assms(1) wf_expireLocked [OF wf], of now sid] created(7) by auto
  moreover have "int (length (sessions ?m)) < MaxSessions (config ?m)"
    using capacity_room [OF created(8)] by (simp add: frame)
  ultimately have "wf_manager (?m\<lparr>sessions := sessions ?m @ [(sid, s)]\<rparr>)"
    using created(6) by (intro wf_append capacity_wf wf_expireLocked wf) (simp_all add: new_session_def)
  then show ?thesis using created(9) by simp
qed (simp_all add: wf wf_expireLocked capacity_wf)

lemma RegisterJob_error:
  assumes "RegisterJob now newJob newNonce g m = (m', Inl e)"
  shows "m' = m \<or> m' = expireLocked now m"
  using assms unfolding RegisterJob_def Let_def
  by (simp split: option.split_asm if_split_asm)

lemma RegisterJob_ok:
  assumes "RegisterJob now newJob newNonce g m = (m', Inr job)"
  obtains s jobID nonce where "newJob = Some jobID" "newNonce = Some nonce"
    "find_session (expireLocked now m) (TrimSpace (g_SessionID g)) = Some s"
    "activeSessionError (s_State s) = None" "validateProfile (g_Profile g)"
    "validToken (TrimSpace (g_SessionID g))" "validToken (TrimSpace (g_AgentID g))"
    "validToken jobID" "validToken nonce"
    "TrimSpace (g_AgentID g) \<in> set (s_RequestedAgents s)"
    "TrimSpace (g_AgentID g) \<notin> j_AgentID ` set (s_Jobs s)"
    "jobs m jobID = None" "reservedNonces m (nonce_key (TrimSpace (g_AgentID g)) nonce) = None"
    "now < j_ExpiresAt job" "j_ExpiresAt job \<le> s_ExpiresAt s"
    "job = new_job s g (TrimSpace (g_AgentID g)) jobID nonce now (j_ExpiresAt job)"
    "j_ExpiresAt job = (if g_ExpiresAt g = 0 then s_ExpiresAt s else g_ExpiresAt g)"
    "m' = (put_session (TrimSpace (g_SessionID g))
        (deriveSessionState now (s\<lparr>s_Jobs := s_Jobs s @ [job]\<rparr>)) (expireLocked now m))
      \<lparr>jobs := (jobs m)(jobID \<mapsto> (s_SessionID s, length (s_Jobs s))),
       reservedNonces := (reservedNonces m)(nonce_key (TrimSpace (g_AgentID g)) nonce \<mapsto> jobID)\<rparr>"
proof -
  define sid where "sid = TrimSpace (g_SessionID g)"
  define agentID where "agentID = TrimSpace (g_AgentID g)"
  define m1 where "m1 = expireLocked now m"
  note D = assms [unfolded RegisterJob_def Let_def, folded sid_def agentID_def m1_def]
  have a: "validToken sid" "validToken agentID" by (rule ccontr, use D in simp)+
  have b: "validateProfile (g_Profile g)" by (rule ccontr) (use D a in simp)
  note D = D [simplified a b, simplified]
  obtain s where s: "find_session m1 sid = Some s" by (cases "find_session m1 sid") (use D in auto)
  note D = D [unfolded s, simplified]
  have c: "activeSessionError (s_State s) = None"
    by (cases "activeSessionError (s_State s)") (use D in auto)
  note D = D [unfolded c, simplified]
  have d: "agentID \<in> set (s_RequestedAgents s)" by (rule ccontr) (use D in simp)
  note D = D [simplified d, simplified]
  have e: "\<not> list_ex (\<lambda>j. j_AgentID j = agentID) (s_Jobs s)" by (rule notI) (use D in simp)
  note D = D [simplified e, simplified]
  obtain jobID nonce where i: "newJob = Some jobID" "newNonce = Some nonce"
    by (cases newJob; cases newNonce) (use D in auto)
  note D = D [unfolded i, simplified]
  have v: "validToken jobID" "validToken nonce" by (rule ccontr, use D in simp)+
  note D = D [simplified v, simplified]
  have f: "jobs m1 jobID = None" by (rule ccontr) (use D in simp)
  note D = D [unfolded f, simplified]
  have n: "reservedNonces m1 (nonce_key agentID nonce) = None" by (rule ccontr) (use D in simp)
  note D = D [unfolded n, simplified]
  define x where "x = (if g_ExpiresAt g = 0 then s_ExpiresAt s else g_ExpiresAt g)"
  note D = D [folded x_def]
  have t: "now < x" "x \<le> s_ExpiresAt s" by (rule ccontr, use D in \<open>simp split: if_splits\<close>)+
  have j: "job = new_job s g agentID jobID nonce now x"
    and m': "m' = (put_session sid (deriveSessionState now (s\<lparr>s_Jobs := s_Jobs s @ [job]\<rparr>)) m1)
      \<lparr>jobs := (jobs m1)(jobID \<mapsto> (s_SessionID s, length (s_Jobs s))),
       reservedNonces := (reservedNonces m1)(nonce_key agentID nonce \<mapsto> jobID)\<rparr>"
    using D t by auto
  have x: "j_ExpiresAt job = x" by (simp add: j new_job_def)
  have "job = new_job s g agentID jobID nonce now (j_ExpiresAt job)" unfolding x by (rule j)
  moreover have "agentID \<notin> j_AgentID ` set (s_Jobs s)" using e by (auto simp: list_ex_iff)
  moreover note f n m' [unfolded m1_def frame, folded m1_def] i s a b c d v x t
  ultimately show thesis
    by (intro that [of jobID nonce s, folded sid_def agentID_def m1_def]) (simp_all add: m1_def frame x_def)
qed

lemma validToken_no_zero: "validToken v \<Longrightarrow> CHR 0x00 \<notin> set v"
  by (auto simp: validToken_def validSafeValue_def list_all_iff safe_char_def Let_def dest!: bspec)

lemma activeSessionError_None: "activeSessionError st = None \<longleftrightarrow> \<not> s_terminal st"
  by (cases st) (simp_all add: activeSessionError_def)

lemma completed_ids_add:
  "completed_ids (s\<lparr>s_Jobs := s_Jobs s @ [job]\<rparr>) =
   completed_ids s @ (if j_State job = JCompleted then [job_id job] else [])"
  by (simp add: completed_ids_def)

lemma obs_ids_jobs [simp]: "obs_ids (s\<lparr>s_Jobs := js\<rparr>) = obs_ids s"
  by (simp add: obs_ids_def)

lemma wf_job_jobs [simp]: "wf_job (s\<lparr>s_Jobs := js\<rparr>) = wf_job s"
  by (simp add: wf_job_def [abs_def])

lemma wf_core_add:
  assumes "wf_core s" and "wf_job s job" and "j_AgentID job \<notin> j_AgentID ` set (s_Jobs s)"
    and "j_State job \<noteq> JCompleted"
  shows "wf_core (s\<lparr>s_Jobs := s_Jobs s @ [job]\<rparr>)"
  using assms by (auto simp: wf_core_def completed_ids_add)

lemma shape_derive_add:
  "job_ids (deriveSessionState now (s\<lparr>s_Jobs := s_Jobs s @ [job]\<rparr>)) = job_ids s @ [job_id job]"
  "obs_ids (deriveSessionState now (s\<lparr>s_Jobs := s_Jobs s @ [job]\<rparr>)) = obs_ids s"
  using shape_ids [OF derive_shape [of now "s\<lparr>s_Jobs := s_Jobs s @ [job]\<rparr>"]]
  by (simp_all add: job_ids_def)

lemma RegisterJob_wf:
  assumes wf: "wf_manager m"
  shows "wf_manager (fst (RegisterJob now newJob newNonce g m))"
proof (cases "RegisterJob now newJob newNonce g m")
  case r: (Pair m' res)
  show ?thesis
  proof (cases res)
    case (Inl e)
    then show ?thesis using r RegisterJob_error [of now newJob newNonce g m m' e] wf wf_expireLocked by auto
  next
    case (Inr job)
    note wf1 = wf_expireLocked [OF wf, of now]
    show ?thesis
    proof (rule RegisterJob_ok [OF r [unfolded Inr]])
      fix s jobID nonce
      let ?sid = "TrimSpace (g_SessionID g)" and ?agent = "TrimSpace (g_AgentID g)"
      let ?s = "deriveSessionState now (s\<lparr>s_Jobs := s_Jobs s @ [job]\<rparr>)"
      assume s: "find_session (expireLocked now m) ?sid = Some s"
        and act: "activeSessionError (s_State s) = None"
        and mem: "?agent \<in> set (s_RequestedAgents s)" "?agent \<notin> j_AgentID ` set (s_Jobs s)"
        and fresh: "jobs m jobID = None" "reservedNonces m (nonce_key ?agent nonce) = None"
        and exp: "j_ExpiresAt job \<le> s_ExpiresAt s"
        and job: "job = new_job s g ?agent jobID nonce now (j_ExpiresAt job)"
        and m': "m' = (put_session ?sid ?s (expireLocked now m))
          \<lparr>jobs := (jobs m)(jobID \<mapsto> (s_SessionID s, length (s_Jobs s))),
           reservedNonces := (reservedNonces m)(nonce_key ?agent nonce \<mapsto> jobID)\<rparr>"
      have jf: "job_id job = Binding jobID ?agent nonce" "j_AgentID job = ?agent"
        "j_State job = Pending" "wf_job s job"
      proof -
        obtain x where "job = new_job s g ?agent jobID nonce now x" using job by blast
        then show "job_id job = Binding jobID ?agent nonce" "j_AgentID job = ?agent"
          "j_State job = Pending" "wf_job s job"
          using mem exp by (simp_all add: job_id_def new_job_def wf_job_def)
      qed
      have ws: "wf_session s" "s_SessionID s = ?sid" using wf_managerD(4,5) [OF wf1 s] by auto
      have wn: "wf_session ?s"
        using ws(1) jf mem act by (intro derive_ok wf_core_add)
          (auto simp: wf_session_def state_ok_def activeSessionError_None)
      have sid: "s_SessionID ?s = ?sid"
        using shape_fields(2) [OF derive_shape] ws(2) by simp
      have led: "job_ledger (expireLocked now m) ?sid = job_ids s"
        "obs_ledger (expireLocked now m) ?sid = obs_ids s"
        by (rule ledger_at [OF s])+
      have same: "(obs_ledger (expireLocked now m))(?sid := obs_ids s) = obs_ledger (expireLocked now m)"
        using led(2) by (metis fun_upd_triv)
      have key: "binding_key (job_id job) = nonce_key ?agent nonce" "b_job (job_id job) = jobID"
        by (simp_all add: jf binding_key_def)
      have "index_rel ((job_ledger (expireLocked now m))(?sid := job_ids ?s))
          ((obs_ledger (expireLocked now m))(?sid := obs_ids ?s))
          ((jobs m)(jobID \<mapsto> (s_SessionID s, length (s_Jobs s))))
          ((reservedNonces m)(nonce_key ?agent nonce \<mapsto> jobID)) (usedNonces m)"
        using index_new_job [OF wf_managerD(6) [OF wf1], of "job_id job" ?sid] fresh
        unfolding shape_derive_add frame key led(1) ws(2) same by (simp add: job_ids_def)
      from wf_put [OF wf1 s wn sid this] show ?thesis
        using r by (simp add: m' put_session_def expireLocked_def)
    qed
  qed
qed

lemma jobLockedD:
  assumes "wf_manager m" and "jobLocked m jobID = Some (sid, s, i)"
  shows "find_session m sid = Some s" "i < length (s_Jobs s)" "j_JobID (s_Jobs s ! i) = jobID"
    "jobs m jobID = Some (sid, i)"
proof -
  show *: "find_session m sid = Some s" "i < length (s_Jobs s)" and j: "jobs m jobID = Some (sid, i)"
    using assms(2) by (auto simp: jobLocked_def split: option.splits prod.splits if_splits)
  show "j_JobID (s_Jobs s ! i) = jobID"
    using index_relD(1) [OF wf_managerD(6) [OF assms(1)], of jobID sid i] j *
    by (simp add: ledger_at job_ids_def job_id_def)
qed

lemma set_job_shape: "shape (set_job_state i st s) = shape s"
proof (cases "i < length (s_Jobs s)")
  case True
  then have "map unstate ((s_Jobs s)[i := (s_Jobs s ! i)\<lparr>j_State := st\<rparr>]) = map unstate (s_Jobs s)"
    by (intro distinct_map_update) simp_all
  then show ?thesis by (simp add: shape_def set_job_state_def)
qed (simp add: shape_def set_job_state_def list_update_beyond)

lemma set_job_completed:
  assumes "i < length (s_Jobs s)" and "j_State (s_Jobs s ! i) \<noteq> JCompleted"
  shows "st \<noteq> JCompleted \<Longrightarrow> completed_ids (set_job_state i st s) = completed_ids s"
    and "set (completed_ids (set_job_state i JCompleted s)) = insert (job_id (s_Jobs s ! i)) (set (completed_ids s))"
proof -
  let ?j = "s_Jobs s ! i"
  have old: "s_Jobs s = take i (s_Jobs s) @ ?j # drop (Suc i) (s_Jobs s)"
    by (rule id_take_nth_drop [OF assms(1)])
  have new: "s_Jobs (set_job_state i st s) = take i (s_Jobs s) @ ?j\<lparr>j_State := st\<rparr> # drop (Suc i) (s_Jobs s)" for st
    using assms(1) by (simp add: set_job_state_def upd_conv_take_nth_drop)
  have e: "completed_ids s = map job_id (filter (\<lambda>j. j_State j = JCompleted) (take i (s_Jobs s))) @
      map job_id (filter (\<lambda>j. j_State j = JCompleted) (drop (Suc i) (s_Jobs s)))"
    unfolding completed_ids_def by (subst old) (simp add: assms(2))
  have "job_id (?j\<lparr>j_State := st\<rparr>) = job_id ?j" for st by (simp add: job_id_def)
  then show "st \<noteq> JCompleted \<Longrightarrow> completed_ids (set_job_state i st s) = completed_ids s"
    and "set (completed_ids (set_job_state i JCompleted s)) = insert (job_id ?j) (set (completed_ids s))"
    unfolding e unfolding completed_ids_def new by simp_all
qed

lemma derive_ids:
  "job_ids (deriveSessionState now s) = job_ids s" "obs_ids (deriveSessionState now s) = obs_ids s"
  "s_SessionID (deriveSessionState now s) = s_SessionID s"
  using shape_ids [OF derive_shape] shape_fields(2) [OF derive_shape] by auto

lemma transitionJob_ok:
  assumes "transitionJob now jobID st m = (m', Inr ())"
  obtains sid s i where "jobLocked (expireLocked now m) (TrimSpace jobID) = Some (sid, s, i)"
    "\<not> s_terminal (s_State s)" "j_State (s_Jobs s ! i) \<in> {Pending, Dispatched}"
    "st = Dispatched \<or> st = JRunning" "st = Dispatched \<Longrightarrow> j_State (s_Jobs s ! i) = Pending"
    "m' = put_session sid (deriveSessionState now (set_job_state i st s)) (expireLocked now m)"
  using assms unfolding transitionJob_def Let_def
  by (auto simp: activeSessionError_None split: option.split_asm if_split_asm JobState.split_asm)

lemma transitionJob_error:
  "transitionJob now jobID st m = (m', Inl e) \<Longrightarrow> m' = expireLocked now m"
  unfolding transitionJob_def Let_def by (simp split: option.split_asm prod.split_asm if_split_asm)

lemma outcome_cases:
  obtains m' e where "r = (m', Inl e)" | m' x where "r = (m', Inr x)"
  by (cases r; cases "snd r") auto

lemma transitionJob_wf:
  assumes wf: "wf_manager m"
  shows "wf_manager (fst (transitionJob now jobID st m))"
proof (cases "transitionJob now jobID st m" rule: outcome_cases)
  case (1 m' e)
  then show ?thesis using transitionJob_error [OF 1] wf_expireLocked [OF wf] by simp
next
  case (2 m' u)
  note wf1 = wf_expireLocked [OF wf, of now]
  show ?thesis
  proof (rule transitionJob_ok [OF 2 [unfolded unit_eq [of u]]])
    fix sid s i
    assume l: "jobLocked (expireLocked now m) (TrimSpace jobID) = Some (sid, s, i)"
      and t: "\<not> s_terminal (s_State s)" and old: "j_State (s_Jobs s ! i) \<in> {Pending, Dispatched}"
      and st: "st = Dispatched \<or> st = JRunning"
      and m': "m' = put_session sid (deriveSessionState now (set_job_state i st s)) (expireLocked now m)"
    note j = jobLockedD [OF wf1 l]
    have "wf_core (set_job_state i st s) = wf_core s"
      using j old st by (intro wf_core_cong set_job_shape set_job_completed) auto
    then have "wf_session (deriveSessionState now (set_job_state i st s))"
      using wf_managerD(5) [OF wf1 j(1)] t st
      by (intro derive_ok) (auto simp: wf_session_def set_job_state_def state_ok_def
          intro!: uncancelled_update)
    then show ?thesis
      using wf_put_same [OF wf1 j(1)] 2 m' by (simp add: derive_shape set_job_shape)
  qed
qed

lemma AcceptObservation_error:
  assumes "AcceptObservation marshal verify now obs m = (m', Inl e)"
  shows "m' = m \<or> m' = expireLocked now m"
  using assms unfolding AcceptObservation_def Let_def
  by (simp split: option.split_asm prod.split_asm if_split_asm)

lemma AcceptObservation_ok:
  assumes "AcceptObservation marshal verify now obs m = (m', Inr r)"
  obtains sid s i payload where
    "validateObservation obs = None"
    "jobLocked (expireLocked now m) (o_JobID obs) = Some (sid, s, i)"
    "validateObservationTime (o_CheckedAt obs) now (j_CreatedAt (s_Jobs s ! i))
       (j_ExpiresAt (s_Jobs s ! i)) (ObservationMaxAge (config m)) (ClockSkew (config m))"
    "marshal (unsigned obs) = Some payload" "verify (o_AgentID obs) payload (o_Signature obs)"
    "j_State (s_Jobs s ! i) \<noteq> JCompleted" "\<not> s_terminal (s_State s)"
    "nonce_key (o_AgentID obs) (o_Nonce obs) \<notin> usedNonces m"
    "binding_error obs s (s_Jobs s ! i) = None" "r = accepted_record obs now"
    "m' = (put_session sid (deriveSessionState now ((set_job_state i JCompleted s)
        \<lparr>s_AgentObservations := s_AgentObservations s @ [r]\<rparr>)) (expireLocked now m))
        \<lparr>usedNonces := insert (nonce_key (o_AgentID obs) (o_Nonce obs)) (usedNonces m)\<rparr>"
  using assms unfolding AcceptObservation_def Let_def ObservationSigningPayload_def
  by (auto simp: activeSessionError_None frame split: option.split_asm if_split_asm)

text \<open>What a passed comparison says of the observation.\<close>

lemma binding_error_None:
  assumes "binding_error obs s job = None"
  shows "o_ConfigGeneration obs = j_ConfigGeneration job" "o_ConfigGeneration obs = s_ConfigGeneration s"
    "o_SessionID obs = j_SessionID job" "o_AgentID obs = j_AgentID job" "o_Nonce obs = j_Nonce job"
    "o_StableID obs = j_StableID job" "o_ConfigFingerprint obs = j_ConfigFingerprint job"
    "o_EndpointProfile obs = p_ID (j_Profile job)"
    "o_AlternativeEndpoint obs = Some alt \<Longrightarrow>
       v_ProfileID alt = p_AlternativeProfileID (j_Profile job) \<and> p_AlternativeProfileID (j_Profile job) \<noteq> []"
    "o_SpeedServerID obs = [] \<or> o_SpeedServerID obs = p_ServerID (j_Profile job)"
  using assms by (auto simp: binding_error_def split: if_split_asm option.split_asm)

lemma accept_core:
  assumes c: "wf_core s" and i: "i < length (s_Jobs s)" and n: "j_State (s_Jobs s ! i) \<noteq> JCompleted"
    and b: "obs_id r = job_id (s_Jobs s ! i)"
  shows "wf_core ((set_job_state i JCompleted s)\<lparr>s_AgentObservations := s_AgentObservations s @ [r]\<rparr>)"
    (is "wf_core (?s\<lparr>s_AgentObservations := _\<rparr>)")
proof -
  have "job_id (s_Jobs s ! i) \<notin> set (completed_ids s)"
  proof
    assume "job_id (s_Jobs s ! i) \<in> set (completed_ids s)"
    then obtain j where j: "j \<in> set (s_Jobs s)" "j_State j = JCompleted" "job_id j = job_id (s_Jobs s ! i)"
      by (auto simp: completed_ids_def)
    have "inj_on j_AgentID (set (s_Jobs s))" using c by (simp add: wf_core_def distinct_map)
    moreover have "j_AgentID j = j_AgentID (s_Jobs s ! i)" using j(3) by (simp add: job_id_def)
    ultimately have "j = s_Jobs s ! i" using j(1) nth_mem [OF i] by (rule inj_onD)
    with j(2) n show False by simp
  qed
  then have new: "obs_id r \<notin> set (obs_ids s)" using c b by (simp add: wf_core_def)
  have ag: "map j_AgentID (s_Jobs ?s) = map j_AgentID (s_Jobs s)"
    using i by (simp add: set_job_state_def distinct_map_update)
  have wj: "list_all (wf_job s) (s_Jobs ?s)"
  proof -
    have "wf_job s (s_Jobs s ! i)" "list_all (wf_job s) (s_Jobs s)"
      using c i by (auto simp: wf_core_def list_all_iff)
    moreover have "set (s_Jobs ?s) \<subseteq> insert ((s_Jobs s ! i)\<lparr>j_State := JCompleted\<rparr>) (set (s_Jobs s))"
      by (simp add: set_job_state_def set_update_subset_insert)
    ultimately show ?thesis by (fastforce simp: list_all_iff wf_job_def)
  qed
  have sel: "wf_job (?s\<lparr>s_AgentObservations := as\<rparr>) = wf_job s"
    "s_RequestedAgents ?s = s_RequestedAgents s"
    "completed_ids (?s\<lparr>s_AgentObservations := as\<rparr>) = completed_ids ?s"
    "obs_ids (?s\<lparr>s_AgentObservations := s_AgentObservations s @ [r]\<rparr>) = obs_ids s @ [obs_id r]" for as
    by (simp_all add: wf_job_def [abs_def] set_job_state_def completed_ids_def obs_ids_def)
  show ?thesis
    using c new ag wj set_job_completed(2) [OF i n] b
    by (simp add: wf_core_def sel)
qed

lemma AcceptObservation_wf:
  assumes wf: "wf_manager m"
  shows "wf_manager (fst (AcceptObservation marshal verify now obs m))"
proof (cases "AcceptObservation marshal verify now obs m" rule: outcome_cases)
  case (1 m' e)
  then show ?thesis using AcceptObservation_error [OF 1] wf wf_expireLocked [OF wf] by auto
next
  case (2 m' r)
  note wf1 = wf_expireLocked [OF wf, of now]
  show ?thesis
  proof (rule AcceptObservation_ok [OF 2])
    fix sid s i payload
    let ?u = "(set_job_state i JCompleted s)\<lparr>s_AgentObservations := s_AgentObservations s @ [r]\<rparr>"
    let ?s = "deriveSessionState now ?u" and ?m = "expireLocked now m"
    let ?b = "job_id (s_Jobs s ! i)"
    assume l: "jobLocked ?m (o_JobID obs) = Some (sid, s, i)"
      and n: "j_State (s_Jobs s ! i) \<noteq> JCompleted" and t: "\<not> s_terminal (s_State s)"
      and be: "binding_error obs s (s_Jobs s ! i) = None" and r: "r = accepted_record obs now"
      and m': "m' = (put_session sid ?s ?m)
        \<lparr>usedNonces := insert (nonce_key (o_AgentID obs) (o_Nonce obs)) (usedNonces m)\<rparr>"
    note j = jobLockedD [OF wf1 l]
    have b: "obs_id r = ?b" using j(3) binding_error_None(4,5) [OF be]
      by (simp add: obs_id_def r accepted_record_def job_id_def)
    have w: "wf_session ?s"
      using wf_managerD(5) [OF wf1 j(1)] accept_core [OF _ j(2) n b] t
      by (intro derive_ok) (auto simp: wf_session_def set_job_state_def state_ok_def
          intro!: uncancelled_update)
    have sid: "s_SessionID ?s = sid"
      using wf_managerD(4) [OF wf1 j(1)] by (simp add: derive_ids set_job_state_def)
    have key: "binding_key ?b = nonce_key (o_AgentID obs) (o_Nonce obs)"
      using b by (simp add: b [symmetric] obs_id_def r accepted_record_def binding_key_def)
    have ids: "job_ids ?s = job_ledger ?m sid" "obs_ids ?s = obs_ledger ?m sid @ [?b]"
      using shape_ids [OF set_job_shape [of i JCompleted s]] b
      by (simp_all only: derive_ids ledger_at [OF j(1)]) (simp_all add: job_ids_def obs_ids_def set_job_state_def)
    have "?b \<in> set (job_ledger ?m sid)" using j(2)
      unfolding ledger_at(1) [OF j(1)] by (simp add: job_ids_def)
    from index_accept [OF wf_managerD(6) [OF wf1] this]
    have "index_rel ((job_ledger ?m)(sid := job_ids ?s)) ((obs_ledger ?m)(sid := obs_ids ?s))
        (jobs ?m) (reservedNonces ?m) (insert (nonce_key (o_AgentID obs) (o_Nonce obs)) (usedNonces m))"
      by (simp only: ids key frame fun_upd_triv)
    from wf_put [OF wf1 j(1) w sid this] show ?thesis
      using 2 by (simp add: m' put_session_def)
  qed
qed

lemma DeleteSession_wf: "wf_manager m \<Longrightarrow> wf_manager (fst (DeleteSession sid m))"
  by (simp add: DeleteSession_def Let_def wf_remove)

lemma fold_remove_wf: "wf_manager m \<Longrightarrow> wf_manager (fold removeSessionLocked ks m)"
  by (induction ks arbitrary: m) (simp_all add: wf_remove)

lemma DeleteSessions_wf: "wf_manager m \<Longrightarrow> wf_manager (fst (DeleteSessions stableID m))"
  by (simp add: DeleteSessions_def Let_def fold_remove_wf)

lemma cancel_eq:
  "\<not> s_terminal (s_State s) \<Longrightarrow>
   s\<lparr>s_Jobs := map cancel_job (s_Jobs s), s_State := SCancelled\<rparr> = cancel_session s"
  by (simp add: cancel_session_def)

lemma CancelSession_eq:
  "CancelSession now sid m =
     (case find_session (expireLocked now m) (TrimSpace sid) of
        None \<Rightarrow> (expireLocked now m, Inl ErrUnknownSession)
      | Some s \<Rightarrow> if s_terminal (s_State s) then (expireLocked now m, Inl ErrInvalidTransition)
          else (put_session (TrimSpace sid) (cancel_session s) (expireLocked now m), Inr ()))"
  by (simp add: CancelSession_def Let_def cancel_session_def split: option.splits)

lemma CancelSession_wf:
  assumes wf: "wf_manager m"
  shows "wf_manager (fst (CancelSession now sid m))"
  unfolding CancelSession_eq
  using wf_expireLocked [OF wf, of now]
    wf_put_same [OF wf_expireLocked [OF wf, of now] _ cancelling.op_wf cancelling.op_shape]
    wf_managerD(5) [OF wf_expireLocked [OF wf, of now]]
  by (simp split: option.splits)

lemma Session_wf: "wf_manager m \<Longrightarrow> wf_manager (fst (Session now sid m))"
  "wf_manager m \<Longrightarrow> wf_manager (fst (Sessions order now m))"
  by (simp_all add: Session_def Sessions_def Let_def wf_expireLocked)

lemma New_wf: "NewDiagnosticSessionManager v c = Inr m \<Longrightarrow> wf_manager m"
  by (auto simp: NewDiagnosticSessionManager_def Let_def wf_manager_def config_ok_def job_ledger_def
      [abs_def] obs_ledger_def [abs_def] find_session_def index_empty duration_defs DefaultSessionTTL_def
      DefaultObservationMaxAge_def DefaultClockSkew_def split: if_splits)

subsection \<open>The steps of a manager\<close>

text \<open>Each call with whatever clock, identifiers, verifier and map order the environment supplies.\<close>

inductive diag_step :: "manager \<Rightarrow> manager \<Rightarrow> bool" where
  "listing order \<Longrightarrow> diag_step m (fst (CreateSession order now newID request m))"
| "diag_step m (fst (RegisterJob now newJob newNonce g m))"
| "diag_step m (fst (MarkJobDispatched now jobID m))"
| "diag_step m (fst (MarkJobRunning now jobID m))"
| "diag_step m (fst (AcceptObservation marshal verify now obs m))"
| "diag_step m (fst (DeleteSession sid m))"
| "diag_step m (fst (DeleteSessions stableID m))"
| "diag_step m (fst (CancelSession now sid m))"
| "diag_step m (fst (Session now sid m))"
| "diag_step m (fst (Sessions order now m))"

inductive_cases diag_stepE: "diag_step m m'"

lemmas operation_wf = CreateSession_wf RegisterJob_wf transitionJob_wf AcceptObservation_wf
  DeleteSession_wf DeleteSessions_wf CancelSession_wf Session_wf

definition diag_start :: "manager \<Rightarrow> bool" where
  "diag_start m \<longleftrightarrow> (\<exists>v c. NewDiagnosticSessionManager v c = Inr m)"

lemma diag_step_wf: "diag_step m m' \<Longrightarrow> wf_manager m \<Longrightarrow> wf_manager m'"
  by (cases rule: diag_step.cases)
    (auto simp: MarkJobDispatched_def MarkJobRunning_def intro: operation_wf)

interpretation diag: step_system diag_start diag_step wf_manager
  by unfold_locales (auto simp: diag_start_def New_wf diag_step_wf)

end
