(* ===== verification/DiagGuarantees.thy ===== *)
theory DiagGuarantees
  imports DiagPreserve
begin

text \<open>
  What the session manager guarantees: how a session may evolve, what an accepted observation
  proves, what is never accepted, what is never evicted, and when a session ends.
\<close>

subsection \<open>How a session evolves\<close>

definition job_le :: "JobState \<Rightarrow> JobState \<Rightarrow> bool" where
  "job_le a b \<longleftrightarrow> a = b \<or> a = Pending \<or> (a = Dispatched \<and> b \<noteq> Pending) \<or>
     (a = JRunning \<and> j_terminal b) \<or> (a = JExpired \<and> b = JCompleted)"

definition job_advances :: "DiagnosticJob \<Rightarrow> DiagnosticJob \<Rightarrow> bool" where
  "job_advances j j' \<longleftrightarrow> unstate j' = unstate j \<and> job_le (j_State j) (j_State j')"

definition evolves :: "DiagnosticSession \<Rightarrow> DiagnosticSession \<Rightarrow> bool" where
  "evolves s s' \<longleftrightarrow>
     s_SessionID s' = s_SessionID s \<and> s_StableID s' = s_StableID s \<and> s_Trigger s' = s_Trigger s \<and>
     s_ConfigGeneration s' = s_ConfigGeneration s \<and> s_ConfigFingerprint s' = s_ConfigFingerprint s \<and>
     s_RequestedAgents s' = s_RequestedAgents s \<and> s_ExpiresAt s' = s_ExpiresAt s \<and>
     (\<exists>js new. s_Jobs s' = js @ new \<and> list_all2 job_advances (s_Jobs s) js) \<and>
     (\<exists>new. s_AgentObservations s' = s_AgentObservations s @ new) \<and>
     (s_terminal (s_State s) \<longrightarrow> s' = s)"

lemma job_le_refl [simp]: "job_le a a" by (simp add: job_le_def)

lemma job_le_trans: "job_le a b \<Longrightarrow> job_le b c \<Longrightarrow> job_le a c"
  by (cases a; cases b; cases c) (simp_all add: job_le_def)

lemma job_advances_refl [simp]: "job_advances j j" by (simp add: job_advances_def)

lemma jobs_advance_refl [simp]: "list_all2 job_advances js js"
  by (simp add: list.rel_refl)

lemma job_advances_trans: "job_advances a b \<Longrightarrow> job_advances b c \<Longrightarrow> job_advances a c"
  by (auto simp: job_advances_def intro: job_le_trans)

lemma evolvesI:
  assumes "s_SessionID s' = s_SessionID s" "s_StableID s' = s_StableID s" "s_Trigger s' = s_Trigger s"
    "s_ConfigGeneration s' = s_ConfigGeneration s" "s_ConfigFingerprint s' = s_ConfigFingerprint s"
    "s_RequestedAgents s' = s_RequestedAgents s" "s_ExpiresAt s' = s_ExpiresAt s"
    "s_Jobs s' = js @ new" "list_all2 job_advances (s_Jobs s) js"
    "s_AgentObservations s' = s_AgentObservations s @ obs" "s_terminal (s_State s) \<Longrightarrow> s' = s"
  shows "evolves s s'"
  using assms by (auto simp: evolves_def)

lemma evolves_refl [simp]: "evolves s s"
  by (rule evolvesI [where js = "s_Jobs s" and new = "[]" and obs = "[]"]) simp_all

lemma evolves_trans [trans]:
  assumes "evolves s t" and "evolves t u"
  shows "evolves s u"
proof -
  obtain js new where j: "s_Jobs t = js @ new" "list_all2 job_advances (s_Jobs s) js"
    using assms(1) by (auto simp: evolves_def)
  obtain js' new' where j': "s_Jobs u = js' @ new'" "list_all2 job_advances (js @ new) js'"
    using assms(2) j(1) by (auto simp: evolves_def)
  obtain a b where ab: "js' = a @ b" "list_all2 job_advances js a"
    using j'(2) by (auto simp: list_all2_append1)
  have "list_all2 job_advances (s_Jobs s) a"
    by (rule list_all2_trans [OF _ j(2) ab(2)]) (rule job_advances_trans)
  then have "\<exists>js new. s_Jobs u = js @ new \<and> list_all2 job_advances (s_Jobs s) js"
    using j'(1) ab(1) by auto
  then show ?thesis using assms by (auto simp: evolves_def)
qed

lemma pass_advances:
  "(\<And>j. job_advances j (f j)) \<Longrightarrow> list_all2 job_advances js (map f js)"
  by (induction js) auto

lemma retired_advances [simp]:
  "job_advances j (expire_live j)" "job_advances j (expire_job now j)" "job_advances j (cancel_job j)"
  by (cases "j_State j"; simp add: job_advances_def job_le_def expire_live_def expire_job_def cancel_job_def)+

lemma evolves_shape:
  assumes "shape s' = shape s" and "list_all2 job_advances (s_Jobs s) (s_Jobs s')"
    and "s_terminal (s_State s) \<Longrightarrow> s' = s"
  shows "evolves s s'"
  using shape_fields [OF assms(1)] assms(2,3) unfolding evolves_def by (metis append_Nil2)

lemma derive_jobs: "list_all2 job_advances (s_Jobs s) (s_Jobs (deriveSessionState now s))"
  by (rule derive_cases [of s now]) (simp_all add: pass_advances)

lemma derive_evolves: "\<not> s_terminal (s_State s) \<Longrightarrow> evolves s (deriveSessionState now s)"
  by (rule evolves_shape [OF derive_shape derive_jobs]) simp

lemma expire_evolves: "evolves s (expire_session now s)"
proof (cases "s_terminal (s_State s)")
  case False
  have "list_all2 job_advances (s_Jobs s) (s_Jobs (expire_session now s))"
    using False derive_jobs [of "s\<lparr>s_Jobs := map (expire_job now) (s_Jobs s)\<rparr>" now]
      pass_advances [of "expire_job now" "s_Jobs s"]
    by (auto simp: expire_session_def intro: list_all2_trans [OF job_advances_trans])
  then show ?thesis using False by (intro evolves_shape expire.op_shape) simp_all
qed (simp add: expire_session_def)

lemma cancel_evolves: "evolves s (cancel_session s)"
  by (rule evolves_shape [OF cancelling.op_shape]) (simp_all add: cancel_session_def pass_advances)

lemma set_job_jobs:
  assumes "job_le (j_State (s_Jobs s ! i)) st"
  shows "list_all2 job_advances (s_Jobs s) (s_Jobs (set_job_state i st s))"
proof -
  have "job_advances (s_Jobs s ! k) (s_Jobs (set_job_state i st s) ! k)" if "k < length (s_Jobs s)" for k
    using assms that by (cases "k = i") (simp_all add: set_job_state_def job_advances_def)
  then show ?thesis by (simp add: list_all2_conv_all_nth set_job_state_def)
qed

lemma set_job_evolves:
  "\<not> s_terminal (s_State s) \<Longrightarrow> job_le (j_State (s_Jobs s ! i)) st \<Longrightarrow> evolves s (set_job_state i st s)"
  by (rule evolves_shape [OF set_job_shape set_job_jobs]) simp_all

lemma add_job_evolves: "\<not> s_terminal (s_State s) \<Longrightarrow> evolves s (s\<lparr>s_Jobs := s_Jobs s @ [job]\<rparr>)"
  by (rule evolvesI [where js = "s_Jobs s" and new = "[job]" and obs = "[]"]) simp_all

lemma add_obs_evolves:
  "\<not> s_terminal (s_State s) \<Longrightarrow>
   evolves s (s\<lparr>s_AgentObservations := s_AgentObservations s @ [r]\<rparr>)"
  by (rule evolvesI [where js = "s_Jobs s" and new = "[]" and obs = "[r]"]) simp_all

text \<open>The session \<open>k\<close> is gone or has evolved.\<close>

definition kept :: "string \<Rightarrow> manager \<Rightarrow> manager \<Rightarrow> bool" where
  "kept k m m' \<longleftrightarrow> (\<forall>s. find_session m k = Some s \<longrightarrow>
     find_session m' k = None \<or> (\<exists>s'. find_session m' k = Some s' \<and> evolves s s'))"

lemma kept_refl [simp]: "kept k m m" by (simp add: kept_def)

lemma kept_expire: "kept k m (expireLocked now m)"
  by (simp add: kept_def expire_evolves)

lemma kept_expire_then:
  assumes "\<And>s. find_session (expireLocked now m) k = Some s \<Longrightarrow>
    find_session m' k = None \<or> (\<exists>s'. find_session m' k = Some s' \<and> evolves s s')"
  shows "kept k m m'"
  using assms expire_evolves evolves_trans by (fastforce simp: kept_def)

lemma kept_put:
  assumes "find_session (expireLocked now m) sid = Some s" and "evolves s s'"
    and "find_session m' = find_session (put_session sid s' (expireLocked now m))"
  shows "kept k m m'"
proof (rule kept_expire_then [of now])
  have p: "find_session m' = (find_session (expireLocked now m))(sid \<mapsto> s')"
    unfolding assms(3) by (rule find_put_session) (simp only: assms(1), simp)
  fix t assume "find_session (expireLocked now m) k = Some t"
  then show "find_session m' k = None \<or> (\<exists>s'. find_session m' k = Some s' \<and> evolves t s')"
    using assms(1,2) unfolding p by (cases "k = sid") (simp_all del: find_expireLocked)
qed

lemma kept_remove: "kept k m (removeSessionLocked sid m)"
  by (simp add: kept_def)

lemma fold_remove_find:
  "find_session (fold removeSessionLocked ks m) k = (if k \<in> set ks then None else find_session m k)"
  by (induction ks arbitrary: m) auto

lemma kept_create:
  assumes "listing order" and wf: "wf_manager m"
  shows "kept k m (fst (CreateSession order now newID request m))"
proof (cases rule: CreateSession_cases [of order now newID request m])
  case (created q sid s)
  let ?m = "fst (makeCapacityLocked order (expireLocked now m))"
  have *: "find_session ?m k = find_session (expireLocked now m) k \<or> find_session ?m k = None" for k
    using capacity_find [OF assms(1) wf_expireLocked [OF wf], of now k] by auto
  then have "find_session ?m sid = None" using created(7) by metis
  then have f: "find_session (?m\<lparr>sessions := sessions ?m @ [(sid, s)]\<rparr>) = (find_session ?m)(sid \<mapsto> s)"
    by (intro ledger_append) (simp_all add: created(6) new_session_def)
  show ?thesis using * [of k] created(7)
    by (intro kept_expire_then [of now]) (auto simp: created(9) f)
next
  case (full e)
  then show ?thesis using capacity_find [OF assms(1) wf_expireLocked [OF wf], of now k]
    by (intro kept_expire_then [of now]) auto
qed (simp_all add: kept_expire)

lemma kept_register: "kept k m (fst (RegisterJob now newJob newNonce g m))"
proof (cases "RegisterJob now newJob newNonce g m" rule: outcome_cases)
  case (1 m' e)
  then show ?thesis using RegisterJob_error [OF 1] by (auto simp: kept_expire)
next
  case (2 m' job)
  show ?thesis
  proof (rule RegisterJob_ok [OF 2], unfold 2 fst_conv)
    fix s jobID nonce
    assume s: "find_session (expireLocked now m) (TrimSpace (g_SessionID g)) = Some s"
      and a: "activeSessionError (s_State s) = None"
      and m': "m' = (put_session (TrimSpace (g_SessionID g))
        (deriveSessionState now (s\<lparr>s_Jobs := s_Jobs s @ [job]\<rparr>)) (expireLocked now m))
        \<lparr>jobs := (jobs m)(jobID \<mapsto> (s_SessionID s, length (s_Jobs s))),
         reservedNonces := (reservedNonces m)(nonce_key (TrimSpace (g_AgentID g)) nonce \<mapsto> jobID)\<rparr>"
    have "evolves s (deriveSessionState now (s\<lparr>s_Jobs := s_Jobs s @ [job]\<rparr>))"
      by (rule evolves_trans [OF add_job_evolves derive_evolves])
        (use a in \<open>simp_all add: activeSessionError_None\<close>)
    then show "kept k m m'" by (rule kept_put [OF s]) (simp add: m')
  qed
qed

lemma kept_transition:
  assumes wf: "wf_manager m"
  shows "kept k m (fst (transitionJob now jobID st m))"
proof (cases "transitionJob now jobID st m" rule: outcome_cases)
  case (1 m' e)
  then show ?thesis using transitionJob_error [OF 1] by (simp add: kept_expire)
next
  case (2 m' u)
  show ?thesis
  proof (rule transitionJob_ok [OF 2 [unfolded unit_eq [of u]]], unfold 2 fst_conv)
    fix sid s i
    assume l: "jobLocked (expireLocked now m) (TrimSpace jobID) = Some (sid, s, i)"
      and t: "\<not> s_terminal (s_State s)" and old: "j_State (s_Jobs s ! i) \<in> {Pending, Dispatched}"
      and st: "st = Dispatched \<or> st = JRunning" and d: "st = Dispatched \<Longrightarrow> j_State (s_Jobs s ! i) = Pending"
      and m': "m' = put_session sid (deriveSessionState now (set_job_state i st s)) (expireLocked now m)"
    note s = jobLockedD(1) [OF wf_expireLocked [OF wf] l]
    have "job_le (j_State (s_Jobs s ! i)) st" using old st d by (auto simp: job_le_def)
    then have "evolves s (deriveSessionState now (set_job_state i st s))"
      using t by (intro evolves_trans [OF set_job_evolves derive_evolves]) (simp_all add: set_job_state_def)
    then show "kept k m m'" by (rule kept_put [OF s]) (simp add: m')
  qed
qed

lemma kept_accept:
  assumes wf: "wf_manager m"
  shows "kept k m (fst (AcceptObservation marshal verify now obs m))"
proof (cases "AcceptObservation marshal verify now obs m" rule: outcome_cases)
  case (1 m' e)
  then show ?thesis using AcceptObservation_error [OF 1] by (auto simp: kept_expire)
next
  case (2 m' r)
  show ?thesis
  proof (rule AcceptObservation_ok [OF 2], unfold 2 fst_conv)
    fix sid s i payload
    let ?u = "(set_job_state i JCompleted s)\<lparr>s_AgentObservations := s_AgentObservations s @ [r]\<rparr>"
    assume l: "jobLocked (expireLocked now m) (o_JobID obs) = Some (sid, s, i)"
      and t: "\<not> s_terminal (s_State s)"
      and m': "m' = (put_session sid (deriveSessionState now ?u) (expireLocked now m))
        \<lparr>usedNonces := insert (nonce_key (o_AgentID obs) (o_Nonce obs)) (usedNonces m)\<rparr>"
      and b: "binding_error obs s (s_Jobs s ! i) = None" and n: "j_State (s_Jobs s ! i) \<noteq> JCompleted"
    note s = jobLockedD(1) [OF wf_expireLocked [OF wf] l]
    have "wf_session s" using wf_managerD(5) [OF wf_expireLocked [OF wf] s] .
    then have "j_State (s_Jobs s ! i) \<noteq> JCancelled"
      using t jobLockedD(2) [OF wf_expireLocked [OF wf] l]
      by (auto simp: wf_session_def state_ok_def uncancelled_def list_all_length)
    then have "job_le (j_State (s_Jobs s ! i)) JCompleted"
      using n by (cases "j_State (s_Jobs s ! i)") (simp_all add: job_le_def)
    then have "evolves s (set_job_state i JCompleted s)" using t by (intro set_job_evolves)
    also have "evolves (set_job_state i JCompleted s) ?u"
      using add_obs_evolves [of "set_job_state i JCompleted s" r] t by (simp add: set_job_state_def)
    also have "evolves ?u (deriveSessionState now ?u)"
      using t by (intro derive_evolves) (simp add: set_job_state_def)
    finally show "kept k m m'" by (rule kept_put [OF s]) (simp add: m')
  qed
qed

lemma kept_step:
  assumes "diag_step m m'" and wf: "wf_manager m"
  shows "kept k m m'"
  using assms(1)
proof cases
  case (8 now sid)
  show ?thesis
  proof (cases "find_session (expireLocked now m) (TrimSpace sid)")
    case None
    then show ?thesis unfolding 8 CancelSession_eq by (simp only: option.case fst_conv kept_expire)
  next
    case (Some s)
    show ?thesis
    proof (cases "s_terminal (s_State s)")
      case True
      then show ?thesis unfolding 8 CancelSession_eq Some by (simp add: kept_expire)
    next
      case False
      then show ?thesis unfolding 8 CancelSession_eq Some
        by (simp add: kept_put [OF Some cancel_evolves])
    qed
  qed
qed (auto simp: kept_create wf kept_register kept_transition kept_accept MarkJobDispatched_def
    MarkJobRunning_def DeleteSession_def DeleteSessions_def Session_def Sessions_def Let_def
    kept_expire kept_remove fold_remove_find, auto simp: kept_def fold_remove_find)

subsection \<open>Capacity\<close>

lemma candidates_set:
  assumes "listing order" and "distinct (map fst (sessions m))"
  shows "k \<in> set (candidates order m) \<longleftrightarrow> (\<exists>s. find_session m k = Some s \<and> s_terminal (s_State s))"
proof
  assume "\<exists>s. find_session m k = Some s \<and> s_terminal (s_State s)"
  then obtain s where "(k, s) \<in> set (sessions m)" "s_terminal (s_State s)"
    by (auto simp: find_session_def dest: map_of_SomeD)
  then show "k \<in> set (candidates order m)"
    using assms(1) by (force simp: candidates_def listing_set)
qed (rule candidates_terminal [OF assms])

lemma candidates_oldest:
  assumes l: "listing order" and d: "distinct (map fst (sessions m))" and c: "candidates order m = k0 # ks"
    and s0: "find_session m k0 = Some s0" and s: "find_session m k = Some s" "s_terminal (s_State s)"
  shows "s_CreatedAt s0 \<le> s_CreatedAt s"
proof -
  define L where "L = sort_key (\<lambda>(k, s). s_CreatedAt s)
     (order (filter (\<lambda>(k, s). s_terminal (s_State s)) (sessions m)))"
  have set: "set L = {(k, s) \<in> set (sessions m). s_terminal (s_State s)}"
    by (auto simp: L_def listing_set [OF l])
  obtain t L' where L: "L = (k0, t) # L'" using c by (auto simp: candidates_def L_def [symmetric])
  have "(k0, t) \<in> set (sessions m)" using set L by force
  then have "t = s0" using s0 d by (simp add: find_session_def)
  moreover have "(k, s) \<in> set L" using s by (auto simp: set find_session_def dest: map_of_SomeD)
  moreover have "sorted (map (\<lambda>(k, s). s_CreatedAt s) L)" unfolding L_def by (rule sorted_sort_key)
  ultimately show ?thesis unfolding L by auto
qed

lemma evict_first:
  assumes "wf_manager m" and "find_session m i \<noteq> None"
  shows "evict (i # is) m = (removeSessionLocked i m, True)"
proof -
  have pos: "0 < length (sessions m)" using assms(2) by (auto simp: find_session_def)
  have "int (length (sessions (removeSessionLocked i m))) < MaxSessions (config m)"
    using length_remove [OF wf_managerD(2) [OF assms(1)] assms(2)] wf_managerD(3) [OF assms(1)]
      pos by linarith
  then show ?thesis by (simp add: frame)
qed

lemma capacity_cases:
  assumes l: "listing order" and wf: "wf_manager m"
  obtains (room) "makeCapacityLocked order m = (m, None)"
  | (evicted) k0 s0 where "makeCapacityLocked order m = (removeSessionLocked k0 m, None)"
      "find_session m k0 = Some s0" "s_terminal (s_State s0)"
      "\<And>k s. find_session m k = Some s \<Longrightarrow> s_terminal (s_State s) \<Longrightarrow> s_CreatedAt s0 \<le> s_CreatedAt s"
  | (full) "makeCapacityLocked order m = (m, Some ErrCapacity)"
      "MaxSessions (config m) \<le> int (length (sessions m))"
      "\<And>k s. find_session m k = Some s \<Longrightarrow> \<not> s_terminal (s_State s)"
proof (cases "int (length (sessions m)) < MaxSessions (config m)")
  case True
  then show thesis by (intro room) (simp add: makeCapacity_eq)
next
  case False
  note d = wf_managerD(2) [OF wf]
  show thesis
  proof (cases "candidates order m")
    case Nil
    then have "\<And>k s. find_session m k = Some s \<Longrightarrow> \<not> s_terminal (s_State s)"
      using candidates_set [OF l d] by (metis empty_iff empty_set)
    then show thesis using False Nil by (intro full) (simp_all add: makeCapacity_eq)
  next
    case (Cons k0 ks)
    then obtain s0 where s0: "find_session m k0 = Some s0" "s_terminal (s_State s0)"
      using candidates_set [OF l d, of k0] by auto
    have "makeCapacityLocked order m = (removeSessionLocked k0 m, None)"
      using False s0 by (simp add: makeCapacity_eq Cons evict_first [OF wf] del: evict.simps)
    then show thesis using s0 candidates_oldest [OF l d Cons s0(1)] by (rule evicted)
  qed
qed

subsection \<open>Completed sessions\<close>

lemma completed_agents:
  assumes w: "wf_session s" and c: "s_State s = SCompleted"
  shows "b_agent ` set (obs_ids s) = set (s_RequestedAgents s)"
    and "length (obs_ids s) = length (s_RequestedAgents s)"
proof -
  have wc: "wf_core s" and n: "completed_jobs s = length (s_RequestedAgents s)"
    using w c by (auto simp: wf_session_def state_ok_def)
  have f: "filter (\<lambda>j. j_State j = JCompleted) (s_Jobs s) = s_Jobs s"
    using all_completed [OF wc n] by (simp add: list_all_iff filter_id_conv)
  have ids: "set (obs_ids s) = job_id ` set (s_Jobs s)" "distinct (obs_ids s)"
    using wc f by (simp_all add: wf_core_def completed_ids_def)
  have dj: "distinct (map j_AgentID (s_Jobs s))" using wc by (simp add: wf_core_def)
  have len: "length (s_Jobs s) = length (s_RequestedAgents s)" using n f by (simp add: completed_jobs_def)
  have sub: "set (map j_AgentID (s_Jobs s)) \<subseteq> set (s_RequestedAgents s)"
    using wc by (auto simp: wf_core_def wf_job_def list_all_iff)
  have "set (map j_AgentID (s_Jobs s)) = set (s_RequestedAgents s)"
    by (rule card_subset_eq [OF _ sub])
      (use dj len wc in \<open>simp_all add: distinct_card wf_core_def del: set_map\<close>)
  then show "b_agent ` set (obs_ids s) = set (s_RequestedAgents s)"
    by (simp add: ids image_image job_id_def)
  have "inj_on job_id (set (s_Jobs s))"
    using dj by (intro inj_onI) (auto simp: job_id_def distinct_map inj_on_def)
  then have "card (set (obs_ids s)) = length (s_Jobs s)"
    using dj by (simp add: ids(1) card_image distinct_map distinct_card)
  then show "length (obs_ids s) = length (s_RequestedAgents s)"
    using ids(2) len by (simp add: distinct_card)
qed

subsection \<open>A sample run\<close>

definition sample_fingerprint :: string where
  "sample_fingerprint = ''sha256:'' @ replicate 64 (CHR ''a'')"

definition sample_request :: CreateSessionRequest where
  "sample_request = \<lparr>q_StableID = ''node'', q_Trigger = TriggerManual, q_ConfigGeneration = 1,
     q_ConfigFingerprint = sample_fingerprint,
     q_LocalResultSnapshot = \<lparr>n_Status = ProbeStatusUnknown, n_CheckedAt = 0, n_LatencyMillis = 0,
       n_Failure = \<lparr>f_Code = [], f_Stage = []\<rparr>,
       n_TCP = \<lparr>e_Checked = False, e_Online = False, e_LatencyMillis = 0, e_FailureCode = []\<rparr>,
       n_Ping = \<lparr>e_Checked = False, e_Online = False, e_LatencyMillis = 0, e_FailureCode = []\<rparr>\<rparr>,
     q_AutomationContext = empty_context, q_RequestedAgents = ['' a1 '', ''a1'', ''a2''],
     q_MaintenanceDiagnostic = False, q_ExpiresAt = 0\<rparr>"

definition sample_config :: ManagerConfig where
  "sample_config = \<lparr>SessionTTL = 0, ObservationMaxAge = 0, ClockSkew = 0, MaxSessions = 1,
     MaxAgentsPerSession = 0\<rparr>"

definition sample_manager :: manager where
  "sample_manager = (case NewDiagnosticSessionManager True sample_config of Inr m \<Rightarrow> m)"

definition sample_job :: RegisterJobRequest where
  "sample_job = \<lparr>g_SessionID = ''s'', g_AgentID = ''a1'',
     g_Profile = \<lparr>p_ID = ''tls'', p_Method = ProbeMethodTLS, p_AlternativeProfileID = [],
       p_DownloadBytes = 0, p_ServerID = []\<rparr>, g_ExpiresAt = 0\<rparr>"

definition sample_obs :: Observation where
  "sample_obs = \<lparr>o_SchemaVersion = 2, o_AgentID = ''a1'', o_SessionID = ''s'', o_JobID = ''j'',
     o_Nonce = ''n'', o_StableID = ''node'', o_ConfigGeneration = 1,
     o_ConfigFingerprint = sample_fingerprint, o_CheckedAt = hour, o_DurationMillis = 5,
     o_EndpointProfile = ''tls'', o_Status = ProbeStatusOnline, o_LatencyMillis = 5,
     o_Failure = \<lparr>f_Code = [], f_Stage = []\<rparr>,
     o_TCP = \<lparr>e_Checked = True, e_Online = True, e_LatencyMillis = 1, e_FailureCode = []\<rparr>,
     o_Ping = \<lparr>e_Checked = False, e_Online = False, e_LatencyMillis = 0, e_FailureCode = []\<rparr>,
     o_DirectConnectivity = \<lparr>e_Checked = True, e_Online = True, e_LatencyMillis = 1, e_FailureCode = []\<rparr>,
     o_AlternativeEndpoint = None, o_Throughput = None, o_Latency = None, o_Stability = None,
     o_TLS = None, o_DNS = None, o_AgentVersion = ''1'', o_SpeedServerID = [], o_Signature = [1]\<rparr>"

definition sample_verify :: verifier where
  "sample_verify agent payload signature \<longleftrightarrow> agent = ''a1'' \<and> payload = [7] \<and> signature = [1]"

definition sample_created :: manager where
  "sample_created = fst (CreateSession id hour (Some ''s'') sample_request sample_manager)"

definition sample_registered :: manager where
  "sample_registered = fst (RegisterJob hour (Some ''j'') (Some ''n'') sample_job sample_created)"

definition sample_accepted :: manager where
  "sample_accepted = fst (AcceptObservation (\<lambda>obs. Some [7]) sample_verify (hour + 1) sample_obs sample_registered)"

lemma sample_listing: "listing id"
  by (simp add: listing_def)

lemma sample_start: "diag_start sample_manager"
proof -
  have "isl (NewDiagnosticSessionManager True sample_config) = False" by code_simp
  then obtain m where "NewDiagnosticSessionManager True sample_config = Inr m"
    by (cases "NewDiagnosticSessionManager True sample_config") auto
  then show ?thesis by (auto simp: diag_start_def sample_manager_def)
qed

lemma sample_run_created: "diag_step\<^sup>*\<^sup>* sample_manager sample_created"
  by (intro r_into_rtranclp) (auto simp: sample_created_def sample_listing intro: diag_step.intros)

lemma sample_run_registered: "diag_step\<^sup>*\<^sup>* sample_manager sample_registered"
  using sample_run_created
  by (rule rtranclp.rtrancl_into_rtrancl) (auto simp: sample_registered_def intro: diag_step.intros)

lemma sample_run_accepted: "diag_step\<^sup>*\<^sup>* sample_manager sample_accepted"
  using sample_run_registered
  by (rule rtranclp.rtrancl_into_rtrancl) (auto simp: sample_accepted_def intro: diag_step.intros)

lemmas sample_wf = diag.run_ok [OF sample_start sample_run_created]
  diag.run_ok [OF sample_start sample_run_registered] diag.run_ok [OF sample_start sample_run_accepted]

lemma sample_accept_result:
  "AcceptObservation (\<lambda>obs. Some [7]) sample_verify (hour + 1) sample_obs sample_registered =
   (sample_accepted, Inr (accepted_record sample_obs (hour + 1)))"
proof -
  have "snd (AcceptObservation (\<lambda>obs. Some [7]) sample_verify (hour + 1) sample_obs sample_registered) =
    Inr (accepted_record sample_obs (hour + 1))" by code_simp
  then show ?thesis unfolding sample_accepted_def by (metis prod.collapse)
qed

text \<open>The second session of a manager with one place evicts the first once it is cancelled.\<close>

definition sample_cancelled :: manager where
  "sample_cancelled = fst (CancelSession (hour + 2) '' s '' sample_accepted)"

lemma sample_run_cancelled: "diag_step\<^sup>*\<^sup>* sample_manager sample_cancelled"
  using sample_run_accepted
  by (rule rtranclp.rtrancl_into_rtrancl) (auto simp: sample_cancelled_def intro: diag_step.intros)

subsection \<open>Properties\<close>

text \<open>
  C1: in every state a manager reaches from its constructor by any sequence of calls, with any
  clock, any generated identifiers, any verifier and any map order, the invariant holds: the
  session table stays within its capacity, the three redundant indexes (jobs, reserved nonces, used
  nonces) agree exactly with the sessions, jobs carry their session's bindings, accepted
  observations and completed jobs correspond one to one, and a session in a final state has no
  live job.
\<close>

theorem session_manager_invariant:
  assumes "diag_start m0" and "diag_step\<^sup>*\<^sup>* m0 m"
  shows "wf_manager m"
  by (rule diag.run_ok [OF assms])

theorem session_manager_invariant_witness: "wf_manager sample_cancelled"
  by (rule session_manager_invariant [OF sample_start sample_run_cancelled])

text \<open>
  C4: an accepted observation is bound to one open job: its signature verified over the payload
  of the unsigned observation under the agent's identity, the job belonged to an open session
  named by the observation and was not completed, every binding (agent, nonce, node, generation,
  fingerprint, profile) equals the job's, and its time lies within the freshness window and the
  job's life.
\<close>

theorem accepted_observation_is_bound:
  assumes "wf_manager m" and "AcceptObservation marshal verify now obs m = (m', Inr r)"
  shows "\<exists>s j payload. find_session (expireLocked now m) (o_SessionID obs) = Some s \<and>
    \<not> s_terminal (s_State s) \<and> j \<in> set (s_Jobs s) \<and> j_State j \<noteq> JCompleted \<and>
    marshal (unsigned obs) = Some payload \<and> verify (o_AgentID obs) payload (o_Signature obs) \<and>
    j_JobID j = o_JobID obs \<and> j_AgentID j = o_AgentID obs \<and> j_Nonce j = o_Nonce obs \<and>
    j_StableID j = o_StableID obs \<and> j_ConfigGeneration j = o_ConfigGeneration obs \<and>
    j_ConfigFingerprint j = o_ConfigFingerprint obs \<and> p_ID (j_Profile j) = o_EndpointProfile obs \<and>
    o_AgentID obs \<in> set (s_RequestedAgents s) \<and>
    now - ObservationMaxAge (config m) \<le> o_CheckedAt obs \<and> o_CheckedAt obs \<le> now + ClockSkew (config m) \<and>
    j_CreatedAt j - ClockSkew (config m) \<le> o_CheckedAt obs \<and>
    o_CheckedAt obs \<le> j_ExpiresAt j + ClockSkew (config m) \<and>
    r = accepted_record obs now"
proof (rule AcceptObservation_ok [OF assms(2)])
  fix sid and s :: DiagnosticSession and i payload
  let ?j = "s_Jobs s ! i"
  assume l: "jobLocked (expireLocked now m) (o_JobID obs) = Some (sid, s, i)"
    and t: "validateObservationTime (o_CheckedAt obs) now (j_CreatedAt ?j) (j_ExpiresAt ?j)
       (ObservationMaxAge (config m)) (ClockSkew (config m))"
    and rest: "marshal (unsigned obs) = Some payload" "verify (o_AgentID obs) payload (o_Signature obs)"
      "j_State ?j \<noteq> JCompleted" "\<not> s_terminal (s_State s)" "r = accepted_record obs now"
    and b: "binding_error obs s ?j = None"
  note wf1 = wf_expireLocked [OF assms(1), of now]
  note j = jobLockedD [OF wf1 l]
  have "wf_job s ?j" using wf_managerD(5) [OF wf1 j(1)] j(2)
    by (simp add: wf_session_def wf_core_def list_all_length)
  then have "sid = o_SessionID obs" "j_AgentID ?j \<in> set (s_RequestedAgents s)"
    using wf_managerD(4) [OF wf1 j(1)] binding_error_None(3) [OF b] by (simp_all add: wf_job_def)
  with j(1) have s: "find_session (expireLocked now m) (o_SessionID obs) = Some s"
    and a: "o_AgentID obs \<in> set (s_RequestedAgents s)" using binding_error_None(4) [OF b] by simp_all
  show ?thesis
    using s a rest t j(2,3) binding_error_None [OF b]
    by (intro exI [of _ s] exI [of _ ?j] exI [of _ payload])
      (simp add: validateObservationTime_def split: if_splits)
qed

theorem accepted_observation_is_bound_witness:
  "\<exists>s. find_session (expireLocked (hour + 1) sample_registered) ''s'' = Some s \<and>
     ''a1'' \<in> set (s_RequestedAgents s)"
  using accepted_observation_is_bound [OF sample_wf(2) sample_accept_result]
  by (auto simp: sample_obs_def simp del: find_expireLocked)

text \<open>
  C7: no replay: while a session holds an accepted observation of an agent under a nonce, every
  further observation of that agent under that nonce is rejected, whatever else it says and
  however it is signed.
\<close>

theorem replay_rejected:
  assumes "wf_manager m" and "find_session m k = Some s" and "a \<in> set (s_AgentObservations s)"
    and "o_AgentID obs = o_AgentID (c_Observation a)" and "o_Nonce obs = o_Nonce (c_Observation a)"
  shows "\<exists>m' e. AcceptObservation marshal verify now obs m = (m', Inl e)"
proof (cases "AcceptObservation marshal verify now obs m" rule: outcome_cases)
  case (2 m' r)
  have "obs_id a \<in> set (obs_ledger m k)" using assms(2,3) by (simp add: ledger_at obs_ids_def)
  then have "binding_key (obs_id a) \<in> usedNonces m" using index_relD(3) [OF wf_managerD(6) [OF assms(1)]] by blast
  then show ?thesis using AcceptObservation_ok [OF 2] assms(4,5)
    by (auto simp: binding_key_def obs_id_def)
qed auto

theorem replay_rejected_witness:
  "\<exists>m' e. AcceptObservation (\<lambda>obs. Some [7]) sample_verify (hour + 1) sample_obs sample_accepted = (m', Inl e)"
proof -
  have "(case find_session sample_accepted ''s'' of None \<Rightarrow> []
      | Some s \<Rightarrow> map (\<lambda>a. (o_AgentID (c_Observation a), o_Nonce (c_Observation a))) (s_AgentObservations s)) =
      [(''a1'', ''n'')]" by code_simp
  then obtain s a where "find_session sample_accepted ''s'' = Some s" "a \<in> set (s_AgentObservations s)"
    "o_AgentID sample_obs = o_AgentID (c_Observation a)" "o_Nonce sample_obs = o_Nonce (c_Observation a)"
    by (auto simp: sample_obs_def split: option.splits)
  from replay_rejected [OF sample_wf(3) this] show ?thesis .
qed

text \<open>
  C6: whatever call is made, a session is either removed or evolves: its bindings stay, its jobs stay
  and their states only advance (an expired job may still be completed by an observation made in
  time), accepted observations are never lost or altered, and a finished session does not change
  at all.
\<close>

theorem sessions_only_evolve:
  assumes "wf_manager m" and "diag_step m m'" and "find_session m k = Some s"
  shows "find_session m' k = None \<or> (\<exists>s'. find_session m' k = Some s' \<and> evolves s s')"
  using kept_step [OF assms(2,1), of k] assms(3) by (simp add: kept_def)

theorem sessions_only_evolve_witness:
  "\<exists>s. find_session sample_registered ''s'' = Some s \<and>
     (find_session sample_accepted ''s'' = None \<or>
      (\<exists>s'. find_session sample_accepted ''s'' = Some s' \<and> evolves s s'))"
proof -
  have "find_session sample_registered ''s'' \<noteq> None" by code_simp
  then obtain s where s: "find_session sample_registered ''s'' = Some s" by auto
  have "diag_step sample_registered sample_accepted"
    unfolding sample_accepted_def by (rule diag_step.intros)
  from sessions_only_evolve [OF sample_wf(2) this s] s show ?thesis by blast
qed

text \<open>
  C28: a created session costs at most one other, and that one is a finished session no older finished
  session exists beside: every session still open stays.
\<close>

theorem create_evicts_oldest_finished:
  assumes "wf_manager m" and "listing order"
    and "CreateSession order now newID request m = (m', Inr new)"
  shows "(\<forall>k. k \<noteq> s_SessionID new \<longrightarrow> find_session m' k = find_session (expireLocked now m) k) \<or>
    (\<exists>k0 s0. find_session (expireLocked now m) k0 = Some s0 \<and> s_terminal (s_State s0) \<and>
       (\<forall>k s. find_session (expireLocked now m) k = Some s \<and> s_terminal (s_State s) \<longrightarrow>
          s_CreatedAt s0 \<le> s_CreatedAt s) \<and>
       (\<forall>k. k \<noteq> s_SessionID new \<longrightarrow> find_session m' k =
          (if k = k0 then None else find_session (expireLocked now m) k)))"
proof (cases rule: CreateSession_cases [of order now newID request m])
  case (created q sid s)
  note wf1 = wf_expireLocked [OF assms(1), of now]
  let ?m = "fst (makeCapacityLocked order (expireLocked now m))"
  have "find_session ?m sid = None"
    using capacity_find [OF assms(2) wf1, of sid] created(7) by auto
  then have "find_session (?m\<lparr>sessions := sessions ?m @ [(sid, s)]\<rparr>) = (find_session ?m)(sid \<mapsto> s)"
    by (intro ledger_append) (simp_all add: created(6) new_session_def)
  then have f: "find_session m' = (find_session ?m)(sid \<mapsto> s)" and n: "s_SessionID new = sid"
    using created(6,9) assms(3) by (simp_all add: new_session_def)
  show ?thesis
  proof (cases rule: capacity_cases [OF assms(2) wf1])
    case 1
    then show ?thesis by (simp add: f n)
  next
    case (2 k0 s0)
    then have "find_session m' k = (if k = k0 then None else find_session (expireLocked now m) k)"
      if "k \<noteq> s_SessionID new" for k
      using that by (simp add: f n del: find_expireLocked)
    then show ?thesis using 2(2-4) by blast
  next
    case 3
    then show ?thesis using created(8) by simp
  qed
qed (use assms(3) in auto)

text \<open>The witness creates a second session in a manager whose only place a finished one holds.\<close>

theorem create_evicts_oldest_finished_witness:
  "find_session (fst (CreateSession id (hour + 3) (Some ''t'') sample_request sample_cancelled)) ''s'' = None \<and>
   (\<exists>k0 s0. find_session (expireLocked (hour + 3) sample_cancelled) k0 = Some s0 \<and> s_terminal (s_State s0))"
proof -
  let ?c = "CreateSession id (hour + 3) (Some ''t'') sample_request sample_cancelled"
  have g: "find_session (fst ?c) ''s'' = None" by code_simp
  have "map_option s_State (find_session (expireLocked (hour + 3) sample_cancelled) ''s'') = Some SCancelled"
    by code_simp
  then have old: "find_session (expireLocked (hour + 3) sample_cancelled) ''s'' \<noteq> None"
    by (metis option.map_disc_iff option.distinct(1))
  have "(case snd ?c of Inl e \<Rightarrow> None | Inr s \<Rightarrow> Some (s_SessionID s)) = Some ''t''" by code_simp
  then obtain new where "snd ?c = Inr new" and t: "s_SessionID new = ''t''"
    by (cases "snd ?c") auto
  then have new: "?c = (fst ?c, Inr new)" by (metis prod.collapse)
  have wf: "wf_manager sample_cancelled" by (rule diag.run_ok [OF sample_start sample_run_cancelled])
  from create_evicts_oldest_finished [OF wf sample_listing new] t g old show ?thesis
    by (auto simp del: find_expireLocked)
qed

text \<open>
  Creating a session fails for capacity only when the table is full of sessions that are all
  still open, and then nothing but expiry has happened to the manager.
\<close>

theorem capacity_error_means_all_open:
  assumes "wf_manager m" and "listing order"
    and "CreateSession order now newID request m = (m', Inl ErrCapacity)"
  shows "m' = expireLocked now m \<and> MaxSessions (config m) = int (length (sessions m)) \<and>
    (\<forall>k s. find_session m' k = Some s \<longrightarrow> \<not> s_terminal (s_State s))"
proof (cases rule: CreateSession_cases [of order now newID request m])
  case (full e)
  note wf1 = wf_expireLocked [OF assms(1), of now]
  show ?thesis
  proof (cases rule: capacity_cases [OF assms(2) wf1])
    case 3
    then show ?thesis using full(1) assms(3) wf_managerD(3) [OF assms(1)]
      by (simp add: frame del: find_expireLocked)
  qed (use full(2) in auto)
qed (use assms(3) in auto)

theorem capacity_error_means_all_open_witness:
  "MaxSessions (config sample_accepted) = int (length (sessions sample_accepted))"
proof -
  let ?c = "CreateSession id (hour + 3) (Some ''t'') sample_request sample_accepted"
  have "(case snd ?c of Inl e \<Rightarrow> e = ErrCapacity | Inr s \<Rightarrow> False)" by code_simp
  then have "snd ?c = Inl ErrCapacity" by (cases "snd ?c") auto
  then have "?c = (fst ?c, Inl ErrCapacity)" by (metis prod.collapse)
  from capacity_error_means_all_open [OF sample_wf(3) sample_listing this] show ?thesis by blast
qed

text \<open>
  C29: deadlines end work: once a session's deadline has passed, reading the manager shows it in a
  final state with no live job, and a job past its own deadline is never shown live.
\<close>

theorem deadlines_end_work:
  assumes "wf_manager m" and "Session now sid m = (m', Some s)"
  shows "(s_ExpiresAt s \<le> now \<longrightarrow>
      s_terminal (s_State s) \<and> (\<forall>j\<in>set (s_Jobs s). j_terminal (j_State j))) \<and>
    (\<forall>j\<in>set (s_Jobs s). j_ExpiresAt j \<le> now \<longrightarrow> j_terminal (j_State j))"
proof -
  from assms(2) obtain t where t: "find_session m (TrimSpace sid) = Some t" and s: "s = expire_session now t"
    by (auto simp: Session_def Let_def)
  have w: "wf_session s" unfolding s by (rule expire.op_wf [OF wf_managerD(5) [OF assms(1) t]])
  have done_jobs: "s_terminal (s_State s) \<Longrightarrow> \<forall>j\<in>set (s_Jobs s). j_terminal (j_State j)"
    using w by (simp add: wf_session_def state_ok_def list_all_iff)
  show ?thesis
  proof (cases "s_terminal (s_State s)")
    case True
    then show ?thesis using done_jobs by simp
  next
    case False
    let ?t = "t\<lparr>s_Jobs := map (expire_job now) (s_Jobs t)\<rparr>"
    have "\<not> s_terminal (s_State t)" using False s expire.op_terminal by metis
    then have st: "s = deriveSessionState now ?t" using s by (simp add: expire_session_def)
    have "now < s_ExpiresAt s \<and> s_Jobs s = map (expire_job now) (s_Jobs t)"
      by (rule derive_cases [of ?t now]) (use False st in \<open>simp_all split: if_splits\<close>)
    then show ?thesis by (auto simp: expire_job_def split: if_splits)
  qed
qed

theorem deadlines_end_work_witness:
  "\<exists>s. snd (Session (hour + 24 * hour) ''s'' sample_accepted) = Some s \<and> s_terminal (s_State s)"
proof -
  let ?r = "Session (hour + 24 * hour) ''s'' sample_accepted"
  have "map_option s_ExpiresAt (snd ?r) = Some (hour + 24 * hour)" by code_simp
  then obtain s where "snd ?r = Some s" and x: "s_ExpiresAt s = hour + 24 * hour"
    by (auto simp del: mult_1 distrib_left_numeral)
  then have r: "?r = (fst ?r, Some s)" by (metis prod.collapse)
  from deadlines_end_work [OF sample_wf(3) r] x r show ?thesis by (metis order_refl snd_conv)
qed

text \<open>
  C27: a completed session has exactly one accepted observation from each agent it asked, and none
  from anybody else.
\<close>

theorem completed_session_has_every_answer:
  assumes "wf_manager m" and "find_session m k = Some s" and "s_State s = SCompleted"
  shows "set (map (\<lambda>a. o_AgentID (c_Observation a)) (s_AgentObservations s)) = set (s_RequestedAgents s) \<and>
    length (s_AgentObservations s) = length (s_RequestedAgents s)"
  using completed_agents [OF wf_managerD(5) [OF assms(1,2)] assms(3)]
  by (simp add: obs_ids_def obs_id_def image_image)

definition sample_single :: manager where
  "sample_single = fst (AcceptObservation (\<lambda>obs. Some [7]) sample_verify (hour + 1) sample_obs
     (fst (RegisterJob hour (Some ''j'') (Some ''n'') sample_job
        (fst (CreateSession id hour (Some ''s'')
           (sample_request\<lparr>q_RequestedAgents := [''a1'']\<rparr>) sample_manager)))))"

lemma sample_single_wf: "wf_manager sample_single"
  unfolding sample_single_def
  by (intro AcceptObservation_wf RegisterJob_wf CreateSession_wf sample_listing diag.start_ok sample_start)

theorem completed_session_has_every_answer_witness:
  "\<exists>s. find_session sample_single ''s'' = Some s \<and>
     length (s_AgentObservations s) = length (s_RequestedAgents s)"
proof -
  have "map_option s_State (find_session sample_single ''s'') = Some SCompleted" by code_simp
  then obtain s where "find_session sample_single ''s'' = Some s" "s_State s = SCompleted" by auto
  with completed_session_has_every_answer [OF sample_single_wf] show ?thesis by blast
qed

end
