(* ===== verification/ProbeGuarantees.thy ===== *)
theory ProbeGuarantees
  imports ProbeExecutor DiagGuarantees
begin

text \<open>
  What the controller makes of an agent's observation: the executor's evidence is well formed and
  its verdicts pass the manager's validation, except those of the two transport profiles and those
  of a job the agent refused to run, which the manager rejects.
\<close>

subsection \<open>Evidence is well formed\<close>

lemma Milliseconds_nonneg [simp]: "0 \<le> d \<Longrightarrow> 0 \<le> Milliseconds d"
  by (simp add: Milliseconds_def millisecond_def pos_imp_zdiv_nonneg_iff)

lemma Milliseconds_mono: "0 \<le> a \<Longrightarrow> a \<le> b \<Longrightarrow> Milliseconds a \<le> Milliseconds b"
  by (simp add: Milliseconds_def millisecond_def zdiv_mono1)

lemma failure_codes_valid [simp]:
  "validFailureCode (tcpFailureCode err)" "validFailureCode (tlsFailureCode err)"
  "validFailureCode (f_Code (classifyProxyError err))"
  by (simp_all add: tcpFailureCode_def tlsFailureCode_def classifyProxyError_def validFailureCode_def)

lemma valid_code_nonempty: "validFailureCode c \<Longrightarrow> c \<noteq> []"
  by (auto simp: validFailureCode_def)

lemma failure_codes_nonempty [simp]: "f_Code (classifyProxyError err) \<noteq> []"
  using valid_code_nonempty failure_codes_valid(3) by blast

lemma failure_stages_valid [simp]:
  "validFailureStage FailureStageProxy" "validFailureStage FailureStageEndpoint"
  "validFailureStage FailureStageConfiguration" "validFailureStage FailureStageTCP"
  "validFailureStage FailureStageXrayStart"
  "\<not> validFailureStage FailureStageTLS" "\<not> validFailureStage FailureStageDNS"
  by (simp_all add: validFailureStage_def stage_defs)

definition good_failure :: "FailureEvidence \<Rightarrow> bool" where
  "good_failure f \<longleftrightarrow> validFailureCode (f_Code f) \<and> validFailureStage (f_Stage f)"

lemma good_failures [simp]:
  "good_failure (classifyProxyError err)" "good_failure configuration_failure"
  "good_failure (endpoint_failure ''http_status'')"
  "good_failure (endpoint_failure ''download_incomplete'')"
  "good_failure \<lparr>f_Code = ''source_ip_unchanged'', f_Stage = FailureStageProxy\<rparr>"
  "good_failure \<lparr>f_Code = ''proxy_timeout'', f_Stage = FailureStageProxy\<rparr>"
  "good_failure \<lparr>f_Code = ''configuration'', f_Stage = FailureStageXrayStart\<rparr>"
  by (simp_all add: good_failure_def configuration_failure_def endpoint_failure_def)
    (simp_all add: classifyProxyError_def validFailureCode_def)

lemma tcp_evidence_valid:
  "0 \<le> t \<Longrightarrow> validateCheckEvidence (tcpEvidence t dial) \<and> e_Checked (tcpEvidence t dial)"
  by (auto simp: validateCheckEvidence_def tcpEvidence_def validFailureCode_def not_less
      split: option.splits)

lemma checked_valid:
  "e_Checked e \<Longrightarrow> 0 \<le> e_LatencyMillis e \<Longrightarrow> (e_Online e \<Longrightarrow> e_FailureCode e = []) \<Longrightarrow>
   (\<not> e_Online e \<Longrightarrow> validFailureCode (e_FailureCode e)) \<Longrightarrow> validateCheckEvidence e"
  by (simp add: validateCheckEvidence_def)

lemma ping_addresses_valid:
  "validFailureCode (e_FailureCode e) \<Longrightarrow> 0 \<le> e_LatencyMillis e \<Longrightarrow> e_Checked e \<Longrightarrow> \<not> e_Online e \<Longrightarrow>
   list_all (\<lambda>(t, r). 0 \<le> t) answers \<Longrightarrow> validateCheckEvidence (ping_addresses e answers)"
proof (induction e answers rule: ping_addresses.induct)
  case (1 e)
  then show ?case by (auto intro: checked_valid)
next
  case (2 e latency replied rest)
  then show ?case by (cases replied) (auto simp: Let_def intro: checked_valid)
qed

lemma ping_evidence_valid:
  assumes "\<And>answers. lookup = Some answers \<Longrightarrow> list_all (\<lambda>(t, r). 0 \<le> t) answers"
  shows "validateCheckEvidence (pingEvidence lookup)"
proof -
  have "validateCheckEvidence \<lparr>e_Checked = True, e_Online = False, e_LatencyMillis = 0, e_FailureCode = ''dns''\<rparr>"
    "validFailureCode ''host_unreachable''"
    by (simp_all add: validateCheckEvidence_def validFailureCode_def)
  then show ?thesis using assms
    by (auto simp: pingEvidence_def Let_def intro!: ping_addresses_valid split: option.split list.split
        simp del: ping_addresses.simps)
qed

lemma direct_evidence_valid:
  "0 \<le> fst (snd d) \<Longrightarrow> validateCheckEvidence (fst (directConnectivity d)) \<and> e_Checked (fst (directConnectivity d))"
  by (induction d rule: directConnectivity.induct)
    (auto intro!: checked_valid simp: validFailureCode_def split: sum.split)

subsection \<open>Verdicts of the tunnel\<close>

text \<open>A verdict the manager accepts: online without a failure, or a failure with a known code and stage.\<close>

definition sound_result :: "proxyCheckResult \<Rightarrow> bool" where
  "sound_result r \<longleftrightarrow>
     (pr_status r = ProbeStatusOnline \<and> pr_failure r = no_failure) \<or>
     (pr_status r = ProbeStatusProxyFailure \<and> good_failure (pr_failure r))"

lemma sound_basic [simp]:
  "sound_result (proxy_online t)" "sound_result (proxy_failed t f) \<longleftrightarrow> good_failure f"
  "sound_result configurationResult"
  "sound_result (r\<lparr>pr_throughput := tp\<rparr>) \<longleftrightarrow> sound_result r"
  "sound_result (r\<lparr>pr_latencySeries := ls\<rparr>) \<longleftrightarrow> sound_result r"
  "sound_result (r\<lparr>pr_stability := st\<rparr>) \<longleftrightarrow> sound_result r"
  "sound_result (r\<lparr>pr_speedServerID := sv\<rparr>) \<longleftrightarrow> sound_result r"
  by (auto simp: sound_result_def proxy_online_def proxy_failed_def configurationResult_def status_defs)

lemma sample_good:
  "singleLatencySample a = (t, f) \<Longrightarrow> f_Code f \<noteq> [] \<Longrightarrow> good_failure f"
  by (auto simp: singleLatencySample_def split: prod.splits response.splits if_splits)

lemma latency_loop_props:
  "latency_loop as samples prev = (xs, f) \<Longrightarrow> (f_Code prev \<noteq> [] \<longrightarrow> good_failure prev) \<Longrightarrow>
   (f_Code f \<noteq> [] \<longrightarrow> good_failure f) \<and> length xs \<le> length samples + length as \<and>
   (length xs < length samples + length as \<longrightarrow> f_Code f \<noteq> [] \<or> f_Code prev \<noteq> []) \<and>
   (f_Code prev \<noteq> [] \<longrightarrow> f_Code f \<noteq> [])"
proof (induction as samples prev arbitrary: xs f rule: latency_loop.induct)
  case (2 a rest samples prev)
  obtain t g where a: "singleLatencySample a = (t, g)" by (cases "singleLatencySample a")
  show ?case
  proof (cases "f_Code g = []")
    case True
    then show ?thesis using "2.IH"(2) [OF a [symmetric], of xs f] "2.prems" a by auto
  next
    case False
    then show ?thesis using "2.IH"(1) [OF a [symmetric], of xs f] "2.prems" a sample_good [OF a] by auto
  qed
qed auto

text \<open>The series runs to its end unless the job's context ends between two samples.\<close>

lemma latency_sound:
  assumes "n \<le> int (length attempts)"
  shows "sound_result (latencyProfile n attempts)"
proof -
  obtain xs f where l: "latency_loop (take (nat n) attempts) [] no_failure = (xs, f)" by fastforce
  have p: "f_Code f \<noteq> [] \<longrightarrow> good_failure f" "length xs < nat n \<longrightarrow> f_Code f \<noteq> []"
    using latency_loop_props [OF l] assms by (auto simp: min_def split: if_splits)
  show ?thesis
  proof (cases "xs = []")
    case True
    then show ?thesis using p by (simp add: latencyProfile_def l Let_def)
  next
    case False
    then show ?thesis using p by (auto simp: latencyProfile_def l Let_def)
  qed
qed

lemma stability_sound: "sound_result (stabilityProbe planned resp ttfb held reads)"
  by (auto simp: stabilityProbe_def Let_def split: response.splits prod.splits read_end.splits)

lemma copy_sound: "sound_result (copy_check c tu ep profile)"
  by (auto simp: copy_check_def Let_def split: prod.splits read_end.splits)

lemma request_sound: "sound_result (request_check c tu ep profile body)"
  by (auto simp: request_check_def copy_sound split: response.splits sum.splits)

lemma proxyCheck_sound:
  "ec_LatencySamples c \<le> int (length (tu_samples tu)) \<Longrightarrow> sound_result (proxyCheck c tu profile body)"
  by (simp add: proxyCheck_def latency_sound stability_sound request_sound Let_def)

lemma sound_validates:
  "sound_result r \<Longrightarrow> validateProbeResult (pr_status r) (pr_failure r)"
  by (auto simp: sound_result_def validateProbeResult_def good_failure_def status_defs)

subsection \<open>Observations\<close>

definition sane_world :: "ExecutorConfig \<Rightarrow> world \<Rightarrow> bool" where
  "sane_world c w \<longleftrightarrow> 0 \<le> fst (wo_tcp w) \<and>
     (case wo_ping w of None \<Rightarrow> True | Some as \<Rightarrow> list_all (\<lambda>(t, r). 0 \<le> t) as) \<and>
     ec_LatencySamples c \<le> int (length (tu_samples (wo_tunnel w))) \<and>
     0 \<le> fst (snd (wo_direct w))"

text \<open>The part of an observation the manager's verdict checks read.\<close>

definition acceptable_evidence :: "Observation \<Rightarrow> bool" where
  "acceptable_evidence obs \<longleftrightarrow>
     validateProbeResult (o_Status obs) (o_Failure obs) \<and> validateCheckEvidence (o_TCP obs) \<and>
     validateCheckEvidence (o_Ping obs) \<and> validateCheckEvidence (o_DirectConnectivity obs) \<and>
     e_Checked (o_DirectConnectivity obs) \<and>
     (case o_AlternativeEndpoint obs of None \<Rightarrow> True
      | Some alt \<Rightarrow> validateProbeResult (v_Status alt) (v_Failure alt))"

lemma unchecked_valid [simp]:
  "validateCheckEvidence \<lparr>e_Checked = False, e_Online = False, e_LatencyMillis = 0, e_FailureCode = []\<rparr>"
  by (simp add: validateCheckEvidence_def)

lemma offline_validates:
  "validateProbeResult st f \<Longrightarrow> st \<noteq> ProbeStatusOnline \<Longrightarrow> validateProbeResult ProbeStatusOffline f"
  by (simp add: validateProbeResult_def status_defs split: if_splits)

lemma host_checks_acceptable:
  assumes "acceptable_evidence obs" and "o_Status obs \<noteq> ProbeStatusOnline" and w: "sane_world c w"
  shows "acceptable_evidence (host_checks w obs)"
proof -
  have "validateCheckEvidence (pingEvidence (wo_ping w))"
    by (rule ping_evidence_valid) (use w in \<open>simp add: sane_world_def\<close>)
  moreover have "validateCheckEvidence (tcpEvidence (fst (wo_tcp w)) (snd (wo_tcp w)))"
    using w tcp_evidence_valid by (simp add: sane_world_def)
  ultimately show ?thesis using assms(1) offline_validates [OF _ assms(2)]
    by (simp add: acceptable_evidence_def host_checks_def Let_def)
qed

lemma alternative_acceptable:
  "acceptable_evidence obs \<Longrightarrow> validateProbeResult (v_Status alt) (v_Failure alt) \<Longrightarrow>
   acceptable_evidence (obs\<lparr>o_AlternativeEndpoint := Some alt\<rparr>)"
  by (simp add: acceptable_evidence_def)

lemma tunnelled_acceptable:
  assumes w: "sane_world c w"
    and o: "acceptable_evidence (obs\<lparr>o_Status := ProbeStatusOnline, o_Failure := no_failure\<rparr>)"
  shows "acceptable_evidence (tunnelled_probe c w a obs)"
proof -
  define check where "check = (\<lambda>p. proxyCheck c (wo_tunnel w) p (snd (directConnectivity (wo_direct w))))"
  have v: "validateProbeResult (pr_status (check p)) (pr_failure (check p))" for p
    unfolding check_def using w by (intro sound_validates proxyCheck_sound) (simp add: sane_world_def)
  define res where "res = check (j_Profile (ja_Job a))"
  define obs1 where "obs1 = obs\<lparr>o_Status := pr_status res,
    o_LatencyMillis := Milliseconds (pr_latency res), o_Failure := pr_failure res,
    o_Throughput := pr_throughput res, o_Latency := pr_latencySeries res,
    o_Stability := pr_stability res, o_SpeedServerID := pr_speedServerID res\<rparr>"
  define obs2 where "obs2 = (\<lambda>alt. obs1\<lparr>o_AlternativeEndpoint := Some \<lparr>v_ProfileID = h_ID alt,
    v_Status = pr_status (check (TestProfileFor alt [])),
    v_LatencyMillis = Milliseconds (pr_latency (check (TestProfileFor alt []))),
    v_Failure = pr_failure (check (TestProfileFor alt []))\<rparr>\<rparr>)"
  define alternative where "alternative = (if TrimSpace (p_AlternativeProfileID (j_Profile (ja_Job a))) = []
    then None else ProfileByID (TrimSpace (p_AlternativeProfileID (j_Profile (ja_Job a)))))"
  have eq: "tunnelled_probe c w a obs =
    (if pr_status res = ProbeStatusOnline then obs1
     else (case alternative of None \<Rightarrow> host_checks w obs1
       | Some alt \<Rightarrow> if \<not> h_Tunnelled alt then host_checks w obs1
           else if pr_status (check (TestProfileFor alt [])) = ProbeStatusOnline then obs2 alt
           else host_checks w (obs2 alt)))"
    by (simp only: tunnelled_probe_def Let_def check_def res_def obs1_def obs2_def alternative_def)
  have a1: "acceptable_evidence obs1" and s1: "o_Status obs1 = pr_status res"
    using o v by (simp_all add: acceptable_evidence_def obs1_def res_def)
  have a2: "acceptable_evidence (obs2 alt)" and s2: "o_Status (obs2 alt) = pr_status res" for alt
    using a1 v s1 by (simp_all add: obs2_def alternative_acceptable)
  show ?thesis
    unfolding eq using a1 a2 s1 s2 host_checks_acceptable [OF _ _ w]
    by (simp split: option.split)
qed

lemma DurationMillis_acceptable [simp]:
  "acceptable_evidence (obs\<lparr>o_DurationMillis := d\<rparr>) = acceptable_evidence obs"
  by (simp add: acceptable_evidence_def)

text \<open>Where the observation of an execution comes from.\<close>

lemma Execute_tunnelled:
  assumes "validateAssignment (wo_started w) a" and "wo_digest w (ja_XrayConfig a) = j_ConfigFingerprint (ja_Job a)"
    and "wo_sandboxed w (ja_XrayConfig a) (ja_SocksPort a)"
    and "ProfileByID (p_ID (j_Profile (ja_Job a))) = Some d" and "h_Method d = p_Method (j_Profile (ja_Job a))"
  shows "execute_body c w a obs =
    (let obs1 = obs\<lparr>o_DirectConnectivity := fst (directConnectivity (wo_direct w))\<rparr> in
     if \<not> h_Tunnelled d then runTransportProbe w a d obs1
     else (case wo_start w of
         SetupFailed \<Rightarrow> obs1\<lparr>o_Failure := configuration_failure\<rparr>
       | XrayFailed \<Rightarrow> obs1\<lparr>o_Failure := \<lparr>f_Code = ''configuration'', f_Stage = FailureStageXrayStart\<rparr>\<rparr>
       | XrayStarted \<Rightarrow> tunnelled_probe c w a obs1))"
  using assms by (simp add: execute_body_def Let_def)

lemma initial_fields [simp]:
  "o_Status (initial_observation now job) = ProbeStatusProxyFailure"
  "o_Failure (initial_observation now job) = no_failure"
  "o_TCP (initial_observation now job) = \<lparr>e_Checked = False, e_Online = False, e_LatencyMillis = 0, e_FailureCode = []\<rparr>"
  "o_Ping (initial_observation now job) = \<lparr>e_Checked = False, e_Online = False, e_LatencyMillis = 0, e_FailureCode = []\<rparr>"
  "o_DirectConnectivity (initial_observation now job) =
     \<lparr>e_Checked = False, e_Online = False, e_LatencyMillis = 0, e_FailureCode = []\<rparr>"
  "o_AlternativeEndpoint (initial_observation now job) = None"
  by (simp_all add: initial_observation_def)

lemma good_failure_validates:
  "good_failure f \<Longrightarrow> validateProbeResult ProbeStatusProxyFailure f"
  by (simp add: validateProbeResult_def good_failure_def status_defs)

text \<open>
  An observation without acceptable evidence is rejected before any lookup. The two theorems
  below rest on this.
\<close>

lemma not_acceptable_rejected:
  assumes "\<not> acceptable_evidence obs"
  shows "\<exists>e. AcceptObservation marshal verify now obs m = (m, Inl e)"
proof -
  have "validateObservation obs \<noteq> None"
    using assms by (auto simp: validateObservation_def acceptable_evidence_def split: option.splits)
  then show ?thesis by (auto simp: AcceptObservation_def)
qed

lemma acceptable_signed [simp]:
  "signed_observation marshal sign ag ver obs = Some obs' \<Longrightarrow> acceptable_evidence obs' = acceptable_evidence obs"
  by (auto simp: signed_observation_def Let_def acceptable_evidence_def split: option.splits)

lemma catalogue_methods:
  "ProfileByID i = Some d \<Longrightarrow> \<not> h_Tunnelled d \<Longrightarrow> h_Method d = ProbeMethodTLS \<or> h_Method d = ProbeMethodDNS"
  unfolding ProfileByID_def by (drule find_SomeD) (auto simp: profileCatalogue_def)

lemma transport_failure_unacceptable:
  assumes "h_Method d = ProbeMethodTLS \<or> h_Method d = ProbeMethodDNS"
    and "o_Status obs = ProbeStatusProxyFailure"
    and "o_Status (runTransportProbe w a d obs) \<noteq> ProbeStatusOnline"
    and "\<not> (h_Method d = ProbeMethodTLS \<and> o_Status (runTransportProbe w a d obs) = ProbeStatusOffline)"
  shows "\<not> acceptable_evidence (runTransportProbe w a d obs)"
proof (cases "h_Method d = ProbeMethodTLS")
  case True
  then show ?thesis using assms(2-4)
    by (auto simp: runTransportProbe_def Let_def acceptable_evidence_def validateProbeResult_def
        status_defs split: if_splits)
next
  case False
  then have "h_Method d = ProbeMethodDNS" using assms(1) by simp
  then show ?thesis using False assms(2,3)
    by (auto simp: runTransportProbe_def Let_def acceptable_evidence_def validateProbeResult_def
        status_defs split: option.splits if_splits)
qed

subsection \<open>Samples\<close>

definition sample_assignment :: "string \<Rightarrow> string \<Rightarrow> JobAssignment" where
  "sample_assignment profile method_name = \<lparr>ja_Job =
     \<lparr>j_SchemaVersion = 1, j_JobID = ''j'', j_SessionID = ''s'', j_AgentID = ''a1'', j_Nonce = ''n'',
      j_StableID = ''node'', j_ConfigGeneration = 1, j_ConfigFingerprint = sample_fingerprint,
      j_Profile = \<lparr>p_ID = profile, p_Method = method_name, p_AlternativeProfileID = [],
        p_DownloadBytes = 0, p_ServerID = []\<rparr>,
      j_CreatedAt = hour, j_ExpiresAt = 2 * hour, j_State = Dispatched\<rparr>,
     ja_XrayConfig = [1], ja_SocksPort = 10808, ja_TargetHost = ''h'', ja_TargetPort = 443,
     ja_TargetSNI = ''sni''\<rparr>"

definition sample_tunnel :: tunnel where
  "sample_tunnel = \<lparr>tu_response = (\<lambda>e. Status 204), tu_ttfb = (\<lambda>e. millisecond),
     tu_copy = (\<lambda>e n. (n, second, ReadOK)), tu_body = (\<lambda>e. Inr []),
     tu_samples = replicate 5 (Status 204, millisecond, millisecond), tu_held = second,
     tu_reads = [(1, ReadOK)], tu_resolves = (\<lambda>i. True)\<rparr>"

definition sample_world :: world where
  "sample_world = \<lparr>wo_started = hour, wo_elapsed = second, wo_digest = (\<lambda>x. sample_fingerprint),
     wo_sandboxed = (\<lambda>x p. True),
     wo_direct = (Status 200, millisecond, Inr ''1.2.3.4''),
     wo_start = XrayStarted, wo_tunnel = sample_tunnel, wo_tcp = (millisecond, None), wo_ping = None,
     wo_tls = (second, HandshakeFailed \<lparr>ne_text = ''read: connection reset by peer'', ne_deadline = False\<rparr>),
     wo_literal = False, wo_dns = []\<rparr>"

definition sample_executor :: ExecutorConfig where
  "sample_executor = \<lparr>ec_RuntimeDir = DefaultAgentRuntimeDir, ec_IPCheckURL = DefaultIPCheckURL,
     ec_StatusCheckURL = DefaultStatusCheckURL, ec_DownloadURL = DefaultDownloadURL,
     ec_DirectCheckURL = DefaultDirectCheckURL, ec_ProxyTimeout = DefaultProxyTimeout,
     ec_DownloadTimeout = DefaultDownloadTimeout, ec_DownloadMinSize = DefaultDownloadMinSize,
     ec_LatencySamples = DefaultLatencySamples, ec_StabilityDuration = DefaultStabilityDuration,
     ec_DNSResolver = DefaultDNSResolver\<rparr>"

lemma sample_admitted:
  "validateAssignment (wo_started sample_world) (sample_assignment p me)"
  "wo_digest sample_world (ja_XrayConfig (sample_assignment p me)) =
     j_ConfigFingerprint (ja_Job (sample_assignment p me))"
  "wo_sandboxed sample_world (ja_XrayConfig (sample_assignment p me)) (ja_SocksPort (sample_assignment p me))"
proof -
  have "TrimSpace ''h'' = ''h''" by (rule TrimSpace_solid) (simp_all add: solid_def)
  then show "validateAssignment (wo_started sample_world) (sample_assignment p me)"
    by (simp add: validateAssignment_def sample_world_def sample_assignment_def JobSchemaVersion_def
        MaxExecutionConfigBytes_def duration_defs)
qed (simp_all add: sample_world_def sample_assignment_def)

lemma sample_profile [simp]:
  "p_ID (j_Profile (ja_Job (sample_assignment p me))) = p"
  "p_Method (j_Profile (ja_Job (sample_assignment p me))) = me"
  by (simp_all add: sample_assignment_def)

lemma sample_sane: "sane_world sample_executor sample_world"
  by (simp add: sane_world_def sample_world_def sample_executor_def sample_tunnel_def
      DefaultLatencySamples_def validateCheckEvidence_def duration_defs)

lemma sample_profiles:
  "\<exists>d. ProfileByID ProfileTLS = Some d \<and> h_Method d = ProbeMethodTLS \<and> \<not> h_Tunnelled d"
  "\<exists>d. ProfileByID ProfileStatus = Some d \<and> h_Method d = ProbeMethodStatus \<and> h_Tunnelled d"
proof -
  have "(case ProfileByID ProfileTLS of None \<Rightarrow> False | Some d \<Rightarrow> h_Method d = ProbeMethodTLS \<and> \<not> h_Tunnelled d)"
    "(case ProfileByID ProfileStatus of None \<Rightarrow> False | Some d \<Rightarrow> h_Method d = ProbeMethodStatus \<and> h_Tunnelled d)"
    by code_simp+
  then show "\<exists>d. ProfileByID ProfileTLS = Some d \<and> h_Method d = ProbeMethodTLS \<and> \<not> h_Tunnelled d"
    "\<exists>d. ProfileByID ProfileStatus = Some d \<and> h_Method d = ProbeMethodStatus \<and> h_Tunnelled d"
    by (auto split: option.splits)
qed

subsection \<open>Properties\<close>

text \<open>
  C25: whatever the network does, the observation of a tunnelled profile the agent ran carries a
  verdict and evidence the manager's validation accepts: a classified failure or none, with direct
  connectivity that was really checked, whether the direct endpoint answered, refused, could not be
  reached or broke off (the latency series is not cut short between two samples, and the times
  measured are not negative).
\<close>

theorem tunnelled_observation_acceptable:
  assumes "validateAssignment (wo_started w) a" and "wo_digest w (ja_XrayConfig a) = j_ConfigFingerprint (ja_Job a)"
    and "wo_sandboxed w (ja_XrayConfig a) (ja_SocksPort a)"
    and "ProfileByID (p_ID (j_Profile (ja_Job a))) = Some d" and "h_Method d = p_Method (j_Profile (ja_Job a))"
    and "h_Tunnelled d" and "sane_world c w"
  shows "acceptable_evidence (Execute c w a)"
proof -
  let ?i = "initial_observation (wo_started w) (ja_Job a)\<lparr>o_DirectConnectivity := fst (directConnectivity (wo_direct w))\<rparr>"
  have direct: "validateCheckEvidence (fst (directConnectivity (wo_direct w)))" "e_Checked (fst (directConnectivity (wo_direct w)))"
    using assms(7) direct_evidence_valid by (simp_all add: sane_world_def)
  have i: "acceptable_evidence (?i\<lparr>o_Status := st, o_Failure := f\<rparr>) = validateProbeResult st f" for st f
    by (simp add: acceptable_evidence_def direct)
  have i': "acceptable_evidence (?i\<lparr>o_Failure := f\<rparr>) = validateProbeResult ProbeStatusProxyFailure f" for f
    by (simp add: acceptable_evidence_def direct)
  have t: "acceptable_evidence (tunnelled_probe c w a ?i)"
    by (rule tunnelled_acceptable [OF assms(7)]) (simp add: i validateProbeResult_def)
  show ?thesis
    unfolding Execute_def DurationMillis_acceptable Execute_tunnelled [OF assms(1-5)] Let_def
    using assms(6) t by (simp add: i' good_failure_validates split: start.split)
qed

theorem tunnelled_observation_acceptable_witness:
  "acceptable_evidence (Execute sample_executor sample_world (sample_assignment ProfileStatus ProbeMethodStatus))"
proof -
  obtain d where d: "ProfileByID ProfileStatus = Some d" "h_Method d = ProbeMethodStatus" "h_Tunnelled d"
    using sample_profiles(2) by blast
  show ?thesis
    by (rule tunnelled_observation_acceptable [OF sample_admitted _ _ d(3) sample_sane])
      (simp_all add: d)
qed

text \<open>
  C31: a failure found by a transport profile never reaches a session: the observation of a TLS profile
  whose handshake failed while the port answered, and of a DNS profile that did not resolve
  cleanly, is rejected by the manager whatever its signature, because \<open>validFailureStage\<close> does not
  know the stages \<open>tls\<close> and \<open>dns\<close> (and the status \<open>unknown\<close> of a literal address is no result).
\<close>

theorem transport_failure_never_recorded:
  assumes "validateAssignment (wo_started w) a" and "wo_digest w (ja_XrayConfig a) = j_ConfigFingerprint (ja_Job a)"
    and "wo_sandboxed w (ja_XrayConfig a) (ja_SocksPort a)"
    and "ProfileByID (p_ID (j_Profile (ja_Job a))) = Some d" and "h_Method d = p_Method (j_Profile (ja_Job a))"
    and "\<not> h_Tunnelled d"
    and "o_Status (Execute c w a) \<noteq> ProbeStatusOnline"
    and "\<not> (h_Method d = ProbeMethodTLS \<and> o_Status (Execute c w a) = ProbeStatusOffline)"
    and "signed_observation marshal sign agentID agentVersion (Execute c w a) = Some obs"
  shows "\<exists>e. AcceptObservation marshal verify now obs m = (m, Inl e)"
proof -
  let ?i = "initial_observation (wo_started w) (ja_Job a)\<lparr>o_DirectConnectivity := fst (directConnectivity (wo_direct w))\<rparr>"
  have eq: "execute_body c w a (initial_observation (wo_started w) (ja_Job a)) = runTransportProbe w a d ?i"
    by (simp add: Execute_tunnelled [OF assms(1-5)] assms(6))
  have "\<not> acceptable_evidence (runTransportProbe w a d ?i)"
    using assms(7,8) catalogue_methods [OF assms(4,6)]
    by (intro transport_failure_unacceptable) (simp_all add: Execute_def eq)
  then have "\<not> acceptable_evidence obs"
    using acceptable_signed [OF assms(9)] by (simp add: Execute_def eq)
  then show ?thesis by (rule not_acceptable_rejected)
qed

lemma sample_tls_status:
  "o_Status (Execute sample_executor sample_world (sample_assignment ProfileTLS ProbeMethodTLS)) = ProbeStatusProxyFailure"
proof -
  obtain d where d: "ProfileByID ProfileTLS = Some d" "h_Method d = ProbeMethodTLS" "\<not> h_Tunnelled d"
    using sample_profiles(1) by blast
  have "execute_body sample_executor sample_world (sample_assignment ProfileTLS ProbeMethodTLS) obs =
      runTransportProbe sample_world (sample_assignment ProfileTLS ProbeMethodTLS) d
        (obs\<lparr>o_DirectConnectivity := fst (directConnectivity (wo_direct sample_world))\<rparr>)" for obs
    by (subst Execute_tunnelled [OF sample_admitted, of _ _ d]) (simp_all add: d)
  then show ?thesis
    by (simp add: Execute_def runTransportProbe_def d(2) Let_def tlsProbe_def sample_world_def tcpEvidence_def)
qed

theorem transport_failure_never_recorded_witness:
  "\<exists>obs e. signed_observation (\<lambda>obs. Some [7]) (\<lambda>x. [1]) ''a1'' ''1''
       (Execute sample_executor sample_world (sample_assignment ProfileTLS ProbeMethodTLS)) = Some obs \<and>
     AcceptObservation (\<lambda>obs. Some [7]) sample_verify hour obs sample_registered = (sample_registered, Inl e)"
proof -
  obtain d where d: "ProfileByID ProfileTLS = Some d" "h_Method d = ProbeMethodTLS" "\<not> h_Tunnelled d"
    using sample_profiles(1) by blast
  obtain obs where obs: "signed_observation (\<lambda>obs. Some [7]) (\<lambda>x. [1]) ''a1'' ''1''
      (Execute sample_executor sample_world (sample_assignment ProfileTLS ProbeMethodTLS)) = Some obs"
    by (simp add: signed_observation_def ObservationSigningPayload_def Let_def)
  have "\<exists>e. AcceptObservation (\<lambda>obs. Some [7]) sample_verify hour obs sample_registered = (sample_registered, Inl e)"
    by (rule transport_failure_never_recorded [OF sample_admitted _ _ d(3) _ _ obs])
      (simp_all add: sample_tls_status status_defs d)
  with obs show ?thesis by blast
qed

text \<open>
  C32: a job the agent refused before probing (an unusable assignment, a stale fingerprint, a rejected
  configuration, an unknown profile) leaves no trace in its session: the observation claims no
  direct control, and the manager rejects it, so the session summary's wording for exactly this
  case can never be shown.
\<close>

theorem refused_job_never_recorded:
  assumes "\<not> validateAssignment (wo_started w) a \<or> wo_digest w (ja_XrayConfig a) \<noteq> j_ConfigFingerprint (ja_Job a) \<or>
      \<not> wo_sandboxed w (ja_XrayConfig a) (ja_SocksPort a) \<or>
      ProfileByID (p_ID (j_Profile (ja_Job a))) = None"
    and "signed_observation marshal sign agentID agentVersion (Execute c w a) = Some obs"
  shows "\<exists>e. AcceptObservation marshal verify now obs m = (m, Inl e)"
proof -
  have "execute_body c w a (initial_observation (wo_started w) (ja_Job a)) =
      (initial_observation (wo_started w) (ja_Job a))\<lparr>o_Failure := configuration_failure\<rparr>"
    using assms(1) by (auto simp: execute_body_def Let_def)
  then have "\<not> acceptable_evidence (Execute c w a)"
    by (simp add: Execute_def) (simp add: acceptable_evidence_def)
  then have "\<not> acceptable_evidence obs" using acceptable_signed [OF assms(2)] by simp
  then show ?thesis by (rule not_acceptable_rejected)
qed

theorem refused_job_never_recorded_witness:
  "\<exists>obs e. signed_observation (\<lambda>obs. Some [7]) (\<lambda>x. [1]) ''a1'' ''1''
       (Execute sample_executor (sample_world\<lparr>wo_digest := \<lambda>x. []\<rparr>) (sample_assignment ProfileTLS ProbeMethodTLS)) =
         Some obs \<and>
     AcceptObservation (\<lambda>obs. Some [7]) sample_verify hour obs sample_registered = (sample_registered, Inl e)"
proof -
  let ?w = "sample_world\<lparr>wo_digest := \<lambda>x. []\<rparr>" and ?a = "sample_assignment ProfileTLS ProbeMethodTLS"
  obtain obs where obs: "signed_observation (\<lambda>obs. Some [7]) (\<lambda>x. [1]) ''a1'' ''1''
      (Execute sample_executor ?w ?a) = Some obs"
    by (simp add: signed_observation_def ObservationSigningPayload_def Let_def)
  have "wo_digest ?w (ja_XrayConfig ?a) \<noteq> j_ConfigFingerprint (ja_Job ?a)"
    by (simp add: sample_assignment_def sample_fingerprint_def)
  with refused_job_never_recorded [OF _ obs] obs show ?thesis by blast
qed

subsection \<open>Measured series and answers\<close>

lemma percentile_index:
  assumes "xs \<noteq> []" and "0 \<le> q" and "q \<le> 1"
  shows "\<exists>i < length xs. percentileMillis xs q = Milliseconds (xs ! i) \<and>
    int i = \<lfloor>rat_of_nat (length xs - 1) * q\<rfloor>"
proof -
  define f where "f = \<lfloor>rat_of_nat (length xs - 1) * q\<rfloor>"
  have lo: "0 \<le> f" using assms(2) by (simp add: f_def)
  have "rat_of_nat (length xs - 1) * q \<le> rat_of_nat (length xs - 1)"
    using assms(2,3) by (simp add: mult_left_le)
  then have "f \<le> int (length xs - 1)" by (simp add: f_def floor_le_iff)
  then have hi: "f < int (length xs)" using assms(1) by (cases xs) simp_all
  have "percentileMillis xs q = Milliseconds (xs ! nat f)"
    using lo hi assms(1) unfolding percentileMillis_def Let_def f_def [symmetric] by auto
  then show ?thesis using lo hi unfolding f_def [symmetric] by (intro exI [of _ "nat f"]) simp
qed

lemma percentile_bounds:
  assumes "sorted xs" and "xs \<noteq> []" and "\<forall>x\<in>set xs. 0 \<le> x"
  shows "Milliseconds (xs ! 0) \<le> percentileMillis xs (1/2)"
    and "percentileMillis xs (1/2) \<le> percentileMillis xs (95/100)"
    and "percentileMillis xs (95/100) \<le> Milliseconds (xs ! (length xs - 1))"
proof -
  obtain i where i: "i < length xs" "percentileMillis xs (1/2) = Milliseconds (xs ! i)"
    "int i = \<lfloor>rat_of_nat (length xs - 1) * (1/2)\<rfloor>" using percentile_index [OF assms(2), of "1/2"] by auto
  obtain j where j: "j < length xs" "percentileMillis xs (95/100) = Milliseconds (xs ! j)"
    "int j = \<lfloor>rat_of_nat (length xs - 1) * (95/100)\<rfloor>" using percentile_index [OF assms(2), of "95/100"] by auto
  have "rat_of_nat (length xs - 1) * (1/2) \<le> rat_of_nat (length xs - 1) * (95/100)"
    by (rule mult_left_mono) simp_all
  then have ij: "i \<le> j" using i(3) j(3) floor_mono by (metis of_nat_le_iff)
  have mono: "a \<le> b \<Longrightarrow> b < length xs \<Longrightarrow> Milliseconds (xs ! a) \<le> Milliseconds (xs ! b)" for a b
    using assms(1,3) by (intro Milliseconds_mono sorted_nth_mono) auto
  show "Milliseconds (xs ! 0) \<le> percentileMillis xs (1/2)" using mono [of 0 i] i by simp
  show "percentileMillis xs (1/2) \<le> percentileMillis xs (95/100)" using mono [OF ij j(1)] i j by simp
  show "percentileMillis xs (95/100) \<le> Milliseconds (xs ! (length xs - 1))"
    using mono [of j "length xs - 1"] j by simp
qed

lemma latency_loop_times:
  "latency_loop as samples prev = (xs, f) \<Longrightarrow> \<forall>x\<in>set samples. 0 \<le> x \<Longrightarrow>
   \<forall>a\<in>set as. 0 \<le> fst (snd a) \<and> 0 \<le> snd (snd a) \<Longrightarrow> \<forall>x\<in>set xs. 0 \<le> x"
proof (induction as samples prev arbitrary: xs f rule: latency_loop.induct)
  case (2 a rest samples prev)
  obtain t g where a: "singleLatencySample a = (t, g)" by (cases "singleLatencySample a")
  have "0 \<le> t" using a "2.prems"(3)
    by (auto simp: singleLatencySample_def split: prod.splits response.splits if_splits)
  then show ?case
    using "2.IH"(2) [OF a [symmetric], of xs f] "2.IH"(1) [OF a [symmetric], of xs f] "2.prems" a
    by (auto split: if_splits)
qed auto

text \<open>
  C36: a latency series is ordered: with at least one successful sample (and no measured time negative),
  minimum, median, 95th percentile and maximum ascend from zero, the jitter is their spread, no more
  samples succeed than were planned, and the profile reports the node online exactly when all of them
  did.
\<close>

theorem latency_series_ordered:
  assumes "1 \<le> n" and "\<forall>a\<in>set attempts. 0 \<le> fst (snd a) \<and> 0 \<le> snd (snd a)"
    and "pr_latencySeries (latencyProfile n attempts) = Some e" and "0 < l_Succeeded e"
  shows "0 \<le> l_MinMillis e \<and> l_MinMillis e \<le> l_MedianMillis e \<and> l_MedianMillis e \<le> l_P95Millis e \<and>
    l_P95Millis e \<le> l_MaxMillis e \<and> l_JitterMillis e = l_MaxMillis e - l_MinMillis e \<and>
    l_Succeeded e \<le> n \<and>
    (pr_status (latencyProfile n attempts) = ProbeStatusOnline \<longleftrightarrow> l_Succeeded e = n)"
proof -
  obtain xs f where l: "latency_loop (take (nat n) attempts) [] no_failure = (xs, f)" by fastforce
  have ne: "xs \<noteq> []" using assms(3,4) by (auto simp: latencyProfile_def l Let_def latency_series_def)
  have le: "length xs \<le> nat n" using latency_loop_props [OF l] by simp
  have "\<forall>a\<in>set (take (nat n) attempts). 0 \<le> fst (snd a) \<and> 0 \<le> snd (snd a)"
    using assms(2) in_set_takeD by fast
  from latency_loop_times [OF l _ this] have nonneg: "\<forall>x\<in>set (sort xs). 0 \<le> x" by simp
  have ne': "sort xs \<noteq> []" using ne by (metis length_0_conv length_sort)
  note b = percentile_bounds [OF sorted_sort ne' nonneg]
  have lo: "0 \<le> sort xs ! 0" using nonneg ne' by (metis length_greater_0_conv nth_mem)
  have e: "e = latency_series n xs f"
    and st: "pr_status (latencyProfile n attempts) =
      (if int (length xs) < n then ProbeStatusProxyFailure else ProbeStatusOnline)"
    using assms(3) ne by (auto simp: latencyProfile_def l Let_def proxy_failed_def proxy_online_def
        split: if_splits)
  have s: "l_Succeeded e = int (length xs)" "l_MinMillis e = Milliseconds (sort xs ! 0)"
    "l_MaxMillis e = Milliseconds (sort xs ! (length (sort xs) - 1))"
    "l_MedianMillis e = percentileMillis (sort xs) (1/2)"
    "l_P95Millis e = percentileMillis (sort xs) (95/100)"
    "l_JitterMillis e = l_MaxMillis e - l_MinMillis e"
    using ne by (simp_all add: e latency_series_def Let_def)
  have "0 \<le> l_MinMillis e" using lo by (simp add: s)
  moreover have "l_MinMillis e \<le> l_MedianMillis e" "l_MedianMillis e \<le> l_P95Millis e"
    "l_P95Millis e \<le> l_MaxMillis e" using b unfolding s by blast+
  moreover have "l_Succeeded e \<le> n" using le assms(1) by (simp add: s)
  moreover have "pr_status (latencyProfile n attempts) = ProbeStatusOnline \<longleftrightarrow> l_Succeeded e = n"
    using le assms(1) by (auto simp: st s status_defs)
  ultimately show ?thesis using s(6) by blast
qed

theorem latency_series_ordered_witness:
  "0 \<le> l_MinMillis (the (pr_latencySeries (latencyProfile 1 [(Status 204, millisecond, millisecond)])))"
proof -
  let ?a = "[(Status 204, millisecond, millisecond)]"
  have s: "(case pr_latencySeries (latencyProfile 1 ?a) of None \<Rightarrow> False | Some e \<Rightarrow> l_Succeeded e = 1)"
    by (simp add: latencyProfile_def latency_series_def singleLatencySample_def millisecond_def Let_def)
  then obtain e where e: "pr_latencySeries (latencyProfile 1 ?a) = Some e" "l_Succeeded e = 1"
    by (auto split: option.splits)
  then show ?thesis
    using latency_series_ordered [of 1 ?a e] by (simp add: millisecond_def)
qed

text \<open>
  The DNS probe reports a mismatch exactly when both resolvers returned addresses and share
  none; a resolver that failed or returned nothing never makes one.
\<close>

theorem dns_mismatch_means_disjoint:
  "d_Mismatch (dnsProbe host False [(n1, t1, a1), (n2, t2, a2)]) \<longleftrightarrow>
   (\<exists>xs ys. a1 = Some xs \<and> a2 = Some ys \<and> xs \<noteq> [] \<and> ys \<noteq> [] \<and> set xs \<inter> set ys = {})"
  by (cases a1; cases a2)
    (auto simp: dnsProbe_def Let_def resolver_evidence_def sharesAddress_def list_ex_iff)

end
