(* ===== verification/GoSort.thy ===== *)
theory GoSort
  imports GoBase "HOL-Library.Multiset" "HOL-Library.Char_ord" "HOL-Library.List_Lexorder"
    "HOL-Library.Product_Lexorder"
begin

text \<open>
  Go's \<open>sort.Slice\<close>, \<open>sort.Strings\<close> and the order of Go strings. A comparison that is the order
  of a key arranges a slice as sorting by that key does: that is the contract \<open>comparison\<close>, and
  every comparison function of the program is interpreted with its key. Where keys are distinct
  the arrangement is the only sorted one, so the algorithm (and its instability) does not show.
\<close>

fun insort_slice :: "('a \<Rightarrow> 'a \<Rightarrow> bool) \<Rightarrow> 'a \<Rightarrow> 'a list \<Rightarrow> 'a list" where
  "insort_slice lt x [] = [x]"
| "insort_slice lt x (y # ys) = (if lt y x then y # insort_slice lt x ys else x # y # ys)"

definition sort_slice :: "('a \<Rightarrow> 'a \<Rightarrow> bool) \<Rightarrow> 'a list \<Rightarrow> 'a list" where
  "sort_slice lt xs = foldr (insort_slice lt) xs []"

locale comparison =
  fixes lt :: "'a \<Rightarrow> 'a \<Rightarrow> bool" and key :: "'a \<Rightarrow> 'k::linorder"
  assumes lt_key: "lt x y \<longleftrightarrow> key x < key y"
begin

lemma insort_slice_key: "insort_slice lt x ys = insort_key key x ys"
  by (induction ys) (auto simp: lt_key not_le not_less)

lemma slice_key: "sort_slice lt xs = sort_key key xs"
proof -
  have "insort_slice lt = insort_key key" by (intro ext insort_slice_key)
  then show ?thesis by (simp add: sort_slice_def sort_key_def)
qed

lemma slice_set [simp]: "set (sort_slice lt xs) = set xs"
  by (simp add: slice_key)

lemma slice_mset [simp]: "mset (sort_slice lt xs) = mset xs"
  by (simp add: slice_key)

lemma slice_sorted: "sorted (map key (sort_slice lt xs))"
  by (simp add: slice_key)

lemma slice_unique:
  assumes "mset ys = mset xs" and "sorted (map key ys)" and "inj_on key (set xs)"
  shows "ys = sort_slice lt xs"
  using sort_key_inj_key_eq [of xs ys key] assms by (simp add: slice_key)

lemma slice_strict:
  assumes "distinct (map key xs)"
  shows "sorted_wrt lt (sort_slice lt xs)"
proof -
  have "mset (map key (sort_slice lt xs)) = mset (map key xs)" by simp
  then have "distinct (map key (sort_slice lt xs))" using assms mset_eq_imp_distinct_iff by blast
  then have "sorted_wrt (<) (map key (sort_slice lt xs))" using slice_sorted by (simp add: strict_sorted_iff)
  then show ?thesis by (simp add: sorted_wrt_map lt_key [abs_def])
qed

lemma slice_map: "set (map f (sort_slice lt xs)) = set (map f xs)" "distinct (map f (sort_slice lt xs)) = distinct (map f xs)"
proof -
  have "mset (map f (sort_slice lt xs)) = mset (map f xs)" by simp
  then show "set (map f (sort_slice lt xs)) = set (map f xs)" "distinct (map f (sort_slice lt xs)) = distinct (map f xs)"
    by (rule mset_eq_setD, rule mset_eq_imp_distinct_iff)
qed

end

interpretation strings: comparison "(<)" "\<lambda>s :: string. s"
  by unfold_locales simp

abbreviation sort_strings :: "string list \<Rightarrow> string list" where
  "sort_strings \<equiv> sort_slice (<)"

end
