(* ===== verification/Reachability.thy ===== *)
theory Reachability
  imports DiagManager GoSort "HOL-Library.AList"
begin

text \<open>
  The reachability matrix (\<open>src/reachability/matrix.go\<close>, \<open>verdict.go\<close>, \<open>preference.go\<close>): one cell
  per node and agent with what the agent last saw, the rows and findings derived from them, the
  order in which agents are preferred, and the state file.

  Go's maps are association lists; the order of an entry in the list is the order of an iteration.
  The clock is an argument. JSON and the file are outcomes: what was read, whether it decoded.
\<close>

subsection \<open>Cells\<close>

definition VerdictUnknown :: string where "VerdictUnknown = ''unknown''"
definition VerdictAgreedUp :: string where "VerdictAgreedUp = ''agreed_up''"
definition VerdictAgreedDown :: string where "VerdictAgreedDown = ''agreed_down''"
definition VerdictAgentOnlyFailure :: string where "VerdictAgentOnlyFailure = ''agent_only_failure''"
definition VerdictLocalOnlyFailure :: string where "VerdictLocalOnlyFailure = ''local_only_failure''"

lemmas cell_verdict_defs = VerdictUnknown_def VerdictAgreedUp_def VerdictAgreedDown_def
  VerdictAgentOnlyFailure_def VerdictLocalOnlyFailure_def

definition Divergent :: "string \<Rightarrow> bool" where
  "Divergent v \<longleftrightarrow> v = VerdictAgentOnlyFailure \<or> v = VerdictLocalOnlyFailure"

definition knownVerdict :: "string \<Rightarrow> bool" where
  "knownVerdict v \<longleftrightarrow> v \<in> {VerdictUnknown, VerdictAgreedUp, VerdictAgreedDown,
     VerdictAgentOnlyFailure, VerdictLocalOnlyFailure}"

record Cell =
  rc_AgentID :: string
  rc_Verdict :: string
  rc_AgentStatus :: string
  rc_LocalStatus :: string
  rc_CheckedAt :: time
  rc_LocalCheckedAt :: time
  rc_LatencyMillis :: int
  rc_FailureCode :: string
  rc_FailureStage :: string
  rc_TCPReached :: bool
  rc_Detail :: string
  rc_Since :: time
  rc_Streak :: int
  rc_Unreachable :: bool
  rc_Stale :: bool
  rc_Generation :: int

definition confirmSweeps :: int where "confirmSweeps = 2"

definition Confirmed :: "Cell \<Rightarrow> bool" where
  "Confirmed c \<longleftrightarrow> rc_Unreachable c \<and> rc_Streak c \<ge> confirmSweeps"

definition observationFor :: "DiagnosticSession \<Rightarrow> string \<Rightarrow> AcceptedObservation option" where
  "observationFor s agentID =
     find (\<lambda>a. o_AgentID (c_Observation a) = agentID) (rev (s_AgentObservations s))"

definition detailForMissing :: "SessionState \<Rightarrow> string" where
  "detailForMissing st = (case st of
     SExpired \<Rightarrow> ''diagnostic job expired before the agent answered''
   | SCancelled \<Rightarrow> ''diagnostic session was cancelled''
   | _ \<Rightarrow> ''agent returned no observation'')"

definition detailAgentOffline :: string where
  "detailAgentOffline = ''agent lost its own connectivity during the probe''"
definition detailLocalUnknown :: string where
  "detailLocalUnknown = ''controller had no recent result to compare''"

definition CellFor :: "DiagnosticSession \<Rightarrow> string \<Rightarrow> time \<Rightarrow> Cell" where
  "CellFor s agentID0 now =
     (let agentID = TrimSpace agentID0;
          cell = \<lparr>rc_AgentID = agentID, rc_Verdict = VerdictUnknown, rc_AgentStatus = [],
            rc_LocalStatus = n_Status (s_LocalResultSnapshot s), rc_CheckedAt = now,
            rc_LocalCheckedAt = n_CheckedAt (s_LocalResultSnapshot s), rc_LatencyMillis = 0,
            rc_FailureCode = [], rc_FailureStage = [], rc_TCPReached = False, rc_Detail = [],
            rc_Since = 0, rc_Streak = 0, rc_Unreachable = False, rc_Stale = False,
            rc_Generation = 0\<rparr>
      in case observationFor s agentID of
           None \<Rightarrow> cell\<lparr>rc_Detail := detailForMissing (s_State s)\<rparr>
         | Some a \<Rightarrow>
             (let obs = c_Observation a;
                  cell1 = cell\<lparr>rc_AgentStatus := o_Status obs, rc_CheckedAt := o_CheckedAt obs,
                    rc_LatencyMillis := o_LatencyMillis obs,
                    rc_TCPReached := (e_Checked (o_TCP obs) \<and> e_Online (o_TCP obs)),
                    rc_FailureCode := TrimSpace (f_Code (o_Failure obs)),
                    rc_FailureStage := f_Stage (o_Failure obs)\<rparr>
              in if \<not> c_Reliable a then
                   cell1\<lparr>rc_Verdict := VerdictUnknown, rc_Detail := detailAgentOffline\<rparr>
                 else if rc_LocalStatus cell1 = [] \<or> rc_LocalStatus cell1 = ProbeStatusUnknown then
                   cell1\<lparr>rc_Verdict := VerdictUnknown, rc_Detail := detailLocalUnknown\<rparr>
                 else
                   (let localUp = (rc_LocalStatus cell1 = ProbeStatusOnline);
                        agentUp = (rc_AgentStatus cell1 = ProbeStatusOnline)
                    in if localUp \<and> agentUp then cell1\<lparr>rc_Verdict := VerdictAgreedUp\<rparr>
                       else if \<not> localUp \<and> \<not> agentUp then cell1\<lparr>rc_Verdict := VerdictAgreedDown\<rparr>
                       else if localUp \<and> \<not> agentUp
                         then cell1\<lparr>rc_Verdict := VerdictAgentOnlyFailure\<rparr>
                       else cell1\<lparr>rc_Verdict := VerdictLocalOnlyFailure\<rparr>)))"

subsection \<open>The matrix\<close>

type_synonym cells = "(string \<times> (string \<times> Cell) list) list"

record matrix =
  mx_path :: string
  mx_cells :: cells
  mx_names :: "(string \<times> string) list"
  mx_lastSweepAt :: time
  mx_sweepGeneration :: int

definition NewMatrix :: "string \<Rightarrow> matrix" where
  "NewMatrix path = \<lparr>mx_path = path, mx_cells = [], mx_names = [], mx_lastSweepAt = 0,
     mx_sweepGeneration = 0\<rparr>"

definition row_of :: "matrix \<Rightarrow> string \<Rightarrow> (string \<times> Cell) list" where
  "row_of m i = (case map_of (mx_cells m) i of None \<Rightarrow> [] | Some row \<Rightarrow> row)"

text \<open>What a new cell inherits from the one it replaces.\<close>

definition continue_streak :: "Cell option \<Rightarrow> Cell \<Rightarrow> Cell" where
  "continue_streak previous c =
     (case previous of
        None \<Rightarrow> c\<lparr>rc_Since := rc_CheckedAt c, rc_Streak := 1\<rparr>
      | Some p \<Rightarrow>
          if rc_Verdict p = rc_Verdict c \<and> rc_Since p \<noteq> 0 then
            c\<lparr>rc_Since := rc_Since p,
              rc_Streak := if rc_LocalCheckedAt c > rc_LocalCheckedAt p then rc_Streak p + 1
                           else rc_Streak p\<rparr>
          else c\<lparr>rc_Since := rc_CheckedAt c, rc_Streak := 1\<rparr>)"

definition Record :: "time \<Rightarrow> string \<Rightarrow> Cell \<Rightarrow> matrix \<Rightarrow> matrix \<times> Cell" where
  "Record now stableID0 cell0 m =
     (let stableID = TrimSpace stableID0;
          cell = cell0\<lparr>rc_AgentID := TrimSpace (rc_AgentID cell0)\<rparr>
      in if stableID = [] \<or> rc_AgentID cell = [] then (m, cell)
         else
           (let cell1 = (if rc_CheckedAt cell = 0 then cell\<lparr>rc_CheckedAt := now\<rparr> else cell);
                cell2 = cell1\<lparr>rc_Generation := mx_sweepGeneration m\<rparr>;
                row = row_of m stableID;
                cell3 = continue_streak (map_of row (rc_AgentID cell2)) cell2
            in (m\<lparr>mx_cells := AList.update stableID (AList.update (rc_AgentID cell3) cell3 row)
                    (mx_cells m)\<rparr>, cell3)))"

definition BeginSweep :: "matrix \<Rightarrow> matrix" where
  "BeginSweep m = m\<lparr>mx_sweepGeneration := mx_sweepGeneration m + 1\<rparr>"

definition retain_row :: "(string \<Rightarrow> bool) \<Rightarrow> (string \<times> Cell) list \<Rightarrow> (string \<times> Cell) list" where
  "retain_row agents row = filter (\<lambda>(a, c). agents a) row"

definition Retain :: "(string \<times> string) list \<Rightarrow> (string \<Rightarrow> bool) \<Rightarrow> matrix \<Rightarrow> matrix" where
  "Retain nodes agents m =
     m\<lparr>mx_cells := filter (\<lambda>(i, row). row \<noteq> [])
         (map (\<lambda>(i, row). (i, retain_row agents row))
           (filter (\<lambda>(i, row). map_of nodes i \<noteq> None) (mx_cells m))),
       mx_names := nodes\<rparr>"

definition MarkSweep :: "time \<Rightarrow> matrix \<Rightarrow> matrix" where
  "MarkSweep at_time m = m\<lparr>mx_lastSweepAt := at_time\<rparr>"

subsection \<open>Rows\<close>

record NodeRow =
  rr_StableID :: string
  rr_Name :: string
  rr_Cells :: "Cell list"
  rr_Alive :: bool
  rr_LocalUnreachable :: bool
  rr_LocalSince :: time
  rr_LocalStreak :: int

definition evidence :: "Cell \<Rightarrow> bool" where
  "evidence c \<longleftrightarrow> \<not> (rc_Verdict c = VerdictUnknown \<or> rc_Stale c)"

definition mark_unreachable :: "Cell \<Rightarrow> Cell" where
  "mark_unreachable c = (if \<not> evidence c then c
     else c\<lparr>rc_Unreachable := (rc_AgentStatus c \<noteq> ProbeStatusOnline)\<rparr>)"

definition note_local :: "bool \<Rightarrow> Cell \<Rightarrow> NodeRow \<Rightarrow> NodeRow" where
  "note_local localUp c row =
     (if \<not> evidence c then row
      else if localUp \<or> rc_LocalStatus c = ProbeStatusOnline then row
      else row\<lparr>rr_LocalUnreachable := True,
             rr_LocalStreak := if rc_Streak c > rr_LocalStreak row then rc_Streak c
                               else rr_LocalStreak row,
             rr_LocalSince := if rr_LocalSince row = 0 \<or> rc_Since c < rr_LocalSince row
                              then rc_Since c else rr_LocalSince row\<rparr>)"

definition deriveRow :: "NodeRow \<Rightarrow> NodeRow" where
  "deriveRow row =
     (let localUp = list_ex (\<lambda>c. evidence c \<and> rc_LocalStatus c = ProbeStatusOnline) (rr_Cells row);
          alive = (rr_Alive row \<or>
            list_ex (\<lambda>c. evidence c \<and> rc_AgentStatus c = ProbeStatusOnline) (rr_Cells row) \<or> localUp);
          row1 = row\<lparr>rr_Alive := alive\<rparr>
      in if \<not> alive then row1
         else fold (note_local localUp) (rr_Cells row)
                (row1\<lparr>rr_Cells := map mark_unreachable (rr_Cells row)\<rparr>))"

definition mark_stale :: "int \<Rightarrow> Cell \<Rightarrow> Cell" where
  "mark_stale generation c =
     c\<lparr>rc_Stale := (generation > 0 \<and> rc_Generation c \<noteq> generation)\<rparr>"

definition name_of :: "matrix \<Rightarrow> string \<Rightarrow> string" where
  "name_of m i = (case map_of (mx_names m) i of None \<Rightarrow> [] | Some n \<Rightarrow> n)"

definition cell_before :: "Cell \<Rightarrow> Cell \<Rightarrow> bool" where
  "cell_before c d \<longleftrightarrow> rc_AgentID c < rc_AgentID d"

definition node_row :: "matrix \<Rightarrow> string \<Rightarrow> NodeRow" where
  "node_row m i = deriveRow \<lparr>rr_StableID = i, rr_Name = name_of m i,
     rr_Cells = sort_slice cell_before
       (map (\<lambda>(a, c). mark_stale (mx_sweepGeneration m) c) (row_of m i)),
     rr_Alive = False, rr_LocalUnreachable = False, rr_LocalSince = 0, rr_LocalStreak = 0\<rparr>"

definition Rows :: "matrix \<Rightarrow> NodeRow list" where
  "Rows m = map (node_row m) (sort_strings (map fst (mx_cells m)))"

subsection \<open>Findings\<close>

record Finding =
  fi_StableID :: string
  fi_Name :: string
  fi_AgentID :: string
  fi_Local :: bool
  fi_Status :: string
  fi_FailureCode :: string
  fi_FailureStage :: string
  fi_TCPReached :: bool
  fi_Since :: time
  fi_Streak :: int
  fi_Confirmed :: bool

definition localStatusOf :: "NodeRow \<Rightarrow> string" where
  "localStatusOf row = (case find evidence (rr_Cells row) of
     None \<Rightarrow> ProbeStatusUnknown | Some c \<Rightarrow> rc_LocalStatus c)"

definition local_finding :: "NodeRow \<Rightarrow> Finding" where
  "local_finding row = \<lparr>fi_StableID = rr_StableID row, fi_Name = rr_Name row, fi_AgentID = [],
     fi_Local = True, fi_Status = localStatusOf row, fi_FailureCode = [], fi_FailureStage = [],
     fi_TCPReached = False, fi_Since = rr_LocalSince row, fi_Streak = rr_LocalStreak row,
     fi_Confirmed = (rr_LocalStreak row \<ge> confirmSweeps)\<rparr>"

definition agent_finding :: "NodeRow \<Rightarrow> Cell \<Rightarrow> Finding" where
  "agent_finding row c = \<lparr>fi_StableID = rr_StableID row, fi_Name = rr_Name row,
     fi_AgentID = rc_AgentID c, fi_Local = False, fi_Status = rc_AgentStatus c,
     fi_FailureCode = rc_FailureCode c, fi_FailureStage = rc_FailureStage c,
     fi_TCPReached = rc_TCPReached c, fi_Since = rc_Since c, fi_Streak = rc_Streak c,
     fi_Confirmed = Confirmed c\<rparr>"

definition row_findings :: "NodeRow \<Rightarrow> Finding list" where
  "row_findings row =
     (if \<not> rr_Alive row then []
      else (if rr_LocalUnreachable row then [local_finding row] else []) @
           map (agent_finding row) (filter rc_Unreachable (rr_Cells row)))"

definition finding_before :: "Finding \<Rightarrow> Finding \<Rightarrow> bool" where
  "finding_before f g \<longleftrightarrow>
     (if fi_Confirmed f \<noteq> fi_Confirmed g then fi_Confirmed f
      else if fi_Since f \<noteq> fi_Since g then fi_Since f > fi_Since g
      else if fi_StableID f \<noteq> fi_StableID g then fi_StableID f < fi_StableID g
      else fi_AgentID f < fi_AgentID g)"

definition Findings :: "matrix \<Rightarrow> Finding list" where
  "Findings m = sort_slice finding_before (concat (map row_findings (Rows m)))"

subsection \<open>Preference\<close>

record candidate =
  ca_agentID :: string
  ca_class :: int
  ca_latency :: int
  ca_arrival :: nat

definition classReached :: int where "classReached = 0"
definition classUnknown :: int where "classUnknown = 1"
definition classFailed :: int where "classFailed = 2"

definition rank_agent :: "matrix \<Rightarrow> string \<Rightarrow> nat \<Rightarrow> string \<Rightarrow> candidate" where
  "rank_agent m stableID index agentID =
     (let unknown = \<lparr>ca_agentID = agentID, ca_class = classUnknown, ca_latency = 0,
            ca_arrival = index\<rparr>;
          generation = mx_sweepGeneration m
      in case map_of (row_of m stableID) (TrimSpace agentID) of
           None \<Rightarrow> unknown
         | Some c \<Rightarrow>
             if generation > 0 \<and> rc_Generation c \<noteq> generation then unknown
             else if rc_AgentStatus c = ProbeStatusOnline
               then unknown\<lparr>ca_class := classReached, ca_latency := rc_LatencyMillis c\<rparr>
             else if rc_AgentStatus c = ProbeStatusOffline \<or> rc_AgentStatus c = ProbeStatusProxyFailure
               then unknown\<lparr>ca_class := classFailed\<rparr>
             else unknown)"

definition candidate_before :: "candidate \<Rightarrow> candidate \<Rightarrow> bool" where
  "candidate_before c d \<longleftrightarrow>
     (if ca_class c \<noteq> ca_class d then ca_class c < ca_class d
      else if ca_class c = classReached \<and> ca_latency c \<noteq> ca_latency d then
        (if ca_latency c = 0 then False
         else if ca_latency d = 0 then True
         else ca_latency c < ca_latency d)
      else ca_arrival c < ca_arrival d)"

definition PreferAgents :: "string \<Rightarrow> string list \<Rightarrow> matrix \<Rightarrow> string list" where
  "PreferAgents stableID agentIDs m =
     (if agentIDs = [] then []
      else map ca_agentID (sort_slice candidate_before
             (map (\<lambda>(index, agentID). rank_agent m (TrimSpace stableID) index agentID)
               (enumerate 0 agentIDs))))"

subsection \<open>The state file\<close>

definition StateVersion :: int where "StateVersion = 1"

record stateFile =
  sf_Version :: int
  sf_UpdatedAt :: time
  sf_LastSweepAt :: time
  sf_SweepGeneration :: int
  sf_Nodes :: cells
  sf_Names :: "(string \<times> string) list"

datatype file_read = Missing | Unreadable | Contents "8 word list"

definition load_row :: "(string \<times> Cell) list \<Rightarrow> (string \<times> Cell) list" where
  "load_row row = fold (\<lambda>(a, c) kept.
     let agentID = TrimSpace a in
     if agentID = [] \<or> \<not> knownVerdict (rc_Verdict c) then kept
     else AList.update agentID (c\<lparr>rc_AgentID := agentID\<rparr>) kept) row []"

definition load_cells :: "cells \<Rightarrow> cells" where
  "load_cells nodes = fold (\<lambda>(i, row) kept.
     let stableID = TrimSpace i in
     if stableID = [] \<or> load_row row = [] then kept
     else AList.update stableID (load_row row) kept) nodes []"

definition load_names :: "cells \<Rightarrow> (string \<times> string) list \<Rightarrow> (string \<times> string) list" where
  "load_names cs ns = fold (\<lambda>(i, n) kept.
     if map_of cs (TrimSpace i) = None then kept else AList.update (TrimSpace i) n kept) ns []"

text \<open>The matrix after the call, and whether it returned an error.\<close>

definition Load :: "(8 word list \<Rightarrow> stateFile option) \<Rightarrow> file_read \<Rightarrow> matrix \<Rightarrow> matrix \<times> bool" where
  "Load decode found m =
     (if mx_path m = [] then (m, False)
      else (case found of
          Missing \<Rightarrow> (m, False)
        | Unreadable \<Rightarrow> (m, True)
        | Contents bytes \<Rightarrow>
            (case decode bytes of None \<Rightarrow> (m, True)
             | Some st \<Rightarrow>
                 if sf_Version st \<noteq> StateVersion then (m, True)
                 else
                   (let cs = load_cells (sf_Nodes st) in
                    (m\<lparr>mx_cells := cs, mx_names := load_names cs (sf_Names st),
                       mx_lastSweepAt := sf_LastSweepAt st,
                       mx_sweepGeneration := sf_SweepGeneration st\<rparr>, False)))))"

definition saved_state :: "time \<Rightarrow> matrix \<Rightarrow> stateFile" where
  "saved_state now m = \<lparr>sf_Version = StateVersion, sf_UpdatedAt = now,
     sf_LastSweepAt = mx_lastSweepAt m, sf_SweepGeneration = mx_sweepGeneration m,
     sf_Nodes = mx_cells m,
     sf_Names = filter (\<lambda>(i, n). n \<noteq> []) (map (\<lambda>(i, row). (i, name_of m i)) (mx_cells m))\<rparr>"

text \<open>The bytes written, if there is a path; None also when encoding fails.\<close>

definition Save :: "(stateFile \<Rightarrow> 8 word list option) \<Rightarrow> time \<Rightarrow> matrix \<Rightarrow> 8 word list option" where
  "Save encode now m = (if mx_path m = [] then None else encode (saved_state now m))"

end
