(* ===== verification/ReachGuarantees.thy ===== *)
theory ReachGuarantees
  imports Reachability StepSystems
begin

text \<open>
  What the reachability matrix guarantees: the invariant of its table, what a streak counts, which
  findings it reports, the order of preference, and that a restart shows the same matrix.
\<close>

subsection \<open>Operations as steps\<close>

text \<open>What the sweeper does to the matrix: it records cells made from sessions, opens and ends passes.\<close>

datatype matrix_op =
    Observed string DiagnosticSession string time
  | NewSweep
  | Kept "(string \<times> string) list" "string \<Rightarrow> bool"
  | Swept time

fun apply_op :: "matrix_op \<Rightarrow> matrix \<Rightarrow> matrix" where
  "apply_op (Observed i s a now) m = fst (Record now i (CellFor s a now) m)"
| "apply_op NewSweep m = BeginSweep m"
| "apply_op (Kept nodes agents) m = Retain nodes agents m"
| "apply_op (Swept t) m = MarkSweep t m"

definition run_ops :: "string \<Rightarrow> matrix_op list \<Rightarrow> matrix" where
  "run_ops path ops = fold apply_op ops (NewMatrix path)"

lemma run_ops_snoc: "run_ops path (ops @ [oper]) = apply_op oper (run_ops path ops)"
  by (simp add: run_ops_def)

lemma run_ops_Nil: "run_ops path [] = NewMatrix path"
  by (simp add: run_ops_def)

subsection \<open>The invariant\<close>

definition wf_cell :: "string \<Rightarrow> Cell \<Rightarrow> bool" where
  "wf_cell a c \<longleftrightarrow> a \<noteq> [] \<and> TrimSpace a = a \<and> rc_AgentID c = a \<and> knownVerdict (rc_Verdict c) \<and>
     \<not> rc_Unreachable c \<and> \<not> rc_Stale c \<and> 1 \<le> rc_Streak c"

definition wf_row :: "(string \<times> Cell) list \<Rightarrow> bool" where
  "wf_row row \<longleftrightarrow> distinct (map fst row) \<and> list_all (\<lambda>(a, c). wf_cell a c) row"

definition wf_matrix :: "matrix \<Rightarrow> bool" where
  "wf_matrix m \<longleftrightarrow> distinct (map fst (mx_cells m)) \<and>
     list_all (\<lambda>(i, row). i \<noteq> [] \<and> TrimSpace i = i \<and> row \<noteq> [] \<and> wf_row row) (mx_cells m)"

lemma list_all_update:
  assumes "list_all P kvs" and "P (k, v)"
  shows "list_all P (AList.update k v kvs)"
  using assms by (induction kvs) (auto split: if_splits)

lemma update_nonempty [simp]: "AList.update k v kvs \<noteq> []"
  by (cases kvs) auto

lemma map_of_list_all: "list_all P kvs \<Longrightarrow> map_of kvs k = Some v \<Longrightarrow> P (k, v)"
  by (auto simp: list_all_iff dest: map_of_SomeD)

lemma distinct_keys_update: "distinct (map fst kvs) \<Longrightarrow> distinct (map fst (AList.update k v kvs))"
  by (rule distinct_update)

lemma distinct_keys_filter: "distinct (map fst kvs) \<Longrightarrow> distinct (map fst (filter P kvs))"
  by (induction kvs) auto

lemma wf_row_of: "wf_matrix m \<Longrightarrow> wf_row (row_of m i)"
proof (cases "map_of (mx_cells m) i")
  case None
  then show ?thesis by (simp add: row_of_def wf_row_def)
next
  case (Some row)
  assume "wf_matrix m"
  then have "wf_row row"
    using map_of_list_all [OF _ Some] unfolding wf_matrix_def by fastforce
  then show ?thesis by (simp add: row_of_def Some)
qed

lemma cell_for_fields:
  "rc_AgentID (CellFor s a now) = TrimSpace a" "knownVerdict (rc_Verdict (CellFor s a now))"
  "\<not> rc_Unreachable (CellFor s a now)" "\<not> rc_Stale (CellFor s a now)"
  "rc_LocalCheckedAt (CellFor s a now) = n_CheckedAt (s_LocalResultSnapshot s)"
  by (auto simp: CellFor_def Let_def knownVerdict_def cell_verdict_defs split: option.splits)

lemma continue_streak_fields [simp]:
  "rc_AgentID (continue_streak p c) = rc_AgentID c" "rc_Verdict (continue_streak p c) = rc_Verdict c"
  "rc_Unreachable (continue_streak p c) = rc_Unreachable c"
  "rc_Stale (continue_streak p c) = rc_Stale c"
  "rc_LocalCheckedAt (continue_streak p c) = rc_LocalCheckedAt c"
  "rc_AgentStatus (continue_streak p c) = rc_AgentStatus c"
  "rc_LocalStatus (continue_streak p c) = rc_LocalStatus c"
  "rc_Generation (continue_streak p c) = rc_Generation c"
  by (auto simp: continue_streak_def split: option.splits)

lemma continue_streak_pos:
  assumes "\<And>d. p = Some d \<Longrightarrow> 1 \<le> rc_Streak d"
  shows "1 \<le> rc_Streak (continue_streak p c)"
  using assms by (fastforce simp: continue_streak_def split: option.splits)

lemma CellFor_id: "(CellFor s a now)\<lparr>rc_AgentID := TrimSpace a\<rparr> = CellFor s a now"
proof -
  have "c\<lparr>rc_AgentID := rc_AgentID c\<rparr> = c" for c :: Cell by simp
  then show ?thesis by (metis cell_for_fields(1))
qed

text \<open>Recording a cell made from a session, in one equation.\<close>

definition recorded :: "time \<Rightarrow> string \<Rightarrow> Cell \<Rightarrow> matrix \<Rightarrow> Cell" where
  "recorded now i c m =
     (let c1 = (if rc_CheckedAt c = 0 then c\<lparr>rc_CheckedAt := now\<rparr> else c)
      in continue_streak (map_of (row_of m i) (rc_AgentID c))
           (c1\<lparr>rc_Generation := mx_sweepGeneration m\<rparr>))"

lemma recorded_fields [simp]:
  "rc_AgentID (recorded now i c m) = rc_AgentID c" "rc_Verdict (recorded now i c m) = rc_Verdict c"
  "rc_Unreachable (recorded now i c m) = rc_Unreachable c"
  "rc_Stale (recorded now i c m) = rc_Stale c"
  "rc_LocalCheckedAt (recorded now i c m) = rc_LocalCheckedAt c"
  by (auto simp: recorded_def Let_def)

lemma Record_CellFor:
  "fst (Record now i (CellFor s a now) m) =
     (if TrimSpace i = [] \<or> TrimSpace a = [] then m
      else m\<lparr>mx_cells := AList.update (TrimSpace i)
             (AList.update (TrimSpace a) (recorded now (TrimSpace i) (CellFor s a now) m)
               (row_of m (TrimSpace i))) (mx_cells m)\<rparr>)"
proof -
  have eq: "(CellFor s a now)\<lparr>rc_AgentID := TrimSpace (rc_AgentID (CellFor s a now))\<rparr> = CellFor s a now"
    by (simp add: cell_for_fields(1) CellFor_id)
  show ?thesis
    unfolding Record_def Let_def eq by (simp add: recorded_def Let_def cell_for_fields(1))
qed

lemma Record_wf:
  assumes "wf_matrix m"
  shows "wf_matrix (fst (Record now i (CellFor s a now) m))"
proof (cases "TrimSpace i = [] \<or> TrimSpace a = []")
  case False
  let ?c = "recorded now (TrimSpace i) (CellFor s a now) m"
  let ?row = "row_of m (TrimSpace i)"
  have row: "wf_row ?row" using assms by (rule wf_row_of)
  have "1 \<le> rc_Streak ?c"
    unfolding recorded_def Let_def
    by (rule continue_streak_pos) (use row in \<open>auto simp: wf_row_def wf_cell_def dest!: map_of_list_all\<close>)
  then have "wf_cell (TrimSpace a) ?c"
    using False by (simp add: wf_cell_def cell_for_fields)
  then have "wf_row (AList.update (TrimSpace a) ?c ?row)"
    using row by (auto simp: wf_row_def intro!: distinct_update list_all_update)
  then show ?thesis
    using assms False unfolding Record_CellFor wf_matrix_def
    by (auto intro!: distinct_update list_all_update)
qed (simp add: Record_CellFor assms)

lemma Retain_wf:
  assumes "wf_matrix m"
  shows "wf_matrix (Retain nodes agents m)"
proof -
  have kept: "wf_row (retain_row agents row)" if "wf_row row" for row
    using that by (auto simp: wf_row_def retain_row_def list_all_iff intro: distinct_keys_filter)
  have fst_map: "map fst (map (\<lambda>(i, row). (i, retain_row agents row)) kvs) = map fst kvs" for kvs
    by (induction kvs) auto
  show ?thesis
    using assms unfolding wf_matrix_def
    by (auto simp: Retain_def list_all_iff kept fst_map simp del: map_map
        intro!: distinct_keys_filter)
qed

lemma apply_op_wf: "wf_matrix m \<Longrightarrow> wf_matrix (apply_op oper m)"
  by (cases oper) (simp_all add: Record_wf Retain_wf, simp_all add: wf_matrix_def BeginSweep_def MarkSweep_def)

definition matrix_step :: "matrix \<Rightarrow> matrix \<Rightarrow> bool" where
  "matrix_step m m' \<longleftrightarrow> (\<exists>oper. m' = apply_op oper m)"

definition matrix_start :: "matrix \<Rightarrow> bool" where
  "matrix_start m \<longleftrightarrow> (\<exists>path. m = NewMatrix path)"

interpretation sweeps: step_system matrix_start matrix_step wf_matrix
  by unfold_locales (auto simp: matrix_start_def matrix_step_def apply_op_wf,
      simp add: wf_matrix_def NewMatrix_def)

lemma run_ops_steps: "matrix_step\<^sup>*\<^sup>* (NewMatrix path) (run_ops path ops)"
proof (induction ops rule: rev_induct)
  case (snoc oper ops)
  then show ?case
    by (auto simp: run_ops_snoc matrix_step_def intro: rtranclp.rtrancl_into_rtrancl)
qed (simp add: run_ops_Nil)

lemma run_ops_wf: "wf_matrix (run_ops path ops)"
  using sweeps.run_ok [OF _ run_ops_steps] by (auto simp: matrix_start_def)

subsection \<open>What a streak counts\<close>

definition cell_at :: "matrix \<Rightarrow> string \<Rightarrow> string \<Rightarrow> Cell option" where
  "cell_at m i a = map_of (row_of m i) a"

text \<open>The verdicts recorded for a pair with the times of the local results they compare against.\<close>

fun sample :: "string \<Rightarrow> string \<Rightarrow> matrix_op \<Rightarrow> (string \<times> time) list" where
  "sample i a (Observed j s b now) =
     (if TrimSpace j = i \<and> TrimSpace b = a \<and> i \<noteq> [] \<and> a \<noteq> []
      then [(rc_Verdict (CellFor s b now), n_CheckedAt (s_LocalResultSnapshot s))] else [])"
| "sample i a NewSweep = []"
| "sample i a (Kept nodes agents) = []"
| "sample i a (Swept t) = []"

definition samples :: "string \<Rightarrow> string \<Rightarrow> matrix_op list \<Rightarrow> (string \<times> time) list" where
  "samples i a ops = concat (map (sample i a) ops)"

lemma row_of_update [simp]:
  "row_of (m\<lparr>mx_cells := AList.update k row (mx_cells m)\<rparr>) i = (if i = k then row else row_of m i)"
  by (simp add: row_of_def update_conv')

lemma row_of_frame [simp]:
  "row_of (BeginSweep m) i = row_of m i" "row_of (MarkSweep t m) i = row_of m i"
  by (simp_all add: row_of_def BeginSweep_def MarkSweep_def)

lemma map_of_retain_row: "map_of (retain_row agents row) a = (if agents a then map_of row a else None)"
  by (induction row) (auto simp: retain_row_def)

lemma map_of_kept_rows:
  "distinct (map fst kvs) \<Longrightarrow>
   map_of (filter (\<lambda>(i, row). row \<noteq> []) (map (\<lambda>(i, row). (i, f row)) (filter (\<lambda>(i, row). P i) kvs))) i =
     (case map_of kvs i of None \<Rightarrow> None
      | Some row \<Rightarrow> if P i \<and> f row \<noteq> [] then Some (f row) else None)"
proof (induction kvs)
  case (Cons kv kvs)
  obtain k row where kv: "kv = (k, row)" by (cases kv)
  have "map_of kvs k = None" using Cons.prems by (simp add: kv map_of_eq_None_iff)
  then show ?case using Cons by (auto simp: kv)
qed simp

lemma row_of_Retain:
  assumes "wf_matrix m"
  shows "row_of (Retain nodes agents m) i =
    (if map_of nodes i = None then [] else retain_row agents (row_of m i))"
  using assms map_of_kept_rows [of "mx_cells m" "retain_row agents" "\<lambda>i. map_of nodes i \<noteq> None" i]
  by (auto simp: row_of_def Retain_def wf_matrix_def retain_row_def split: option.splits)

lemma cell_at_Observed:
  "cell_at (apply_op (Observed j s b now) m) i a =
     (if sample i a (Observed j s b now) \<noteq> [] then Some (recorded now i (CellFor s b now) m)
      else cell_at m i a)"
  by (auto simp: cell_at_def Record_CellFor update_conv')

lemma cell_at_other:
  assumes "wf_matrix m" and "cell_at (apply_op oper m) i a = Some c" and "sample i a oper = []"
  shows "cell_at m i a = Some c"
proof (cases oper)
  case (Observed j s b now)
  then show ?thesis using assms cell_at_Observed by metis
qed (use assms in \<open>auto simp: cell_at_def row_of_Retain map_of_retain_row split: if_splits\<close>)

lemma recorded_streak:
  "rc_Streak (recorded now i c m) =
     (case cell_at m i (rc_AgentID c) of None \<Rightarrow> 1
      | Some p \<Rightarrow> if rc_Verdict p = rc_Verdict c \<and> rc_Since p \<noteq> 0
          then (if rc_LocalCheckedAt c > rc_LocalCheckedAt p then rc_Streak p + 1 else rc_Streak p)
          else 1)"
  by (auto simp: recorded_def Let_def continue_streak_def cell_at_def split: option.splits)

lemma sample_cases:
  "sample i a oper = [] \<or> (\<exists>j s b now. oper = Observed j s b now \<and> TrimSpace b = a \<and>
     sample i a oper = [(rc_Verdict (CellFor s b now), rc_LocalCheckedAt (CellFor s b now))])"
  by (cases oper) (auto simp: cell_for_fields(5))

lemma samples_snoc: "samples i a (ops @ [oper]) = samples i a ops @ sample i a oper"
  by (simp add: samples_def)

lemma streak_counts:
  assumes "sorted (map snd (samples i a ops))" and "cell_at (run_ops path ops) i a = Some c"
  shows "(\<forall>t\<in>snd ` set (samples i a ops). t \<le> rc_LocalCheckedAt c) \<and>
    rc_Streak c \<le> int (card {t. (rc_Verdict c, t) \<in> set (samples i a ops)})"
  using assms
proof (induction ops arbitrary: c rule: rev_induct)
  case Nil
  then show ?case by (simp add: run_ops_Nil NewMatrix_def cell_at_def row_of_def)
next
  case (snoc oper ops)
  let ?m = "run_ops path ops"
  have sorted: "sorted (map snd (samples i a ops))"
    and above: "\<forall>t\<in>snd ` set (samples i a ops). \<forall>u\<in>snd ` set (sample i a oper). t \<le> u"
    using snoc.prems(1) by (auto simp: samples_snoc sorted_append)
  from sample_cases [of i a oper] show ?case
  proof (elim disjE exE conjE)
    assume "sample i a oper = []"
    with snoc.prems(2) cell_at_other [OF run_ops_wf] have "cell_at ?m i a = Some c"
      by (metis run_ops_snoc)
    then show ?thesis using snoc.IH [OF sorted] \<open>sample i a oper = []\<close> by (simp add: samples_snoc)
  next
    fix j s b now
    let ?new = "CellFor s b now"
    let ?old = "\<lambda>v. {t. (v, t) \<in> set (samples i a ops)}"
    assume oper: "oper = Observed j s b now" and b: "TrimSpace b = a"
      and new: "sample i a oper = [(rc_Verdict ?new, rc_LocalCheckedAt ?new)]"
    have c: "c = recorded now i ?new ?m"
      using snoc.prems(2) new unfolding run_ops_snoc oper cell_at_Observed by simp
    have set_new: "{t. (rc_Verdict ?new, t) \<in> set (samples i a (ops @ [oper]))} =
        insert (rc_LocalCheckedAt ?new) (?old (rc_Verdict ?new))"
      by (auto simp: samples_snoc new)
    have fin: "finite (?old v)" for v
      by (rule finite_subset [of _ "snd ` set (samples i a ops)"]) force+
    have one: "1 \<le> card (insert (rc_LocalCheckedAt ?new) (?old (rc_Verdict ?new)))"
      by (simp only: Suc_le_eq One_nat_def card_gt_0_iff) (simp add: fin)
    have "rc_Streak c \<le> int (card (insert (rc_LocalCheckedAt ?new) (?old (rc_Verdict ?new))))"
    proof (cases "cell_at ?m i a")
      case None
      then show ?thesis using one by (simp add: c recorded_streak cell_for_fields(1) b)
    next
      case (Some p)
      note IH = snoc.IH [OF sorted Some]
      show ?thesis
      proof (cases "rc_Verdict p = rc_Verdict ?new \<and> rc_Since p \<noteq> 0")
        case True
        have grow: "card (?old (rc_Verdict ?new)) \<le>
            card (insert (rc_LocalCheckedAt ?new) (?old (rc_Verdict ?new)))"
          by (rule card_mono) (use fin in auto)
        have fresh: "rc_LocalCheckedAt ?new \<notin> ?old (rc_Verdict ?new)"
          if "rc_LocalCheckedAt ?new > rc_LocalCheckedAt p"
          using IH that by force
        show ?thesis
          using True IH grow fresh fin [of "rc_Verdict ?new"]
          by (auto simp: c recorded_streak cell_for_fields(1) b Some)
      next
        case False
        then show ?thesis using one by (auto simp: c recorded_streak cell_for_fields(1) b Some)
      qed
    qed
    then show ?thesis
      using above by (auto simp: set_new [symmetric] c new samples_snoc)
  qed
qed

subsection \<open>Rows and findings\<close>

text \<open>A cell of the current pass that holds an answer.\<close>

definition current :: "matrix \<Rightarrow> Cell \<Rightarrow> bool" where
  "current m c \<longleftrightarrow> rc_Verdict c \<noteq> VerdictUnknown \<and>
     \<not> (mx_sweepGeneration m > 0 \<and> rc_Generation c \<noteq> mx_sweepGeneration m)"

lemma mark_stale_fields [simp]:
  "rc_AgentID (mark_stale g c) = rc_AgentID c" "rc_AgentStatus (mark_stale g c) = rc_AgentStatus c"
  "rc_LocalStatus (mark_stale g c) = rc_LocalStatus c" "rc_Streak (mark_stale g c) = rc_Streak c"
  "rc_Unreachable (mark_stale g c) = rc_Unreachable c" "rc_Verdict (mark_stale g c) = rc_Verdict c"
  by (simp_all add: mark_stale_def)

lemma evidence_current: "evidence (mark_stale (mx_sweepGeneration m) c) \<longleftrightarrow> current m c"
  by (auto simp: evidence_def current_def mark_stale_def)

lemma mark_unreachable_fields [simp]:
  "rc_AgentID (mark_unreachable c) = rc_AgentID c" "rc_Streak (mark_unreachable c) = rc_Streak c"
  "rc_AgentStatus (mark_unreachable c) = rc_AgentStatus c"
  by (simp_all add: mark_unreachable_def)

lemma mark_unreachable_iff:
  "\<not> rc_Unreachable c \<Longrightarrow>
   rc_Unreachable (mark_unreachable c) \<longleftrightarrow> evidence c \<and> rc_AgentStatus c \<noteq> ProbeStatusOnline"
  by (simp add: mark_unreachable_def)

lemma note_local_fields [simp]:
  "rr_StableID (note_local l c row) = rr_StableID row" "rr_Cells (note_local l c row) = rr_Cells row"
  "rr_Alive (note_local l c row) = rr_Alive row" "rr_Name (note_local l c row) = rr_Name row"
  by (simp_all add: note_local_def)

lemma fold_note_local [simp]:
  "rr_StableID (fold (note_local l) cs row) = rr_StableID row"
  "rr_Cells (fold (note_local l) cs row) = rr_Cells row"
  "rr_Alive (fold (note_local l) cs row) = rr_Alive row"
  "rr_Name (fold (note_local l) cs row) = rr_Name row"
  by (induction cs arbitrary: row) simp_all

lemma fold_note_unreachable:
  "rr_LocalUnreachable (fold (note_local l) cs row) \<longleftrightarrow> rr_LocalUnreachable row \<or>
     (\<exists>c\<in>set cs. evidence c \<and> \<not> l \<and> rc_LocalStatus c \<noteq> ProbeStatusOnline)"
  by (induction cs arbitrary: row) (auto simp: note_local_def)

lemma fold_note_streak:
  "rr_LocalStreak (fold (note_local l) cs row) = foldr (\<lambda>c n. max (rc_Streak c) n)
     (rev (filter (\<lambda>c. evidence c \<and> \<not> l \<and> rc_LocalStatus c \<noteq> ProbeStatusOnline) cs))
     (rr_LocalStreak row)"
  by (induction cs arbitrary: row) (auto simp: note_local_def foldr_append max_def)

definition alive_at :: "matrix \<Rightarrow> string \<Rightarrow> bool" where
  "alive_at m i \<longleftrightarrow> (\<exists>c\<in>snd ` set (row_of m i). current m c \<and>
     (rc_AgentStatus c = ProbeStatusOnline \<or> rc_LocalStatus c = ProbeStatusOnline))"

interpretation columns: comparison cell_before rc_AgentID
  by unfold_locales (simp add: cell_before_def)

definition unfolded_row :: "matrix \<Rightarrow> string \<Rightarrow> Cell list" where
  "unfolded_row m i = sort_slice cell_before
     (map (\<lambda>(a, c). mark_stale (mx_sweepGeneration m) c) (row_of m i))"

lemma set_unfolded_row:
  "set (unfolded_row m i) = mark_stale (mx_sweepGeneration m) ` snd ` set (row_of m i)"
  by (force simp: unfolded_row_def)

definition local_up :: "matrix \<Rightarrow> string \<Rightarrow> bool" where
  "local_up m i \<longleftrightarrow>
     (\<exists>c\<in>snd ` set (row_of m i). current m c \<and> rc_LocalStatus c = ProbeStatusOnline)"

definition agent_up :: "matrix \<Rightarrow> string \<Rightarrow> bool" where
  "agent_up m i \<longleftrightarrow>
     (\<exists>c\<in>snd ` set (row_of m i). current m c \<and> rc_AgentStatus c = ProbeStatusOnline)"

lemma alive_at_iff: "alive_at m i \<longleftrightarrow> agent_up m i \<or> local_up m i"
  by (auto simp: alive_at_def agent_up_def local_up_def)

definition plain_row :: "matrix \<Rightarrow> string \<Rightarrow> NodeRow" where
  "plain_row m i = \<lparr>rr_StableID = i, rr_Name = name_of m i, rr_Cells = unfolded_row m i,
     rr_Alive = alive_at m i, rr_LocalUnreachable = False, rr_LocalSince = 0, rr_LocalStreak = 0\<rparr>"

lemma node_row_eq:
  "node_row m i = (if alive_at m i then fold (note_local (local_up m i)) (unfolded_row m i)
       ((plain_row m i)\<lparr>rr_Cells := map mark_unreachable (unfolded_row m i)\<rparr>) else plain_row m i)"
proof -
  have a: "list_ex (\<lambda>c. evidence c \<and> rc_AgentStatus c = ProbeStatusOnline) (unfolded_row m i) \<longleftrightarrow>
      agent_up m i"
    by (auto simp: list_ex_iff set_unfolded_row evidence_current agent_up_def)
  have l: "list_ex (\<lambda>c. evidence c \<and> rc_LocalStatus c = ProbeStatusOnline) (unfolded_row m i) \<longleftrightarrow>
      local_up m i"
    by (auto simp: list_ex_iff set_unfolded_row evidence_current local_up_def)
  show ?thesis
    unfolding node_row_def unfolded_row_def [symmetric] deriveRow_def Let_def
    by (simp add: a l alive_at_iff plain_row_def)
qed

lemma node_row_fields:
  "rr_StableID (node_row m i) = i" "rr_Name (node_row m i) = name_of m i"
  "rr_Alive (node_row m i) \<longleftrightarrow> alive_at m i"
  "rr_Cells (node_row m i) = (if alive_at m i then map mark_unreachable (unfolded_row m i)
     else unfolded_row m i)"
  by (simp_all add: node_row_eq plain_row_def)

lemma node_row_local:
  "rr_Alive (node_row m i) \<and> rr_LocalUnreachable (node_row m i) \<longleftrightarrow> agent_up m i \<and> \<not> local_up m i"
proof -
  have "rr_LocalUnreachable (node_row m i) \<longleftrightarrow> alive_at m i \<and> \<not> local_up m i \<and>
      (\<exists>c\<in>snd ` set (row_of m i). current m c \<and> rc_LocalStatus c \<noteq> ProbeStatusOnline)"
    by (simp add: node_row_eq plain_row_def fold_note_unreachable set_unfolded_row evidence_current)
      auto
  then show ?thesis
    by (auto simp: node_row_fields alive_at_iff agent_up_def local_up_def)
qed

definition finding_key :: "Finding \<Rightarrow> bool \<times> int \<times> string \<times> string" where
  "finding_key f = (\<not> fi_Confirmed f, - fi_Since f, fi_StableID f, fi_AgentID f)"

interpretation report: comparison finding_before finding_key
  by unfold_locales (auto simp: finding_before_def finding_key_def less_prod_simp less_bool_def)

lemma Findings_set: "set (Findings m) = (\<Union>i\<in>fst ` set (mx_cells m). set (row_findings (node_row m i)))"
  by (simp add: Findings_def Rows_def)

lemma finding_fields [simp]:
  "fi_Local (agent_finding row c) = False" "fi_Local (local_finding row) = True"
  "fi_AgentID (agent_finding row c) = rc_AgentID c" "fi_AgentID (local_finding row) = []"
  "fi_StableID (agent_finding row c) = rr_StableID row" "fi_StableID (local_finding row) = rr_StableID row"
  by (simp_all add: agent_finding_def local_finding_def)

lemma set_row_findings:
  "set (row_findings row) = (if \<not> rr_Alive row then {} else
     (if rr_LocalUnreachable row then {local_finding row} else {}) \<union>
     agent_finding row ` {c \<in> set (rr_Cells row). rc_Unreachable c})"
  by (simp add: row_findings_def)

lemma row_findings_agent:
  assumes "wf_matrix m"
  shows "(\<exists>f\<in>set (row_findings (node_row m i)). \<not> fi_Local f \<and> fi_AgentID f = a) \<longleftrightarrow>
    (\<exists>c. cell_at m i a = Some c \<and> current m c \<and> rc_AgentStatus c \<noteq> ProbeStatusOnline \<and> alive_at m i)"
proof -
  have row: "wf_row (row_of m i)" using assms by (rule wf_row_of)
  have at: "cell_at m i a = Some c \<longleftrightarrow> c \<in> snd ` set (row_of m i) \<and> rc_AgentID c = a" for c
    using row unfolding cell_at_def wf_row_def list_all_iff wf_cell_def
    by (force simp: map_of_eq_Some_iff)
  have clean: "\<not> rc_Unreachable c" if "c \<in> snd ` set (row_of m i)" for c
    using row that by (auto simp: wf_row_def list_all_iff wf_cell_def)
  have "(\<exists>f\<in>set (row_findings (node_row m i)). \<not> fi_Local f \<and> fi_AgentID f = a) \<longleftrightarrow>
      alive_at m i \<and> (\<exists>c\<in>set (unfolded_row m i). rc_Unreachable (mark_unreachable c) \<and> rc_AgentID c = a)"
    by (auto simp: set_row_findings node_row_fields bex_Un)
  also have "\<dots> \<longleftrightarrow> alive_at m i \<and> (\<exists>c\<in>snd ` set (row_of m i). current m c \<and>
      rc_AgentStatus c \<noteq> ProbeStatusOnline \<and> rc_AgentID c = a)"
    using clean by (auto simp: set_unfolded_row mark_unreachable_iff evidence_current)
  finally show ?thesis by (auto simp: at)
qed

lemma row_findings_local:
  "(\<exists>f\<in>set (row_findings (node_row m i)). fi_Local f) \<longleftrightarrow>
     rr_Alive (node_row m i) \<and> rr_LocalUnreachable (node_row m i)"
  by (auto simp: set_row_findings)

lemma row_findings_id: "f \<in> set (row_findings (node_row m i)) \<Longrightarrow> fi_StableID f = i"
  by (auto simp: set_row_findings node_row_fields split: if_splits)

lemma row_of_outside: "i \<notin> fst ` set (mx_cells m) \<Longrightarrow> row_of m i = []"
  by (force simp: row_of_def dest: map_of_SomeD split: option.splits)

lemma Findings_at:
  "(\<exists>f\<in>set (Findings m). fi_StableID f = i \<and> P f) \<longleftrightarrow>
   i \<in> fst ` set (mx_cells m) \<and> (\<exists>f\<in>set (row_findings (node_row m i)). P f)"
  unfolding Findings_set using row_findings_id by (metis (no_types, lifting) UN_E UN_I)

subsection \<open>The order of preference\<close>

text \<open>
  What an agent is worth for a node: reached in the current pass (a measured latency before none,
  the shorter first), nothing current to say, or failed.
\<close>

definition witness_rank :: "matrix \<Rightarrow> string \<Rightarrow> string \<Rightarrow> int \<times> int \<times> int" where
  "witness_rank m i a = (case cell_at m i (TrimSpace a) of
     None \<Rightarrow> (classUnknown, 0, 0)
   | Some c \<Rightarrow>
       if mx_sweepGeneration m > 0 \<and> rc_Generation c \<noteq> mx_sweepGeneration m then (classUnknown, 0, 0)
       else if rc_AgentStatus c = ProbeStatusOnline
         then (classReached, if rc_LatencyMillis c = 0 then 1 else 0, rc_LatencyMillis c)
       else if rc_AgentStatus c = ProbeStatusOffline \<or> rc_AgentStatus c = ProbeStatusProxyFailure
         then (classFailed, 0, 0)
       else (classUnknown, 0, 0))"

definition candidate_key :: "candidate \<Rightarrow> (int \<times> int \<times> int) \<times> nat" where
  "candidate_key c =
     ((ca_class c, if ca_class c = classReached \<and> ca_latency c = 0 then 1 else 0,
       if ca_class c = classReached then ca_latency c else 0), ca_arrival c)"

interpretation preference: comparison candidate_before candidate_key
  by unfold_locales (auto simp: candidate_before_def candidate_key_def less_prod_simp)

lemma rank_agent_key:
  "candidate_key (rank_agent m i n a) = (witness_rank m i a, n)"
  "ca_agentID (rank_agent m i n a) = a"
  by (auto simp: rank_agent_def witness_rank_def candidate_key_def cell_at_def Let_def
      classReached_def classUnknown_def classFailed_def split: option.splits)

definition candidates_of :: "matrix \<Rightarrow> string \<Rightarrow> string list \<Rightarrow> candidate list" where
  "candidates_of m i as = map (\<lambda>(n, a). rank_agent m i n a) (enumerate 0 as)"

lemma candidates_agents: "map ca_agentID (candidates_of m i as) = as"
proof -
  have "ca_agentID \<circ> (\<lambda>(n, a). rank_agent m i n a) = snd" by (auto simp: rank_agent_key)
  then show ?thesis by (simp add: candidates_of_def)
qed

lemma candidates_keys:
  "map candidate_key (candidates_of m i as) = map (\<lambda>(n, a). (witness_rank m i a, n)) (enumerate 0 as)"
  by (auto simp: candidates_of_def rank_agent_key)

lemma PreferAgents_eq:
  "PreferAgents i as m = map ca_agentID (sort_slice candidate_before (candidates_of m (TrimSpace i) as))"
  by (simp add: PreferAgents_def candidates_of_def sort_slice_def)

lemma PreferAgents_ranks:
  "map (witness_rank m (TrimSpace i)) (PreferAgents i as m) =
     map (fst \<circ> candidate_key) (sort_slice candidate_before (candidates_of m (TrimSpace i) as))"
proof -
  have "witness_rank m (TrimSpace i) (ca_agentID c) = fst (candidate_key c)"
    if "c \<in> set (candidates_of m (TrimSpace i) as)" for c
    using that by (auto simp: candidates_of_def rank_agent_key)
  then show ?thesis by (simp add: PreferAgents_eq)
qed

lemma sorted_fst: "sorted (map k xs) \<Longrightarrow> sorted (map (fst \<circ> k) xs)"
  for k :: "'a \<Rightarrow> 'b::linorder \<times> 'c::linorder"
  by (induction xs) (auto simp: less_eq_prod_def order_le_less)

lemma enumerate_keys_sorted:
  "(\<And>a. a \<in> set as \<Longrightarrow> w a = r) \<Longrightarrow>
   sorted (map (\<lambda>(n, a). (w a :: 'k::linorder, n :: nat)) (enumerate k as))"
proof (induction as arbitrary: k)
  case (Cons a as)
  have "b \<in> set as \<and> Suc k \<le> n" if "(n, b) \<in> set (enumerate (Suc k) as)" for n b
    using that by (auto simp: in_set_enumerate_eq)
  moreover have "sorted (map (\<lambda>(n, a). (w a, n)) (enumerate (Suc k) as))"
    using Cons.IH Cons.prems by simp
  ultimately show ?case using Cons.prems by (auto simp: less_eq_prod_simp) force+
qed simp

lemma PreferAgents_unranked:
  assumes "\<And>a. a \<in> set as \<Longrightarrow> witness_rank m (TrimSpace i) a = r"
  shows "PreferAgents i as m = as"
proof -
  let ?cs = "candidates_of m (TrimSpace i) as"
  have "sorted (map candidate_key ?cs)"
    unfolding candidates_keys by (rule enumerate_keys_sorted) (rule assms)
  moreover have "distinct (map candidate_key ?cs)"
  proof -
    have "map (snd \<circ> candidate_key) ?cs = [0..<length as]"
      by (simp add: candidates_keys o_def case_prod_unfold flip: map_map) (simp add: candidates_of_def rank_agent_key case_prod_unfold o_def)
    then have "distinct (map snd (map candidate_key ?cs))" by simp
    then show ?thesis using distinct_map [of snd "map candidate_key ?cs"] by blast
  qed
  ultimately have "?cs = sort_slice candidate_before ?cs"
    by (intro preference.slice_unique) (simp_all add: distinct_map)
  then show ?thesis by (metis PreferAgents_eq candidates_agents)
qed

subsection \<open>Restart\<close>

lemma update_fresh: "k \<notin> fst ` set kvs \<Longrightarrow> AList.update k v kvs = kvs @ [(k, v)]"
  by (induction kvs) auto

lemma load_row_wf:
  assumes "wf_row row"
  shows "load_row row = row"
proof -
  have "fold (\<lambda>(a, c) kept. let agentID = TrimSpace a in
      if agentID = [] \<or> \<not> knownVerdict (rc_Verdict c) then kept
      else AList.update agentID (c\<lparr>rc_AgentID := agentID\<rparr>) kept) xs ys = ys @ xs"
    if "wf_row (ys @ xs)" for xs ys
    using that
  proof (induction xs arbitrary: ys)
    case (Cons x xs)
    obtain a c where x: "x = (a, c)" by (cases x)
    have c: "wf_cell a c" and a: "a \<notin> fst ` set ys" using Cons.prems by (auto simp: wf_row_def x)
    have "c\<lparr>rc_AgentID := a\<rparr> = c" using c by (auto simp: wf_cell_def)
    moreover have "fold (\<lambda>(a, c) kept. let agentID = TrimSpace a in
        if agentID = [] \<or> \<not> knownVerdict (rc_Verdict c) then kept
        else AList.update agentID (c\<lparr>rc_AgentID := agentID\<rparr>) kept) xs (AList.update a c ys) = ys @ (x # xs)"
      using Cons.IH [of "ys @ [x]"] Cons.prems by (simp add: x update_fresh a)
    ultimately show ?case
      using c unfolding x fold_simps by (simp only: case_prod_conv wf_cell_def Let_def) simp
  qed simp
  from this [of "[]" row] show ?thesis using assms by (simp add: load_row_def)
qed

lemma load_cells_wf:
  assumes "wf_matrix m"
  shows "load_cells (mx_cells m) = mx_cells m"
proof -
  have "fold (\<lambda>(i, row) kept. let stableID = TrimSpace i in
      if stableID = [] \<or> load_row row = [] then kept
      else AList.update stableID (load_row row) kept) xs ys = ys @ xs"
    if "distinct (map fst (ys @ xs))"
      and "list_all (\<lambda>(i, row). i \<noteq> [] \<and> TrimSpace i = i \<and> row \<noteq> [] \<and> wf_row row) xs" for xs ys
    using that
  proof (induction xs arbitrary: ys)
    case (Cons x xs)
    obtain i row where x: "x = (i, row)" by (cases x)
    have "i \<notin> fst ` set ys" using Cons.prems by (auto simp: x)
    then show ?case
      using Cons.IH [of "ys @ [x]"] Cons.prems by (simp add: x Let_def load_row_wf update_fresh)
  qed simp
  from this [of "[]" "mx_cells m"] show ?thesis using assms by (simp add: load_cells_def wf_matrix_def)
qed

lemma load_names_kept:
  assumes "distinct (map fst ns)" and "\<And>i. i \<in> fst ` set ns \<Longrightarrow> TrimSpace i = i \<and> map_of cs i \<noteq> None"
  shows "load_names cs ns = ns"
proof -
  have "fold (\<lambda>(i, n) kept. if map_of cs (TrimSpace i) = None then kept
      else AList.update (TrimSpace i) n kept) xs ys = ys @ xs"
    if "distinct (map fst (ys @ xs))"
      and "\<And>i. i \<in> fst ` set xs \<Longrightarrow> TrimSpace i = i \<and> map_of cs i \<noteq> None" for xs ys
    using that
  proof (induction xs arbitrary: ys)
    case (Cons x xs)
    obtain i n where x: "x = (i, n)" by (cases x)
    have "i \<notin> fst ` set ys" using Cons.prems by (auto simp: x)
    moreover obtain y where "TrimSpace i = i" "map_of cs i = Some y"
      using Cons.prems(2) [of i] by (auto simp: x)
    moreover have "fold (\<lambda>(i, n) kept. if map_of cs (TrimSpace i) = None then kept
        else AList.update (TrimSpace i) n kept) xs (ys @ [x]) = (ys @ [x]) @ xs"
      using Cons.prems by (intro Cons.IH) auto
    ultimately show ?case by (simp add: x update_fresh)
  qed simp
  from this [of "[]" ns] show ?thesis using assms by (simp add: load_names_def)
qed

text \<open>Two matrices that differ in their file and in names nobody can see.\<close>

definition same_view :: "matrix \<Rightarrow> matrix \<Rightarrow> bool" where
  "same_view m m' \<longleftrightarrow> mx_cells m' = mx_cells m \<and> mx_sweepGeneration m' = mx_sweepGeneration m \<and>
     mx_lastSweepAt m' = mx_lastSweepAt m \<and>
     list_all (\<lambda>(i, row). name_of m' i = name_of m i) (mx_cells m)"

lemma same_view_rows:
  assumes "same_view m m'"
  shows "Rows m' = Rows m" and "Findings m' = Findings m" and "PreferAgents i as m' = PreferAgents i as m"
proof -
  have row: "node_row m' i = node_row m i" if "i \<in> fst ` set (mx_cells m)" for i
    using assms that by (auto simp: same_view_def node_row_def row_of_def list_all_iff)
  then show rows: "Rows m' = Rows m"
    using assms by (auto simp: Rows_def same_view_def)
  then show "Findings m' = Findings m" by (simp add: Findings_def)
  show "PreferAgents i as m' = PreferAgents i as m"
  proof -
    have "rank_agent m' = rank_agent m"
      using assms by (intro ext) (simp add: rank_agent_def row_of_def same_view_def)
    then show ?thesis by (simp add: PreferAgents_def)
  qed
qed

lemma saved_names:
  assumes "wf_matrix m" and "(i, row) \<in> set (mx_cells m)"
  shows "(case map_of (sf_Names (saved_state now m)) i of None \<Rightarrow> [] | Some n \<Rightarrow> n) = name_of m i"
proof -
  have pick: "distinct (map fst kvs) \<Longrightarrow> (i, row) \<in> set kvs \<Longrightarrow>
      map_of (filter (\<lambda>(i, n). n \<noteq> []) (map (\<lambda>(i, row). (i, f i)) kvs)) i =
        (if f i = [] then None else Some (f i))" for kvs and f :: "string \<Rightarrow> string"
  proof (induction kvs)
    case (Cons kv kvs)
    then show ?case
      by (cases kv) (auto simp: map_of_eq_None_iff image_iff split: if_splits)
  qed simp
  show ?thesis
    using pick [of "mx_cells m" "name_of m"] assms by (simp add: saved_state_def wf_matrix_def)
qed

lemma load_saved:
  assumes "wf_matrix m" and "mx_path m' \<noteq> []" and "decode bytes = Some (saved_state now m)"
  shows "same_view m (fst (Load decode (Contents bytes) m'))"
proof -
  let ?ns = "sf_Names (saved_state now m)"
  have keys: "fst ` set ?ns \<subseteq> fst ` set (mx_cells m)" by (force simp: saved_state_def)
  have "distinct (map fst (map (\<lambda>(i, row). (i, name_of m i)) (mx_cells m)))"
    using assms(1) by (simp add: wf_matrix_def case_prod_unfold o_def)
  then have d: "distinct (map fst ?ns)"
    unfolding saved_state_def by (simp add: distinct_keys_filter del: map_map)
  have "load_names (mx_cells m) ?ns = ?ns"
  proof (rule load_names_kept [OF d])
    fix i assume "i \<in> fst ` set ?ns"
    then have "i \<in> fst ` set (mx_cells m)" using keys by blast
    then show "TrimSpace i = i \<and> map_of (mx_cells m) i \<noteq> None"
      using assms(1) by (auto simp: wf_matrix_def list_all_iff map_of_eq_None_iff)
  qed
  moreover have "sf_Nodes (saved_state now m) = mx_cells m" "sf_Version (saved_state now m) = StateVersion"
      "sf_LastSweepAt (saved_state now m) = mx_lastSweepAt m"
      "sf_SweepGeneration (saved_state now m) = mx_sweepGeneration m"
    by (simp_all add: saved_state_def)
  ultimately show ?thesis
    using assms saved_names [OF assms(1)]
    by (auto simp: Load_def Let_def load_cells_wf same_view_def list_all_iff name_of_def [of "_\<lparr>mx_cells := _\<rparr>"]
        name_of_def [where m = "m'\<lparr>mx_cells := _, mx_names := _, mx_lastSweepAt := _, mx_sweepGeneration := _\<rparr>"])
qed

subsection \<open>The guarantees\<close>

text \<open>A finished sweep session: the local status with its time, and what the agent answered.\<close>

definition sight :: "string \<Rightarrow> time \<Rightarrow> string \<Rightarrow> string \<Rightarrow> DiagnosticSession" where
  "sight local_status local_time agentID status =
     \<lparr>s_SchemaVersion = SessionSchemaVersion, s_SessionID = ''diag_1'', s_StableID = ''node'',
      s_Trigger = TriggerReachabilitySweep, s_ConfigGeneration = 7, s_ConfigFingerprint = [],
      s_LocalResultSnapshot = \<lparr>n_Status = local_status, n_CheckedAt = local_time, n_LatencyMillis = 0,
        n_Failure = plain_failure, n_TCP = no_check, n_Ping = no_check\<rparr>,
      s_AutomationContext = empty_context, s_RequestedAgents = [agentID], s_Jobs = [],
      s_AgentObservations = [\<lparr>c_Observation = sample_observation\<lparr>o_AgentID := agentID,
          o_Status := status, o_CheckedAt := local_time\<rparr>, c_AcceptedAt = local_time, c_Reliable = True\<rparr>],
      s_MaintenanceDiagnostic = False, s_CreatedAt = local_time, s_ExpiresAt = local_time + 100,
      s_State = SCompleted\<rparr>"

definition seen :: "string \<Rightarrow> time \<Rightarrow> string \<Rightarrow> string \<Rightarrow> matrix_op" where
  "seen local_status t agentID status = Observed ''node'' (sight local_status t agentID status) agentID t"

lemmas sweep_eval = seen_def sight_def CellFor_def observationFor_def Let_def sample_observation_def
  cell_verdict_defs status_defs

text \<open>
  C24: a streak counts samples, not readings: over any history of sweeps and rechecks in which the
  checker's own results do not go back in time, the streak of a cell is at least one and at most
  the number of different local results its verdict was reached against, so rechecking a node
  against one local result cannot confirm a finding.
\<close>

theorem streak_counts_local_samples:
  assumes "sorted (map snd (samples i a ops))" and "cell_at (run_ops path ops) i a = Some c"
  shows "1 \<le> rc_Streak c \<and>
    rc_Streak c \<le> int (card {t. (rc_Verdict c, t) \<in> set (samples i a ops)})"
proof -
  have "wf_cell a c"
    using wf_row_of [OF run_ops_wf, of path ops i] assms(2)
    by (auto simp: cell_at_def wf_row_def dest: map_of_list_all)
  then show ?thesis using streak_counts [OF assms] by (simp add: wf_cell_def)
qed

definition rechecked :: "matrix_op list" where
  "rechecked = [NewSweep, seen ''online'' 10 ''a1'' ''offline'', seen ''online'' 10 ''a1'' ''offline'',
     seen ''online'' 10 ''a1'' ''offline'']"

theorem streak_counts_local_samples_witness:
  "\<exists>c. cell_at (run_ops [] rechecked) ''node'' ''a1'' = Some c \<and> rc_Streak c = 1"
proof -
  have s: "samples ''node'' ''a1'' rechecked = replicate 3 (VerdictAgentOnlyFailure, 10)"
    by code_simp
  have "cell_at (run_ops [] rechecked) ''node'' ''a1'' \<noteq> None" by code_simp
  then obtain c where c: "cell_at (run_ops [] rechecked) ''node'' ''a1'' = Some c" by blast
  have sorted: "sorted (map snd (samples ''node'' ''a1'' rechecked))" by (simp add: s)
  have "card {t. (rc_Verdict c, t) \<in> set (samples ''node'' ''a1'' rechecked)} \<le> card {10 :: int}"
    by (rule card_mono) (auto simp: s)
  then show ?thesis using streak_counts_local_samples [OF sorted c] c by auto
qed

text \<open>
  C23: the findings are exactly the vantage points that cannot reach a live node: an agent is
  reported for a node exactly when its cell of the current pass holds an answer other than
  online while some current cell shows the node reached, by an agent or by the checker; the
  checker is reported exactly when an agent reached the node and no current cell shows the checker did.
\<close>

theorem findings_exact:
  "((\<exists>f\<in>set (Findings (run_ops path ops)). fi_StableID f = i \<and> \<not> fi_Local f \<and> fi_AgentID f = a) \<longleftrightarrow>
      (\<exists>c. cell_at (run_ops path ops) i a = Some c \<and> current (run_ops path ops) c \<and>
         rc_AgentStatus c \<noteq> ProbeStatusOnline \<and> alive_at (run_ops path ops) i)) \<and>
   ((\<exists>f\<in>set (Findings (run_ops path ops)). fi_StableID f = i \<and> fi_Local f) \<longleftrightarrow>
      agent_up (run_ops path ops) i \<and> \<not> local_up (run_ops path ops) i)"
proof (intro conjI)
  let ?m = "run_ops path ops"
  have out: "\<not> (\<exists>c. cell_at ?m i a = Some c)" "\<not> agent_up ?m i" if "i \<notin> fst ` set (mx_cells ?m)"
    using that by (simp_all add: cell_at_def agent_up_def row_of_outside)
  show "(\<exists>f\<in>set (Findings ?m). fi_StableID f = i \<and> \<not> fi_Local f \<and> fi_AgentID f = a) \<longleftrightarrow>
      (\<exists>c. cell_at ?m i a = Some c \<and> current ?m c \<and> rc_AgentStatus c \<noteq> ProbeStatusOnline \<and> alive_at ?m i)"
    unfolding Findings_at row_findings_agent [OF run_ops_wf] using out by blast
  show "(\<exists>f\<in>set (Findings ?m). fi_StableID f = i \<and> fi_Local f) \<longleftrightarrow> agent_up ?m i \<and> \<not> local_up ?m i"
    unfolding Findings_at row_findings_local node_row_local using out by blast
qed

text \<open>
  The preferred order rearranges the agents it was given and no others, best witness first: those
  that reached the node in the current pass (a measured latency before none, the shortest
  first), then those with nothing current to say, then those that failed; a matrix that has seen
  nothing gives the caller's own order back.
\<close>

theorem preferred_order:
  "mset (PreferAgents i as m) = mset as \<and>
   sorted (map (witness_rank m (TrimSpace i)) (PreferAgents i as m)) \<and>
   PreferAgents i as (NewMatrix path) = as"
proof (intro conjI)
  have "mset (PreferAgents i as m) = image_mset ca_agentID (mset (candidates_of m (TrimSpace i) as))"
    by (simp add: PreferAgents_eq)
  also have "\<dots> = mset (map ca_agentID (candidates_of m (TrimSpace i) as))" by simp
  finally show "mset (PreferAgents i as m) = mset as" unfolding candidates_agents .
  show "sorted (map (witness_rank m (TrimSpace i)) (PreferAgents i as m))"
    unfolding PreferAgents_ranks by (rule sorted_fst) (rule preference.slice_sorted)
  show "PreferAgents i as (NewMatrix path) = as"
    by (rule PreferAgents_unranked) (simp add: witness_rank_def cell_at_def row_of_def NewMatrix_def)
qed

text \<open>
  C33: a restart shows the same matrix: what was saved after any history of sweeps loads without
  error, and the rows, the findings and the order of preference are those before the restart.
\<close>

theorem restart_shows_same_matrix:
  assumes "\<And>st b. encode st = Some b \<Longrightarrow> decode b = Some st"
    and "Save encode now (run_ops path ops) = Some bytes"
    and "Load decode (Contents bytes) (NewMatrix path) = (m, failed)"
  shows "\<not> failed \<and> Rows m = Rows (run_ops path ops) \<and> Findings m = Findings (run_ops path ops) \<and>
    PreferAgents i as m = PreferAgents i as (run_ops path ops)"
proof -
  have path: "mx_path (run_ops path ops) \<noteq> []" and bytes: "encode (saved_state now (run_ops path ops)) = Some bytes"
    using assms(2) by (auto simp: Save_def split: if_splits)
  have same_path: "mx_path (apply_op oper m) = mx_path m" for oper m
    by (cases oper) (simp_all add: Record_CellFor BeginSweep_def Retain_def MarkSweep_def)
  have "mx_path (run_ops path ops) = path"
    by (induction ops rule: rev_induct) (simp_all add: run_ops_Nil run_ops_snoc same_path NewMatrix_def)
  then have new: "mx_path (NewMatrix path) \<noteq> []" using path by (simp add: NewMatrix_def)
  have "same_view (run_ops path ops) m"
    using load_saved [OF run_ops_wf new, where decode = decode] assms(1) [OF bytes] assms(3) by (metis fst_conv)
  moreover have "\<not> failed"
    using assms(1) [OF bytes] assms(3) new by (auto simp: Load_def saved_state_def Let_def split: if_splits)
  ultimately show ?thesis using same_view_rows by blast
qed

definition swept_once :: "matrix_op list" where
  "swept_once = [NewSweep, seen ''offline'' 10 ''a1'' ''offline'', seen ''offline'' 10 ''b1'' ''online'']"

theorem restart_shows_same_matrix_witness:
  "\<exists>m. length (Findings m) = 2 \<and> Findings m = Findings (run_ops ''f'' swept_once)"
proof -
  let ?st = "saved_state 20 (run_ops ''f'' swept_once)"
  let ?encode = "\<lambda>st. if st = ?st then Some [1 :: 8 word] else None"
  let ?decode = "\<lambda>b :: 8 word list. if b = [1] then Some ?st else None"
  obtain m failed where m: "Load ?decode (Contents [1]) (NewMatrix ''f'') = (m, failed)" by fastforce
  have "mx_path (run_ops ''f'' swept_once) = ''f''" by code_simp
  then have saved: "Save ?encode 20 (run_ops ''f'' swept_once) = Some [1]" by (simp add: Save_def)
  have law: "\<And>st b. ?encode st = Some b \<Longrightarrow> ?decode b = Some st" by (simp split: if_splits)
  have "Findings m = Findings (run_ops ''f'' swept_once)"
    using restart_shows_same_matrix [OF law saved m] by blast
  moreover have "length (Findings (run_ops ''f'' swept_once)) = 2" by code_simp
  ultimately show ?thesis by metis
qed

definition recovered :: "matrix_op list" where
  "recovered = [NewSweep, seen ''offline'' 10 ''a1'' ''offline'',
     NewSweep, seen ''offline'' 20 ''a1'' ''offline'',
     NewSweep, seen ''offline'' 30 ''a1'' ''offline'', seen ''offline'' 30 ''b1'' ''online'']"

text \<open>
  A single sighting can be a confirmed finding: a node dead for the checker and one agent over
  three passes is seen alive for the first time, once, by another agent, and both the checker
  and the first agent are reported as confirmed at once, because the streak they are judged by
  counts the passes in which everybody agreed that the node was down.
\<close>

theorem confirmed_on_one_sighting:
  "length (filter (\<lambda>oper. case oper of
       Observed j s b t \<Rightarrow> rc_AgentStatus (CellFor s b t) = ProbeStatusOnline \<or>
         rc_LocalStatus (CellFor s b t) = ProbeStatusOnline
     | _ \<Rightarrow> False) recovered) = 1 \<and>
   map (\<lambda>f. (fi_AgentID f, fi_Local f, fi_Confirmed f)) (Findings (run_ops [] recovered)) =
     [([], True, True), (''a1'', False, True)]"
  by code_simp

end
