(* ===== verification/RemoteController.thy ===== *)
theory RemoteController
  imports DiagManager ProbeExecutor GoSort "HOL-Library.AList"
begin

text \<open>
  The controller of remote diagnostics (\<open>src/remoteprobe/controller.go\<close>) with what it reads of the
  checker (\<open>src/checker/failure.go\<close>, \<open>ProxyStatusDetails\<close> in \<open>checker.go\<close>): which agent is asked,
  how a session and its job are created in the manager, the queue of assignments and its delivery.

  The world outside is one record: the agent registry, project maintenance, the checker's snapshot
  of a node, the generated Xray configuration, the readings of the clock in the order they are
  taken, generated identifiers, address parsing and lookup (the lookup's answers already converted and
  unmapped, invalid ones dropped), the preference, the order of Go's map
  iteration. Calls that need a lock take effect one after the other. Error texts are classified by
  what the code asks of them.
\<close>

subsection \<open>Failures of the checker\<close>

definition FailureCodeProxyStreamClosed :: string where
  "FailureCodeProxyStreamClosed = ''proxy_stream_closed''"

text \<open>
  An error of a check: its compacted lower-case text, the lower-case text of the error inside a
  \<open>url.Error\<close> if it is one, and the answers of \<open>errors.As\<close> and \<open>errors.Is\<close>.
\<close>

record check_error =
  er_text :: string
  er_inner :: "string option"
  er_dns :: bool
  er_tls_record :: bool
  er_deadline :: bool
  er_timeout :: bool
  er_eof :: bool

definition failureFromError :: "check_error option \<Rightarrow> string" where
  "failureFromError err = (case err of None \<Rightarrow> []
   | Some e \<Rightarrow>
       (let has = contains_text (er_text e) in
        if er_dns e \<or> has ''no such host'' \<or> has ''server misbehaving'' then ''dns''
        else if er_tls_record e \<or> has ''tls'' \<or> has ''certificate'' \<or> has ''x509'' then ''tls''
        else if er_deadline e then ''proxy_timeout''
        else if er_timeout e then ''proxy_timeout''
        else
          (let lower = (case er_inner e of None \<Rightarrow> er_text e | Some t \<Rightarrow> t);
               has = contains_text lower
           in if has ''socks'' \<or> has ''proxyconnect'' \<or> has ''proxy connect'' then ''proxy_handshake''
              else if has ''connection refused'' then ''tcp_refused''
              else if has ''network is unreachable'' \<or> has ''no route to host'' \<or> has ''host is unreachable''
                then ''host_unreachable''
              else if er_eof e \<or> lower = ''eof'' \<or> has ''unexpected eof'' \<or> has ''connection reset'' \<or>
                has ''broken pipe'' then FailureCodeProxyStreamClosed
              else ''unknown'')))"

text \<open>The result of a check that completed and failed; the message is trimmed and in lower case.\<close>

definition failureFromCheckResult :: "string \<Rightarrow> string \<Rightarrow> string" where
  "failureFromCheckResult method message =
     (if method = ''ip'' then ''source_ip_unchanged''
      else if method = ''status'' then ''http_status''
      else if method = ''download'' then
        (if contains_text message ''http status'' then ''http_status'' else ''download_incomplete'')
      else ''unknown'')"

text \<open>A direct check of the host: its error text is compacted and in lower case.\<close>

record host_check =
  hc_Checked :: bool
  hc_Online :: bool
  hc_Latency :: duration
  hc_Error :: string

definition failureFromHostCheck :: "host_check \<Rightarrow> string" where
  "failureFromHostCheck h =
     (let has = contains_text (hc_Error h) in
      if has ''no such host'' \<or> has ''server misbehaving'' \<or> has ''resolved to no'' then ''dns''
      else if has ''connection refused'' then ''tcp_refused''
      else if has ''timeout'' \<or> has ''deadline exceeded'' then ''tcp_timeout''
      else ''host_unreachable'')"

text \<open>The code of the combined failure; summaries and details are left out.\<close>

definition DiagnoseFailure :: "string \<Rightarrow> host_check \<Rightarrow> host_check \<Rightarrow> string" where
  "DiagnoseFailure checkFailure host ping =
     (if hc_Checked host \<and> \<not> hc_Online host then
        (let code = failureFromHostCheck host in
         if code = ''dns'' then code
         else if code = ''tcp_refused'' then code
         else if code = ''tcp_timeout'' \<and> hc_Checked ping \<and> hc_Online ping then code
         else if hc_Checked ping \<and> \<not> hc_Online ping then ''host_unreachable''
         else code)
      else if checkFailure = [] then ''unknown''
      else checkFailure)"

text \<open>The fields of a node's status the controller reads.\<close>

record ProxyStatusDetails =
  pd_Status :: string
  pd_Online :: bool
  pd_Latency :: duration
  pd_CheckedAt :: time
  pd_ProxyFailureSince :: time
  pd_HostCheck :: host_check
  pd_PingCheck :: host_check
  pd_FailureCode :: string

definition EffectiveStatus :: "ProxyStatusDetails \<Rightarrow> string" where
  "EffectiveStatus d =
     (if pd_Status d \<noteq> [] then pd_Status d
      else if pd_Online d then ''online''
      else if pd_ProxyFailureSince d \<noteq> 0 then ''proxy_failure''
      else ''offline'')"

subsection \<open>The local result\<close>

definition checkEvidence :: "bool \<Rightarrow> bool \<Rightarrow> duration \<Rightarrow> string \<Rightarrow> CheckEvidence" where
  "checkEvidence checked online latency failureCode =
     \<lparr>e_Checked = checked, e_Online = online, e_LatencyMillis = Milliseconds latency,
      e_FailureCode = (if checked \<and> \<not> online then failureCode else [])\<rparr>"

definition failureStage :: "string \<Rightarrow> string" where
  "failureStage code =
     (if code = ''configuration'' then FailureStageConfiguration
      else if code \<in> {''tcp_refused'', ''tcp_timeout'', ''host_unreachable'', ''dns''}
        then FailureStageTCP
      else if code \<in> {''check_endpoint'', ''http_status'', ''download_incomplete''}
        then FailureStageEndpoint
      else FailureStageProxy)"

definition no_evidence :: CheckEvidence where
  "no_evidence = \<lparr>e_Checked = False, e_Online = False, e_LatencyMillis = 0, e_FailureCode = []\<rparr>"

definition localResult :: "ProxyStatusDetails option \<Rightarrow> LocalResultSnapshot" where
  "localResult st =
     (let unknown = \<lparr>n_Status = ProbeStatusUnknown, n_CheckedAt = 0, n_LatencyMillis = 0,
            n_Failure = \<lparr>f_Code = [], f_Stage = []\<rparr>, n_TCP = no_evidence, n_Ping = no_evidence\<rparr>
      in case st of None \<Rightarrow> unknown
         | Some d \<Rightarrow>
             if pd_CheckedAt d = 0 then unknown
             else
               (let status = EffectiveStatus d;
                    code0 = TrimSpace (pd_FailureCode d);
                    code = (if code0 = [] then ''unknown'' else code0)
                in \<lparr>n_Status = status, n_CheckedAt = pd_CheckedAt d,
                    n_LatencyMillis = Milliseconds (pd_Latency d),
                    n_Failure = (if status \<noteq> ProbeStatusOnline
                      then \<lparr>f_Code = code, f_Stage = failureStage code\<rparr>
                      else \<lparr>f_Code = [], f_Stage = []\<rparr>),
                    n_TCP = checkEvidence (hc_Checked (pd_HostCheck d)) (hc_Online (pd_HostCheck d))
                      (hc_Latency (pd_HostCheck d)) ''tcp_timeout'',
                    n_Ping = checkEvidence (hc_Checked (pd_PingCheck d)) (hc_Online (pd_PingCheck d))
                      (hc_Latency (pd_PingCheck d)) ''host_unreachable''\<rparr>))"

subsection \<open>State and surroundings\<close>

definition CapabilityControlV1 :: string where "CapabilityControlV1 = ''control-v1''"
definition CapabilitySpeedServersV1 :: string where "CapabilitySpeedServersV1 = ''speed-servers-v1''"

datatype remote_error =
    ErrDisabled | ErrAgentNotFound | ErrUnavailableAgent | ErrActiveSession | ErrNoPendingJob
  | ErrUnknownProfile | ErrUnsupportedByAgent | ErrAutomaticPaused | ErrOnlyNodeHostAgent
  | ErrNodeAddressUnresolved | ErrNoSnapshot | ErrUnsupportedTrigger | Refused diag_error

record ControllerConfig =
  cc_Enabled :: bool
  cc_CheckMethod :: string
  cc_JobTTL :: duration
  cc_SocksPort :: int

record queuedAssignment =
  qa_assignment :: JobAssignment
  qa_claimed :: bool

record controller =
  ct_config :: ControllerConfig
  ct_manager :: manager
  ct_assignments :: "(string \<times> queuedAssignment) list"
  ct_waiters :: "string set"   \<comment> \<open>the agents whose channel holds a signal\<close>

text \<open>The fields of a registered agent and of a node the controller reads.\<close>

record AgentSnapshot =
  ag_AgentID :: string
  ag_Enabled :: bool
  ag_Connected :: bool
  ag_Health :: string
  ag_Capabilities :: "string list"
  ag_LastSeenAt :: time
  ag_ExpectedSourceIP :: string

record DiagnosticProxySnapshot =
  dx_StableID :: string
  dx_Server :: string
  dx_Port :: int
  dx_SNI :: string
  dx_Generation :: nat
  dx_Maintenance :: bool
  dx_Status :: "ProxyStatusDetails option"

type_synonym address = string   \<comment> \<open>the canonical text of an unmapped address\<close>

record outside =
  ou_registryEnabled :: bool
  ou_projectMaintenance :: "nat \<Rightarrow> bool"   \<comment> \<open>the successive reads of the switch\<close>
  ou_agents :: "AgentSnapshot list"
  ou_nodes :: "DiagnosticProxySnapshot list"
  ou_generate :: "DiagnosticProxySnapshot \<Rightarrow> 8 word list option"
  ou_digest :: "8 word list \<Rightarrow> string"
  ou_parse :: "string \<Rightarrow> address option"
  ou_lookup :: "string \<Rightarrow> address list option"
  ou_prefer :: "(string \<Rightarrow> string list \<Rightarrow> string list) option"
  ou_clock :: "nat \<Rightarrow> time"
  ou_ids :: "nat \<Rightarrow> string option"
  ou_order :: "(string \<times> DiagnosticSession) list \<Rightarrow> (string \<times> DiagnosticSession) list"

definition Enabled :: "outside \<Rightarrow> controller \<Rightarrow> bool" where
  "Enabled w c \<longleftrightarrow> cc_Enabled (ct_config c) \<and> ou_registryEnabled w"

text \<open>The checker's answer for a node: the first proxy with that identifier.\<close>

definition DiagnosticSnapshot :: "outside \<Rightarrow> string \<Rightarrow> DiagnosticProxySnapshot option" where
  "DiagnosticSnapshot w stableID0 =
     (let stableID = TrimSpace stableID0 in
      if stableID = [] then None else find (\<lambda>sn. dx_StableID sn = stableID) (ou_nodes w))"

definition executionSnapshot ::
  "outside \<Rightarrow> string \<Rightarrow> (DiagnosticProxySnapshot \<times> 8 word list \<times> string) option" where
  "executionSnapshot w stableID = (case DiagnosticSnapshot w stableID of None \<Rightarrow> None
   | Some sn \<Rightarrow> (case ou_generate w sn of None \<Rightarrow> None
       | Some canonicalConfig \<Rightarrow>
           if length canonicalConfig = 0 \<or> length canonicalConfig > MaxExecutionConfigBytes then None
           else Some (sn, canonicalConfig, ou_digest w canonicalConfig)))"

text \<open>For evaluation: the bound compared in binary.\<close>

lemma executionSnapshot_code [code]:
  "executionSnapshot w stableID = (case DiagnosticSnapshot w stableID of None \<Rightarrow> None
   | Some sn \<Rightarrow> (case ou_generate w sn of None \<Rightarrow> None
       | Some canonicalConfig \<Rightarrow>
           if canonicalConfig = [] \<or> int (length canonicalConfig) > 524288 then None
           else Some (sn, canonicalConfig, ou_digest w canonicalConfig)))"
  by (simp add: executionSnapshot_def MaxExecutionConfigBytes_def split: option.split)

definition removeExpiredAssignmentsLocked :: "time \<Rightarrow> controller \<Rightarrow> controller" where
  "removeExpiredAssignmentsLocked now c =
     c\<lparr>ct_assignments := filter (\<lambda>(k, q). j_ExpiresAt (ja_Job (qa_assignment q)) > now) (ct_assignments c)\<rparr>"

definition signalAgentLocked :: "string \<Rightarrow> controller \<Rightarrow> controller" where
  "signalAgentLocked agentID c = c\<lparr>ct_waiters := insert agentID (ct_waiters c)\<rparr>"

definition dropAssignmentsFor :: "(JobAssignment \<Rightarrow> bool) \<Rightarrow> controller \<Rightarrow> controller" where
  "dropAssignmentsFor match c =
     c\<lparr>ct_assignments := filter (\<lambda>(k, q). \<not> match (qa_assignment q)) (ct_assignments c)\<rparr>"

subsection \<open>Profiles and agents\<close>

definition resolveProfile :: "controller \<Rightarrow> string \<Rightarrow> string list \<Rightarrow> remote_error + ProfileDescriptor" where
  "resolveProfile c requested0 capabilities =
     (let requested = TrimSpace requested0 in
      if requested = [] then
        (case ProfileForCheckMethod (cc_CheckMethod (ct_config c)) of
           None \<Rightarrow> Inl ErrUnknownProfile | Some d \<Rightarrow> Inr d)
      else
        (case ProfileByID requested of None \<Rightarrow> Inl ErrUnknownProfile
         | Some d \<Rightarrow> if h_Capability d \<notin> set capabilities then Inl ErrUnsupportedByAgent else Inr d))"

definition alternative_for :: "ProfileDescriptor \<Rightarrow> string list \<Rightarrow> string" where
  "alternative_for d capabilities = (case AlternativeFor (h_ID d) of None \<Rightarrow> []
   | Some candidate \<Rightarrow> (case ProfileByID candidate of None \<Rightarrow> []
       | Some alt \<Rightarrow> if h_Capability alt \<in> set capabilities then h_ID alt else []))"

definition automaticProfile ::
  "ProfileDescriptor \<Rightarrow> string \<Rightarrow> AutomationContext \<Rightarrow> string list \<Rightarrow> TestProfile" where
  "automaticProfile d alternativeID ctx capabilities =
     (let profile = TestProfileFor d alternativeID in
      if p_Method profile \<noteq> ProbeMethodDownload then profile
      else
        (let profile1 =
               (if a_SpeedServerID ctx \<noteq> [] \<and> CapabilitySpeedServersV1 \<in> set capabilities \<and>
                   SpeedServerByID (a_SpeedServerID ctx) \<noteq> None
                then profile\<lparr>p_ServerID := a_SpeedServerID ctx\<rparr> else profile)
         in if a_Outcome ctx \<noteq> AutomationOutcomeLowSpeed then profile1
            else (case ProfileDownloadBytes (a_MeasuredBytes ctx) of
                None \<Rightarrow> profile1 | Some bytes \<Rightarrow> profile1\<lparr>p_DownloadBytes := bytes\<rparr>)))"

definition preferredAgent :: "outside \<Rightarrow> string \<Rightarrow> AgentSnapshot list \<Rightarrow> AgentSnapshot" where
  "preferredAgent w stableID eligible = (case ou_prefer w of None \<Rightarrow> hd eligible
   | Some prefer \<Rightarrow>
       if length eligible < 2 then hd eligible
       else
         (let ranked = prefer stableID (map ag_AgentID eligible);
              index = (\<lambda>i. find (\<lambda>a. ag_AgentID a = i) (rev eligible))
          in case find (\<lambda>i. index i \<noteq> None) ranked of
               None \<Rightarrow> hd eligible | Some i \<Rightarrow> the (index i)))"

definition nodeHostAddresses :: "outside \<Rightarrow> string \<Rightarrow> address list option" where
  "nodeHostAddresses w server0 =
     (let server = TrimSpace server0 in
      case ou_parse w server of Some address \<Rightarrow> Some [address]
      | None \<Rightarrow> (case ou_lookup w server of None \<Rightarrow> None
          | Some addresses \<Rightarrow> if addresses = [] then None else Some addresses))"

definition runsOnNodeHost :: "outside \<Rightarrow> AgentSnapshot \<Rightarrow> address list \<Rightarrow> bool" where
  "runsOnNodeHost w a nodeHost = (case ou_parse w (TrimSpace (ag_ExpectedSourceIP a)) of
     None \<Rightarrow> False | Some source \<Rightarrow> source \<in> set nodeHost)"

definition agent_before :: "AgentSnapshot \<Rightarrow> AgentSnapshot \<Rightarrow> bool" where
  "agent_before a b \<longleftrightarrow>
     (if ag_LastSeenAt a = ag_LastSeenAt b then ag_AgentID a < ag_AgentID b
      else ag_LastSeenAt a > ag_LastSeenAt b)"

text \<open>An agent free to take a job of the profile.\<close>

definition can_take :: "string set \<Rightarrow> ProfileDescriptor \<Rightarrow> AgentSnapshot \<Rightarrow> bool" where
  "can_take busy d a \<longleftrightarrow>
     \<not> (\<not> ag_Enabled a \<or> \<not> ag_Connected a \<or> ag_Health a \<noteq> ''healthy'' \<or> ag_AgentID a \<in> busy \<or>
        CapabilityControlV1 \<notin> set (ag_Capabilities a) \<or> h_Capability d \<notin> set (ag_Capabilities a))"

subsection \<open>Creating sessions\<close>

text \<open>
  The session, its one job and the queued assignment; the clock readings 1 to 4 and the identifiers
  0 to 2 are the manager's.
\<close>

definition place_job ::
  "outside \<Rightarrow> CreateSessionRequest \<Rightarrow> TestProfile \<Rightarrow> string \<Rightarrow> DiagnosticProxySnapshot \<Rightarrow>
   8 word list \<Rightarrow> controller \<Rightarrow> controller \<times> (remote_error + DiagnosticSession option)" where
  "place_job w request profile agentID sn cfg c =
     (case CreateSession (ou_order w) (ou_clock w 1) (ou_ids w 0) request (ct_manager c) of
        (m1, Inl e) \<Rightarrow> (c\<lparr>ct_manager := m1\<rparr>, Inl (Refused e))
      | (m1, Inr s) \<Rightarrow>
          (case RegisterJob (ou_clock w 2) (ou_ids w 1) (ou_ids w 2)
             \<lparr>g_SessionID = s_SessionID s, g_AgentID = agentID, g_Profile = profile,
              g_ExpiresAt = q_ExpiresAt request\<rparr> m1 of
             (m2, Inl e) \<Rightarrow>
               (c\<lparr>ct_manager := fst (CancelSession (ou_clock w 3) (s_SessionID s) m2)\<rparr>, Inl (Refused e))
           | (m2, Inr job) \<Rightarrow>
               (let assignment = \<lparr>ja_Job = job, ja_XrayConfig = cfg,
                      ja_SocksPort = cc_SocksPort (ct_config c), ja_TargetHost = dx_Server sn,
                      ja_TargetPort = dx_Port sn, ja_TargetSNI = TrimSpace (dx_SNI sn)\<rparr>;
                    (m3, updated) = Session (ou_clock w 4) (s_SessionID s) m2
                in (signalAgentLocked agentID
                      (c\<lparr>ct_manager := m3,
                         ct_assignments := AList.update (j_JobID job)
                           \<lparr>qa_assignment = assignment, qa_claimed = False\<rparr> (ct_assignments c)\<rparr>),
                    Inr updated))))"

record targetedRequest =
  tr_StableID :: string
  tr_AgentID :: string
  tr_ProfileID :: string
  tr_Trigger :: string

definition createTargeted ::
  "outside \<Rightarrow> targetedRequest \<Rightarrow> controller \<Rightarrow> controller \<times> (remote_error + DiagnosticSession option)" where
  "createTargeted w r c =
     (let agentID = TrimSpace (tr_AgentID r); stableID = TrimSpace (tr_StableID r) in
      if \<not> Enabled w c then (c, Inl ErrDisabled)
      else if Automatic (tr_Trigger r) \<and> ou_projectMaintenance w 0 then (c, Inl ErrAutomaticPaused)
      else (case find (\<lambda>a. ag_AgentID a = agentID) (ou_agents w) of None \<Rightarrow> (c, Inl ErrAgentNotFound)
        | Some agent \<Rightarrow>
            if \<not> ag_Enabled agent \<or> \<not> ag_Connected agent \<or>
               CapabilityControlV1 \<notin> set (ag_Capabilities agent) \<or>
               CapabilityDiagnosticV1 \<notin> set (ag_Capabilities agent)
            then (c, Inl ErrUnavailableAgent)
            else (case resolveProfile c (tr_ProfileID r) (ag_Capabilities agent) of Inl e \<Rightarrow> (c, Inl e)
              | Inr d \<Rightarrow>
                (case executionSnapshot w stableID of None \<Rightarrow> (c, Inl ErrNoSnapshot)
                 | Some (sn, cfg, fingerprint) \<Rightarrow>
                     if dx_Maintenance sn \<and> Automatic (tr_Trigger r) then (c, Inl ErrAutomaticPaused)
                     else
                       (let profile = TestProfileFor d (alternative_for d (ag_Capabilities agent));
                            expiresAt = ou_clock w 0 + cc_JobTTL (ct_config c);
                            c1 = removeExpiredAssignmentsLocked (ou_clock w 0) c
                        in if list_ex (\<lambda>(k, q). j_StableID (ja_Job (qa_assignment q)) = dx_StableID sn \<and>
                                j_AgentID (ja_Job (qa_assignment q)) = agentID) (ct_assignments c1)
                           then (c1, Inl ErrActiveSession)
                           else place_job w
                                  \<lparr>q_StableID = dx_StableID sn, q_Trigger = tr_Trigger r,
                                   q_ConfigGeneration = dx_Generation sn,
                                   q_ConfigFingerprint = fingerprint,
                                   q_LocalResultSnapshot = localResult (dx_Status sn),
                                   q_AutomationContext = empty_context,
                                   q_RequestedAgents = [agentID],
                                   q_MaintenanceDiagnostic = dx_Maintenance sn,
                                   q_ExpiresAt = expiresAt\<rparr> profile agentID sn cfg c1)))))"

definition CreateManual ::
  "outside \<Rightarrow> string \<Rightarrow> string \<Rightarrow> string \<Rightarrow> controller \<Rightarrow> controller \<times> (remote_error + DiagnosticSession option)" where
  "CreateManual w stableID agentID profileID c =
     createTargeted w \<lparr>tr_StableID = stableID, tr_AgentID = agentID, tr_ProfileID = profileID,
       tr_Trigger = TriggerManual\<rparr> c"

definition CreateSweep ::
  "outside \<Rightarrow> string \<Rightarrow> string \<Rightarrow> string \<Rightarrow> controller \<Rightarrow> controller \<times> (remote_error + DiagnosticSession option)" where
  "CreateSweep w stableID agentID profileID c =
     createTargeted w \<lparr>tr_StableID = stableID, tr_AgentID = agentID, tr_ProfileID = profileID,
       tr_Trigger = TriggerReachabilitySweep\<rparr> c"

record CreateAutomaticRequest =
  ar_StableID :: string
  ar_Trigger :: string
  ar_ProfileID :: string
  ar_AutomationContext :: AutomationContext

definition CreateAutomatic ::
  "outside \<Rightarrow> CreateAutomaticRequest \<Rightarrow> controller \<Rightarrow>
   controller \<times> (remote_error + DiagnosticSession option)" where
  "CreateAutomatic w r c =
     (if \<not> Enabled w c then (c, Inl ErrDisabled)
      else if ar_Trigger r \<notin> {TriggerAutoSpeedFallback, TriggerAutoProxyFailure, TriggerAutoOffline}
        then (c, Inl ErrUnsupportedTrigger)
      else if ou_projectMaintenance w 0 then (c, Inl ErrAutomaticPaused)
      else (case ProfileByID (TrimSpace (ar_ProfileID r)) of None \<Rightarrow> (c, Inl ErrUnknownProfile)
        | Some d \<Rightarrow>
          (case executionSnapshot w (TrimSpace (ar_StableID r)) of None \<Rightarrow> (c, Inl ErrNoSnapshot)
           | Some (sn, cfg, fingerprint) \<Rightarrow>
               if dx_Maintenance sn \<or> ou_projectMaintenance w 1 then (c, Inl ErrAutomaticPaused)
               else (case nodeHostAddresses w (dx_Server sn) of
                   None \<Rightarrow> (c, Inl ErrNodeAddressUnresolved)
                 | Some nodeHost \<Rightarrow>
                     (let agents = sort_slice agent_before (ou_agents w);
                          expiresAt = ou_clock w 0 + cc_JobTTL (ct_config c);
                          c1 = removeExpiredAssignmentsLocked (ou_clock w 0) c;
                          busy = (\<lambda>(k, q). j_AgentID (ja_Job (qa_assignment q))) ` set (ct_assignments c1);
                          free = filter (can_take busy d) agents;
                          eligible = filter (\<lambda>a. \<not> runsOnNodeHost w a nodeHost) free
                      in if eligible = [] then
                           (c1, Inl (if list_ex (\<lambda>a. runsOnNodeHost w a nodeHost) free
                              then ErrOnlyNodeHostAgent else ErrUnavailableAgent))
                         else
                           (let agent = preferredAgent w (dx_StableID sn) eligible in
                            place_job w
                              \<lparr>q_StableID = dx_StableID sn, q_Trigger = ar_Trigger r,
                               q_ConfigGeneration = dx_Generation sn,
                               q_ConfigFingerprint = fingerprint,
                               q_LocalResultSnapshot = localResult (dx_Status sn),
                               q_AutomationContext = ar_AutomationContext r,
                               q_RequestedAgents = [ag_AgentID agent],
                               q_MaintenanceDiagnostic = False, q_ExpiresAt = expiresAt\<rparr>
                              (automaticProfile d (alternative_for d (ag_Capabilities agent))
                                (ar_AutomationContext r) (ag_Capabilities agent))
                              (ag_AgentID agent) sn cfg c1))))))"

subsection \<open>Delivery\<close>

text \<open>The walk over the queue in the order of job identifiers; each job reads the clock three times.\<close>

fun claim_loop :: "(nat \<Rightarrow> time) \<Rightarrow> nat \<Rightarrow> string \<Rightarrow> string list \<Rightarrow> controller \<Rightarrow>
    controller \<times> (diag_error + JobAssignment) option" where
  "claim_loop clock n agentID [] c = (c, None)"
| "claim_loop clock n agentID (jobID # jobIDs) c =
     (case map_of (ct_assignments c) jobID of None \<Rightarrow> claim_loop clock (n + 3) agentID jobIDs c
      | Some q \<Rightarrow>
          (let job = ja_Job (qa_assignment q);
               without = (\<lambda>c. c\<lparr>ct_assignments := AList.delete jobID (ct_assignments c)\<rparr>)
           in if \<not> j_ExpiresAt job > clock n then
                claim_loop clock (n + 3) agentID jobIDs (without c)
              else if j_AgentID job \<noteq> agentID then claim_loop clock (n + 3) agentID jobIDs c
              else if qa_claimed q then (c, Some (Inr (qa_assignment q)))
              else
                (case MarkJobDispatched (clock (n + 1)) jobID (ct_manager c) of
                   (m1, Inl e) \<Rightarrow> (without (c\<lparr>ct_manager := m1\<rparr>), Some (Inl e))
                 | (m1, Inr u) \<Rightarrow>
                     (case MarkJobRunning (clock (n + 2)) jobID m1 of
                        (m2, Inl e) \<Rightarrow> (without (c\<lparr>ct_manager := m2\<rparr>), Some (Inl e))
                      | (m2, Inr u) \<Rightarrow>
                          (c\<lparr>ct_manager := m2,
                             ct_assignments := AList.update jobID (q\<lparr>qa_claimed := True\<rparr>)
                               (ct_assignments c)\<rparr>, Some (Inr (qa_assignment q)))))))"

definition claimNow :: "(nat \<Rightarrow> time) \<Rightarrow> string \<Rightarrow> controller \<Rightarrow>
    controller \<times> (diag_error + JobAssignment) option" where
  "claimNow clock agentID c =
     claim_loop clock 0 agentID (sort_strings (map fst (ct_assignments c))) c"

text \<open>
  A long poll. Each attempt is one critical section of the controller's lock; between two attempts the
  poll waits and the rest of the server goes on. An attempt comes with its clock, with what the server
  does while the poll waits after it (\<open>'s\<close> is the server outside this controller), and with how the
  wait ended.
\<close>

datatype wake = Signalled | TimedOut | ContextDone

type_synonym 's waits = "((nat \<Rightarrow> time) \<times> ('s \<times> controller \<Rightarrow> 's \<times> controller) \<times> wake) list"

definition signal_taken :: "string \<Rightarrow> controller \<Rightarrow> controller" where
  "signal_taken agentID c = c\<lparr>ct_waiters := ct_waiters c - {agentID}\<rparr>"

fun Claim :: "string \<Rightarrow> 's waits \<Rightarrow> 's \<times> controller \<Rightarrow>
    ('s \<times> controller) \<times> (remote_error + JobAssignment) option" where
  "Claim agentID [] x = (x, None)"
| "Claim agentID ((clock, meanwhile, how) # waits) (s, c) =
     (case claimNow clock (TrimSpace agentID) c of
        (c1, Some (Inl e)) \<Rightarrow> ((s, c1), Some (Inl (Refused e)))
      | (c1, Some (Inr a)) \<Rightarrow> ((s, c1), Some (Inr a))
      | (c1, None) \<Rightarrow>
          (case meanwhile (s, c1) of (s2, c2) \<Rightarrow>
             (case how of
                ContextDone \<Rightarrow> ((s2, c2), None)
              | TimedOut \<Rightarrow> ((s2, c2), Some (Inl ErrNoPendingJob))
              | Signalled \<Rightarrow> Claim agentID waits (s2, signal_taken (TrimSpace agentID) c2))))"

definition controller_AcceptObservation ::
  "outside \<Rightarrow> (Observation \<Rightarrow> 8 word list option) \<Rightarrow> verifier \<Rightarrow> Observation \<Rightarrow> controller \<Rightarrow>
   controller \<times> (diag_error + AcceptedObservation)" where
  "controller_AcceptObservation w marshal verify obs c =
     (case executionSnapshot w (o_StableID obs) of None \<Rightarrow> (c, Inl ErrStaleGeneration)
      | Some (sn, cfg, fingerprint) \<Rightarrow>
          if dx_Generation sn \<noteq> o_ConfigGeneration obs \<or> fingerprint \<noteq> o_ConfigFingerprint obs
          then (c, Inl ErrStaleGeneration)
          else (case AcceptObservation marshal verify (ou_clock w 0) obs (ct_manager c) of
              (m1, Inl e) \<Rightarrow> (c\<lparr>ct_manager := m1\<rparr>, Inl e)
            | (m1, Inr r) \<Rightarrow>
                (c\<lparr>ct_manager := m1,
                   ct_assignments := AList.delete (o_JobID obs) (ct_assignments c)\<rparr>, Inr r)))"

subsection \<open>Ending sessions\<close>

definition Cancel :: "time \<Rightarrow> string \<Rightarrow> controller \<Rightarrow> controller \<times> diag_error option" where
  "Cancel now sessionID c =
     (case CancelSession now sessionID (ct_manager c) of
        (m1, Inl e) \<Rightarrow> (c\<lparr>ct_manager := m1\<rparr>, Some e)
      | (m1, Inr u) \<Rightarrow>
          (c\<lparr>ct_manager := m1,
             ct_assignments := filter (\<lambda>(k, q). j_SessionID (ja_Job (qa_assignment q)) \<noteq> sessionID)
               (ct_assignments c)\<rparr>, None))"

definition Delete :: "string \<Rightarrow> controller \<Rightarrow> controller \<times> diag_error option" where
  "Delete sessionID0 c =
     (let sessionID = TrimSpace sessionID0 in
      case DeleteSession sessionID (ct_manager c) of
        (m1, Inl e) \<Rightarrow> (c\<lparr>ct_manager := m1\<rparr>, Some e)
      | (m1, Inr u) \<Rightarrow>
          (dropAssignmentsFor (\<lambda>a. j_SessionID (ja_Job a) = sessionID) (c\<lparr>ct_manager := m1\<rparr>), None))"

definition Clear :: "string \<Rightarrow> controller \<Rightarrow> controller \<times> nat" where
  "Clear stableID0 c =
     (let stableID = TrimSpace stableID0;
          (m1, removed) = DeleteSessions stableID (ct_manager c)
      in (dropAssignmentsFor (\<lambda>a. stableID = [] \<or> j_StableID (ja_Job a) = stableID)
            (c\<lparr>ct_manager := m1\<rparr>), removed))"

subsection \<open>Construction\<close>

definition DefaultAgentSocksPort :: int where "DefaultAgentSocksPort = 18080"
definition DefaultManualJobTTL :: duration where "DefaultManualJobTTL = 5 * minute"

definition NewController :: "bool \<Rightarrow> ControllerConfig \<Rightarrow> controller option" where
  "NewController has_owners cfg0 =
     (let cfg = cfg0\<lparr>cc_CheckMethod := TrimSpace (cc_CheckMethod cfg0),
            cc_JobTTL := if cc_JobTTL cfg0 = 0 then DefaultManualJobTTL else cc_JobTTL cfg0,
            cc_SocksPort := if cc_SocksPort cfg0 = 0 then DefaultAgentSocksPort
                            else cc_SocksPort cfg0\<rparr>
      in if \<not> has_owners \<or> cc_JobTTL cfg < 30 * second \<or> cc_SocksPort cfg < 1024 \<or> cc_SocksPort cfg > 65535
         then None
         else if cc_Enabled cfg \<and> ProfileForCheckMethod (cc_CheckMethod cfg) = None then None
         else (case NewDiagnosticSessionManager True \<lparr>SessionTTL = 0, ObservationMaxAge = 0,
                 ClockSkew = 0, MaxSessions = 0, MaxAgentsPerSession = 0\<rparr> of
             Inl e \<Rightarrow> None
           | Inr m \<Rightarrow> Some \<lparr>ct_config = cfg, ct_manager = m, ct_assignments = [], ct_waiters = {}\<rparr>))"

subsection \<open>Views\<close>

text \<open>The profile catalogue with the default profile marked.\<close>

definition ProfileViews :: "controller \<Rightarrow> (ProfileDescriptor \<times> bool) list" where
  "ProfileViews c =
     (let defaultID = (case ProfileForCheckMethod (cc_CheckMethod (ct_config c)) of
            None \<Rightarrow> [] | Some d \<Rightarrow> h_ID d)
      in map (\<lambda>d. (d, h_ID d = defaultID)) Profiles)"

definition RejectedByAgent :: string where
  "RejectedByAgent = ''The agent rejected the job before probing; no remote evidence was collected.''"

definition speedSummary :: "Verdict \<times> Reason \<Rightarrow> Observation \<Rightarrow> string" where
  "speedSummary v remote = (case v of (verdict, reason) \<Rightarrow>
     (case verdict of
        VerdictReproduced \<Rightarrow>
          if o_Status remote = ProbeStatusOnline
          then ''Low throughput was reproduced from another network against the same speed-test server; the node, its uplink or its hosting network is likely involved.''
          else ''The speed-test problem was reproduced from another network; a shared node, server or configuration issue is likely.''
      | VerdictPathLimited \<Rightarrow>
          if reason = ReasonAgentAlsoBelowThreshold
          then ''The agent got many times the checker's rate through the same node but stayed below the threshold; most of the loss is on the path between the checker and the node, and the node is not above suspicion.''
          else ''The agent got many times the checker's rate through the same node; the loss is on the path between the checker and the node, not in the node.''
      | VerdictInconclusive \<Rightarrow>
          if reason = ReasonNearThreshold
          then ''The agent's rate is too close to the threshold to confirm or clear the slowdown.''
          else ''The agent measured a different speed-test server, so its rate can neither confirm nor clear the slowdown.''
      | VerdictUnreliable \<Rightarrow> ''The agent reached the endpoint but returned no throughput evidence; there is not enough data to compare the low-speed result.''
      | _ \<Rightarrow>
          if reason = ReasonAlternativeWorked
          then ''The agent reproduced a failure only against its download endpoint; the alternative tunnelled endpoint worked, so an endpoint-specific problem is likely.''
          else ''The node delivered the threshold to another network; the problem is on the path between the checker and the node, or at the checker's test server.''))"

definition offlineSummary :: "Observation \<Rightarrow> string" where
  "offlineSummary remote =
     (if o_Status remote = ProbeStatusOnline
      then ''The node works from another network; it is unreachable only on the checker's path, so an IP or route block on that side is likely.''
      else if alternative_worked remote
      then ''The node's tunnel works from another network against the alternative endpoint; it is unreachable only on the checker's path, so an IP or route block on that side is likely.''
      else if o_Status remote = ProbeStatusProxyFailure
      then ''The host answers from another network but its tunnel does not carry traffic; the proxy service on the node is likely down, and the checker's path does not reach the host at all.''
      else ''The node is unreachable from another network as well; the host, its port or the hosting network is likely down.'')"

definition summarize :: "DiagnosticSession \<Rightarrow> string" where
  "summarize s =
     (if s_AgentObservations s = [] then
        (if s_terminal (s_State s) then ''No remote observations are available.''
         else ''Remote diagnostics are running.'')
      else
        (let a = last (s_AgentObservations s); remote = c_Observation a;
             local_result = s_LocalResultSnapshot s; ctx = s_AutomationContext s
         in if \<not> c_Reliable a then
              (if \<not> e_Checked (o_DirectConnectivity remote) then RejectedByAgent
               else ''The agent network failed direct connectivity control; this result is unreliable.'')
            else if s_Trigger s = TriggerAutoSpeedFallback then
              speedSummary (JudgeSpeed \<lparr>k_Outcome = a_Outcome ctx, k_ThresholdMbps = a_ThresholdMbps ctx,
                k_ObservedMbps = a_ObservedMbps ctx, k_ServerID = a_SpeedServerID ctx\<rparr> remote (c_Reliable a)) remote
            else if s_Trigger s = TriggerAutoOffline then offlineSummary remote
            else if s_Trigger s = TriggerAutoProxyFailure \<and> o_Status remote \<noteq> ProbeStatusOnline then
              (if alternative_worked remote
               then ''The agent's primary endpoint failed but its alternative tunnelled endpoint worked; the tunnel carries traffic from another network, so an endpoint-specific problem is likely.''
               else ''The proxy failure was reproduced from another network; the node's proxy service, its configuration or the hosting network is likely involved.'')
            else if n_Status local_result \<noteq> ProbeStatusOnline \<and> o_Status remote = ProbeStatusOnline then
              ''The problem was not reproduced from another network; a local ISP, route, DNS or DPI issue is likely.''
            else if f_Code (n_Failure local_result) \<noteq> [] \<and>
                f_Code (n_Failure local_result) = f_Code (o_Failure remote) then
              ''The error was reproduced from another network; a shared configuration, server or port availability issue is likely.''
            else if n_Status local_result = ProbeStatusOffline \<and> o_Status remote = ProbeStatusOffline then
              ''The outage was reproduced; the server, port, firewall or hosting network may be involved.''
            else ''The results differ without a stable pattern; there is not enough data.''))"

definition controller_Sessions ::
  "((string \<times> DiagnosticSession) list \<Rightarrow> (string \<times> DiagnosticSession) list) \<Rightarrow> time \<Rightarrow> time \<Rightarrow> string \<Rightarrow>
   controller \<Rightarrow> controller \<times> (DiagnosticSession \<times> string) list" where
  "controller_Sessions order now now2 stableID0 c =
     (let stableID = TrimSpace stableID0;
          (m1, all_sessions) = Sessions order now (ct_manager c);
          c1 = removeExpiredAssignmentsLocked now2 (c\<lparr>ct_manager := m1\<rparr>)
      in (c1, map (\<lambda>s. (s, summarize s))
            (filter (\<lambda>s. stableID = [] \<or> s_StableID s = stableID) all_sessions)))"

definition controller_Session :: "time \<Rightarrow> string \<Rightarrow> controller \<Rightarrow> controller \<times> (DiagnosticSession \<times> string) option" where
  "controller_Session now sessionID c =
     (let (m1, found) = Session now sessionID (ct_manager c)
      in (c\<lparr>ct_manager := m1\<rparr>, map_option (\<lambda>s. (s, summarize s)) found))"

end
