(* ===== verification/Automation.thy ===== *)
theory Automation
  imports RemoteController
begin

text \<open>
  The coordinator of automatic diagnostics (\<open>src/agentautomation/coordinator.go\<close> and
  \<open>availability.go\<close>): which measurements and failures are worth an agent, in which order, how many
  at once, and when an earlier answer still stands.

  The session controller is the source's interface of three calls, as a record of functions on a
  state \<open>'s\<close> the calls thread through; \<open>speedtest\<close> results, the host of a URL and the clock are
  arguments. Maps are association lists in an order of iteration. Of an annotation the state, the
  detail, the session, the agent and the accepted observation are kept; of a journal line the node,
  the kind, the session, the verdict and the detail.
\<close>

subsection \<open>The session controller\<close>

record 's session_controller =
  sc_enabled :: "'s \<Rightarrow> bool"
  sc_create :: "CreateAutomaticRequest \<Rightarrow> 's \<Rightarrow> 's \<times> (remote_error + DiagnosticSession option)"
  sc_session :: "string \<Rightarrow> 's \<Rightarrow> 's \<times> DiagnosticSession option"

text \<open>The identifier in the view of a created session; a session that is already gone shows none.\<close>

definition view_id :: "DiagnosticSession option \<Rightarrow> string" where
  "view_id v = (case v of None \<Rightarrow> [] | Some s \<Rightarrow> s_SessionID s)"

subsection \<open>Requests and handles\<close>

record startRequest =
  st_stableID :: string
  st_kind :: string
  st_profileID :: string
  st_source :: string
  st_outcome :: string
  st_threshold :: rat
  st_observedMbps :: rat
  st_measuredBytes :: int
  st_fallbackAttempts :: int
  st_shortfall :: rat
  st_speedServerID :: string
  st_notBefore :: time

text \<open>A judged answer carries the verdict, which is the source's state, and the reason, its detail.\<close>

datatype diagnostic_state = Running | Unavailable | Judged Verdict Reason

record Handle =
  ha_StableID :: string
  ha_SessionID :: string
  ha_State :: diagnostic_state
  ha_Detail :: string
  ha_Outcome :: string
  ha_Threshold :: rat
  ha_StartedAt :: time
  ha_request :: startRequest
  ha_retry :: "startRequest option"

record AgentDiagnostic =
  ad_State :: diagnostic_state
  ad_Detail :: string
  ad_SessionID :: string
  ad_AgentID :: string
  ad_Observation :: "AcceptedObservation option"

record availabilityEntry =
  ae_kind :: string
  ae_since :: time
  ae_handle :: Handle
  ae_final :: "AgentDiagnostic option"
  ae_journaled :: bool

record automation_config =
  au_Enabled :: bool
  au_Cooldown :: duration
  au_AlertWait :: duration
  au_MaxConcurrent :: int
  au_PollInterval :: duration
  au_EnvironmentSourced :: "(string \<Rightarrow> bool) option"
  au_ProxyFailureEnabled :: bool
  au_ProxyFailureProfileID :: string
  au_OfflineEnabled :: bool
  au_OfflineProfileID :: string

record 's coordinator =
  co_config :: automation_config
  co_entries :: "(string \<times> Handle) list"
  co_availability :: "(string \<times> availabilityEntry) list"
  co_controller :: 's

definition DefaultCooldown :: duration where "DefaultCooldown = 15 * minute"
definition DefaultMaxConcurrent :: int where "DefaultMaxConcurrent = 2"
definition defaultPollInterval :: duration where "defaultPollInterval = 200 * millisecond"

definition tunnelled_profile :: "string \<Rightarrow> bool" where
  "tunnelled_profile i = (case ProfileByID i of None \<Rightarrow> False | Some d \<Rightarrow> h_Tunnelled d)"

definition New :: "automation_config \<Rightarrow> 's \<Rightarrow> 's coordinator option" where
  "New cfg0 controller =
     (let proxy0 = TrimSpace (au_ProxyFailureProfileID cfg0);
          proxy = (if proxy0 = [] then ProfileStatus else proxy0);
          offline0 = TrimSpace (au_OfflineProfileID cfg0);
          cfg = cfg0\<lparr>au_Cooldown := if au_Cooldown cfg0 = 0 then DefaultCooldown else au_Cooldown cfg0,
            au_MaxConcurrent := if au_MaxConcurrent cfg0 = 0 then DefaultMaxConcurrent
                                else au_MaxConcurrent cfg0,
            au_PollInterval := if au_PollInterval cfg0 = 0 then defaultPollInterval
                               else au_PollInterval cfg0,
            au_ProxyFailureProfileID := proxy,
            au_OfflineProfileID := if offline0 = [] then proxy else offline0\<rparr>
      in if au_Cooldown cfg < minute \<or> au_AlertWait cfg < 0 \<or> au_MaxConcurrent cfg < 1 \<or>
            au_PollInterval cfg \<le> 0 then None
         else if \<not> tunnelled_profile (au_ProxyFailureProfileID cfg) then None
         else if \<not> tunnelled_profile (au_OfflineProfileID cfg) then None
         else Some \<lparr>co_config = cfg, co_entries = [], co_availability = [], co_controller = controller\<rparr>)"

definition automation_Enabled :: "'s session_controller \<Rightarrow> 's coordinator \<Rightarrow> bool" where
  "automation_Enabled sc c \<longleftrightarrow> au_Enabled (co_config c) \<and> sc_enabled sc (co_controller c)"

subsection \<open>Sessions in flight\<close>

definition inFlightLocked :: "'s session_controller \<Rightarrow> Handle \<Rightarrow> 's \<Rightarrow> 's \<times> bool" where
  "inFlightLocked sc h s =
     (if ha_SessionID h = [] then (s, False)
      else (case sc_session sc (ha_SessionID h) s of
          (s1, None) \<Rightarrow> (s1, False)
        | (s1, Some v) \<Rightarrow> (s1, \<not> s_terminal (s_State v))))"

fun count_in_flight :: "'s session_controller \<Rightarrow> Handle list \<Rightarrow> 's \<Rightarrow> 's \<times> int" where
  "count_in_flight sc [] s = (s, 0)"
| "count_in_flight sc (h # hs) s =
     (let (s1, f) = inFlightLocked sc h s; (s2, n) = count_in_flight sc hs s1
      in (s2, if f then n + 1 else n))"

definition co_handles :: "'s coordinator \<Rightarrow> Handle list" where
  "co_handles c = map snd (co_entries c) @ map (ae_handle \<circ> snd) (co_availability c)"

definition activeLocked :: "'s session_controller \<Rightarrow> 's coordinator \<Rightarrow> 's coordinator \<times> int" where
  "activeLocked sc c = (let (s1, n) = count_in_flight sc (co_handles c) (co_controller c)
     in (c\<lparr>co_controller := s1\<rparr>, n))"

definition abandonedLocked :: "'s session_controller \<Rightarrow> Handle \<Rightarrow> 's \<Rightarrow> 's \<times> bool" where
  "abandonedLocked sc h s =
     (if ha_SessionID h = [] then (s, False)
      else (case sc_session sc (ha_SessionID h) s of
          (s1, None) \<Rightarrow> (s1, False)
        | (s1, Some v) \<Rightarrow> (s1, s_terminal (s_State v) \<and> s_AgentObservations v = [])))"

fun prune_entries :: "'s session_controller \<Rightarrow> duration \<Rightarrow> time \<Rightarrow> (string \<times> Handle) list \<Rightarrow> 's \<Rightarrow>
    's \<times> (string \<times> Handle) list" where
  "prune_entries sc cooldown now [] s = (s, [])"
| "prune_entries sc cooldown now ((i, h) # es) s =
     (case abandonedLocked sc h s of
        (s1, True) \<Rightarrow> prune_entries sc cooldown now es s1
      | (s1, False) \<Rightarrow>
          (let (s2, keep) = (if now - ha_StartedAt h < cooldown then (s1, True)
                 else inFlightLocked sc h s1);
               (s3, kept) = prune_entries sc cooldown now es s2
           in (s3, if keep then (i, h) # kept else kept)))"

definition pruneLocked :: "'s session_controller \<Rightarrow> time \<Rightarrow> 's coordinator \<Rightarrow> 's coordinator" where
  "pruneLocked sc now c =
     (let (s1, kept) = prune_entries sc (au_Cooldown (co_config c)) now (co_entries c) (co_controller c)
      in c\<lparr>co_entries := kept, co_controller := s1\<rparr>)"

text \<open>The part of a snapshot that reads sessions: the number of active probes after pruning.\<close>

definition automation_Snapshot :: "'s session_controller \<Rightarrow> time \<Rightarrow> 's coordinator \<Rightarrow> 's coordinator \<times> int" where
  "automation_Snapshot sc now c = activeLocked sc (pruneLocked sc now c)"

subsection \<open>Speed measurements\<close>

text \<open>The fields of a result the coordinator reads.\<close>

record speed_result =
  re_StableID :: string
  re_URL :: string
  re_FallbackAttempts :: int
  re_MaintenanceProbe :: bool
  re_ProjectMaintenanceProbe :: bool
  re_DownloadedBytes :: int
  re_Mbps :: rat
  re_TimedOut :: bool
  re_LowSpeedThresholdMbps :: rat
  re_Error :: string
  re_Offline :: bool

definition effectiveThreshold :: "speed_result \<Rightarrow> rat \<Rightarrow> rat" where
  "effectiveThreshold r threshold =
     (if re_LowSpeedThresholdMbps r > 0 then re_LowSpeedThresholdMbps r else threshold)"

definition speedAutomationOutcome :: "speed_result \<Rightarrow> rat \<Rightarrow> string option" where
  "speedAutomationOutcome r threshold =
     (if TrimSpace (re_StableID r) = [] \<or> re_MaintenanceProbe r \<or> re_ProjectMaintenanceProbe r \<or> re_Offline r
      then None
      else if re_Error r \<noteq> [] then Some AutomationOutcomeTechnical
      else if threshold > 0 \<and> re_Mbps r < threshold then Some AutomationOutcomeLowSpeed
      else if re_TimedOut r then Some AutomationOutcomeTechnical
      else None)"

definition request_before :: "startRequest \<Rightarrow> startRequest \<Rightarrow> bool" where
  "request_before p q \<longleftrightarrow>
     (if st_shortfall p \<noteq> st_shortfall q then st_shortfall p > st_shortfall q
      else st_stableID p < st_stableID q)"

definition sortStartRequests :: "startRequest list \<Rightarrow> startRequest list" where
  "sortStartRequests rs = sort_slice request_before rs"

definition speed_candidate ::
  "(string \<Rightarrow> string) \<Rightarrow> string \<Rightarrow> rat \<Rightarrow> string \<Rightarrow> speed_result \<Rightarrow> startRequest" where
  "speed_candidate hostname source effective outcome r =
     \<lparr>st_stableID = TrimSpace (re_StableID r), st_kind = AutomationKindSpeedFallback,
      st_profileID = ProfileDownload, st_source = source, st_outcome = outcome,
      st_threshold = effective, st_observedMbps = re_Mbps r,
      st_measuredBytes = re_DownloadedBytes r, st_fallbackAttempts = re_FallbackAttempts r,
      st_shortfall = (if outcome = AutomationOutcomeLowSpeed \<and> effective > 0
                      then (effective - re_Mbps r) / effective else 0),
      st_speedServerID = (case SpeedServerForURL hostname (re_URL r) of None \<Rightarrow> [] | Some z \<Rightarrow> z_ID z),
      st_notBefore = 0\<rparr>"

fun collect_candidates ::
  "(string \<Rightarrow> string) \<Rightarrow> (string \<Rightarrow> bool) option \<Rightarrow> string \<Rightarrow> rat \<Rightarrow> speed_result list \<Rightarrow>
   string set \<Rightarrow> startRequest list" where
  "collect_candidates hostname sourced source threshold [] seen = []"
| "collect_candidates hostname sourced source threshold (r # rs) seen =
     (let effective = effectiveThreshold r threshold; stableID = TrimSpace (re_StableID r) in
      case speedAutomationOutcome r effective of
        None \<Rightarrow> collect_candidates hostname sourced source threshold rs seen
      | Some outcome \<Rightarrow>
          if stableID \<in> seen then collect_candidates hostname sourced source threshold rs seen
          else if (case sourced of None \<Rightarrow> False | Some f \<Rightarrow> \<not> f stableID)
            then collect_candidates hostname sourced source threshold rs (insert stableID seen)
          else speed_candidate hostname source effective outcome r #
            collect_candidates hostname sourced source threshold rs (insert stableID seen))"

definition speedAutomationCandidates ::
  "(string \<Rightarrow> string) \<Rightarrow> speed_result list \<Rightarrow> string \<Rightarrow> rat \<Rightarrow> (string \<Rightarrow> bool) option \<Rightarrow>
   startRequest list" where
  "speedAutomationCandidates hostname results source0 threshold sourced =
     (let source1 = TrimSpace source0; source = (if source1 = [] then ''unknown'' else source1)
      in sortStartRequests (collect_candidates hostname sourced source threshold results {}))"

definition refusalDetail :: "remote_error \<Rightarrow> string \<times> bool" where
  "refusalDetail e = (case e of
     ErrUnavailableAgent \<Rightarrow> (''no healthy idle diagnostic agent is connected'', True)
   | ErrOnlyNodeHostAgent \<Rightarrow> (''only an agent on the node's own host is idle'', True)
   | ErrNodeAddressUnresolved \<Rightarrow> (''node address could not be resolved'', False)
   | ErrAutomaticPaused \<Rightarrow> (''automatic diagnostics are paused by maintenance'', False)
   | ErrDisabled \<Rightarrow> (''remote diagnostics are disabled'', False)
   | _ \<Rightarrow> (''automatic diagnostic could not be started'', False))"

definition request_handle :: "startRequest \<Rightarrow> time \<Rightarrow> string \<Rightarrow> Handle" where
  "request_handle r now detail =
     \<lparr>ha_StableID = st_stableID r, ha_SessionID = [], ha_State = Unavailable, ha_Detail = detail,
      ha_Outcome = st_outcome r, ha_Threshold = st_threshold r, ha_StartedAt = now, ha_request = r,
      ha_retry = None\<rparr>"

definition deferredRetryInterval :: "automation_config \<Rightarrow> duration" where
  "deferredRetryInterval cfg = au_PollInterval cfg * 10"

definition deferredHandle :: "automation_config \<Rightarrow> startRequest \<Rightarrow> time \<Rightarrow> string \<Rightarrow> Handle" where
  "deferredHandle cfg r0 now detail =
     (let r = r0\<lparr>st_notBefore := now + deferredRetryInterval cfg\<rparr>
      in (request_handle r now detail)\<lparr>ha_retry := Some r\<rparr>)"

definition speed_context :: "startRequest \<Rightarrow> AutomationContext" where
  "speed_context r =
     \<lparr>a_Kind = AutomationKindSpeedFallback, a_Outcome = st_outcome r, a_Source = st_source r,
      a_ThresholdMbps = st_threshold r, a_ObservedMbps = st_observedMbps r,
      a_FallbackAttempts = st_fallbackAttempts r, a_MeasuredBytes = st_measuredBytes r,
      a_SpeedServerID = st_speedServerID r\<rparr>"

definition startSpeed ::
  "'s session_controller \<Rightarrow> time \<Rightarrow> startRequest \<Rightarrow> 's coordinator \<Rightarrow> 's coordinator \<times> Handle" where
  "startSpeed sc now r c0 =
     (let c = pruneLocked sc now c0 in
      case map_of (co_entries c) (st_stableID r) of Some h \<Rightarrow> (c, h)
      | None \<Rightarrow>
          (let (c1, active) = activeLocked sc c in
           if active \<ge> au_MaxConcurrent (co_config c1)
           then (c1, deferredHandle (co_config c1) r now ''automation capacity is busy'')
           else (case sc_create sc \<lparr>ar_StableID = st_stableID r, ar_Trigger = TriggerAutoSpeedFallback,
                   ar_ProfileID = ProfileDownload, ar_AutomationContext = speed_context r\<rparr>
                   (co_controller c1) of
               (s2, Inl e) \<Rightarrow>
                 (c1\<lparr>co_controller := s2\<rparr>,
                  (case refusalDetail e of (detail, transient) \<Rightarrow>
                     if transient then deferredHandle (co_config c1) r now detail
                     else request_handle r now detail))
             | (s2, Inr v) \<Rightarrow>
                 (let h = (request_handle r now [])\<lparr>ha_SessionID := view_id v, ha_State := Running\<rparr>
                  in (c1\<lparr>co_controller := s2,
                        co_entries := AList.update (st_stableID r) h (co_entries c1)\<rparr>, h)))))"

text \<open>One start per candidate, each with its own reading of the clock.\<close>

fun start_all ::
  "'s session_controller \<Rightarrow> (nat \<Rightarrow> time) \<Rightarrow> nat \<Rightarrow> startRequest list \<Rightarrow> (string \<times> Handle) list \<Rightarrow>
   's coordinator \<Rightarrow> 's coordinator \<times> (string \<times> Handle) list" where
  "start_all sc clock n [] hs c = (c, hs)"
| "start_all sc clock n (r # rs) hs c =
     (let (c1, h) = startSpeed sc (clock n) r c
      in start_all sc clock (Suc n) rs (AList.update (st_stableID r) h hs) c1)"

definition StartSpeedDiagnostics ::
  "'s session_controller \<Rightarrow> (string \<Rightarrow> string) \<Rightarrow> (nat \<Rightarrow> time) \<Rightarrow> speed_result list \<Rightarrow> string \<Rightarrow>
   rat \<Rightarrow> 's coordinator \<Rightarrow> 's coordinator \<times> (string \<times> Handle) list" where
  "StartSpeedDiagnostics sc hostname clock results source threshold c =
     (if \<not> automation_Enabled sc c then (c, [])
      else start_all sc clock 0 (speedAutomationCandidates hostname results source threshold
             (au_EnvironmentSourced (co_config c))) [] c)"

definition resumeDeferred ::
  "'s session_controller \<Rightarrow> (nat \<Rightarrow> time) \<Rightarrow> (string \<times> Handle) list \<Rightarrow> 's coordinator \<Rightarrow>
   's coordinator \<times> (string \<times> Handle) list" where
  "resumeDeferred sc clock hs c =
     (let deferred = concat (map (\<lambda>(i, h). case ha_retry h of None \<Rightarrow> []
            | Some r \<Rightarrow> if clock 0 < st_notBefore r then [] else [r]) hs)
      in start_all sc clock 1 (sortStartRequests deferred) hs c)"

subsection \<open>Annotations\<close>

definition availabilityKind :: "string \<Rightarrow> bool" where
  "availabilityKind kind \<longleftrightarrow> kind = AutomationKindProxyFailure \<or> kind = AutomationKindOffline"

definition judge_handle :: "Handle \<Rightarrow> AcceptedObservation \<Rightarrow> Verdict \<times> Reason" where
  "judge_handle h a =
     (if availabilityKind (st_kind (ha_request h))
          then JudgeAvailability (c_Observation a) (c_Reliable a)
          else JudgeSpeed \<lparr>k_Outcome = ha_Outcome h, k_ThresholdMbps = ha_Threshold h,
                 k_ObservedMbps = st_observedMbps (ha_request h),
                 k_ServerID = st_speedServerID (ha_request h)\<rparr> (c_Observation a) (c_Reliable a))"

definition annotation :: "'s session_controller \<Rightarrow> Handle \<Rightarrow> 's \<Rightarrow> 's \<times> AgentDiagnostic" where
  "annotation sc h s =
     (let plain = \<lparr>ad_State = ha_State h, ad_Detail = ha_Detail h, ad_SessionID = ha_SessionID h,
            ad_AgentID = [], ad_Observation = None\<rparr>
      in if ha_SessionID h = [] then (s, plain)
         else (case sc_session sc (ha_SessionID h) s of
             (s1, None) \<Rightarrow> (s1, plain\<lparr>ad_State := Unavailable,
                 ad_Detail := ''diagnostic session is no longer available''\<rparr>)
           | (s1, Some v) \<Rightarrow> (s1,
               if s_AgentObservations v = [] then
                 (let asked = plain\<lparr>ad_AgentID := if s_RequestedAgents v = [] then [] else hd (s_RequestedAgents v)\<rparr>
                  in if s_terminal (s_State v)
                     then asked\<lparr>ad_State := Unavailable,
                            ad_Detail := ''no signed remote observation was received''\<rparr>
                     else asked\<lparr>ad_State := Running\<rparr>)
               else
                 (let a = last (s_AgentObservations v);
                      i = o_AgentID (c_Observation a)
                  in plain\<lparr>ad_AgentID := (if i = [] \<and> s_RequestedAgents v \<noteq> [] then hd (s_RequestedAgents v) else i),
                         ad_Observation := Some a, ad_State := (case judge_handle h a of (v, reason) \<Rightarrow> Judged v reason), ad_Detail := []\<rparr>))))"

definition hasDeferred :: "(string \<times> Handle) list \<Rightarrow> bool" where
  "hasDeferred hs \<longleftrightarrow> list_ex (\<lambda>(i, h). ha_retry h \<noteq> None) hs"

fun Annotations :: "'s session_controller \<Rightarrow> (string \<times> Handle) list \<Rightarrow> 's coordinator \<Rightarrow>
    's coordinator \<times> (string \<times> AgentDiagnostic) list" where
  "Annotations sc [] c = (c, [])"
| "Annotations sc ((i, h) # hs) c =
     (let (s1, a) = annotation sc h (co_controller c);
          (c1, rest) = Annotations sc hs (c\<lparr>co_controller := s1\<rparr>)
      in (c1, (i, a) # rest))"

definition any_running :: "(string \<times> AgentDiagnostic) list \<Rightarrow> bool" where
  "any_running as = list_ex (\<lambda>(i, a). ad_State a = Running) as"

text \<open>
  The wait of an alert. Each further tick of the ticker comes with the clock of its round and what
  others did to the coordinator before it; the context ends when the ticks do.
\<close>

fun Await ::
  "'s session_controller \<Rightarrow> (nat \<Rightarrow> time) \<Rightarrow> (('s coordinator \<Rightarrow> 's coordinator) \<times> (nat \<Rightarrow> time)) list \<Rightarrow>
   (string \<times> Handle) list \<Rightarrow> 's coordinator \<Rightarrow> 's coordinator \<times> (string \<times> AgentDiagnostic) list" where
  "Await sc clock ticks hs c =
     (if hs = [] then (c, [])
      else
        (let (c1, current) = resumeDeferred sc clock hs c;
             (c2, annotations) = Annotations sc current c1
         in if \<not> (hasDeferred current \<or> any_running annotations) then (c2, annotations)
            else (case ticks of [] \<Rightarrow> (c2, annotations)
              | (others, clock') # rest \<Rightarrow> Await sc clock' rest current (others c2))))"

subsection \<open>Availability failures\<close>

record AvailabilityFailure =
  af_StableID :: string
  af_Kind :: string
  af_Since :: time

definition ProxyFailureEnabled :: "'s session_controller \<Rightarrow> 's coordinator \<Rightarrow> bool" where
  "ProxyFailureEnabled sc c \<longleftrightarrow> automation_Enabled sc c \<and> au_ProxyFailureEnabled (co_config c)"

definition OfflineEnabled :: "'s session_controller \<Rightarrow> 's coordinator \<Rightarrow> bool" where
  "OfflineEnabled sc c \<longleftrightarrow> automation_Enabled sc c \<and> au_OfflineEnabled (co_config c)"

definition AvailabilityEnabled :: "'s session_controller \<Rightarrow> 's coordinator \<Rightarrow> bool" where
  "AvailabilityEnabled sc c \<longleftrightarrow> ProxyFailureEnabled sc c \<or> OfflineEnabled sc c"

definition availabilityKindEnabled :: "'s session_controller \<Rightarrow> string \<Rightarrow> 's coordinator \<Rightarrow> bool" where
  "availabilityKindEnabled sc kind c =
     (if kind = AutomationKindProxyFailure then ProxyFailureEnabled sc c
      else if kind = AutomationKindOffline then OfflineEnabled sc c
      else False)"

definition failure_before :: "AvailabilityFailure \<Rightarrow> AvailabilityFailure \<Rightarrow> bool" where
  "failure_before f g \<longleftrightarrow>
     (if af_Since f \<noteq> af_Since g then af_Since f < af_Since g else af_StableID f < af_StableID g)"

definition normal_failure :: "AvailabilityFailure \<Rightarrow> AvailabilityFailure" where
  "normal_failure f = f\<lparr>af_StableID := TrimSpace (af_StableID f),
     af_Kind := if af_Kind f \<noteq> AutomationKindOffline then AutomationKindProxyFailure else af_Kind f\<rparr>"

fun collect_failures ::
  "(string \<Rightarrow> bool) option \<Rightarrow> AvailabilityFailure list \<Rightarrow> string set \<Rightarrow>
   AvailabilityFailure list \<times> string set" where
  "collect_failures sourced [] current = ([], current)"
| "collect_failures sourced (f # fs) current =
     (let i = TrimSpace (af_StableID f) in
      if i = [] \<or> i \<in> current then collect_failures sourced fs current
      else
        (let (rest, current1) = collect_failures sourced fs (insert i current) in
         (if (case sourced of None \<Rightarrow> False | Some g \<Rightarrow> \<not> g i) then rest else normal_failure f # rest,
          current1)))"

definition availabilityCandidates ::
  "AvailabilityFailure list \<Rightarrow> (string \<Rightarrow> bool) option \<Rightarrow> AvailabilityFailure list \<times> string set" where
  "availabilityCandidates failures sourced =
     (let (candidates, current) = collect_failures sourced failures {}
      in (sort_slice failure_before candidates, current))"

definition availabilityNeedsProbeLocked ::
  "'s session_controller \<Rightarrow> duration \<Rightarrow> availabilityEntry \<Rightarrow> string \<Rightarrow> time \<Rightarrow> time \<Rightarrow> 's \<Rightarrow> 's \<times> bool" where
  "availabilityNeedsProbeLocked sc cooldown e kind since now s =
     (if ha_SessionID (ae_handle e) = [] then (s, True)
      else
        (let (s1, found) = sc_session sc (ha_SessionID (ae_handle e)) s in
         if (case found of None \<Rightarrow> False | Some v \<Rightarrow> \<not> s_terminal (s_State v)) then (s1, False)
         else
           (let answered = (case found of None \<Rightarrow> ae_final e \<noteq> None
                  | Some v \<Rightarrow> s_AgentObservations v \<noteq> [])
            in (s1, if \<not> answered then True
                    else if ae_kind e \<noteq> kind then True
                    else if ae_since e = since then False
                    else now - ha_StartedAt (ae_handle e) \<ge> cooldown))))"

definition failure_request :: "automation_config \<Rightarrow> AvailabilityFailure \<Rightarrow> startRequest" where
  "failure_request cfg f =
     \<lparr>st_stableID = af_StableID f, st_kind = af_Kind f,
      st_profileID = (if af_Kind f = AutomationKindOffline then au_OfflineProfileID cfg
                      else au_ProxyFailureProfileID cfg),
      st_source = AutomationSourceAvailability, st_outcome = [], st_threshold = 0, st_observedMbps = 0,
      st_measuredBytes = 0, st_fallbackAttempts = 0, st_shortfall = 0, st_speedServerID = [],
      st_notBefore = 0\<rparr>"

definition put_entry :: "AvailabilityFailure \<Rightarrow> Handle \<Rightarrow> 's coordinator \<Rightarrow> 's coordinator" where
  "put_entry f h c = c\<lparr>co_availability := AList.update (af_StableID f)
     \<lparr>ae_kind = af_Kind f, ae_since = af_Since f, ae_handle = h, ae_final = None, ae_journaled = False\<rparr>
     (co_availability c)\<rparr>"

definition startAvailability ::
  "'s session_controller \<Rightarrow> AvailabilityFailure \<Rightarrow> time \<Rightarrow> 's coordinator \<Rightarrow> 's coordinator" where
  "startAvailability sc f now c0 =
     (let (c, needed) = (case map_of (co_availability c0) (af_StableID f) of None \<Rightarrow> (c0, True)
            | Some e \<Rightarrow> (let (s1, b) = availabilityNeedsProbeLocked sc (au_Cooldown (co_config c0)) e
                  (af_Kind f) (af_Since f) now (co_controller c0) in (c0\<lparr>co_controller := s1\<rparr>, b)))
      in if \<not> needed then c
         else
           (let r = failure_request (co_config c) f; (c1, active) = activeLocked sc c in
            if active \<ge> au_MaxConcurrent (co_config c1)
            then put_entry f (request_handle r now ''automation capacity is busy'') c1
            else (case sc_create sc \<lparr>ar_StableID = af_StableID f,
                    ar_Trigger = (if af_Kind f = AutomationKindOffline then TriggerAutoOffline
                                  else TriggerAutoProxyFailure),
                    ar_ProfileID = st_profileID r,
                    ar_AutomationContext = (if af_Kind f = AutomationKindOffline
                      then OfflineAutomationContext else ProxyFailureAutomationContext)\<rparr>
                    (co_controller c1) of
                (s2, Inl e) \<Rightarrow> put_entry f (request_handle r now (fst (refusalDetail e)))
                    (c1\<lparr>co_controller := s2\<rparr>)
              | (s2, Inr v) \<Rightarrow> put_entry f
                    ((request_handle r now [])\<lparr>ha_SessionID := view_id v, ha_State := Running\<rparr>)
                    (c1\<lparr>co_controller := s2\<rparr>))))"

record journal_entry =
  jl_StableID :: string
  jl_Kind :: string
  jl_SessionID :: string
  jl_Verdict :: diagnostic_state
  jl_Detail :: string

definition availabilityRecord :: "availabilityEntry \<Rightarrow> AgentDiagnostic \<Rightarrow> journal_entry" where
  "availabilityRecord e a =
     \<lparr>jl_StableID = ha_StableID (ae_handle e), jl_Kind = ae_kind e,
      jl_SessionID = ha_SessionID (ae_handle e), jl_Verdict = ad_State a, jl_Detail = ad_Detail a\<rparr>"

fun prune_availability ::
  "'s session_controller \<Rightarrow> duration \<Rightarrow> time \<Rightarrow> string set \<Rightarrow> (string \<times> availabilityEntry) list \<Rightarrow> 's \<Rightarrow>
   's \<times> (string \<times> availabilityEntry) list \<times> journal_entry list" where
  "prune_availability sc cooldown now current [] s = (s, [], [])"
| "prune_availability sc cooldown now current ((i, e) # es) s =
     (let h = ae_handle e;
          (s1, keep) = (if i \<in> current then (s, True)
             else if ha_SessionID h = [] then (s, False)
             else (case inFlightLocked sc h s of
                 (s', True) \<Rightarrow> (s', True)
               | (s', False) \<Rightarrow> (s', now - ha_StartedAt h < cooldown)));
          (s2, kept, records) = prune_availability sc cooldown now current es s1
      in (s2, if keep then (i, e) # kept else kept,
          if \<not> keep \<and> ha_SessionID h = [] \<and> \<not> ae_journaled e
          then availabilityRecord e \<lparr>ad_State = Unavailable, ad_Detail = ha_Detail h, ad_SessionID = [],
                 ad_AgentID = [], ad_Observation = None\<rparr> # records
          else records))"

definition finalAvailabilityLocked ::
  "'s session_controller \<Rightarrow> availabilityEntry \<Rightarrow> 's \<Rightarrow> 's \<times> AgentDiagnostic option" where
  "finalAvailabilityLocked sc e s =
     (case ae_final e of Some a \<Rightarrow> (s, Some a)
      | None \<Rightarrow>
          (case sc_session sc (ha_SessionID (ae_handle e)) s of
             (s1, None) \<Rightarrow> (s1, None)
           | (s1, Some v) \<Rightarrow>
               (let (s2, a) = annotation sc (ae_handle e) s1
                in (s2, if ad_State a = Running then None else Some a))))"

fun harvest_availability ::
  "'s session_controller \<Rightarrow> (string \<times> availabilityEntry) list \<Rightarrow> 's \<Rightarrow>
   's \<times> (string \<times> availabilityEntry) list \<times> journal_entry list" where
  "harvest_availability sc [] s = (s, [], [])"
| "harvest_availability sc ((i, e) # es) s =
     (if ae_journaled e \<or> ha_SessionID (ae_handle e) = [] then
        (let (s1, rest, records) = harvest_availability sc es s in (s1, (i, e) # rest, records))
      else
        (case finalAvailabilityLocked sc e s of
           (s1, None) \<Rightarrow>
             (let (s2, rest, records) = harvest_availability sc es s1 in (s2, (i, e) # rest, records))
         | (s1, Some a) \<Rightarrow>
             (let e' = e\<lparr>ae_final := if ad_Observation a \<noteq> None \<and> ae_final e = None then Some a else ae_final e,
                     ae_journaled := True\<rparr>;
                  (s2, rest, records) = harvest_availability sc es s1
              in (s2, (i, e') # rest, availabilityRecord e a # records))))"

definition StartAvailabilityDiagnostics ::
  "'s session_controller \<Rightarrow> time \<Rightarrow> AvailabilityFailure list \<Rightarrow> 's coordinator \<Rightarrow>
   's coordinator \<times> journal_entry list" where
  "StartAvailabilityDiagnostics sc now failures c =
     (if \<not> AvailabilityEnabled sc c then (c, [])
      else
        (let (candidates, current) = availabilityCandidates failures (au_EnvironmentSourced (co_config c));
             (s1, es1, harvested) = harvest_availability sc (co_availability c) (co_controller c);
             (s2, es2, released) = prune_availability sc (au_Cooldown (co_config c)) now current es1 s1;
             c1 = c\<lparr>co_availability := es2, co_controller := s2\<rparr>
         in (fold (\<lambda>f c. if availabilityKindEnabled sc (af_Kind f) c then startAvailability sc f now c else c)
               candidates c1, harvested @ released)))"

text \<open>What the agents found for the given nodes; reading an answer also keeps and journals it.\<close>

fun annotate_all ::
  "'s session_controller \<Rightarrow> string list \<Rightarrow> 's coordinator \<Rightarrow>
   's coordinator \<times> (string \<times> AgentDiagnostic) list \<times> journal_entry list" where
  "annotate_all sc [] c = (c, [], [])"
| "annotate_all sc (i0 # ids) c =
     (let i = TrimSpace i0 in
      case map_of (co_availability c) i of None \<Rightarrow> annotate_all sc ids c
      | Some e \<Rightarrow>
          (case ae_final e of
             Some a \<Rightarrow> (let (c1, rest, records) = annotate_all sc ids c in (c1, (i, a) # rest, records))
           | None \<Rightarrow>
               (let (s1, a) = annotation sc (ae_handle e) (co_controller c) in
                if ad_Observation a = None then
                  (let (c1, rest, records) = annotate_all sc ids (c\<lparr>co_controller := s1\<rparr>)
                   in (c1, (i, a) # rest, records))
                else
                  (let s2 = (if ae_journaled e then s1
                         else fst (sc_session sc (ha_SessionID (ae_handle e)) s1));
                       e' = e\<lparr>ae_final := Some a, ae_journaled := True\<rparr>;
                       (c1, rest, records) = annotate_all sc ids
                         (c\<lparr>co_controller := s2, co_availability := AList.update i e' (co_availability c)\<rparr>)
                   in (c1, (i, a) # rest,
                       if ae_journaled e then records else availabilityRecord e a # records)))))"

definition AvailabilityAnnotations ::
  "'s session_controller \<Rightarrow> string list \<Rightarrow> 's coordinator \<Rightarrow>
   's coordinator \<times> (string \<times> AgentDiagnostic) list \<times> journal_entry list" where
  "AvailabilityAnnotations sc ids c = annotate_all sc ids c"

definition measuringCount :: "'s session_controller \<Rightarrow> string set \<Rightarrow> 's coordinator \<Rightarrow> 's coordinator \<times> int" where
  "measuringCount sc wanted c =
     (let hs = map snd (filter (\<lambda>(i, h). wanted = {} \<or> i \<in> wanted) (co_entries c)) @
            map (ae_handle \<circ> snd) (filter (\<lambda>(i, e). wanted = {} \<or> i \<in> wanted) (co_availability c));
          (s1, n) = count_in_flight sc hs (co_controller c)
      in (c\<lparr>co_controller := s1\<rparr>, n))"

definition trimmed_ids :: "string list \<Rightarrow> string set" where
  "trimmed_ids ids = TrimSpace ` set ids - {[]}"

text \<open>The two other waits; the ticks are what others did to the coordinator before each of them.\<close>

fun idle_loop :: "'s session_controller \<Rightarrow> string set \<Rightarrow> ('s coordinator \<Rightarrow> 's coordinator) list \<Rightarrow>
    's coordinator \<Rightarrow> 's coordinator" where
  "idle_loop sc wanted ticks c =
     (let (c1, n) = measuringCount sc wanted c in
      if n = 0 then c1
      else (case ticks of [] \<Rightarrow> c1 | others # rest \<Rightarrow> idle_loop sc wanted rest (others c1)))"

definition AwaitIdle :: "'s session_controller \<Rightarrow> string list \<Rightarrow> ('s coordinator \<Rightarrow> 's coordinator) list \<Rightarrow>
    's coordinator \<Rightarrow> 's coordinator" where
  "AwaitIdle sc ids ticks c =
     (if \<not> automation_Enabled sc c then c else idle_loop sc (trimmed_ids ids) ticks c)"

fun AwaitAvailability :: "'s session_controller \<Rightarrow> string list \<Rightarrow> ('s coordinator \<Rightarrow> 's coordinator) list \<Rightarrow>
    's coordinator \<Rightarrow> 's coordinator \<times> (string \<times> AgentDiagnostic) list \<times> journal_entry list" where
  "AwaitAvailability sc ids ticks c =
     (if ids = [] then (c, [], [])
      else
        (let (c1, annotations, records) = AvailabilityAnnotations sc ids c in
         if \<not> any_running annotations then (c1, annotations, records)
         else (case ticks of [] \<Rightarrow> (c1, annotations, records)
           | others # rest \<Rightarrow>
               (let (c2, as, more) = AwaitAvailability sc ids rest (others c1) in (c2, as, records @ more)))))"

end
