(* ===== verification/RemoteQueue.thy ===== *)
theory RemoteQueue
  imports RemoteController DiagGuarantees
begin

text \<open>
  The queue of the remote controller and the session manager beside it: the invariant
  \<open>wf_controller\<close> (at most one job per node and agent, and no disagreement with the manager about a
  queued job), that every operation of \<open>src/remoteprobe/controller.go\<close> keeps it, what a claim
  delivers, and the steps of the controller as a step system.
\<close>

subsection \<open>The jobs a manager holds\<close>

definition job_table :: "manager \<Rightarrow> string \<Rightarrow> DiagnosticJob list" where
  "job_table m k = (case find_session m k of None \<Rightarrow> [] | Some s \<Rightarrow> map unstate (s_Jobs s))"

definition held :: "manager \<Rightarrow> DiagnosticJob set" where
  "held m = (\<Union>k. set (job_table m k))"

lemma heldI: "find_session m k = Some s \<Longrightarrow> j \<in> set (s_Jobs s) \<Longrightarrow> unstate j \<in> held m"
  by (auto simp: held_def job_table_def intro!: exI [of _ k])

lemma heldE:
  assumes "j \<in> held m"
  obtains k s j' where "find_session m k = Some s" "j' \<in> set (s_Jobs s)" "j = unstate j'"
proof -
  from assms obtain k where k: "j \<in> set (job_table m k)" by (auto simp: held_def)
  then obtain s where "find_session m k = Some s" by (cases "find_session m k") (auto simp: job_table_def)
  with k that show thesis by (auto simp: job_table_def)
qed

lemma held_frame [simp]:
  "held (m\<lparr>jobs := jb\<rparr>) = held m" "held (m\<lparr>reservedNonces := rn\<rparr>) = held m"
  "held (m\<lparr>usedNonces := un\<rparr>) = held m"
  by (simp_all add: held_def job_table_def)

lemma table_frame:
  "job_table (m\<lparr>jobs := jb\<rparr>) = job_table m" "job_table (m\<lparr>reservedNonces := rn\<rparr>) = job_table m"
  "job_table (m\<lparr>usedNonces := un\<rparr>) = job_table m"
  by (simp_all add: job_table_def fun_eq_iff)

lemma table_expire: "job_table (expireLocked now m) = job_table m"
  using shape_fields(9) [OF expire.op_shape]
  by (auto simp: fun_eq_iff job_table_def split: option.splits)

lemma held_expire [simp]: "held (expireLocked now m) = held m"
  by (simp add: held_def table_expire)

lemma table_put:
  "find_session m k = Some s \<Longrightarrow>
   job_table (put_session k s' m) = (job_table m)(k := map unstate (s_Jobs s'))"
  by (auto simp: fun_eq_iff job_table_def)

lemma held_put:
  assumes "find_session m k = Some s" and "shape s' = shape s"
  shows "held (put_session k s' m) = held m"
proof -
  have "map unstate (s_Jobs s') = job_table m k"
    using shape_fields(9) [OF assms(2)] assms(1) by (simp add: job_table_def)
  then show ?thesis by (simp add: held_def table_put [OF assms(1)] fun_upd_idem)
qed

lemma table_sub: "(\<And>k. job_table m' k = job_table m k \<or> job_table m' k = []) \<Longrightarrow> held m' \<subseteq> held m"
  unfolding held_def by (rule UN_mono) (simp, metis empty_set empty_subsetI subset_refl)

lemma held_remove: "held (removeSessionLocked k m) \<subseteq> held m"
  by (rule table_sub) (simp add: job_table_def)

lemma held_fold_remove: "held (fold removeSessionLocked ks m) \<subseteq> held m"
  by (rule table_sub) (simp add: job_table_def fold_remove_find)

lemma held_capacity: "held (fst (makeCapacityLocked order m)) \<subseteq> held m"
proof (rule table_sub)
  fix k show "job_table (fst (makeCapacityLocked order m)) k = job_table m k \<or>
      job_table (fst (makeCapacityLocked order m)) k = []"
    using evict_find [of "candidates order m" m k] by (auto simp: job_table_def makeCapacity_eq)
qed

lemma held_create:
  assumes "listing order" and wf: "wf_manager m"
  shows "held (fst (CreateSession order now newID request m)) \<subseteq> held m"
proof (cases rule: CreateSession_cases [of order now newID request m])
  case (created q sid s)
  let ?m = "fst (makeCapacityLocked order (expireLocked now m))"
  have "find_session ?m sid = None"
    using capacity_find [OF assms(1) wf_expireLocked [OF wf], of now sid] created(7) by auto
  then have "find_session (?m\<lparr>sessions := sessions ?m @ [(sid, s)]\<rparr>) = (find_session ?m)(sid \<mapsto> s)"
    by (intro ledger_append) (simp_all add: created(6) new_session_def)
  then have "held (?m\<lparr>sessions := sessions ?m @ [(sid, s)]\<rparr>) \<subseteq> held ?m"
    by (intro table_sub) (simp add: job_table_def created(6) new_session_def)
  then show ?thesis using held_capacity [of order "expireLocked now m"] by (simp add: created(9))
next
  case (full e)
  then show ?thesis using held_capacity [of order "expireLocked now m"] by simp
qed simp_all

lemma held_fresh:
  assumes wf: "wf_manager m" and "jobs m jobID = None" and "j \<in> held m"
  shows "j_JobID j \<noteq> jobID"
proof
  assume e: "j_JobID j = jobID"
  from assms(3) obtain k s j' where s: "find_session m k = Some s" "j' \<in> set (s_Jobs s)" "j = unstate j'"
    by (rule heldE)
  then obtain i where i: "i < length (s_Jobs s)" "s_Jobs s ! i = j'" by (auto simp: in_set_conv_nth)
  have "jobs m jobID = Some (k, i)"
    unfolding index_relD(1) [OF wf_managerD(6) [OF wf]]
    using i s e by (simp add: ledger_at job_ids_def job_id_def)
  then show False using assms(2) by simp
qed

lemma held_register:
  assumes wf: "wf_manager m" and r: "RegisterJob now newJob newNonce g m = (m', Inr job)"
  shows "held m' = insert job (held m)" "j_State job = Pending"
    "j_AgentID job = TrimSpace (g_AgentID g)" "validToken (j_JobID job)"
    "\<And>j. j \<in> held m \<Longrightarrow> j_JobID j \<noteq> j_JobID job"
    "\<exists>s. find_session (expireLocked now m) (TrimSpace (g_SessionID g)) = Some s \<and>
       j_StableID job = s_StableID s"
proof -
  obtain s jobID nonce where
    s: "find_session (expireLocked now m) (TrimSpace (g_SessionID g)) = Some s"
    and n: "jobs m jobID = None" and v: "validToken jobID"
    and j: "job = new_job s g (TrimSpace (g_AgentID g)) jobID nonce now (j_ExpiresAt job)"
    and m': "m' = (put_session (TrimSpace (g_SessionID g))
        (deriveSessionState now (s\<lparr>s_Jobs := s_Jobs s @ [job]\<rparr>)) (expireLocked now m))
        \<lparr>jobs := (jobs m)(jobID \<mapsto> (s_SessionID s, length (s_Jobs s))),
         reservedNonces := (reservedNonces m)(nonce_key (TrimSpace (g_AgentID g)) nonce \<mapsto> jobID)\<rparr>"
    by (rule RegisterJob_ok [OF r]) (rule that)
  have u: "unstate job = job" by (subst (1 2) j) (simp add: new_job_def unstate_def)
  have "map unstate (s_Jobs (deriveSessionState now (s\<lparr>s_Jobs := s_Jobs s @ [job]\<rparr>))) =
      map unstate (s_Jobs s) @ [job]"
    using shape_fields(9) [OF derive_shape [of now "s\<lparr>s_Jobs := s_Jobs s @ [job]\<rparr>"]] by (simp add: u)
  then have t: "job_table m' = (job_table m)(TrimSpace (g_SessionID g) :=
      job_table m (TrimSpace (g_SessionID g)) @ [job])"
    using table_put [OF s] job_table_def [of "expireLocked now m" "TrimSpace (g_SessionID g)"]
    by (simp add: m' table_frame table_expire s del: find_expireLocked)
  show "held m' = insert job (held m)" unfolding held_def t by (auto split: if_splits)
  show "j_State job = Pending" "j_AgentID job = TrimSpace (g_AgentID g)" "validToken (j_JobID job)"
    using v by (subst j, simp add: new_job_def)+
  show "\<exists>s. find_session (expireLocked now m) (TrimSpace (g_SessionID g)) = Some s \<and>
      j_StableID job = s_StableID s"
    using s by (intro exI [of _ s]) (subst j, simp add: new_job_def)
  show "j_JobID i \<noteq> j_JobID job" if "i \<in> held m" for i
    using held_fresh [OF wf n that] by (subst j) (simp add: new_job_def)
qed

lemma held_transition [simp]:
  assumes wf: "wf_manager m"
  shows "held (fst (transitionJob now jobID st m)) = held m"
proof (cases "transitionJob now jobID st m" rule: outcome_cases)
  case (1 m' e)
  then show ?thesis using transitionJob_error [OF 1] by simp
next
  case (2 m' u)
  show ?thesis
    by (rule transitionJob_ok [OF 2 [unfolded unit_eq [of u]]])
      (simp add: 2 held_put [OF jobLockedD(1) [OF wf_expireLocked [OF wf]]] derive_shape set_job_shape)
qed

lemma held_accept [simp]:
  assumes wf: "wf_manager m"
  shows "held (fst (AcceptObservation marshal verify now obs m)) = held m"
proof (cases "AcceptObservation marshal verify now obs m" rule: outcome_cases)
  case (1 m' e)
  then show ?thesis using AcceptObservation_error [OF 1] by auto
next
  case (2 m' r)
  show ?thesis
  proof (rule AcceptObservation_ok [OF 2], unfold 2 fst_conv)
    fix sid s i
    let ?u = "(set_job_state i JCompleted s)\<lparr>s_AgentObservations := s_AgentObservations s @ [r]\<rparr>"
    assume l: "jobLocked (expireLocked now m) (o_JobID obs) = Some (sid, s, i)"
      and m': "m' = (put_session sid (deriveSessionState now ?u) (expireLocked now m))
        \<lparr>usedNonces := insert (nonce_key (o_AgentID obs) (o_Nonce obs)) (usedNonces m)\<rparr>"
    note s = jobLockedD(1) [OF wf_expireLocked [OF wf] l]
    have "map unstate (s_Jobs (deriveSessionState now ?u)) = map unstate (s_Jobs s)"
      using shape_fields(9) [OF derive_shape [of now ?u]] shape_fields(9) [OF set_job_shape, of i JCompleted s]
      by simp
    then have "job_table (put_session sid (deriveSessionState now ?u) (expireLocked now m)) = job_table m"
      using job_table_def [of "expireLocked now m" sid]
      by (simp add: table_put [OF s] table_expire s fun_upd_idem del: find_expireLocked)
    then show "held m' = held m" by (simp add: m' held_def table_frame)
  qed
qed

lemma held_cancel [simp]: "held (fst (CancelSession now sid m)) = held m"
  unfolding CancelSession_eq
  by (simp add: held_put [OF _ cancelling.op_shape] split: option.split del: find_expireLocked)

lemma held_views [simp]:
  "held (fst (Session now sid m)) = held m" "held (fst (Sessions order now m)) = held m"
  by (simp_all add: Session_def Sessions_def Let_def)

lemma held_delete:
  "held (fst (DeleteSession sid m)) \<subseteq> held m" "held (fst (DeleteSessions stableID m)) \<subseteq> held m"
  by (simp_all add: DeleteSession_def DeleteSessions_def Let_def held_remove held_fold_remove)

lemma held_mark [simp]:
  assumes "wf_manager m"
  shows "held (fst (MarkJobDispatched now jobID m)) = held m"
    "held (fst (MarkJobRunning now jobID m)) = held m"
  using assms by (simp_all add: MarkJobDispatched_def MarkJobRunning_def)

subsection \<open>The queue\<close>

type_synonym queue = "(string \<times> queuedAssignment) list"

abbreviation queued_job :: "queuedAssignment \<Rightarrow> DiagnosticJob" where
  "queued_job q \<equiv> ja_Job (qa_assignment q)"

definition queue_view :: "queue \<Rightarrow> (string \<times> DiagnosticJob) list" where
  "queue_view qs = map (\<lambda>(k, q). (k, queued_job q)) qs"

definition job_target :: "DiagnosticJob \<Rightarrow> string \<times> string" where
  "job_target j = (j_StableID j, j_AgentID j)"

text \<open>
  Keys are the identifiers of the jobs, no two jobs ask one agent about one node, and a job the
  manager still holds under a queued identifier is the queued one.
\<close>

definition wf_view :: "manager \<Rightarrow> (string \<times> DiagnosticJob) list \<Rightarrow> bool" where
  "wf_view m js \<longleftrightarrow> distinct (map fst js) \<and> distinct (map (job_target \<circ> snd) js) \<and>
     (\<forall>(k, j)\<in>set js. j_JobID j = k \<and> validToken k \<and> j_State j = Pending \<and>
        (\<forall>i\<in>held m. j_JobID i = k \<longrightarrow> i = j))"

definition wf_controller :: "controller \<Rightarrow> bool" where
  "wf_controller c \<longleftrightarrow> wf_manager (ct_manager c) \<and> wf_view (ct_manager c) (queue_view (ct_assignments c))"

lemma wf_view_mono: "wf_view m js \<Longrightarrow> held m' \<subseteq> held m \<Longrightarrow> wf_view m' js"
  unfolding wf_view_def by blast

lemma wf_view_mset: "wf_view m js \<Longrightarrow> mset ks = mset js \<Longrightarrow> wf_view m ks"
proof -
  assume w: "wf_view m js" and e: "mset ks = mset js"
  have "mset (map f ks) = mset (map f js)" for f :: "string \<times> DiagnosticJob \<Rightarrow> 'a" using e by simp
  from mset_eq_imp_distinct_iff [OF this] mset_eq_imp_distinct_iff [OF this]
  show "wf_view m ks" using w unfolding wf_view_def mset_eq_setD [OF e] by blast
qed

lemma wf_view_filter: "wf_view m js \<Longrightarrow> wf_view m (filter P js)"
  by (auto simp: wf_view_def distinct_map_filter)

lemma view_filter:
  "queue_view (filter (\<lambda>(k, q). P k (queued_job q)) qs) = filter (\<lambda>(k, j). P k j) (queue_view qs)"
  by (induction qs) (auto simp: queue_view_def)

lemma view_delete: "queue_view (AList.delete k qs) = filter (\<lambda>(k', j). k' \<noteq> k) (queue_view qs)"
  unfolding AList.delete_eq by (induction qs) (auto simp: queue_view_def)

lemma view_claimed:
  "map_of qs k = Some q \<Longrightarrow> queue_view (AList.update k (q\<lparr>qa_claimed := b\<rparr>) qs) = queue_view qs"
  by (induction qs) (auto simp: queue_view_def split: if_splits)

lemma view_update:
  "distinct (map fst qs) \<Longrightarrow>
   mset (queue_view (AList.update k q qs)) = mset ((k, queued_job q) # queue_view (AList.delete k qs))"
  by (induction qs) (auto simp: queue_view_def AList.delete_idem)

subsection \<open>Every operation keeps the queue\<close>

lemma wf_controllerD:
  "wf_controller c \<Longrightarrow> wf_manager (ct_manager c)"
  "wf_controller c \<Longrightarrow> wf_view (ct_manager c) (queue_view (ct_assignments c))"
  "wf_controller c \<Longrightarrow> distinct (map fst (ct_assignments c))"
  by (auto simp: wf_controller_def wf_view_def queue_view_def comp_def case_prod_beta)

lemma wf_manager_step:
  assumes "wf_controller c" and "wf_manager m'" and "held m' \<subseteq> held (ct_manager c)"
  shows "wf_controller (c\<lparr>ct_manager := m'\<rparr>)"
  using assms by (auto simp: wf_controller_def intro: wf_view_mono)

lemma wf_drop:
  "wf_controller c \<Longrightarrow> wf_controller
     (c\<lparr>ct_assignments := filter (\<lambda>(k, q). P k (queued_job q)) (ct_assignments c)\<rparr>)"
  by (simp add: wf_controller_def view_filter wf_view_filter)

lemma wf_delete_key:
  "wf_controller c \<Longrightarrow> wf_controller (c\<lparr>ct_assignments := AList.delete k (ct_assignments c)\<rparr>)"
  by (simp add: wf_controller_def view_delete wf_view_filter)

lemma wf_expired_assignments: "wf_controller c \<Longrightarrow> wf_controller (removeExpiredAssignmentsLocked now c)"
  unfolding removeExpiredAssignmentsLocked_def by (rule wf_drop)

lemma wf_waiters [simp]: "wf_controller (c\<lparr>ct_waiters := ws\<rparr>) = wf_controller c"
  by (simp add: wf_controller_def)

lemma validToken_trim: "validToken v \<Longrightarrow> TrimSpace v = v"
  by (rule TrimSpace_solid)
    (auto simp: validToken_def validSafeValue_def list_all_iff safe_char_def solid_def Let_def dest!: bspec)

lemma CreateSession_made':
  assumes "listing order" and wf: "wf_manager m"
    and c: "CreateSession order now newID request m = (m', Inr s)"
  shows "find_session m' (s_SessionID s) = Some s \<and> validToken (s_SessionID s) \<and>
      s_StableID s = TrimSpace (q_StableID request) \<and> s_Trigger s = q_Trigger request \<and>
      set (s_RequestedAgents s) = TrimSpace ` set (q_RequestedAgents request)"
proof (cases rule: CreateSession_cases [of order now newID request m])
  case (created q sid t)
  let ?m = "fst (makeCapacityLocked order (expireLocked now m))"
  have t: "t = s" and m': "m' = ?m\<lparr>sessions := sessions ?m @ [(sid, t)]\<rparr>"
    using created(9) c by auto
  have "find_session ?m sid = None"
    using capacity_find [OF assms(1) wf_expireLocked [OF wf], of now sid] created(7) by auto
  then have "find_session m' = (find_session ?m)(sid \<mapsto> s)"
    unfolding m' t by (intro ledger_append) (simp_all add: created(6) new_session_def flip: t)
  moreover have "q_StableID q = TrimSpace (q_StableID request)" "q_Trigger q = q_Trigger request"
    by (subst created(4), simp add: trimmed_request_def Let_def)+
  moreover have "set (q_RequestedAgents q) = TrimSpace ` set (q_RequestedAgents request)"
    using normalizedAgentIDs_props [OF created(3)] by (simp add: trimmed_request_def Let_def)
  moreover have "s = new_session q sid now (SessionTTL (config m))" using created(6) t by simp
  ultimately show "find_session m' (s_SessionID s) = Some s \<and> validToken (s_SessionID s) \<and>
      s_StableID s = TrimSpace (q_StableID request) \<and> s_Trigger s = q_Trigger request \<and>
      set (s_RequestedAgents s) = TrimSpace ` set (q_RequestedAgents request)"
    using created(2) by (simp add: new_session_def)
qed (use c in auto)

lemmas CreateSession_made = CreateSession_made' [THEN conjunct1]
  CreateSession_made' [THEN conjunct2, THEN conjunct1]
  CreateSession_made' [THEN conjunct2, THEN conjunct2, THEN conjunct1]
  CreateSession_made' [THEN conjunct2, THEN conjunct2, THEN conjunct2, THEN conjunct1]
  CreateSession_made' [THEN conjunct2, THEN conjunct2, THEN conjunct2, THEN conjunct2]

lemma wf_enqueue:
  assumes wf: "wf_view m (queue_view qs)" and d: "distinct (map fst qs)"
    and h: "held m' = insert (queued_job q) (held m)" and j: "j_JobID (queued_job q) = k"
    and new: "\<And>i. i \<in> held m \<Longrightarrow> j_JobID i \<noteq> k" and p: "j_State (queued_job q) = Pending" and v: "validToken k"
    and t: "job_target (queued_job q) \<notin> (job_target \<circ> snd) ` set (queue_view qs)"
  shows "wf_view m' (queue_view (AList.update k q qs))"
proof (rule wf_view_mset [OF _ view_update [OF d]])
  have "wf_view m (filter (\<lambda>(k', j). k' \<noteq> k) (queue_view qs))" by (rule wf_view_filter [OF wf])
  moreover have "job_target (queued_job q) \<notin> (job_target \<circ> snd) ` set (filter (\<lambda>(k', j). k' \<noteq> k) (queue_view qs))"
    using t by auto
  ultimately show "wf_view m' ((k, queued_job q) # queue_view (AList.delete k qs))"
    unfolding view_delete wf_view_def using h j new p v by auto
qed

lemma held_register_error:
  "RegisterJob now newJob newNonce g m = (m', Inl e) \<Longrightarrow> held m' = held m"
  using RegisterJob_error by fastforce

lemma place_job_cases:
  assumes l: "listing (ou_order w)" and wf: "wf_manager (ct_manager c)"
    and a: "TrimSpace agentID = agentID" and i: "TrimSpace (dx_StableID sn) = dx_StableID sn"
    and q: "q_StableID request = dx_StableID sn"
  obtains (refused) e m' where "place_job w request profile agentID sn cfg c = (c\<lparr>ct_manager := m'\<rparr>, Inl (Refused e))"
      "wf_manager m'" "held m' \<subseteq> held (ct_manager c)"
  | (placed) s m1 job m2 where
      "CreateSession (ou_order w) (ou_clock w 1) (ou_ids w 0) request (ct_manager c) = (m1, Inr s)"
      "RegisterJob (ou_clock w 2) (ou_ids w 1) (ou_ids w 2) \<lparr>g_SessionID = s_SessionID s, g_AgentID = agentID,
         g_Profile = profile, g_ExpiresAt = q_ExpiresAt request\<rparr> m1 = (m2, Inr job)"
      "wf_manager m1" "held m1 \<subseteq> held (ct_manager c)" "wf_manager (fst (Session (ou_clock w 4) (s_SessionID s) m2))"
      "held (fst (Session (ou_clock w 4) (s_SessionID s) m2)) = insert job (held m1)"
      "j_StableID job = dx_StableID sn" "j_AgentID job = agentID"
      "place_job w request profile agentID sn cfg c = (signalAgentLocked agentID
         (c\<lparr>ct_manager := fst (Session (ou_clock w 4) (s_SessionID s) m2),
            ct_assignments := AList.update (j_JobID job) \<lparr>qa_assignment = \<lparr>ja_Job = job, ja_XrayConfig = cfg,
                ja_SocksPort = cc_SocksPort (ct_config c), ja_TargetHost = dx_Server sn,
                ja_TargetPort = dx_Port sn, ja_TargetSNI = TrimSpace (dx_SNI sn)\<rparr>, qa_claimed = False\<rparr>
              (ct_assignments c)\<rparr>), Inr (snd (Session (ou_clock w 4) (s_SessionID s) m2)))"
proof (cases "CreateSession (ou_order w) (ou_clock w 1) (ou_ids w 0) request (ct_manager c)" rule: outcome_cases)
  case (1 m1 e)
  then show thesis
    using CreateSession_wf [OF l wf, of "ou_clock w 1" "ou_ids w 0" request]
      held_create [OF l wf, of "ou_clock w 1" "ou_ids w 0" request]
    by (intro refused [of m1 e]) (simp_all add: place_job_def del: One_nat_def)
next
  case C: (2 m1 s)
  have m1: "wf_manager m1" "held m1 \<subseteq> held (ct_manager c)"
    using CreateSession_wf [OF l wf, of "ou_clock w 1" "ou_ids w 0" request]
      held_create [OF l wf, of "ou_clock w 1" "ou_ids w 0" request] C by simp_all
  let ?g = "\<lparr>g_SessionID = s_SessionID s, g_AgentID = agentID, g_Profile = profile,
      g_ExpiresAt = q_ExpiresAt request\<rparr>"
  show thesis
  proof (cases "RegisterJob (ou_clock w 2) (ou_ids w 1) (ou_ids w 2) ?g m1" rule: outcome_cases)
    case (1 m2 e)
    have "wf_manager m2" using RegisterJob_wf [OF m1(1), of "ou_clock w 2" "ou_ids w 1" "ou_ids w 2" ?g] 1 by simp
    then show thesis using m1(2) held_register_error [OF 1]
      by (intro refused [of "fst (CancelSession (ou_clock w 3) (s_SessionID s) m2)" e])
        (simp_all add: place_job_def C 1 CancelSession_wf del: One_nat_def)
  next
    case R: (2 m2 job)
    have "wf_manager m2" using RegisterJob_wf [OF m1(1), of "ou_clock w 2" "ou_ids w 1" "ou_ids w 2" ?g] R by simp
    moreover obtain t where "find_session (expireLocked (ou_clock w 2) m1) (TrimSpace (s_SessionID s)) = Some t"
        "j_StableID job = s_StableID t"
      using held_register(6) [OF m1(1) R] by auto
    then have "j_StableID job = dx_StableID sn"
      using CreateSession_made [OF l wf C] validToken_trim i q shape_fields(3) [OF expire.op_shape]
      by auto
    ultimately show thesis
      using held_register(1,3) [OF m1(1) R] a
      by (intro placed [OF C R m1]) (simp_all add: Session_wf place_job_def C R Let_def case_prod_beta del: One_nat_def)
  qed
qed

lemma update_mem: "v \<in> snd ` set (AList.update k v xs)"
  by (induction xs) auto

lemma place_job_ok:
  assumes "listing (ou_order w)" and "wf_manager (ct_manager c)" and "TrimSpace agentID = agentID"
    and "TrimSpace (dx_StableID sn) = dx_StableID sn" and "q_StableID request = dx_StableID sn"
    and p: "place_job w request profile agentID sn cfg c = (c', Inr s)"
  shows "\<exists>q\<in>snd ` set (ct_assignments c'). \<not> qa_claimed q \<and> j_AgentID (queued_job q) = agentID \<and>
    j_StableID (queued_job q) = dx_StableID sn \<and> ja_TargetHost (qa_assignment q) = dx_Server sn"
proof (cases rule: place_job_cases [OF assms(1-5), of profile cfg, case_names refused placed])
  case (placed s m1 job m2)
  then have "ct_assignments c' = AList.update (j_JobID job) \<lparr>qa_assignment = \<lparr>ja_Job = job, ja_XrayConfig = cfg,
                ja_SocksPort = cc_SocksPort (ct_config c), ja_TargetHost = dx_Server sn,
                ja_TargetPort = dx_Port sn, ja_TargetSNI = TrimSpace (dx_SNI sn)\<rparr>, qa_claimed = False\<rparr>
              (ct_assignments c)"
    using p by (auto simp: signalAgentLocked_def)
  then show ?thesis using placed(7,8) by (simp only:) (rule bexI [OF _ update_mem], simp)
qed (use p in auto)

lemma place_job_wf:
  assumes l: "listing (ou_order w)" and wf: "wf_controller c"
    and a: "TrimSpace agentID = agentID" and i: "TrimSpace (dx_StableID sn) = dx_StableID sn"
    and q: "q_StableID request = dx_StableID sn"
    and t: "\<And>k x. (k, x) \<in> set (ct_assignments c) \<Longrightarrow> job_target (queued_job x) \<noteq> (dx_StableID sn, agentID)"
  shows "wf_controller (fst (place_job w request profile agentID sn cfg c))"
proof (cases rule: place_job_cases [OF l wf_controllerD(1) [OF wf] a i q, of profile cfg, case_names refused placed])
  case (refused e m')
  then show ?thesis by (simp add: wf_manager_step [OF wf])
next
  case (placed s m1 job m2)
  have "wf_view m1 (queue_view (ct_assignments c))"
    by (rule wf_view_mono [OF wf_controllerD(2) [OF wf] placed(4)])
  moreover have "(dx_StableID sn, agentID) \<notin> (job_target \<circ> snd) ` set (queue_view (ct_assignments c))"
    using t by (fastforce simp: queue_view_def)
  ultimately have "wf_view (fst (Session (ou_clock w 4) (s_SessionID s) m2)) (queue_view
      (AList.update (j_JobID job) q (ct_assignments c)))" if "queued_job q = job" for q
    using that placed held_register(2,4,5) [OF placed(3,2)]
    by (intro wf_enqueue [OF _ wf_controllerD(3) [OF wf] placed(6) [folded that]]) (simp_all add: job_target_def)
  then show ?thesis using placed(5) by (simp add: placed(9) signalAgentLocked_def wf_controller_def)
qed

text \<open>
  What is relied on outside: Go's map iteration lists every entry once, and the registry keeps its
  agents under trimmed identifiers.
\<close>

definition sane_outside :: "outside \<Rightarrow> bool" where
  "sane_outside w \<longleftrightarrow> listing (ou_order w) \<and> (\<forall>a\<in>set (ou_agents w). TrimSpace (ag_AgentID a) = ag_AgentID a)"

lemma executionSnapshotD:
  assumes "executionSnapshot w i = Some (sn, cfg, fp)"
  shows "sn \<in> set (ou_nodes w)" "dx_StableID sn = TrimSpace i" "ou_generate w sn = Some cfg"
    "fp = ou_digest w cfg" "TrimSpace (dx_StableID sn) = dx_StableID sn" "cfg \<noteq> []"
  using assms
  by (auto simp: executionSnapshot_def DiagnosticSnapshot_def Let_def dest!: find_SomeD
      split: option.splits if_splits)

definition targeted_request ::
  "targetedRequest \<Rightarrow> DiagnosticProxySnapshot \<Rightarrow> string \<Rightarrow> time \<Rightarrow> CreateSessionRequest" where
  "targeted_request r sn fingerprint expiresAt =
     \<lparr>q_StableID = dx_StableID sn, q_Trigger = tr_Trigger r, q_ConfigGeneration = dx_Generation sn,
      q_ConfigFingerprint = fingerprint, q_LocalResultSnapshot = localResult (dx_Status sn),
      q_AutomationContext = empty_context, q_RequestedAgents = [TrimSpace (tr_AgentID r)],
      q_MaintenanceDiagnostic = dx_Maintenance sn, q_ExpiresAt = expiresAt\<rparr>"

lemma createTargeted_cases:
  obtains (early) e where "createTargeted w r c = (c, Inl e)"
  | (active) e where "createTargeted w r c = (removeExpiredAssignmentsLocked (ou_clock w 0) c, Inl e)"
  | (placing) a d sn cfg fp where "find (\<lambda>a. ag_AgentID a = TrimSpace (tr_AgentID r)) (ou_agents w) = Some a"
      "ag_Enabled a" "ag_Connected a" "executionSnapshot w (TrimSpace (tr_StableID r)) = Some (sn, cfg, fp)"
      "\<not> (dx_Maintenance sn \<and> Automatic (tr_Trigger r))"
      "\<And>k q. (k, q) \<in> set (ct_assignments (removeExpiredAssignmentsLocked (ou_clock w 0) c)) \<Longrightarrow>
         job_target (queued_job q) \<noteq> (dx_StableID sn, TrimSpace (tr_AgentID r))"
      "createTargeted w r c = place_job w (targeted_request r sn fp (ou_clock w 0 + cc_JobTTL (ct_config c)))
         (TestProfileFor d (alternative_for d (ag_Capabilities a))) (TrimSpace (tr_AgentID r)) sn cfg
         (removeExpiredAssignmentsLocked (ou_clock w 0) c)"
proof -
  let ?f = "find (\<lambda>a. ag_AgentID a = TrimSpace (tr_AgentID r)) (ou_agents w)"
  let ?ready = "\<lambda>a. \<not> (\<not> ag_Enabled a \<or> \<not> ag_Connected a \<or> CapabilityControlV1 \<notin> set (ag_Capabilities a) \<or>
      CapabilityDiagnosticV1 \<notin> set (ag_Capabilities a))"
  let ?c1 = "removeExpiredAssignmentsLocked (ou_clock w 0) c"
  show thesis
  proof (cases "\<not> Enabled w c \<or> (Automatic (tr_Trigger r) \<and> ou_projectMaintenance w 0) \<or> ?f = None \<or>
      \<not> ?ready (the ?f) \<or> isl (resolveProfile c (tr_ProfileID r) (ag_Capabilities (the ?f))) \<or>
      executionSnapshot w (TrimSpace (tr_StableID r)) = None")
    case True
    then have "\<exists>e. createTargeted w r c = (c, Inl e)"
      by (cases ?f; cases "executionSnapshot w (TrimSpace (tr_StableID r))";
          cases "resolveProfile c (tr_ProfileID r) (ag_Capabilities (the ?f))")
        (auto simp: createTargeted_def Let_def)
    then show thesis using early by blast
  next
    case False
    then obtain a d sn cfg fp where f: "?f = Some a" "?ready a" and d: "resolveProfile c (tr_ProfileID r) (ag_Capabilities a) = Inr d"
      and sn: "executionSnapshot w (TrimSpace (tr_StableID r)) = Some (sn, cfg, fp)"
      and en: "Enabled w c" "\<not> (Automatic (tr_Trigger r) \<and> ou_projectMaintenance w 0)"
      by (cases ?f; cases "executionSnapshot w (TrimSpace (tr_StableID r))";
          cases "resolveProfile c (tr_ProfileID r) (ag_Capabilities (the ?f))") auto
    have eq: "createTargeted w r c =
        (if dx_Maintenance sn \<and> Automatic (tr_Trigger r) then (c, Inl ErrAutomaticPaused)
         else if list_ex (\<lambda>(k, q). j_StableID (queued_job q) = dx_StableID sn \<and>
             j_AgentID (queued_job q) = TrimSpace (tr_AgentID r)) (ct_assignments ?c1) then (?c1, Inl ErrActiveSession)
         else place_job w (targeted_request r sn fp (ou_clock w 0 + cc_JobTTL (ct_config c)))
           (TestProfileFor d (alternative_for d (ag_Capabilities a))) (TrimSpace (tr_AgentID r)) sn cfg ?c1)"
      unfolding createTargeted_def Let_def f(1) option.case d sum.case sn prod.case
      using f(2) en by (simp only: targeted_request_def if_False if_True not_True_eq_False simp_thms)
    show thesis
      using eq f sn early active placing [of a sn cfg fp d]
      by (auto simp: list_ex_iff job_target_def split: if_splits)
  qed
qed

definition automatic_request ::
  "CreateAutomaticRequest \<Rightarrow> DiagnosticProxySnapshot \<Rightarrow> string \<Rightarrow> string \<Rightarrow> time \<Rightarrow> CreateSessionRequest" where
  "automatic_request r sn fingerprint agentID expiresAt =
     \<lparr>q_StableID = dx_StableID sn, q_Trigger = ar_Trigger r, q_ConfigGeneration = dx_Generation sn,
      q_ConfigFingerprint = fingerprint, q_LocalResultSnapshot = localResult (dx_Status sn),
      q_AutomationContext = ar_AutomationContext r, q_RequestedAgents = [agentID],
      q_MaintenanceDiagnostic = False, q_ExpiresAt = expiresAt\<rparr>"

definition busy_agents :: "controller \<Rightarrow> string set" where
  "busy_agents c = (\<lambda>(k, q). j_AgentID (queued_job q)) ` set (ct_assignments c)"

lemma preferredAgent_mem:
  assumes "eligible \<noteq> []"
  shows "preferredAgent w i eligible \<in> set eligible"
proof -
  have "find (\<lambda>a. ag_AgentID a = x) (rev eligible) = Some a \<Longrightarrow> a \<in> set eligible" for x a
    by (auto dest: find_SomeD)
  moreover have "find P xs = Some y \<Longrightarrow> P y" for P xs and y :: string by (auto dest: find_SomeD)
  ultimately show ?thesis using assms
    by (fastforce simp: preferredAgent_def Let_def split: option.splits)
qed

lemma set_insort_slice: "set (insort_slice lt x ys) = insert x (set ys)"
  by (induction ys) auto

lemma set_sort_slice: "set (sort_slice lt xs) = set xs"
  unfolding sort_slice_def by (induction xs) (simp_all add: set_insort_slice)

lemma CreateAutomatic_cases:
  obtains (early) e where "CreateAutomatic w r c = (c, Inl e)"
  | (none) e where "CreateAutomatic w r c = (removeExpiredAssignmentsLocked (ou_clock w 0) c, Inl e)"
  | (placing) d sn cfg fp host a where "Enabled w c"
      "ar_Trigger r \<in> {TriggerAutoSpeedFallback, TriggerAutoProxyFailure, TriggerAutoOffline}"
      "ProfileByID (TrimSpace (ar_ProfileID r)) = Some d"
      "executionSnapshot w (TrimSpace (ar_StableID r)) = Some (sn, cfg, fp)"
      "\<not> dx_Maintenance sn" "\<not> ou_projectMaintenance w 1" "nodeHostAddresses w (dx_Server sn) = Some host"
      "a \<in> set (ou_agents w)" "\<not> runsOnNodeHost w a host"
      "can_take (busy_agents (removeExpiredAssignmentsLocked (ou_clock w 0) c)) d a"
      "CreateAutomatic w r c = place_job w
         (automatic_request r sn fp (ag_AgentID a) (ou_clock w 0 + cc_JobTTL (ct_config c)))
         (automaticProfile d (alternative_for d (ag_Capabilities a)) (ar_AutomationContext r) (ag_Capabilities a))
         (ag_AgentID a) sn cfg (removeExpiredAssignmentsLocked (ou_clock w 0) c)"
proof -
  let ?d = "ProfileByID (TrimSpace (ar_ProfileID r))"
  let ?s = "executionSnapshot w (TrimSpace (ar_StableID r))"
  let ?c1 = "removeExpiredAssignmentsLocked (ou_clock w 0) c"
  let ?t = "ar_Trigger r \<in> {TriggerAutoSpeedFallback, TriggerAutoProxyFailure, TriggerAutoOffline}"
  show thesis
  proof (cases "Enabled w c \<and> ?t \<and> \<not> ou_projectMaintenance w 0 \<and> \<not> ou_projectMaintenance w 1 \<and> ?d \<noteq> None \<and> ?s \<noteq> None \<and>
      \<not> dx_Maintenance (fst (the ?s)) \<and> nodeHostAddresses w (dx_Server (fst (the ?s))) \<noteq> None")
    case False
    then have "\<exists>e. CreateAutomatic w r c = (c, Inl e)"
      by (cases ?d; cases ?s; cases "nodeHostAddresses w (dx_Server (fst (the ?s)))")
        (auto simp: CreateAutomatic_def Let_def)
    then show thesis using early by blast
  next
    case True
    then obtain d sn cfg fp host where g: "Enabled w c" "?t" "\<not> ou_projectMaintenance w 0" "?d = Some d" "\<not> ou_projectMaintenance w 1"
      and sn: "?s = Some (sn, cfg, fp)" "\<not> dx_Maintenance sn" and h: "nodeHostAddresses w (dx_Server sn) = Some host"
      by (cases ?s) auto
    define free where "free = filter (can_take (busy_agents ?c1) d) (sort_slice agent_before (ou_agents w))"
    define eligible where "eligible = filter (\<lambda>a. \<not> runsOnNodeHost w a host) free"
    define a where "a = preferredAgent w (dx_StableID sn) eligible"
    have eq: "CreateAutomatic w r c =
        (if eligible = [] then (?c1, Inl (if list_ex (\<lambda>a. runsOnNodeHost w a host) free
            then ErrOnlyNodeHostAgent else ErrUnavailableAgent))
         else place_job w (automatic_request r sn fp (ag_AgentID a) (ou_clock w 0 + cc_JobTTL (ct_config c)))
           (automaticProfile d (alternative_for d (ag_Capabilities a)) (ar_AutomationContext r) (ag_Capabilities a))
           (ag_AgentID a) sn cfg ?c1)"
      unfolding CreateAutomatic_def g(4) sn(1) h option.case prod.case Let_def automatic_request_def
        busy_agents_def [symmetric] free_def [symmetric] eligible_def [symmetric] a_def [symmetric]
      using g(1-3,5) sn(2) by (simp only: if_False if_True not_True_eq_False not_False_eq_True simp_thms)
    show thesis
    proof (cases "eligible = []")
      case True
      then show thesis using eq none by simp
    next
      case False
      then have "a \<in> set eligible" unfolding a_def by (rule preferredAgent_mem)
      then show thesis
        using placing [OF g(1,2,4) sn g(5) h, of a] eq False
        by (simp add: eligible_def free_def set_sort_slice)
    qed
  qed
qed

lemma Targeted_wf:
  assumes o: "sane_outside w" and wf: "wf_controller c"
  shows "wf_controller (fst (createTargeted w r c))"
proof (cases rule: createTargeted_cases [of w r c])
  case (placing a d sn cfg fp)
  then show ?thesis unfolding placing(7)
    using o by (intro place_job_wf [OF _ wf_expired_assignments [OF wf]])
      (simp_all add: sane_outside_def targeted_request_def executionSnapshotD(5))
qed (simp_all add: wf wf_expired_assignments)

lemma Automatic_wf:
  assumes o: "sane_outside w" and wf: "wf_controller c"
  shows "wf_controller (fst (CreateAutomatic w r c))"
proof (cases rule: CreateAutomatic_cases [of w r c])
  case (placing d sn cfg fp host a)
  then show ?thesis unfolding placing(11)
    using o by (intro place_job_wf [OF _ wf_expired_assignments [OF wf]])
      (force simp: sane_outside_def automatic_request_def executionSnapshotD(5) can_take_def busy_agents_def
        job_target_def)+
qed (simp_all add: wf wf_expired_assignments)

subsection \<open>Delivery\<close>

lemma derive_live:
  assumes c: "s_State s \<noteq> SCancelled" and wf: "wf_core s" and t: "now < s_ExpiresAt s"
    and j: "j \<in> set (s_Jobs s)" "\<not> j_terminal (j_State j)"
  shows "\<exists>st. \<not> s_terminal st \<and> deriveSessionState now s = s\<lparr>s_State := st\<rparr>"
proof -
  have "completed_jobs s \<noteq> length (s_RequestedAgents s)"
    using all_completed [OF wf] j by (force simp: list_all_iff)
  moreover have "terminal_jobs s \<noteq> length (s_Jobs s)"
    using j by (auto simp: terminal_jobs_def filter_length_le_iff list_all_iff)
  ultimately show ?thesis using c t
    by (auto simp: deriveSessionState_def Let_def intro: exI [of _ SRunning] exI [of _ Dispatching] exI [of _ Requested])
qed

lemma expire_open:
  assumes "\<not> s_terminal (s_State (expire_session now s))"
  shows "now < s_ExpiresAt (expire_session now s)"
proof (cases "s_terminal (s_State s)")
  case True
  then show ?thesis using assms by (simp add: expire_session_def)
next
  case False
  then show ?thesis using assms
    by (cases rule: derive_cases [of "s\<lparr>s_Jobs := map (expire_job now) (s_Jobs s)\<rparr>" now])
      (auto simp: expire_session_def split: if_splits)
qed

definition job_in_state :: "manager \<Rightarrow> string \<Rightarrow> JobState \<Rightarrow> bool" where
  "job_in_state m jobID st \<longleftrightarrow> (\<exists>sid s j. find_session m sid = Some s \<and> \<not> s_terminal (s_State s) \<and>
     j \<in> set (s_Jobs s) \<and> j_JobID j = jobID \<and> j_State j = st)"

lemma transition_done:
  assumes wf: "wf_manager m" and t: "transitionJob now jobID st m = (m', Inr ())"
  shows "job_in_state m' (TrimSpace jobID) st"
proof (rule transitionJob_ok [OF t])
  fix sid s i
  assume l: "jobLocked (expireLocked now m) (TrimSpace jobID) = Some (sid, s, i)"
    and open_: "\<not> s_terminal (s_State s)" and old: "j_State (s_Jobs s ! i) \<in> {Pending, Dispatched}"
    and st: "st = Dispatched \<or> st = JRunning"
    and m': "m' = put_session sid (deriveSessionState now (set_job_state i st s)) (expireLocked now m)"
  note j = jobLockedD [OF wf_expireLocked [OF wf] l]
  let ?s = "set_job_state i st s" and ?j = "(s_Jobs s ! i)\<lparr>j_State := st\<rparr>"
  have "wf_core s" using wf_managerD(5) [OF wf_expireLocked [OF wf] j(1)] by (simp add: wf_session_def)
  then have "wf_core ?s" using wf_core_cong [of ?s s] set_job_shape set_job_completed(1) [OF j(2)] old st by force
  moreover have "now < s_ExpiresAt ?s"
    using j(1) open_ expire_open by (auto simp: set_job_state_def)
  moreover have n: "?j \<in> set (s_Jobs ?s)" using j(2) by (simp add: set_job_state_def set_update_memI)
  moreover have "s_State ?s \<noteq> SCancelled" using open_ by (auto simp: set_job_state_def)
  moreover have "\<not> j_terminal (j_State ?j)" using st by auto
  ultimately obtain st' where d: "\<not> s_terminal st'" "deriveSessionState now ?s = ?s\<lparr>s_State := st'\<rparr>"
    using derive_live by blast
  have "find_session m' sid = Some (?s\<lparr>s_State := st'\<rparr>)"
    unfolding m' d(2) by (subst find_put_session) (simp_all add: j(1) del: find_expireLocked)
  then show ?thesis unfolding job_in_state_def
    using d(1) n j(3) by (intro exI [of _ sid] exI [of _ "?s\<lparr>s_State := st'\<rparr>"] exI [of _ ?j]) simp
qed

lemma claim_step_wf:
  assumes wf: "wf_controller c"
  shows "wf_controller (c\<lparr>ct_manager := fst (MarkJobDispatched now jobID (ct_manager c))\<rparr>)"
    "wf_controller (c\<lparr>ct_manager := fst (MarkJobRunning now jobID (ct_manager c))\<rparr>)"
  using wf_controllerD(1) [OF wf]
  by (auto intro!: wf_manager_step [OF wf] transitionJob_wf simp: MarkJobDispatched_def MarkJobRunning_def)

lemma wf_claimed:
  "wf_controller c \<Longrightarrow> map_of (ct_assignments c) k = Some q \<Longrightarrow>
   wf_controller (c\<lparr>ct_assignments := AList.update k (q\<lparr>qa_claimed := b\<rparr>) (ct_assignments c)\<rparr>)"
  by (simp add: wf_controller_def view_claimed)

lemma claim_loop_wf:
  "wf_controller c \<Longrightarrow> wf_controller (fst (claim_loop clock n agentID ids c))"
proof (induction clock n agentID ids c rule: claim_loop.induct)
  case (2 clock n agentID jobID ids c)
  show ?case
  proof (cases "map_of (ct_assignments c) jobID")
    case None
    then show ?thesis using "2.IH"(1) "2.prems" by simp
  next
    case q: (Some q)
    note w1 = claim_step_wf(1) [OF "2.prems", of "clock (n + 1)" jobID]
    have w2: "wf_controller (c\<lparr>ct_manager := fst (MarkJobRunning (clock (n + 2)) jobID
        (fst (MarkJobDispatched (clock (n + 1)) jobID (ct_manager c))))\<rparr>)"
      using claim_step_wf(2) [OF w1, of "clock (n + 2)" jobID] by simp
    show ?thesis
      using "2.prems" "2.IH"(2,3) [OF q refl refl] q wf_delete_key [OF "2.prems", of jobID]
        wf_delete_key [OF w1, of jobID] wf_delete_key [OF w2, of jobID] wf_claimed [OF w2, of jobID q True]
      by (cases "MarkJobDispatched (clock (n + 1)) jobID (ct_manager c)" rule: outcome_cases;
          cases "MarkJobRunning (clock (n + 2)) jobID (fst (MarkJobDispatched (clock (n + 1)) jobID (ct_manager c)))"
            rule: outcome_cases)
        (simp_all add: Let_def)
  qed
qed simp

text \<open>The manager holds the delivered job, running, in a session that is still open.\<close>

definition running_as :: "manager \<Rightarrow> DiagnosticJob \<Rightarrow> bool" where
  "running_as m job \<longleftrightarrow> (\<exists>sid s. find_session m sid = Some s \<and> \<not> s_terminal (s_State s) \<and>
     job\<lparr>j_State := JRunning\<rparr> \<in> set (s_Jobs s))"

lemma running_as_queued:
  assumes wf: "wf_controller c" and k: "map_of (ct_assignments c) k = Some q"
    and j: "job_in_state (ct_manager c) k JRunning"
  shows "running_as (ct_manager c) (queued_job q)"
proof -
  from j obtain sid s j where s: "find_session (ct_manager c) sid = Some s" "\<not> s_terminal (s_State s)"
    "j \<in> set (s_Jobs s)" "j_JobID j = k" "j_State j = JRunning" by (auto simp: job_in_state_def)
  have "(k, queued_job q) \<in> set (queue_view (ct_assignments c))"
    using map_of_SomeD [OF k] by (force simp: queue_view_def)
  then have u: "unstate j = queued_job q"
    using heldI [OF s(1,3)] s(4) wf_controllerD(2) [OF wf] by (fastforce simp: wf_view_def)
  then have "(queued_job q)\<lparr>j_State := JRunning\<rparr> = j" using s(5) by (simp add: unstate_def flip: u)
  then show ?thesis using s unfolding running_as_def by blast
qed

lemma queued_key:
  assumes "wf_controller c" and "map_of (ct_assignments c) k = Some q"
  shows "j_JobID (queued_job q) = k" "TrimSpace k = k"
  using wf_controllerD(2) [OF assms(1)] map_of_SomeD [OF assms(2)] validToken_trim
  by (fastforce simp: wf_view_def queue_view_def)+

definition delivered :: "string \<Rightarrow> (nat \<Rightarrow> time) \<Rightarrow> controller \<Rightarrow> controller \<Rightarrow> JobAssignment \<Rightarrow> bool" where
  "delivered agentID clock c c' a \<longleftrightarrow> (\<exists>q t. map_of (ct_assignments c) (j_JobID (ja_Job a)) = Some q \<and>
     qa_assignment q = a \<and> j_AgentID (ja_Job a) = agentID \<and> clock t < j_ExpiresAt (ja_Job a) \<and>
     map_of (ct_assignments c') (j_JobID (ja_Job a)) = Some (q\<lparr>qa_claimed := True\<rparr>) \<and>
     (qa_claimed q \<or> running_as (ct_manager c') (ja_Job a)))"

lemma delivered_more:
  assumes "delivered agentID clock c1 c' a"
    and "\<And>k q. map_of (ct_assignments c1) k = Some q \<Longrightarrow> map_of (ct_assignments c) k = Some q"
  shows "delivered agentID clock c c' a"
  using assms unfolding delivered_def by blast

lemma claim_loop_ok:
  "wf_controller c \<Longrightarrow> claim_loop clock n agentID ids c = (c', Some (Inr a)) \<Longrightarrow>
   delivered agentID clock c c' a"
proof (induction clock n agentID ids c rule: claim_loop.induct)
  case (2 clock n agentID jobID ids c)
  show ?case
  proof (cases "map_of (ct_assignments c) jobID")
    case None
    then show ?thesis using "2.IH"(1) "2.prems" by simp
  next
    case q: (Some q)
    let ?job = "queued_job q"
    note key = queued_key [OF "2.prems"(1) q]
    consider (late) "\<not> clock n < j_ExpiresAt ?job"
      | (other) "clock n < j_ExpiresAt ?job" "j_AgentID ?job \<noteq> agentID"
      | (again) "clock n < j_ExpiresAt ?job" "j_AgentID ?job = agentID" "qa_claimed q"
      | (first) "clock n < j_ExpiresAt ?job" "j_AgentID ?job = agentID" "\<not> qa_claimed q"
      by blast
    then show ?thesis
    proof cases
      case late
      let ?c = "c\<lparr>ct_assignments := AList.delete jobID (ct_assignments c)\<rparr>"
      have "delivered agentID clock ?c c' a"
        using "2.IH"(2) [OF q refl refl _ wf_delete_key [OF "2.prems"(1)]] "2.prems"(2) late q
        by (simp add: Let_def)
      then show ?thesis by (rule delivered_more) (auto simp: delete_conv split: if_splits)
    next
      case other
      then show ?thesis using "2.IH"(3) [OF q refl refl] "2.prems" q by (simp add: Let_def)
    next
      case again
      then have "q\<lparr>qa_claimed := True\<rparr> = q" by simp
      then show ?thesis using again "2.prems"(2) q key by (auto simp: delivered_def)
    next
      case first
      note w1 = claim_step_wf(1) [OF "2.prems"(1), of "clock (n + 1)" jobID]
      obtain m1 m2 where d: "MarkJobDispatched (clock (n + 1)) jobID (ct_manager c) = (m1, Inr ())"
        and r: "MarkJobRunning (clock (n + 2)) jobID m1 = (m2, Inr ())"
        and c': "c' = c\<lparr>ct_manager := m2, ct_assignments := AList.update jobID (q\<lparr>qa_claimed := True\<rparr>) (ct_assignments c)\<rparr>"
        and a: "a = qa_assignment q"
        using first "2.prems"(2) q by (auto simp: Let_def split: prod.splits sum.splits)
      have w2: "wf_controller (c\<lparr>ct_manager := m2\<rparr>)"
        using claim_step_wf(2) [OF w1, of "clock (n + 2)" jobID] d r by simp
      have "job_in_state m2 jobID JRunning"
        using transition_done [OF wf_controllerD(1) [OF w1], of "clock (n + 2)" jobID JRunning m2] d r key(2)
        by (simp add: MarkJobRunning_def)
      then have "running_as m2 ?job" using running_as_queued [OF w2, of jobID q] q by simp
      then show ?thesis using first q key by (auto simp: delivered_def c' a update_conv)
    qed
  qed
qed simp

lemma claimNow_wf: "wf_controller c \<Longrightarrow> wf_controller (fst (claimNow clock agentID c))"
  by (simp add: claimNow_def claim_loop_wf)

subsection \<open>The remaining operations\<close>

lemma signal_taken_wf [simp]: "wf_controller (signal_taken agentID c) = wf_controller c"
  by (simp add: signal_taken_def)

lemma accept_wf:
  assumes wf: "wf_controller c"
  shows "wf_controller (fst (controller_AcceptObservation w marshal verify obs c))"
proof -
  let ?r = "AcceptObservation marshal verify (ou_clock w 0) obs (ct_manager c)"
  have w: "wf_controller (c\<lparr>ct_manager := fst ?r\<rparr>)"
    using wf_controllerD(1) [OF wf] by (intro wf_manager_step [OF wf] AcceptObservation_wf) auto
  show ?thesis using wf w wf_delete_key [OF w, of "o_JobID obs"]
    by (cases ?r rule: outcome_cases)
      (auto simp: controller_AcceptObservation_def split: option.split)
qed

lemma Cancel_wf:
  assumes wf: "wf_controller c"
  shows "wf_controller (fst (Cancel now sid c))"
proof -
  let ?r = "CancelSession now sid (ct_manager c)"
  have w: "wf_controller (c\<lparr>ct_manager := fst ?r\<rparr>)"
    using wf_controllerD(1) [OF wf] by (intro wf_manager_step [OF wf] CancelSession_wf) auto
  show ?thesis using w wf_drop [OF w, of "\<lambda>k j. j_SessionID j \<noteq> sid"]
    by (cases ?r rule: outcome_cases) (auto simp: Cancel_def)
qed

lemma Delete_wf:
  assumes wf: "wf_controller c"
  shows "wf_controller (fst (Delete sid c))"
proof -
  let ?r = "DeleteSession (TrimSpace sid) (ct_manager c)"
  have w: "wf_controller (c\<lparr>ct_manager := fst ?r\<rparr>)"
    using wf_controllerD(1) [OF wf] by (intro wf_manager_step [OF wf] DeleteSession_wf held_delete)
  show ?thesis using w wf_drop [OF w, of "\<lambda>k j. j_SessionID j \<noteq> TrimSpace sid"]
    by (cases ?r rule: outcome_cases) (auto simp: Delete_def dropAssignmentsFor_def Let_def)
qed

lemma Clear_wf:
  assumes wf: "wf_controller c"
  shows "wf_controller (fst (Clear i c))"
proof -
  have w: "wf_controller (c\<lparr>ct_manager := fst (DeleteSessions (TrimSpace i) (ct_manager c))\<rparr>)"
    using wf_controllerD(1) [OF wf] by (intro wf_manager_step [OF wf] DeleteSessions_wf held_delete)
  show ?thesis using wf_drop [OF w, of "\<lambda>k j. \<not> (TrimSpace i = [] \<or> j_StableID j = TrimSpace i)"]
    by (simp add: Clear_def dropAssignmentsFor_def Let_def case_prod_beta)
qed

lemma view_sessions_wf:
  assumes wf: "wf_controller c"
  shows "wf_controller (fst (controller_Sessions order now now2 i c))"
proof -
  have "wf_controller (c\<lparr>ct_manager := fst (Sessions order now (ct_manager c))\<rparr>)"
    using wf_controllerD(1) [OF wf] by (intro wf_manager_step [OF wf] Session_wf) auto
  then show ?thesis
    by (simp add: controller_Sessions_def Let_def case_prod_beta wf_expired_assignments)
qed

lemma view_session_wf: "wf_controller c \<Longrightarrow> wf_controller (fst (controller_Session now sid c))"
  using wf_controllerD(1) [of c] wf_manager_step [of c, OF _ Session_wf(1)]
  by (simp add: controller_Session_def Let_def case_prod_beta)

lemma controller_new:
  assumes "NewController owners cfg = Some c"
  shows "wf_controller c"
proof -
  obtain m cfg' where "c = \<lparr>ct_config = cfg', ct_manager = m, ct_assignments = [], ct_waiters = {}\<rparr>"
    "NewDiagnosticSessionManager True \<lparr>SessionTTL = 0, ObservationMaxAge = 0, ClockSkew = 0,
       MaxSessions = 0, MaxAgentsPerSession = 0\<rparr> = Inr m"
    using assms unfolding NewController_def Let_def by (auto split: sum.splits if_splits)
  then show ?thesis by (simp add: wf_controller_def New_wf wf_view_def queue_view_def)
qed

subsection \<open>The steps of a controller\<close>

inductive controller_step :: "controller \<Rightarrow> controller \<Rightarrow> bool" where
  manual: "sane_outside w \<Longrightarrow> controller_step c (fst (CreateManual w stableID agentID profileID c))"
| sweep: "sane_outside w \<Longrightarrow> controller_step c (fst (CreateSweep w stableID agentID profileID c))"
| automatic: "sane_outside w \<Longrightarrow> controller_step c (fst (CreateAutomatic w r c))"
| attempt: "controller_step c (fst (claimNow clock agentID c))"
| woken: "controller_step c (signal_taken agentID c)"
| observation: "controller_step c (fst (controller_AcceptObservation w marshal verify obs c))"
| cancelled: "controller_step c (fst (Cancel now sessionID c))"
| deleted: "controller_step c (fst (Delete sessionID c))"
| cleared: "controller_step c (fst (Clear stableID c))"
| viewed: "controller_step c (fst (controller_Session now sessionID c))"
| listed: "controller_step c (fst (controller_Sessions order now now2 stableID c))"

definition controller_start :: "controller \<Rightarrow> bool" where
  "controller_start c \<longleftrightarrow> (\<exists>owners cfg. NewController owners cfg = Some c)"

inductive_cases controller_stepE: "controller_step c c'"

lemma controller_step_wf: "controller_step c c' \<Longrightarrow> wf_controller c \<Longrightarrow> wf_controller c'"
  by (cases rule: controller_step.cases)
    (auto simp: CreateManual_def CreateSweep_def Targeted_wf Automatic_wf claimNow_wf accept_wf Cancel_wf
      Delete_wf Clear_wf view_session_wf view_sessions_wf)

interpretation remote: step_system controller_start controller_step wf_controller
  by unfold_locales (auto simp: controller_start_def controller_new controller_step_wf)

text \<open>
  A long poll is a run of the controller, if what happens while it waits is: its attempts and the
  signals it takes are steps among the others. A job it returns is handed out by one attempt in a
  controller the run had reached.
\<close>

definition waits_run :: "'s waits \<Rightarrow> bool" where
  "waits_run waits \<longleftrightarrow> (\<forall>(clock, meanwhile, how)\<in>set waits. \<forall>x. controller_step\<^sup>*\<^sup>* (snd x) (snd (meanwhile x)))"

lemma waits_run_Cons [simp]:
  "waits_run ((clock, meanwhile, how) # waits) \<longleftrightarrow>
     (\<forall>x. controller_step\<^sup>*\<^sup>* (snd x) (snd (meanwhile x))) \<and> waits_run waits"
  by (auto simp: waits_run_def)

lemma attempt_run:
  assumes "claimNow clock agentID c = (c1, r)"
  shows "controller_step\<^sup>*\<^sup>* c c1"
proof -
  have "controller_step c (fst (claimNow clock agentID c))" by (rule controller_step.attempt)
  then show ?thesis using assms by (simp add: r_into_rtranclp)
qed

lemma wait_run:
  assumes "claimNow clock agentID c = (c1, r)" and "\<forall>x. controller_step\<^sup>*\<^sup>* (snd x) (snd (meanwhile x))"
    and "meanwhile (s, c1) = (s2, c2)"
  shows "controller_step\<^sup>*\<^sup>* c c2" and "controller_step\<^sup>*\<^sup>* c (signal_taken agentID c2)"
proof -
  have "controller_step\<^sup>*\<^sup>* c1 c2" using assms(2) [THEN spec, of "(s, c1)"] assms(3) by simp
  with attempt_run [OF assms(1)] show "controller_step\<^sup>*\<^sup>* c c2" by (rule rtranclp_trans)
  then show "controller_step\<^sup>*\<^sup>* c (signal_taken agentID c2)"
    by (rule rtranclp.rtrancl_into_rtrancl) (rule controller_step.woken)
qed

lemma Claim_run:
  "waits_run waits \<Longrightarrow> controller_step\<^sup>*\<^sup>* (snd x) (snd (fst (Claim agentID waits x)))"
proof (induction agentID waits x rule: Claim.induct)
  case (2 agentID clock meanwhile how waits s c)
  obtain c1 r where e: "claimNow clock (TrimSpace agentID) c = (c1, r)" by fastforce
  obtain s2 c2 where m: "meanwhile (s, c1) = (s2, c2)" by fastforce
  note w = wait_run [where meanwhile = meanwhile, OF e _ m]
  show ?case using attempt_run [OF e] w(1) rtranclp_trans [OF w(2)] "2.prems" "2.IH" [OF e [symmetric] _ m [symmetric]] e m
    by (cases r) (auto split: sum.split wake.split)
qed simp

lemma Claim_delivers:
  "waits_run waits \<Longrightarrow> Claim agentID waits x = (y, Some (Inr a)) \<Longrightarrow>
   \<exists>clock\<in>fst ` set waits. \<exists>c. controller_step\<^sup>*\<^sup>* (snd x) c \<and>
     claimNow clock (TrimSpace agentID) c = (snd y, Some (Inr a))"
proof (induction agentID waits x rule: Claim.induct)
  case (2 agentID clock meanwhile how waits s c)
  obtain c1 r where e: "claimNow clock (TrimSpace agentID) c = (c1, r)" by fastforce
  show ?case
  proof (cases r)
    case (Some z)
    then have "claimNow clock (TrimSpace agentID) c = (snd y, Some (Inr a))"
      using "2.prems"(2) e by (auto split: sum.splits)
    then show ?thesis by auto
  next
    case None
    obtain s2 c2 where m: "meanwhile (s, c1) = (s2, c2)" by fastforce
    have how: "how = Signalled"
      and rest: "Claim agentID waits (s2, signal_taken (TrimSpace agentID) c2) = (y, Some (Inr a))"
      using "2.prems"(2) e m None by (simp_all split: wake.splits)
    have w: "controller_step\<^sup>*\<^sup>* c (signal_taken (TrimSpace agentID) c2)"
      using wait_run(2) [where meanwhile = meanwhile, OF e _ m] "2.prems"(1) by simp
    obtain clock' d where d: "clock' \<in> fst ` set waits"
      "controller_step\<^sup>*\<^sup>* (signal_taken (TrimSpace agentID) c2) d"
      "claimNow clock' (TrimSpace agentID) d = (snd y, Some (Inr a))"
      using "2.IH" [OF e [symmetric] None m [symmetric] how _ rest] "2.prems"(1) by auto
    show ?thesis using rtranclp_trans [OF w d(2)] d(1,3) by auto
  qed
qed simp

lemma queue_facts:
  assumes "wf_controller c"
  shows "distinct (map fst (ct_assignments c)) \<and>
    distinct (map (\<lambda>x. (j_StableID (queued_job (snd x)), j_AgentID (queued_job (snd x)))) (ct_assignments c)) \<and>
    (\<forall>(k, q)\<in>set (ct_assignments c). j_JobID (queued_job q) = k \<and> j_State (queued_job q) = Pending)"
  using wf_controllerD(2) [OF assms]
  by (auto simp: wf_view_def queue_view_def comp_def case_prod_beta job_target_def)

lemma queued_in_step:
  assumes "wf_controller c" and "(k, q) \<in> set (ct_assignments c)"
    and "find_session (ct_manager c) sid = Some s" and "j \<in> set (s_Jobs s)" and "j_JobID j = k"
  shows "unstate j = queued_job q"
  using wf_controllerD(2) [OF assms(1)] assms(2) heldI [OF assms(3,4)] assms(5)
  by (fastforce simp: wf_view_def queue_view_def)

end
