(* ===== verification/AutomationCalls.thy ===== *)
theory AutomationCalls
  imports Automation RemoteQueue
begin

text \<open>
  The coordinator against the interface of the session controller. \<open>reading\<close> and \<open>calling\<close> are the
  contracts of a relation on the controller's state that reading a session, or any call, keeps; then
  every operation of the coordinator keeps it. \<open>live_sessions\<close> says which sessions are open and who
  opens them, and gives the limit on sessions; \<open>settled_sessions\<close> adds that an answered session stays
  answered, and gives that an answered episode is not asked about again.
\<close>

subsection \<open>The sessions of handles\<close>

definition session_ids :: "Handle list \<Rightarrow> string set" where
  "session_ids hs = ha_SessionID ` set hs - {[]}"

lemma session_ids_simps [simp]:
  "session_ids [] = {}" "session_ids (hs @ gs) = session_ids hs \<union> session_ids gs"
  "session_ids (h # hs) = (if ha_SessionID h = [] then session_ids hs
     else insert (ha_SessionID h) (session_ids hs))"
  "finite (session_ids hs)"
  by (auto simp: session_ids_def)

lemma session_ids_mem: "h \<in> set hs \<Longrightarrow> ha_SessionID h \<noteq> [] \<Longrightarrow> ha_SessionID h \<in> session_ids hs"
  by (auto simp: session_ids_def)

lemma set_subset_update:
  "set xs \<subseteq> set (AList.update k v xs) \<union> Pair k ` set_option (map_of xs k)"
  by (induction xs) auto

lemma update_in: "(k, v) \<in> set (AList.update k v xs)"
  by (induction xs) auto

text \<open>An update loses no session but that of the entry it replaces.\<close>

lemma session_ids_update:
  "session_ids (map f (map snd xs)) \<subseteq> session_ids (map f (map snd (AList.update k v xs))) \<union>
     (ha_SessionID \<circ> f) ` set_option (map_of xs k)"
proof -
  have "(ha_SessionID \<circ> f \<circ> snd) ` set xs \<subseteq> (ha_SessionID \<circ> f \<circ> snd) ` set (AList.update k v xs) \<union>
      (ha_SessionID \<circ> f) ` set_option (map_of xs k)"
    using image_mono [OF set_subset_update [of xs k v], of "ha_SessionID \<circ> f \<circ> snd"]
    by (simp add: image_Un image_comp comp_def)
  then show ?thesis unfolding session_ids_def by (simp add: image_image comp_def) blast
qed

lemma session_ids_put:
  "ha_SessionID (f v) \<noteq> [] \<Longrightarrow> ha_SessionID (f v) \<in> session_ids (map f (map snd (AList.update k v xs)))"
  using imageI [OF update_in [of k v xs], of "f \<circ> snd"] by (intro session_ids_mem) (simp_all add: comp_def)

lemma same_handles:
  "map_of xs k = Some e \<Longrightarrow> f v = f e \<Longrightarrow>
   map (\<lambda>x. (fst x, f (snd x))) (AList.update k v xs) = map (\<lambda>x. (fst x, f (snd x))) xs"
  by (induction xs) (auto split: if_splits)

lemma same_handles_ids:
  assumes "map (\<lambda>x. (fst x, f (snd x))) ys = map (\<lambda>x. (fst x, f (snd x))) xs"
  shows "map f (map snd ys) = map f (map snd xs)"
  using arg_cong [OF assms, of "map snd"] by (simp add: comp_def)

subsection \<open>Calls that read\<close>

locale reading =
  fixes sc :: "'s session_controller"
    and rel :: "'s \<Rightarrow> 's \<Rightarrow> bool"
  assumes rel_refl [simp]: "rel s s"
    and rel_trans: "rel s s1 \<Longrightarrow> rel s1 s2 \<Longrightarrow> rel s s2"
    and rel_session: "rel s (fst (sc_session sc i s))"
begin

lemma rel_in_flight: "rel s (fst (inFlightLocked sc h s))"
  using rel_session [of s "ha_SessionID h"] by (auto simp: inFlightLocked_def split: prod.splits option.splits)

lemma rel_count: "rel s (fst (count_in_flight sc hs s))"
proof (induction hs arbitrary: s)
  case (Cons h hs)
  show ?case using rel_trans [OF rel_in_flight Cons.IH] by (simp add: Let_def case_prod_beta)
qed simp

lemma rel_abandoned: "rel s (fst (abandonedLocked sc h s))"
  using rel_session [of s "ha_SessionID h"] by (auto simp: abandonedLocked_def split: prod.splits option.splits)

lemma rel_prune_entries: "rel s (fst (prune_entries sc cd now es s))"
proof (induction es arbitrary: s)
  case (Cons e es)
  obtain i h where e: "e = (i, h)" by (cases e)
  let ?a = "abandonedLocked sc h s"
  let ?k = "if now - ha_StartedAt h < cd then (fst ?a, True) else inFlightLocked sc h (fst ?a)"
  have 1: "rel s (fst ?a)" by (rule rel_abandoned)
  have 2: "rel s (fst ?k)" using rel_trans [OF 1 rel_in_flight] 1 by auto
  show ?case
    using rel_trans [OF 1 Cons.IH] rel_trans [OF 2 Cons.IH]
    unfolding e prune_entries.simps
    by (cases ?a; cases "snd ?a"; cases ?k) (auto simp: Let_def case_prod_beta)
qed simp

lemma rel_prune_availability: "rel s (fst (prune_availability sc cd now current es s))"
proof (induction es arbitrary: s)
  case (Cons e es)
  obtain i x where e: "e = (i, x)" by (cases e)
  let ?f = "inFlightLocked sc (ae_handle x) s"
  have "rel s (fst ?f)" by (rule rel_in_flight)
  from rel_trans [OF this Cons.IH] Cons.IH [of s] show ?case
    unfolding e prune_availability.simps
    by (cases ?f; cases "snd ?f") (auto simp: Let_def case_prod_beta)
qed simp

lemma rel_annotation: "rel s (fst (annotation sc h s))"
  using rel_session [of s "ha_SessionID h"]
  by (auto simp: annotation_def Let_def split: prod.splits option.splits)

lemma rel_final: "rel s (fst (finalAvailabilityLocked sc e s))"
proof (cases "ae_final e")
  case None
  let ?s = "sc_session sc (ha_SessionID (ae_handle e)) s"
  have "rel s (fst ?s)" by (rule rel_session)
  from rel_trans [OF this rel_annotation] this show ?thesis using None
    by (cases ?s; cases "snd ?s") (auto simp: finalAvailabilityLocked_def case_prod_beta)
qed (simp add: finalAvailabilityLocked_def)

lemma rel_harvest: "rel s (fst (harvest_availability sc es s))"
proof (induction es arbitrary: s)
  case (Cons e es)
  obtain i x where e: "e = (i, x)" by (cases e)
  let ?f = "finalAvailabilityLocked sc x s"
  have "rel s (fst ?f)" by (rule rel_final)
  from rel_trans [OF this Cons.IH] Cons.IH [of s] show ?case
    unfolding e harvest_availability.simps
    by (cases ?f; cases "snd ?f") (auto simp: Let_def case_prod_beta)
qed simp

lemma rel_needs: "rel s (fst (availabilityNeedsProbeLocked sc cd e kind since now s))"
  using rel_session [of s "ha_SessionID (ae_handle e)"]
  by (simp add: availabilityNeedsProbeLocked_def Let_def case_prod_beta)

lemma rel_active: "rel (co_controller c) (co_controller (fst (activeLocked sc c)))"
  using rel_count by (simp add: activeLocked_def Let_def case_prod_beta)

lemma rel_pruned: "rel (co_controller c) (co_controller (pruneLocked sc now c))"
  using rel_prune_entries by (simp add: pruneLocked_def Let_def case_prod_beta)

lemma rel_snapshot: "rel (co_controller c) (co_controller (fst (automation_Snapshot sc now c)))"
  using rel_trans [OF rel_pruned rel_active] by (simp add: automation_Snapshot_def)

lemma rel_measuring: "rel (co_controller c) (co_controller (fst (measuringCount sc wanted c)))"
  using rel_count by (simp add: measuringCount_def Let_def case_prod_beta)

lemma rel_annotate: "rel (co_controller c) (co_controller (fst (annotate_all sc ids c)))"
proof (induction ids arbitrary: c)
  case (Cons i0 ids)
  show ?case
  proof (cases "map_of (co_availability c) (TrimSpace i0)")
    case (Some e)
    show ?thesis
    proof (cases "ae_final e")
      case None
      let ?a = "annotation sc (ae_handle e) (co_controller c)"
      let ?s = "if ae_journaled e then fst ?a else fst (sc_session sc (ha_SessionID (ae_handle e)) (fst ?a))"
      have 1: "rel (co_controller c) (fst ?a)" by (rule rel_annotation)
      moreover have 2: "rel (co_controller c) ?s" using rel_trans [OF 1 rel_session] 1 by auto
      ultimately show ?thesis
        using Some None rel_trans [OF 1 Cons.IH [of "c\<lparr>co_controller := fst ?a\<rparr>", simplified]]
          rel_trans [OF 2 Cons.IH [of "c\<lparr>co_controller := ?s, co_availability := xs\<rparr>" for xs, simplified]]
        by (simp add: Let_def case_prod_beta)
    qed (use Some Cons.IH in \<open>simp add: Let_def case_prod_beta\<close>)
  qed (use Cons.IH in simp)
qed simp

lemma rel_annotations: "rel (co_controller c) (co_controller (fst (Annotations sc hs c)))"
proof (induction hs arbitrary: c)
  case (Cons x hs)
  show ?case
    using rel_trans [OF rel_annotation Cons.IH [of "c\<lparr>co_controller := s\<rparr>" for s, simplified]]
    by (cases x) (simp add: Let_def case_prod_beta)
qed simp

end

subsection \<open>The fields each operation leaves alone\<close>

lemma active_fields [simp]:
  "co_config (fst (activeLocked sc c)) = co_config c" "co_entries (fst (activeLocked sc c)) = co_entries c"
  "co_availability (fst (activeLocked sc c)) = co_availability c"
  by (simp_all add: activeLocked_def Let_def case_prod_beta)

lemma pruned_fields [simp]:
  "co_config (pruneLocked sc now c) = co_config c" "co_availability (pruneLocked sc now c) = co_availability c"
  by (simp_all add: pruneLocked_def Let_def case_prod_beta)

lemma annotations_fields:
  "co_config (fst (Annotations sc hs c)) = co_config c \<and> co_entries (fst (Annotations sc hs c)) = co_entries c \<and>
   co_availability (fst (Annotations sc hs c)) = co_availability c"
  by (induction hs arbitrary: c) (auto simp: Let_def case_prod_beta)

lemma harvest_handles:
  "map (\<lambda>x. (fst x, ae_handle (snd x))) (fst (snd (harvest_availability sc es s))) =
   map (\<lambda>x. (fst x, ae_handle (snd x))) es"
proof (induction es arbitrary: s)
  case (Cons e es)
  obtain i x where e: "e = (i, x)" by (cases e)
  show ?case using Cons.IH
    unfolding e harvest_availability.simps
    by (cases "finalAvailabilityLocked sc x s"; cases "snd (finalAvailabilityLocked sc x s)")
      (auto simp: Let_def case_prod_beta)
qed simp

lemma annotate_handles:
  "co_config (fst (annotate_all sc ids c)) = co_config c \<and> co_entries (fst (annotate_all sc ids c)) = co_entries c \<and>
   map (\<lambda>x. (fst x, ae_handle (snd x))) (co_availability (fst (annotate_all sc ids c))) =
   map (\<lambda>x. (fst x, ae_handle (snd x))) (co_availability c)"
proof (induction ids arbitrary: c)
  case (Cons i0 ids)
  show ?case
  proof (cases "map_of (co_availability c) (TrimSpace i0)")
    case (Some e)
    have "ae_handle (e\<lparr>ae_final := f, ae_journaled := True\<rparr>) = ae_handle e" for f by simp
    note same_handles [OF Some, of ae_handle, OF this]
    then show ?thesis using Some Cons.IH by (cases "ae_final e") (simp_all add: Let_def case_prod_beta)
  qed (use Cons.IH in simp)
qed simp

text \<open>The three ways a start ends.\<close>

lemma startSpeed_cases:
  obtains (held) h where "map_of (co_entries (pruneLocked sc now c)) (st_stableID r) = Some h"
      "startSpeed sc now r c = (pruneLocked sc now c, h)"
  | (busy) h where "map_of (co_entries (pruneLocked sc now c)) (st_stableID r) = None"
      "startSpeed sc now r c = (fst (activeLocked sc (pruneLocked sc now c)), h)"
  | (refused) q s2 e h where "map_of (co_entries (pruneLocked sc now c)) (st_stableID r) = None"
      "sc_create sc q (co_controller (fst (activeLocked sc (pruneLocked sc now c)))) = (s2, Inl e)"
      "startSpeed sc now r c = ((fst (activeLocked sc (pruneLocked sc now c)))\<lparr>co_controller := s2\<rparr>, h)"
  | (made) q s2 v h where "map_of (co_entries (pruneLocked sc now c)) (st_stableID r) = None"
      "snd (activeLocked sc (pruneLocked sc now c)) < au_MaxConcurrent (co_config c)"
      "sc_create sc q (co_controller (fst (activeLocked sc (pruneLocked sc now c)))) = (s2, Inr v)"
      "ha_SessionID h = view_id v"
      "startSpeed sc now r c = ((fst (activeLocked sc (pruneLocked sc now c)))\<lparr>co_controller := s2,
         co_entries := AList.update (st_stableID r) h (co_entries (pruneLocked sc now c))\<rparr>, h)"
proof -
  let ?p = "pruneLocked sc now c"
  let ?a = "activeLocked sc ?p"
  define q where "q = \<lparr>ar_StableID = st_stableID r, ar_Trigger = TriggerAutoSpeedFallback,
      ar_ProfileID = ProfileDownload, ar_AutomationContext = speed_context r\<rparr>"
  define h where "h v = (request_handle r now [])\<lparr>ha_SessionID := view_id v, ha_State := Running\<rparr>" for v
  show thesis
  proof (cases "map_of (co_entries ?p) (st_stableID r)")
    case (Some x)
    then show thesis by (intro held [of x]) (simp_all add: startSpeed_def)
  next
    case None
    show thesis
    proof (cases "snd ?a < au_MaxConcurrent (co_config c)")
      case False
      then show thesis using None by (intro busy) (auto simp: startSpeed_def Let_def case_prod_beta)
    next
      case room: True
      obtain s2 x where m: "sc_create sc q (co_controller (fst ?a)) = (s2, x)" by fastforce
      show thesis
      proof (cases x)
        case (Inl e)
        then show thesis using None room m
          by (intro refused [of q s2 e]) (auto simp: startSpeed_def Let_def case_prod_beta q_def)
      next
        case (Inr v)
        then show thesis using None room m
          by (intro made [of q s2 v "h v"]) (auto simp: startSpeed_def Let_def case_prod_beta q_def h_def)
      qed
    qed
  qed
qed

text \<open>The ways a check's failure is handled.\<close>

definition needs_probe :: "'s session_controller \<Rightarrow> AvailabilityFailure \<Rightarrow> time \<Rightarrow> 's coordinator \<Rightarrow> 's \<times> bool" where
  "needs_probe sc f now c = (case map_of (co_availability c) (af_StableID f) of None \<Rightarrow> (co_controller c, True)
     | Some e \<Rightarrow> availabilityNeedsProbeLocked sc (au_Cooldown (co_config c)) e (af_Kind f) (af_Since f) now
         (co_controller c))"

lemma put_entry_fields [simp]:
  "co_config (put_entry f h c) = co_config c" "co_entries (put_entry f h c) = co_entries c"
  "co_controller (put_entry f h c) = co_controller c"
  by (simp_all add: put_entry_def)

lemma startAvailability_cases:
  obtains (answered) "\<not> snd (needs_probe sc f now c)"
      "startAvailability sc f now c = c\<lparr>co_controller := fst (needs_probe sc f now c)\<rparr>"
  | (busy) h c1 where "snd (needs_probe sc f now c)" "ha_SessionID h = []"
      "c1 = fst (activeLocked sc (c\<lparr>co_controller := fst (needs_probe sc f now c)\<rparr>))"
      "startAvailability sc f now c = put_entry f h c1"
  | (refused) h c1 q s2 e where "snd (needs_probe sc f now c)" "ha_SessionID h = []"
      "c1 = fst (activeLocked sc (c\<lparr>co_controller := fst (needs_probe sc f now c)\<rparr>))"
      "sc_create sc q (co_controller c1) = (s2, Inl e)"
      "startAvailability sc f now c = put_entry f h (c1\<lparr>co_controller := s2\<rparr>)"
  | (made) h c1 q s2 v where "snd (needs_probe sc f now c)" "ha_SessionID h = view_id v"
      "c1 = fst (activeLocked sc (c\<lparr>co_controller := fst (needs_probe sc f now c)\<rparr>))"
      "snd (activeLocked sc (c\<lparr>co_controller := fst (needs_probe sc f now c)\<rparr>)) < au_MaxConcurrent (co_config c)"
      "sc_create sc q (co_controller c1) = (s2, Inr v)"
      "startAvailability sc f now c = put_entry f h (c1\<lparr>co_controller := s2\<rparr>)"
proof -
  define n where "n = needs_probe sc f now c"
  define a where "a = activeLocked sc (c\<lparr>co_controller := fst n\<rparr>)"
  define r where "r = failure_request (co_config c) f"
  define q where "q = \<lparr>ar_StableID = af_StableID f,
      ar_Trigger = (if af_Kind f = AutomationKindOffline then TriggerAutoOffline else TriggerAutoProxyFailure),
      ar_ProfileID = st_profileID r,
      ar_AutomationContext = (if af_Kind f = AutomationKindOffline
        then OfflineAutomationContext else ProxyFailureAutomationContext)\<rparr>"
  have k: "(case map_of (co_availability c) (af_StableID f) of None \<Rightarrow> (c, True)
            | Some e \<Rightarrow> (let (s1, b) = availabilityNeedsProbeLocked sc (au_Cooldown (co_config c)) e
                  (af_Kind f) (af_Since f) now (co_controller c) in (c\<lparr>co_controller := s1\<rparr>, b))) =
      (c\<lparr>co_controller := fst n\<rparr>, snd n)"
    by (simp add: n_def needs_probe_def Let_def case_prod_beta split: option.split)
  have eq: "startAvailability sc f now c =
      (if \<not> snd n then c\<lparr>co_controller := fst n\<rparr>
       else if snd a \<ge> au_MaxConcurrent (co_config c)
       then put_entry f (request_handle r now ''automation capacity is busy'') (fst a)
       else (case sc_create sc q (co_controller (fst a)) of
           (s2, Inl e) \<Rightarrow> put_entry f (request_handle r now (fst (refusalDetail e)))
               ((fst a)\<lparr>co_controller := s2\<rparr>)
         | (s2, Inr v) \<Rightarrow> put_entry f ((request_handle r now [])\<lparr>ha_SessionID := view_id v, ha_State := Running\<rparr>)
               ((fst a)\<lparr>co_controller := s2\<rparr>)))"
    unfolding startAvailability_def k by (simp add: Let_def case_prod_beta a_def r_def q_def)
  obtain s2 x where m: "sc_create sc q (co_controller (fst a)) = (s2, x)" by fastforce
  have h: "ha_SessionID (request_handle r now d) = []" for d by (simp add: request_handle_def)
  consider (1) "\<not> snd n" | (2) "snd n" "snd a \<ge> au_MaxConcurrent (co_config c)"
    | (3) e where "snd n" "snd a < au_MaxConcurrent (co_config c)" "x = Inl e"
    | (4) v where "snd n" "snd a < au_MaxConcurrent (co_config c)" "x = Inr v"
    by (cases x; metis not_le)
  then show thesis
  proof cases
    case 1
    then show thesis using eq by (intro answered) (simp_all add: n_def)
  next
    case 2
    then show thesis using eq h by (intro busy) (simp_all add: n_def a_def)
  next
    case 3
    then show thesis using eq h m by (intro refused) (simp_all add: n_def a_def)
  next
    case 4
    then show thesis using eq m
      by (intro made [where h = "(request_handle r now [])\<lparr>ha_SessionID := view_id v, ha_State := Running\<rparr>"])
        (simp_all add: n_def a_def)
  qed
qed

lemma start_all_availability:
  "co_availability (fst (start_all sc clock n rs hs c)) = co_availability c"
proof (induction rs arbitrary: n hs c)
  case (Cons r rs)
  have "co_availability (fst (startSpeed sc (clock n) r c)) = co_availability c"
    by (cases rule: startSpeed_cases [of sc "clock n" c r]) simp_all
  then show ?case using Cons.IH by (simp add: Let_def case_prod_beta)
qed simp

text \<open>No call changes the configuration.\<close>

lemma startSpeed_config: "co_config (fst (startSpeed sc now r c)) = co_config c"
  by (cases rule: startSpeed_cases [of sc now c r]) simp_all

lemma start_all_config: "co_config (fst (start_all sc clock n rs hs c)) = co_config c"
  by (induction rs arbitrary: n hs c) (simp_all add: Let_def case_prod_beta startSpeed_config)

lemma startAvailability_config: "co_config (startAvailability sc f now c) = co_config c"
  by (cases rule: startAvailability_cases [of sc f now c]) simp_all

lemma fold_start_config:
  "co_config (fold (\<lambda>f c. if availabilityKindEnabled sc (af_Kind f) c then startAvailability sc f now c else c) fs c) =
   co_config c"
  by (induction fs arbitrary: c) (simp_all add: startAvailability_config)

lemma config_kept:
  "co_config (fst (StartSpeedDiagnostics sc hostname clock results source threshold c)) = co_config c"
  "co_config (fst (resumeDeferred sc clock hs c)) = co_config c"
  "co_config (fst (Annotations sc hs c)) = co_config c"
  "co_config (fst (automation_Snapshot sc now c)) = co_config c"
  "co_config (fst (measuringCount sc wanted c)) = co_config c"
  "co_config (fst (AvailabilityAnnotations sc ids c)) = co_config c"
  "co_config (fst (StartAvailabilityDiagnostics sc now failures c)) = co_config c"
  by (simp_all add: StartSpeedDiagnostics_def resumeDeferred_def start_all_config annotations_fields
      automation_Snapshot_def measuringCount_def AvailabilityAnnotations_def annotate_handles
      StartAvailabilityDiagnostics_def fold_start_config Let_def case_prod_beta)

subsection \<open>Episodes\<close>

text \<open>The check still reports the failure of kind \<open>k\<close> that node \<open>i\<close> has had since \<open>t\<close>.\<close>

definition episode_lasts :: "string \<Rightarrow> string \<Rightarrow> time \<Rightarrow> AvailabilityFailure list \<Rightarrow> bool" where
  "episode_lasts i k t fs \<longleftrightarrow> i \<noteq> [] \<and> (\<exists>f\<in>set fs. TrimSpace (af_StableID f) = i) \<and>
     (\<forall>f\<in>set fs. TrimSpace (af_StableID f) = i \<longrightarrow> af_Kind (normal_failure f) = k \<and> af_Since f = t)"

lemma normal_failure_fields [simp]:
  "af_StableID (normal_failure f) = TrimSpace (af_StableID f)" "af_Since (normal_failure f) = af_Since f"
  by (simp_all add: normal_failure_def)

lemma collect_current:
  "snd (collect_failures sourced fs current) = current \<union> (TrimSpace ` af_StableID ` set fs - {[]})"
  by (induction fs arbitrary: current) (auto simp: Let_def case_prod_beta)

lemma collect_members: "f \<in> set (fst (collect_failures sourced fs current)) \<Longrightarrow> \<exists>g\<in>set fs. f = normal_failure g"
  by (induction fs arbitrary: current) (auto simp: Let_def case_prod_beta split: if_splits)

lemma episode_current:
  "episode_lasts i k t fs \<Longrightarrow> i \<in> snd (availabilityCandidates fs sourced)"
  by (auto simp: availabilityCandidates_def case_prod_beta collect_current episode_lasts_def)

lemma episode_candidates:
  assumes "episode_lasts i k t fs" and "f \<in> set (fst (availabilityCandidates fs sourced))" and "af_StableID f = i"
  shows "af_Kind f = k \<and> af_Since f = t"
  using assms collect_members [of f sourced fs "{}"]
  by (auto simp: availabilityCandidates_def case_prod_beta episode_lasts_def set_sort_slice)

lemma harvest_final:
  "map_of es i = Some e \<Longrightarrow> ae_final e = Some a \<Longrightarrow>
   \<exists>e'. map_of (fst (snd (harvest_availability sc es s))) i = Some e' \<and> ae_kind e' = ae_kind e \<and>
     ae_since e' = ae_since e \<and> ae_final e' = Some a \<and> ae_handle e' = ae_handle e"
proof (induction es arbitrary: s)
  case (Cons x es)
  obtain j y where x: "x = (j, y)" by (cases x)
  show ?case
  proof (cases "j = i")
    case True
    then have "y = e" using Cons.prems x by simp
    then show ?thesis using Cons.prems(2) True x
      by (cases "ae_journaled e \<or> ha_SessionID (ae_handle e) = []")
        (simp_all add: finalAvailabilityLocked_def Let_def case_prod_beta)
  next
    case False
    then have "map_of es i = Some e" using Cons.prems x by simp
    note IH = Cons.IH [OF this Cons.prems(2)]
    show ?thesis using IH False unfolding x harvest_availability.simps
      by (cases "finalAvailabilityLocked sc y s"; cases "snd (finalAvailabilityLocked sc y s)")
        (simp_all add: Let_def case_prod_beta)
  qed
qed simp

text \<open>An answer the manager shows when the harvest comes by is kept with the entry.\<close>

lemma final_reads:
  assumes "\<And>s j. P s \<Longrightarrow> P (fst (sc_session sc j s))" and "P s"
  shows "P (fst (finalAvailabilityLocked sc e s))"
proof (cases "ae_final e")
  case None
  have "P (fst (annotation sc h s))" if "P s" for h s
    using assms(1) [OF that, of "ha_SessionID h"] that
    by (auto simp: annotation_def Let_def split: prod.split option.split)
  then show ?thesis using assms(1) [OF assms(2), of "ha_SessionID (ae_handle e)"] None
    by (cases "sc_session sc (ha_SessionID (ae_handle e)) s"; cases "snd (sc_session sc (ha_SessionID (ae_handle e)) s)")
      (simp_all add: finalAvailabilityLocked_def Let_def case_prod_beta)
qed (simp add: finalAvailabilityLocked_def assms(2))

lemma harvest_answer:
  assumes reads: "\<And>s j. P s \<Longrightarrow> P (fst (sc_session sc j s))"
    and shown: "\<And>s. P s \<Longrightarrow> \<exists>v. snd (sc_session sc sid s) = Some v \<and> s_AgentObservations v \<noteq> [] \<and>
      last (s_AgentObservations v) = obs"
    and "sid \<noteq> []"
  shows "map_of es i = Some e \<Longrightarrow> ha_SessionID (ae_handle e) = sid \<Longrightarrow> ae_final e = None \<Longrightarrow> \<not> ae_journaled e \<Longrightarrow> P s \<Longrightarrow>
    \<exists>a. map_of (fst (snd (harvest_availability sc es s))) i = Some (e\<lparr>ae_final := Some a, ae_journaled := True\<rparr>) \<and>
      ad_Observation a = Some obs"
proof (induction es arbitrary: s)
  case (Cons x es)
  obtain j y where x: "x = (j, y)" by (cases x)
  show ?case
  proof (cases "j = i")
    case True
    then have y: "y = e" using Cons.prems x by simp
    obtain v where v: "snd (sc_session sc sid s) = Some v" using shown [OF Cons.prems(5)] by blast
    let ?s = "fst (sc_session sc sid s)"
    obtain w where w: "snd (sc_session sc sid ?s) = Some w" "s_AgentObservations w \<noteq> []" "last (s_AgentObservations w) = obs"
      using shown [OF reads [OF Cons.prems(5)]] by blast
    have "ad_Observation (snd (annotation sc (ae_handle e) ?s)) = Some obs"
      "ad_State (snd (annotation sc (ae_handle e) ?s)) \<noteq> Running"
      using w assms(3) Cons.prems(2) by (simp_all add: annotation_def Let_def case_prod_beta)
    then have "snd (finalAvailabilityLocked sc e s) = Some (snd (annotation sc (ae_handle e) ?s))"
      using v Cons.prems(2,3) by (simp add: finalAvailabilityLocked_def Let_def case_prod_beta)
    then show ?thesis using Cons.prems assms(3) True x y \<open>ad_Observation _ = _\<close>
      by (intro exI [of _ "snd (annotation sc (ae_handle e) ?s)"]) (simp add: Let_def case_prod_beta)
  next
    case False
    then have "map_of es i = Some e" using Cons.prems x by simp
    note IH = Cons.IH [OF this Cons.prems(2-4)]
    note f = final_reads [of P sc s y, OF reads Cons.prems(5)]
    show ?thesis using IH [OF Cons.prems(5)] IH [OF f] False unfolding x harvest_availability.simps
      by (cases "finalAvailabilityLocked sc y s"; cases "snd (finalAvailabilityLocked sc y s)")
        (simp_all add: Let_def case_prod_beta)
  qed
qed simp

lemma prune_current:
  "i \<in> current \<Longrightarrow> map_of (fst (snd (prune_availability sc cd now current es s))) i = map_of es i"
proof (induction es arbitrary: s)
  case (Cons x es)
  obtain j y where x: "x = (j, y)" by (cases x)
  show ?case using Cons.IH Cons.prems unfolding x prune_availability.simps
    by (cases "j = i") (simp_all add: Let_def case_prod_beta)
qed simp

lemma annotate_final:
  "map_of (co_availability c) i = Some e \<Longrightarrow> ae_final e = Some a \<Longrightarrow>
   map_of (co_availability (fst (annotate_all sc ids c))) i = Some e"
proof (induction ids arbitrary: c)
  case (Cons i0 ids)
  show ?case
  proof (cases "map_of (co_availability c) (TrimSpace i0)")
    case (Some x)
    show ?thesis
    proof (cases "ae_final x")
      case None
      then have "TrimSpace i0 \<noteq> i" using Some Cons.prems by auto
      then show ?thesis using Some None Cons.IH Cons.prems
        by (simp add: Let_def case_prod_beta update_conv')
    qed (use Some Cons.IH [OF Cons.prems] in \<open>simp add: Let_def case_prod_beta\<close>)
  qed (use Cons.IH [OF Cons.prems] in simp)
qed simp

subsection \<open>Calls of either kind\<close>

locale calling = reading sc rel for sc :: "'s session_controller" and rel +
  assumes rel_create: "rel s (fst (sc_create sc r s))"
begin

lemma rel_startSpeed: "rel (co_controller c) (co_controller (fst (startSpeed sc now r c)))"
proof -
  have a: "rel (co_controller c) (co_controller (fst (activeLocked sc (pruneLocked sc now c))))"
    by (rule rel_trans [OF rel_pruned rel_active])
  show ?thesis
  proof (cases rule: startSpeed_cases [of sc now c r])
    case (refused q s2 e h)
    then show ?thesis using rel_trans [OF a rel_create [of _ q]] by simp
  next
    case (made q s2 v h)
    then show ?thesis using rel_trans [OF a rel_create [of _ q]] by simp
  qed (simp_all add: rel_pruned a)
qed

lemma rel_start_all: "rel (co_controller c) (co_controller (fst (start_all sc clock n rs hs c)))"
proof (induction rs arbitrary: n hs c)
  case (Cons r rs)
  show ?case using rel_trans [OF rel_startSpeed Cons.IH] by (simp add: Let_def case_prod_beta)
qed simp

lemma rel_StartSpeed: "rel (co_controller c)
    (co_controller (fst (StartSpeedDiagnostics sc hostname clock results source threshold c)))"
  by (simp add: StartSpeedDiagnostics_def rel_start_all)

lemma rel_resume: "rel (co_controller c) (co_controller (fst (resumeDeferred sc clock hs c)))"
  by (simp add: resumeDeferred_def rel_start_all)

lemma rel_probe: "rel (co_controller c) (fst (needs_probe sc f now c))"
  by (simp add: needs_probe_def rel_needs split: option.split)

lemma rel_startAvailability: "rel (co_controller c) (co_controller (startAvailability sc f now c))"
proof -
  have a: "rel (co_controller c)
      (co_controller (fst (activeLocked sc (c\<lparr>co_controller := fst (needs_probe sc f now c)\<rparr>))))"
    using rel_trans [OF rel_probe rel_active [of "c\<lparr>co_controller := fst (needs_probe sc f now c)\<rparr>", simplified]] .
  show ?thesis
  proof (cases rule: startAvailability_cases [of sc f now c])
    case (refused h c1 q s2 e)
    then show ?thesis using rel_trans [OF a rel_create [of _ q]] by simp
  next
    case (made h c1 q s2 v)
    then show ?thesis using rel_trans [OF a rel_create [of _ q]] by simp
  qed (simp_all add: rel_probe a)
qed

lemma rel_StartAvailability:
  "rel (co_controller c) (co_controller (fst (StartAvailabilityDiagnostics sc now failures c)))"
proof -
  have f: "rel (co_controller c) (co_controller (fold (\<lambda>f c. if availabilityKindEnabled sc (af_Kind f) c
      then startAvailability sc f now c else c) fs c))" for fs c
  proof (induction fs arbitrary: c)
    case (Cons f fs)
    show ?case using rel_trans [OF rel_startAvailability Cons.IH] Cons.IH by simp
  qed simp
  let ?h = "harvest_availability sc (co_availability c) (co_controller c)"
  show ?thesis
    using rel_trans [OF rel_trans [OF rel_harvest rel_prune_availability] f [of "c\<lparr>co_availability := es,
        co_controller := s\<rparr>" for es s, simplified]]
    by (simp add: StartAvailabilityDiagnostics_def Let_def case_prod_beta)
qed

end

end
