(* ===== verification/AutomationLimit.thy ===== *)
theory AutomationLimit
  imports AutomationCalls
begin

text \<open>
  The limit on automatic sessions and the one answer per episode, against the interface of the session
  controller: \<open>live_sessions\<close> says which sessions are open and who opens them, \<open>settled_sessions\<close>
  adds that an answered session stays answered. What the coordinator promises is \<open>limited\<close>: every open
  session is one of its handles, and there are at most as many as its configuration allows.
\<close>

locale live_sessions =
  fixes sc :: "'s session_controller"
    and ok :: "'s \<Rightarrow> bool"
    and live :: "'s \<Rightarrow> string set"
  assumes session_ok: "ok s \<Longrightarrow> ok (fst (sc_session sc i s))"
    and create_ok: "ok s \<Longrightarrow> ok (fst (sc_create sc r s))"
    and live_named: "ok s \<Longrightarrow> [] \<notin> live s"
    and session_live: "ok s \<Longrightarrow> live (fst (sc_session sc i s)) \<subseteq> live s"
    and session_shows: "ok s \<Longrightarrow> i \<in> live (fst (sc_session sc i s)) \<Longrightarrow>
      \<exists>v. snd (sc_session sc i s) = Some v \<and> \<not> s_terminal (s_State v)"
    and create_refused: "ok s \<Longrightarrow> sc_create sc r s = (s', Inl e) \<Longrightarrow> live s' \<subseteq> live s"
    and create_made: "ok s \<Longrightarrow> sc_create sc r s = (s', Inr v) \<Longrightarrow> live s' \<subseteq> insert (view_id v) (live s)"
begin

definition later :: "'s \<Rightarrow> 's \<Rightarrow> bool" where
  "later s s' \<longleftrightarrow> (ok s \<longrightarrow> ok s' \<and> live s' \<subseteq> live s)"

end

sublocale live_sessions \<subseteq> reading sc later
  by unfold_locales (auto simp: later_def session_ok dest: session_live [THEN subsetD])

context live_sessions
begin

lemma laterD: "later s s' \<Longrightarrow> ok s \<Longrightarrow> ok s'" "later s s' \<Longrightarrow> ok s \<Longrightarrow> live s' \<subseteq> live s"
  by (simp_all add: later_def)

lemma shown_closed:
  "ok s \<Longrightarrow> (\<And>v. snd (sc_session sc i s) = Some v \<Longrightarrow> s_terminal (s_State v)) \<Longrightarrow>
   i \<notin> live (fst (sc_session sc i s))"
  using session_shows by blast

lemma in_flight_closed:
  assumes "ok s" and "\<not> snd (inFlightLocked sc h s)" and "ha_SessionID h \<noteq> []"
  shows "ha_SessionID h \<notin> live (fst (inFlightLocked sc h s))"
  using assms shown_closed [of s "ha_SessionID h"]
  by (auto simp: inFlightLocked_def split: prod.splits option.splits)

lemma abandoned_closed:
  assumes "ok s" and "snd (abandonedLocked sc h s)"
  shows "ha_SessionID h \<notin> live (fst (abandonedLocked sc h s))"
  using assms shown_closed [of s "ha_SessionID h"]
  by (auto simp: abandonedLocked_def split: prod.splits option.splits if_splits)

lemma probed_closed:
  assumes "ok s" and "snd (availabilityNeedsProbeLocked sc cd e kind since now s)" and "ha_SessionID (ae_handle e) \<noteq> []"
  shows "ha_SessionID (ae_handle e) \<notin> live (fst (availabilityNeedsProbeLocked sc cd e kind since now s))"
  using assms shown_closed [of s "ha_SessionID (ae_handle e)"]
  by (auto simp: availabilityNeedsProbeLocked_def Let_def split: prod.splits option.splits if_splits)

lemma count_bounds:
  "ok s \<Longrightarrow> int (card (live (fst (count_in_flight sc hs s)) \<inter> session_ids hs)) \<le> snd (count_in_flight sc hs s)"
proof (induction hs arbitrary: s)
  case (Cons h hs)
  let ?f = "inFlightLocked sc h s"
  let ?r = "count_in_flight sc hs (fst ?f)"
  have o: "ok (fst ?f)" using laterD(1) [OF rel_in_flight Cons.prems] .
  have l: "live (fst ?r) \<subseteq> live (fst ?f)" using laterD(2) [OF rel_count o] .
  note IH = Cons.IH [OF o]
  show ?case
  proof (cases "ha_SessionID h = [] \<or> ha_SessionID h \<notin> live (fst ?r)")
    case True
    then have "live (fst ?r) \<inter> session_ids (h # hs) = live (fst ?r) \<inter> session_ids hs" by auto
    then show ?thesis using IH by (auto simp: Let_def case_prod_beta)
  next
    case False
    then have "snd ?f" using in_flight_closed [OF Cons.prems, of h] l by auto
    moreover have "card (live (fst ?r) \<inter> session_ids (h # hs)) \<le> Suc (card (live (fst ?r) \<inter> session_ids hs))"
      using False by (simp add: card_insert_le_m1 card_insert_if)
    ultimately show ?thesis using IH by (simp add: Let_def case_prod_beta)
  qed
qed simp

subsection \<open>Releasing entries loses no open session\<close>

lemma prune_keeps:
  "ok s \<Longrightarrow> live (fst (prune_entries sc cd now es s)) \<inter> session_ids (map snd es) \<subseteq>
   session_ids (map snd (snd (prune_entries sc cd now es s)))"
proof (induction es arbitrary: s)
  case (Cons e es)
  obtain i h where e: "e = (i, h)" by (cases e)
  let ?a = "abandonedLocked sc h s"
  let ?k = "if now - ha_StartedAt h < cd then (fst ?a, True) else inFlightLocked sc h (fst ?a)"
  have oa: "ok (fst ?a)" using laterD(1) [OF rel_abandoned Cons.prems] .
  have ok: "ok (fst ?k)" using laterD(1) [OF rel_in_flight oa] oa by auto
  show ?case
  proof (cases "snd ?a")
    case True
    have "ha_SessionID h \<notin> live (fst (prune_entries sc cd now es (fst ?a)))"
      using abandoned_closed [OF Cons.prems True] laterD(2) [OF rel_prune_entries oa, of cd now es] by blast
    moreover have "prune_entries sc cd now (e # es) s = prune_entries sc cd now es (fst ?a)"
      using True by (cases ?a) (simp add: e)
    ultimately show ?thesis using Cons.IH [OF oa] by (auto simp: e)
  next
    case False
    have drop: "ha_SessionID h \<notin> live (fst (prune_entries sc cd now es (fst ?k)))"
      if "\<not> snd ?k" "ha_SessionID h \<noteq> []"
      using that in_flight_closed [OF oa, of h] laterD(2) [OF rel_prune_entries ok, of cd now es]
      by (auto split: if_splits)
    have "prune_entries sc cd now (e # es) s = (fst (prune_entries sc cd now es (fst ?k)),
        if snd ?k then (i, h) # snd (prune_entries sc cd now es (fst ?k))
        else snd (prune_entries sc cd now es (fst ?k)))"
      using False by (cases ?a) (simp add: e Let_def case_prod_beta)
    then show ?thesis using Cons.IH [OF ok] drop by (auto simp: e)
  qed
qed simp

lemma prune_availability_keeps:
  "ok s \<Longrightarrow> live (fst (prune_availability sc cd now current es s)) \<inter> session_ids (map (ae_handle \<circ> snd) es) \<subseteq>
   session_ids (map (ae_handle \<circ> snd) (fst (snd (prune_availability sc cd now current es s))))"
proof (induction es arbitrary: s)
  case (Cons e es)
  obtain i x where e: "e = (i, x)" by (cases e)
  let ?h = "ae_handle x"
  let ?f = "inFlightLocked sc ?h s"
  let ?k = "if i \<in> current then (s, True) else if ha_SessionID ?h = [] then (s, False)
      else if snd ?f then (fst ?f, True) else (fst ?f, now - ha_StartedAt ?h < cd)"
  have ok: "ok (fst ?k)" using laterD(1) [OF rel_in_flight Cons.prems] Cons.prems by auto
  have drop: "ha_SessionID ?h \<notin> live (fst (prune_availability sc cd now current es (fst ?k)))"
    if "\<not> snd ?k" "ha_SessionID ?h \<noteq> []"
    using that in_flight_closed [OF Cons.prems, of ?h] laterD(2) [OF rel_prune_availability ok, of cd now current es]
    by (auto split: if_splits)
  have "?k = (if i \<in> current then (s, True) else if ha_SessionID ?h = [] then (s, False)
      else (case ?f of (s', True) \<Rightarrow> (s', True) | (s', False) \<Rightarrow> (s', now - ha_StartedAt ?h < cd)))"
    by (auto split: prod.splits bool.splits)
  then have "fst (prune_availability sc cd now current (e # es) s) = fst (prune_availability sc cd now current es (fst ?k))"
    "fst (snd (prune_availability sc cd now current (e # es) s)) =
       (if snd ?k then (i, x) # fst (snd (prune_availability sc cd now current es (fst ?k)))
        else fst (snd (prune_availability sc cd now current es (fst ?k))))"
    by (simp_all add: e Let_def case_prod_beta)
  then show ?case using Cons.IH [OF ok] drop by (auto simp: e)
qed simp

subsection \<open>The limit\<close>

definition limited :: "'s coordinator \<Rightarrow> bool" where
  "limited c \<longleftrightarrow> ok (co_controller c) \<and> 1 \<le> au_MaxConcurrent (co_config c) \<and>
     live (co_controller c) \<subseteq> session_ids (co_handles c) \<and>
     int (card (live (co_controller c))) \<le> au_MaxConcurrent (co_config c)"

lemma limitedD:
  "limited c \<Longrightarrow> ok (co_controller c)" "limited c \<Longrightarrow> live (co_controller c) \<subseteq> session_ids (co_handles c)"
  "limited c \<Longrightarrow> finite (live (co_controller c))"
  by (auto simp: limited_def intro: finite_subset [OF _ session_ids_simps(4)])

lemma limited_shrink:
  assumes w: "limited c" and l: "later (co_controller c) (co_controller c')"
    and h: "live (co_controller c') \<inter> session_ids (co_handles c) \<subseteq> session_ids (co_handles c')"
    and "co_config c' = co_config c"
  shows "limited c'"
proof -
  have s: "live (co_controller c') \<subseteq> live (co_controller c)" and o: "ok (co_controller c')"
    using laterD [OF l limitedD(1) [OF w]] by blast+
  have "card (live (co_controller c')) \<le> card (live (co_controller c))"
    by (rule card_mono [OF limitedD(3) [OF w] s])
  then show ?thesis using w s o h assms(4) by (auto simp: limited_def)
qed

lemma limited_later: "limited c \<Longrightarrow> later (co_controller c) s' \<Longrightarrow> limited (c\<lparr>co_controller := s'\<rparr>)"
  by (rule limited_shrink) (auto simp: co_handles_def)

lemma limited_same:
  "limited c \<Longrightarrow> later (co_controller c) (co_controller c') \<Longrightarrow> co_config c' = co_config c \<Longrightarrow>
   co_handles c' = co_handles c \<Longrightarrow> limited c'"
  by (rule limited_shrink) auto

text \<open>A slot taken: the limit was not reached when the sessions were counted.\<close>

lemma limited_taken:
  assumes w: "limited c" and n: "snd (activeLocked sc c) < au_MaxConcurrent (co_config c)"
    and m: "sc_create sc r (co_controller (fst (activeLocked sc c))) = (s2, Inr v)"
    and h: "live s2 \<inter> session_ids (co_handles c) \<subseteq> session_ids (co_handles c2)"
      "view_id v \<noteq> [] \<Longrightarrow> view_id v \<in> session_ids (co_handles c2)"
    and c2: "co_controller c2 = s2" "co_config c2 = co_config c"
  shows "limited c2"
proof -
  let ?s = "co_controller (fst (activeLocked sc c))"
  have o: "ok (co_controller c)" by (rule limitedD(1) [OF w])
  have l: "live ?s \<subseteq> live (co_controller c)" and o1: "ok ?s" using laterD [OF rel_active o] by blast+
  have o2: "ok s2" using create_ok [OF o1, of r] m by simp
  have "live ?s \<inter> session_ids (co_handles c) = live ?s" using l limitedD(2) [OF w] by blast
  then have "int (card (live ?s)) \<le> snd (activeLocked sc c)"
    using count_bounds [OF o, of "co_handles c"] by (simp add: activeLocked_def Let_def case_prod_beta)
  moreover have s2: "live s2 \<subseteq> insert (view_id v) (live ?s)" by (rule create_made [OF o1 m])
  moreover have f: "finite (live ?s)" by (rule finite_subset [OF l limitedD(3) [OF w]])
  moreover have "card (insert (view_id v) (live ?s)) \<le> Suc (card (live ?s))" by (simp add: card_insert_if f)
  moreover have "card (live s2) \<le> card (insert (view_id v) (live ?s))" using card_mono [OF _ s2] f by simp
  moreover have "live s2 \<subseteq> session_ids (co_handles c2)"
  proof
    fix x assume x: "x \<in> live s2"
    then have "x \<noteq> []" "x = view_id v \<or> x \<in> session_ids (co_handles c)"
      using live_named [OF o2] s2 l limitedD(2) [OF w] by auto
    then show "x \<in> session_ids (co_handles c2)" using h x by auto
  qed
  ultimately show ?thesis using n w o2 by (simp add: limited_def c2)
qed

lemma limited_refused:
  assumes w: "limited c" and m: "sc_create sc r (co_controller c) = (s2, Inl e)"
  shows "limited (c\<lparr>co_controller := s2\<rparr>)"
  using create_refused [OF limitedD(1) [OF w] m] create_ok [OF limitedD(1) [OF w], of r] m
  by (intro limited_later [OF w]) (simp add: later_def)

subsection \<open>Every operation keeps the limit\<close>

lemma pruned_limited:
  assumes w: "limited c"
  shows "limited (pruneLocked sc now c)"
proof (rule limited_shrink [OF w rel_pruned])
  show "live (co_controller (pruneLocked sc now c)) \<inter> session_ids (co_handles c) \<subseteq>
      session_ids (co_handles (pruneLocked sc now c))"
    using prune_keeps [OF limitedD(1) [OF w], of "au_Cooldown (co_config c)" now "co_entries c"]
    by (auto simp: pruneLocked_def Let_def case_prod_beta co_handles_def)
qed simp

lemma active_limited: "limited c \<Longrightarrow> limited (fst (activeLocked sc c))"
  by (rule limited_same) (simp_all add: rel_active co_handles_def)

lemma startSpeed_limited:
  assumes "limited c"
  shows "limited (fst (startSpeed sc now r c))"
proof -
  let ?p = "pruneLocked sc now c"
  have p: "limited ?p" by (rule pruned_limited [OF assms])
  show ?thesis
  proof (cases rule: startSpeed_cases [of sc now c r])
    case held
    then show ?thesis using p by simp
  next
    case busy
    then show ?thesis using active_limited [OF p] by simp
  next
    case (refused q s2 e h)
    then show ?thesis using limited_refused [OF active_limited [OF p] refused(2)] by simp
  next
    case (made q s2 v h)
    show ?thesis
    proof (rule limited_taken [OF p])
      show "snd (activeLocked sc ?p) < au_MaxConcurrent (co_config ?p)" using made(2) by simp
      show "sc_create sc q (co_controller (fst (activeLocked sc ?p))) = (s2, Inr v)" by (rule made(3))
      show "live s2 \<inter> session_ids (co_handles ?p) \<subseteq> session_ids (co_handles (fst (startSpeed sc now r c)))"
        using session_ids_update [of id "co_entries ?p" "st_stableID r" h] made(1)
        by (auto simp: made(5) co_handles_def)
      show "view_id v \<in> session_ids (co_handles (fst (startSpeed sc now r c)))" if "view_id v \<noteq> []"
        using session_ids_put [of id h "st_stableID r" "co_entries ?p"] that made(4)
        by (simp add: made(5) co_handles_def)
    qed (simp_all add: made(5))
  qed
qed

lemma start_all_limited: "limited c \<Longrightarrow> limited (fst (start_all sc clock n rs hs c))"
  by (induction rs arbitrary: n hs c) (simp_all add: Let_def case_prod_beta startSpeed_limited)

lemma StartSpeed_limited:
  "limited c \<Longrightarrow> limited (fst (StartSpeedDiagnostics sc hostname clock results source threshold c))"
  "limited c \<Longrightarrow> limited (fst (resumeDeferred sc clock hs c))"
  by (simp_all add: StartSpeedDiagnostics_def resumeDeferred_def start_all_limited)

lemma snapshot_limited: "limited c \<Longrightarrow> limited (fst (automation_Snapshot sc now c))"
  by (simp add: automation_Snapshot_def active_limited pruned_limited)

lemma reads_limited:
  assumes w: "limited c"
  shows "limited (fst (measuringCount sc wanted c))" "limited (fst (Annotations sc hs c))"
    "limited (fst (AvailabilityAnnotations sc ids c))"
proof -
  show "limited (fst (measuringCount sc wanted c))"
    by (rule limited_same [OF w rel_measuring]) (simp_all add: measuringCount_def Let_def case_prod_beta co_handles_def)
  show "limited (fst (Annotations sc hs c))"
    using annotations_fields [of sc hs c] by (intro limited_same [OF w rel_annotations]) (simp_all add: co_handles_def)
  have "map (ae_handle \<circ> snd) (co_availability (fst (annotate_all sc ids c))) = map (ae_handle \<circ> snd) (co_availability c)"
    using same_handles_ids [OF annotate_handles [THEN conjunct2, THEN conjunct2], of sc ids c] by simp
  then show "limited (fst (AvailabilityAnnotations sc ids c))"
    unfolding AvailabilityAnnotations_def using annotate_handles [of sc ids c]
    by (intro limited_same [OF w rel_annotate]) (simp_all add: co_handles_def)
qed

text \<open>A replaced entry held no open session.\<close>

lemma replaced_closed:
  assumes o: "ok (co_controller c)" and n: "snd (needs_probe sc f now c)"
    and l: "live s \<subseteq> new \<union> live (fst (needs_probe sc f now c))"
  shows "live s \<inter> session_ids (co_handles c) \<subseteq>
    new \<union> session_ids (co_handles (put_entry f h (c\<lparr>co_controller := s\<rparr>)))"
proof -
  let ?i = "af_StableID f"
  have "ha_SessionID (ae_handle e) \<notin> live s - new"
    if e: "map_of (co_availability c) ?i = Some e" and "ha_SessionID (ae_handle e) \<noteq> []" for e
    using l probed_closed [OF o, of "au_Cooldown (co_config c)" e "af_Kind f" "af_Since f" now] e n that(2)
    by (auto simp: needs_probe_def)
  moreover have "[] \<notin> session_ids hs" for hs by (simp add: session_ids_def)
  ultimately have "live s \<inter> session_ids (map ae_handle (map snd (co_availability c))) \<subseteq>
      new \<union> session_ids (map ae_handle (map snd (AList.update ?i v (co_availability c))))" for v
    using session_ids_update [of ae_handle "co_availability c" ?i v]
    by (cases "map_of (co_availability c) ?i") force+
  then show ?thesis by (auto simp: put_entry_def co_handles_def)
qed

lemma startAvailability_limited:
  assumes w: "limited c"
  shows "limited (startAvailability sc f now c)"
proof -
  let ?n = "needs_probe sc f now c"
  have n: "later (co_controller c) (fst ?n)"
    by (simp add: needs_probe_def rel_needs split: option.split)
  let ?c = "c\<lparr>co_controller := fst ?n\<rparr>"
  let ?a = "fst (activeLocked sc ?c)"
  have wc: "limited ?c" by (rule limited_later [OF w n])
  have o: "ok (co_controller c)" by (rule limitedD(1) [OF w])
  have l: "later (fst ?n) (co_controller ?a)" using rel_active [of ?c] by simp
  have put: "limited (put_entry f h (?a\<lparr>co_controller := s\<rparr>))"
    if "snd ?n" "ha_SessionID h = []" "limited (?a\<lparr>co_controller := s\<rparr>)" "later (fst ?n) s" for h s
  proof (rule limited_shrink [OF that(3)])
    have "co_handles (put_entry f h (c\<lparr>co_controller := s\<rparr>)) = co_handles (put_entry f h (?a\<lparr>co_controller := s\<rparr>))"
      "co_handles (?a\<lparr>co_controller := s\<rparr>) = co_handles c"
      by (simp_all add: put_entry_def co_handles_def)
    then show "live (co_controller (put_entry f h (?a\<lparr>co_controller := s\<rparr>))) \<inter>
        session_ids (co_handles (?a\<lparr>co_controller := s\<rparr>)) \<subseteq> session_ids (co_handles (put_entry f h (?a\<lparr>co_controller := s\<rparr>)))"
      using replaced_closed [OF o that(1), of s "{}" h] laterD(2) [OF that(4)] laterD(1) [OF n o] by simp
  qed simp_all
  show "limited (startAvailability sc f now c)"
  proof (cases rule: startAvailability_cases [of sc f now c])
    case answered
    then show ?thesis using wc by simp
  next
    case (busy h c1)
    then show ?thesis using put [OF busy(1,2), of "co_controller ?a"] l active_limited [OF wc] by simp
  next
    case (refused h c1 q s2 e)
    have m: "sc_create sc q (co_controller ?a) = (s2, Inl e)" using refused by simp
    have "limited (?a\<lparr>co_controller := s2\<rparr>)" by (rule limited_refused [OF active_limited [OF wc] m])
    moreover have "later (co_controller ?a) s2"
      using create_refused [OF _ m] create_ok [of "co_controller ?a" q] m by (simp add: later_def)
    ultimately show ?thesis using put [OF refused(1,2)] rel_trans [OF l] refused by simp
  next
    case (made h c1 q s2 v)
    note a = made(3) [symmetric] and m = made(5) [unfolded made(3)]
    let ?e = "put_entry f h (?a\<lparr>co_controller := s2\<rparr>)"
    have e: "co_handles ?e = co_handles (put_entry f h (c\<lparr>co_controller := s2\<rparr>))" "co_handles ?c = co_handles c"
      by (simp_all add: put_entry_def co_handles_def)
    have h: "view_id v \<noteq> [] \<Longrightarrow> view_id v \<in> session_ids (co_handles ?e)"
      using session_ids_put [of ae_handle "\<lparr>ae_kind = af_Kind f, ae_since = af_Since f, ae_handle = h,
          ae_final = None, ae_journaled = False\<rparr>" "af_StableID f" "co_availability c"] made(2)
      by (simp add: put_entry_def co_handles_def)
    have on: "ok (fst ?n)" by (rule laterD(1) [OF n o])
    have oa: "ok (co_controller ?a)" by (rule laterD(1) [OF l on])
    have "live s2 \<subseteq> {view_id v} \<union> live (fst ?n)" using create_made [OF oa m] laterD(2) [OF l on] by auto
    note r = replaced_closed [OF o made(1) this, of h, folded e(1)]
    have "[] \<notin> live s2" using live_named create_ok [OF oa, of q] m by simp
    then have "live s2 \<inter> session_ids (co_handles ?c) \<subseteq> session_ids (co_handles ?e)"
      using r h unfolding e(2) by (cases "view_id v = []") auto
    moreover have "co_config ?a = co_config c" by simp
    ultimately show ?thesis using limited_taken [OF wc _ m _ h] made(4,6) a by simp
  qed
qed

lemma StartAvailability_limited:
  assumes w: "limited c"
  shows "limited (fst (StartAvailabilityDiagnostics sc now failures c))"
proof -
  have f: "limited (fold (\<lambda>f c. if availabilityKindEnabled sc (af_Kind f) c then startAvailability sc f now c else c) fs c)"
    if "limited c" for fs c
    using that by (induction fs arbitrary: c) (simp_all add: startAvailability_limited)
  define h where "h = harvest_availability sc (co_availability c) (co_controller c)"
  define p where "p = prune_availability sc (au_Cooldown (co_config c)) now
      (snd (availabilityCandidates failures (au_EnvironmentSourced (co_config c)))) (fst (snd h)) (fst h)"
  have o: "ok (fst h)" unfolding h_def by (rule laterD(1) [OF rel_harvest limitedD(1) [OF w]])
  have ids: "map (ae_handle \<circ> snd) (fst (snd h)) = map (ae_handle \<circ> snd) (co_availability c)"
    using same_handles_ids [OF harvest_handles, of sc "co_availability c" "co_controller c"] by (simp add: h_def)
  have l: "later (co_controller c) (fst p)"
    unfolding p_def h_def by (rule rel_trans [OF rel_harvest rel_prune_availability])
  have "live (fst p) \<inter> session_ids (map (ae_handle \<circ> snd) (co_availability c)) \<subseteq>
      session_ids (map (ae_handle \<circ> snd) (fst (snd p)))"
    unfolding p_def by (rule prune_availability_keeps [OF o, where es = "fst (snd h)", unfolded ids])
  then have "limited (c\<lparr>co_availability := fst (snd p), co_controller := fst p\<rparr>)"
    using l by (intro limited_shrink [OF w]) (auto simp: co_handles_def)
  from f [OF this] show ?thesis
    by (simp add: StartAvailabilityDiagnostics_def w Let_def case_prod_beta h_def p_def)
qed

end

subsection \<open>Answered sessions\<close>

text \<open>
  \<open>settled s i\<close>: whatever the controller still shows under \<open>i\<close>, now or later, holds an observation.
\<close>

locale settled_sessions = live_sessions sc ok live
  for sc :: "'s session_controller" and ok :: "'s \<Rightarrow> bool" and live :: "'s \<Rightarrow> string set" +
  fixes settled :: "'s \<Rightarrow> string \<Rightarrow> bool"
  assumes settled_session: "ok s \<Longrightarrow> settled s i \<Longrightarrow> settled (fst (sc_session sc j s)) i"
    and settled_create: "ok s \<Longrightarrow> settled s i \<Longrightarrow> settled (fst (sc_create sc r s)) i"
    and settled_shows: "ok s \<Longrightarrow> settled s i \<Longrightarrow> snd (sc_session sc i s) = Some v \<Longrightarrow> s_AgentObservations v \<noteq> []"
begin

definition keeps_answers :: "'s \<Rightarrow> 's \<Rightarrow> bool" where
  "keeps_answers s s' \<longleftrightarrow> (ok s \<longrightarrow> ok s' \<and> (\<forall>i. settled s i \<longrightarrow> settled s' i))"

end

sublocale settled_sessions \<subseteq> answers: calling sc keeps_answers
  by unfold_locales (auto simp: keeps_answers_def session_ok create_ok settled_session settled_create)

context settled_sessions
begin

text \<open>The entry of node \<open>i\<close> answers for the episode of kind \<open>k\<close> that began at \<open>t\<close>.\<close>

definition answers_for :: "string \<Rightarrow> string \<Rightarrow> time \<Rightarrow> string \<Rightarrow> AgentDiagnostic \<Rightarrow> 's coordinator \<Rightarrow> bool" where
  "answers_for i k t sid a c \<longleftrightarrow> ok (co_controller c) \<and> settled (co_controller c) sid \<and>
     (\<exists>e. map_of (co_availability c) i = Some e \<and> ae_kind e = k \<and> ae_since e = t \<and> ae_final e = Some a \<and>
        ha_SessionID (ae_handle e) = sid \<and> sid \<noteq> [])"

lemma answers_forI:
  assumes a: "answers_for i k t sid a c" and r: "keeps_answers (co_controller c) (co_controller c')"
    and m: "map_of (co_availability c') i = map_of (co_availability c) i"
  shows "answers_for i k t sid a c'"
  using assms by (auto simp: answers_for_def keeps_answers_def)

lemma answered_not_needed:
  assumes a: "answers_for i k t sid a c" and f: "af_StableID f = i" "af_Kind f = k" "af_Since f = t"
  shows "\<not> snd (needs_probe sc f now c)"
proof -
  obtain e where e: "map_of (co_availability c) i = Some e" "ae_kind e = k" "ae_since e = t" "ae_final e = Some a"
    "ha_SessionID (ae_handle e) = sid" "sid \<noteq> []" using a by (auto simp: answers_for_def)
  have "snd (sc_session sc sid (co_controller c)) = Some v \<Longrightarrow> s_AgentObservations v \<noteq> []" for v
    using settled_shows [of "co_controller c" sid v] a by (simp add: answers_for_def)
  then show ?thesis using e f
    by (auto simp: needs_probe_def availabilityNeedsProbeLocked_def Let_def case_prod_beta split: option.splits)
qed

lemma startAvailability_answers:
  assumes a: "answers_for i k t sid a c" and f: "af_StableID f = i \<Longrightarrow> af_Kind f = k \<and> af_Since f = t"
  shows "answers_for i k t sid a (startAvailability sc f now c)"
proof (cases "af_StableID f = i")
  case True
  then have n: "\<not> snd (needs_probe sc f now c)" using answered_not_needed [OF a] f by blast
  then have "co_availability (startAvailability sc f now c) = co_availability c"
    by (cases rule: startAvailability_cases [of sc f now c]) simp_all
  then show ?thesis by (intro answers_forI [OF a answers.rel_startAvailability]) simp
next
  case False
  then have "map_of (co_availability (startAvailability sc f now c)) i = map_of (co_availability c) i"
    by (cases rule: startAvailability_cases [of sc f now c])
      (auto simp: put_entry_def update_conv')
  then show ?thesis by (rule answers_forI [OF a answers.rel_startAvailability])
qed

lemma fold_start_answers:
  assumes "answers_for i k t sid a c"
    and "\<And>f. f \<in> set fs \<Longrightarrow> af_StableID f = i \<Longrightarrow> af_Kind f = k \<and> af_Since f = t"
  shows "answers_for i k t sid a (fold (\<lambda>f c. if availabilityKindEnabled sc (af_Kind f) c
    then startAvailability sc f now c else c) fs c)"
  using assms by (induction fs arbitrary: c) (simp_all add: startAvailability_answers)

lemma harvested_answers:
  assumes ok: "ok (co_controller c)" "settled (co_controller c) sid" "sid \<noteq> []"
    and e: "map_of (fst (snd (harvest_availability sc (co_availability c) (co_controller c)))) i = Some e"
      "ae_kind e = k" "ae_since e = t" "ae_final e = Some a" "ha_SessionID (ae_handle e) = sid"
    and l: "episode_lasts i k t failures" and en: "AvailabilityEnabled sc c"
  shows "answers_for i k t sid a (fst (StartAvailabilityDiagnostics sc now failures c))"
proof -
  define cand where "cand = availabilityCandidates failures (au_EnvironmentSourced (co_config c))"
  define h where "h = harvest_availability sc (co_availability c) (co_controller c)"
  define p where "p = prune_availability sc (au_Cooldown (co_config c)) now (snd cand) (fst (snd h)) (fst h)"
  have "i \<in> snd cand" using episode_current [OF l] by (simp add: cand_def)
  then have m: "map_of (fst (snd p)) i = Some e" unfolding p_def by (simp add: prune_current e(1) h_def)
  have "keeps_answers (co_controller c) (fst p)"
    unfolding p_def h_def by (rule answers.rel_trans [OF answers.rel_harvest answers.rel_prune_availability])
  then have "answers_for i k t sid a (c\<lparr>co_availability := fst (snd p), co_controller := fst p\<rparr>)"
    using ok e(2-5) m by (auto simp: answers_for_def keeps_answers_def)
  from fold_start_answers [OF this, of "fst cand" now] episode_candidates [OF l] show ?thesis
    by (simp add: StartAvailabilityDiagnostics_def en Let_def case_prod_beta cand_def h_def p_def)
qed

lemma StartAvailability_answers:
  assumes a: "answers_for i k t sid a c" and l: "episode_lasts i k t failures"
  shows "answers_for i k t sid a (fst (StartAvailabilityDiagnostics sc now failures c))"
proof (cases "AvailabilityEnabled sc c")
  case True
  obtain e where e: "map_of (co_availability c) i = Some e" "ae_kind e = k" "ae_since e = t" "ae_final e = Some a"
    "ha_SessionID (ae_handle e) = sid" "sid \<noteq> []" using a by (auto simp: answers_for_def)
  obtain e' where "map_of (fst (snd (harvest_availability sc (co_availability c) (co_controller c)))) i = Some e'"
    "ae_kind e' = k" "ae_since e' = t" "ae_final e' = Some a" "ha_SessionID (ae_handle e') = sid"
    using harvest_final [OF e(1,4), of sc "co_controller c"] e by auto
  then show ?thesis using a l True e(6) by (intro harvested_answers) (simp_all add: answers_for_def)
qed (simp add: StartAvailabilityDiagnostics_def a)

lemma reading_answers:
  assumes a: "answers_for i k t sid a c"
  shows "answers_for i k t sid a (fst (StartSpeedDiagnostics sc hostname clock results source threshold c))"
    "answers_for i k t sid a (fst (resumeDeferred sc clock hs c))"
    "answers_for i k t sid a (fst (automation_Snapshot sc now c))"
    "answers_for i k t sid a (fst (measuringCount sc wanted c))"
    "answers_for i k t sid a (fst (Annotations sc hs c))"
    "answers_for i k t sid a (fst (AvailabilityAnnotations sc ids c))"
proof -
  note I = answers_forI [OF a]
  show "answers_for i k t sid a (fst (StartSpeedDiagnostics sc hostname clock results source threshold c))"
    by (rule I [OF answers.rel_StartSpeed]) (simp add: StartSpeedDiagnostics_def start_all_availability)
  show "answers_for i k t sid a (fst (resumeDeferred sc clock hs c))"
    by (rule I [OF answers.rel_resume]) (simp add: resumeDeferred_def start_all_availability)
  show "answers_for i k t sid a (fst (automation_Snapshot sc now c))"
    by (rule I [OF answers.rel_snapshot]) (simp add: automation_Snapshot_def)
  show "answers_for i k t sid a (fst (measuringCount sc wanted c))"
    by (rule I [OF answers.rel_measuring]) (simp add: measuringCount_def Let_def case_prod_beta)
  show "answers_for i k t sid a (fst (Annotations sc hs c))"
    by (rule I [OF answers.rel_annotations]) (simp add: annotations_fields)
  show "answers_for i k t sid a (fst (AvailabilityAnnotations sc ids c))"
    unfolding AvailabilityAnnotations_def using a
    by (intro I [OF answers.rel_annotate]) (auto simp: answers_for_def annotate_final)
qed

end

end
