(* ===== verification/OpenSessions.thy ===== *)
theory OpenSessions
  imports RemoteQueue
begin

text \<open>
  The sessions of automatic diagnostics that are still open in the manager, and what the calls of the
  remote controller do to them: only \<open>CreateAutomatic\<close> opens one, the one it returns, and no call
  takes an accepted observation back.
\<close>

subsection \<open>Which calls add a session\<close>

definition known :: "manager \<Rightarrow> string set" where
  "known m = {k. find_session m k \<noteq> None}"

lemma known_keys: "known m = set (map fst (sessions m))"
  by (auto simp: known_def find_session_def map_of_eq_None_iff)

lemma known_frame [simp]:
  "known (m\<lparr>jobs := jb\<rparr>) = known m" "known (m\<lparr>reservedNonces := rn\<rparr>) = known m"
  "known (m\<lparr>usedNonces := un\<rparr>) = known m" "known (put_session k s m) = known m"
  "known (expireLocked now m) = known m"
  unfolding known_keys by (simp_all add: frame)

lemma known_remove: "known (removeSessionLocked k m) \<subseteq> known m"
  by (auto simp: known_def)

lemma known_fold_remove: "known (fold removeSessionLocked ks m) \<subseteq> known m"
  by (auto simp: known_def fold_remove_find)

lemma known_register [simp]: "known (fst (RegisterJob now newJob newNonce g m)) = known m"
proof (cases "RegisterJob now newJob newNonce g m" rule: outcome_cases)
  case (1 m' e)
  then show ?thesis using RegisterJob_error [OF 1] by auto
next
  case (2 m' job)
  show ?thesis by (rule RegisterJob_ok [OF 2], unfold 2 fst_conv, simp only: known_frame)
qed

lemma known_transition [simp]: "known (fst (transitionJob now jobID st m)) = known m"
proof (cases "transitionJob now jobID st m" rule: outcome_cases)
  case (1 m' e)
  then show ?thesis using transitionJob_error [OF 1] by simp
next
  case (2 m' u)
  show ?thesis by (rule transitionJob_ok [OF 2 [unfolded unit_eq [of u]]]) (simp add: 2)
qed

lemma known_accept [simp]: "known (fst (AcceptObservation marshal verify now obs m)) = known m"
proof (cases "AcceptObservation marshal verify now obs m" rule: outcome_cases)
  case (1 m' e)
  then show ?thesis using AcceptObservation_error [OF 1] by auto
next
  case (2 m' r)
  show ?thesis by (rule AcceptObservation_ok [OF 2], unfold 2 fst_conv, simp only: known_frame)
qed

lemma known_others [simp]:
  "known (fst (CancelSession now sid m)) = known m" "known (fst (Session now sid m)) = known m"
  "known (fst (Sessions order now m)) = known m" "known (fst (MarkJobDispatched now jobID m)) = known m"
  "known (fst (MarkJobRunning now jobID m)) = known m"
  by (simp_all add: CancelSession_eq Session_def Sessions_def Let_def MarkJobDispatched_def
      MarkJobRunning_def split: option.split)

lemma known_delete:
  "known (fst (DeleteSession sid m)) \<subseteq> known m" "known (fst (DeleteSessions stableID m)) \<subseteq> known m"
  by (simp_all add: DeleteSession_def DeleteSessions_def Let_def known_remove known_fold_remove)

lemma known_create:
  assumes "listing order" and wf: "wf_manager m"
  shows "known (fst (CreateSession order now newID request m)) \<subseteq> known m \<union>
    (case snd (CreateSession order now newID request m) of Inl e \<Rightarrow> {} | Inr s \<Rightarrow> {s_SessionID s})"
proof -
  have "known (fst (makeCapacityLocked order (expireLocked now m))) \<subseteq> known (expireLocked now m)"
    unfolding known_def using capacity_find [OF assms(1) wf_expireLocked [OF wf], of now] by (metis (lifting) mem_Collect_eq subsetI)
  then have c: "known (fst (makeCapacityLocked order (expireLocked now m))) \<subseteq> known m" by simp
  show ?thesis
  proof (cases rule: CreateSession_cases [of order now newID request m])
    case (created q sid s)
    then show ?thesis using c by (auto simp: known_keys new_session_def)
  qed (use c in auto)
qed

subsection \<open>Open sessions of automatic diagnostics\<close>

definition by_automation :: "string \<Rightarrow> bool" where
  "by_automation t \<longleftrightarrow> t \<in> {TriggerAutoSpeedFallback, TriggerAutoProxyFailure, TriggerAutoOffline}"

definition open_automatic :: "manager \<Rightarrow> string set" where
  "open_automatic m = {k. \<exists>s. find_session m k = Some s \<and> \<not> s_terminal (s_State s) \<and> by_automation (s_Trigger s)}"

text \<open>A session, if the manager still has it, holds an accepted observation.\<close>

definition answered :: "manager \<Rightarrow> string \<Rightarrow> bool" where
  "answered m k \<longleftrightarrow> (\<forall>s. find_session m k = Some s \<longrightarrow> s_AgentObservations s \<noteq> [])"

text \<open>No session is opened or loses an answer, save the sessions named.\<close>

definition carried :: "string set \<Rightarrow> manager \<Rightarrow> manager \<Rightarrow> bool" where
  "carried new m m' \<longleftrightarrow> open_automatic m' \<subseteq> open_automatic m \<union> new \<and> known m' \<subseteq> known m \<union> new \<and>
     (\<forall>k. k \<notin> new \<longrightarrow> answered m k \<longrightarrow> answered m' k)"

lemma carried_refl [simp]: "carried new m m"
  by (auto simp: carried_def)

lemma carried_trans: "carried new m m1 \<Longrightarrow> carried new m1 m2 \<Longrightarrow> carried new m m2"
  unfolding carried_def by blast

lemma carried_mono: "carried new m m' \<Longrightarrow> new \<subseteq> new' \<Longrightarrow> carried new' m m'"
  unfolding carried_def by blast

lemma carried_kept:
  assumes k: "\<And>k. kept k m m'" and n: "known m' \<subseteq> known m \<union> new"
  shows "carried new m m'"
proof -
  have e: "k \<in> new \<or> (\<exists>s. find_session m k = Some s \<and> evolves s s')" if "find_session m' k = Some s'" for k s'
    using n that k [of k] by (fastforce simp: known_def kept_def)
  have "open_automatic m' \<subseteq> open_automatic m \<union> new"
    using e by (fastforce simp: open_automatic_def evolves_def)
  moreover have "answered m' k" if "k \<notin> new" "answered m k" for k
    unfolding answered_def
  proof (intro allI impI)
    fix s' assume "find_session m' k = Some s'"
    from e [OF this] that show "s_AgentObservations s' \<noteq> []"
      by (fastforce simp: answered_def evolves_def)
  qed
  ultimately show ?thesis using n by (simp add: carried_def)
qed

lemma carried_step:
  "diag_step m m' \<Longrightarrow> wf_manager m \<Longrightarrow> known m' \<subseteq> known m \<union> new \<Longrightarrow> carried new m m'"
  by (rule carried_kept) (simp_all add: kept_step)

lemma carried_none:
  "diag_step m m' \<Longrightarrow> wf_manager m \<Longrightarrow> known m' \<subseteq> known m \<Longrightarrow> carried {} m m'"
  by (rule carried_step) simp_all

lemma carried_calls:
  assumes w: "wf_manager m"
  shows "carried {} m (fst (RegisterJob now newJob newNonce g m))"
    "carried {} m (fst (MarkJobDispatched now jobID m))" "carried {} m (fst (MarkJobRunning now jobID m))"
    "carried {} m (fst (AcceptObservation marshal verify now obs m))"
    "carried {} m (fst (DeleteSession sid m))" "carried {} m (fst (DeleteSessions stableID m))"
    "carried {} m (fst (CancelSession now sid m))" "carried {} m (fst (Session now sid m))"
    "carried {} m (fst (Sessions order now m))"
  by (rule carried_none [OF diag_step.intros(2) w], simp, rule carried_none [OF diag_step.intros(3) w], simp,
     rule carried_none [OF diag_step.intros(4) w], simp, rule carried_none [OF diag_step.intros(5) w], simp,
     rule carried_none [OF diag_step.intros(6) w known_delete(1)], rule carried_none [OF diag_step.intros(7) w known_delete(2)],
     rule carried_none [OF diag_step.intros(8) w], simp, rule carried_none [OF diag_step.intros(9) w], simp,
     rule carried_none [OF diag_step.intros(10) w], simp)

lemma carried_create:
  assumes "listing order" and wf: "wf_manager m"
    and c: "CreateSession order now newID request m = (m', r)"
  shows "r = Inl e \<Longrightarrow> carried {} m m'" "r = Inr s \<Longrightarrow> carried {s_SessionID s} m m'"
    "r = Inr s \<Longrightarrow> newID = Some (s_SessionID s)"
proof -
  have step: "diag_step m m'" using diag_step.intros(1) [OF assms(1), of m now newID request] c by simp
  note k = known_create [OF assms(1) wf, of now newID request, unfolded c fst_conv snd_conv]
  show "r = Inl e \<Longrightarrow> carried {} m m'" "r = Inr s \<Longrightarrow> carried {s_SessionID s} m m'"
    using carried_step [OF step wf] k by simp_all
  show "newID = Some (s_SessionID s)" if "r = Inr s"
    using c that by (cases rule: CreateSession_cases [of order now newID request m]) (auto simp: new_session_def)
qed

subsection \<open>Calls of the controller\<close>

abbreviation moved :: "string set \<Rightarrow> controller \<Rightarrow> controller \<Rightarrow> bool" where
  "moved new c c' \<equiv> carried new (ct_manager c) (ct_manager c')"

lemma expired_assignments_manager [simp]: "ct_manager (removeExpiredAssignmentsLocked now c) = ct_manager c"
  by (simp add: removeExpiredAssignmentsLocked_def)

lemma made_session:
  assumes "listing order" and wf: "wf_manager m" and c: "CreateSession order now newID request m = (m1, Inr s)"
    and k: "carried {} m1 m2" and n: "\<not> by_automation (q_Trigger request) \<or> s_SessionID s \<notin> open_automatic m2"
    and e: "kept (s_SessionID s) m1 m2"
  shows "open_automatic m2 \<subseteq> open_automatic m"
proof -
  have "s_SessionID s \<notin> open_automatic m2"
  proof
    assume a: "s_SessionID s \<in> open_automatic m2"
    then obtain s' where "find_session m2 (s_SessionID s) = Some s'" "by_automation (s_Trigger s')"
      by (auto simp: open_automatic_def)
    moreover have "find_session m1 (s_SessionID s) = Some s" "s_Trigger s = q_Trigger request"
      using CreateSession_made [OF assms(1) wf c] by blast+
    ultimately have "by_automation (q_Trigger request)"
      using e by (auto simp: kept_def evolves_def)
    then show False using n a by blast
  qed
  then show ?thesis using carried_create(2) [OF assms(1) wf c refl] k by (auto simp: carried_def)
qed

lemma cancelled_closed: "TrimSpace sid = sid \<Longrightarrow> sid \<notin> open_automatic (fst (CancelSession now sid m))"
  unfolding CancelSession_eq
  by (auto simp: open_automatic_def cancel_session_def split: option.split simp del: find_expireLocked)

lemma kept_calls:
  assumes "wf_manager m"
  shows "kept k m (fst (CancelSession now sid m))" "kept k m (fst (Session now sid m))"
  by (rule kept_step [OF diag_step.intros(8) assms], rule kept_step [OF diag_step.intros(9) assms])

lemma kept_trans: "kept k m m1 \<Longrightarrow> carried {} m1 m2 \<Longrightarrow> kept k m1 m2 \<Longrightarrow> kept k m m2"
  unfolding kept_def carried_def known_def using evolves_trans by (smt (verit) mem_Collect_eq subset_iff Un_empty_right)

lemma opened_one:
  assumes "wf_manager m'" and "carried {k} m m'"
  shows "open_automatic m' \<subseteq> open_automatic m \<union> s_SessionID ` set_option (find_session m' k)"
proof
  fix i assume i: "i \<in> open_automatic m'"
  then obtain s where s: "find_session m' i = Some s" by (auto simp: open_automatic_def)
  then have "s_SessionID s = i" by (rule wf_managerD(4) [OF assms(1)])
  then show "i \<in> open_automatic m \<union> s_SessionID ` set_option (find_session m' k)"
    using assms(2) i s by (cases "i = k") (auto simp: carried_def)
qed

text \<open>
  What placing a job does to the sessions: it opens at most the session it returns, none of automatic
  diagnostics when the trigger is another one, and a refusal leaves nothing open.
\<close>

definition placed_session :: "string option \<Rightarrow> bool \<Rightarrow> manager \<Rightarrow> manager \<times> (remote_error + DiagnosticSession option) \<Rightarrow> bool" where
  "placed_session newID auto m r \<longleftrightarrow> (\<exists>new. carried new m (fst r) \<and>
     (\<forall>k\<in>new. validToken k \<and> newID = Some k) \<and>
     open_automatic (fst r) \<subseteq> open_automatic m \<union>
       (case snd r of Inl e \<Rightarrow> {} | Inr v \<Rightarrow> if auto then s_SessionID ` set_option v else {}))"

lemma placed_sessionI:
  "carried new m m' \<Longrightarrow> (\<And>k. k \<in> new \<Longrightarrow> validToken k \<and> newID = Some k) \<Longrightarrow>
   open_automatic m' \<subseteq> open_automatic m \<union>
     (case r of Inl e \<Rightarrow> {} | Inr v \<Rightarrow> if auto then s_SessionID ` set_option v else {}) \<Longrightarrow>
   placed_session newID auto m (m', r)"
  unfolding placed_session_def by auto

lemma place_job_sessions:
  assumes l: "listing (ou_order w)" and wf: "wf_manager (ct_manager c)"
    and p: "place_job w request profile agentID sn cfg c = (c', r)"
  shows "placed_session (ou_ids w 0) (by_automation (q_Trigger request)) (ct_manager c) (ct_manager c', r)"
proof (cases "CreateSession (ou_order w) (ou_clock w 1) (ou_ids w 0) request (ct_manager c)" rule: outcome_cases)
  case (1 m1 e)
  have "carried {} (ct_manager c) m1" by (rule carried_create(1) [OF l wf 1 refl])
  moreover have "ct_manager c' = m1" "r = Inl (Refused e)" using p 1 by (auto simp: place_job_def)
  ultimately show ?thesis by (intro placed_sessionI [of "{}"]) (auto simp: carried_def)
next
  case C: (2 m1 s)
  let ?g = "\<lparr>g_SessionID = s_SessionID s, g_AgentID = agentID, g_Profile = profile,
      g_ExpiresAt = q_ExpiresAt request\<rparr>"
  have w1: "wf_manager m1" using CreateSession_wf [OF l wf, of "ou_clock w 1" "ou_ids w 0" request] C by simp
  note made = CreateSession_made [OF l wf C]
  have id: "TrimSpace (s_SessionID s) = s_SessionID s" by (rule validToken_trim [OF made(2)])
  have new: "\<And>k. k \<in> {s_SessionID s} \<Longrightarrow> validToken k \<and> ou_ids w 0 = Some k"
    using made(2) carried_create(3) [OF l wf C refl] by simp
  have c1: "carried {s_SessionID s} (ct_manager c) m1" by (rule carried_create(2) [OF l wf C refl])
  obtain m2 x where R: "RegisterJob (ou_clock w 2) (ou_ids w 1) (ou_ids w 2) ?g m1 = (m2, x)" by fastforce
  have w2: "wf_manager m2" using RegisterJob_wf [OF w1, of "ou_clock w 2" "ou_ids w 1" "ou_ids w 2" ?g] R by simp
  have c2: "carried {} m1 m2" "kept k m1 m2" for k
    using carried_calls(1) [OF w1, of "ou_clock w 2" "ou_ids w 1" "ou_ids w 2" ?g]
      kept_register [of k m1 "ou_clock w 2" "ou_ids w 1" "ou_ids w 2" ?g] R by simp_all
  show ?thesis
  proof (cases x)
    case (Inl e)
    let ?m = "fst (CancelSession (ou_clock w 3) (s_SessionID s) m2)"
    note c3 = carried_calls(7) [OF w2, of "ou_clock w 3" "s_SessionID s"]
    have c': "ct_manager c' = ?m" "r = Inl (Refused e)" using p C R Inl by (auto simp: place_job_def)
    have "open_automatic ?m \<subseteq> open_automatic (ct_manager c)"
      by (rule made_session [OF l wf C carried_trans [OF c2(1) c3]])
        (simp_all add: cancelled_closed [OF id] kept_trans [OF c2(2) c3 kept_calls(1) [OF w2]])
    moreover have "carried {s_SessionID s} (ct_manager c) ?m"
      using carried_trans [OF c1 carried_mono [OF carried_trans [OF c2(1) c3]]] by simp
    ultimately show ?thesis unfolding c' using new by (intro placed_sessionI [of "{s_SessionID s}"]) auto
  next
    case (Inr job)
    let ?m = "fst (Session (ou_clock w 4) (s_SessionID s) m2)"
    note c3 = carried_calls(8) [OF w2, of "ou_clock w 4" "s_SessionID s"]
    have c': "ct_manager c' = ?m" "r = Inr (find_session ?m (s_SessionID s))"
      using p C R Inr by (auto simp: place_job_def Let_def Session_def signalAgentLocked_def id simp del: find_expireLocked)
    have w3: "wf_manager ?m" by (rule Session_wf(1) [OF w2])
    have 3: "carried {s_SessionID s} (ct_manager c) ?m"
      using carried_trans [OF c1 carried_mono [OF carried_trans [OF c2(1) c3]]] by simp
    have "open_automatic ?m \<subseteq> open_automatic (ct_manager c)" if "\<not> by_automation (q_Trigger request)"
      by (rule made_session [OF l wf C carried_trans [OF c2(1) c3]])
        (simp_all add: that kept_trans [OF c2(2) c3 kept_calls(2) [OF w2]])
    moreover have "open_automatic ?m \<subseteq> open_automatic (ct_manager c) \<union>
        s_SessionID ` set_option (find_session ?m (s_SessionID s))"
      by (rule opened_one [OF w3 3])
    ultimately show ?thesis unfolding c' using new 3
      by (intro placed_sessionI [of "{s_SessionID s}"]) simp_all
  qed
qed

lemma placed_refused [simp]: "placed_session newID auto m (m, Inl e)"
  by (rule placed_sessionI [of "{}"]) simp_all

lemma placing_sessions:
  assumes "sane_outside w" and "wf_controller c" and "by_automation (q_Trigger request) = auto"
  shows "placed_session (ou_ids w 0) auto (ct_manager c)
    (ct_manager (fst (place_job w request profile agentID sn cfg (removeExpiredAssignmentsLocked now c))),
     snd (place_job w request profile agentID sn cfg (removeExpiredAssignmentsLocked now c)))"
  unfolding assms(3) [symmetric]
  using place_job_sessions [OF _ wf_controllerD(1) [OF wf_expired_assignments [OF assms(2)]] prod.collapse [symmetric]]
    assms(1) by (simp add: sane_outside_def)

lemma targeted_sessions:
  assumes o: "sane_outside w" and wf: "wf_controller c" and t: "\<not> by_automation (tr_Trigger r)"
  shows "placed_session (ou_ids w 0) False (ct_manager c)
    (ct_manager (fst (createTargeted w r c)), snd (createTargeted w r c))"
proof (cases rule: createTargeted_cases [of w r c])
  case (placing a d sn cfg fp)
  show ?thesis unfolding placing(7)
    by (rule placing_sessions [OF o wf]) (simp add: targeted_request_def t)
qed simp_all

lemma automatic_sessions:
  assumes o: "sane_outside w" and wf: "wf_controller c"
  shows "placed_session (ou_ids w 0) True (ct_manager c)
    (ct_manager (fst (CreateAutomatic w r c)), snd (CreateAutomatic w r c))"
proof (cases rule: CreateAutomatic_cases [of w r c])
  case (placing d sn cfg fp host a)
  have "by_automation (ar_Trigger r)" using placing(2) by (simp add: by_automation_def)
  then show ?thesis unfolding placing(11)
    by (intro placing_sessions [OF o wf]) (simp add: automatic_request_def)
qed simp_all

lemma claim_loop_moved:
  "wf_controller c \<Longrightarrow> moved {} c (fst (claim_loop clock n agentID ids c))"
proof (induction clock n agentID ids c rule: claim_loop.induct)
  case (2 clock n agentID jobID ids c)
  show ?case
  proof (cases "map_of (ct_assignments c) jobID")
    case None
    then show ?thesis using "2.IH"(1) "2.prems" by simp
  next
    case q: (Some q)
    note w1 = claim_step_wf(1) [OF "2.prems", of "clock (n + 1)" jobID]
    let ?d = "MarkJobDispatched (clock (n + 1)) jobID (ct_manager c)"
    let ?r = "MarkJobRunning (clock (n + 2)) jobID (fst ?d)"
    have 1: "carried {} (ct_manager c) (fst ?d)" by (rule carried_calls(2) [OF wf_controllerD(1) [OF "2.prems"]])
    have "wf_manager (fst ?d)" using wf_controllerD(1) [OF w1] by simp
    from carried_trans [OF 1 carried_calls(3) [OF this]] have 2: "carried {} (ct_manager c) (fst ?r)" .
    show ?thesis
      using "2.prems" "2.IH"(2,3) [OF q refl refl] q wf_delete_key [OF "2.prems", of jobID] 1 2
      by (cases ?d rule: outcome_cases; cases ?r rule: outcome_cases) (simp_all add: Let_def)
  qed
qed simp

lemma claim_moved:
  assumes "wf_controller c"
  shows "moved {} c (fst (claimNow clock agentID c))" "moved {} c (signal_taken i c)"
  using claim_loop_moved [OF assms] by (simp_all add: claimNow_def signal_taken_def)

lemma accept_moved:
  assumes "wf_controller c"
  shows "moved {} c (fst (controller_AcceptObservation w marshal verify obs c))"
  using carried_calls(4) [OF wf_controllerD(1) [OF assms], of marshal verify "ou_clock w 0" obs]
  by (cases "AcceptObservation marshal verify (ou_clock w 0) obs (ct_manager c)" rule: outcome_cases)
    (auto simp: controller_AcceptObservation_def split: option.split)

lemma endings_moved:
  assumes "wf_controller c"
  shows "moved {} c (fst (Cancel now sid c))" "moved {} c (fst (Delete sid c))" "moved {} c (fst (Clear i c))"
    "moved {} c (fst (controller_Sessions order now now2 i c))" "moved {} c (fst (controller_Session now sid c))"
  using carried_calls(5) [OF wf_controllerD(1) [OF assms], of "TrimSpace sid"]
    carried_calls(6) [OF wf_controllerD(1) [OF assms], of "TrimSpace i"]
    carried_calls(7) [OF wf_controllerD(1) [OF assms], of now sid]
    carried_calls(8) [OF wf_controllerD(1) [OF assms], of now sid]
    carried_calls(9) [OF wf_controllerD(1) [OF assms], of order now]
  by (auto simp: Cancel_def Delete_def Clear_def controller_Session_def controller_Sessions_def
      dropAssignmentsFor_def Let_def case_prod_beta split: prod.splits sum.splits)

subsection \<open>The calls of everyone else\<close>

text \<open>
  What the administrator, the reachability sweep, the agents and the views call; \<open>w\<close> is the world
  outside during the call.
\<close>

inductive other_call :: "outside \<Rightarrow> controller \<Rightarrow> controller \<Rightarrow> bool" for w where
  manual: "other_call w c (fst (CreateManual w stableID agentID profileID c))"
| sweep: "other_call w c (fst (CreateSweep w stableID agentID profileID c))"
| attempt: "other_call w c (fst (claimNow clock agentID c))"
| woken: "other_call w c (signal_taken agentID c)"
| observation: "other_call w c (fst (controller_AcceptObservation w marshal verify obs c))"
| cancelled: "other_call w c (fst (Cancel now sessionID c))"
| deleted: "other_call w c (fst (Delete sessionID c))"
| cleared: "other_call w c (fst (Clear stableID c))"
| viewed: "other_call w c (fst (controller_Session now sessionID c))"
| listed: "other_call w c (fst (controller_Sessions order now now2 stableID c))"

inductive_cases other_callE: "other_call w c c'"

lemma other_call_step: "other_call w c c' \<Longrightarrow> sane_outside w \<Longrightarrow> controller_step c c'"
  by (cases rule: other_call.cases) (auto intro: controller_step.intros)

lemma carried_placed: "carried {} m m' \<Longrightarrow> \<exists>r. placed_session newID False m (m', r)"
  by (rule exI [of _ "Inl ErrDisabled"], rule placed_sessionI [of "{}"]) (auto simp: carried_def)

lemma other_call_sessions:
  assumes "other_call w c c'" and "sane_outside w" and "wf_controller c"
  shows "\<exists>r. placed_session (ou_ids w 0) False (ct_manager c) (ct_manager c', r)"
  using assms(1)
proof cases
  case (manual stableID agentID profileID)
  then show ?thesis unfolding CreateManual_def
    using targeted_sessions [OF assms(2,3), of "targetedRequest.make stableID agentID profileID TriggerManual"]
    by (auto simp: by_automation_def trigger_defs targetedRequest.make_def)
next
  case (sweep stableID agentID profileID)
  then show ?thesis unfolding CreateSweep_def
    using targeted_sessions [OF assms(2,3), of "targetedRequest.make stableID agentID profileID TriggerReachabilitySweep"]
    by (auto simp: by_automation_def trigger_defs targetedRequest.make_def)
qed (use assms(3) in \<open>simp_all add: carried_placed claim_moved accept_moved endings_moved\<close>)

end
