(* ===== verification/RemoteGuarantees.thy ===== *)
theory RemoteGuarantees
  imports RemoteQueue
begin

text \<open>
  What the remote controller guarantees: its queue agrees with the session manager, an agent gets
  only its own job and the manager then holds it running, the automatic workflow asks only an agent
  away from the node, every controller step is a run of the manager, and which local results the
  manager accepts.
\<close>

subsection \<open>A sample run\<close>

definition sample_node :: "ProxyStatusDetails option \<Rightarrow> DiagnosticProxySnapshot" where
  "sample_node st = \<lparr>dx_StableID = ''node'', dx_Server = ''192.0.2.1'', dx_Port = 443, dx_SNI = ''a.example'',
     dx_Generation = 1, dx_Maintenance = False, dx_Status = st\<rparr>"

definition sample_agent :: "string \<Rightarrow> string \<Rightarrow> time \<Rightarrow> AgentSnapshot" where
  "sample_agent i source seen = \<lparr>ag_AgentID = i, ag_Enabled = True, ag_Connected = True, ag_Health = ''healthy'',
     ag_Capabilities = [CapabilityControlV1, CapabilityDiagnosticV1], ag_LastSeenAt = seen,
     ag_ExpectedSourceIP = source\<rparr>"

text \<open>The agent seen last runs on the host of the node.\<close>

definition sample_outside :: "ProxyStatusDetails option \<Rightarrow> outside" where
  "sample_outside st = \<lparr>ou_registryEnabled = True, ou_projectMaintenance = (\<lambda>n. False),
     ou_agents = [sample_agent ''near'' ''192.0.2.1'' 9, sample_agent ''far'' ''198.51.100.7'' 5],
     ou_nodes = [sample_node st], ou_generate = (\<lambda>sn. Some [1]), ou_digest = (\<lambda>cfg. sample_fingerprint),
     ou_parse = Some, ou_lookup = (\<lambda>host. None), ou_prefer = None, ou_clock = (\<lambda>n. hour),
     ou_ids = (\<lambda>n. Some (if n = 0 then ''s'' else if n = 1 then ''j'' else ''n'')), ou_order = id\<rparr>"

definition sample_controller :: controller where
  "sample_controller = the (NewController True \<lparr>cc_Enabled = True, cc_CheckMethod = ''ip'', cc_JobTTL = 0,
     cc_SocksPort = 0\<rparr>)"

definition sample_queued :: controller where
  "sample_queued = fst (CreateManual (sample_outside None) ''node'' ''far'' [] sample_controller)"

lemma sample_outside_sane: "sane_outside (sample_outside st)"
proof -
  have "TrimSpace ''near'' = ''near''" "TrimSpace ''far'' = ''far''" by code_simp+
  then show ?thesis by (simp add: sane_outside_def sample_outside_def listing_def sample_agent_def)
qed

lemma sample_controller_start: "controller_start sample_controller"
proof -
  have "NewController True \<lparr>cc_Enabled = True, cc_CheckMethod = ''ip'', cc_JobTTL = 0,
     cc_SocksPort = 0\<rparr> \<noteq> None" by code_simp
  then show ?thesis by (auto simp: controller_start_def sample_controller_def)
qed

lemma sample_queued_run: "controller_step\<^sup>*\<^sup>* sample_controller sample_queued"
  unfolding sample_queued_def by (intro r_into_rtranclp controller_step.manual sample_outside_sane)


lemma sample_queued_jobs:
  "map (\<lambda>(k, q). (k, j_AgentID (queued_job q), qa_claimed q)) (ct_assignments sample_queued) =
   [(''j'', ''far'', False)]"
  by code_simp

subsection \<open>The local result\<close>

text \<open>The codes of the checker's classifiers, and the manager's answer to each.\<close>

definition checker_codes :: "string set" where
  "checker_codes = {''configuration'', ''dns'', ''tcp_refused'', ''tcp_timeout'', ''host_unreachable'',
     ''proxy_handshake'', ''proxy_timeout'', ''proxy_stream_closed'', ''tls'', ''http_status'',
     ''source_ip_unchanged'', ''download_incomplete'', ''unknown''}"

lemma if_mem: "a \<in> S \<Longrightarrow> b \<in> S \<Longrightarrow> (if P then a else b) \<in> S"
  by simp

lemma checker_codesI:
  "''configuration'' \<in> checker_codes" "''dns'' \<in> checker_codes" "''tcp_refused'' \<in> checker_codes"
  "''tcp_timeout'' \<in> checker_codes" "''host_unreachable'' \<in> checker_codes" "''proxy_handshake'' \<in> checker_codes"
  "''proxy_timeout'' \<in> checker_codes" "''proxy_stream_closed'' \<in> checker_codes" "''tls'' \<in> checker_codes"
  "''http_status'' \<in> checker_codes" "''source_ip_unchanged'' \<in> checker_codes"
  "''download_incomplete'' \<in> checker_codes" "''unknown'' \<in> checker_codes"
  by (simp_all add: checker_codes_def)

lemma checker_codes_valid:
  assumes "c \<in> checker_codes"
  shows "TrimSpace c = c" "c \<noteq> []" "validFailureCode c \<longleftrightarrow> c \<noteq> FailureCodeProxyStreamClosed"
proof -
  have "list_all solid ''configuration''" "list_all solid ''dns''" "list_all solid ''tcp_refused''"
    "list_all solid ''tcp_timeout''" "list_all solid ''host_unreachable''" "list_all solid ''proxy_handshake''"
    "list_all solid ''proxy_timeout''" "list_all solid ''proxy_stream_closed''" "list_all solid ''tls''"
    "list_all solid ''http_status''" "list_all solid ''source_ip_unchanged''"
    "list_all solid ''download_incomplete''" "list_all solid ''unknown''"
    by code_simp+
  then show "TrimSpace c = c" "c \<noteq> []"
    using assms TrimSpace_solid by (auto simp: checker_codes_def)
  show "validFailureCode c \<longleftrightarrow> c \<noteq> FailureCodeProxyStreamClosed"
    using assms unfolding checker_codes_def validFailureCode_def FailureCodeProxyStreamClosed_def
    by (elim insertE) simp_all
qed

lemma failureFromError_codes: "failureFromError err \<in> insert [] checker_codes"
proof (cases err)
  case (Some e)
  show ?thesis unfolding Some failureFromError_def Let_def option.case FailureCodeProxyStreamClosed_def
    by (intro if_mem insertI2 checker_codesI)
qed (simp add: failureFromError_def)

lemma failureFromCheckResult_codes: "failureFromCheckResult method message \<in> checker_codes"
  unfolding failureFromCheckResult_def by (intro if_mem checker_codesI)

lemma failureFromHostCheck_codes: "failureFromHostCheck h \<in> checker_codes"
  unfolding failureFromHostCheck_def Let_def by (intro if_mem checker_codesI)

lemma DiagnoseFailure_codes:
  "code \<in> insert [] checker_codes \<Longrightarrow> DiagnoseFailure code host ping \<in> checker_codes"
  unfolding DiagnoseFailure_def Let_def
  by (cases "code = []"; simp only: simp_thms if_True if_False insert_iff)
    (intro if_mem checker_codesI failureFromHostCheck_codes | assumption)+

lemma failureStage_valid: "validFailureStage (failureStage code)"
  by (simp add: failureStage_def validFailureStage_def)

subsection \<open>The manager under the controller\<close>

lemma more_steps: "diag_step\<^sup>*\<^sup>* m m1 \<Longrightarrow> diag_step m1 m2 \<Longrightarrow> diag_step\<^sup>*\<^sup>* m m2"
  by (rule rtranclp.rtrancl_into_rtrancl)

lemma place_job_steps:
  assumes l: "listing (ou_order w)"
  shows "diag_step\<^sup>*\<^sup>* (ct_manager c) (ct_manager (fst (place_job w request profile agentID sn cfg c)))"
proof -
  let ?C = "CreateSession (ou_order w) (ou_clock w 1) (ou_ids w 0) request (ct_manager c)"
  have 1: "diag_step\<^sup>*\<^sup>* (ct_manager c) (fst ?C)" using l by (blast intro: diag_step.intros)
  show ?thesis
  proof (cases ?C rule: outcome_cases)
    case (1 m1 e)
    then show ?thesis using \<open>diag_step\<^sup>*\<^sup>* (ct_manager c) (fst ?C)\<close> by (simp add: place_job_def del: One_nat_def)
  next
    case C: (2 m1 s)
    let ?R = "RegisterJob (ou_clock w 2) (ou_ids w 1) (ou_ids w 2) \<lparr>g_SessionID = s_SessionID s,
        g_AgentID = agentID, g_Profile = profile, g_ExpiresAt = q_ExpiresAt request\<rparr> m1"
    have 2: "diag_step\<^sup>*\<^sup>* (ct_manager c) (fst ?R)"
      using 1 unfolding C fst_conv by (rule more_steps) (rule diag_step.intros)
    show ?thesis
    proof (cases ?R rule: outcome_cases)
      case (1 m2 e)
      then show ?thesis using more_steps [OF 2 diag_step.intros(8), of "ou_clock w 3" "s_SessionID s"]
        by (simp add: place_job_def C del: One_nat_def)
    next
      case (2 m2 job)
      then show ?thesis using more_steps [OF \<open>diag_step\<^sup>*\<^sup>* (ct_manager c) (fst ?R)\<close> diag_step.intros(9),
          of "ou_clock w 4" "s_SessionID s"]
        by (simp add: place_job_def C Let_def case_prod_beta signalAgentLocked_def del: One_nat_def)
    qed
  qed
qed

lemma expired_manager [simp]: "ct_manager (removeExpiredAssignmentsLocked now c) = ct_manager c"
  by (simp add: removeExpiredAssignmentsLocked_def)

lemma Targeted_steps:
  "sane_outside w \<Longrightarrow> diag_step\<^sup>*\<^sup>* (ct_manager c) (ct_manager (fst (createTargeted w r c)))"
proof (cases rule: createTargeted_cases [of w r c])
  case (placing a d sn cfg fp)
  assume "sane_outside w"
  then show ?thesis unfolding placing(7)
    using place_job_steps [of w "removeExpiredAssignmentsLocked (ou_clock w 0) c"] by (simp add: sane_outside_def)
qed simp_all

lemma Automatic_steps:
  "sane_outside w \<Longrightarrow> diag_step\<^sup>*\<^sup>* (ct_manager c) (ct_manager (fst (CreateAutomatic w r c)))"
proof (cases rule: CreateAutomatic_cases [of w r c])
  case (placing d sn cfg fp host a)
  assume "sane_outside w"
  then show ?thesis unfolding placing(11)
    using place_job_steps [of w "removeExpiredAssignmentsLocked (ou_clock w 0) c"] by (simp add: sane_outside_def)
qed simp_all

lemma claim_loop_steps:
  "diag_step\<^sup>*\<^sup>* (ct_manager c) (ct_manager (fst (claim_loop clock n agentID ids c)))"
proof (induction clock n agentID ids c rule: claim_loop.induct)
  case (2 clock n agentID jobID ids c)
  show ?case
  proof (cases "map_of (ct_assignments c) jobID")
    case None
    then show ?thesis using "2.IH"(1) by simp
  next
    case q: (Some q)
    let ?D = "MarkJobDispatched (clock (n + 1)) jobID (ct_manager c)"
    let ?R = "MarkJobRunning (clock (n + 2)) jobID (fst ?D)"
    have d: "diag_step\<^sup>*\<^sup>* (ct_manager c) (fst ?D)" by (intro r_into_rtranclp diag_step.intros)
    have r: "diag_step\<^sup>*\<^sup>* (ct_manager c) (fst ?R)" by (rule more_steps [OF d diag_step.intros(4)])
    show ?thesis
      using "2.IH"(2,3) [OF q refl refl] q d r
      by (cases ?D rule: outcome_cases; cases ?R rule: outcome_cases) (simp_all add: Let_def)
  qed
qed simp

lemma claimNow_steps: "diag_step\<^sup>*\<^sup>* (ct_manager c) (ct_manager (fst (claimNow clock agentID c)))"
  by (simp add: claimNow_def claim_loop_steps)

lemma single_step: "diag_step m m' \<Longrightarrow> diag_step\<^sup>*\<^sup>* m m'"
  by (rule r_into_rtranclp)

lemma controller_refines:
  assumes "controller_step c c'"
  shows "diag_step\<^sup>*\<^sup>* (ct_manager c) (ct_manager c')"
  using assms
proof cases
  case (observation w marshal verify obs)
  let ?r = "AcceptObservation marshal verify (ou_clock w 0) obs (ct_manager c)"
  have "diag_step\<^sup>*\<^sup>* (ct_manager c) (fst ?r)" by (intro single_step diag_step.intros)
  then show ?thesis unfolding observation
    by (cases ?r rule: outcome_cases) (auto simp: controller_AcceptObservation_def split: option.split)
next
  case (cancelled now sid)
  have "diag_step\<^sup>*\<^sup>* (ct_manager c) (fst (CancelSession now sid (ct_manager c)))"
    by (intro single_step diag_step.intros)
  then show ?thesis unfolding cancelled
    by (cases "CancelSession now sid (ct_manager c)" rule: outcome_cases) (auto simp: Cancel_def)
next
  case (deleted sid)
  have "diag_step\<^sup>*\<^sup>* (ct_manager c) (fst (DeleteSession (TrimSpace sid) (ct_manager c)))"
    by (intro single_step diag_step.intros)
  then show ?thesis unfolding deleted
    by (cases "DeleteSession (TrimSpace sid) (ct_manager c)" rule: outcome_cases)
      (auto simp: Delete_def dropAssignmentsFor_def Let_def)
next
  case (cleared i)
  have "diag_step\<^sup>*\<^sup>* (ct_manager c) (fst (DeleteSessions (TrimSpace i) (ct_manager c)))"
    by (intro single_step diag_step.intros)
  then show ?thesis unfolding cleared by (simp add: Clear_def dropAssignmentsFor_def Let_def case_prod_beta)
next
  case (viewed now sid)
  have "diag_step\<^sup>*\<^sup>* (ct_manager c) (fst (Session now sid (ct_manager c)))"
    by (intro single_step diag_step.intros)
  then show ?thesis unfolding viewed by (simp add: controller_Session_def Let_def case_prod_beta)
next
  case (listed order now now2 i)
  have "diag_step\<^sup>*\<^sup>* (ct_manager c) (fst (Sessions order now (ct_manager c)))"
    by (intro single_step diag_step.intros)
  then show ?thesis unfolding listed by (simp add: controller_Sessions_def Let_def case_prod_beta)
qed (auto simp: CreateManual_def CreateSweep_def Targeted_steps Automatic_steps claimNow_steps signal_taken_def)

lemma NewController_manager:
  assumes "NewController owners cfg = Some c"
  shows "diag_start (ct_manager c)"
proof -
  obtain m cfg' where "c = \<lparr>ct_config = cfg', ct_manager = m, ct_assignments = [], ct_waiters = {}\<rparr>"
    "NewDiagnosticSessionManager True \<lparr>SessionTTL = 0, ObservationMaxAge = 0, ClockSkew = 0,
       MaxSessions = 0, MaxAgentsPerSession = 0\<rparr> = Inr m"
    using assms unfolding NewController_def Let_def by (auto split: sum.splits if_splits)
  then show ?thesis by (auto simp: diag_start_def)
qed

lemma controller_run_refines:
  "controller_step\<^sup>*\<^sup>* c c' \<Longrightarrow> diag_step\<^sup>*\<^sup>* (ct_manager c) (ct_manager c')"
  by (induction rule: rtranclp_induct) (auto intro: controller_refines rtranclp_trans)

text \<open>
  So what is proved of the manager's runs holds beneath the controller, which calls nothing but the
  manager's own operations.
\<close>

lemma controller_refines_manager:
  assumes "controller_start c0" and "controller_step\<^sup>*\<^sup>* c0 c"
  shows "diag_start (ct_manager c0) \<and> diag_step\<^sup>*\<^sup>* (ct_manager c0) (ct_manager c)"
  using assms controller_run_refines NewController_manager by (auto simp: controller_start_def)

subsection \<open>Properties\<close>

text \<open>
  C15: in every state a controller reaches from its constructor by any sequence of its operations,
  the queue holds at most one job per node and agent under distinct keys, the session manager's own
  invariant holds, and whenever a session still has a job with a queued identifier, the queued job
  is that job up to its state: the credential-bearing queue and the manager never disagree on the
  agent, node, nonce, profile, generation or deadline of a job.
\<close>

theorem queue_agrees_with_manager:
  assumes "controller_start c0" and "controller_step\<^sup>*\<^sup>* c0 c"
  shows "wf_manager (ct_manager c) \<and> distinct (map fst (ct_assignments c)) \<and>
    distinct (map (\<lambda>x. (j_StableID (queued_job (snd x)), j_AgentID (queued_job (snd x)))) (ct_assignments c)) \<and>
    (\<forall>k q sid s j. (k, q) \<in> set (ct_assignments c) \<longrightarrow> find_session (ct_manager c) sid = Some s \<longrightarrow>
       j \<in> set (s_Jobs s) \<longrightarrow> j_JobID j = k \<longrightarrow> j\<lparr>j_State := Pending\<rparr> = queued_job q)"
proof -
  note w = remote.run_ok [OF assms]
  show ?thesis
    using queue_facts [OF w] wf_controllerD(1) [OF w] queued_in_step [OF w, unfolded unstate_def]
    by (intro conjI allI impI) simp_all
qed

theorem queue_agrees_with_manager_witness:
  "distinct (map (\<lambda>x. (j_StableID (queued_job (snd x)), j_AgentID (queued_job (snd x)))) (ct_assignments sample_queued)) \<and>
   length (ct_assignments sample_queued) = 1"
  using arg_cong [OF sample_queued_jobs, of length]
  by (intro conjI queue_agrees_with_manager [OF sample_controller_start sample_queued_run, THEN conjunct2,
        THEN conjunct2, THEN conjunct1]) simp

text \<open>
  C16: what a claim hands to an agent in a reachable state is an assignment queued under that agent's
  identifier whose deadline the clock had not reached; it stays queued, marked claimed, so the agent
  can ask again; and on the first delivery the manager then holds exactly this job, running, in a
  session that is still open.
\<close>

theorem agent_gets_its_own_running_job:
  assumes "controller_start c0" and "controller_step\<^sup>*\<^sup>* c0 c"
    and "claimNow clock agentID c = (c', Some (Inr a))"
  shows "\<exists>q t. map_of (ct_assignments c) (j_JobID (ja_Job a)) = Some q \<and> qa_assignment q = a \<and>
    j_AgentID (ja_Job a) = agentID \<and> clock t < j_ExpiresAt (ja_Job a) \<and>
    map_of (ct_assignments c') (j_JobID (ja_Job a)) = Some (q\<lparr>qa_claimed := True\<rparr>) \<and>
    (qa_claimed q \<or> running_as (ct_manager c') (ja_Job a))"
  using claim_loop_ok [OF remote.run_ok [OF assms(1,2)] assms(3) [unfolded claimNow_def]]
  unfolding delivered_def .

lemma sample_claim:
  "\<exists>c' a. claimNow (\<lambda>n. hour + 1) ''far'' sample_queued = (c', Some (Inr a)) \<and> j_JobID (ja_Job a) = ''j''"
proof -
  have "(case claimNow (\<lambda>n. hour + 1) ''far'' sample_queued of (c', Some (Inr a)) \<Rightarrow> j_JobID (ja_Job a) = ''j''
     | _ \<Rightarrow> False)" by code_simp
  then show ?thesis by (auto split: prod.splits option.splits sum.splits)
qed

theorem agent_gets_its_own_running_job_witness:
  "\<exists>q. map_of (ct_assignments sample_queued) ''j'' = Some q \<and> j_AgentID (queued_job q) = ''far'' \<and>
    hour + 1 < j_ExpiresAt (queued_job q)"
proof -
  obtain c' a where c: "claimNow (\<lambda>n. hour + 1) ''far'' sample_queued = (c', Some (Inr a))" and j: "j_JobID (ja_Job a) = ''j''"
    using sample_claim by blast
  show ?thesis
    using agent_gets_its_own_running_job [OF sample_controller_start sample_queued_run c] unfolding j
    by auto
qed

text \<open>
  C17: a session of the automatic workflow asks one registered agent that is enabled, connected,
  healthy, capable of the profile, without any unexpired job in the queue, and whose expected source
  address is none of the node's addresses; its job is queued for that agent and the node with the
  node's own server as target, the node is not under maintenance and the node's name resolved.
\<close>

theorem automatic_agent_is_elsewhere:
  assumes "sane_outside w" and "wf_controller c" and "CreateAutomatic w r c = (c', Inr s)"
  shows "\<exists>a sn host q. a \<in> set (ou_agents w) \<and> ag_Enabled a \<and> ag_Connected a \<and> ag_Health a = ''healthy'' \<and>
    CapabilityControlV1 \<in> set (ag_Capabilities a) \<and>
    (\<exists>d. ProfileByID (TrimSpace (ar_ProfileID r)) = Some d \<and> h_Capability d \<in> set (ag_Capabilities a)) \<and>
    (\<forall>k x. (k, x) \<in> set (ct_assignments c) \<longrightarrow> j_AgentID (queued_job x) = ag_AgentID a \<longrightarrow>
       j_ExpiresAt (queued_job x) \<le> ou_clock w 0) \<and>
    sn \<in> set (ou_nodes w) \<and> dx_StableID sn = TrimSpace (ar_StableID r) \<and> \<not> dx_Maintenance sn \<and>
    nodeHostAddresses w (dx_Server sn) = Some host \<and>
    (\<forall>source. ou_parse w (TrimSpace (ag_ExpectedSourceIP a)) = Some source \<longrightarrow> source \<notin> set host) \<and>
    q \<in> snd ` set (ct_assignments c') \<and> \<not> qa_claimed q \<and> j_AgentID (queued_job q) = ag_AgentID a \<and>
    j_StableID (queued_job q) = dx_StableID sn \<and> ja_TargetHost (qa_assignment q) = dx_Server sn"
proof (cases rule: CreateAutomatic_cases [of w r c])
  case (placing d sn cfg fp host a)
  let ?c = "removeExpiredAssignmentsLocked (ou_clock w 0) c"
  let ?q = "automatic_request r sn fp (ag_AgentID a) (ou_clock w 0 + cc_JobTTL (ct_config c))"
  note e = executionSnapshotD [OF placing(4)]
  have m: "listing (ou_order w)" "wf_manager (ct_manager ?c)" "TrimSpace (ag_AgentID a) = ag_AgentID a"
    "q_StableID ?q = dx_StableID sn"
    using assms(1) placing(8) wf_controllerD(1) [OF wf_expired_assignments [OF assms(2)]]
    by (auto simp: sane_outside_def automatic_request_def)
  obtain q where q: "q \<in> snd ` set (ct_assignments c')" "\<not> qa_claimed q" "j_AgentID (queued_job q) = ag_AgentID a"
    "j_StableID (queued_job q) = dx_StableID sn" "ja_TargetHost (qa_assignment q) = dx_Server sn"
    using place_job_ok [OF m(1-3) e(5) m(4) placing(11) [symmetric, unfolded assms(3)]] by blast
  have "j_ExpiresAt (queued_job x) \<le> ou_clock w 0"
    if "(k, x) \<in> set (ct_assignments c)" "j_AgentID (queued_job x) = ag_AgentID a" for k x
    using that placing(10)
    by (force simp: can_take_def busy_agents_def removeExpiredAssignmentsLocked_def)
  then show ?thesis using placing(3,5,7,8,9,10) e(1,2) q
    by (intro exI [of _ a] exI [of _ sn] exI [of _ host] exI [of _ q])
      (auto simp: can_take_def runsOnNodeHost_def)
qed (use assms(3) in auto)

lemma sample_automatic:
  "\<exists>c' s. CreateAutomatic (sample_outside None) \<lparr>ar_StableID = ''node'', ar_Trigger = TriggerAutoOffline,
     ar_ProfileID = ProfileIP, ar_AutomationContext = OfflineAutomationContext\<rparr> sample_controller = (c', Inr s)"
proof -
  have "isl (snd (CreateAutomatic (sample_outside None) \<lparr>ar_StableID = ''node'', ar_Trigger = TriggerAutoOffline,
     ar_ProfileID = ProfileIP, ar_AutomationContext = OfflineAutomationContext\<rparr> sample_controller)) = False" by code_simp
  then show ?thesis by (metis isl_def prod.collapse sum.collapse(2))
qed

theorem automatic_agent_is_elsewhere_witness:
  "\<exists>a\<in>set (ou_agents (sample_outside None)). ag_Health a = ''healthy'' \<and> ag_ExpectedSourceIP a \<noteq> ''192.0.2.1''"
proof -
  obtain c' s where c: "CreateAutomatic (sample_outside None) \<lparr>ar_StableID = ''node'', ar_Trigger = TriggerAutoOffline,
     ar_ProfileID = ProfileIP, ar_AutomationContext = OfflineAutomationContext\<rparr> sample_controller = (c', Inr s)"
    using sample_automatic by blast
  have t: "TrimSpace ''192.0.2.1'' = ''192.0.2.1''" by code_simp
  obtain a sn host where a: "a \<in> set (ou_agents (sample_outside None))" "ag_Health a = ''healthy''"
    "sn \<in> set (ou_nodes (sample_outside None))" "nodeHostAddresses (sample_outside None) (dx_Server sn) = Some host"
    "\<forall>source. ou_parse (sample_outside None) (TrimSpace (ag_ExpectedSourceIP a)) = Some source \<longrightarrow> source \<notin> set host"
    using automatic_agent_is_elsewhere [OF sample_outside_sane remote.start_ok [OF sample_controller_start] c]
    by (elim exE conjE) (rule that)
  have "host = [''192.0.2.1'']"
    using a(3,4) t by (simp add: sample_outside_def sample_node_def nodeHostAddresses_def)
  then have "ag_ExpectedSourceIP a \<noteq> ''192.0.2.1''" using a(5) t by (auto simp: sample_outside_def)
  then show ?thesis using a(1,2) by blast
qed

lemma local_result_valid:
  assumes c: "pd_FailureCode d \<in> checker_codes"
    and status: "EffectiveStatus d \<in> {ProbeStatusOnline, ProbeStatusProxyFailure, ProbeStatusOffline}"
    and checked: "pd_CheckedAt d \<noteq> 0" "0 \<le> pd_Latency d"
    and direct: "\<And>h. h \<in> {pd_HostCheck d, pd_PingCheck d} \<Longrightarrow>
      0 \<le> hc_Latency h \<and> (hc_Checked h \<or> \<not> hc_Online h \<and> hc_Latency h = 0)"
  shows "validateLocalResultSnapshot (localResult (Some d)) \<longleftrightarrow>
    EffectiveStatus d = ProbeStatusOnline \<or> pd_FailureCode d \<noteq> FailureCodeProxyStreamClosed"
proof -
  have ms0: "Milliseconds 0 = 0" by (simp add: Milliseconds_def)
  have ms: "0 \<le> x \<Longrightarrow> 0 \<le> Milliseconds x" for x
    by (simp add: Milliseconds_def duration_defs pos_imp_zdiv_nonneg_iff)
  have e: "validateCheckEvidence (checkEvidence (hc_Checked h) (hc_Online h) (hc_Latency h) code)"
    if "h \<in> {pd_HostCheck d, pd_PingCheck d}" "validFailureCode code" for h code
    using direct [OF that(1)] that(2) ms [of "hc_Latency h"] ms0
    by (auto simp: validateCheckEvidence_def checkEvidence_def)
  have v: "validFailureCode ''tcp_timeout''" "validFailureCode ''host_unreachable''"
    by (simp_all add: validFailureCode_def)
  define n where "n = localResult (Some d)"
  have n: "n_Status n = EffectiveStatus d" "n_CheckedAt n = pd_CheckedAt d" "0 \<le> n_LatencyMillis n"
    "validateCheckEvidence (n_TCP n)" "validateCheckEvidence (n_Ping n)"
    "EffectiveStatus d = ProbeStatusOnline \<Longrightarrow> n_Failure n = \<lparr>f_Code = [], f_Stage = []\<rparr>"
    "EffectiveStatus d \<noteq> ProbeStatusOnline \<Longrightarrow>
      n_Failure n = \<lparr>f_Code = pd_FailureCode d, f_Stage = failureStage (pd_FailureCode d)\<rparr>"
    using checked e v checker_codes_valid(1,2) [OF c] ms
    by (simp_all add: n_def localResult_def Let_def)
  have "validateProbeResult (EffectiveStatus d) (n_Failure n) \<longleftrightarrow>
      EffectiveStatus d = ProbeStatusOnline \<or> pd_FailureCode d \<noteq> FailureCodeProxyStreamClosed"
  proof (cases "EffectiveStatus d = ProbeStatusOnline")
    case True
    then show ?thesis using n(6) by (simp add: validateProbeResult_def)
  next
    case False
    then show ?thesis using n(7) status checker_codes_valid(3) [OF c] failureStage_valid
      by (simp add: validateProbeResult_def)
  qed
  moreover have "EffectiveStatus d \<noteq> ProbeStatusUnknown"
    using status by (auto simp: ProbeStatusOnline_def ProbeStatusProxyFailure_def ProbeStatusOffline_def
        ProbeStatusUnknown_def)
  ultimately show ?thesis using n status checked(1)
    unfolding validateLocalResultSnapshot_def n_def [symmetric] by auto
qed

lemma bad_local_result_refused:
  assumes "\<not> validateLocalResultSnapshot (q_LocalResultSnapshot q)"
  shows "CreateSession order now newID q m = (m, Inl ErrInvalidRequest)"
proof -
  have "q_LocalResultSnapshot (trimmed_request q) = q_LocalResultSnapshot q"
    by (simp add: trimmed_request_def Let_def)
  then show ?thesis using assms
    by (simp add: CreateSession_def validateCreateSessionRequest_def Let_def split: option.split)
qed

text \<open>
  C35: the manager accepts the local result of a failed node exactly unless the checker classified the
  failure as a stream closed inside the tunnel: every other code of the checker's classifiers is in
  the manager's list, this one is not, so each request to create a session for a node that last
  failed this way is refused, although a diagnostic for exactly this failure is offered.
\<close>

theorem stream_closed_node_undiagnosable:
  assumes "pd_FailureCode d = DiagnoseFailure code (pd_HostCheck d) (pd_PingCheck d)"
    and "code \<in> {[], ''configuration'', failureFromError err, failureFromCheckResult method message}"
    and "EffectiveStatus d \<in> {ProbeStatusOnline, ProbeStatusProxyFailure, ProbeStatusOffline}"
    and "pd_CheckedAt d \<noteq> 0" and "0 \<le> pd_Latency d"
    and "\<And>h. h \<in> {pd_HostCheck d, pd_PingCheck d} \<Longrightarrow>
      0 \<le> hc_Latency h \<and> (hc_Checked h \<or> \<not> hc_Online h \<and> hc_Latency h = 0)"
  shows "(validateLocalResultSnapshot (localResult (Some d)) \<longleftrightarrow>
      EffectiveStatus d = ProbeStatusOnline \<or> pd_FailureCode d \<noteq> FailureCodeProxyStreamClosed) \<and>
    (EffectiveStatus d \<noteq> ProbeStatusOnline \<longrightarrow> pd_FailureCode d = FailureCodeProxyStreamClosed \<longrightarrow>
      CreateSession order now newID (q\<lparr>q_LocalResultSnapshot := localResult (Some d)\<rparr>) m =
        (m, Inl ErrInvalidRequest))"
proof -
  have "code \<in> insert [] checker_codes"
    using assms(2) failureFromError_codes failureFromCheckResult_codes checker_codesI(1) by blast
  then have "pd_FailureCode d \<in> checker_codes" unfolding assms(1) by (rule DiagnoseFailure_codes)
  then have v: "validateLocalResultSnapshot (localResult (Some d)) \<longleftrightarrow>
      EffectiveStatus d = ProbeStatusOnline \<or> pd_FailureCode d \<noteq> FailureCodeProxyStreamClosed"
    by (rule local_result_valid) (use assms(3-6) in blast)+
  then show ?thesis by (auto intro!: bad_local_result_refused)
qed

text \<open>A node whose tunnel accepts the connection and then resets it.\<close>

definition sample_reset :: check_error where
  "sample_reset = \<lparr>er_text = ''read: connection reset by peer'', er_inner = None, er_dns = False,
     er_tls_record = False, er_deadline = False, er_timeout = False, er_eof = False\<rparr>"

definition sample_closed :: ProxyStatusDetails where
  "sample_closed = \<lparr>pd_Status = ProbeStatusProxyFailure, pd_Online = False, pd_Latency = 0, pd_CheckedAt = hour,
     pd_ProxyFailureSince = hour,
     pd_HostCheck = \<lparr>hc_Checked = True, hc_Online = True, hc_Latency = 5, hc_Error = []\<rparr>,
     pd_PingCheck = \<lparr>hc_Checked = False, hc_Online = False, hc_Latency = 0, hc_Error = []\<rparr>,
     pd_FailureCode = FailureCodeProxyStreamClosed\<rparr>"

theorem stream_closed_node_undiagnosable_witness:
  "CreateSession id hour (Some ''s'') (sample_request\<lparr>q_LocalResultSnapshot := localResult (Some sample_closed)\<rparr>)
     sample_manager = (sample_manager, Inl ErrInvalidRequest)"
proof -
  have "failureFromError (Some sample_reset) = FailureCodeProxyStreamClosed" by code_simp
  then have c: "FailureCodeProxyStreamClosed \<in> {[], ''configuration'', failureFromError (Some sample_reset),
      failureFromCheckResult [] []}" by simp
  have s: "EffectiveStatus sample_closed = ProbeStatusProxyFailure" by code_simp
  have "pd_FailureCode sample_closed = DiagnoseFailure FailureCodeProxyStreamClosed
      (pd_HostCheck sample_closed) (pd_PingCheck sample_closed)" by code_simp
  note t = stream_closed_node_undiagnosable [OF this c, unfolded s]
  show ?thesis
    by (rule t [THEN conjunct2, THEN mp, THEN mp])
      (auto simp: sample_closed_def duration_defs ProbeStatusProxyFailure_def ProbeStatusOnline_def)
qed

text \<open>
  The manager trims the identifier of the session to cancel but the controller compares it as it
  came when it drops the queued job: after a cancellation with a surrounding space the session is
  cancelled while its job stays in the queue, where it refuses the next session for the same node and
  agent; deletion with the same identifier empties the queue.
\<close>

theorem cancel_misses_untrimmed_identifier:
  "(case Cancel (hour + 1) '' s '' sample_queued of (c, e) \<Rightarrow> e = None \<and>
     map_option s_State (find_session (ct_manager c) ''s'') = Some SCancelled \<and>
     map fst (ct_assignments c) = [''j''] \<and>
     (case snd (CreateManual (sample_outside None) ''node'' ''far'' [] c) of
        Inl e \<Rightarrow> e = ErrActiveSession | Inr s \<Rightarrow> False)) \<and>
   (case Delete '' s '' sample_queued of (c, e) \<Rightarrow> e = None \<and> ct_assignments c = [])"
  by code_simp

end
