(* ===== verification/AutomationSample.thy ===== *)
theory AutomationSample
  imports RemoteGuarantees
begin

text \<open>
  The exchange with an agent that the sample run of automatic diagnostics goes through, evaluated once:
  a session for a node that stopped answering, and the answer of the agent that took its job.
\<close>

definition sample_question :: CreateAutomaticRequest where
  "sample_question = \<lparr>ar_StableID = ''node'', ar_Trigger = TriggerAutoOffline, ar_ProfileID = ProfileStatus,
     ar_AutomationContext = OfflineAutomationContext\<rparr>"

definition sample_asking :: controller where
  "sample_asking = fst (CreateAutomatic (sample_outside None) sample_question sample_controller)"

definition quiet_outside :: outside where
  "quiet_outside = (sample_outside None)\<lparr>ou_ids := (\<lambda>n. None)\<rparr>"

definition sample_replying :: controller where
  "sample_replying = fst (controller_AcceptObservation quiet_outside (\<lambda>obs. Some [7])
     (\<lambda>agent payload signature. agent = ''far'')
     (sample_obs\<lparr>o_AgentID := ''far'', o_EndpointProfile := ProfileStatus\<rparr>) sample_asking)"

lemma sample_trim: "TrimSpace ''node'' = ''node''" "TrimSpace ''s'' = ''s''"
  by code_simp+

lemma sane_ids: "sane_outside (w\<lparr>ou_ids := ids\<rparr>) = sane_outside w"
  by (simp add: sane_outside_def)

lemma quiet_sane: "sane_outside quiet_outside"
  using sample_outside_sane by (simp only: quiet_outside_def sane_ids)

lemma quiet_ids [simp]: "ou_ids quiet_outside n = None"
  by (simp add: quiet_outside_def)

lemma sample_exchange:
  "(case CreateAutomatic (sample_outside None) sample_question sample_controller of (c1, x) \<Rightarrow>
      (case x of Inl e \<Rightarrow> None | Inr v \<Rightarrow> map_option s_SessionID v,
       map_option (\<lambda>s. (s_State s, s_Trigger s)) (find_session (ct_manager c1) ''s''),
       map_option (\<lambda>s. (s_State s, length (s_AgentObservations s))) (find_session (ct_manager (fst
         (controller_AcceptObservation quiet_outside (\<lambda>obs. Some [7]) (\<lambda>agent payload signature. agent = ''far'')
           (sample_obs\<lparr>o_AgentID := ''far'', o_EndpointProfile := ProfileStatus\<rparr>) c1))) ''s''))) =
   (Some ''s'', Some (Dispatching, TriggerAutoOffline), Some (SCompleted, 1))"
  by code_simp

lemma sample_exchangeD:
  "\<exists>s. snd (CreateAutomatic (sample_outside None) sample_question sample_controller) = Inr (Some s) \<and> s_SessionID s = ''s''"
  "map_option (\<lambda>s. (s_State s, s_Trigger s)) (find_session (ct_manager sample_asking) ''s'') =
   Some (Dispatching, TriggerAutoOffline)"
  "map_option (\<lambda>s. (s_State s, length (s_AgentObservations s))) (find_session (ct_manager sample_replying) ''s'') =
   Some (SCompleted, 1)"
  using sample_exchange by (auto simp: sample_asking_def sample_replying_def case_prod_beta split: sum.splits)

end
