(* ===== verification/AutomationGuarantees.thy ===== *)
theory AutomationGuarantees
  imports AutomationLimit OpenSessions AutomationSample
begin

text \<open>
  Automatic diagnostics as a whole: the coordinator on the remote controller and its session manager,
  with everyone else's calls in between. The interfaces of \<open>AutomationLimit\<close> are interpreted on the
  controller, and the coordinator's steps are a step system; then the limit on automatic sessions,
  the one answer per episode, and what is asked of which agent in which order.
\<close>

subsection \<open>The remote controller as the coordinator's session controller\<close>

text \<open>The controller and the world outside at each of the calls to come.\<close>

type_synonym world = "controller \<times> (nat \<Rightarrow> outside)"

definition remote_sessions :: "world session_controller" where
  "remote_sessions = \<lparr>sc_enabled = (\<lambda>(c, ws). Enabled (ws 0) c),
     sc_create = (\<lambda>r (c, ws). case CreateAutomatic (ws 0) r c of (c', x) \<Rightarrow> ((c', \<lambda>n. ws (Suc n)), x)),
     sc_session = (\<lambda>i (c, ws). case controller_Session (ou_clock (ws 0) 0) i c of
       (c', x) \<Rightarrow> ((c', \<lambda>n. ws (Suc n)), map_option fst x))\<rparr>"

definition sane_world :: "world \<Rightarrow> bool" where
  "sane_world s \<longleftrightarrow> wf_controller (fst s) \<and> known (ct_manager (fst s)) \<subseteq> Collect validToken \<and>
     (\<forall>n. sane_outside (snd s n))"

definition automatic_open :: "world \<Rightarrow> string set" where
  "automatic_open s = open_automatic (ct_manager (fst s))"

text \<open>The identifier is never generated again, and the session is gone or answered.\<close>

definition answered_for_good :: "world \<Rightarrow> string \<Rightarrow> bool" where
  "answered_for_good s i \<longleftrightarrow> validToken i \<and> answered (ct_manager (fst s)) i \<and>
     (\<forall>m n. ou_ids (snd s m) n \<noteq> Some i)"

lemma remote_session:
  "sc_session remote_sessions i (c, ws) =
     ((fst (controller_Session (ou_clock (ws 0) 0) i c), \<lambda>n. ws (Suc n)),
      find_session (expireLocked (ou_clock (ws 0) 0) (ct_manager c)) (TrimSpace i))"
  by (simp add: remote_sessions_def controller_Session_def Session_def Let_def case_prod_beta option.map_comp
      comp_def option.map_ident del: find_expireLocked)

lemma remote_create:
  "sc_create remote_sessions r (c, ws) =
     ((fst (CreateAutomatic (ws 0) r c), \<lambda>n. ws (Suc n)), snd (CreateAutomatic (ws 0) r c))"
  by (simp add: remote_sessions_def case_prod_beta)

lemma session_manager:
  "ct_manager (fst (controller_Session now i c)) = expireLocked now (ct_manager c)"
  by (simp add: controller_Session_def Session_def Let_def)

lemma placed_known:
  "placed_session newID auto m (m', r) \<Longrightarrow> known m \<subseteq> Collect validToken \<Longrightarrow> known m' \<subseteq> Collect validToken"
  by (fastforce simp: placed_session_def carried_def)

lemma placed_answered:
  "placed_session newID auto m (m', r) \<Longrightarrow> newID \<noteq> Some i \<Longrightarrow> answered m i \<Longrightarrow> answered m' i"
  by (fastforce simp: placed_session_def carried_def)

lemma placed_open:
  "placed_session newID auto m (m', Inl e) \<Longrightarrow> open_automatic m' \<subseteq> open_automatic m"
  "placed_session newID True m (m', Inr v) \<Longrightarrow> open_automatic m' \<subseteq> open_automatic m \<union> s_SessionID ` set_option v"
  "placed_session newID False m (m', r) \<Longrightarrow> open_automatic m' \<subseteq> open_automatic m"
  by (auto simp: placed_session_def split: sum.splits)

lemma moved_known: "moved {} c c' \<Longrightarrow> known (ct_manager c) \<subseteq> S \<Longrightarrow> known (ct_manager c') \<subseteq> S"
  by (auto simp: carried_def)

interpretation sessions: settled_sessions remote_sessions sane_world automatic_open answered_for_good
proof
  fix s :: world and i
  obtain c ws where s: "s = (c, ws)" by (cases s)
  assume w: "sane_world s"
  then have wf: "wf_controller c" and kn: "known (ct_manager c) \<subseteq> Collect validToken"
    and so: "\<And>n. sane_outside (ws n)" by (simp_all add: sane_world_def s)
  note view = endings_moved(5) [OF wf, of "ou_clock (ws 0) 0"]
  show "sane_world (fst (sc_session remote_sessions i s))"
    using view_session_wf [OF wf] moved_known [OF view kn] so by (simp add: sane_world_def s remote_session)
  show "[] \<notin> automatic_open s"
    using kn by (auto simp: automatic_open_def s open_automatic_def known_def validToken_def validSafeValue_def)
  show "automatic_open (fst (sc_session remote_sessions i s)) \<subseteq> automatic_open s"
    using view [of i] by (simp add: automatic_open_def s remote_session carried_def)
  show "\<exists>v. snd (sc_session remote_sessions i s) = Some v \<and> \<not> s_terminal (s_State v)"
    if "i \<in> automatic_open (fst (sc_session remote_sessions i s))"
  proof -
    from that obtain v where v: "find_session (expireLocked (ou_clock (ws 0) 0) (ct_manager c)) i = Some v"
      "\<not> s_terminal (s_State v)"
      by (auto simp: automatic_open_def s remote_session session_manager open_automatic_def)
    then have "validToken i" using kn by (auto simp: known_def)
    then show ?thesis using v validToken_trim by (simp add: s remote_session del: find_expireLocked)
  qed
  fix r
  note placed = automatic_sessions [OF so wf, of 0 r]
  show "sane_world (fst (sc_create remote_sessions r s))"
    using Automatic_wf [OF so wf] placed_known [OF placed kn] so by (simp add: sane_world_def s remote_create)
  show "answered_for_good s i \<Longrightarrow> answered_for_good (fst (sc_create remote_sessions r s)) i"
    using placed_answered [OF placed] by (simp add: answered_for_good_def s remote_create)
  show "answered_for_good s i \<Longrightarrow> answered_for_good (fst (sc_session remote_sessions j s)) i" for j
    using view [of j] by (simp add: answered_for_good_def s remote_session carried_def)
  show "s_AgentObservations v \<noteq> []" if "answered_for_good s i" "snd (sc_session remote_sessions i s) = Some v" for v
    using that view [of i] validToken_trim [of i]
    by (auto simp: answered_for_good_def s remote_session carried_def answered_def session_manager simp del: find_expireLocked)
  show "automatic_open s' \<subseteq> automatic_open s" if "sc_create remote_sessions r s = (s', Inl e)" for s' e
    using placed_open(1) [of "ou_ids (ws 0) 0" True "ct_manager c" "ct_manager (fst s')" e] placed that by (auto simp: automatic_open_def s remote_create)
  show "automatic_open s' \<subseteq> insert (view_id v) (automatic_open s)"
    if "sc_create remote_sessions r s = (s', Inr v)" for s' v
  proof -
    have "open_automatic (ct_manager (fst s')) \<subseteq> open_automatic (ct_manager c) \<union> s_SessionID ` set_option v"
      using placed_open(2) [of "ou_ids (ws 0) 0" "ct_manager c" "ct_manager (fst s')" v] placed that
      by (auto simp: s remote_create)
    then show ?thesis by (cases v) (auto simp: automatic_open_def s view_id_def)
  qed
qed

subsection \<open>The steps of automatic diagnostics\<close>

text \<open>
  A completed availability check with the failures it leaves, a call of somebody else with the world
  outside during it and the worlds of the calls that follow it, or any other call of the coordinator.
\<close>

datatype automation_event = Checked "AvailabilityFailure list" | Elsewhere outside "nat \<Rightarrow> outside" | Asked

inductive automation_step :: "automation_event \<Rightarrow> world coordinator \<Rightarrow> world coordinator \<Rightarrow> bool" where
  measured_speed: "automation_step Asked c
     (fst (StartSpeedDiagnostics remote_sessions hostname clock results source threshold c))"
| resumed: "automation_step Asked c (fst (resumeDeferred remote_sessions clock hs c))"
| annotated: "automation_step Asked c (fst (Annotations remote_sessions hs c))"
| shown: "automation_step Asked c (fst (automation_Snapshot remote_sessions now c))"
| awaited: "automation_step Asked c (fst (measuringCount remote_sessions wanted c))"
| alerted: "automation_step Asked c (fst (AvailabilityAnnotations remote_sessions ids c))"
| checked: "automation_step (Checked failures) c
     (fst (StartAvailabilityDiagnostics remote_sessions now failures c))"
| elsewhere: "sane_outside w \<Longrightarrow> \<forall>n. sane_outside (ws n) \<Longrightarrow> other_call w (fst (co_controller c)) r \<Longrightarrow>
     automation_step (Elsewhere w ws) c (c\<lparr>co_controller := (r, ws)\<rparr>)"

inductive_cases automation_stepE: "automation_step e c c'"

text \<open>The runs whose events satisfy a condition.\<close>

definition automation_run ::
  "(automation_event \<Rightarrow> bool) \<Rightarrow> world coordinator \<Rightarrow> world coordinator \<Rightarrow> bool" where
  "automation_run P = (\<lambda>c c'. \<exists>e. P e \<and> automation_step e c c')\<^sup>*\<^sup>*"

definition automation_start :: "world coordinator \<Rightarrow> bool" where
  "automation_start c \<longleftrightarrow> (\<exists>cfg r ws. New cfg (r, ws) = Some c \<and> controller_start r \<and> (\<forall>n. sane_outside (ws n)))"

lemma elsewhere_sessions:
  assumes w: "sane_outside w" and ws: "\<forall>n. sane_outside (ws n)" and c: "other_call w (fst s) r" and s: "sane_world s"
  shows "sane_world (r, ws)" "automatic_open (r, ws) \<subseteq> automatic_open s"
    "(\<And>n. ou_ids w n \<noteq> Some i) \<Longrightarrow> (\<And>m n. ou_ids (ws m) n \<noteq> Some i) \<Longrightarrow> answered_for_good s i \<Longrightarrow>
     answered_for_good (r, ws) i"
proof -
  have wf: "wf_controller (fst s)" using s by (simp add: sane_world_def)
  obtain x where p: "placed_session (ou_ids w 0) False (ct_manager (fst s)) (ct_manager r, x)"
    using other_call_sessions [OF c w wf] by blast
  show "sane_world (r, ws)"
    using controller_step_wf [OF other_call_step [OF c w] wf] placed_known [OF p] ws s by (simp add: sane_world_def)
  show "automatic_open (r, ws) \<subseteq> automatic_open s" using placed_open(3) [OF p] by (simp add: automatic_open_def)
  show "(\<And>n. ou_ids w n \<noteq> Some i) \<Longrightarrow> (\<And>m n. ou_ids (ws m) n \<noteq> Some i) \<Longrightarrow> answered_for_good s i \<Longrightarrow>
     answered_for_good (r, ws) i"
    using placed_answered [OF p] by (simp add: answered_for_good_def)
qed

lemma automation_step_limited:
  assumes "automation_step e c c'" and w: "sessions.limited c"
  shows "sessions.limited c'"
  using assms(1)
proof cases
  case (elsewhere w ws r)
  then show ?thesis
    using elsewhere_sessions(1,2) [OF elsewhere(3,4,5) sessions.limitedD(1) [OF w]]
    by (intro sessions.limited_later [OF w, of "(r, ws)", folded elsewhere(2)])
      (simp add: sessions.later_def)
qed (simp_all add: w sessions.StartSpeed_limited sessions.reads_limited sessions.snapshot_limited
    sessions.StartAvailability_limited)

lemma automation_start_limited: "automation_start c \<Longrightarrow> sessions.limited c"
proof -
  assume "automation_start c"
  then obtain cfg r ws where n: "New cfg (r, ws) = Some c" and r: "controller_start r" "\<forall>n. sane_outside (ws n)"
    by (auto simp: automation_start_def)
  then have c: "co_controller c = (r, ws)" "co_entries c = []" "co_availability c = []" "1 \<le> au_MaxConcurrent (co_config c)"
    by (auto simp: New_def Let_def split: if_splits)
  have "sessions (ct_manager r) = []"
    using r(1) by (auto simp: controller_start_def NewController_def NewDiagnosticSessionManager_def Let_def
        split: if_splits sum.splits)
  then have "known (ct_manager r) = {}" by (simp add: known_keys)
  then have "automatic_open (r, ws) = {}" "sane_world (r, ws)"
    using remote.start_ok [OF r(1)] r(2) by (auto simp: automatic_open_def open_automatic_def known_def sane_world_def)
  then show ?thesis using c by (simp add: sessions.limited_def)
qed

interpretation automation: step_system automation_start "\<lambda>c c'. \<exists>e. P e \<and> automation_step e c c'" sessions.limited for P
  by unfold_locales (auto simp: automation_start_limited automation_step_limited)

lemma automation_config_kept: "automation_step e c c' \<Longrightarrow> co_config c' = co_config c"
  by (cases rule: automation_step.cases) (auto simp: config_kept)

lemma automation_run_config: "automation_run P c c' \<Longrightarrow> co_config c' = co_config c"
  unfolding automation_run_def by (induction rule: rtranclp_induct) (auto simp: automation_config_kept)

lemma automation_run_limited:
  "automation_start c0 \<Longrightarrow> automation_run P c0 c \<Longrightarrow> sessions.limited c"
  unfolding automation_run_def by (rule automation.run_ok)

text \<open>
  The failure of kind \<open>k\<close> that node \<open>i\<close> has had since \<open>t\<close> lasts, and the identifier \<open>sid\<close> is not
  generated a second time.
\<close>

definition steady :: "string \<Rightarrow> string \<Rightarrow> time \<Rightarrow> string \<Rightarrow> automation_event \<Rightarrow> bool" where
  "steady i k t sid e = (case e of Checked failures \<Rightarrow> episode_lasts i k t failures
     | Elsewhere w ws \<Rightarrow> (\<forall>n. ou_ids w n \<noteq> Some sid) \<and> (\<forall>m n. ou_ids (ws m) n \<noteq> Some sid)
     | Asked \<Rightarrow> True)"

lemma steady_step:
  assumes "automation_step e c c'" and p: "steady i k t sid e" and a: "sessions.answers_for i k t sid x c"
  shows "sessions.answers_for i k t sid x c'"
  using assms(1)
proof cases
  case (elsewhere w ws r)
  have s: "sane_world (co_controller c)" "answered_for_good (co_controller c) sid"
    using a by (simp_all add: sessions.answers_for_def)
  note e = elsewhere_sessions [OF elsewhere(3,4,5) s(1)]
  have "answered_for_good (r, ws) sid" using e(3) [OF _ _ s(2)] p by (simp add: steady_def elsewhere(1))
  then show ?thesis using a e(1) by (simp add: sessions.answers_for_def elsewhere(2))
qed (use p a in \<open>simp_all add: sessions.reading_answers sessions.StartAvailability_answers steady_def\<close>)

lemma steady_run:
  assumes "automation_run (steady i k t sid) c c'" and "sessions.answers_for i k t sid x c"
  shows "sessions.answers_for i k t sid x c'"
  using assms unfolding automation_run_def by (induction rule: rtranclp_induct) (auto intro: steady_step)

text \<open>The manager shows the answer \<open>obs\<close> in the session \<open>i\<close>; reading sessions leaves it there.\<close>

definition shows_answer :: "string \<Rightarrow> AcceptedObservation \<Rightarrow> world \<Rightarrow> bool" where
  "shows_answer i obs s \<longleftrightarrow> (\<exists>v. find_session (ct_manager (fst s)) i = Some v \<and> s_AgentObservations v \<noteq> [] \<and>
     last (s_AgentObservations v) = obs)"

lemma expired_observations [simp]: "s_AgentObservations (expire_session now v) = s_AgentObservations v"
  by (simp add: expire_session_def deriveSessionState_def Let_def)

lemma shows_answer_read:
  assumes "shows_answer i obs s"
  shows "shows_answer i obs (fst (sc_session remote_sessions j s))"
    and "TrimSpace i = i \<Longrightarrow> \<exists>v. snd (sc_session remote_sessions i s) = Some v \<and> s_AgentObservations v \<noteq> [] \<and>
      last (s_AgentObservations v) = obs"
  using assms by (cases s; auto simp: shows_answer_def remote_session session_manager)+

subsection \<open>A sample run\<close>

text \<open>
  One slot: a node stops answering, the check asks an agent, the agent answers, the next check reads
  the answer, an administrator deletes the session, and a check an hour later asks nobody.
\<close>

definition sample_automation :: automation_config where
  "sample_automation = \<lparr>au_Enabled = True, au_Cooldown = 0, au_AlertWait = 0, au_MaxConcurrent = 1,
     au_PollInterval = 0, au_EnvironmentSourced = None, au_ProxyFailureEnabled = True,
     au_ProxyFailureProfileID = [], au_OfflineEnabled = True, au_OfflineProfileID = []\<rparr>"

definition sample_coordinator :: "world coordinator" where
  "sample_coordinator = the (New sample_automation (sample_controller, \<lambda>n :: nat. sample_outside None))"

definition sample_failure :: AvailabilityFailure where
  "sample_failure = \<lparr>af_StableID = ''node'', af_Kind = AutomationKindOffline, af_Since = 5\<rparr>"

definition sample_asked :: "world coordinator" where
  "sample_asked = fst (StartAvailabilityDiagnostics remote_sessions hour [sample_failure] sample_coordinator)"

definition sample_replied :: "world coordinator" where
  "sample_replied = sample_asked\<lparr>co_controller := (sample_replying, \<lambda>n. quiet_outside)\<rparr>"

definition sample_answered :: "world coordinator" where
  "sample_answered = fst (StartAvailabilityDiagnostics remote_sessions hour [sample_failure] sample_replied)"

definition sample_forgotten :: "world coordinator" where
  "sample_forgotten = sample_answered\<lparr>co_controller := (fst (Delete ''s'' (fst (co_controller sample_answered))),
     \<lambda>n. quiet_outside)\<rparr>"

definition sample_later :: "world coordinator" where
  "sample_later = fst (StartAvailabilityDiagnostics remote_sessions (2 * hour) [sample_failure] sample_forgotten)"

lemma sample_new:
  "New sample_automation (sample_controller, \<lambda>n :: nat. sample_outside None) = Some sample_coordinator"
  "sample_coordinator = \<lparr>co_config = sample_automation\<lparr>au_Cooldown := DefaultCooldown,
       au_PollInterval := defaultPollInterval, au_ProxyFailureProfileID := ProfileStatus,
       au_OfflineProfileID := ProfileStatus\<rparr>, co_entries = [], co_availability = [],
     co_controller = (sample_controller, \<lambda>n. sample_outside None)\<rparr>"
proof -
  have "tunnelled_profile ProfileStatus" "TrimSpace [] = []" by code_simp+
  then have n: "New sample_automation (sample_controller, \<lambda>n :: nat. sample_outside None) =
      Some \<lparr>co_config = sample_automation\<lparr>au_Cooldown := DefaultCooldown, au_PollInterval := defaultPollInterval,
     au_ProxyFailureProfileID := ProfileStatus, au_OfflineProfileID := ProfileStatus\<rparr>, co_entries = [],
        co_availability = [], co_controller = (sample_controller, \<lambda>n. sample_outside None)\<rparr>"
    by (simp add: New_def sample_automation_def Let_def DefaultCooldown_def defaultPollInterval_def duration_defs)
  then show "New sample_automation (sample_controller, \<lambda>n :: nat. sample_outside None) = Some sample_coordinator"
    and "sample_coordinator = \<lparr>co_config = sample_automation\<lparr>au_Cooldown := DefaultCooldown,
       au_PollInterval := defaultPollInterval, au_ProxyFailureProfileID := ProfileStatus,
       au_OfflineProfileID := ProfileStatus\<rparr>, co_entries = [], co_availability = [],
     co_controller = (sample_controller, \<lambda>n. sample_outside None)\<rparr>"
    by (simp_all add: sample_coordinator_def)
qed

lemma sample_automation_start: "automation_start sample_coordinator"
  unfolding automation_start_def using sample_new(1) sample_controller_start sample_outside_sane by blast

lemma sample_asked_state:
  "co_controller sample_asked = (sample_asking, \<lambda>n. sample_outside None) \<and>
   (\<exists>e. co_availability sample_asked = [(''node'', e)] \<and> ae_kind e = AutomationKindOffline \<and> ae_since e = 5 \<and>
     ae_final e = None \<and> \<not> ae_journaled e \<and> ha_SessionID (ae_handle e) = ''s'')"
proof -
  obtain v where v: "snd (CreateAutomatic (sample_outside None) sample_question sample_controller) = Inr (Some v)"
    "s_SessionID v = ''s''" using sample_exchangeD(1) by blast
  have "normal_failure sample_failure = sample_failure"
    by (simp add: normal_failure_def sample_failure_def sample_trim)
  then have cand: "availabilityCandidates [sample_failure] None = ([sample_failure], {''node''})"
    by (simp add: availabilityCandidates_def Let_def sort_slice_def) (simp add: sample_failure_def sample_trim)
  have k: "AutomationKindOffline \<noteq> AutomationKindProxyFailure"
    and en: "Enabled (sample_outside None) sample_controller" by code_simp+
  have f: "af_Kind sample_failure = AutomationKindOffline" "af_StableID sample_failure = ''node''"
    "af_Since sample_failure = 5" by (simp_all add: sample_failure_def)
  have r: "sc_enabled remote_sessions = (\<lambda>(c, ws). Enabled (ws 0) c)" by (simp add: remote_sessions_def)
  have q: "\<lparr>ar_StableID = ''node'', ar_Trigger = TriggerAutoOffline, ar_ProfileID = ProfileStatus,
     ar_AutomationContext = OfflineAutomationContext\<rparr> = sample_question" by (simp add: sample_question_def)
  show ?thesis
    by (simp add: sample_asked_def sample_new(2) sample_automation_def StartAvailabilityDiagnostics_def cand
        AvailabilityEnabled_def OfflineEnabled_def ProxyFailureEnabled_def automation_Enabled_def r en k f
        availabilityKindEnabled_def startAvailability_def activeLocked_def co_handles_def failure_request_def
        remote_create q sample_asking_def v case_prod_beta put_entry_def request_handle_def view_id_def)
qed

lemma automation_runI: "automation_run P c c1 \<Longrightarrow> automation_step e c1 c2 \<Longrightarrow> P e \<Longrightarrow> automation_run P c c2"
  unfolding automation_run_def by (rule rtranclp.rtrancl_into_rtrancl) blast+

lemma automation_run_refl: "automation_run P c c"
  by (simp add: automation_run_def)

lemma sample_run_asked: "automation_run (\<lambda>e. True) sample_coordinator sample_asked"
  unfolding sample_asked_def by (rule automation_runI [OF automation_run_refl automation_step.checked]) simp

lemma sample_run_replied: "automation_run (\<lambda>e. True) sample_coordinator sample_replied"
proof (rule automation_runI [OF sample_run_asked])
  have "fst (co_controller sample_asked) = sample_asking" using sample_asked_state by simp
  then show "automation_step (Elsewhere quiet_outside (\<lambda>n. quiet_outside)) sample_asked sample_replied"
    unfolding sample_replied_def sample_replying_def
    by (intro automation_step.elsewhere) (simp_all add: quiet_sane other_call.observation)
qed simp

lemma sample_lasts: "episode_lasts ''node'' AutomationKindOffline 5 [sample_failure]"
  by (simp add: episode_lasts_def sample_failure_def sample_trim normal_failure_def)

lemma sample_run_later: "automation_run (steady ''node'' AutomationKindOffline 5 ''s'') sample_answered sample_later"
proof (rule automation_runI)
  show "automation_run (steady ''node'' AutomationKindOffline 5 ''s'') sample_answered sample_forgotten"
    unfolding sample_forgotten_def
    by (rule automation_runI [OF automation_run_refl automation_step.elsewhere [OF quiet_sane]])
      (simp_all add: quiet_sane other_call.deleted steady_def)
  show "automation_step (Checked [sample_failure]) sample_forgotten sample_later"
    unfolding sample_later_def by (rule automation_step.checked)
  show "steady ''node'' AutomationKindOffline 5 ''s'' (Checked [sample_failure])"
    by (simp add: steady_def sample_lasts)
qed

lemma sample_enabled: "AvailabilityEnabled remote_sessions sample_replied"
proof -
  have "Enabled quiet_outside sample_replying" by code_simp
  then show ?thesis
    by (simp add: sample_replied_def AvailabilityEnabled_def OfflineEnabled_def ProxyFailureEnabled_def
        automation_Enabled_def remote_sessions_def sample_asked_def config_kept sample_new(2) sample_automation_def)
qed

lemma sample_answer:
  "\<exists>e v. map_of (co_availability sample_replied) ''node'' = Some e \<and> ae_kind e = AutomationKindOffline \<and>
     ae_since e = 5 \<and> ae_final e = None \<and> \<not> ae_journaled e \<and> ha_SessionID (ae_handle e) = ''s'' \<and>
     find_session (ct_manager (fst (co_controller sample_replied))) ''s'' = Some v \<and> s_AgentObservations v \<noteq> []"
proof -
  obtain e where e: "co_availability sample_asked = [(''node'', e)]" "ae_kind e = AutomationKindOffline" "ae_since e = 5"
    "ae_final e = None" "\<not> ae_journaled e" "ha_SessionID (ae_handle e) = ''s''" using sample_asked_state by blast
  obtain v where v: "find_session (ct_manager sample_replying) ''s'' = Some v" "s_AgentObservations v \<noteq> []"
    using sample_exchangeD(3) by (auto simp: length_Suc_conv)
  then show ?thesis using e by (simp add: sample_replied_def)
qed

subsection \<open>What automatic diagnostics guarantee\<close>

text \<open>
  C2: whatever is measured, fails, is asked for by administrators, swept, answered, cancelled or
  deleted, in whatever order, the session manager never holds more open automatic sessions than the
  coordinator's limit, and each of them is one of the coordinator's handles.
\<close>

theorem automation_stays_in_its_limit:
  assumes "automation_start c0" and "automation_run (\<lambda>e. True) c0 c"
  shows "int (card (open_automatic (ct_manager (fst (co_controller c))))) \<le> au_MaxConcurrent (co_config c0) \<and>
    open_automatic (ct_manager (fst (co_controller c))) \<subseteq> session_ids (co_handles c)"
  using automation_run_limited [OF assms] automation_run_config [OF assms(2)]
  by (simp add: sessions.limited_def automatic_open_def)

theorem automation_stays_in_its_limit_witness:
  "int (card (open_automatic (ct_manager (fst (co_controller sample_asked))))) \<le> 1 \<and>
   ''s'' \<in> open_automatic (ct_manager (fst (co_controller sample_asked)))"
proof -
  have "''s'' \<in> open_automatic (ct_manager (fst (co_controller sample_asked)))"
    using sample_exchangeD(2) sample_asked_state by (auto simp: open_automatic_def by_automation_def)
  moreover have "au_MaxConcurrent (co_config sample_coordinator) = 1"
    by (simp add: sample_new(2) sample_automation_def)
  ultimately show ?thesis
    using automation_stays_in_its_limit [OF sample_automation_start sample_run_asked] by simp
qed

text \<open>
  C14: one answer per episode. The session started for a node's failure holds an agent's answer the
  coordinator has not read yet, and the next check reports the same failure. Then, as long as the
  checks keep reporting that failure, that answer stays the node's answer and no further session is
  started for it, whatever happens to the session: it may be cancelled, expire, be evicted or deleted.
  The availability triggers are on at that check, and the session's identifier is not generated a second
  time. (A session deleted after the answer and before that check is another matter: the coordinator
  never saw the answer and asks again.)
\<close>

theorem one_answer_per_episode:
  assumes "automation_start c0" and "automation_run (\<lambda>e. True) c0 c"
    and "map_of (co_availability c) i = Some e" and "ae_final e = None" and "\<not> ae_journaled e"
    and "find_session (ct_manager (fst (co_controller c))) (ha_SessionID (ae_handle e)) = Some v"
    and "s_AgentObservations v \<noteq> []"
    and "\<forall>m n. ou_ids (snd (co_controller c) m) n \<noteq> Some (ha_SessionID (ae_handle e))"
    and "AvailabilityEnabled remote_sessions c" and "episode_lasts i (ae_kind e) (ae_since e) failures"
    and "automation_run (steady i (ae_kind e) (ae_since e) (ha_SessionID (ae_handle e)))
      (fst (StartAvailabilityDiagnostics remote_sessions now failures c)) c'"
  shows "\<exists>e' a. map_of (co_availability c') i = Some e' \<and> ae_final e' = Some a \<and>
    ad_Observation a = Some (last (s_AgentObservations v)) \<and> ha_SessionID (ae_handle e') = ha_SessionID (ae_handle e)"
proof -
  let ?sid = "ha_SessionID (ae_handle e)" and ?obs = "last (s_AgentObservations v)"
  have s: "sane_world (co_controller c)" by (rule sessions.limitedD(1) [OF automation_run_limited [OF assms(1,2)]])
  then have token: "validToken ?sid" using assms(6) by (auto simp: sane_world_def known_def)
  then have sid: "?sid \<noteq> []" "TrimSpace ?sid = ?sid"
    using validToken_trim by (auto simp: validToken_def validSafeValue_def)
  have settled: "answered_for_good (co_controller c) ?sid"
    using token assms(6-8) by (simp add: answered_for_good_def answered_def)
  have "shows_answer ?sid ?obs (co_controller c)" using assms(6,7) by (simp add: shows_answer_def)
  then obtain a where a: "map_of (fst (snd (harvest_availability remote_sessions (co_availability c) (co_controller c)))) i =
      Some (e\<lparr>ae_final := Some a, ae_journaled := True\<rparr>)" "ad_Observation a = Some ?obs"
    using harvest_answer [where P = "shows_answer ?sid ?obs" and sc = remote_sessions, OF shows_answer_read(1)
        shows_answer_read(2) [OF _ sid(2)] sid(1) assms(3) refl assms(4,5)] by blast
  have "sessions.answers_for i (ae_kind e) (ae_since e) ?sid a
      (fst (StartAvailabilityDiagnostics remote_sessions now failures c))"
    by (rule sessions.harvested_answers [OF s settled sid(1) a(1) _ _ _ _ assms(10,9)]) simp_all
  from steady_run [OF assms(11) this] show ?thesis using a(2) by (auto simp: sessions.answers_for_def)
qed

theorem one_answer_per_episode_witness:
  "\<exists>e. map_of (co_availability sample_later) ''node'' = Some e \<and> ha_SessionID (ae_handle e) = ''s'' \<and>
     ae_final e \<noteq> None"
proof -
  obtain e v where e: "map_of (co_availability sample_replied) ''node'' = Some e" "ae_kind e = AutomationKindOffline"
    "ae_since e = 5" "ae_final e = None" "\<not> ae_journaled e" "ha_SessionID (ae_handle e) = ''s''"
    and v: "find_session (ct_manager (fst (co_controller sample_replied))) ''s'' = Some v" "s_AgentObservations v \<noteq> []"
    using sample_answer by blast
  have "AvailabilityEnabled remote_sessions sample_replied" by (rule sample_enabled)
  moreover have "\<forall>m n. ou_ids (snd (co_controller sample_replied) m) n \<noteq> Some ''s''"
    by (simp add: sample_replied_def quiet_outside_def)
  ultimately show ?thesis
    using one_answer_per_episode [OF sample_automation_start sample_run_replied e(1,4,5), of v "[sample_failure]" hour sample_later]
      v sample_lasts sample_run_later [unfolded sample_answered_def] by (auto simp: e(2,3,6))
qed

end
