(* ===== verification/AutomationRequests.thy ===== *)
theory AutomationRequests
  imports AutomationCalls
begin

text \<open>
  What automatic diagnostics ask for: which measurements and failures become requests and in which
  order slots go to them, that the manager accepts the context of every request, and when the wait of
  an alert ends. The comparison functions of the coordinator are interpreted with their keys.
\<close>

subsection \<open>The order of requests\<close>

interpretation requests: comparison request_before "\<lambda>r. (- st_shortfall r, st_stableID r)"
  by unfold_locales (auto simp: request_before_def)

interpretation failures: comparison failure_before "\<lambda>f. (af_Since f, af_StableID f)"
  by unfold_locales (auto simp: failure_before_def)

definition sourced_ok :: "(string \<Rightarrow> bool) option \<Rightarrow> string \<Rightarrow> bool" where
  "sourced_ok sourced i = (case sourced of None \<Rightarrow> True | Some f \<Rightarrow> f i)"

text \<open>
  What a report says of a node, read off the measurement itself: its rate missed the limit it was
  judged by (its own, or the run's), and by which fraction; and whether an agent is asked about it.
\<close>

definition judged_by :: "rat \<Rightarrow> speed_result \<Rightarrow> rat" where
  "judged_by threshold r = (if 0 < re_LowSpeedThresholdMbps r then re_LowSpeedThresholdMbps r else threshold)"

definition missed_limit :: "rat \<Rightarrow> speed_result \<Rightarrow> bool" where
  "missed_limit threshold r \<longleftrightarrow> re_Error r = [] \<and> 0 < judged_by threshold r \<and> re_Mbps r < judged_by threshold r"

definition depth :: "rat \<Rightarrow> speed_result \<Rightarrow> rat" where
  "depth threshold r = (if missed_limit threshold r then 1 - re_Mbps r / judged_by threshold r else 0)"

definition unresolved :: "rat \<Rightarrow> speed_result \<Rightarrow> bool" where
  "unresolved threshold r \<longleftrightarrow> TrimSpace (re_StableID r) \<noteq> [] \<and> \<not> re_Offline r \<and>
     \<not> re_MaintenanceProbe r \<and> \<not> re_ProjectMaintenanceProbe r \<and>
     (re_Error r \<noteq> [] \<or> re_TimedOut r \<or> missed_limit threshold r)"

lemma outcome_unresolved:
  "speedAutomationOutcome r (effectiveThreshold r threshold) = None \<longleftrightarrow> \<not> unresolved threshold r"
  by (auto simp: speedAutomationOutcome_def effectiveThreshold_def unresolved_def missed_limit_def judged_by_def)

lemma technical_not_slow: "AutomationOutcomeTechnical \<noteq> AutomationOutcomeLowSpeed"
  by code_simp

lemma shortfall_depth:
  "speedAutomationOutcome r (effectiveThreshold r threshold) = Some out \<Longrightarrow>
   st_shortfall (speed_candidate hostname source (effectiveThreshold r threshold) out r) = depth threshold r"
  using technical_not_slow
  by (auto simp: speedAutomationOutcome_def speed_candidate_def depth_def missed_limit_def effectiveThreshold_def
      judged_by_def diff_divide_distrib split: if_splits)

text \<open>A node reported twice counts as the first of its unresolved measurements.\<close>

definition reported_depth :: "rat \<Rightarrow> speed_result list \<Rightarrow> string \<Rightarrow> rat" where
  "reported_depth threshold results i =
     (case find (\<lambda>r. TrimSpace (re_StableID r) = i \<and> unresolved threshold r) results of
        None \<Rightarrow> 0 | Some r \<Rightarrow> depth threshold r)"

lemma candidate_id [simp]: "st_stableID (speed_candidate hostname source x out r) = TrimSpace (re_StableID r)"
  by (simp add: speed_candidate_def)

definition wanted_ids :: "(string \<Rightarrow> bool) option \<Rightarrow> rat \<Rightarrow> speed_result list \<Rightarrow> string set" where
  "wanted_ids sourced threshold rs =
     TrimSpace ` re_StableID ` {r \<in> set rs. unresolved threshold r \<and> sourced_ok sourced (TrimSpace (re_StableID r))}"

lemma wanted_mem:
  "i \<in> wanted_ids sourced threshold rs \<longleftrightarrow>
   (\<exists>r\<in>set rs. i = TrimSpace (re_StableID r) \<and> unresolved threshold r) \<and> sourced_ok sourced i"
  by (auto simp: wanted_ids_def)

lemma collect_cons:
  "map st_stableID (collect_candidates hostname sourced source threshold (r # rs) seen) =
   (let i = TrimSpace (re_StableID r) in
    if \<not> unresolved threshold r \<or> i \<in> seen
    then map st_stableID (collect_candidates hostname sourced source threshold rs seen)
    else (if sourced_ok sourced i then [i] else []) @
      map st_stableID (collect_candidates hostname sourced source threshold rs (insert i seen)))"
  by (auto simp: Let_def outcome_unresolved [symmetric] sourced_ok_def split: option.splits)

lemma collect_ids:
  "set (map st_stableID (collect_candidates hostname sourced source threshold rs seen)) =
     wanted_ids sourced threshold rs - seen"
proof (induction rs arbitrary: seen)
  case Nil
  show ?case by (simp add: wanted_ids_def)
next
  case (Cons r rs)
  show ?case unfolding collect_cons Let_def
    by (auto simp: Cons.IH wanted_mem simp del: set_map)
qed

lemma collect_distinct: "distinct (map st_stableID (collect_candidates hostname sourced source threshold rs seen))"
proof (induction rs arbitrary: seen)
  case (Cons r rs)
  show ?case unfolding collect_cons Let_def
    using Cons.IH collect_ids [of hostname sourced source threshold rs "insert (TrimSpace (re_StableID r)) seen"]
    by (auto simp del: set_map)
qed simp

lemma collect_from:
  "r \<in> set (collect_candidates hostname sourced source threshold rs seen) \<Longrightarrow> st_stableID r \<notin> seen \<and>
   (\<exists>x out. find (\<lambda>x. TrimSpace (re_StableID x) = st_stableID r \<and> unresolved threshold x) rs = Some x \<and>
     speedAutomationOutcome x (effectiveThreshold x threshold) = Some out \<and>
     r = speed_candidate hostname source (effectiveThreshold x threshold) out x)"
proof (induction rs arbitrary: seen)
  case (Cons y rs)
  let ?i = "TrimSpace (re_StableID y)" and ?o = "speedAutomationOutcome y (effectiveThreshold y threshold)"
  consider (skipped) "?o = None \<or> ?i \<in> seen" | (elsewhere) "\<not> unresolved threshold y = False" "?i \<notin> seen"
      "r \<in> set (collect_candidates hostname sourced source threshold rs (insert ?i seen))"
    | (here) out where "?o = Some out" "?i \<notin> seen" "r = speed_candidate hostname source (effectiveThreshold y threshold) out y"
    using Cons.prems outcome_unresolved [of y threshold] by (auto simp: Let_def split: option.splits if_splits)
  then show ?case
  proof cases
    case skipped
    then have "r \<in> set (collect_candidates hostname sourced source threshold rs seen)"
      using Cons.prems by (auto simp: Let_def split: option.splits)
    from Cons.IH [OF this] skipped outcome_unresolved [of y threshold] show ?thesis by auto
  next
    case elsewhere
    from Cons.IH [OF elsewhere(3)] show ?thesis by auto
  next
    case here
    then show ?thesis using outcome_unresolved [of y threshold] by auto
  qed
qed simp

definition run_source :: "string \<Rightarrow> string" where
  "run_source source0 = (let source1 = TrimSpace source0 in if source1 = [] then ''unknown'' else source1)"

lemma speed_candidates_eq:
  "speedAutomationCandidates hostname results source threshold sourced =
   sort_slice request_before (collect_candidates hostname sourced (run_source source) threshold results {})"
  by (simp add: speedAutomationCandidates_def sortStartRequests_def run_source_def Let_def)

lemma candidate_depth:
  assumes "r \<in> set (speedAutomationCandidates hostname results source threshold sourced)"
  shows "st_shortfall r = reported_depth threshold results (st_stableID r)"
  using assms collect_from [of r hostname sourced "run_source source" threshold results "{}"] shortfall_depth
  by (auto simp: speed_candidates_eq reported_depth_def)

lemma candidates_unique:
  "distinct (map st_stableID (speedAutomationCandidates hostname results source threshold sourced))"
  unfolding speed_candidates_eq sortStartRequests_def requests.slice_map(2) by (rule collect_distinct)

definition sample_slow :: speed_result where
  "sample_slow = \<lparr>re_StableID = ''node'', re_URL = [], re_FallbackAttempts = 1, re_MaintenanceProbe = False,
     re_ProjectMaintenanceProbe = False, re_DownloadedBytes = 9, re_Mbps = 5, re_TimedOut = True,
     re_LowSpeedThresholdMbps = 0, re_Error = [], re_Offline = False\<rparr>"

definition sample_broken :: speed_result where
  "sample_broken = sample_slow\<lparr>re_StableID := ''broken'', re_Error := ''dial'', re_TimedOut := False\<rparr>"

text \<open>
  C18: after a speed run an agent is asked about exactly the nodes of the environment whose measurement
  explains nothing: failed, timed out or below the limit it was judged by, with the node neither
  offline nor under maintenance; each once; and in this order: those that missed the limit by the
  largest fraction first, ties by identifier, the failures without a rate last.
\<close>

theorem speed_candidates_ranked:
  assumes "ids = map st_stableID (speedAutomationCandidates hostname results source threshold sourced)"
  shows "distinct ids \<and>
    set ids = {i. \<exists>r\<in>set results. i = TrimSpace (re_StableID r) \<and> unresolved threshold r \<and> sourced_ok sourced i} \<and>
    (\<forall>m n. m < n \<and> n < length ids \<longrightarrow>
       reported_depth threshold results (ids ! n) < reported_depth threshold results (ids ! m) \<or>
       reported_depth threshold results (ids ! n) = reported_depth threshold results (ids ! m) \<and> ids ! m < ids ! n)"
proof (intro conjI allI impI)
  let ?cs = "speedAutomationCandidates hostname results source threshold sourced"
  let ?us = "collect_candidates hostname sourced (run_source source) threshold results {}"
  show d: "distinct ids" unfolding assms by (rule candidates_unique)
  show "set ids = {i. \<exists>r\<in>set results. i = TrimSpace (re_StableID r) \<and> unresolved threshold r \<and> sourced_ok sourced i}"
    using requests.slice_map [of st_stableID ?us] collect_distinct
      collect_ids [of hostname sourced "run_source source" threshold results "{}"]
    by (simp add: assms speed_candidates_eq wanted_mem set_eq_iff del: set_map) blast
  fix m n
  assume mn: "m < n \<and> n < length ids"
  have "distinct (map (\<lambda>r. (- st_shortfall r, st_stableID r)) ?us)"
    using collect_distinct by (auto simp: distinct_map inj_on_def)
  then have "sorted_wrt request_before ?cs" by (simp add: speed_candidates_eq requests.slice_strict)
  then have "request_before (?cs ! m) (?cs ! n)" using mn by (simp add: assms sorted_wrt_iff_nth_less)
  moreover have "st_shortfall (?cs ! k) = reported_depth threshold results (ids ! k)" if "k \<in> {m, n}" for k
    using candidate_depth [of "?cs ! k" hostname results source threshold sourced] mn that by (auto simp: assms)
  ultimately show "reported_depth threshold results (ids ! n) < reported_depth threshold results (ids ! m) \<or>
       reported_depth threshold results (ids ! n) = reported_depth threshold results (ids ! m) \<and> ids ! m < ids ! n"
    using mn by (auto simp: request_before_def assms split: if_splits)
qed

theorem speed_candidates_ranked_witness:
  "\<exists>i j. map st_stableID (speedAutomationCandidates (\<lambda>u. []) [sample_broken, sample_slow] ''run'' 50 None) = [i, j] \<and>
     reported_depth 50 [sample_broken, sample_slow] j \<le> reported_depth 50 [sample_broken, sample_slow] i"
proof -
  let ?rs = "[sample_broken, sample_slow]"
  let ?ids = "map st_stableID (speedAutomationCandidates (\<lambda>u. []) ?rs ''run'' 50 None)"
  have "length ?ids = 2" by code_simp
  then obtain i j where ij: "?ids = [i, j]" by (auto simp: length_Suc_conv numeral_2_eq_2)
  from speed_candidates_ranked [OF refl, of "\<lambda>u. []" ?rs "''run''" 50 None, THEN conjunct2, THEN conjunct2,
      THEN spec, of 0, THEN spec, of 1] show ?thesis unfolding ij by auto
qed

subsection \<open>The context of a request\<close>

lemma speed_server_listed: "SpeedServerForURL hostname u = Some z \<Longrightarrow> validSpeedServerID (z_ID z)"
  by (auto simp: SpeedServerForURL_def Let_def validSpeedServerID_def SpeedServerByID_entry
      dest: find_SomeD split: if_splits)

lemma outcomes:
  "speedAutomationOutcome r t = Some out \<Longrightarrow> out = AutomationOutcomeTechnical \<or> out = AutomationOutcomeLowSpeed"
  by (auto simp: speedAutomationOutcome_def split: if_splits)

lemma outcome_trim: "TrimSpace AutomationOutcomeTechnical = AutomationOutcomeTechnical"
  "TrimSpace AutomationOutcomeLowSpeed = AutomationOutcomeLowSpeed"
  "TrimSpace AutomationKindSpeedFallback = AutomationKindSpeedFallback" "validToken ''unknown''"
  "TrimSpace ''unknown'' = ''unknown''"
  by code_simp+

text \<open>
  C34: what can make the session manager refuse the context of a request after a speed run, exactly: a
  run's source that is no token, a negative limit, rate, volume or number of attempts, or the mark that
  the node is under maintenance, which a manual request may carry and this one may not. The kind, the
  outcome and the server are always taken, and trimming changes nothing; everything else the manager
  checks is as for a manual request without a context.
\<close>

theorem speed_context_accepted_iff:
  assumes "r \<in> set (speedAutomationCandidates hostname results source threshold sourced)"
    and "q_Trigger q = TriggerAutoSpeedFallback" and "q_AutomationContext q = speed_context r"
  shows "q_AutomationContext (trimmed_request q) = speed_context r \<and>
    (validateCreateSessionRequest q now maxTTL maxAgents \<longleftrightarrow>
       validToken (run_source source) \<and> 0 \<le> st_threshold r \<and> 0 \<le> st_observedMbps r \<and>
       0 \<le> st_measuredBytes r \<and> 0 \<le> st_fallbackAttempts r \<and> \<not> q_MaintenanceDiagnostic q \<and>
       validateCreateSessionRequest (q\<lparr>q_Trigger := TriggerManual, q_AutomationContext := empty_context\<rparr>)
         now maxTTL maxAgents)"
proof -
  obtain x out where x: "speedAutomationOutcome x (effectiveThreshold x threshold) = Some out"
    and r: "r = speed_candidate hostname (run_source source) (effectiveThreshold x threshold) out x"
    using assms(1) collect_from [of r hostname sourced "run_source source" threshold results "{}"]
    by (auto simp: speed_candidates_eq)
  have s: "TrimSpace (run_source source) = run_source source"
    by (simp add: run_source_def Let_def outcome_trim)
  have t: "TrimSpace out = out" using outcomes [OF x] outcome_trim by auto
  define z where "z = (case SpeedServerForURL hostname (re_URL x) of None \<Rightarrow> [] | Some z \<Rightarrow> z_ID z)"
  have z: "z = [] \<or> validSpeedServerID z" using speed_server_listed by (simp add: z_def split: option.split)
  have f: "speed_context r = \<lparr>a_Kind = AutomationKindSpeedFallback, a_Outcome = out, a_Source = run_source source,
      a_ThresholdMbps = st_threshold r, a_ObservedMbps = st_observedMbps r,
      a_FallbackAttempts = st_fallbackAttempts r, a_MeasuredBytes = st_measuredBytes r, a_SpeedServerID = z\<rparr>"
    by (simp add: speed_context_def r speed_candidate_def z_def)
  have "q_AutomationContext (trimmed_request q) = speed_context r"
    using assms(3) s t f by (simp add: trimmed_request_def Let_def outcome_trim)
  moreover have "validateCreateSessionRequest q now maxTTL maxAgents \<longleftrightarrow>
       validToken (run_source source) \<and> 0 \<le> st_threshold r \<and> 0 \<le> st_observedMbps r \<and>
       0 \<le> st_measuredBytes r \<and> 0 \<le> st_fallbackAttempts r \<and> \<not> q_MaintenanceDiagnostic q \<and>
       validateCreateSessionRequest (q\<lparr>q_Trigger := TriggerManual, q_AutomationContext := empty_context\<rparr>)
         now maxTTL maxAgents"
    using assms(2,3) outcomes [OF x] z
    by (auto simp: validateCreateSessionRequest_def f Let_def trigger_defs Automatic_def)
  ultimately show ?thesis by blast
qed

definition sample_slow_request :: startRequest where
  "sample_slow_request = hd (speedAutomationCandidates (\<lambda>u. []) [sample_slow] ''run'' 50 None)"

theorem speed_context_accepted_iff_witness:
  "validateCreateSessionRequest (sample_request\<lparr>q_Trigger := TriggerAutoSpeedFallback,
     q_AutomationContext := speed_context sample_slow_request\<rparr>) 5 hour 8 =
   validateCreateSessionRequest (sample_request\<lparr>q_Trigger := TriggerManual, q_AutomationContext := empty_context\<rparr>) 5 hour 8"
proof -
  have "speedAutomationCandidates (\<lambda>u. []) [sample_slow] ''run'' 50 None \<noteq> []"
    and v: "validToken (run_source ''run'')" "0 \<le> st_threshold sample_slow_request"
      "0 \<le> st_observedMbps sample_slow_request" "0 \<le> st_measuredBytes sample_slow_request"
      "0 \<le> st_fallbackAttempts sample_slow_request" by code_simp+
  from this(1) have "sample_slow_request \<in> set (speedAutomationCandidates (\<lambda>u. []) [sample_slow] ''run'' 50 None)"
    unfolding sample_slow_request_def by (rule hd_in_set)
  from speed_context_accepted_iff [OF this, of "sample_request\<lparr>q_Trigger := TriggerAutoSpeedFallback,
      q_AutomationContext := speed_context sample_slow_request\<rparr>" 5 hour 8] v
  show ?thesis by (simp add: sample_request_def)
qed

subsection \<open>An answer nobody records\<close>

text \<open>
  An entry whose session was removed before it answered is released without a line in the journal,
  although the episode ended without any answer.
\<close>

theorem removed_session_leaves_no_record:
  assumes "AvailabilityEnabled sc c" and "co_availability c = [(i, e)]" and "\<not> ae_journaled e" and "ae_final e = None"
    and "ha_SessionID (ae_handle e) \<noteq> []" and "\<And>s. snd (sc_session sc (ha_SessionID (ae_handle e)) s) = None"
    and "au_Cooldown (co_config c) \<le> now - ha_StartedAt (ae_handle e)"
  shows "snd (StartAvailabilityDiagnostics sc now [] c) = [] \<and>
    co_availability (fst (StartAvailabilityDiagnostics sc now [] c)) = []"
proof -
  obtain s1 where s1: "sc_session sc (ha_SessionID (ae_handle e)) (co_controller c) = (s1, None)"
    using assms(6) by (metis prod.collapse)
  obtain s2 where s2: "sc_session sc (ha_SessionID (ae_handle e)) s1 = (s2, None)"
    using assms(6) by (metis prod.collapse)
  have "harvest_availability sc [(i, e)] (co_controller c) = (s1, [(i, e)], [])"
    using assms(3-5) s1 by (simp add: finalAvailabilityLocked_def)
  moreover have "prune_availability sc (au_Cooldown (co_config c)) now {} [(i, e)] s1 = (s2, [], [])"
    using assms(5,7) s2 by (simp add: inFlightLocked_def)
  ultimately show ?thesis using assms(1,2)
    by (simp add: StartAvailabilityDiagnostics_def availabilityCandidates_def sort_slice_def Let_def)
qed

end
