(* ===== verification/AutomationSlots.thy ===== *)
theory AutomationSlots
  imports AutomationRequests "HOL-Library.Sublist"
begin

text \<open>
  Who gets the free slots after a speed run. The controller's answers are written into a log beside
  its state; then a run of \<open>StartSpeedDiagnostics\<close> shows what the coordinator saw of each session and
  when, and a node turned away for capacity is overtaken only when the log shows a session that ended.
\<close>

subsection \<open>The controller with a log of its answers\<close>

definition shown_open :: "DiagnosticSession option \<Rightarrow> bool" where
  "shown_open x = (case x of None \<Rightarrow> False | Some v \<Rightarrow> \<not> s_terminal (s_State v))"

definition logged :: "'s session_controller \<Rightarrow> ('s \<times> (string \<times> bool) list) session_controller" where
  "logged sc = \<lparr>sc_enabled = (\<lambda>s. sc_enabled sc (fst s)),
     sc_create = (\<lambda>r s. ((fst (sc_create sc r (fst s)), snd s), snd (sc_create sc r (fst s)))),
     sc_session = (\<lambda>i s. ((fst (sc_session sc i (fst s)),
        snd s @ [(i, shown_open (snd (sc_session sc i (fst s))))]), snd (sc_session sc i (fst s))))\<rparr>"

lemma logged_simps [simp]:
  "sc_enabled (logged sc) s = sc_enabled sc (fst s)"
  "sc_create (logged sc) r s = ((fst (sc_create sc r (fst s)), snd s), snd (sc_create sc r (fst s)))"
  "sc_session (logged sc) i s = ((fst (sc_session sc i (fst s)),
     snd s @ [(i, shown_open (snd (sc_session sc i (fst s))))]), snd (sc_session sc i (fst s)))"
  by (simp_all add: logged_def)

interpretation logged: calling "logged sc" "\<lambda>s s'. prefix (snd s) (snd s')" for sc
  by unfold_locales auto

definition with_log :: "'s coordinator \<Rightarrow> (string \<times> bool) list \<Rightarrow> ('s \<times> (string \<times> bool) list) coordinator" where
  "with_log c l = \<lparr>co_config = co_config c, co_entries = co_entries c, co_availability = co_availability c,
     co_controller = (co_controller c, l)\<rparr>"

definition without_log :: "('s \<times> (string \<times> bool) list) coordinator \<Rightarrow> 's coordinator" where
  "without_log c = \<lparr>co_config = co_config c, co_entries = co_entries c, co_availability = co_availability c,
     co_controller = fst (co_controller c)\<rparr>"

lemma without_log_fields [simp]:
  "co_config (without_log c) = co_config c" "co_entries (without_log c) = co_entries c"
  "co_availability (without_log c) = co_availability c" "co_controller (without_log c) = fst (co_controller c)"
  "without_log (c\<lparr>co_controller := s\<rparr>) = (without_log c)\<lparr>co_controller := fst s\<rparr>"
  "without_log (c\<lparr>co_entries := es\<rparr>) = (without_log c)\<lparr>co_entries := es\<rparr>"
  "co_handles (without_log c) = co_handles c"
  by (simp_all add: without_log_def co_handles_def)

lemma with_log_fields [simp]:
  "without_log (with_log c l) = c" "co_config (with_log c l) = co_config c"
  "co_entries (with_log c l) = co_entries c" "co_controller (with_log c l) = (co_controller c, l)"
  by (simp_all add: without_log_def with_log_def)

text \<open>The log changes nothing: without it, the run is the coordinator's.\<close>

lemma in_flight_log: "inFlightLocked sc h (fst s) =
    (fst (fst (inFlightLocked (logged sc) h s)), snd (inFlightLocked (logged sc) h s))"
  by (simp add: inFlightLocked_def case_prod_beta split: option.split)

lemma abandoned_log: "abandonedLocked sc h (fst s) =
    (fst (fst (abandonedLocked (logged sc) h s)), snd (abandonedLocked (logged sc) h s))"
  by (simp add: abandonedLocked_def case_prod_beta split: option.split)

lemma count_log: "count_in_flight sc hs (fst s) =
    (fst (fst (count_in_flight (logged sc) hs s)), snd (count_in_flight (logged sc) hs s))"
  by (induction hs arbitrary: s) (simp_all add: Let_def case_prod_beta in_flight_log)

lemma prune_log: "prune_entries sc cooldown now es (fst s) =
    (fst (fst (prune_entries (logged sc) cooldown now es s)), snd (prune_entries (logged sc) cooldown now es s))"
proof (induction es arbitrary: s)
  case (Cons e es)
  obtain i h where e: "e = (i, h)" by (cases e)
  show ?case unfolding e prune_entries.simps abandoned_log [of sc h s]
    using Cons.IH by (cases "snd (abandonedLocked (logged sc) h s)") (simp_all add: Let_def case_prod_beta in_flight_log)
qed simp

lemma pruned_log: "pruneLocked sc now (without_log c) = without_log (pruneLocked (logged sc) now c)"
  by (simp add: pruneLocked_def Let_def case_prod_beta prune_log)

lemma active_log: "activeLocked sc (without_log c) =
    (without_log (fst (activeLocked (logged sc) c)), snd (activeLocked (logged sc) c))"
  by (simp add: activeLocked_def Let_def case_prod_beta count_log)

lemma start_log: "startSpeed sc now r (without_log c) =
    (without_log (fst (startSpeed (logged sc) now r c)), snd (startSpeed (logged sc) now r c))"
  by (simp add: startSpeed_def pruned_log Let_def case_prod_beta active_log split: option.split sum.split)

lemma start_all_log: "start_all sc clock n rs hs (without_log c) =
    (without_log (fst (start_all (logged sc) clock n rs hs c)), snd (start_all (logged sc) clock n rs hs c))"
  by (induction rs arbitrary: n hs c) (simp_all add: Let_def case_prod_beta start_log)

lemma StartSpeed_log: "StartSpeedDiagnostics sc hostname clock results source threshold c =
    (without_log (fst (StartSpeedDiagnostics (logged sc) hostname clock results source threshold (with_log c []))),
     snd (StartSpeedDiagnostics (logged sc) hostname clock results source threshold (with_log c [])))"
proof -
  have "start_all sc clock 0 rs [] c =
      (without_log (fst (start_all (logged sc) clock 0 rs [] (with_log c []))),
       snd (start_all (logged sc) clock 0 rs [] (with_log c [])))" for rs
    using start_all_log [of sc clock 0 rs "[]" "with_log c []"] by simp
  then show ?thesis by (simp add: StartSpeedDiagnostics_def automation_Enabled_def)
qed

subsection \<open>What the log shows\<close>

definition ended_in :: "(string \<times> bool) list \<Rightarrow> bool" where
  "ended_in l \<longleftrightarrow> (\<exists>i xs ys zs. l = xs @ (i, True) # ys @ (i, False) # zs)"

lemma ended_prefix: "ended_in l \<Longrightarrow> prefix l l' \<Longrightarrow> ended_in l'"
  unfolding ended_in_def prefix_def by (elim exE) (metis append.assoc append_Cons)

lemma ended_now: "(i, True) \<in> set l \<Longrightarrow> ended_in (l @ [(i, False)])"
  unfolding ended_in_def by (drule split_list) fastforce

definition seen_open :: "'s \<times> (string \<times> bool) list \<Rightarrow> Handle \<Rightarrow> bool" where
  "seen_open s h \<longleftrightarrow> ha_SessionID h \<noteq> [] \<and> (ha_SessionID h, True) \<in> set (snd s)"

definition seen_count :: "('s \<times> (string \<times> bool) list) coordinator \<Rightarrow> nat" where
  "seen_count c = length (filter (seen_open (co_controller c)) (co_handles c))"

lemma seen_mono: "prefix (snd s) (snd s') \<Longrightarrow> seen_open s h \<Longrightarrow> seen_open s' h"
  by (auto simp: seen_open_def prefix_def)

lemma filter_length_mono: "(\<And>x. P x \<Longrightarrow> Q x) \<Longrightarrow> length (filter P xs) \<le> length (filter Q xs)"
  by (induction xs) (auto intro: le_SucI)

lemma seen_filter_mono:
  "prefix (snd s) (snd s') \<Longrightarrow> length (filter (\<lambda>x. seen_open s (f x)) xs) \<le> length (filter (\<lambda>x. seen_open s' (f x)) xs)"
  by (rule filter_length_mono) (rule seen_mono)

lemma in_flight_seen:
  "snd (inFlightLocked (logged sc) h s) \<Longrightarrow> seen_open (fst (inFlightLocked (logged sc) h s)) h"
  "\<not> ended_in (snd (fst (inFlightLocked (logged sc) h s))) \<Longrightarrow> seen_open s h \<Longrightarrow> snd (inFlightLocked (logged sc) h s)"
  using ended_now [of "ha_SessionID h" "snd s"]
  by (auto simp: inFlightLocked_def seen_open_def shown_open_def split: prod.splits option.splits if_splits)

lemma abandoned_seen:
  "snd (abandonedLocked (logged sc) h s) \<Longrightarrow> seen_open s h \<Longrightarrow> ended_in (snd (fst (abandonedLocked (logged sc) h s)))"
  using ended_now [of "ha_SessionID h" "snd s"]
  by (auto simp: abandonedLocked_def seen_open_def shown_open_def split: prod.splits option.splits if_splits)

lemma count_seen:
  assumes "\<not> ended_in (snd (fst (count_in_flight (logged sc) hs s)))"
  shows "int (length (filter (seen_open s) hs)) \<le> snd (count_in_flight (logged sc) hs s) \<and>
    snd (count_in_flight (logged sc) hs s) \<le>
      int (length (filter (seen_open (fst (count_in_flight (logged sc) hs s))) hs))"
  using assms
proof (induction hs arbitrary: s)
  case (Cons h hs)
  let ?f = "inFlightLocked (logged sc) h s"
  let ?n = "count_in_flight (logged sc) hs (fst ?f)"
  have later: "prefix (snd (fst ?f)) (snd (fst ?n))" by (rule logged.rel_count)
  have now: "prefix (snd s) (snd (fst ?f))" by (rule logged.rel_in_flight)
  have e: "\<not> ended_in (snd (fst ?n))" using Cons.prems by (simp add: Let_def case_prod_beta)
  then have "\<not> ended_in (snd (fst ?f))" using ended_prefix [OF _ later] by blast
  then have "seen_open s h \<Longrightarrow> snd ?f" by (rule in_flight_seen(2))
  moreover have "snd ?f \<Longrightarrow> seen_open (fst ?n) h" using seen_mono [OF later in_flight_seen(1)] by blast
  moreover have "length (filter (seen_open s) hs) \<le> length (filter (seen_open (fst ?f)) hs)"
    using seen_filter_mono [OF now, of "\<lambda>h. h"] by simp
  ultimately show ?case using Cons.IH [OF e] by (auto simp: Let_def case_prod_beta)
qed simp

lemma prune_seen:
  assumes "\<not> ended_in (snd (fst (prune_entries (logged sc) cooldown now es s)))"
  shows "length (filter (\<lambda>e. seen_open s (snd e)) es) \<le>
    length (filter (\<lambda>e. seen_open (fst (prune_entries (logged sc) cooldown now es s)) (snd e))
      (snd (prune_entries (logged sc) cooldown now es s)))"
  using assms
proof (induction es arbitrary: s)
  case (Cons e es)
  obtain i h where e: "e = (i, h)" by (cases e)
  let ?a = "abandonedLocked (logged sc) h s"
  have a: "prefix (snd s) (snd (fst ?a))" by (rule logged.rel_abandoned)
  show ?case
  proof (cases "snd ?a")
    case True
    let ?p = "prune_entries (logged sc) cooldown now es (fst ?a)"
    have p: "prune_entries (logged sc) cooldown now (e # es) s = ?p"
      using True by (simp add: e case_prod_beta)
    have "\<not> seen_open s h"
      using abandoned_seen [OF True] ended_prefix [OF _ logged.rel_prune_entries] Cons.prems unfolding p by blast
    then have "length (filter (\<lambda>e. seen_open s (snd e)) (e # es)) \<le> length (filter (\<lambda>e. seen_open (fst ?a) (snd e)) es)"
      using seen_filter_mono [OF a, of snd es] by (simp add: e)
    also have "\<dots> \<le> length (filter (\<lambda>e. seen_open (fst ?p) (snd e)) (snd ?p))"
      using Cons.IH [of "fst ?a"] Cons.prems unfolding p by blast
    finally show ?thesis unfolding p .
  next
    case False
    define k where "k = (if now - ha_StartedAt h < cooldown then (fst ?a, True) else inFlightLocked (logged sc) h (fst ?a))"
    let ?p = "prune_entries (logged sc) cooldown now es (fst k)"
    have p: "prune_entries (logged sc) cooldown now (e # es) s = (fst ?p, if snd k then e # snd ?p else snd ?p)"
      using False by (simp add: e k_def Let_def case_prod_beta)
    have later: "prefix (snd (fst k)) (snd (fst ?p))" by (rule logged.rel_prune_entries)
    have k: "prefix (snd (fst ?a)) (snd (fst k))" by (auto simp: k_def intro: logged.rel_in_flight)
    have ok: "\<not> ended_in (snd (fst ?p))" using Cons.prems unfolding p by simp
    then have "\<not> ended_in (snd (fst k))" using ended_prefix [OF _ later] by blast
    then have kept: "snd k" if "seen_open s h"
      using in_flight_seen(2) [OF _ seen_mono [OF a that]] by (simp add: k_def split: if_splits)
    have "length (filter (\<lambda>e. seen_open s (snd e)) es) \<le> length (filter (\<lambda>e. seen_open (fst k) (snd e)) es)"
      by (rule seen_filter_mono [OF prefix_order.trans [OF a k]])
    also have "\<dots> \<le> length (filter (\<lambda>e. seen_open (fst ?p) (snd e)) (snd ?p))" by (rule Cons.IH [OF ok])
    finally show ?thesis unfolding p
      using kept seen_mono [OF prefix_order.trans [OF prefix_order.trans [OF a k] later], of h] by (auto simp: e)
  qed
qed simp

lemma pruned_seen:
  assumes "\<not> ended_in (snd (co_controller (pruneLocked (logged sc) now c)))"
  shows "seen_count c \<le> seen_count (pruneLocked (logged sc) now c)"
proof -
  let ?p = "prune_entries (logged sc) (au_Cooldown (co_config c)) now (co_entries c) (co_controller c)"
  have "prefix (snd (co_controller c)) (snd (fst ?p))" by (rule logged.rel_prune_entries)
  then have "length (filter (\<lambda>e. seen_open (co_controller c) (ae_handle (snd e))) (co_availability c)) \<le>
      length (filter (\<lambda>e. seen_open (fst ?p) (ae_handle (snd e))) (co_availability c))"
    by (rule seen_filter_mono)
  moreover have "\<not> ended_in (snd (fst ?p))" using assms by (simp add: pruneLocked_def Let_def case_prod_beta)
  ultimately show ?thesis
    using prune_seen [of sc "au_Cooldown (co_config c)" now "co_entries c" "co_controller c"]
    by (simp add: seen_count_def co_handles_def pruneLocked_def Let_def case_prod_beta filter_map comp_def)
qed

lemma active_seen:
  assumes "\<not> ended_in (snd (co_controller (fst (activeLocked (logged sc) c))))"
  shows "int (seen_count c) \<le> snd (activeLocked (logged sc) c)"
    and "snd (activeLocked (logged sc) c) \<le> int (seen_count (fst (activeLocked (logged sc) c)))"
  using assms count_seen [of sc "co_handles c" "co_controller c"]
  by (simp_all add: activeLocked_def seen_count_def Let_def case_prod_beta)
    (simp_all add: co_handles_def)

lemma update_absent: "map_of xs k = None \<Longrightarrow> AList.update k v xs = xs @ [(k, v)]"
  by (induction xs) auto

text \<open>As long as the log shows no session ending, no start loses a session seen open.\<close>

lemma seen_count_mono:
  "prefix (snd (co_controller c)) (snd (co_controller c')) \<Longrightarrow> co_handles c' = co_handles c \<Longrightarrow>
   seen_count c \<le> seen_count c'"
  using seen_filter_mono [of "co_controller c" "co_controller c'" "\<lambda>h. h"] by (simp add: seen_count_def)

lemma active_handles [simp]: "co_handles (fst (activeLocked sc c)) = co_handles c"
  by (simp add: co_handles_def)

lemma start_seen:
  assumes "\<not> ended_in (snd (co_controller (fst (startSpeed (logged sc) now r c))))"
  shows "seen_count c \<le> seen_count (fst (startSpeed (logged sc) now r c))"
proof -
  let ?p = "pruneLocked (logged sc) now c"
  let ?a = "fst (activeLocked (logged sc) ?p)"
  have ap: "prefix (snd (co_controller ?p)) (snd (co_controller ?a))" by (rule logged.rel_active)
  have p: "seen_count c \<le> seen_count ?p" if "\<not> ended_in (snd (co_controller ?a))"
    using pruned_seen ended_prefix [OF _ ap] that by blast
  have a: "seen_count ?p \<le> seen_count ?a" by (rule seen_count_mono [OF ap]) simp
  show ?thesis
  proof (cases rule: startSpeed_cases [of "logged sc" now c r])
    case (held h)
    then show ?thesis using assms pruned_seen [of sc now c] by simp
  next
    case (busy h)
    then show ?thesis using assms p a by simp
  next
    case (refused q s2 e h)
    then have s2: "snd s2 = snd (co_controller ?a)" by auto
    then have "seen_count ?a \<le> seen_count (?a\<lparr>co_controller := s2\<rparr>)"
      by (intro seen_count_mono) (simp_all add: co_handles_def)
    then show ?thesis using assms p a refused(3) s2 by simp
  next
    case (made q s2 v h)
    then have s2: "snd s2 = snd (co_controller ?a)" by auto
    have "seen_count ?a \<le> seen_count (?a\<lparr>co_controller := s2, co_entries := AList.update (st_stableID r) h (co_entries ?p)\<rparr>)"
      using update_absent [OF made(1)] seen_filter_mono [of "co_controller ?a" s2 "\<lambda>h. h" "co_handles ?a"] s2
      by (simp add: seen_count_def co_handles_def)
    then show ?thesis using assms p a made(5) s2 by simp
  qed
qed

lemma start_all_seen:
  assumes "\<not> ended_in (snd (co_controller (fst (start_all (logged sc) clock n rs hs c))))"
  shows "seen_count c \<le> seen_count (fst (start_all (logged sc) clock n rs hs c))"
  using assms
proof (induction rs arbitrary: n hs c)
  case (Cons r rs)
  let ?s = "startSpeed (logged sc) (clock n) r c"
  let ?t = "start_all (logged sc) clock (Suc n) rs (AList.update (st_stableID r) (snd ?s) hs) (fst ?s)"
  have t: "start_all (logged sc) clock n (r # rs) hs c = ?t" by (simp add: case_prod_beta)
  have ok: "\<not> ended_in (snd (co_controller (fst ?t)))" using Cons.prems unfolding t .
  then have "seen_count c \<le> seen_count (fst ?s)"
    using start_seen ended_prefix [OF _ logged.rel_start_all] by blast
  also have "\<dots> \<le> seen_count (fst ?t)" by (rule Cons.IH [OF ok])
  finally show ?case unfolding t .
qed simp

subsection \<open>Turned away and started\<close>

lemma prune_absent: "map_of es i = None \<Longrightarrow> map_of (snd (prune_entries sc cooldown now es s)) i = None"
proof (induction es arbitrary: s)
  case (Cons e es)
  obtain j h where e: "e = (j, h)" by (cases e)
  show ?case using Cons unfolding e prune_entries.simps
    by (cases "abandonedLocked sc h s"; cases "snd (abandonedLocked sc h s)")
      (auto simp: Let_def case_prod_beta split: if_splits)
qed simp

lemma pruned_absent: "map_of (co_entries c) i = None \<Longrightarrow> map_of (co_entries (pruneLocked sc now c)) i = None"
  by (simp add: pruneLocked_def Let_def case_prod_beta prune_absent)

abbreviation busy_detail :: string where
  "busy_detail \<equiv> ''automation capacity is busy''"

lemma refusal_not_busy: "fst (refusalDetail e) \<noteq> busy_detail"
  by (simp add: refusalDetail_def split: remote_error.split)

lemma start_busy:
  assumes "map_of (co_entries c) (st_stableID r) = None" and "ha_Detail (snd (startSpeed sc now r c)) = busy_detail"
  shows "au_MaxConcurrent (co_config c) \<le> snd (activeLocked sc (pruneLocked sc now c)) \<and>
    fst (startSpeed sc now r c) = fst (activeLocked sc (pruneLocked sc now c))"
  using assms(2) refusal_not_busy pruned_absent [OF assms(1), of sc now]
  by (auto simp: startSpeed_def Let_def case_prod_beta deferredHandle_def request_handle_def
      split: sum.splits if_splits prod.splits)

lemma start_made:
  assumes "map_of (co_entries c) (st_stableID r) = None" and "ha_SessionID (snd (startSpeed sc now r c)) \<noteq> []"
  shows "snd (activeLocked sc (pruneLocked sc now c)) < au_MaxConcurrent (co_config c)"
  using assms(2) pruned_absent [OF assms(1), of sc now]
  by (auto simp: startSpeed_def Let_def case_prod_beta deferredHandle_def request_handle_def
      split: sum.splits if_splits prod.splits)

lemma start_after_active:
  assumes "map_of (co_entries (pruneLocked (logged sc) now c)) (st_stableID r) = None"
  shows "prefix (snd (co_controller (fst (activeLocked (logged sc) (pruneLocked (logged sc) now c)))))
    (snd (co_controller (fst (startSpeed (logged sc) now r c))))"
proof (cases rule: startSpeed_cases [of "logged sc" now c r])
  case (refused q s2 e h)
  then show ?thesis by auto
next
  case (made q s2 v h)
  then show ?thesis by auto
qed (use assms in auto)

lemma start_others:
  assumes "map_of (co_entries c) i = None" and "i \<noteq> st_stableID r"
  shows "map_of (co_entries (fst (startSpeed sc now r c))) i = None"
  using assms pruned_absent [OF assms(1), of sc now]
  by (cases rule: startSpeed_cases [of sc now c r]) (auto simp: update_conv')

lemma start_all_others:
  assumes "i \<notin> st_stableID ` set rs"
  shows "map_of (snd (start_all sc clock n rs hs c)) i = map_of hs i"
    and "map_of (co_entries c) i = None \<Longrightarrow> map_of (co_entries (fst (start_all sc clock n rs hs c))) i = None"
  using assms by (induction rs arbitrary: n hs c) (auto simp: Let_def case_prod_beta update_conv' start_others)

lemma start_all_append:
  "start_all sc clock n (xs @ ys) hs c =
   start_all sc clock (n + length xs) ys (snd (start_all sc clock n xs hs c)) (fst (start_all sc clock n xs hs c))"
  by (induction xs arbitrary: n hs c) (simp_all add: Let_def case_prod_beta)

lemma overtaken:
  assumes d: "distinct (map st_stableID (xs @ r # ys @ q # zs))"
    and none: "map_of (co_entries c) (st_stableID r) = None" "map_of (co_entries c) (st_stableID q) = None"
    and run: "start_all (logged sc) clock 0 (xs @ r # ys @ q # zs) [] c = (c', hs)"
    and turned: "map_of hs (st_stableID r) = Some h" "ha_Detail h = busy_detail"
    and made: "map_of hs (st_stableID q) = Some g" "ha_SessionID g \<noteq> []"
  shows "ended_in (snd (co_controller c'))"
proof (rule ccontr)
  assume e: "\<not> ended_in (snd (co_controller c'))"
  define c1 where "c1 = fst (start_all (logged sc) clock 0 xs [] c)"
  define h1 where "h1 = snd (start_all (logged sc) clock 0 xs [] c)"
  define s where "s = startSpeed (logged sc) (clock (length xs)) r c1"
  define c3 where "c3 = fst (start_all (logged sc) clock (Suc (length xs)) ys (AList.update (st_stableID r) (snd s) h1) (fst s))"
  define h3 where "h3 = snd (start_all (logged sc) clock (Suc (length xs)) ys (AList.update (st_stableID r) (snd s) h1) (fst s))"
  define k where "k = Suc (length xs) + length ys"
  define t where "t = startSpeed (logged sc) (clock k) q c3"
  have c': "start_all (logged sc) clock (Suc k) zs (AList.update (st_stableID q) (snd t) h3) (fst t) = (c', hs)"
    using run by (simp add: start_all_append case_prod_beta c1_def h1_def s_def c3_def h3_def t_def k_def Let_def)
  have last: "prefix (snd (co_controller (fst t))) (snd (co_controller c'))"
    using logged.rel_start_all [of "fst t" sc clock "Suc k" zs "AList.update (st_stableID q) (snd t) h3"] c' by simp
  have t: "prefix (snd (co_controller c3)) (snd (co_controller (fst t)))" unfolding t_def by (rule logged.rel_startSpeed)
  have mid: "prefix (snd (co_controller (fst s))) (snd (co_controller c3))" unfolding c3_def by (rule logged.rel_start_all)
  have et: "\<not> ended_in (snd (co_controller (fst t)))" using e ended_prefix [OF _ last] by blast
  have e3: "\<not> ended_in (snd (co_controller c3))" using et ended_prefix [OF _ t] by blast
  have es: "\<not> ended_in (snd (co_controller (fst s)))" using e3 ended_prefix [OF _ mid] by blast
  have config: "co_config c1 = co_config c" "co_config c3 = co_config c"
    by (simp_all add: c1_def c3_def s_def start_all_config startSpeed_config)
  have n1: "map_of (co_entries c1) (st_stableID r) = None" "map_of (co_entries c1) (st_stableID q) = None"
    using d none unfolding c1_def by (intro start_all_others(2); auto)+
  have ns: "map_of (co_entries (fst s)) (st_stableID q) = None"
    unfolding s_def by (rule start_others [OF n1(2)]) (use d in auto)
  have n3: "map_of (co_entries c3) (st_stableID q) = None"
    unfolding c3_def by (rule start_all_others(2) [OF _ ns]) (use d in auto)
  have "map_of hs (st_stableID q) = Some (snd t)"
    using start_all_others(1) [of "st_stableID q" zs "logged sc" clock "Suc k" "AList.update (st_stableID q) (snd t) h3" "fst t"]
      d c' by (auto simp: update_conv')
  then have g: "g = snd t" using made(1) by simp
  have "map_of h3 (st_stableID r) = Some (snd s)"
    using start_all_others(1) [of "st_stableID r" ys "logged sc" clock "Suc (length xs)"
        "AList.update (st_stableID r) (snd s) h1" "fst s"] d by (auto simp: update_conv' h3_def)
  moreover have "map_of hs (st_stableID r) = map_of h3 (st_stableID r)"
    using start_all_others(1) [of "st_stableID r" zs "logged sc" clock "Suc k" "AList.update (st_stableID q) (snd t) h3" "fst t"]
      d c' by (auto simp: update_conv')
  ultimately have h: "h = snd s" using turned(1) by simp
  let ?a = "activeLocked (logged sc) (pruneLocked (logged sc) (clock (length xs)) c1)"
  have busy: "au_MaxConcurrent (co_config c) \<le> snd ?a" "fst s = fst ?a"
    using start_busy [OF n1(1), of "logged sc" "clock (length xs)"] turned(2) config by (simp_all add: h s_def)
  then have "au_MaxConcurrent (co_config c) \<le> int (seen_count (fst s))"
    using active_seen(2) [of sc "pruneLocked (logged sc) (clock (length xs)) c1"] es by simp
  also have "\<dots> \<le> int (seen_count c3)"
    using start_all_seen [of sc clock "Suc (length xs)" ys "AList.update (st_stableID r) (snd s) h1" "fst s"] e3
    by (simp add: c3_def)
  finally have room: "au_MaxConcurrent (co_config c) \<le> int (seen_count c3)" .
  let ?p = "pruneLocked (logged sc) (clock k) c3"
  have lt: "snd (activeLocked (logged sc) ?p) < au_MaxConcurrent (co_config c)"
    using start_made [OF n3, of "logged sc" "clock k"] made(2) config by (simp add: g t_def)
  have ta: "prefix (snd (co_controller (fst (activeLocked (logged sc) ?p)))) (snd (co_controller (fst t)))"
    unfolding t_def by (rule start_after_active [OF pruned_absent [OF n3]])
  have pa: "prefix (snd (co_controller ?p)) (snd (co_controller (fst (activeLocked (logged sc) ?p))))"
    by (rule logged.rel_active)
  have ea: "\<not> ended_in (snd (co_controller (fst (activeLocked (logged sc) ?p))))" using et ended_prefix [OF _ ta] by blast
  then have "\<not> ended_in (snd (co_controller ?p))" using ended_prefix [OF _ pa] by blast
  from pruned_seen [OF this] active_seen(1) [OF ea] room lt show False by linarith
qed

subsection \<open>A sample call\<close>

text \<open>
  One slot, held by a session that ends between the turn of the first node and the turn of the second.
\<close>

definition sample_sessions :: "nat session_controller" where
  "sample_sessions = \<lparr>sc_enabled = (\<lambda>s. True),
     sc_create = (\<lambda>r s. (s, Inr (Some (new_session sample_request ''t'' 5 hour)))),
     sc_session = (\<lambda>i s. (Suc s, Some ((new_session sample_request ''s'' 5 hour)
        \<lparr>s_State := if s < 2 then Dispatching else SExpired\<rparr>)))\<rparr>"

definition sample_holding :: "nat coordinator" where
  "sample_holding = \<lparr>co_config = \<lparr>au_Enabled = True, au_Cooldown = hour, au_AlertWait = 0, au_MaxConcurrent = 1,
       au_PollInterval = second, au_EnvironmentSourced = None, au_ProxyFailureEnabled = True,
       au_ProxyFailureProfileID = ProfileStatus, au_OfflineEnabled = True, au_OfflineProfileID = ProfileStatus\<rparr>,
     co_entries = [(''other'', (request_handle sample_slow_request 5 [])\<lparr>ha_SessionID := ''s'', ha_State := Running\<rparr>)],
     co_availability = [], co_controller = 0\<rparr>"

definition sample_call :: "nat coordinator \<times> (string \<times> Handle) list" where
  "sample_call = StartSpeedDiagnostics sample_sessions (\<lambda>u. []) (\<lambda>n. 6) [sample_broken, sample_slow] ''run'' 50 sample_holding"

lemma sample_call_result:
  "map_option ha_Detail (map_of (snd sample_call) ''node'') = Some busy_detail"
  "map_option ha_SessionID (map_of (snd sample_call) ''broken'') = Some ''t''"
  "map st_stableID (speedAutomationCandidates (\<lambda>u. []) [sample_broken, sample_slow] ''run'' 50
     (au_EnvironmentSourced (co_config sample_holding))) = [''node'', ''broken'']"
  by code_simp+

subsection \<open>What is guaranteed\<close>

text \<open>
  C19: the slots are handed out in that order. If, in one call, a node is turned away because the
  capacity is busy and a node after it in the order gets a session (neither had one before), then a
  session the coordinator had seen running ended in between: the log of what the controller answered
  during this call, written beside its state without changing anything, shows that session running
  and later no longer running.
\<close>

theorem slots_go_in_order:
  assumes "StartSpeedDiagnostics sc hostname clock results source threshold c = (c', hs)"
    and "ids = map st_stableID (speedAutomationCandidates hostname results source threshold
      (au_EnvironmentSourced (co_config c)))"
    and "m < n" and "n < length ids"
    and "map_of (co_entries c) (ids ! m) = None" and "map_of (co_entries c) (ids ! n) = None"
    and "map_of hs (ids ! m) = Some h" and "ha_Detail h = ''automation capacity is busy''"
    and "map_of hs (ids ! n) = Some g" and "ha_SessionID g \<noteq> []"
  shows "\<exists>d. StartSpeedDiagnostics (logged sc) hostname clock results source threshold (with_log c []) = (d, hs) \<and>
    without_log d = c' \<and> (\<exists>i xs ys zs. snd (co_controller d) = xs @ (i, True) # ys @ (i, False) # zs)"
proof -
  define rs where "rs = speedAutomationCandidates hostname results source threshold (au_EnvironmentSourced (co_config c))"
  let ?l = "StartSpeedDiagnostics (logged sc) hostname clock results source threshold (with_log c [])"
  obtain d where d: "?l = (d, hs)" "without_log d = c'"
    using assms(1) StartSpeed_log [of sc hostname clock results source threshold c] by (cases ?l) simp
  have n: "n < length rs" "m < length rs" using assms(2-4) by (simp_all add: rs_def)
  define xs where "xs = take m rs"
  define ys where "ys = take (n - Suc m) (drop (Suc m) rs)"
  define zs where "zs = drop (Suc n) rs"
  have "drop (Suc m) rs = ys @ rs ! n # zs"
    using id_take_nth_drop [of "n - Suc m" "drop (Suc m) rs"] n assms(3) by (simp add: ys_def zs_def)
  then have rs: "rs = xs @ rs ! m # ys @ rs ! n # zs"
    using id_take_nth_drop [OF n(2)] by (simp add: xs_def)
  have ids: "st_stableID (rs ! m) = ids ! m" "st_stableID (rs ! n) = ids ! n" using n by (simp_all add: assms(2) rs_def)
  have "distinct (map st_stableID rs)" unfolding rs_def by (rule candidates_unique)
  then have dist: "distinct (map st_stableID (xs @ rs ! m # ys @ rs ! n # zs))" by (simp only: rs [symmetric])
  have "hs \<noteq> []" using assms(7) by auto
  then have run: "start_all (logged sc) clock 0 (xs @ rs ! m # ys @ rs ! n # zs) [] (with_log c []) = (d, hs)"
    using d(1) unfolding rs [symmetric] by (auto simp: StartSpeedDiagnostics_def rs_def split: if_splits)
  have none: "map_of (co_entries (with_log c [])) (st_stableID (rs ! m)) = None"
    "map_of (co_entries (with_log c [])) (st_stableID (rs ! n)) = None"
    using assms(5,6) ids by simp_all
  from overtaken [OF dist none run, of h g] assms(7-10) ids have "ended_in (snd (co_controller d))" by simp
  then show ?thesis using d by (auto simp: ended_in_def)
qed

theorem slots_go_in_order_witness:
  "\<exists>d i xs ys zs. StartSpeedDiagnostics (logged sample_sessions) (\<lambda>u. []) (\<lambda>n. 6) [sample_broken, sample_slow] ''run'' 50
     (with_log sample_holding []) = (d, snd sample_call) \<and> snd (co_controller d) = xs @ (i, True) # ys @ (i, False) # zs"
proof -
  obtain h g where h: "map_of (snd sample_call) ''node'' = Some h" "ha_Detail h = busy_detail"
    and g: "map_of (snd sample_call) ''broken'' = Some g" "ha_SessionID g = ''t''"
    using sample_call_result(1,2) by blast
  have "map_of (co_entries sample_holding) ''node'' = None" "map_of (co_entries sample_holding) ''broken'' = None"
    by (simp_all add: sample_holding_def)
  then show ?thesis
    using slots_go_in_order [of sample_sessions "\<lambda>u. []" "\<lambda>n. 6" "[sample_broken, sample_slow]" "''run''" 50
        sample_holding "fst sample_call" "snd sample_call" "[''node'', ''broken'']" 0 1 h g] h g sample_call_result(3)
    by (simp add: sample_call_def) blast
qed

end
