(* ===== verification/GoText.thy ===== *)
theory GoText
  imports GoBase
begin

text \<open>
  What the probe agent's registry uses of Go's text packages: the number of runes of a string
  (\<open>len([]rune(s))\<close>), \<open>strings.TrimRight\<close>, and the codecs \<open>encoding/base64\<close> without padding and
  \<open>encoding/hex\<close>. A decoder answers None where Go returns an error; both codecs are shown to read
  back what they write.
\<close>

subsection \<open>Runes\<close>

text \<open>
  The length of the UTF-8 sequence a string starts with, as \<open>utf8.DecodeRune\<close> finds it: a byte that
  starts no valid sequence is a rune of its own.
\<close>

definition continues :: "nat \<Rightarrow> nat \<Rightarrow> nat \<Rightarrow> bool" where
  "continues lo hi b \<longleftrightarrow> lo \<le> b \<and> b \<le> hi"

fun rune_size :: "nat list \<Rightarrow> nat" where
  "rune_size [] = 0"
| "rune_size (a # bs) =
     (let tail = (\<lambda>n. length bs \<ge> n \<and> list_all (continues 128 191) (take (n - 1) (drop 1 bs)));
          second = (\<lambda>lo hi. bs \<noteq> [] \<and> continues lo hi (hd bs))
      in if 194 \<le> a \<and> a \<le> 223 then (if tail 1 \<and> second 128 191 then 2 else 1)
         else if 224 \<le> a \<and> a \<le> 239
           then (if tail 2 \<and> second (if a = 224 then 160 else 128) (if a = 237 then 159 else 191) then 3 else 1)
         else if 240 \<le> a \<and> a \<le> 244
           then (if tail 3 \<and> second (if a = 240 then 144 else 128) (if a = 244 then 143 else 191) then 4 else 1)
         else 1)"

lemma rune_size_pos: "bs \<noteq> [] \<Longrightarrow> 0 < rune_size bs"
  by (cases bs) (auto simp: Let_def)

function count_runes :: "nat list \<Rightarrow> nat" where
  "count_runes bs = (if bs = [] then 0 else Suc (count_runes (drop (rune_size bs) bs)))"
  by pat_completeness auto
termination by (relation "measure length") (auto simp: rune_size_pos)

declare count_runes.simps [simp del] rune_size.simps(2) [simp del]

definition rune_count :: "string \<Rightarrow> nat" where
  "rune_count s = count_runes (bytes_of s)"

definition TrimRight_slash :: "string \<Rightarrow> string" where
  "TrimRight_slash s = rev (dropWhile (\<lambda>c. c = CHR ''/'') (rev s))"

subsection \<open>Base64 without padding\<close>

definition std_alphabet :: string where
  "std_alphabet = ''ABCDEFGHIJKLMNOPQRSTUVWXYZabcdefghijklmnopqrstuvwxyz0123456789+/''"

definition url_alphabet :: string where
  "url_alphabet = ''ABCDEFGHIJKLMNOPQRSTUVWXYZabcdefghijklmnopqrstuvwxyz0123456789-_''"

text \<open>The sextets of a byte sequence, and the bytes of a sequence of sextets (trailing bits ignored).\<close>

fun sextets :: "nat list \<Rightarrow> nat list" where
  "sextets (a # b # c # bs) =
     a div 4 # ((a mod 4) * 16 + b div 16) # ((b mod 16) * 4 + c div 64) # c mod 64 # sextets bs"
| "sextets [a, b] = [a div 4, (a mod 4) * 16 + b div 16, (b mod 16) * 4]"
| "sextets [a] = [a div 4, (a mod 4) * 16]"
| "sextets [] = []"

fun octets :: "nat list \<Rightarrow> nat list option" where
  "octets (p # q # r # s # xs) =
     map_option (\<lambda>bs. (p * 4 + q div 16) # ((q mod 16) * 16 + r div 4) # ((r mod 4) * 64 + s) # bs) (octets xs)"
| "octets [p, q, r] = Some [p * 4 + q div 16, (q mod 16) * 16 + r div 4]"
| "octets [p, q] = Some [p * 4 + q div 16]"
| "octets [p] = None"
| "octets [] = Some []"

fun alphabet_index :: "string \<Rightarrow> char \<Rightarrow> nat option" where
  "alphabet_index [] c = None"
| "alphabet_index (d # ds) c = (if d = c then Some 0 else map_option Suc (alphabet_index ds c))"

definition EncodeToString :: "string \<Rightarrow> 8 word list \<Rightarrow> string" where
  "EncodeToString alphabet bs = map (\<lambda>n. alphabet ! n) (sextets (map unat bs))"

definition DecodeString :: "string \<Rightarrow> string \<Rightarrow> 8 word list option" where
  "DecodeString alphabet s =
     (case those (map (alphabet_index alphabet) (filter (\<lambda>c. of_char c \<notin> {10, 13 :: nat}) s)) of
        None \<Rightarrow> None | Some xs \<Rightarrow> map_option (map of_nat) (octets xs))"

lemma sextets_bound: "list_all (\<lambda>b. b < 256) bs \<Longrightarrow> list_all (\<lambda>x. x < 64) (sextets bs)"
  by (induction bs rule: sextets.induct) auto

lemma joined:
  fixes a b m n :: nat
  assumes "n < m" and "0 < k"
  shows "(a mod k * m + n) mod m = n" and "(a mod k * m + n) div m = a mod k"
  using assms by simp_all

lemma sextet_joins:
  fixes a b c :: nat
  shows "b < 256 \<Longrightarrow> a div 4 * 4 + (a mod 4 * 16 + b div 16) div 16 = a"
    and "b < 256 \<Longrightarrow> c < 256 \<Longrightarrow>
      (a mod 4 * 16 + b div 16) mod 16 * 16 + (b mod 16 * 4 + c div 64) div 4 = b"
    and "c < 256 \<Longrightarrow> (b mod 16 * 4 + c div 64) mod 4 * 64 + c mod 64 = c"
  using joined [of "b div 16" 16 4 a] joined [of "c div 64" 4 16 b] by simp_all

lemma octets_sextets: "list_all (\<lambda>b. b < 256) bs \<Longrightarrow> octets (sextets bs) = Some bs"
proof (induction bs rule: sextets.induct)
  case (1 a b c bs)
  then show ?case using sextet_joins(1) [of b a] sextet_joins(2) [of b c a] sextet_joins(3) [of c b] by simp
next
  case (2 a b)
  then show ?case using sextet_joins(1) [of b a] sextet_joins(2) [of b 0 a] by simp
next
  case (3 a)
  then show ?case using sextet_joins(1) [of 0 a] by simp
qed simp

lemma byte_bound: "unat (b :: 8 word) < 256"
  using unsigned_less [of b] by simp

lemma length_sextets: "length (sextets bs) \<le> 2 * length bs"
  by (induction bs rule: sextets.induct) auto

lemma sextets_nonempty: "bs \<noteq> [] \<Longrightarrow> sextets bs \<noteq> []"
  by (cases bs rule: sextets.cases) auto

lemma alphabet_index_nth: "distinct ds \<Longrightarrow> n < length ds \<Longrightarrow> alphabet_index ds (ds ! n) = Some n"
  by (induction ds arbitrary: n) (auto simp: nth_Cons split: nat.splits)

lemma those_all: "list_all (\<lambda>x. f x = Some (g x)) xs \<Longrightarrow> those (map f xs) = Some (map g xs)"
  by (induction xs) auto

lemma Base64_round_trip:
  assumes "distinct alphabet" and "length alphabet = 64"
    and "list_all (\<lambda>c. of_char c \<notin> {10, 13 :: nat}) alphabet"
  shows "DecodeString alphabet (EncodeToString alphabet bs) = Some bs"
proof -
  let ?xs = "sextets (map unat bs)"
  have b: "list_all (\<lambda>b. b < 256) (map unat bs)"
    by (auto simp: list_all_iff byte_bound)
  have x: "list_all (\<lambda>n. n < 64) ?xs" by (rule sextets_bound [OF b])
  have "filter (\<lambda>c. of_char c \<notin> {10, 13 :: nat}) (EncodeToString alphabet bs) = EncodeToString alphabet bs"
    using x assms(2,3) by (auto simp: EncodeToString_def list_all_iff filter_id_conv)
  moreover have "those (map (alphabet_index alphabet) (EncodeToString alphabet bs)) = Some ?xs"
    using those_all [of "\<lambda>n. alphabet_index alphabet (alphabet ! n)" "\<lambda>n. n" ?xs] x assms(1,2)
    by (auto simp: EncodeToString_def list_all_iff comp_def alphabet_index_nth)
  ultimately show ?thesis
    using octets_sextets [OF b] by (simp add: DecodeString_def comp_def)
qed

lemma std_round_trip: "DecodeString std_alphabet (EncodeToString std_alphabet bs) = Some bs"
  by (rule Base64_round_trip) (simp_all add: std_alphabet_def)

lemma EncodeToString_nonempty: "bs \<noteq> [] \<Longrightarrow> EncodeToString alphabet bs \<noteq> []"
  by (simp add: EncodeToString_def sextets_nonempty)

lemma EncodeToString_chars:
  assumes "length alphabet = 64"
  shows "set (EncodeToString alphabet bs) \<subseteq> set alphabet"
proof -
  have "list_all (\<lambda>b. b < 256) (map unat bs)"
    by (auto simp: list_all_iff byte_bound)
  from sextets_bound [OF this] show ?thesis using assms by (auto simp: EncodeToString_def list_all_iff)
qed

lemma length_EncodeToString: "length (EncodeToString alphabet bs) \<le> 2 * length bs"
  using length_sextets [of "map unat bs"] by (simp add: EncodeToString_def)

subsection \<open>Hexadecimal\<close>

definition hex_digits :: string where
  "hex_digits = ''0123456789abcdef''"

definition hex_digit :: "nat \<Rightarrow> char" where
  "hex_digit n = hex_digits ! n"

text \<open>A digit is read in either case.\<close>

definition hex_value :: "char \<Rightarrow> nat option" where
  "hex_value c = (case alphabet_index hex_digits c of Some n \<Rightarrow> Some n
     | None \<Rightarrow> map_option (\<lambda>n. n + 10) (alphabet_index ''ABCDEF'' c))"

fun hex_encode :: "8 word list \<Rightarrow> string" where
  "hex_encode [] = []"
| "hex_encode (b # bs) = hex_digit (unat b div 16) # hex_digit (unat b mod 16) # hex_encode bs"

fun hex_decode :: "string \<Rightarrow> 8 word list option" where
  "hex_decode [] = Some []"
| "hex_decode [c] = None"
| "hex_decode (c # d # cs) =
     (case (hex_value c, hex_value d) of
        (Some m, Some n) \<Rightarrow> map_option ((#) (of_nat (16 * m + n))) (hex_decode cs)
      | _ \<Rightarrow> None)"

lemma hex_value_digit: "n < 16 \<Longrightarrow> hex_value (hex_digit n) = Some n"
  by (simp add: hex_value_def hex_digit_def alphabet_index_nth hex_digits_def del: alphabet_index.simps)

lemma hex_round_trip [simp]: "hex_decode (hex_encode bs) = Some bs"
proof (induction bs)
  case (Cons b bs)
  have "unat b < 256" by (rule byte_bound)
  then have "unat b div 16 < 16" by simp
  then show ?case using Cons by (simp add: hex_value_digit)
qed simp

lemma hex_encode_Nil [simp]: "hex_encode bs = [] \<longleftrightarrow> bs = []"
  by (cases bs) auto

end
