(* ===== verification/AgentRegistry.thy ===== *)
theory AgentRegistry
  imports RemoteController GoText
begin

text \<open>
  The registry of probe agents, \<open>src/probeagent/registry.go\<close>: agents are created with a one-time
  enrolment token, enrol with two public keys, and from then on authenticate every request by a
  signature and an ascending sequence number; an agent can be reissued, revoked and deleted. Every
  change is written to a file before it counts.

  The state is the configuration, the table of agents and the file. The file is the value its JSON
  text encodes (absent, not a registry, or a registry); writing it ends in one outcome, since the
  code publishes a complete temporary file by one rename or leaves the old file. What the standard
  library computes about addresses, URLs, SHA-256 and Ed25519 is the record \<open>platform\<close>. Instants
  the clock is asked for, the bytes the random source gives and the outcome of a write are arguments.
\<close>

subsection \<open>Data\<close>

datatype registry_error =
    ErrDisabled_reg | ErrInvalidAgent | ErrAgentNotFound_reg | ErrAgentRevoked | ErrAgentNotRevoked
  | ErrSourceIPMismatch | ErrEnrollmentExpired | ErrEnrollmentUsed | ErrInvalidEnrollment
  | ErrAgentNotEnrolled | ErrInvalidControlRequest | ErrControlReplay
  | ErrRandom | ErrPersist | ErrRead | ErrDecode | ErrVersion | ErrKeyMismatch

record parsed_url =
  ur_Scheme :: string
  ur_Host :: string
  ur_User :: bool
  ur_RawQuery :: string
  ur_Fragment :: string

text \<open>\<open>pf_ParseAddr\<close> is \<open>netip.ParseAddr\<close> with \<open>Unmap\<close> and \<open>String\<close>.\<close>

record platform =
  pf_ParseAddr :: "string \<Rightarrow> address option"
  pf_ParseURL :: "string \<Rightarrow> parsed_url option"
  pf_Sum256 :: "string \<Rightarrow> 8 word list"
  pf_Verify :: "8 word list \<Rightarrow> 8 word list \<Rightarrow> 8 word list \<Rightarrow> bool"

record AgentRecord =
  pa_AgentID :: string
  pa_DisplayName :: string
  pa_ExpectedSourceIP :: string
  pa_ControllerIP :: string
  pa_ControllerURL :: string
  pa_Region :: string
  pa_Provider :: string
  pa_NetworkGroup :: string
  pa_Enabled :: bool
  pa_CreatedAt :: time
  pa_UpdatedAt :: time
  pa_EnrollmentExpiresAt :: time
  pa_EnrollmentUsedAt :: time
  pa_EnrollmentTokenHash :: string
  pa_IdentityPublicKey :: string
  pa_ObservationPublicKey :: string
  pa_EnrolledAt :: time
  pa_LastSeenAt :: time
  pa_LastSequence :: nat
  pa_AgentVersion :: string
  pa_Capabilities :: "string list"
  pa_Health :: string
  pa_RevokedAt :: time

record RegistryFile =
  rf_Version :: int
  rf_UpdatedAt :: time
  rf_Agents :: "(string \<times> AgentRecord) list"

datatype disk_file = Missing | Garbled | Holds RegistryFile

record CreateAgentRequest =
  cg_DisplayName :: string
  cg_ExpectedSourceIP :: string
  cg_ControllerIP :: string
  cg_ControllerURL :: string
  cg_Region :: string
  cg_Provider :: string
  cg_NetworkGroup :: string

record RegistryConfig =
  gc_Path :: string
  gc_Enabled :: bool
  gc_DefaultControllerURL :: string
  gc_DefaultControllerIP :: string
  gc_EnrollmentTTL :: duration
  gc_HeartbeatMaxSkew :: duration
  gc_HeartbeatIntervalSec :: int

record registry =
  rg_config :: RegistryConfig
  rg_state :: RegistryFile
  rg_file :: disk_file

text \<open>A snapshot extends what the remote controller reads of it.\<close>

record agent_view = AgentSnapshot +
  av_DisplayName :: string
  av_ControllerIP :: string
  av_ControllerURL :: string
  av_Region :: string
  av_Provider :: string
  av_NetworkGroup :: string
  av_CreatedAt :: time
  av_EnrollmentExpiresAt :: time
  av_EnrollmentUsedAt :: time
  av_EnrolledAt :: time
  av_AgentVersion :: string
  av_RevokedAt :: time
  av_Revoked :: bool
  av_IdentityConfigured :: bool
  av_ObservationKeySet :: bool

record EnrollRequest =
  er_ProtocolVersion :: int
  er_AgentID :: string
  er_EnrollmentToken :: string
  er_IdentityPublicKey :: "8 word list"
  er_ObservationPublicKey :: "8 word list"
  er_AgentVersion :: string
  er_Capabilities :: "string list"

record EnrollResponse =
  es_AgentID :: string
  es_EnrolledAt :: time
  es_HeartbeatInterval :: int

record HeartbeatRequest =
  hb_ProtocolVersion :: int
  hb_AgentID :: string
  hb_AgentVersion :: string
  hb_Capabilities :: "string list"
  hb_Health :: string

record HeartbeatResponse =
  hr_AgentID :: string
  hr_AcceptedAt :: time

definition RegistryVersion :: int where "RegistryVersion = 1"
definition ProtocolVersion :: int where "ProtocolVersion = 1"
definition DefaultEnrollmentTTL :: duration where "DefaultEnrollmentTTL = 15 * minute"
definition DefaultHeartbeatIntervalSec :: int where "DefaultHeartbeatIntervalSec = 30"
definition DefaultHeartbeatMaxSkew :: duration where "DefaultHeartbeatMaxSkew = 2 * minute"

subsection \<open>Texts\<close>

definition breaks_line :: "char \<Rightarrow> bool" where
  "breaks_line c \<longleftrightarrow> of_char c \<in> {0, 10, 13 :: nat}"

definition validShortText :: "string \<Rightarrow> nat \<Rightarrow> bool" where
  "validShortText v0 limit = (let v = TrimSpace v0 in
     v \<noteq> [] \<and> rune_count v \<le> limit \<and> \<not> list_ex breaks_line v)"

definition validDisplayName :: "string \<Rightarrow> bool" where
  "validDisplayName v0 = (let v = TrimSpace v0 in
     v \<noteq> [] \<and> rune_count v \<le> 80 \<and> \<not> list_ex breaks_line v)"

definition identifier_char :: "char \<Rightarrow> bool" where
  "identifier_char c \<longleftrightarrow> c \<in> set ''abcdefghijklmnopqrstuvwxyzABCDEFGHIJKLMNOPQRSTUVWXYZ0123456789-_.:''"

definition validIdentifier :: "string \<Rightarrow> nat \<Rightarrow> bool" where
  "validIdentifier v limit \<longleftrightarrow> v \<noteq> [] \<and> length v \<le> limit \<and> list_all identifier_char v"

definition validHealth :: "string \<Rightarrow> bool" where
  "validHealth v \<longleftrightarrow> v \<in> {''healthy'', ''degraded'', ''unhealthy'', ''starting''}"

fun collect_capabilities :: "string list \<Rightarrow> string set \<Rightarrow> string list" where
  "collect_capabilities [] seen = []"
| "collect_capabilities (raw # vs) seen =
     (let v = TrimSpace raw in
      if \<not> validIdentifier v 64 \<or> v \<in> seen then collect_capabilities vs seen
      else v # collect_capabilities vs (insert v seen))"

definition normalizeCapabilities :: "string list \<Rightarrow> string list" where
  "normalizeCapabilities vs =
     (let result = sort_strings (collect_capabilities vs {})
      in if length result > 16 then take 16 result else result)"

definition tokenHash :: "platform \<Rightarrow> string \<Rightarrow> string" where
  "tokenHash pf token = hex_encode (pf_Sum256 pf token)"

definition tokenMatches :: "platform \<Rightarrow> string \<Rightarrow> string \<Rightarrow> bool" where
  "tokenMatches pf expectedHash token =
     (case hex_decode expectedHash of None \<Rightarrow> False
      | Some want \<Rightarrow> length want = 32 \<and> want = pf_Sum256 pf token)"

definition randomToken :: "string \<Rightarrow> 8 word list option \<Rightarrow> registry_error + string" where
  "randomToken prefix bytes =
     (case bytes of None \<Rightarrow> Inl ErrRandom
      | Some buffer \<Rightarrow> Inr (prefix @ ''_'' @ EncodeToString url_alphabet buffer))"

subsection \<open>Addresses and requests\<close>

definition parseExactIP :: "platform \<Rightarrow> string \<Rightarrow> address option" where
  "parseExactIP pf v = pf_ParseAddr pf (TrimSpace v)"

definition normalizeIP :: "platform \<Rightarrow> string \<Rightarrow> string" where
  "normalizeIP pf v = (case parseExactIP pf v of None \<Rightarrow> TrimSpace v | Some a \<Rightarrow> a)"

text \<open>The address a request comes from is None when it is not valid.\<close>

definition sourceMatches :: "platform \<Rightarrow> string \<Rightarrow> address option \<Rightarrow> bool" where
  "sourceMatches pf expected actual =
     (case parseExactIP pf expected of None \<Rightarrow> False | Some a \<Rightarrow> actual = Some a)"

definition validateControllerAddress :: "platform \<Rightarrow> string \<Rightarrow> string \<Rightarrow> bool" where
  "validateControllerAddress pf controllerURL controllerIP =
     (parseExactIP pf controllerIP \<noteq> None \<and>
      (case pf_ParseURL pf controllerURL of None \<Rightarrow> False
       | Some u \<Rightarrow> ur_Scheme u = ''https'' \<and> ur_Host u \<noteq> [] \<and> \<not> ur_User u \<and>
           ur_RawQuery u = [] \<and> ur_Fragment u = []))"

definition normalizeCreateRequest :: "platform \<Rightarrow> CreateAgentRequest \<Rightarrow> CreateAgentRequest" where
  "normalizeCreateRequest pf q =
     \<lparr>cg_DisplayName = TrimSpace (cg_DisplayName q),
      cg_ExpectedSourceIP = normalizeIP pf (cg_ExpectedSourceIP q),
      cg_ControllerIP = normalizeIP pf (cg_ControllerIP q),
      cg_ControllerURL = TrimRight_slash (TrimSpace (cg_ControllerURL q)),
      cg_Region = TrimSpace (cg_Region q), cg_Provider = TrimSpace (cg_Provider q),
      cg_NetworkGroup = TrimSpace (cg_NetworkGroup q)\<rparr>"

definition applyControllerDefaults :: "RegistryConfig \<Rightarrow> CreateAgentRequest \<Rightarrow> CreateAgentRequest" where
  "applyControllerDefaults cfg q0 =
     (let q1 = (if cg_ControllerURL q0 = []
                then q0\<lparr>cg_ControllerURL := gc_DefaultControllerURL cfg\<rparr> else q0)
      in if cg_ControllerIP q1 = [] then q1\<lparr>cg_ControllerIP := gc_DefaultControllerIP cfg\<rparr> else q1)"

definition validateCreateRequest :: "platform \<Rightarrow> CreateAgentRequest \<Rightarrow> bool" where
  "validateCreateRequest pf q =
     (validDisplayName (cg_DisplayName q) \<and> parseExactIP pf (cg_ExpectedSourceIP q) \<noteq> None \<and>
      validateControllerAddress pf (cg_ControllerURL q) (cg_ControllerIP q) \<and>
      list_all (\<lambda>v. v = [] \<or> validShortText v 80)
        [cg_Region q, cg_Provider q, cg_NetworkGroup q])"

definition valid_key :: "string \<Rightarrow> bool" where
  "valid_key encoded \<longleftrightarrow> (case DecodeString std_alphabet encoded of None \<Rightarrow> False
     | Some decoded \<Rightarrow> length decoded = 32)"

definition record_request :: "AgentRecord \<Rightarrow> CreateAgentRequest" where
  "record_request a =
     \<lparr>cg_DisplayName = pa_DisplayName a, cg_ExpectedSourceIP = pa_ExpectedSourceIP a,
      cg_ControllerIP = pa_ControllerIP a, cg_ControllerURL = pa_ControllerURL a,
      cg_Region = pa_Region a, cg_Provider = pa_Provider a, cg_NetworkGroup = pa_NetworkGroup a\<rparr>"

definition identity_configured :: "AgentRecord \<Rightarrow> bool" where
  "identity_configured a \<longleftrightarrow> pa_IdentityPublicKey a \<noteq> [] \<or> pa_ObservationPublicKey a \<noteq> [] \<or>
     pa_EnrolledAt a \<noteq> 0"

definition validateRecord :: "platform \<Rightarrow> AgentRecord \<Rightarrow> bool" where
  "validateRecord pf a =
     (if \<not> validIdentifier (pa_AgentID a) 96 \<or> \<not> validDisplayName (pa_DisplayName a) then False
      else if \<not> validateCreateRequest pf (record_request a) then False
      else if pa_CreatedAt a = 0 \<or> pa_UpdatedAt a = 0 then False
      else if pa_AgentVersion a \<noteq> [] \<and> \<not> validShortText (pa_AgentVersion a) 128 then False
      else if pa_Health a \<noteq> [] \<and> \<not> validHealth (pa_Health a) then False
      else if list_ex (\<lambda>encoded. encoded \<noteq> [] \<and> \<not> valid_key encoded)
        [pa_IdentityPublicKey a, pa_ObservationPublicKey a] then False
      else if pa_EnrollmentTokenHash a \<noteq> [] \<and>
        (case hex_decode (pa_EnrollmentTokenHash a) of None \<Rightarrow> True | Some d \<Rightarrow> length d \<noteq> 32) then False
      else if identity_configured a \<and>
        (pa_IdentityPublicKey a = [] \<or> pa_ObservationPublicKey a = [] \<or> pa_EnrolledAt a = 0 \<or>
         pa_EnrollmentUsedAt a = 0 \<or> pa_EnrollmentTokenHash a \<noteq> []) then False
      else \<not> (pa_EnrollmentTokenHash a \<noteq> [] \<and>
        (pa_EnrollmentExpiresAt a = 0 \<or> pa_EnrollmentUsedAt a \<noteq> 0)))"

subsection \<open>Construction and loading\<close>

definition NewRegistry :: "platform \<Rightarrow> RegistryConfig \<Rightarrow> disk_file \<Rightarrow> registry_error + registry" where
  "NewRegistry pf config0 file =
     (let config1 = config0\<lparr>gc_Path := TrimSpace (gc_Path config0)\<rparr>;
          config2 = config1\<lparr>
            gc_EnrollmentTTL := (if gc_EnrollmentTTL config1 = 0 then DefaultEnrollmentTTL
              else gc_EnrollmentTTL config1),
            gc_HeartbeatMaxSkew := (if gc_HeartbeatMaxSkew config1 = 0 then DefaultHeartbeatMaxSkew
              else gc_HeartbeatMaxSkew config1),
            gc_HeartbeatIntervalSec := (if gc_HeartbeatIntervalSec config1 = 0
              then DefaultHeartbeatIntervalSec else gc_HeartbeatIntervalSec config1)\<rparr>;
          config3 = config2\<lparr>
            gc_DefaultControllerURL := TrimRight_slash (TrimSpace (gc_DefaultControllerURL config2)),
            gc_DefaultControllerIP := normalizeIP pf (gc_DefaultControllerIP config2)\<rparr>
      in if gc_Path config1 = [] then Inl ErrInvalidAgent
         else if gc_EnrollmentTTL config2 < minute \<or> gc_HeartbeatMaxSkew config2 < second \<or>
             gc_HeartbeatIntervalSec config2 < 5 then Inl ErrInvalidAgent
         else if (gc_DefaultControllerURL config3 \<noteq> [] \<or> gc_DefaultControllerIP config3 \<noteq> []) \<and>
             \<not> validateControllerAddress pf (gc_DefaultControllerURL config3) (gc_DefaultControllerIP config3)
           then Inl ErrInvalidAgent
         else Inr \<lparr>rg_config = config3,
                rg_state = \<lparr>rf_Version = RegistryVersion, rf_UpdatedAt = 0, rf_Agents = []\<rparr>,
                rg_file = file\<rparr>)"

definition registry_Enabled :: "registry \<Rightarrow> bool" where
  "registry_Enabled r \<longleftrightarrow> gc_Enabled (rg_config r)"

definition loaded_record :: "string \<Rightarrow> AgentRecord \<Rightarrow> AgentRecord" where
  "loaded_record i a =
     (let a1 = a\<lparr>pa_AgentID := TrimSpace (pa_AgentID a)\<rparr>;
          a2 = (if pa_AgentID a1 = [] then a1\<lparr>pa_AgentID := i\<rparr> else a1)
      in a2\<lparr>pa_Capabilities := normalizeCapabilities (pa_Capabilities a2)\<rparr>)"

fun decode_agents :: "platform \<Rightarrow> (string \<times> AgentRecord) list \<Rightarrow>
    registry_error + (string \<times> AgentRecord) list" where
  "decode_agents pf [] = Inr []"
| "decode_agents pf ((i, a0) # agents) =
     (let a = loaded_record i a0 in
      if \<not> validateRecord pf a then Inl ErrInvalidAgent
      else if i \<noteq> pa_AgentID a then Inl ErrKeyMismatch
      else (case decode_agents pf agents of Inl e \<Rightarrow> Inl e | Inr rest \<Rightarrow> Inr ((i, a) # rest)))"

definition DecodeRegistry :: "platform \<Rightarrow> RegistryFile \<Rightarrow> registry_error + RegistryFile" where
  "DecodeRegistry pf state0 =
     (let state1 = (if rf_Version state0 = 0 then state0\<lparr>rf_Version := RegistryVersion\<rparr> else state0)
      in if rf_Version state1 \<noteq> RegistryVersion then Inl ErrVersion
         else (case decode_agents pf (rf_Agents state1) of Inl e \<Rightarrow> Inl e
           | Inr agents \<Rightarrow> Inr (state1\<lparr>rf_Agents := agents\<rparr>)))"

text \<open>\<open>readable\<close>: the file, when there is one, can be read.\<close>

definition registry_Load :: "platform \<Rightarrow> bool \<Rightarrow> registry \<Rightarrow> registry_error + registry" where
  "registry_Load pf readable r =
     (case rg_file r of Missing \<Rightarrow> Inr r
      | content \<Rightarrow>
          if \<not> readable then Inl ErrRead
          else (case content of Holds state0 \<Rightarrow>
                  (case DecodeRegistry pf state0 of Inl e \<Rightarrow> Inl e
                   | Inr state \<Rightarrow> Inr (r\<lparr>rg_state := state\<rparr>))
                | _ \<Rightarrow> Inl ErrDecode))"

definition ControllerDefaults :: "registry \<Rightarrow> string \<times> string" where
  "ControllerDefaults r = (gc_DefaultControllerURL (rg_config r), gc_DefaultControllerIP (rg_config r))"

subsection \<open>Reading\<close>

definition agent_of :: "registry \<Rightarrow> string \<Rightarrow> AgentRecord option" where
  "agent_of r i = map_of (rf_Agents (rg_state r)) i"

definition registry_snapshot :: "registry \<Rightarrow> time \<Rightarrow> AgentRecord \<Rightarrow> agent_view" where
  "registry_snapshot r now a =
     (let window0 = gc_HeartbeatIntervalSec (rg_config r) * 3 * second;
          connectedWindow = (if window0 < 90 * second then 90 * second else window0)
      in \<lparr>ag_AgentID = pa_AgentID a, ag_Enabled = pa_Enabled a,
          ag_Connected = (pa_Enabled a \<and> pa_IdentityPublicKey a \<noteq> [] \<and> pa_LastSequence a > 0 \<and>
            pa_LastSeenAt a > now - connectedWindow),
          ag_Health = pa_Health a, ag_Capabilities = pa_Capabilities a, ag_LastSeenAt = pa_LastSeenAt a,
          ag_ExpectedSourceIP = pa_ExpectedSourceIP a,
          av_DisplayName = pa_DisplayName a, av_ControllerIP = pa_ControllerIP a,
          av_ControllerURL = pa_ControllerURL a, av_Region = pa_Region a, av_Provider = pa_Provider a,
          av_NetworkGroup = pa_NetworkGroup a, av_CreatedAt = pa_CreatedAt a,
          av_EnrollmentExpiresAt = pa_EnrollmentExpiresAt a,
          av_EnrollmentUsedAt = pa_EnrollmentUsedAt a, av_EnrolledAt = pa_EnrolledAt a,
          av_AgentVersion = pa_AgentVersion a, av_RevokedAt = pa_RevokedAt a,
          av_Revoked = (pa_RevokedAt a \<noteq> 0), av_IdentityConfigured = (pa_IdentityPublicKey a \<noteq> []),
          av_ObservationKeySet = (pa_ObservationPublicKey a \<noteq> [])\<rparr>)"

text \<open>The clock is read for each record; \<open>order\<close> is the order of the map's iteration.\<close>

definition registry_Snapshot ::
  "registry \<Rightarrow> (nat \<Rightarrow> time) \<Rightarrow> ((string \<times> AgentRecord) list \<Rightarrow> (string \<times> AgentRecord) list) \<Rightarrow>
   agent_view list" where
  "registry_Snapshot r clock order =
     sort_slice (\<lambda>x y. av_CreatedAt x > av_CreatedAt y)
       (map (\<lambda>(n, i, a). registry_snapshot r (clock n) a) (enumerate 0 (order (rf_Agents (rg_state r)))))"

definition registry_Agent :: "registry \<Rightarrow> time \<Rightarrow> string \<Rightarrow> agent_view option" where
  "registry_Agent r now agentID = map_option (registry_snapshot r now) (agent_of r (TrimSpace agentID))"

definition ObservationPublicKey :: "registry \<Rightarrow> string \<Rightarrow> 8 word list option" where
  "ObservationPublicKey r agentID =
     (if \<not> registry_Enabled r then None
      else (case agent_of r (TrimSpace agentID) of None \<Rightarrow> None
        | Some a \<Rightarrow>
            if \<not> pa_Enabled a \<or> pa_RevokedAt a \<noteq> 0 \<or> pa_EnrolledAt a = 0 then None
            else (case DecodeString std_alphabet (pa_ObservationPublicKey a) of None \<Rightarrow> None
              | Some decoded \<Rightarrow> if length decoded \<noteq> 32 then None else Some decoded)))"

subsection \<open>Writing\<close>

definition persistLocked :: "bool \<Rightarrow> registry \<Rightarrow> registry \<times> bool" where
  "persistLocked written r0 =
     (let r = r0\<lparr>rg_state := (rg_state r0)\<lparr>rf_Version := RegistryVersion\<rparr>\<rparr>
      in if written then (r\<lparr>rg_file := Holds (rg_state r)\<rparr>, True) else (r, False))"

definition set_agents :: "((string \<times> AgentRecord) list \<Rightarrow> (string \<times> AgentRecord) list) \<Rightarrow> time \<Rightarrow>
    registry \<Rightarrow> registry" where
  "set_agents f updated r =
     r\<lparr>rg_state := (rg_state r)\<lparr>rf_Agents := f (rf_Agents (rg_state r)), rf_UpdatedAt := updated\<rparr>\<rparr>"

text \<open>Replacing the record of an agent: \<open>previous\<close> is put back when the file cannot be written.\<close>

definition replace_record :: "bool \<Rightarrow> time \<Rightarrow> AgentRecord \<Rightarrow> AgentRecord \<Rightarrow> registry \<Rightarrow> registry \<times> bool" where
  "replace_record written now previous a r =
     (case persistLocked written (set_agents (AList.update (pa_AgentID a) a) now r) of
        (r1, True) \<Rightarrow> (r1, True)
      | (r1, False) \<Rightarrow>
          (set_agents (AList.update (pa_AgentID a) previous) (rf_UpdatedAt (rg_state r)) r1, False))"

record CreationResult =
  cr_Agent :: agent_view
  cr_EnrollmentToken :: string

definition creationResult :: "registry \<Rightarrow> time \<Rightarrow> AgentRecord \<Rightarrow> string \<Rightarrow> CreationResult" where
  "creationResult r now a token = \<lparr>cr_Agent = registry_snapshot r now a, cr_EnrollmentToken = token\<rparr>"

definition created_record :: "platform \<Rightarrow> duration \<Rightarrow> CreateAgentRequest \<Rightarrow> string \<Rightarrow> string \<Rightarrow> time \<Rightarrow> AgentRecord" where
  "created_record pf ttl q agentID token now =
     \<lparr>pa_AgentID = agentID, pa_DisplayName = cg_DisplayName q,
      pa_ExpectedSourceIP = cg_ExpectedSourceIP q, pa_ControllerIP = cg_ControllerIP q,
      pa_ControllerURL = cg_ControllerURL q, pa_Region = cg_Region q, pa_Provider = cg_Provider q,
      pa_NetworkGroup = cg_NetworkGroup q, pa_Enabled = True, pa_CreatedAt = now, pa_UpdatedAt = now,
      pa_EnrollmentExpiresAt = now + ttl, pa_EnrollmentUsedAt = 0,
      pa_EnrollmentTokenHash = tokenHash pf token, pa_IdentityPublicKey = [],
      pa_ObservationPublicKey = [], pa_EnrolledAt = 0, pa_LastSeenAt = 0, pa_LastSequence = 0,
      pa_AgentVersion = [], pa_Capabilities = [], pa_Health = [], pa_RevokedAt = 0\<rparr>"

text \<open>\<open>id_bytes\<close> and \<open>token_bytes\<close>: what the random source gives for the identifier and the token.\<close>

definition registry_Create ::
  "platform \<Rightarrow> time \<Rightarrow> time \<Rightarrow> 8 word list option \<Rightarrow> 8 word list option \<Rightarrow> bool \<Rightarrow>
   CreateAgentRequest \<Rightarrow> registry \<Rightarrow> registry \<times> (registry_error + CreationResult)" where
  "registry_Create pf now later id_bytes token_bytes written q0 r =
     (if \<not> registry_Enabled r then (r, Inl ErrDisabled_reg)
      else
        (let q = applyControllerDefaults (rg_config r) (normalizeCreateRequest pf q0) in
         if \<not> validateCreateRequest pf q then (r, Inl ErrInvalidAgent)
         else (case randomToken ''agent'' id_bytes of Inl e \<Rightarrow> (r, Inl e)
           | Inr agentID \<Rightarrow>
              (case randomToken ''enroll'' token_bytes of Inl e \<Rightarrow> (r, Inl e)
               | Inr token \<Rightarrow>
                  (let a = created_record pf (gc_EnrollmentTTL (rg_config r)) q agentID token now in
                   if agent_of r agentID \<noteq> None then (r, Inl ErrInvalidAgent)
                   else (case persistLocked written (set_agents (AList.update agentID a) now r) of
                       (r1, True) \<Rightarrow> (r1, Inr (creationResult r1 later a token))
                     | (r1, False) \<Rightarrow>
                         (set_agents (AList.delete agentID) (rf_UpdatedAt (rg_state r)) r1,
                          Inl ErrPersist)))))))"

definition reissued_record :: "platform \<Rightarrow> duration \<Rightarrow> string \<Rightarrow> time \<Rightarrow> AgentRecord \<Rightarrow> AgentRecord" where
  "reissued_record pf ttl token now a =
     a\<lparr>pa_Enabled := True, pa_RevokedAt := 0, pa_EnrollmentExpiresAt := now + ttl,
       pa_EnrollmentUsedAt := 0, pa_EnrollmentTokenHash := tokenHash pf token,
       pa_IdentityPublicKey := [], pa_ObservationPublicKey := [], pa_EnrolledAt := 0,
       pa_LastSeenAt := 0, pa_LastSequence := 0, pa_AgentVersion := [], pa_Capabilities := [],
       pa_Health := [], pa_UpdatedAt := now\<rparr>"

definition Reissue ::
  "platform \<Rightarrow> time \<Rightarrow> time \<Rightarrow> 8 word list option \<Rightarrow> bool \<Rightarrow> string \<Rightarrow> registry \<Rightarrow>
   registry \<times> (registry_error + CreationResult)" where
  "Reissue pf now later token_bytes written agentID r =
     (if \<not> registry_Enabled r then (r, Inl ErrDisabled_reg)
      else (case randomToken ''enroll'' token_bytes of Inl e \<Rightarrow> (r, Inl e)
        | Inr token \<Rightarrow>
           (case agent_of r (TrimSpace agentID) of None \<Rightarrow> (r, Inl ErrAgentNotFound_reg)
            | Some previous \<Rightarrow>
               (let a = reissued_record pf (gc_EnrollmentTTL (rg_config r)) token now previous in
                case replace_record written now previous a r of
                  (r1, True) \<Rightarrow> (r1, Inr (creationResult r1 later a token))
                | (r1, False) \<Rightarrow> (r1, Inl ErrPersist)))))"

definition Revoke :: "time \<Rightarrow> time \<Rightarrow> bool \<Rightarrow> string \<Rightarrow> registry \<Rightarrow> registry \<times> (registry_error + agent_view)" where
  "Revoke now later written agentID r =
     (case agent_of r (TrimSpace agentID) of None \<Rightarrow> (r, Inl ErrAgentNotFound_reg)
      | Some previous \<Rightarrow>
         (let a = previous\<lparr>pa_Enabled := False, pa_RevokedAt := now, pa_EnrollmentTokenHash := [],
                    pa_UpdatedAt := now\<rparr> in
          case replace_record written now previous a r of
            (r1, True) \<Rightarrow> (r1, Inr (registry_snapshot r1 later a))
          | (r1, False) \<Rightarrow> (r1, Inl ErrPersist)))"

definition registry_Delete :: "time \<Rightarrow> bool \<Rightarrow> string \<Rightarrow> registry \<Rightarrow> registry \<times> registry_error option" where
  "registry_Delete now written agentID0 r =
     (if \<not> registry_Enabled r then (r, Some ErrDisabled_reg)
      else
        (let agentID = TrimSpace agentID0 in
         case agent_of r agentID of None \<Rightarrow> (r, Some ErrAgentNotFound_reg)
         | Some a \<Rightarrow>
            if pa_Enabled a \<or> pa_RevokedAt a = 0 then (r, Some ErrAgentNotRevoked)
            else (case persistLocked written (set_agents (AList.delete agentID) now r) of
                (r1, True) \<Rightarrow> (r1, None)
              | (r1, False) \<Rightarrow>
                  (set_agents (AList.update agentID a) (rf_UpdatedAt (rg_state r)) r1, Some ErrPersist))))"

subsection \<open>Enrolment and authentication\<close>

definition enrolled_record :: "EnrollRequest \<Rightarrow> time \<Rightarrow> AgentRecord \<Rightarrow> AgentRecord" where
  "enrolled_record q now a =
     a\<lparr>pa_IdentityPublicKey := EncodeToString std_alphabet (er_IdentityPublicKey q),
       pa_ObservationPublicKey := EncodeToString std_alphabet (er_ObservationPublicKey q),
       pa_EnrollmentUsedAt := now, pa_EnrollmentTokenHash := [], pa_EnrolledAt := now,
       pa_LastSeenAt := now, pa_AgentVersion := er_AgentVersion q,
       pa_Capabilities := er_Capabilities q, pa_Health := ''starting'', pa_UpdatedAt := now\<rparr>"

definition Enroll ::
  "platform \<Rightarrow> time \<Rightarrow> bool \<Rightarrow> EnrollRequest \<Rightarrow> address option \<Rightarrow> registry \<Rightarrow>
   registry \<times> (registry_error + EnrollResponse)" where
  "Enroll pf now written q0 sourceIP r =
     (if \<not> registry_Enabled r then (r, Inl ErrDisabled_reg)
      else if er_ProtocolVersion q0 \<noteq> ProtocolVersion \<or> length (er_IdentityPublicKey q0) \<noteq> 32 \<or>
          length (er_ObservationPublicKey q0) \<noteq> 32 \<or>
          er_IdentityPublicKey q0 = er_ObservationPublicKey q0 then (r, Inl ErrInvalidEnrollment)
      else if \<not> validShortText (er_AgentVersion q0) 128 then (r, Inl ErrInvalidEnrollment)
      else
        (let q = q0\<lparr>er_Capabilities := normalizeCapabilities (er_Capabilities q0)\<rparr> in
         case agent_of r (TrimSpace (er_AgentID q)) of None \<Rightarrow> (r, Inl ErrAgentNotFound_reg)
         | Some a \<Rightarrow>
            if \<not> pa_Enabled a then (r, Inl ErrAgentRevoked)
            else if \<not> sourceMatches pf (pa_ExpectedSourceIP a) sourceIP then (r, Inl ErrSourceIPMismatch)
            else if pa_EnrollmentUsedAt a \<noteq> 0 \<or> pa_EnrollmentTokenHash a = [] then (r, Inl ErrEnrollmentUsed)
            else if \<not> pa_EnrollmentExpiresAt a > now then (r, Inl ErrEnrollmentExpired)
            else if \<not> tokenMatches pf (pa_EnrollmentTokenHash a) (er_EnrollmentToken q)
              then (r, Inl ErrInvalidEnrollment)
            else (case replace_record written now a (enrolled_record q now a) r of
                (r1, True) \<Rightarrow> (r1, Inr \<lparr>es_AgentID = pa_AgentID a, es_EnrolledAt = now,
                   es_HeartbeatInterval = gc_HeartbeatIntervalSec (rg_config r1)\<rparr>)
              | (r1, False) \<Rightarrow> (r1, Inl ErrPersist))))"

definition signed_by :: "platform \<Rightarrow> string \<Rightarrow> 8 word list \<Rightarrow> 8 word list \<Rightarrow> bool" where
  "signed_by pf encoded payload signature =
     (case DecodeString std_alphabet encoded of None \<Rightarrow> False
      | Some publicKey \<Rightarrow> length publicKey = 32 \<and> length signature = 64 \<and>
          pf_Verify pf publicKey payload signature)"

definition outside_skew :: "RegistryConfig \<Rightarrow> time \<Rightarrow> time \<Rightarrow> bool" where
  "outside_skew cfg now timestamp \<longleftrightarrow>
     timestamp < now - gc_HeartbeatMaxSkew cfg \<or> timestamp > now + gc_HeartbeatMaxSkew cfg"

text \<open>What the transport hands over with a request: its address and the four signed headers.\<close>

record authentication =
  au_sourceIP :: "address option"
  au_timestamp :: time
  au_sequence :: nat
  au_payload :: "8 word list"
  au_signature :: "8 word list"

definition AcceptHeartbeat ::
  "platform \<Rightarrow> time \<Rightarrow> bool \<Rightarrow> HeartbeatRequest \<Rightarrow> authentication \<Rightarrow> registry \<Rightarrow>
   registry \<times> (registry_error + HeartbeatResponse)" where
  "AcceptHeartbeat pf now written q0 t r =
     (if \<not> registry_Enabled r then (r, Inl ErrDisabled_reg)
      else if hb_ProtocolVersion q0 \<noteq> ProtocolVersion \<or> hb_AgentID q0 = [] \<or>
          \<not> validShortText (hb_AgentVersion q0) 128 \<or> \<not> validHealth (hb_Health q0) \<or>
          au_timestamp t = 0 \<or> au_sequence t = 0 then (r, Inl ErrInvalidControlRequest)
      else if outside_skew (rg_config r) now (au_timestamp t) then (r, Inl ErrInvalidControlRequest)
      else
        (let q = q0\<lparr>hb_Capabilities := normalizeCapabilities (hb_Capabilities q0)\<rparr> in
         case agent_of r (TrimSpace (hb_AgentID q)) of None \<Rightarrow> (r, Inl ErrAgentNotFound_reg)
         | Some a \<Rightarrow>
            if \<not> pa_Enabled a then (r, Inl ErrAgentRevoked)
            else if \<not> sourceMatches pf (pa_ExpectedSourceIP a) (au_sourceIP t) then (r, Inl ErrSourceIPMismatch)
            else if pa_IdentityPublicKey a = [] \<or> pa_EnrolledAt a = 0 then (r, Inl ErrAgentNotEnrolled)
            else if au_sequence t \<le> pa_LastSequence a then (r, Inl ErrControlReplay)
            else if \<not> signed_by pf (pa_IdentityPublicKey a) (au_payload t) (au_signature t)
              then (r, Inl ErrInvalidControlRequest)
            else (case replace_record written now a
                (a\<lparr>pa_LastSeenAt := now, pa_LastSequence := au_sequence t, pa_AgentVersion := hb_AgentVersion q,
                   pa_Capabilities := hb_Capabilities q, pa_Health := hb_Health q, pa_UpdatedAt := now\<rparr>) r of
                (r1, True) \<Rightarrow> (r1, Inr \<lparr>hr_AgentID = pa_AgentID a, hr_AcceptedAt = now\<rparr>)
              | (r1, False) \<Rightarrow> (r1, Inl ErrPersist))))"

definition AcceptControlRequest ::
  "platform \<Rightarrow> time \<Rightarrow> bool \<Rightarrow> string \<Rightarrow> authentication \<Rightarrow> registry \<Rightarrow> registry \<times> registry_error option" where
  "AcceptControlRequest pf now written agentID0 t r =
     (if \<not> registry_Enabled r then (r, Some ErrDisabled_reg)
      else
        (let agentID = TrimSpace agentID0 in
         if \<not> validIdentifier agentID 96 \<or> au_timestamp t = 0 \<or> au_sequence t = 0
           then (r, Some ErrInvalidControlRequest)
         else if outside_skew (rg_config r) now (au_timestamp t) then (r, Some ErrInvalidControlRequest)
         else (case agent_of r agentID of None \<Rightarrow> (r, Some ErrAgentNotFound_reg)
           | Some a \<Rightarrow>
              if \<not> pa_Enabled a \<or> pa_RevokedAt a \<noteq> 0 then (r, Some ErrAgentRevoked)
              else if \<not> sourceMatches pf (pa_ExpectedSourceIP a) (au_sourceIP t) then (r, Some ErrSourceIPMismatch)
              else if pa_IdentityPublicKey a = [] \<or> pa_EnrolledAt a = 0 then (r, Some ErrAgentNotEnrolled)
              else if au_sequence t \<le> pa_LastSequence a then (r, Some ErrControlReplay)
              else if \<not> signed_by pf (pa_IdentityPublicKey a) (au_payload t) (au_signature t)
                then (r, Some ErrInvalidControlRequest)
              else (case replace_record written now a
                  (a\<lparr>pa_LastSeenAt := now, pa_LastSequence := au_sequence t, pa_UpdatedAt := now\<rparr>) r of
                  (r1, True) \<Rightarrow> (r1, None)
                | (r1, False) \<Rightarrow> (r1, Some ErrPersist)))))"

end
