(* ===== verification/AgentLifecycle.thy ===== *)
theory AgentLifecycle
  imports AgentRegistry StepSystems
begin

text \<open>
  What the registry keeps: every record it holds is one it would load again, and the file on disk
  always says what the registry says. The events of a registry's life, restarts included, are
  \<open>registry_event\<close>; \<open>life_step\<close> is the abstract life of the agents (absent, awaiting enrolment,
  active, revoked), and every operation is shown to be a step of it.
\<close>

subsection \<open>Capabilities\<close>

lemma collect_capabilities_props:
  "distinct (collect_capabilities vs seen) \<and> set (collect_capabilities vs seen) \<inter> seen = {} \<and>
   list_all (\<lambda>v. validIdentifier v 64) (collect_capabilities vs seen)"
  by (induction vs seen rule: collect_capabilities.induct) (auto simp: Let_def)

lemma identifier_solid: "identifier_char c \<Longrightarrow> solid c"
  by (auto simp: identifier_char_def solid_def)

lemma validIdentifier_trim: "validIdentifier v n \<Longrightarrow> TrimSpace v = v"
  by (rule TrimSpace_solid) (auto simp: validIdentifier_def list_all_iff identifier_solid)

definition normal_capabilities :: "string list \<Rightarrow> bool" where
  "normal_capabilities vs \<longleftrightarrow> distinct vs \<and> sorted vs \<and> length vs \<le> 16 \<and>
     list_all (\<lambda>v. validIdentifier v 64) vs"

lemma normalizeCapabilities_normal: "normal_capabilities (normalizeCapabilities vs)"
proof -
  let ?ws = "sort_strings (collect_capabilities vs {})"
  have c: "distinct ?ws" "list_all (\<lambda>v. validIdentifier v 64) ?ws" "sorted ?ws"
    using collect_capabilities_props [of vs "{}"] strings.slice_sorted
    by (simp_all add: list_all_iff mset_eq_imp_distinct_iff [OF strings.slice_mset])
  moreover have "set (take 16 ?ws) \<subseteq> set ?ws" by (rule set_take_subset)
  ultimately show ?thesis
    by (auto simp: normal_capabilities_def normalizeCapabilities_def Let_def list_all_iff sorted_wrt_take)
qed

lemma collect_normal:
  "list_all (\<lambda>v. validIdentifier v 64) vs \<Longrightarrow> distinct vs \<Longrightarrow> set vs \<inter> seen = {} \<Longrightarrow>
   collect_capabilities vs seen = vs"
proof (induction vs arbitrary: seen)
  case (Cons v vs)
  then show ?case using validIdentifier_trim [of v 64] by (simp add: Let_def)
qed simp

lemma normal_fixed: "normal_capabilities vs \<Longrightarrow> normalizeCapabilities vs = vs"
  by (simp add: normal_capabilities_def normalizeCapabilities_def collect_normal strings.slice_key sorted_sort_id)

subsection \<open>The invariant\<close>

text \<open>A digest has 32 bytes.\<close>

definition sane_platform :: "platform \<Rightarrow> bool" where
  "sane_platform pf \<longleftrightarrow> (\<forall>s. length (pf_Sum256 pf s) = 32)"

definition awaiting :: "AgentRecord \<Rightarrow> bool" where
  "awaiting a \<longleftrightarrow> pa_EnrollmentTokenHash a \<noteq> [] \<and> pa_EnrolledAt a = 0 \<and> pa_LastSequence a = 0"

definition wf_record :: "platform \<Rightarrow> string \<Rightarrow> AgentRecord \<Rightarrow> bool" where
  "wf_record pf i a \<longleftrightarrow> pa_AgentID a = i \<and> validateRecord pf a \<and> normal_capabilities (pa_Capabilities a) \<and>
     (pa_Enabled a \<longleftrightarrow> pa_RevokedAt a = 0) \<and> (pa_Enabled a \<longrightarrow> pa_EnrolledAt a \<noteq> 0 \<or> awaiting a)"

definition wf_agents :: "platform \<Rightarrow> (string \<times> AgentRecord) list \<Rightarrow> bool" where
  "wf_agents pf ags \<longleftrightarrow> distinct (map fst ags) \<and> (\<forall>i a. map_of ags i = Some a \<longrightarrow> wf_record pf i a)"

text \<open>The registry and the file agree; one without a file has no agents.\<close>

definition in_step :: "registry \<Rightarrow> bool" where
  "in_step r \<longleftrightarrow> (case rg_file r of Missing \<Rightarrow> rf_Agents (rg_state r) = []
     | Garbled \<Rightarrow> False
     | Holds f \<Rightarrow> rf_Version f = RegistryVersion \<and> rf_UpdatedAt f = rf_UpdatedAt (rg_state r) \<and>
         distinct (map fst (rf_Agents f)) \<and> map_of (rf_Agents f) = map_of (rf_Agents (rg_state r)))"

text \<open>
  The records on disk. A registry that is switched off and could not read its file starts empty
  and writes nothing.
\<close>

definition stored :: "registry \<Rightarrow> string \<Rightarrow> AgentRecord option" where
  "stored r = (case rg_file r of Holds f \<Rightarrow> map_of (rf_Agents f) | _ \<Rightarrow> Map.empty)"

definition wf_file :: "platform \<Rightarrow> disk_file \<Rightarrow> bool" where
  "wf_file pf file \<longleftrightarrow> (case file of Missing \<Rightarrow> True | Garbled \<Rightarrow> False
     | Holds f \<Rightarrow> rf_Version f = RegistryVersion \<and> wf_agents pf (rf_Agents f))"

definition registry_ok :: "platform \<Rightarrow> registry \<Rightarrow> bool" where
  "registry_ok pf r \<longleftrightarrow> wf_file pf (rg_file r) \<and> rf_Version (rg_state r) = RegistryVersion \<and>
     distinct (map fst (rf_Agents (rg_state r))) \<and> minute \<le> gc_EnrollmentTTL (rg_config r) \<and>
     (in_step r \<or> \<not> registry_Enabled r \<and> rf_Agents (rg_state r) = [])"

lemma validateRecord_iff:
  "validateRecord pf a \<longleftrightarrow>
     validIdentifier (pa_AgentID a) 96 \<and> validateCreateRequest pf (record_request a) \<and>
     pa_CreatedAt a \<noteq> 0 \<and> pa_UpdatedAt a \<noteq> 0 \<and>
     (pa_AgentVersion a = [] \<or> validShortText (pa_AgentVersion a) 128) \<and>
     (pa_Health a = [] \<or> validHealth (pa_Health a)) \<and>
     (pa_IdentityPublicKey a = [] \<or> valid_key (pa_IdentityPublicKey a)) \<and>
     (pa_ObservationPublicKey a = [] \<or> valid_key (pa_ObservationPublicKey a)) \<and>
     (pa_EnrollmentTokenHash a = [] \<or>
       (\<exists>d. hex_decode (pa_EnrollmentTokenHash a) = Some d \<and> length d = 32)) \<and>
     (identity_configured a \<longrightarrow> pa_IdentityPublicKey a \<noteq> [] \<and> pa_ObservationPublicKey a \<noteq> [] \<and>
       pa_EnrolledAt a \<noteq> 0 \<and> pa_EnrollmentUsedAt a \<noteq> 0 \<and> pa_EnrollmentTokenHash a = []) \<and>
     (pa_EnrollmentTokenHash a \<noteq> [] \<longrightarrow> pa_EnrollmentExpiresAt a \<noteq> 0 \<and> pa_EnrollmentUsedAt a = 0)"
  unfolding validateRecord_def
  by (auto simp: validateCreateRequest_def record_request_def split: option.splits)

lemma wf_recordI:
  assumes "pa_AgentID a = i" and "validateRecord pf a" and "normal_capabilities (pa_Capabilities a)"
    and "pa_Enabled a \<longleftrightarrow> pa_RevokedAt a = 0" and "pa_Enabled a \<Longrightarrow> pa_EnrolledAt a \<noteq> 0 \<or> awaiting a"
  shows "wf_record pf i a"
  using assms by (simp add: wf_record_def)

lemma wf_recordD:
  assumes "wf_record pf i a"
  shows "pa_AgentID a = i" and "validateRecord pf a" and "normal_capabilities (pa_Capabilities a)"
    and "pa_Enabled a \<longleftrightarrow> pa_RevokedAt a = 0" and "pa_Enabled a \<Longrightarrow> pa_EnrolledAt a = 0 \<Longrightarrow> awaiting a"
    and "TrimSpace i = i" and "i \<noteq> []"
  using assms validIdentifier_trim [of i 96]
  by (auto simp: wf_record_def validateRecord_iff validIdentifier_def)

subsection \<open>Loading gives back what was stored\<close>

lemma loaded_fixed: "wf_record pf i a \<Longrightarrow> loaded_record i a = a"
  using wf_recordD [of pf i a] by (simp add: loaded_record_def Let_def normal_fixed)

lemma decode_fixed:
  "distinct (map fst ags) \<Longrightarrow> (\<And>i a. (i, a) \<in> set ags \<Longrightarrow> wf_record pf i a) \<Longrightarrow> decode_agents pf ags = Inr ags"
proof (induction ags)
  case (Cons p ags)
  obtain i a where p: "p = (i, a)" by (cases p)
  then have a: "wf_record pf i a" using Cons.prems(2) by simp
  have "decode_agents pf ags = Inr ags" using Cons by simp
  then show ?case by (simp add: p loaded_fixed [OF a] wf_recordD(1,2) [OF a])
qed simp

lemma Load_wf:
  assumes "wf_file pf (rg_file r)"
  shows "registry_Load pf True r =
    Inr (case rg_file r of Holds f \<Rightarrow> r\<lparr>rg_state := f\<rparr> | _ \<Rightarrow> r)"
proof (cases "rg_file r")
  case (Holds f)
  then have f: "rf_Version f = RegistryVersion" "wf_agents pf (rf_Agents f)" using assms by (simp_all add: wf_file_def)
  then have "decode_agents pf (rf_Agents f) = Inr (rf_Agents f)"
    using decode_fixed [of "rf_Agents f" pf] by (auto simp: wf_agents_def)
  then show ?thesis using Holds f by (simp add: registry_Load_def DecodeRegistry_def RegistryVersion_def)
qed (use assms in \<open>simp_all add: registry_Load_def wf_file_def\<close>)

subsection \<open>Events\<close>

text \<open>
  The events with all they take from outside: the instants, the random bytes, whether the file could
  be written or read, and the request. A restart may change the configuration.
\<close>

datatype registry_event =
    CreateAgent time time "8 word list option" "8 word list option" bool CreateAgentRequest
  | ReissueAgent time time "8 word list option" bool string
  | RevokeAgent time time bool string
  | DeleteAgent time bool string
  | EnrollAgent time bool EnrollRequest "address option"
  | Heartbeat time bool HeartbeatRequest authentication
  | Control time bool string authentication
  | Restart RegistryConfig bool

text \<open>Starting: \<open>main\<close> constructs the registry and loads it; only a disabled one may go on without its file.\<close>

definition boot :: "platform \<Rightarrow> RegistryConfig \<Rightarrow> bool \<Rightarrow> disk_file \<Rightarrow> registry option" where
  "boot pf cfg readable file =
     (case NewRegistry pf cfg file of Inl e \<Rightarrow> None
      | Inr r \<Rightarrow> (case registry_Load pf readable r of Inr r1 \<Rightarrow> Some r1
         | Inl e \<Rightarrow> if gc_Enabled cfg then None else Some r))"

definition accepted_if :: "registry \<times> (registry_error + 'a) \<Rightarrow> registry \<times> bool" where
  "accepted_if x = (fst x, (case snd x of Inl e \<Rightarrow> False | Inr y \<Rightarrow> True))"

definition accepted_none :: "registry \<times> registry_error option \<Rightarrow> registry \<times> bool" where
  "accepted_none x = (fst x, snd x = None)"

text \<open>A server that does not start is started again: its file is as it was.\<close>

fun perform :: "platform \<Rightarrow> registry_event \<Rightarrow> registry \<Rightarrow> registry \<times> bool" where
  "perform pf (CreateAgent now later ids token written q) r =
     accepted_if (registry_Create pf now later ids token written q r)"
| "perform pf (ReissueAgent now later token written i) r = accepted_if (Reissue pf now later token written i r)"
| "perform pf (RevokeAgent now later written i) r = accepted_if (Revoke now later written i r)"
| "perform pf (DeleteAgent now written i) r = accepted_none (registry_Delete now written i r)"
| "perform pf (EnrollAgent now written q source) r = accepted_if (Enroll pf now written q source r)"
| "perform pf (Heartbeat now written q t) r = accepted_if (AcceptHeartbeat pf now written q t r)"
| "perform pf (Control now written i t) r = accepted_none (AcceptControlRequest pf now written i t r)"
| "perform pf (Restart cfg readable) r =
     (case boot pf cfg readable (rg_file r) of None \<Rightarrow> (r, False) | Some r1 \<Rightarrow> (r1, True))"

text \<open>The clock runs after the zero time and a random source that answers fills the buffer.\<close>

fun plausible :: "registry_event \<Rightarrow> bool" where
  "plausible (CreateAgent now later ids token written q) \<longleftrightarrow>
     0 < now \<and> (case ids of None \<Rightarrow> True | Some bs \<Rightarrow> length bs = 16)"
| "plausible (ReissueAgent now later token written i) \<longleftrightarrow> 0 < now"
| "plausible (RevokeAgent now later written i) \<longleftrightarrow> 0 < now"
| "plausible (DeleteAgent now written i) \<longleftrightarrow> 0 < now"
| "plausible (EnrollAgent now written q source) \<longleftrightarrow> 0 < now"
| "plausible (Heartbeat now written q t) \<longleftrightarrow> 0 < now"
| "plausible (Control now written i t) \<longleftrightarrow> 0 < now"
| "plausible (Restart cfg readable) \<longleftrightarrow> True"

subsection \<open>The life of an agent\<close>

datatype lifecycle = Absent | Awaiting string | Active string string nat | Revoked

definition life_of :: "AgentRecord option \<Rightarrow> lifecycle" where
  "life_of x = (case x of None \<Rightarrow> Absent
     | Some a \<Rightarrow> if \<not> pa_Enabled a then Revoked
         else if pa_EnrolledAt a = 0 then Awaiting (pa_EnrollmentTokenHash a)
         else Active (pa_IdentityPublicKey a) (pa_ObservationPublicKey a) (pa_LastSequence a))"

definition lives :: "registry \<Rightarrow> string \<Rightarrow> lifecycle" where
  "lives r = life_of \<circ> stored r"

text \<open>The agent a signed request names, and what authenticates it.\<close>

fun signed_request :: "registry_event \<Rightarrow> (string \<times> authentication) option" where
  "signed_request (Heartbeat now written q t) = Some (TrimSpace (hb_AgentID q), t)"
| "signed_request (Control now written i t) = Some (TrimSpace i, t)"
| "signed_request e = None"

text \<open>The steps of the abstract life: refused events change nothing.\<close>

inductive life_step :: "platform \<Rightarrow> registry_event \<Rightarrow> bool \<Rightarrow> (string \<Rightarrow> lifecycle) \<Rightarrow> (string \<Rightarrow> lifecycle) \<Rightarrow> bool"
  for pf :: platform where
  refused: "life_step pf e False s s"
| restarted: "life_step pf (Restart cfg readable) True s s"
| created: "s i = Absent \<Longrightarrow> randomToken ''agent'' ids = Inr i \<Longrightarrow> randomToken ''enroll'' bytes = Inr token \<Longrightarrow>
    life_step pf (CreateAgent now later ids bytes written q) True s (s(i := Awaiting (tokenHash pf token)))"
| reissued: "s (TrimSpace i) \<noteq> Absent \<Longrightarrow> randomToken ''enroll'' bytes = Inr token \<Longrightarrow>
    life_step pf (ReissueAgent now later bytes written i) True s (s(TrimSpace i := Awaiting (tokenHash pf token)))"
| revoked: "s (TrimSpace i) \<noteq> Absent \<Longrightarrow>
    life_step pf (RevokeAgent now later written i) True s (s(TrimSpace i := Revoked))"
| deleted: "s (TrimSpace i) = Revoked \<Longrightarrow>
    life_step pf (DeleteAgent now written i) True s (s(TrimSpace i := Absent))"
| enrolled: "s i = Awaiting h \<Longrightarrow> i = TrimSpace (er_AgentID q) \<Longrightarrow> tokenMatches pf h (er_EnrollmentToken q) \<Longrightarrow>
    length (er_IdentityPublicKey q) = 32 \<Longrightarrow> length (er_ObservationPublicKey q) = 32 \<Longrightarrow>
    life_step pf (EnrollAgent now written q source) True s
      (s(i := Active (EncodeToString std_alphabet (er_IdentityPublicKey q))
                     (EncodeToString std_alphabet (er_ObservationPublicKey q)) 0))"
| requested: "signed_request e = Some (i, t) \<Longrightarrow> s i = Active k ok n \<Longrightarrow> n < au_sequence t \<Longrightarrow>
    signed_by pf k (au_payload t) (au_signature t) \<Longrightarrow>
    life_step pf e True s (s(i := Active k ok (au_sequence t)))"

inductive_cases life_stepE: "life_step pf e accepted s s'"

subsection \<open>Writing the table\<close>

lemma registry_okD:
  assumes "registry_ok pf r"
  shows "wf_file pf (rg_file r)" and "rf_Version (rg_state r) = RegistryVersion"
    and "distinct (map fst (rf_Agents (rg_state r)))" and "minute \<le> gc_EnrollmentTTL (rg_config r)"
    and "registry_Enabled r \<Longrightarrow> in_step r"
  using assms by (auto simp: registry_ok_def)

text \<open>An agent the registry knows is on disk as the registry knows it, and well-formed.\<close>

lemma in_step_stored:
  assumes "in_step r"
  shows "stored r = map_of (rf_Agents (rg_state r))"
  using assms by (auto simp: in_step_def stored_def split: disk_file.splits)

lemma known_agent:
  assumes "registry_ok pf r" and "agent_of r i = Some a"
  shows "in_step r" and "stored r i = Some a" and "wf_record pf i a"
proof -
  have "rf_Agents (rg_state r) \<noteq> []" using assms(2) by (auto simp: agent_of_def)
  then show i: "in_step r" using assms(1) by (auto simp: registry_ok_def)
  then show "stored r i = Some a" using assms(2) by (simp add: in_step_stored agent_of_def)
  moreover obtain f where "rg_file r = Holds f"
    using calculation by (auto simp: stored_def split: disk_file.splits)
  ultimately show "wf_record pf i a"
    using registry_okD(1) [OF assms(1)] by (simp add: wf_file_def wf_agents_def stored_def)
qed

lemma in_step_wf_agents:
  assumes "registry_ok pf r" and "in_step r"
  shows "wf_agents pf (rf_Agents (rg_state r))"
  using assms by (auto simp: registry_ok_def in_step_def wf_file_def wf_agents_def split: disk_file.splits)

text \<open>The table is replaced and the file written, or the old table stands again.\<close>

lemma table_written:
  assumes "registry_ok pf r" and "wf_agents pf (f (rf_Agents (rg_state r)))"
    and "persistLocked True (set_agents f now r) = (r1, b)"
  shows "b" and "registry_ok pf r1" and "stored r1 = map_of (f (rf_Agents (rg_state r)))"
    and "rg_config r1 = rg_config r"
  using assms
  by (auto simp: persistLocked_def set_agents_def registry_ok_def wf_file_def in_step_def stored_def
      wf_agents_def registry_Enabled_def)

lemma table_restored:
  assumes "registry_ok pf r" and "in_step r" and "persistLocked False (set_agents f now r) = (r1, b)"
    and "map_of (g (f (rf_Agents (rg_state r)))) = map_of (rf_Agents (rg_state r))"
    and "distinct (map fst (g (f (rf_Agents (rg_state r)))))"
  shows "\<not> b" and "registry_ok pf (set_agents g (rf_UpdatedAt (rg_state r)) r1)"
    and "stored (set_agents g (rf_UpdatedAt (rg_state r)) r1) = stored r"
  using assms
  by (auto simp: persistLocked_def set_agents_def registry_ok_def in_step_def stored_def
      registry_Enabled_def split: disk_file.splits)

lemma wf_agents_update:
  assumes "wf_agents pf ags" and "wf_record pf i a"
  shows "wf_agents pf (AList.update i a ags)"
  using assms by (auto simp: wf_agents_def update_conv' distinct_update)

lemma wf_agents_delete:
  assumes "wf_agents pf ags"
  shows "wf_agents pf (AList.delete i ags)"
  using assms by (auto simp: wf_agents_def delete_conv' distinct_delete)

lemma lives_update:
  assumes "stored r1 = (stored r)(i := x)"
  shows "lives r1 = (lives r)(i := life_of x)"
  using assms by (auto simp: lives_def)

text \<open>Replacing one record, as five of the operations do.\<close>

lemma replaced:
  assumes ok: "registry_ok pf r" and known: "agent_of r i = Some old" and wf: "wf_record pf i a"
    and r1: "replace_record written now old a r = (r1, b)"
  shows "registry_ok pf r1 \<and> lives r1 = (if b then (lives r)(i := life_of (Some a)) else lives r)"
proof -
  have i: "pa_AgentID a = i" using wf by (simp add: wf_record_def)
  have s: "in_step r" "stored r = map_of (rf_Agents (rg_state r))" "map_of (rf_Agents (rg_state r)) i = Some old"
    using known_agent(1) [OF ok known] known by (simp_all add: in_step_stored agent_of_def)
  obtain r2 c where p: "persistLocked written (set_agents (AList.update i a) now r) = (r2, c)"
    by (metis surj_pair)
  show ?thesis
  proof (cases written)
    case True
    have w: "wf_agents pf (AList.update i a (rf_Agents (rg_state r)))"
      by (rule wf_agents_update [OF in_step_wf_agents [OF ok s(1)] wf])
    have pw: "persistLocked True (set_agents (AList.update i a) now r) = (r2, c)" using p True by simp
    note t = table_written [OF ok w pw]
    have "r1 = r2" "b" using r1 t(1) by (simp_all add: replace_record_def i p)
    moreover have "stored r2 = (stored r)(i \<mapsto> a)" using t(3) s(2) by (simp add: update_conv')
    ultimately show ?thesis using t(2) lives_update by simp
  next
    case False
    have pw: "persistLocked False (set_agents (AList.update i a) now r) = (r2, c)" using p False by simp
    then have "\<not> c" by (simp add: persistLocked_def)
    then have "r1 = set_agents (AList.update i old) (rf_UpdatedAt (rg_state r)) r2" "\<not> b"
      using r1 by (simp_all add: replace_record_def i p)
    moreover have "map_of (AList.update i old (AList.update i a (rf_Agents (rg_state r)))) =
        map_of (rf_Agents (rg_state r))"
      using s(3) by (auto simp: update_conv')
    moreover have "distinct (map fst (AList.update i old (AList.update i a (rf_Agents (rg_state r)))))"
      using registry_okD(3) [OF ok] by (simp add: distinct_update)
    ultimately show ?thesis
      using table_restored [OF ok s(1) pw] by (simp add: lives_def)
  qed
qed

end
