(* ===== verification/AgentSimulation.thy ===== *)
theory AgentSimulation
  imports AgentLifecycle
begin

text \<open>
  Every operation of the registry keeps its invariant and is a step of the abstract life of the
  agents: the simulation the guarantees about enrolment and authentication rest on.
\<close>

subsection \<open>The records the operations write\<close>

lemmas record_defs = wf_record_def validateRecord_iff record_request_def identity_configured_def awaiting_def

lemma wf_revoked_record:
  assumes "wf_record pf i a" and "0 < now"
  shows "wf_record pf i (a\<lparr>pa_Enabled := False, pa_RevokedAt := now, pa_EnrollmentTokenHash := [],
    pa_UpdatedAt := now\<rparr>)"
  using assms by (auto simp: record_defs)

lemma tokenHash_props:
  assumes "sane_platform pf"
  shows "tokenHash pf token \<noteq> []" and "hex_decode (tokenHash pf token) = Some (pf_Sum256 pf token)"
    and "length (pf_Sum256 pf token) = 32"
proof -
  have n: "length (pf_Sum256 pf token) = 32" using assms by (simp add: sane_platform_def)
  then have "pf_Sum256 pf token \<noteq> []" by auto
  then show "tokenHash pf token \<noteq> []" by (simp add: tokenHash_def)
  show "length (pf_Sum256 pf token) = 32" by (rule n)
qed (simp add: tokenHash_def)

lemma normal_Nil: "normal_capabilities []"
  by (simp add: normal_capabilities_def)

lemma wf_reissued_record:
  assumes "wf_record pf i a" and "0 < now" and "sane_platform pf" and "minute \<le> ttl"
  shows "wf_record pf i (reissued_record pf ttl token now a)"
  using assms tokenHash_props [OF assms(3)] duration_defs
  by (auto simp: record_defs reissued_record_def normal_Nil)

lemma valid_key_encoded: "length k = 32 \<Longrightarrow> valid_key (EncodeToString std_alphabet k)"
  by (simp add: valid_key_def std_round_trip)

lemma encoded_nonempty: "length k = 32 \<Longrightarrow> EncodeToString std_alphabet k \<noteq> []"
  by (rule EncodeToString_nonempty) auto

lemma wf_enrolled_record:
  assumes "wf_record pf i a" and "0 < now" and "length (er_IdentityPublicKey q) = 32"
    and "length (er_ObservationPublicKey q) = 32" and "validShortText (er_AgentVersion q) 128"
    and "normal_capabilities (er_Capabilities q)"
  shows "wf_record pf i (enrolled_record q now a)"
  using assms
  by (auto simp: record_defs enrolled_record_def valid_key_encoded encoded_nonempty validHealth_def)

lemma wf_heartbeat_record:
  assumes "wf_record pf i a" and "0 < now" and "pa_EnrolledAt a \<noteq> 0" and "validShortText version 128"
    and "validHealth health" and "normal_capabilities capabilities"
  shows "wf_record pf i (a\<lparr>pa_LastSeenAt := now, pa_LastSequence := n, pa_AgentVersion := version,
    pa_Capabilities := capabilities, pa_Health := health, pa_UpdatedAt := now\<rparr>)"
  using assms by (auto simp: record_defs)

lemma wf_control_record:
  assumes "wf_record pf i a" and "0 < now" and "pa_EnrolledAt a \<noteq> 0"
  shows "wf_record pf i (a\<lparr>pa_LastSeenAt := now, pa_LastSequence := n, pa_UpdatedAt := now\<rparr>)"
  using assms by (auto simp: record_defs)

lemma url_alphabet_identifiers: "list_all identifier_char url_alphabet"
  by (simp add: url_alphabet_def identifier_char_def)

lemma agent_identifier:
  assumes "length bs = 16" and "randomToken ''agent'' (Some bs) = Inr i"
  shows "validIdentifier i 96"
proof -
  have i: "i = ''agent_'' @ EncodeToString url_alphabet bs" using assms(2) by (simp add: randomToken_def)
  have "set (EncodeToString url_alphabet bs) \<subseteq> set url_alphabet"
    by (rule EncodeToString_chars) (simp add: url_alphabet_def)
  then have "list_all identifier_char (EncodeToString url_alphabet bs)"
    using url_alphabet_identifiers by (auto simp: list_all_iff)
  moreover have "length (EncodeToString url_alphabet bs) \<le> 32"
    using length_EncodeToString [of url_alphabet bs] assms(1) by simp
  ultimately show ?thesis by (simp add: i validIdentifier_def identifier_char_def)
qed

lemma wf_created_record:
  assumes "validIdentifier i 96" and "validateCreateRequest pf q" and "0 < now" and "sane_platform pf"
    and "minute \<le> ttl"
  shows "wf_record pf i (created_record pf ttl q i token now)"
proof -
  have "record_request (created_record pf ttl q i token now) = q"
    by (simp add: record_request_def created_record_def)
  then show ?thesis
    using assms tokenHash_props [OF assms(4)] duration_defs
    by (simp add: wf_record_def validateRecord_iff identity_configured_def awaiting_def created_record_def normal_Nil)
qed

subsection \<open>One operation at a time\<close>

lemma lives_known:
  assumes "registry_ok pf r" and "agent_of r i = Some a"
  shows "lives r i = life_of (Some a)"
  using known_agent(2) [OF assms] by (simp add: lives_def)

definition simulated :: "platform \<Rightarrow> registry_event \<Rightarrow> registry \<Rightarrow> bool" where
  "simulated pf e r \<longleftrightarrow> registry_ok pf (fst (perform pf e r)) \<and>
     life_step pf e (snd (perform pf e r)) (lives r) (lives (fst (perform pf e r)))"

lemma simulatedI:
  assumes "perform pf e r = (r1, b)" and "registry_ok pf r1" and "life_step pf e b (lives r) (lives r1)"
  shows "simulated pf e r"
  using assms by (simp add: simulated_def)

lemma simulated_refused:
  assumes "registry_ok pf r" and "perform pf e r = (r, False)"
  shows "simulated pf e r"
  using assms by (auto intro: simulatedI life_step.refused)

text \<open>An operation that replaces the record of a known agent.\<close>

lemma simulated_replaced:
  assumes "registry_ok pf r" and "agent_of r i = Some old" and "wf_record pf i a"
    and "perform pf e r = replace_record written now old a r"
    and "life_step pf e True (lives r) ((lives r)(i := life_of (Some a)))"
  shows "simulated pf e r"
proof -
  obtain r1 b where r1: "replace_record written now old a r = (r1, b)" by fastforce
  from replaced [OF assms(1-3) r1] show ?thesis
    using assms(4,5) r1 by (cases b) (auto intro!: simulatedI life_step.refused)
qed

lemma accepted_if_replaced:
  "accepted_if (case x of (r1, True) \<Rightarrow> (r1, Inr (f r1)) | (r1, False) \<Rightarrow> (r1, Inl e)) = x"
  by (cases x) (auto simp: accepted_if_def split: bool.split)

lemma accepted_none_replaced:
  "accepted_none (case x of (r1, True) \<Rightarrow> (r1, None) | (r1, False) \<Rightarrow> (r1, Some e)) = x"
  by (cases x) (auto simp: accepted_none_def split: bool.split)

lemma refused_simps:
  "accepted_if (r, Inl e) = (r, False)" "accepted_none (r, Some e) = (r, False)"
  by (simp_all add: accepted_if_def accepted_none_def)

lemma Revoke_simulated:
  assumes "registry_ok pf r" and "0 < now"
  shows "simulated pf (RevokeAgent now later written i) r"
proof (cases "agent_of r (TrimSpace i)")
  case None
  then show ?thesis
    by (intro simulated_refused [OF assms(1)]) (simp add: Revoke_def refused_simps)
next
  case (Some a)
  let ?a = "a\<lparr>pa_Enabled := False, pa_RevokedAt := now, pa_EnrollmentTokenHash := [], pa_UpdatedAt := now\<rparr>"
  have "life_step pf (RevokeAgent now later written i) True (lives r) ((lives r)(TrimSpace i := life_of (Some ?a)))"
    using life_step.revoked [of "lives r" i] by (simp add: life_of_def lives_known [OF assms(1) Some])
  then show ?thesis
    by (rule simulated_replaced [OF assms(1) Some wf_revoked_record [OF known_agent(3) [OF assms(1) Some] assms(2)], rotated])
      (simp add: Revoke_def Some accepted_if_replaced Let_def)
qed

lemma Reissue_simulated:
  assumes "registry_ok pf r" and "0 < now" and "sane_platform pf"
  shows "simulated pf (ReissueAgent now later bytes written i) r"
proof (cases "registry_Enabled r")
  case False
  then show ?thesis by (intro simulated_refused [OF assms(1)]) (simp add: Reissue_def refused_simps)
next
  case enabled: True
  show ?thesis
  proof (cases "randomToken ''enroll'' bytes")
    case (Inl e)
    then show ?thesis
      by (intro simulated_refused [OF assms(1)]) (simp add: Reissue_def refused_simps enabled)
  next
    case token: (Inr token)
    show ?thesis
    proof (cases "agent_of r (TrimSpace i)")
      case None
      then show ?thesis
        by (intro simulated_refused [OF assms(1)]) (simp add: Reissue_def refused_simps enabled token)
    next
      case (Some a)
      let ?a = "reissued_record pf (gc_EnrollmentTTL (rg_config r)) token now a"
      have "life_step pf (ReissueAgent now later bytes written i) True (lives r)
          ((lives r)(TrimSpace i := life_of (Some ?a)))"
        using life_step.reissued [of "lives r" i bytes token] token
        by (simp add: life_of_def reissued_record_def lives_known [OF assms(1) Some])
      then show ?thesis
        by (rule simulated_replaced [OF assms(1) Some wf_reissued_record
              [OF known_agent(3) [OF assms(1) Some] assms(2,3) registry_okD(4) [OF assms(1)]], rotated])
          (simp add: Reissue_def Some accepted_if_replaced Let_def enabled token)
    qed
  qed
qed

lemma Create_simulated:
  assumes ok: "registry_ok pf r" and "plausible (CreateAgent now later ids bytes written q0)"
    and sane: "sane_platform pf"
  shows "simulated pf (CreateAgent now later ids bytes written q0) r"
proof -
  let ?q = "applyControllerDefaults (rg_config r) (normalizeCreateRequest pf q0)"
  consider (refused) e where "registry_Create pf now later ids bytes written q0 r = (r, Inl e)"
    | (made) i token where "registry_Enabled r" "validateCreateRequest pf ?q"
        "randomToken ''agent'' ids = Inr i" "randomToken ''enroll'' bytes = Inr token" "agent_of r i = None"
  proof (cases "registry_Enabled r \<and> validateCreateRequest pf ?q \<and>
      (\<exists>i. randomToken ''agent'' ids = Inr i \<and> agent_of r i = None) \<and> (\<exists>t. randomToken ''enroll'' bytes = Inr t)")
    case True
    then show ?thesis using made by blast
  next
    case False
    then have "\<exists>e. registry_Create pf now later ids bytes written q0 r = (r, Inl e)"
      by (auto simp: registry_Create_def Let_def split: sum.split)
    then show ?thesis using refused by blast
  qed
  then show ?thesis
  proof cases
    case refused
    then show ?thesis by (intro simulated_refused [OF ok]) (simp add: refused_simps)
  next
    case made
    let ?a = "created_record pf (gc_EnrollmentTTL (rg_config r)) ?q i token now"
    obtain bs where bs: "ids = Some bs" using made(3) by (cases ids) (simp_all add: randomToken_def)
    have i: "validIdentifier i 96" and now: "0 < now"
      using assms(2) made(3) by (auto simp: bs intro: agent_identifier)
    have wf: "wf_record pf i ?a"
      by (rule wf_created_record [OF i made(2) now sane registry_okD(4) [OF ok]])
    have step: "in_step r" by (rule registry_okD(5) [OF ok made(1)])
    have absent: "lives r i = Absent"
      using made(5) by (simp add: lives_def in_step_stored [OF step] agent_of_def life_of_def)
    have life: "life_of (Some ?a) = Awaiting (tokenHash pf token)"
      by (simp add: life_of_def created_record_def)
    obtain r1 b where p: "persistLocked written (set_agents (AList.update i ?a) now r) = (r1, b)" by fastforce
    have e: "registry_Create pf now later ids bytes written q0 r =
        (if b then (r1, Inr (creationResult r1 later ?a token))
         else (set_agents (AList.delete i) (rf_UpdatedAt (rg_state r)) r1, Inl ErrPersist))"
      by (simp add: registry_Create_def Let_def made p split: bool.split)
    show ?thesis
    proof (cases written)
      case True
      have w: "wf_agents pf (AList.update i ?a (rf_Agents (rg_state r)))"
        by (rule wf_agents_update [OF in_step_wf_agents [OF ok step] wf])
      have pw: "persistLocked True (set_agents (AList.update i ?a) now r) = (r1, b)" using p True by simp
      note t = table_written [OF ok w pw]
      have "lives r1 = (lives r)(i := life_of (Some ?a))"
        by (rule lives_update) (simp add: t(3) in_step_stored [OF step] update_conv')
      then show ?thesis
        using e t(1,2) life life_step.created [where s = "lives r", OF absent made(3,4)]
        by (auto simp: accepted_if_def intro!: simulatedI)
    next
      case False
      have pw: "persistLocked False (set_agents (AList.update i ?a) now r) = (r1, b)" using p False by simp
      have "map_of (AList.delete i (AList.update i ?a (rf_Agents (rg_state r)))) = map_of (rf_Agents (rg_state r))"
        using made(5) by (auto simp: delete_conv' update_conv' agent_of_def)
      moreover have "distinct (map fst (AList.delete i (AList.update i ?a (rf_Agents (rg_state r)))))"
        using registry_okD(3) [OF ok] by (simp add: distinct_delete distinct_update)
      ultimately show ?thesis
        using table_restored [OF ok step pw, where g = "AList.delete i"] e
        by (auto simp: accepted_if_def lives_def intro!: simulatedI life_step.refused)
    qed
  qed
qed

lemma Delete_simulated:
  assumes ok: "registry_ok pf r"
  shows "simulated pf (DeleteAgent now written j) r"
proof -
  let ?i = "TrimSpace j"
  consider (refused) e where "registry_Delete now written j r = (r, Some e)"
    | (removed) a where "agent_of r ?i = Some a" "\<not> pa_Enabled a" "pa_RevokedAt a \<noteq> 0" "registry_Enabled r"
  proof (cases "registry_Enabled r \<and> (\<exists>a. agent_of r ?i = Some a \<and> \<not> pa_Enabled a \<and> pa_RevokedAt a \<noteq> 0)")
    case True
    then show ?thesis using removed by blast
  next
    case False
    then have "\<exists>e. registry_Delete now written j r = (r, Some e)"
      by (auto simp: registry_Delete_def Let_def split: option.split)
    then show ?thesis using refused by blast
  qed
  then show ?thesis
  proof cases
    case refused
    then show ?thesis by (intro simulated_refused [OF ok]) (simp add: refused_simps)
  next
    case removed
    have step: "in_step r" and live: "lives r ?i = Revoked"
      using known_agent(1) [OF ok removed(1)] lives_known [OF ok removed(1)] removed(2)
      by (simp_all add: life_of_def)
    obtain r1 b where p: "persistLocked written (set_agents (AList.delete ?i) now r) = (r1, b)" by fastforce
    have e: "registry_Delete now written j r = (if b then (r1, None)
         else (set_agents (AList.update ?i a) (rf_UpdatedAt (rg_state r)) r1, Some ErrPersist))"
      by (simp add: registry_Delete_def Let_def removed p split: bool.split)
    show ?thesis
    proof (cases written)
      case True
      have w: "wf_agents pf (AList.delete ?i (rf_Agents (rg_state r)))"
        by (rule wf_agents_delete [OF in_step_wf_agents [OF ok step]])
      have pw: "persistLocked True (set_agents (AList.delete ?i) now r) = (r1, b)" using p True by simp
      note t = table_written [OF ok w pw]
      have "lives r1 = (lives r)(?i := life_of None)"
        by (rule lives_update) (simp add: t(3) in_step_stored [OF step] delete_conv')
      then show ?thesis
        using e t(1,2) life_step.deleted [where s = "lives r" and i = j] live
        by (auto simp: accepted_none_def life_of_def intro!: simulatedI)
    next
      case False
      have pw: "persistLocked False (set_agents (AList.delete ?i) now r) = (r1, b)" using p False by simp
      have "map_of (AList.update ?i a (AList.delete ?i (rf_Agents (rg_state r)))) = map_of (rf_Agents (rg_state r))"
        using removed(1) by (auto simp: delete_conv' update_conv' agent_of_def)
      moreover have "distinct (map fst (AList.update ?i a (AList.delete ?i (rf_Agents (rg_state r)))))"
        using registry_okD(3) [OF ok] by (simp add: distinct_delete distinct_update)
      ultimately show ?thesis
        using table_restored [OF ok step pw, where g = "AList.update ?i a"] e
        by (auto simp: accepted_none_def lives_def intro!: simulatedI life_step.refused)
    qed
  qed
qed

lemma Enroll_simulated:
  assumes ok: "registry_ok pf r" and now: "0 < now"
  shows "simulated pf (EnrollAgent now written q0 source) r"
proof -
  let ?q = "q0\<lparr>er_Capabilities := normalizeCapabilities (er_Capabilities q0)\<rparr>"
  let ?i = "TrimSpace (er_AgentID q0)"
  consider (refused) e where "Enroll pf now written q0 source r = (r, Inl e)"
    | (admitted) a where "agent_of r ?i = Some a" "pa_Enabled a" "pa_EnrollmentTokenHash a \<noteq> []"
        "tokenMatches pf (pa_EnrollmentTokenHash a) (er_EnrollmentToken q0)"
        "length (er_IdentityPublicKey q0) = 32" "length (er_ObservationPublicKey q0) = 32"
        "validShortText (er_AgentVersion q0) 128"
        "accepted_if (Enroll pf now written q0 source r) = replace_record written now a (enrolled_record ?q now a) r"
  proof (cases "\<exists>e. Enroll pf now written q0 source r = (r, Inl e)")
    case False
    then show ?thesis
      by (auto simp: Enroll_def Let_def accepted_if_replaced split: if_splits option.splits intro: admitted)
  qed (use refused in blast)
  then show ?thesis
  proof cases
    case refused
    then show ?thesis by (intro simulated_refused [OF ok]) (simp add: refused_simps)
  next
    case admitted
    have wf: "wf_record pf ?i a" by (rule known_agent(3) [OF ok admitted(1)])
    then have a: "pa_EnrolledAt a = 0" "pa_LastSequence a = 0"
      using admitted(2,3) by (auto simp: record_defs)
    have live: "lives r ?i = Awaiting (pa_EnrollmentTokenHash a)"
      using lives_known [OF ok admitted(1)] admitted(2) a by (simp add: life_of_def)
    have new: "life_of (Some (enrolled_record ?q now a)) =
        Active (EncodeToString std_alphabet (er_IdentityPublicKey q0))
          (EncodeToString std_alphabet (er_ObservationPublicKey q0)) 0"
      using admitted(2) a now by (simp add: life_of_def enrolled_record_def)
    have "life_step pf (EnrollAgent now written q0 source) True (lives r)
        ((lives r)(?i := life_of (Some (enrolled_record ?q now a))))"
      unfolding new by (rule life_step.enrolled [where s = "lives r", OF live refl admitted(4-6)])
    moreover have "wf_record pf ?i (enrolled_record ?q now a)"
      using admitted(5-7) by (intro wf_enrolled_record [OF wf now]) (simp_all add: normalizeCapabilities_normal)
    ultimately show ?thesis
      using admitted(8) by (intro simulated_replaced [OF ok admitted(1)]) simp_all
  qed
qed

text \<open>A signed request that passes is an update of the sequence number of an active agent.\<close>

definition authenticated :: "platform \<Rightarrow> AgentRecord \<Rightarrow> authentication \<Rightarrow> bool" where
  "authenticated pf a t \<longleftrightarrow> pa_Enabled a \<and> pa_EnrolledAt a \<noteq> 0 \<and> pa_LastSequence a < au_sequence t \<and>
     signed_by pf (pa_IdentityPublicKey a) (au_payload t) (au_signature t) \<and>
     sourceMatches pf (pa_ExpectedSourceIP a) (au_sourceIP t)"

lemma request_simulated:
  assumes ok: "registry_ok pf r" and e: "signed_request e = Some (i, t)" and known: "agent_of r i = Some a"
    and auth: "authenticated pf a t" and wf: "wf_record pf i b"
    and b: "pa_Enabled b" "pa_EnrolledAt b = pa_EnrolledAt a" "pa_IdentityPublicKey b = pa_IdentityPublicKey a"
      "pa_ObservationPublicKey b = pa_ObservationPublicKey a" "pa_LastSequence b = au_sequence t"
    and "perform pf e r = replace_record written now a b r"
  shows "simulated pf e r"
proof -
  have "lives r i = Active (pa_IdentityPublicKey a) (pa_ObservationPublicKey a) (pa_LastSequence a)"
    using lives_known [OF ok known] auth by (simp add: life_of_def authenticated_def)
  moreover have "life_of (Some b) = Active (pa_IdentityPublicKey a) (pa_ObservationPublicKey a) (au_sequence t)"
    using b auth by (simp add: life_of_def authenticated_def)
  ultimately have "life_step pf e True (lives r) ((lives r)(i := life_of (Some b)))"
    using auth by (auto simp: authenticated_def intro: life_step.requested [OF e])
  then show ?thesis using assms by (intro simulated_replaced [OF ok known wf])
qed

lemma Heartbeat_simulated:
  assumes ok: "registry_ok pf r" and now: "0 < now"
  shows "simulated pf (Heartbeat now written q0 t) r"
proof -
  let ?i = "TrimSpace (hb_AgentID q0)"
  let ?b = "\<lambda>a. a\<lparr>pa_LastSeenAt := now, pa_LastSequence := au_sequence t, pa_AgentVersion := hb_AgentVersion q0,
      pa_Capabilities := normalizeCapabilities (hb_Capabilities q0), pa_Health := hb_Health q0, pa_UpdatedAt := now\<rparr>"
  consider (refused) e where "AcceptHeartbeat pf now written q0 t r = (r, Inl e)"
    | (admitted) a where "agent_of r ?i = Some a" "authenticated pf a t"
        "validShortText (hb_AgentVersion q0) 128" "validHealth (hb_Health q0)"
        "accepted_if (AcceptHeartbeat pf now written q0 t r) = replace_record written now a (?b a) r"
  proof (cases "\<exists>e. AcceptHeartbeat pf now written q0 t r = (r, Inl e)")
    case False
    then show ?thesis
      by (auto simp: AcceptHeartbeat_def Let_def accepted_if_replaced authenticated_def
          split: if_splits option.splits intro: admitted)
  qed (use refused in blast)
  then show ?thesis
  proof cases
    case refused
    then show ?thesis by (intro simulated_refused [OF ok]) (simp add: refused_simps)
  next
    case admitted
    have "wf_record pf ?i (?b a)"
      using admitted(2-4)
      by (intro wf_heartbeat_record [OF known_agent(3) [OF ok admitted(1)] now])
        (simp_all add: authenticated_def normalizeCapabilities_normal)
    then show ?thesis
      using admitted(2,5) by (intro request_simulated [OF ok _ admitted(1,2)]) (simp_all add: authenticated_def)
  qed
qed

lemma Control_simulated:
  assumes ok: "registry_ok pf r" and now: "0 < now"
  shows "simulated pf (Control now written j t) r"
proof -
  let ?i = "TrimSpace j"
  let ?b = "\<lambda>a. a\<lparr>pa_LastSeenAt := now, pa_LastSequence := au_sequence t, pa_UpdatedAt := now\<rparr>"
  consider (refused) e where "AcceptControlRequest pf now written j t r = (r, Some e)"
    | (admitted) a where "agent_of r ?i = Some a" "authenticated pf a t"
        "accepted_none (AcceptControlRequest pf now written j t r) = replace_record written now a (?b a) r"
  proof (cases "\<exists>e. AcceptControlRequest pf now written j t r = (r, Some e)")
    case False
    then show ?thesis
      by (auto simp: AcceptControlRequest_def Let_def accepted_none_replaced authenticated_def
          split: if_splits option.splits intro: admitted)
  qed (use refused in blast)
  then show ?thesis
  proof cases
    case refused
    then show ?thesis by (intro simulated_refused [OF ok]) (simp add: refused_simps)
  next
    case admitted
    have "wf_record pf ?i (?b a)"
      using admitted(2)
      by (intro wf_control_record [OF known_agent(3) [OF ok admitted(1)] now]) (simp add: authenticated_def)
    then show ?thesis
      using admitted(2,3) by (intro request_simulated [OF ok _ admitted(1,2)]) (simp_all add: authenticated_def)
  qed
qed

subsection \<open>Restarts\<close>

lemma NewRegistry_fields:
  assumes "NewRegistry pf cfg file = Inr r"
  shows "rg_file r = file" and "rf_Agents (rg_state r) = []" and "rf_Version (rg_state r) = RegistryVersion"
    and "minute \<le> gc_EnrollmentTTL (rg_config r)" and "registry_Enabled r = gc_Enabled cfg"
  using assms by (auto simp: NewRegistry_def Let_def registry_Enabled_def split: if_splits)

lemma boot_ok:
  assumes "wf_file pf file" and "boot pf cfg readable file = Some r"
  shows "registry_ok pf r" and "rg_file r = file"
proof -
  obtain r0 where r0: "NewRegistry pf cfg file = Inr r0"
    using assms(2) by (auto simp: boot_def split: sum.splits)
  note new = NewRegistry_fields [OF r0]
  have "registry_ok pf r \<and> rg_file r = file"
  proof (cases "file = Missing \<or> readable")
    case True
    then have "r = (case file of Holds f \<Rightarrow> r0\<lparr>rg_state := f\<rparr> | _ \<Rightarrow> r0)"
      using assms Load_wf [of pf r0] new(1) r0
      by (auto simp: boot_def registry_Load_def split: disk_file.splits sum.splits)
    then show ?thesis
      using assms(1) new
      by (auto simp: registry_ok_def in_step_def wf_file_def wf_agents_def registry_Enabled_def split: disk_file.splits)
  next
    case False
    then have "r = r0 \<and> \<not> gc_Enabled cfg"
      using assms(2) new(1) r0 by (auto simp: boot_def registry_Load_def split: disk_file.splits if_splits)
    then show ?thesis using assms(1) new by (auto simp: registry_ok_def)
  qed
  then show "registry_ok pf r" "rg_file r = file" by simp_all
qed

lemma Restart_simulated:
  assumes ok: "registry_ok pf r"
  shows "simulated pf (Restart cfg readable) r"
proof (cases "boot pf cfg readable (rg_file r)")
  case None
  then show ?thesis by (intro simulated_refused [OF ok]) simp
next
  case (Some r1)
  note b = boot_ok [OF registry_okD(1) [OF ok] Some]
  have "lives r1 = lives r" using b(2) by (simp add: lives_def stored_def)
  then show ?thesis using b(1) Some life_step.restarted by (simp add: simulated_def)
qed

text \<open>Every event is a step of the abstract life.\<close>

lemma registry_simulates:
  assumes "registry_ok pf r" and "sane_platform pf" and "plausible e"
  shows "simulated pf e r"
proof (cases e)
  case CreateAgent
  then show ?thesis using assms Create_simulated by blast
qed (use assms in \<open>auto intro: Reissue_simulated Revoke_simulated Delete_simulated Enroll_simulated
      Heartbeat_simulated Control_simulated Restart_simulated\<close>)

end
