(* ===== verification/AgentGuarantees.thy ===== *)
theory AgentGuarantees
  imports AgentSimulation DiagGuarantees
begin

text \<open>
  What the registry of probe agents guarantees over any history of its events, restarts included:
  the file always gives the registry back, a request that passes comes from an agent that enrolled
  with a token issued for it and was not shut out since, and neither a request nor a token passes twice.
\<close>

subsection \<open>Histories\<close>

text \<open>The events with whether each was accepted, and the state they lead to.\<close>

fun history :: "platform \<Rightarrow> registry_event list \<Rightarrow> registry \<Rightarrow> (registry_event \<times> bool) list" where
  "history pf [] r = []"
| "history pf (e # es) r = (case perform pf e r of (r1, b) \<Rightarrow> (e, b) # history pf es r1)"

definition after :: "platform \<Rightarrow> registry_event list \<Rightarrow> registry \<Rightarrow> registry" where
  "after pf es r = fold (\<lambda>e s. fst (perform pf e s)) es r"

definition fresh_registry :: "platform \<Rightarrow> registry \<Rightarrow> bool" where
  "fresh_registry pf r \<longleftrightarrow> sane_platform pf \<and> (\<exists>cfg readable. boot pf cfg readable Missing = Some r)"

definition registry_step :: "platform \<Rightarrow> registry \<Rightarrow> registry \<Rightarrow> bool" where
  "registry_step pf r r1 \<longleftrightarrow> sane_platform pf \<and> (\<exists>e. plausible e \<and> r1 = fst (perform pf e r))"

lemma history_snoc: "history pf (es @ [e]) r = history pf es r @ [(e, snd (perform pf e (after pf es r)))]"
  by (induction es arbitrary: r) (simp_all add: after_def split_beta)

lemma after_snoc: "after pf (es @ [e]) r = fst (perform pf e (after pf es r))"
  by (simp add: after_def)

lemma after_Nil [simp]: "after pf [] r = r"
  by (simp add: after_def)

lemma fresh_ok:
  assumes "fresh_registry pf r"
  shows "registry_ok pf r" and "lives r = (\<lambda>i. Absent)"
proof -
  obtain cfg readable where b: "boot pf cfg readable Missing = Some r"
    using assms by (auto simp: fresh_registry_def)
  show "registry_ok pf r" by (rule boot_ok(1) [OF _ b]) (simp add: wf_file_def)
  have "rg_file r = Missing" by (rule boot_ok(2) [OF _ b]) (simp add: wf_file_def)
  then show "lives r = (\<lambda>i. Absent)" by (auto simp: lives_def stored_def life_of_def)
qed

interpretation registry: step_system "fresh_registry pf" "registry_step pf" "registry_ok pf" for pf
  by unfold_locales (auto simp: fresh_ok registry_step_def simulated_def dest: registry_simulates)

lemma after_steps:
  assumes "sane_platform pf" and "list_all plausible es"
  shows "(registry_step pf)\<^sup>*\<^sup>* r (after pf es r)"
  using assms(2)
proof (induction es rule: rev_induct)
  case (snoc e es)
  then have "registry_step pf (after pf es r) (after pf (es @ [e]) r)"
    using assms(1) by (auto simp: registry_step_def after_snoc)
  then show ?case using snoc by (meson list_all_append rtranclp.rtrancl_into_rtrancl)
qed simp

lemma after_ok:
  assumes "fresh_registry pf r" and "list_all plausible es"
  shows "registry_ok pf (after pf es r)"
  using registry.run_ok [OF assms(1) after_steps] assms by (simp add: fresh_registry_def)

text \<open>A property of histories and lives that every step carries on holds of every history.\<close>

lemma history_induct:
  assumes "fresh_registry pf r" and "list_all plausible es" and "P [] (\<lambda>i. Absent)"
    and step: "\<And>h e b s s'. P h s \<Longrightarrow> life_step pf e b s s' \<Longrightarrow> P (h @ [(e, b)]) s'"
  shows "P (history pf es r) (lives (after pf es r))"
  using assms(2)
proof (induction es rule: rev_induct)
  case Nil
  then show ?case using assms(3) fresh_ok(2) [OF assms(1)] by simp
next
  case (snoc e es)
  let ?r = "after pf es r"
  have "sane_platform pf" using assms(1) by (simp add: fresh_registry_def)
  then have "simulated pf e ?r"
    using snoc.prems after_ok [OF assms(1)] by (intro registry_simulates) simp_all
  then have "life_step pf e (snd (perform pf e ?r)) (lives ?r) (lives (fst (perform pf e ?r)))"
    by (simp add: simulated_def)
  then show ?case using snoc by (auto simp: history_snoc after_snoc intro: step)
qed

subsection \<open>Where a life comes from\<close>

text \<open>Issuing a token for an agent, and what ends an agent's enrolment.\<close>

fun issues :: "registry_event \<Rightarrow> string \<Rightarrow> string \<Rightarrow> bool" where
  "issues (CreateAgent now later ids bytes written q) i token \<longleftrightarrow>
     randomToken ''agent'' ids = Inr i \<and> randomToken ''enroll'' bytes = Inr token"
| "issues (ReissueAgent now later bytes written j) i token \<longleftrightarrow>
     TrimSpace j = i \<and> randomToken ''enroll'' bytes = Inr token"
| "issues e i token \<longleftrightarrow> False"

fun renews :: "string \<Rightarrow> registry_event \<Rightarrow> bool" where
  "renews i (ReissueAgent now later bytes written j) \<longleftrightarrow> TrimSpace j = i"
| "renews i (DeleteAgent now written j) \<longleftrightarrow> TrimSpace j = i"
| "renews i e \<longleftrightarrow> False"

fun ends :: "string \<Rightarrow> registry_event \<Rightarrow> bool" where
  "ends i (RevokeAgent now later written j) \<longleftrightarrow> TrimSpace j = i"
| "ends i e \<longleftrightarrow> renews i e"

definition unended :: "string \<Rightarrow> (registry_event \<times> bool) list \<Rightarrow> bool" where
  "unended i h \<longleftrightarrow> list_all (\<lambda>(e, b). \<not> (b \<and> ends i e)) h"

definition issued :: "platform \<Rightarrow> (registry_event \<times> bool) list \<Rightarrow> string \<Rightarrow> string \<Rightarrow> bool" where
  "issued pf h i hash \<longleftrightarrow> (\<exists>h0 e token h1. h = h0 @ (e, True) # h1 \<and> issues e i token \<and>
     hash = tokenHash pf token \<and> unended i h1)"

text \<open>The agent enrolled with these keys, presenting a token issued for it, and was not shut out since.\<close>

definition enrolled :: "platform \<Rightarrow> (registry_event \<times> bool) list \<Rightarrow> string \<Rightarrow> 8 word list \<Rightarrow> 8 word list \<Rightarrow> bool" where
  "enrolled pf h i identity observation \<longleftrightarrow>
     (\<exists>h1 now written q source h2 hash. h = h1 @ (EnrollAgent now written q source, True) # h2 \<and>
        TrimSpace (er_AgentID q) = i \<and> er_IdentityPublicKey q = identity \<and>
        er_ObservationPublicKey q = observation \<and> length identity = 32 \<and> length observation = 32 \<and>
        issued pf h1 i hash \<and> tokenMatches pf hash (er_EnrollmentToken q) \<and> unended i h2)"

fun explains :: "platform \<Rightarrow> (registry_event \<times> bool) list \<Rightarrow> string \<Rightarrow> lifecycle \<Rightarrow> bool" where
  "explains pf h i (Awaiting hash) \<longleftrightarrow> issued pf h i hash"
| "explains pf h i (Active k ok n) \<longleftrightarrow> (\<exists>identity observation. enrolled pf h i identity observation \<and>
     k = EncodeToString std_alphabet identity \<and> ok = EncodeToString std_alphabet observation)"
| "explains pf h i l \<longleftrightarrow> True"

definition explained :: "platform \<Rightarrow> (registry_event \<times> bool) list \<Rightarrow> (string \<Rightarrow> lifecycle) \<Rightarrow> bool" where
  "explained pf h s \<longleftrightarrow> (\<forall>i. explains pf h i (s i))"

lemma unended_snoc: "unended i (h @ [(e, b)]) \<longleftrightarrow> unended i h \<and> \<not> (b \<and> ends i e)"
  by (simp add: unended_def)

lemma issued_snoc: "issued pf h i x \<Longrightarrow> \<not> (b \<and> ends i e) \<Longrightarrow> issued pf (h @ [(e, b)]) i x"
  unfolding issued_def by (metis append.assoc append_Cons unended_snoc)

lemma enrolled_snoc: "enrolled pf h i k ok \<Longrightarrow> \<not> (b \<and> ends i e) \<Longrightarrow> enrolled pf (h @ [(e, b)]) i k ok"
  unfolding enrolled_def by (elim exE conjE) (simp add: unended_snoc, metis append.assoc append_Cons unended_snoc)

lemma issued_now: "issues e i token \<Longrightarrow> issued pf (h @ [(e, True)]) i (tokenHash pf token)"
  unfolding issued_def by (rule exI [of _ h], rule exI [of _ e], rule exI [of _ token]) (simp add: unended_def)

lemma enrolled_now:
  assumes "issued pf h (TrimSpace (er_AgentID q)) x" and "tokenMatches pf x (er_EnrollmentToken q)"
    and "length (er_IdentityPublicKey q) = 32" and "length (er_ObservationPublicKey q) = 32"
  shows "enrolled pf (h @ [(EnrollAgent now written q source, True)]) (TrimSpace (er_AgentID q))
    (er_IdentityPublicKey q) (er_ObservationPublicKey q)"
proof -
  let ?h = "h @ (EnrollAgent now written q source, True) # []"
  have "unended (TrimSpace (er_AgentID q)) []" by (simp add: unended_def)
  then have "enrolled pf ?h (TrimSpace (er_AgentID q)) (er_IdentityPublicKey q) (er_ObservationPublicKey q)"
    unfolding enrolled_def using assms by blast
  then show ?thesis by simp
qed

text \<open>Agents an event does not end keep their explanation.\<close>

lemma explains_keep: "explains pf h i l \<Longrightarrow> \<not> (b \<and> ends i e) \<Longrightarrow> explains pf (h @ [(e, b)]) i l"
  using issued_snoc enrolled_snoc by (cases l) (simp_all, blast)

lemma explained_step:
  assumes ex: "explained pf h s" and "life_step pf e b s s'"
  shows "explained pf (h @ [(e, b)]) s'"
  unfolding explained_def
proof
  fix i
  have old: "\<And>i. explains pf h i (s i)" using ex by (simp add: explained_def)
  have keep: "explains pf (h @ [(e, b)]) i (s i)" if "\<not> (b \<and> ends i e)"
    by (rule explains_keep [OF old that])
  from assms(2) show "explains pf (h @ [(e, b)]) i (s' i)"
  proof cases
    case (created j ids bytes token now later written q)
    then show ?thesis using keep issued_now [of e i token pf h] by (cases "i = j") auto
  next
    case (reissued j bytes token now later written)
    then show ?thesis using keep issued_now [of e i token pf h] by (cases "i = TrimSpace j") auto
  next
    case (revoked j now later written)
    then show ?thesis using keep by (cases "i = TrimSpace j") auto
  next
    case (deleted j now written)
    then show ?thesis using keep by (cases "i = TrimSpace j") auto
  next
    case (enrolled j hash q now written source)
    then have "issued pf h j hash" using old [of j] by simp
    then show ?thesis
      using enrolled keep enrolled_now [of pf h q hash now written source] by (cases "i = j") auto
  next
    case (requested j t k ok n)
    then have "\<not> (b \<and> ends i e)" by (cases e) auto
    from keep [OF this] requested show ?thesis by (cases "i = j") auto
  qed (use keep in auto)
qed

subsection \<open>Sequence numbers and tokens are used once\<close>

definition spent :: "nat \<Rightarrow> lifecycle \<Rightarrow> bool" where
  "spent n l \<longleftrightarrow> (case l of Active k ok m \<Rightarrow> n \<le> m | Revoked \<Rightarrow> True | _ \<Rightarrow> False)"

text \<open>An accepted request uses up its sequence number, an accepted enrolment its token.\<close>

fun spends :: "registry_event \<Rightarrow> string \<Rightarrow> nat \<Rightarrow> bool" where
  "spends (EnrollAgent now written q source) i n \<longleftrightarrow> TrimSpace (er_AgentID q) = i \<and> n = 0"
| "spends e i n \<longleftrightarrow> (case signed_request e of Some (j, t) \<Rightarrow> j = i \<and> n = au_sequence t | None \<Rightarrow> False)"

definition unrenewed :: "string \<Rightarrow> (registry_event \<times> bool) list \<Rightarrow> bool" where
  "unrenewed i h \<longleftrightarrow> list_all (\<lambda>(e, b). \<not> (b \<and> renews i e)) h"

lemma unrenewed_snoc: "unrenewed i (h @ [(e, b)]) \<longleftrightarrow> unrenewed i h \<and> \<not> (b \<and> renews i e)"
  by (simp add: unrenewed_def)

lemma unrenewed_iff: "\<not> unrenewed i h \<longleftrightarrow> (\<exists>e. (e, True) \<in> set h \<and> renews i e)"
  by (auto simp: unrenewed_def list_all_iff)

lemma spends_request: "signed_request e = Some (i, t) \<Longrightarrow> spends e i (au_sequence t)"
  by (cases e) auto

lemma spends_step:
  assumes "life_step pf e True s s'" and "spends e i n"
  shows "spent n (s' i)"
  using assms(1)
proof cases
  case (requested j t k ok m)
  then show ?thesis using assms(2) by (cases e) (auto simp: spent_def)
qed (use assms(2) in \<open>auto simp: spent_def\<close>)

lemma spent_step:
  assumes "life_step pf e b s s'" and "spent n (s i)" and "\<not> (b \<and> renews i e)"
  shows "spent n (s' i)"
  using assms(1)
proof cases
  case (requested j t k ok m)
  then show ?thesis using assms(2) by (auto simp: spent_def)
qed (use assms(2,3) in \<open>auto simp: spent_def\<close>)

lemma spent_history:
  assumes "fresh_registry pf r" and "list_all plausible es"
    and "history pf es r = h1 @ (e, True) # h2" and "spends e i n" and "unrenewed i h2"
  shows "spent n (lives (after pf es r) i)"
proof -
  let ?P = "\<lambda>h s. \<forall>h1 e h2 i n. h = h1 @ (e, True) # h2 \<longrightarrow> spends e i n \<longrightarrow> unrenewed i h2 \<longrightarrow> spent n (s i)"
  have "?P (history pf es r) (lives (after pf es r))"
  proof (rule history_induct [OF assms(1,2)])
    show "?P [] (\<lambda>i. Absent)" by simp
  next
    fix h e b s s'
    assume P: "?P h s" and step: "life_step pf e b s s'"
    show "?P (h @ [(e, b)]) s'"
    proof (intro allI impI)
      fix h1 e1 h2 i n
      assume h: "h @ [(e, b)] = h1 @ (e1, True) # h2" and sp: "spends e1 i n" and un: "unrenewed i h2"
      show "spent n (s' i)"
      proof (cases h2 rule: rev_cases)
        case Nil
        then have "e1 = e" "b" using h by auto
        then show ?thesis using spends_step step sp by auto
      next
        case (snoc h3 x)
        then have x: "x = (e, b)" and "h = h1 @ (e1, True) # h3" using h by auto
        moreover have "unrenewed i h3" "\<not> (b \<and> renews i e)" using un snoc x by (simp_all add: unrenewed_snoc)
        ultimately have "spent n (s i)" using P sp by blast
        then show ?thesis using spent_step step \<open>\<not> (b \<and> renews i e)\<close> by blast
      qed
    qed
  qed
  then show ?thesis using assms(3-5) by blast
qed

text \<open>A prefix of a history is a history.\<close>

lemma history_split:
  assumes "history pf es r = h1 @ (e, b) # h2"
  shows "\<exists>es1 es2. es = es1 @ e # es2 \<and> h1 = history pf es1 r \<and> b = snd (perform pf e (after pf es1 r))"
  using assms
proof (induction es arbitrary: h2 rule: rev_induct)
  case (snoc x es)
  show ?case
  proof (cases h2 rule: rev_cases)
    case Nil
    then show ?thesis using snoc.prems by (auto simp: history_snoc)
  next
    case (snoc h3 y)
    then have "history pf es r = h1 @ (e, b) # h3" using \<open>history pf (es @ [x]) r = _\<close> by (simp add: history_snoc)
    then obtain es1 es2 where "es = es1 @ e # es2" "h1 = history pf es1 r" "b = snd (perform pf e (after pf es1 r))"
      using snoc.IH by blast
    then show ?thesis by auto
  qed
qed simp

lemma accepted_step:
  assumes "fresh_registry pf r" and "list_all plausible (es @ [e])" and "snd (perform pf e (after pf es r))"
  shows "life_step pf e True (lives (after pf es r)) (lives (after pf (es @ [e]) r))"
proof -
  have "simulated pf e (after pf es r)"
    using assms(1,2) after_ok [OF assms(1)] by (intro registry_simulates) (simp_all add: fresh_registry_def)
  then show ?thesis using assms(3) by (simp add: simulated_def after_snoc)
qed

lemma unspent_at_enrolment:
  assumes "life_step pf (EnrollAgent now written q source) True s s'"
  shows "\<not> spent n (s (TrimSpace (er_AgentID q)))"
  using assms by cases (auto simp: spent_def)

lemma unspent_at_request:
  assumes "life_step pf e True s s'" and "signed_request e = Some (i, t)"
  shows "spent n (s i) \<Longrightarrow> n < au_sequence t"
  using assms(1) by cases (use assms(2) in \<open>auto simp: spent_def\<close>)

text \<open>What an accepted request has passed.\<close>

lemma accepted_authenticated:
  assumes "snd (perform pf e r)" and "signed_request e = Some (i, t)"
  shows "\<exists>a. agent_of r i = Some a \<and> authenticated pf a t"
proof (cases e)
  case (Heartbeat now written q t')
  then show ?thesis using assms
    by (auto simp: accepted_if_def AcceptHeartbeat_def Let_def authenticated_def split: if_splits option.splits)
next
  case (Control now written j t')
  then show ?thesis using assms
    by (auto simp: accepted_none_def AcceptControlRequest_def Let_def authenticated_def split: if_splits option.splits)
qed (use assms(2) in simp_all)

lemma signed_encoded:
  "signed_by pf (EncodeToString std_alphabet k) payload signature \<longleftrightarrow>
     length k = 32 \<and> length signature = 64 \<and> pf_Verify pf k payload signature"
  by (simp add: signed_by_def std_round_trip)

lemma requested_step:
  assumes "life_step pf e True s s'" and "signed_request e = Some (i, t)" and "s i = Active k ok n"
  shows "s' i = Active k ok (au_sequence t)"
  using assms(1) by cases (use assms(2,3) in auto)

lemma request_origin:
  assumes "fresh_registry pf r" and "list_all plausible (es @ [e])"
    and "snd (perform pf e (after pf es r))" and "signed_request e = Some (i, t)"
  shows "\<exists>identity observation a. enrolled pf (history pf es r) i identity observation \<and>
    lives (after pf (es @ [e]) r) i = Active (EncodeToString std_alphabet identity)
      (EncodeToString std_alphabet observation) (au_sequence t) \<and>
    length (au_signature t) = 64 \<and> pf_Verify pf identity (au_payload t) (au_signature t) \<and>
    agent_of (after pf es r) i = Some a \<and> sourceMatches pf (pa_ExpectedSourceIP a) (au_sourceIP t)"
proof -
  let ?r = "after pf es r"
  have p: "list_all plausible es" using assms(2) by simp
  obtain a where a: "agent_of ?r i = Some a" "authenticated pf a t"
    using accepted_authenticated [OF assms(3,4)] by blast
  then have live: "lives ?r i = Active (pa_IdentityPublicKey a) (pa_ObservationPublicKey a) (pa_LastSequence a)"
    using lives_known [OF after_ok [OF assms(1) p] a(1)] by (simp add: life_of_def authenticated_def)
  moreover have "explained pf (history pf es r) (lives ?r)"
    by (rule history_induct [OF assms(1) p, where P = "explained pf"])
      (auto simp: explained_def [of pf "[]"] intro: explained_step)
  ultimately have "explains pf (history pf es r) i
      (Active (pa_IdentityPublicKey a) (pa_ObservationPublicKey a) (pa_LastSequence a))"
    unfolding explained_def by metis
  then obtain identity observation where o: "enrolled pf (history pf es r) i identity observation"
    "pa_IdentityPublicKey a = EncodeToString std_alphabet identity"
    "pa_ObservationPublicKey a = EncodeToString std_alphabet observation" by auto
  have "lives (after pf (es @ [e]) r) i = Active (pa_IdentityPublicKey a) (pa_ObservationPublicKey a) (au_sequence t)"
    by (rule requested_step [OF accepted_step [OF assms(1-3)] assms(4) live])
  then show ?thesis using a o by (auto simp: authenticated_def signed_encoded)
qed

subsection \<open>A sample history\<close>

text \<open>
  An agent is created, enrols, polls (once while the disk is full), the server restarts, the agent
  sends a heartbeat, is reissued and enrols again.
\<close>

definition sample_platform :: platform where
  "sample_platform = \<lparr>pf_ParseAddr = (\<lambda>s. if s = [] then None else Some s),
     pf_ParseURL = (\<lambda>s. Some \<lparr>ur_Scheme = ''https'', ur_Host = s, ur_User = False, ur_RawQuery = [], ur_Fragment = []\<rparr>),
     pf_Sum256 = (\<lambda>s. take 32 (map of_char s @ replicate 32 0)),
     pf_Verify = (\<lambda>k p s. p = [7])\<rparr>"

definition sample_registry_config :: RegistryConfig where
  "sample_registry_config = \<lparr>gc_Path = ''agents.json'', gc_Enabled = True, gc_DefaultControllerURL = ''https://c'',
     gc_DefaultControllerIP = ''192.0.2.1'', gc_EnrollmentTTL = 0, gc_HeartbeatMaxSkew = 0,
     gc_HeartbeatIntervalSec = 0\<rparr>"

definition sample_agent_id :: string where
  "sample_agent_id = ''agent_'' @ replicate 22 (CHR ''A'')"

lemma sample_agent_id_trim [simp]: "TrimSpace sample_agent_id = sample_agent_id"
  by code_simp

definition sample_enrolment :: "char \<Rightarrow> EnrollRequest" where
  "sample_enrolment c = \<lparr>er_ProtocolVersion = 1, er_AgentID = sample_agent_id,
     er_EnrollmentToken = ''enroll_'' @ replicate 43 c, er_IdentityPublicKey = replicate 32 1,
     er_ObservationPublicKey = replicate 32 2, er_AgentVersion = ''1'', er_Capabilities = [''tls'', ''tls'']\<rparr>"

definition sample_authentication :: "nat \<Rightarrow> authentication" where
  "sample_authentication n = \<lparr>au_sourceIP = Some ''198.51.100.7'', au_timestamp = hour, au_sequence = n,
     au_payload = [7], au_signature = replicate 64 1\<rparr>"

definition sample_events :: "registry_event list" where
  "sample_events =
     [CreateAgent hour hour (Some (replicate 16 0)) (Some (replicate 32 0)) True
        \<lparr>cg_DisplayName = '' Agent '', cg_ExpectedSourceIP = ''198.51.100.7'', cg_ControllerIP = [],
         cg_ControllerURL = [], cg_Region = ''eu'', cg_Provider = [], cg_NetworkGroup = []\<rparr>,
      EnrollAgent (hour + 1) True (sample_enrolment (CHR ''A'')) (Some ''198.51.100.7''),
      Control (hour + 2) False sample_agent_id (sample_authentication 5),
      Control (hour + 3) True sample_agent_id (sample_authentication 5),
      Restart sample_registry_config True,
      Heartbeat (hour + 4) True \<lparr>hb_ProtocolVersion = 1, hb_AgentID = sample_agent_id, hb_AgentVersion = ''1'',
        hb_Capabilities = [''tls''], hb_Health = ''healthy''\<rparr> (sample_authentication 6),
      ReissueAgent (hour + 5) (hour + 5) (Some (replicate 32 255)) True sample_agent_id,
      EnrollAgent (hour + 6) True (sample_enrolment (CHR ''_'')) (Some ''198.51.100.7'')]"

definition sample_registry :: registry where
  "sample_registry = the (boot sample_platform sample_registry_config True Missing)"

lemma sample_fresh: "fresh_registry sample_platform sample_registry"
proof -
  have "boot sample_platform sample_registry_config True Missing \<noteq> None" by code_simp
  then show ?thesis
    by (auto simp: fresh_registry_def sample_registry_def sane_platform_def sample_platform_def)
qed

lemma sample_plausible: "list_all plausible sample_events"
  by code_simp

lemma sample_replies:
  "map snd (history sample_platform sample_events sample_registry) = [True, True, False, True, True, True, True, True]"
  by code_simp

lemma map_fst_history: "map fst (history pf es r) = es"
  by (induction es arbitrary: r) (simp_all split: prod.split)

lemma sample_history:
  "history sample_platform sample_events sample_registry =
     zip sample_events [True, True, False, True, True, True, True, True]"
  using map_fst_history [of sample_platform sample_events sample_registry] sample_replies
  by (metis zip_map_fst_snd)

subsection \<open>What the registry guarantees\<close>

text \<open>
  C11: a request the registry accepts comes from the agent it names: that agent enrolled, presenting a
  token issued for it whose digest the registry kept, was not reissued, revoked or deleted since, the
  request is signed under the identity key of that enrolment and comes from the address the agent is
  registered with.
\<close>

theorem accepted_request_is_authentic:
  assumes "fresh_registry pf r" and "list_all plausible (es @ [e])"
    and "snd (perform pf e (after pf es r))" and "signed_request e = Some (i, t)"
  shows "\<exists>identity observation a. enrolled pf (history pf es r) i identity observation \<and>
    length (au_signature t) = 64 \<and> pf_Verify pf identity (au_payload t) (au_signature t) \<and>
    agent_of (after pf es r) i = Some a \<and> sourceMatches pf (pa_ExpectedSourceIP a) (au_sourceIP t)"
  using request_origin [OF assms] by blast

theorem accepted_request_is_authentic_witness:
  "\<exists>identity observation. enrolled sample_platform (history sample_platform (take 3 sample_events) sample_registry)
     sample_agent_id identity observation"
proof -
  let ?e = "Control (hour + 3) True sample_agent_id (sample_authentication 5)"
  let ?es = "take 3 sample_events"
  have "history sample_platform sample_events sample_registry =
      take 3 (zip sample_events [True, True, False, True, True, True, True, True]) @ (?e, True) #
      drop 4 (zip sample_events [True, True, False, True, True, True, True, True])"
    by (simp only: sample_history) (simp add: sample_events_def)
  from history_split [OF this] obtain es1 es2 where es: "sample_events = es1 @ ?e # es2"
    and h: "take 3 (zip sample_events [True, True, False, True, True, True, True, True]) = history sample_platform es1 sample_registry"
    and ok: "snd (perform sample_platform ?e (after sample_platform es1 sample_registry))" by metis
  have "length es1 = 3"
    using arg_cong [OF h, of "\<lambda>x. length (map fst x)"] by (simp only: map_fst_history) (simp add: sample_events_def)
  then have es1: "es1 = ?es" using arg_cong [OF es, of "take 3"] by simp
  have "list_all plausible (?es @ [?e])" by (simp add: sample_events_def duration_defs)
  from accepted_request_is_authentic [OF sample_fresh this ok [unfolded es1], of "TrimSpace sample_agent_id" "sample_authentication 5"]
  show ?thesis by auto
qed

text \<open>
  C12: no signed request passes twice: of two accepted requests in an agent's name the later has the
  greater sequence number, whatever happened in between, restarts of the server and failed writes of
  its file included, unless the agent was reissued or deleted in between.
\<close>

theorem request_passes_once:
  assumes "fresh_registry pf r" and "list_all plausible es"
    and "history pf es r = h1 @ (a, True) # h2 @ (b, True) # h3"
    and "signed_request a = Some (i, t)" and "signed_request b = Some (i, t')"
  shows "au_sequence t < au_sequence t' \<or> (\<exists>e. (e, True) \<in> set h2 \<and> renews i e)"
proof (cases "unrenewed i h2")
  case True
  have "history pf es r = (h1 @ (a, True) # h2) @ (b, True) # h3" using assms(3) by simp
  from history_split [OF this] obtain es1 es2 where es: "es = es1 @ b # es2"
    and h: "history pf es1 r = h1 @ (a, True) # h2" and ok: "snd (perform pf b (after pf es1 r))" by metis
  have p: "list_all plausible (es1 @ [b])" using assms(2) es by simp
  have "spent (au_sequence t) (lives (after pf es1 r) i)"
    using p by (intro spent_history [OF assms(1) _ h spends_request [OF assms(4)] True]) simp
  then show ?thesis using unspent_at_request [OF accepted_step [OF assms(1) p ok] assms(5)] by blast
qed (simp add: unrenewed_iff)

theorem request_passes_once_witness:
  "au_sequence (sample_authentication 5) < au_sequence (sample_authentication 6) \<or>
   (\<exists>e. (e, True) \<in> set [(Restart sample_registry_config True, True)] \<and> renews sample_agent_id e)"
proof -
  let ?h = "history sample_platform sample_events sample_registry"
  let ?a = "Control (hour + 3) True sample_agent_id (sample_authentication 5)"
  let ?b = "Heartbeat (hour + 4) True \<lparr>hb_ProtocolVersion = 1, hb_AgentID = sample_agent_id, hb_AgentVersion = ''1'',
        hb_Capabilities = [''tls''], hb_Health = ''healthy''\<rparr> (sample_authentication 6)"
  have "?h = take 3 ?h @ (?a, True) # [(Restart sample_registry_config True, True)] @ (?b, True) # drop 6 ?h"
    by (simp only: sample_history) (simp add: sample_events_def)
  moreover have "signed_request ?a = Some (sample_agent_id, sample_authentication 5)"
    "signed_request ?b = Some (sample_agent_id, sample_authentication 6)" by simp_all
  ultimately show ?thesis by (rule request_passes_once [OF sample_fresh sample_plausible])
qed

text \<open>
  C22: an enrolment token is used once: between two accepted enrolments of an agent it was reissued or
  deleted, whatever else happened in between, restarts of the server included.
\<close>

theorem token_enrols_once:
  assumes "fresh_registry pf r" and "list_all plausible es"
    and "history pf es r = h1 @ (EnrollAgent now written q source, True) # h2 @
      (EnrollAgent now' written' q' source', True) # h3"
    and "TrimSpace (er_AgentID q) = TrimSpace (er_AgentID q')"
  shows "\<exists>e. (e, True) \<in> set h2 \<and> renews (TrimSpace (er_AgentID q)) e"
proof (rule ccontr)
  assume "\<not> ?thesis"
  then have un: "unrenewed (TrimSpace (er_AgentID q)) h2" using unrenewed_iff by blast
  let ?a = "EnrollAgent now written q source" and ?b = "EnrollAgent now' written' q' source'"
  have "history pf es r = (h1 @ (?a, True) # h2) @ (?b, True) # h3" using assms(3) by simp
  from history_split [OF this] obtain es1 es2 where es: "es = es1 @ ?b # es2"
    and h: "history pf es1 r = h1 @ (?a, True) # h2" and ok: "snd (perform pf ?b (after pf es1 r))" by metis
  have p: "list_all plausible (es1 @ [?b])" using assms(2) es by simp
  have "spent 0 (lives (after pf es1 r) (TrimSpace (er_AgentID q)))"
    using p by (intro spent_history [OF assms(1) _ h _ un]) simp_all
  then show False using unspent_at_enrolment [OF accepted_step [OF assms(1) p ok]] assms(4) by metis
qed

theorem token_enrols_once_witness:
  "\<exists>e. (e, True) \<in> set (take 5 (drop 2 (history sample_platform sample_events sample_registry))) \<and>
     renews (TrimSpace sample_agent_id) e"
  using token_enrols_once [OF sample_fresh sample_plausible,
      where ?h1.0 = "take 1 (history sample_platform sample_events sample_registry)"
        and ?h2.0 = "take 5 (drop 2 (history sample_platform sample_events sample_registry))" and ?h3.0 = "[]"
        and now = "hour + 1" and written = True and q = "sample_enrolment (CHR ''A'')"
        and source = "Some ''198.51.100.7''" and now' = "hour + 6" and written' = True
        and q' = "sample_enrolment (CHR ''_'')" and source' = "Some ''198.51.100.7''"]
  by (simp add: sample_history) (simp add: sample_events_def sample_enrolment_def)

text \<open>
  C21: the file is always one the registry loads: after any history, whatever writes failed, a new
  process that can read the file starts with exactly the agents the running one holds.
\<close>

theorem restart_gives_registry_back:
  assumes "fresh_registry pf r" and "list_all plausible es" and "registry_Enabled (after pf es r)"
    and "NewRegistry pf cfg (rg_file (after pf es r)) = Inr new"
  shows "\<exists>loaded. registry_Load pf True new = Inr loaded \<and> agent_of loaded = agent_of (after pf es r)"
proof -
  have ok: "registry_ok pf (after pf es r)" by (rule after_ok [OF assms(1,2)])
  note n = NewRegistry_fields [OF assms(4)]
  have "wf_file pf (rg_file new)" using registry_okD(1) [OF ok] n(1) by simp
  from Load_wf [OF this] show ?thesis
    using registry_okD(5) [OF ok assms(3)] n(1,2)
    by (auto simp: in_step_def agent_of_def fun_eq_iff split: disk_file.splits)
qed

theorem restart_gives_registry_back_witness:
  "\<exists>new loaded. NewRegistry sample_platform sample_registry_config
      (rg_file (after sample_platform (take 2 sample_events) sample_registry)) = Inr new \<and>
    registry_Load sample_platform True new = Inr loaded \<and>
    agent_of loaded sample_agent_id = agent_of (after sample_platform (take 2 sample_events) sample_registry) sample_agent_id"
proof -
  let ?r = "after sample_platform (take 2 sample_events) sample_registry"
  have "registry_Enabled ?r" and "\<not> isl (NewRegistry sample_platform sample_registry_config (rg_file ?r))"
    by code_simp+
  moreover from this(2) obtain new where
    "NewRegistry sample_platform sample_registry_config (rg_file ?r) = Inr new"
    by (cases "NewRegistry sample_platform sample_registry_config (rg_file ?r)") auto
  moreover have "list_all plausible (take 2 sample_events)" by (simp add: sample_events_def duration_defs)
  ultimately show ?thesis using restart_gives_registry_back [OF sample_fresh] by metis
qed

end
