(* ===== verification/AgentGateway.thy ===== *)
theory AgentGateway
  imports AgentGuarantees RemoteGuarantees
begin

text \<open>
  The endpoints agents talk to, \<open>src/web/probe_agents.go\<close> and \<open>src/web/remote_diagnostics.go\<close>: each
  reads the request, authenticates it with the registry (\<open>ControlSigningPayload\<close>,
  \<open>parseProbeControlAuthentication\<close>) and only then passes it to the remote controller. The theorems
  follow a job and an observation through all three: gateway, registry and controller.

  What the standard library makes of a request is the record \<open>transport\<close>: JSON decoding with its
  size and single-value rules, time stamps, host and port, the JSON of the signed envelope.
\<close>

subsection \<open>Requests\<close>

record http_request =
  ht_Method :: string
  ht_Header :: "string \<Rightarrow> string"
  ht_RemoteAddr :: string
  ht_Body :: "string option"   \<comment> \<open>None when it is over the limit or cannot be read\<close>

record ControlRequest =
  co_ProtocolVersion :: int
  co_AgentID :: string

record controlSignatureEnvelope =
  ce_Method :: string
  ce_Path :: string
  ce_AgentID :: string
  ce_Timestamp :: string
  ce_Sequence :: nat
  ce_BodySHA256 :: string

record transport =
  tr_ToUpper :: "string \<Rightarrow> string"
  tr_ParseTime :: "string \<Rightarrow> time option"
  tr_FormatTime :: "time \<Rightarrow> string"
  tr_SplitHost :: "string \<Rightarrow> string option"
  tr_Marshal :: "controlSignatureEnvelope \<Rightarrow> 8 word list option"
  tr_Control :: "string \<Rightarrow> ControlRequest option"
  tr_Heartbeat :: "string \<Rightarrow> HeartbeatRequest option"
  tr_Enroll :: "string \<Rightarrow> EnrollRequest option"
  tr_Observation :: "string \<Rightarrow> Observation option"

definition EnrollPath :: string where "EnrollPath = ''/api/v1/agent/enroll''"
definition HeartbeatPath :: string where "HeartbeatPath = ''/api/v1/agent/heartbeat''"
definition JobPollPath :: string where "JobPollPath = ''/api/v1/agent/jobs/next''"
definition ObservationPath :: string where "ObservationPath = ''/api/v1/agent/observations''"

text \<open>\<open>strconv.ParseUint\<close> in base ten with 64 bits.\<close>

definition ParseUint64 :: "string \<Rightarrow> nat option" where
  "ParseUint64 s =
     (if s = [] \<or> \<not> list_all (\<lambda>c. c \<in> set ''0123456789'') s then None
      else (let n = foldl (\<lambda>n c. 10 * n + (of_char c - 48)) 0 s
            in if n < 18446744073709551616 then Some n else None))"

text \<open>A request behind the reverse proxy carries its address in a header the shared secret vouches for.\<close>

definition RequestSourceIP :: "platform \<Rightarrow> transport \<Rightarrow> string \<Rightarrow> http_request \<Rightarrow> address option" where
  "RequestSourceIP pf tr secret q =
     (if secret \<noteq> [] then
        (if ht_Header q ''X-Xray-Checker-Proxy-Secret'' \<noteq> secret then None
         else parseExactIP pf (ht_Header q ''X-Xray-Checker-Client-IP''))
      else (case tr_SplitHost tr (ht_RemoteAddr q) of None \<Rightarrow> None | Some host \<Rightarrow> parseExactIP pf host))"

definition ControlSigningPayload ::
  "platform \<Rightarrow> transport \<Rightarrow> string \<Rightarrow> string \<Rightarrow> string \<Rightarrow> time \<Rightarrow> nat \<Rightarrow> string \<Rightarrow> 8 word list option" where
  "ControlSigningPayload pf tr method0 path0 agentID0 timestamp sequence body =
     (let method = tr_ToUpper tr (TrimSpace method0); path = TrimSpace path0; agentID = TrimSpace agentID0 in
      if method = [] \<or> path = [] \<or> agentID = [] \<or> timestamp = 0 \<or> sequence = 0 then None
      else tr_Marshal tr \<lparr>ce_Method = method, ce_Path = path, ce_AgentID = agentID,
             ce_Timestamp = tr_FormatTime tr timestamp, ce_Sequence = sequence,
             ce_BodySHA256 = hex_encode (pf_Sum256 pf body)\<rparr>)"

definition parseProbeControlAuthentication ::
  "platform \<Rightarrow> transport \<Rightarrow> string \<Rightarrow> http_request \<Rightarrow> string \<Rightarrow> string \<Rightarrow> string \<Rightarrow> authentication option" where
  "parseProbeControlAuthentication pf tr secret q body agentID path =
     (case RequestSourceIP pf tr secret q of None \<Rightarrow> None
      | Some sourceIP \<Rightarrow>
          (let headerAgentID = TrimSpace (ht_Header q ''X-Probe-Agent-ID'') in
           case (ParseUint64 (ht_Header q ''X-Probe-Sequence''), tr_ParseTime tr (ht_Header q ''X-Probe-Timestamp''),
                 DecodeString std_alphabet (ht_Header q ''X-Probe-Signature'')) of
             (Some sequence, Some timestamp, Some signature) \<Rightarrow>
               if headerAgentID = [] \<or> headerAgentID \<noteq> TrimSpace agentID then None
               else (case ControlSigningPayload pf tr (ht_Method q) path headerAgentID timestamp sequence body of
                   None \<Rightarrow> None
                 | Some payload \<Rightarrow> Some \<lparr>au_sourceIP = Some sourceIP, au_timestamp = timestamp,
                     au_sequence = sequence, au_payload = payload, au_signature = signature\<rparr>)
           | _ \<Rightarrow> None))"

subsection \<open>The endpoints\<close>

text \<open>An answer is an HTTP status or the value sent back.\<close>

type_synonym 'a answer = "nat + 'a"

definition ProbeAgentEnrollHandler ::
  "platform \<Rightarrow> transport \<Rightarrow> string \<Rightarrow> time \<Rightarrow> bool \<Rightarrow> http_request \<Rightarrow> registry \<Rightarrow>
   registry \<times> EnrollResponse answer" where
  "ProbeAgentEnrollHandler pf tr secret now written q r =
     (if ht_Method q \<noteq> ''POST'' then (r, Inl 405)
      else (case RequestSourceIP pf tr secret q of None \<Rightarrow> (r, Inl 403)
        | Some sourceIP \<Rightarrow>
           (case Option.bind (ht_Body q) (tr_Enroll tr) of None \<Rightarrow> (r, Inl 400)
            | Some input \<Rightarrow>
               (case Enroll pf now written input (Some sourceIP) r of
                  (r1, Inl e) \<Rightarrow> (r1, Inl 403) | (r1, Inr response) \<Rightarrow> (r1, Inr response)))))"

definition ProbeAgentHeartbeatHandler ::
  "platform \<Rightarrow> transport \<Rightarrow> string \<Rightarrow> time \<Rightarrow> bool \<Rightarrow> http_request \<Rightarrow> registry \<Rightarrow>
   registry \<times> HeartbeatResponse answer" where
  "ProbeAgentHeartbeatHandler pf tr secret now written q r =
     (if ht_Method q \<noteq> ''POST'' then (r, Inl 405)
      else (case ht_Body q of None \<Rightarrow> (r, Inl 400)
        | Some body \<Rightarrow>
           (case tr_Heartbeat tr body of None \<Rightarrow> (r, Inl 400)
            | Some input \<Rightarrow>
               (case parseProbeControlAuthentication pf tr secret q body (hb_AgentID input) HeartbeatPath of
                  None \<Rightarrow> (r, Inl 403)
                | Some t \<Rightarrow>
                   (case AcceptHeartbeat pf now written input t r of
                      (r1, Inl e) \<Rightarrow> (r1, Inl 403) | (r1, Inr response) \<Rightarrow> (r1, Inr response))))))"

text \<open>
  The job poll: the answer without a job is \<open>Inr None\<close>. The request is authenticated once, before the
  first attempt; \<open>waits\<close> are the waits of the long poll, with what the server does in them: the
  registry is not asked again.
\<close>

definition ProbeAgentJobHandler ::
  "platform \<Rightarrow> transport \<Rightarrow> string \<Rightarrow> time \<Rightarrow> bool \<Rightarrow> registry waits \<Rightarrow> http_request \<Rightarrow>
   registry \<times> controller \<Rightarrow> (registry \<times> controller) \<times> JobAssignment option answer" where
  "ProbeAgentJobHandler pf tr secret now written waits q s =
     (case s of (r, c) \<Rightarrow>
       if ht_Method q \<noteq> ''POST'' then (s, Inl 405)
       else (case ht_Body q of None \<Rightarrow> (s, Inl 400)
         | Some body \<Rightarrow>
            (case tr_Control tr body of None \<Rightarrow> (s, Inl 400)
             | Some input \<Rightarrow>
                if co_ProtocolVersion input \<noteq> ProtocolVersion then (s, Inl 400)
                else (case parseProbeControlAuthentication pf tr secret q body (co_AgentID input) JobPollPath of
                    None \<Rightarrow> (s, Inl 403)
                  | Some t \<Rightarrow>
                     (case AcceptControlRequest pf now written (co_AgentID input) t r of
                        (r1, Some e) \<Rightarrow> ((r1, c), Inl 403)
                      | (r1, None) \<Rightarrow>
                         (case Claim (co_AgentID input) waits (r1, c) of
                            (s1, Some (Inr assignment)) \<Rightarrow> (s1, Inr (Some assignment))
                          | (s1, Some (Inl e)) \<Rightarrow>
                              if e = ErrNoPendingJob then (s1, Inr None) else (s1, Inl 409)
                          | (s1, None) \<Rightarrow> (s1, Inl 409)))))))"

text \<open>The controller verifies observations with the registry's keys (\<open>remoteprobe.NewController\<close>).\<close>

definition ProbeAgentObservationHandler ::
  "platform \<Rightarrow> transport \<Rightarrow> string \<Rightarrow> time \<Rightarrow> bool \<Rightarrow> outside \<Rightarrow> (Observation \<Rightarrow> 8 word list option) \<Rightarrow>
   http_request \<Rightarrow> registry \<times> controller \<Rightarrow> (registry \<times> controller) \<times> (string \<times> time) answer" where
  "ProbeAgentObservationHandler pf tr secret now written w marshal q s =
     (case s of (r, c) \<Rightarrow>
       if ht_Method q \<noteq> ''POST'' then (s, Inl 405)
       else (case ht_Body q of None \<Rightarrow> (s, Inl 400)
         | Some body \<Rightarrow>
            (case tr_Observation tr body of None \<Rightarrow> (s, Inl 400)
             | Some obs \<Rightarrow>
                (case parseProbeControlAuthentication pf tr secret q body (o_AgentID obs) ObservationPath of
                   None \<Rightarrow> (s, Inl 403)
                 | Some t \<Rightarrow>
                    (case AcceptControlRequest pf now written (o_AgentID obs) t r of
                       (r1, Some e) \<Rightarrow> ((r1, c), Inl 403)
                     | (r1, None) \<Rightarrow>
                        (case controller_AcceptObservation w marshal
                            (NewEd25519Verifier (Some (ObservationPublicKey r1)) (pf_Verify pf)) obs c of
                           (c1, Inl e) \<Rightarrow> ((r1, c1), Inl 409)
                         | (c1, Inr accepted) \<Rightarrow>
                             ((r1, c1), Inr (o_JobID obs, c_AcceptedAt accepted))))))))"

subsection \<open>What passes the gateway\<close>

text \<open>The parts of an authentication, and what a passed control request says of its agent.\<close>

lemma parsed_authentication:
  assumes "parseProbeControlAuthentication pf tr secret q body agentID path = Some t"
  shows "ControlSigningPayload pf tr (ht_Method q) path agentID (au_timestamp t) (au_sequence t) body =
    Some (au_payload t)"
  using assms
  by (auto simp: parseProbeControlAuthentication_def ControlSigningPayload_def Let_def
      split: option.splits if_splits)

lemma control_origin:
  assumes "fresh_registry pf r0" and "list_all plausible es" and "0 < now"
    and "AcceptControlRequest pf now written j t (after pf es r0) = (r1, None)"
  shows "\<exists>identity observation. enrolled pf (history pf es r0) (TrimSpace j) identity observation \<and>
    lives r1 (TrimSpace j) = Active (EncodeToString std_alphabet identity)
      (EncodeToString std_alphabet observation) (au_sequence t) \<and>
    pf_Verify pf identity (au_payload t) (au_signature t) \<and> registry_ok pf r1"
proof -
  let ?e = "Control now written j t"
  have p: "list_all plausible (es @ [?e])" using assms(2,3) by simp
  have e: "perform pf ?e (after pf es r0) = (r1, True)" using assms(4) by (simp add: accepted_none_def)
  then have "after pf (es @ [?e]) r0 = r1" by (simp add: after_snoc)
  then show ?thesis
    using request_origin [OF assms(1) p, of "TrimSpace j" t] after_ok [OF assms(1) p] e by auto
qed

lemma job_handed_out:
  assumes "ProbeAgentJobHandler pf tr secret now written waits q (r, c) = (s, Inr (Some a))"
  shows "\<exists>body (input :: ControlRequest) t r1. ht_Method q = ''POST'' \<and> ht_Body q = Some body \<and>
    parseProbeControlAuthentication pf tr secret q body (co_AgentID input) JobPollPath = Some t \<and>
    AcceptControlRequest pf now written (co_AgentID input) t r = (r1, None) \<and>
    Claim (co_AgentID input) waits (r1, c) = (s, Some (Inr a))"
  using assms
  by (simp add: ProbeAgentJobHandler_def split: if_splits option.splits prod.splits sum.splits)
    (intro exI conjI; assumption)

lemma observation_taken:
  assumes "ProbeAgentObservationHandler pf tr secret now written w marshal q (r, c) = (s, Inr x)"
  shows "\<exists>body obs t r1 c1 accepted. ht_Method q = ''POST'' \<and> ht_Body q = Some body \<and>
    tr_Observation tr body = Some obs \<and>
    parseProbeControlAuthentication pf tr secret q body (o_AgentID obs) ObservationPath = Some t \<and>
    AcceptControlRequest pf now written (o_AgentID obs) t r = (r1, None) \<and>
    controller_AcceptObservation w marshal
      (NewEd25519Verifier (Some (ObservationPublicKey r1)) (pf_Verify pf)) obs c = (c1, Inr accepted)"
  using assms
  by (simp add: ProbeAgentObservationHandler_def split: if_splits option.splits prod.splits sum.splits)

lemma observation_key:
  assumes "registry_ok pf r" and "lives r (TrimSpace j) = Active k (EncodeToString std_alphabet observation) n"
    and "ObservationPublicKey r j = Some key"
  shows "key = observation"
proof -
  obtain a where a: "agent_of r (TrimSpace j) = Some a" "pa_Enabled a" "pa_EnrolledAt a \<noteq> 0"
    "DecodeString std_alphabet (pa_ObservationPublicKey a) = Some key"
    using assms(3) by (auto simp: ObservationPublicKey_def split: if_splits option.splits)
  then have "pa_ObservationPublicKey a = EncodeToString std_alphabet observation"
    using lives_known [OF assms(1) a(1)] assms(2) by (simp add: life_of_def)
  then show ?thesis using a(4) by (simp add: std_round_trip)
qed

subsection \<open>A sample exchange\<close>

text \<open>
  The agent of the sample registry, enrolled, polls for a job the controller has queued for it, and
  answers a job of the sample manager.
\<close>

definition sample_transport :: transport where
  "sample_transport = \<lparr>tr_ToUpper = id, tr_ParseTime = (\<lambda>s. Some hour), tr_FormatTime = (\<lambda>t. []),
     tr_SplitHost = Some, tr_Marshal = (\<lambda>e. Some [7]),
     tr_Control = (\<lambda>b. Some \<lparr>co_ProtocolVersion = 1, co_AgentID = b\<rparr>), tr_Heartbeat = (\<lambda>b. None),
     tr_Enroll = (\<lambda>b. None),
     tr_Observation = (\<lambda>b. Some (sample_obs\<lparr>o_AgentID := b, o_Signature := replicate 64 1\<rparr>))\<rparr>"

definition sample_http :: http_request where
  "sample_http = \<lparr>ht_Method = ''POST'',
     ht_Header = (\<lambda>k. if k = ''X-Probe-Agent-ID'' then sample_agent_id
       else if k = ''X-Probe-Sequence'' then ''12''
       else if k = ''X-Probe-Signature'' then EncodeToString std_alphabet (replicate 64 1) else []),
     ht_RemoteAddr = ''198.51.100.7'', ht_Body = Some sample_agent_id\<rparr>"

definition sample_polled :: outside where
  "sample_polled = (sample_outside None)\<lparr>ou_agents := [sample_agent sample_agent_id ''198.51.100.7'' 5]\<rparr>"

definition sample_waiting :: controller where
  "sample_waiting = fst (CreateManual sample_polled ''node'' sample_agent_id [] sample_controller)"

definition sample_enrolled :: registry where
  "sample_enrolled = after sample_platform (take 2 sample_events) sample_registry"

definition sample_session :: manager where
  "sample_session =
     fst (RegisterJob hour (Some ''j'') (Some ''n'') (sample_job\<lparr>g_AgentID := sample_agent_id\<rparr>)
       (fst (CreateSession id hour (Some ''s'') (sample_request\<lparr>q_RequestedAgents := [sample_agent_id]\<rparr>) sample_manager)))"

lemma sample_waiting_run: "controller_step\<^sup>*\<^sup>* sample_controller sample_waiting"
proof -
  have "sane_outside sample_polled"
    by (simp add: sane_outside_def sample_polled_def sample_outside_def listing_def sample_agent_def)
  then show ?thesis
    unfolding sample_waiting_def by (intro r_into_rtranclp controller_step.manual)
qed

lemma sample_two: "list_all plausible (take 2 sample_events)"
  by (simp add: sample_events_def duration_defs)

text \<open>The authentication the gateway reads off the sample request, and what the registry answers.\<close>

definition sample_request_signed :: authentication where
  "sample_request_signed = \<lparr>au_sourceIP = Some ''198.51.100.7'', au_timestamp = hour, au_sequence = 12,
     au_payload = [7], au_signature = replicate 64 1\<rparr>"

definition sample_admitted :: registry where
  "sample_admitted =
     fst (AcceptControlRequest sample_platform (hour + 3) True sample_agent_id sample_request_signed sample_enrolled)"

lemma sample_parsed:
  "parseProbeControlAuthentication sample_platform sample_transport [] sample_http sample_agent_id sample_agent_id path =
     (if TrimSpace path = [] then None else Some sample_request_signed)"
proof -
  have "TrimSpace ''198.51.100.7'' = ''198.51.100.7''" by code_simp
  then have "RequestSourceIP sample_platform sample_transport [] sample_http = Some ''198.51.100.7''"
    by (simp add: RequestSourceIP_def sample_transport_def sample_http_def parseExactIP_def sample_platform_def)
  moreover have "ParseUint64 ''12'' = Some 12" by (simp add: ParseUint64_def)
  moreover have "TrimSpace ''POST'' = ''POST''" by code_simp
  moreover have "sample_agent_id \<noteq> []" by (simp add: sample_agent_id_def)
  ultimately show ?thesis
    by (auto simp: parseProbeControlAuthentication_def ControlSigningPayload_def sample_http_def
        sample_transport_def sample_request_signed_def std_round_trip duration_defs)
qed

lemma sample_paths: "TrimSpace JobPollPath \<noteq> []" "TrimSpace ObservationPath \<noteq> []"
  by code_simp+

lemma sample_http_fields:
  "ht_Method sample_http = ''POST''" "ht_Body sample_http = Some sample_agent_id"
  "tr_Control sample_transport b = Some \<lparr>co_ProtocolVersion = 1, co_AgentID = b\<rparr>"
  "tr_Observation sample_transport b = Some (sample_obs\<lparr>o_AgentID := b, o_Signature := replicate 64 1\<rparr>)"
  by (simp_all add: sample_http_def sample_transport_def)

lemma sample_admission:
  "snd (AcceptControlRequest sample_platform (hour + 3) True sample_agent_id sample_request_signed sample_enrolled) = None \<and>
   ObservationPublicKey sample_admitted sample_agent_id = Some (replicate 32 2)"
  by code_simp

lemma sample_claimed:
  "(case snd (Claim sample_agent_id [(\<lambda>n. hour + 1, id, TimedOut)] (sample_admitted, sample_waiting)) of
      Some (Inr a) \<Rightarrow> j_AgentID (ja_Job a) = sample_agent_id | _ \<Rightarrow> False)"
  by code_simp

text \<open>The verifier is asked once, for the agent of the observation.\<close>

lemma AcceptObservation_verifier:
  assumes "verify (o_AgentID obs) = verify' (o_AgentID obs)"
  shows "controller_AcceptObservation w marshal verify obs c = controller_AcceptObservation w marshal verify' obs c"
proof -
  have e: "AcceptObservation marshal verify now obs m = AcceptObservation marshal verify' now obs m" for now m
    unfolding AcceptObservation_def assms ..
  show ?thesis unfolding controller_AcceptObservation_def e ..
qed

lemma sample_observation_taken:
  "\<not> isl (snd (controller_AcceptObservation (sample_outside None) (\<lambda>obs. Some [7])
      (\<lambda>agent payload signature. length signature = 64 \<and> payload = [7]) (sample_obs\<lparr>o_AgentID := sample_agent_id, o_Signature := replicate 64 1\<rparr>)
      (sample_controller\<lparr>ct_manager := sample_session\<rparr>)))"
  by code_simp

subsection \<open>What the gateway guarantees\<close>

text \<open>
  C13: a job leaves the gateway only to the agent it was made for. The agent the job names had enrolled
  with a token issued for it, was not reissued, revoked or deleted until its poll was accepted, and
  signed this poll, under the identity key of that enrolment: method, path, agent, time, sequence
  number and body. At delivery, after a wait in which the server went on (any run of the controller,
  anything in the registry), the job was queued for that agent, its deadline had not passed on the
  clock of the attempt that found it, and on its
  first delivery the manager holds exactly this job, running, in a session still open. The enrolment
  is not checked again during the wait.
\<close>

theorem job_goes_to_enrolled_agent:
  assumes "fresh_registry pf r0" and "list_all plausible es" and "0 < now"
    and "controller_start c0" and "controller_step\<^sup>*\<^sup>* c0 c" and "waits_run waits"
    and "ProbeAgentJobHandler pf tr secret now written waits q (after pf es r0, c) = (s, Inr (Some a))"
  shows "\<exists>identity observation body timestamp sequence payload signature (d :: controller) queued clock n.
    enrolled pf (history pf es r0) (j_AgentID (ja_Job a)) identity observation \<and> ht_Body q = Some body \<and>
    ControlSigningPayload pf tr ''POST'' JobPollPath (j_AgentID (ja_Job a)) timestamp sequence body = Some payload \<and>
    pf_Verify pf identity payload signature \<and>
    controller_step\<^sup>*\<^sup>* c d \<and> map_of (ct_assignments d) (j_JobID (ja_Job a)) = Some queued \<and>
    qa_assignment queued = a \<and> clock \<in> fst ` set waits \<and> clock n < j_ExpiresAt (ja_Job a) \<and>
    (qa_claimed queued \<or> running_as (ct_manager (snd s)) (ja_Job a))"
proof -
  obtain body and input :: ControlRequest and t r1 where q: "ht_Method q = ''POST''" "ht_Body q = Some body"
    "parseProbeControlAuthentication pf tr secret q body (co_AgentID input) JobPollPath = Some t"
    and r1: "AcceptControlRequest pf now written (co_AgentID input) t (after pf es r0) = (r1, None)"
    and claim: "Claim (co_AgentID input) waits (r1, c) = (s, Some (Inr a))"
    using job_handed_out [OF assms(7)] by (elim exE conjE)
  obtain clock d where d: "controller_step\<^sup>*\<^sup>* c d" "clock \<in> fst ` set waits"
    and at_last: "claimNow clock (TrimSpace (co_AgentID input)) d = (snd s, Some (Inr a))"
    using Claim_delivers [OF assms(6) claim] by auto
  have "wf_controller d" by (rule remote.run_ok [OF assms(4) rtranclp_trans [OF assms(5) d(1)]])
  from claim_loop_ok [OF this at_last [unfolded claimNow_def]] obtain queued n where
    j: "j_AgentID (ja_Job a) = TrimSpace (co_AgentID input)"
    and delivery: "map_of (ct_assignments d) (j_JobID (ja_Job a)) = Some queued" "qa_assignment queued = a"
      "clock n < j_ExpiresAt (ja_Job a)" "qa_claimed queued \<or> running_as (ct_manager (snd s)) (ja_Job a)"
    unfolding delivered_def by blast
  have "ControlSigningPayload pf tr ''POST'' JobPollPath (TrimSpace (co_AgentID input)) (au_timestamp t)
      (au_sequence t) body = Some (au_payload t)"
    using parsed_authentication [OF q(3)] by (simp add: q(1) ControlSigningPayload_def)
  then show ?thesis using control_origin [OF assms(1-3) r1] q(2) d delivery unfolding j by blast
qed

theorem job_goes_to_enrolled_agent_witness:
  "\<exists>identity observation. enrolled sample_platform (history sample_platform (take 2 sample_events) sample_registry)
     sample_agent_id identity observation"
proof -
  let ?waits = "[(\<lambda>n. hour + 1, id, TimedOut)] :: registry waits"
  obtain s a where c: "Claim sample_agent_id ?waits (sample_admitted, sample_waiting) = (s, Some (Inr a))"
    and a: "j_AgentID (ja_Job a) = sample_agent_id"
    using sample_claimed by (cases "Claim sample_agent_id ?waits (sample_admitted, sample_waiting)")
      (auto split: option.splits sum.splits)
  have "AcceptControlRequest sample_platform (hour + 3) True sample_agent_id sample_request_signed sample_enrolled =
      (sample_admitted, None)"
    using sample_admission by (simp add: sample_admitted_def prod_eq_iff)
  then have "ProbeAgentJobHandler sample_platform sample_transport [] (hour + 3) True
      ?waits sample_http (sample_enrolled, sample_waiting) = (s, Inr (Some a))"
    using sample_parsed [of JobPollPath] sample_paths c
    by (simp add: ProbeAgentJobHandler_def sample_http_fields ProtocolVersion_def del: Claim.simps)
  then have run: "ProbeAgentJobHandler sample_platform sample_transport [] (hour + 3) True
      ?waits sample_http (after sample_platform (take 2 sample_events) sample_registry, sample_waiting) = (s, Inr (Some a))"
    by (simp only: sample_enrolled_def)
  have w: "waits_run ?waits" by (simp add: waits_run_def)
  have now: "0 < hour + 3" by (simp add: duration_defs)
  obtain identity observation where "enrolled sample_platform
      (history sample_platform (take 2 sample_events) sample_registry) (j_AgentID (ja_Job a)) identity observation"
    using job_goes_to_enrolled_agent [OF sample_fresh sample_two now sample_controller_start sample_waiting_run w run]
    by (elim exE conjE)
  then show ?thesis unfolding a by (intro exI)
qed

text \<open>
  C20: an observation the gateway accepts comes from one enrolment of the agent it names, not ended
  since: the request is signed under its identity key, binding the body the observation was read
  from, and the observation itself under its observation key.
\<close>

theorem observation_comes_from_enrolled_agent:
  assumes "fresh_registry pf r0" and "list_all plausible es" and "0 < now"
    and "ProbeAgentObservationHandler pf tr secret now written w marshal q (after pf es r0, c) = (s, Inr x)"
  shows "\<exists>body obs identity key timestamp sequence payload signature signed.
    ht_Body q = Some body \<and> tr_Observation tr body = Some obs \<and>
    enrolled pf (history pf es r0) (TrimSpace (o_AgentID obs)) identity key \<and>
    ControlSigningPayload pf tr ''POST'' ObservationPath (o_AgentID obs) timestamp sequence body = Some payload \<and>
    pf_Verify pf identity payload signature \<and>
    marshal (unsigned obs) = Some signed \<and> pf_Verify pf key signed (o_Signature obs)"
proof -
  obtain body obs t r1 c1 accepted where q: "ht_Method q = ''POST''" "ht_Body q = Some body"
    "tr_Observation tr body = Some obs"
    "parseProbeControlAuthentication pf tr secret q body (o_AgentID obs) ObservationPath = Some t"
    and r1: "AcceptControlRequest pf now written (o_AgentID obs) t (after pf es r0) = (r1, None)"
    and c1: "controller_AcceptObservation w marshal
      (NewEd25519Verifier (Some (ObservationPublicKey r1)) (pf_Verify pf)) obs c = (c1, Inr accepted)"
    using observation_taken [OF assms(4)] by (elim exE conjE)
  obtain m where "AcceptObservation marshal (NewEd25519Verifier (Some (ObservationPublicKey r1)) (pf_Verify pf))
      (ou_clock w 0) obs (ct_manager c) = (m, Inr accepted)"
    using c1 by (auto simp: controller_AcceptObservation_def split: option.splits prod.splits if_splits sum.splits)
  then obtain signed where signed: "marshal (unsigned obs) = Some signed"
    "NewEd25519Verifier (Some (ObservationPublicKey r1)) (pf_Verify pf) (o_AgentID obs) signed (o_Signature obs)"
    by (elim AcceptObservation_ok)
  then obtain key where key: "ObservationPublicKey r1 (o_AgentID obs) = Some key"
    "pf_Verify pf key signed (o_Signature obs)"
    by (auto simp: NewEd25519Verifier_def split: option.splits)
  obtain identity observation where origin:
    "enrolled pf (history pf es r0) (TrimSpace (o_AgentID obs)) identity observation"
    "lives r1 (TrimSpace (o_AgentID obs)) = Active (EncodeToString std_alphabet identity)
      (EncodeToString std_alphabet observation) (au_sequence t)"
    "pf_Verify pf identity (au_payload t) (au_signature t)" "registry_ok pf r1"
    using control_origin [OF assms(1-3) r1] by blast
  then have "key = observation" using observation_key key(1) by blast
  then show ?thesis
    using q origin(1,3) signed(1) key(2) parsed_authentication [OF q(4)] by (simp only: q(1)) blast
qed

theorem observation_comes_from_enrolled_agent_witness:
  "\<exists>identity key. enrolled sample_platform (history sample_platform (take 2 sample_events) sample_registry)
     sample_agent_id identity key"
proof -
  let ?obs = "sample_obs\<lparr>o_AgentID := sample_agent_id, o_Signature := replicate 64 1\<rparr>"
  let ?c = "sample_controller\<lparr>ct_manager := sample_session\<rparr>"
  have admitted: "AcceptControlRequest sample_platform (hour + 3) True sample_agent_id sample_request_signed
      sample_enrolled = (sample_admitted, None)"
    using sample_admission by (simp add: sample_admitted_def prod_eq_iff)
  have "NewEd25519Verifier (Some (ObservationPublicKey sample_admitted)) (pf_Verify sample_platform) sample_agent_id =
      (\<lambda>payload signature. length signature = 64 \<and> payload = [7])"
    using sample_admission by (auto simp: NewEd25519Verifier_def sample_platform_def fun_eq_iff)
  then have verified: "controller_AcceptObservation (sample_outside None) (\<lambda>obs. Some [7])
      (NewEd25519Verifier (Some (ObservationPublicKey sample_admitted)) (pf_Verify sample_platform)) ?obs ?c =
    controller_AcceptObservation (sample_outside None) (\<lambda>obs. Some [7])
      (\<lambda>agent payload signature. length signature = 64 \<and> payload = [7]) ?obs ?c"
    by (intro AcceptObservation_verifier) simp
  obtain c1 x where c1: "controller_AcceptObservation (sample_outside None) (\<lambda>obs. Some [7])
      (\<lambda>agent payload signature. length signature = 64 \<and> payload = [7]) ?obs ?c = (c1, Inr x)"
    using sample_observation_taken by (metis isl_def prod.collapse sum.collapse(2))
  have "ProbeAgentObservationHandler sample_platform sample_transport [] (hour + 3) True (sample_outside None)
      (\<lambda>obs. Some [7]) sample_http (sample_enrolled, ?c) =
    ((sample_admitted, c1), Inr (o_JobID ?obs, c_AcceptedAt x))"
    using sample_parsed [of ObservationPath] sample_paths admitted verified c1
    by (simp add: ProbeAgentObservationHandler_def sample_http_fields)
  from observation_comes_from_enrolled_agent [OF sample_fresh sample_two _ this [unfolded sample_enrolled_def]]
  show ?thesis by (auto simp: duration_defs sample_http_fields)
qed

end
