(* ===== verification/AgentClient.thy ===== *)
theory AgentClient
  imports AgentGateway
begin

text \<open>
  The agent's side of the protocol, \<open>src/probeagent/client.go\<close>: an identity of two private keys and
  a counter, kept in a file; enrolment, heartbeats and the polling for jobs, each request signed with
  the next value of the counter, which is written to the file before the request leaves.

  The state is the configuration, the identity, the file and the jobs the controller refused. The
  controller is behind the four functions of \<open>controller_api\<close>: a request leads to a new state of
  the server and a reply, lost when the connection failed or the response could not be read or
  decoded. Key generation, the outcome of writes, clocks and the executor are arguments; the hooks
  only write the log.
\<close>

subsection \<open>Data\<close>

record ClientConfig =
  cx_AgentID :: string
  cx_EnrollmentToken :: string
  cx_ControllerURL :: string
  cx_ControllerIP :: string
  cx_IdentityDir :: string
  cx_AgentVersion :: string
  cx_Capabilities :: "string list"
  cx_RequestTimeout :: duration
  cx_JobPollInterval :: duration

record IdentityFile =
  id_Version :: int
  id_AgentID :: string
  id_IdentityPrivateKey :: string
  id_ObservationPrivateKey :: string
  id_Enrolled :: bool
  id_NextSequence :: nat

datatype identity_disk = No_identity | Garbled_identity | Identity IdentityFile

record client =
  cl_config :: ClientConfig
  cl_identity :: IdentityFile
  cl_file :: identity_disk
  cl_refusedJobs :: "string set"

datatype client_error =
    InvalidIdentityConfiguration | TimeoutTooShort | PollTooShort | InvalidController | NoIdentityDir
  | IdentityUndecodable | IdentityMismatch | IdentityUnprotected | IdentityUnreadable | KeyGeneration
  | InvalidKeys | IdentityNotWritten | TokenRequired | InvalidHealth | EncodingFailed
  | IncompleteBinding | InvalidJobBinding | RequestFailed | ControllerRejection nat

text \<open>What the standard library does for the client: Ed25519 keys and the encoding of requests.\<close>

record client_platform =
  cp_Public :: "8 word list \<Rightarrow> 8 word list"
  cp_Sign :: "8 word list \<Rightarrow> 8 word list \<Rightarrow> 8 word list"
  cp_Enroll :: "EnrollRequest \<Rightarrow> string option"
  cp_Heartbeat :: "HeartbeatRequest \<Rightarrow> string option"
  cp_Control :: "ControlRequest \<Rightarrow> string option"
  cp_Observation :: "Observation \<Rightarrow> string option"

datatype 'a reply = Lost | Rejected nat | Answered 'a

record 's controller_api =
  ap_enroll :: "http_request \<Rightarrow> 's \<Rightarrow> 's \<times> EnrollResponse reply"
  ap_heartbeat :: "http_request \<Rightarrow> 's \<Rightarrow> 's \<times> HeartbeatResponse reply"
  ap_job :: "http_request \<Rightarrow> 's \<Rightarrow> 's \<times> JobAssignment option reply"
  ap_observation :: "http_request \<Rightarrow> 's \<Rightarrow> 's \<times> (string \<times> time) reply"

definition IdentityVersion :: int where "IdentityVersion = 1"

text \<open>A refusal that concerns one job only.\<close>

definition JobScoped :: "nat \<Rightarrow> bool" where
  "JobScoped code \<longleftrightarrow> code \<noteq> 401 \<and> code \<noteq> 403 \<and> 400 \<le> code \<and> code < 500"

subsection \<open>The identity\<close>

definition privateKeys :: "IdentityFile \<Rightarrow> (8 word list \<times> 8 word list) option" where
  "privateKeys f =
     (case (DecodeString std_alphabet (id_IdentityPrivateKey f),
            DecodeString std_alphabet (id_ObservationPrivateKey f)) of
        (Some identity, Some observation) \<Rightarrow>
          if length identity \<noteq> 64 \<or> length observation \<noteq> 64 \<or> identity = observation then None
          else Some (identity, observation)
      | _ \<Rightarrow> None)"

definition persistIdentity :: "bool \<Rightarrow> client \<Rightarrow> client \<times> bool" where
  "persistIdentity written c =
     (if written then (c\<lparr>cl_file := Identity (cl_identity c)\<rparr>, True) else (c, False))"

text \<open>
  \<open>readable\<close>, \<open>protected\<close>, \<open>written\<close>: whether the file could be read, its mode set, the new one
  written; \<open>generated\<close>: the two private keys the generator gave.
\<close>

definition loadOrCreateIdentity ::
  "bool \<Rightarrow> bool \<Rightarrow> bool \<Rightarrow> (8 word list \<times> 8 word list) option \<Rightarrow> client \<Rightarrow> client_error + client" where
  "loadOrCreateIdentity readable protected written generated c =
     (case cl_file c of
        No_identity \<Rightarrow>
          (case generated of None \<Rightarrow> Inl KeyGeneration
           | Some (identityPrivate, observationPrivate) \<Rightarrow>
              (case persistIdentity written (c\<lparr>cl_identity :=
                  \<lparr>id_Version = IdentityVersion, id_AgentID = cx_AgentID (cl_config c),
                   id_IdentityPrivateKey = EncodeToString std_alphabet identityPrivate,
                   id_ObservationPrivateKey = EncodeToString std_alphabet observationPrivate,
                   id_Enrolled = False, id_NextSequence = 0\<rparr>\<rparr>) of
                 (c1, True) \<Rightarrow> Inr c1 | (c1, False) \<Rightarrow> Inl IdentityNotWritten))
      | content \<Rightarrow>
          if \<not> readable then Inl IdentityUnreadable
          else (case content of
              Identity f \<Rightarrow>
                if id_Version f \<noteq> IdentityVersion \<or> id_AgentID f \<noteq> cx_AgentID (cl_config c) then Inl IdentityMismatch
                else if \<not> protected then Inl IdentityUnprotected
                else if privateKeys f = None then Inl InvalidKeys
                else Inr (c\<lparr>cl_identity := f\<rparr>)
            | _ \<Rightarrow> Inl IdentityUndecodable))"

text \<open>\<open>certificates\<close>: whether the configured certificate file could be used.\<close>

definition newPinnedHTTPClient :: "platform \<Rightarrow> string \<Rightarrow> string \<Rightarrow> bool \<Rightarrow> bool" where
  "newPinnedHTTPClient pf controllerURL controllerIP certificates =
     ((case pf_ParseURL pf controllerURL of None \<Rightarrow> False
       | Some u \<Rightarrow> ur_Scheme u = ''https'' \<and> ur_Host u \<noteq> [] \<and> \<not> ur_User u \<and>
           ur_RawQuery u = [] \<and> ur_Fragment u = []) \<and>
      pf_ParseAddr pf (TrimSpace controllerIP) \<noteq> None \<and> certificates)"

definition client_defaults :: "platform \<Rightarrow> ClientConfig \<Rightarrow> ClientConfig" where
  "client_defaults pf cfg =
     cfg\<lparr>cx_AgentID := TrimSpace (cx_AgentID cfg),
       cx_ControllerURL := TrimRight_slash (TrimSpace (cx_ControllerURL cfg)),
       cx_ControllerIP := normalizeIP pf (cx_ControllerIP cfg),
       cx_IdentityDir := TrimSpace (cx_IdentityDir cfg),
       cx_AgentVersion := TrimSpace (cx_AgentVersion cfg),
       cx_Capabilities := normalizeCapabilities (cx_Capabilities cfg),
       cx_RequestTimeout := (if cx_RequestTimeout cfg = 0 then 20 * second else cx_RequestTimeout cfg),
       cx_JobPollInterval := (if cx_JobPollInterval cfg = 0 then 5 * second else cx_JobPollInterval cfg)\<rparr>"

definition empty_identity :: IdentityFile where
  "empty_identity = \<lparr>id_Version = 0, id_AgentID = [], id_IdentityPrivateKey = [],
     id_ObservationPrivateKey = [], id_Enrolled = False, id_NextSequence = 0\<rparr>"

definition NewClient ::
  "platform \<Rightarrow> ClientConfig \<Rightarrow> bool \<Rightarrow> bool \<Rightarrow> bool \<Rightarrow> bool \<Rightarrow> bool \<Rightarrow>
   (8 word list \<times> 8 word list) option \<Rightarrow> identity_disk \<Rightarrow> client_error + client" where
  "NewClient pf cfg0 certificates directory readable protected written generated file =
     (let cfg = client_defaults pf cfg0 in
      if \<not> validIdentifier (cx_AgentID cfg) 96 \<or> cx_IdentityDir cfg = [] \<or>
          \<not> validShortText (cx_AgentVersion cfg) 128 then Inl InvalidIdentityConfiguration
      else if cx_RequestTimeout cfg < second then Inl TimeoutTooShort
      else if cx_JobPollInterval cfg < second then Inl PollTooShort
      else if \<not> newPinnedHTTPClient pf (cx_ControllerURL cfg) (cx_ControllerIP cfg) certificates
        then Inl InvalidController
      else if \<not> directory then Inl NoIdentityDir
      else loadOrCreateIdentity readable protected written generated
        \<lparr>cl_config = cfg, cl_identity = empty_identity, cl_file = file, cl_refusedJobs = {}\<rparr>)"

subsection \<open>Requests\<close>

text \<open>\<open>strconv.FormatUint\<close> in base ten.\<close>

fun FormatUint :: "nat \<Rightarrow> string" where
  "FormatUint n = (if n < 10 then [char_of (48 + n)] else FormatUint (n div 10) @ [char_of (48 + n mod 10)])"

declare FormatUint.simps [simp del]

text \<open>
  The headers by name; a header that is not set reads as the empty text. The address the request
  comes from is the network's to say.
\<close>

definition signed_headers :: "string \<Rightarrow> string \<Rightarrow> string \<Rightarrow> string \<Rightarrow> string \<Rightarrow> string" where
  "signed_headers agentID timestamp sequence signature k =
     (if k = ''X-Probe-Agent-ID'' then agentID
      else if k = ''X-Probe-Timestamp'' then timestamp
      else if k = ''X-Probe-Sequence'' then sequence
      else if k = ''X-Probe-Signature'' then signature
      else if k = ''Content-Type'' then ''application/json'' else [])"

definition client_request :: "(string \<Rightarrow> string) \<Rightarrow> string \<Rightarrow> http_request" where
  "client_request headers body =
     \<lparr>ht_Method = ''POST'', ht_Header = headers, ht_RemoteAddr = [], ht_Body = Some body\<rparr>"

text \<open>The signed request for a path and a body: the counter is on disk before the request exists.\<close>

definition sign_request ::
  "platform \<Rightarrow> transport \<Rightarrow> client_platform \<Rightarrow> bool \<Rightarrow> time \<Rightarrow> string \<Rightarrow> string \<Rightarrow> client \<Rightarrow>
   client \<times> (client_error + http_request)" where
  "sign_request pf tr cp written now path body c =
     (case privateKeys (cl_identity c) of None \<Rightarrow> (c, Inl InvalidKeys)
      | Some (privateKey, observationKey) \<Rightarrow>
          (let sequence = (id_NextSequence (cl_identity c) + 1) mod 18446744073709551616;
               c1 = c\<lparr>cl_identity := (cl_identity c)\<lparr>id_NextSequence := sequence\<rparr>\<rparr>;
               agentID = cx_AgentID (cl_config c)
           in case persistIdentity written c1 of
                (c2, False) \<Rightarrow> (c2, Inl IdentityNotWritten)
              | (c2, True) \<Rightarrow>
                 (case ControlSigningPayload pf tr ''POST'' path agentID now sequence body of
                    None \<Rightarrow> (c2, Inl IncompleteBinding)
                  | Some payload \<Rightarrow>
                      (c2, Inr (client_request (signed_headers agentID (tr_FormatTime tr now) (FormatUint sequence)
                         (EncodeToString std_alphabet (cp_Sign cp privateKey payload))) body)))))"

definition reply_result :: "'a reply \<Rightarrow> client_error + 'a" where
  "reply_result x = (case x of Lost \<Rightarrow> Inl RequestFailed | Rejected code \<Rightarrow> Inl (ControllerRejection code)
     | Answered y \<Rightarrow> Inr y)"

definition postSignedJSONBytes ::
  "platform \<Rightarrow> transport \<Rightarrow> client_platform \<Rightarrow> bool \<Rightarrow> time \<Rightarrow> string \<Rightarrow> string \<Rightarrow>
   (http_request \<Rightarrow> 's \<Rightarrow> 's \<times> 'a reply) \<Rightarrow> client \<times> 's \<Rightarrow> (client \<times> 's) \<times> (client_error + 'a)" where
  "postSignedJSONBytes pf tr cp written now path body post x =
     (case x of (c, s) \<Rightarrow>
       (case sign_request pf tr cp written now path body c of
          (c1, Inl e) \<Rightarrow> ((c1, s), Inl e)
        | (c1, Inr q) \<Rightarrow> (case post q s of (s1, y) \<Rightarrow> ((c1, s1), reply_result y))))"

subsection \<open>Enrolment and heartbeats\<close>

definition heartbeat_request :: "ClientConfig \<Rightarrow> string \<Rightarrow> HeartbeatRequest" where
  "heartbeat_request cfg health =
     \<lparr>hb_ProtocolVersion = ProtocolVersion, hb_AgentID = cx_AgentID cfg, hb_AgentVersion = cx_AgentVersion cfg,
      hb_Capabilities = cx_Capabilities cfg, hb_Health = health\<rparr>"

definition SendHeartbeat ::
  "platform \<Rightarrow> transport \<Rightarrow> client_platform \<Rightarrow> 's controller_api \<Rightarrow> bool \<Rightarrow> time \<Rightarrow> string \<Rightarrow> client \<times> 's \<Rightarrow>
   (client \<times> 's) \<times> (client_error + HeartbeatResponse)" where
  "SendHeartbeat pf tr cp api written now health x =
     (if \<not> validHealth health then (x, Inl InvalidHealth)
      else (case cp_Heartbeat cp (heartbeat_request (cl_config (fst x)) health) of
          None \<Rightarrow> (x, Inl EncodingFailed)
        | Some body \<Rightarrow> postSignedJSONBytes pf tr cp written now HeartbeatPath body (ap_heartbeat api) x))"

definition mark_enrolled :: "bool \<Rightarrow> client \<Rightarrow> client \<times> bool" where
  "mark_enrolled written c =
     persistIdentity written (c\<lparr>cl_identity := (cl_identity c)\<lparr>id_Enrolled := True\<rparr>\<rparr>)"

definition finish_enrolment :: "bool \<Rightarrow> int \<Rightarrow> client \<times> 's \<Rightarrow> (client \<times> 's) \<times> (client_error + int)" where
  "finish_enrolment saved interval y =
     (case mark_enrolled saved (fst y) of
        (c, True) \<Rightarrow> ((c, snd y), Inr interval) | (c, False) \<Rightarrow> ((c, snd y), Inl IdentityNotWritten))"

text \<open>
  The token may have been used by this agent before a crash: the identity in the file proves itself by
  a heartbeat. \<open>written\<close> and \<open>saved\<close>: the write of the counter for it and that of the enrolled mark.
\<close>

definition recover_enrolment ::
  "platform \<Rightarrow> transport \<Rightarrow> client_platform \<Rightarrow> 's controller_api \<Rightarrow> bool \<Rightarrow> bool \<Rightarrow> time \<Rightarrow> client_error \<Rightarrow>
   client \<times> 's \<Rightarrow> (client \<times> 's) \<times> (client_error + int)" where
  "recover_enrolment pf tr cp api written saved now e y =
     (case SendHeartbeat pf tr cp api written now ''starting'' y of
        (y1, Inr response) \<Rightarrow> finish_enrolment saved DefaultHeartbeatIntervalSec y1
      | (y1, Inl e1) \<Rightarrow> (y1, Inl e))"

definition enrol_request :: "client_platform \<Rightarrow> 8 word list \<times> 8 word list \<Rightarrow> ClientConfig \<Rightarrow> EnrollRequest" where
  "enrol_request cp keys cfg =
     \<lparr>er_ProtocolVersion = ProtocolVersion, er_AgentID = cx_AgentID cfg,
      er_EnrollmentToken = cx_EnrollmentToken cfg, er_IdentityPublicKey = cp_Public cp (fst keys),
      er_ObservationPublicKey = cp_Public cp (snd keys), er_AgentVersion = cx_AgentVersion cfg,
      er_Capabilities = cx_Capabilities cfg\<rparr>"

definition unsigned_headers :: "string \<Rightarrow> string" where
  "unsigned_headers k = (if k = ''Content-Type'' then ''application/json'' else [])"

definition EnsureEnrolled ::
  "platform \<Rightarrow> transport \<Rightarrow> client_platform \<Rightarrow> 's controller_api \<Rightarrow> bool \<Rightarrow> bool \<Rightarrow> time \<Rightarrow> client \<times> 's \<Rightarrow>
   (client \<times> 's) \<times> (client_error + int)" where
  "EnsureEnrolled pf tr cp api written saved now x =
     (case x of (c, s) \<Rightarrow>
       if id_Enrolled (cl_identity c) then (x, Inr DefaultHeartbeatIntervalSec)
       else if TrimSpace (cx_EnrollmentToken (cl_config c)) = [] then (x, Inl TokenRequired)
       else (case privateKeys (cl_identity c) of None \<Rightarrow> (x, Inl InvalidKeys)
         | Some keys \<Rightarrow>
            (case cp_Enroll cp (enrol_request cp keys (cl_config c)) of
               None \<Rightarrow> recover_enrolment pf tr cp api written saved now EncodingFailed x
             | Some body \<Rightarrow>
                (case ap_enroll api (client_request unsigned_headers body) s of
                   (s1, y) \<Rightarrow>
                     (case reply_result y of
                        Inl e \<Rightarrow> recover_enrolment pf tr cp api written saved now e (c, s1)
                      | Inr response \<Rightarrow> finish_enrolment saved
                          (if es_HeartbeatInterval response < 5 then DefaultHeartbeatIntervalSec
                           else es_HeartbeatInterval response) (c, s1))))))"

subsection \<open>Jobs\<close>

definition jobRefused :: "string \<Rightarrow> client \<Rightarrow> bool" where
  "jobRefused jobID c \<longleftrightarrow> jobID \<in> cl_refusedJobs c"

definition markJobRefused :: "string \<Rightarrow> client \<Rightarrow> client" where
  "markJobRefused jobID c =
     (let kept = (if card (cl_refusedJobs c) \<ge> 256 then {} else cl_refusedJobs c)
      in c\<lparr>cl_refusedJobs := insert jobID kept\<rparr>)"

text \<open>
  One round of the job loop. \<open>execute\<close> is the executor, \<open>marshal\<close> the JSON the observation's
  signature covers; \<open>written\<close> and \<open>saved\<close> are the writes of the counter for the poll and the post.
\<close>

definition pollAndExecute ::
  "platform \<Rightarrow> transport \<Rightarrow> client_platform \<Rightarrow> 's controller_api \<Rightarrow> (JobAssignment \<Rightarrow> Observation) \<Rightarrow>
   (Observation \<Rightarrow> 8 word list option) \<Rightarrow> bool \<Rightarrow> bool \<Rightarrow> (nat \<Rightarrow> time) \<Rightarrow> client \<times> 's \<Rightarrow>
   (client \<times> 's) \<times> client_error option" where
  "pollAndExecute pf tr cp api execute marshal written saved clock x =
     (let cfg = cl_config (fst x) in
      case cp_Control cp \<lparr>co_ProtocolVersion = ProtocolVersion, co_AgentID = cx_AgentID cfg\<rparr> of
        None \<Rightarrow> (x, Some EncodingFailed)
      | Some body \<Rightarrow>
          (case postSignedJSONBytes pf tr cp written (clock 0) JobPollPath body (ap_job api) x of
             (y, Inl e) \<Rightarrow> (y, Some e)
           | (y, Inr None) \<Rightarrow> (y, None)
           | (y, Inr (Some a)) \<Rightarrow>
               if j_AgentID (ja_Job a) \<noteq> cx_AgentID cfg \<or> \<not> j_ExpiresAt (ja_Job a) > clock 1
                 then (y, Some InvalidJobBinding)
               else if jobRefused (j_JobID (ja_Job a)) (fst y) then (y, None)
               else (case privateKeys (cl_identity (fst y)) of None \<Rightarrow> (y, Some InvalidKeys)
                 | Some (identityPrivate, observationPrivate) \<Rightarrow>
                    (case signed_observation marshal (cp_Sign cp observationPrivate) (cx_AgentID cfg)
                        (cx_AgentVersion cfg) (execute a) of
                       None \<Rightarrow> (y, Some EncodingFailed)
                     | Some obs \<Rightarrow>
                        (case cp_Observation cp obs of None \<Rightarrow> (y, Some EncodingFailed)
                         | Some result \<Rightarrow>
                            (case postSignedJSONBytes pf tr cp saved (clock 2) ObservationPath result
                                (ap_observation api) y of
                               (z, Inr accepted) \<Rightarrow> (z, None)
                             | (z, Inl e) \<Rightarrow>
                                 (case e of ControllerRejection code \<Rightarrow>
                                    if JobScoped code
                                    then ((markJobRefused (j_JobID (ja_Job a)) (fst z), snd z), Some e)
                                    else (z, Some e)
                                  | _ \<Rightarrow> (z, Some e))))))))"

end
