(* ===== verification/AgentSession.thy ===== *)
theory AgentSession
  imports AgentClient
begin

text \<open>
  The agent and the server together. The locale \<open>controller_service\<close> is the contract between the
  client and the controller it talks to: the server's counter for the agent is moved by the client's
  own requests only. The client's operations keep the counter in its file at or above the server's
  under that contract; the gateway with its registry fulfils it, whatever the network loses. From
  this follows that an enrolled agent is heard: no crash, restart, lost request, lost reply or full
  disk on either side makes the server take the agent's next request for a replay.
\<close>

subsection \<open>Numbers in headers\<close>

definition digits_value :: "nat \<Rightarrow> string \<Rightarrow> nat" where
  "digits_value = foldl (\<lambda>n c. 10 * n + (of_char c - 48))"

lemma FormatUint_digits: "list_all (\<lambda>c. c \<in> set ''0123456789'') (FormatUint n) \<and> FormatUint n \<noteq> []"
proof (induction n rule: FormatUint.induct)
  case (1 n)
  have d: "char_of (48 + m) \<in> set ''0123456789''" if "m < 10" for m :: nat
  proof -
    let ?P = "\<lambda>m. char_of (48 + m) \<in> set ''0123456789''"
    have all: "list_all ?P [0, 1, 2, 3, 4, 5, 6, 7, 8, 9 :: nat]"
      by code_simp
    have "m \<in> set [0, 1, 2, 3, 4, 5, 6, 7, 8, 9]" using that by auto
    from bspec [OF all [unfolded list_all_iff] this] show ?thesis .
  qed
  show ?case
    using 1 d [of n] d [of "n mod 10"] by (subst (1 2) FormatUint.simps) auto
qed

lemma FormatUint_value: "digits_value 0 (FormatUint n) = n"
proof (induction n rule: FormatUint.induct)
  case (1 n)
  have c: "m < 10 \<Longrightarrow> of_char (char_of (48 + m) :: char) - 48 = m" for m :: nat by simp
  show ?case
    using 1 c [of n] c [of "n mod 10"] by (subst FormatUint.simps) (auto simp: digits_value_def)
qed

lemma ParseUint64_FormatUint: "n < 18446744073709551616 \<Longrightarrow> ParseUint64 (FormatUint n) = Some n"
  using FormatUint_digits [of n] FormatUint_value [of n]
  by (simp add: ParseUint64_def digits_value_def)

subsection \<open>The contract of the controller\<close>

definition sequence_of :: "http_request \<Rightarrow> nat option" where
  "sequence_of q = ParseUint64 (ht_Header q ''X-Probe-Sequence'')"

text \<open>\<open>at_most m s\<close>: the counter the server keeps for the agent is at most \<open>m\<close>.\<close>

locale controller_service =
  fixes api :: "'s controller_api"
    and at_most :: "nat \<Rightarrow> 's \<Rightarrow> bool"
  assumes at_most_mono: "at_most m s \<Longrightarrow> m \<le> n \<Longrightarrow> at_most n s"
    and enroll_keeps: "at_most m s \<Longrightarrow> sequence_of q = None \<Longrightarrow> at_most m (fst (ap_enroll api q s))"
    and heartbeat_keeps: "at_most m s \<Longrightarrow> sequence_of q = Some m \<Longrightarrow> at_most m (fst (ap_heartbeat api q s))"
    and job_keeps: "at_most m s \<Longrightarrow> sequence_of q = Some m \<Longrightarrow> at_most m (fst (ap_job api q s))"
    and observation_keeps: "at_most m s \<Longrightarrow> sequence_of q = Some m \<Longrightarrow> at_most m (fst (ap_observation api q s))"

text \<open>
  The client's side: its file holds the keys it uses, under its name, and no counter the server
  could have seen is above the one in the file.
\<close>

definition identity_kept :: "string \<Rightarrow> 8 word list \<times> 8 word list \<Rightarrow> client \<Rightarrow> IdentityFile \<Rightarrow> bool" where
  "identity_kept i keys c f \<longleftrightarrow> cx_AgentID (cl_config c) = i \<and> validIdentifier i 96 \<and>
     validShortText (cx_AgentVersion (cl_config c)) 128 \<and> cl_file c = Identity f \<and>
     id_Version f = IdentityVersion \<and> id_AgentID f = i \<and> privateKeys f = Some keys \<and>
     id_Version (cl_identity c) = IdentityVersion \<and> id_AgentID (cl_identity c) = i \<and>
     privateKeys (cl_identity c) = Some keys \<and> id_NextSequence f \<le> id_NextSequence (cl_identity c)"

text \<open>The counter has not run out within \<open>n\<close> requests.\<close>

definition counter_left :: "nat \<Rightarrow> client \<Rightarrow> bool" where
  "counter_left n c \<longleftrightarrow> id_NextSequence (cl_identity c) + n < 18446744073709551616"

lemma privateKeys_update [simp]:
  "privateKeys (f\<lparr>id_Enrolled := b\<rparr>) = privateKeys f" "privateKeys (f\<lparr>id_NextSequence := n\<rparr>) = privateKeys f"
  by (simp_all add: privateKeys_def)

lemma kept_privateKeys:
  assumes "identity_kept i keys c f"
  shows "privateKeys (cl_identity c) = Some keys"
  using assms by (simp add: identity_kept_def)

context controller_service
begin

definition ahead :: "string \<Rightarrow> 8 word list \<times> 8 word list \<Rightarrow> client \<times> 's \<Rightarrow> bool" where
  "ahead i keys x \<longleftrightarrow> (\<exists>f. identity_kept i keys (fst x) f \<and> at_most (id_NextSequence f) (snd x))"

lemma signed_ahead:
  assumes "ahead i keys (c, s)" and "counter_left (Suc n) c"
    and "sign_request pf tr cp written now path body c = (c1, y)"
  shows "ahead i keys (c1, s) \<and> counter_left n c1 \<and> cl_config c1 = cl_config c \<and>
    (\<forall>q. y = Inr q \<longrightarrow> sequence_of q = Some (id_NextSequence (cl_identity c1)) \<and>
       identity_kept i keys c1 (cl_identity c1))"
proof -
  obtain f where k: "identity_kept i keys c f" and m: "at_most (id_NextSequence f) s"
    using assms(1) by (auto simp: ahead_def)
  note keys = kept_privateKeys [OF k]
  let ?n = "Suc (id_NextSequence (cl_identity c))"
  have n: "?n < 18446744073709551616" using assms(2) by (simp add: counter_left_def)
  let ?c = "c\<lparr>cl_identity := (cl_identity c)\<lparr>id_NextSequence := ?n\<rparr>\<rparr>"
  have kept: "identity_kept i keys ?c f" using k by (auto simp: identity_kept_def)
  have left: "counter_left n ?c" using assms(2) by (simp add: counter_left_def)
  show ?thesis
  proof (cases written)
    case False
    then show ?thesis
      using assms(3) keys n kept m left
      by (auto simp: sign_request_def persistIdentity_def Let_def ahead_def split: prod.splits)
  next
    case True
    let ?d = "?c\<lparr>cl_file := Identity (cl_identity ?c)\<rparr>"
    have kd: "identity_kept i keys ?d (cl_identity ?d)"
      using k keys by (auto simp: identity_kept_def)
    have "at_most (id_NextSequence (cl_identity ?d)) s"
      using k m by (intro at_most_mono [OF m]) (simp add: identity_kept_def)
    then have a: "ahead i keys (?d, s)" using kd by (auto simp: ahead_def)
    have c1: "c1 = ?d" and q: "\<And>q. y = Inr q \<Longrightarrow> ht_Header q ''X-Probe-Sequence'' = FormatUint ?n"
      using assms(3) keys n True
      by (auto simp: sign_request_def persistIdentity_def Let_def client_request_def signed_headers_def
          split: prod.splits option.splits)
    show ?thesis
      using a kd left q by (auto simp: c1 sequence_of_def ParseUint64_FormatUint [OF n] counter_left_def)
  qed
qed

text \<open>A signed request, whatever becomes of it.\<close>

lemma posted_ahead:
  assumes "ahead i keys (c, s)" and "counter_left (Suc n) c"
    and post: "\<And>m s q. at_most m s \<Longrightarrow> sequence_of q = Some m \<Longrightarrow> at_most m (fst (post q s))"
    and "postSignedJSONBytes pf tr cp written now path body post (c, s) = (x, y)"
  shows "ahead i keys x \<and> counter_left n (fst x)"
proof -
  obtain c1 r where r: "sign_request pf tr cp written now path body c = (c1, r)" by fastforce
  note signed = signed_ahead [OF assms(1,2) r]
  show ?thesis
  proof (cases r)
    case (Inl e)
    then show ?thesis using assms(4) signed by (auto simp: postSignedJSONBytes_def r)
  next
    case (Inr q)
    then have x: "x = (c1, fst (post q s))"
      using assms(4) by (auto simp: postSignedJSONBytes_def r split: prod.splits)
    have k: "identity_kept i keys c1 (cl_identity c1)" and n: "counter_left n c1"
      and q: "sequence_of q = Some (id_NextSequence (cl_identity c1))"
      and a: "ahead i keys (c1, s)" using signed Inr by auto
    have "at_most (id_NextSequence (cl_identity c1)) s"
      using a by (auto simp: ahead_def identity_kept_def intro: at_most_mono)
    then show ?thesis using post q k n by (auto simp: ahead_def x)
  qed
qed

lemma SendHeartbeat_ahead:
  assumes "ahead i keys (c, s)" and "counter_left (Suc n) c"
  shows "ahead i keys (fst (SendHeartbeat pf tr cp api written now health (c, s))) \<and>
    counter_left n (fst (fst (SendHeartbeat pf tr cp api written now health (c, s))))"
proof (cases "snd (SendHeartbeat pf tr cp api written now health (c, s)) \<in> {Inl InvalidHealth, Inl EncodingFailed} \<and>
    fst (SendHeartbeat pf tr cp api written now health (c, s)) = (c, s)")
  case True
  then show ?thesis using assms by (simp add: counter_left_def)
next
  case False
  then obtain body where e: "SendHeartbeat pf tr cp api written now health (c, s) =
      postSignedJSONBytes pf tr cp written now HeartbeatPath body (ap_heartbeat api) (c, s)"
    by (auto simp: SendHeartbeat_def Let_def split: option.splits if_splits)
  obtain x y where p: "postSignedJSONBytes pf tr cp written now HeartbeatPath body (ap_heartbeat api) (c, s) = (x, y)"
    by fastforce
  show ?thesis using posted_ahead [OF assms heartbeat_keeps p] unfolding e p by simp
qed

lemma mark_enrolled_ahead:
  assumes "ahead i keys (c, s)"
  shows "ahead i keys (fst (mark_enrolled saved c), s)"
proof -
  obtain f where k: "identity_kept i keys c f" and m: "at_most (id_NextSequence f) s"
    using assms by (auto simp: ahead_def)
  let ?c = "c\<lparr>cl_identity := (cl_identity c)\<lparr>id_Enrolled := True\<rparr>\<rparr>"
  have "identity_kept i keys ?c f" using k by (auto simp: identity_kept_def)
  moreover have "identity_kept i keys (?c\<lparr>cl_file := Identity (cl_identity ?c)\<rparr>) (cl_identity ?c)"
    using k kept_privateKeys [OF k] by (auto simp: identity_kept_def)
  moreover have "at_most (id_NextSequence (cl_identity ?c)) s"
    using k by (intro at_most_mono [OF m]) (simp add: identity_kept_def)
  ultimately show ?thesis using m by (auto simp: ahead_def mark_enrolled_def persistIdentity_def)
qed

lemma marked_ahead:
  assumes "ahead i keys y" and "mark_enrolled saved (fst y) = (c1, b)"
  shows "ahead i keys (c1, snd y)"
  using mark_enrolled_ahead [of i keys "fst y" "snd y" saved] assms by simp

lemma finish_ahead:
  assumes "ahead i keys z"
  shows "ahead i keys (fst (finish_enrolment saved interval z))"
  using marked_ahead [OF assms] by (auto simp: finish_enrolment_def split: prod.splits bool.splits)

lemma recover_ahead:
  assumes "ahead i keys (c, s)" and "counter_left (Suc 0) c"
  shows "ahead i keys (fst (recover_enrolment pf tr cp api written saved now e (c, s)))"
  using SendHeartbeat_ahead [OF assms, of pf tr cp written now "''starting''"] finish_ahead [of i keys]
  by (auto simp: recover_enrolment_def split: prod.splits sum.splits)

lemma EnsureEnrolled_ahead:
  assumes "ahead i keys (c, s)" and "counter_left (Suc 0) c"
  shows "ahead i keys (fst (EnsureEnrolled pf tr cp api written saved now (c, s)))"
proof -
  have enrolled: "ahead i keys (c, fst (ap_enroll api (client_request unsigned_headers body) s))" for body
    using assms(1) enroll_keeps
    by (fastforce simp: ahead_def sequence_of_def client_request_def unsigned_headers_def ParseUint64_def)
  show ?thesis
    using assms(1) recover_ahead [of i keys c _, OF _ assms(2)] finish_ahead [of i keys] enrolled
    unfolding EnsureEnrolled_def
    by (auto split: option.splits prod.splits sum.splits) (metis fst_conv)+
qed

lemma pollAndExecute_ahead:
  assumes "ahead i keys (c, s)" and "counter_left 2 c"
    and "pollAndExecute pf tr cp api execute marshal written saved clock (c, s) = (x, y)"
  shows "ahead i keys x"
proof -
  have left: "counter_left (Suc (Suc 0)) c" using assms(2) by (simp add: numeral_2_eq_2)
  have first: "ahead i keys z \<and> counter_left (Suc 0) (fst z)"
    if "postSignedJSONBytes pf tr cp written (clock 0) JobPollPath body (ap_job api) (c, s) = (z, r)" for z r body
    by (rule posted_ahead [OF assms(1) left job_keeps that])
  have second: "ahead i keys z'"
    if "postSignedJSONBytes pf tr cp written (clock 0) JobPollPath body (ap_job api) (c, s) = (z, r)"
      and "postSignedJSONBytes pf tr cp saved (clock 2) ObservationPath result (ap_observation api) z = (z', r')"
    for z z' r r' body result
    using posted_ahead [OF _ _ observation_keeps, of i keys "fst z" "snd z" 0] first [OF that(1)] that(2) by simp
  have marked: "ahead i keys (markJobRefused job (fst z), snd z)" if "ahead i keys z" for z job
    using that by (auto simp: ahead_def markJobRefused_def identity_kept_def Let_def)
  show ?thesis
    using assms(1,3) first second marked
    unfolding pollAndExecute_def Let_def
    by (simp split: option.splits prod.splits sum.splits if_splits client_error.splits) blast+
qed

end

end
