(* ===== verification/AgentNetwork.thy ===== *)
theory AgentNetwork
  imports AgentSession
begin

text \<open>
  The agent's client and the server's gateway connected by a network that loses requests and replies,
  delivers old requests again and carries requests of others. Everything around may happen: crashes
  and restarts on both sides, writes that fail, administration of the registry. The gateway with its
  registry fulfils the contract \<open>controller_service\<close>, and so the counter in the agent's file is never
  behind the server's.
\<close>

subsection \<open>The network\<close>

record setting =
  se_platform :: platform
  se_transport :: transport
  se_codec :: client_platform
  se_secret :: string
  se_marshal :: "Observation \<Rightarrow> 8 word list option"

text \<open>
  What becomes of one request: whether it arrives, the address and the proxy's headers it arrives
  with, the instant, the write of the registry's file, what the server does
  during the waits of a long poll, what the
  controller sees around it, and whether the reply comes back.
\<close>

record fate =
  ft_sent :: bool
  ft_address :: string
  ft_proxy :: "string \<Rightarrow> string"
  ft_now :: time
  ft_written :: bool
  ft_waits :: "registry waits"
  ft_world :: outside
  ft_returns :: bool

definition proxy_headers :: "string list" where
  "proxy_headers = [''X-Xray-Checker-Proxy-Secret'', ''X-Xray-Checker-Client-IP'']"

definition via :: "fate \<Rightarrow> http_request \<Rightarrow> http_request" where
  "via ft q = q\<lparr>ht_RemoteAddr := ft_address ft,
     ht_Header := (\<lambda>k. if k \<in> set proxy_headers then ft_proxy ft k else ht_Header q k)\<rparr>"

type_synonym server = "registry \<times> controller"

text \<open>The server and the requests the agent has sent.\<close>

type_synonym network = "server \<times> http_request list"

definition enroll_at :: "setting \<Rightarrow> fate \<Rightarrow> http_request \<Rightarrow> server \<Rightarrow> server \<times> EnrollResponse answer" where
  "enroll_at se ft q s =
     (case ProbeAgentEnrollHandler (se_platform se) (se_transport se) (se_secret se) (ft_now ft)
        (ft_written ft) q (fst s) of (r, y) \<Rightarrow> ((r, snd s), y))"

definition heartbeat_at :: "setting \<Rightarrow> fate \<Rightarrow> http_request \<Rightarrow> server \<Rightarrow> server \<times> HeartbeatResponse answer" where
  "heartbeat_at se ft q s =
     (case ProbeAgentHeartbeatHandler (se_platform se) (se_transport se) (se_secret se) (ft_now ft)
        (ft_written ft) q (fst s) of (r, y) \<Rightarrow> ((r, snd s), y))"

definition job_at :: "setting \<Rightarrow> fate \<Rightarrow> http_request \<Rightarrow> server \<Rightarrow> server \<times> JobAssignment option answer" where
  "job_at se ft = ProbeAgentJobHandler (se_platform se) (se_transport se) (se_secret se) (ft_now ft)
     (ft_written ft) (ft_waits ft)"

definition observation_at :: "setting \<Rightarrow> fate \<Rightarrow> http_request \<Rightarrow> server \<Rightarrow> server \<times> (string \<times> time) answer" where
  "observation_at se ft = ProbeAgentObservationHandler (se_platform se) (se_transport se) (se_secret se)
     (ft_now ft) (ft_written ft) (ft_world ft) (se_marshal se)"

definition reply_of :: "'a answer \<Rightarrow> 'a reply" where
  "reply_of y = (case y of Inl code \<Rightarrow> Rejected code | Inr v \<Rightarrow> Answered v)"

definition dispatch ::
  "(fate \<Rightarrow> http_request \<Rightarrow> server \<Rightarrow> server \<times> 'a answer) \<Rightarrow> fate \<Rightarrow> http_request \<Rightarrow> network \<Rightarrow>
   network \<times> 'a reply" where
  "dispatch handler ft q x =
     (if \<not> ft_sent ft then ((fst x, q # snd x), Lost)
      else (case handler ft (via ft q) (fst x) of
          (s, y) \<Rightarrow> ((s, q # snd x), if ft_returns ft then reply_of y else Lost)))"

text \<open>An operation of the client sends at most one request to each endpoint.\<close>

record fates =
  fa_enroll :: fate
  fa_heartbeat :: fate
  fa_job :: fate
  fa_observation :: fate

definition gateway_api :: "setting \<Rightarrow> fates \<Rightarrow> network controller_api" where
  "gateway_api se fa =
     \<lparr>ap_enroll = dispatch (enroll_at se) (fa_enroll fa),
      ap_heartbeat = dispatch (heartbeat_at se) (fa_heartbeat fa),
      ap_job = dispatch (job_at se) (fa_job fa),
      ap_observation = dispatch (observation_at se) (fa_observation fa)\<rparr>"

text \<open>
  While a poll waits, the registry goes through any events in which nobody signs under the agent's key:
  it is administered, other agents enrol and are heard.
\<close>

definition calm_wait :: "setting \<Rightarrow> string \<Rightarrow> (server \<Rightarrow> server) \<Rightarrow> bool" where
  "calm_wait se k meanwhile \<longleftrightarrow> (\<forall>s. \<exists>es. list_all plausible es \<and>
     fst (meanwhile s) = after (se_platform se) es (fst s) \<and>
     list_all (\<lambda>e. \<forall>j t. signed_request e = Some (j, t) \<longrightarrow>
       \<not> signed_by (se_platform se) k (au_payload t) (au_signature t)) es)"

definition calm :: "setting \<Rightarrow> string \<Rightarrow> fate \<Rightarrow> bool" where
  "calm se k ft \<longleftrightarrow> 0 < ft_now ft \<and> list_all (\<lambda>(clock, meanwhile, how). calm_wait se k meanwhile) (ft_waits ft)"

definition sensible :: "setting \<Rightarrow> string \<Rightarrow> fates \<Rightarrow> bool" where
  "sensible se k fa \<longleftrightarrow> calm se k (fa_enroll fa) \<and> calm se k (fa_heartbeat fa) \<and> calm se k (fa_job fa) \<and>
     calm se k (fa_observation fa)"

lemma calm_now: "calm se k ft \<Longrightarrow> 0 < ft_now ft"
  by (simp add: calm_def)

subsection \<open>What a request does to the registry\<close>

text \<open>The server's counter for agent \<open>i\<close>, enrolled with identity key \<open>k\<close>, is at most \<open>m\<close>.\<close>

definition kept_within :: "string \<Rightarrow> string \<Rightarrow> nat \<Rightarrow> (string \<Rightarrow> lifecycle) \<Rightarrow> bool" where
  "kept_within k i m s \<longleftrightarrow> (\<forall>ok n. s i = Active k ok n \<longrightarrow> n \<le> m)"

definition bounded_registry :: "platform \<Rightarrow> string \<Rightarrow> string \<Rightarrow> nat \<Rightarrow> registry \<Rightarrow> bool" where
  "bounded_registry pf k i m r \<longleftrightarrow> sane_platform pf \<and> registry_ok pf r \<and> kept_within k i m (lives r)"

text \<open>What is signed under the key carries a sequence number up to \<open>m\<close>.\<close>

definition harmless :: "setting \<Rightarrow> string \<Rightarrow> nat \<Rightarrow> http_request \<Rightarrow> bool" where
  "harmless se k m q \<longleftrightarrow> (\<forall>body agentID path t. ht_Body q = Some body \<and>
     parseProbeControlAuthentication (se_platform se) (se_transport se) (se_secret se) q body agentID path = Some t \<and>
     signed_by (se_platform se) k (au_payload t) (au_signature t) \<longrightarrow> au_sequence t \<le> m)"

lemma kept_within_step:
  assumes "life_step pf e b s s'" and "kept_within k i m s"
    and "\<And>t. signed_request e = Some (i, t) \<Longrightarrow> signed_by pf k (au_payload t) (au_signature t) \<Longrightarrow> au_sequence t \<le> m"
  shows "kept_within k i m s'"
  using assms(1)
proof cases
  case (requested j t k' ok n)
  then show ?thesis using assms(2,3) by (auto simp: kept_within_def)
qed (use assms(2) in \<open>auto simp: kept_within_def\<close>)

lemma bounded_perform:
  assumes "bounded_registry pf k i m r" and "plausible e"
    and "\<And>t. signed_request e = Some (i, t) \<Longrightarrow> signed_by pf k (au_payload t) (au_signature t) \<Longrightarrow> au_sequence t \<le> m"
  shows "bounded_registry pf k i m (fst (perform pf e r))"
proof -
  have "simulated pf e r" using assms(1,2) by (intro registry_simulates) (simp_all add: bounded_registry_def)
  then show ?thesis
    using kept_within_step [OF _ _ assms(3)] assms(1) by (auto simp: bounded_registry_def simulated_def)
qed

lemma bounded_authenticated:
  assumes "bounded_registry (se_platform se) k i m r" and "harmless se k m q" and "ht_Body q = Some body"
    and "parseProbeControlAuthentication (se_platform se) (se_transport se) (se_secret se) q body agentID path = Some t"
    and "plausible e" and "\<And>j t'. signed_request e = Some (j, t') \<Longrightarrow> t' = t"
  shows "bounded_registry (se_platform se) k i m (fst (perform (se_platform se) e r))"
  using assms(2-4,6) by (intro bounded_perform [OF assms(1,5)]) (auto simp: harmless_def)

lemma bounded_after:
  assumes "bounded_registry (se_platform se) k i m r" and "list_all plausible es"
    and "list_all (\<lambda>e. \<forall>j t. signed_request e = Some (j, t) \<longrightarrow>
      \<not> signed_by (se_platform se) k (au_payload t) (au_signature t)) es"
  shows "bounded_registry (se_platform se) k i m (after (se_platform se) es r)"
  using assms
proof (induction es arbitrary: r)
  case (Cons e es)
  have "bounded_registry (se_platform se) k i m (fst (perform (se_platform se) e r))"
    by (rule bounded_perform [OF Cons.prems(1)]) (use Cons.prems in auto)
  then show ?case using Cons.IH Cons.prems by (simp add: after_def)
qed (simp add: after_def)

lemma wait_bounded:
  assumes "calm_wait se k meanwhile" and "bounded_registry (se_platform se) k i m (fst s)"
  shows "bounded_registry (se_platform se) k i m (fst (meanwhile s))"
proof -
  obtain es where "list_all plausible es" "fst (meanwhile s) = after (se_platform se) es (fst s)"
    "list_all (\<lambda>e. \<forall>j t. signed_request e = Some (j, t) \<longrightarrow>
       \<not> signed_by (se_platform se) k (au_payload t) (au_signature t)) es"
    using assms(1) unfolding calm_wait_def by blast
  then show ?thesis using bounded_after [OF assms(2)] by simp
qed

lemma claim_bounded:
  "list_all (\<lambda>(clock, meanwhile, how). calm_wait se k meanwhile) waits \<Longrightarrow>
   bounded_registry (se_platform se) k i m (fst s) \<Longrightarrow>
   bounded_registry (se_platform se) k i m (fst (fst (Claim agentID waits s)))"
proof (induction agentID waits s rule: Claim.induct)
  case (2 agentID clock meanwhile how waits r c)
  obtain c1 x where e: "claimNow clock (TrimSpace agentID) c = (c1, x)" by fastforce
  obtain r2 c2 where m: "meanwhile (r, c1) = (r2, c2)" by fastforce
  have "bounded_registry (se_platform se) k i m r2"
    using wait_bounded [of se k meanwhile i m "(r, c1)"] "2.prems" m by simp
  then show ?case using "2.IH" [OF e [symmetric] _ m [symmetric]] "2.prems" e m
    by (cases x) (auto split: sum.split wake.split)
qed simp

lemma enroll_bounded:
  assumes "bounded_registry (se_platform se) k i m (fst s)" and "0 < ft_now ft"
  shows "bounded_registry (se_platform se) k i m (fst (fst (enroll_at se ft q s)))"
proof -
  have "bounded_registry (se_platform se) k i m (fst (Enroll (se_platform se) (ft_now ft) (ft_written ft) input source (fst s)))"
    for input source
    using bounded_perform [OF assms(1), of "EnrollAgent (ft_now ft) (ft_written ft) input source"] assms(2)
    by (simp add: accepted_if_def)
  then show ?thesis
    using assms(1) by (auto simp: enroll_at_def ProbeAgentEnrollHandler_def split: option.splits prod.splits sum.splits)
      (metis fst_conv)+
qed

lemma heartbeat_bounded:
  assumes "bounded_registry (se_platform se) k i m (fst s)" and "0 < ft_now ft" and "harmless se k m q"
  shows "bounded_registry (se_platform se) k i m (fst (fst (heartbeat_at se ft q s)))"
proof -
  have "bounded_registry (se_platform se) k i m
      (fst (AcceptHeartbeat (se_platform se) (ft_now ft) (ft_written ft) input t (fst s)))"
    if "ht_Body q = Some body"
      "parseProbeControlAuthentication (se_platform se) (se_transport se) (se_secret se) q body (hb_AgentID input) HeartbeatPath = Some t"
    for body t and input :: HeartbeatRequest
    using bounded_authenticated [OF assms(1,3) that, of "Heartbeat (ft_now ft) (ft_written ft) input t"] assms(2)
    by (simp add: accepted_if_def)
  then show ?thesis
    using assms(1) by (auto simp: heartbeat_at_def ProbeAgentHeartbeatHandler_def split: option.splits prod.splits sum.splits)
      (metis fst_conv)+
qed

lemma control_bounded:
  assumes "bounded_registry (se_platform se) k i m r" and "0 < now" and "harmless se k m q" and "ht_Body q = Some body"
    and "parseProbeControlAuthentication (se_platform se) (se_transport se) (se_secret se) q body j path = Some t"
    and "AcceptControlRequest (se_platform se) now written j t r = (r1, y)"
  shows "bounded_registry (se_platform se) k i m r1"
  using bounded_authenticated [OF assms(1,3-5), of "Control now written j t"] assms(2,6)
  by (simp add: accepted_none_def)

lemma job_bounded:
  assumes "bounded_registry (se_platform se) k i m (fst s)" and "calm se k ft" and "harmless se k m q"
  shows "bounded_registry (se_platform se) k i m (fst (fst (job_at se ft q s)))"
proof -
  have claimed: "bounded_registry (se_platform se) k i m (fst (fst (Claim agentID (ft_waits ft) (r1, c))))"
    if "bounded_registry (se_platform se) k i m r1" for agentID r1 c
    using claim_bounded [of se k "ft_waits ft" i m "(r1, c)"] assms(2) that by (simp add: calm_def)
  show ?thesis
    using assms(1) claimed control_bounded [OF assms(1) calm_now [OF assms(2)] assms(3)]
    by (auto simp: job_at_def ProbeAgentJobHandler_def split: option.split prod.split sum.split) (metis fst_conv)+
qed

lemma observation_bounded:
  assumes "bounded_registry (se_platform se) k i m (fst s)" and "0 < ft_now ft" and "harmless se k m q"
  shows "bounded_registry (se_platform se) k i m (fst (fst (observation_at se ft q s)))"
  using assms(1) control_bounded [OF assms]
  by (auto simp: observation_at_def ProbeAgentObservationHandler_def split: option.splits prod.splits sum.splits)

text \<open>A request of the agent's carries its sequence number however often it is delivered.\<close>

lemma parsed_sequence:
  assumes "parseProbeControlAuthentication pf tr secret q body agentID path = Some t"
  shows "sequence_of q = Some (au_sequence t)"
  using assms
  by (auto simp: parseProbeControlAuthentication_def sequence_of_def Let_def split: option.splits if_splits)

lemma sequence_via [simp]: "sequence_of (via ft q) = sequence_of q"
  by (simp add: sequence_of_def via_def proxy_headers_def)

lemma own_harmless: "(\<And>n. sequence_of q = Some n \<Longrightarrow> n \<le> m) \<Longrightarrow> harmless se k m (via ft q)"
  using parsed_sequence by (fastforce simp: harmless_def)

subsection \<open>The gateway fulfils the contract\<close>

definition sent_up_to :: "nat \<Rightarrow> http_request list \<Rightarrow> bool" where
  "sent_up_to m qs \<longleftrightarrow> list_all (\<lambda>q. case sequence_of q of None \<Rightarrow> True | Some n \<Rightarrow> n \<le> m) qs"

definition network_ok :: "setting \<Rightarrow> string \<Rightarrow> string \<Rightarrow> nat \<Rightarrow> network \<Rightarrow> bool" where
  "network_ok se k i m x \<longleftrightarrow> bounded_registry (se_platform se) k i m (fst (fst x)) \<and> sent_up_to m (snd x)"

definition counter_at_most :: "setting \<Rightarrow> fates \<Rightarrow> string \<Rightarrow> string \<Rightarrow> nat \<Rightarrow> network \<Rightarrow> bool" where
  "counter_at_most se fa k i m x \<longleftrightarrow> sensible se k fa \<and> network_ok se k i m x"

lemma network_mono: "network_ok se k i m x \<Longrightarrow> m \<le> n \<Longrightarrow> network_ok se k i n x"
  by (fastforce simp: network_ok_def bounded_registry_def kept_within_def sent_up_to_def list_all_iff
      split: option.splits)

lemma sent_harmless:
  assumes "q \<in> set qs" and "sent_up_to m qs"
  shows "harmless se k m (via ft q)"
  using assms by (intro own_harmless) (auto simp: sent_up_to_def list_all_iff)

text \<open>A handler that keeps the registry's bound keeps it for the requests the agent sends.\<close>

lemma dispatch_ok:
  assumes "network_ok se k i m x" and "\<And>n. sequence_of q = Some n \<Longrightarrow> n \<le> m"
    and "\<And>s q. bounded_registry (se_platform se) k i m (fst s) \<Longrightarrow> harmless se k m q \<Longrightarrow>
      bounded_registry (se_platform se) k i m (fst (fst (handler ft q s)))"
  shows "network_ok se k i m (fst (dispatch handler ft q x))"
  using assms(1,2) assms(3) [of "fst x" "via ft q"] own_harmless [of q m se k ft]
  by (auto simp: dispatch_def network_ok_def sent_up_to_def split: prod.splits option.splits)

lemma api_ok:
  assumes "counter_at_most se fa k i m x" and "\<And>n. sequence_of q = Some n \<Longrightarrow> n \<le> m"
  shows "counter_at_most se fa k i m (fst (ap_enroll (gateway_api se fa) q x))"
    and "counter_at_most se fa k i m (fst (ap_heartbeat (gateway_api se fa) q x))"
    and "counter_at_most se fa k i m (fst (ap_job (gateway_api se fa) q x))"
    and "counter_at_most se fa k i m (fst (ap_observation (gateway_api se fa) q x))"
  using assms(1)
  by (auto simp: counter_at_most_def gateway_api_def sensible_def
      intro!: dispatch_ok [OF _ assms(2)] enroll_bounded heartbeat_bounded job_bounded observation_bounded
      intro: calm_now)

lemma counter_at_most_mono: "counter_at_most se fa k i m x \<Longrightarrow> m \<le> n \<Longrightarrow> counter_at_most se fa k i n x"
  by (auto simp: counter_at_most_def intro: network_mono)

interpretation gateway: controller_service "gateway_api se fa" "counter_at_most se fa k i" for se fa k i
  by unfold_locales (erule (1) counter_at_most_mono, (erule api_ok, simp)+)

subsection \<open>Steps of the agent, the server and the world\<close>

datatype endpoint = Enroll_endpoint | Heartbeat_endpoint | Job_endpoint | Observation_endpoint

fun received :: "setting \<Rightarrow> endpoint \<Rightarrow> fate \<Rightarrow> http_request \<Rightarrow> server \<Rightarrow> server" where
  "received se Enroll_endpoint ft q s = fst (enroll_at se ft q s)"
| "received se Heartbeat_endpoint ft q s = fst (heartbeat_at se ft q s)"
| "received se Job_endpoint ft q s = fst (job_at se ft q s)"
| "received se Observation_endpoint ft q s = fst (observation_at se ft q s)"

text \<open>The request, with its body, does not verify under the key at any endpoint.\<close>

definition not_signed :: "setting \<Rightarrow> string \<Rightarrow> http_request \<Rightarrow> bool" where
  "not_signed se k q \<longleftrightarrow> (\<forall>body agentID path t. ht_Body q = Some body \<and>
     parseProbeControlAuthentication (se_platform se) (se_transport se) (se_secret se) q body agentID path = Some t \<longrightarrow>
     \<not> signed_by (se_platform se) k (au_payload t) (au_signature t))"

definition public_key :: "setting \<Rightarrow> 8 word list \<times> 8 word list \<Rightarrow> string" where
  "public_key se keys = EncodeToString std_alphabet (cp_Public (se_codec se) (fst keys))"

text \<open>
  The agent acts while its counter is not about to overflow. Its job loop runs beside its heartbeats:
  each request is made under one lock, so a round of the loop is one step (\<open>polls\<close>) or, with heartbeats
  in between, the steps it is made of (\<open>asks\<close>, \<open>answers\<close>, \<open>notes_refusal\<close>). The agent crashes by not
  going on, and restarts from its file, with whatever configuration. The registry is administered,
  other agents enrol, the server restarts (with a new controller); old requests arrive again, and
  requests of others, among them altered copies of the agent's own, that do not verify under the
  agent's key with the body they carry. While a poll waits the server goes on; a delivery of an old
  request in that time is taken as one before or after it.
\<close>

inductive session_step :: "setting \<Rightarrow> 8 word list \<times> 8 word list \<Rightarrow> client \<times> network \<Rightarrow> client \<times> network \<Rightarrow> bool"
  for se :: setting and keys :: "8 word list \<times> 8 word list" where
  enrols: "sensible se (public_key se keys) fa \<Longrightarrow> counter_left (Suc 0) (fst x) \<Longrightarrow>
    session_step se keys x
      (fst (EnsureEnrolled (se_platform se) (se_transport se) (se_codec se) (gateway_api se fa) written saved now x))"
| beats: "sensible se (public_key se keys) fa \<Longrightarrow> counter_left (Suc 0) (fst x) \<Longrightarrow>
    session_step se keys x
      (fst (SendHeartbeat (se_platform se) (se_transport se) (se_codec se) (gateway_api se fa) written now health x))"
| polls: "sensible se (public_key se keys) fa \<Longrightarrow> counter_left 2 (fst x) \<Longrightarrow>
    session_step se keys x
      (fst (pollAndExecute (se_platform se) (se_transport se) (se_codec se) (gateway_api se fa) execute (se_marshal se)
        written saved clock x))"
| asks: "sensible se (public_key se keys) fa \<Longrightarrow> counter_left (Suc 0) (fst x) \<Longrightarrow>
    session_step se keys x
      (fst (postSignedJSONBytes (se_platform se) (se_transport se) (se_codec se) written now JobPollPath body
        (ap_job (gateway_api se fa)) x))"
| answers: "sensible se (public_key se keys) fa \<Longrightarrow> counter_left (Suc 0) (fst x) \<Longrightarrow>
    session_step se keys x
      (fst (postSignedJSONBytes (se_platform se) (se_transport se) (se_codec se) written now ObservationPath body
        (ap_observation (gateway_api se fa)) x))"
| notes_refusal: "session_step se keys x (markJobRefused job (fst x), snd x)"
| restarts: "NewClient (se_platform se) cfg certificates directory readable protected written generated (cl_file (fst x)) =
      Inr c1 \<Longrightarrow>
    session_step se keys x (c1, snd x)"
| administered: "plausible e \<Longrightarrow> signed_request e = None \<Longrightarrow>
    session_step se keys (c, ((r, d), sent)) (c, ((fst (perform (se_platform se) e r), d1), sent))"
| arrives_again: "calm se (public_key se keys) ft \<Longrightarrow> q \<in> set sent \<Longrightarrow>
    session_step se keys (c, (s, sent)) (c, (received se e ft (via ft q) s, sent))"
| foreign: "calm se (public_key se keys) ft \<Longrightarrow> not_signed se (public_key se keys) (via ft q) \<Longrightarrow>
    session_step se keys (c, (s, sent)) (c, (received se e ft (via ft q) s, sent))"

text \<open>
  In the beginning the agent has just made its keys, and nobody has enrolled under them in its name;
  the registry has any history behind it.
\<close>

definition session_start :: "setting \<Rightarrow> string \<Rightarrow> 8 word list \<times> 8 word list \<Rightarrow> client \<times> network \<Rightarrow> bool" where
  "session_start se i keys x \<longleftrightarrow>
     (\<exists>r0 es cfg certificates directory readable protected written d c.
        fresh_registry (se_platform se) r0 \<and> list_all plausible es \<and>
        NewClient (se_platform se) cfg certificates directory readable protected written (Some keys) No_identity = Inr c \<and>
        length (fst keys) = 64 \<and> length (snd keys) = 64 \<and> fst keys \<noteq> snd keys \<and> cx_AgentID (cl_config c) = i \<and>
        (\<forall>ok n. lives (after (se_platform se) es r0) i \<noteq> Active (public_key se keys) ok n) \<and>
        x = (c, ((after (se_platform se) es r0, d), [])))"

definition session_ok :: "setting \<Rightarrow> string \<Rightarrow> 8 word list \<times> 8 word list \<Rightarrow> client \<times> network \<Rightarrow> bool" where
  "session_ok se i keys x \<longleftrightarrow>
     (\<exists>f. identity_kept i keys (fst x) f \<and> network_ok se (public_key se keys) i (id_NextSequence f) (snd x))"

lemma ahead_iff:
  "gateway.ahead se fa k i i keys x \<longleftrightarrow>
     sensible se k fa \<and> (\<exists>f. identity_kept i keys (fst x) f \<and> network_ok se k i (id_NextSequence f) (snd x))"
  by (auto simp: gateway.ahead_def counter_at_most_def)

lemma NewClient_kept:
  assumes "NewClient pf cfg certificates directory readable protected written generated file = Inr c"
    and "file = No_identity \<Longrightarrow> generated = Some keys \<and> length (fst keys) = 64 \<and> length (snd keys) = 64 \<and> fst keys \<noteq> snd keys"
    and "\<And>f. file = Identity f \<Longrightarrow> privateKeys f = Some keys"
  shows "identity_kept (cx_AgentID (cl_config c)) keys c (cl_identity c)"
    and "\<And>f. file = Identity f \<Longrightarrow> cl_identity c = f"
  using assms
  by (auto simp: NewClient_def loadOrCreateIdentity_def Let_def identity_kept_def persistIdentity_def
      privateKeys_def std_round_trip split: identity_disk.splits if_splits prod.splits bool.splits option.splits)

lemma session_start_ok:
  assumes "session_start se i keys x"
  shows "session_ok se i keys x"
proof -
  obtain r0 es cfg certificates directory readable protected written d c where
    r: "fresh_registry (se_platform se) r0" "list_all plausible es"
    and c: "NewClient (se_platform se) cfg certificates directory readable protected written (Some keys) No_identity = Inr c"
      "length (fst keys) = 64" "length (snd keys) = 64" "fst keys \<noteq> snd keys" "cx_AgentID (cl_config c) = i"
    and new: "\<And>ok n. lives (after (se_platform se) es r0) i \<noteq> Active (public_key se keys) ok n"
    and x: "x = (c, ((after (se_platform se) es r0, d), []))"
    using assms unfolding session_start_def by (elim exE conjE) simp
  have "identity_kept i keys c (cl_identity c)" using NewClient_kept(1) [OF c(1)] c by simp
  moreover have "network_ok se (public_key se keys) i m (snd x)" for m
    using r after_ok [OF r] new
    by (simp add: x network_ok_def bounded_registry_def sent_up_to_def kept_within_def fresh_registry_def)
  ultimately show ?thesis by (auto simp: session_ok_def x)
qed

lemma received_ok:
  assumes "network_ok se k i m (s, sent)" and "calm se k ft" and "harmless se k m q"
  shows "network_ok se k i m (received se e ft q s, sent)"
  using assms
  by (cases e) (simp_all add: network_ok_def enroll_bounded heartbeat_bounded job_bounded observation_bounded calm_now)

lemma session_step_ok:
  assumes "session_ok se i keys x" and "session_step se keys x y"
  shows "session_ok se i keys y"
  using assms(2)
proof cases
  case (enrols fa written saved now)
  then show ?thesis
    using gateway.EnsureEnrolled_ahead [of se fa "public_key se keys" i i keys "fst x" "snd x"] assms(1)
    by (simp add: ahead_iff session_ok_def)
next
  case (beats fa written now health)
  then show ?thesis
    using gateway.SendHeartbeat_ahead [of se fa "public_key se keys" i i keys "fst x" "snd x"] assms(1)
    by (simp add: ahead_iff session_ok_def)
next
  case (polls fa execute written saved clock)
  then show ?thesis
    using gateway.pollAndExecute_ahead [of se fa "public_key se keys" i i keys "fst x" "snd x", OF _ _ surjective_pairing] assms(1)
    by (simp add: ahead_iff session_ok_def)
next
  case (asks fa written now body)
  then show ?thesis
    using gateway.posted_ahead [of se fa "public_key se keys" i i keys "fst x" "snd x" 0, OF _ _ gateway.job_keeps surjective_pairing]
      assms(1)
    by (simp add: ahead_iff session_ok_def)
next
  case (answers fa written now body)
  then show ?thesis
    using gateway.posted_ahead [of se fa "public_key se keys" i i keys "fst x" "snd x" 0, OF _ _ gateway.observation_keeps surjective_pairing]
      assms(1)
    by (simp add: ahead_iff session_ok_def)
next
  case (notes_refusal job)
  then show ?thesis
    using assms(1) by (auto simp: session_ok_def identity_kept_def markJobRefused_def Let_def)
next
  case (restarts cfg certificates directory readable protected written generated c1)
  obtain f where f: "identity_kept i keys (fst x) f" "network_ok se (public_key se keys) i (id_NextSequence f) (snd x)"
    using assms(1) by (auto simp: session_ok_def)
  then have kept: "cl_file (fst x) = Identity f" "privateKeys f = Some keys" by (simp_all add: identity_kept_def)
  note new = NewClient_kept [OF restarts(2), of keys]
  have "cl_identity c1 = f" using new(2) kept by simp
  moreover have "identity_kept (cx_AgentID (cl_config c1)) keys c1 (cl_identity c1)" using new(1) kept by simp
  moreover have "id_AgentID f = i" using f(1) by (simp add: identity_kept_def)
  ultimately show ?thesis using f(2) by (auto simp: session_ok_def restarts(1) identity_kept_def)
next
  case (administered e c r d sent d1)
  then show ?thesis
    using assms(1) bounded_perform [of "se_platform se" "public_key se keys" i _ r e]
    by (auto simp: session_ok_def network_ok_def)
next
  case (arrives_again ft q sent c s e)
  obtain f where f: "identity_kept i keys c f" "network_ok se (public_key se keys) i (id_NextSequence f) (s, sent)"
    using assms(1) arrives_again(1) by (auto simp: session_ok_def)
  then have "harmless se (public_key se keys) (id_NextSequence f) (via ft q)"
    by (intro sent_harmless [OF arrives_again(4)]) (simp add: network_ok_def)
  from received_ok [OF f(2) arrives_again(3) this] show ?thesis
    using f(1) arrives_again(2) by (auto simp: session_ok_def)
next
  case (foreign ft q c s sent e)
  obtain f where f: "identity_kept i keys c f" "network_ok se (public_key se keys) i (id_NextSequence f) (s, sent)"
    using assms(1) foreign(1) by (auto simp: session_ok_def)
  have "harmless se (public_key se keys) (id_NextSequence f) (via ft q)"
    using foreign(4) by (auto simp: harmless_def not_signed_def)
  from received_ok [OF f(2) foreign(3) this] show ?thesis
    using f(1) foreign(2) by (auto simp: session_ok_def)
qed

interpretation agent_session: step_system "session_start se i keys" "session_step se keys" "session_ok se i keys" for se i keys
  by unfold_locales (simp_all add: session_start_ok session_step_ok)

end
