(* ===== verification/AgentOnline.thy ===== *)
theory AgentOnline
  imports AgentNetwork
begin

text \<open>
  What the agent and the server guarantee together: the agent's counter is never behind, an enrolled
  agent is heard, and an enrolment whose reply was lost is completed without a new token.
\<close>

subsection \<open>When a request can be accepted\<close>

text \<open>The address the server sees; it does not depend on the request.\<close>

definition seen_address :: "setting \<Rightarrow> fate \<Rightarrow> address option" where
  "seen_address se ft =
     RequestSourceIP (se_platform se) (se_transport se) (se_secret se) (via ft (client_request unsigned_headers []))"

lemma seen_address: "RequestSourceIP (se_platform se) (se_transport se) (se_secret se) (via ft q) = seen_address se ft"
  by (simp add: seen_address_def RequestSourceIP_def via_def proxy_headers_def)

text \<open>
  What the encodings promise for this heartbeat: JSON and the time stamp are read back as written, an
  envelope can be encoded, and a signature verifies under the public key of the private key it was
  made with.
\<close>

definition encodings_agree ::
  "setting \<Rightarrow> 8 word list \<times> 8 word list \<Rightarrow> ClientConfig \<Rightarrow> string \<Rightarrow> time \<Rightarrow> bool" where
  "encodings_agree se keys cfg health now \<longleftrightarrow>
     Option.bind (cp_Heartbeat (se_codec se) (heartbeat_request cfg health)) (tr_Heartbeat (se_transport se)) =
       Some (heartbeat_request cfg health) \<and>
     tr_ToUpper (se_transport se) ''POST'' = ''POST'' \<and> (\<forall>e. tr_Marshal (se_transport se) e \<noteq> None) \<and>
     tr_ParseTime (se_transport se) (tr_FormatTime (se_transport se) now) = Some now \<and>
     length (cp_Public (se_codec se) (fst keys)) = 32 \<and>
     (\<forall>p. length (cp_Sign (se_codec se) (fst keys) p) = 64 \<and>
        pf_Verify (se_platform se) (cp_Public (se_codec se) (fst keys)) p (cp_Sign (se_codec se) (fst keys) p))"

text \<open>
  The registry holds the agent, enrolled under the key and not revoked; the request gets through from
  the registered address while the clocks agree, the file can be written and the reply gets back.
\<close>

definition admits ::
  "setting \<Rightarrow> fate \<Rightarrow> string \<Rightarrow> 8 word list \<times> 8 word list \<Rightarrow> time \<Rightarrow> registry \<Rightarrow> bool" where
  "admits se ft i keys now r \<longleftrightarrow> registry_Enabled r \<and>
     (case agent_of r i of None \<Rightarrow> False
      | Some a \<Rightarrow> pa_Enabled a \<and> pa_EnrolledAt a \<noteq> 0 \<and> pa_IdentityPublicKey a = public_key se keys \<and>
          sourceMatches (se_platform se) (pa_ExpectedSourceIP a) (seen_address se ft)) \<and>
     now \<noteq> 0 \<and> \<not> outside_skew (rg_config r) (ft_now ft) now \<and> ft_sent ft \<and> ft_written ft \<and> ft_returns ft"

lemma TrimSpace_POST [simp]: "TrimSpace ''POST'' = ''POST''"
  by code_simp

lemma HeartbeatPath_solid [simp]: "TrimSpace HeartbeatPath \<noteq> []"
  by code_simp

text \<open>Both sides sign the same payload, and the gateway reads off the request what the client put on it.\<close>

lemma signed_is_parsed:
  assumes "identity_kept i keys c f" and "counter_left 1 c" and "now \<noteq> 0" and "TrimSpace path \<noteq> []"
    and "encodings_agree se keys cfg health now" and "seen_address se ft = Some source"
  shows "\<exists>c1 q payload signature.
    sign_request (se_platform se) (se_transport se) (se_codec se) True now path body c = (c1, Inr q) \<and>
    ht_Method (via ft q) = ''POST'' \<and> ht_Body (via ft q) = Some body \<and>
    parseProbeControlAuthentication (se_platform se) (se_transport se) (se_secret se) (via ft q) body i path =
      Some \<lparr>au_sourceIP = Some source, au_timestamp = now, au_sequence = Suc (id_NextSequence (cl_identity c)),
        au_payload = payload, au_signature = signature\<rparr> \<and>
    signed_by (se_platform se) (public_key se keys) payload signature"
proof -
  let ?n = "Suc (id_NextSequence (cl_identity c))"
  have i: "cx_AgentID (cl_config c) = i" "TrimSpace i = i" "i \<noteq> []" and keys: "privateKeys (cl_identity c) = Some keys"
    using assms(1) validIdentifier_trim [of i 96] by (auto simp: identity_kept_def validIdentifier_def)
  have n: "?n < 18446744073709551616" using assms(2) by (simp add: counter_left_def)
  obtain payload where p: "ControlSigningPayload (se_platform se) (se_transport se) ''POST'' path i now ?n body = Some payload"
    using assms(3-5) i by (auto simp: ControlSigningPayload_def encodings_agree_def Let_def)
  let ?signature = "cp_Sign (se_codec se) (fst keys) payload"
  let ?c = "c\<lparr>cl_identity := (cl_identity c)\<lparr>id_NextSequence := ?n\<rparr>\<rparr>"
  let ?h = "signed_headers i (tr_FormatTime (se_transport se) now) (FormatUint ?n) (EncodeToString std_alphabet ?signature)"
  have "sign_request (se_platform se) (se_transport se) (se_codec se) True now path body c =
      (?c\<lparr>cl_file := Identity (cl_identity ?c)\<rparr>, Inr (client_request ?h body))"
    using n p by (cases keys) (simp add: sign_request_def keys persistIdentity_def Let_def i(1))
  moreover have "parseProbeControlAuthentication (se_platform se) (se_transport se) (se_secret se)
      (via ft (client_request ?h body)) body i path =
    Some \<lparr>au_sourceIP = Some source, au_timestamp = now, au_sequence = ?n, au_payload = payload, au_signature = ?signature\<rparr>"
    using assms(5,6) i n p ParseUint64_FormatUint [OF n]
    by (simp add: parseProbeControlAuthentication_def seen_address)
      (simp add: via_def client_request_def signed_headers_def proxy_headers_def encodings_agree_def std_round_trip)
  moreover have "signed_by (se_platform se) (public_key se keys) payload ?signature"
    using assms(5) by (simp add: public_key_def signed_encoded encodings_agree_def)
  ultimately show ?thesis by (auto simp: via_def client_request_def)
qed

lemma heartbeat_passes:
  assumes "admits se ft i keys now r" and "network_ok se (public_key se keys) i m ((r, d), sent)" and "m < n"
    and "validIdentifier i 96" and "validShortText version 128" and "validHealth health"
    and "signed_by (se_platform se) (public_key se keys) payload signature"
    and "seen_address se ft = Some source"
  shows "\<exists>r1. AcceptHeartbeat (se_platform se) (ft_now ft) (ft_written ft)
      \<lparr>hb_ProtocolVersion = ProtocolVersion, hb_AgentID = i, hb_AgentVersion = version,
       hb_Capabilities = capabilities, hb_Health = health\<rparr>
      \<lparr>au_sourceIP = Some source, au_timestamp = now, au_sequence = n, au_payload = payload, au_signature = signature\<rparr> r =
    (r1, Inr \<lparr>hr_AgentID = i, hr_AcceptedAt = ft_now ft\<rparr>)"
proof -
  obtain a where a: "agent_of r i = Some a" "pa_Enabled a" "pa_EnrolledAt a \<noteq> 0"
    "pa_IdentityPublicKey a = public_key se keys" "sourceMatches (se_platform se) (pa_ExpectedSourceIP a) (Some source)"
    using assms(1,8) by (auto simp: admits_def split: option.splits)
  have ok: "registry_ok (se_platform se) r" "kept_within (public_key se keys) i m (lives r)"
    using assms(2) by (simp_all add: network_ok_def bounded_registry_def)
  have "lives r i = Active (public_key se keys) (pa_ObservationPublicKey a) (pa_LastSequence a)"
    using lives_known [OF ok(1) a(1)] a by (simp add: life_of_def)
  then have "pa_LastSequence a < n" using ok(2) assms(3) by (fastforce simp: kept_within_def)
  moreover have "pa_AgentID a = i" using known_agent(3) [OF ok(1) a(1)] by (simp add: wf_record_def)
  moreover have "TrimSpace i = i" "i \<noteq> []"
    using assms(4) validIdentifier_trim by (auto simp: validIdentifier_def)
  moreover have "public_key se keys \<noteq> []" using assms(7) by (auto simp: signed_by_def DecodeString_def split: option.splits)
  ultimately show ?thesis
    using assms(1,3,5-7) a
    by (auto simp: AcceptHeartbeat_def admits_def replace_record_def persistLocked_def Let_def)
qed

lemma heartbeat_heard:
  assumes "session_ok se i keys (c, ((r, d), sent))" and "counter_left 1 c"
    and "encodings_agree se keys (cl_config c) health now" and "admits se (fa_heartbeat fa) i keys now r"
    and "validHealth health"
  shows "\<exists>y. SendHeartbeat (se_platform se) (se_transport se) (se_codec se) (gateway_api se fa) True now health
      (c, ((r, d), sent)) = (y, Inr \<lparr>hr_AgentID = i, hr_AcceptedAt = ft_now (fa_heartbeat fa)\<rparr>)"
proof -
  let ?ft = "fa_heartbeat fa" and ?input = "heartbeat_request (cl_config c) health"
  obtain f where k: "identity_kept i keys c f"
    and net: "network_ok se (public_key se keys) i (id_NextSequence f) ((r, d), sent)"
    using assms(1) by (auto simp: session_ok_def)
  have i: "cx_AgentID (cl_config c) = i" "validIdentifier i 96" "validShortText (cx_AgentVersion (cl_config c)) 128"
    and n: "id_NextSequence f < Suc (id_NextSequence (cl_identity c))"
    using k by (simp_all add: identity_kept_def)
  obtain source where source: "seen_address se ?ft = Some source"
    using assms(4) by (auto simp: admits_def sourceMatches_def split: option.splits)
  obtain body where body: "cp_Heartbeat (se_codec se) ?input = Some body"
    "tr_Heartbeat (se_transport se) body = Some ?input"
    using assms(3) by (auto simp: encodings_agree_def bind_eq_Some_conv)
  have now: "now \<noteq> 0" using assms(4) by (simp add: admits_def)
  obtain c1 q payload signature where q:
    "sign_request (se_platform se) (se_transport se) (se_codec se) True now HeartbeatPath body c = (c1, Inr q)"
    "ht_Method (via ?ft q) = ''POST''" "ht_Body (via ?ft q) = Some body"
    "parseProbeControlAuthentication (se_platform se) (se_transport se) (se_secret se) (via ?ft q) body i HeartbeatPath =
      Some \<lparr>au_sourceIP = Some source, au_timestamp = now, au_sequence = Suc (id_NextSequence (cl_identity c)),
        au_payload = payload, au_signature = signature\<rparr>"
    and signed: "signed_by (se_platform se) (public_key se keys) payload signature"
    using signed_is_parsed [where body = body, OF k assms(2) now HeartbeatPath_solid assms(3) source] by (elim exE conjE)
  obtain r1 where "AcceptHeartbeat (se_platform se) (ft_now ?ft) (ft_written ?ft) ?input
      \<lparr>au_sourceIP = Some source, au_timestamp = now, au_sequence = Suc (id_NextSequence (cl_identity c)),
        au_payload = payload, au_signature = signature\<rparr> r =
    (r1, Inr \<lparr>hr_AgentID = i, hr_AcceptedAt = ft_now ?ft\<rparr>)"
    using heartbeat_passes [OF assms(4) net n i(2,3) assms(5) signed source]
    by (auto simp: heartbeat_request_def i(1))
  then have "ap_heartbeat (gateway_api se fa) q ((r, d), sent) =
      (((r1, d), q # sent), Answered \<lparr>hr_AgentID = i, hr_AcceptedAt = ft_now ?ft\<rparr>)"
    using q body assms(4)
    by (simp add: gateway_api_def dispatch_def heartbeat_at_def ProbeAgentHeartbeatHandler_def admits_def
        reply_of_def heartbeat_request_def i(1))
  then show ?thesis
    using assms(5) body(1) q(1)
    by (simp add: SendHeartbeat_def postSignedJSONBytes_def reply_result_def)
qed

text \<open>An agent that is enrolled is refused a second enrolment, and the registry stays as it is.\<close>

lemma enrolment_refused:
  assumes "registry_ok pf r" and "agent_of r (TrimSpace (er_AgentID q)) = Some a" and "pa_EnrolledAt a \<noteq> 0"
  shows "\<exists>e. Enroll pf now written q source r = (r, Inl e)"
proof -
  have "pa_EnrollmentUsedAt a \<noteq> 0"
    using known_agent(3) [OF assms(1,2)] assms(3)
    by (auto simp: wf_record_def validateRecord_iff identity_configured_def)
  then show ?thesis using assms(2) by (simp add: Enroll_def Let_def)
qed

lemma second_enrolment:
  assumes "registry_ok (se_platform se) r" and "agent_of r i = Some a" and "pa_EnrolledAt a \<noteq> 0" and "TrimSpace i = i"
    and "tr_Enroll (se_transport se) body = Some input" and "er_AgentID input = i"
  shows "\<exists>y sent1. ap_enroll (gateway_api se fa) (client_request h body) ((r, d), sent) = (((r, d), sent1), y) \<and>
    (y = Lost \<or> (\<exists>code. y = Rejected code))"
proof -
  have "\<exists>e. Enroll (se_platform se) now written input source r = (r, Inl e)" for now written source
    by (rule enrolment_refused [OF assms(1) _ assms(3)]) (simp add: assms(2,4,6))
  then obtain e where e: "Enroll (se_platform se) now written input source r = (r, Inl (e now written source))"
    for now written source by metis
  show ?thesis
    using assms(5)
    by (auto simp: gateway_api_def dispatch_def enroll_at_def ProbeAgentEnrollHandler_def reply_of_def e via_def
        client_request_def split: option.splits prod.splits sum.splits)
qed

lemma repaired:
  assumes "session_ok se i keys (c, ((r, d), sent))" and "counter_left 1 c"
    and "encodings_agree se keys (cl_config c) ''starting'' now" and "admits se (fa_heartbeat fa) i keys now r"
    and "TrimSpace (cx_EnrollmentToken (cl_config c)) \<noteq> []"
    and "Option.bind (cp_Enroll (se_codec se) (enrol_request (se_codec se) keys (cl_config c)))
      (tr_Enroll (se_transport se)) = Some (enrol_request (se_codec se) keys (cl_config c))"
  shows "\<exists>c1 s1. EnsureEnrolled (se_platform se) (se_transport se) (se_codec se) (gateway_api se fa) True True now
      (c, ((r, d), sent)) = ((c1, s1), Inr DefaultHeartbeatIntervalSec) \<and> id_Enrolled (cl_identity c1)"
proof (cases "id_Enrolled (cl_identity c)")
  case True
  then show ?thesis by (simp add: EnsureEnrolled_def)
next
  case False
  obtain f where k: "identity_kept i keys c f"
    and net: "network_ok se (public_key se keys) i (id_NextSequence f) ((r, d), sent)"
    using assms(1) by (auto simp: session_ok_def)
  have i: "cx_AgentID (cl_config c) = i" "TrimSpace i = i" and keys: "privateKeys (cl_identity c) = Some keys"
    using k validIdentifier_trim [of i 96] by (auto simp: identity_kept_def)
  obtain a where a: "agent_of r i = Some a" "pa_EnrolledAt a \<noteq> 0"
    using assms(4) by (auto simp: admits_def split: option.splits)
  obtain body where body: "cp_Enroll (se_codec se) (enrol_request (se_codec se) keys (cl_config c)) = Some body"
    "tr_Enroll (se_transport se) body = Some (enrol_request (se_codec se) keys (cl_config c))"
    using assms(6) by (auto simp: bind_eq_Some_conv)
  have ok: "registry_ok (se_platform se) r" using net by (simp add: network_ok_def bounded_registry_def)
  have "er_AgentID (enrol_request (se_codec se) keys (cl_config c)) = i" by (simp add: enrol_request_def i)
  from second_enrolment [OF ok a i(2) body(2) this, of fa unsigned_headers d sent] obtain y sent1 where
    e: "ap_enroll (gateway_api se fa) (client_request unsigned_headers body) ((r, d), sent) = (((r, d), sent1), y)"
    and y: "y = Lost \<or> (\<exists>code. y = Rejected code)" by blast
  have sent1: "sent1 = client_request unsigned_headers body # sent"
    using arg_cong [OF e, of "snd \<circ> fst"] by (auto simp: gateway_api_def dispatch_def split: if_splits prod.splits)
  then have "network_ok se (public_key se keys) i (id_NextSequence f) ((r, d), sent1)"
    using net by (simp add: network_ok_def sent_up_to_def sequence_of_def client_request_def unsigned_headers_def ParseUint64_def)
  then have "session_ok se i keys (c, ((r, d), sent1))" using k by (auto simp: session_ok_def)
  from heartbeat_heard [OF this assms(2-4)] obtain z response where
    "SendHeartbeat (se_platform se) (se_transport se) (se_codec se) (gateway_api se fa) True now ''starting''
       (c, ((r, d), sent1)) = (z, Inr response)"
    by (auto simp: validHealth_def)
  then have "\<exists>c1 s1. recover_enrolment (se_platform se) (se_transport se) (se_codec se) (gateway_api se fa) True True now e
      (c, ((r, d), sent1)) = ((c1, s1), Inr DefaultHeartbeatIntervalSec) \<and> id_Enrolled (cl_identity c1)" for e
    by (simp add: recover_enrolment_def finish_enrolment_def mark_enrolled_def persistIdentity_def)
  then show ?thesis
    using False assms(5) y by (auto simp: EnsureEnrolled_def keys body(1) e reply_result_def)
qed

subsection \<open>A sample session\<close>

text \<open>
  The agent of the sample registry makes its keys and asks for enrolment; the request arrives, the
  reply is lost, and so is the heartbeat that should have settled the matter.
\<close>

definition sample_keys :: "8 word list \<times> 8 word list" where
  "sample_keys = (replicate 64 1, replicate 64 2)"

definition sample_client_config :: ClientConfig where
  "sample_client_config = \<lparr>cx_AgentID = sample_agent_id, cx_EnrollmentToken = ''enroll_'' @ replicate 43 (CHR ''A''),
     cx_ControllerURL = ''https://c'', cx_ControllerIP = ''192.0.2.1'', cx_IdentityDir = ''i'', cx_AgentVersion = ''1'',
     cx_Capabilities = [''tls''], cx_RequestTimeout = 20 * second, cx_JobPollInterval = 5 * second\<rparr>"

definition sample_codec :: client_platform where
  "sample_codec = \<lparr>cp_Public = take 32, cp_Sign = (\<lambda>k p. k), cp_Enroll = (\<lambda>q. Some []),
     cp_Heartbeat = (\<lambda>q. Some (hb_Health q)), cp_Control = (\<lambda>q. Some []), cp_Observation = (\<lambda>obs. Some [])\<rparr>"

definition sample_setting :: setting where
  "sample_setting = \<lparr>se_platform = sample_platform\<lparr>pf_Verify := (\<lambda>k p s. take 32 s = k)\<rparr>,
     se_transport = sample_transport\<lparr>
       tr_Heartbeat := (\<lambda>b. Some (heartbeat_request sample_client_config b)),
       tr_Enroll := (\<lambda>b. Some (enrol_request sample_codec sample_keys sample_client_config))\<rparr>,
     se_codec = sample_codec, se_secret = [], se_marshal = (\<lambda>obs. Some [])\<rparr>"

definition sample_fate :: "bool \<Rightarrow> bool \<Rightarrow> fate" where
  "sample_fate sent returns = \<lparr>ft_sent = sent, ft_address = ''198.51.100.7'', ft_proxy = (\<lambda>k. []), ft_now = hour,
     ft_written = True, ft_waits = [], ft_world = sample_outside None, ft_returns = returns\<rparr>"

definition sample_fates :: "bool \<Rightarrow> bool \<Rightarrow> fates" where
  "sample_fates sent returns = \<lparr>fa_enroll = sample_fate True returns, fa_heartbeat = sample_fate sent returns,
     fa_job = sample_fate sent returns, fa_observation = sample_fate sent returns\<rparr>"

definition sample_identity :: IdentityFile where
  "sample_identity = \<lparr>id_Version = 1, id_AgentID = sample_agent_id,
     id_IdentityPrivateKey = EncodeToString std_alphabet (fst sample_keys),
     id_ObservationPrivateKey = EncodeToString std_alphabet (snd sample_keys),
     id_Enrolled = False, id_NextSequence = 0\<rparr>"

definition sample_client :: client where
  "sample_client = \<lparr>cl_config = sample_client_config, cl_identity = sample_identity,
     cl_file = Identity sample_identity, cl_refusedJobs = {}\<rparr>"

lemma sample_defaults: "client_defaults (se_platform sample_setting) sample_client_config = sample_client_config"
  by code_simp

lemma sample_client_new:
  "NewClient (se_platform sample_setting) sample_client_config True True True True True (Some sample_keys) No_identity =
     Inr sample_client"
proof -
  have "validIdentifier sample_agent_id 96" "validShortText ''1'' 128" by code_simp+
  moreover have "newPinnedHTTPClient (se_platform sample_setting) ''https://c'' ''192.0.2.1'' True" by code_simp
  ultimately show ?thesis
    by (simp add: NewClient_def sample_defaults loadOrCreateIdentity_def persistIdentity_def Let_def)
      (simp add: sample_client_def sample_client_config_def sample_identity_def sample_keys_def IdentityVersion_def
        duration_defs)
qed

text \<open>The registry the agent was added to, and the one it has enrolled with.\<close>

definition sample_listed :: registry where
  "sample_listed = after (se_platform sample_setting) (take 1 sample_events) sample_registry"

definition sample_member :: registry where
  "sample_member = fst (Enroll (se_platform sample_setting) hour True
     (enrol_request sample_codec sample_keys sample_client_config) (Some ''198.51.100.7'') sample_listed)"

definition sample_tried :: client where
  "sample_tried = sample_client\<lparr>cl_identity := sample_identity\<lparr>id_NextSequence := 1\<rparr>,
     cl_file := Identity (sample_identity\<lparr>id_NextSequence := 1\<rparr>)\<rparr>"

lemma sample_net_fresh: "fresh_registry (se_platform sample_setting) sample_registry"
proof -
  have "boot (se_platform sample_setting) sample_registry_config True Missing =
      boot sample_platform sample_registry_config True Missing" by code_simp
  moreover have "boot sample_platform sample_registry_config True Missing \<noteq> None" by code_simp
  ultimately have "boot (se_platform sample_setting) sample_registry_config True Missing = Some sample_registry"
    by (auto simp: sample_registry_def)
  then show ?thesis
    by (auto simp: fresh_registry_def sane_platform_def sample_setting_def sample_platform_def)
qed

lemma sample_enrolling:
  "\<not> isl (snd (Enroll (se_platform sample_setting) hour True
     (enrol_request sample_codec sample_keys sample_client_config) (Some ''198.51.100.7'') sample_listed))"
  by code_simp

lemma sample_record:
  "(case agent_of sample_member sample_agent_id of None \<Rightarrow> False
    | Some a \<Rightarrow> pa_Enabled a \<and> pa_EnrolledAt a \<noteq> 0 \<and> pa_IdentityPublicKey a = public_key sample_setting sample_keys \<and>
        sourceMatches (se_platform sample_setting) (pa_ExpectedSourceIP a) (Some ''198.51.100.7'')) \<and>
   registry_Enabled sample_member \<and> \<not> outside_skew (rg_config sample_member) hour hour"
  by code_simp

lemma sample_unlisted: "lives sample_listed sample_agent_id \<noteq> Active k ok n"
proof -
  have "case lives sample_listed sample_agent_id of Active k ok n \<Rightarrow> False | _ \<Rightarrow> True" by code_simp
  then show ?thesis by auto
qed

lemma sample_source: "parseExactIP (se_platform sample_setting) ''198.51.100.7'' = Some ''198.51.100.7''"
  by code_simp

lemma sample_seen: "seen_address sample_setting (sample_fate sent returns) = Some ''198.51.100.7''"
  using sample_source
  by (simp add: seen_address_def RequestSourceIP_def via_def sample_setting_def sample_transport_def sample_fate_def)

lemma sample_session_start: "session_start sample_setting sample_agent_id sample_keys (sample_client, ((sample_listed, d), []))"
proof -
  have p: "list_all plausible (take 1 sample_events)" by (simp add: sample_events_def duration_defs)
  have k: "length (fst sample_keys) = 64" "length (snd sample_keys) = 64" "fst sample_keys \<noteq> snd sample_keys"
    "cx_AgentID (cl_config sample_client) = sample_agent_id"
    by (simp_all add: sample_keys_def sample_client_def sample_client_config_def)
  show ?thesis
    unfolding session_start_def sample_listed_def
    using sample_net_fresh p sample_client_new k sample_unlisted [unfolded sample_listed_def]
    by (intro exI conjI) (assumption | rule refl | blast)+
qed

lemma sample_left: "counter_left n sample_client \<longleftrightarrow> n < 18446744073709551616"
  "counter_left n sample_tried \<longleftrightarrow> n < 18446744073709551615"
  by (auto simp: counter_left_def sample_client_def sample_tried_def sample_identity_def)

lemma sample_lost:
  "\<exists>sent. EnsureEnrolled (se_platform sample_setting) (se_transport sample_setting) (se_codec sample_setting)
     (gateway_api sample_setting (sample_fates False False)) True True hour (sample_client, ((sample_listed, d), [])) =
   ((sample_tried, ((sample_member, d), sent)), Inl RequestFailed)"
proof -
  obtain response where e: "Enroll (se_platform sample_setting) hour True
      (enrol_request sample_codec sample_keys sample_client_config) (Some ''198.51.100.7'') sample_listed =
    (sample_member, Inr response)"
    using sample_enrolling by (auto simp: sample_member_def isl_def prod_eq_iff split: sum.splits) (metis sum.exhaust_sel)
  have seen: "RequestSourceIP (se_platform sample_setting) (se_transport sample_setting) (se_secret sample_setting)
      (via (sample_fate True False) q) = Some ''198.51.100.7''" for q
    by (simp add: seen_address sample_seen)
  have enrol: "ap_enroll (gateway_api sample_setting (sample_fates False False)) (client_request h []) ((sample_listed, d), []) =
      (((sample_member, d), [client_request h []]), Lost)" for h
    using e seen [of "client_request h []"]
    by (simp add: gateway_api_def sample_fates_def dispatch_def enroll_at_def ProbeAgentEnrollHandler_def)
      (simp add: sample_fate_def sample_setting_def via_def client_request_def)
  have keys: "privateKeys sample_identity = Some sample_keys"
    by (simp add: privateKeys_def sample_identity_def std_round_trip sample_keys_def)
  have config: "cl_config sample_client = sample_client_config" "cl_identity sample_client = sample_identity"
    "id_NextSequence sample_identity = 0" "\<not> id_Enrolled sample_identity"
    "cx_AgentID sample_client_config = sample_agent_id"
    by (simp_all add: sample_client_def sample_identity_def sample_client_config_def)
  have token: "TrimSpace (cx_EnrollmentToken sample_client_config) \<noteq> []" by code_simp
  have "ControlSigningPayload (se_platform sample_setting) (se_transport sample_setting) ''POST'' HeartbeatPath
      sample_agent_id hour 1 body = Some [7]" for body
    using sample_paths
    by (simp add: ControlSigningPayload_def sample_setting_def sample_transport_def duration_defs sample_agent_id_def [symmetric])
      (simp add: sample_agent_id_def)
  then have "\<exists>q. sign_request (se_platform sample_setting) (se_transport sample_setting) (se_codec sample_setting) True hour
      HeartbeatPath body sample_client = (sample_tried, Inr q)" for body
    by (simp add: sign_request_def keys config persistIdentity_def Let_def sample_tried_def split_beta)
  then obtain q where q: "sign_request (se_platform sample_setting) (se_transport sample_setting) (se_codec sample_setting)
      True hour HeartbeatPath ''starting'' sample_client = (sample_tried, Inr q)" by blast
  have "cp_Heartbeat (se_codec sample_setting) (heartbeat_request cfg health) = Some health" for cfg health
    by (simp add: sample_setting_def sample_codec_def heartbeat_request_def)
  moreover have "ap_heartbeat (gateway_api sample_setting (sample_fates False False)) q x = ((fst x, q # snd x), Lost)" for x
    by (simp add: gateway_api_def dispatch_def sample_fates_def sample_fate_def)
  ultimately have "SendHeartbeat (se_platform sample_setting) (se_transport sample_setting) (se_codec sample_setting)
      (gateway_api sample_setting (sample_fates False False)) True hour ''starting'' (sample_client, (s, qs)) =
    ((sample_tried, (s, q # qs)), Inl RequestFailed)" for s qs
    by (simp add: SendHeartbeat_def postSignedJSONBytes_def reply_result_def validHealth_def q)
  then have "recover_enrolment (se_platform sample_setting) (se_transport sample_setting) (se_codec sample_setting)
      (gateway_api sample_setting (sample_fates False False)) True True hour e (sample_client, (s, qs)) =
    ((sample_tried, (s, q # qs)), Inl e)" for e s qs
    by (simp add: recover_enrolment_def)
  moreover have "se_codec sample_setting = sample_codec" "cp_Enroll sample_codec q = Some []" for q
    by (simp_all add: sample_setting_def sample_codec_def)
  ultimately show ?thesis
    by (simp add: EnsureEnrolled_def config keys token enrol reply_result_def)
qed

text \<open>The state after that, and that it admits the agent.\<close>

lemma sample_session:
  "\<exists>sent. (session_step sample_setting sample_keys)\<^sup>*\<^sup>* (sample_client, ((sample_listed, d), []))
     (sample_tried, ((sample_member, d), sent))"
proof -
  obtain sent where e: "EnsureEnrolled (se_platform sample_setting) (se_transport sample_setting) (se_codec sample_setting)
      (gateway_api sample_setting (sample_fates False False)) True True hour (sample_client, ((sample_listed, d), [])) =
    ((sample_tried, ((sample_member, d), sent)), Inl RequestFailed)"
    using sample_lost by blast
  have "sensible sample_setting (public_key sample_setting sample_keys) (sample_fates False False)"
    by (simp add: sensible_def calm_def sample_fates_def sample_fate_def duration_defs)
  moreover have "counter_left (Suc 0) (fst (sample_client, ((sample_listed, d), [])))" by (simp add: sample_left)
  ultimately have "session_step sample_setting sample_keys (sample_client, ((sample_listed, d), []))
      (fst ((sample_tried, ((sample_member, d), sent)), Inl RequestFailed :: client_error + int))"
    unfolding e [symmetric] by (rule session_step.enrols)
  then show ?thesis by auto
qed

lemma sample_admits: "admits sample_setting (fa_heartbeat (sample_fates True True)) sample_agent_id sample_keys hour sample_member"
proof -
  have "fa_heartbeat (sample_fates True True) = sample_fate True True" "ft_now (sample_fate True True) = hour"
    "ft_sent (sample_fate True True)" "ft_written (sample_fate True True)" "ft_returns (sample_fate True True)"
    "hour \<noteq> 0"
    by (simp_all add: sample_fates_def sample_fate_def duration_defs)
  then show ?thesis using sample_record by (simp only: admits_def sample_seen simp_thms)
qed

lemma sample_agrees: "encodings_agree sample_setting sample_keys (cl_config sample_tried) health hour"
  by (simp add: encodings_agree_def sample_setting_def sample_codec_def sample_transport_def sample_tried_def
      sample_client_def sample_keys_def heartbeat_request_def)

subsection \<open>What agent and server guarantee together\<close>

text \<open>
  C8: the counter in the agent's file is never behind the server's: whatever requests, replies and
  writes failed, wherever either side crashed and restarted, and whatever was delivered twice, as long
  as nobody else signs under the agent's key.
\<close>

theorem agent_counter_is_ahead:
  assumes "session_start se i keys x" and "(session_step se keys)\<^sup>*\<^sup>* x (c, ((r, d), sent))"
    and "agent_of r i = Some a" and "pa_Enabled a" and "pa_EnrolledAt a \<noteq> 0"
    and "pa_IdentityPublicKey a = public_key se keys"
  shows "\<exists>f. cl_file c = Identity f \<and> privateKeys f = Some keys \<and> pa_LastSequence a \<le> id_NextSequence f"
proof -
  obtain f where f: "identity_kept i keys c f"
    "network_ok se (public_key se keys) i (id_NextSequence f) ((r, d), sent)"
    using agent_session.run_ok [OF assms(1,2)] by (auto simp: session_ok_def)
  then have "registry_ok (se_platform se) r" by (simp add: network_ok_def bounded_registry_def)
  from lives_known [OF this assms(3)] have
    "lives r i = Active (public_key se keys) (pa_ObservationPublicKey a) (pa_LastSequence a)"
    using assms(4-6) by (simp add: life_of_def)
  then show ?thesis using f by (auto simp: network_ok_def bounded_registry_def kept_within_def identity_kept_def)
qed

theorem agent_counter_is_ahead_witness:
  "\<exists>a f. agent_of sample_member sample_agent_id = Some a \<and> cl_file sample_tried = Identity f \<and>
     pa_LastSequence a \<le> id_NextSequence f"
proof -
  obtain sent where run: "(session_step sample_setting sample_keys)\<^sup>*\<^sup>* (sample_client, ((sample_listed, sample_controller), []))
      (sample_tried, ((sample_member, sample_controller), sent))" using sample_session by blast
  obtain a where a: "agent_of sample_member sample_agent_id = Some a" "pa_Enabled a" "pa_EnrolledAt a \<noteq> 0"
    "pa_IdentityPublicKey a = public_key sample_setting sample_keys"
    using sample_record by (auto split: option.splits)
  then show ?thesis using agent_counter_is_ahead [OF sample_session_start run a] by blast
qed

text \<open>
  C9: an enrolled agent is heard: whatever happened before, its next heartbeat is accepted as soon as
  it gets through from the registered address while the clocks agree, the disks can be written and
  the encodings hold; no crash or loss made the server take it for a replay.
\<close>

theorem enrolled_agent_is_heard:
  assumes "session_start se i keys x" and "(session_step se keys)\<^sup>*\<^sup>* x (c, ((r, d), sent))"
    and "encodings_agree se keys (cl_config c) health now" and "admits se (fa_heartbeat fa) i keys now r"
    and "validHealth health" and "counter_left 1 c"
  shows "\<exists>y. SendHeartbeat (se_platform se) (se_transport se) (se_codec se) (gateway_api se fa) True now health
    (c, ((r, d), sent)) = (y, Inr \<lparr>hr_AgentID = i, hr_AcceptedAt = ft_now (fa_heartbeat fa)\<rparr>)"
  by (rule heartbeat_heard [OF agent_session.run_ok [OF assms(1,2)] assms(6,3-5)])

theorem enrolled_agent_is_heard_witness:
  "\<exists>sent y. SendHeartbeat (se_platform sample_setting) (se_transport sample_setting) (se_codec sample_setting)
     (gateway_api sample_setting (sample_fates True True)) True hour ''healthy''
     (sample_tried, ((sample_member, sample_controller), sent)) = (y, Inr \<lparr>hr_AgentID = sample_agent_id, hr_AcceptedAt = hour\<rparr>)"
proof -
  obtain sent where run: "(session_step sample_setting sample_keys)\<^sup>*\<^sup>* (sample_client, ((sample_listed, sample_controller), []))
      (sample_tried, ((sample_member, sample_controller), sent))" using sample_session by blast
  have "validHealth ''healthy''" "counter_left 1 sample_tried" by (simp_all add: validHealth_def sample_left)
  moreover have "ft_now (fa_heartbeat (sample_fates True True)) = hour" by (simp add: sample_fates_def sample_fate_def)
  ultimately show ?thesis
    using enrolled_agent_is_heard [OF sample_session_start run sample_agrees sample_admits, of "''healthy''"] by (simp only:) blast
qed

text \<open>
  C10: an enrolment whose reply was lost is not lost: the server has used up the token, and the agent's
  next attempt, refused as an enrolment, is settled by a signed heartbeat; no new token is needed.
\<close>

theorem lost_enrolment_is_repaired:
  assumes "session_start se i keys x" and "(session_step se keys)\<^sup>*\<^sup>* x (c, ((r, d), sent))"
    and "encodings_agree se keys (cl_config c) ''starting'' now" and "admits se (fa_heartbeat fa) i keys now r"
    and "Option.bind (cp_Enroll (se_codec se) (enrol_request (se_codec se) keys (cl_config c)))
      (tr_Enroll (se_transport se)) = Some (enrol_request (se_codec se) keys (cl_config c))"
    and "TrimSpace (cx_EnrollmentToken (cl_config c)) \<noteq> []" and "counter_left 1 c"
  shows "\<exists>c1 s1. EnsureEnrolled (se_platform se) (se_transport se) (se_codec se) (gateway_api se fa) True True now
    (c, ((r, d), sent)) = ((c1, s1), Inr DefaultHeartbeatIntervalSec) \<and> id_Enrolled (cl_identity c1)"
  by (rule repaired [OF agent_session.run_ok [OF assms(1,2)] assms(7,3,4,6,5)])

theorem lost_enrolment_is_repaired_witness:
  "\<exists>sent c1 s1. EnsureEnrolled (se_platform sample_setting) (se_transport sample_setting) (se_codec sample_setting)
     (gateway_api sample_setting (sample_fates True True)) True True hour
     (sample_tried, ((sample_member, sample_controller), sent)) =
   ((c1, s1), Inr DefaultHeartbeatIntervalSec) \<and> id_Enrolled (cl_identity c1)"
proof -
  obtain sent where run: "(session_step sample_setting sample_keys)\<^sup>*\<^sup>* (sample_client, ((sample_listed, sample_controller), []))
      (sample_tried, ((sample_member, sample_controller), sent))" using sample_session by blast
  have config: "cl_config sample_tried = sample_client_config" by (simp add: sample_tried_def sample_client_def)
  have "TrimSpace (cx_EnrollmentToken sample_client_config) \<noteq> []" by code_simp
  moreover have "counter_left 1 sample_tried" by (simp add: sample_left)
  moreover have "Option.bind (cp_Enroll (se_codec sample_setting)
      (enrol_request (se_codec sample_setting) sample_keys (cl_config sample_tried))) (tr_Enroll (se_transport sample_setting)) =
    Some (enrol_request (se_codec sample_setting) sample_keys (cl_config sample_tried))"
    by (simp add: config) (simp add: sample_setting_def sample_codec_def)
  ultimately show ?thesis
    using lost_enrolment_is_repaired [OF sample_session_start run sample_agrees sample_admits] by (simp only: config) blast
qed

end
