(* ===== verification/Spec2Isabelle.thy ===== *)
theory Spec2Isabelle
  imports I18nDom DocsSite FlagPolyfill ProbeGuarantees ReachGuarantees AutomationGuarantees AutomationSlots AgentOnline
begin

text \<open>
  A verification library for Xray Checker: a Go server that checks proxy nodes through an embedded
  Xray, asks probe agents for a second opinion, and shows both in pages translated by a script.

  \<^bold>\<open>Parts and their theories.\<close>

  \<^item> The interface translation, \<open>src/web/static/localization.js\<close>. \<open>JsRegex\<close>: the strings and the
    regular expressions of the script (code points; a backtracking matcher with greedy and lazy
    repetition, groups and \<open>$n\<close> replacement texts). \<open>RuData1\<close> to \<open>RuData5\<close>: the dictionary in the
    order of the source. \<open>I18nPatterns\<close>: the phrase patterns. \<open>I18n\<close>: \<open>translate\<close>, \<open>readLanguage\<close>
    and what a translation may do to a text. \<open>I18nDom\<close>: the page the script works on (a tree of
    nodes with identities, the two weak maps, the stored language, the language buttons),
    \<open>translateTextNode\<close>, \<open>translateElementAttributes\<close>, \<open>apply\<close>, \<open>setLanguage\<close>, \<open>init\<close>, the click
    handler and the mutation observer.
  \<^item> The documentation site, \<open>src/docs/astro.config.mjs\<close> and \<open>content.config.ts\<close>: \<open>DocsSite\<close>.
  \<^item> The flag polyfill, \<open>src/web/static/country-flag-emoji-polyfill.js\<close>: \<open>FlagPolyfill\<close>.
  \<^item> The diagnostics package, \<open>src/diagnostics\<close>. \<open>GoBase\<close>: byte strings, trimming, instants.
    \<open>DiagTypes\<close>, \<open>DiagCatalogue\<close>: the wire types, the profile and speed-server catalogues.
    \<open>DiagVerdict\<close>: \<open>verdict.go\<close>. \<open>DiagManager\<close>: \<open>manager.go\<close> and \<open>signature.go\<close>, one definition per
    method, the state a record with the session table and its three indexes.
  \<^item> The executor of the probe agent, \<open>src/probeagent/executor.go\<close>: \<open>ProbeExecutor\<close>.

  \<^item> The remote controller, \<open>src/remoteprobe/controller.go\<close>: \<open>RemoteController\<close>, with the failure codes
    and the status of the checker (\<open>src/checker/failure.go\<close>, \<open>EffectiveStatus\<close>) it hands to the manager.
    One definition per method; the state is the manager, the queue of assignments and the agents
    with a pending signal; everything outside is the record \<open>outside\<close>.
  \<^item> The reachability matrix, \<open>src/reachability\<close> (\<open>matrix.go\<close>, \<open>verdict.go\<close>, \<open>preference.go\<close>):
    \<open>Reachability\<close>. \<open>GoSort\<close>: \<open>sort.Slice\<close> and \<open>sort.Strings\<close>, with the locale \<open>comparison\<close> for a
    comparison function that orders by a key, interpreted for every comparison of the code.
  \<^item> The automatic diagnostics, \<open>src/agentautomation\<close> (\<open>coordinator.go\<close>, \<open>availability.go\<close>):
    \<open>Automation\<close>, one definition per method; the state is the configuration, the handles of speed
    requests, the entries of failing nodes and the state of the controller behind the two functions
    the coordinator calls (record \<open>session_controller\<close>). \<open>OpenSessions\<close>: what the controller does to
    the open sessions the coordinator counts.
  \<^item> The registry of probe agents, \<open>src/probeagent/registry.go\<close>: \<open>AgentRegistry\<close>, one definition per
    method; the state is the configuration, the table of agents and the file. \<open>GoText\<close>: runes, base64
    and hexadecimal. The endpoints agents call, \<open>src/web/probe_agents.go\<close>,
    \<open>src/web/remote_diagnostics.go\<close> and \<open>src/probeagent/sourceip.go\<close>: \<open>AgentGateway\<close>.
  \<^item> The agent's side of the protocol, \<open>src/probeagent/client.go\<close>: \<open>AgentClient\<close>; the state is the
    configuration, the identity with its counter, the identity file and the refused jobs, the
    controller is behind four functions (record \<open>controller_api\<close>).

  \<^bold>\<open>How the parts meet.\<close> The remote controller picks the agent, makes the manager create the session
  and its job, queues the job with the node's configuration and hands it to the agent that polls. The
  agent executes the job (\<open>ProbeExecutor.Execute\<close>), its client completes and signs the observation
  (\<open>signed_observation\<close>), and the manager accepts or rejects it (\<open>DiagManager.AcceptObservation\<close>);
  the verdicts read the accepted observations. \<open>ProbeGuarantees\<close> follows an observation from the
  agent into the manager: which are acceptable, and which kinds can never be recorded. A sweep asks
  every agent about every node; the matrix turns the finished sessions into cells and findings, and
  ranks the agents the controller prefers next time. After a speed run or an availability check the
  coordinator asks the controller for sessions of its own, within a limit, and reads their verdicts. Agents
  reach all of this through the gateway, which authenticates a request with the registry before the
  controller sees it; the manager verifies observations with the registry's keys. \<open>AgentNetwork\<close> joins
  the agent's client to the gateway by a network that loses and repeats what it carries.

  \<^bold>\<open>What the lemmas show.\<close> \<open>DiagInvariant\<close> states the invariant \<open>wf_manager\<close> is made of (a ledger
  per index, a shape per session) and the laws of one pass over the jobs (locale \<open>job_pass\<close>) and
  of one operation on a session (locale \<open>session_op\<close>), interpreted for expiry, cancellation and
  state derivation. \<open>DiagPreserve\<close> shows every operation keeps it and interprets the locale
  \<open>step_system\<close> of \<open>StepSystems\<close> on the manager. \<open>DiagGuarantees\<close> draws the consequences: binding,
  replay, evolution, eviction, deadlines. \<open>I18nDom\<close> proves that each pass of the script turns the
  rendering of an English document into the rendering in the current language, as an invariant
  of the pages a run reaches; a run as a sequence of events is followed by its meaning without caches,
  the language picked last and the English document with the texts written into it. \<open>RemoteQueue\<close> states the invariant of the controller's queue beside the
  manager, shows every operation keeps it and interprets \<open>step_system\<close> on the controller;
  \<open>RemoteGuarantees\<close> draws the consequences, shows that a run of the controller is a run of the
  manager, and decides which local results the manager accepts. A long poll (\<open>Claim\<close>) is made of the
  critical sections the code has: each attempt and each signal taken is a step, and between them the
  rest of the server does what it likes (\<open>Claim_run\<close>, \<open>Claim_delivers\<close>). \<open>ReachGuarantees\<close> does the same for
  the matrix: streaks, findings, preference, restart. \<open>AutomationCalls\<close> proves the coordinator's
  operations correct over any controller (locale \<open>reading\<close> for what looking at a session keeps,
  \<open>calling\<close> for creating one as well); \<open>AutomationLimit\<close> adds the laws of a controller with a table of
  sessions (locales \<open>live_sessions\<close> and \<open>settled_sessions\<close>, each giving the former by \<open>sublocale\<close>), and
  \<open>AutomationGuarantees\<close> interprets them on the remote controller's model, so that the limit and the
  one answer per episode are facts about the coordinator, the controller and the manager together,
  administrators, sweeps and agents acting in between. \<open>AutomationRequests\<close>: the requests after a
  speed run, their ranking, stated over the measurements alone, and what the manager checks of them.
  \<open>AutomationSlots\<close>: the slots go to the requests in that order, shown over a controller that logs its
  answers (the locale \<open>calling\<close> interpreted with the growth of the log). \<open>AgentLifecycle\<close> states the registry's
  invariant (the file and the table agree, every record would load again) and the abstract life of an
  agent (absent, awaiting, active, revoked); \<open>AgentSimulation\<close> shows every operation keeps the one and
  is a step of the other; \<open>AgentGuarantees\<close> reasons over histories of events, restarts and failed
  writes included: where an accepted request comes from, and that neither a request nor a token passes
  twice. \<open>AgentGateway\<close> follows a job and an observation through gateway, registry, controller and
  manager; the registry authenticates a poll once, and may change while the poll waits. \<open>AgentSession\<close> proves the client's operations keep its counter ahead of the server's over any
  controller that keeps a contract (locale \<open>controller_service\<close>); \<open>AgentNetwork\<close> interprets it on the
  gateway, and \<open>step_system\<close> on agent, network and server together, with crashes, restarts, failed
  writes, administration and replayed requests as steps, and other registry events during the wait of a
  poll; \<open>AgentOnline\<close> concludes that an enrolled agent
  is heard and a lost enrolment repaired. \<open>FlagPolyfill\<close> reads the joined text of a pixel back as numbers.

  \<^bold>\<open>Parameters.\<close> What is outside the repository is an argument: the browser's painting of glyphs,
  its storage and its DOM events; JSON encoding, SHA-256, Ed25519, URL parsing; the network, the
  file system and the embedded Xray as outcomes; clocks, generated identifiers and the order of
  Go's map iteration. Where a law of such a parameter is needed it is a premise of the theorem
  (an order of iteration is a permutation of the table; elapsed times are not negative; an identifier of
  a session is not generated twice).

  \<^bold>\<open>Bounds.\<close> No definition needs fuel: the matcher recurses on the expression and the rest of the
  text, trimming and replacement on the length of the text. A Go \<open>int64\<close> that is only stored,
  compared and bounded is an \<open>int\<close>; a rate is a rational. The agent's counter wraps at 64 bits, as in
  the code; the steps of a session are those before it does.

  \<^bold>\<open>Not modelled.\<close> The start of the script on \<open>DOMContentLoaded\<close>; JSON export and deep copies of
  sessions (values are immutable here); the raw probes (ICMP packets, TLS and HTTP clients); the
  summaries of check failures and the network checks of the checker; the goroutines, timers and
  limits of the reachability sweeper (its calls on the matrix are the steps of the model); the
  agent's TLS connection (whether a reply came is an argument), the timers of its loops and the
  administrators' endpoints; the waiting of the automation's callers (a poll is a step, the timer an
  argument) and the file the verdict journal writes its entries to; the other packages of the server (speed tests, subscriptions, archive,
  Telegram, Remnawave, web handlers), whose work is mostly input and output; vendored scripts.
\<close>

end
